(* ===== verification/Diana_Prelude.thy ===== *)
theory Diana_Prelude
  imports "HOL-Library.Word"
begin

unbundle bit_operations_syntax

text \<open>
  Shared ground of the development: the machine integer types of the C sources, the status codes
  of \<^verbatim>\<open>diana_core.h\<close>, the result type of a C routine that works on a state and may fail, the
  sequencing combinators that stand for the \<^verbatim>\<open>DI_CHECK\<close> macro and for plain statements, and
  the generic lemmas on words and little-endian bytes that the components use.
\<close>

section \<open>Machine integers\<close>

type_synonym u8 = "8 word"
type_synonym u16 = "16 word"
type_synonym u32 = "32 word"
type_synonym u64 = "64 word"

section \<open>Collections of facts\<close>

named_theorems di_simps \<open>rewriting of the sequencing combinators\<close>
named_theorems keeps_intros \<open>introduction rules for frame conditions of routines\<close>
named_theorems flag_simps \<open>reading a flag after setting or clearing flags\<close>
named_theorems reg_simps \<open>reading a register after writing registers\<close>

section \<open>Status codes and results\<close>

text \<open>
  The failing status codes of \<^verbatim>\<open>diana_core.h\<close>.  \<^verbatim>\<open>DI_SUCCESS\<close> is the constructor \<open>Ok\<close> of a result.
  \<open>C_UNDEFINED\<close> is no code of the program: it marks the inputs on which the C text has
  undefined behaviour (a buffer overrun, a signed overflow in a division), so that a theorem can
  say that they are never met, or that they can be.
\<close>

datatype di_error =
    DI_END
  | DI_ERROR
  | DI_OUT_OF_MEMORY
  | DI_DIVISION_BY_ZERO
  | DI_UNSUPPORTED_COMMAND
  | DI_DIVISION_OVERFLOW
  | DI_INVALID_CONFIGURATION
  | DI_WIN32_ERROR
  | DI_ERROR_NOT_USED_BY_CORE
  | DI_INVALID_INPUT
  | DI_INVALID_OPCODE
  | DI_END_OF_STREAM
  | DI_GP
  | DI_INTERRUPT
  | DI_PARTIAL_READ_WRITE
  | DI_ERROR_NOT_IMPLEMENTED
  | DI_OVERFLOW
  | DI_NOT_FOUND
  | DI_UNSUPPORTED
  | C_UNDEFINED

datatype ('a, 's) di_res = Ok 'a 's | Err di_error 's

type_synonym ('a, 's) di_prog = "'s \<Rightarrow> ('a, 's) di_res"

text \<open>The numeric values of the codes, as the C callers see them.\<close>

fun di_code :: "di_error \<Rightarrow> int" where
  "di_code DI_END = 1"
| "di_code DI_ERROR = -1"
| "di_code DI_OUT_OF_MEMORY = -2"
| "di_code DI_DIVISION_BY_ZERO = -3"
| "di_code DI_UNSUPPORTED_COMMAND = -4"
| "di_code DI_DIVISION_OVERFLOW = -5"
| "di_code DI_INVALID_CONFIGURATION = -6"
| "di_code DI_WIN32_ERROR = -7"
| "di_code DI_ERROR_NOT_USED_BY_CORE = -8"
| "di_code DI_INVALID_INPUT = -9"
| "di_code DI_INVALID_OPCODE = -10"
| "di_code DI_END_OF_STREAM = -11"
| "di_code DI_GP = -12"
| "di_code DI_INTERRUPT = -13"
| "di_code DI_PARTIAL_READ_WRITE = -14"
| "di_code DI_ERROR_NOT_IMPLEMENTED = -15"
| "di_code DI_OVERFLOW = -16"
| "di_code DI_NOT_FOUND = -17"
| "di_code DI_UNSUPPORTED = -18"
| "di_code C_UNDEFINED = 0"

fun res_state :: "('a, 's) di_res \<Rightarrow> 's" where
  "res_state (Ok a s) = s"
| "res_state (Err e s) = s"

fun is_Ok :: "('a, 's) di_res \<Rightarrow> bool" where
  "is_Ok (Ok a s) = True"
| "is_Ok (Err e s) = False"

section \<open>Sequencing\<close>

text \<open>
  \<open>DI_CHECK m k\<close> is \<^verbatim>\<open>DI_CHECK(m); k\<close>: a failing \<open>m\<close> returns its code at once, with the state
  it has left.  \<open>DI_DO f k\<close> is a statement that cannot fail, \<open>DI_LET g k\<close> reads the state.
\<close>

definition DI_CHECK :: "('a, 's) di_prog \<Rightarrow> ('a \<Rightarrow> ('b, 's) di_prog) \<Rightarrow> ('b, 's) di_prog" where
  "DI_CHECK m k s = (case m s of Ok a s' \<Rightarrow> k a s' | Err e s' \<Rightarrow> Err e s')"

definition DI_DO :: "('s \<Rightarrow> 's) \<Rightarrow> ('b, 's) di_prog \<Rightarrow> ('b, 's) di_prog" where
  "DI_DO f k s = k (f s)"

definition DI_LET :: "('s \<Rightarrow> 'a) \<Rightarrow> ('a \<Rightarrow> ('b, 's) di_prog) \<Rightarrow> ('b, 's) di_prog" where
  "DI_LET g k s = k (g s) s"

definition DI_RETURN :: "'a \<Rightarrow> ('a, 's) di_prog" where
  "DI_RETURN a s = Ok a s"

definition DI_FAIL :: "di_error \<Rightarrow> ('a, 's) di_prog" where
  "DI_FAIL e s = Err e s"

definition DI_PROC_END :: "(unit, 's) di_prog" where
  "DI_PROC_END s = Ok () s"

lemma DI_CHECK_Ok [di_simps]: "m s = Ok a s' \<Longrightarrow> DI_CHECK m k s = k a s'"
  by (simp add: DI_CHECK_def)

lemma DI_CHECK_Err [di_simps]: "m s = Err e s' \<Longrightarrow> DI_CHECK m k s = Err e s'"
  by (simp add: DI_CHECK_def)

lemma DI_CHECK_RETURN [simp]: "DI_CHECK (DI_RETURN a) k = k a"
  by (rule ext) (simp add: DI_CHECK_def DI_RETURN_def)

lemma DI_CHECK_FAIL [simp]: "DI_CHECK (DI_FAIL e) k = DI_FAIL e"
  by (rule ext) (simp add: DI_CHECK_def DI_FAIL_def)

lemma DI_CHECK_assoc: "DI_CHECK (DI_CHECK m k) h = DI_CHECK m (\<lambda>a. DI_CHECK (k a) h)"
  by (rule ext) (simp add: DI_CHECK_def split: di_res.splits)

lemmas di_basic_defs = DI_DO_def DI_LET_def DI_RETURN_def DI_FAIL_def DI_PROC_END_def
declare di_basic_defs [di_simps]

lemma DI_CHECK_OkE:
  assumes "DI_CHECK m k s = Ok b t"
  obtains a s' where "m s = Ok a s'" and "k a s' = Ok b t"
  using assms by (auto simp: DI_CHECK_def split: di_res.splits)

section \<open>Frame conditions\<close>

text \<open>
  \<open>keeps R m\<close>: whatever \<open>m\<close> returns, success or failure, the states before and after are related
  by \<open>R\<close>.  With a reflexive and transitive \<open>R\<close> the rules below follow the text of a routine.
\<close>

definition keeps :: "('s \<Rightarrow> 's \<Rightarrow> bool) \<Rightarrow> ('a, 's) di_prog \<Rightarrow> bool" where
  "keeps R m \<longleftrightarrow> (\<forall>s. R s (res_state (m s)))"

definition keeps_fun :: "('s \<Rightarrow> 's \<Rightarrow> bool) \<Rightarrow> ('s \<Rightarrow> 's) \<Rightarrow> bool" where
  "keeps_fun R f \<longleftrightarrow> (\<forall>s. R s (f s))"

text \<open>A relation that may serve as a frame condition.\<close>

locale frame_relation =
  fixes R :: "'s \<Rightarrow> 's \<Rightarrow> bool"
  assumes R_refl: "R s s"
    and R_trans: "R s t \<Longrightarrow> R t u \<Longrightarrow> R s u"
begin

lemma keeps_CHECK: "keeps R m \<Longrightarrow> (\<And>a. keeps R (k a)) \<Longrightarrow> keeps R (DI_CHECK m k)"
  unfolding keeps_def DI_CHECK_def
  by (auto split: di_res.splits) (metis R_trans res_state.simps(1), metis res_state.simps(2))

lemma keeps_DO: "keeps_fun R f \<Longrightarrow> keeps R k \<Longrightarrow> keeps R (DI_DO f k)"
  unfolding keeps_def keeps_fun_def DI_DO_def by (blast intro: R_trans)

lemma keeps_LET: "(\<And>a. keeps R (k a)) \<Longrightarrow> keeps R (DI_LET g k)"
  unfolding keeps_def DI_LET_def by blast

lemma keeps_RETURN: "keeps R (DI_RETURN a)"
  by (simp add: keeps_def DI_RETURN_def R_refl)

lemma keeps_FAIL: "keeps R (DI_FAIL e)"
  by (simp add: keeps_def DI_FAIL_def R_refl)

lemma keeps_END: "keeps R DI_PROC_END"
  by (simp add: keeps_def DI_PROC_END_def R_refl)

lemma keeps_if: "(c \<Longrightarrow> keeps R a) \<Longrightarrow> (\<not> c \<Longrightarrow> keeps R b) \<Longrightarrow> keeps R (if c then a else b)"
  by simp

lemma keeps_fun_if: "keeps_fun R f \<Longrightarrow> keeps_fun R g \<Longrightarrow> keeps_fun R (\<lambda>s. if c s then f s else g s)"
  by (simp add: keeps_fun_def)

lemma keeps_fun_id: "keeps_fun R (\<lambda>s. s)"
  by (simp add: keeps_fun_def R_refl)

lemma keeps_fun_comp: "keeps_fun R f \<Longrightarrow> keeps_fun R g \<Longrightarrow> keeps_fun R (\<lambda>s. f (g s))"
  unfolding keeps_fun_def by (blast intro: R_trans)

end

section \<open>Words\<close>

lemma and_eq_0_distrib: "((a OR b) AND c = 0) \<longleftrightarrow> (a AND c = 0 \<and> b AND c = (0 :: 'a :: len word))"
proof -
  have "((a OR b) AND c = 0) \<longleftrightarrow> (\<forall>n < LENGTH('a). \<not> ((bit a n \<or> bit b n) \<and> bit c n))"
    by (auto simp: bit_eq_iff bit_simps)
  also have "\<dots> \<longleftrightarrow> (a AND c = 0 \<and> b AND c = 0)"
    by (auto simp: bit_eq_iff bit_simps)
  finally show ?thesis .
qed

lemma and_not_disjoint: "(f :: 'a :: len word) AND g = 0 \<Longrightarrow> (a AND NOT f) AND g = a AND g"
  by (rule bit_word_eqI) (auto simp: bit_eq_iff bit_simps)

lemma and_not_self: "((a :: 'a :: len word) AND NOT f) AND f = 0"
  by (rule bit_word_eqI) (auto simp: bit_simps)

lemma take_bit_word_less: "n < LENGTH('a) \<Longrightarrow> take_bit n (a :: 'a :: len word) < 2 ^ n"
  by (simp add: take_bit_eq_mask word_and_le1 and_mask_less_size word_size)

lemma take_bit_64 [simp]: "take_bit 64 (v :: u64) = v"
  by (rule bit_word_eqI) (simp add: bit_simps)

lemma uint_take_bit: "uint (take_bit k (a :: u64)) = uint a mod 2 ^ k"
  by (simp add: unsigned_take_bit_eq flip: take_bit_eq_mod)

lemma uint_drop_bit: "uint (drop_bit k (a :: u64)) = uint a div 2 ^ k"
proof -
  have "take_bit 64 (uint a) = uint a"
    using uint_range_size [of a] by (simp add: take_bit_int_eq_self word_size)
  then show ?thesis
    by (simp add: unsigned_drop_bit_eq flip: drop_bit_eq_div)
qed

text \<open>Casts, concatenation and division between words of different sizes.\<close>

lemma uint_ucast_fits: "uint (a :: u64) < 2 ^ LENGTH('b) \<Longrightarrow> uint (ucast a :: 'b :: len word) = uint a"
  by (simp add: unsigned_ucast_eq take_bit_int_eq_self)

lemma uint_word_cat:
  fixes a :: "'a :: len word" and b :: "'b :: len word"
  assumes "LENGTH('a) + LENGTH('b) \<le> LENGTH('c :: len)"
  shows "uint (word_cat a b :: 'c word) = 2 ^ LENGTH('b) * uint a + uint b"
proof -
  have a: "uint a + 1 \<le> 2 ^ LENGTH('a)" and b: "0 \<le> uint b" "uint b < 2 ^ LENGTH('b)"
    by (simp_all add: add1_zle_eq)
  have "2 ^ LENGTH('b) * uint a + uint b < 2 ^ LENGTH('b) * (uint a + 1)"
    using b by (simp add: algebra_simps)
  also have "\<dots> \<le> 2 ^ LENGTH('b) * 2 ^ LENGTH('a)"
    by (intro mult_left_mono a) simp
  also have "\<dots> \<le> 2 ^ LENGTH('c)"
    using assms by (simp flip: power_add add: add.commute)
  finally have less: "2 ^ LENGTH('b) * uint a + uint b < 2 ^ LENGTH('c)" .
  have "concat_bit LENGTH('b) (uint b) (uint a) = 2 ^ LENGTH('b) * uint a + uint b"
    by (simp add: concat_bit_eq push_bit_eq_mult take_bit_int_eq_self_iff)
  then have "(word_cat a b :: 'c word) = word_of_int (2 ^ LENGTH('b) * uint a + uint b)"
    by (simp only: word_cat_eq')
  then show ?thesis
    using less b by (simp only: uint_word_of_int) (rule mod_pos_pos_trivial, simp_all)
qed

lemma div_mod_words:
  fixes src :: "'a :: len word" and d :: "'b :: len word"
  assumes "LENGTH('b) \<le> LENGTH('a)" "d \<noteq> 0"
  shows "uint (src div ucast d) = uint src div uint d" "uint (src mod ucast d) = uint src mod uint d"
    "uint (ucast (src mod ucast d) :: 'b word) = uint src mod uint d"
proof -
  have d: "uint (ucast d :: 'a word) = uint d"
  proof -
    have "uint d < 2 ^ LENGTH('a)"
      by (rule less_le_trans [OF uint_lt2p]) (use assms(1) in simp)
    then show ?thesis
      by (simp only: unsigned_ucast_eq take_bit_int_eq_self uint_ge_0)
  qed
  show dm: "uint (src div ucast d) = uint src div uint d" "uint (src mod ucast d) = uint src mod uint d"
    by (simp_all add: uint_div_distrib uint_mod_distrib d)
  have "0 \<le> uint src mod uint d" "uint src mod uint d < 2 ^ LENGTH('b)"
  proof -
    have "0 < uint d"
      using assms(2) uint_ge_0 [of d] by (simp add: order_less_le word_uint_eq_iff)
    then show "0 \<le> uint src mod uint d" "uint src mod uint d < 2 ^ LENGTH('b)"
      using less_trans [OF pos_mod_bound uint_lt2p [of d]] by simp_all
  qed
  then show "uint (ucast (src mod ucast d) :: 'b word) = uint src mod uint d"
    using dm(2) by (simp add: unsigned_ucast_eq take_bit_int_eq_self)
qed

section \<open>Little-endian bytes\<close>

definition le_bytes :: "nat \<Rightarrow> u64 \<Rightarrow> u8 list" where
  "le_bytes n x = map (\<lambda>i. ucast (drop_bit (8 * i) x)) [0..<n]"

fun le_word :: "u8 list \<Rightarrow> u64" where
  "le_word [] = 0"
| "le_word (b # bs) = ucast b OR push_bit 8 (le_word bs)"

lemma length_le_bytes [simp]: "length (le_bytes n x) = n"
  by (simp add: le_bytes_def)

lemma nth_le_bytes [simp]: "i < n \<Longrightarrow> le_bytes n x ! i = ucast (drop_bit (8 * i) x)"
  by (simp add: le_bytes_def)

lemma bit_le_word:
  "bit (le_word bs) i \<longleftrightarrow> i < 64 \<and> i < 8 * length bs \<and> bit (bs ! (i div 8)) (i mod 8)"
proof (induction bs arbitrary: i)
  case Nil
  then show ?case by simp
next
  case (Cons b bs)
  show ?case
  proof (cases "i < 8")
    case True
    then show ?thesis by (auto simp: bit_simps)
  next
    case False
    then have "\<not> bit (ucast b :: u64) i"
      by (auto simp: bit_simps dest: bit_imp_le_length)
    moreover have "i div 8 = Suc ((i - 8) div 8)" "i mod 8 = (i - 8) mod 8"
      using False by (auto simp: le_div_geq le_mod_geq)
    ultimately show ?thesis
      using False Cons.IH [of "i - 8"] by (auto simp: bit_simps)
  qed
qed

lemma le_word_le_bytes: "n \<le> 8 \<Longrightarrow> le_word (le_bytes n x) = take_bit (8 * n) x"
  by (rule bit_word_eqI) (auto simp: bit_le_word bit_simps)

lemma le_word_less: "length bs \<le> 7 \<Longrightarrow> le_word bs < 2 ^ (8 * length bs)"
proof -
  assume len: "length bs \<le> 7"
  have "take_bit (8 * length bs) (le_word bs) = le_word bs"
    by (rule bit_word_eqI) (auto simp: bit_le_word bit_simps)
  with take_bit_word_less [of "8 * length bs" "le_word bs"] len show ?thesis
    by simp
qed

text \<open>A byte vector as a function from addresses to bytes, read and written little-endian.\<close>

definition vec_get :: "(nat \<Rightarrow> u8) \<Rightarrow> nat \<Rightarrow> nat \<Rightarrow> u64" where
  "vec_get v off n = le_word (map v [off..<off + n])"

definition vec_put :: "(nat \<Rightarrow> u8) \<Rightarrow> nat \<Rightarrow> nat \<Rightarrow> u64 \<Rightarrow> nat \<Rightarrow> u8" where
  "vec_put v off n x = (\<lambda>a. if off \<le> a \<and> a < off + n then ucast (drop_bit (8 * (a - off)) x) else v a)"

lemma bit_vec_get:
  "bit (vec_get v off n) i \<longleftrightarrow> i < 64 \<and> i < 8 * n \<and> bit (v (off + i div 8)) (i mod 8)"
  by (auto simp: vec_get_def bit_le_word)

lemma vec_get_put_same: "n \<le> 8 \<Longrightarrow> vec_get (vec_put v off n x) off n = take_bit (8 * n) x"
  by (rule bit_word_eqI) (auto simp: bit_vec_get vec_put_def bit_simps)

lemma vec_get_put_disjoint:
  "off + n \<le> off' \<or> off' + m \<le> off \<Longrightarrow> vec_get (vec_put v off n x) off' m = vec_get v off' m"
  by (rule bit_word_eqI) (auto simp: bit_vec_get vec_put_def)

lemma vec_get_prefix: "m \<le> n \<Longrightarrow> vec_get v off m = take_bit (8 * m) (vec_get v off n)"
  by (rule bit_word_eqI) (auto simp: bit_vec_get bit_simps)

lemma byte_index_shift: "(d :: nat) \<le> i div 8 \<Longrightarrow> 8 * (i div 8 - d) + i mod 8 = i - 8 * d"
  by (simp add: diff_mult_distrib2)

lemma vec_get_put_inside:
  assumes "off' \<le> off" "off + n \<le> off' + m" "m \<le> 8"
  shows "vec_get (vec_put v off n x) off' m =
     (vec_get v off' m AND NOT (push_bit (8 * (off - off')) (mask (8 * n)))) OR
     push_bit (8 * (off - off')) (take_bit (8 * n) x)"
proof (rule bit_word_eqI)
  fix i assume "i < LENGTH(64)"
  obtain d where off: "off = off' + d"
    using assms(1) le_Suc_ex by blast
  have inside: "off \<le> off' + i div 8 \<longleftrightarrow> 8 * d \<le> i" "off' + i div 8 < off + n \<longleftrightarrow> i < 8 * d + 8 * n"
    unfolding off by auto
  show "bit (vec_get (vec_put v off n x) off' m) i =
    bit ((vec_get v off' m AND NOT (push_bit (8 * (off - off')) (mask (8 * n)))) OR
         push_bit (8 * (off - off')) (take_bit (8 * n) x)) i"
    using \<open>i < LENGTH(64)\<close> assms inside byte_index_shift [of d i] unfolding off
    by (auto simp: bit_vec_get vec_put_def bit_simps)
qed

lemma vec_put_outside: "a < off \<or> off + n \<le> a \<Longrightarrow> vec_put v off n x a = v a"
  by (auto simp: vec_put_def)

end
