(* ===== verification/Processor_State.thy ===== *)
theory Processor_State
  imports Diana_Prelude
begin

unbundle bit_operations_syntax

text \<open>
  The data of the emulator: the registers of \<^verbatim>\<open>diana_core.h\<close>, a decoded instruction with its linked
  operands, the decoder context, and the state of the processor, as the structures of
  \<^verbatim>\<open>diana_core.h\<close> and \<^verbatim>\<open>diana_processor_core_impl.h\<close> have them.  A C enumeration whose values are
  added and compared is a number (\<open>DianaUnifiedRegister\<close>); a tagged union is a datatype.  The
  registers vector is a function from its byte index to the byte; the random access memory behind
  the processor is a type parameter, its stream functions work on that type.
\<close>

section \<open>Registers\<close>

type_synonym DianaUnifiedRegister = int

abbreviation (input) reg_none :: DianaUnifiedRegister where "reg_none \<equiv> 0"
abbreviation (input) reg_AL :: DianaUnifiedRegister where "reg_AL \<equiv> 1"
abbreviation (input) reg_CL :: DianaUnifiedRegister where "reg_CL \<equiv> 2"
abbreviation (input) reg_DL :: DianaUnifiedRegister where "reg_DL \<equiv> 3"
abbreviation (input) reg_BL :: DianaUnifiedRegister where "reg_BL \<equiv> 4"
abbreviation (input) reg_AH :: DianaUnifiedRegister where "reg_AH \<equiv> 5"
abbreviation (input) reg_CH :: DianaUnifiedRegister where "reg_CH \<equiv> 6"
abbreviation (input) reg_DH :: DianaUnifiedRegister where "reg_DH \<equiv> 7"
abbreviation (input) reg_BH :: DianaUnifiedRegister where "reg_BH \<equiv> 8"
abbreviation (input) reg_AX :: DianaUnifiedRegister where "reg_AX \<equiv> 9"
abbreviation (input) reg_CX :: DianaUnifiedRegister where "reg_CX \<equiv> 10"
abbreviation (input) reg_DX :: DianaUnifiedRegister where "reg_DX \<equiv> 11"
abbreviation (input) reg_BX :: DianaUnifiedRegister where "reg_BX \<equiv> 12"
abbreviation (input) reg_SP :: DianaUnifiedRegister where "reg_SP \<equiv> 13"
abbreviation (input) reg_BP :: DianaUnifiedRegister where "reg_BP \<equiv> 14"
abbreviation (input) reg_SI :: DianaUnifiedRegister where "reg_SI \<equiv> 15"
abbreviation (input) reg_DI :: DianaUnifiedRegister where "reg_DI \<equiv> 16"
abbreviation (input) reg_EAX :: DianaUnifiedRegister where "reg_EAX \<equiv> 17"
abbreviation (input) reg_ECX :: DianaUnifiedRegister where "reg_ECX \<equiv> 18"
abbreviation (input) reg_EDX :: DianaUnifiedRegister where "reg_EDX \<equiv> 19"
abbreviation (input) reg_EBX :: DianaUnifiedRegister where "reg_EBX \<equiv> 20"
abbreviation (input) reg_ESP :: DianaUnifiedRegister where "reg_ESP \<equiv> 21"
abbreviation (input) reg_EBP :: DianaUnifiedRegister where "reg_EBP \<equiv> 22"
abbreviation (input) reg_ESI :: DianaUnifiedRegister where "reg_ESI \<equiv> 23"
abbreviation (input) reg_EDI :: DianaUnifiedRegister where "reg_EDI \<equiv> 24"
abbreviation (input) reg_ES :: DianaUnifiedRegister where "reg_ES \<equiv> 25"
abbreviation (input) reg_CS :: DianaUnifiedRegister where "reg_CS \<equiv> 26"
abbreviation (input) reg_SS :: DianaUnifiedRegister where "reg_SS \<equiv> 27"
abbreviation (input) reg_DS :: DianaUnifiedRegister where "reg_DS \<equiv> 28"
abbreviation (input) reg_FS :: DianaUnifiedRegister where "reg_FS \<equiv> 29"
abbreviation (input) reg_GS :: DianaUnifiedRegister where "reg_GS \<equiv> 30"
abbreviation (input) reg_CR0 :: DianaUnifiedRegister where "reg_CR0 \<equiv> 31"
abbreviation (input) reg_CR1 :: DianaUnifiedRegister where "reg_CR1 \<equiv> 32"
abbreviation (input) reg_CR2 :: DianaUnifiedRegister where "reg_CR2 \<equiv> 33"
abbreviation (input) reg_CR3 :: DianaUnifiedRegister where "reg_CR3 \<equiv> 34"
abbreviation (input) reg_CR4 :: DianaUnifiedRegister where "reg_CR4 \<equiv> 35"
abbreviation (input) reg_CR5 :: DianaUnifiedRegister where "reg_CR5 \<equiv> 36"
abbreviation (input) reg_CR6 :: DianaUnifiedRegister where "reg_CR6 \<equiv> 37"
abbreviation (input) reg_CR7 :: DianaUnifiedRegister where "reg_CR7 \<equiv> 38"
abbreviation (input) reg_DR0 :: DianaUnifiedRegister where "reg_DR0 \<equiv> 39"
abbreviation (input) reg_DR1 :: DianaUnifiedRegister where "reg_DR1 \<equiv> 40"
abbreviation (input) reg_DR2 :: DianaUnifiedRegister where "reg_DR2 \<equiv> 41"
abbreviation (input) reg_DR3 :: DianaUnifiedRegister where "reg_DR3 \<equiv> 42"
abbreviation (input) reg_DR4 :: DianaUnifiedRegister where "reg_DR4 \<equiv> 43"
abbreviation (input) reg_DR5 :: DianaUnifiedRegister where "reg_DR5 \<equiv> 44"
abbreviation (input) reg_DR6 :: DianaUnifiedRegister where "reg_DR6 \<equiv> 45"
abbreviation (input) reg_DR7 :: DianaUnifiedRegister where "reg_DR7 \<equiv> 46"
abbreviation (input) reg_TR0 :: DianaUnifiedRegister where "reg_TR0 \<equiv> 47"
abbreviation (input) reg_TR1 :: DianaUnifiedRegister where "reg_TR1 \<equiv> 48"
abbreviation (input) reg_TR2 :: DianaUnifiedRegister where "reg_TR2 \<equiv> 49"
abbreviation (input) reg_TR3 :: DianaUnifiedRegister where "reg_TR3 \<equiv> 50"
abbreviation (input) reg_TR4 :: DianaUnifiedRegister where "reg_TR4 \<equiv> 51"
abbreviation (input) reg_TR5 :: DianaUnifiedRegister where "reg_TR5 \<equiv> 52"
abbreviation (input) reg_TR6 :: DianaUnifiedRegister where "reg_TR6 \<equiv> 53"
abbreviation (input) reg_TR7 :: DianaUnifiedRegister where "reg_TR7 \<equiv> 54"
abbreviation (input) reg_IP :: DianaUnifiedRegister where "reg_IP \<equiv> 55"
abbreviation (input) reg_RAX :: DianaUnifiedRegister where "reg_RAX \<equiv> 56"
abbreviation (input) reg_RCX :: DianaUnifiedRegister where "reg_RCX \<equiv> 57"
abbreviation (input) reg_RDX :: DianaUnifiedRegister where "reg_RDX \<equiv> 58"
abbreviation (input) reg_RBX :: DianaUnifiedRegister where "reg_RBX \<equiv> 59"
abbreviation (input) reg_RSP :: DianaUnifiedRegister where "reg_RSP \<equiv> 60"
abbreviation (input) reg_RBP :: DianaUnifiedRegister where "reg_RBP \<equiv> 61"
abbreviation (input) reg_RSI :: DianaUnifiedRegister where "reg_RSI \<equiv> 62"
abbreviation (input) reg_RDI :: DianaUnifiedRegister where "reg_RDI \<equiv> 63"
abbreviation (input) reg_SIL :: DianaUnifiedRegister where "reg_SIL \<equiv> 64"
abbreviation (input) reg_DIL :: DianaUnifiedRegister where "reg_DIL \<equiv> 65"
abbreviation (input) reg_BPL :: DianaUnifiedRegister where "reg_BPL \<equiv> 66"
abbreviation (input) reg_SPL :: DianaUnifiedRegister where "reg_SPL \<equiv> 67"
abbreviation (input) reg_R8 :: DianaUnifiedRegister where "reg_R8 \<equiv> 68"
abbreviation (input) reg_R9 :: DianaUnifiedRegister where "reg_R9 \<equiv> 69"
abbreviation (input) reg_R10 :: DianaUnifiedRegister where "reg_R10 \<equiv> 70"
abbreviation (input) reg_R11 :: DianaUnifiedRegister where "reg_R11 \<equiv> 71"
abbreviation (input) reg_R12 :: DianaUnifiedRegister where "reg_R12 \<equiv> 72"
abbreviation (input) reg_R13 :: DianaUnifiedRegister where "reg_R13 \<equiv> 73"
abbreviation (input) reg_R14 :: DianaUnifiedRegister where "reg_R14 \<equiv> 74"
abbreviation (input) reg_R15 :: DianaUnifiedRegister where "reg_R15 \<equiv> 75"
abbreviation (input) reg_R8D :: DianaUnifiedRegister where "reg_R8D \<equiv> 76"
abbreviation (input) reg_R9D :: DianaUnifiedRegister where "reg_R9D \<equiv> 77"
abbreviation (input) reg_R10D :: DianaUnifiedRegister where "reg_R10D \<equiv> 78"
abbreviation (input) reg_R11D :: DianaUnifiedRegister where "reg_R11D \<equiv> 79"
abbreviation (input) reg_R12D :: DianaUnifiedRegister where "reg_R12D \<equiv> 80"
abbreviation (input) reg_R13D :: DianaUnifiedRegister where "reg_R13D \<equiv> 81"
abbreviation (input) reg_R14D :: DianaUnifiedRegister where "reg_R14D \<equiv> 82"
abbreviation (input) reg_R15D :: DianaUnifiedRegister where "reg_R15D \<equiv> 83"
abbreviation (input) reg_R8W :: DianaUnifiedRegister where "reg_R8W \<equiv> 84"
abbreviation (input) reg_R9W :: DianaUnifiedRegister where "reg_R9W \<equiv> 85"
abbreviation (input) reg_R10W :: DianaUnifiedRegister where "reg_R10W \<equiv> 86"
abbreviation (input) reg_R11W :: DianaUnifiedRegister where "reg_R11W \<equiv> 87"
abbreviation (input) reg_R12W :: DianaUnifiedRegister where "reg_R12W \<equiv> 88"
abbreviation (input) reg_R13W :: DianaUnifiedRegister where "reg_R13W \<equiv> 89"
abbreviation (input) reg_R14W :: DianaUnifiedRegister where "reg_R14W \<equiv> 90"
abbreviation (input) reg_R15W :: DianaUnifiedRegister where "reg_R15W \<equiv> 91"
abbreviation (input) reg_R8B :: DianaUnifiedRegister where "reg_R8B \<equiv> 92"
abbreviation (input) reg_R9B :: DianaUnifiedRegister where "reg_R9B \<equiv> 93"
abbreviation (input) reg_R10B :: DianaUnifiedRegister where "reg_R10B \<equiv> 94"
abbreviation (input) reg_R11B :: DianaUnifiedRegister where "reg_R11B \<equiv> 95"
abbreviation (input) reg_R12B :: DianaUnifiedRegister where "reg_R12B \<equiv> 96"
abbreviation (input) reg_R13B :: DianaUnifiedRegister where "reg_R13B \<equiv> 97"
abbreviation (input) reg_R14B :: DianaUnifiedRegister where "reg_R14B \<equiv> 98"
abbreviation (input) reg_R15B :: DianaUnifiedRegister where "reg_R15B \<equiv> 99"
abbreviation (input) reg_RIP :: DianaUnifiedRegister where "reg_RIP \<equiv> 100"
abbreviation (input) reg_MM0 :: DianaUnifiedRegister where "reg_MM0 \<equiv> 101"
abbreviation (input) reg_MM1 :: DianaUnifiedRegister where "reg_MM1 \<equiv> 102"
abbreviation (input) reg_MM2 :: DianaUnifiedRegister where "reg_MM2 \<equiv> 103"
abbreviation (input) reg_MM3 :: DianaUnifiedRegister where "reg_MM3 \<equiv> 104"
abbreviation (input) reg_MM4 :: DianaUnifiedRegister where "reg_MM4 \<equiv> 105"
abbreviation (input) reg_MM5 :: DianaUnifiedRegister where "reg_MM5 \<equiv> 106"
abbreviation (input) reg_MM6 :: DianaUnifiedRegister where "reg_MM6 \<equiv> 107"
abbreviation (input) reg_MM7 :: DianaUnifiedRegister where "reg_MM7 \<equiv> 108"
abbreviation (input) reg_MM_Internal0 :: DianaUnifiedRegister where "reg_MM_Internal0 \<equiv> 109"
abbreviation (input) reg_MM_Internal1 :: DianaUnifiedRegister where "reg_MM_Internal1 \<equiv> 110"
abbreviation (input) reg_MM_Internal2 :: DianaUnifiedRegister where "reg_MM_Internal2 \<equiv> 111"
abbreviation (input) reg_MM_Internal3 :: DianaUnifiedRegister where "reg_MM_Internal3 \<equiv> 112"
abbreviation (input) reg_MM_Internal4 :: DianaUnifiedRegister where "reg_MM_Internal4 \<equiv> 113"
abbreviation (input) reg_MM_Internal5 :: DianaUnifiedRegister where "reg_MM_Internal5 \<equiv> 114"
abbreviation (input) reg_MM_Internal6 :: DianaUnifiedRegister where "reg_MM_Internal6 \<equiv> 115"
abbreviation (input) reg_MM_Internal7 :: DianaUnifiedRegister where "reg_MM_Internal7 \<equiv> 116"
abbreviation (input) reg_XMM0 :: DianaUnifiedRegister where "reg_XMM0 \<equiv> 117"
abbreviation (input) reg_XMM1 :: DianaUnifiedRegister where "reg_XMM1 \<equiv> 118"
abbreviation (input) reg_XMM2 :: DianaUnifiedRegister where "reg_XMM2 \<equiv> 119"
abbreviation (input) reg_XMM3 :: DianaUnifiedRegister where "reg_XMM3 \<equiv> 120"
abbreviation (input) reg_XMM4 :: DianaUnifiedRegister where "reg_XMM4 \<equiv> 121"
abbreviation (input) reg_XMM5 :: DianaUnifiedRegister where "reg_XMM5 \<equiv> 122"
abbreviation (input) reg_XMM6 :: DianaUnifiedRegister where "reg_XMM6 \<equiv> 123"
abbreviation (input) reg_XMM7 :: DianaUnifiedRegister where "reg_XMM7 \<equiv> 124"
abbreviation (input) reg_XMM8 :: DianaUnifiedRegister where "reg_XMM8 \<equiv> 125"
abbreviation (input) reg_XMM9 :: DianaUnifiedRegister where "reg_XMM9 \<equiv> 126"
abbreviation (input) reg_XMM10 :: DianaUnifiedRegister where "reg_XMM10 \<equiv> 127"
abbreviation (input) reg_XMM11 :: DianaUnifiedRegister where "reg_XMM11 \<equiv> 128"
abbreviation (input) reg_XMM12 :: DianaUnifiedRegister where "reg_XMM12 \<equiv> 129"
abbreviation (input) reg_XMM13 :: DianaUnifiedRegister where "reg_XMM13 \<equiv> 130"
abbreviation (input) reg_XMM14 :: DianaUnifiedRegister where "reg_XMM14 \<equiv> 131"
abbreviation (input) reg_XMM15 :: DianaUnifiedRegister where "reg_XMM15 \<equiv> 132"
abbreviation (input) reg_YMM0 :: DianaUnifiedRegister where "reg_YMM0 \<equiv> 133"
abbreviation (input) reg_YMM1 :: DianaUnifiedRegister where "reg_YMM1 \<equiv> 134"
abbreviation (input) reg_YMM2 :: DianaUnifiedRegister where "reg_YMM2 \<equiv> 135"
abbreviation (input) reg_YMM3 :: DianaUnifiedRegister where "reg_YMM3 \<equiv> 136"
abbreviation (input) reg_YMM4 :: DianaUnifiedRegister where "reg_YMM4 \<equiv> 137"
abbreviation (input) reg_YMM5 :: DianaUnifiedRegister where "reg_YMM5 \<equiv> 138"
abbreviation (input) reg_YMM6 :: DianaUnifiedRegister where "reg_YMM6 \<equiv> 139"
abbreviation (input) reg_YMM7 :: DianaUnifiedRegister where "reg_YMM7 \<equiv> 140"
abbreviation (input) reg_YMM8 :: DianaUnifiedRegister where "reg_YMM8 \<equiv> 141"
abbreviation (input) reg_YMM9 :: DianaUnifiedRegister where "reg_YMM9 \<equiv> 142"
abbreviation (input) reg_YMM10 :: DianaUnifiedRegister where "reg_YMM10 \<equiv> 143"
abbreviation (input) reg_YMM11 :: DianaUnifiedRegister where "reg_YMM11 \<equiv> 144"
abbreviation (input) reg_YMM12 :: DianaUnifiedRegister where "reg_YMM12 \<equiv> 145"
abbreviation (input) reg_YMM13 :: DianaUnifiedRegister where "reg_YMM13 \<equiv> 146"
abbreviation (input) reg_YMM14 :: DianaUnifiedRegister where "reg_YMM14 \<equiv> 147"
abbreviation (input) reg_YMM15 :: DianaUnifiedRegister where "reg_YMM15 \<equiv> 148"
abbreviation (input) reg_fpu_ST0 :: DianaUnifiedRegister where "reg_fpu_ST0 \<equiv> 149"
abbreviation (input) reg_fpu_ST1 :: DianaUnifiedRegister where "reg_fpu_ST1 \<equiv> 150"
abbreviation (input) reg_fpu_ST2 :: DianaUnifiedRegister where "reg_fpu_ST2 \<equiv> 151"
abbreviation (input) reg_fpu_ST3 :: DianaUnifiedRegister where "reg_fpu_ST3 \<equiv> 152"
abbreviation (input) reg_fpu_ST4 :: DianaUnifiedRegister where "reg_fpu_ST4 \<equiv> 153"
abbreviation (input) reg_fpu_ST5 :: DianaUnifiedRegister where "reg_fpu_ST5 \<equiv> 154"
abbreviation (input) reg_fpu_ST6 :: DianaUnifiedRegister where "reg_fpu_ST6 \<equiv> 155"
abbreviation (input) reg_fpu_ST7 :: DianaUnifiedRegister where "reg_fpu_ST7 \<equiv> 156"
abbreviation (input) reg_CR8 :: DianaUnifiedRegister where "reg_CR8 \<equiv> 157"
abbreviation (input) reg_CR9 :: DianaUnifiedRegister where "reg_CR9 \<equiv> 158"
abbreviation (input) reg_CR10 :: DianaUnifiedRegister where "reg_CR10 \<equiv> 159"
abbreviation (input) reg_CR11 :: DianaUnifiedRegister where "reg_CR11 \<equiv> 160"
abbreviation (input) reg_CR12 :: DianaUnifiedRegister where "reg_CR12 \<equiv> 161"
abbreviation (input) reg_CR13 :: DianaUnifiedRegister where "reg_CR13 \<equiv> 162"
abbreviation (input) reg_CR14 :: DianaUnifiedRegister where "reg_CR14 \<equiv> 163"
abbreviation (input) reg_CR15 :: DianaUnifiedRegister where "reg_CR15 \<equiv> 164"
abbreviation (input) reg_DR8 :: DianaUnifiedRegister where "reg_DR8 \<equiv> 165"
abbreviation (input) reg_DR9 :: DianaUnifiedRegister where "reg_DR9 \<equiv> 166"
abbreviation (input) reg_DR10 :: DianaUnifiedRegister where "reg_DR10 \<equiv> 167"
abbreviation (input) reg_DR11 :: DianaUnifiedRegister where "reg_DR11 \<equiv> 168"
abbreviation (input) reg_DR12 :: DianaUnifiedRegister where "reg_DR12 \<equiv> 169"
abbreviation (input) reg_DR13 :: DianaUnifiedRegister where "reg_DR13 \<equiv> 170"
abbreviation (input) reg_DR14 :: DianaUnifiedRegister where "reg_DR14 \<equiv> 171"
abbreviation (input) reg_DR15 :: DianaUnifiedRegister where "reg_DR15 \<equiv> 172"
abbreviation (input) reg_ZMM0 :: DianaUnifiedRegister where "reg_ZMM0 \<equiv> 173"
abbreviation (input) reg_ZMM1 :: DianaUnifiedRegister where "reg_ZMM1 \<equiv> 174"
abbreviation (input) reg_ZMM2 :: DianaUnifiedRegister where "reg_ZMM2 \<equiv> 175"
abbreviation (input) reg_ZMM3 :: DianaUnifiedRegister where "reg_ZMM3 \<equiv> 176"
abbreviation (input) reg_ZMM4 :: DianaUnifiedRegister where "reg_ZMM4 \<equiv> 177"
abbreviation (input) reg_ZMM5 :: DianaUnifiedRegister where "reg_ZMM5 \<equiv> 178"
abbreviation (input) reg_ZMM6 :: DianaUnifiedRegister where "reg_ZMM6 \<equiv> 179"
abbreviation (input) reg_ZMM7 :: DianaUnifiedRegister where "reg_ZMM7 \<equiv> 180"
abbreviation (input) reg_ZMM8 :: DianaUnifiedRegister where "reg_ZMM8 \<equiv> 181"
abbreviation (input) reg_ZMM9 :: DianaUnifiedRegister where "reg_ZMM9 \<equiv> 182"
abbreviation (input) reg_ZMM10 :: DianaUnifiedRegister where "reg_ZMM10 \<equiv> 183"
abbreviation (input) reg_ZMM11 :: DianaUnifiedRegister where "reg_ZMM11 \<equiv> 184"
abbreviation (input) reg_ZMM12 :: DianaUnifiedRegister where "reg_ZMM12 \<equiv> 185"
abbreviation (input) reg_ZMM13 :: DianaUnifiedRegister where "reg_ZMM13 \<equiv> 186"
abbreviation (input) reg_ZMM14 :: DianaUnifiedRegister where "reg_ZMM14 \<equiv> 187"
abbreviation (input) reg_ZMM15 :: DianaUnifiedRegister where "reg_ZMM15 \<equiv> 188"
abbreviation (input) reg_ZMM16 :: DianaUnifiedRegister where "reg_ZMM16 \<equiv> 189"
abbreviation (input) reg_ZMM17 :: DianaUnifiedRegister where "reg_ZMM17 \<equiv> 190"
abbreviation (input) reg_ZMM18 :: DianaUnifiedRegister where "reg_ZMM18 \<equiv> 191"
abbreviation (input) reg_ZMM19 :: DianaUnifiedRegister where "reg_ZMM19 \<equiv> 192"
abbreviation (input) reg_ZMM20 :: DianaUnifiedRegister where "reg_ZMM20 \<equiv> 193"
abbreviation (input) reg_ZMM21 :: DianaUnifiedRegister where "reg_ZMM21 \<equiv> 194"
abbreviation (input) reg_ZMM22 :: DianaUnifiedRegister where "reg_ZMM22 \<equiv> 195"
abbreviation (input) reg_ZMM23 :: DianaUnifiedRegister where "reg_ZMM23 \<equiv> 196"
abbreviation (input) reg_ZMM24 :: DianaUnifiedRegister where "reg_ZMM24 \<equiv> 197"
abbreviation (input) reg_ZMM25 :: DianaUnifiedRegister where "reg_ZMM25 \<equiv> 198"
abbreviation (input) reg_ZMM26 :: DianaUnifiedRegister where "reg_ZMM26 \<equiv> 199"
abbreviation (input) reg_ZMM27 :: DianaUnifiedRegister where "reg_ZMM27 \<equiv> 200"
abbreviation (input) reg_ZMM28 :: DianaUnifiedRegister where "reg_ZMM28 \<equiv> 201"
abbreviation (input) reg_ZMM29 :: DianaUnifiedRegister where "reg_ZMM29 \<equiv> 202"
abbreviation (input) reg_ZMM30 :: DianaUnifiedRegister where "reg_ZMM30 \<equiv> 203"
abbreviation (input) reg_ZMM31 :: DianaUnifiedRegister where "reg_ZMM31 \<equiv> 204"
abbreviation (input) reg_XMM16 :: DianaUnifiedRegister where "reg_XMM16 \<equiv> 205"
abbreviation (input) reg_XMM17 :: DianaUnifiedRegister where "reg_XMM17 \<equiv> 206"
abbreviation (input) reg_XMM18 :: DianaUnifiedRegister where "reg_XMM18 \<equiv> 207"
abbreviation (input) reg_XMM19 :: DianaUnifiedRegister where "reg_XMM19 \<equiv> 208"
abbreviation (input) reg_XMM20 :: DianaUnifiedRegister where "reg_XMM20 \<equiv> 209"
abbreviation (input) reg_XMM21 :: DianaUnifiedRegister where "reg_XMM21 \<equiv> 210"
abbreviation (input) reg_XMM22 :: DianaUnifiedRegister where "reg_XMM22 \<equiv> 211"
abbreviation (input) reg_XMM23 :: DianaUnifiedRegister where "reg_XMM23 \<equiv> 212"
abbreviation (input) reg_XMM24 :: DianaUnifiedRegister where "reg_XMM24 \<equiv> 213"
abbreviation (input) reg_XMM25 :: DianaUnifiedRegister where "reg_XMM25 \<equiv> 214"
abbreviation (input) reg_XMM26 :: DianaUnifiedRegister where "reg_XMM26 \<equiv> 215"
abbreviation (input) reg_XMM27 :: DianaUnifiedRegister where "reg_XMM27 \<equiv> 216"
abbreviation (input) reg_XMM28 :: DianaUnifiedRegister where "reg_XMM28 \<equiv> 217"
abbreviation (input) reg_XMM29 :: DianaUnifiedRegister where "reg_XMM29 \<equiv> 218"
abbreviation (input) reg_XMM30 :: DianaUnifiedRegister where "reg_XMM30 \<equiv> 219"
abbreviation (input) reg_XMM31 :: DianaUnifiedRegister where "reg_XMM31 \<equiv> 220"
abbreviation (input) reg_YMM16 :: DianaUnifiedRegister where "reg_YMM16 \<equiv> 221"
abbreviation (input) reg_YMM17 :: DianaUnifiedRegister where "reg_YMM17 \<equiv> 222"
abbreviation (input) reg_YMM18 :: DianaUnifiedRegister where "reg_YMM18 \<equiv> 223"
abbreviation (input) reg_YMM19 :: DianaUnifiedRegister where "reg_YMM19 \<equiv> 224"
abbreviation (input) reg_YMM20 :: DianaUnifiedRegister where "reg_YMM20 \<equiv> 225"
abbreviation (input) reg_YMM21 :: DianaUnifiedRegister where "reg_YMM21 \<equiv> 226"
abbreviation (input) reg_YMM22 :: DianaUnifiedRegister where "reg_YMM22 \<equiv> 227"
abbreviation (input) reg_YMM23 :: DianaUnifiedRegister where "reg_YMM23 \<equiv> 228"
abbreviation (input) reg_YMM24 :: DianaUnifiedRegister where "reg_YMM24 \<equiv> 229"
abbreviation (input) reg_YMM25 :: DianaUnifiedRegister where "reg_YMM25 \<equiv> 230"
abbreviation (input) reg_YMM26 :: DianaUnifiedRegister where "reg_YMM26 \<equiv> 231"
abbreviation (input) reg_YMM27 :: DianaUnifiedRegister where "reg_YMM27 \<equiv> 232"
abbreviation (input) reg_YMM28 :: DianaUnifiedRegister where "reg_YMM28 \<equiv> 233"
abbreviation (input) reg_YMM29 :: DianaUnifiedRegister where "reg_YMM29 \<equiv> 234"
abbreviation (input) reg_YMM30 :: DianaUnifiedRegister where "reg_YMM30 \<equiv> 235"
abbreviation (input) reg_YMM31 :: DianaUnifiedRegister where "reg_YMM31 \<equiv> 236"
abbreviation (input) reg_K0 :: DianaUnifiedRegister where "reg_K0 \<equiv> 237"
abbreviation (input) reg_K1 :: DianaUnifiedRegister where "reg_K1 \<equiv> 238"
abbreviation (input) reg_K2 :: DianaUnifiedRegister where "reg_K2 \<equiv> 239"
abbreviation (input) reg_K3 :: DianaUnifiedRegister where "reg_K3 \<equiv> 240"
abbreviation (input) reg_K4 :: DianaUnifiedRegister where "reg_K4 \<equiv> 241"
abbreviation (input) reg_K5 :: DianaUnifiedRegister where "reg_K5 \<equiv> 242"
abbreviation (input) reg_K6 :: DianaUnifiedRegister where "reg_K6 \<equiv> 243"
abbreviation (input) reg_K7 :: DianaUnifiedRegister where "reg_K7 \<equiv> 244"

section \<open>Flags and modes\<close>

abbreviation (input) DI_FLAG_CF :: u64 where "DI_FLAG_CF \<equiv> 0x000001"
abbreviation (input) DI_FLAG_1 :: u64 where "DI_FLAG_1 \<equiv> 0x000002"
abbreviation (input) DI_FLAG_PF :: u64 where "DI_FLAG_PF \<equiv> 0x000004"
abbreviation (input) DI_FLAG_3 :: u64 where "DI_FLAG_3 \<equiv> 0x000008"
abbreviation (input) DI_FLAG_AF :: u64 where "DI_FLAG_AF \<equiv> 0x000010"
abbreviation (input) DI_FLAG_5 :: u64 where "DI_FLAG_5 \<equiv> 0x000020"
abbreviation (input) DI_FLAG_ZF :: u64 where "DI_FLAG_ZF \<equiv> 0x000040"
abbreviation (input) DI_FLAG_SF :: u64 where "DI_FLAG_SF \<equiv> 0x000080"
abbreviation (input) DI_FLAG_TF :: u64 where "DI_FLAG_TF \<equiv> 0x000100"
abbreviation (input) DI_FLAG_IF :: u64 where "DI_FLAG_IF \<equiv> 0x000200"
abbreviation (input) DI_FLAG_DF :: u64 where "DI_FLAG_DF \<equiv> 0x000400"
abbreviation (input) DI_FLAG_OF :: u64 where "DI_FLAG_OF \<equiv> 0x000800"
abbreviation (input) DI_FLAG_15 :: u64 where "DI_FLAG_15 \<equiv> 0x008000"
abbreviation (input) DI_FLAG_ID :: u64 where "DI_FLAG_ID \<equiv> 0x200000"

abbreviation (input) DI_PROC_STATE_TEMP_RIP_IS_VALID :: u32 where "DI_PROC_STATE_TEMP_RIP_IS_VALID \<equiv> 1"
abbreviation (input) DI_PROC_STATE_RIP_CHANGED :: u32 where "DI_PROC_STATE_RIP_CHANGED \<equiv> 2"
abbreviation (input) DI_PROC_STATE_UPDATE_FLAGS_PSZ :: u32 where "DI_PROC_STATE_UPDATE_FLAGS_PSZ \<equiv> 4"
abbreviation (input) DI_PROC_STATE_CMD_USES_NORMAL_REP :: u32 where "DI_PROC_STATE_CMD_USES_NORMAL_REP \<equiv> 8"

abbreviation (input) DIANA_MODE64 :: int where "DIANA_MODE64 \<equiv> 8"
abbreviation (input) DIANA_MODE32 :: int where "DIANA_MODE32 \<equiv> 4"
abbreviation (input) DIANA_MODE16 :: int where "DIANA_MODE16 \<equiv> 2"

abbreviation (input) DI_FLAG_CMD_AMD64_SIGN_EXTENDS :: u32 where "DI_FLAG_CMD_AMD64_SIGN_EXTENDS \<equiv> 0x80"
abbreviation (input) DI_FLAG_CMD_PUSH_SEG :: u32 where "DI_FLAG_CMD_PUSH_SEG \<equiv> 0x100"
abbreviation (input) DI_FLAG_CMD_PREFIX_LOCK :: u32 where "DI_FLAG_CMD_PREFIX_LOCK \<equiv> 0x800"

abbreviation (input) DI_PREFIX_NONE :: int where "DI_PREFIX_NONE \<equiv> 0"
abbreviation (input) DI_PREFIX_LOCK :: int where "DI_PREFIX_LOCK \<equiv> 1"
abbreviation (input) DI_PREFIX_REP :: int where "DI_PREFIX_REP \<equiv> 2"
abbreviation (input) DI_PREFIX_REPN :: int where "DI_PREFIX_REPN \<equiv> 3"

section \<open>A decoded instruction\<close>

record DianaRmIndex =
  seg_reg :: DianaUnifiedRegister
  reg :: DianaUnifiedRegister
  indexed_reg :: DianaUnifiedRegister
  index :: u8
  dispSize :: u8
  dispValue :: u64

record DianaCallPtr =
  m_segment :: u64
  m_address :: u64
  m_segment_size :: u64
  m_address_size :: u64

record DianaRel =
  m_rel_size :: int
  m_value :: u64

text \<open>
  The tag \<^verbatim>\<open>DianaValueType\<close> and the union \<^verbatim>\<open>DianaOperandValue\<close> together; \<^verbatim>\<open>DianaMemory\<close> holds
  nothing but an index.  The operand kinds of the ARM decoders never reach the emulator, they are
  one constructor.
\<close>

datatype DianaOperandValue =
    diana_none
  | diana_register (recognizedRegister: DianaUnifiedRegister)
  | diana_index (rmIndex: DianaRmIndex)
  | diana_imm (imm: u64)
  | diana_call_ptr (ptr: DianaCallPtr)
  | diana_rel (rel: DianaRel)
  | diana_memory (memory: DianaRmIndex)
  | diana_reserved_reg
  | diana_arm nat

record DianaLinkedOperand =
  op_value :: DianaOperandValue
  iOffset :: int
  usedSize :: int
  usedAddressSize :: int

type_synonym DianaCommandId = string

record DianaCmdInfo =
  m_cmd_flags :: u32
  m_commandId :: DianaCommandId

record DianaParserResult =
  pInfo :: DianaCmdInfo
  linkedOperands :: "int \<Rightarrow> DianaLinkedOperand"
  iLinkedOpCount :: int
  iPrefix :: int
  iFullCmdSize :: int
  isEvex :: bool

record DianaContext =
  iMainMode_opsize :: int
  iCurrentCmd_opsize :: int
  iMainMode_addressSize :: int
  iCurrentCmd_addressSize :: int
  mainMode_sreg :: DianaUnifiedRegister
  currentCmd_sreg :: DianaUnifiedRegister
  iAMD64Mode :: int
  iRexPrefix :: u8
  cacheSize :: int
  cacheIt :: int

section \<open>The processor\<close>

record DianaRegInfo =
  m_size :: int
  m_offset :: int

text \<open>
  The read function of a random stream: selector, offset, number of bytes asked for and segment
  register give the bytes delivered (\<^verbatim>\<open>*readed\<close> is their number).  The write function takes the bytes of
  the buffer and gives the number written.
\<close>

record 'm DianaRandomReadWriteStream =
  pReadFnc :: "'m \<Rightarrow> u64 \<Rightarrow> u64 \<Rightarrow> u64 \<Rightarrow> DianaUnifiedRegister \<Rightarrow> (u8 list, 'm) di_res"
  pWriteFnc :: "'m \<Rightarrow> u64 \<Rightarrow> u64 \<Rightarrow> u8 list \<Rightarrow> DianaUnifiedRegister \<Rightarrow> (u64, 'm) di_res"

text \<open>A pointer to caller code (the action of a fire point) is an identifier.\<close>

record DianaProcessorFirePoint =
  fp_pContext :: nat
  fp_address :: u64
  fp_action :: nat

record DianaFPU =
  controlWord :: u16
  statusWord :: u16
  registerFlags :: "int \<Rightarrow> u8"

record DianaProcessRandom =
  pcg_state :: u64
  pcg_inc :: u64

record 'm DianaProcessor =
  m_iLastRegistersOffset :: int
  m_pRegistersVector :: "nat \<Rightarrow> u8"
  m_registersVectorSize :: int
  m_registers :: "DianaUnifiedRegister \<Rightarrow> DianaRegInfo"
  m_pMemoryStream :: "'m DianaRandomReadWriteStream"
  m_memory :: 'm
  m_flags :: u64
  m_context :: DianaContext
  m_result :: DianaParserResult
  m_stateFlags :: u32
  m_stateFlagsToRemove :: u32
  m_tempRIP :: u64
  m_firePoints :: "DianaProcessorFirePoint list"
  m_fpu :: DianaFPU
  m_options :: u32
  m_initialDianaMode :: int
  m_lastCallRIP :: u64
  m_lastCallRSP :: u64
  m_random :: DianaProcessRandom
  m_mxcsr :: u32
  m_pkru :: u32

type_synonym ('a, 'm) di_cmd = "('a, 'm DianaProcessor) di_prog"

text \<open>Shorthands for the fields the handlers read all the time.\<close>

abbreviation (input) opsize :: "'m DianaProcessor \<Rightarrow> int" where
  "opsize p \<equiv> iCurrentCmd_opsize (m_context p)"

abbreviation (input) addrsize :: "'m DianaProcessor \<Rightarrow> int" where
  "addrsize p \<equiv> iCurrentCmd_addressSize (m_context p)"

abbreviation (input) opcount :: "'m DianaProcessor \<Rightarrow> int" where
  "opcount p \<equiv> iLinkedOpCount (m_result p)"

abbreviation (input) linked :: "'m DianaProcessor \<Rightarrow> int \<Rightarrow> DianaLinkedOperand" where
  "linked p i \<equiv> linkedOperands (m_result p) i"

abbreviation (input) amd64 :: "'m DianaProcessor \<Rightarrow> bool" where
  "amd64 p \<equiv> iAMD64Mode (m_context p) \<noteq> 0"

end
