(* ===== verification/Processor_Flags.thy ===== *)
theory Processor_Flags
  imports Processor_State
begin

unbundle bit_operations_syntax

text \<open>
  Flags: reading, setting and clearing bits of RFLAGS, the parity table and the sign masks built by
  \<^verbatim>\<open>DianaProcessor_ProcImplInit\<close>, cutting and sign-extending a value, the PF/SF/ZF update and the four
  CF/OF/AF updates (\<^verbatim>\<open>DianaProcessor_SetCOA_*\<close>).  The lemmas compare the tables and the updates
  with what they stand for: the parity of the set bits, powers of two, and the carry, the
  signed overflow and the half carry of exact integer arithmetic.
\<close>

section \<open>Flag bits\<close>

definition DianaProcessor_QueryFlag :: "'m DianaProcessor \<Rightarrow> u64 \<Rightarrow> bool" where
  "DianaProcessor_QueryFlag p flag \<longleftrightarrow> m_flags p AND flag \<noteq> 0"

definition DianaProcessor_SetFlag :: "u64 \<Rightarrow> 'm DianaProcessor \<Rightarrow> 'm DianaProcessor" where
  "DianaProcessor_SetFlag flag p = p\<lparr>m_flags := m_flags p OR flag\<rparr>"

definition DianaProcessor_ClearFlag :: "u64 \<Rightarrow> 'm DianaProcessor \<Rightarrow> 'm DianaProcessor" where
  "DianaProcessor_ClearFlag flag p = p\<lparr>m_flags := m_flags p AND NOT flag\<rparr>"

text \<open>The shape \<^verbatim>\<open>if (c) SET_FLAG_X;\<close> and the shape \<^verbatim>\<open>if (c) SET_FLAG_X; else CLEAR_FLAG_X;\<close>.\<close>

definition set_flag_if :: "bool \<Rightarrow> u64 \<Rightarrow> 'm DianaProcessor \<Rightarrow> 'm DianaProcessor" where
  "set_flag_if c flag p = (if c then DianaProcessor_SetFlag flag p else p)"

definition assign_flag :: "bool \<Rightarrow> u64 \<Rightarrow> 'm DianaProcessor \<Rightarrow> 'm DianaProcessor" where
  "assign_flag c flag p = (if c then DianaProcessor_SetFlag flag p else DianaProcessor_ClearFlag flag p)"

lemma QueryFlag_SetFlag [simp]:
  "DianaProcessor_QueryFlag (DianaProcessor_SetFlag f p) g \<longleftrightarrow> DianaProcessor_QueryFlag p g \<or> f AND g \<noteq> 0"
  by (auto simp: DianaProcessor_QueryFlag_def DianaProcessor_SetFlag_def and_eq_0_distrib)

lemma QueryFlag_ClearFlag_same [simp]: "\<not> DianaProcessor_QueryFlag (DianaProcessor_ClearFlag f p) f"
  by (simp add: DianaProcessor_QueryFlag_def DianaProcessor_ClearFlag_def and_not_self)

lemma QueryFlag_ClearFlag_other [simp]:
  "f AND g = 0 \<Longrightarrow> DianaProcessor_QueryFlag (DianaProcessor_ClearFlag f p) g = DianaProcessor_QueryFlag p g"
  by (simp add: DianaProcessor_QueryFlag_def DianaProcessor_ClearFlag_def and_not_disjoint)

lemma QueryFlag_set_flag_if [simp]:
  "DianaProcessor_QueryFlag (set_flag_if c f p) g \<longleftrightarrow> DianaProcessor_QueryFlag p g \<or> (c \<and> f AND g \<noteq> 0)"
  by (auto simp: set_flag_if_def)

lemma QueryFlag_assign_flag_same [simp]:
  "f \<noteq> 0 \<Longrightarrow> DianaProcessor_QueryFlag (assign_flag c f p) f = c"
  by (simp add: assign_flag_def)

lemma QueryFlag_assign_flag_other [simp]:
  "f AND g = 0 \<Longrightarrow> DianaProcessor_QueryFlag (assign_flag c f p) g = DianaProcessor_QueryFlag p g"
  by (simp add: assign_flag_def)

section \<open>Tables\<close>

fun GetSetBitsCount_loop :: "nat \<Rightarrow> u32 \<Rightarrow> u32 \<Rightarrow> int \<Rightarrow> int" where
  "GetSetBitsCount_loop 0 value bitMask count = count"
| "GetSetBitsCount_loop (Suc n) value bitMask count =
     GetSetBitsCount_loop n value (push_bit 1 bitMask) (if value AND bitMask \<noteq> 0 then count + 1 else count)"

definition GetSetBitsCount :: "u32 \<Rightarrow> int" where
  "GetSetBitsCount value = GetSetBitsCount_loop 8 value 1 0"

text \<open>The contents of the two tables after \<^verbatim>\<open>DianaProcessor_ProcImplInit\<close>.\<close>

definition g_diana_parityBuffer :: "u8 \<Rightarrow> bool" where
  "g_diana_parityBuffer i = (if i = 0 then True else \<not> (GetSetBitsCount (ucast i) mod 2 \<noteq> 0))"

definition g_maskBuffer :: "u64 list" where
  "g_maskBuffer = [0x80, 0x8000, 0x800000, 0x80000000, 0x8000000000, 0x800000000000,
     0x80000000000000, 0x8000000000000000]"

definition IsParity :: "u8 \<Rightarrow> bool" where
  "IsParity value = g_diana_parityBuffer value"

definition DianaProcessor_GetSignMask :: "int \<Rightarrow> u64" where
  "DianaProcessor_GetSignMask sizeInBytes = g_maskBuffer ! nat (sizeInBytes - 1)"

definition DianaProcessor_GetSignMaskSpecifyBit :: "u64 \<Rightarrow> u64" where
  "DianaProcessor_GetSignMaskSpecifyBit sizeInBits =
     drop_bit (7 - unat sizeInBits mod 8) (g_maskBuffer ! (unat sizeInBits div 8))"

lemma GetSetBitsCount_loop_card:
  "k + n \<le> 32 \<Longrightarrow> GetSetBitsCount_loop n v (push_bit k 1) c = c + int (card {i. k \<le> i \<and> i < k + n \<and> bit v i})"
proof (induction n arbitrary: k c)
  case 0
  then show ?case by (simp add: card_eq_0_iff)
next
  case (Suc n)
  have bit: "(v AND push_bit k 1 \<noteq> 0) \<longleftrightarrow> bit v k"
    by (simp only: bit_iff_and_push_bit_not_eq_0)
  define S where "S = {i. Suc k \<le> i \<and> i < Suc k + n \<and> bit v i}"
  have S: "{i. k \<le> i \<and> i < k + Suc n \<and> bit v i} = (if bit v k then insert k S else S)"
    by (auto simp: S_def Suc_le_eq le_less)
  have fin: "finite S" "k \<notin> S"
    by (auto simp: S_def intro: finite_subset [of _ "{..<Suc k + n}"])
  have "GetSetBitsCount_loop n v (push_bit 1 (push_bit k 1)) c' = c' + int (card S)" for c'
    using Suc.IH [of "Suc k" c'] Suc.prems unfolding S_def push_bit_push_bit by simp
  then show ?case
    unfolding S GetSetBitsCount_loop.simps bit by (simp add: fin)
qed

lemma GetSetBitsCount_card: "GetSetBitsCount v = int (card {i. i < 8 \<and> bit v i})"
  using GetSetBitsCount_loop_card [of 0 8 v 0] by (simp add: GetSetBitsCount_def)

lemma IsParity_iff: "IsParity v \<longleftrightarrow> even (card {i. i < 8 \<and> bit v i})"
proof -
  have "{i. i < 8 \<and> bit (ucast v :: u32) i} = {i. i < 8 \<and> bit v i}"
    by (auto simp: bit_simps)
  then have "GetSetBitsCount (ucast v) = int (card {i. i < 8 \<and> bit v i})"
    by (simp only: GetSetBitsCount_card)
  then show ?thesis
    by (cases "v = 0") (simp_all add: IsParity_def g_diana_parityBuffer_def flip: even_iff_mod_2_eq_zero)
qed

lemma GetSignMask_eq:
  "n \<in> {1, 2, 4, 8} \<Longrightarrow> DianaProcessor_GetSignMask n = 2 ^ (8 * nat n - 1)"
  by (auto simp: DianaProcessor_GetSignMask_def g_maskBuffer_def)

lemma maskBuffer_nth: "j < 8 \<Longrightarrow> g_maskBuffer ! j = 2 ^ (8 * j + 7)"
  by (simp add: g_maskBuffer_def nth_Cons' numeral_eq_Suc less_Suc_eq) auto

lemma GetSignMaskSpecifyBit_eq:
  assumes "b < 64"
  shows "DianaProcessor_GetSignMaskSpecifyBit b = 2 ^ unat b"
proof -
  define k where "k = unat b"
  have k: "k < 64"
    using assms by (simp add: word_less_nat_alt k_def)
  have "drop_bit (7 - k mod 8) (g_maskBuffer ! (k div 8)) = drop_bit (7 - k mod 8) (2 ^ (8 * (k div 8) + 7))"
    using k by (simp add: maskBuffer_nth)
  also have "\<dots> = (2 ^ (8 * (k div 8) + k mod 8) :: u64)"
  proof (rule bit_word_eqI)
    fix n assume "n < LENGTH(64)"
    have "7 - k mod 8 + n = 8 * (k div 8) + 7 \<longleftrightarrow> n = 8 * (k div 8) + k mod 8"
      using mod_less_divisor [of 8 k] by linarith
    moreover have "8 * (k div 8) < 57"
      using k by presburger
    ultimately show "bit (drop_bit (7 - k mod 8) (2 ^ (8 * (k div 8) + 7) :: u64)) n =
        bit (2 ^ (8 * (k div 8) + k mod 8) :: u64) n"
      using k \<open>n < LENGTH(64)\<close> by (auto simp: bit_simps)
  qed
  finally show ?thesis
    by (simp add: DianaProcessor_GetSignMaskSpecifyBit_def k_def)
qed

section \<open>Values and sizes\<close>

definition DianaProcessor_CutValue :: "u64 \<Rightarrow> int \<Rightarrow> u64" where
  "DianaProcessor_CutValue v sz =
     (if sz = 1 then take_bit 8 v
      else if sz = 2 then take_bit 16 v
      else if sz = 4 then take_bit 32 v
      else if sz = 8 then v
      else 0)"

definition DianaProcessor_SignExtend :: "u64 \<Rightarrow> int \<Rightarrow> int \<Rightarrow> (u64, 's) di_prog" where
  "DianaProcessor_SignExtend v sz newSize =
     (if sz = newSize then DI_RETURN v
      else if sz = 1 then DI_RETURN (DianaProcessor_CutValue (signed_take_bit 7 v) newSize)
      else if sz = 2 then DI_RETURN (DianaProcessor_CutValue (signed_take_bit 15 v) newSize)
      else if sz = 4 then DI_RETURN (DianaProcessor_CutValue (signed_take_bit 31 v) newSize)
      else if sz = 8 then DI_RETURN (DianaProcessor_CutValue v newSize)
      else DI_FAIL DI_ERROR)"

section \<open>PF, SF, ZF\<close>

definition UPDATE_PSZ :: "u64 \<Rightarrow> u64 \<Rightarrow> 'm DianaProcessor \<Rightarrow> 'm DianaProcessor" where
  "UPDATE_PSZ X highMask p =
     (if m_stateFlags p AND DI_PROC_STATE_UPDATE_FLAGS_PSZ \<noteq> 0 then
        let p1 = DianaProcessor_ClearFlag DI_FLAG_PF p;
            p2 = DianaProcessor_ClearFlag DI_FLAG_SF p1;
            p3 = DianaProcessor_ClearFlag DI_FLAG_ZF p2
        in if X \<noteq> 0 then
             set_flag_if (IsParity (ucast X)) DI_FLAG_PF (set_flag_if (X AND highMask \<noteq> 0) DI_FLAG_SF p3)
           else DianaProcessor_SetFlag DI_FLAG_PF (DianaProcessor_SetFlag DI_FLAG_ZF p3)
      else p)"

definition DianaProcessor_UpdatePSZ :: "u64 \<Rightarrow> int \<Rightarrow> 'm DianaProcessor \<Rightarrow> 'm DianaProcessor" where
  "DianaProcessor_UpdatePSZ v opSize p =
     (let p1 = p\<lparr>m_stateFlags := m_stateFlags p OR DI_PROC_STATE_UPDATE_FLAGS_PSZ\<rparr>;
          p2 = (if opSize = 1 then UPDATE_PSZ (take_bit 8 v) 0x80 p1
                else if opSize = 2 then UPDATE_PSZ (take_bit 16 v) 0x8000 p1
                else if opSize = 4 then UPDATE_PSZ (take_bit 32 v) 0x80000000 p1
                else if opSize = 8 then UPDATE_PSZ v 0x8000000000000000 p1
                else p1)
      in p2\<lparr>m_stateFlags := m_stateFlags p2 AND NOT DI_PROC_STATE_UPDATE_FLAGS_PSZ\<rparr>)"

section \<open>CF, OF, AF\<close>

definition DianaProcessor_SetCOA_Add ::
    "u64 \<Rightarrow> u64 \<Rightarrow> u64 \<Rightarrow> int \<Rightarrow> u64 \<Rightarrow> 'm DianaProcessor \<Rightarrow> 'm DianaProcessor" where
  "DianaProcessor_SetCOA_Add oldValue newValue operand opSize flags p =
     (let sign = DianaProcessor_GetSignMask opSize;
          p1 = set_flag_if (flags AND DI_FLAG_OF \<noteq> 0 \<and> oldValue AND sign = operand AND sign
                            \<and> oldValue AND sign \<noteq> newValue AND sign) DI_FLAG_OF p;
          p2 = set_flag_if (flags AND DI_FLAG_AF \<noteq> 0 \<and> newValue AND 0xF < oldValue AND 0xF) DI_FLAG_AF p1
      in set_flag_if (flags AND DI_FLAG_CF \<noteq> 0 \<and> DianaProcessor_CutValue newValue opSize < oldValue)
           DI_FLAG_CF p2)"

definition DianaProcessor_SetCOA_AddCF ::
    "u64 \<Rightarrow> u64 \<Rightarrow> u64 \<Rightarrow> int \<Rightarrow> u64 \<Rightarrow> 'm DianaProcessor \<Rightarrow> 'm DianaProcessor" where
  "DianaProcessor_SetCOA_AddCF oldValue newValue operand opSize flags p =
     (let sign = DianaProcessor_GetSignMask opSize;
          p1 = set_flag_if (flags AND DI_FLAG_OF \<noteq> 0 \<and> oldValue AND sign = operand AND sign
                            \<and> oldValue AND sign \<noteq> newValue AND sign) DI_FLAG_OF p;
          p2 = set_flag_if (flags AND DI_FLAG_AF \<noteq> 0 \<and> newValue AND 0xF \<le> oldValue AND 0xF) DI_FLAG_AF p1
      in set_flag_if (flags AND DI_FLAG_CF \<noteq> 0 \<and> DianaProcessor_CutValue newValue opSize \<le> oldValue)
           DI_FLAG_CF p2)"

definition DianaProcessor_SetCOA_Sub ::
    "u64 \<Rightarrow> u64 \<Rightarrow> u64 \<Rightarrow> int \<Rightarrow> u64 \<Rightarrow> 'm DianaProcessor \<Rightarrow> 'm DianaProcessor" where
  "DianaProcessor_SetCOA_Sub oldValue newValue operand opSize flags p =
     (let sign = DianaProcessor_GetSignMask opSize;
          p1 = set_flag_if (flags AND DI_FLAG_OF \<noteq> 0 \<and> oldValue AND sign \<noteq> operand AND sign
                            \<and> oldValue AND sign \<noteq> newValue AND sign) DI_FLAG_OF p;
          p2 = set_flag_if (flags AND DI_FLAG_AF \<noteq> 0 \<and> newValue AND 0xF > oldValue AND 0xF) DI_FLAG_AF p1
      in set_flag_if (flags AND DI_FLAG_CF \<noteq> 0 \<and> DianaProcessor_CutValue newValue opSize > oldValue)
           DI_FLAG_CF p2)"

definition DianaProcessor_SetCOA_SubCF ::
    "u64 \<Rightarrow> u64 \<Rightarrow> u64 \<Rightarrow> int \<Rightarrow> u64 \<Rightarrow> 'm DianaProcessor \<Rightarrow> 'm DianaProcessor" where
  "DianaProcessor_SetCOA_SubCF oldValue newValue operand opSize flags p =
     (let sign = DianaProcessor_GetSignMask opSize;
          p1 = set_flag_if (flags AND DI_FLAG_OF \<noteq> 0 \<and> oldValue AND sign \<noteq> operand AND sign
                            \<and> oldValue AND sign \<noteq> newValue AND sign) DI_FLAG_OF p;
          p2 = set_flag_if (flags AND DI_FLAG_AF \<noteq> 0 \<and> newValue AND 0xF \<ge> oldValue AND 0xF) DI_FLAG_AF p1
      in set_flag_if (flags AND DI_FLAG_CF \<noteq> 0 \<and> DianaProcessor_CutValue newValue opSize \<ge> oldValue)
           DI_FLAG_CF p2)"

section \<open>What the flag operations leave alone\<close>

lemma SetFlag_frame [simp]:
  "m_iLastRegistersOffset (DianaProcessor_SetFlag f p) = m_iLastRegistersOffset p"
  "m_pRegistersVector (DianaProcessor_SetFlag f p) = m_pRegistersVector p"
  "m_registersVectorSize (DianaProcessor_SetFlag f p) = m_registersVectorSize p"
  "m_registers (DianaProcessor_SetFlag f p) = m_registers p"
  "m_pMemoryStream (DianaProcessor_SetFlag f p) = m_pMemoryStream p"
  "m_memory (DianaProcessor_SetFlag f p) = m_memory p"
  "m_context (DianaProcessor_SetFlag f p) = m_context p"
  "m_result (DianaProcessor_SetFlag f p) = m_result p"
  "m_stateFlags (DianaProcessor_SetFlag f p) = m_stateFlags p"
  "m_stateFlagsToRemove (DianaProcessor_SetFlag f p) = m_stateFlagsToRemove p"
  "m_tempRIP (DianaProcessor_SetFlag f p) = m_tempRIP p"
  "m_firePoints (DianaProcessor_SetFlag f p) = m_firePoints p"
  "m_fpu (DianaProcessor_SetFlag f p) = m_fpu p"
  "m_options (DianaProcessor_SetFlag f p) = m_options p"
  "m_initialDianaMode (DianaProcessor_SetFlag f p) = m_initialDianaMode p"
  "m_lastCallRIP (DianaProcessor_SetFlag f p) = m_lastCallRIP p"
  "m_lastCallRSP (DianaProcessor_SetFlag f p) = m_lastCallRSP p"
  "m_random (DianaProcessor_SetFlag f p) = m_random p"
  "m_mxcsr (DianaProcessor_SetFlag f p) = m_mxcsr p"
  "m_pkru (DianaProcessor_SetFlag f p) = m_pkru p"
  by (simp_all add: DianaProcessor_SetFlag_def)

lemma ClearFlag_frame [simp]:
  "m_iLastRegistersOffset (DianaProcessor_ClearFlag f p) = m_iLastRegistersOffset p"
  "m_pRegistersVector (DianaProcessor_ClearFlag f p) = m_pRegistersVector p"
  "m_registersVectorSize (DianaProcessor_ClearFlag f p) = m_registersVectorSize p"
  "m_registers (DianaProcessor_ClearFlag f p) = m_registers p"
  "m_pMemoryStream (DianaProcessor_ClearFlag f p) = m_pMemoryStream p"
  "m_memory (DianaProcessor_ClearFlag f p) = m_memory p"
  "m_context (DianaProcessor_ClearFlag f p) = m_context p"
  "m_result (DianaProcessor_ClearFlag f p) = m_result p"
  "m_stateFlags (DianaProcessor_ClearFlag f p) = m_stateFlags p"
  "m_stateFlagsToRemove (DianaProcessor_ClearFlag f p) = m_stateFlagsToRemove p"
  "m_tempRIP (DianaProcessor_ClearFlag f p) = m_tempRIP p"
  "m_firePoints (DianaProcessor_ClearFlag f p) = m_firePoints p"
  "m_fpu (DianaProcessor_ClearFlag f p) = m_fpu p"
  "m_options (DianaProcessor_ClearFlag f p) = m_options p"
  "m_initialDianaMode (DianaProcessor_ClearFlag f p) = m_initialDianaMode p"
  "m_lastCallRIP (DianaProcessor_ClearFlag f p) = m_lastCallRIP p"
  "m_lastCallRSP (DianaProcessor_ClearFlag f p) = m_lastCallRSP p"
  "m_random (DianaProcessor_ClearFlag f p) = m_random p"
  "m_mxcsr (DianaProcessor_ClearFlag f p) = m_mxcsr p"
  "m_pkru (DianaProcessor_ClearFlag f p) = m_pkru p"
  by (simp_all add: DianaProcessor_ClearFlag_def)

lemma set_flag_if_frame [simp]:
  "m_iLastRegistersOffset (set_flag_if c f p) = m_iLastRegistersOffset p"
  "m_pRegistersVector (set_flag_if c f p) = m_pRegistersVector p"
  "m_registersVectorSize (set_flag_if c f p) = m_registersVectorSize p"
  "m_registers (set_flag_if c f p) = m_registers p"
  "m_pMemoryStream (set_flag_if c f p) = m_pMemoryStream p"
  "m_memory (set_flag_if c f p) = m_memory p"
  "m_context (set_flag_if c f p) = m_context p"
  "m_result (set_flag_if c f p) = m_result p"
  "m_stateFlags (set_flag_if c f p) = m_stateFlags p"
  "m_stateFlagsToRemove (set_flag_if c f p) = m_stateFlagsToRemove p"
  "m_tempRIP (set_flag_if c f p) = m_tempRIP p"
  "m_firePoints (set_flag_if c f p) = m_firePoints p"
  "m_fpu (set_flag_if c f p) = m_fpu p"
  "m_options (set_flag_if c f p) = m_options p"
  "m_initialDianaMode (set_flag_if c f p) = m_initialDianaMode p"
  "m_lastCallRIP (set_flag_if c f p) = m_lastCallRIP p"
  "m_lastCallRSP (set_flag_if c f p) = m_lastCallRSP p"
  "m_random (set_flag_if c f p) = m_random p"
  "m_mxcsr (set_flag_if c f p) = m_mxcsr p"
  "m_pkru (set_flag_if c f p) = m_pkru p"
  by (simp_all add: set_flag_if_def)

lemma assign_flag_frame [simp]:
  "m_iLastRegistersOffset (assign_flag c f p) = m_iLastRegistersOffset p"
  "m_pRegistersVector (assign_flag c f p) = m_pRegistersVector p"
  "m_registersVectorSize (assign_flag c f p) = m_registersVectorSize p"
  "m_registers (assign_flag c f p) = m_registers p"
  "m_pMemoryStream (assign_flag c f p) = m_pMemoryStream p"
  "m_memory (assign_flag c f p) = m_memory p"
  "m_context (assign_flag c f p) = m_context p"
  "m_result (assign_flag c f p) = m_result p"
  "m_stateFlags (assign_flag c f p) = m_stateFlags p"
  "m_stateFlagsToRemove (assign_flag c f p) = m_stateFlagsToRemove p"
  "m_tempRIP (assign_flag c f p) = m_tempRIP p"
  "m_firePoints (assign_flag c f p) = m_firePoints p"
  "m_fpu (assign_flag c f p) = m_fpu p"
  "m_options (assign_flag c f p) = m_options p"
  "m_initialDianaMode (assign_flag c f p) = m_initialDianaMode p"
  "m_lastCallRIP (assign_flag c f p) = m_lastCallRIP p"
  "m_lastCallRSP (assign_flag c f p) = m_lastCallRSP p"
  "m_random (assign_flag c f p) = m_random p"
  "m_mxcsr (assign_flag c f p) = m_mxcsr p"
  "m_pkru (assign_flag c f p) = m_pkru p"
  by (simp_all add: assign_flag_def)

lemma UPDATE_PSZ_frame [simp]:
  "m_iLastRegistersOffset (UPDATE_PSZ X h p) = m_iLastRegistersOffset p"
  "m_pRegistersVector (UPDATE_PSZ X h p) = m_pRegistersVector p"
  "m_registersVectorSize (UPDATE_PSZ X h p) = m_registersVectorSize p"
  "m_registers (UPDATE_PSZ X h p) = m_registers p"
  "m_pMemoryStream (UPDATE_PSZ X h p) = m_pMemoryStream p"
  "m_memory (UPDATE_PSZ X h p) = m_memory p"
  "m_context (UPDATE_PSZ X h p) = m_context p"
  "m_result (UPDATE_PSZ X h p) = m_result p"
  "m_stateFlags (UPDATE_PSZ X h p) = m_stateFlags p"
  "m_stateFlagsToRemove (UPDATE_PSZ X h p) = m_stateFlagsToRemove p"
  "m_tempRIP (UPDATE_PSZ X h p) = m_tempRIP p"
  "m_firePoints (UPDATE_PSZ X h p) = m_firePoints p"
  "m_fpu (UPDATE_PSZ X h p) = m_fpu p"
  "m_options (UPDATE_PSZ X h p) = m_options p"
  "m_initialDianaMode (UPDATE_PSZ X h p) = m_initialDianaMode p"
  "m_lastCallRIP (UPDATE_PSZ X h p) = m_lastCallRIP p"
  "m_lastCallRSP (UPDATE_PSZ X h p) = m_lastCallRSP p"
  "m_random (UPDATE_PSZ X h p) = m_random p"
  "m_mxcsr (UPDATE_PSZ X h p) = m_mxcsr p"
  "m_pkru (UPDATE_PSZ X h p) = m_pkru p"
  by (simp_all add: UPDATE_PSZ_def Let_def)

lemma UpdatePSZ_frame [simp]:
  "m_iLastRegistersOffset (DianaProcessor_UpdatePSZ v n p) = m_iLastRegistersOffset p"
  "m_pRegistersVector (DianaProcessor_UpdatePSZ v n p) = m_pRegistersVector p"
  "m_registersVectorSize (DianaProcessor_UpdatePSZ v n p) = m_registersVectorSize p"
  "m_registers (DianaProcessor_UpdatePSZ v n p) = m_registers p"
  "m_pMemoryStream (DianaProcessor_UpdatePSZ v n p) = m_pMemoryStream p"
  "m_memory (DianaProcessor_UpdatePSZ v n p) = m_memory p"
  "m_context (DianaProcessor_UpdatePSZ v n p) = m_context p"
  "m_result (DianaProcessor_UpdatePSZ v n p) = m_result p"
  "m_stateFlagsToRemove (DianaProcessor_UpdatePSZ v n p) = m_stateFlagsToRemove p"
  "m_tempRIP (DianaProcessor_UpdatePSZ v n p) = m_tempRIP p"
  "m_firePoints (DianaProcessor_UpdatePSZ v n p) = m_firePoints p"
  "m_fpu (DianaProcessor_UpdatePSZ v n p) = m_fpu p"
  "m_options (DianaProcessor_UpdatePSZ v n p) = m_options p"
  "m_initialDianaMode (DianaProcessor_UpdatePSZ v n p) = m_initialDianaMode p"
  "m_lastCallRIP (DianaProcessor_UpdatePSZ v n p) = m_lastCallRIP p"
  "m_lastCallRSP (DianaProcessor_UpdatePSZ v n p) = m_lastCallRSP p"
  "m_random (DianaProcessor_UpdatePSZ v n p) = m_random p"
  "m_mxcsr (DianaProcessor_UpdatePSZ v n p) = m_mxcsr p"
  "m_pkru (DianaProcessor_UpdatePSZ v n p) = m_pkru p"
  by (simp_all add: DianaProcessor_UpdatePSZ_def Let_def)

lemmas SetCOA_defs = DianaProcessor_SetCOA_Add_def DianaProcessor_SetCOA_AddCF_def
  DianaProcessor_SetCOA_Sub_def DianaProcessor_SetCOA_SubCF_def

lemma SetCOA_Add_frame [simp]:
  "m_iLastRegistersOffset (DianaProcessor_SetCOA_Add a b c n fl p) = m_iLastRegistersOffset p"
  "m_pRegistersVector (DianaProcessor_SetCOA_Add a b c n fl p) = m_pRegistersVector p"
  "m_registersVectorSize (DianaProcessor_SetCOA_Add a b c n fl p) = m_registersVectorSize p"
  "m_registers (DianaProcessor_SetCOA_Add a b c n fl p) = m_registers p"
  "m_pMemoryStream (DianaProcessor_SetCOA_Add a b c n fl p) = m_pMemoryStream p"
  "m_memory (DianaProcessor_SetCOA_Add a b c n fl p) = m_memory p"
  "m_context (DianaProcessor_SetCOA_Add a b c n fl p) = m_context p"
  "m_result (DianaProcessor_SetCOA_Add a b c n fl p) = m_result p"
  "m_stateFlags (DianaProcessor_SetCOA_Add a b c n fl p) = m_stateFlags p"
  "m_stateFlagsToRemove (DianaProcessor_SetCOA_Add a b c n fl p) = m_stateFlagsToRemove p"
  "m_tempRIP (DianaProcessor_SetCOA_Add a b c n fl p) = m_tempRIP p"
  "m_firePoints (DianaProcessor_SetCOA_Add a b c n fl p) = m_firePoints p"
  "m_fpu (DianaProcessor_SetCOA_Add a b c n fl p) = m_fpu p"
  "m_options (DianaProcessor_SetCOA_Add a b c n fl p) = m_options p"
  "m_initialDianaMode (DianaProcessor_SetCOA_Add a b c n fl p) = m_initialDianaMode p"
  "m_lastCallRIP (DianaProcessor_SetCOA_Add a b c n fl p) = m_lastCallRIP p"
  "m_lastCallRSP (DianaProcessor_SetCOA_Add a b c n fl p) = m_lastCallRSP p"
  "m_random (DianaProcessor_SetCOA_Add a b c n fl p) = m_random p"
  "m_mxcsr (DianaProcessor_SetCOA_Add a b c n fl p) = m_mxcsr p"
  "m_pkru (DianaProcessor_SetCOA_Add a b c n fl p) = m_pkru p"
  by (simp_all add: SetCOA_defs Let_def)

lemma SetCOA_AddCF_frame [simp]:
  "m_iLastRegistersOffset (DianaProcessor_SetCOA_AddCF a b c n fl p) = m_iLastRegistersOffset p"
  "m_pRegistersVector (DianaProcessor_SetCOA_AddCF a b c n fl p) = m_pRegistersVector p"
  "m_registersVectorSize (DianaProcessor_SetCOA_AddCF a b c n fl p) = m_registersVectorSize p"
  "m_registers (DianaProcessor_SetCOA_AddCF a b c n fl p) = m_registers p"
  "m_pMemoryStream (DianaProcessor_SetCOA_AddCF a b c n fl p) = m_pMemoryStream p"
  "m_memory (DianaProcessor_SetCOA_AddCF a b c n fl p) = m_memory p"
  "m_context (DianaProcessor_SetCOA_AddCF a b c n fl p) = m_context p"
  "m_result (DianaProcessor_SetCOA_AddCF a b c n fl p) = m_result p"
  "m_stateFlags (DianaProcessor_SetCOA_AddCF a b c n fl p) = m_stateFlags p"
  "m_stateFlagsToRemove (DianaProcessor_SetCOA_AddCF a b c n fl p) = m_stateFlagsToRemove p"
  "m_tempRIP (DianaProcessor_SetCOA_AddCF a b c n fl p) = m_tempRIP p"
  "m_firePoints (DianaProcessor_SetCOA_AddCF a b c n fl p) = m_firePoints p"
  "m_fpu (DianaProcessor_SetCOA_AddCF a b c n fl p) = m_fpu p"
  "m_options (DianaProcessor_SetCOA_AddCF a b c n fl p) = m_options p"
  "m_initialDianaMode (DianaProcessor_SetCOA_AddCF a b c n fl p) = m_initialDianaMode p"
  "m_lastCallRIP (DianaProcessor_SetCOA_AddCF a b c n fl p) = m_lastCallRIP p"
  "m_lastCallRSP (DianaProcessor_SetCOA_AddCF a b c n fl p) = m_lastCallRSP p"
  "m_random (DianaProcessor_SetCOA_AddCF a b c n fl p) = m_random p"
  "m_mxcsr (DianaProcessor_SetCOA_AddCF a b c n fl p) = m_mxcsr p"
  "m_pkru (DianaProcessor_SetCOA_AddCF a b c n fl p) = m_pkru p"
  by (simp_all add: SetCOA_defs Let_def)

lemma SetCOA_Sub_frame [simp]:
  "m_iLastRegistersOffset (DianaProcessor_SetCOA_Sub a b c n fl p) = m_iLastRegistersOffset p"
  "m_pRegistersVector (DianaProcessor_SetCOA_Sub a b c n fl p) = m_pRegistersVector p"
  "m_registersVectorSize (DianaProcessor_SetCOA_Sub a b c n fl p) = m_registersVectorSize p"
  "m_registers (DianaProcessor_SetCOA_Sub a b c n fl p) = m_registers p"
  "m_pMemoryStream (DianaProcessor_SetCOA_Sub a b c n fl p) = m_pMemoryStream p"
  "m_memory (DianaProcessor_SetCOA_Sub a b c n fl p) = m_memory p"
  "m_context (DianaProcessor_SetCOA_Sub a b c n fl p) = m_context p"
  "m_result (DianaProcessor_SetCOA_Sub a b c n fl p) = m_result p"
  "m_stateFlags (DianaProcessor_SetCOA_Sub a b c n fl p) = m_stateFlags p"
  "m_stateFlagsToRemove (DianaProcessor_SetCOA_Sub a b c n fl p) = m_stateFlagsToRemove p"
  "m_tempRIP (DianaProcessor_SetCOA_Sub a b c n fl p) = m_tempRIP p"
  "m_firePoints (DianaProcessor_SetCOA_Sub a b c n fl p) = m_firePoints p"
  "m_fpu (DianaProcessor_SetCOA_Sub a b c n fl p) = m_fpu p"
  "m_options (DianaProcessor_SetCOA_Sub a b c n fl p) = m_options p"
  "m_initialDianaMode (DianaProcessor_SetCOA_Sub a b c n fl p) = m_initialDianaMode p"
  "m_lastCallRIP (DianaProcessor_SetCOA_Sub a b c n fl p) = m_lastCallRIP p"
  "m_lastCallRSP (DianaProcessor_SetCOA_Sub a b c n fl p) = m_lastCallRSP p"
  "m_random (DianaProcessor_SetCOA_Sub a b c n fl p) = m_random p"
  "m_mxcsr (DianaProcessor_SetCOA_Sub a b c n fl p) = m_mxcsr p"
  "m_pkru (DianaProcessor_SetCOA_Sub a b c n fl p) = m_pkru p"
  by (simp_all add: SetCOA_defs Let_def)

lemma SetCOA_SubCF_frame [simp]:
  "m_iLastRegistersOffset (DianaProcessor_SetCOA_SubCF a b c n fl p) = m_iLastRegistersOffset p"
  "m_pRegistersVector (DianaProcessor_SetCOA_SubCF a b c n fl p) = m_pRegistersVector p"
  "m_registersVectorSize (DianaProcessor_SetCOA_SubCF a b c n fl p) = m_registersVectorSize p"
  "m_registers (DianaProcessor_SetCOA_SubCF a b c n fl p) = m_registers p"
  "m_pMemoryStream (DianaProcessor_SetCOA_SubCF a b c n fl p) = m_pMemoryStream p"
  "m_memory (DianaProcessor_SetCOA_SubCF a b c n fl p) = m_memory p"
  "m_context (DianaProcessor_SetCOA_SubCF a b c n fl p) = m_context p"
  "m_result (DianaProcessor_SetCOA_SubCF a b c n fl p) = m_result p"
  "m_stateFlags (DianaProcessor_SetCOA_SubCF a b c n fl p) = m_stateFlags p"
  "m_stateFlagsToRemove (DianaProcessor_SetCOA_SubCF a b c n fl p) = m_stateFlagsToRemove p"
  "m_tempRIP (DianaProcessor_SetCOA_SubCF a b c n fl p) = m_tempRIP p"
  "m_firePoints (DianaProcessor_SetCOA_SubCF a b c n fl p) = m_firePoints p"
  "m_fpu (DianaProcessor_SetCOA_SubCF a b c n fl p) = m_fpu p"
  "m_options (DianaProcessor_SetCOA_SubCF a b c n fl p) = m_options p"
  "m_initialDianaMode (DianaProcessor_SetCOA_SubCF a b c n fl p) = m_initialDianaMode p"
  "m_lastCallRIP (DianaProcessor_SetCOA_SubCF a b c n fl p) = m_lastCallRIP p"
  "m_lastCallRSP (DianaProcessor_SetCOA_SubCF a b c n fl p) = m_lastCallRSP p"
  "m_random (DianaProcessor_SetCOA_SubCF a b c n fl p) = m_random p"
  "m_mxcsr (DianaProcessor_SetCOA_SubCF a b c n fl p) = m_mxcsr p"
  "m_pkru (DianaProcessor_SetCOA_SubCF a b c n fl p) = m_pkru p"
  by (simp_all add: SetCOA_defs Let_def)

end
