(* ===== verification/Flag_Arithmetic.thy ===== *)
theory Flag_Arithmetic
  imports Processor_Flags
begin

unbundle bit_operations_syntax

text \<open>
  The meaning of the flag updates: on operands of 1, 2, 4 or 8 bytes, \<^verbatim>\<open>DianaProcessor_SetCOA_Add\<close> and its
  companions set CF, OF and AF exactly when the unsigned sum or difference, the signed one, or the
  one of the low nibbles leaves its range.
\<close>

section \<open>Signed and unsigned readings of an operand\<close>

definition valid_size :: "int \<Rightarrow> bool" where
  "valid_size n \<longleftrightarrow> n = 1 \<or> n = 2 \<or> n = 4 \<or> n = 8"

definition bits_of :: "int \<Rightarrow> nat" where
  "bits_of n = 8 * nat n"

definition fits :: "int \<Rightarrow> u64 \<Rightarrow> bool" where
  "fits n a \<longleftrightarrow> take_bit (bits_of n) a = a"

definition sval :: "int \<Rightarrow> u64 \<Rightarrow> int" where
  "sval n a = signed_take_bit (bits_of n - 1) (uint a)"

definition signed_range :: "int \<Rightarrow> int \<Rightarrow> bool" where
  "signed_range n x \<longleftrightarrow> - (2 ^ (bits_of n - 1)) \<le> x \<and> x < 2 ^ (bits_of n - 1)"

lemma valid_sizeE:
  assumes "valid_size n"
  obtains "n = 1" | "n = 2" | "n = 4" | "n = 8"
  using assms by (auto simp: valid_size_def)

lemma bits_of_simps [simp]: "bits_of 1 = 8" "bits_of 2 = 16" "bits_of 4 = 32" "bits_of 8 = 64"
  by (simp_all add: bits_of_def)

lemma valid_bits: "valid_size n \<Longrightarrow> 0 < bits_of n \<and> 8 \<le> bits_of n \<and> bits_of n \<le> 64"
  by (auto elim!: valid_sizeE)

lemma fits_iff: "fits n a \<longleftrightarrow> uint a < 2 ^ bits_of n"
proof
  assume "fits n a"
  then have "uint a = uint a mod 2 ^ bits_of n"
    unfolding fits_def by (metis uint_take_bit)
  then show "uint a < 2 ^ bits_of n"
    by (metis pos_mod_bound zero_less_numeral zero_less_power)
next
  assume "uint a < 2 ^ bits_of n"
  then have "uint (take_bit (bits_of n) a) = uint a"
    by (simp add: uint_take_bit)
  then show "fits n a"
    unfolding fits_def by (rule unsigned_word_eqI)
qed

lemma CutValue_take_bit: "valid_size n \<Longrightarrow> DianaProcessor_CutValue v n = take_bit (bits_of n) v"
  by (auto simp: DianaProcessor_CutValue_def elim!: valid_sizeE)

lemma fits_CutValue: "valid_size n \<Longrightarrow> fits n (DianaProcessor_CutValue v n)"
  by (simp add: fits_def CutValue_take_bit)

lemma CutValue_fits: "valid_size n \<Longrightarrow> fits n v \<Longrightarrow> DianaProcessor_CutValue v n = v"
  by (simp add: CutValue_take_bit fits_def)

lemma uint_CutValue: "valid_size n \<Longrightarrow> uint (DianaProcessor_CutValue v n) = uint v mod 2 ^ bits_of n"
  by (simp add: CutValue_take_bit uint_take_bit)

lemma uint_Cut_add:
  "valid_size n \<Longrightarrow> uint (DianaProcessor_CutValue (a + b) n) = (uint a + uint b) mod 2 ^ bits_of n"
  by (auto simp: uint_CutValue uint_word_ariths mod_mod_cancel le_imp_power_dvd elim!: valid_sizeE)

lemma uint_Cut_add1:
  "valid_size n \<Longrightarrow> uint (DianaProcessor_CutValue (a + b + 1) n) = (uint a + uint b + 1) mod 2 ^ bits_of n"
  by (auto simp: uint_CutValue uint_word_ariths mod_mod_cancel le_imp_power_dvd mod_simps elim!: valid_sizeE)

lemma uint_Cut_sub:
  "valid_size n \<Longrightarrow> uint (DianaProcessor_CutValue (a - b) n) = (uint a - uint b) mod 2 ^ bits_of n"
  by (auto simp: uint_CutValue uint_word_ariths mod_mod_cancel le_imp_power_dvd elim!: valid_sizeE)

lemma uint_Cut_sub1:
  "valid_size n \<Longrightarrow> uint (DianaProcessor_CutValue (a - (b + 1)) n) = (uint a - uint b - 1) mod 2 ^ bits_of n"
  by (auto simp: uint_CutValue uint_word_ariths mod_mod_cancel le_imp_power_dvd mod_simps algebra_simps elim!: valid_sizeE)

text \<open>The sign bit, as the code tests it.\<close>

lemma sign_bit_eq:
  assumes "valid_size n"
  shows "(a AND DianaProcessor_GetSignMask n = b AND DianaProcessor_GetSignMask n)
     \<longleftrightarrow> (bit a (bits_of n - 1) = bit b (bits_of n - 1))"
proof -
  have m: "DianaProcessor_GetSignMask n = push_bit (bits_of n - 1) 1"
    using assms by (auto simp: GetSignMask_eq valid_size_def bits_of_def)
  have lt: "bits_of n - 1 < 64"
    using valid_bits [OF assms] by linarith
  show ?thesis
    unfolding m using lt by (auto simp: bit_eq_iff [where 'a = u64] bit_simps simp del: push_bit_of_1)
qed

lemma bit_top_int: "0 \<le> x \<Longrightarrow> x < 2 * 2 ^ j \<Longrightarrow> bit (x :: int) j \<longleftrightarrow> 2 ^ j \<le> x"
proof (cases "2 ^ j \<le> x")
  case True
  moreover assume "x < 2 * 2 ^ j"
  ultimately have "x div 2 ^ j = 1"
    by (intro int_div_pos_eq [of _ _ _ "x - 2 ^ j"]) auto
  with True show ?thesis
    by (simp add: bit_iff_odd)
next
  case False
  moreover assume "0 \<le> x"
  ultimately show ?thesis
    by (simp add: bit_iff_odd)
qed

lemma sign_bit_iff:
  assumes "valid_size n"
  shows "bit a (bits_of n - 1) \<longleftrightarrow> 2 ^ (bits_of n - 1) \<le> uint (DianaProcessor_CutValue a n)"
proof -
  let ?k = "bits_of n" and ?x = "uint (take_bit (bits_of n) a)"
  have k: "0 < ?k" "?k \<le> 64"
    using valid_bits [OF assms] by auto
  have "bit a (?k - 1) \<longleftrightarrow> bit ?x (?k - 1)"
    using k by (simp add: bit_simps)
  also have "\<dots> \<longleftrightarrow> 2 ^ (?k - 1) \<le> ?x"
  proof (rule bit_top_int)
    have "(2::int) ^ ?k = 2 * 2 ^ (?k - 1)"
      using k by (cases ?k) auto
    then show "?x < 2 * 2 ^ (?k - 1)"
      unfolding uint_take_bit by (metis pos_mod_bound zero_less_numeral zero_less_power)
  qed simp
  finally show ?thesis
    using assms by (simp add: CutValue_take_bit)
qed

lemma sval_eq:
  assumes "valid_size n"
  shows "sval n a = (let x = uint (DianaProcessor_CutValue a n) in
      if 2 ^ (bits_of n - 1) \<le> x then x - 2 ^ bits_of n else x)"
proof -
  have k: "Suc (bits_of n - 1) = bits_of n" "bits_of n \<le> 64"
    using valid_bits [OF assms] by auto
  have "sval n a = take_bit (bits_of n) (uint a) - 2 ^ bits_of n * of_bool (bit (uint a) (bits_of n - 1))"
    unfolding sval_def signed_take_bit_eq_take_bit_minus k(1) ..
  also have "take_bit (bits_of n) (uint a) = uint (DianaProcessor_CutValue a n)"
    by (simp only: uint_CutValue [OF assms] take_bit_eq_mod)
  also have "bit (uint a) (bits_of n - 1) = bit a (bits_of n - 1)"
    using k by (simp add: bit_simps)
  finally show ?thesis
    by (simp only: sign_bit_iff [OF assms]) (simp add: Let_def)
qed

section \<open>Exact arithmetic\<close>

text \<open>
  Integer facts behind the flag tests: \<open>M\<close> is half the modulus, \<open>x\<close> and \<open>y\<close> the unsigned readings of the
  operands, \<open>c\<close> the incoming carry.
\<close>

definition sgn_of :: "int \<Rightarrow> int \<Rightarrow> int" where
  "sgn_of M x = (if M \<le> x then x - 2 * M else x)"

lemma mod_add_cases:
  fixes M :: int
  assumes "0 \<le> x" "x < 2 * M" "0 \<le> y" "y < 2 * M" "0 \<le> c" "c \<le> 1"
  shows "(x + y + c) mod (2 * M) = (if 2 * M \<le> x + y + c then x + y + c - 2 * M else x + y + c)"
proof (cases "2 * M \<le> x + y + c")
  case True
  have "(x + y + c - 2 * M) mod (2 * M) = x + y + c - 2 * M"
    using assms True by (intro mod_pos_pos_trivial) auto
  with True show ?thesis
    by simp
next
  case False
  with assms show ?thesis
    by simp
qed

lemma mod_sub_cases:
  fixes M :: int
  assumes "0 \<le> x" "x < 2 * M" "0 \<le> y" "y < 2 * M" "0 \<le> c" "c \<le> 1"
  shows "(x - y - c) mod (2 * M) = (if x < y + c then x - y - c + 2 * M else x - y - c)"
proof (cases "x < y + c")
  case True
  have "(x - y - c + 2 * M) mod (2 * M) = x - y - c + 2 * M"
    using assms True by (intro mod_pos_pos_trivial) auto
  with True show ?thesis
    by simp
next
  case False
  with assms show ?thesis
    by simp
qed

lemma overflow_add:
  fixes M :: int
  assumes "0 \<le> x" "x < 2 * M" "0 \<le> y" "y < 2 * M" "0 \<le> c" "c \<le> 1"
  defines "z \<equiv> (x + y + c) mod (2 * M)"
  shows "((M \<le> x) = (M \<le> y) \<and> (M \<le> x) \<noteq> (M \<le> z)) \<longleftrightarrow>
     \<not> (- M \<le> sgn_of M x + sgn_of M y + c \<and> sgn_of M x + sgn_of M y + c < M)"
  unfolding z_def mod_add_cases [OF assms(1-6)] using assms(1-6) by (auto simp: sgn_of_def)

lemma overflow_sub:
  fixes M :: int
  assumes "0 \<le> x" "x < 2 * M" "0 \<le> y" "y < 2 * M" "0 \<le> c" "c \<le> 1"
  defines "z \<equiv> (x - y - c) mod (2 * M)"
  shows "((M \<le> x) \<noteq> (M \<le> y) \<and> (M \<le> x) \<noteq> (M \<le> z)) \<longleftrightarrow>
     \<not> (- M \<le> sgn_of M x - sgn_of M y - c \<and> sgn_of M x - sgn_of M y - c < M)"
  unfolding z_def mod_sub_cases [OF assms(1-6)] using assms(1-6) by (auto simp: sgn_of_def)

section \<open>Reference semantics of the flags\<close>

definition carry_add :: "int \<Rightarrow> u64 \<Rightarrow> u64 \<Rightarrow> int \<Rightarrow> bool" where
  "carry_add n a b c \<longleftrightarrow> 2 ^ bits_of n \<le> uint a + uint b + c"

definition carry_sub :: "u64 \<Rightarrow> u64 \<Rightarrow> int \<Rightarrow> bool" where
  "carry_sub a b c \<longleftrightarrow> uint a < uint b + c"

definition half_carry_add :: "u64 \<Rightarrow> u64 \<Rightarrow> int \<Rightarrow> bool" where
  "half_carry_add a b c \<longleftrightarrow> 16 \<le> uint a mod 16 + uint b mod 16 + c"

definition half_carry_sub :: "u64 \<Rightarrow> u64 \<Rightarrow> int \<Rightarrow> bool" where
  "half_carry_sub a b c \<longleftrightarrow> uint a mod 16 < uint b mod 16 + c"

definition overflow_flag :: "int \<Rightarrow> int \<Rightarrow> bool" where
  "overflow_flag n x \<longleftrightarrow> \<not> signed_range n x"

lemma uint_fits_bound: "valid_size n \<Longrightarrow> fits n a \<Longrightarrow> uint a < 2 * 2 ^ (bits_of n - 1)"
  by (auto simp: fits_iff elim!: valid_sizeE)

lemma two_half: "valid_size n \<Longrightarrow> (2::int) ^ bits_of n = 2 * 2 ^ (bits_of n - 1)"
  by (auto elim!: valid_sizeE)

lemma sval_sgn_of:
  assumes "valid_size n" "fits n a"
  shows "sval n a = sgn_of (2 ^ (bits_of n - 1)) (uint a)"
  using assms by (simp add: sval_eq sgn_of_def CutValue_fits two_half Let_def)

lemma sign_fits: "valid_size n \<Longrightarrow> fits n a \<Longrightarrow> bit a (bits_of n - 1) \<longleftrightarrow> 2 ^ (bits_of n - 1) \<le> uint a"
  using sign_bit_iff [of n a] by (simp add: CutValue_fits)

lemma nibble_uint: "uint ((a :: u64) AND 0xF) = uint a mod 16"
proof -
  have "a AND 0xF = take_bit 4 a"
    by (simp add: take_bit_eq_mask mask_eq_exp_minus_1)
  then show ?thesis
    by (simp add: uint_take_bit)
qed

lemma nibble_add: "uint ((a + b :: u64) AND 0xF) = (uint a mod 16 + uint b mod 16) mod 16"
  by (simp add: nibble_uint uint_word_ariths mod_mod_cancel mod_simps)

lemma nibble_sub: "uint ((a - b :: u64) AND 0xF) = (uint a mod 16 - uint b mod 16) mod 16"
  by (simp add: nibble_uint uint_word_ariths mod_mod_cancel mod_simps)

lemma nibble_add1: "uint ((a + b + 1 :: u64) AND 0xF) = (uint a mod 16 + uint b mod 16 + 1) mod 16"
proof -
  have "uint ((a + b + 1 :: u64) AND 0xF) = (uint (a + b) mod 16 + 1) mod 16"
    using nibble_add [of "a + b" 1] by simp
  also have "uint (a + b) mod 16 = (uint a mod 16 + uint b mod 16) mod 16"
    using nibble_add [of a b] by (simp only: nibble_uint)
  finally show ?thesis
    by (rule trans) (rule mod_add_left_eq)
qed

lemma nibble_sub1: "uint ((a - (b + 1) :: u64) AND 0xF) = (uint a mod 16 - uint b mod 16 - 1) mod 16"
proof -
  have "uint ((a - (b + 1) :: u64) AND 0xF) = (uint (a - b) mod 16 - 1) mod 16"
    using nibble_sub [of "a - b" 1] by (simp add: diff_diff_eq)
  also have "uint (a - b) mod 16 = (uint a mod 16 - uint b mod 16) mod 16"
    using nibble_sub [of a b] by (simp only: nibble_uint)
  finally show ?thesis
    by (rule trans) (rule mod_diff_left_eq)
qed

text \<open>Each test of the code against its reference, for the four combinations of operation and carry.\<close>

lemma OF_test_add:
  assumes "valid_size n" "fits n a" "fits n b" "c = 0 \<or> c = 1"
    and r: "uint (DianaProcessor_CutValue r n) = (uint a + uint b + c) mod 2 ^ bits_of n"
  shows "(a AND DianaProcessor_GetSignMask n = b AND DianaProcessor_GetSignMask n
      \<and> a AND DianaProcessor_GetSignMask n \<noteq> r AND DianaProcessor_GetSignMask n)
     \<longleftrightarrow> overflow_flag n (sval n a + sval n b + c)"
proof -
  let ?M = "2 ^ (bits_of n - 1) :: int"
  have r': "bit r (bits_of n - 1) \<longleftrightarrow> ?M \<le> (uint a + uint b + c) mod (2 * ?M)"
    unfolding sign_bit_iff [OF assms(1)] r two_half [OF assms(1)] ..
  show ?thesis
    unfolding sign_bit_eq [OF assms(1)] sign_fits [OF assms(1,2)] sign_fits [OF assms(1,3)] r'
      overflow_flag_def signed_range_def sval_sgn_of [OF assms(1,2)] sval_sgn_of [OF assms(1,3)]
    using assms(4) uint_fits_bound [OF assms(1,2)] uint_fits_bound [OF assms(1,3)] by (intro overflow_add) auto
qed

lemma OF_test_sub:
  assumes "valid_size n" "fits n a" "fits n b" "c = 0 \<or> c = 1"
    and r: "uint (DianaProcessor_CutValue r n) = (uint a - uint b - c) mod 2 ^ bits_of n"
  shows "(a AND DianaProcessor_GetSignMask n \<noteq> b AND DianaProcessor_GetSignMask n
      \<and> a AND DianaProcessor_GetSignMask n \<noteq> r AND DianaProcessor_GetSignMask n)
     \<longleftrightarrow> overflow_flag n (sval n a - sval n b - c)"
proof -
  let ?M = "2 ^ (bits_of n - 1) :: int"
  have r': "bit r (bits_of n - 1) \<longleftrightarrow> ?M \<le> (uint a - uint b - c) mod (2 * ?M)"
    unfolding sign_bit_iff [OF assms(1)] r two_half [OF assms(1)] ..
  show ?thesis
    unfolding sign_bit_eq [OF assms(1)] sign_fits [OF assms(1,2)] sign_fits [OF assms(1,3)] r'
      overflow_flag_def signed_range_def sval_sgn_of [OF assms(1,2)] sval_sgn_of [OF assms(1,3)]
    using assms(4) uint_fits_bound [OF assms(1,2)] uint_fits_bound [OF assms(1,3)] by (intro overflow_sub) auto
qed

lemma CF_test_add:
  assumes "valid_size n" "fits n a" "fits n b"
  shows "DianaProcessor_CutValue (a + b) n < a \<longleftrightarrow> carry_add n a b 0"
    and "DianaProcessor_CutValue (a + b + 1) n \<le> a \<longleftrightarrow> carry_add n a b 1"
proof -
  let ?M = "2 ^ (bits_of n - 1) :: int"
  note bounds = uint_fits_bound [OF assms(1,2)] uint_fits_bound [OF assms(1,3)]
  show "DianaProcessor_CutValue (a + b) n < a \<longleftrightarrow> carry_add n a b 0"
    using mod_add_cases [of "uint a" ?M "uint b" 0] bounds
    unfolding word_less_def uint_Cut_add [OF assms(1)] carry_add_def two_half [OF assms(1)] by auto
  show "DianaProcessor_CutValue (a + b + 1) n \<le> a \<longleftrightarrow> carry_add n a b 1"
    using mod_add_cases [of "uint a" ?M "uint b" 1] bounds
    unfolding word_le_def uint_Cut_add1 [OF assms(1)] carry_add_def two_half [OF assms(1)]
    by auto (use uint_ge_0 [of b] in linarith)
qed

lemma CF_test_sub:
  assumes "valid_size n" "fits n a" "fits n b"
  shows "a < DianaProcessor_CutValue (a - b) n \<longleftrightarrow> carry_sub a b 0"
    and "a \<le> DianaProcessor_CutValue (a - (b + 1)) n \<longleftrightarrow> carry_sub a b 1"
proof -
  let ?M = "2 ^ (bits_of n - 1) :: int"
  note bounds = uint_fits_bound [OF assms(1,2)] uint_fits_bound [OF assms(1,3)]
  show "a < DianaProcessor_CutValue (a - b) n \<longleftrightarrow> carry_sub a b 0"
    using mod_sub_cases [of "uint a" ?M "uint b" 0] bounds
    unfolding word_less_def uint_Cut_sub [OF assms(1)] carry_sub_def two_half [OF assms(1)] by auto
  show "a \<le> DianaProcessor_CutValue (a - (b + 1)) n \<longleftrightarrow> carry_sub a b 1"
    using mod_sub_cases [of "uint a" ?M "uint b" 1] bounds
    unfolding word_le_def uint_Cut_sub1 [OF assms(1)] carry_sub_def two_half [OF assms(1)] by auto
qed

lemma AF_test_add:
  "((a + b :: u64) AND 0xF < a AND 0xF) \<longleftrightarrow> half_carry_add a b 0"
  "((a + b + 1 :: u64) AND 0xF \<le> a AND 0xF) \<longleftrightarrow> half_carry_add a b 1"
proof -
  define x y where "x = uint a mod 16" and "y = uint b mod 16"
  have xy: "0 \<le> x" "x < 16" "0 \<le> y" "y < 16"
    by (simp_all add: x_def y_def)
  have "(x + y) mod 16 < x \<longleftrightarrow> 16 \<le> x + y"
    using mod_add_cases [of x 8 y 0] xy by auto
  then show "((a + b :: u64) AND 0xF < a AND 0xF) \<longleftrightarrow> half_carry_add a b 0"
    unfolding x_def y_def half_carry_add_def word_less_def by (simp only: nibble_add) (simp add: nibble_uint)
  have "(x + y + 1) mod 16 \<le> x \<longleftrightarrow> 16 \<le> x + y + 1"
    using mod_add_cases [of x 8 y 1] xy by auto
  then show "((a + b + 1 :: u64) AND 0xF \<le> a AND 0xF) \<longleftrightarrow> half_carry_add a b 1"
    unfolding x_def y_def half_carry_add_def word_le_def by (simp only: nibble_add1) (simp only: nibble_uint)
qed

lemma AF_test_sub:
  "(a AND 0xF < (a - b :: u64) AND 0xF) \<longleftrightarrow> half_carry_sub a b 0"
  "(a AND 0xF \<le> (a - (b + 1) :: u64) AND 0xF) \<longleftrightarrow> half_carry_sub a b 1"
proof -
  define x y where "x = uint a mod 16" and "y = uint b mod 16"
  have xy: "0 \<le> x" "x < 16" "0 \<le> y" "y < 16"
    by (simp_all add: x_def y_def)
  have "x < (x - y) mod 16 \<longleftrightarrow> x < y"
    using mod_sub_cases [of x 8 y 0] xy by auto
  then show "(a AND 0xF < (a - b :: u64) AND 0xF) \<longleftrightarrow> half_carry_sub a b 0"
    unfolding x_def y_def half_carry_sub_def word_less_def by (simp only: nibble_sub) (simp add: nibble_uint)
  have "x \<le> (x - y - 1) mod 16 \<longleftrightarrow> x < y + 1"
    using mod_sub_cases [of x 8 y 1] xy by auto
  then show "(a AND 0xF \<le> (a - (b + 1) :: u64) AND 0xF) \<longleftrightarrow> half_carry_sub a b 1"
    unfolding x_def y_def half_carry_sub_def word_le_def by (simp only: nibble_sub1) (simp only: nibble_uint)
qed

section \<open>The flag updates\<close>

abbreviation (input) COA :: u64 where
  "COA \<equiv> 0x811"

definition set_COA :: "bool \<Rightarrow> bool \<Rightarrow> bool \<Rightarrow> 'm DianaProcessor \<Rightarrow> 'm DianaProcessor" where
  "set_COA c o' a p = set_flag_if c DI_FLAG_CF (set_flag_if a DI_FLAG_AF (set_flag_if o' DI_FLAG_OF p))"

lemma SetCOA_Add_eq:
  assumes "valid_size n" "fits n a" "fits n b"
  shows "DianaProcessor_SetCOA_Add a (a + b) b n COA p =
     set_COA (carry_add n a b 0) (overflow_flag n (sval n a + sval n b)) (half_carry_add a b 0) p"
  using OF_test_add [OF assms, of 0 "a + b"] uint_Cut_add [OF assms(1), of a b]
  by (simp add: DianaProcessor_SetCOA_Add_def set_COA_def AF_test_add CF_test_add [OF assms] Let_def)

lemma SetCOA_AddCF_eq:
  assumes "valid_size n" "fits n a" "fits n b"
  shows "DianaProcessor_SetCOA_AddCF a (a + b + 1) b n COA p =
     set_COA (carry_add n a b 1) (overflow_flag n (sval n a + sval n b + 1)) (half_carry_add a b 1) p"
  using OF_test_add [OF assms, of 1 "a + b + 1"] uint_Cut_add1 [OF assms(1), of a b]
  by (simp add: DianaProcessor_SetCOA_AddCF_def set_COA_def AF_test_add CF_test_add [OF assms] Let_def)

lemma SetCOA_Sub_eq:
  assumes "valid_size n" "fits n a" "fits n b"
  shows "DianaProcessor_SetCOA_Sub a (a - b) b n COA p =
     set_COA (carry_sub a b 0) (overflow_flag n (sval n a - sval n b)) (half_carry_sub a b 0) p"
  using OF_test_sub [OF assms, of 0 "a - b"] uint_Cut_sub [OF assms(1), of a b]
  by (simp add: DianaProcessor_SetCOA_Sub_def set_COA_def AF_test_sub CF_test_sub [OF assms] Let_def)

lemma SetCOA_SubCF_eq:
  assumes "valid_size n" "fits n a" "fits n b"
  shows "DianaProcessor_SetCOA_SubCF a (a - (b + 1)) b n COA p =
     set_COA (carry_sub a b 1) (overflow_flag n (sval n a - sval n b - 1)) (half_carry_sub a b 1) p"
  using OF_test_sub [OF assms, of 1 "a - (b + 1)"] uint_Cut_sub1 [OF assms(1), of a b]
  by (simp add: DianaProcessor_SetCOA_SubCF_def set_COA_def AF_test_sub CF_test_sub [OF assms] Let_def)

lemma QueryFlag_set_COA [simp]:
  "DianaProcessor_QueryFlag (set_COA c o' a p) DI_FLAG_CF \<longleftrightarrow> DianaProcessor_QueryFlag p DI_FLAG_CF \<or> c"
  "DianaProcessor_QueryFlag (set_COA c o' a p) DI_FLAG_OF \<longleftrightarrow> DianaProcessor_QueryFlag p DI_FLAG_OF \<or> o'"
  "DianaProcessor_QueryFlag (set_COA c o' a p) DI_FLAG_AF \<longleftrightarrow> DianaProcessor_QueryFlag p DI_FLAG_AF \<or> a"
  by (auto simp: set_COA_def)

lemma QueryFlag_set_COA_other [simp]:
  "1 AND g = 0 \<Longrightarrow> 0x10 AND g = 0 \<Longrightarrow> 0x800 AND g = 0 \<Longrightarrow>
   DianaProcessor_QueryFlag (set_COA c o' a p) g = DianaProcessor_QueryFlag p g"
  by (auto simp: set_COA_def)

lemma QueryFlag_UPDATE_PSZ [simp]:
  assumes "m_stateFlags p AND DI_PROC_STATE_UPDATE_FLAGS_PSZ \<noteq> 0"
  shows "DianaProcessor_QueryFlag (UPDATE_PSZ X h p) DI_FLAG_ZF \<longleftrightarrow> X = 0"
    and "DianaProcessor_QueryFlag (UPDATE_PSZ X h p) DI_FLAG_SF \<longleftrightarrow> X AND h \<noteq> 0"
    and "DianaProcessor_QueryFlag (UPDATE_PSZ X h p) DI_FLAG_PF \<longleftrightarrow> IsParity (ucast X)"
    and "4 AND g = 0 \<Longrightarrow> 0x40 AND g = 0 \<Longrightarrow> 0x80 AND g = 0 \<Longrightarrow>
      DianaProcessor_QueryFlag (UPDATE_PSZ X h p) g = DianaProcessor_QueryFlag p g"
  using assms by (auto simp: UPDATE_PSZ_def Let_def IsParity_def g_diana_parityBuffer_def)

lemma UPDATE_PSZ_off [simp]:
  "m_stateFlags p AND DI_PROC_STATE_UPDATE_FLAGS_PSZ = 0 \<Longrightarrow> UPDATE_PSZ X h p = p"
  by (simp add: UPDATE_PSZ_def)

section \<open>Sign extension\<close>

lemma fits_mono: "fits n v \<Longrightarrow> n \<le> m \<Longrightarrow> fits m v"
  unfolding fits_iff bits_of_def
  by (erule less_le_trans) (simp add: power_increasing nat_mono)

lemma SignExtend_Ok:
  assumes "valid_size n" "valid_size m" "fits n v" "n \<le> m"
  obtains r where "DianaProcessor_SignExtend v n m s = Ok r s" "fits m r" "sval m r = sval n v"
proof (cases "n = m")
  case True
  with assms that show ?thesis
    by (simp add: DianaProcessor_SignExtend_def DI_RETURN_def)
next
  case False
  define r where "r = DianaProcessor_CutValue (signed_take_bit (bits_of n - 1) v) m"
  have ok: "DianaProcessor_SignExtend v n m s = Ok r s"
    using assms(1,2,4) False by (auto simp: DianaProcessor_SignExtend_def DI_RETURN_def r_def elim!: valid_sizeE)
  have nm: "bits_of n < bits_of m" "bits_of m \<le> 64" "0 < bits_of n"
    using assms(1,2,4) False by (auto elim!: valid_sizeE)
  have "signed_take_bit (bits_of m - 1) (uint r) = signed_take_bit (bits_of n - 1) (uint v)"
  proof (rule bit_eqI)
    fix i
    show "bit (signed_take_bit (bits_of m - 1) (uint r)) i = bit (signed_take_bit (bits_of n - 1) (uint v)) i"
      using nm by (auto simp: r_def CutValue_take_bit assms(2) bit_simps min_def)
  qed
  then show ?thesis
    using that [OF ok] fits_CutValue [OF assms(2)] by (simp add: sval_def r_def)
qed

end
