(* ===== verification/Processor_Registers.thy ===== *)
theory Processor_Registers
  imports Flag_Arithmetic
begin

unbundle bit_operations_syntax

text \<open>
  The register file: the table of register sizes and offsets into the registers vector as
  \<^verbatim>\<open>DianaProcessor_InitProcessorImpl\<close> builds it, the lookup of a register (the x87 stack and the
  MMX aliases included), and reading and writing a register with its effect on PF, SF, ZF and on the
  \<^verbatim>\<open>RIP_CHANGED\<close> state.  The lemmas give the layout, and what a register holds after a write to
  the same, an overlapping or another register.
\<close>

section \<open>Registration\<close>

abbreviation (input) DI_REG_INIT_VALUE :: int where
  "DI_REG_INIT_VALUE \<equiv> 4096"

definition Diana_RegisterSubRegister ::
    "DianaUnifiedRegister \<Rightarrow> int \<Rightarrow> DianaUnifiedRegister \<Rightarrow> int \<Rightarrow> (unit, 'm) di_cmd" where
  "Diana_RegisterSubRegister r sz parentReg off =
     DI_LET (\<lambda>p. m_offset (m_registers p parentReg)) (\<lambda>parentOffset.
     DI_DO (\<lambda>p. p\<lparr>m_registers := (m_registers p)(r := \<lparr>m_size = sz, m_offset = parentOffset + off\<rparr>)\<rparr>)
     DI_PROC_END)"

text \<open>
  \<open>alloc\<close> tells whether the allocator can serve a request of the given size.  The contents of a
  grown vector are the copied ones; what lies behind them is not read before the vector is cleared.
\<close>

definition Diana_RegisterRegister ::
    "(int \<Rightarrow> bool) \<Rightarrow> DianaUnifiedRegister \<Rightarrow> int \<Rightarrow> (unit, 'm) di_cmd" where
  "Diana_RegisterRegister alloc r sz =
     DI_LET (\<lambda>p. (m_iLastRegistersOffset p, m_registersVectorSize p)) (\<lambda>(lastOff, vectorSize).
     DI_CHECK
       (if lastOff + sz > vectorSize then
          let newSize = (lastOff + sz) * 2 in
          if alloc newSize then DI_DO (\<lambda>p. p\<lparr>m_registersVectorSize := newSize\<rparr>) DI_PROC_END
          else DI_FAIL DI_OUT_OF_MEMORY
        else DI_PROC_END) (\<lambda>_.
     DI_DO (\<lambda>p. p\<lparr>m_registers := (m_registers p)(r := \<lparr>m_size = sz, m_offset = m_iLastRegistersOffset p\<rparr>)\<rparr>) (
     DI_DO (\<lambda>p. p\<lparr>m_iLastRegistersOffset := m_iLastRegistersOffset p + sz\<rparr>)
     DI_PROC_END)))"

datatype registration =
    REGISTER_REGISTER DianaUnifiedRegister int
  | REGISTER_SUB_REGISTER DianaUnifiedRegister int DianaUnifiedRegister int

text \<open>The registrations in the order of the source, with the sizes of its \<^verbatim>\<open>SIZE_reg_*\<close> macros.\<close>

definition registrations :: "registration list" where
  "registrations = [
    REGISTER_REGISTER reg_RAX 8, REGISTER_REGISTER reg_RCX 8, REGISTER_REGISTER reg_RDX 8,
    REGISTER_REGISTER reg_RBX 8, REGISTER_REGISTER reg_RSP 8, REGISTER_REGISTER reg_RBP 8,
    REGISTER_REGISTER reg_RSI 8, REGISTER_REGISTER reg_RDI 8, REGISTER_REGISTER reg_R8 8,
    REGISTER_REGISTER reg_R9 8, REGISTER_REGISTER reg_R10 8, REGISTER_REGISTER reg_R11 8,
    REGISTER_REGISTER reg_R12 8, REGISTER_REGISTER reg_R13 8, REGISTER_REGISTER reg_R14 8,
    REGISTER_REGISTER reg_R15 8, REGISTER_REGISTER reg_RIP 8, REGISTER_REGISTER reg_ZMM0 64,
    REGISTER_REGISTER reg_ZMM1 64, REGISTER_REGISTER reg_ZMM2 64, REGISTER_REGISTER reg_ZMM3 64,
    REGISTER_REGISTER reg_ZMM4 64, REGISTER_REGISTER reg_ZMM5 64, REGISTER_REGISTER reg_ZMM6 64,
    REGISTER_REGISTER reg_ZMM7 64, REGISTER_REGISTER reg_ZMM8 64, REGISTER_REGISTER reg_ZMM9 64,
    REGISTER_REGISTER reg_ZMM10 64, REGISTER_REGISTER reg_ZMM11 64, REGISTER_REGISTER reg_ZMM12 64,
    REGISTER_REGISTER reg_ZMM13 64, REGISTER_REGISTER reg_ZMM14 64, REGISTER_REGISTER reg_ZMM15 64,
    REGISTER_REGISTER reg_ZMM16 64, REGISTER_REGISTER reg_ZMM17 64, REGISTER_REGISTER reg_ZMM18 64,
    REGISTER_REGISTER reg_ZMM19 64, REGISTER_REGISTER reg_ZMM20 64, REGISTER_REGISTER reg_ZMM21 64,
    REGISTER_REGISTER reg_ZMM22 64, REGISTER_REGISTER reg_ZMM23 64, REGISTER_REGISTER reg_ZMM24 64,
    REGISTER_REGISTER reg_ZMM25 64, REGISTER_REGISTER reg_ZMM26 64, REGISTER_REGISTER reg_ZMM27 64,
    REGISTER_REGISTER reg_ZMM28 64, REGISTER_REGISTER reg_ZMM29 64, REGISTER_REGISTER reg_ZMM30 64,
    REGISTER_REGISTER reg_ZMM31 64, REGISTER_SUB_REGISTER reg_YMM0 32 reg_ZMM0 0,
    REGISTER_SUB_REGISTER reg_YMM1 32 reg_ZMM1 0, REGISTER_SUB_REGISTER reg_YMM2 32 reg_ZMM2 0,
    REGISTER_SUB_REGISTER reg_YMM3 32 reg_ZMM3 0, REGISTER_SUB_REGISTER reg_YMM4 32 reg_ZMM4 0,
    REGISTER_SUB_REGISTER reg_YMM5 32 reg_ZMM5 0, REGISTER_SUB_REGISTER reg_YMM6 32 reg_ZMM6 0,
    REGISTER_SUB_REGISTER reg_YMM7 32 reg_ZMM7 0, REGISTER_SUB_REGISTER reg_YMM8 32 reg_ZMM8 0,
    REGISTER_SUB_REGISTER reg_YMM9 32 reg_ZMM9 0, REGISTER_SUB_REGISTER reg_YMM10 32 reg_ZMM10 0,
    REGISTER_SUB_REGISTER reg_YMM11 32 reg_ZMM11 0, REGISTER_SUB_REGISTER reg_YMM12 32 reg_ZMM12 0,
    REGISTER_SUB_REGISTER reg_YMM13 32 reg_ZMM13 0, REGISTER_SUB_REGISTER reg_YMM14 32 reg_ZMM14 0,
    REGISTER_SUB_REGISTER reg_YMM15 32 reg_ZMM15 0, REGISTER_SUB_REGISTER reg_YMM16 32 reg_ZMM16 0,
    REGISTER_SUB_REGISTER reg_YMM17 32 reg_ZMM17 0, REGISTER_SUB_REGISTER reg_YMM18 32 reg_ZMM18 0,
    REGISTER_SUB_REGISTER reg_YMM19 32 reg_ZMM19 0, REGISTER_SUB_REGISTER reg_YMM20 32 reg_ZMM20 0,
    REGISTER_SUB_REGISTER reg_YMM21 32 reg_ZMM21 0, REGISTER_SUB_REGISTER reg_YMM22 32 reg_ZMM22 0,
    REGISTER_SUB_REGISTER reg_YMM23 32 reg_ZMM23 0, REGISTER_SUB_REGISTER reg_YMM24 32 reg_ZMM24 0,
    REGISTER_SUB_REGISTER reg_YMM25 32 reg_ZMM25 0, REGISTER_SUB_REGISTER reg_YMM26 32 reg_ZMM26 0,
    REGISTER_SUB_REGISTER reg_YMM27 32 reg_ZMM27 0, REGISTER_SUB_REGISTER reg_YMM28 32 reg_ZMM28 0,
    REGISTER_SUB_REGISTER reg_YMM29 32 reg_ZMM29 0, REGISTER_SUB_REGISTER reg_YMM30 32 reg_ZMM30 0,
    REGISTER_SUB_REGISTER reg_YMM31 32 reg_ZMM31 0, REGISTER_SUB_REGISTER reg_XMM0 16 reg_YMM0 0,
    REGISTER_SUB_REGISTER reg_XMM1 16 reg_YMM1 0, REGISTER_SUB_REGISTER reg_XMM2 16 reg_YMM2 0,
    REGISTER_SUB_REGISTER reg_XMM3 16 reg_YMM3 0, REGISTER_SUB_REGISTER reg_XMM4 16 reg_YMM4 0,
    REGISTER_SUB_REGISTER reg_XMM5 16 reg_YMM5 0, REGISTER_SUB_REGISTER reg_XMM6 16 reg_YMM6 0,
    REGISTER_SUB_REGISTER reg_XMM7 16 reg_YMM7 0, REGISTER_SUB_REGISTER reg_XMM8 16 reg_YMM8 0,
    REGISTER_SUB_REGISTER reg_XMM9 16 reg_YMM9 0, REGISTER_SUB_REGISTER reg_XMM10 16 reg_YMM10 0,
    REGISTER_SUB_REGISTER reg_XMM11 16 reg_YMM11 0, REGISTER_SUB_REGISTER reg_XMM12 16 reg_YMM12 0,
    REGISTER_SUB_REGISTER reg_XMM13 16 reg_YMM13 0, REGISTER_SUB_REGISTER reg_XMM14 16 reg_YMM14 0,
    REGISTER_SUB_REGISTER reg_XMM15 16 reg_YMM15 0, REGISTER_SUB_REGISTER reg_XMM16 16 reg_YMM16 0,
    REGISTER_SUB_REGISTER reg_XMM17 16 reg_YMM17 0, REGISTER_SUB_REGISTER reg_XMM18 16 reg_YMM18 0,
    REGISTER_SUB_REGISTER reg_XMM19 16 reg_YMM19 0, REGISTER_SUB_REGISTER reg_XMM20 16 reg_YMM20 0,
    REGISTER_SUB_REGISTER reg_XMM21 16 reg_YMM21 0, REGISTER_SUB_REGISTER reg_XMM22 16 reg_YMM22 0,
    REGISTER_SUB_REGISTER reg_XMM23 16 reg_YMM23 0, REGISTER_SUB_REGISTER reg_XMM24 16 reg_YMM24 0,
    REGISTER_SUB_REGISTER reg_XMM25 16 reg_YMM25 0, REGISTER_SUB_REGISTER reg_XMM26 16 reg_YMM26 0,
    REGISTER_SUB_REGISTER reg_XMM27 16 reg_YMM27 0, REGISTER_SUB_REGISTER reg_XMM28 16 reg_YMM28 0,
    REGISTER_SUB_REGISTER reg_XMM29 16 reg_YMM29 0, REGISTER_SUB_REGISTER reg_XMM30 16 reg_YMM30 0,
    REGISTER_SUB_REGISTER reg_XMM31 16 reg_YMM31 0, REGISTER_REGISTER reg_K0 8, REGISTER_REGISTER reg_K1 8,
    REGISTER_REGISTER reg_K2 8, REGISTER_REGISTER reg_K3 8, REGISTER_REGISTER reg_K4 8,
    REGISTER_REGISTER reg_K5 8, REGISTER_REGISTER reg_K6 8, REGISTER_REGISTER reg_K7 8,
    REGISTER_REGISTER reg_MM_Internal0 10, REGISTER_REGISTER reg_MM_Internal1 10,
    REGISTER_REGISTER reg_MM_Internal2 10, REGISTER_REGISTER reg_MM_Internal3 10,
    REGISTER_REGISTER reg_MM_Internal4 10, REGISTER_REGISTER reg_MM_Internal5 10,
    REGISTER_REGISTER reg_MM_Internal6 10, REGISTER_REGISTER reg_MM_Internal7 10,
    REGISTER_SUB_REGISTER reg_MM0 8 reg_MM_Internal0 0, REGISTER_SUB_REGISTER reg_MM1 8 reg_MM_Internal1 0,
    REGISTER_SUB_REGISTER reg_MM2 8 reg_MM_Internal2 0, REGISTER_SUB_REGISTER reg_MM3 8 reg_MM_Internal3 0,
    REGISTER_SUB_REGISTER reg_MM4 8 reg_MM_Internal4 0, REGISTER_SUB_REGISTER reg_MM5 8 reg_MM_Internal5 0,
    REGISTER_SUB_REGISTER reg_MM6 8 reg_MM_Internal6 0, REGISTER_SUB_REGISTER reg_MM7 8 reg_MM_Internal7 0,
    REGISTER_SUB_REGISTER reg_R8D 4 reg_R8 0, REGISTER_SUB_REGISTER reg_R9D 4 reg_R9 0,
    REGISTER_SUB_REGISTER reg_R10D 4 reg_R10 0, REGISTER_SUB_REGISTER reg_R11D 4 reg_R11 0,
    REGISTER_SUB_REGISTER reg_R12D 4 reg_R12 0, REGISTER_SUB_REGISTER reg_R13D 4 reg_R13 0,
    REGISTER_SUB_REGISTER reg_R14D 4 reg_R14 0, REGISTER_SUB_REGISTER reg_R15D 4 reg_R15 0,
    REGISTER_SUB_REGISTER reg_R8W 2 reg_R8 0, REGISTER_SUB_REGISTER reg_R9W 2 reg_R9 0,
    REGISTER_SUB_REGISTER reg_R10W 2 reg_R10 0, REGISTER_SUB_REGISTER reg_R11W 2 reg_R11 0,
    REGISTER_SUB_REGISTER reg_R12W 2 reg_R12 0, REGISTER_SUB_REGISTER reg_R13W 2 reg_R13 0,
    REGISTER_SUB_REGISTER reg_R14W 2 reg_R14 0, REGISTER_SUB_REGISTER reg_R15W 2 reg_R15 0,
    REGISTER_SUB_REGISTER reg_R8B 1 reg_R8 0, REGISTER_SUB_REGISTER reg_R9B 1 reg_R9 0,
    REGISTER_SUB_REGISTER reg_R10B 1 reg_R10 0, REGISTER_SUB_REGISTER reg_R11B 1 reg_R11 0,
    REGISTER_SUB_REGISTER reg_R12B 1 reg_R12 0, REGISTER_SUB_REGISTER reg_R13B 1 reg_R13 0,
    REGISTER_SUB_REGISTER reg_R14B 1 reg_R14 0, REGISTER_SUB_REGISTER reg_R15B 1 reg_R15 0,
    REGISTER_SUB_REGISTER reg_SIL 1 reg_RSI 0, REGISTER_SUB_REGISTER reg_DIL 1 reg_RDI 0,
    REGISTER_SUB_REGISTER reg_BPL 1 reg_RBP 0, REGISTER_SUB_REGISTER reg_SPL 1 reg_RSP 0,
    REGISTER_REGISTER reg_ES 2, REGISTER_REGISTER reg_CS 2, REGISTER_REGISTER reg_SS 2,
    REGISTER_REGISTER reg_DS 2, REGISTER_REGISTER reg_FS 2, REGISTER_REGISTER reg_GS 2,
    REGISTER_REGISTER reg_CR0 4, REGISTER_REGISTER reg_CR1 4, REGISTER_REGISTER reg_CR2 4,
    REGISTER_REGISTER reg_CR3 4, REGISTER_REGISTER reg_CR4 4, REGISTER_REGISTER reg_CR5 4,
    REGISTER_REGISTER reg_CR6 4, REGISTER_REGISTER reg_CR7 4, REGISTER_REGISTER reg_DR0 4,
    REGISTER_REGISTER reg_DR1 4, REGISTER_REGISTER reg_DR2 4, REGISTER_REGISTER reg_DR3 4,
    REGISTER_REGISTER reg_DR4 4, REGISTER_REGISTER reg_DR5 4, REGISTER_REGISTER reg_DR6 4,
    REGISTER_REGISTER reg_DR7 4, REGISTER_REGISTER reg_TR0 4, REGISTER_REGISTER reg_TR1 4,
    REGISTER_REGISTER reg_TR2 4, REGISTER_REGISTER reg_TR3 4, REGISTER_REGISTER reg_TR4 4,
    REGISTER_REGISTER reg_TR5 4, REGISTER_REGISTER reg_TR6 4, REGISTER_REGISTER reg_TR7 4,
    REGISTER_SUB_REGISTER reg_IP 4 reg_RIP 0, REGISTER_SUB_REGISTER reg_SP 2 reg_RSP 0,
    REGISTER_SUB_REGISTER reg_BP 2 reg_RBP 0, REGISTER_SUB_REGISTER reg_SI 2 reg_RSI 0,
    REGISTER_SUB_REGISTER reg_DI 2 reg_RDI 0, REGISTER_SUB_REGISTER reg_EAX 4 reg_RAX 0,
    REGISTER_SUB_REGISTER reg_ECX 4 reg_RCX 0, REGISTER_SUB_REGISTER reg_EDX 4 reg_RDX 0,
    REGISTER_SUB_REGISTER reg_EBX 4 reg_RBX 0, REGISTER_SUB_REGISTER reg_ESP 4 reg_RSP 0,
    REGISTER_SUB_REGISTER reg_EBP 4 reg_RBP 0, REGISTER_SUB_REGISTER reg_ESI 4 reg_RSI 0,
    REGISTER_SUB_REGISTER reg_EDI 4 reg_RDI 0, REGISTER_SUB_REGISTER reg_AX 2 reg_EAX 0,
    REGISTER_SUB_REGISTER reg_CX 2 reg_ECX 0, REGISTER_SUB_REGISTER reg_DX 2 reg_EDX 0,
    REGISTER_SUB_REGISTER reg_BX 2 reg_EBX 0, REGISTER_SUB_REGISTER reg_AL 1 reg_AX 0,
    REGISTER_SUB_REGISTER reg_CL 1 reg_CX 0, REGISTER_SUB_REGISTER reg_DL 1 reg_DX 0,
    REGISTER_SUB_REGISTER reg_BL 1 reg_BX 0, REGISTER_SUB_REGISTER reg_AH 1 reg_AX 1,
    REGISTER_SUB_REGISTER reg_CH 1 reg_CX 1, REGISTER_SUB_REGISTER reg_DH 1 reg_DX 1,
    REGISTER_SUB_REGISTER reg_BH 1 reg_BX 1]"

text \<open>The macros drop the status of the registration.\<close>

fun run_registration :: "(int \<Rightarrow> bool) \<Rightarrow> registration \<Rightarrow> 'm DianaProcessor \<Rightarrow> 'm DianaProcessor" where
  "run_registration alloc (REGISTER_REGISTER r sz) p = res_state (Diana_RegisterRegister alloc r sz p)"
| "run_registration alloc (REGISTER_SUB_REGISTER r sz parent off) p =
     res_state (Diana_RegisterSubRegister r sz parent off p)"

definition DianaProcessor_SetResetDefaultFlags :: "'m DianaProcessor \<Rightarrow> 'm DianaProcessor" where
  "DianaProcessor_SetResetDefaultFlags p =
     (let p1 = DianaProcessor_SetFlag DI_FLAG_1 p;
          p2 = DianaProcessor_SetFlag DI_FLAG_ID p1;
          p3 = DianaProcessor_SetFlag DI_FLAG_IF p2;
          p4 = DianaProcessor_ClearFlag DI_FLAG_3 p3;
          p5 = DianaProcessor_ClearFlag DI_FLAG_5 p4
      in DianaProcessor_ClearFlag DI_FLAG_15 p5)"

definition DianaProcessor_ResetFPU :: "'m DianaProcessor \<Rightarrow> 'm DianaProcessor" where
  "DianaProcessor_ResetFPU p =
     p\<lparr>m_fpu := \<lparr>controlWord = 0x037F, statusWord = 0, registerFlags = (\<lambda>_. 0)\<rparr>\<rparr>"

definition DianaProcessor_InitProcessorImpl :: "(int \<Rightarrow> bool) \<Rightarrow> (unit, 'm) di_cmd" where
  "DianaProcessor_InitProcessorImpl alloc =
     DI_DO DianaProcessor_SetResetDefaultFlags (
     DI_DO DianaProcessor_ResetFPU (
     DI_DO (\<lambda>p. p\<lparr>m_mxcsr := 0x1f80, m_pkru := 0, m_registersVectorSize := DI_REG_INIT_VALUE\<rparr>) (
     if \<not> alloc DI_REG_INIT_VALUE then DI_FAIL DI_OUT_OF_MEMORY
     else
       DI_DO (fold (run_registration alloc) registrations) (
       DI_DO (\<lambda>p. p\<lparr>m_pRegistersVector :=
                (\<lambda>a. if int a < m_registersVectorSize p then 0 else m_pRegistersVector p a)\<rparr>)
       DI_PROC_END))))"

section \<open>Lookup\<close>

definition Diana_FPU_GetStackTop :: "'m DianaProcessor \<Rightarrow> int" where
  "Diana_FPU_GetStackTop p = uint (drop_bit 11 (statusWord (m_fpu p) AND 0x3800) AND 7)"

definition Diana_FPU_SetStackTop :: "int \<Rightarrow> 'm DianaProcessor \<Rightarrow> 'm DianaProcessor" where
  "Diana_FPU_SetStackTop stackTop p =
     p\<lparr>m_fpu := (m_fpu p)\<lparr>statusWord :=
        (statusWord (m_fpu p) AND NOT 0x3800) OR (push_bit 11 (word_of_int stackTop) AND 0x3800)\<rparr>\<rparr>"

text \<open>The range checks of the two FPU lookups are those of their only caller.\<close>

definition DianaProcessor_QueryReg_raw :: "'m DianaProcessor \<Rightarrow> DianaUnifiedRegister \<Rightarrow> DianaRegInfo" where
  "DianaProcessor_QueryReg_raw p r = m_registers p r"

definition DianaProcessor_FPU_QueryReg :: "'m DianaProcessor \<Rightarrow> DianaUnifiedRegister \<Rightarrow> DianaRegInfo" where
  "DianaProcessor_FPU_QueryReg p r =
     (let idx = reg_fpu_ST0 + 16 - r - Diana_FPU_GetStackTop p - 1
      in m_registers p (reg_MM_Internal0 + idx mod 8))"

definition DianaProcessor_FPU_QueryReg_MM :: "'m DianaProcessor \<Rightarrow> DianaUnifiedRegister \<Rightarrow> DianaRegInfo" where
  "DianaProcessor_FPU_QueryReg_MM p r =
     (let idx = reg_MM0 + 16 - r - 1
      in m_registers p (reg_MM0 + idx mod 8))"

definition DianaProcessor_QueryReg :: "'m DianaProcessor \<Rightarrow> DianaUnifiedRegister \<Rightarrow> DianaRegInfo" where
  "DianaProcessor_QueryReg p r =
     (if reg_fpu_ST0 \<le> r \<and> r \<le> reg_fpu_ST7 then DianaProcessor_FPU_QueryReg p r
      else if reg_MM0 \<le> r \<and> r \<le> reg_MM7 then DianaProcessor_FPU_QueryReg_MM p r
      else m_registers p r)"

section \<open>Access\<close>

definition DianaProcessor_GetValueEx :: "'m DianaProcessor \<Rightarrow> DianaRegInfo \<Rightarrow> int \<Rightarrow> u64" where
  "DianaProcessor_GetValueEx p r sz =
     (let pStart = nat (m_offset r); v = m_pRegistersVector p in
      if sz = 1 then vec_get v pStart 1
      else if sz = 2 then vec_get v pStart 2
      else if sz = 4 then vec_get v pStart 4
      else if sz = 8 then vec_get v pStart 8
      else 0)"

definition DianaProcessor_GetValue :: "'m DianaProcessor \<Rightarrow> DianaRegInfo \<Rightarrow> u64" where
  "DianaProcessor_GetValue p r = DianaProcessor_GetValueEx p r (m_size r)"

definition put_reg :: "nat \<Rightarrow> nat \<Rightarrow> u64 \<Rightarrow> 'm DianaProcessor \<Rightarrow> 'm DianaProcessor" where
  "put_reg pStart n v p = p\<lparr>m_pRegistersVector := vec_put (m_pRegistersVector p) pStart n v\<rparr>"

definition DianaProcessor_SetValueEx ::
    "DianaUnifiedRegister \<Rightarrow> DianaRegInfo \<Rightarrow> u64 \<Rightarrow> int \<Rightarrow> 'm DianaProcessor \<Rightarrow> 'm DianaProcessor" where
  "DianaProcessor_SetValueEx regId r v sz p =
     (let pStart = nat (m_offset r);
          p1 = (if regId = reg_RIP \<or> regId = reg_IP
                then p\<lparr>m_stateFlags := m_stateFlags p OR DI_PROC_STATE_RIP_CHANGED\<rparr> else p);
          cell = (\<lambda>p n. vec_get (m_pRegistersVector p) pStart n)
      in
      if sz = 1 then
        let p2 = put_reg pStart 1 v p1 in UPDATE_PSZ (cell p2 1) 0x80 p2
      else if sz = 2 then
        let p2 = put_reg pStart 2 v p1 in UPDATE_PSZ (cell p2 2) 0x8000 p2
      else if sz = 4 then
        let p2 = (if iAMD64Mode (m_context p1) \<noteq> 0 \<and>
                     ((reg_EAX \<le> regId \<and> regId \<le> reg_EDI) \<or> (reg_R8D \<le> regId \<and> regId \<le> reg_R15D))
                  then put_reg pStart 8 (take_bit 32 v) p1
                  else put_reg pStart 4 v p1)
        in UPDATE_PSZ (cell p2 4) 0x80000000 p2
      else if sz = 8 then
        let p2 = put_reg pStart 8 v p1 in UPDATE_PSZ (cell p2 8) 0x8000000000000000 p2
      else p1)"

definition DianaProcessor_SetValue ::
    "DianaUnifiedRegister \<Rightarrow> DianaRegInfo \<Rightarrow> u64 \<Rightarrow> 'm DianaProcessor \<Rightarrow> 'm DianaProcessor" where
  "DianaProcessor_SetValue regId r v p = DianaProcessor_SetValueEx regId r v (m_size r) p"

text \<open>The generated macros \<^verbatim>\<open>GET_REG_X\<close>, \<^verbatim>\<open>SET_REG_X(Y)\<close>, \<^verbatim>\<open>GET_REG_X2(Size)\<close> and \<^verbatim>\<open>SET_REG_X2(Y, Size)\<close>.\<close>

definition GET_REG :: "DianaUnifiedRegister \<Rightarrow> 'm DianaProcessor \<Rightarrow> u64" where
  "GET_REG r p = DianaProcessor_GetValue p (DianaProcessor_QueryReg p r)"

definition SET_REG :: "DianaUnifiedRegister \<Rightarrow> u64 \<Rightarrow> 'm DianaProcessor \<Rightarrow> 'm DianaProcessor" where
  "SET_REG r v p = DianaProcessor_SetValue r (DianaProcessor_QueryReg p r) v p"

definition GET_REG2 :: "DianaUnifiedRegister \<Rightarrow> int \<Rightarrow> 'm DianaProcessor \<Rightarrow> u64" where
  "GET_REG2 r sz p = DianaProcessor_GetValueEx p (DianaProcessor_QueryReg p r) sz"

definition SET_REG2 :: "DianaUnifiedRegister \<Rightarrow> u64 \<Rightarrow> int \<Rightarrow> 'm DianaProcessor \<Rightarrow> 'm DianaProcessor" where
  "SET_REG2 r v sz p = DianaProcessor_SetValueEx r (DianaProcessor_QueryReg p r) v sz p"

definition Query64RegisterFor32 :: "DianaUnifiedRegister \<Rightarrow> DianaUnifiedRegister option" where
  "Query64RegisterFor32 r =
     (if r \<in> {reg_EAX, reg_ECX, reg_EDX, reg_EBX, reg_ESP, reg_EBP, reg_ESI, reg_EDI}
      then Some (reg_RAX - reg_EAX + r)
      else if r \<in> {reg_R8D, reg_R9D, reg_R10D, reg_R11D, reg_R12D, reg_R13D, reg_R14D, reg_R15D}
      then Some (reg_R8 - reg_R8D + r)
      else None)"

definition QueryRaxRegister :: "int \<Rightarrow> DianaUnifiedRegister option" where
  "QueryRaxRegister sz =
     (if sz = DIANA_MODE64 then Some reg_RAX
      else if sz = DIANA_MODE32 then Some reg_EAX
      else if sz = DIANA_MODE16 then Some reg_AX
      else if sz = 1 then Some reg_AL
      else None)"

definition QueryRdxRegister :: "int \<Rightarrow> DianaUnifiedRegister option" where
  "QueryRdxRegister sz =
     (if sz = DIANA_MODE64 then Some reg_RDX
      else if sz = DIANA_MODE32 then Some reg_EDX
      else if sz = DIANA_MODE16 then Some reg_DX
      else if sz = 1 then Some reg_DL
      else None)"

definition QueryRcxRegister :: "int \<Rightarrow> DianaUnifiedRegister option" where
  "QueryRcxRegister sz =
     (if sz = DIANA_MODE64 then Some reg_RCX
      else if sz = DIANA_MODE32 then Some reg_ECX
      else if sz = DIANA_MODE16 then Some reg_CX
      else if sz = 1 then Some reg_CL
      else None)"

section \<open>The layout\<close>

text \<open>The table a successful initialisation leaves, and the number of bytes it uses.\<close>

fun layout_step :: "registration \<Rightarrow> (DianaUnifiedRegister \<Rightarrow> DianaRegInfo) \<times> int \<Rightarrow>
    (DianaUnifiedRegister \<Rightarrow> DianaRegInfo) \<times> int" where
  "layout_step (REGISTER_REGISTER r sz) (m, off) = (m(r := \<lparr>m_size = sz, m_offset = off\<rparr>), off + sz)"
| "layout_step (REGISTER_SUB_REGISTER r sz parent o') (m, off) =
     (m(r := \<lparr>m_size = sz, m_offset = m_offset (m parent) + o'\<rparr>), off)"

definition no_registers :: "DianaUnifiedRegister \<Rightarrow> DianaRegInfo" where
  "no_registers = (\<lambda>_. \<lparr>m_size = -1, m_offset = -1\<rparr>)"

definition x86_layout :: "DianaUnifiedRegister \<Rightarrow> DianaRegInfo" where
  "x86_layout = fst (fold layout_step registrations (no_registers, 0))"

abbreviation (input) registers_used :: nat where
  "registers_used \<equiv> 2436"

lemma fold_layout: "snd (fold layout_step registrations (no_registers, 0)) = 2436"
  by code_simp

definition registered :: "DianaUnifiedRegister list" where
  "registered = [
    reg_RAX, reg_RCX, reg_RDX, reg_RBX, reg_RSP, reg_RBP, reg_RSI, reg_RDI, reg_R8, reg_R9, reg_R10, reg_R11,
    reg_R12, reg_R13, reg_R14, reg_R15, reg_RIP, reg_ZMM0, reg_ZMM1, reg_ZMM2, reg_ZMM3, reg_ZMM4, reg_ZMM5,
    reg_ZMM6, reg_ZMM7, reg_ZMM8, reg_ZMM9, reg_ZMM10, reg_ZMM11, reg_ZMM12, reg_ZMM13, reg_ZMM14, reg_ZMM15,
    reg_ZMM16, reg_ZMM17, reg_ZMM18, reg_ZMM19, reg_ZMM20, reg_ZMM21, reg_ZMM22, reg_ZMM23, reg_ZMM24,
    reg_ZMM25, reg_ZMM26, reg_ZMM27, reg_ZMM28, reg_ZMM29, reg_ZMM30, reg_ZMM31, reg_YMM0, reg_YMM1,
    reg_YMM2, reg_YMM3, reg_YMM4, reg_YMM5, reg_YMM6, reg_YMM7, reg_YMM8, reg_YMM9, reg_YMM10, reg_YMM11,
    reg_YMM12, reg_YMM13, reg_YMM14, reg_YMM15, reg_YMM16, reg_YMM17, reg_YMM18, reg_YMM19, reg_YMM20,
    reg_YMM21, reg_YMM22, reg_YMM23, reg_YMM24, reg_YMM25, reg_YMM26, reg_YMM27, reg_YMM28, reg_YMM29,
    reg_YMM30, reg_YMM31, reg_XMM0, reg_XMM1, reg_XMM2, reg_XMM3, reg_XMM4, reg_XMM5, reg_XMM6, reg_XMM7,
    reg_XMM8, reg_XMM9, reg_XMM10, reg_XMM11, reg_XMM12, reg_XMM13, reg_XMM14, reg_XMM15, reg_XMM16,
    reg_XMM17, reg_XMM18, reg_XMM19, reg_XMM20, reg_XMM21, reg_XMM22, reg_XMM23, reg_XMM24, reg_XMM25,
    reg_XMM26, reg_XMM27, reg_XMM28, reg_XMM29, reg_XMM30, reg_XMM31, reg_K0, reg_K1, reg_K2, reg_K3, reg_K4,
    reg_K5, reg_K6, reg_K7, reg_MM_Internal0, reg_MM_Internal1, reg_MM_Internal2, reg_MM_Internal3,
    reg_MM_Internal4, reg_MM_Internal5, reg_MM_Internal6, reg_MM_Internal7, reg_MM0, reg_MM1, reg_MM2,
    reg_MM3, reg_MM4, reg_MM5, reg_MM6, reg_MM7, reg_R8D, reg_R9D, reg_R10D, reg_R11D, reg_R12D, reg_R13D,
    reg_R14D, reg_R15D, reg_R8W, reg_R9W, reg_R10W, reg_R11W, reg_R12W, reg_R13W, reg_R14W, reg_R15W,
    reg_R8B, reg_R9B, reg_R10B, reg_R11B, reg_R12B, reg_R13B, reg_R14B, reg_R15B, reg_SIL, reg_DIL, reg_BPL,
    reg_SPL, reg_ES, reg_CS, reg_SS, reg_DS, reg_FS, reg_GS, reg_CR0, reg_CR1, reg_CR2, reg_CR3, reg_CR4,
    reg_CR5, reg_CR6, reg_CR7, reg_DR0, reg_DR1, reg_DR2, reg_DR3, reg_DR4, reg_DR5, reg_DR6, reg_DR7,
    reg_TR0, reg_TR1, reg_TR2, reg_TR3, reg_TR4, reg_TR5, reg_TR6, reg_TR7, reg_IP, reg_SP, reg_BP, reg_SI,
    reg_DI, reg_EAX, reg_ECX, reg_EDX, reg_EBX, reg_ESP, reg_EBP, reg_ESI, reg_EDI, reg_AX, reg_CX, reg_DX,
    reg_BX, reg_AL, reg_CL, reg_DL, reg_BL, reg_AH, reg_CH, reg_DH, reg_BH]"

lemma x86_layout_list: "map x86_layout registered = [
    \<lparr>m_size = 8, m_offset = 0\<rparr>, \<lparr>m_size = 8, m_offset = 8\<rparr>,
    \<lparr>m_size = 8, m_offset = 16\<rparr>, \<lparr>m_size = 8, m_offset = 24\<rparr>,
    \<lparr>m_size = 8, m_offset = 32\<rparr>, \<lparr>m_size = 8, m_offset = 40\<rparr>,
    \<lparr>m_size = 8, m_offset = 48\<rparr>, \<lparr>m_size = 8, m_offset = 56\<rparr>,
    \<lparr>m_size = 8, m_offset = 64\<rparr>, \<lparr>m_size = 8, m_offset = 72\<rparr>,
    \<lparr>m_size = 8, m_offset = 80\<rparr>, \<lparr>m_size = 8, m_offset = 88\<rparr>,
    \<lparr>m_size = 8, m_offset = 96\<rparr>, \<lparr>m_size = 8, m_offset = 104\<rparr>,
    \<lparr>m_size = 8, m_offset = 112\<rparr>, \<lparr>m_size = 8, m_offset = 120\<rparr>,
    \<lparr>m_size = 8, m_offset = 128\<rparr>, \<lparr>m_size = 64, m_offset = 136\<rparr>,
    \<lparr>m_size = 64, m_offset = 200\<rparr>, \<lparr>m_size = 64, m_offset = 264\<rparr>,
    \<lparr>m_size = 64, m_offset = 328\<rparr>, \<lparr>m_size = 64, m_offset = 392\<rparr>,
    \<lparr>m_size = 64, m_offset = 456\<rparr>, \<lparr>m_size = 64, m_offset = 520\<rparr>,
    \<lparr>m_size = 64, m_offset = 584\<rparr>, \<lparr>m_size = 64, m_offset = 648\<rparr>,
    \<lparr>m_size = 64, m_offset = 712\<rparr>, \<lparr>m_size = 64, m_offset = 776\<rparr>,
    \<lparr>m_size = 64, m_offset = 840\<rparr>, \<lparr>m_size = 64, m_offset = 904\<rparr>,
    \<lparr>m_size = 64, m_offset = 968\<rparr>, \<lparr>m_size = 64, m_offset = 1032\<rparr>,
    \<lparr>m_size = 64, m_offset = 1096\<rparr>, \<lparr>m_size = 64, m_offset = 1160\<rparr>,
    \<lparr>m_size = 64, m_offset = 1224\<rparr>, \<lparr>m_size = 64, m_offset = 1288\<rparr>,
    \<lparr>m_size = 64, m_offset = 1352\<rparr>, \<lparr>m_size = 64, m_offset = 1416\<rparr>,
    \<lparr>m_size = 64, m_offset = 1480\<rparr>, \<lparr>m_size = 64, m_offset = 1544\<rparr>,
    \<lparr>m_size = 64, m_offset = 1608\<rparr>, \<lparr>m_size = 64, m_offset = 1672\<rparr>,
    \<lparr>m_size = 64, m_offset = 1736\<rparr>, \<lparr>m_size = 64, m_offset = 1800\<rparr>,
    \<lparr>m_size = 64, m_offset = 1864\<rparr>, \<lparr>m_size = 64, m_offset = 1928\<rparr>,
    \<lparr>m_size = 64, m_offset = 1992\<rparr>, \<lparr>m_size = 64, m_offset = 2056\<rparr>,
    \<lparr>m_size = 64, m_offset = 2120\<rparr>, \<lparr>m_size = 32, m_offset = 136\<rparr>,
    \<lparr>m_size = 32, m_offset = 200\<rparr>, \<lparr>m_size = 32, m_offset = 264\<rparr>,
    \<lparr>m_size = 32, m_offset = 328\<rparr>, \<lparr>m_size = 32, m_offset = 392\<rparr>,
    \<lparr>m_size = 32, m_offset = 456\<rparr>, \<lparr>m_size = 32, m_offset = 520\<rparr>,
    \<lparr>m_size = 32, m_offset = 584\<rparr>, \<lparr>m_size = 32, m_offset = 648\<rparr>,
    \<lparr>m_size = 32, m_offset = 712\<rparr>, \<lparr>m_size = 32, m_offset = 776\<rparr>,
    \<lparr>m_size = 32, m_offset = 840\<rparr>, \<lparr>m_size = 32, m_offset = 904\<rparr>,
    \<lparr>m_size = 32, m_offset = 968\<rparr>, \<lparr>m_size = 32, m_offset = 1032\<rparr>,
    \<lparr>m_size = 32, m_offset = 1096\<rparr>, \<lparr>m_size = 32, m_offset = 1160\<rparr>,
    \<lparr>m_size = 32, m_offset = 1224\<rparr>, \<lparr>m_size = 32, m_offset = 1288\<rparr>,
    \<lparr>m_size = 32, m_offset = 1352\<rparr>, \<lparr>m_size = 32, m_offset = 1416\<rparr>,
    \<lparr>m_size = 32, m_offset = 1480\<rparr>, \<lparr>m_size = 32, m_offset = 1544\<rparr>,
    \<lparr>m_size = 32, m_offset = 1608\<rparr>, \<lparr>m_size = 32, m_offset = 1672\<rparr>,
    \<lparr>m_size = 32, m_offset = 1736\<rparr>, \<lparr>m_size = 32, m_offset = 1800\<rparr>,
    \<lparr>m_size = 32, m_offset = 1864\<rparr>, \<lparr>m_size = 32, m_offset = 1928\<rparr>,
    \<lparr>m_size = 32, m_offset = 1992\<rparr>, \<lparr>m_size = 32, m_offset = 2056\<rparr>,
    \<lparr>m_size = 32, m_offset = 2120\<rparr>, \<lparr>m_size = 16, m_offset = 136\<rparr>,
    \<lparr>m_size = 16, m_offset = 200\<rparr>, \<lparr>m_size = 16, m_offset = 264\<rparr>,
    \<lparr>m_size = 16, m_offset = 328\<rparr>, \<lparr>m_size = 16, m_offset = 392\<rparr>,
    \<lparr>m_size = 16, m_offset = 456\<rparr>, \<lparr>m_size = 16, m_offset = 520\<rparr>,
    \<lparr>m_size = 16, m_offset = 584\<rparr>, \<lparr>m_size = 16, m_offset = 648\<rparr>,
    \<lparr>m_size = 16, m_offset = 712\<rparr>, \<lparr>m_size = 16, m_offset = 776\<rparr>,
    \<lparr>m_size = 16, m_offset = 840\<rparr>, \<lparr>m_size = 16, m_offset = 904\<rparr>,
    \<lparr>m_size = 16, m_offset = 968\<rparr>, \<lparr>m_size = 16, m_offset = 1032\<rparr>,
    \<lparr>m_size = 16, m_offset = 1096\<rparr>, \<lparr>m_size = 16, m_offset = 1160\<rparr>,
    \<lparr>m_size = 16, m_offset = 1224\<rparr>, \<lparr>m_size = 16, m_offset = 1288\<rparr>,
    \<lparr>m_size = 16, m_offset = 1352\<rparr>, \<lparr>m_size = 16, m_offset = 1416\<rparr>,
    \<lparr>m_size = 16, m_offset = 1480\<rparr>, \<lparr>m_size = 16, m_offset = 1544\<rparr>,
    \<lparr>m_size = 16, m_offset = 1608\<rparr>, \<lparr>m_size = 16, m_offset = 1672\<rparr>,
    \<lparr>m_size = 16, m_offset = 1736\<rparr>, \<lparr>m_size = 16, m_offset = 1800\<rparr>,
    \<lparr>m_size = 16, m_offset = 1864\<rparr>, \<lparr>m_size = 16, m_offset = 1928\<rparr>,
    \<lparr>m_size = 16, m_offset = 1992\<rparr>, \<lparr>m_size = 16, m_offset = 2056\<rparr>,
    \<lparr>m_size = 16, m_offset = 2120\<rparr>, \<lparr>m_size = 8, m_offset = 2184\<rparr>,
    \<lparr>m_size = 8, m_offset = 2192\<rparr>, \<lparr>m_size = 8, m_offset = 2200\<rparr>,
    \<lparr>m_size = 8, m_offset = 2208\<rparr>, \<lparr>m_size = 8, m_offset = 2216\<rparr>,
    \<lparr>m_size = 8, m_offset = 2224\<rparr>, \<lparr>m_size = 8, m_offset = 2232\<rparr>,
    \<lparr>m_size = 8, m_offset = 2240\<rparr>, \<lparr>m_size = 10, m_offset = 2248\<rparr>,
    \<lparr>m_size = 10, m_offset = 2258\<rparr>, \<lparr>m_size = 10, m_offset = 2268\<rparr>,
    \<lparr>m_size = 10, m_offset = 2278\<rparr>, \<lparr>m_size = 10, m_offset = 2288\<rparr>,
    \<lparr>m_size = 10, m_offset = 2298\<rparr>, \<lparr>m_size = 10, m_offset = 2308\<rparr>,
    \<lparr>m_size = 10, m_offset = 2318\<rparr>, \<lparr>m_size = 8, m_offset = 2248\<rparr>,
    \<lparr>m_size = 8, m_offset = 2258\<rparr>, \<lparr>m_size = 8, m_offset = 2268\<rparr>,
    \<lparr>m_size = 8, m_offset = 2278\<rparr>, \<lparr>m_size = 8, m_offset = 2288\<rparr>,
    \<lparr>m_size = 8, m_offset = 2298\<rparr>, \<lparr>m_size = 8, m_offset = 2308\<rparr>,
    \<lparr>m_size = 8, m_offset = 2318\<rparr>, \<lparr>m_size = 4, m_offset = 64\<rparr>,
    \<lparr>m_size = 4, m_offset = 72\<rparr>, \<lparr>m_size = 4, m_offset = 80\<rparr>,
    \<lparr>m_size = 4, m_offset = 88\<rparr>, \<lparr>m_size = 4, m_offset = 96\<rparr>,
    \<lparr>m_size = 4, m_offset = 104\<rparr>, \<lparr>m_size = 4, m_offset = 112\<rparr>,
    \<lparr>m_size = 4, m_offset = 120\<rparr>, \<lparr>m_size = 2, m_offset = 64\<rparr>,
    \<lparr>m_size = 2, m_offset = 72\<rparr>, \<lparr>m_size = 2, m_offset = 80\<rparr>,
    \<lparr>m_size = 2, m_offset = 88\<rparr>, \<lparr>m_size = 2, m_offset = 96\<rparr>,
    \<lparr>m_size = 2, m_offset = 104\<rparr>, \<lparr>m_size = 2, m_offset = 112\<rparr>,
    \<lparr>m_size = 2, m_offset = 120\<rparr>, \<lparr>m_size = 1, m_offset = 64\<rparr>,
    \<lparr>m_size = 1, m_offset = 72\<rparr>, \<lparr>m_size = 1, m_offset = 80\<rparr>,
    \<lparr>m_size = 1, m_offset = 88\<rparr>, \<lparr>m_size = 1, m_offset = 96\<rparr>,
    \<lparr>m_size = 1, m_offset = 104\<rparr>, \<lparr>m_size = 1, m_offset = 112\<rparr>,
    \<lparr>m_size = 1, m_offset = 120\<rparr>, \<lparr>m_size = 1, m_offset = 48\<rparr>,
    \<lparr>m_size = 1, m_offset = 56\<rparr>, \<lparr>m_size = 1, m_offset = 40\<rparr>,
    \<lparr>m_size = 1, m_offset = 32\<rparr>, \<lparr>m_size = 2, m_offset = 2328\<rparr>,
    \<lparr>m_size = 2, m_offset = 2330\<rparr>, \<lparr>m_size = 2, m_offset = 2332\<rparr>,
    \<lparr>m_size = 2, m_offset = 2334\<rparr>, \<lparr>m_size = 2, m_offset = 2336\<rparr>,
    \<lparr>m_size = 2, m_offset = 2338\<rparr>, \<lparr>m_size = 4, m_offset = 2340\<rparr>,
    \<lparr>m_size = 4, m_offset = 2344\<rparr>, \<lparr>m_size = 4, m_offset = 2348\<rparr>,
    \<lparr>m_size = 4, m_offset = 2352\<rparr>, \<lparr>m_size = 4, m_offset = 2356\<rparr>,
    \<lparr>m_size = 4, m_offset = 2360\<rparr>, \<lparr>m_size = 4, m_offset = 2364\<rparr>,
    \<lparr>m_size = 4, m_offset = 2368\<rparr>, \<lparr>m_size = 4, m_offset = 2372\<rparr>,
    \<lparr>m_size = 4, m_offset = 2376\<rparr>, \<lparr>m_size = 4, m_offset = 2380\<rparr>,
    \<lparr>m_size = 4, m_offset = 2384\<rparr>, \<lparr>m_size = 4, m_offset = 2388\<rparr>,
    \<lparr>m_size = 4, m_offset = 2392\<rparr>, \<lparr>m_size = 4, m_offset = 2396\<rparr>,
    \<lparr>m_size = 4, m_offset = 2400\<rparr>, \<lparr>m_size = 4, m_offset = 2404\<rparr>,
    \<lparr>m_size = 4, m_offset = 2408\<rparr>, \<lparr>m_size = 4, m_offset = 2412\<rparr>,
    \<lparr>m_size = 4, m_offset = 2416\<rparr>, \<lparr>m_size = 4, m_offset = 2420\<rparr>,
    \<lparr>m_size = 4, m_offset = 2424\<rparr>, \<lparr>m_size = 4, m_offset = 2428\<rparr>,
    \<lparr>m_size = 4, m_offset = 2432\<rparr>, \<lparr>m_size = 4, m_offset = 128\<rparr>,
    \<lparr>m_size = 2, m_offset = 32\<rparr>, \<lparr>m_size = 2, m_offset = 40\<rparr>,
    \<lparr>m_size = 2, m_offset = 48\<rparr>, \<lparr>m_size = 2, m_offset = 56\<rparr>,
    \<lparr>m_size = 4, m_offset = 0\<rparr>, \<lparr>m_size = 4, m_offset = 8\<rparr>,
    \<lparr>m_size = 4, m_offset = 16\<rparr>, \<lparr>m_size = 4, m_offset = 24\<rparr>,
    \<lparr>m_size = 4, m_offset = 32\<rparr>, \<lparr>m_size = 4, m_offset = 40\<rparr>,
    \<lparr>m_size = 4, m_offset = 48\<rparr>, \<lparr>m_size = 4, m_offset = 56\<rparr>,
    \<lparr>m_size = 2, m_offset = 0\<rparr>, \<lparr>m_size = 2, m_offset = 8\<rparr>,
    \<lparr>m_size = 2, m_offset = 16\<rparr>, \<lparr>m_size = 2, m_offset = 24\<rparr>,
    \<lparr>m_size = 1, m_offset = 0\<rparr>, \<lparr>m_size = 1, m_offset = 8\<rparr>,
    \<lparr>m_size = 1, m_offset = 16\<rparr>, \<lparr>m_size = 1, m_offset = 24\<rparr>,
    \<lparr>m_size = 1, m_offset = 1\<rparr>, \<lparr>m_size = 1, m_offset = 9\<rparr>,
    \<lparr>m_size = 1, m_offset = 17\<rparr>, \<lparr>m_size = 1, m_offset = 25\<rparr>]"
  by code_simp

lemmas x86_layout_regs [reg_simps] = x86_layout_list [unfolded registered_def list.map list.inject]

fun registration_of :: "registration \<Rightarrow> DianaUnifiedRegister" where
  "registration_of (REGISTER_REGISTER r sz) = r"
| "registration_of (REGISTER_SUB_REGISTER r sz parent off) = r"

lemma registered_eq: "registered = map registration_of registrations"
  by (simp add: registered_def registrations_def)

lemma fold_layout_other:
  "r \<notin> registration_of ` set steps \<Longrightarrow> fst (fold layout_step steps (m, off)) r = m r"
proof (induction steps arbitrary: m off)
  case (Cons st steps)
  then show ?case
    by (cases st) auto
qed simp

lemma x86_layout_unregistered: "r \<notin> set registered \<Longrightarrow> x86_layout r = \<lparr>m_size = -1, m_offset = -1\<rparr>"
  unfolding registered_eq x86_layout_def by (simp add: fold_layout_other no_registers_def)

definition in_vector :: "DianaRegInfo \<Rightarrow> bool" where
  "in_vector i \<longleftrightarrow> 0 < m_size i \<and> 0 \<le> m_offset i \<and> m_offset i + m_size i \<le> 2436"

lemma registered_in_vector: "r \<in> set registered \<Longrightarrow> in_vector (x86_layout r)"
proof -
  have "list_all in_vector (map x86_layout registered)"
    unfolding x86_layout_list by (simp add: in_vector_def)
  then show "r \<in> set registered \<Longrightarrow> in_vector (x86_layout r)"
    by (simp add: list_all_iff)
qed

section \<open>Initialisation\<close>

fun registration_size :: "registration \<Rightarrow> int" where
  "registration_size (REGISTER_REGISTER r sz) = sz"
| "registration_size (REGISTER_SUB_REGISTER r sz parent off) = 0"

lemma run_registrations:
  assumes "m_iLastRegistersOffset p + sum_list (map registration_size steps) \<le> m_registersVectorSize p"
    and "\<forall>st \<in> set steps. 0 \<le> registration_size st"
  shows "fold (run_registration alloc) steps p =
     p\<lparr>m_registers := fst (fold layout_step steps (m_registers p, m_iLastRegistersOffset p)),
       m_iLastRegistersOffset := snd (fold layout_step steps (m_registers p, m_iLastRegistersOffset p))\<rparr>"
  using assms
proof (induction steps arbitrary: p)
  case Nil
  then show ?case by simp
next
  case (Cons st steps)
  let ?q = "run_registration alloc st p"
  have nonneg: "0 \<le> sum_list (map registration_size steps)"
    using Cons.prems by (intro sum_list_nonneg) auto
  have q: "?q = p\<lparr>m_registers := fst (layout_step st (m_registers p, m_iLastRegistersOffset p)),
      m_iLastRegistersOffset := snd (layout_step st (m_registers p, m_iLastRegistersOffset p))\<rparr>"
    using Cons.prems nonneg
    by (cases st) (auto simp: Diana_RegisterRegister_def Diana_RegisterSubRegister_def di_simps DI_CHECK_def)
  have "m_iLastRegistersOffset ?q + sum_list (map registration_size steps) \<le> m_registersVectorSize ?q"
    unfolding q using Cons.prems by (cases st) auto
  with Cons.IH [of ?q] Cons.prems
  have "fold (run_registration alloc) steps ?q =
     ?q\<lparr>m_registers := fst (fold layout_step steps (m_registers ?q, m_iLastRegistersOffset ?q)),
       m_iLastRegistersOffset := snd (fold layout_step steps (m_registers ?q, m_iLastRegistersOffset ?q))\<rparr>"
    by simp
  then show ?case
    unfolding q by (simp add: q)
qed

definition std_regs :: "'m DianaProcessor \<Rightarrow> bool" where
  "std_regs p \<longleftrightarrow> m_registers p = x86_layout"

lemma registrations_total:
  "sum_list (map registration_size registrations) = 2436" "\<forall>st \<in> set registrations. 0 \<le> registration_size st"
  by (simp_all add: registrations_def)

text \<open>
  The initialisation of the registers never needs to grow the vector: it succeeds as soon as the
  first allocation does, and leaves the standard layout and a cleared vector.
\<close>

lemma InitProcessorImpl_Ok:
  assumes "alloc DI_REG_INIT_VALUE" "m_registers p = no_registers" "m_iLastRegistersOffset p = 0"
  obtains p' where "DianaProcessor_InitProcessorImpl alloc p = Ok () p'"
    "std_regs p'" "m_iLastRegistersOffset p' = 2436" "m_registersVectorSize p' = 4096"
    "\<And>a. a < 4096 \<Longrightarrow> m_pRegistersVector p' a = 0"
    "m_flags p' = m_flags (DianaProcessor_SetResetDefaultFlags p)"
    "m_memory p' = m_memory p" "m_pMemoryStream p' = m_pMemoryStream p" "m_context p' = m_context p"
    "m_stateFlags p' = m_stateFlags p" "m_result p' = m_result p" "m_firePoints p' = m_firePoints p"
proof -
  define q where "q = (DianaProcessor_ResetFPU (DianaProcessor_SetResetDefaultFlags p))
      \<lparr>m_mxcsr := 0x1f80, m_pkru := 0, m_registersVectorSize := 4096\<rparr>"
  have q: "m_registers q = no_registers" "m_iLastRegistersOffset q = 0" "m_registersVectorSize q = 4096"
    using assms by (simp_all add: q_def DianaProcessor_ResetFPU_def DianaProcessor_SetResetDefaultFlags_def)
  have fold_q: "fold (run_registration alloc) registrations q =
     q\<lparr>m_registers := x86_layout, m_iLastRegistersOffset := 2436\<rparr>"
    using run_registrations [of q registrations alloc]
    by (simp add: q registrations_total x86_layout_def fold_layout)
  have run: "DianaProcessor_InitProcessorImpl alloc p = Ok () (q\<lparr>m_registers := x86_layout,
      m_iLastRegistersOffset := 2436, m_pRegistersVector := (\<lambda>a. if int a < 4096 then 0 else m_pRegistersVector q a)\<rparr>)"
    unfolding DianaProcessor_InitProcessorImpl_def DI_DO_def DI_PROC_END_def
    using assms(1) by (simp add: q_def [symmetric] fold_q DI_DO_def q cong: if_cong)
  show ?thesis
    by (rule that [OF run])
      (simp_all add: std_regs_def q_def DianaProcessor_ResetFPU_def DianaProcessor_SetResetDefaultFlags_def)
qed

section \<open>What register writes leave alone\<close>

lemma put_reg_frame [simp]:
  "m_iLastRegistersOffset (put_reg a n v p) = m_iLastRegistersOffset p"
  "m_registersVectorSize (put_reg a n v p) = m_registersVectorSize p"
  "m_registers (put_reg a n v p) = m_registers p"
  "m_pMemoryStream (put_reg a n v p) = m_pMemoryStream p"
  "m_memory (put_reg a n v p) = m_memory p"
  "m_context (put_reg a n v p) = m_context p"
  "m_result (put_reg a n v p) = m_result p"
  "m_stateFlagsToRemove (put_reg a n v p) = m_stateFlagsToRemove p"
  "m_tempRIP (put_reg a n v p) = m_tempRIP p"
  "m_firePoints (put_reg a n v p) = m_firePoints p"
  "m_fpu (put_reg a n v p) = m_fpu p"
  "m_options (put_reg a n v p) = m_options p"
  "m_initialDianaMode (put_reg a n v p) = m_initialDianaMode p"
  "m_lastCallRIP (put_reg a n v p) = m_lastCallRIP p"
  "m_lastCallRSP (put_reg a n v p) = m_lastCallRSP p"
  "m_random (put_reg a n v p) = m_random p"
  "m_mxcsr (put_reg a n v p) = m_mxcsr p"
  "m_pkru (put_reg a n v p) = m_pkru p"
  "m_flags (put_reg a n v p) = m_flags p"
  "m_stateFlags (put_reg a n v p) = m_stateFlags p"
  by (simp_all add: put_reg_def)

lemma SetValueEx_frame [simp]:
  "m_iLastRegistersOffset (DianaProcessor_SetValueEx r i v n p) = m_iLastRegistersOffset p"
  "m_registersVectorSize (DianaProcessor_SetValueEx r i v n p) = m_registersVectorSize p"
  "m_registers (DianaProcessor_SetValueEx r i v n p) = m_registers p"
  "m_pMemoryStream (DianaProcessor_SetValueEx r i v n p) = m_pMemoryStream p"
  "m_memory (DianaProcessor_SetValueEx r i v n p) = m_memory p"
  "m_context (DianaProcessor_SetValueEx r i v n p) = m_context p"
  "m_result (DianaProcessor_SetValueEx r i v n p) = m_result p"
  "m_stateFlagsToRemove (DianaProcessor_SetValueEx r i v n p) = m_stateFlagsToRemove p"
  "m_tempRIP (DianaProcessor_SetValueEx r i v n p) = m_tempRIP p"
  "m_firePoints (DianaProcessor_SetValueEx r i v n p) = m_firePoints p"
  "m_fpu (DianaProcessor_SetValueEx r i v n p) = m_fpu p"
  "m_options (DianaProcessor_SetValueEx r i v n p) = m_options p"
  "m_initialDianaMode (DianaProcessor_SetValueEx r i v n p) = m_initialDianaMode p"
  "m_lastCallRIP (DianaProcessor_SetValueEx r i v n p) = m_lastCallRIP p"
  "m_lastCallRSP (DianaProcessor_SetValueEx r i v n p) = m_lastCallRSP p"
  "m_random (DianaProcessor_SetValueEx r i v n p) = m_random p"
  "m_mxcsr (DianaProcessor_SetValueEx r i v n p) = m_mxcsr p"
  "m_pkru (DianaProcessor_SetValueEx r i v n p) = m_pkru p"
  by (simp_all add: DianaProcessor_SetValueEx_def Let_def)

lemma SetValue_frame [simp]:
  "m_iLastRegistersOffset (DianaProcessor_SetValue r i v p) = m_iLastRegistersOffset p"
  "m_registersVectorSize (DianaProcessor_SetValue r i v p) = m_registersVectorSize p"
  "m_registers (DianaProcessor_SetValue r i v p) = m_registers p"
  "m_pMemoryStream (DianaProcessor_SetValue r i v p) = m_pMemoryStream p"
  "m_memory (DianaProcessor_SetValue r i v p) = m_memory p"
  "m_context (DianaProcessor_SetValue r i v p) = m_context p"
  "m_result (DianaProcessor_SetValue r i v p) = m_result p"
  "m_stateFlagsToRemove (DianaProcessor_SetValue r i v p) = m_stateFlagsToRemove p"
  "m_tempRIP (DianaProcessor_SetValue r i v p) = m_tempRIP p"
  "m_firePoints (DianaProcessor_SetValue r i v p) = m_firePoints p"
  "m_fpu (DianaProcessor_SetValue r i v p) = m_fpu p"
  "m_options (DianaProcessor_SetValue r i v p) = m_options p"
  "m_initialDianaMode (DianaProcessor_SetValue r i v p) = m_initialDianaMode p"
  "m_lastCallRIP (DianaProcessor_SetValue r i v p) = m_lastCallRIP p"
  "m_lastCallRSP (DianaProcessor_SetValue r i v p) = m_lastCallRSP p"
  "m_random (DianaProcessor_SetValue r i v p) = m_random p"
  "m_mxcsr (DianaProcessor_SetValue r i v p) = m_mxcsr p"
  "m_pkru (DianaProcessor_SetValue r i v p) = m_pkru p"
  by (simp_all add: DianaProcessor_SetValue_def)

lemma SET_REG_frame [simp]:
  "m_iLastRegistersOffset (SET_REG r v p) = m_iLastRegistersOffset p"
  "m_registersVectorSize (SET_REG r v p) = m_registersVectorSize p"
  "m_registers (SET_REG r v p) = m_registers p"
  "m_pMemoryStream (SET_REG r v p) = m_pMemoryStream p"
  "m_memory (SET_REG r v p) = m_memory p"
  "m_context (SET_REG r v p) = m_context p"
  "m_result (SET_REG r v p) = m_result p"
  "m_stateFlagsToRemove (SET_REG r v p) = m_stateFlagsToRemove p"
  "m_tempRIP (SET_REG r v p) = m_tempRIP p"
  "m_firePoints (SET_REG r v p) = m_firePoints p"
  "m_fpu (SET_REG r v p) = m_fpu p"
  "m_options (SET_REG r v p) = m_options p"
  "m_initialDianaMode (SET_REG r v p) = m_initialDianaMode p"
  "m_lastCallRIP (SET_REG r v p) = m_lastCallRIP p"
  "m_lastCallRSP (SET_REG r v p) = m_lastCallRSP p"
  "m_random (SET_REG r v p) = m_random p"
  "m_mxcsr (SET_REG r v p) = m_mxcsr p"
  "m_pkru (SET_REG r v p) = m_pkru p"
  by (simp_all add: SET_REG_def)

lemma SET_REG2_frame [simp]:
  "m_iLastRegistersOffset (SET_REG2 r v n p) = m_iLastRegistersOffset p"
  "m_registersVectorSize (SET_REG2 r v n p) = m_registersVectorSize p"
  "m_registers (SET_REG2 r v n p) = m_registers p"
  "m_pMemoryStream (SET_REG2 r v n p) = m_pMemoryStream p"
  "m_memory (SET_REG2 r v n p) = m_memory p"
  "m_context (SET_REG2 r v n p) = m_context p"
  "m_result (SET_REG2 r v n p) = m_result p"
  "m_stateFlagsToRemove (SET_REG2 r v n p) = m_stateFlagsToRemove p"
  "m_tempRIP (SET_REG2 r v n p) = m_tempRIP p"
  "m_firePoints (SET_REG2 r v n p) = m_firePoints p"
  "m_fpu (SET_REG2 r v n p) = m_fpu p"
  "m_options (SET_REG2 r v n p) = m_options p"
  "m_initialDianaMode (SET_REG2 r v n p) = m_initialDianaMode p"
  "m_lastCallRIP (SET_REG2 r v n p) = m_lastCallRIP p"
  "m_lastCallRSP (SET_REG2 r v n p) = m_lastCallRSP p"
  "m_random (SET_REG2 r v n p) = m_random p"
  "m_mxcsr (SET_REG2 r v n p) = m_mxcsr p"
  "m_pkru (SET_REG2 r v n p) = m_pkru p"
  by (simp_all add: SET_REG2_def)

end
