(* ===== verification/Register_Access.thy ===== *)
theory Register_Access
  imports Processor_Registers
begin

unbundle bit_operations_syntax

text \<open>
  What a register holds after a write.  The contract \<open>register_file\<close> states the laws of a file of
  independent registers and derives what exchanging and saving registers rests on; the sixteen 64-bit general registers of the emulator satisfy
  it.  The aliasing of the 8, 16 and 32-bit parts, with the clearing of the upper
  half in 64-bit mode, is stated on its own.
\<close>

section \<open>Plain registers\<close>

definition plain_reg :: "DianaUnifiedRegister \<Rightarrow> bool" where
  "plain_reg r \<longleftrightarrow> \<not> (reg_fpu_ST0 \<le> r \<and> r \<le> reg_fpu_ST7) \<and> \<not> (reg_MM0 \<le> r \<and> r \<le> reg_MM7)"

definition is_r32 :: "DianaUnifiedRegister \<Rightarrow> bool" where
  "is_r32 r \<longleftrightarrow> (reg_EAX \<le> r \<and> r \<le> reg_EDI) \<or> (reg_R8D \<le> r \<and> r \<le> reg_R15D)"

lemma QueryReg_plain: "plain_reg r \<Longrightarrow> DianaProcessor_QueryReg p r = m_registers p r"
  by (auto simp: plain_reg_def DianaProcessor_QueryReg_def)

lemma std_regs_SET_REG [simp]: "std_regs (SET_REG r v p) = std_regs p"
  by (simp add: std_regs_def)

lemma std_regs_SET_REG2 [simp]: "std_regs (SET_REG2 r v n p) = std_regs p"
  by (simp add: std_regs_def)

text \<open>A register occupies \<open>n\<close> bytes of the vector from \<open>off\<close>.\<close>

definition reg_at :: "DianaUnifiedRegister \<Rightarrow> nat \<Rightarrow> nat \<Rightarrow> bool" where
  "reg_at r off n \<longleftrightarrow> plain_reg r \<and> x86_layout r = \<lparr>m_size = int n, m_offset = int off\<rparr>
     \<and> (n = 1 \<or> n = 2 \<or> n = 4 \<or> n = 8)"

lemma GET_REG_at: "std_regs p \<Longrightarrow> reg_at r off n \<Longrightarrow> GET_REG r p = vec_get (m_pRegistersVector p) off n"
  by (auto simp: reg_at_def GET_REG_def QueryReg_plain std_regs_def DianaProcessor_GetValue_def
      DianaProcessor_GetValueEx_def Let_def)

lemma SET_REG_at:
  assumes "std_regs p" "reg_at r off n"
  shows "m_pRegistersVector (SET_REG r v p) =
     (if amd64 p \<and> n = 4 \<and> is_r32 r then vec_put (m_pRegistersVector p) off 8 (take_bit 32 v)
      else vec_put (m_pRegistersVector p) off n v)"
  using assms by (auto simp: reg_at_def SET_REG_def QueryReg_plain std_regs_def DianaProcessor_SetValue_def
      DianaProcessor_SetValueEx_def put_reg_def is_r32_def Let_def)

lemma GET_REG2_at:
  "std_regs p \<Longrightarrow> plain_reg r \<Longrightarrow> m_offset (x86_layout r) = int off \<Longrightarrow> valid_size n \<Longrightarrow>
   GET_REG2 r n p = vec_get (m_pRegistersVector p) off (nat n)"
  by (auto simp: GET_REG2_def QueryReg_plain std_regs_def DianaProcessor_GetValueEx_def Let_def valid_size_def)

lemma SET_REG2_at:
  "std_regs p \<Longrightarrow> plain_reg r \<Longrightarrow> m_offset (x86_layout r) = int off \<Longrightarrow> valid_size n \<Longrightarrow> \<not> is_r32 r \<Longrightarrow>
   m_pRegistersVector (SET_REG2 r v n p) = vec_put (m_pRegistersVector p) off (nat n) v"
  by (auto simp: SET_REG2_def QueryReg_plain std_regs_def DianaProcessor_SetValueEx_def put_reg_def
      Let_def valid_size_def is_r32_def)

lemma stateFlags_SetValueEx [simp]:
  "m_stateFlags (DianaProcessor_SetValueEx r i v n p) =
     (if r = reg_RIP \<or> r = reg_IP then m_stateFlags p OR DI_PROC_STATE_RIP_CHANGED else m_stateFlags p)"
  by (simp add: DianaProcessor_SetValueEx_def Let_def)

lemma stateFlags_SET_REG [simp]:
  "m_stateFlags (SET_REG r v p) =
     (if r = reg_RIP \<or> r = reg_IP then m_stateFlags p OR DI_PROC_STATE_RIP_CHANGED else m_stateFlags p)"
  "m_stateFlags (SET_REG2 r v n p) =
     (if r = reg_RIP \<or> r = reg_IP then m_stateFlags p OR DI_PROC_STATE_RIP_CHANGED else m_stateFlags p)"
  by (simp_all add: SET_REG_def SET_REG2_def DianaProcessor_SetValue_def)

definition psz_off :: "'m DianaProcessor \<Rightarrow> bool" where
  "psz_off p \<longleftrightarrow> m_stateFlags p AND DI_PROC_STATE_UPDATE_FLAGS_PSZ = 0"

lemma flags_SetValueEx [simp]: "psz_off p \<Longrightarrow> m_flags (DianaProcessor_SetValueEx r i v n p) = m_flags p"
  by (auto simp: DianaProcessor_SetValueEx_def psz_off_def Let_def put_reg_def and_eq_0_distrib)

lemma flags_SET_REG [simp]:
  "psz_off p \<Longrightarrow> m_flags (SET_REG r v p) = m_flags p"
  "psz_off p \<Longrightarrow> m_flags (SET_REG2 r v n p) = m_flags p"
  by (simp_all add: SET_REG_def SET_REG2_def DianaProcessor_SetValue_def)

section \<open>The contract of a register file\<close>

locale register_file =
  fixes rd :: "'r \<Rightarrow> 's \<Rightarrow> 'v"
    and wr :: "'r \<Rightarrow> 'v \<Rightarrow> 's \<Rightarrow> 's"
    and regs :: "'r set"
    and ok :: "'s \<Rightarrow> bool"
  assumes wr_ok: "ok s \<Longrightarrow> r \<in> regs \<Longrightarrow> ok (wr r v s)"
    and rd_wr_same: "ok s \<Longrightarrow> r \<in> regs \<Longrightarrow> rd r (wr r v s) = v"
    and rd_wr_other: "ok s \<Longrightarrow> r \<in> regs \<Longrightarrow> r' \<in> regs \<Longrightarrow> r \<noteq> r' \<Longrightarrow> rd r' (wr r v s) = rd r' s"
begin

definition wr_list :: "('r \<times> 'v) list \<Rightarrow> 's \<Rightarrow> 's" where
  "wr_list us s = fold (\<lambda>(r, v). wr r v) us s"

lemma wr_list_ok: "ok s \<Longrightarrow> fst ` set us \<subseteq> regs \<Longrightarrow> ok (wr_list us s)"
  unfolding wr_list_def by (induction us arbitrary: s) (auto simp: wr_ok)

lemma rd_wr_list_other:
  "ok s \<Longrightarrow> fst ` set us \<subseteq> regs \<Longrightarrow> r \<in> regs \<Longrightarrow> r \<notin> fst ` set us \<Longrightarrow> rd r (wr_list us s) = rd r s"
  unfolding wr_list_def
proof (induction us arbitrary: s)
  case (Cons u us)
  then show ?case
    using rd_wr_other [of s "fst u" r "snd u"] wr_ok [of s "fst u" "snd u"] by (auto simp: split_def)
qed simp

lemma rd_wr_list:
  "ok s \<Longrightarrow> fst ` set us \<subseteq> regs \<Longrightarrow> distinct (map fst us) \<Longrightarrow> (r, v) \<in> set us \<Longrightarrow> rd r (wr_list us s) = v"
proof (induction us arbitrary: s)
  case (Cons u us)
  have ok: "ok (wr (fst u) (snd u) s)"
    using Cons.prems by (intro wr_ok) auto
  have step: "wr_list (u # us) s = wr_list us (wr (fst u) (snd u) s)"
    by (simp add: wr_list_def split_def)
  show ?case
  proof (cases "(r, v) = u")
    case True
    then have "r \<notin> fst ` set us" "r \<in> regs"
      using Cons.prems by force+
    then show ?thesis
      using rd_wr_list_other [OF ok, of us r] rd_wr_same [of s r v] Cons.prems True
      unfolding step by auto
  next
    case False
    then show ?thesis
      unfolding step using Cons.IH [OF ok] Cons.prems by auto
  qed
qed simp

lemma exchange:
  assumes "ok s" "a \<in> regs" "b \<in> regs"
  shows "rd a (wr a (rd b s) (wr b (rd a s) s)) = rd b s"
    and "rd b (wr a (rd b s) (wr b (rd a s) s)) = rd a s"
  using assms by (cases "a = b"; simp add: wr_ok rd_wr_same rd_wr_other)+

end

section \<open>The sixteen 64-bit registers\<close>

definition gpr64 :: "DianaUnifiedRegister set" where
  "gpr64 = {reg_RAX..reg_RDI} \<union> {reg_R8..reg_R15}"

definition gpr64_index :: "DianaUnifiedRegister \<Rightarrow> int" where
  "gpr64_index r = (if r \<le> reg_RDI then r - reg_RAX else r - reg_R8 + 8)"

lemma gpr64_cases:
  assumes "r \<in> gpr64"
  obtains "r = reg_RAX" | "r = reg_RCX" | "r = reg_RDX" | "r = reg_RBX" | "r = reg_RSP" | "r = reg_RBP"
    | "r = reg_RSI" | "r = reg_RDI" | "r = reg_R8" | "r = reg_R9" | "r = reg_R10" | "r = reg_R11"
    | "r = reg_R12" | "r = reg_R13" | "r = reg_R14" | "r = reg_R15"
proof -
  have "r = reg_RAX \<or> r = reg_RCX \<or> r = reg_RDX \<or> r = reg_RBX \<or> r = reg_RSP \<or> r = reg_RBP
    \<or> r = reg_RSI \<or> r = reg_RDI \<or> r = reg_R8 \<or> r = reg_R9 \<or> r = reg_R10 \<or> r = reg_R11
    \<or> r = reg_R12 \<or> r = reg_R13 \<or> r = reg_R14 \<or> r = reg_R15"
    using assms unfolding gpr64_def atLeastAtMost_iff Un_iff by presburger
  then show ?thesis
    using that by argo
qed

lemma gpr64_at: "r \<in> gpr64 \<Longrightarrow> reg_at r (nat (8 * gpr64_index r)) 8"
  by (elim gpr64_cases) (simp_all add: reg_at_def plain_reg_def gpr64_index_def reg_simps)

lemma gpr64_index_inj: "r \<in> gpr64 \<Longrightarrow> r' \<in> gpr64 \<Longrightarrow> gpr64_index r = gpr64_index r' \<Longrightarrow> r = r'"
  by (auto simp: gpr64_def gpr64_index_def split: if_splits)

lemma gpr64_index_range: "r \<in> gpr64 \<Longrightarrow> 0 \<le> gpr64_index r \<and> gpr64_index r < 16"
  by (auto simp: gpr64_def gpr64_index_def)

lemma GET_SET_gpr64_same:
  assumes "std_regs p" "r \<in> gpr64"
  shows "GET_REG r (SET_REG r v p) = v"
  using GET_REG_at [of "SET_REG r v p", OF _ gpr64_at [OF assms(2)]] SET_REG_at [OF assms(1) gpr64_at [OF assms(2)], of v]
    assms(1) by (simp add: vec_get_put_same)

lemma GET_SET_gpr64_other:
  assumes "std_regs p" "r \<in> gpr64" "r' \<in> gpr64" "r \<noteq> r'"
  shows "GET_REG r' (SET_REG r v p) = GET_REG r' p"
proof -
  have "gpr64_index r \<noteq> gpr64_index r'"
    using assms gpr64_index_inj by blast
  then have "nat (8 * gpr64_index r) + 8 \<le> nat (8 * gpr64_index r') \<or> nat (8 * gpr64_index r') + 8 \<le> nat (8 * gpr64_index r)"
    using gpr64_index_range [OF assms(2)] gpr64_index_range [OF assms(3)] by linarith
  then show ?thesis
    using GET_REG_at [of "SET_REG r v p", OF _ gpr64_at [OF assms(3)]] SET_REG_at [OF assms(1) gpr64_at [OF assms(2)], of v]
      GET_REG_at [OF assms(1) gpr64_at [OF assms(3)]] assms(1) by (simp add: vec_get_put_disjoint)
qed

interpretation gpr: register_file GET_REG SET_REG gpr64 std_regs
  by unfold_locales (simp_all add: GET_SET_gpr64_same GET_SET_gpr64_other)

section \<open>Partial registers\<close>

text \<open>The registers of the \<open>i\<close>-th general register: RAX, RCX, RDX, RBX, RSP, RBP, RSI, RDI.\<close>

lemma below_8: "0 \<le> (i :: int) \<Longrightarrow> i < 8 \<Longrightarrow>
    i = 0 \<or> i = 1 \<or> i = 2 \<or> i = 3 \<or> i = 4 \<or> i = 5 \<or> i = 6 \<or> i = 7"
  by presburger

lemma family_at:
  assumes "0 \<le> i" "i < 8"
  shows "reg_at (reg_RAX + i) (nat (8 * i)) 8" "reg_at (reg_EAX + i) (nat (8 * i)) 4"
    and "reg_at (reg_AX + i) (nat (8 * i)) 2"
  using below_8 [OF assms]
  by (elim disjE; simp add: reg_at_def plain_reg_def reg_simps)+

lemma byte_family_at:
  assumes "0 \<le> i" "i < 4"
  shows "reg_at (reg_AL + i) (nat (8 * i)) 1" "reg_at (reg_AH + i) (nat (8 * i) + 1) 1"
proof -
  have "i = 0 \<or> i = 1 \<or> i = 2 \<or> i = 3"
    using assms by presburger
  then show "reg_at (reg_AL + i) (nat (8 * i)) 1" "reg_at (reg_AH + i) (nat (8 * i) + 1) 1"
    by (elim disjE; simp add: reg_at_def plain_reg_def reg_simps)+
qed

lemma vec_get_byte1: "vec_get v (off + 1) 1 = take_bit 8 (drop_bit 8 (vec_get v off 8))"
proof (rule bit_word_eqI)
  fix n assume "n < LENGTH(64)"
  have "n < 8 \<Longrightarrow> (8 + n) div 8 = 1 \<and> (8 + n) mod 8 = n"
    by simp
  with \<open>n < LENGTH(64)\<close> show "bit (vec_get v (off + 1) 1) n = bit (take_bit 8 (drop_bit 8 (vec_get v off 8))) n"
    by (auto simp: bit_vec_get bit_simps)
qed

lemma read_family:
  assumes "std_regs p" "0 \<le> i" "i < 8"
  shows "GET_REG (reg_EAX + i) p = take_bit 32 (GET_REG (reg_RAX + i) p)"
    and "GET_REG (reg_AX + i) p = take_bit 16 (GET_REG (reg_RAX + i) p)"
  using GET_REG_at [OF assms(1) family_at(1) [OF assms(2,3)]] GET_REG_at [OF assms(1) family_at(2) [OF assms(2,3)]]
    GET_REG_at [OF assms(1) family_at(3) [OF assms(2,3)]] vec_get_prefix [of 4 8] vec_get_prefix [of 2 8]
  by simp_all

lemma read_byte_family:
  assumes "std_regs p" "0 \<le> i" "i < 4"
  shows "GET_REG (reg_AL + i) p = take_bit 8 (GET_REG (reg_RAX + i) p)"
    and "GET_REG (reg_AH + i) p = take_bit 8 (drop_bit 8 (GET_REG (reg_RAX + i) p))"
proof -
  have i: "i < 8" using assms by simp
  show "GET_REG (reg_AL + i) p = take_bit 8 (GET_REG (reg_RAX + i) p)"
    using GET_REG_at [OF assms(1) byte_family_at(1) [OF assms(2,3)]] GET_REG_at [OF assms(1) family_at(1) [OF assms(2) i]]
      vec_get_prefix [of 1 8] by simp
  show "GET_REG (reg_AH + i) p = take_bit 8 (drop_bit 8 (GET_REG (reg_RAX + i) p))"
    using GET_REG_at [OF assms(1) byte_family_at(2) [OF assms(2,3)]] GET_REG_at [OF assms(1) family_at(1) [OF assms(2) i]]
      vec_get_byte1 by simp
qed

lemma write_family:
  assumes "std_regs p" "0 \<le> i" "i < 8"
  shows "GET_REG (reg_RAX + i) (SET_REG (reg_RAX + i) v p) = v"
    and "amd64 p \<Longrightarrow> GET_REG (reg_RAX + i) (SET_REG (reg_EAX + i) v p) = take_bit 32 v"
    and "\<not> amd64 p \<Longrightarrow> GET_REG (reg_RAX + i) (SET_REG (reg_EAX + i) v p) =
      (GET_REG (reg_RAX + i) p AND NOT (mask 32)) OR take_bit 32 v"
    and "GET_REG (reg_RAX + i) (SET_REG (reg_AX + i) v p) =
      (GET_REG (reg_RAX + i) p AND NOT (mask 16)) OR take_bit 16 v"
proof -
  note at = family_at [OF assms(2,3)]
  have std: "std_regs (SET_REG r v p)" for r
    using assms(1) by simp
  have r32: "is_r32 (reg_EAX + i)"
    using assms(2,3) by (simp add: is_r32_def)
  note get = GET_REG_at [OF std at(1)] GET_REG_at [OF assms(1) at(1)]
  note set = SET_REG_at [OF assms(1) at(1), of v] SET_REG_at [OF assms(1) at(2), of v] SET_REG_at [OF assms(1) at(3), of v]
  show "GET_REG (reg_RAX + i) (SET_REG (reg_RAX + i) v p) = v"
    unfolding get set by (simp add: vec_get_put_same)
  show "amd64 p \<Longrightarrow> GET_REG (reg_RAX + i) (SET_REG (reg_EAX + i) v p) = take_bit 32 v"
    unfolding get set by (simp add: vec_get_put_same r32)
  show "\<not> amd64 p \<Longrightarrow> GET_REG (reg_RAX + i) (SET_REG (reg_EAX + i) v p) =
      (GET_REG (reg_RAX + i) p AND NOT (mask 32)) OR take_bit 32 v"
    unfolding get set by (simp add: vec_get_put_inside)
  show "GET_REG (reg_RAX + i) (SET_REG (reg_AX + i) v p) =
      (GET_REG (reg_RAX + i) p AND NOT (mask 16)) OR take_bit 16 v"
    unfolding get set by (simp add: vec_get_put_inside)
qed

lemma write_byte_family:
  assumes "std_regs p" "0 \<le> i" "i < 4"
  shows "GET_REG (reg_RAX + i) (SET_REG (reg_AL + i) v p) =
      (GET_REG (reg_RAX + i) p AND NOT (mask 8)) OR take_bit 8 v"
    and "GET_REG (reg_RAX + i) (SET_REG (reg_AH + i) v p) =
      (GET_REG (reg_RAX + i) p AND NOT (push_bit 8 (mask 8))) OR push_bit 8 (take_bit 8 v)"
proof -
  have i: "i < 8" using assms by simp
  have std: "std_regs (SET_REG r v p)" for r
    using assms(1) by simp
  note at = family_at(1) [OF assms(2) i]
  note get = GET_REG_at [OF std at] GET_REG_at [OF assms(1) at]
  note set = SET_REG_at [OF assms(1) byte_family_at(1) [OF assms(2,3)], of v]
    SET_REG_at [OF assms(1) byte_family_at(2) [OF assms(2,3)], of v]
  show "GET_REG (reg_RAX + i) (SET_REG (reg_AL + i) v p) =
      (GET_REG (reg_RAX + i) p AND NOT (mask 8)) OR take_bit 8 v"
    unfolding get set by (simp add: vec_get_put_inside)
  show "GET_REG (reg_RAX + i) (SET_REG (reg_AH + i) v p) =
      (GET_REG (reg_RAX + i) p AND NOT (push_bit 8 (mask 8))) OR push_bit 8 (take_bit 8 v)"
    unfolding get set by (simp add: vec_get_put_inside)
qed

lemma fits_vec_get: "fits (int n) (vec_get v off n)"
  unfolding fits_def bits_of_def by (rule bit_word_eqI) (auto simp: bit_simps bit_vec_get)

lemma fits_GET_REG: "std_regs p \<Longrightarrow> reg_at r off n \<Longrightarrow> fits (int n) (GET_REG r p)"
  by (simp add: GET_REG_at fits_vec_get)

end
