(* ===== verification/Processor_Memory.thy ===== *)
theory Processor_Memory
  imports Register_Access
begin

unbundle bit_operations_syntax

text \<open>
  Memory: the random stream over a flat buffer (\<^verbatim>\<open>diana_processor_streams.c\<close>) and the accesses of the
  processor through its stream (\<^verbatim>\<open>diana_processor_specific.h\<close>, \<^verbatim>\<open>diana_processor_core_impl.c\<close>).  The contract
  \<open>memory_stream\<close> says what the emulator needs of a stream: a mapped range is read and written in
  full, and a read gives back what was written.  The flat buffer satisfies it; the round trip of
  \<^verbatim>\<open>DianaProcessor_SetMemValue\<close> and \<^verbatim>\<open>DianaProcessor_GetMemValue\<close> is proved from it.
\<close>

section \<open>The stream over a buffer\<close>

record DianaRandomMemoryStream =
  pBuffer :: "u8 list"
  bufferSize :: u64
  segmentSize :: u64

text \<open>
  \<^verbatim>\<open>DIANA_MEMCPY\<close> outside the buffer, or past the data handed in, is undefined.  The result is
  the data delivered by a read and the count \<^verbatim>\<open>*readed\<close>.
\<close>

definition MemoryRandomStream_ReadWrite ::
    "DianaRandomMemoryStream \<Rightarrow> u64 \<Rightarrow> u64 \<Rightarrow> u8 list \<Rightarrow> u64 \<Rightarrow> bool \<Rightarrow> (u8 list \<times> u64, DianaRandomMemoryStream) di_res" where
  "MemoryRandomStream_ReadWrite s selector offset_in data iBufferSize bWrite =
     (let segmentOffset = selector * segmentSize s;
          offset = segmentOffset + offset_in
      in
      if offset > bufferSize s then Err DI_ERROR s
      else
        let rest = bufferSize s - offset;
            sizeToGive = (if rest > iBufferSize then iBufferSize else rest);
            o' = unat offset;
            n = unat sizeToGive
        in
        if o' + n > length (pBuffer s) \<or> (bWrite \<and> n > length data) then Err C_UNDEFINED s
        else if bWrite then
          Ok ([], sizeToGive) (s\<lparr>pBuffer := take o' (pBuffer s) @ take n data @ drop (o' + n) (pBuffer s)\<rparr>)
        else Ok (take n (drop o' (pBuffer s)), sizeToGive) s)"

definition MemoryRandomStream_Read ::
    "DianaRandomMemoryStream \<Rightarrow> u64 \<Rightarrow> u64 \<Rightarrow> u64 \<Rightarrow> DianaUnifiedRegister \<Rightarrow> (u8 list, DianaRandomMemoryStream) di_res" where
  "MemoryRandomStream_Read s selector offset iBufferSize segReg =
     (case MemoryRandomStream_ReadWrite s selector offset [] iBufferSize False of
        Ok (bs, readed) s' \<Rightarrow> Ok bs s'
      | Err e s' \<Rightarrow> Err e s')"

definition MemoryRandomStream_Write ::
    "DianaRandomMemoryStream \<Rightarrow> u64 \<Rightarrow> u64 \<Rightarrow> u8 list \<Rightarrow> DianaUnifiedRegister \<Rightarrow> (u64, DianaRandomMemoryStream) di_res" where
  "MemoryRandomStream_Write s selector offset data segReg =
     (case MemoryRandomStream_ReadWrite s selector offset data (of_nat (length data)) True of
        Ok (bs, wrote) s' \<Rightarrow> Ok wrote s'
      | Err e s' \<Rightarrow> Err e s')"

definition Diana_InitRandomMemoryStream ::
    "u8 list \<Rightarrow> u64 \<Rightarrow> u64 \<Rightarrow> DianaRandomMemoryStream \<times> DianaRandomMemoryStream DianaRandomReadWriteStream" where
  "Diana_InitRandomMemoryStream buf bufSize segSize =
     (\<lparr>pBuffer = buf, bufferSize = bufSize, segmentSize = segSize\<rparr>,
      \<lparr>pReadFnc = MemoryRandomStream_Read, pWriteFnc = MemoryRandomStream_Write\<rparr>)"

section \<open>Accesses of the processor\<close>

definition DianaProcessor_ReadMemory :: "u64 \<Rightarrow> u64 \<Rightarrow> u64 \<Rightarrow> DianaUnifiedRegister \<Rightarrow> (u8 list, 'm) di_cmd" where
  "DianaProcessor_ReadMemory selector offset iBufferSize segReg p =
     (case pReadFnc (m_pMemoryStream p) (m_memory p) selector offset iBufferSize segReg of
        Ok bs m \<Rightarrow> Ok bs (p\<lparr>m_memory := m\<rparr>)
      | Err e m \<Rightarrow> Err e (p\<lparr>m_memory := m\<rparr>))"

definition DianaProcessor_ReadMemory_Exact :: "u64 \<Rightarrow> u64 \<Rightarrow> u64 \<Rightarrow> DianaUnifiedRegister \<Rightarrow> (u8 list, 'm) di_cmd" where
  "DianaProcessor_ReadMemory_Exact selector offset iBufferSize segReg =
     DI_CHECK (DianaProcessor_ReadMemory selector offset iBufferSize segReg) (\<lambda>bs.
     if of_nat (length bs) \<noteq> iBufferSize then DI_FAIL DI_PARTIAL_READ_WRITE else DI_RETURN bs)"

definition DianaProcessor_WriteMemory :: "u64 \<Rightarrow> u64 \<Rightarrow> u8 list \<Rightarrow> DianaUnifiedRegister \<Rightarrow> (u64, 'm) di_cmd" where
  "DianaProcessor_WriteMemory selector offset data segReg p =
     (case pWriteFnc (m_pMemoryStream p) (m_memory p) selector offset data segReg of
        Ok n m \<Rightarrow> Ok n (p\<lparr>m_memory := m\<rparr>)
      | Err e m \<Rightarrow> Err e (p\<lparr>m_memory := m\<rparr>))"

text \<open>
  \<^verbatim>\<open>DianaProcessor_GetMemValue\<close> with the three things it yields: the status, what \<^verbatim>\<open>*pResult\<close> holds on return
  (it is cleared first, so a failing read leaves 0, a short one the bytes that came) and the state.  A stream
  that delivers more than the eight bytes of \<^verbatim>\<open>*pResult\<close> overruns it.
\<close>

definition DianaProcessor_GetMemValue_raw ::
    "u64 \<Rightarrow> u64 \<Rightarrow> u64 \<Rightarrow> DianaUnifiedRegister \<Rightarrow> 'm DianaProcessor \<Rightarrow> di_error option \<times> u64 \<times> 'm DianaProcessor" where
  "DianaProcessor_GetMemValue_raw selector offset sz segReg p =
     (case pReadFnc (m_pMemoryStream p) (m_memory p) selector offset sz segReg of
        Err e m \<Rightarrow> (Some e, 0, p\<lparr>m_memory := m\<rparr>)
      | Ok bs m \<Rightarrow>
          (if length bs > 8 then Some C_UNDEFINED
           else if of_nat (length bs) \<noteq> sz then Some DI_ERROR else None, le_word bs, p\<lparr>m_memory := m\<rparr>))"

definition DianaProcessor_GetMemValue :: "u64 \<Rightarrow> u64 \<Rightarrow> u64 \<Rightarrow> DianaUnifiedRegister \<Rightarrow> (u64, 'm) di_cmd" where
  "DianaProcessor_GetMemValue selector offset sz segReg p =
     (case DianaProcessor_GetMemValue_raw selector offset sz segReg p of
        (None, v, p') \<Rightarrow> Ok v p'
      | (Some e, v, p') \<Rightarrow> Err e p')"

definition DianaProcessor_SetMemValue :: "u64 \<Rightarrow> u64 \<Rightarrow> u64 \<Rightarrow> u64 \<Rightarrow> DianaUnifiedRegister \<Rightarrow> (unit, 'm) di_cmd" where
  "DianaProcessor_SetMemValue selector offset sz v segReg p =
     (if sz > 8 then Err C_UNDEFINED p
      else case pWriteFnc (m_pMemoryStream p) (m_memory p) selector offset (le_bytes (unat sz) v) segReg of
        Err e m \<Rightarrow> Err e (p\<lparr>m_memory := m\<rparr>)
      | Ok wrote m \<Rightarrow> if wrote \<noteq> sz then Err DI_ERROR (p\<lparr>m_memory := m\<rparr>) else Ok () (p\<lparr>m_memory := m\<rparr>))"

section \<open>The contract of a memory stream\<close>

text \<open>The processor works on a memory that its stream functions \<open>rd\<close> and \<open>wr\<close> serve and that satisfies \<open>ok\<close>.\<close>

definition stream_attached ::
    "('m \<Rightarrow> u64 \<Rightarrow> u64 \<Rightarrow> u64 \<Rightarrow> DianaUnifiedRegister \<Rightarrow> (u8 list, 'm) di_res) \<Rightarrow>
     ('m \<Rightarrow> u64 \<Rightarrow> u64 \<Rightarrow> u8 list \<Rightarrow> DianaUnifiedRegister \<Rightarrow> (u64, 'm) di_res) \<Rightarrow>
     ('m \<Rightarrow> bool) \<Rightarrow> 'm DianaProcessor \<Rightarrow> bool" where
  "stream_attached rd wr ok p \<longleftrightarrow>
     pReadFnc (m_pMemoryStream p) = rd \<and> pWriteFnc (m_pMemoryStream p) = wr \<and> ok (m_memory p)"

text \<open>
  \<open>ok s\<close> is the invariant of the memory, \<open>mapped s sel off n\<close> says that the range is there,
  \<open>apart s sel off n sel' off' m\<close> that two ranges do not meet.
\<close>

locale memory_stream =
  fixes rd :: "'m \<Rightarrow> u64 \<Rightarrow> u64 \<Rightarrow> u64 \<Rightarrow> DianaUnifiedRegister \<Rightarrow> (u8 list, 'm) di_res"
    and wr :: "'m \<Rightarrow> u64 \<Rightarrow> u64 \<Rightarrow> u8 list \<Rightarrow> DianaUnifiedRegister \<Rightarrow> (u64, 'm) di_res"
    and ok :: "'m \<Rightarrow> bool"
    and mapped :: "'m \<Rightarrow> u64 \<Rightarrow> u64 \<Rightarrow> nat \<Rightarrow> bool"
    and apart :: "'m \<Rightarrow> u64 \<Rightarrow> u64 \<Rightarrow> nat \<Rightarrow> u64 \<Rightarrow> u64 \<Rightarrow> nat \<Rightarrow> bool"
  assumes rd_mapped: "ok s \<Longrightarrow> mapped s sel off n \<Longrightarrow> n \<le> 8 \<Longrightarrow>
      \<exists>bs. rd s sel off (of_nat n) seg = Ok bs s \<and> length bs = n"
    and wr_mapped: "ok s \<Longrightarrow> mapped s sel off (length bs) \<Longrightarrow> length bs \<le> 8 \<Longrightarrow>
      \<exists>s'. wr s sel off bs seg = Ok (of_nat (length bs)) s' \<and> ok s'"
    and mapped_wr: "ok s \<Longrightarrow> wr s sel off bs seg = Ok k s' \<Longrightarrow> mapped s' = mapped s \<and> apart s' = apart s"
    and rd_wr_same: "ok s \<Longrightarrow> mapped s sel off (length bs) \<Longrightarrow> length bs \<le> 8 \<Longrightarrow> wr s sel off bs seg = Ok k s' \<Longrightarrow>
      rd s' sel off (of_nat (length bs)) seg' = Ok bs s'"
    and rd_wr_apart: "ok s \<Longrightarrow> mapped s sel off (length bs) \<Longrightarrow> mapped s sel' off' n \<Longrightarrow>
      length bs \<le> 8 \<Longrightarrow> n \<le> 8 \<Longrightarrow> apart s sel off (length bs) sel' off' n \<Longrightarrow> wr s sel off bs seg = Ok k s' \<Longrightarrow>
      rd s' sel' off' (of_nat n) seg' = Ok ds s' \<longleftrightarrow> rd s sel' off' (of_nat n) seg' = Ok ds s"
begin

abbreviation (input) attached :: "'m DianaProcessor \<Rightarrow> bool" where
  "attached \<equiv> stream_attached rd wr ok"

lemma GetMemValue_mapped:
  assumes "attached p" "mapped (m_memory p) sel off n" "n \<le> 8"
  obtains v where "DianaProcessor_GetMemValue sel off (of_nat n) seg p = Ok v p"
  using rd_mapped [of "m_memory p" sel off n seg] assms
  by (auto simp: stream_attached_def DianaProcessor_GetMemValue_def DianaProcessor_GetMemValue_raw_def)

lemma SetMemValue_mapped:
  assumes "attached p" "mapped (m_memory p) sel off n" "n \<le> 8"
  obtains s' where "DianaProcessor_SetMemValue sel off (of_nat n) v seg p = Ok () (p\<lparr>m_memory := s'\<rparr>)"
    "wr (m_memory p) sel off (le_bytes n v) seg = Ok (of_nat n) s'" "ok s'"
    "mapped s' = mapped (m_memory p)" "apart s' = apart (m_memory p)"
proof -
  have n: "unat (of_nat n :: u64) = n" "(of_nat n :: u64) \<le> 8"
    using assms(3) by (simp_all add: word_le_nat_alt unsigned_of_nat take_bit_nat_eq_self)
  obtain s' where s': "wr (m_memory p) sel off (le_bytes n v) seg = Ok (of_nat n) s'" "ok s'"
    using wr_mapped [of "m_memory p" sel off "le_bytes n v" seg] assms by (auto simp: stream_attached_def)
  with mapped_wr [of "m_memory p" sel off "le_bytes n v" seg "of_nat n" s'] assms n show ?thesis
    by (intro that [of s']) (simp_all add: stream_attached_def DianaProcessor_SetMemValue_def)
qed

lemma SetMemValue_GetMemValue:
  assumes "attached p" "mapped (m_memory p) sel off n" "n \<le> 8"
    and "DianaProcessor_SetMemValue sel off (of_nat n) v seg p = Ok () p'"
  shows "DianaProcessor_GetMemValue sel off (of_nat n) seg' p' = Ok (take_bit (8 * n) v) p'"
proof -
  obtain s' where "DianaProcessor_SetMemValue sel off (of_nat n) v seg p = Ok () (p\<lparr>m_memory := s'\<rparr>)"
    and wr: "wr (m_memory p) sel off (le_bytes n v) seg = Ok (of_nat n) s'"
    by (rule SetMemValue_mapped [OF assms(1-3)])
  with assms(4) have s': "p' = p\<lparr>m_memory := s'\<rparr>" "wr (m_memory p) sel off (le_bytes n v) seg = Ok (of_nat n) s'"
    by simp_all
  have "rd s' sel off (of_nat n) seg' = Ok (le_bytes n v) s'"
    using rd_wr_same [of "m_memory p" sel off "le_bytes n v" seg _ s' seg'] assms s' by (simp add: stream_attached_def)
  then show ?thesis
    using assms(1,3) by (simp add: s'(1) stream_attached_def DianaProcessor_GetMemValue_def
        DianaProcessor_GetMemValue_raw_def le_word_le_bytes)
qed

lemma SetMemValue_GetMemValue_apart:
  assumes "attached p" "mapped (m_memory p) sel off n" "n \<le> 8" "mapped (m_memory p) sel' off' k" "k \<le> 8"
    and "apart (m_memory p) sel off n sel' off' k"
    and "DianaProcessor_SetMemValue sel off (of_nat n) v seg p = Ok () p'"
    and "DianaProcessor_GetMemValue sel' off' (of_nat k) seg' p = Ok w p"
  shows "DianaProcessor_GetMemValue sel' off' (of_nat k) seg' p' = Ok w p'"
proof -
  obtain s' where "DianaProcessor_SetMemValue sel off (of_nat n) v seg p = Ok () (p\<lparr>m_memory := s'\<rparr>)"
    and wr: "wr (m_memory p) sel off (le_bytes n v) seg = Ok (of_nat n) s'"
    by (rule SetMemValue_mapped [OF assms(1-3)])
  with assms(7) have s': "p' = p\<lparr>m_memory := s'\<rparr>" "wr (m_memory p) sel off (le_bytes n v) seg = Ok (of_nat n) s'"
    by simp_all
  obtain bs where bs: "rd (m_memory p) sel' off' (of_nat k) seg' = Ok bs (m_memory p)" "length bs = k"
    using rd_mapped [of "m_memory p" sel' off' k seg'] assms by (auto simp: stream_attached_def)
  have w: "w = le_word bs"
    using assms(1,5,8) bs by (simp add: stream_attached_def DianaProcessor_GetMemValue_def DianaProcessor_GetMemValue_raw_def)
  have "rd s' sel' off' (of_nat k) seg' = Ok bs s'"
    using rd_wr_apart [of "m_memory p" sel off "le_bytes n v" sel' off' k seg _ s' seg' bs] assms s' bs
    by (simp add: stream_attached_def)
  then show ?thesis
    using assms(1,5) bs by (simp add: s'(1) stream_attached_def DianaProcessor_GetMemValue_def
        DianaProcessor_GetMemValue_raw_def w)
qed

lemma attached_SetMemValue:
  assumes "attached p" "mapped (m_memory p) sel off n" "n \<le> 8"
    and "DianaProcessor_SetMemValue sel off (of_nat n) v seg p = Ok () p'"
  shows "attached p'" "mapped (m_memory p') = mapped (m_memory p)" "apart (m_memory p') = apart (m_memory p)"
proof -
  obtain s' where "DianaProcessor_SetMemValue sel off (of_nat n) v seg p = Ok () (p\<lparr>m_memory := s'\<rparr>)"
    "ok s'" "mapped s' = mapped (m_memory p)" "apart s' = apart (m_memory p)"
    by (rule SetMemValue_mapped [OF assms(1-3)])
  with assms(1,4) show "attached p'" "mapped (m_memory p') = mapped (m_memory p)" "apart (m_memory p') = apart (m_memory p)"
    by (auto simp: stream_attached_def)
qed

end

section \<open>The buffer stream satisfies the contract\<close>

definition buffer_ok :: "DianaRandomMemoryStream \<Rightarrow> bool" where
  "buffer_ok s \<longleftrightarrow> length (pBuffer s) = unat (bufferSize s)"

definition flat :: "DianaRandomMemoryStream \<Rightarrow> u64 \<Rightarrow> u64 \<Rightarrow> nat" where
  "flat s sel off = unat (sel * segmentSize s + off)"

definition buffer_mapped :: "DianaRandomMemoryStream \<Rightarrow> u64 \<Rightarrow> u64 \<Rightarrow> nat \<Rightarrow> bool" where
  "buffer_mapped s sel off n \<longleftrightarrow> flat s sel off + n \<le> unat (bufferSize s)"

definition buffer_apart :: "DianaRandomMemoryStream \<Rightarrow> u64 \<Rightarrow> u64 \<Rightarrow> nat \<Rightarrow> u64 \<Rightarrow> u64 \<Rightarrow> nat \<Rightarrow> bool" where
  "buffer_apart s sel off n sel' off' m \<longleftrightarrow>
     flat s sel off + n \<le> flat s sel' off' \<or> flat s sel' off' + m \<le> flat s sel off"

text \<open>Neither function ever leaves the buffer, whatever the selector and the offset.\<close>

lemma ReadWrite_cases:
  fixes sel off :: u64
  assumes "buffer_ok s" "bWrite \<Longrightarrow> unat n \<le> length data"
  defines "o' \<equiv> flat s sel off"
  defines "k \<equiv> min (unat n) (unat (bufferSize s) - o')"
  shows "MemoryRandomStream_ReadWrite s sel off data n bWrite =
    (if unat (bufferSize s) < o' then Err DI_ERROR s
     else if bWrite then Ok ([], of_nat k) (s\<lparr>pBuffer := take o' (pBuffer s) @ take k data @ drop (o' + k) (pBuffer s)\<rparr>)
     else Ok (take k (drop o' (pBuffer s)), of_nat k) s)"
proof (cases "unat (bufferSize s) < o'")
  case True
  then show ?thesis
    by (simp add: MemoryRandomStream_ReadWrite_def o'_def flat_def Let_def word_less_nat_alt)
next
  case False
  define off' where "off' = sel * segmentSize s + off"
  have le: "off' \<le> bufferSize s"
    using False by (simp add: o'_def flat_def off'_def word_le_nat_alt)
  define give where "give = (if bufferSize s - off' > n then n else bufferSize s - off')"
  have give: "unat give = k"
    using le by (simp add: give_def k_def o'_def flat_def off'_def [symmetric] word_less_nat_alt unat_sub min_def)
  have give': "give = of_nat k"
    by (simp flip: give)
  have "o' + k \<le> length (pBuffer s)" "bWrite \<Longrightarrow> k \<le> length data"
    using False assms(1,2) by (auto simp: buffer_ok_def k_def)
  moreover have "unat off' = o'"
    by (simp add: o'_def flat_def off'_def)
  ultimately show ?thesis
    using False le give unfolding MemoryRandomStream_ReadWrite_def off'_def [symmetric] Let_def
    by (auto simp: give_def [symmetric] give' [symmetric] not_less linorder_not_le)
qed

lemma ReadWrite_defined:
  assumes "buffer_ok s" "bWrite \<Longrightarrow> unat n \<le> length data"
  shows "MemoryRandomStream_ReadWrite s sel off data n bWrite \<noteq> Err C_UNDEFINED s'"
  by (simp add: ReadWrite_cases [OF assms])

lemma Read_eq:
  assumes "buffer_ok s"
  shows "MemoryRandomStream_Read s sel off n seg =
    (if unat (bufferSize s) < flat s sel off then Err DI_ERROR s
     else Ok (take (min (unat n) (unat (bufferSize s) - flat s sel off)) (drop (flat s sel off) (pBuffer s))) s)"
  by (simp add: MemoryRandomStream_Read_def ReadWrite_cases [OF assms])

lemma Write_eq:
  assumes "buffer_ok s" "length bs < 2 ^ 64"
  shows "MemoryRandomStream_Write s sel off bs seg =
    (if unat (bufferSize s) < flat s sel off then Err DI_ERROR s
     else let k = min (length bs) (unat (bufferSize s) - flat s sel off) in
       Ok (of_nat k) (s\<lparr>pBuffer := take (flat s sel off) (pBuffer s) @ take k bs @ drop (flat s sel off + k) (pBuffer s)\<rparr>))"
  using assms(2) by (simp add: MemoryRandomStream_Write_def ReadWrite_cases [OF assms(1)] unsigned_of_nat take_bit_nat_eq_self Let_def)

lemma flat_pBuffer [simp]: "flat (s\<lparr>pBuffer := b\<rparr>) = flat s"
  by (intro ext) (simp add: flat_def)

lemma Write_mapped:
  assumes "buffer_ok s" "buffer_mapped s sel off (length bs)" "length bs \<le> 8"
  shows "MemoryRandomStream_Write s sel off bs seg = Ok (of_nat (length bs)) (s\<lparr>pBuffer :=
      take (flat s sel off) (pBuffer s) @ bs @ drop (flat s sel off + length bs) (pBuffer s)\<rparr>)"
proof -
  have "min (length bs) (unat (bufferSize s) - flat s sel off) = length bs"
    using assms(2) unfolding buffer_mapped_def by linarith
  with assms show ?thesis
    by (simp add: Write_eq buffer_mapped_def Let_def)
qed

lemma Read_mapped:
  assumes "buffer_ok s" "buffer_mapped s sel off n" "n \<le> 8"
  shows "MemoryRandomStream_Read s sel off (of_nat n) seg = Ok (take n (drop (flat s sel off) (pBuffer s))) s"
  using assms by (simp add: Read_eq buffer_mapped_def min_def unsigned_of_nat take_bit_nat_eq_self)

lemma buffer_ok_write:
  "buffer_ok s \<Longrightarrow> flat s sel off + length bs \<le> unat (bufferSize s) \<Longrightarrow>
   buffer_ok (s\<lparr>pBuffer := take (flat s sel off) (pBuffer s) @ bs @ drop (flat s sel off + length bs) (pBuffer s)\<rparr>)"
  by (simp add: buffer_ok_def)

lemma take_drop_splice:
  assumes "o1 + length bs \<le> length xs" "o1 + length bs \<le> o2 \<or> o2 + n \<le> o1"
  shows "take n (drop o2 (take o1 xs @ bs @ drop (o1 + length bs) xs)) = take n (drop o2 xs)"
  using assms by (intro nth_equalityI) (auto simp: nth_append)

lemma buffer_geometry:
  "buffer_mapped (s\<lparr>pBuffer := b\<rparr>) = buffer_mapped s" "buffer_apart (s\<lparr>pBuffer := b\<rparr>) = buffer_apart s"
  by (intro ext, simp add: buffer_mapped_def buffer_apart_def)+

lemma Write_geometry:
  assumes "MemoryRandomStream_Write s sel off bs seg = Ok k s'"
  obtains b where "s' = s\<lparr>pBuffer := b\<rparr>"
  using assms by (auto simp: MemoryRandomStream_Write_def MemoryRandomStream_ReadWrite_def Let_def
      split: if_splits di_res.splits)

interpretation buf: memory_stream MemoryRandomStream_Read MemoryRandomStream_Write buffer_ok buffer_mapped buffer_apart
proof unfold_locales
  fix s sel off n seg
  assume "buffer_ok s" "buffer_mapped s sel off n" "n \<le> 8"
  then show "\<exists>bs. MemoryRandomStream_Read s sel off (of_nat n) seg = Ok bs s \<and> length bs = n"
    by (auto simp: Read_mapped) (auto simp: buffer_ok_def buffer_mapped_def)
next
  fix s sel off seg and bs :: "u8 list"
  assume "buffer_ok s" "buffer_mapped s sel off (length bs)" "length bs \<le> 8"
  then show "\<exists>s'. MemoryRandomStream_Write s sel off bs seg = Ok (of_nat (length bs)) s' \<and> buffer_ok s'"
    by (auto simp: Write_mapped buffer_mapped_def intro!: buffer_ok_write)
next
  fix s sel off bs seg k s'
  assume "MemoryRandomStream_Write s sel off bs seg = Ok k s'"
  then show "buffer_mapped s' = buffer_mapped s \<and> buffer_apart s' = buffer_apart s"
    by (auto elim!: Write_geometry simp: buffer_geometry)
next
  fix s sel off seg k s' seg' and bs :: "u8 list"
  assume *: "buffer_ok s" "buffer_mapped s sel off (length bs)" "length bs \<le> 8"
    "MemoryRandomStream_Write s sel off bs seg = Ok k s'"
  then have s': "s' = s\<lparr>pBuffer := take (flat s sel off) (pBuffer s) @ bs @ drop (flat s sel off + length bs) (pBuffer s)\<rparr>"
    by (simp add: Write_mapped)
  with * have ok': "buffer_ok s'" "buffer_mapped s' sel off (length bs)"
    by (simp_all add: buffer_ok_write buffer_mapped_def)
  show "MemoryRandomStream_Read s' sel off (of_nat (length bs)) seg' = Ok bs s'"
    unfolding Read_mapped [OF ok' *(3)] using * by (simp add: s' buffer_ok_def buffer_mapped_def)
next
  fix s sel off sel' off' n seg k s' seg' ds and bs :: "u8 list"
  assume *: "buffer_ok s" "buffer_mapped s sel off (length bs)" "buffer_mapped s sel' off' n" "length bs \<le> 8" "n \<le> 8"
    "buffer_apart s sel off (length bs) sel' off' n" "MemoryRandomStream_Write s sel off bs seg = Ok k s'"
  then have s': "s' = s\<lparr>pBuffer := take (flat s sel off) (pBuffer s) @ bs @ drop (flat s sel off + length bs) (pBuffer s)\<rparr>"
    by (simp add: Write_mapped)
  with * have ok': "buffer_ok s'" "buffer_mapped s' sel' off' n"
    by (simp_all add: buffer_ok_write buffer_mapped_def)
  have "take n (drop (flat s' sel' off') (pBuffer s')) = take n (drop (flat s sel' off') (pBuffer s))"
    unfolding s' using take_drop_splice [of "flat s sel off" bs "pBuffer s" "flat s sel' off'" n] *
    by (simp add: buffer_ok_def buffer_mapped_def buffer_apart_def)
  then show "MemoryRandomStream_Read s' sel' off' (of_nat n) seg' = Ok ds s' \<longleftrightarrow>
      MemoryRandomStream_Read s sel' off' (of_nat n) seg' = Ok ds s"
    by (simp add: Read_mapped [OF ok' *(5)] Read_mapped [OF *(1,3,5)])
qed

end
