(* ===== verification/Operand_Contract.thy ===== *)
theory Operand_Contract
  imports Processor_Operands
begin

unbundle bit_operations_syntax

text \<open>
  What a handler may rely on when it reads and writes operands: on a processor with the standard
  registers and a memory that meets its contract, a readable operand gives a value of its size and
  leaves the state alone, and a writable one gives back what was written, cut to its size, with
  PF, SF and ZF set from it when the handler asks for that.
\<close>

section \<open>Effective addresses\<close>

definition effective_address :: "'m DianaProcessor \<Rightarrow> DianaRmIndex \<Rightarrow> u64" where
  "effective_address p ix =
     (let base = (if reg ix \<noteq> reg_none then GET_REG (reg ix) p else 0)
               + (if amd64 p \<and> reg ix = reg_RIP then word_of_int (iFullCmdSize (m_result p)) else 0);
          scaled = (if indexed_reg ix \<noteq> reg_none then GET_REG (indexed_reg ix) p else 0) * ucast (index ix);
          a = base + scaled + dispValue ix
      in if addrsize p = 4 then take_bit 32 a else a)"

lemma and_mask32: "(a :: u64) AND 0xFFFFFFFF = take_bit 32 a"
  by (simp add: take_bit_eq_mask mask_eq_exp_minus_1)

lemma CalcIndex_eq:
  "DianaProcessor_CalcIndex ix p =
     (if addrsize p = 8 \<or> addrsize p = 4 then Ok (GET_REG (seg_reg ix) p, effective_address p ix) p else Err DI_ERROR p)"
  by (simp add: DianaProcessor_CalcIndex_def effective_address_def di_simps Let_def and_mask32)

section \<open>Readable and writable operands\<close>

definition memory_operand ::
    "('m \<Rightarrow> u64 \<Rightarrow> u64 \<Rightarrow> nat \<Rightarrow> bool) \<Rightarrow> 'm DianaProcessor \<Rightarrow> DianaRmIndex \<Rightarrow> int \<Rightarrow> bool" where
  "memory_operand mapped p ix n \<longleftrightarrow>
     (addrsize p = 8 \<or> addrsize p = 4) \<and> mapped (m_memory p) (GET_REG (seg_reg ix) p) (effective_address p ix) (nat n)"

definition operand_rw ::
    "('m \<Rightarrow> u64 \<Rightarrow> u64 \<Rightarrow> nat \<Rightarrow> bool) \<Rightarrow> 'm DianaProcessor \<Rightarrow> int \<Rightarrow> int \<Rightarrow> bool" where
  "operand_rw mapped p i n \<longleftrightarrow>
     0 \<le> i \<and> i < opcount p \<and> usedSize (linked p i) = n \<and> valid_size n \<and>
     (case op_value (linked p i) of
        diana_register r \<Rightarrow> (\<exists>off. reg_at r off (nat n)) \<and> r \<noteq> reg_RIP \<and> r \<noteq> reg_IP
      | diana_index ix \<Rightarrow> memory_operand mapped p ix n
      | diana_memory ix \<Rightarrow> memory_operand mapped p ix n
      | _ \<Rightarrow> False)"

definition operand_rd ::
    "('m \<Rightarrow> u64 \<Rightarrow> u64 \<Rightarrow> nat \<Rightarrow> bool) \<Rightarrow> 'm DianaProcessor \<Rightarrow> int \<Rightarrow> int \<Rightarrow> bool" where
  "operand_rd mapped p i n \<longleftrightarrow>
     operand_rw mapped p i n \<or>
     (0 \<le> i \<and> i < opcount p \<and> usedSize (linked p i) = n \<and> valid_size n \<and>
      (case op_value (linked p i) of diana_imm v \<Rightarrow> fits n v | _ \<Rightarrow> False))"

lemma operand_rw_size: "operand_rw mapped p i n \<Longrightarrow> valid_size n"
  by (simp add: operand_rw_def)

lemma operand_rd_size: "operand_rd mapped p i n \<Longrightarrow> valid_size n"
  by (auto simp: operand_rd_def operand_rw_def)

lemma operand_rw_rd: "operand_rw mapped p i n \<Longrightarrow> operand_rd mapped p i n"
  by (simp add: operand_rd_def)

section \<open>The flags of a written value\<close>

definition psz_written :: "int \<Rightarrow> u64 \<Rightarrow> 'm DianaProcessor \<Rightarrow> 'm DianaProcessor \<Rightarrow> bool" where
  "psz_written n v p p' \<longleftrightarrow>
     (DianaProcessor_QueryFlag p' DI_FLAG_ZF \<longleftrightarrow> DianaProcessor_CutValue v n = 0) \<and>
     (DianaProcessor_QueryFlag p' DI_FLAG_SF \<longleftrightarrow> sval n v < 0) \<and>
     (DianaProcessor_QueryFlag p' DI_FLAG_PF \<longleftrightarrow> IsParity (ucast v)) \<and>
     (\<forall>g. 4 AND g = 0 \<and> 0x40 AND g = 0 \<and> 0x80 AND g = 0 \<longrightarrow>
          DianaProcessor_QueryFlag p' g = DianaProcessor_QueryFlag p g)"

lemma psz_writtenD:
  assumes "psz_written n v p p'"
  shows "DianaProcessor_QueryFlag p' DI_FLAG_ZF \<longleftrightarrow> DianaProcessor_CutValue v n = 0"
    and "DianaProcessor_QueryFlag p' DI_FLAG_SF \<longleftrightarrow> sval n v < 0"
    and "DianaProcessor_QueryFlag p' DI_FLAG_PF \<longleftrightarrow> IsParity (ucast v)"
    and "4 AND g = 0 \<Longrightarrow> 0x40 AND g = 0 \<Longrightarrow> 0x80 AND g = 0 \<Longrightarrow>
       DianaProcessor_QueryFlag p' g = DianaProcessor_QueryFlag p g"
  using assms by (simp_all add: psz_written_def)

lemma sval_neg: "valid_size n \<Longrightarrow> sval n v < 0 \<longleftrightarrow> bit v (bits_of n - 1)"
  using valid_bits [of n] by (simp add: sval_def signed_take_bit_negative_iff bit_simps)

lemma ucast_take_bit: "8 \<le> k \<Longrightarrow> (ucast (take_bit k (v :: u64)) :: u8) = ucast v"
  by (rule bit_word_eqI) (simp add: bit_simps)

lemma sign_mask_iff: "valid_size n \<Longrightarrow> take_bit (bits_of n) v AND 2 ^ (bits_of n - 1) \<noteq> 0 \<longleftrightarrow> sval n v < 0"
proof -
  assume n: "valid_size n"
  have "take_bit (bits_of n) v AND push_bit (bits_of n - 1) 1 \<noteq> 0 \<longleftrightarrow> bit (take_bit (bits_of n) v) (bits_of n - 1)"
    by (simp only: bit_iff_and_push_bit_not_eq_0)
  with valid_bits [OF n] show ?thesis
    by (simp add: sval_neg [OF n] bit_simps)
qed

lemma QueryFlag_cong: "m_flags p = m_flags q \<Longrightarrow> DianaProcessor_QueryFlag p g = DianaProcessor_QueryFlag q g"
  by (simp add: DianaProcessor_QueryFlag_def)

lemma psz_written_UPDATE:
  assumes "valid_size n" "m_stateFlags q AND DI_PROC_STATE_UPDATE_FLAGS_PSZ \<noteq> 0" "m_flags q = m_flags p"
    and "m_flags p' = m_flags (UPDATE_PSZ (take_bit (bits_of n) v) (2 ^ (bits_of n - 1)) q)"
  shows "psz_written n v p p'"
proof -
  have "8 \<le> bits_of n"
    using valid_bits [OF assms(1)] by simp
  then show ?thesis
    unfolding psz_written_def QueryFlag_cong [OF assms(4)] QueryFlag_cong [OF assms(3), symmetric]
    using assms(2) sign_mask_iff [OF assms(1), of v] by (simp add: CutValue_take_bit [OF assms(1)] ucast_take_bit)
qed

lemma UpdatePSZ_flags:
  assumes "valid_size n"
  shows "psz_written n v p (DianaProcessor_UpdatePSZ v n p)"
proof (rule psz_written_UPDATE [OF assms])
  let ?q = "p\<lparr>m_stateFlags := m_stateFlags p OR DI_PROC_STATE_UPDATE_FLAGS_PSZ\<rparr>"
  show "m_stateFlags ?q AND DI_PROC_STATE_UPDATE_FLAGS_PSZ \<noteq> 0"
    by (simp add: and_eq_0_distrib)
  show "m_flags ?q = m_flags p"
    by simp
  show "m_flags (DianaProcessor_UpdatePSZ v n p) =
      m_flags (UPDATE_PSZ (take_bit (bits_of n) v) (2 ^ (bits_of n - 1)) ?q)"
    using assms by (elim valid_sizeE) (simp_all add: DianaProcessor_UpdatePSZ_def Let_def)
qed

section \<open>Register operands\<close>

lemma vec_get_put_prefix: "m \<le> k \<Longrightarrow> k \<le> 8 \<Longrightarrow> vec_get (vec_put vec off k w) off m = take_bit (8 * m) w"
  using vec_get_prefix [of m k "vec_put vec off k w" off] by (simp add: vec_get_put_same min_def)

text \<open>A register after a write to itself, and after a write to one elsewhere; a 32-bit write may clear the upper half as well.\<close>

lemma GET_SET_at_same:
  assumes "std_regs p" "reg_at r off n"
  shows "GET_REG r (SET_REG r v p) = take_bit (8 * n) v"
  using assms SET_REG_at [OF assms, of v] GET_REG_at [of "SET_REG r v p" r off n]
  by (auto simp: vec_get_put_prefix reg_at_def)

lemma GET_SET_at_apart:
  assumes "std_regs p" "reg_at r off n" "reg_at s off' m" "off + 8 \<le> off' \<or> off' + m \<le> off \<or> n < 4 \<and> off + n \<le> off'"
  shows "GET_REG s (SET_REG r v p) = GET_REG s p"
  using assms SET_REG_at [OF assms(1,2), of v] GET_REG_at [of "SET_REG r v p" s off' m] GET_REG_at [OF assms(1,3)]
    vec_get_put_disjoint [of off n off' m "m_pRegistersVector p" v] vec_get_put_disjoint [of off 8 off' m "m_pRegistersVector p" "take_bit 32 v"]
  by (auto simp: reg_at_def split: if_splits)

lemma Query64_offset:
  assumes "Query64RegisterFor32 r = Some r64"
  shows "plain_reg r64" "m_offset (x86_layout r64) = m_offset (x86_layout r)" "is_r32 r"
  using assms by (auto simp: Query64RegisterFor32_def plain_reg_def is_r32_def reg_simps split: if_splits)

text \<open>The bytes that a write of a register of \<open>n\<close> bytes may change: a 32-bit write may clear the upper half.\<close>

definition reg_cell :: "nat \<Rightarrow> nat" where
  "reg_cell n = (if n < 4 then n else 8)"

lemma SetOperand_register_eq:
  assumes "std_regs p" "reg_at r off n"
  obtains p' where "Diana_ProcessorSetOperand_register r v p = Ok () p'" "std_regs p'"
    "GET_REG r p' = take_bit (8 * n) v"
    "m_flags p' = m_flags (SET_REG r v p)" "m_stateFlags p' = m_stateFlags (SET_REG r v p)"
    "m_stateFlagsToRemove p' = m_stateFlagsToRemove p"
    "m_memory p' = m_memory p" "m_pMemoryStream p' = m_pMemoryStream p" "m_result p' = m_result p" "m_context p' = m_context p"
    "\<And>a. a < off \<or> off + reg_cell n \<le> a \<Longrightarrow> m_pRegistersVector p' a = m_pRegistersVector p a"
proof -
  define q where "q = SET_REG r v p"
  define p' where "p' = (case (if amd64 q then Query64RegisterFor32 r else None) of
      Some r64 \<Rightarrow> put_reg (nat (m_offset (DianaProcessor_QueryReg q r64)) + 4) 4 0 q | None \<Rightarrow> q)"
  have run: "Diana_ProcessorSetOperand_register r v p = Ok () p'"
    unfolding Diana_ProcessorSetOperand_register_def DI_DO_def DI_PROC_END_def p'_def q_def ..
  have q: "std_regs q" "GET_REG r q = take_bit (8 * n) v"
  proof -
    show "std_regs q" using assms(1) by (simp add: q_def)
    then show "GET_REG r q = take_bit (8 * n) v"
      using assms SET_REG_at [OF assms, of v] GET_REG_at [of q r off n]
      by (auto simp: q_def vec_get_put_prefix reg_at_def)
  qed
  have off: "GET_REG r (put_reg (nat (m_offset (DianaProcessor_QueryReg q r64)) + 4) 4 0 q) = GET_REG r q"
    if "Query64RegisterFor32 r = Some r64" for r64
  proof -
    have "n \<le> 4"
      using Query64_offset(3) [OF that] assms(2) that
      by (auto simp: reg_at_def Query64RegisterFor32_def reg_simps split: if_splits)
    moreover have "m_offset (DianaProcessor_QueryReg q r64) = int off"
      using Query64_offset [OF that] q(1) assms(2) by (simp add: QueryReg_plain std_regs_def reg_at_def)
    moreover have "std_regs (put_reg a m w q)" for a m w
      using q(1) by (simp add: std_regs_def)
    ultimately show ?thesis
      using q(1) by (simp add: GET_REG_at [OF _ assms(2)] put_reg_def vec_get_put_disjoint)
  qed
  have fields: "std_regs p'" "m_flags p' = m_flags q" "m_stateFlags p' = m_stateFlags q"
    "m_stateFlagsToRemove p' = m_stateFlagsToRemove p" "m_memory p' = m_memory p"
    "m_pMemoryStream p' = m_pMemoryStream p" "m_result p' = m_result p" "m_context p' = m_context p"
    using q(1) by (auto simp: p'_def std_regs_def split: option.splits) (simp_all add: q_def)
  have "GET_REG r p' = take_bit (8 * n) v"
    using q(2) off by (auto simp: p'_def split: option.splits)
  moreover have "m_pRegistersVector p' a = m_pRegistersVector p a" if a: "a < off \<or> off + reg_cell n \<le> a" for a
  proof -
    have "m_pRegistersVector q a = m_pRegistersVector p a"
      unfolding q_def SET_REG_at [OF assms] using a assms(2) by (auto simp: vec_put_def reg_cell_def reg_at_def split: if_splits)
    moreover have "n = 4" "m_offset (DianaProcessor_QueryReg q r64) = int off" if "Query64RegisterFor32 r = Some r64" for r64
      using Query64_offset [OF that] q(1) assms(2) that
      by (auto simp: QueryReg_plain std_regs_def reg_at_def Query64RegisterFor32_def reg_simps split: if_splits)
    ultimately show ?thesis
      using a by (auto simp: p'_def put_reg_def vec_put_def reg_cell_def split: option.splits)
  qed
  ultimately show ?thesis
    using run fields that unfolding q_def by blast
qed

lemma SET_REG_psz:
  assumes "std_regs p" "reg_at r off (nat n)" "valid_size n" "r \<noteq> reg_RIP" "r \<noteq> reg_IP"
    "m_stateFlags p AND DI_PROC_STATE_UPDATE_FLAGS_PSZ \<noteq> 0"
  shows "psz_written n v p (SET_REG r v p)"
proof -
  define q where "q = p\<lparr>m_pRegistersVector := m_pRegistersVector (SET_REG r v p)\<rparr>"
  have "m_flags (SET_REG r v p) = m_flags (UPDATE_PSZ (take_bit (bits_of n) v) (2 ^ (bits_of n - 1)) q)"
    using assms(1-5) SET_REG_at [OF assms(1,2)]
    by (elim valid_sizeE) (auto simp: q_def SET_REG_def DianaProcessor_SetValue_def DianaProcessor_SetValueEx_def
        QueryReg_plain std_regs_def reg_at_def put_reg_def Let_def vec_get_put_prefix)
  then show ?thesis
    by (intro psz_written_UPDATE [of n q]) (use assms in \<open>simp_all add: q_def\<close>)
qed

section \<open>The round trip of an operand\<close>

lemma size_word: "valid_size n \<Longrightarrow> word_of_int n = (of_nat (nat n) :: u64)"
  by (auto elim!: valid_sizeE)

lemma size_nat: "valid_size n \<Longrightarrow> nat n \<le> 8" "valid_size n \<Longrightarrow> int (nat n) = n"
  by (auto elim!: valid_sizeE)

lemma fits_le_word: "fits (int (length bs)) (le_word bs)"
  unfolding fits_def bits_of_def by (rule bit_word_eqI) (auto simp: bit_simps bit_le_word)

lemma effective_address_cong:
  assumes "m_pRegistersVector q = m_pRegistersVector p" "m_registers q = m_registers p" "m_fpu q = m_fpu p"
    "m_context q = m_context p" "m_result q = m_result p"
  shows "GET_REG r q = GET_REG r p" "effective_address q ix = effective_address p ix"
proof -
  have Q: "DianaProcessor_QueryReg q r = DianaProcessor_QueryReg p r" for r
    unfolding DianaProcessor_QueryReg_def DianaProcessor_FPU_QueryReg_def DianaProcessor_FPU_QueryReg_MM_def
      Diana_FPU_GetStackTop_def assms ..
  show get: "GET_REG r q = GET_REG r p" for r
    unfolding GET_REG_def DianaProcessor_GetValue_def DianaProcessor_GetValueEx_def assms Q ..
  show "effective_address q ix = effective_address p ix"
    using assms by (simp add: effective_address_def get)
qed

lemma GET_REG_frame [simp]:
  "GET_REG r (p\<lparr>m_stateFlags := x1\<rparr>) = GET_REG r p"
  "GET_REG r (p\<lparr>m_stateFlagsToRemove := x1\<rparr>) = GET_REG r p"
  "GET_REG r (p\<lparr>m_flags := x2\<rparr>) = GET_REG r p"
  "GET_REG r (p\<lparr>m_memory := x3\<rparr>) = GET_REG r p"
  "GET_REG r (p\<lparr>m_lastCallRIP := x2\<rparr>) = GET_REG r p"
  "GET_REG r (p\<lparr>m_lastCallRSP := x2\<rparr>) = GET_REG r p"
  "GET_REG r (DianaProcessor_SetFlag f p) = GET_REG r p"
  "GET_REG r (DianaProcessor_ClearFlag f p) = GET_REG r p"
  "GET_REG r (set_flag_if c f p) = GET_REG r p"
  "GET_REG r (assign_flag c f p) = GET_REG r p"
  "GET_REG r (UPDATE_PSZ X h p) = GET_REG r p"
  "GET_REG r (DianaProcessor_UpdatePSZ v n p) = GET_REG r p"
  "GET_REG r (DianaProcessor_SetCOA_Add a b d n f p) = GET_REG r p"
  "GET_REG r (DianaProcessor_SetCOA_AddCF a b d n f p) = GET_REG r p"
  "GET_REG r (DianaProcessor_SetCOA_Sub a b d n f p) = GET_REG r p"
  "GET_REG r (DianaProcessor_SetCOA_SubCF a b d n f p) = GET_REG r p"
  "GET_REG r (set_COA c o' a' p) = GET_REG r p"
  by (intro effective_address_cong(1); simp add: set_COA_def)+

lemma effective_address_frame [simp]:
  "effective_address (p\<lparr>m_stateFlags := x1\<rparr>) ix = effective_address p ix"
  "effective_address (p\<lparr>m_stateFlagsToRemove := x1\<rparr>) ix = effective_address p ix"
  "effective_address (p\<lparr>m_flags := x2\<rparr>) ix = effective_address p ix"
  "effective_address (p\<lparr>m_memory := x3\<rparr>) ix = effective_address p ix"
  "effective_address (p\<lparr>m_lastCallRIP := x2\<rparr>) ix = effective_address p ix"
  "effective_address (p\<lparr>m_lastCallRSP := x2\<rparr>) ix = effective_address p ix"
  "effective_address (DianaProcessor_SetFlag f p) ix = effective_address p ix"
  "effective_address (DianaProcessor_ClearFlag f p) ix = effective_address p ix"
  "effective_address (set_flag_if c f p) ix = effective_address p ix"
  "effective_address (assign_flag c f p) ix = effective_address p ix"
  "effective_address (UPDATE_PSZ X h p) ix = effective_address p ix"
  "effective_address (DianaProcessor_UpdatePSZ v n p) ix = effective_address p ix"
  "effective_address (DianaProcessor_SetCOA_Add a b d n f p) ix = effective_address p ix"
  "effective_address (DianaProcessor_SetCOA_AddCF a b d n f p) ix = effective_address p ix"
  "effective_address (DianaProcessor_SetCOA_Sub a b d n f p) ix = effective_address p ix"
  "effective_address (DianaProcessor_SetCOA_SubCF a b d n f p) ix = effective_address p ix"
  "effective_address (set_COA c o' a' p) ix = effective_address p ix"
  by (intro effective_address_cong(2); simp add: set_COA_def)+

text \<open>What a successful write through an operand leaves as it was.\<close>

definition dest_only :: "int \<Rightarrow> 'm DianaProcessor \<Rightarrow> 'm DianaProcessor \<Rightarrow> bool" where
  "dest_only i p p' \<longleftrightarrow> (case op_value (linked p i) of
      diana_register r \<Rightarrow> m_memory p' = m_memory p \<and> (\<forall>off n a. reg_at r off n \<and> (a < off \<or> off + reg_cell n \<le> a) \<longrightarrow>
        m_pRegistersVector p' a = m_pRegistersVector p a)
    | _ \<Rightarrow> m_pRegistersVector p' = m_pRegistersVector p)"

definition operand_frame :: "int \<Rightarrow> 'm DianaProcessor \<Rightarrow> 'm DianaProcessor \<Rightarrow> bool" where
  "operand_frame i p p' \<longleftrightarrow> m_result p' = m_result p \<and> m_context p' = m_context p \<and>
     m_pMemoryStream p' = m_pMemoryStream p \<and> m_registers p' = m_registers p \<and> dest_only i p p'"

lemma reg_at_unique: "reg_at r off n \<Longrightarrow> reg_at r off' n' \<Longrightarrow> off' = off \<and> n' = n"
  by (auto simp: reg_at_def)

lemma dest_only_refl [simp]: "dest_only i p p"
  by (simp add: dest_only_def split: DianaOperandValue.split)

lemma dest_only_trans: "dest_only i p q \<Longrightarrow> dest_only i q r \<Longrightarrow> m_result q = m_result p \<Longrightarrow> dest_only i p r"
  by (auto simp: dest_only_def split: DianaOperandValue.splits)

lemma dest_only_cong:
  assumes "m_result q = m_result p" "m_memory q = m_memory p" "m_pRegistersVector q = m_pRegistersVector p"
  shows "dest_only i q r = dest_only i p r" "dest_only i r q = dest_only i r p"
  unfolding dest_only_def assms by (rule refl)+

lemma dest_only_frame [simp]:
  "dest_only i (p\<lparr>m_stateFlags := x\<rparr>) r = dest_only i p r" "dest_only i r (p\<lparr>m_stateFlags := x\<rparr>) = dest_only i r p"
  "dest_only i (p\<lparr>m_stateFlagsToRemove := x\<rparr>) r = dest_only i p r" "dest_only i r (p\<lparr>m_stateFlagsToRemove := x\<rparr>) = dest_only i r p"
  "dest_only i (p\<lparr>m_flags := y\<rparr>) r = dest_only i p r" "dest_only i r (p\<lparr>m_flags := y\<rparr>) = dest_only i r p"
  by (rule dest_only_cong; simp)+

lemma dest_only_register:
  assumes "op_value (linked p i) = diana_register r" "reg_at r off n" "m_memory q = m_memory p"
    "\<And>a. a < off \<or> off + reg_cell n \<le> a \<Longrightarrow> m_pRegistersVector q a = m_pRegistersVector p a"
  shows "dest_only i p q"
  by (simp add: dest_only_def assms(1,3)) (metis assms(4) reg_at_unique [OF assms(2)])

lemma operand_frame_trans: "operand_frame i p q \<Longrightarrow> operand_frame i q r \<Longrightarrow> operand_frame i p r"
  unfolding operand_frame_def by (auto intro: dest_only_trans)

text \<open>Clearing the 64-bit register around a 32-bit destination.\<close>

lemma dest_only_clear:
  assumes "std_regs p" "op_value (linked p i) = diana_register r" "reg_at r off n" "Query64RegisterFor32 r = Some r64"
  shows "dest_only i p (SET_REG r64 w p)"
proof -
  have at: "reg_at r64 off 8" "n = 4"
    using assms(3) assms(4) by (auto simp: reg_at_def plain_reg_def Query64RegisterFor32_def reg_simps split: if_splits)
  show ?thesis
    using SET_REG_at [OF assms(1) at(1), of w]
    by (intro dest_only_register [OF assms(2,3)]) (auto simp: at(2) reg_cell_def vec_put_def split: if_splits)
qed

lemma dest_only_memory:
  assumes "op_value (linked p i) = diana_index ix \<or> op_value (linked p i) = diana_memory ix"
    "m_pRegistersVector q = m_pRegistersVector p"
  shows "dest_only i p q"
  using assms by (auto simp: dest_only_def)

context memory_stream
begin

lemma GetOperand_index_eq:
  assumes "addrsize p = 8 \<or> addrsize p = 4" "valid_size n"
    "DianaProcessor_GetMemValue (GET_REG (seg_reg ix) p) (effective_address p ix) (of_nat (nat n)) (seg_reg ix) p = r"
  shows "Diana_ProcessorGetOperand_index n ix p = r"
  using assms(1,3) unfolding Diana_ProcessorGetOperand_index_def size_word [OF assms(2)]
  by (simp add: CalcIndex_eq DI_CHECK_def)

lemma GetOperand_index_Ok:
  assumes "attached p" "memory_operand mapped p ix n" "valid_size n"
  obtains v where "Diana_ProcessorGetOperand_index n ix p = Ok v p" "fits n v"
proof -
  obtain bs where bs: "rd (m_memory p) (GET_REG (seg_reg ix) p) (effective_address p ix) (of_nat (nat n)) (seg_reg ix)
      = Ok bs (m_memory p)" "length bs = nat n"
    using rd_mapped [of "m_memory p" "GET_REG (seg_reg ix) p" "effective_address p ix" "nat n" "seg_reg ix"]
      assms(1,2) size_nat [OF assms(3)] unfolding memory_operand_def stream_attached_def by blast
  then have "Diana_ProcessorGetOperand_index n ix p = Ok (le_word bs) p"
    using assms size_nat(1) [OF assms(3)]
    by (intro GetOperand_index_eq) (simp_all add: memory_operand_def DianaProcessor_GetMemValue_def
        DianaProcessor_GetMemValue_raw_def stream_attached_def)
  moreover have "fits n (le_word bs)"
    using fits_le_word [of bs] bs(2) size_nat [OF assms(3)] by simp
  ultimately show ?thesis
    by (rule that)
qed

lemma DI_MEM_GET_Ok:
  assumes "attached p" "std_regs p" "operand_rd mapped p i n"
  obtains v where "DI_MEM_GET i p = Ok (v, n) p" "fits n v"
proof -
  have n: "valid_size n" "0 \<le> i" "i < opcount p" "usedSize (linked p i) = n"
    using assms(3) by (auto simp: operand_rd_def operand_rw_def)
  have shape: "DI_MEM_GET i p = Ok (v, n) p" if "op_value (linked p i) = diana_index ix \<or> op_value (linked p i) = diana_memory ix"
    "Diana_ProcessorGetOperand_index n ix p = Ok v p" for ix v
    using n that by (auto simp: DI_MEM_GET_def di_simps)
  consider (reg) r off where "op_value (linked p i) = diana_register r" "reg_at r off (nat n)"
    | (mem) ix where "op_value (linked p i) = diana_index ix \<or> op_value (linked p i) = diana_memory ix" "memory_operand mapped p ix n"
    | (imm) v where "op_value (linked p i) = diana_imm v" "fits n v"
    using assms(3) by (auto simp: operand_rd_def operand_rw_def split: DianaOperandValue.splits)
  then show ?thesis
  proof cases
    case reg
    then have "fits n (GET_REG r p)"
      using fits_GET_REG [OF assms(2)] size_nat(2) [OF n(1)] by metis
    then show ?thesis
      using reg n by (intro that [of "GET_REG r p"]) (simp_all add: DI_MEM_GET_def Diana_ProcessorGetOperand_register_def di_simps)
  next
    case mem
    then show ?thesis
      using GetOperand_index_Ok [OF assms(1) mem(2) n(1)] shape that by metis
  next
    case imm
    then show ?thesis
      using n by (intro that [of v]) (simp_all add: DI_MEM_GET_def di_simps)
  qed
qed

lemma SetOperand_index_Ok:
  fixes v :: u64
  assumes "attached p" "memory_operand mapped p ix n" "valid_size n"
  defines "q \<equiv> (if m_stateFlags p AND DI_PROC_STATE_UPDATE_FLAGS_PSZ \<noteq> 0 then DianaProcessor_UpdatePSZ v n p else p)"
  obtains s' where "Diana_ProcessorSetOperand_index n v ix p = Ok () (q\<lparr>m_memory := s'\<rparr>)"
    "attached (q\<lparr>m_memory := s'\<rparr>)" "memory_operand mapped (q\<lparr>m_memory := s'\<rparr>) ix n"
    "Diana_ProcessorGetOperand_index n ix (q\<lparr>m_memory := s'\<rparr>) = Ok (DianaProcessor_CutValue v n) (q\<lparr>m_memory := s'\<rparr>)"
proof -
  note n = size_nat [OF assms(3)]
  let ?sel = "GET_REG (seg_reg ix) p" and ?a = "effective_address p ix"
  have q: "attached q" "m_memory q = m_memory p"
    using assms(1) by (simp_all add: q_def stream_attached_def)
  have mp: "mapped (m_memory q) ?sel ?a (nat n)" "addrsize p = 8 \<or> addrsize p = 4"
    using assms(2) by (simp_all add: q memory_operand_def)
  obtain s' where s': "DianaProcessor_SetMemValue ?sel ?a (of_nat (nat n)) v (seg_reg ix) q = Ok () (q\<lparr>m_memory := s'\<rparr>)"
    "ok s'" "mapped s' = mapped (m_memory q)"
    by (rule SetMemValue_mapped [OF q(1) mp(1), of v "seg_reg ix"]) (use n in auto)
  let ?p' = "q\<lparr>m_memory := s'\<rparr>"
  have addr: "GET_REG (seg_reg ix) ?p' = ?sel" "effective_address ?p' ix = ?a" "m_context ?p' = m_context p"
    using effective_address_cong [of ?p' p] by (simp_all add: q_def)
  have get: "DianaProcessor_GetMemValue ?sel ?a (of_nat (nat n)) (seg_reg ix) ?p' = Ok (take_bit (8 * nat n) v) ?p'"
    by (rule SetMemValue_GetMemValue [OF q(1) mp(1) n(1) s'(1)])
  show ?thesis
  proof (rule that [of s'])
    show "Diana_ProcessorSetOperand_index n v ix p = Ok () ?p'"
      using s'(1) mp(2) unfolding Diana_ProcessorSetOperand_index_def size_word [OF assms(3)]
      by (simp add: CalcIndex_eq DI_CHECK_def DI_DO_def q_def)
    show "attached ?p'"
      using q(1) s'(2) by (simp add: stream_attached_def)
    show "memory_operand mapped ?p' ix n"
      using mp s'(3) addr by (simp add: memory_operand_def)
    show "Diana_ProcessorGetOperand_index n ix ?p' = Ok (DianaProcessor_CutValue v n) ?p'"
      using get mp(2) addr assms(3) by (intro GetOperand_index_eq) (simp_all add: CutValue_take_bit bits_of_def)
  qed
qed

text \<open>The write of a result with its flags, as every arithmetic and logical handler ends.\<close>

lemma UPDATE_FLAGS_PSZ_Ok:
  assumes "attached p" "std_regs p" "operand_rw mapped p i n"
  obtains p' where "\<And>k. DI_UPDATE_FLAGS_PSZ (DI_MEM_SET i v) k p = k n p'"
    "attached p'" "std_regs p'" "operand_frame i p p'" "psz_off p'"
    "DI_MEM_GET i p' = Ok (DianaProcessor_CutValue v n, n) p'" "psz_written n v p p'"
proof -
  let ?on = "p\<lparr>m_stateFlags := m_stateFlags p OR DI_PROC_STATE_UPDATE_FLAGS_PSZ,
      m_stateFlagsToRemove := m_stateFlagsToRemove p OR DI_PROC_STATE_UPDATE_FLAGS_PSZ\<rparr>"
  let ?off = "\<lambda>q :: 'm DianaProcessor. q\<lparr>m_stateFlags := m_stateFlags q AND NOT DI_PROC_STATE_UPDATE_FLAGS_PSZ\<rparr>"
  have n: "valid_size n" "0 \<le> i" "i < opcount p" "usedSize (linked p i) = n"
    using assms(3) by (auto simp: operand_rw_def)
  have on: "attached ?on" "std_regs ?on" "m_stateFlags ?on AND DI_PROC_STATE_UPDATE_FLAGS_PSZ \<noteq> 0" "m_flags ?on = m_flags p"
    using assms(1,2) by (simp_all add: stream_attached_def std_regs_def and_eq_0_distrib)
  note result = that
  have finish: thesis
    if set: "DI_MEM_SET i v ?on = Ok n q" and q: "attached q" "std_regs q" "operand_frame i p q"
      and get: "DI_MEM_GET i (?off q) = Ok (DianaProcessor_CutValue v n, n) (?off q)" and fl: "psz_written n v p q" for q
  proof (rule result [of "?off q"])
    show "\<And>k. DI_UPDATE_FLAGS_PSZ (DI_MEM_SET i v) k p = k n (?off q)"
      using set by (simp add: DI_UPDATE_FLAGS_PSZ_def DI_DO_def DI_CHECK_def)
    show "psz_written n v p (?off q)"
      using fl by (simp add: psz_written_def DianaProcessor_QueryFlag_def)
    show "psz_off (?off q)"
      using and_not_self [of "m_stateFlags q" DI_PROC_STATE_UPDATE_FLAGS_PSZ] by (simp add: psz_off_def)
  qed (use q get in \<open>simp_all add: stream_attached_def std_regs_def operand_frame_def\<close>)
  consider (reg) r off where "op_value (linked p i) = diana_register r" "reg_at r off (nat n)" "r \<noteq> reg_RIP" "r \<noteq> reg_IP"
    | (mem) ix where "op_value (linked p i) = diana_index ix \<or> op_value (linked p i) = diana_memory ix" "memory_operand mapped p ix n"
    using assms(3) by (auto simp: operand_rw_def split: DianaOperandValue.splits)
  then show thesis
  proof cases
    case reg
    obtain q where q: "Diana_ProcessorSetOperand_register r v ?on = Ok () q" "std_regs q"
      "GET_REG r q = take_bit (8 * nat n) v" "m_flags q = m_flags (SET_REG r v ?on)"
      "m_memory q = m_memory ?on" "m_pMemoryStream q = m_pMemoryStream ?on" "m_result q = m_result ?on" "m_context q = m_context ?on"
      "\<And>a. a < off \<or> off + reg_cell (nat n) \<le> a \<Longrightarrow> m_pRegistersVector q a = m_pRegistersVector ?on a"
      using SetOperand_register_eq [OF on(2) reg(2), of v] by metis
    have only: "dest_only i p q"
      by (rule dest_only_register [OF reg(1,2)]) (use q(5,9) in simp_all)
    have fl: "psz_written n v ?on q"
      using SET_REG_psz [OF on(2) reg(2) n(1) reg(3,4) on(3), of v] q(4) by (simp add: psz_written_def DianaProcessor_QueryFlag_def)
    show thesis
    proof (rule finish)
      show "DI_MEM_SET i v ?on = Ok n q"
        using n reg q(1) by (simp add: DI_MEM_SET_def di_simps)
      show "DI_MEM_GET i (?off q) = Ok (DianaProcessor_CutValue v n, n) (?off q)"
        using n reg q by (simp add: DI_MEM_GET_def di_simps Diana_ProcessorGetOperand_register_def CutValue_take_bit bits_of_def)
      show "psz_written n v p q"
        using fl by (simp add: psz_written_def DianaProcessor_QueryFlag_def)
    qed (use q only on(1) assms(2) in \<open>simp_all add: stream_attached_def operand_frame_def std_regs_def\<close>)
  next
    case mem
    let ?u = "DianaProcessor_UpdatePSZ v n ?on"
    have mo: "memory_operand mapped ?on ix n"
      using mem(2) effective_address_cong [of ?on p] by (simp add: memory_operand_def)
    obtain s' where s': "Diana_ProcessorSetOperand_index n v ix ?on = Ok () (?u\<lparr>m_memory := s'\<rparr>)"
      "attached (?u\<lparr>m_memory := s'\<rparr>)" "memory_operand mapped (?u\<lparr>m_memory := s'\<rparr>) ix n"
      "Diana_ProcessorGetOperand_index n ix (?u\<lparr>m_memory := s'\<rparr>) = Ok (DianaProcessor_CutValue v n) (?u\<lparr>m_memory := s'\<rparr>)"
      using SetOperand_index_Ok [OF on(1) mo n(1), of v] on(3) by auto
    let ?q = "?u\<lparr>m_memory := s'\<rparr>"
    have "m_stateFlags ?u AND NOT DI_PROC_STATE_UPDATE_FLAGS_PSZ = m_stateFlags ?u"
      by (simp add: DianaProcessor_UpdatePSZ_def Let_def and.assoc)
    then have off: "?off ?q = ?q"
      by simp
    have only: "dest_only i p ?q"
      by (rule dest_only_memory [OF mem(1)]) simp
    show thesis
    proof (rule finish [of ?q])
      show "DI_MEM_SET i v ?on = Ok n ?q"
        using n mem(1) s'(1) by (auto simp: DI_MEM_SET_def di_simps)
      show "DI_MEM_GET i (?off ?q) = Ok (DianaProcessor_CutValue v n, n) (?off ?q)"
        unfolding off using n mem(1) s'(4) by (auto simp: DI_MEM_GET_def di_simps)
      show "psz_written n v p ?q"
        using UpdatePSZ_flags [OF n(1), of v ?on] by (simp add: psz_written_def DianaProcessor_QueryFlag_def)
    qed (use s'(2) only assms(2) in \<open>simp_all add: stream_attached_def operand_frame_def std_regs_def\<close>)
  qed
qed

end

end
