(* ===== verification/Processor_Frame.thy ===== *)
theory Processor_Frame
  imports Processor_Operands
begin

unbundle bit_operations_syntax

text \<open>
  The frame of the emulator: whatever an instruction does, and whether it succeeds or fails, it keeps the
  register table, the stream, the fire points, the options and the decoded instruction's shape, and no write to
  a register leaves the bytes of the registers vector that the layout uses.  This
  theory states the condition, proves it of the primitives and collects the rules (\<open>keeps_intros\<close>) that
  carry it to every handler.
\<close>

definition kept :: "'m DianaProcessor \<Rightarrow> 'm DianaProcessor \<Rightarrow> bool" where
  "kept p p' \<longleftrightarrow>
     m_registers p' = m_registers p \<and> m_pMemoryStream p' = m_pMemoryStream p \<and>
     m_registersVectorSize p' = m_registersVectorSize p \<and> m_iLastRegistersOffset p' = m_iLastRegistersOffset p \<and>
     m_firePoints p' = m_firePoints p \<and> m_options p' = m_options p \<and> m_initialDianaMode p' = m_initialDianaMode p \<and>
     pInfo (m_result p') = pInfo (m_result p) \<and> opcount p' = opcount p \<and> iFullCmdSize (m_result p') = iFullCmdSize (m_result p) \<and>
     iPrefix (m_result p') = iPrefix (m_result p) \<and>
     iAMD64Mode (m_context p') = iAMD64Mode (m_context p) \<and>
     cacheSize (m_context p') = cacheSize (m_context p) \<and> cacheIt (m_context p') = cacheIt (m_context p) \<and> m_tempRIP p' = m_tempRIP p \<and>
     (std_regs p \<longrightarrow> (\<forall>a \<ge> registers_used. m_pRegistersVector p' a = m_pRegistersVector p a))"

interpretation kept: frame_relation kept
  by unfold_locales (auto simp: kept_def std_regs_def)

lemmas [keeps_intros] = kept.keeps_CHECK kept.keeps_DO kept.keeps_LET kept.keeps_RETURN kept.keeps_FAIL
  kept.keeps_END kept.keeps_if

lemma keeps_prod [keeps_intros]: "(\<And>a b. keeps R (f a b)) \<Longrightarrow> keeps R (case x of (a, b) \<Rightarrow> f a b)"
  by (cases x) simp

lemma keeps_Let [keeps_intros]: "(\<And>x. keeps R (f x)) \<Longrightarrow> keeps R (let x = e in f x)"
  by (simp add: Let_def)

lemma keeps_option [keeps_intros]:
  "keeps R n \<Longrightarrow> (\<And>a. keeps R (f a)) \<Longrightarrow> keeps R (case x of None \<Rightarrow> n | Some a \<Rightarrow> f a)"
  by (cases x) simp_all

lemma keeps_operand [keeps_intros]:
  "keeps R c1 \<Longrightarrow> (\<And>r. keeps R (c2 r)) \<Longrightarrow> (\<And>ix. keeps R (c3 ix)) \<Longrightarrow> (\<And>v. keeps R (c4 v)) \<Longrightarrow> (\<And>v. keeps R (c5 v)) \<Longrightarrow>
   (\<And>v. keeps R (c6 v)) \<Longrightarrow> (\<And>ix. keeps R (c7 ix)) \<Longrightarrow> keeps R c8 \<Longrightarrow> (\<And>k. keeps R (c9 k)) \<Longrightarrow>
   keeps R (case_DianaOperandValue c1 c2 c3 c4 c5 c6 c7 c8 c9 v)"
  by (cases v) simp_all

section \<open>State updates\<close>

lemma keeps_fun_if' [keeps_intros]:
  "keeps_fun kept f \<Longrightarrow> keeps_fun kept g \<Longrightarrow> keeps_fun kept (\<lambda>s. if c s then f s else g s)"
  by (rule kept.keeps_fun_if)

lemma keeps_fun_If [keeps_intros]:
  "keeps_fun kept f \<Longrightarrow> keeps_fun kept g \<Longrightarrow> keeps_fun kept (if c then f else g)"
  by simp

lemma kept_flags: "kept p (p\<lparr>m_flags := f\<rparr>)" "kept p (p\<lparr>m_stateFlags := g\<rparr>)" "kept p (p\<lparr>m_stateFlagsToRemove := g\<rparr>)"
    "kept p (p\<lparr>m_memory := m\<rparr>)" "kept p (p\<lparr>m_lastCallRIP := f\<rparr>)" "kept p (p\<lparr>m_lastCallRSP := f\<rparr>)" "kept p (p\<lparr>m_random := rn\<rparr>)"
    "kept p (p\<lparr>m_fpu := fp\<rparr>)" "kept p (p\<lparr>m_mxcsr := g\<rparr>)" "kept p (p\<lparr>m_pkru := g\<rparr>)"
  by (simp_all add: kept_def)

lemma kept_flag_ops:
  "kept p (DianaProcessor_SetFlag f p)"
  "kept p (DianaProcessor_ClearFlag f p)"
  "kept p (set_flag_if c f p)"
  "kept p (assign_flag c f p)"
  "kept p (UPDATE_PSZ X h p)"
  "kept p (DianaProcessor_UpdatePSZ v n p)"
  "kept p (DianaProcessor_SetCOA_Add a b d n f p)"
  "kept p (DianaProcessor_SetCOA_AddCF a b d n f p)"
  "kept p (DianaProcessor_SetCOA_Sub a b d n f p)"
  "kept p (DianaProcessor_SetCOA_SubCF a b d n f p)"
  "kept p (DI_START_UPDATE_COA_FLAGS p)"
  "kept p (DI_START_UPDATE_OA_FLAGS p)"
  "kept p (DI_START_UPDATE_O_FLAGS p)"
  "kept p (DianaProcessor_CmdUsesNormalRep p)"
  "kept p (DianaProcessor_SetResetDefaultFlags p)"
  by (simp_all add: kept_def DI_START_UPDATE_COA_FLAGS_def DI_START_UPDATE_OA_FLAGS_def DI_START_UPDATE_O_FLAGS_def
      DianaProcessor_CmdUsesNormalRep_def DianaProcessor_SetResetDefaultFlags_def)

lemma r32_range:
  assumes "(reg_EAX \<le> r \<and> r \<le> reg_EDI) \<or> (reg_R8D \<le> r \<and> r \<le> reg_R15D)"
  shows "plain_reg r \<and> 0 \<le> m_offset (x86_layout r) \<and> m_offset (x86_layout r) + 8 \<le> 2436"
proof -
  have "r = reg_EAX \<or> r = reg_ECX \<or> r = reg_EDX \<or> r = reg_EBX \<or> r = reg_ESP \<or> r = reg_EBP \<or> r = reg_ESI \<or> r = reg_EDI
    \<or> r = reg_R8D \<or> r = reg_R9D \<or> r = reg_R10D \<or> r = reg_R11D \<or> r = reg_R12D \<or> r = reg_R13D \<or> r = reg_R14D \<or> r = reg_R15D"
    using assms by presburger
  then show ?thesis
    by (elim disjE) (simp_all add: plain_reg_def reg_simps)
qed

lemma std_layout_bound: "0 < m_size (x86_layout r) \<Longrightarrow> in_vector (x86_layout r)"
  using registered_in_vector [of r] x86_layout_unregistered [of r] by (cases "r \<in> set registered") auto

lemma QueryReg_bound:
  assumes "std_regs p" "0 < m_size (DianaProcessor_QueryReg p r)"
  shows "0 \<le> m_offset (DianaProcessor_QueryReg p r)"
    "m_offset (DianaProcessor_QueryReg p r) + m_size (DianaProcessor_QueryReg p r) \<le> 2436"
proof -
  have "\<exists>r'. DianaProcessor_QueryReg p r = x86_layout r'"
    using assms(1) by (auto simp: DianaProcessor_QueryReg_def DianaProcessor_FPU_QueryReg_def
        DianaProcessor_FPU_QueryReg_MM_def std_regs_def Let_def)
  then obtain r' where "DianaProcessor_QueryReg p r = x86_layout r'"
    by blast
  with assms(2) std_layout_bound [of r'] show "0 \<le> m_offset (DianaProcessor_QueryReg p r)"
    "m_offset (DianaProcessor_QueryReg p r) + m_size (DianaProcessor_QueryReg p r) \<le> 2436"
    by (simp_all add: in_vector_def)
qed

lemma SetValueEx_outside:
  assumes "0 \<le> m_offset i" "valid_size n \<Longrightarrow> m_offset i + n \<le> 2436"
    "n = 4 \<Longrightarrow> (reg_EAX \<le> r \<and> r \<le> reg_EDI) \<or> (reg_R8D \<le> r \<and> r \<le> reg_R15D) \<Longrightarrow> m_offset i + 8 \<le> 2436" "2436 \<le> a"
  shows "m_pRegistersVector (DianaProcessor_SetValueEx r i v n p) a = m_pRegistersVector p a"
proof -
  have put: "vec_put vec (nat (m_offset i)) k w a = vec a" if "m_offset i + int k \<le> 2436" for vec k w
    using that assms(1,4) by (intro vec_put_outside disjI2) linarith
  consider "n = 1" | "n = 2" | "n = 4" | "n = 8" | "\<not> valid_size n"
    by (auto simp: valid_size_def)
  then show ?thesis
    by cases (use assms(2,3) in \<open>simp_all add: DianaProcessor_SetValueEx_def put_reg_def put valid_size_def Let_def\<close>)
qed

lemma keeps_SET_REG [keeps_intros]: "keeps_fun kept (SET_REG r v)"
  unfolding keeps_fun_def
proof
  fix p :: "'a DianaProcessor"
  have "m_pRegistersVector (SET_REG r v p) a = m_pRegistersVector p a" if "std_regs p" "2436 \<le> a" for a
  proof (cases "0 < m_size (DianaProcessor_QueryReg p r)")
    case True
    note b = QueryReg_bound [OF that(1) True]
    show ?thesis
      unfolding SET_REG_def DianaProcessor_SetValue_def
    proof (rule SetValueEx_outside)
      assume "(reg_EAX \<le> r \<and> r \<le> reg_EDI) \<or> (reg_R8D \<le> r \<and> r \<le> reg_R15D)"
      from r32_range [OF this] show "m_offset (DianaProcessor_QueryReg p r) + 8 \<le> 2436"
        using that(1) by (simp add: QueryReg_plain std_regs_def)
    qed (use b that in auto)
  next
    case False
    then show ?thesis
      by (auto simp: SET_REG_def DianaProcessor_SetValue_def DianaProcessor_SetValueEx_def Let_def)
  qed
  then show "kept p (SET_REG r v p)"
    by (simp add: kept_def)
qed

text \<open>The sized accesses are made on 64-bit registers only, with any size the context may hold.\<close>

lemma keeps_SET_REG2:
  assumes "plain_reg r" "0 \<le> m_offset (x86_layout r)" "m_offset (x86_layout r) + 8 \<le> 2436"
  shows "keeps_fun kept (\<lambda>p. SET_REG2 r (v p) (n p) p)"
  unfolding keeps_fun_def
proof
  fix p :: "'a DianaProcessor"
  have "m_pRegistersVector (SET_REG2 r (v p) (n p) p) a = m_pRegistersVector p a" if "std_regs p" "2436 \<le> a" for a
    unfolding SET_REG2_def using that assms
    by (intro SetValueEx_outside) (auto simp: QueryReg_plain std_regs_def valid_size_def)
  then show "kept p (SET_REG2 r (v p) (n p) p)"
    by (simp add: kept_def)
qed

lemma keeps_SET_REG2s [keeps_intros]:
  "keeps_fun kept (\<lambda>p. SET_REG2 reg_RSP (v p) (n p) p)"
  "keeps_fun kept (\<lambda>p. SET_REG2 reg_RBP (v p) (n p) p)"
  "keeps_fun kept (\<lambda>p. SET_REG2 reg_RIP (v p) (n p) p)"
  "keeps_fun kept (\<lambda>p. SET_REG2 reg_RSI (v p) (n p) p)"
  "keeps_fun kept (\<lambda>p. SET_REG2 reg_RAX (v p) (n p) p)"
  "keeps_fun kept (\<lambda>p. SET_REG2 reg_RBX (v p) (n p) p)"
  "keeps_fun kept (\<lambda>p. SET_REG2 reg_RCX (v p) (n p) p)"
  by (rule keeps_SET_REG2; simp add: plain_reg_def reg_simps)+

lemma keeps_SET_REG_dep [keeps_intros]: "keeps_fun kept (\<lambda>p. SET_REG r (f p) p)"
  using keeps_SET_REG unfolding keeps_fun_def by blast

lemma keeps_flag_funs [keeps_intros]:
  "keeps_fun kept (DianaProcessor_SetFlag f)"
  "keeps_fun kept (DianaProcessor_ClearFlag f)"
  "keeps_fun kept (set_flag_if c f)"
  "keeps_fun kept (assign_flag c f)"
  "keeps_fun kept (UPDATE_PSZ X h)"
  "keeps_fun kept (DianaProcessor_UpdatePSZ v n)"
  "keeps_fun kept (DianaProcessor_SetCOA_Add a b d n f)"
  "keeps_fun kept (DianaProcessor_SetCOA_AddCF a b d n f)"
  "keeps_fun kept (DianaProcessor_SetCOA_Sub a b d n f)"
  "keeps_fun kept (DianaProcessor_SetCOA_SubCF a b d n f)"
  "keeps_fun kept (DI_START_UPDATE_COA_FLAGS)"
  "keeps_fun kept (DI_START_UPDATE_OA_FLAGS)"
  "keeps_fun kept (DI_START_UPDATE_O_FLAGS)"
  "keeps_fun kept (DianaProcessor_CmdUsesNormalRep)"
  "keeps_fun kept (DianaProcessor_SetResetDefaultFlags)"
  by (simp_all add: keeps_fun_def kept_flag_ops)

lemma keeps_flag_deps [keeps_intros]:
  "keeps_fun kept (\<lambda>p. set_flag_if (c p) f p)"
  "keeps_fun kept (\<lambda>p. assign_flag (c p) f p)"
  "keeps_fun kept (\<lambda>p. DianaProcessor_UpdatePSZ (v p) (n p) p)"
  "keeps_fun kept (\<lambda>p. DianaProcessor_SetFlag (v p) p)"
  "keeps_fun kept (\<lambda>p. DianaProcessor_ClearFlag (v p) p)"
  by (simp_all add: keeps_fun_def kept_flag_ops)

lemma keeps_field_updates [keeps_intros]:
  "keeps_fun kept (\<lambda>p. p\<lparr>m_flags := f1 p\<rparr>)" "keeps_fun kept (\<lambda>p. p\<lparr>m_stateFlags := f2 p\<rparr>)"
  "keeps_fun kept (\<lambda>p. p\<lparr>m_stateFlagsToRemove := f2 p\<rparr>)" "keeps_fun kept (\<lambda>p. p\<lparr>m_stateFlags := f2 p, m_stateFlagsToRemove := f3 p\<rparr>)"
  "keeps_fun kept (\<lambda>p. p\<lparr>m_lastCallRIP := f1 p\<rparr>)" "keeps_fun kept (\<lambda>p. p\<lparr>m_lastCallRSP := f1 p\<rparr>)"
  "keeps_fun kept (\<lambda>p. p\<lparr>m_random := f4 p\<rparr>)" "keeps_fun kept (\<lambda>p. p\<lparr>m_pkru := f2 p\<rparr>)" "keeps_fun kept (\<lambda>p. p)"
  "keeps_fun kept (\<lambda>p. p\<lparr>m_context := (m_context p)\<lparr>iCurrentCmd_opsize := f5 p\<rparr>\<rparr>)"
  by (simp_all add: keeps_fun_def kept_def)

section \<open>Memory and operands\<close>

lemma keeps_GetMemValue [keeps_intros]: "keeps kept (DianaProcessor_GetMemValue sel off n seg)"
  by (auto simp: keeps_def DianaProcessor_GetMemValue_def DianaProcessor_GetMemValue_raw_def kept_flags split: di_res.splits)

lemma keeps_SetMemValue [keeps_intros]: "keeps kept (DianaProcessor_SetMemValue sel off n v seg)"
  by (auto simp: keeps_def DianaProcessor_SetMemValue_def kept_flags kept.R_refl split: di_res.splits)

lemma keeps_ReadMemory [keeps_intros]: "keeps kept (DianaProcessor_ReadMemory sel off n seg)"
  by (auto simp: keeps_def DianaProcessor_ReadMemory_def kept_flags split: di_res.splits)

lemma keeps_WriteMemory [keeps_intros]: "keeps kept (DianaProcessor_WriteMemory sel off bs seg)"
  by (auto simp: keeps_def DianaProcessor_WriteMemory_def kept_flags split: di_res.splits)

lemma keeps_CalcIndex [keeps_intros]: "keeps kept (DianaProcessor_CalcIndex ix)"
  unfolding DianaProcessor_CalcIndex_def by (intro keeps_intros)

lemma keeps_GetOperand_index [keeps_intros]: "keeps kept (Diana_ProcessorGetOperand_index n ix)"
  unfolding Diana_ProcessorGetOperand_index_def by (intro keeps_intros)

lemma keeps_SetOperand_index [keeps_intros]: "keeps kept (Diana_ProcessorSetOperand_index n v ix)"
  unfolding Diana_ProcessorSetOperand_index_def by (intro keeps_intros)

lemma keeps_index_ex [keeps_intros]:
  "keeps kept (Diana_ProcessorGetOperand_index_ex n ix)" "keeps kept (Diana_ProcessorGetOperand_index_ex2 n ix)"
  unfolding Diana_ProcessorGetOperand_index_ex_def Diana_ProcessorGetOperand_index_ex2_def by (intro keeps_intros)+

lemma keeps_GetOperand_register [keeps_intros]: "keeps kept (Diana_ProcessorGetOperand_register r)"
  unfolding Diana_ProcessorGetOperand_register_def by (intro keeps_intros)

lemma Query64_range:
  assumes "Query64RegisterFor32 r = Some r64"
  shows "plain_reg r64" "0 \<le> m_offset (x86_layout r64)" "m_offset (x86_layout r64) + 8 \<le> 2436"
  using assms by (auto simp: Query64RegisterFor32_def plain_reg_def reg_simps split: if_splits)

lemma keeps_SetOperand_register [keeps_intros]: "keeps kept (Diana_ProcessorSetOperand_register r v)"
  unfolding Diana_ProcessorSetOperand_register_def
proof (intro kept.keeps_DO kept.keeps_END keeps_SET_REG)
  have "kept q (put_reg (nat (m_offset (DianaProcessor_QueryReg q r64)) + 4) 4 0 q)"
    if "Query64RegisterFor32 r = Some r64" for r64 and q :: "'a DianaProcessor"
    using Query64_range [OF that]
    by (auto simp: kept_def put_reg_def vec_put_def QueryReg_plain std_regs_def)
  then show "keeps_fun kept (\<lambda>p :: 'a DianaProcessor. case (if iAMD64Mode (m_context p) \<noteq> 0 then Query64RegisterFor32 r else None) of
      Some reg64 \<Rightarrow> put_reg (nat (m_offset (DianaProcessor_QueryReg p reg64)) + 4) 4 0 p | None \<Rightarrow> p)"
    by (auto simp: keeps_fun_def kept.R_refl split: option.splits)
qed

lemma keeps_GetAddress [keeps_intros]: "keeps kept (DianaProcessor_GetAddress op)"
  unfolding DianaProcessor_GetAddress_def by (intro keeps_intros)

lemma keeps_MEM_GET [keeps_intros]: "keeps kept (DI_MEM_GET i)"
  unfolding DI_MEM_GET_def by (intro keeps_intros)

lemma keeps_MEM_SET [keeps_intros]: "keeps kept (DI_MEM_SET i v)"
  unfolding DI_MEM_SET_def by (intro keeps_intros)

lemma keeps_GetOperandSize [keeps_intros]: "keeps kept (DianaProcessor_GetOperandSize i)"
  unfolding DianaProcessor_GetOperandSize_def by (intro keeps_intros)

lemma keeps_UPDATE_FLAGS_PSZ [keeps_intros]:
  "keeps kept X \<Longrightarrow> (\<And>r. keeps kept (k r)) \<Longrightarrow> keeps kept (DI_UPDATE_FLAGS_PSZ X k)"
  unfolding DI_UPDATE_FLAGS_PSZ_def by (intro keeps_intros)

lemma keeps_SignExtend [keeps_intros]: "keeps kept (DianaProcessor_SignExtend v n m)"
  unfolding DianaProcessor_SignExtend_def by (intro keeps_intros)

end
