(* ===== verification/Int128.thy ===== *)
theory Int128
  imports Diana_Prelude "HOL-Library.Signed_Division"
begin

unbundle bit_operations_syntax

text \<open>
  The 128-bit arithmetic of \<^verbatim>\<open>diana_processor_cmd_internal.c\<close> on pairs of 64-bit halves: addition, negation,
  unsigned and signed multiplication and division.  The product is exact; the division by shifting
  and subtracting returns the quotient and the remainder exactly when the quotient fits.
  A negation of the least 64-bit integer is the two's complement one, as compilers emit it.
\<close>

section \<open>The routines\<close>

definition add128 :: "u64 \<Rightarrow> u64 \<Rightarrow> u64 \<Rightarrow> u64 \<Rightarrow> u64 \<times> u64" where
  "add128 low high a b =
     (let low' = low + a;
          high' = (if low' < a then high + 1 else high)
      in (low', high' + b))"

definition neg128 :: "u64 \<Rightarrow> u64 \<Rightarrow> u64 \<times> u64" where
  "neg128 low high = add128 (NOT low) (NOT high) 1 0"

definition mul64 :: "u64 \<Rightarrow> u64 \<Rightarrow> u64 \<times> u64" where
  "mul64 a b =
     (let a0 = take_bit 32 a; a1 = drop_bit 32 a;
          b0 = take_bit 32 b; b1 = drop_bit 32 b;
          v = a0 * b0;
          (low, high) = (v, 0);
          v = a0 * b1;
          (low, high) = add128 low high (push_bit 32 v) (drop_bit 32 v);
          v = a1 * b0;
          (low, high) = add128 low high (push_bit 32 v) (drop_bit 32 v);
          v = a1 * b1
      in (low, high + v))"

definition imul64 :: "u64 \<Rightarrow> u64 \<Rightarrow> u64 \<times> u64" where
  "imul64 a b =
     (let sa = sint a < 0; a = (if sa then - a else a);
          sb = sint b < 0; b = (if sb then - b else b);
          (low, high) = mul64 a b
      in if sa \<noteq> sb then neg128 low high else (low, high))"

text \<open>One round of the division loop, and the loop with its 64 rounds.\<close>

definition div64_step :: "u64 \<Rightarrow> u64 \<times> u64 \<Rightarrow> u64 \<times> u64" where
  "div64_step b = (\<lambda>(a1, a0).
     let ab = drop_bit 63 a1;
         a1 = push_bit 1 a1 OR drop_bit 63 a0;
         (a1, qb) = (if ab \<noteq> 0 \<or> a1 \<ge> b then (a1 - b, 1) else (a1, 0))
     in (a1, push_bit 1 a0 OR qb))"

fun div64_loop :: "nat \<Rightarrow> u64 \<Rightarrow> u64 \<times> u64 \<Rightarrow> u64 \<times> u64" where
  "div64_loop 0 b s = s"
| "div64_loop (Suc n) b s = div64_loop n b (div64_step b s)"

text \<open>\<open>None\<close> is the return value 1.  The caller has excluded a zero divisor.\<close>

definition div64 :: "u64 \<Rightarrow> u64 \<Rightarrow> u64 \<Rightarrow> (u64 \<times> u64) option" where
  "div64 low high b =
     (let a0 = low; a1 = high in
      if a1 = 0 then Some (a0 div b, a0 mod b)
      else if a1 \<ge> b then None
      else let (a1, a0) = div64_loop 64 b (a1, a0) in Some (a0, a1))"

definition idiv64 :: "u64 \<Rightarrow> u64 \<Rightarrow> u64 \<Rightarrow> (u64 \<times> u64) option" where
  "idiv64 low high b =
     (let sa = sint high < 0;
          (low, high) = (if sa then neg128 low high else (low, high));
          sb = sint b < 0;
          b = (if sb then - b else b)
      in case div64 low high b of
           None \<Rightarrow> None
         | Some (q, r) \<Rightarrow>
             if sa \<noteq> sb then
               if q > push_bit 63 1 then None else Some (- q, if sa then - r else r)
             else
               if q \<ge> push_bit 63 1 then None else Some (q, if sa then - r else r))"

section \<open>Values of a pair\<close>

definition val128 :: "u64 \<times> u64 \<Rightarrow> int" where
  "val128 x = uint (fst x) + 2 ^ 64 * uint (snd x)"

definition sval128 :: "u64 \<times> u64 \<Rightarrow> int" where
  "sval128 x = uint (fst x) + 2 ^ 64 * sint (snd x)"

lemma uint_bounds: "0 \<le> uint (a :: u64)" "uint a < 2 ^ 64"
  using uint_range_size [of a] by (simp_all add: word_size)

lemma val128_bounds: "0 \<le> val128 x" "val128 x < 2 ^ 128"
  using uint_bounds [of "fst x"] uint_bounds [of "snd x"] by (simp_all add: val128_def)

text \<open>The pair as a residue modulo \<open>2 ^ 128\<close>, where the routines are ring operations.\<close>

definition w128 :: "u64 \<times> u64 \<Rightarrow> 128 word" where
  "w128 x = word_of_int (val128 x)"

lemma uint_w128: "uint (w128 x) = val128 x"
  using val128_bounds [of x] by (simp add: w128_def uint_word_of_int)

lemma div_mod_scaled: "c * (y mod k) + (c * k) * (y div k) = c * (y :: int)"
  by (simp add: mult.assoc flip: distrib_left)

lemma w128_high: "word_of_int (x + 2 ^ 64 * (y mod 2 ^ 64)) = (word_of_int (x + 2 ^ 64 * y) :: 128 word)"
proof -
  have "x + 2 ^ 64 * y = (x + 2 ^ 64 * (y mod 2 ^ 64)) + 2 ^ 128 * (y div 2 ^ 64)"
    using div_mod_scaled [of "2 ^ 64" y "2 ^ 64"] by simp
  then have "(x + 2 ^ 64 * y) mod 2 ^ 128 = (x + 2 ^ 64 * (y mod 2 ^ 64)) mod 2 ^ 128"
    by (metis mod_mult_self2)
  then show ?thesis
    unfolding word_of_int_eq_iff take_bit_eq_mod by simp
qed

lemma w128_pair: "w128 (l, h) = word_of_int (uint l + 2 ^ 64 * uint h)"
  by (simp add: w128_def val128_def)

lemma uint_add64: "uint (a + b :: u64) = (uint a + uint b) mod 2 ^ 64"
  by (simp add: uint_word_ariths)

lemma carry64:
  fixes a b :: u64
  obtains c where "c = (if a + b < b then 1 else 0)" "uint (a + b) = uint a + uint b - 2 ^ 64 * c"
proof -
  consider "uint a + uint b < 2 ^ 64" | "2 ^ 64 \<le> uint a + uint b" by linarith
  then show ?thesis
  proof cases
    case 1
    then have s: "uint (a + b) = uint a + uint b"
      using uint_bounds [of a] uint_bounds [of b] by (simp add: uint_add64)
    then have "\<not> a + b < b"
      using uint_bounds [of a] by (simp add: word_less_def)
    with s that [of 0] show ?thesis by simp
  next
    case 2
    have "(uint a + uint b - 2 ^ 64) mod 2 ^ 64 = uint a + uint b - 2 ^ 64"
      using uint_bounds [of a] uint_bounds [of b] 2 by (intro mod_pos_pos_trivial) auto
    then have s: "uint (a + b) = uint a + uint b - 2 ^ 64"
      by (simp add: uint_add64)
    then have "a + b < b"
      using uint_bounds [of a] by (simp add: word_less_def)
    with s that [of 1] show ?thesis by simp
  qed
qed

lemma add128_w: "w128 (add128 low high a b) = w128 (low, high) + w128 (a, b)"
proof -
  obtain c where c: "c = (if low + a < a then 1 else 0)" "uint (low + a) = uint low + uint a - 2 ^ 64 * c"
    by (rule carry64)
  have h: "uint ((if low + a < a then high + 1 else high) + b) = (uint high + c + uint b) mod 2 ^ 64"
    unfolding c(1) by (auto simp: uint_add64 mod_simps)
  have "w128 (add128 low high a b) =
      word_of_int (uint low + uint a - 2 ^ 64 * c + 2 ^ 64 * ((uint high + c + uint b) mod 2 ^ 64))"
    by (simp only: add128_def Let_def w128_pair h c(2))
  also have "\<dots> = word_of_int (uint low + uint a - 2 ^ 64 * c + 2 ^ 64 * (uint high + c + uint b))"
    by (rule w128_high)
  also have "\<dots> = w128 (low, high) + w128 (a, b)"
    unfolding w128_pair of_int_add [symmetric] by (rule arg_cong [where f = word_of_int]) (simp add: algebra_simps)
  finally show ?thesis .
qed

lemma neg128_w: "w128 (neg128 low high) = - w128 (low, high)"
proof -
  have not: "uint (NOT x :: u64) = 2 ^ 64 - 1 - uint x" for x
  proof -
    have "NOT x = - x - 1" by (simp add: not_eq_complement)
    then have "uint (NOT x) = (- uint x - 1) mod 2 ^ 64" 
      by (simp add: uint_word_ariths mod_simps)
    also have "\<dots> = (2 ^ 64 - 1 - uint x) mod 2 ^ 64"
      by (metis (no_types, opaque_lifting) add.commute diff_add_eq mod_add_self2 minus_diff_commute uminus_add_conv_diff)
    also have "\<dots> = 2 ^ 64 - 1 - uint x"
      using uint_bounds [of x] by (intro mod_pos_pos_trivial) linarith+
    finally show ?thesis .
  qed
  have "w128 (NOT low, NOT high) = word_of_int (- (uint low + 2 ^ 64 * uint high) - 1 + 2 ^ 128)"
    unfolding w128_pair not by (rule arg_cong [where f = word_of_int]) (simp add: algebra_simps)
  also have "\<dots> = - w128 (low, high) - 1"
    by (simp add: w128_pair)
  finally show ?thesis
    unfolding neg128_def add128_w by (simp add: w128_pair)
qed

section \<open>Multiplication\<close>

lemma shift32_w: "w128 (push_bit 32 v, drop_bit 32 v) = word_of_int (2 ^ 32 * uint v)"
proof -
  have "uint (push_bit 32 v) + 2 ^ 64 * uint (drop_bit 32 v) = 2 ^ 32 * uint v"
  proof -
    have "uint (push_bit 32 v) = (2 ^ 32 * uint v) mod 2 ^ 64"
      by (simp add: push_bit_eq_mult uint_word_ariths mult.commute)
    moreover have "uint (drop_bit 32 v) = uint v div 2 ^ 32"
      by (rule uint_drop_bit)
    moreover have "(2 ^ 32 * uint v) mod 2 ^ 64 = 2 ^ 32 * (uint v mod 2 ^ 32)"
      by (simp add: mult_mod_right)
    ultimately show ?thesis
      using div_mod_scaled [of "2 ^ 32" "uint v" "2 ^ 32"] by simp
  qed
  then show ?thesis
    by (simp only: w128_pair)
qed

lemma halves: "uint (a :: u64) = uint (take_bit 32 a) + 2 ^ 32 * uint (drop_bit 32 a)"
  "uint (take_bit 32 (a :: u64)) < 2 ^ 32" "uint (drop_bit 32 (a :: u64)) < 2 ^ 32"
proof -
  show "uint (a :: u64) = uint (take_bit 32 a) + 2 ^ 32 * uint (drop_bit 32 a)"
    unfolding uint_take_bit uint_drop_bit by simp
  show "uint (take_bit 32 (a :: u64)) < 2 ^ 32"
    unfolding uint_take_bit by simp
  show "uint (drop_bit 32 (a :: u64)) < 2 ^ 32"
    unfolding uint_drop_bit using uint_bounds [of a] by (simp add: div_less_iff_less_mult)
qed

lemma uint_mult32:
  fixes x y :: u64
  assumes "uint x < 2 ^ 32" "uint y < 2 ^ 32"
  shows "uint (x * y) = uint x * uint y"
proof -
  have "uint x * uint y < 2 ^ 32 * 2 ^ 32"
    using assms by (intro mult_strict_mono) auto
  then show ?thesis
    by (simp add: uint_word_ariths)
qed

lemma mul64_w: "w128 (mul64 a b) = word_of_int (uint a * uint b)"
proof -
  define a0 a1 b0 b1 where defs: "a0 = take_bit 32 a" "a1 = drop_bit 32 a" "b0 = take_bit 32 b" "b1 = drop_bit 32 b"
  have ab: "uint a = uint a0 + 2 ^ 32 * uint a1" "uint b = uint b0 + 2 ^ 32 * uint b1"
    unfolding defs by (rule halves(1))+
  have lt: "uint a0 < 2 ^ 32" "uint a1 < 2 ^ 32" "uint b0 < 2 ^ 32" "uint b1 < 2 ^ 32"
    unfolding defs by (rule halves)+
  obtain l1 h1 where 1: "add128 (a0 * b0) 0 (push_bit 32 (a0 * b1)) (drop_bit 32 (a0 * b1)) = (l1, h1)"
    by fastforce
  obtain l2 h2 where 2: "add128 l1 h1 (push_bit 32 (a1 * b0)) (drop_bit 32 (a1 * b0)) = (l2, h2)"
    by fastforce
  have m: "mul64 a b = (l2, h2 + a1 * b1)"
    unfolding mul64_def Let_def defs [symmetric] by (simp add: 1 2)
  have "w128 (l2, h2 + a1 * b1) = word_of_int (uint l2 + 2 ^ 64 * (uint h2 + uint (a1 * b1)))"
    unfolding w128_pair uint_add64 by (rule w128_high)
  also have "\<dots> = w128 (l2, h2) + word_of_int (2 ^ 64 * uint (a1 * b1))"
    unfolding w128_pair by (simp add: algebra_simps)
  also have "w128 (l2, h2) = w128 (l1, h1) + word_of_int (2 ^ 32 * uint (a1 * b0))"
    unfolding 2 [symmetric] add128_w shift32_w ..
  also have "w128 (l1, h1) = w128 (a0 * b0, 0) + word_of_int (2 ^ 32 * uint (a0 * b1))"
    unfolding 1 [symmetric] add128_w shift32_w ..
  also have "w128 (a0 * b0, 0) = word_of_int (uint (a0 * b0))"
    by (simp add: w128_pair)
  finally have "w128 (mul64 a b) = word_of_int (uint a0 * uint b0) + word_of_int (2 ^ 32 * (uint a0 * uint b1))
      + word_of_int (2 ^ 32 * (uint a1 * uint b0)) + word_of_int (2 ^ 64 * (uint a1 * uint b1))"
    unfolding m by (simp only: uint_mult32 lt)
  also have "\<dots> = word_of_int (uint a * uint b)"
    unfolding ab of_int_add [symmetric] by (rule arg_cong [where f = word_of_int]) (simp add: algebra_simps)
  finally show ?thesis .
qed

lemma mul64_exact: "val128 (mul64 a b) = uint a * uint b"
proof -
  have "0 \<le> uint a * uint b" "uint a * uint b < 2 ^ 64 * 2 ^ 64"
    using uint_bounds [of a] uint_bounds [of b] by (simp, intro mult_strict_mono) simp_all
  then show ?thesis
    unfolding uint_w128 [symmetric] mul64_w uint_word_of_int by simp
qed

section \<open>Signed multiplication\<close>

lemma top_bit_div: "0 \<le> x \<Longrightarrow> x < 2 ^ 64 \<Longrightarrow> x div 2 ^ 63 = (if 2 ^ 63 \<le> x then 1 else 0 :: int)"
  by (auto intro: int_div_pos_eq [where r = "x - 2 ^ 63"])

lemma sint_uint: "sint (a :: u64) = (if 2 ^ 63 \<le> uint a then uint a - 2 ^ 64 else uint a)"
proof -
  have "sint a = take_bit 64 (uint a) - 2 ^ 64 * of_bool (bit (uint a) 63)"
    using signed_take_bit_eq_take_bit_minus [of 63 "uint a"] by (simp add: sint_uint)
  moreover have "bit (uint a) 63 \<longleftrightarrow> 2 ^ 63 \<le> uint a"
  proof -
    have "uint a div 2 ^ 63 = (if 2 ^ 63 \<le> uint a then 1 else 0)"
      by (intro top_bit_div uint_bounds)
    then show ?thesis
      by (auto simp: bit_iff_odd)
  qed
  moreover have "take_bit 64 (uint a) = uint a"
    using uint_bounds [of a] by (simp add: take_bit_int_eq_self)
  ultimately show ?thesis
    by simp
qed

lemma signed_reading_bounds:
  "0 \<le> x \<Longrightarrow> x < 2 ^ 64 \<Longrightarrow> - (2 ^ 63) \<le> (if 2 ^ 63 \<le> x then x - 2 ^ 64 else x :: int)"
  "0 \<le> x \<Longrightarrow> x < 2 ^ 64 \<Longrightarrow> (if 2 ^ 63 \<le> x then x - 2 ^ 64 else x :: int) < 2 ^ 63"
  by auto

lemma sint_bounds: "- (2 ^ 63) \<le> sint (a :: u64)" "sint a < 2 ^ 63"
  unfolding sint_uint by (rule signed_reading_bounds, rule uint_bounds, rule uint_bounds)+

lemma uint_uminus: "a \<noteq> 0 \<Longrightarrow> uint (- a :: u64) = 2 ^ 64 - uint a"
proof -
  assume "a \<noteq> 0"
  then have "0 < uint a"
    using uint_bounds [of a] by (simp add: order_less_le uint_0_iff)
  then have "(2 ^ 64 - uint a) mod 2 ^ 64 = 2 ^ 64 - uint a"
    using uint_bounds [of a] by (intro mod_pos_pos_trivial) linarith+
  moreover have "(- uint a) mod 2 ^ 64 = (2 ^ 64 - uint a) mod 2 ^ 64"
    using mod_add_self1 [of "2 ^ 64" "- uint a"] by simp
  ultimately show ?thesis
    by (simp add: uint_word_ariths)
qed

lemma uint_abs: "uint (if sint a < 0 then - a else a :: u64) = \<bar>sint a\<bar>"
proof (cases "2 ^ 63 \<le> uint a")
  case True
  then have "a \<noteq> 0" by auto
  with True uint_uminus [OF this] uint_bounds [of a] show ?thesis
    by (simp add: sint_uint)
qed (simp add: sint_uint)

lemma sval128_w: "word_of_int (sval128 x) = w128 x"
proof -
  have "sval128 x = val128 x - (if 2 ^ 63 \<le> uint (snd x) then 2 ^ 128 else 0)"
    by (simp add: sval128_def val128_def sint_uint)
  then show ?thesis
    by (simp add: w128_def)
qed

lemma sval128_bounds: "- (2 ^ 127) \<le> sval128 x" "sval128 x < 2 ^ 127"
proof -
  define l h where "l = uint (fst x)" and "h = sint (snd x)"
  have "0 \<le> l" "l < 2 ^ 64" "- (2 ^ 63) \<le> h" "h < 2 ^ 63"
    unfolding l_def h_def by (rule uint_bounds sint_bounds)+
  then show "- (2 ^ 127) \<le> sval128 x" "sval128 x < 2 ^ 127"
    unfolding sval128_def l_def [symmetric] h_def [symmetric] by simp_all
qed

lemma sval128_unique:
  assumes "w128 x = word_of_int z" "- (2 ^ 127) \<le> z" "z < 2 ^ 127"
  shows "sval128 x = z"
proof -
  have "(sval128 x - z) mod 2 ^ 128 = 0"
    using assms(1) unfolding sval128_w [symmetric] word_of_int_eq_iff take_bit_eq_mod
    by (simp add: mod_eq_dvd_iff)
  moreover have "\<bar>sval128 x - z\<bar> < 2 ^ 128"
    using sval128_bounds [of x] assms(2,3) by simp
  ultimately show ?thesis
    using zdvd_not_zless [of "\<bar>sval128 x - z\<bar>" "2 ^ 128"] by (cases "sval128 x = z") auto
qed

lemma imul64_exact: "sval128 (imul64 a b) = sint a * sint b"
proof (rule sval128_unique)
  let ?a = "if sint a < 0 then - a else a" and ?b = "if sint b < 0 then - b else b"
  have m: "w128 (mul64 ?a ?b) = word_of_int (\<bar>sint a\<bar> * \<bar>sint b\<bar>)"
    by (simp only: mul64_w uint_abs)
  define M where "M = mul64 ?a ?b"
  have "imul64 a b = (if (sint a < 0) \<noteq> (sint b < 0) then neg128 (fst M) (snd M) else M)"
    by (simp add: imul64_def M_def case_prod_unfold Let_def)
  then have "w128 (imul64 a b) = (if (sint a < 0) \<noteq> (sint b < 0) then - w128 M else w128 M)"
    by (simp add: neg128_w)
  also have "\<dots> = word_of_int (sint a * sint b)"
    unfolding M_def m by (auto simp: abs_if)
  finally show "w128 (imul64 a b) = word_of_int (sint a * sint b)" .
  have "\<bar>sint a * sint b\<bar> \<le> 2 ^ 63 * 2 ^ 63"
    unfolding abs_mult using sint_bounds [of a] sint_bounds [of b] by (intro mult_mono) auto
  then show "- (2 ^ 127) \<le> sint a * sint b" "sint a * sint b < 2 ^ 127"
    by auto
qed

section \<open>Division\<close>

lemma uint_shift_or:
  assumes "uint y = 0 \<or> uint y = 1"
  shows "uint (push_bit 1 x OR y :: u64) = 2 * uint x - 2 ^ 64 * (uint x div 2 ^ 63) + uint y"
proof -
  have y: "y = 0 \<or> y = 1"
    using assms by (metis unsigned_word_eqI unsigned_0 unsigned_1)
  have "push_bit 1 x OR y = push_bit 1 x + y"
    using y by (intro disjunctive_add [symmetric]) (auto simp: bit_simps bit_0)
  moreover have "uint (push_bit 1 x :: u64) = 2 * uint x - 2 ^ 64 * (uint x div 2 ^ 63)"
  proof -
    have "uint (push_bit 1 x :: u64) = (2 * uint x) mod 2 ^ 64"
      by (simp add: uint_word_ariths mult.commute)
    also have "\<dots> = 2 * (uint x mod 2 ^ 63)"
      by (simp add: mult_mod_right)
    also have "\<dots> = 2 * uint x - 2 ^ 64 * (uint x div 2 ^ 63)"
      using div_mod_scaled [of 2 "uint x" "2 ^ 63"] by simp
    finally show ?thesis .
  qed
  moreover have "uint (push_bit 1 x :: u64) + uint y < 2 ^ 64"
  proof -
    define z where "z = uint x mod 2 ^ 63"
    have "uint (push_bit 1 x :: u64) = 2 * z"
      by (simp add: uint_word_ariths mult.commute mult_mod_right z_def)
    moreover have "z < 9223372036854775808"
      unfolding z_def by simp
    ultimately show ?thesis
      using assms by auto
  qed
  ultimately show ?thesis
    using uint_bounds [of "push_bit 1 x"] uint_bounds [of y] by (simp add: uint_add64 del: push_bit_of_0)
qed

lemma div64_step_correct:
  assumes "uint a1 < uint b"
  obtains qb where "qb = 0 \<or> qb = 1" "uint (fst (div64_step b (a1, a0))) < uint b"
    "val128 (snd (div64_step b (a1, a0)), fst (div64_step b (a1, a0))) =
       2 * val128 (a0, a1) - qb * (2 ^ 64 * uint b - 1)"
proof -
  define A B C where abc: "A = uint a1" "B = uint b" "C = uint a0"
  define t c where tc: "t = C div 2 ^ 63" "c = A div 2 ^ 63"
  have bounds: "0 \<le> A" "A < B" "B < 2 ^ 64" "0 \<le> C" "C < 2 ^ 64"
    using assms uint_bounds [of a1] uint_bounds [of b] uint_bounds [of a0] by (simp_all add: abc)
  have t': "t = (if 2 ^ 63 \<le> C then 1 else 0)" and c': "c = (if 2 ^ 63 \<le> A then 1 else 0)"
    unfolding tc using bounds by (intro top_bit_div; linarith)+
  then have t: "t = 0 \<or> t = 1" and c: "c = 0 \<or> c = 1"
    by simp_all
  have top: "uint (drop_bit 63 a0) = t" "uint (drop_bit 63 a1) = c"
    by (simp_all add: uint_drop_bit abc tc)
  define X where "X = push_bit 1 a1 OR drop_bit 63 a0"
  have X: "uint X = 2 * A - 2 ^ 64 * c + t"
    unfolding X_def using uint_shift_or [of "drop_bit 63 a0" a1] t by (simp add: top abc tc)
  have ge: "(drop_bit 63 a1 \<noteq> 0 \<or> X \<ge> b) \<longleftrightarrow> B \<le> 2 * A + t"
  proof -
    have "drop_bit 63 a1 \<noteq> 0 \<longleftrightarrow> c = 1"
      using c top(2) by (auto simp: uint_0_iff)
    moreover have "X \<ge> b \<longleftrightarrow> B \<le> 2 * A - 2 ^ 64 * c + t"
      by (simp add: word_le_def X abc)
    moreover have "c = 1 \<Longrightarrow> B \<le> 2 * A + t"
      using bounds t c' by (auto split: if_splits)
    ultimately show ?thesis
      using c by auto
  qed
  show ?thesis
  proof (cases "B \<le> 2 * A + t")
    case True
    have step: "div64_step b (a1, a0) = (X - b, push_bit 1 a0 OR 1)"
      using True ge by (simp add: div64_step_def Let_def X_def)
    have "uint (X - b) = (2 * A - 2 ^ 64 * c + t - B) mod 2 ^ 64"
      by (simp add: uint_word_ariths X abc)
    also have "\<dots> = ((2 * A + t - B) + 2 ^ 64 * (- c)) mod 2 ^ 64"
      by (rule arg_cong [where f = "\<lambda>x. x mod 2 ^ 64"]) simp
    also have "\<dots> = (2 * A + t - B) mod 2 ^ 64"
      by (rule mod_mult_self2)
    also have "\<dots> = 2 * A + t - B"
      using True bounds t by (intro mod_pos_pos_trivial) auto
    finally have 1: "uint (X - b) = 2 * A + t - B" .
    have 2: "uint (push_bit 1 a0 OR 1) = 2 * C - 2 ^ 64 * t + 1"
      using uint_shift_or [of 1 a0] by (simp add: abc tc)
    show ?thesis
      by (rule that [of 1]) (use 1 2 bounds t in \<open>auto simp: step val128_def abc\<close>)
  next
    case False
    have step: "div64_step b (a1, a0) = (X, push_bit 1 a0 OR 0)"
      using False ge by (simp add: div64_step_def Let_def X_def)
    have "c = 0"
      using c ge False by (auto simp: top(2) [symmetric] uint_0_iff)
    have 2: "uint (push_bit 1 a0 OR 0) = 2 * C - 2 ^ 64 * t"
      using uint_shift_or [of 0 a0] by (simp add: abc tc)
    show ?thesis
      by (rule that [of 0]) (use X 2 bounds t False \<open>c = 0\<close> in \<open>auto simp: step val128_def abc\<close>)
  qed
qed

lemma div64_loop_correct:
  assumes "uint a1 < uint b"
  obtains Q where "0 \<le> Q" "Q < 2 ^ n" "uint (fst (div64_loop n b (a1, a0))) < uint b"
    "val128 (snd (div64_loop n b (a1, a0)), fst (div64_loop n b (a1, a0))) =
       2 ^ n * val128 (a0, a1) - Q * (2 ^ 64 * uint b - 1)"
  using assms
proof (induction n arbitrary: a1 a0 thesis)
  case 0
  show ?case
    by (rule "0.prems"(1) [of 0]) (use "0.prems" in simp_all)
next
  case (Suc n)
  obtain qb where qb: "qb = 0 \<or> qb = 1" "uint (fst (div64_step b (a1, a0))) < uint b"
    "val128 (snd (div64_step b (a1, a0)), fst (div64_step b (a1, a0))) =
       2 * val128 (a0, a1) - qb * (2 ^ 64 * uint b - 1)"
    by (rule div64_step_correct [OF Suc.prems(2)])
  obtain x1 x0 where x: "div64_step b (a1, a0) = (x1, x0)"
    by fastforce
  obtain Q where Q: "0 \<le> Q" "Q < 2 ^ n" "uint (fst (div64_loop n b (x1, x0))) < uint b"
    "val128 (snd (div64_loop n b (x1, x0)), fst (div64_loop n b (x1, x0))) =
       2 ^ n * val128 (x0, x1) - Q * (2 ^ 64 * uint b - 1)"
    using Suc.IH [of x1 x0] qb(2) unfolding x by auto
  show ?case
  proof (rule Suc.prems(1) [of "Q + 2 ^ n * qb"])
    show "0 \<le> Q + 2 ^ n * qb" "Q + 2 ^ n * qb < 2 ^ Suc n"
      using Q qb(1) by auto
    show "uint (fst (div64_loop (Suc n) b (a1, a0))) < uint b"
      using Q(3) by (simp add: x)
    show "val128 (snd (div64_loop (Suc n) b (a1, a0)), fst (div64_loop (Suc n) b (a1, a0))) =
       2 ^ Suc n * val128 (a0, a1) - (Q + 2 ^ n * qb) * (2 ^ 64 * uint b - 1)"
    proof -
      define K where "K = 2 ^ 64 * uint b - 1"
      have "val128 (x0, x1) = 2 * val128 (a0, a1) - qb * K"
        using qb(3) by (simp add: x K_def)
      then have "val128 (snd (div64_loop n b (x1, x0)), fst (div64_loop n b (x1, x0))) =
          2 ^ n * (2 * val128 (a0, a1) - qb * K) - Q * K"
        using Q(4) unfolding K_def [symmetric] by simp
      then show ?thesis
        unfolding K_def [symmetric] by (simp add: x algebra_simps)
    qed
  qed
qed

lemma div_mod_unique_int:
  fixes N b q r :: int
  assumes "N = q * b + r" "0 \<le> r" "r < b"
  shows "N div b = q" "N mod b = r"
  using assms by (auto simp: int_div_pos_eq int_mod_pos_eq)

text \<open>Quotient and remainder of the 128-bit value, or a refusal exactly when the quotient does not fit.\<close>

lemma div64_correct:
  assumes "b \<noteq> 0"
  shows "div64 low high b =
    (if val128 (low, high) div uint b < 2 ^ 64
     then Some (word_of_int (val128 (low, high) div uint b), word_of_int (val128 (low, high) mod uint b)) else None)"
proof -
  define N where "N = val128 (low, high)"
  have b: "0 < uint b"
    using assms uint_bounds [of b] by (simp add: order_less_le uint_0_iff)
  have N: "N = uint low + 2 ^ 64 * uint high"
    by (simp add: N_def val128_def)
  consider "high = 0" | "high \<noteq> 0" "uint b \<le> uint high" | "high \<noteq> 0" "uint high < uint b"
    by linarith
  then show ?thesis
  proof cases
    case 1
    then have N: "N = uint low"
      by (simp add: N)
    have "N div uint b \<le> N"
      using b zdiv_mono2 [of N 1 "uint b"] by (simp add: N)
    then have "N div uint b < 2 ^ 64"
      using uint_bounds [of low] N by linarith
    moreover have "low div b = word_of_int (N div uint b)" "low mod b = word_of_int (N mod uint b)"
      by (simp_all add: N word_div_def word_mod_def)
    ultimately show ?thesis
      unfolding N_def [symmetric] using 1 by (simp add: div64_def)
  next
    case 2
    have "2 ^ 64 * uint b \<le> N"
    proof -
      have "2 ^ 64 * uint b \<le> 2 ^ 64 * uint high"
        using 2(2) by simp
      then show ?thesis
        unfolding N using uint_bounds(1) [of low] by linarith
    qed
    then have "2 ^ 64 \<le> N div uint b"
      using zdiv_mono1 [of "2 ^ 64 * uint b" N "uint b"] b by simp
    then show ?thesis
      unfolding N_def [symmetric] using 2 by (simp add: div64_def word_le_def)
  next
    case 3
    obtain r q where rq: "div64_loop 64 b (high, low) = (r, q)"
      by fastforce
    obtain Q where Q: "0 \<le> Q" "Q < 2 ^ 64" "uint (fst (div64_loop 64 b (high, low))) < uint b"
      "val128 (snd (div64_loop 64 b (high, low)), fst (div64_loop 64 b (high, low))) =
         2 ^ 64 * val128 (low, high) - Q * (2 ^ 64 * uint b - 1)"
      by (rule div64_loop_correct [OF 3(2)])
    have eq: "uint q + 2 ^ 64 * uint r = 2 ^ 64 * (N - Q * uint b) + Q"
      using Q(4) by (simp add: rq val128_def N algebra_simps)
    have "uint q = (uint q + 2 ^ 64 * uint r) mod 2 ^ 64"
      using uint_bounds [of q] by simp
    also have "\<dots> = Q"
      unfolding eq mod_mult_self4 using Q(1,2) by simp
    finally have q: "uint q = Q" .
    with eq have "N = uint q * uint b + uint r"
      by simp
    from div_mod_unique_int [OF this] Q(3) uint_bounds [of r]
    have dm: "N div uint b = uint q" "N mod uint b = uint r"
      by (simp_all add: rq)
    show ?thesis
      unfolding N_def [symmetric] dm using 3 uint_bounds [of q] by (simp add: div64_def rq word_le_def)
  qed
qed

section \<open>Signed division\<close>

lemma sval128_neg: "sval128 (low, high) < 0 \<longleftrightarrow> sint high < 0"
proof -
  define l h where "l = uint low" and "h = sint high"
  have "0 \<le> l" "l < 2 ^ 64"
    unfolding l_def by (rule uint_bounds)+
  then show ?thesis
    unfolding sval128_def fst_conv snd_conv l_def [symmetric] h_def [symmetric] by auto
qed

lemma val128_abs:
  "val128 (if sint high < 0 then neg128 low high else (low, high)) = \<bar>sval128 (low, high)\<bar>"
proof (cases "sint high < 0")
  case False
  then have "uint high = sint high"
    using uint_bounds [of high] by (auto simp: sint_uint split: if_splits)
  with False sval128_neg [of low high] show ?thesis
    by (simp add: val128_def sval128_def)
next
  case True
  then have neg: "sval128 (low, high) < 0"
    by (simp add: sval128_neg)
  have "w128 (neg128 low high) = word_of_int (- sval128 (low, high))"
    using neg128_w [of low high] sval128_w [of "(low, high)"] by simp
  then have "val128 (neg128 low high) = (- sval128 (low, high)) mod 2 ^ 128"
    unfolding uint_w128 [symmetric] by (simp only: uint_word_of_int) simp
  also have "\<dots> = - sval128 (low, high)"
    using neg sval128_bounds(1) [of "(low, high)"] by (intro mod_pos_pos_trivial) auto
  finally show ?thesis
    using True neg by simp
qed

lemma idiv64_correct:
  assumes "b \<noteq> 0"
  shows "idiv64 low high b =
    (let N = sval128 (low, high) in
     if - (2 ^ 63) \<le> N sdiv sint b \<and> N sdiv sint b < 2 ^ 63
     then Some (word_of_int (N sdiv sint b), word_of_int (N smod sint b)) else None)"
proof -
  define N where "N = sval128 (low, high)"
  define B where "B = \<bar>sint b\<bar>"
  define Q R where QR: "Q = \<bar>N\<bar> div B" "R = \<bar>N\<bar> mod B"
  define m where "m = (if sint high < 0 then neg128 low high else (low, high))"
  let ?b = "if sint b < 0 then - b else b"
  have b0: "?b \<noteq> 0" and B: "uint ?b = B" "0 < B" "sint b \<noteq> 0"
    using assms by (auto simp: B_def uint_abs signed_eq_0_iff)
  have m: "val128 m = \<bar>N\<bar>"
    unfolding m_def N_def by (rule val128_abs)
  have Q0: "0 \<le> Q" "0 \<le> R"
    using B(2) by (simp_all add: QR pos_imp_zdiv_nonneg_iff)
  have d: "div64 (fst m) (snd m) ?b = (if Q < 2 ^ 64 then Some (word_of_int Q, word_of_int R) else None)"
    using div64_correct [OF b0, of "fst m" "snd m"] unfolding prod.collapse m B(1) QR .
  have sdiv: "N sdiv sint b = (if (sint high < 0) \<noteq> (sint b < 0) then - Q else Q)"
    "N smod sint b = (if sint high < 0 then - R else R)"
    using B(3) sval128_neg [of low high] unfolding N_def [symmetric]
    by (cases "N = 0"; auto simp: signed_divide_int_def signed_modulo_int_def QR B_def sgn_if)+
  have i: "idiv64 low high b = (case div64 (fst m) (snd m) ?b of None \<Rightarrow> None
      | Some (q, r) \<Rightarrow> if (sint high < 0) \<noteq> (sint b < 0) then
             if q > push_bit 63 1 then None else Some (- q, if sint high < 0 then - r else r)
           else if q \<ge> push_bit 63 1 then None else Some (q, if sint high < 0 then - r else r))"
    unfolding idiv64_def Let_def m_def by (simp add: case_prod_unfold)
  have cmp: "(word_of_int Q > (push_bit 63 1 :: u64)) = (Q > 2 ^ 63)" "(word_of_int Q \<ge> (push_bit 63 1 :: u64)) = (Q \<ge> 2 ^ 63)"
    if "Q < 2 ^ 64"
    using that Q0 by (simp_all add: word_less_def word_le_def uint_word_of_int)
  show ?thesis
    unfolding N_def [symmetric] Let_def sdiv i d using cmp Q0 by (auto split: if_splits)
qed

end
