(* ===== verification/Cmd_Internal.thy ===== *)
theory Cmd_Internal
  imports Operand_Contract Processor_Frame Int128
begin

unbundle bit_operations_syntax

text \<open>
  The helpers the handlers share (\<^verbatim>\<open>diana_processor_cmd_internal.c\<close>): the stack, the zero and sign extension of a
  destination in 64-bit mode, taken branches, the index registers of the string instructions and the
  return.  A push followed by a pop gives the value back and restores the stack pointer.
\<close>

section \<open>The stack\<close>

definition diana_internal_push :: "u64 \<Rightarrow> (unit, 'm) di_cmd" where
  "diana_internal_push v =
     DI_LET (\<lambda>p. (GET_REG2 reg_RSP (addrsize p) p, word_of_int (opsize p) :: u64, GET_REG reg_SS p)) (\<lambda>(rsp, osz, ss).
     if rsp < osz then DI_FAIL DI_ERROR
     else
       let rsp' = rsp - osz in
       DI_CHECK (DianaProcessor_SetMemValue ss rsp' osz v reg_SS) (\<lambda>_.
       DI_DO (\<lambda>p. SET_REG2 reg_RSP rsp' (addrsize p) p)
       DI_PROC_END))"

text \<open>
  The pop writes through the pointer it is given before it knows that the read succeeded: \<open>store\<close> is
  that write.  Most callers pass a local variable.
\<close>

definition diana_internal_pop_to :: "(u64 \<Rightarrow> 'm DianaProcessor \<Rightarrow> 'm DianaProcessor) \<Rightarrow> (u64, 'm) di_cmd" where
  "diana_internal_pop_to store p =
     (let rsp = GET_REG2 reg_RSP (addrsize p) p;
          osz = word_of_int (opsize p) :: u64;
          (status, v, p1) = DianaProcessor_GetMemValue_raw (GET_REG reg_SS p) rsp osz reg_SS p;
          p2 = store v p1
      in case status of
           Some e \<Rightarrow> Err e p2
         | None \<Rightarrow> Ok v (SET_REG2 reg_RSP (rsp + osz) (addrsize p2) p2))"

definition diana_internal_pop :: "(u64, 'm) di_cmd" where
  "diana_internal_pop = diana_internal_pop_to (\<lambda>v p. p)"

section \<open>Destinations in 64-bit mode\<close>

text \<open>The first operand (\<open>i = 0\<close>) or the second one (\<open>i = 1\<close>, for \<^verbatim>\<open>xchg [mem], r32\<close>) as the destination.\<close>

definition Di_CheckZeroExtends_operand :: "int \<Rightarrow> u64 \<Rightarrow> int \<Rightarrow> (u64, 'm) di_cmd" where
  "Di_CheckZeroExtends_operand i dest src_size =
     DI_LET (\<lambda>p. (iAMD64Mode (m_context p), opsize p, m_cmd_flags (pInfo (m_result p)), op_value (linked p i)))
       (\<lambda>(mode, osz, flags, operand).
     if mode = 0 then DI_RETURN dest
     else if src_size = 8 then DI_RETURN dest
     else if osz = 8 then
       if flags AND DI_FLAG_CMD_AMD64_SIGN_EXTENDS \<noteq> 0 then DianaProcessor_SignExtend dest src_size 8
       else DI_RETURN dest
     else if osz = 4 then
       case operand of
         diana_register r \<Rightarrow>
           (case Query64RegisterFor32 r of
              None \<Rightarrow> DI_RETURN dest
            | Some reg64 \<Rightarrow> DI_DO (SET_REG reg64 0) (DI_RETURN dest))
       | _ \<Rightarrow> DI_RETURN dest
     else DI_RETURN dest)"

definition Di_CheckZeroExtends :: "u64 \<Rightarrow> int \<Rightarrow> (u64, 'm) di_cmd" where
  "Di_CheckZeroExtends dest src_size = Di_CheckZeroExtends_operand 0 dest src_size"

definition Di_CheckZeroExtends2 :: "u64 \<Rightarrow> int \<Rightarrow> (u64, 'm) di_cmd" where
  "Di_CheckZeroExtends2 dest src_size = Di_CheckZeroExtends_operand 1 dest src_size"

definition Di_ClearUpperHalf :: "(unit, 'm) di_cmd" where
  "Di_ClearUpperHalf =
     DI_LET (\<lambda>p. (iAMD64Mode (m_context p), opsize p, opcount p, op_value (linked p 0))) (\<lambda>(mode, osz, count, operand).
     if mode = 0 \<or> osz \<noteq> 4 \<or> count = 0 then DI_PROC_END
     else case operand of
       diana_register r \<Rightarrow>
         (case Query64RegisterFor32 r of
            None \<Rightarrow> DI_PROC_END
          | Some reg64 \<Rightarrow> DI_DO (\<lambda>p. SET_REG reg64 (GET_REG reg64 p AND 0xFFFFFFFF) p) DI_PROC_END)
     | _ \<Rightarrow> DI_PROC_END)"

section \<open>Branches and returns\<close>

definition Diana_Call_jcc :: "int \<Rightarrow> int \<Rightarrow> (unit, 'm) di_cmd" where
  "Diana_Call_jcc opCount relOp =
     DI_LET (\<lambda>p. (opcount p, op_value (linked p relOp))) (\<lambda>(count, operand).
     if count \<noteq> opCount then DI_FAIL DI_ERROR
     else case operand of
       diana_rel r \<Rightarrow>
         DI_LET (\<lambda>p. GET_REG2 reg_RIP (opsize p) p + m_value r + word_of_int (iFullCmdSize (m_result p))) (\<lambda>newRIP.
         DI_DO (\<lambda>p. SET_REG2 reg_RIP newRIP (iMainMode_addressSize (m_context p)) p)
         DI_PROC_END)
     | _ \<Rightarrow> DI_FAIL DI_ERROR)"

definition Diana_Call_internal_ret :: "bool \<Rightarrow> (unit, 'm) di_cmd" where
  "Diana_Call_internal_ret bPopCS =
     DI_LET opcount (\<lambda>count.
     DI_CHECK
       (if count = 1 then
          DI_CHECK (DI_MEM_GET 0) (\<lambda>_.
          DI_LET (\<lambda>p. op_value (linked p 0)) (\<lambda>operand.
          case operand of diana_imm v \<Rightarrow> DI_RETURN v | _ \<Rightarrow> DI_FAIL DI_ERROR))
        else if count \<noteq> 0 then DI_FAIL DI_ERROR
        else DI_RETURN 0) (\<lambda>dropBytes.
     DI_LET (\<lambda>p. (GET_REG reg_RSP p, word_of_int (opsize p), GET_REG reg_SS p)) (\<lambda>(rsp, osz, ss).
     DI_CHECK (DianaProcessor_GetMemValue ss rsp osz reg_SS) (\<lambda>newRIP.
     let rsp = rsp + osz in
     DI_CHECK
       (if bPopCS then
          DI_LET (GET_REG reg_SS) (\<lambda>ss.
          DI_CHECK (DianaProcessor_GetMemValue ss rsp osz reg_SS) (\<lambda>newCs. DI_RETURN (newCs, rsp + osz)))
        else DI_RETURN (0, rsp)) (\<lambda>(newCs, rsp).
     let rsp = rsp + dropBytes in
     DI_DO (SET_REG reg_RSP rsp) (
     DI_DO (SET_REG reg_RIP newRIP) (
     DI_DO (\<lambda>p. if bPopCS then SET_REG reg_CS newCs p else p)
     DI_PROC_END)))))))"

section \<open>String instructions\<close>

definition zero_index :: "DianaUnifiedRegister \<Rightarrow> DianaUnifiedRegister \<Rightarrow> DianaRmIndex" where
  "zero_index seg r = \<lparr>seg_reg = seg, reg = r, indexed_reg = reg_none, index = 0, dispSize = 0, dispValue = 0\<rparr>"

text \<open>The source index (used when \<open>withSrc\<close>) and the destination index.\<close>

definition Di_PrepareSIDI_regs :: "bool \<Rightarrow> (DianaRmIndex \<times> DianaRmIndex, 'm) di_cmd" where
  "Di_PrepareSIDI_regs withSrc =
     DI_LET (\<lambda>p. (opcount p, addrsize p)) (\<lambda>(count, asz).
     if withSrc \<and> count \<noteq> 2 then DI_FAIL DI_ERROR
     else if \<not> withSrc \<and> count \<noteq> 1 then DI_FAIL DI_ERROR
     else if asz = DIANA_MODE64 then DI_RETURN (zero_index reg_DS reg_RSI, zero_index reg_ES reg_RDI)
     else if asz = DIANA_MODE32 then DI_RETURN (zero_index reg_DS reg_ESI, zero_index reg_ES reg_EDI)
     else if asz = DIANA_MODE16 then DI_RETURN (zero_index reg_DS reg_SI, zero_index reg_ES reg_DI)
     else DI_FAIL DI_ERROR)"

definition Di_UpdateSIDI :: "'m DianaProcessor \<Rightarrow> u64 \<Rightarrow> u64" where
  "Di_UpdateSIDI p address =
     (if DianaProcessor_QueryFlag p DI_FLAG_DF then address - word_of_int (usedSize (linked p 0))
      else address + word_of_int (usedSize (linked p 0)))"

section \<open>Frame\<close>

lemma keeps_push [keeps_intros]: "keeps kept (diana_internal_push v)"
  unfolding diana_internal_push_def by (intro keeps_intros)

lemma keeps_pop_to [keeps_intros]:
  assumes "\<And>v. keeps_fun kept (store v)"
  shows "keeps kept (diana_internal_pop_to store)"
  unfolding keeps_def
proof
  fix p :: "'a DianaProcessor"
  obtain st v p1 where raw: "DianaProcessor_GetMemValue_raw (GET_REG reg_SS p) (GET_REG2 reg_RSP (addrsize p) p)
      (word_of_int (opsize p)) reg_SS p = (st, v, p1)"
    using prod_cases3 by blast
  then have "kept p p1"
    by (auto simp: DianaProcessor_GetMemValue_raw_def kept_flags split: di_res.splits)
  then have "kept p (store v p1)"
    using assms kept.R_trans unfolding keeps_fun_def by blast
  moreover have "kept q (SET_REG2 reg_RSP a (addrsize q) q)" for q :: "'a DianaProcessor" and a
    using keeps_SET_REG2s(1) [of "\<lambda>_. a" "\<lambda>q :: 'a DianaProcessor. addrsize q"] by (simp add: keeps_fun_def)
  ultimately show "kept p (res_state (diana_internal_pop_to store p))"
    using raw by (auto simp: diana_internal_pop_to_def Let_def intro: kept.R_trans split: option.splits)
qed

lemma keeps_pop [keeps_intros]: "keeps kept diana_internal_pop"
  unfolding diana_internal_pop_def by (intro keeps_intros)

lemma keeps_CheckZeroExtends_operand [keeps_intros]: "keeps kept (Di_CheckZeroExtends_operand i v n)"
  unfolding Di_CheckZeroExtends_operand_def by (intro keeps_intros)

lemma keeps_CheckZeroExtends [keeps_intros]:
  "keeps kept (Di_CheckZeroExtends v n)" "keeps kept (Di_CheckZeroExtends2 v n)"
  unfolding Di_CheckZeroExtends_def Di_CheckZeroExtends2_def by (intro keeps_intros)+

lemma keeps_ClearUpperHalf [keeps_intros]: "keeps kept Di_ClearUpperHalf"
  unfolding Di_ClearUpperHalf_def by (intro keeps_intros)

lemma keeps_jcc [keeps_intros]: "keeps kept (Diana_Call_jcc c i)"
  unfolding Diana_Call_jcc_def by (intro keeps_intros)

lemma keeps_internal_ret [keeps_intros]: "keeps kept (Diana_Call_internal_ret b)"
  unfolding Diana_Call_internal_ret_def by (intro keeps_intros)

lemma keeps_PrepareSIDI [keeps_intros]: "keeps kept (Di_PrepareSIDI_regs b)"
  unfolding Di_PrepareSIDI_regs_def by (intro keeps_intros)

section \<open>Push and pop\<close>

lemma bit_word8: "bit (ucast (drop_bit k (x :: u64)) :: u8) i \<longleftrightarrow> i < 8 \<and> bit x (k + i)"
  by (auto simp: bit_simps)

lemma vec_put_get: "n \<le> 8 \<Longrightarrow> vec_put v off n (vec_get v off n) = v"
proof (rule ext, rule bit_word_eqI)
  fix a i assume "n \<le> 8" "i < LENGTH(8)"
  then show "bit (vec_put v off n (vec_get v off n) a) i = bit (v a) i"
    by (auto simp: vec_put_def bit_word8 bit_vec_get)
qed

lemma vec_put_put: "vec_put (vec_put v off n x) off n y = vec_put v off n y"
  by (rule ext) (simp add: vec_put_def)

lemma SET_REG2_record:
  assumes "std_regs p" "plain_reg r" "m_offset (x86_layout r) = int off" "valid_size n" "\<not> is_r32 r"
    "r \<noteq> reg_RIP" "r \<noteq> reg_IP" "psz_off p"
  shows "SET_REG2 r v n p = p\<lparr>m_pRegistersVector := vec_put (m_pRegistersVector p) off (nat n) v\<rparr>"
  using assms by (auto simp: SET_REG2_def QueryReg_plain std_regs_def DianaProcessor_SetValueEx_def put_reg_def
      Let_def valid_size_def is_r32_def psz_off_def)

lemma RSP_facts: "plain_reg reg_RSP" "m_offset (x86_layout reg_RSP) = int 32" "\<not> is_r32 reg_RSP"
  by (simp_all add: plain_reg_def is_r32_def reg_simps)

lemma SS_at: "reg_at reg_SS 2332 2"
  by (simp add: reg_at_def plain_reg_def reg_simps)

text \<open>The stack pointer as the current address size sees it.\<close>

definition stack_pointer :: "'m DianaProcessor \<Rightarrow> u64" where
  "stack_pointer p = GET_REG2 reg_RSP (addrsize p) p"

definition stack_ready :: "('m \<Rightarrow> u64 \<Rightarrow> u64 \<Rightarrow> nat \<Rightarrow> bool) \<Rightarrow> 'm DianaProcessor \<Rightarrow> bool" where
  "stack_ready mp p \<longleftrightarrow> std_regs p \<and> psz_off p \<and> valid_size (opsize p) \<and> valid_size (addrsize p) \<and>
     word_of_int (opsize p) \<le> stack_pointer p \<and>
     mp (m_memory p) (GET_REG reg_SS p) (stack_pointer p - word_of_int (opsize p)) (nat (opsize p))"

context memory_stream
begin

lemma push_Ok:
  assumes "attached p" "stack_ready mapped p"
  defines "sp \<equiv> stack_pointer p - word_of_int (opsize p)"
  obtains s' where "diana_internal_push v p =
      Ok () (p\<lparr>m_memory := s', m_pRegistersVector := vec_put (m_pRegistersVector p) 32 (nat (addrsize p)) sp\<rparr>)"
    "ok s'" "mapped s' = mapped (m_memory p)" "apart s' = apart (m_memory p)"
    "DianaProcessor_SetMemValue (GET_REG reg_SS p) sp (word_of_int (opsize p)) v reg_SS p = Ok () (p\<lparr>m_memory := s'\<rparr>)"
proof -
  have r: "std_regs p" "psz_off p" "valid_size (opsize p)" "valid_size (addrsize p)" "word_of_int (opsize p) \<le> stack_pointer p"
    "mapped (m_memory p) (GET_REG reg_SS p) sp (nat (opsize p))"
    using assms(2) by (simp_all add: stack_ready_def sp_def)
  obtain s' where s': "DianaProcessor_SetMemValue (GET_REG reg_SS p) sp (of_nat (nat (opsize p))) v reg_SS p = Ok () (p\<lparr>m_memory := s'\<rparr>)"
    "ok s'" "mapped s' = mapped (m_memory p)" "apart s' = apart (m_memory p)"
    using SetMemValue_mapped [OF assms(1) r(6) size_nat(1) [OF r(3)], of v reg_SS] by metis
  note set = s'(1) [folded size_word [OF r(3)]]
  have "SET_REG2 reg_RSP sp (addrsize p) (p\<lparr>m_memory := s'\<rparr>) =
      p\<lparr>m_memory := s', m_pRegistersVector := vec_put (m_pRegistersVector p) 32 (nat (addrsize p)) sp\<rparr>"
    using SET_REG2_record [OF _ RSP_facts(1,2) r(4) RSP_facts(3), of "p\<lparr>m_memory := s'\<rparr>" sp] r(1,2)
    by (simp add: std_regs_def psz_off_def)
  then have "diana_internal_push v p =
      Ok () (p\<lparr>m_memory := s', m_pRegistersVector := vec_put (m_pRegistersVector p) 32 (nat (addrsize p)) sp\<rparr>)"
    using set r(5) [folded not_less] unfolding sp_def stack_pointer_def
    by (simp add: diana_internal_push_def DI_LET_def DI_CHECK_def DI_DO_def DI_PROC_END_def Let_def)
  with s' set show ?thesis
    using that by blast
qed

lemma push_pop:
  assumes "attached p" "stack_ready mapped p"
  obtains p' s' where "diana_internal_push v p = Ok () p'"
    "stack_pointer p' = stack_pointer p - word_of_int (opsize p)"
    "diana_internal_pop p' = Ok (DianaProcessor_CutValue v (opsize p)) (p\<lparr>m_memory := s'\<rparr>)" "ok s'"
proof -
  define sp where "sp = stack_pointer p - word_of_int (opsize p)"
  let ?n = "nat (addrsize p)"
  have r: "std_regs p" "psz_off p" "valid_size (opsize p)" "valid_size (addrsize p)"
    "mapped (m_memory p) (GET_REG reg_SS p) sp (nat (opsize p))"
    using assms(2) by (simp_all add: stack_ready_def sp_def)
  obtain s' where s': "diana_internal_push v p =
      Ok () (p\<lparr>m_memory := s', m_pRegistersVector := vec_put (m_pRegistersVector p) 32 ?n sp\<rparr>)" "ok s'"
    "DianaProcessor_SetMemValue (GET_REG reg_SS p) sp (word_of_int (opsize p)) v reg_SS p = Ok () (p\<lparr>m_memory := s'\<rparr>)"
    using push_Ok [OF assms, of v] unfolding sp_def by metis
  let ?p' = "p\<lparr>m_memory := s', m_pRegistersVector := vec_put (m_pRegistersVector p) 32 ?n sp\<rparr>"
  have std: "std_regs ?p'" "psz_off ?p'" using r(1,2) by (simp_all add: std_regs_def psz_off_def)
  have asz: "?n \<le> 8" using size_nat [OF r(4)] by simp
  have rsp: "stack_pointer p = vec_get (m_pRegistersVector p) 32 ?n"
    unfolding stack_pointer_def by (rule GET_REG2_at [OF r(1) RSP_facts(1,2) r(4)])
  have fit: "take_bit (8 * ?n) sp = sp"
  proof -
    have le: "word_of_int (opsize p) \<le> stack_pointer p"
      using assms(2) by (simp add: stack_ready_def)
    then have "uint sp \<le> uint (stack_pointer p)"
      by (simp add: sp_def uint_sub_if' word_le_def)
    moreover have "uint (stack_pointer p) < 2 ^ bits_of (addrsize p)"
      using fits_vec_get [of ?n "m_pRegistersVector p" 32] size_nat(2) [OF r(4)] unfolding rsp [symmetric] fits_iff by simp
    ultimately have "fits (addrsize p) sp"
      unfolding fits_iff by linarith
    then show ?thesis
      by (simp add: fits_def bits_of_def)
  qed
  have rsp': "stack_pointer ?p' = sp"
    using GET_REG2_at [OF std(1) RSP_facts(1,2), of "addrsize p"] r(4) asz fit
    by (simp add: vec_get_put_same stack_pointer_def [of ?p'])
  have ss: "GET_REG reg_SS ?p' = GET_REG reg_SS p"
    unfolding GET_REG_at [OF std(1) SS_at] GET_REG_at [OF r(1) SS_at] using asz by (simp add: vec_get_put_disjoint)
  have "DianaProcessor_GetMemValue (GET_REG reg_SS p) sp (of_nat (nat (opsize p))) reg_SS (p\<lparr>m_memory := s'\<rparr>) =
      Ok (take_bit (8 * nat (opsize p)) v) (p\<lparr>m_memory := s'\<rparr>)"
    using SetMemValue_GetMemValue [OF assms(1) r(5) size_nat(1) [OF r(3)] s'(3) [unfolded size_word [OF r(3)]]] .
  then have get: "DianaProcessor_GetMemValue_raw (GET_REG reg_SS p) sp (word_of_int (opsize p)) reg_SS ?p' =
      (None, take_bit (8 * nat (opsize p)) v, ?p')"
    unfolding size_word [OF r(3)]
    by (auto simp: DianaProcessor_GetMemValue_def DianaProcessor_GetMemValue_raw_def
        dest: arg_cong [of _ _ m_memory] split: di_res.splits if_splits)
  have restore: "SET_REG2 reg_RSP (stack_pointer p) (addrsize p) ?p' = p\<lparr>m_memory := s'\<rparr>"
    using SET_REG2_record [OF std(1) RSP_facts(1,2) r(4) RSP_facts(3) _ _ std(2), of "stack_pointer p"] asz
    by (simp add: vec_put_put rsp vec_put_get)
  have "diana_internal_pop ?p' = Ok (DianaProcessor_CutValue v (opsize p)) (p\<lparr>m_memory := s'\<rparr>)"
    using rsp' [unfolded stack_pointer_def [of ?p']] ss get restore unfolding diana_internal_pop_def diana_internal_pop_to_def
    by (simp add: Let_def CutValue_take_bit r(3) bits_of_def sp_def)
  with s' rsp' show ?thesis
    using that unfolding sp_def by blast
qed

end

end
