(* ===== verification/Alu_Contract.thy ===== *)
theory Alu_Contract
  imports Cmd_Internal
begin

unbundle bit_operations_syntax

text \<open>
  The steps the arithmetic and logical handlers share, over the memory contract: fetching a destination and a
  sign-extended source, the zero extension of a 32-bit destination, and storing a result with or without
  its flags.  The handlers' theorems follow their text with one of these lemmas per statement.
\<close>

section \<open>Ready instructions\<close>

text \<open>
  A destination of \<open>n\<close> bytes that an instruction may write; only \<^verbatim>\<open>mov\<close> and \<^verbatim>\<open>push\<close> carry the flag
  that makes the result of a 64-bit instruction sign-extended from its source.
\<close>

definition alu_dest :: "('m \<Rightarrow> u64 \<Rightarrow> u64 \<Rightarrow> nat \<Rightarrow> bool) \<Rightarrow> 'm DianaProcessor \<Rightarrow> int \<Rightarrow> bool" where
  "alu_dest mapped p n \<longleftrightarrow> std_regs p \<and> psz_off p \<and> operand_rw mapped p 0 n \<and>
     m_cmd_flags (pInfo (m_result p)) AND DI_FLAG_CMD_AMD64_SIGN_EXTENDS = 0"

definition alu_ready :: "('m \<Rightarrow> u64 \<Rightarrow> u64 \<Rightarrow> nat \<Rightarrow> bool) \<Rightarrow> 'm DianaProcessor \<Rightarrow> int \<Rightarrow> int \<Rightarrow> bool" where
  "alu_ready mapped p n m \<longleftrightarrow> alu_dest mapped p n \<and> operand_rd mapped p 1 m \<and> m \<le> n"

lemma alu_destD:
  assumes "alu_dest mapped p n"
  shows "std_regs p" "psz_off p" "operand_rw mapped p 0 n" "valid_size n"
    "m_cmd_flags (pInfo (m_result p)) AND DI_FLAG_CMD_AMD64_SIGN_EXTENDS = 0"
  using assms by (auto simp: alu_dest_def operand_rw_def)

lemma alu_readyD:
  assumes "alu_ready mapped p n m"
  shows "alu_dest mapped p n" "operand_rd mapped p 1 m" "m \<le> n" "valid_size m"
  using assms operand_rd_size [of mapped p 1 m] by (auto simp: alu_ready_def)

section \<open>States that differ in the flags only\<close>

definition same_but_flags :: "'m DianaProcessor \<Rightarrow> 'm DianaProcessor \<Rightarrow> bool" where
  "same_but_flags p q \<longleftrightarrow> q = p\<lparr>m_flags := m_flags q\<rparr>"

lemma same_but_flagsE:
  assumes "same_but_flags p q"
  obtains f where "q = p\<lparr>m_flags := f\<rparr>"
  using assms unfolding same_but_flags_def by blast

lemma same_but_flagsI: "q = p\<lparr>m_flags := f\<rparr> \<Longrightarrow> same_but_flags p q"
  by (simp add: same_but_flags_def)

lemma same_but_flags_trans: "same_but_flags p q \<Longrightarrow> same_but_flags q r \<Longrightarrow> same_but_flags p r"
  by (erule same_but_flagsE, erule same_but_flagsE) (simp add: same_but_flags_def)

lemma same_but_flags_refl [simp]: "same_but_flags p p"
  by (simp add: same_but_flags_def)

lemma same_but_flags_ops [simp]:
  "same_but_flags p (DianaProcessor_SetFlag f p)" "same_but_flags p (DianaProcessor_ClearFlag f p)"
  by (simp_all add: same_but_flags_def DianaProcessor_SetFlag_def DianaProcessor_ClearFlag_def)

lemma same_but_flags_if [simp]:
  "same_but_flags p (set_flag_if c f p)" "same_but_flags p (assign_flag c f p)" "same_but_flags p (set_COA c o' a p)"
  by (simp_all add: set_flag_if_def assign_flag_def set_COA_def same_but_flags_def DianaProcessor_SetFlag_def
      DianaProcessor_ClearFlag_def)

lemma same_but_flags_START [simp]:
  "same_but_flags p (DI_START_UPDATE_COA_FLAGS p)" "same_but_flags p (DI_START_UPDATE_OA_FLAGS p)"
  "same_but_flags p (DI_START_UPDATE_O_FLAGS p)"
  by (simp_all add: DI_START_UPDATE_COA_FLAGS_def DI_START_UPDATE_OA_FLAGS_def DI_START_UPDATE_O_FLAGS_def
      same_but_flags_def DianaProcessor_ClearFlag_def)

lemma START_COA_flags [simp]:
  "\<not> DianaProcessor_QueryFlag (DI_START_UPDATE_COA_FLAGS p) DI_FLAG_CF"
  "\<not> DianaProcessor_QueryFlag (DI_START_UPDATE_COA_FLAGS p) DI_FLAG_OF"
  "\<not> DianaProcessor_QueryFlag (DI_START_UPDATE_COA_FLAGS p) DI_FLAG_AF"
  "1 AND g = 0 \<Longrightarrow> 0x10 AND g = 0 \<Longrightarrow> 0x800 AND g = 0 \<Longrightarrow>
   DianaProcessor_QueryFlag (DI_START_UPDATE_COA_FLAGS p) g = DianaProcessor_QueryFlag p g"
  by (simp_all add: DI_START_UPDATE_COA_FLAGS_def)

lemma START_OA_flags [simp]:
  "\<not> DianaProcessor_QueryFlag (DI_START_UPDATE_OA_FLAGS p) DI_FLAG_OF"
  "\<not> DianaProcessor_QueryFlag (DI_START_UPDATE_OA_FLAGS p) DI_FLAG_AF"
  "0x10 AND g = 0 \<Longrightarrow> 0x800 AND g = 0 \<Longrightarrow>
   DianaProcessor_QueryFlag (DI_START_UPDATE_OA_FLAGS p) g = DianaProcessor_QueryFlag p g"
  by (simp_all add: DI_START_UPDATE_OA_FLAGS_def)

lemma operand_flags_cong:
  assumes "same_but_flags p q"
  shows "memory_operand mapped q ix n = memory_operand mapped p ix n"
    "operand_rw mapped q i n = operand_rw mapped p i n" "operand_rd mapped q i n = operand_rd mapped p i n"
    "alu_dest mapped q n = alu_dest mapped p n" "stream_attached rd wr ok q = stream_attached rd wr ok p"
    "std_regs q = std_regs p" "psz_off q = psz_off p" "alu_ready mapped q n m = alu_ready mapped p n m"
    "m_result q = m_result p" "m_context q = m_context p" "m_memory q = m_memory p" "GET_REG r q = GET_REG r p"
proof -
  obtain f where q: "q = p\<lparr>m_flags := f\<rparr>" using assms by (rule same_but_flagsE)
  have mo: "memory_operand mapped q ix n = memory_operand mapped p ix n" for ix n
    by (simp add: q memory_operand_def)
  then have rw: "operand_rw mapped q i n = operand_rw mapped p i n" for i n
    by (simp add: q operand_rw_def cong: DianaOperandValue.case_cong)
  then have rd: "operand_rd mapped q i n = operand_rd mapped p i n" for i n
    by (simp add: q operand_rd_def)
  show "memory_operand mapped q ix n = memory_operand mapped p ix n" "operand_rw mapped q i n = operand_rw mapped p i n"
    "operand_rd mapped q i n = operand_rd mapped p i n" by (fact mo rw rd)+
  show d: "alu_dest mapped q n = alu_dest mapped p n" for n
    by (simp add: rw alu_dest_def) (simp add: q std_regs_def psz_off_def)
  show "alu_ready mapped q n m = alu_ready mapped p n m"
    by (simp add: alu_ready_def d rd)
qed (use assms in \<open>auto elim!: same_but_flagsE simp: std_regs_def psz_off_def stream_attached_def\<close>)

lemma same_but_flags_steps:
  assumes "same_but_flags p q"
  shows "same_but_flags p (DianaProcessor_SetFlag f q)" "same_but_flags p (DianaProcessor_ClearFlag f q)"
    "same_but_flags p (set_flag_if c f q)" "same_but_flags p (assign_flag c f q)"
  by (rule same_but_flags_trans [OF assms], simp)+

lemma UPDATE_PSZ_same: "same_but_flags p (UPDATE_PSZ X h p)"
  unfolding UPDATE_PSZ_def Let_def by (simp add: same_but_flags_steps)

lemma UpdatePSZ_same [simp]:
  assumes "psz_off p"
  shows "same_but_flags p (DianaProcessor_UpdatePSZ v n p)"
proof -
  have off: "(m_stateFlags p OR 4) AND NOT 4 = m_stateFlags p"
    using assms by (auto intro!: bit_word_eqI simp: psz_off_def bit_eq_iff bit_simps)
  let ?on = "p\<lparr>m_stateFlags := m_stateFlags p OR DI_PROC_STATE_UPDATE_FLAGS_PSZ\<rparr>"
  have back': "same_but_flags p (q\<lparr>m_stateFlags := m_stateFlags q AND NOT DI_PROC_STATE_UPDATE_FLAGS_PSZ\<rparr>)"
    if "same_but_flags ?on q" for q
    using that off by (elim same_but_flagsE) (simp add: same_but_flags_def)
  show ?thesis
    unfolding DianaProcessor_UpdatePSZ_def Let_def by (rule back') (simp add: UPDATE_PSZ_same)
qed

section \<open>The zero extension of the destination\<close>

text \<open>The upper half of a 64-bit register is cleared ahead of the write of its 32-bit part; nothing else changes.\<close>

lemma CheckZeroExtends_Ok:
  assumes "alu_dest mapped p n"
  obtains p1 where "Di_CheckZeroExtends v m p = Ok v p1" "alu_dest mapped p1 n" "m_flags p1 = m_flags p"
    "operand_frame 0 p p1" "m_memory p1 = m_memory p"
    "\<And>rd wr ok. stream_attached rd wr ok p1 = stream_attached rd wr ok p"
proof -
  note d = alu_destD [OF assms]
  have "Di_CheckZeroExtends v m p = Ok v p \<or> (\<exists>r r64. Di_CheckZeroExtends v m p = Ok v (SET_REG r64 0 p) \<and>
      op_value (linked p 0) = diana_register r \<and> Query64RegisterFor32 r = Some r64)"
    using d(5) unfolding Di_CheckZeroExtends_def Di_CheckZeroExtends_operand_def
    by (simp add: di_simps split: DianaOperandValue.split option.split)
  then consider (same) "Di_CheckZeroExtends v m p = Ok v p"
    | (cleared) r r64 where "Di_CheckZeroExtends v m p = Ok v (SET_REG r64 0 p)" "op_value (linked p 0) = diana_register r"
        "Query64RegisterFor32 r = Some r64"
    by blast
  then show ?thesis
  proof cases
    case same
    show ?thesis by (rule that [OF same assms]) (simp_all add: operand_frame_def)
  next
    case cleared
    have rip: "r64 \<noteq> reg_RIP" "r64 \<noteq> reg_IP"
      using cleared(3) by (auto simp: Query64RegisterFor32_def split: if_splits)
    obtain off where "reg_at r off (nat n)"
      using d(3) cleared(2) by (auto simp: operand_rw_def)
    note only = dest_only_clear [OF d(1) cleared(2) this cleared(3), of 0]
    show ?thesis
    proof (rule that [OF cleared(1)])
      show "alu_dest mapped (SET_REG r64 0 p) n"
        using d rip cleared(2) by (auto simp: alu_dest_def operand_rw_def psz_off_def)
    qed (use d(2) only in \<open>simp_all add: operand_frame_def stream_attached_def\<close>)
  qed
qed

section \<open>Outcomes\<close>

text \<open>The operands of a two-operand instruction: the destination and the source, sign-extended to its size.\<close>

definition operands :: "'m DianaProcessor \<Rightarrow> int \<Rightarrow> int \<Rightarrow> u64 \<Rightarrow> u64 \<Rightarrow> bool" where
  "operands p n m a b \<longleftrightarrow> DI_MEM_GET 0 p = Ok (a, n) p \<and> fits n a \<and> fits n b \<and>
     (\<exists>b'. DI_MEM_GET 1 p = Ok (b', m) p \<and> fits m b' \<and> sval n b = sval m b')"

text \<open>
  The destination now holds \<open>v\<close>, cut to its \<open>n\<close> bytes, nothing beside it has changed (\<open>dest_only\<close>: for a register destination no byte of the registers vector outside the
  register and no memory, for a memory destination no register), and the processor is ready for the next instruction.
\<close>

definition wrote :: "'m DianaProcessor \<Rightarrow> int \<Rightarrow> u64 \<Rightarrow> 'm DianaProcessor \<Rightarrow> bool" where
  "wrote p n v p' \<longleftrightarrow> DI_MEM_GET 0 p' = Ok (DianaProcessor_CutValue v n, n) p' \<and>
     std_regs p' \<and> psz_off p' \<and> operand_frame 0 p p'"

text \<open>The six arithmetic flags; every other flag keeps its value.\<close>

definition arith_flags :: "int \<Rightarrow> u64 \<Rightarrow> bool \<Rightarrow> bool \<Rightarrow> bool \<Rightarrow> 'm DianaProcessor \<Rightarrow> 'm DianaProcessor \<Rightarrow> bool" where
  "arith_flags n v cf of' af p p' \<longleftrightarrow>
     DianaProcessor_QueryFlag p' DI_FLAG_CF = cf \<and>
     DianaProcessor_QueryFlag p' DI_FLAG_OF = of' \<and>
     DianaProcessor_QueryFlag p' DI_FLAG_AF = af \<and>
     DianaProcessor_QueryFlag p' DI_FLAG_ZF = (DianaProcessor_CutValue v n = 0) \<and>
     DianaProcessor_QueryFlag p' DI_FLAG_SF = (sval n v < 0) \<and>
     DianaProcessor_QueryFlag p' DI_FLAG_PF = IsParity (ucast v) \<and>
     (\<forall>g. g AND 0x8D5 = 0 \<longrightarrow> DianaProcessor_QueryFlag p' g = DianaProcessor_QueryFlag p g)"

lemma and_parts: "(g :: u64) AND 0x8D5 = 0 \<Longrightarrow> 1 AND g = 0 \<and> 4 AND g = 0 \<and> 0x10 AND g = 0 \<and> 0x40 AND g = 0 \<and> 0x80 AND g = 0 \<and> 0x800 AND g = 0"
proof -
  have "(0x8D5 :: u64) = 1 OR (4 OR (0x10 OR (0x40 OR (0x80 OR 0x800))))" by simp
  moreover assume "g AND 0x8D5 = 0"
  ultimately have "(1 OR (4 OR (0x10 OR (0x40 OR (0x80 OR 0x800))))) AND g = 0" by (metis and.commute)
  then show ?thesis by (simp only: and_eq_0_distrib)
qed

text \<open>
  The flags after a store, from the flags just before it: the state \<open>q\<close> in which PF, SF and ZF are not yet set.
\<close>

lemma arith_flagsI:
  assumes "psz_written n v q p'"
    and "DianaProcessor_QueryFlag q DI_FLAG_CF = cf" "DianaProcessor_QueryFlag q DI_FLAG_OF = of'"
      "DianaProcessor_QueryFlag q DI_FLAG_AF = af"
    and "\<And>g. 1 AND g = 0 \<Longrightarrow> 0x10 AND g = 0 \<Longrightarrow> 0x800 AND g = 0 \<Longrightarrow> DianaProcessor_QueryFlag q g = DianaProcessor_QueryFlag p g"
  shows "arith_flags n v cf of' af p p'"
  using psz_writtenD [OF assms(1)] assms(2-) and_parts by (simp add: arith_flags_def)

text \<open>The updates of OF and AF alone, for inc, dec and neg.\<close>

lemma SetCOA_OA_eq:
  assumes "valid_size n" "fits n a" "fits n b"
  shows "DianaProcessor_SetCOA_Add a (a + b) b n (DI_FLAG_OF OR DI_FLAG_AF) p =
      set_COA False (overflow_flag n (sval n a + sval n b)) (half_carry_add a b 0) p"
    and "DianaProcessor_SetCOA_Sub a (a - b) b n (DI_FLAG_OF OR DI_FLAG_AF) p =
      set_COA False (overflow_flag n (sval n a - sval n b)) (half_carry_sub a b 0) p"
  using OF_test_add [OF assms, of 0 "a + b"] uint_Cut_add [OF assms(1), of a b]
    OF_test_sub [OF assms, of 0 "a - b"] uint_Cut_sub [OF assms(1), of a b]
  by (simp_all add: DianaProcessor_SetCOA_Add_def DianaProcessor_SetCOA_Sub_def set_COA_def set_flag_if_def
      AF_test_add AF_test_sub Let_def)

lemma fits_small: "valid_size n \<Longrightarrow> fits n 1" "valid_size n \<Longrightarrow> fits n 0"
  by (auto simp: fits_iff elim!: valid_sizeE)

lemma sval_small: "valid_size n \<Longrightarrow> sval n 1 = 1" "valid_size n \<Longrightarrow> sval n 0 = 0"
  by (auto simp: sval_def elim!: valid_sizeE)

section \<open>Fetching and storing\<close>

lemma GetMemValue_flags:
  assumes "DianaProcessor_GetMemValue sel off n seg p = Ok v p"
  shows "DianaProcessor_GetMemValue sel off n seg (p\<lparr>m_flags := f\<rparr>) = Ok v (p\<lparr>m_flags := f\<rparr>)"
  using assms by (auto simp: DianaProcessor_GetMemValue_def DianaProcessor_GetMemValue_raw_def
      dest: arg_cong [of _ _ m_memory] split: di_res.splits if_splits)

lemma MEM_GET_flags:
  assumes "DI_MEM_GET i p = Ok r p" "same_but_flags p q"
  shows "DI_MEM_GET i q = Ok r q"
proof -
  obtain f where q: "q = p\<lparr>m_flags := f\<rparr>" using assms(2) by (rule same_but_flagsE)
  have ix: "Diana_ProcessorGetOperand_index n ix p = Ok v p \<Longrightarrow> Diana_ProcessorGetOperand_index n ix q = Ok v q" for n ix v
    by (auto simp: Diana_ProcessorGetOperand_index_def CalcIndex_eq DI_CHECK_def q intro: GetMemValue_flags split: if_splits)
  show ?thesis
    using assms(1) ix unfolding DI_MEM_GET_def
    by (auto simp: di_simps q Diana_ProcessorGetOperand_register_def DI_CHECK_def
        split: if_splits DianaOperandValue.splits di_res.splits)
qed

lemma wrote_flags:
  assumes "wrote p n v q" "same_but_flags q r"
  shows "wrote p n v r"
proof -
  have "DI_MEM_GET 0 r = Ok (DianaProcessor_CutValue v n, n) r"
    using assms unfolding wrote_def by (blast intro: MEM_GET_flags)
  then show ?thesis
    using assms unfolding wrote_def
    by (auto elim!: same_but_flagsE simp: operand_frame_def std_regs_def psz_off_def)
qed

lemma wrote_from_flags: "wrote q n v r \<Longrightarrow> same_but_flags p q \<Longrightarrow> wrote p n v r"
  unfolding wrote_def by (auto elim!: same_but_flagsE simp: operand_frame_def)

text \<open>What a store leaves alone: the other registers and the memory for a register destination, all registers for a memory destination.\<close>

lemma wrote_other_register:
  assumes "wrote p n v p'" "std_regs p" "op_value (linked p 0) = diana_register r" "reg_at r off k" "reg_at s off' m"
    "off' + m \<le> off \<or> off + reg_cell k \<le> off'"
  shows "GET_REG s p' = GET_REG s p" "m_memory p' = m_memory p"
proof -
  have o: "dest_only 0 p p'" "std_regs p'" using assms(1) by (simp_all add: wrote_def operand_frame_def)
  then show "m_memory p' = m_memory p" using assms(3) by (simp add: dest_only_def)
  have "m_pRegistersVector p' a = m_pRegistersVector p a" if "off' \<le> a" "a < off' + m" for a
    using o(1) assms(3,4,6) that unfolding dest_only_def by (simp, metis add_leD1 leD leI order_trans order_less_le_trans)
  then show "GET_REG s p' = GET_REG s p"
    unfolding GET_REG_at [OF o(2) assms(5)] GET_REG_at [OF assms(2,5)] vec_get_def by (intro arg_cong [of _ _ le_word] map_cong) auto
qed

lemma wrote_memory_operand:
  assumes "wrote p n v p'" "std_regs p" "op_value (linked p 0) = diana_index ix \<or> op_value (linked p 0) = diana_memory ix" "reg_at s off m"
  shows "GET_REG s p' = GET_REG s p"
proof -
  have o: "m_pRegistersVector p' = m_pRegistersVector p" "std_regs p'"
    using assms(1,3) by (auto simp: wrote_def operand_frame_def dest_only_def)
  then show ?thesis
    unfolding GET_REG_at [OF o(2) assms(4)] GET_REG_at [OF assms(2,4)] by simp
qed

lemma SignExtend_state: "DianaProcessor_SignExtend v n m s = Ok r s \<Longrightarrow> DianaProcessor_SignExtend v n m s' = Ok r s'"
  by (auto simp: DianaProcessor_SignExtend_def DI_RETURN_def DI_FAIL_def split: if_splits)

context memory_stream
begin

lemma alu_fetch:
  assumes "attached p" "alu_ready mapped p n m"
  obtains a b b' where "DI_MEM_GET 0 p = Ok (a, n) p" "DI_MEM_GET 1 p = Ok (b', m) p"
    "DianaProcessor_SignExtend b' m n p = Ok b p" "fits n a" "fits m b'" "fits n b" "sval n b = sval m b'"
proof -
  note r = alu_readyD [OF assms(2)] and d = alu_destD [OF alu_readyD(1) [OF assms(2)]]
  obtain a where a: "DI_MEM_GET 0 p = Ok (a, n) p" "fits n a"
    using DI_MEM_GET_Ok [OF assms(1) d(1) operand_rw_rd [OF d(3)]] by metis
  obtain b' where b': "DI_MEM_GET 1 p = Ok (b', m) p" "fits m b'"
    using DI_MEM_GET_Ok [OF assms(1) d(1) r(2)] by metis
  obtain b where "DianaProcessor_SignExtend b' m n p = Ok b p" "fits n b" "sval n b = sval m b'"
    by (rule SignExtend_Ok [OF r(4) d(4) b'(2) r(3)])
  with a b' show ?thesis by (intro that)
qed

lemma alu_operands:
  assumes "attached p" "alu_ready mapped p n m"
  obtains a b b' where "operands p n m a b" "DI_MEM_GET 0 p = Ok (a, n) p" "DI_MEM_GET 1 p = Ok (b', m) p"
    "\<And>q :: 'm DianaProcessor. DianaProcessor_SignExtend b' m n q = Ok b q" "fits n a" "fits n b" "valid_size n"
proof -
  obtain a b b' where x: "DI_MEM_GET 0 p = Ok (a, n) p" "DI_MEM_GET 1 p = Ok (b', m) p"
    "DianaProcessor_SignExtend b' m n p = Ok b p" "fits n a" "fits m b'" "fits n b" "sval n b = sval m b'"
    using alu_fetch [OF assms] by metis
  show ?thesis
    by (rule that [of a b b']) (use x SignExtend_state [OF x(3)] alu_destD(4) [OF alu_readyD(1) [OF assms(2)]] in
        \<open>auto simp: operands_def\<close>)
qed

lemma alu_fetch_dest:
  assumes "attached p" "alu_dest mapped p n"
  obtains a where "DI_MEM_GET 0 p = Ok (a, n) p" "fits n a"
  using DI_MEM_GET_Ok [OF assms(1) alu_destD(1) operand_rw_rd [OF alu_destD(3)]] assms(2) by metis

text \<open>Storing a result together with PF, SF and ZF.\<close>

lemma alu_store_psz:
  assumes "attached p" "alu_dest mapped p n"
  obtains p' where "\<And>k :: int \<Rightarrow> (unit, 'm) di_cmd. DI_UPDATE_FLAGS_PSZ (DI_MEM_SET 0 v) k p = k n p'"
    "attached p'" "std_regs p'" "psz_off p'" "operand_frame 0 p p'"
    "DI_MEM_GET 0 p' = Ok (DianaProcessor_CutValue v n, n) p'" "psz_written n v p p'"
  using UPDATE_FLAGS_PSZ_Ok [OF assms(1) alu_destD(1,3) [OF assms(2)], of v] by metis

text \<open>Storing a value without touching the flags.\<close>

lemma store_Ok:
  assumes "attached p" "std_regs p" "psz_off p" "operand_rw mapped p i n"
  obtains p' where "DI_MEM_SET i v p = Ok n p'"
    "attached p'" "std_regs p'" "psz_off p'" "operand_frame i p p'" "m_flags p' = m_flags p"
    "DI_MEM_GET i p' = Ok (DianaProcessor_CutValue v n, n) p'"
proof -
  have n: "valid_size n" "0 \<le> i" "i < opcount p" "usedSize (linked p i) = n"
    using assms(4) by (auto simp: operand_rw_def)
  note off = assms(3)
  consider (reg) r off where "op_value (linked p i) = diana_register r" "reg_at r off (nat n)" "r \<noteq> reg_RIP" "r \<noteq> reg_IP"
    | (mem) ix where "op_value (linked p i) = diana_index ix \<or> op_value (linked p i) = diana_memory ix" "memory_operand mapped p ix n"
    using assms(4) by (auto simp: operand_rw_def split: DianaOperandValue.splits)
  then show thesis
  proof cases
    case reg
    obtain q where q: "Diana_ProcessorSetOperand_register r v p = Ok () q" "std_regs q"
      "GET_REG r q = take_bit (8 * nat n) v" "m_flags q = m_flags (SET_REG r v p)" "m_stateFlags q = m_stateFlags (SET_REG r v p)"
      "m_memory q = m_memory p" "m_pMemoryStream q = m_pMemoryStream p" "m_result q = m_result p" "m_context q = m_context p"
      "\<And>a. a < off \<or> off + reg_cell (nat n) \<le> a \<Longrightarrow> m_pRegistersVector q a = m_pRegistersVector p a"
      using SetOperand_register_eq [OF assms(2) reg(2), of v] by metis
    have only: "dest_only i p q"
      by (rule dest_only_register [OF reg(1,2) q(6,10)])
    show thesis
    proof (rule that)
      show "DI_MEM_SET i v p = Ok n q"
        using n reg q(1) by (simp add: DI_MEM_SET_def di_simps)
      show "DI_MEM_GET i q = Ok (DianaProcessor_CutValue v n, n) q"
        using n reg q by (simp add: DI_MEM_GET_def di_simps Diana_ProcessorGetOperand_register_def CutValue_take_bit bits_of_def)
    qed (use q only off assms(1,2) reg in \<open>simp_all add: stream_attached_def operand_frame_def std_regs_def psz_off_def\<close>)
  next
    case mem
    obtain s' where s': "Diana_ProcessorSetOperand_index n v ix p = Ok () (p\<lparr>m_memory := s'\<rparr>)" "attached (p\<lparr>m_memory := s'\<rparr>)"
      "Diana_ProcessorGetOperand_index n ix (p\<lparr>m_memory := s'\<rparr>) = Ok (DianaProcessor_CutValue v n) (p\<lparr>m_memory := s'\<rparr>)"
      using SetOperand_index_Ok [OF assms(1) mem(2) n(1), of v] off by (auto simp: psz_off_def)
    have only: "dest_only i p (p\<lparr>m_memory := s'\<rparr>)"
      by (rule dest_only_memory [OF mem(1)]) simp
    show thesis
    proof (rule that)
      show "DI_MEM_SET i v p = Ok n (p\<lparr>m_memory := s'\<rparr>)"
        using n mem(1) s'(1) by (auto simp: DI_MEM_SET_def di_simps)
      show "DI_MEM_GET i (p\<lparr>m_memory := s'\<rparr>) = Ok (DianaProcessor_CutValue v n, n) (p\<lparr>m_memory := s'\<rparr>)"
        using n mem(1) s'(3) by (auto simp: DI_MEM_GET_def di_simps)
    qed (use s'(2) only assms(2) off in \<open>simp_all add: operand_frame_def std_regs_def psz_off_def\<close>)
  qed
qed

text \<open>The zero extension, a flag update and the store with PF, SF and ZF: the end of an arithmetic handler.\<close>

lemma alu_finish_psz:
  assumes "attached p" "alu_dest mapped p n" and f: "\<And>q :: 'm DianaProcessor. same_but_flags q (f q)"
  obtains q p' where "Di_CheckZeroExtends v m p = Ok v q" "m_flags q = m_flags p"
    "\<And>k :: int \<Rightarrow> (unit, 'm) di_cmd. DI_UPDATE_FLAGS_PSZ (DI_MEM_SET 0 v) k (f q) = k n p'"
    "attached p'" "wrote p n v p'" "psz_written n v (f q) p'"
proof -
  obtain q where q: "Di_CheckZeroExtends v m p = Ok v q" "alu_dest mapped q n" "m_flags q = m_flags p"
    "operand_frame 0 p q" "attached q"
    using CheckZeroExtends_Ok [OF assms(2), of v m] assms(1) by metis
  have fq: "attached (f q)" "alu_dest mapped (f q) n" "operand_frame 0 q (f q)"
    using q(2,5) f [of q] operand_flags_cong [OF f [of q]] by (auto elim!: same_but_flagsE simp: operand_frame_def)
  obtain p' where p': "\<And>k :: int \<Rightarrow> (unit, 'm) di_cmd. DI_UPDATE_FLAGS_PSZ (DI_MEM_SET 0 v) k (f q) = k n p'"
    "attached p'" "std_regs p'" "psz_off p'" "operand_frame 0 (f q) p'"
    "DI_MEM_GET 0 p' = Ok (DianaProcessor_CutValue v n, n) p'" "psz_written n v (f q) p'"
    using alu_store_psz [OF fq(1,2), of v] by metis
  show ?thesis
  proof (rule that [OF q(1,3) p'(1,2)])
    show "wrote p n v p'"
      using p' operand_frame_trans [OF operand_frame_trans [OF q(4) fq(3)] p'(5)] by (simp add: wrote_def)
  qed (use p' in auto)
qed

text \<open>The same with an unconditional store that leaves the flags alone.\<close>

lemma alu_finish:
  assumes "attached p" "alu_dest mapped p n"
  obtains q p' where "Di_CheckZeroExtends v m p = Ok v q" "DI_MEM_SET 0 v q = Ok n p'"
    "attached p'" "wrote p n v p'" "m_flags p' = m_flags p"
proof -
  obtain q where q: "Di_CheckZeroExtends v m p = Ok v q" "alu_dest mapped q n" "m_flags q = m_flags p"
    "operand_frame 0 p q" "attached q"
    using CheckZeroExtends_Ok [OF assms(2), of v m] assms(1) by metis
  note d = alu_destD [OF q(2)]
  obtain p' where p': "DI_MEM_SET 0 v q = Ok n p'" "attached p'" "std_regs p'" "psz_off p'" "operand_frame 0 q p'"
    "m_flags p' = m_flags q" "DI_MEM_GET 0 p' = Ok (DianaProcessor_CutValue v n, n) p'"
    using store_Ok [OF q(5) d(1,2,3), of v] by metis
  show ?thesis
    by (rule that [OF q(1) p'(1,2)]) (use q p' operand_frame_trans [OF q(4) p'(5)] in \<open>auto simp: wrote_def\<close>)
qed

text \<open>A store in a state \<open>c\<close> that differs from \<open>p\<close> in flags.\<close>

lemma alu_store_after:
  assumes "attached p" "alu_dest mapped p n" "same_but_flags p c"
  obtains p' where "DI_MEM_SET 0 v c = Ok n p'" "attached p'" "wrote p n v p'" "m_flags p' = m_flags c"
proof -
  have c: "attached c" "alu_dest mapped c n"
    using assms(1,2) by (simp_all add: operand_flags_cong [OF assms(3)])
  note d = alu_destD [OF c(2)]
  obtain p' where p': "DI_MEM_SET 0 v c = Ok n p'" "attached p'" "std_regs p'" "psz_off p'" "operand_frame 0 c p'"
    "m_flags p' = m_flags c" "DI_MEM_GET 0 p' = Ok (DianaProcessor_CutValue v n, n) p'"
    using store_Ok [OF c(1) d(1,2,3), of v] by metis
  have "wrote p n v p'"
    using p' by (intro wrote_from_flags [OF _ assms(3)]) (simp add: wrote_def)
  with p' show ?thesis by (intro that)
qed

text \<open>
  A two-operand handler \<open>h\<close> that computes \<open>v\<close> of its operands: \<open>s0\<close> is the state after the flags it clears at first,
  \<open>f\<close> the flags it sets before the store and \<open>g\<close> those it sets after it.
\<close>

lemma alu_binary:
  fixes h :: "(unit, 'm) di_cmd"
  assumes "attached p" "alu_ready mapped p n m" "same_but_flags p s0"
    and f: "\<And>a b (q :: 'm DianaProcessor). same_but_flags q (f a b q)" and g: "\<And>q. same_but_flags q (g q)"
    and run: "\<And>a b b' q p'. valid_size n \<Longrightarrow> fits n a \<Longrightarrow> fits n b \<Longrightarrow>
      DI_MEM_GET 0 p = Ok (a, n) p \<Longrightarrow> DI_MEM_GET 1 p = Ok (b', m) p \<Longrightarrow>
      (\<And>q :: 'm DianaProcessor. DianaProcessor_SignExtend b' m n q = Ok b q) \<Longrightarrow>
      Di_CheckZeroExtends (v a b) m s0 = Ok (v a b) q \<Longrightarrow>
      (\<And>k :: int \<Rightarrow> (unit, 'm) di_cmd. DI_UPDATE_FLAGS_PSZ (DI_MEM_SET 0 (v a b)) k (f a b q) = k n p') \<Longrightarrow>
      h p = Ok () (g p')"
  obtains a b q p' where "operands p n m a b" "fits n a" "fits n b" "valid_size n"
    "h p = Ok () (g p')" "attached (g p')" "wrote p n (v a b) (g p')"
    "m_flags q = m_flags s0" "psz_written n (v a b) (f a b q) p'"
proof -
  obtain a b b' where op: "operands p n m a b" "DI_MEM_GET 0 p = Ok (a, n) p" "DI_MEM_GET 1 p = Ok (b', m) p"
    "\<And>q :: 'm DianaProcessor. DianaProcessor_SignExtend b' m n q = Ok b q" "fits n a" "fits n b" "valid_size n"
    using alu_operands [OF assms(1,2)] by metis
  have s: "attached s0" "alu_dest mapped s0 n"
    using assms(1) alu_readyD(1) [OF assms(2)] by (simp_all add: operand_flags_cong [OF assms(3)])
  obtain q p' where q: "Di_CheckZeroExtends (v a b) m s0 = Ok (v a b) q" "m_flags q = m_flags s0"
    "\<And>k :: int \<Rightarrow> (unit, 'm) di_cmd. DI_UPDATE_FLAGS_PSZ (DI_MEM_SET 0 (v a b)) k (f a b q) = k n p'"
    "attached p'" "wrote s0 n (v a b) p'" "psz_written n (v a b) (f a b q) p'"
    using alu_finish_psz [OF s, of "f a b" "v a b" m, OF f] by metis
  show ?thesis
  proof (rule that [OF op(1,5,6,7) run [OF op(7,5,6,2,3,4) q(1,3)] _ _ q(2,6)])
    show "attached (g p')"
      using q(4) by (simp add: operand_flags_cong [OF g])
    show "wrote p n (v a b) (g p')"
      using q(5) assms(3) g by (blast intro: wrote_flags wrote_from_flags)
  qed
qed

text \<open>A one-operand handler, in the same terms.\<close>

lemma alu_unary:
  fixes h :: "(unit, 'm) di_cmd"
  assumes "attached p" "alu_dest mapped p n" "same_but_flags p s0"
    and f: "\<And>a. same_but_flags s0 (f a)" and g: "\<And>a q. same_but_flags q (g a q)"
    and run: "\<And>a p'. valid_size n \<Longrightarrow> fits n a \<Longrightarrow> DI_MEM_GET 0 p = Ok (a, n) p \<Longrightarrow>
      (\<And>k :: int \<Rightarrow> (unit, 'm) di_cmd. DI_UPDATE_FLAGS_PSZ (DI_MEM_SET 0 (v a)) k (f a) = k n p') \<Longrightarrow>
      h p = Ok () (g a p')"
  obtains a p' where "DI_MEM_GET 0 p = Ok (a, n) p" "fits n a" "valid_size n"
    "h p = Ok () (g a p')" "attached (g a p')" "wrote p n (v a) (g a p')" "psz_written n (v a) (f a) p'"
proof -
  obtain a where a: "DI_MEM_GET 0 p = Ok (a, n) p" "fits n a"
    using alu_fetch_dest [OF assms(1,2)] by metis
  have fa: "same_but_flags p (f a)"
    using assms(3) f same_but_flags_trans by blast
  have s: "attached (f a)" "alu_dest mapped (f a) n"
    using assms(1,2) by (simp_all add: operand_flags_cong [OF fa])
  obtain p' where p': "\<And>k :: int \<Rightarrow> (unit, 'm) di_cmd. DI_UPDATE_FLAGS_PSZ (DI_MEM_SET 0 (v a)) k (f a) = k n p'"
    "attached p'" "std_regs p'" "psz_off p'" "operand_frame 0 (f a) p'"
    "DI_MEM_GET 0 p' = Ok (DianaProcessor_CutValue (v a) n, n) p'" "psz_written n (v a) (f a) p'"
    using alu_store_psz [OF s, of "v a"] by metis
  note n = alu_destD(4) [OF assms(2)]
  show ?thesis
  proof (rule that [OF a n run [OF n a(2,1) p'(1)] _ _ p'(7)])
    show "attached (g a p')"
      using p'(2) by (simp add: operand_flags_cong [OF g])
    have "wrote (f a) n (v a) p'"
      using p' by (simp add: wrote_def)
    then show "wrote p n (v a) (g a p')"
      using fa g by (blast intro: wrote_flags wrote_from_flags)
  qed
qed

end

end
