(* ===== verification/Cmd_A.thy ===== *)
theory Cmd_A
  imports Alu_Contract
begin

unbundle bit_operations_syntax

text \<open>
  The handlers of \<^verbatim>\<open>diana_processor_cmd_a.c\<close>: the decimal adjustments and adc, add, and.
\<close>

section \<open>Decimal adjustments\<close>

definition Diana_Call_aaa :: "(unit, 'm) di_cmd" where
  "Diana_Call_aaa =
     DI_LET (\<lambda>p. GET_REG reg_AL p AND 0x0F > 9 \<or> DianaProcessor_QueryFlag p DI_FLAG_AF) (\<lambda>adjust.
     DI_CHECK
       (if adjust then
          DI_DO (\<lambda>p. SET_REG reg_AX (GET_REG reg_AX p + 6) p) (
          DI_DO (\<lambda>p. SET_REG reg_AH (GET_REG reg_AH p + 1) p) (
          DI_DO (DianaProcessor_SetFlag DI_FLAG_AF) (
          DI_DO (DianaProcessor_SetFlag DI_FLAG_CF)
          DI_PROC_END)))
        else
          DI_DO (DianaProcessor_ClearFlag DI_FLAG_AF) (
          DI_DO (DianaProcessor_ClearFlag DI_FLAG_CF)
          DI_PROC_END)) (\<lambda>_.
     DI_DO (\<lambda>p. SET_REG reg_AL (GET_REG reg_AL p AND 0x0F) p) (
     DI_DO (\<lambda>p. DianaProcessor_UpdatePSZ (GET_REG reg_AX p) 2 p) (
     DI_DO (DianaProcessor_ClearFlag DI_FLAG_OF) (
     DI_DO (DianaProcessor_ClearFlag DI_FLAG_SF)
     DI_PROC_END)))))"

text \<open>\<^verbatim>\<open>impl.l\<close> and \<^verbatim>\<open>impl.h\<close> are bytes; \<open>src\<close> is used through a cast to a byte.\<close>

definition Diana_Call_aad :: "(unit, 'm) di_cmd" where
  "Diana_Call_aad =
     DI_CHECK (DI_MEM_GET 0) (\<lambda>(src, src_size).
     DI_LET (GET_REG reg_AX) (\<lambda>ax.
     let l = (ucast ax :: u8); h = (ucast (drop_bit 8 ax) :: u8);
         l' = h * ucast src + l; h' = 0
     in
     DI_DO (SET_REG reg_AH h') (
     DI_UPDATE_FLAGS_PSZ (DI_DO (SET_REG reg_AL (ucast l')) DI_PROC_END) (\<lambda>_.
     DI_PROC_END))))"

text \<open>A source whose low byte is 0 although the source is not divides by zero in C.\<close>

definition Diana_Call_aam :: "(unit, 'm) di_cmd" where
  "Diana_Call_aam =
     DI_CHECK (DI_MEM_GET 0) (\<lambda>(src, src_size).
     DI_LET (GET_REG reg_AX) (\<lambda>ax.
     let l = (ucast ax :: u8); d = (ucast src :: u8) in
     if src = 0 then DI_FAIL DI_DIVISION_BY_ZERO
     else if d = 0 then DI_FAIL C_UNDEFINED
     else
     DI_DO (SET_REG reg_AH (ucast (l div d))) (
     DI_UPDATE_FLAGS_PSZ (DI_DO (SET_REG reg_AL (ucast (l mod d))) DI_PROC_END) (\<lambda>_.
     DI_PROC_END))))"

definition Diana_Call_aas :: "(unit, 'm) di_cmd" where
  "Diana_Call_aas =
     DI_LET (\<lambda>p. GET_REG reg_AL p AND 0xF > 9 \<or> DianaProcessor_QueryFlag p DI_FLAG_AF) (\<lambda>adjust.
     DI_CHECK
       (if adjust then
          DI_DO (\<lambda>p. SET_REG reg_AX (GET_REG reg_AX p - 6) p) (
          DI_DO (\<lambda>p. SET_REG reg_AH (GET_REG reg_AH p - 1) p) (
          DI_DO (DianaProcessor_SetFlag DI_FLAG_AF) (
          DI_DO (DianaProcessor_SetFlag DI_FLAG_CF)
          DI_PROC_END)))
        else
          DI_DO (DianaProcessor_ClearFlag DI_FLAG_AF) (
          DI_DO (DianaProcessor_ClearFlag DI_FLAG_CF)
          DI_PROC_END)) (\<lambda>_.
     DI_DO (\<lambda>p. SET_REG reg_AL (GET_REG reg_AL p AND 0x0F) p) (
     DI_DO (\<lambda>p. DianaProcessor_UpdatePSZ (GET_REG reg_AX p) 2 p) (
     DI_DO (DianaProcessor_ClearFlag DI_FLAG_OF) (
     DI_DO (DianaProcessor_ClearFlag DI_FLAG_SF)
     DI_PROC_END)))))"

section \<open>Addition and conjunction\<close>

definition Diana_Call_adc :: "(unit, 'm) di_cmd" where
  "Diana_Call_adc =
     DI_CHECK (DI_MEM_GET 0) (\<lambda>(dest, dest_size).
     DI_CHECK (DI_MEM_GET 1) (\<lambda>(src, src_size).
     DI_CHECK (DianaProcessor_SignExtend src src_size dest_size) (\<lambda>src.
     DI_LET (\<lambda>p. DianaProcessor_QueryFlag p DI_FLAG_CF) (\<lambda>cf.
     DI_DO DI_START_UPDATE_COA_FLAGS (
     let oldDestValue = dest; dest = dest + (src + of_bool cf) in
     DI_CHECK (Di_CheckZeroExtends dest src_size) (\<lambda>dest.
     DI_DO (if \<not> cf then DianaProcessor_SetCOA_Add oldDestValue dest src dest_size (DI_FLAG_CF OR DI_FLAG_OF OR DI_FLAG_AF)
            else DianaProcessor_SetCOA_AddCF oldDestValue dest src dest_size (DI_FLAG_CF OR DI_FLAG_OF OR DI_FLAG_AF)) (
     DI_UPDATE_FLAGS_PSZ (DI_MEM_SET 0 dest) (\<lambda>_.
     DI_PROC_END))))))))"

definition Diana_Call_add :: "(unit, 'm) di_cmd" where
  "Diana_Call_add =
     DI_CHECK (DI_MEM_GET 0) (\<lambda>(dest, dest_size).
     DI_CHECK (DI_MEM_GET 1) (\<lambda>(src, src_size).
     DI_CHECK (DianaProcessor_SignExtend src src_size dest_size) (\<lambda>src.
     DI_DO DI_START_UPDATE_COA_FLAGS (
     let oldDestValue = dest; dest = dest + src in
     DI_CHECK (Di_CheckZeroExtends dest src_size) (\<lambda>dest.
     DI_DO (DianaProcessor_SetCOA_Add oldDestValue dest src dest_size (DI_FLAG_CF OR DI_FLAG_OF OR DI_FLAG_AF)) (
     DI_UPDATE_FLAGS_PSZ (DI_MEM_SET 0 dest) (\<lambda>_.
     DI_PROC_END)))))))"

definition Diana_Call_and :: "(unit, 'm) di_cmd" where
  "Diana_Call_and =
     DI_CHECK (DI_MEM_GET 0) (\<lambda>(dest, dest_size).
     DI_CHECK (DI_MEM_GET 1) (\<lambda>(src, src_size).
     DI_CHECK (DianaProcessor_SignExtend src src_size dest_size) (\<lambda>src.
     let dest = dest AND src in
     DI_CHECK (Di_CheckZeroExtends dest src_size) (\<lambda>dest.
     DI_DO (DianaProcessor_ClearFlag DI_FLAG_CF) (
     DI_DO (DianaProcessor_ClearFlag DI_FLAG_OF) (
     DI_UPDATE_FLAGS_PSZ (DI_MEM_SET 0 dest) (\<lambda>_.
     DI_DO (DianaProcessor_ClearFlag DI_FLAG_AF)
     DI_PROC_END)))))))"

section \<open>Frame\<close>

lemma keeps_Cmd_A [keeps_intros]:
  "keeps kept Diana_Call_aaa" "keeps kept Diana_Call_aad" "keeps kept Diana_Call_aam" "keeps kept Diana_Call_aas"
  "keeps kept Diana_Call_adc" "keeps kept Diana_Call_add" "keeps kept Diana_Call_and"
  unfolding Diana_Call_aaa_def Diana_Call_aad_def Diana_Call_aam_def Diana_Call_aas_def
    Diana_Call_adc_def Diana_Call_add_def Diana_Call_and_def
  by (intro keeps_intros)+

section \<open>Correctness\<close>

lemma adc_COA:
  assumes "valid_size n" "fits n a" "fits n b"
  shows "(if \<not> cf then DianaProcessor_SetCOA_Add a (a + (b + of_bool cf)) b n (DI_FLAG_CF OR DI_FLAG_OF OR DI_FLAG_AF)
          else DianaProcessor_SetCOA_AddCF a (a + (b + of_bool cf)) b n (DI_FLAG_CF OR DI_FLAG_OF OR DI_FLAG_AF)) q =
     set_COA (carry_add n a b (of_bool cf)) (overflow_flag n (sval n a + sval n b + of_bool cf)) (half_carry_add a b (of_bool cf)) q"
  using SetCOA_Add_eq [OF assms, of q] SetCOA_AddCF_eq [OF assms, of q] by (cases cf) (simp_all add: add.assoc)

context memory_stream
begin

lemma add_Ok:
  assumes "attached p" "alu_ready mapped p n m"
  obtains a b p' where "operands p n m a b" "Diana_Call_add p = Ok () p'" "attached p'" "wrote p n (a + b) p'"
    "arith_flags n (a + b) (carry_add n a b 0) (overflow_flag n (sval n a + sval n b)) (half_carry_add a b 0) p p'"
proof -
  let ?v = "\<lambda>a b. a + b" and ?s = "DI_START_UPDATE_COA_FLAGS p"
  let ?f = "\<lambda>a b. set_COA (carry_add n a b 0) (overflow_flag n (sval n a + sval n b)) (half_carry_add a b 0)"
  obtain a b q p' where x: "operands p n m a b" "Diana_Call_add p = Ok () p'" "attached p'" "wrote p n (a + b) p'"
    "m_flags q = m_flags ?s" "psz_written n (a + b) (?f a b q) p'"
    by (rule alu_binary [OF assms same_but_flags_START(1), of ?f "\<lambda>q. q" ?v Diana_Call_add])
       (simp_all add: Diana_Call_add_def di_simps SetCOA_Add_eq Let_def)
  have "arith_flags n (a + b) (carry_add n a b 0) (overflow_flag n (sval n a + sval n b)) (half_carry_add a b 0) p p'"
    by (rule arith_flagsI [OF x(6)]) (simp_all add: QueryFlag_cong [OF x(5)])
  with x(1-4) show ?thesis
    by (rule that)
qed

lemma adc_Ok:
  assumes "attached p" "alu_ready mapped p n m"
  defines "c \<equiv> of_bool (DianaProcessor_QueryFlag p DI_FLAG_CF)"
  obtains a b p' where "operands p n m a b" "Diana_Call_adc p = Ok () p'" "attached p'" "wrote p n (a + (b + of_int c)) p'"
    "arith_flags n (a + (b + of_int c)) (carry_add n a b c) (overflow_flag n (sval n a + sval n b + c)) (half_carry_add a b c) p p'"
proof -
  let ?v = "\<lambda>a b. a + (b + of_int c)" and ?s = "DI_START_UPDATE_COA_FLAGS p"
  let ?f = "\<lambda>a b. set_COA (carry_add n a b c) (overflow_flag n (sval n a + sval n b + c)) (half_carry_add a b c)"
  obtain a b q p' where x: "operands p n m a b" "Diana_Call_adc p = Ok () p'" "attached p'" "wrote p n (?v a b) p'"
    "m_flags q = m_flags ?s" "psz_written n (?v a b) (?f a b q) p'"
    by (rule alu_binary [OF assms(1,2) same_but_flags_START(1), of ?f "\<lambda>q. q" ?v Diana_Call_adc])
       (simp_all add: Diana_Call_adc_def di_simps adc_COA Let_def c_def)
  have "arith_flags n (?v a b) (carry_add n a b c) (overflow_flag n (sval n a + sval n b + c)) (half_carry_add a b c) p p'"
    by (rule arith_flagsI [OF x(6)]) (simp_all add: QueryFlag_cong [OF x(5)])
  with x(1-4) show ?thesis
    by (rule that)
qed

lemma and_Ok:
  assumes "attached p" "alu_ready mapped p n m"
  obtains a b p' where "operands p n m a b" "Diana_Call_and p = Ok () p'" "attached p'" "wrote p n (a AND b) p'"
    "arith_flags n (a AND b) False False False p p'"
proof -
  let ?f = "\<lambda>q. DianaProcessor_ClearFlag DI_FLAG_OF (DianaProcessor_ClearFlag DI_FLAG_CF q)"
  have f: "same_but_flags q (?f q)" for q :: "'m DianaProcessor"
    using same_but_flags_trans same_but_flags_ops(2) by blast
  obtain a b q p' where x: "operands p n m a b" "Diana_Call_and p = Ok () (DianaProcessor_ClearFlag DI_FLAG_AF p')"
    "attached (DianaProcessor_ClearFlag DI_FLAG_AF p')" "wrote p n (a AND b) (DianaProcessor_ClearFlag DI_FLAG_AF p')"
    "m_flags q = m_flags p" "psz_written n (a AND b) (?f q) p'"
    by (rule alu_binary [OF assms same_but_flags_refl f, of "DianaProcessor_ClearFlag DI_FLAG_AF" "(AND)" Diana_Call_and])
       (simp_all add: Diana_Call_and_def di_simps Let_def)
  have "arith_flags n (a AND b) False False False p (DianaProcessor_ClearFlag DI_FLAG_AF p')"
    using psz_writtenD [OF x(6)] and_parts by (simp add: arith_flags_def QueryFlag_cong [OF x(5)])
  with x(1-4) show ?thesis
    by (rule that)
qed

end

end
