(* ===== verification/Cmd_B.thy ===== *)
theory Cmd_B
  imports Alu_Contract
begin

unbundle bit_operations_syntax

text \<open>
  The handlers of \<^verbatim>\<open>diana_processor_cmd_b.c\<close>: bit scans, bit tests and byte swaps.  The scans return the
  lowest and the highest set bit, the tests read and change the selected bit, also in a bit string
  in memory, and the swap reverses the bytes.
\<close>

section \<open>Bit scans\<close>

function Di_bsf_loop :: "nat \<Rightarrow> u64 \<Rightarrow> u64 \<Rightarrow> nat" where
  "Di_bsf_loop i bitmask src = (if i < 64 \<and> bitmask AND src = 0 then Di_bsf_loop (i + 1) (push_bit 1 bitmask) src else i)"
  by auto
termination by (relation "measure (\<lambda>(i, _). 64 - i)") auto

declare Di_bsf_loop.simps [simp del]

definition Diana_Call_bsf :: "(unit, 'm) di_cmd" where
  "Diana_Call_bsf =
     DI_CHECK (DI_MEM_GET 0) (\<lambda>(dest, dest_size).
     DI_CHECK (DI_MEM_GET 1) (\<lambda>(src, src_size).
     DI_DO (DianaProcessor_ClearFlag DI_FLAG_ZF) (
     if src = 0 then DI_DO (DianaProcessor_SetFlag DI_FLAG_ZF) DI_PROC_END
     else DI_CHECK (DI_MEM_SET 0 (of_nat (Di_bsf_loop 0 1 src))) (\<lambda>_. DI_PROC_END))))"

text \<open>The loop of bsr counts down from 63; \<open>k\<close> is its variable plus one.\<close>

fun Di_bsr_loop :: "nat \<Rightarrow> u64 \<Rightarrow> u64 \<Rightarrow> int" where
  "Di_bsr_loop 0 bitmask src = -1"
| "Di_bsr_loop (Suc k) bitmask src = (if bitmask AND src = 0 then Di_bsr_loop k (drop_bit 1 bitmask) src else int k)"

definition Diana_Call_bsr :: "(unit, 'm) di_cmd" where
  "Diana_Call_bsr =
     DI_CHECK (DI_MEM_GET 0) (\<lambda>(dest, dest_size).
     DI_CHECK (DI_MEM_GET 1) (\<lambda>(src, src_size).
     DI_DO (DianaProcessor_ClearFlag DI_FLAG_ZF) (
     if src = 0 then DI_DO (DianaProcessor_SetFlag DI_FLAG_ZF) DI_PROC_END
     else DI_CHECK (DI_MEM_SET 0 (of_int (Di_bsr_loop 64 0x8000000000000000 src))) (\<lambda>_. DI_PROC_END))))"

section \<open>Bit tests\<close>

text \<open>
  The part of a bit string that a signed register offset selects.  The division truncates, as in C; a size of 0
  and an offset whose adjustment leaves the 64-bit range are undefined there.
\<close>

definition Di_BitStringOffset :: "int \<Rightarrow> u64 \<Rightarrow> int" where
  "Di_BitStringOffset sz v =
     (if sz = 2 then sint (ucast v :: u16) else if sz = 4 then sint (ucast v :: u32) else sint v)"

definition Di_BitStringAddress :: "int \<Rightarrow> (unit, 'm) di_cmd" where
  "Di_BitStringAddress sz =
     DI_LET (\<lambda>p. (opcount p, linked p 0, linked p 1)) (\<lambda>(count, op0, op1).
     case (op_value op0, op_value op1) of
       (diana_index ix, diana_register r) \<Rightarrow>
         if count \<noteq> 2 then DI_PROC_END
         else
           DI_LET (GET_REG r) (\<lambda>value.
           let bits = sz * 8; offset = Di_BitStringOffset sz value;
               offset' = (if offset < 0 then offset - (bits - 1) else offset)
           in if bits = 0 \<or> offset' < - (2 ^ 63) then DI_FAIL C_UNDEFINED
           else
           DI_DO (\<lambda>p. p\<lparr>m_result := (m_result p)\<lparr>linkedOperands := (linkedOperands (m_result p))(0 :=
               op0\<lparr>op_value := diana_index (ix\<lparr>dispValue := dispValue ix + word_of_int (offset' sdiv bits * sz)\<rparr>)\<rparr>)\<rparr>\<rparr>)
           DI_PROC_END)
     | _ \<Rightarrow> DI_PROC_END)"

definition Di_BitNumber :: "int \<Rightarrow> u64 \<Rightarrow> u64 option" where
  "Di_BitNumber osz src =
     (if osz = 2 then Some (src mod 16) else if osz = 4 then Some (src mod 32)
      else if osz = 8 then Some (src mod 64) else None)"

definition Diana_Call_bt :: "(unit, 'm) di_cmd" where
  "Diana_Call_bt =
     DI_LET opsize (\<lambda>osz.
     DI_CHECK (Di_BitStringAddress osz) (\<lambda>_.
     DI_CHECK (DI_MEM_GET 0) (\<lambda>(dest, dest_size).
     DI_CHECK (DI_MEM_GET 1) (\<lambda>(src, src_size).
     DI_DO (DianaProcessor_ClearFlag DI_FLAG_CF) (
     case Di_BitNumber osz src of
       None \<Rightarrow> DI_FAIL DI_ERROR
     | Some src \<Rightarrow>
         let temp = DianaProcessor_GetSignMaskSpecifyBit src in
         DI_DO (set_flag_if (dest AND temp \<noteq> 0) DI_FLAG_CF)
         DI_PROC_END)))))"

definition Diana_Call_btc :: "(unit, 'm) di_cmd" where
  "Diana_Call_btc =
     DI_LET opsize (\<lambda>osz.
     DI_CHECK (Di_BitStringAddress osz) (\<lambda>_.
     DI_CHECK (DI_MEM_GET 0) (\<lambda>(dest, dest_size).
     DI_CHECK (DI_MEM_GET 1) (\<lambda>(src, src_size).
     DI_DO (DianaProcessor_ClearFlag DI_FLAG_CF) (
     case Di_BitNumber osz src of
       None \<Rightarrow> DI_FAIL DI_ERROR
     | Some src \<Rightarrow>
         let temp = DianaProcessor_GetSignMaskSpecifyBit src in
         DI_DO (set_flag_if (dest AND temp \<noteq> 0) DI_FLAG_CF) (
         let dest = (if dest AND temp \<noteq> 0 then dest AND NOT temp else dest OR temp) in
         DI_CHECK (Di_CheckZeroExtends dest src_size) (\<lambda>dest.
         DI_CHECK (DI_MEM_SET 0 dest) (\<lambda>_.
         DI_PROC_END))))))))"

definition Diana_Call_btr :: "(unit, 'm) di_cmd" where
  "Diana_Call_btr =
     DI_LET opsize (\<lambda>osz.
     DI_CHECK (Di_BitStringAddress osz) (\<lambda>_.
     DI_CHECK (DI_MEM_GET 0) (\<lambda>(dest, dest_size).
     DI_CHECK (DI_MEM_GET 1) (\<lambda>(src, src_size).
     DI_DO (DianaProcessor_ClearFlag DI_FLAG_CF) (
     case Di_BitNumber osz src of
       None \<Rightarrow> DI_FAIL DI_ERROR
     | Some src \<Rightarrow>
         let temp = DianaProcessor_GetSignMaskSpecifyBit src in
         DI_DO (set_flag_if (dest AND temp \<noteq> 0) DI_FLAG_CF) (
         let dest = (if dest AND temp \<noteq> 0 then dest AND NOT temp else dest) in
         DI_CHECK (Di_CheckZeroExtends dest src_size) (\<lambda>dest.
         DI_CHECK (DI_MEM_SET 0 dest) (\<lambda>_.
         DI_PROC_END))))))))"

definition Diana_Call_bts :: "(unit, 'm) di_cmd" where
  "Diana_Call_bts =
     DI_LET opsize (\<lambda>osz.
     DI_CHECK (Di_BitStringAddress osz) (\<lambda>_.
     DI_CHECK (DI_MEM_GET 0) (\<lambda>(dest, dest_size).
     DI_CHECK (DI_MEM_GET 1) (\<lambda>(src, src_size).
     DI_DO (DianaProcessor_ClearFlag DI_FLAG_CF) (
     case Di_BitNumber osz src of
       None \<Rightarrow> DI_FAIL DI_ERROR
     | Some src \<Rightarrow>
         let temp = DianaProcessor_GetSignMaskSpecifyBit src in
         DI_DO (set_flag_if (dest AND temp \<noteq> 0) DI_FLAG_CF) (
         let dest = (if dest AND temp \<noteq> 0 then dest else dest OR temp) in
         DI_CHECK (Di_CheckZeroExtends dest src_size) (\<lambda>dest.
         DI_CHECK (DI_MEM_SET 0 dest) (\<lambda>_.
         DI_PROC_END))))))))"

section \<open>Byte swap\<close>

definition Di_bswap :: "int \<Rightarrow> u64 \<Rightarrow> u64 option" where
  "Di_bswap dest_size dest =
     (if dest_size = 2 then Some 0
      else if dest_size = 4 then
        let b0 = dest AND 0xFF; dest = drop_bit 8 dest;
            b1 = dest AND 0xFF; dest = drop_bit 8 dest;
            b2 = dest AND 0xFF; dest = drop_bit 8 dest
        in Some (dest OR (push_bit 24 b0 OR push_bit 16 b1 OR push_bit 8 b2))
      else if dest_size = 8 then
        let b0 = dest AND 0xFF; dest = drop_bit 8 dest;
            b1 = dest AND 0xFF; dest = drop_bit 8 dest;
            b2 = dest AND 0xFF; dest = drop_bit 8 dest;
            b3 = dest AND 0xFF; dest = drop_bit 8 dest;
            b4 = dest AND 0xFF; dest = drop_bit 8 dest;
            b5 = dest AND 0xFF; dest = drop_bit 8 dest;
            b6 = dest AND 0xFF; dest = drop_bit 8 dest
        in Some (dest OR (push_bit 56 b0 OR push_bit 48 b1 OR push_bit 40 b2 OR push_bit 32 b3 OR
             push_bit 24 b4 OR push_bit 16 b5 OR push_bit 8 b6))
      else None)"

definition Diana_Call_bswap :: "(unit, 'm) di_cmd" where
  "Diana_Call_bswap =
     DI_CHECK (DI_MEM_GET 0) (\<lambda>(dest, dest_size).
     case Di_bswap dest_size dest of
       None \<Rightarrow> DI_FAIL DI_ERROR
     | Some dest \<Rightarrow>
         DI_CHECK (Di_CheckZeroExtends dest dest_size) (\<lambda>dest.
         DI_CHECK (DI_MEM_SET 0 dest) (\<lambda>_.
         DI_PROC_END)))"

section \<open>Frame\<close>

lemma keeps_BitStringAddress [keeps_intros]: "keeps kept (Di_BitStringAddress sz)"
proof -
  have "keeps_fun kept (\<lambda>p. p\<lparr>m_result := (m_result p)\<lparr>linkedOperands := f p\<rparr>\<rparr>)" for f :: "'a DianaProcessor \<Rightarrow> _"
    by (simp add: keeps_fun_def kept_def)
  then show ?thesis
    unfolding Di_BitStringAddress_def by (intro keeps_intros)
qed

lemma keeps_Cmd_B [keeps_intros]:
  "keeps kept Diana_Call_bsf" "keeps kept Diana_Call_bsr" "keeps kept Diana_Call_bt" "keeps kept Diana_Call_btc"
  "keeps kept Diana_Call_btr" "keeps kept Diana_Call_bts" "keeps kept Diana_Call_bswap"
  unfolding Diana_Call_bsf_def Diana_Call_bsr_def Diana_Call_bt_def Diana_Call_btc_def Diana_Call_btr_def
    Diana_Call_bts_def Diana_Call_bswap_def
  by (intro keeps_intros)+

section \<open>The scans find the lowest and the highest bit\<close>

lemma mask_bit: "(2 :: u64) ^ i AND v = 0 \<longleftrightarrow> \<not> (i < 64 \<and> bit v i)"
proof -
  have "(2 :: u64) ^ i AND v = v AND push_bit i 1"
    by (simp add: push_bit_eq_mult and.commute)
  then show ?thesis
    using bit_iff_and_push_bit_not_eq_0 [of v i] by (auto dest: bit_imp_le_length)
qed

lemma bsf_loop_eq:
  assumes "i \<le> j" "j < 64" "bit v j" "\<And>k. i \<le> k \<Longrightarrow> k < j \<Longrightarrow> \<not> bit v k"
  shows "Di_bsf_loop i (2 ^ i) v = j"
  using assms
proof (induction "j - i" arbitrary: i)
  case 0
  then show ?case by (simp add: Di_bsf_loop.simps mask_bit)
next
  case (Suc d)
  then have "i < j" "\<not> bit v i" by auto
  then have "Di_bsf_loop i (2 ^ i) v = Di_bsf_loop (i + 1) (2 ^ (i + 1)) v"
    using Suc.prems(2) by (subst Di_bsf_loop.simps) (simp add: mask_bit push_bit_eq_mult mult.commute)
  also have "\<dots> = j"
    using Suc \<open>i < j\<close> by (intro Suc.hyps(1)) auto
  finally show ?case .
qed

lemma bsr_loop_eq:
  assumes "j < k" "k \<le> 64" "bit v j" "\<And>i. j < i \<Longrightarrow> i < k \<Longrightarrow> \<not> bit v i"
  shows "Di_bsr_loop k (2 ^ (k - 1)) v = int j"
  using assms
proof (induction k)
  case (Suc k)
  show ?case
  proof (cases "j = k")
    case True
    with Suc.prems show ?thesis by (simp add: mask_bit)
  next
    case False
    with Suc.prems have "\<not> bit v k" "0 < k" by auto
    moreover have "drop_bit 1 ((2 :: u64) ^ k) = 2 ^ (k - 1)"
      using Suc.prems(2) \<open>0 < k\<close> by (cases k) (auto intro!: bit_word_eqI simp: bit_simps)
    ultimately show ?thesis
      using Suc False by (simp add: mask_bit)
  qed
qed simp

lemma word_lowest_bit:
  assumes "(v :: u64) \<noteq> 0"
  obtains j where "j < 64" "bit v j" "\<And>k. k < j \<Longrightarrow> \<not> bit v k"
proof -
  have ex: "\<exists>j. bit v j" using assms by (auto simp: bit_eq_iff)
  let ?j = "LEAST j. bit v j"
  have "bit v ?j" by (rule LeastI_ex [OF ex])
  moreover from this have "?j < 64" using bit_imp_le_length [of v ?j] by simp
  moreover have "\<not> bit v k" if "k < ?j" for k using that by (rule not_less_Least)
  ultimately show ?thesis using that by blast
qed

lemma word_highest_bit:
  assumes "(v :: u64) \<noteq> 0"
  obtains j where "j < 64" "bit v j" "\<And>k. j < k \<Longrightarrow> \<not> bit v k"
proof -
  have ex: "\<exists>j. bit v j" using assms by (auto simp: bit_eq_iff)
  have bd: "\<And>j. bit v j \<Longrightarrow> j \<le> 63" using bit_imp_le_length [of v] by fastforce
  let ?j = "GREATEST j. bit v j"
  have "bit v ?j" using GreatestI_ex_nat [OF ex, of 63] bd by blast
  moreover have "k \<le> ?j" if "bit v k" for k
    using Greatest_le_nat [of "bit v" k 63] that bd by blast
  ultimately show ?thesis
    using that [of ?j] bd [of ?j] by force
qed

lemma bsf_loop_lowest:
  assumes "v \<noteq> 0"
  shows "Di_bsf_loop 0 1 v < 64" "bit v (Di_bsf_loop 0 1 v)" "k < Di_bsf_loop 0 1 v \<Longrightarrow> \<not> bit v k"
proof -
  obtain j where "j < 64" "bit v j" "\<And>k. k < j \<Longrightarrow> \<not> bit v k"
    using word_lowest_bit [OF assms] by blast
  moreover from this have "Di_bsf_loop 0 1 v = j"
    using bsf_loop_eq [of 0 j v] by simp
  ultimately show "Di_bsf_loop 0 1 v < 64" "bit v (Di_bsf_loop 0 1 v)" "k < Di_bsf_loop 0 1 v \<Longrightarrow> \<not> bit v k"
    by auto
qed

lemma bsr_loop_highest:
  assumes "v \<noteq> 0"
  obtains j where "Di_bsr_loop 64 0x8000000000000000 v = int j" "j < 64" "bit v j" "\<And>k. j < k \<Longrightarrow> \<not> bit v k"
proof -
  obtain j where j: "j < 64" "bit v j" "\<And>k. j < k \<Longrightarrow> \<not> bit v k"
    using word_highest_bit [OF assms] by blast
  have "Di_bsr_loop 64 (2 ^ (64 - 1)) v = int j"
    by (rule bsr_loop_eq) (use j in auto)
  moreover have "(2 :: u64) ^ (64 - 1) = 0x8000000000000000" by simp
  ultimately have "Di_bsr_loop 64 0x8000000000000000 v = int j" by metis
  with j show ?thesis using that by blast
qed

section \<open>The selected bit\<close>

lemma BitNumber_eq:
  assumes "valid_size n" "n \<noteq> 1"
  obtains k where "Di_BitNumber n v = Some k" "unat k = unat v mod bits_of n" "unat k < bits_of n"
    "DianaProcessor_GetSignMaskSpecifyBit k = 2 ^ (unat v mod bits_of n)"
proof -
  define k where "k = v mod of_nat (bits_of n)"
  have k: "Di_BitNumber n v = Some k" "unat k = unat v mod bits_of n" "bits_of n \<le> 64" "0 < bits_of n"
    using assms by (auto simp: valid_size_def Di_BitNumber_def k_def unat_mod)
  then have "unat k < bits_of n" by simp
  moreover from this k(3) have "unat k < 64" by linarith
  then have "k < 64" by (simp add: word_less_nat_alt)
  ultimately show ?thesis
    using that k GetSignMaskSpecifyBit_eq [of k] by simp
qed

lemma and_mask_bit: "(a :: u64) AND 2 ^ k \<noteq> 0 \<longleftrightarrow> k < 64 \<and> bit a k"
  using mask_bit [of k a] by (simp add: and.commute)

lemma bit_values:
  fixes a :: u64
  shows "(if bit a k then a else a OR 2 ^ k) = set_bit k a" "(if bit a k then a AND NOT (2 ^ k) else a) = unset_bit k a"
    "(if bit a k then a AND NOT (2 ^ k) else a OR 2 ^ k) = flip_bit k a"
  by (auto intro!: bit_word_eqI simp: bit_simps)

text \<open>The part of the bit string that is read starts at the floor of the offset, in parts.\<close>

lemma truncated_floor:
  fixes x :: int
  assumes "0 < b"
  shows "(if x < 0 then x - (b - 1) else x) sdiv b = x div b"
proof (cases "x < 0")
  case True
  have "(b - 1 - x) div b = - (x div b)"
  proof (rule int_div_pos_eq)
    show "b - 1 - x = b * - (x div b) + (b - 1 - x mod b)"
      using minus_mult_div_eq_mod [of x b] by (simp add: algebra_simps)
  qed (use assms pos_mod_bound [of b x] pos_mod_sign [of b x] in linarith)+
  then show ?thesis
    using assms True by (simp add: signed_divide_int_def sgn_if)
next
  case False
  then show ?thesis using assms by (simp add: signed_divide_int_def sgn_if)
qed

section \<open>The swap reverses the bytes\<close>

lemma byte_OR: "(ucast (drop_bit a (x OR y :: u64)) :: u8) = ucast (drop_bit a x) OR ucast (drop_bit a y)"
  by (rule bit_word_eqI) (simp add: bit_simps)

lemma and_255: "(x :: u64) AND 0xFF = take_bit 8 x"
  by (simp add: take_bit_eq_mask mask_eq_exp_minus_1)

lemma byte_push:
  assumes "8 dvd a" "8 dvd b" "b < 64"
  shows "(ucast (drop_bit a (push_bit b (x AND 0xFF :: u64))) :: u8) = (if a = b then ucast x else 0)"
proof -
  obtain i j where "a = 8 * i" "b = 8 * j" using assms by (auto elim!: dvdE)
  then show ?thesis
    unfolding and_255 using assms(3) by (intro bit_word_eqI) (auto simp: bit_simps)
qed

lemma byte_shifts:
  "8 dvd (0 :: nat)" "8 dvd (8 :: nat)" "8 dvd (16 :: nat)" "8 dvd (24 :: nat)" "8 dvd (32 :: nat)" "8 dvd (40 :: nat)"
  "8 dvd (48 :: nat)" "8 dvd (56 :: nat)" "0 < (64 :: nat)" "8 < (64 :: nat)" "16 < (64 :: nat)" "24 < (64 :: nat)"
  "32 < (64 :: nat)" "40 < (64 :: nat)" "48 < (64 :: nat)" "56 < (64 :: nat)"
  by simp_all

lemma byte_cases:
  assumes "8 dvd a" "a < (64 :: nat)"
  obtains "a = 0" | "a = 8" | "a = 16" | "a = 24" | "a = 32" | "a = 40" | "a = 48" | "a = 56"
  using assms by (elim dvdE) force

lemma bswap8_bytes:
  assumes "Di_bswap 8 v = Some w" "8 dvd a" "a < 64"
  shows "(ucast (drop_bit a w) :: u8) = ucast (drop_bit (56 - a) v)"
proof -
  have top: "drop_bit 56 v = push_bit 0 (drop_bit 56 v AND 0xFF)"
    unfolding and_255 using drop_bit_take_bit [of 56 64 v] by simp
  have "w = push_bit 0 (drop_bit 56 v AND 0xFF) OR (push_bit 56 (v AND 0xFF) OR push_bit 48 (drop_bit 8 v AND 0xFF) OR
      push_bit 40 (drop_bit 16 v AND 0xFF) OR push_bit 32 (drop_bit 24 v AND 0xFF) OR push_bit 24 (drop_bit 32 v AND 0xFF) OR
      push_bit 16 (drop_bit 40 v AND 0xFF) OR push_bit 8 (drop_bit 48 v AND 0xFF))"
    using assms(1) unfolding Di_bswap_def Let_def top [symmetric] by simp
  then have "(ucast (drop_bit a w) :: u8) = (if a = 0 then ucast (drop_bit 56 v) else 0) OR ((if a = 56 then ucast v else 0) OR
      (if a = 48 then ucast (drop_bit 8 v) else 0) OR (if a = 40 then ucast (drop_bit 16 v) else 0) OR
      (if a = 32 then ucast (drop_bit 24 v) else 0) OR (if a = 24 then ucast (drop_bit 32 v) else 0) OR
      (if a = 16 then ucast (drop_bit 40 v) else 0) OR (if a = 8 then ucast (drop_bit 48 v) else 0))"
    by (simp only: byte_OR byte_push [OF assms(2)] byte_shifts simp_thms)
  with byte_cases [OF assms(2,3)] show ?thesis
    by cases simp_all
qed

lemma bswap4_bytes:
  assumes "Di_bswap 4 v = Some w" "fits 4 v" "8 dvd a" "a < 32"
  shows "(ucast (drop_bit a w) :: u8) = ucast (drop_bit (24 - a) v)"
proof -
  have top: "drop_bit 24 v = push_bit 0 (drop_bit 24 v AND 0xFF)"
    unfolding and_255 using drop_bit_take_bit [of 24 32 v] assms(2) by (simp add: fits_def)
  have "w = push_bit 0 (drop_bit 24 v AND 0xFF) OR (push_bit 24 (v AND 0xFF) OR push_bit 16 (drop_bit 8 v AND 0xFF) OR
      push_bit 8 (drop_bit 16 v AND 0xFF))"
    using assms(1) unfolding Di_bswap_def Let_def top [symmetric] by simp
  then have "(ucast (drop_bit a w) :: u8) = (if a = 0 then ucast (drop_bit 24 v) else 0) OR ((if a = 24 then ucast v else 0) OR
      (if a = 16 then ucast (drop_bit 8 v) else 0) OR (if a = 8 then ucast (drop_bit 16 v) else 0))"
    by (simp only: byte_OR byte_push [OF assms(3)] byte_shifts simp_thms)
  moreover have "a < 64" using assms(4) by simp
  ultimately show ?thesis
    using assms(4) by (elim byte_cases [OF assms(3)]) simp_all
qed

lemma bswap_reverses:
  assumes "n = 4 \<or> n = 8" "fits n v"
  obtains w where "Di_bswap n v = Some w" "le_bytes (nat n) w = rev (le_bytes (nat n) v)"
proof -
  obtain w where w: "Di_bswap n v = Some w"
    using assms(1) by (auto simp: Di_bswap_def Let_def)
  have "le_bytes (nat n) w ! i = rev (le_bytes (nat n) v) ! i" if "i < nat n" for i
  proof (cases "n = 4")
    case True
    with that bswap4_bytes [of v w "8 * i"] w assms(2) show ?thesis
      by (simp add: rev_nth diff_mult_distrib2)
  next
    case False
    with that bswap8_bytes [of v w "8 * i"] w assms(1) show ?thesis
      by (simp add: rev_nth diff_mult_distrib2)
  qed
  then have "le_bytes (nat n) w = rev (le_bytes (nat n) v)"
    by (intro nth_equalityI) simp_all
  with w show ?thesis by (rule that)
qed

section \<open>Correctness of the handlers\<close>

lemma BitStringAddress_id:
  assumes "\<And>ix. op_value (linked p 0) \<noteq> diana_index ix"
  shows "Di_BitStringAddress sz p = Ok () p"
  using assms by (simp add: Di_BitStringAddress_def di_simps split: DianaOperandValue.split)

context memory_stream
begin

lemma bswap_Ok:
  assumes "attached p" "alu_dest mapped p n" "n = 4 \<or> n = 8"
  obtains a w p' where "DI_MEM_GET 0 p = Ok (a, n) p" "Diana_Call_bswap p = Ok () p'" "attached p'" "wrote p n w p'"
    "le_bytes (nat n) w = rev (le_bytes (nat n) a)" "m_flags p' = m_flags p"
proof -
  obtain a where a: "DI_MEM_GET 0 p = Ok (a, n) p" "fits n a"
    using alu_fetch_dest [OF assms(1,2)] by metis
  obtain w where w: "Di_bswap n a = Some w" "le_bytes (nat n) w = rev (le_bytes (nat n) a)"
    using bswap_reverses [OF assms(3) a(2)] by metis
  obtain q p' where q: "Di_CheckZeroExtends w n p = Ok w q" "DI_MEM_SET 0 w q = Ok n p'"
    "attached p'" "wrote p n w p'" "m_flags p' = m_flags p"
    using alu_finish [OF assms(1,2), of w n] by metis
  show ?thesis
    by (rule that [of a p' w]) (use a w q in \<open>simp_all add: Diana_Call_bswap_def di_simps\<close>)
qed

lemma scan_fetch:
  assumes "attached p" "alu_dest mapped p n" "operand_rd mapped p 1 m"
  obtains a b where "DI_MEM_GET 0 p = Ok (a, n) p" "DI_MEM_GET 1 p = Ok (b, m) p"
  using alu_fetch_dest [OF assms(1,2)] DI_MEM_GET_Ok [OF assms(1) alu_destD(1) [OF assms(2)] assms(3)] by metis

lemma bsf_Ok:
  assumes "attached p" "alu_dest mapped p n" "operand_rd mapped p 1 m"
  obtains b p' where "DI_MEM_GET 1 p = Ok (b, m) p" "Diana_Call_bsf p = Ok () p'"
    "DianaProcessor_QueryFlag p' DI_FLAG_ZF \<longleftrightarrow> b = 0"
    "b \<noteq> 0 \<Longrightarrow> \<exists>j < 64. bit b j \<and> (\<forall>k < j. \<not> bit b k) \<and> wrote p n (of_nat j) p'"
    "b = 0 \<Longrightarrow> same_but_flags p p'"
proof -
  obtain a b where ab: "DI_MEM_GET 0 p = Ok (a, n) p" "DI_MEM_GET 1 p = Ok (b, m) p"
    using scan_fetch [OF assms] by metis
  let ?c = "DianaProcessor_ClearFlag DI_FLAG_ZF p" and ?j = "Di_bsf_loop 0 1 b"
  show ?thesis
  proof (cases "b = 0")
    case True
    show ?thesis
      by (rule that [OF ab(2), of "DianaProcessor_SetFlag DI_FLAG_ZF ?c"])
         (use True ab same_but_flags_trans [OF same_but_flags_ops(2) same_but_flags_ops(1)]
          in \<open>simp_all add: Diana_Call_bsf_def di_simps\<close>)
  next
    case False
    obtain p' where p': "DI_MEM_SET 0 (of_nat ?j) ?c = Ok n p'" "wrote p n (of_nat ?j) p'" "m_flags p' = m_flags ?c"
      using alu_store_after [OF assms(1,2) same_but_flags_ops(2), of "of_nat ?j"] by metis
    have "\<exists>j < 64. bit b j \<and> (\<forall>k < j. \<not> bit b k) \<and> wrote p n (of_nat j) p'"
      using bsf_loop_lowest [OF False] p'(2) by (intro exI [of _ ?j]) simp
    then show ?thesis
      by (intro that [OF ab(2), of p'])
         (use False ab p'(1) QueryFlag_cong [OF p'(3)] in \<open>simp_all add: Diana_Call_bsf_def di_simps\<close>)
  qed
qed

lemma bsr_Ok:
  assumes "attached p" "alu_dest mapped p n" "operand_rd mapped p 1 m"
  obtains b p' where "DI_MEM_GET 1 p = Ok (b, m) p" "Diana_Call_bsr p = Ok () p'"
    "DianaProcessor_QueryFlag p' DI_FLAG_ZF \<longleftrightarrow> b = 0"
    "b \<noteq> 0 \<Longrightarrow> \<exists>j < 64. bit b j \<and> (\<forall>k > j. \<not> bit b k) \<and> wrote p n (of_nat j) p'"
    "b = 0 \<Longrightarrow> same_but_flags p p'"
proof -
  obtain a b where ab: "DI_MEM_GET 0 p = Ok (a, n) p" "DI_MEM_GET 1 p = Ok (b, m) p"
    using scan_fetch [OF assms] by metis
  let ?c = "DianaProcessor_ClearFlag DI_FLAG_ZF p"
  show ?thesis
  proof (cases "b = 0")
    case True
    show ?thesis
      by (rule that [OF ab(2), of "DianaProcessor_SetFlag DI_FLAG_ZF ?c"])
         (use True ab same_but_flags_trans [OF same_but_flags_ops(2) same_but_flags_ops(1)]
          in \<open>simp_all add: Diana_Call_bsr_def di_simps\<close>)
  next
    case False
    obtain j where j: "Di_bsr_loop 64 0x8000000000000000 b = int j" "j < 64" "bit b j" "\<And>k. j < k \<Longrightarrow> \<not> bit b k"
      using bsr_loop_highest [OF False] by metis
    obtain p' where p': "DI_MEM_SET 0 (of_nat j) ?c = Ok n p'" "wrote p n (of_nat j) p'" "m_flags p' = m_flags ?c"
      using alu_store_after [OF assms(1,2) same_but_flags_ops(2), of "of_nat j"] by metis
    have "\<exists>j < 64. bit b j \<and> (\<forall>k > j. \<not> bit b k) \<and> wrote p n (of_nat j) p'"
      using j p'(2) by (intro exI [of _ j]) simp
    then show ?thesis
      by (intro that [OF ab(2), of p'])
         (use False ab j(1) p'(1) QueryFlag_cong [OF p'(3)] in \<open>simp_all add: Diana_Call_bsr_def di_simps\<close>)
  qed
qed

text \<open>Tests of a bit of a register or of a fixed part of memory: the offset wraps at the operand size.\<close>

lemma bit_test_Ok:
  fixes h :: "(unit, 'm) di_cmd"
  assumes "attached p" "alu_dest mapped p n" "operand_rd mapped p 1 m" "n \<noteq> 1" "opsize p = n"
    and direct: "\<And>ix. op_value (linked p 0) \<noteq> diana_index ix"
    and run: "\<And>a b c q p'. DI_MEM_GET 0 p = Ok (a, n) p \<Longrightarrow> DI_MEM_GET 1 p = Ok (b, m) p \<Longrightarrow>
      Di_BitStringAddress n p = Ok () p \<Longrightarrow>
      Di_BitNumber n b = Some c \<Longrightarrow> DianaProcessor_GetSignMaskSpecifyBit c = 2 ^ (unat b mod bits_of n) \<Longrightarrow>
      Di_CheckZeroExtends (v a (unat b mod bits_of n)) m
        (set_flag_if (bit a (unat b mod bits_of n)) DI_FLAG_CF (DianaProcessor_ClearFlag DI_FLAG_CF p)) =
        Ok (v a (unat b mod bits_of n)) q \<Longrightarrow>
      DI_MEM_SET 0 (v a (unat b mod bits_of n)) q = Ok n p' \<Longrightarrow>
      (a AND 2 ^ (unat b mod bits_of n) \<noteq> 0 \<longleftrightarrow> bit a (unat b mod bits_of n)) \<Longrightarrow> h p = Ok () p'"
  obtains a b p' where "DI_MEM_GET 0 p = Ok (a, n) p" "DI_MEM_GET 1 p = Ok (b, m) p" "h p = Ok () p'" "attached p'"
    "wrote p n (v a (unat b mod bits_of n)) p'"
    "DianaProcessor_QueryFlag p' DI_FLAG_CF \<longleftrightarrow> bit a (unat b mod bits_of n)"
    "\<And>g. DI_FLAG_CF AND g = 0 \<Longrightarrow> DianaProcessor_QueryFlag p' g = DianaProcessor_QueryFlag p g"
proof -
  note d = alu_destD [OF assms(2)]
  obtain a b where ab: "DI_MEM_GET 0 p = Ok (a, n) p" "DI_MEM_GET 1 p = Ok (b, m) p"
    using scan_fetch [OF assms(1-3)] by metis
  obtain c where c: "Di_BitNumber n b = Some c" "DianaProcessor_GetSignMaskSpecifyBit c = 2 ^ (unat b mod bits_of n)"
    using BitNumber_eq [OF d(4) assms(4), of b] by metis
  have k: "unat b mod bits_of n < 64"
    using valid_bits [OF d(4)] mod_less_divisor [of "bits_of n" "unat b"] by linarith
  let ?c = "set_flag_if (bit a (unat b mod bits_of n)) DI_FLAG_CF (DianaProcessor_ClearFlag DI_FLAG_CF p)"
  have same: "same_but_flags p ?c"
    using same_but_flags_trans same_but_flags_ops(2) same_but_flags_if(1) by blast
  have cc: "attached ?c" "alu_dest mapped ?c n"
    using assms(1,2) by (simp_all add: operand_flags_cong [OF same])
  obtain q p' where q: "Di_CheckZeroExtends (v a (unat b mod bits_of n)) m ?c = Ok (v a (unat b mod bits_of n)) q"
    "DI_MEM_SET 0 (v a (unat b mod bits_of n)) q = Ok n p'" "attached p'" "wrote ?c n (v a (unat b mod bits_of n)) p'"
    "m_flags p' = m_flags ?c"
    using alu_finish [OF cc, of "v a (unat b mod bits_of n)" m] by metis
  have "h p = Ok () p'"
    using run [OF ab BitStringAddress_id [OF direct] c q(1,2)] and_mask_bit [of a "unat b mod bits_of n"] k by simp
  with ab q(3) wrote_from_flags [OF q(4) same] QueryFlag_cong [OF q(5)] show ?thesis
    by (intro that [of a b p']) simp_all
qed

lemma bts_Ok:
  assumes "attached p" "alu_dest mapped p n" "operand_rd mapped p 1 m" "n \<noteq> 1" "opsize p = n"
    "\<And>ix. op_value (linked p 0) \<noteq> diana_index ix"
  obtains a b p' where "DI_MEM_GET 0 p = Ok (a, n) p" "DI_MEM_GET 1 p = Ok (b, m) p" "Diana_Call_bts p = Ok () p'" "attached p'"
    "wrote p n (set_bit (unat b mod bits_of n) a) p'"
    "DianaProcessor_QueryFlag p' DI_FLAG_CF \<longleftrightarrow> bit a (unat b mod bits_of n)"
    "\<And>g. DI_FLAG_CF AND g = 0 \<Longrightarrow> DianaProcessor_QueryFlag p' g = DianaProcessor_QueryFlag p g"
  by (rule bit_test_Ok [OF assms, of "\<lambda>a k. set_bit k a" Diana_Call_bts])
     (simp_all add: Diana_Call_bts_def di_simps Let_def bit_values assms(5))

lemma btr_Ok:
  assumes "attached p" "alu_dest mapped p n" "operand_rd mapped p 1 m" "n \<noteq> 1" "opsize p = n"
    "\<And>ix. op_value (linked p 0) \<noteq> diana_index ix"
  obtains a b p' where "DI_MEM_GET 0 p = Ok (a, n) p" "DI_MEM_GET 1 p = Ok (b, m) p" "Diana_Call_btr p = Ok () p'" "attached p'"
    "wrote p n (unset_bit (unat b mod bits_of n) a) p'"
    "DianaProcessor_QueryFlag p' DI_FLAG_CF \<longleftrightarrow> bit a (unat b mod bits_of n)"
    "\<And>g. DI_FLAG_CF AND g = 0 \<Longrightarrow> DianaProcessor_QueryFlag p' g = DianaProcessor_QueryFlag p g"
  by (rule bit_test_Ok [OF assms, of "\<lambda>a k. unset_bit k a" Diana_Call_btr])
     (simp_all add: Diana_Call_btr_def di_simps Let_def bit_values assms(5))

lemma btc_Ok:
  assumes "attached p" "alu_dest mapped p n" "operand_rd mapped p 1 m" "n \<noteq> 1" "opsize p = n"
    "\<And>ix. op_value (linked p 0) \<noteq> diana_index ix"
  obtains a b p' where "DI_MEM_GET 0 p = Ok (a, n) p" "DI_MEM_GET 1 p = Ok (b, m) p" "Diana_Call_btc p = Ok () p'" "attached p'"
    "wrote p n (flip_bit (unat b mod bits_of n) a) p'"
    "DianaProcessor_QueryFlag p' DI_FLAG_CF \<longleftrightarrow> bit a (unat b mod bits_of n)"
    "\<And>g. DI_FLAG_CF AND g = 0 \<Longrightarrow> DianaProcessor_QueryFlag p' g = DianaProcessor_QueryFlag p g"
  by (rule bit_test_Ok [OF assms, of "\<lambda>a k. flip_bit k a" Diana_Call_btc])
     (simp_all add: Diana_Call_btc_def di_simps Let_def bit_values assms(5))

end

end
