(* ===== verification/Cmd_Conditions.thy ===== *)
theory Cmd_Conditions
  imports Alu_Contract
begin

unbundle bit_operations_syntax

text \<open>
  The conditions on the flags that conditional moves, jumps and sets test, each the expression of the source, and
  their meaning: after the comparison of two operands they order them, unsigned (a, ae, b, be) or signed (g, ge, l, le).
\<close>

section \<open>Conditions\<close>

definition cond_a :: "'m DianaProcessor \<Rightarrow> bool" where
  "cond_a p \<longleftrightarrow> \<not> DianaProcessor_QueryFlag p DI_FLAG_CF \<and> \<not> DianaProcessor_QueryFlag p DI_FLAG_ZF"

definition cond_ae :: "'m DianaProcessor \<Rightarrow> bool" where
  "cond_ae p \<longleftrightarrow> \<not> DianaProcessor_QueryFlag p DI_FLAG_CF"

definition cond_b :: "'m DianaProcessor \<Rightarrow> bool" where
  "cond_b p \<longleftrightarrow> DianaProcessor_QueryFlag p DI_FLAG_CF"

definition cond_be :: "'m DianaProcessor \<Rightarrow> bool" where
  "cond_be p \<longleftrightarrow> DianaProcessor_QueryFlag p DI_FLAG_CF \<or> DianaProcessor_QueryFlag p DI_FLAG_ZF"

definition cond_e :: "'m DianaProcessor \<Rightarrow> bool" where
  "cond_e p \<longleftrightarrow> DianaProcessor_QueryFlag p DI_FLAG_ZF"

definition cond_g :: "'m DianaProcessor \<Rightarrow> bool" where
  "cond_g p \<longleftrightarrow> DianaProcessor_QueryFlag p DI_FLAG_SF = DianaProcessor_QueryFlag p DI_FLAG_OF \<and> \<not> DianaProcessor_QueryFlag p DI_FLAG_ZF"

definition cond_ge :: "'m DianaProcessor \<Rightarrow> bool" where
  "cond_ge p \<longleftrightarrow> DianaProcessor_QueryFlag p DI_FLAG_SF = DianaProcessor_QueryFlag p DI_FLAG_OF"

definition cond_l :: "'m DianaProcessor \<Rightarrow> bool" where
  "cond_l p \<longleftrightarrow> DianaProcessor_QueryFlag p DI_FLAG_SF \<noteq> DianaProcessor_QueryFlag p DI_FLAG_OF"

definition cond_le :: "'m DianaProcessor \<Rightarrow> bool" where
  "cond_le p \<longleftrightarrow> DianaProcessor_QueryFlag p DI_FLAG_ZF \<or> DianaProcessor_QueryFlag p DI_FLAG_SF \<noteq> DianaProcessor_QueryFlag p DI_FLAG_OF"

definition cond_ne :: "'m DianaProcessor \<Rightarrow> bool" where
  "cond_ne p \<longleftrightarrow> \<not> DianaProcessor_QueryFlag p DI_FLAG_ZF"

definition cond_no :: "'m DianaProcessor \<Rightarrow> bool" where
  "cond_no p \<longleftrightarrow> \<not> DianaProcessor_QueryFlag p DI_FLAG_OF"

definition cond_np :: "'m DianaProcessor \<Rightarrow> bool" where
  "cond_np p \<longleftrightarrow> \<not> DianaProcessor_QueryFlag p DI_FLAG_PF"

definition cond_ns :: "'m DianaProcessor \<Rightarrow> bool" where
  "cond_ns p \<longleftrightarrow> \<not> DianaProcessor_QueryFlag p DI_FLAG_SF"

definition cond_o :: "'m DianaProcessor \<Rightarrow> bool" where
  "cond_o p \<longleftrightarrow> DianaProcessor_QueryFlag p DI_FLAG_OF"

definition cond_p :: "'m DianaProcessor \<Rightarrow> bool" where
  "cond_p p \<longleftrightarrow> DianaProcessor_QueryFlag p DI_FLAG_PF"

definition cond_s :: "'m DianaProcessor \<Rightarrow> bool" where
  "cond_s p \<longleftrightarrow> DianaProcessor_QueryFlag p DI_FLAG_SF"

lemmas cond_defs = cond_a_def cond_ae_def cond_b_def cond_be_def cond_e_def cond_g_def cond_ge_def cond_l_def
  cond_le_def cond_ne_def cond_no_def cond_np_def cond_ns_def cond_o_def cond_p_def cond_s_def

section \<open>Their meaning after a comparison\<close>

text \<open>The flags that a comparison of \<open>a\<close> with \<open>b\<close> leaves.\<close>

definition compared :: "int \<Rightarrow> u64 \<Rightarrow> u64 \<Rightarrow> 'm DianaProcessor \<Rightarrow> bool" where
  "compared n a b p \<longleftrightarrow>
     DianaProcessor_QueryFlag p DI_FLAG_CF = carry_sub a b 0 \<and>
     DianaProcessor_QueryFlag p DI_FLAG_OF = overflow_flag n (sval n a - sval n b) \<and>
     DianaProcessor_QueryFlag p DI_FLAG_ZF = (DianaProcessor_CutValue (a - b) n = 0) \<and>
     DianaProcessor_QueryFlag p DI_FLAG_SF = (sval n (a - b) < 0)"

lemma arith_flags_compared:
  "arith_flags n (a - b) (carry_sub a b 0) (overflow_flag n (sval n a - sval n b)) af p p' \<Longrightarrow> compared n a b p'"
  by (simp add: arith_flags_def compared_def)

lemma Cut_sub_eq_0:
  assumes "valid_size n" "fits n a" "fits n b"
  shows "DianaProcessor_CutValue (a - b) n = 0 \<longleftrightarrow> a = b"
proof
  assume "DianaProcessor_CutValue (a - b) n = 0"
  then have "(uint a - uint b) mod 2 ^ bits_of n = 0"
    using uint_Cut_sub [OF assms(1), of a b] by simp
  then have "uint a mod 2 ^ bits_of n = uint b mod 2 ^ bits_of n"
    by (simp add: mod_eq_dvd_iff mod_0_imp_dvd)
  then show "a = b"
    using assms(2,3) by (simp add: fits_iff word_uint_eq_iff)
qed (use assms(1) in \<open>simp add: DianaProcessor_CutValue_def\<close>)

lemma signed_less:
  fixes M :: int
  assumes "0 \<le> x" "x < 2 * M" "0 \<le> y" "y < 2 * M"
  shows "(sgn_of M ((x - y) mod (2 * M)) < 0) \<noteq> (\<not> (- M \<le> sgn_of M x - sgn_of M y \<and> sgn_of M x - sgn_of M y < M)) \<longleftrightarrow>
     sgn_of M x < sgn_of M y"
  using assms mod_sub_cases [of x M y 0] by (auto simp: sgn_of_def)

lemma SF_OF_less:
  assumes "valid_size n" "fits n a" "fits n b"
  shows "(sval n (a - b) < 0) \<noteq> overflow_flag n (sval n a - sval n b) \<longleftrightarrow> sval n a < sval n b"
proof -
  let ?M = "2 ^ (bits_of n - 1) :: int"
  have "sval n (a - b) = sgn_of ?M ((uint a - uint b) mod (2 * ?M))"
    by (simp add: sval_eq [OF assms(1)] uint_Cut_sub [OF assms(1)] sgn_of_def Let_def two_half [OF assms(1)])
  then show ?thesis
    using signed_less [of "uint a" ?M "uint b"] uint_fits_bound [OF assms(1,2)] uint_fits_bound [OF assms(1,3)]
    by (simp add: overflow_flag_def signed_range_def sval_sgn_of [OF assms(1,2)] sval_sgn_of [OF assms(1,3)])
qed

lemma sgn_of_inj:
  fixes M :: int
  shows "0 \<le> x \<Longrightarrow> x < 2 * M \<Longrightarrow> 0 \<le> y \<Longrightarrow> y < 2 * M \<Longrightarrow> sgn_of M x = sgn_of M y \<longleftrightarrow> x = y"
  by (auto simp: sgn_of_def)

lemma sval_inj: "valid_size n \<Longrightarrow> fits n a \<Longrightarrow> fits n b \<Longrightarrow> sval n a = sval n b \<longleftrightarrow> a = b"
  using sgn_of_inj [OF _ uint_fits_bound [of n a] _ uint_fits_bound [of n b]] by (simp add: sval_sgn_of word_uint_eq_iff)

lemma conditions_compared:
  assumes "valid_size n" "fits n a" "fits n b" "compared n a b p"
  shows "cond_a p \<longleftrightarrow> b < a" "cond_ae p \<longleftrightarrow> b \<le> a" "cond_b p \<longleftrightarrow> a < b" "cond_be p \<longleftrightarrow> a \<le> b"
    "cond_e p \<longleftrightarrow> a = b" "cond_ne p \<longleftrightarrow> a \<noteq> b"
    "cond_g p \<longleftrightarrow> sval n b < sval n a" "cond_ge p \<longleftrightarrow> sval n b \<le> sval n a"
    "cond_l p \<longleftrightarrow> sval n a < sval n b" "cond_le p \<longleftrightarrow> sval n a \<le> sval n b"
proof -
  have cf: "DianaProcessor_QueryFlag p DI_FLAG_CF \<longleftrightarrow> a < b"
    using assms(4) by (simp add: compared_def carry_sub_def word_less_def)
  have zf: "DianaProcessor_QueryFlag p DI_FLAG_ZF \<longleftrightarrow> a = b"
    using assms(4) Cut_sub_eq_0 [OF assms(1-3)] by (simp add: compared_def)
  have so: "DianaProcessor_QueryFlag p DI_FLAG_SF \<noteq> DianaProcessor_QueryFlag p DI_FLAG_OF \<longleftrightarrow> sval n a < sval n b"
    using assms(4) SF_OF_less [OF assms(1-3)] by (simp add: compared_def)
  show "cond_a p \<longleftrightarrow> b < a" "cond_ae p \<longleftrightarrow> b \<le> a" "cond_b p \<longleftrightarrow> a < b" "cond_be p \<longleftrightarrow> a \<le> b"
    "cond_e p \<longleftrightarrow> a = b" "cond_ne p \<longleftrightarrow> a \<noteq> b"
    unfolding cond_defs cf zf by auto
  show "cond_g p \<longleftrightarrow> sval n b < sval n a" "cond_ge p \<longleftrightarrow> sval n b \<le> sval n a"
    "cond_l p \<longleftrightarrow> sval n a < sval n b" "cond_le p \<longleftrightarrow> sval n a \<le> sval n b"
    unfolding cond_defs zf using so sval_inj [OF assms(1-3)] by (metis linorder_less_linear less_irrefl not_less le_less)+
qed

end
