(* ===== verification/Cmd_C.thy ===== *)
theory Cmd_C
  imports Cmd_Conditions
begin

unbundle bit_operations_syntax

text \<open>
  The handlers of \<^verbatim>\<open>diana_processor_cmd_c.c\<close>: call, the sign extensions of the accumulator, flag instructions,
  conditional moves, comparisons and compare-and-exchange.
\<close>

section \<open>Call\<close>

text \<open>The new instruction pointer and, for a far call, the new code segment.\<close>

definition Diana_Call_call_target :: "(u64 \<times> u64 option, 'm) di_cmd" where
  "Diana_Call_call_target =
     DI_LET (\<lambda>p. linked p 0) (\<lambda>op.
     case op_value op of
       diana_rel r \<Rightarrow> DI_LET (\<lambda>p. GET_REG reg_RIP p + m_value r + word_of_int (iFullCmdSize (m_result p))) (\<lambda>newRIP.
         DI_RETURN (newRIP, None))
     | diana_index ix \<Rightarrow> DI_CHECK (DI_MEM_GET 0) (\<lambda>(newRIP, newRIP_size). DI_RETURN (newRIP, None))
     | diana_register r \<Rightarrow> DI_CHECK (DI_MEM_GET 0) (\<lambda>(newRIP, newRIP_size). DI_RETURN (newRIP, None))
     | diana_memory ix \<Rightarrow>
         DI_CHECK (DianaProcessor_CalcIndex ix) (\<lambda>(memSelector, memAddress).
         DI_CHECK (DianaProcessor_GetMemValue memSelector memAddress 2 (seg_reg ix)) (\<lambda>newSegment.
         DI_CHECK (DianaProcessor_GetMemValue memSelector (memAddress + 2) (word_of_int (usedAddressSize op)) (seg_reg ix)) (\<lambda>newRIP.
         DI_RETURN (newRIP, Some newSegment))))
     | diana_call_ptr q \<Rightarrow> DI_RETURN (m_address q, Some (m_segment q))
     | _ \<Rightarrow> DI_FAIL DI_ERROR)"

definition Diana_Call_call :: "(unit, 'm) di_cmd" where
  "Diana_Call_call =
     DI_LET (\<lambda>p. (GET_REG reg_RSP p, opcount p)) (\<lambda>(rsp, count).
     if count \<noteq> 1 then DI_FAIL DI_ERROR
     else
     DI_CHECK Diana_Call_call_target (\<lambda>(newRIP, newSegment).
     DI_LET (\<lambda>p. (iMainMode_opsize (m_context p), word_of_int (opsize p) :: u64)) (\<lambda>(mode, osz).
     DI_CHECK
       (if newSegment \<noteq> None \<and> mode = DIANA_MODE16 then
          DI_LET (\<lambda>p. (GET_REG reg_CS p, GET_REG reg_SS p)) (\<lambda>(oldCS, ss).
          DI_CHECK (DianaProcessor_SetMemValue ss (rsp - osz) osz oldCS reg_SS) (\<lambda>_. DI_RETURN (rsp - osz)))
        else DI_RETURN rsp) (\<lambda>rsp.
     DI_LET (\<lambda>p. (GET_REG reg_RIP p + word_of_int (iFullCmdSize (m_result p)), GET_REG reg_SS p)) (\<lambda>(retRIP, ss).
     DI_CHECK (DianaProcessor_SetMemValue ss (rsp - osz) osz retRIP reg_SS) (\<lambda>_.
     let rsp = rsp - osz in
     DI_DO (\<lambda>p. p\<lparr>m_lastCallRIP := newRIP\<rparr>) (
     DI_DO (\<lambda>p. p\<lparr>m_lastCallRSP := rsp\<rparr>) (
     DI_DO (SET_REG reg_RSP rsp) (
     DI_DO (SET_REG reg_RIP newRIP) (
     case newSegment of
       Some sg \<Rightarrow> DI_DO (SET_REG reg_CS sg) DI_PROC_END
     | None \<Rightarrow> DI_PROC_END))))))))))"

section \<open>Sign extension of the accumulator and flag instructions\<close>

definition Diana_Call_cbw :: "(unit, 'm) di_cmd" where
  "Diana_Call_cbw =
     DI_LET opsize (\<lambda>osz.
     if osz = DIANA_MODE64 then
       DI_LET (GET_REG reg_EAX) (\<lambda>r.
       DI_CHECK (DianaProcessor_SignExtend r 4 8) (\<lambda>r. DI_DO (SET_REG reg_RAX r) DI_PROC_END))
     else if osz = DIANA_MODE32 then
       DI_LET (GET_REG reg_AX) (\<lambda>r.
       DI_CHECK (DianaProcessor_SignExtend r 2 4) (\<lambda>r. DI_DO (SET_REG reg_RAX r) DI_PROC_END))
     else if osz = DIANA_MODE16 then
       DI_LET (GET_REG reg_AL) (\<lambda>r.
       DI_CHECK (DianaProcessor_SignExtend r 1 2) (\<lambda>r. DI_DO (SET_REG reg_AX r) DI_PROC_END))
     else DI_FAIL DI_ERROR)"

definition Diana_Call_clc :: "(unit, 'm) di_cmd" where
  "Diana_Call_clc = DI_DO (DianaProcessor_ClearFlag DI_FLAG_CF) DI_PROC_END"

definition Diana_Call_cld :: "(unit, 'm) di_cmd" where
  "Diana_Call_cld = DI_DO (DianaProcessor_ClearFlag DI_FLAG_DF) DI_PROC_END"

definition Diana_Call_cli :: "(unit, 'm) di_cmd" where
  "Diana_Call_cli = DI_DO (DianaProcessor_ClearFlag DI_FLAG_IF) DI_PROC_END"

definition Diana_Call_cmc :: "(unit, 'm) di_cmd" where
  "Diana_Call_cmc =
     DI_DO (\<lambda>p. if DianaProcessor_QueryFlag p DI_FLAG_CF then DianaProcessor_ClearFlag DI_FLAG_CF p
                else DianaProcessor_SetFlag DI_FLAG_CF p)
     DI_PROC_END"

section \<open>Conditional moves\<close>

text \<open>The text that all of them share; the condition is read after the upper half has been cleared.\<close>

definition Di_cmov :: "('m DianaProcessor \<Rightarrow> bool) \<Rightarrow> (unit, 'm) di_cmd" where
  "Di_cmov cond =
     DI_CHECK (DI_MEM_GET 1) (\<lambda>(src, src_size).
     DI_CHECK Di_ClearUpperHalf (\<lambda>_.
     DI_LET cond (\<lambda>c.
     if c then DI_CHECK (DI_MEM_SET 0 src) (\<lambda>_. DI_PROC_END)
     else DI_PROC_END)))"

definition Diana_Call_cmova :: "(unit, 'm) di_cmd" where
  "Diana_Call_cmova = Di_cmov cond_a"

definition Diana_Call_cmovae :: "(unit, 'm) di_cmd" where
  "Diana_Call_cmovae = Di_cmov cond_ae"

definition Diana_Call_cmovb :: "(unit, 'm) di_cmd" where
  "Diana_Call_cmovb = Di_cmov cond_b"

definition Diana_Call_cmovbe :: "(unit, 'm) di_cmd" where
  "Diana_Call_cmovbe = Di_cmov cond_be"

definition Diana_Call_cmove :: "(unit, 'm) di_cmd" where
  "Diana_Call_cmove = Di_cmov cond_e"

definition Diana_Call_cmovg :: "(unit, 'm) di_cmd" where
  "Diana_Call_cmovg = Di_cmov cond_g"

definition Diana_Call_cmovge :: "(unit, 'm) di_cmd" where
  "Diana_Call_cmovge = Di_cmov cond_ge"

definition Diana_Call_cmovl :: "(unit, 'm) di_cmd" where
  "Diana_Call_cmovl = Di_cmov cond_l"

definition Diana_Call_cmovle :: "(unit, 'm) di_cmd" where
  "Diana_Call_cmovle = Di_cmov cond_le"

definition Diana_Call_cmovne :: "(unit, 'm) di_cmd" where
  "Diana_Call_cmovne = Di_cmov cond_ne"

definition Diana_Call_cmovno :: "(unit, 'm) di_cmd" where
  "Diana_Call_cmovno = Di_cmov cond_no"

definition Diana_Call_cmovnp :: "(unit, 'm) di_cmd" where
  "Diana_Call_cmovnp = Di_cmov cond_np"

definition Diana_Call_cmovns :: "(unit, 'm) di_cmd" where
  "Diana_Call_cmovns = Di_cmov cond_ns"

definition Diana_Call_cmovo :: "(unit, 'm) di_cmd" where
  "Diana_Call_cmovo = Di_cmov cond_o"

definition Diana_Call_cmovp :: "(unit, 'm) di_cmd" where
  "Diana_Call_cmovp = Di_cmov cond_p"

definition Diana_Call_cmovs :: "(unit, 'm) di_cmd" where
  "Diana_Call_cmovs = Di_cmov cond_s"

section \<open>Comparisons\<close>

definition Diana_Call_cmp :: "(unit, 'm) di_cmd" where
  "Diana_Call_cmp =
     DI_CHECK (DI_MEM_GET 0) (\<lambda>(dest, dest_size).
     DI_CHECK (DI_MEM_GET 1) (\<lambda>(src, src_size).
     DI_CHECK (DianaProcessor_SignExtend src src_size dest_size) (\<lambda>src.
     DI_DO DI_START_UPDATE_COA_FLAGS (
     let oldDestValue = dest; dest = dest - src in
     DI_DO (DianaProcessor_SetCOA_Sub oldDestValue dest src dest_size (DI_FLAG_CF OR DI_FLAG_OF OR DI_FLAG_AF)) (
     DI_DO (\<lambda>p. DianaProcessor_UpdatePSZ dest (usedSize (linked p 0)) p)
     DI_PROC_END)))))"

definition Diana_Call_cmps :: "(unit, 'm) di_cmd" where
  "Diana_Call_cmps =
     DI_CHECK (Di_PrepareSIDI_regs True) (\<lambda>(srcIndex, destIndex).
     DI_LET (\<lambda>p. usedSize (linked p 0)) (\<lambda>used.
     DI_CHECK (Diana_ProcessorGetOperand_index_ex used srcIndex) (\<lambda>(srcRegAddress, src).
     DI_CHECK (Diana_ProcessorGetOperand_index_ex used destIndex) (\<lambda>(destRegAddress, dest).
     DI_LET (\<lambda>p. (Di_UpdateSIDI p srcRegAddress, Di_UpdateSIDI p destRegAddress)) (\<lambda>(srcRegAddress, destRegAddress).
     DI_DO DI_START_UPDATE_COA_FLAGS (
     let oldDestValue = src; src = src - dest in
     DI_DO (DianaProcessor_SetCOA_Sub oldDestValue src dest used (DI_FLAG_CF OR DI_FLAG_OF OR DI_FLAG_AF)) (
     DI_DO (SET_REG (reg srcIndex) srcRegAddress) (
     DI_DO (SET_REG (reg destIndex) destRegAddress) (
     DI_DO (DianaProcessor_UpdatePSZ src used)
     DI_PROC_END)))))))))"

definition Diana_Call_cmpxchg :: "(unit, 'm) di_cmd" where
  "Diana_Call_cmpxchg =
     DI_CHECK (DI_MEM_GET 0) (\<lambda>(dest, dest_size).
     DI_CHECK (DI_MEM_GET 1) (\<lambda>(src, src_size).
     case QueryRaxRegister src_size of
       None \<Rightarrow> DI_FAIL DI_ERROR
     | Some usedReg \<Rightarrow>
     DI_LET (GET_REG usedReg) (\<lambda>usedRegValue.
     let usedRegValue_saved = usedRegValue in
     DI_DO DI_START_UPDATE_COA_FLAGS (
     let oldDestValue = usedRegValue; usedRegValue = usedRegValue - dest in
     DI_DO (DianaProcessor_SetCOA_Sub oldDestValue usedRegValue dest dest_size (DI_FLAG_CF OR DI_FLAG_OF OR DI_FLAG_AF)) (
     DI_DO (DianaProcessor_UpdatePSZ usedRegValue dest_size) (
     if usedRegValue_saved = dest then
       DI_CHECK (Di_CheckZeroExtends src src_size) (\<lambda>dest.
       DI_CHECK (DI_MEM_SET 0 dest) (\<lambda>_.
       DI_DO (DianaProcessor_SetFlag DI_FLAG_ZF)
       DI_PROC_END))
     else
       DI_DO (SET_REG usedReg dest) (
       DI_DO (DianaProcessor_ClearFlag DI_FLAG_ZF)
       DI_PROC_END)))))))"

definition Diana_Call_cwd :: "(unit, 'm) di_cmd" where
  "Diana_Call_cwd =
     DI_LET opsize (\<lambda>osz.
     case QueryRaxRegister osz of None \<Rightarrow> DI_FAIL DI_ERROR | Some usedReg \<Rightarrow>
     (case QueryRdxRegister osz of None \<Rightarrow> DI_FAIL DI_ERROR | Some usedDestReg \<Rightarrow>
     DI_LET (GET_REG usedReg) (\<lambda>usedRegValue.
     if usedRegValue AND DianaProcessor_GetSignMask osz \<noteq> 0 then
       DI_DO (\<lambda>p. if iAMD64Mode (m_context p) \<noteq> 0 \<and> osz = 4 then SET_REG reg_RDX 0x00000000FFFFFFFF p
                  else SET_REG usedDestReg 0xFFFFFFFFFFFFFFFF p)
       DI_PROC_END
     else DI_DO (SET_REG usedDestReg 0) DI_PROC_END)))"

definition Diana_Call_cmpxchg8b_impl :: "(unit, 'm) di_cmd" where
  "Diana_Call_cmpxchg8b_impl =
     DI_LET (\<lambda>p. (opcount p, op_value (linked p 0))) (\<lambda>(count, operand).
     case operand of
       diana_index ix \<Rightarrow>
         if count \<noteq> 1 then DI_FAIL DI_ERROR
         else
         DI_CHECK (DianaProcessor_CalcIndex ix) (\<lambda>(selector, address).
         DI_CHECK (DianaProcessor_GetMemValue selector address 8 (seg_reg ix)) (\<lambda>mem.
         let l = take_bit 32 mem; h = drop_bit 32 mem in
         DI_LET (\<lambda>p. l \<noteq> GET_REG reg_EAX p \<or> h \<noteq> GET_REG reg_EDX p) (\<lambda>differ.
         if differ then
           DI_DO (DianaProcessor_ClearFlag DI_FLAG_ZF) (
           DI_DO (SET_REG reg_EDX h) (
           DI_DO (SET_REG reg_EAX l)
           DI_PROC_END))
         else
           DI_DO (DianaProcessor_SetFlag DI_FLAG_ZF) (
           DI_LET (\<lambda>p. take_bit 32 (GET_REG reg_EBX p) OR push_bit 32 (take_bit 32 (GET_REG reg_ECX p))) (\<lambda>mem.
           DI_CHECK (DianaProcessor_SetMemValue selector address 8 mem (seg_reg ix)) (\<lambda>_.
           DI_PROC_END))))))
     | _ \<Rightarrow> DI_FAIL DI_ERROR)"

definition Diana_Call_cmpxchg16b_impl :: "(unit, 'm) di_cmd" where
  "Diana_Call_cmpxchg16b_impl =
     DI_LET (\<lambda>p. (opcount p, op_value (linked p 0))) (\<lambda>(count, operand).
     case operand of
       diana_index ix \<Rightarrow>
         if count \<noteq> 1 then DI_FAIL DI_ERROR
         else
         DI_CHECK (DianaProcessor_CalcIndex ix) (\<lambda>(selector, address).
         DI_CHECK (DianaProcessor_GetMemValue selector address 8 (seg_reg ix)) (\<lambda>low.
         DI_CHECK (DianaProcessor_GetMemValue selector (address + 8) 8 (seg_reg ix)) (\<lambda>high.
         DI_LET (\<lambda>p. low \<noteq> GET_REG reg_RAX p \<or> high \<noteq> GET_REG reg_RDX p) (\<lambda>differ.
         if differ then
           DI_DO (DianaProcessor_ClearFlag DI_FLAG_ZF) (
           DI_DO (SET_REG reg_RDX high) (
           DI_DO (SET_REG reg_RAX low)
           DI_PROC_END))
         else
           DI_DO (DianaProcessor_SetFlag DI_FLAG_ZF) (
           DI_LET (\<lambda>p. (GET_REG reg_RBX p, GET_REG reg_RCX p)) (\<lambda>(low, high).
           DI_CHECK (DianaProcessor_SetMemValue selector address 8 low (seg_reg ix)) (\<lambda>_.
           DI_CHECK (DianaProcessor_SetMemValue selector (address + 8) 8 high (seg_reg ix)) (\<lambda>_.
           DI_PROC_END))))))))
     | _ \<Rightarrow> DI_FAIL DI_ERROR)"

definition Diana_Call_cmpxchg16b :: "(unit, 'm) di_cmd" where
  "Diana_Call_cmpxchg16b =
     DI_LET opsize (\<lambda>osz. if osz \<noteq> DIANA_MODE64 then Diana_Call_cmpxchg8b_impl else Diana_Call_cmpxchg16b_impl)"

section \<open>Identification\<close>

definition Diana_Call_cpuid :: "(unit, 'm) di_cmd" where
  "Diana_Call_cpuid =
     DI_LET (GET_REG reg_EAX) (\<lambda>eaxValue.
     DI_DO (SET_REG reg_EAX 0) (
     DI_DO (SET_REG reg_EBX 0) (
     DI_DO (SET_REG reg_ECX 0) (
     DI_DO (SET_REG reg_EDX 0) (
     if eaxValue = 0 then
       DI_DO (SET_REG reg_EAX 0x00000001) (
       DI_DO (SET_REG reg_EBX 0x756E6547) (
       DI_DO (SET_REG reg_ECX 0x6C65746E) (
       DI_DO (SET_REG reg_EDX 0x49656E69)
       DI_PROC_END)))
     else if eaxValue = 1 then
       DI_DO (SET_REG reg_EAX 0x000306A9) (
       DI_DO (SET_REG reg_EBX 0x03100800) (
       DI_DO (SET_REG reg_ECX 0x7FBAE3BF) (
       DI_DO (SET_REG reg_EDX 0xBFEBFBFF)
       DI_PROC_END)))
     else if eaxValue = 0x80000000 then DI_DO (SET_REG reg_EAX 0x80000001) DI_PROC_END
     else if eaxValue = 0x80000001 then DI_DO (SET_REG reg_EDX 0x28100000) DI_PROC_END
     else DI_PROC_END)))))"

section \<open>Frame\<close>

lemma keeps_cmov [keeps_intros]: "keeps kept (Di_cmov c)"
  unfolding Di_cmov_def by (intro keeps_intros)

lemma keeps_call_target [keeps_intros]: "keeps kept Diana_Call_call_target"
  unfolding Diana_Call_call_target_def by (intro keeps_intros)

lemma keeps_cmpxchg_impl [keeps_intros]: "keeps kept Diana_Call_cmpxchg8b_impl" "keeps kept Diana_Call_cmpxchg16b_impl"
  unfolding Diana_Call_cmpxchg8b_impl_def Diana_Call_cmpxchg16b_impl_def by (intro keeps_intros)+

lemma keeps_cmovs [keeps_intros]:
  "keeps kept Diana_Call_cmova"
  "keeps kept Diana_Call_cmovae"
  "keeps kept Diana_Call_cmovb"
  "keeps kept Diana_Call_cmovbe"
  "keeps kept Diana_Call_cmove"
  "keeps kept Diana_Call_cmovg"
  "keeps kept Diana_Call_cmovge"
  "keeps kept Diana_Call_cmovl"
  "keeps kept Diana_Call_cmovle"
  "keeps kept Diana_Call_cmovne"
  "keeps kept Diana_Call_cmovno"
  "keeps kept Diana_Call_cmovnp"
  "keeps kept Diana_Call_cmovns"
  "keeps kept Diana_Call_cmovo"
  "keeps kept Diana_Call_cmovp"
  "keeps kept Diana_Call_cmovs"
  unfolding Diana_Call_cmova_def
    Diana_Call_cmovae_def
    Diana_Call_cmovb_def
    Diana_Call_cmovbe_def
    Diana_Call_cmove_def
    Diana_Call_cmovg_def
    Diana_Call_cmovge_def
    Diana_Call_cmovl_def
    Diana_Call_cmovle_def
    Diana_Call_cmovne_def
    Diana_Call_cmovno_def
    Diana_Call_cmovnp_def
    Diana_Call_cmovns_def
    Diana_Call_cmovo_def
    Diana_Call_cmovp_def
    Diana_Call_cmovs_def
  by (intro keeps_intros)+

lemma keeps_Cmd_C [keeps_intros]:
  "keeps kept Diana_Call_call"
  "keeps kept Diana_Call_cbw"
  "keeps kept Diana_Call_clc"
  "keeps kept Diana_Call_cld"
  "keeps kept Diana_Call_cli"
  "keeps kept Diana_Call_cmc"
  "keeps kept Diana_Call_cmp"
  "keeps kept Diana_Call_cmps"
  "keeps kept Diana_Call_cmpxchg"
  "keeps kept Diana_Call_cwd"
  "keeps kept Diana_Call_cmpxchg16b"
  "keeps kept Diana_Call_cpuid"
  unfolding Diana_Call_call_def
    Diana_Call_cbw_def
    Diana_Call_clc_def
    Diana_Call_cld_def
    Diana_Call_cli_def
    Diana_Call_cmc_def
    Diana_Call_cmp_def
    Diana_Call_cmps_def
    Diana_Call_cmpxchg_def
    Diana_Call_cwd_def
    Diana_Call_cmpxchg16b_def
    Diana_Call_cpuid_def
  by (intro keeps_intros)+

section \<open>Correctness\<close>

text \<open>Clearing the upper half of a 32-bit destination keeps its value.\<close>

lemma ClearUpperHalf_Ok:
  assumes "alu_dest mapped p n"
  obtains q where "Di_ClearUpperHalf p = Ok () q" "alu_dest mapped q n" "m_flags q = m_flags p" "operand_frame 0 p q"
    "m_memory q = m_memory p" "\<And>rd wr ok. stream_attached rd wr ok q = stream_attached rd wr ok p"
    "\<And>r. op_value (linked p 0) = diana_register r \<Longrightarrow> GET_REG r q = GET_REG r p"
    "q = p \<or> (\<exists>r. op_value (linked p 0) = diana_register r)"
proof -
  note d = alu_destD [OF assms]
  have "Di_ClearUpperHalf p = Ok () p \<or> (\<exists>r r64. Di_ClearUpperHalf p = Ok () (SET_REG r64 (GET_REG r64 p AND 0xFFFFFFFF) p) \<and>
      op_value (linked p 0) = diana_register r \<and> Query64RegisterFor32 r = Some r64)"
    unfolding Di_ClearUpperHalf_def by (simp add: di_simps split: DianaOperandValue.split option.split)
  then consider (same) "Di_ClearUpperHalf p = Ok () p"
    | (cleared) r r64 where "Di_ClearUpperHalf p = Ok () (SET_REG r64 (GET_REG r64 p AND 0xFFFFFFFF) p)"
        "op_value (linked p 0) = diana_register r" "Query64RegisterFor32 r = Some r64"
    by blast
  then show ?thesis
  proof cases
    case same
    show ?thesis by (rule that [OF same assms]) (simp_all add: operand_frame_def)
  next
    case cleared
    let ?q = "SET_REG r64 (GET_REG r64 p AND 0xFFFFFFFF) p"
    have rip: "r64 \<noteq> reg_RIP" "r64 \<noteq> reg_IP"
      using cleared(3) by (auto simp: Query64RegisterFor32_def split: if_splits)
    obtain off where off: "reg_at r off 4" "reg_at r64 off 8" "\<not> is_r32 r64"
      using cleared(3) by (auto simp: Query64RegisterFor32_def reg_at_def plain_reg_def is_r32_def reg_simps split: if_splits)
    have "GET_REG r ?q = GET_REG r p"
      using d(1) SET_REG_at [OF d(1) off(2)] off(3)
      by (simp add: GET_REG_at [OF _ off(1)] GET_REG_at [OF d(1) off(2)] vec_get_put_prefix and_mask32 vec_get_prefix [of 4 8])
    then show ?thesis
      using cleared(2) dest_only_clear [OF d(1) cleared(2) off(1) cleared(3), of "GET_REG r64 p AND 0xFFFFFFFF"]
      by (intro that [OF cleared(1)])
         (use d rip in \<open>auto simp: alu_dest_def operand_rw_def psz_off_def operand_frame_def stream_attached_def\<close>)
  qed
qed

context memory_stream
begin

lemma cmp_Ok:
  assumes "attached p" "alu_ready mapped p n m"
  obtains a b p' where "operands p n m a b" "Diana_Call_cmp p = Ok () p'" "same_but_flags p p'"
    "arith_flags n (a - b) (carry_sub a b 0) (overflow_flag n (sval n a - sval n b)) (half_carry_sub a b 0) p p'"
proof -
  obtain a b b' where op: "operands p n m a b" "DI_MEM_GET 0 p = Ok (a, n) p" "DI_MEM_GET 1 p = Ok (b', m) p"
    "\<And>q :: 'm DianaProcessor. DianaProcessor_SignExtend b' m n q = Ok b q" "fits n a" "fits n b" "valid_size n"
    using alu_operands [OF assms] by metis
  note d = alu_destD [OF alu_readyD(1) [OF assms(2)]]
  let ?q = "set_COA (carry_sub a b 0) (overflow_flag n (sval n a - sval n b)) (half_carry_sub a b 0) (DI_START_UPDATE_COA_FLAGS p)"
  let ?p' = "DianaProcessor_UpdatePSZ (a - b) n ?q"
  have same: "same_but_flags p ?q"
    by (rule same_but_flags_trans [OF same_but_flags_START(1) same_but_flags_if(3)])
  have used: "usedSize (linked ?q 0) = n"
    using d(3) by (simp add: operand_flags_cong(9) [OF same] operand_rw_def)
  have "Diana_Call_cmp p = Ok () ?p'"
    using op used by (simp add: Diana_Call_cmp_def di_simps SetCOA_Sub_eq Let_def)
  moreover have "same_but_flags p ?p'"
    using same UpdatePSZ_same [of ?q "a - b" n] d(2) by (simp add: operand_flags_cong [OF same] same_but_flags_trans [OF same])
  moreover have "arith_flags n (a - b) (carry_sub a b 0) (overflow_flag n (sval n a - sval n b)) (half_carry_sub a b 0) p ?p'"
    by (rule arith_flagsI [OF UpdatePSZ_flags [OF op(7)]]) simp_all
  ultimately show ?thesis
    using op(1) by (intro that)
qed

lemma cmov_Ok:
  assumes "attached p" "alu_dest mapped p n" "operand_rd mapped p 1 m"
    and cond: "\<And>q. m_flags q = m_flags p \<Longrightarrow> c q = c p"
  obtains a b p' where "DI_MEM_GET 0 p = Ok (a, n) p" "DI_MEM_GET 1 p = Ok (b, m) p" "Di_cmov c p = Ok () p'" "m_flags p' = m_flags p"
    "c p \<Longrightarrow> wrote p n b p'" "\<not> c p \<Longrightarrow> DI_MEM_GET 0 p' = Ok (a, n) p' \<and> operand_frame 0 p p'"
proof -
  note d = alu_destD [OF assms(2)]
  obtain a where a: "DI_MEM_GET 0 p = Ok (a, n) p"
    using alu_fetch_dest [OF assms(1,2)] by metis
  obtain b where b: "DI_MEM_GET 1 p = Ok (b, m) p"
    using DI_MEM_GET_Ok [OF assms(1) d(1) assms(3)] by metis
  obtain q where q: "Di_ClearUpperHalf p = Ok () q" "alu_dest mapped q n" "m_flags q = m_flags p" "operand_frame 0 p q" "attached q"
    "\<And>r. op_value (linked p 0) = diana_register r \<Longrightarrow> GET_REG r q = GET_REG r p"
    "q = p \<or> (\<exists>r. op_value (linked p 0) = diana_register r)"
    using ClearUpperHalf_Ok [OF assms(2)] assms(1) by metis
  note dq = alu_destD [OF q(2)]
  have aq: "DI_MEM_GET 0 q = Ok (a, n) q"
    using a q(4,6,7) by (auto simp: DI_MEM_GET_def di_simps operand_frame_def Diana_ProcessorGetOperand_register_def split: if_splits)
  obtain p' where p': "DI_MEM_SET 0 b q = Ok n p'" "std_regs p'" "psz_off p'" "operand_frame 0 q p'" "m_flags p' = m_flags q"
    "DI_MEM_GET 0 p' = Ok (DianaProcessor_CutValue b n, n) p'"
    using store_Ok [OF q(5) dq(1,2,3), of b] by metis
  show ?thesis
  proof (cases "c p")
    case True
    with b q(1) cond [OF q(3)] p'(1) have "Di_cmov c p = Ok () p'"
      by (simp add: Di_cmov_def di_simps)
    with True p' q(3,4) show ?thesis
      using operand_frame_trans [OF q(4) p'(4)] by (intro that [OF a b, of p']) (auto simp: wrote_def)
  next
    case False
    with b q(1) cond [OF q(3)] have "Di_cmov c p = Ok () q"
      by (simp add: Di_cmov_def di_simps)
    with False aq q(3,4) show ?thesis
      by (intro that [OF a b, of q]) auto
  qed
qed

end

end
