(* ===== verification/Cmd_D.thy ===== *)
theory Cmd_D
  imports Alu_Contract
begin

unbundle bit_operations_syntax

text \<open>
  The handlers of \<^verbatim>\<open>diana_processor_cmd_d.c\<close>: daa, das, dec and the unsigned divisions.
\<close>

section \<open>Decimal adjustments\<close>

definition Diana_Call_daa :: "(unit, 'm) di_cmd" where
  "Diana_Call_daa =
     DI_LET (\<lambda>p. (ucast (GET_REG reg_AL p) :: u8)) (\<lambda>tmpAL.
     DI_LET (\<lambda>p. tmpAL AND 0x0F > 0x09 \<or> DianaProcessor_QueryFlag p DI_FLAG_AF) (\<lambda>adjust.
     let al = (if adjust then tmpAL + 0x06 else tmpAL) in
     DI_DO (if adjust then DianaProcessor_SetFlag DI_FLAG_AF else DianaProcessor_ClearFlag DI_FLAG_AF) (
     DI_LET (\<lambda>p. tmpAL > 0x99 \<or> DianaProcessor_QueryFlag p DI_FLAG_CF) (\<lambda>tmpCF.
     let al = (if tmpCF then al + 0x60 else al) in
     DI_UPDATE_FLAGS_PSZ (DI_DO (SET_REG reg_AL (ucast al)) DI_PROC_END) (\<lambda>_.
     DI_DO (DianaProcessor_ClearFlag DI_FLAG_OF) (
     DI_DO (if tmpCF then DianaProcessor_SetFlag DI_FLAG_CF else DianaProcessor_ClearFlag DI_FLAG_CF)
     DI_PROC_END))))))"

definition Diana_Call_das :: "(unit, 'm) di_cmd" where
  "Diana_Call_das =
     DI_LET (\<lambda>p. (ucast (GET_REG reg_AL p) :: u8)) (\<lambda>oldal.
     DI_LET (\<lambda>p. oldal AND 0x0F > 0x09 \<or> DianaProcessor_QueryFlag p DI_FLAG_AF) (\<lambda>adjust.
     DI_LET (\<lambda>p. adjust \<and> (oldal < 0x06 \<or> DianaProcessor_QueryFlag p DI_FLAG_CF)) (\<lambda>tmpCF.
     let al = (if adjust then oldal - 6 else oldal) in
     DI_DO (if adjust then DianaProcessor_SetFlag DI_FLAG_AF else DianaProcessor_ClearFlag DI_FLAG_AF) (
     DI_LET (\<lambda>p. oldal > 0x99 \<or> DianaProcessor_QueryFlag p DI_FLAG_CF) (\<lambda>high.
     let al = (if high then al - 0x60 else al); tmpCF = (tmpCF \<or> high) in
     DI_UPDATE_FLAGS_PSZ (DI_DO (SET_REG reg_AL (ucast al)) DI_PROC_END) (\<lambda>_.
     DI_DO (DianaProcessor_ClearFlag DI_FLAG_OF) (
     DI_DO (if tmpCF then DianaProcessor_SetFlag DI_FLAG_CF else DianaProcessor_ClearFlag DI_FLAG_CF)
     DI_PROC_END)))))))"

section \<open>Decrement\<close>

definition Diana_Call_dec :: "(unit, 'm) di_cmd" where
  "Diana_Call_dec =
     DI_CHECK (DI_MEM_GET 0) (\<lambda>(dest, dest_size).
     let src = 1 in
     DI_DO DI_START_UPDATE_OA_FLAGS (
     let oldDestValue = dest; dest = dest - src in
     DI_DO (DianaProcessor_SetCOA_Sub oldDestValue dest src dest_size (DI_FLAG_OF OR DI_FLAG_AF)) (
     DI_UPDATE_FLAGS_PSZ (DI_MEM_SET 0 dest) (\<lambda>_.
     DI_PROC_END))))"

section \<open>Unsigned division\<close>

definition Diana_Call_div8 :: "u64 \<Rightarrow> (unit, 'm) di_cmd" where
  "Diana_Call_div8 pDivisor =
     DI_LET (\<lambda>p. (ucast (GET_REG reg_AX p) :: u16)) (\<lambda>src.
     let divisor = (ucast pDivisor :: u8) in
     if divisor = 0 then DI_FAIL DI_DIVISION_BY_ZERO
     else
     let quot = src div ucast divisor; remainder = (ucast (src mod ucast divisor) :: u8) in
     if quot > 0xFF then DI_FAIL DI_DIVISION_BY_ZERO
     else
     DI_DO (SET_REG reg_AL (ucast quot)) (
     DI_DO (SET_REG reg_AH (ucast remainder))
     DI_PROC_END))"

definition Diana_Call_div16 :: "u64 \<Rightarrow> (unit, 'm) di_cmd" where
  "Diana_Call_div16 pDivisor =
     (let divisor = (ucast pDivisor :: u16) in
     if divisor = 0 then DI_FAIL DI_DIVISION_BY_ZERO
     else
     DI_LET (\<lambda>p. (word_cat (ucast (GET_REG reg_DX p) :: u16) (ucast (GET_REG reg_AX p) :: u16) :: u32)) (\<lambda>src.
     let quot = src div ucast divisor; remainder = (ucast (src mod ucast divisor) :: u16) in
     if quot > 0xFFFF then DI_FAIL DI_DIVISION_OVERFLOW
     else
     DI_DO (SET_REG reg_AX (ucast quot)) (
     DI_DO (SET_REG reg_DX (ucast remainder))
     DI_PROC_END)))"

definition Diana_Call_div32 :: "u64 \<Rightarrow> (unit, 'm) di_cmd" where
  "Diana_Call_div32 pDivisor =
     (let divisor = (ucast pDivisor :: u32) in
     if divisor = 0 then DI_FAIL DI_DIVISION_BY_ZERO
     else
     DI_LET (\<lambda>p. (word_cat (ucast (GET_REG reg_EDX p) :: u32) (ucast (GET_REG reg_EAX p) :: u32) :: u64)) (\<lambda>src.
     let quot = src div ucast divisor; remainder = (ucast (src mod ucast divisor) :: u32) in
     if quot > 0xFFFFFFFF then DI_FAIL DI_DIVISION_OVERFLOW
     else
     DI_DO (SET_REG reg_EAX quot) (
     DI_DO (SET_REG reg_EDX (ucast remainder))
     DI_PROC_END)))"

definition Diana_Call_div64 :: "u64 \<Rightarrow> (unit, 'm) di_cmd" where
  "Diana_Call_div64 divisor =
     DI_LET (\<lambda>p. (GET_REG reg_RAX p, GET_REG reg_RDX p)) (\<lambda>(r0, r1).
     if divisor = 0 then DI_FAIL DI_DIVISION_BY_ZERO
     else case div64 r0 r1 divisor of
       None \<Rightarrow> DI_FAIL DI_DIVISION_BY_ZERO
     | Some (quot, remainder) \<Rightarrow>
         DI_DO (SET_REG reg_RAX quot) (
         DI_DO (SET_REG reg_RDX remainder)
         DI_PROC_END))"

definition Diana_Call_div :: "(unit, 'm) di_cmd" where
  "Diana_Call_div =
     DI_CHECK (DI_MEM_GET 0) (\<lambda>(divisor, divisor_size).
     DI_LET (\<lambda>p. usedSize (linked p 0)) (\<lambda>used.
     if used = DIANA_MODE64 then DI_CHECK (Diana_Call_div64 divisor) (\<lambda>_. DI_PROC_END)
     else if used = DIANA_MODE32 then DI_CHECK (Diana_Call_div32 divisor) (\<lambda>_. DI_PROC_END)
     else if used = DIANA_MODE16 then DI_CHECK (Diana_Call_div16 divisor) (\<lambda>_. DI_PROC_END)
     else if used = 1 then DI_CHECK (Diana_Call_div8 divisor) (\<lambda>_. DI_PROC_END)
     else DI_FAIL DI_ERROR))"

section \<open>Frame\<close>

lemma keeps_divs [keeps_intros]:
  "keeps kept (Diana_Call_div8 v)"
  "keeps kept (Diana_Call_div16 v)"
  "keeps kept (Diana_Call_div32 v)"
  "keeps kept (Diana_Call_div64 v)"
  unfolding Diana_Call_div8_def
    Diana_Call_div16_def
    Diana_Call_div32_def
    Diana_Call_div64_def
  by (intro keeps_intros)+

lemma keeps_Cmd_D [keeps_intros]:
  "keeps kept Diana_Call_daa"
  "keeps kept Diana_Call_das"
  "keeps kept Diana_Call_dec"
  "keeps kept Diana_Call_div"
  unfolding Diana_Call_daa_def
    Diana_Call_das_def
    Diana_Call_dec_def
    Diana_Call_div_def
  by (intro keeps_intros)+

section \<open>Correctness of dec\<close>

context memory_stream
begin

text \<open>The carry flag keeps its value.\<close>

lemma dec_Ok:
  assumes "attached p" "alu_dest mapped p n"
  obtains a p' where "DI_MEM_GET 0 p = Ok (a, n) p" "fits n a" "Diana_Call_dec p = Ok () p'" "attached p'" "wrote p n (a - 1) p'"
    "arith_flags n (a - 1) (DianaProcessor_QueryFlag p DI_FLAG_CF) (overflow_flag n (sval n a - 1)) (half_carry_sub a 1 0) p p'"
proof -
  let ?s = "DI_START_UPDATE_OA_FLAGS p"
  let ?f = "\<lambda>a. set_COA False (overflow_flag n (sval n a - 1)) (half_carry_sub a 1 0) ?s"
  obtain a p' where x: "DI_MEM_GET 0 p = Ok (a, n) p" "fits n a" "Diana_Call_dec p = Ok () p'"
    "attached p'" "wrote p n (a - 1) p'" "psz_written n (a - 1) (?f a) p'"
    by (rule alu_unary [OF assms same_but_flags_START(2), of ?f "\<lambda>a q. q" "\<lambda>a. a - 1" Diana_Call_dec])
       (simp_all add: Diana_Call_dec_def di_simps SetCOA_OA_eq [simplified] fits_small sval_small Let_def)
  have "arith_flags n (a - 1) (DianaProcessor_QueryFlag p DI_FLAG_CF) (overflow_flag n (sval n a - 1)) (half_carry_sub a 1 0) p p'"
    by (rule arith_flagsI [OF x(6)]) simp_all
  with x(1-5) show ?thesis
    by (rule that)
qed

end

section \<open>Correctness of div\<close>

lemma acc_at:
  "reg_at reg_AL 0 1" "reg_at reg_AH 1 1" "reg_at reg_AX 0 2" "reg_at reg_EAX 0 4" "reg_at reg_RAX 0 8"
  "reg_at reg_DX 16 2" "reg_at reg_EDX 16 4" "reg_at reg_RDX 16 8"
  by (simp_all add: reg_at_def plain_reg_def reg_simps)

text \<open>The dividend of a division by an operand of \<open>n\<close> bytes, and where quotient and remainder go.\<close>

definition dividend_low :: "int \<Rightarrow> DianaUnifiedRegister" where
  "dividend_low n = (if n = 1 then reg_AL else if n = 2 then reg_AX else if n = 4 then reg_EAX else reg_RAX)"

definition dividend_high :: "int \<Rightarrow> DianaUnifiedRegister" where
  "dividend_high n = (if n = 1 then reg_AH else if n = 2 then reg_DX else if n = 4 then reg_EDX else reg_RDX)"

definition dividend :: "int \<Rightarrow> 'm DianaProcessor \<Rightarrow> int" where
  "dividend n p = 2 ^ bits_of n * uint (GET_REG (dividend_high n) p) + uint (GET_REG (dividend_low n) p)"

lemma fits_uint: "std_regs p \<Longrightarrow> reg_at r off n \<Longrightarrow> uint (GET_REG r p) < 2 ^ (8 * n)"
  using fits_GET_REG [of p r off n] by (simp add: fits_iff bits_of_def)

lemma dividend_AX: "std_regs p \<Longrightarrow> dividend 1 p = uint (GET_REG reg_AX p)"
proof -
  assume p: "std_regs p"
  let ?v = "GET_REG reg_RAX p"
  have "dividend 1 p = 2 ^ 8 * (uint ?v div 2 ^ 8 mod 2 ^ 8) + uint ?v mod 2 ^ 8"
    using read_byte_family [OF p, of 0] by (simp add: dividend_def dividend_high_def dividend_low_def uint_take_bit uint_drop_bit)
  also have "\<dots> = uint ?v mod 2 ^ 16"
    using mod_mult2_eq' [of "uint ?v" "2 ^ 8" "2 ^ 8"] by simp
  finally show ?thesis
    using read_family(2) [OF p, of 0] by (simp add: uint_take_bit)
qed

text \<open>The outcome of a division: quotient and remainder in their registers.\<close>

definition divided :: "int \<Rightarrow> int \<Rightarrow> int \<Rightarrow> 'm DianaProcessor \<Rightarrow> bool" where
  "divided n q r p \<longleftrightarrow> uint (GET_REG (dividend_low n) p) = q \<and> uint (GET_REG (dividend_high n) p) = r"

lemma divided_regs:
  assumes "std_regs p" "valid_size n" "0 \<le> q" "q < 2 ^ bits_of n" "0 \<le> r" "r < 2 ^ bits_of n"
  shows "divided n q r (SET_REG (dividend_high n) (word_of_int r) (SET_REG (dividend_low n) (word_of_int q) p))"
proof -
  have u: "uint (take_bit (bits_of n) (word_of_int x :: u64)) = x" if "0 \<le> x" "x < 2 ^ bits_of n" for x
    using that valid_bits [OF assms(2)] assms(2)
    by (auto elim!: valid_sizeE simp: uint_take_bit uint_word_of_int mod_mod_cancel take_bit_int_eq_self)
  obtain lo hi k where at: "reg_at (dividend_low n) lo k" "reg_at (dividend_high n) hi k" "8 * k = bits_of n"
    "hi + 8 \<le> lo \<or> lo + k \<le> hi \<or> k < 4 \<and> hi + k \<le> lo"
    "lo + 8 \<le> hi \<or> hi + k \<le> lo \<or> k < 4 \<and> lo + k \<le> hi"
    using assms(2) by (elim valid_sizeE) (use acc_at in \<open>force simp: dividend_low_def dividend_high_def\<close>)+
  have s: "std_regs (SET_REG (dividend_low n) (word_of_int q) p)" using assms(1) by simp
  show ?thesis
    unfolding divided_def GET_SET_at_same [OF s at(2)] GET_SET_at_apart [OF s at(2,1,4)] GET_SET_at_same [OF assms(1) at(1)] at(3)
    using u assms(3-6) by simp
qed

text \<open>What the unsigned division by \<open>d\<close> gives, for each operand size.\<close>

definition div_outcome :: "int \<Rightarrow> u64 \<Rightarrow> 'm DianaProcessor \<Rightarrow> (unit, 'm DianaProcessor) di_res \<Rightarrow> bool" where
  "div_outcome n d p res \<longleftrightarrow>
     (if d = 0 then res = Err DI_DIVISION_BY_ZERO p
      else if 2 ^ bits_of n \<le> dividend n p div uint d
      then res = Err (if n = 1 \<or> n = 8 then DI_DIVISION_BY_ZERO else DI_DIVISION_OVERFLOW) p
      else \<exists>p'. res = Ok () p' \<and> divided n (dividend n p div uint d) (dividend n p mod uint d) p' \<and>
        m_flags p' = m_flags p \<and> m_memory p' = m_memory p)"

lemma div_outcomeI:
  assumes "std_regs p" "psz_off p" "valid_size n" "d \<noteq> 0" "uint d < 2 ^ bits_of n" "\<not> 2 ^ bits_of n \<le> dividend n p div uint d"
    "q = word_of_int (dividend n p div uint d)" "r = word_of_int (dividend n p mod uint d)"
    "res = Ok () (SET_REG (dividend_high n) r (SET_REG (dividend_low n) q p))"
  shows "div_outcome n d p res"
proof -
  have d: "0 < uint d"
    using assms(4) uint_ge_0 [of d] by (simp add: order_less_le word_uint_eq_iff)
  have N: "0 \<le> dividend n p"
    by (simp add: dividend_def)
  have "divided n (dividend n p div uint d) (dividend n p mod uint d) (SET_REG (dividend_high n) r (SET_REG (dividend_low n) q p))"
    unfolding assms(7,8) using d N assms(5,6) less_trans [OF pos_mod_bound [OF d] assms(5)]
    by (intro divided_regs [OF assms(1,3)]) (simp_all add: pos_imp_zdiv_nonneg_iff)
  moreover have "psz_off (SET_REG (dividend_low n) q p)"
    using assms(2) by (simp add: psz_off_def dividend_low_def)
  ultimately show ?thesis
    unfolding div_outcome_def assms(9) using assms(2,4,6) by simp
qed

lemma div8_outcome:
  assumes "std_regs p" "psz_off p" "uint d < 2 ^ 8"
  shows "div_outcome 1 d p (Diana_Call_div8 d p)"
proof (cases "d = 0")
  case True
  then show ?thesis by (simp add: div_outcome_def Diana_Call_div8_def di_simps)
next
  case False
  have d: "uint (ucast d :: u8) = uint d" "(ucast d :: u8) \<noteq> 0"
    using assms(3) False uint_ucast_fits [of d, where 'b = 8] by (auto simp: word_uint_eq_iff)
  have src: "uint (ucast (GET_REG reg_AX p) :: u16) = dividend 1 p"
    using fits_uint [OF assms(1) acc_at(3)] dividend_AX [OF assms(1)] uint_ucast_fits [of "GET_REG reg_AX p", where 'b = 16] by simp
  note dm = div_mod_words [of "ucast d :: u8" "ucast (GET_REG reg_AX p) :: u16", OF _ d(2), unfolded d(1) src, simplified]
  let ?s = "ucast (GET_REG reg_AX p) :: u16" and ?d = "ucast (ucast d :: u8) :: u16"
  have big: "?s div ?d > 0xFF \<longleftrightarrow> 2 ^ bits_of 1 \<le> dividend 1 p div uint d"
    using dm(1) by (auto simp: word_less_def)
  show ?thesis
  proof (cases "?s div ?d > 0xFF")
    case True
    then have "Diana_Call_div8 d p = Err DI_DIVISION_BY_ZERO p"
      using d(2) by (simp add: Diana_Call_div8_def di_simps Let_def)
    with True False big show ?thesis by (simp add: div_outcome_def)
  next
    case False
    have res: "Diana_Call_div8 d p = Ok () (SET_REG (dividend_high 1) (ucast (ucast (?s mod ?d) :: u8)) (SET_REG (dividend_low 1) (ucast (?s div ?d)) p))"
      using d(2) False by (simp add: Diana_Call_div8_def di_simps Let_def dividend_high_def dividend_low_def)
    have q: "(ucast (?s div ?d) :: u64) = word_of_int (dividend 1 p div uint d)"
      by (simp only: ucast_eq [of "?s div ?d"] dm(1))
    have r: "(ucast (ucast (?s mod ?d) :: u8) :: u64) = word_of_int (dividend 1 p mod uint d)"
      by (simp only: ucast_eq [of "ucast (?s mod ?d) :: u8"] dm(3))
    show ?thesis
      by (rule div_outcomeI [OF assms(1,2) _ \<open>d \<noteq> 0\<close> _ _ q r res]) (use False big assms(3) in \<open>simp_all add: valid_size_def\<close>)
  qed
qed

lemma div16_outcome:
  assumes "std_regs p" "psz_off p" "uint d < 2 ^ 16"
  shows "div_outcome 2 d p (Diana_Call_div16 d p)"
proof (cases "d = 0")
  case True
  then show ?thesis by (simp add: div_outcome_def Diana_Call_div16_def di_simps)
next
  case False
  have d: "uint (ucast d :: u16) = uint d" "(ucast d :: u16) \<noteq> 0"
    using assms(3) False uint_ucast_fits [of d, where 'b = 16] by (auto simp: word_uint_eq_iff)
  let ?s = "word_cat (ucast (GET_REG reg_DX p) :: u16) (ucast (GET_REG reg_AX p) :: u16) :: u32"
  let ?d = "ucast (ucast d :: u16) :: u32"
  have src: "uint ?s = dividend 2 p"
    using fits_uint [OF assms(1) acc_at(3)] fits_uint [OF assms(1) acc_at(6)]
      uint_ucast_fits [of "GET_REG reg_AX p", where 'b = 16] uint_ucast_fits [of "GET_REG reg_DX p", where 'b = 16]
    by (simp add: uint_word_cat dividend_def dividend_low_def dividend_high_def)
  note dm = div_mod_words [of "ucast d :: u16" ?s, OF _ d(2), unfolded d(1) src, simplified]
  have big: "?s div ?d > 0xFFFF \<longleftrightarrow> 2 ^ bits_of 2 \<le> dividend 2 p div uint d"
    using dm(1) by (auto simp: word_less_def)
  show ?thesis
  proof (cases "?s div ?d > 0xFFFF")
    case True
    then have "Diana_Call_div16 d p = Err DI_DIVISION_OVERFLOW p"
      using d(2) by (simp add: Diana_Call_div16_def di_simps Let_def)
    with True False big show ?thesis by (simp add: div_outcome_def)
  next
    case False
    have res: "Diana_Call_div16 d p = Ok () (SET_REG (dividend_high 2) (ucast (ucast (?s mod ?d) :: u16)) (SET_REG (dividend_low 2) (ucast (?s div ?d)) p))"
      using d(2) False by (simp add: Diana_Call_div16_def di_simps Let_def dividend_high_def dividend_low_def)
    have q: "(ucast (?s div ?d) :: u64) = word_of_int (dividend 2 p div uint d)"
      by (simp only: ucast_eq [of "?s div ?d"] dm(1))
    have r: "(ucast (ucast (?s mod ?d) :: u16) :: u64) = word_of_int (dividend 2 p mod uint d)"
      by (simp only: ucast_eq [of "ucast (?s mod ?d) :: u16"] dm(3))
    show ?thesis
      by (rule div_outcomeI [OF assms(1,2) _ \<open>d \<noteq> 0\<close> _ _ q r res]) (use False big assms(3) in \<open>simp_all add: valid_size_def\<close>)
  qed
qed

lemma div32_outcome:
  assumes "std_regs p" "psz_off p" "uint d < 2 ^ 32"
  shows "div_outcome 4 d p (Diana_Call_div32 d p)"
proof (cases "d = 0")
  case True
  then show ?thesis by (simp add: div_outcome_def Diana_Call_div32_def di_simps)
next
  case False
  have d: "uint (ucast d :: u32) = uint d" "(ucast d :: u32) \<noteq> 0"
    using assms(3) False uint_ucast_fits [of d, where 'b = 32] by (auto simp: word_uint_eq_iff)
  let ?s = "word_cat (ucast (GET_REG reg_EDX p) :: u32) (ucast (GET_REG reg_EAX p) :: u32) :: u64"
  let ?d = "ucast (ucast d :: u32) :: u64"
  have src: "uint ?s = dividend 4 p"
    using fits_uint [OF assms(1) acc_at(4)] fits_uint [OF assms(1) acc_at(7)]
      uint_ucast_fits [of "GET_REG reg_EAX p", where 'b = 32] uint_ucast_fits [of "GET_REG reg_EDX p", where 'b = 32]
    by (simp add: uint_word_cat dividend_def dividend_low_def dividend_high_def)
  note dm = div_mod_words [of "ucast d :: u32" ?s, OF _ d(2), unfolded d(1) src, simplified]
  have big: "?s div ?d > 0xFFFFFFFF \<longleftrightarrow> 2 ^ bits_of 4 \<le> dividend 4 p div uint d"
    using dm(1) by (auto simp: word_less_def)
  show ?thesis
  proof (cases "?s div ?d > 0xFFFFFFFF")
    case True
    then have "Diana_Call_div32 d p = Err DI_DIVISION_OVERFLOW p"
      using d(2) by (simp add: Diana_Call_div32_def di_simps Let_def)
    with True False big show ?thesis by (simp add: div_outcome_def)
  next
    case False
    have res: "Diana_Call_div32 d p = Ok () (SET_REG (dividend_high 4) (ucast (ucast (?s mod ?d) :: u32)) (SET_REG (dividend_low 4) (?s div ?d) p))"
      using d(2) False by (simp add: Diana_Call_div32_def di_simps Let_def dividend_high_def dividend_low_def)
    have q: "?s div ?d = word_of_int (dividend 4 p div uint d)"
      by (simp only: word_of_int_uint flip: dm(1))
    have r: "(ucast (ucast (?s mod ?d) :: u32) :: u64) = word_of_int (dividend 4 p mod uint d)"
      by (simp only: ucast_eq [of "ucast (?s mod ?d) :: u32"] dm(3))
    show ?thesis
      by (rule div_outcomeI [OF assms(1,2) _ \<open>d \<noteq> 0\<close> _ _ q r res]) (use False big assms(3) in \<open>simp_all add: valid_size_def\<close>)
  qed
qed

lemma div64_outcome:
  assumes "std_regs p" "psz_off p"
  shows "div_outcome 8 d p (Diana_Call_div64 d p)"
proof (cases "d = 0")
  case True
  then show ?thesis by (simp add: div_outcome_def Diana_Call_div64_def di_simps)
next
  case False
  have N: "val128 (GET_REG reg_RAX p, GET_REG reg_RDX p) = dividend 8 p"
    by (simp add: val128_def dividend_def dividend_low_def dividend_high_def)
  note dv = div64_correct [OF False, of "GET_REG reg_RAX p" "GET_REG reg_RDX p", unfolded N]
  show ?thesis
  proof (cases "dividend 8 p div uint d < 2 ^ 64")
    case True
    then have "Diana_Call_div64 d p = Ok () (SET_REG (dividend_high 8) (word_of_int (dividend 8 p mod uint d))
        (SET_REG (dividend_low 8) (word_of_int (dividend 8 p div uint d)) p))"
      using False dv by (simp add: Diana_Call_div64_def di_simps dividend_low_def dividend_high_def)
    with True False show ?thesis
      using uint_lt2p [of d] by (intro div_outcomeI [OF assms]) (simp_all add: valid_size_def)
  next
    case False
    then show ?thesis
      using \<open>d \<noteq> 0\<close> dv by (simp add: div_outcome_def Diana_Call_div64_def di_simps)
  qed
qed

lemma div_outcome_Call:
  assumes "std_regs p" "psz_off p" "valid_size n" "DI_MEM_GET 0 p = Ok (d, n) p" "fits n d" "usedSize (linked p 0) = n"
  shows "div_outcome n d p (Diana_Call_div p)"
proof -
  have chain: "DI_CHECK f (\<lambda>_. DI_PROC_END) q = f q" for f :: "(unit, 'a) di_cmd" and q
    by (simp add: DI_CHECK_def DI_PROC_END_def split: di_res.splits)
  have "uint d < 2 ^ bits_of n"
    using assms(5) by (simp add: fits_iff)
  with assms(3) show ?thesis
    by (elim valid_sizeE)
       (use div8_outcome [OF assms(1,2), of d] div16_outcome [OF assms(1,2), of d] div32_outcome [OF assms(1,2), of d]
         div64_outcome [OF assms(1,2), of d] assms(4,6) in \<open>simp_all add: Diana_Call_div_def di_simps chain\<close>)
qed

end
