(* ===== verification/Cmd_I.thy ===== *)
theory Cmd_I
  imports Alu_Contract
begin

unbundle bit_operations_syntax

text \<open>
  The handlers of \<^verbatim>\<open>diana_processor_cmd_i.c\<close> and \<^verbatim>\<open>diana_processor_cmd_imul.c\<close>: signed division and multiplication.
\<close>

section \<open>Signed division\<close>

text \<open>
  Signed C integers are integers here, converted at their width; the division truncates.  The least 32-bit or
  64-bit dividend divided by -1 is undefined in C.
\<close>

definition Diana_Call_idiv8 :: "u64 \<Rightarrow> (unit, 'm) di_cmd" where
  "Diana_Call_idiv8 pDivisor =
     DI_LET (\<lambda>p. sint (ucast (GET_REG reg_AX p) :: u16)) (\<lambda>src.
     let divisor = sint (ucast pDivisor :: u8) in
     if divisor = 0 then DI_FAIL DI_DIVISION_BY_ZERO
     else
     let quot = sint (word_of_int (src sdiv divisor) :: u16); remainder = sint (word_of_int (src smod divisor) :: u8) in
     if quot > 0xFF \<or> quot < - 0xFF then DI_FAIL DI_DIVISION_BY_ZERO
     else
     DI_DO (SET_REG reg_AL (word_of_int quot)) (
     DI_DO (SET_REG reg_AH (word_of_int remainder))
     DI_PROC_END))"

definition Diana_Call_idiv16 :: "u64 \<Rightarrow> (unit, 'm) di_cmd" where
  "Diana_Call_idiv16 pDivisor =
     (let divisor = sint (ucast pDivisor :: u16) in
     if divisor = 0 then DI_FAIL DI_DIVISION_BY_ZERO
     else
     DI_LET (\<lambda>p. sint (word_cat (ucast (GET_REG reg_DX p) :: u16) (ucast (GET_REG reg_AX p) :: u16) :: u32)) (\<lambda>src.
     if src = - (2 ^ 31) \<and> divisor = -1 then DI_FAIL C_UNDEFINED
     else
     let quot = src sdiv divisor; remainder = src smod divisor in
     if quot > 0xFFFF \<or> quot < - 0xFFFF then DI_FAIL DI_DIVISION_OVERFLOW
     else
     DI_DO (SET_REG reg_AX (word_of_int quot)) (
     DI_DO (SET_REG reg_DX (word_of_int remainder))
     DI_PROC_END)))"

definition Diana_Call_idiv32 :: "u64 \<Rightarrow> (unit, 'm) di_cmd" where
  "Diana_Call_idiv32 pDivisor =
     (let divisor = sint (ucast pDivisor :: u32) in
     if divisor = 0 then DI_FAIL DI_DIVISION_BY_ZERO
     else
     DI_LET (\<lambda>p. sint (word_cat (ucast (GET_REG reg_EDX p) :: u32) (ucast (GET_REG reg_EAX p) :: u32) :: u64)) (\<lambda>src.
     if src = - (2 ^ 63) \<and> divisor = -1 then DI_FAIL C_UNDEFINED
     else
     let quot = src sdiv divisor; remainder = src smod divisor in
     if quot > 0xFFFFFFFF \<or> quot < - 0xFFFFFFFF then DI_FAIL DI_DIVISION_OVERFLOW
     else
     DI_DO (SET_REG reg_EAX (word_of_int quot)) (
     DI_DO (SET_REG reg_EDX (word_of_int remainder))
     DI_PROC_END)))"

definition Diana_Call_idiv64 :: "u64 \<Rightarrow> (unit, 'm) di_cmd" where
  "Diana_Call_idiv64 divisor =
     DI_LET (\<lambda>p. (GET_REG reg_RAX p, GET_REG reg_RDX p)) (\<lambda>(r0, r1).
     if divisor = 0 then DI_FAIL DI_DIVISION_BY_ZERO
     else case idiv64 r0 r1 divisor of
       None \<Rightarrow> DI_FAIL DI_DIVISION_BY_ZERO
     | Some (quot, remainder) \<Rightarrow>
         DI_DO (SET_REG reg_RAX quot) (
         DI_DO (SET_REG reg_RDX remainder)
         DI_PROC_END))"

definition Diana_Call_idiv :: "(unit, 'm) di_cmd" where
  "Diana_Call_idiv =
     DI_CHECK (DI_MEM_GET 0) (\<lambda>(divisor, divisor_size).
     DI_LET (\<lambda>p. usedSize (linked p 0)) (\<lambda>used.
     if used = DIANA_MODE64 then DI_CHECK (Diana_Call_idiv64 divisor) (\<lambda>_. DI_PROC_END)
     else if used = DIANA_MODE32 then DI_CHECK (Diana_Call_idiv32 divisor) (\<lambda>_. DI_PROC_END)
     else if used = DIANA_MODE16 then DI_CHECK (Diana_Call_idiv16 divisor) (\<lambda>_. DI_PROC_END)
     else if used = 1 then DI_CHECK (Diana_Call_idiv8 divisor) (\<lambda>_. DI_PROC_END)
     else DI_FAIL DI_ERROR))"

definition Diana_Call_int :: "(unit, 'm) di_cmd" where
  "Diana_Call_int = DI_PROC_END"

section \<open>Signed multiplication\<close>

definition Di_set_CO :: "bool \<Rightarrow> 'm DianaProcessor \<Rightarrow> 'm DianaProcessor" where
  "Di_set_CO c p = set_flag_if c DI_FLAG_OF (set_flag_if c DI_FLAG_CF p)"

definition Diana_Call_imul8 :: "u64 \<Rightarrow> (unit, 'm) di_cmd" where
  "Diana_Call_imul8 pArgument =
     DI_LET (\<lambda>p. sint (ucast (GET_REG reg_AL p) :: u8)) (\<lambda>arg1.
     let arg2 = sint (ucast pArgument :: u8); result = sint (word_of_int (arg1 * arg2) :: u16) in
     DI_DO (Di_set_CO (sint (word_of_int result :: u8) \<noteq> result)) (
     DI_DO (SET_REG reg_AX (word_of_int result))
     DI_PROC_END))"

definition Diana_Call_imul16 :: "u64 \<Rightarrow> (unit, 'm) di_cmd" where
  "Diana_Call_imul16 pArgument =
     DI_LET (\<lambda>p. sint (ucast (GET_REG reg_AX p) :: u16)) (\<lambda>arg1.
     let arg2 = sint (ucast pArgument :: u16); result = (word_of_int (arg1 * arg2) :: u32) in
     DI_DO (Di_set_CO (sint (ucast result :: u16) \<noteq> sint result)) (
     DI_DO (SET_REG reg_AX (scast (ucast result :: u16))) (
     DI_DO (SET_REG reg_DX (scast (ucast (drop_bit 16 result) :: u16)))
     DI_PROC_END)))"

definition Diana_Call_imul32 :: "u64 \<Rightarrow> (unit, 'm) di_cmd" where
  "Diana_Call_imul32 pArgument =
     DI_LET (\<lambda>p. sint (ucast (GET_REG reg_EAX p) :: u32)) (\<lambda>arg1.
     let arg2 = sint (ucast pArgument :: u32); result = (word_of_int (arg1 * arg2) :: u64) in
     DI_DO (Di_set_CO (sint (ucast result :: u32) \<noteq> sint result)) (
     DI_DO (SET_REG reg_EAX (scast (ucast result :: u32))) (
     DI_DO (SET_REG reg_EDX (scast (ucast (drop_bit 32 result) :: u32)))
     DI_PROC_END)))"

definition Diana_Call_imul64 :: "u64 \<Rightarrow> (unit, 'm) di_cmd" where
  "Diana_Call_imul64 arg2 =
     DI_LET (GET_REG reg_RAX) (\<lambda>arg1.
     let (r0, r1) = imul64 arg1 arg2 in
     DI_DO (Di_set_CO (r1 \<noteq> signed_drop_bit 63 r0)) (
     DI_DO (SET_REG reg_RAX r0) (
     DI_DO (SET_REG reg_RDX r1)
     DI_PROC_END)))"

definition Diana_Call_imul_1 :: "(unit, 'm) di_cmd" where
  "Diana_Call_imul_1 =
     DI_CHECK (DI_MEM_GET 0) (\<lambda>(argument, argument_size).
     DI_LET (\<lambda>p. usedSize (linked p 0)) (\<lambda>used.
     if used = DIANA_MODE64 then DI_CHECK (Diana_Call_imul64 argument) (\<lambda>_. DI_PROC_END)
     else if used = DIANA_MODE32 then DI_CHECK (Diana_Call_imul32 argument) (\<lambda>_. DI_PROC_END)
     else if used = DIANA_MODE16 then DI_CHECK (Diana_Call_imul16 argument) (\<lambda>_. DI_PROC_END)
     else if used = 1 then DI_CHECK (Diana_Call_imul8 argument) (\<lambda>_. DI_PROC_END)
     else DI_FAIL DI_ERROR))"

text \<open>The 64-bit product \<^verbatim>\<open>arg1 * arg2\<close> wraps, as the compiled code does; C leaves a signed overflow undefined.\<close>

definition Diana_Call_imul_impl :: "u64 \<Rightarrow> u64 \<Rightarrow> int \<Rightarrow> int \<Rightarrow> (u64, 'm) di_cmd" where
  "Diana_Call_imul_impl op1 op2 op1Size op2Size =
     DI_CHECK (DianaProcessor_SignExtend op1 op1Size 8) (\<lambda>arg1.
     DI_CHECK (DianaProcessor_SignExtend op2 op2Size 8) (\<lambda>arg2.
     let result = arg1 * arg2 in
     DI_LET (\<lambda>p. usedSize (linked p 0)) (\<lambda>used.
     if used = DIANA_MODE64 then
       let (r0, r1) = imul64 arg1 arg2 in
       DI_DO (Di_set_CO (r1 \<noteq> signed_drop_bit 63 r0)) (DI_RETURN r0)
     else if used = DIANA_MODE32 then
       DI_DO (Di_set_CO (scast (ucast result :: u32) \<noteq> result)) (DI_RETURN result)
     else if used = DIANA_MODE16 then
       DI_DO (Di_set_CO (scast (ucast result :: u16) \<noteq> result)) (DI_RETURN result)
     else if used = 1 then
       DI_DO (Di_set_CO (scast (ucast result :: u8) \<noteq> result)) (DI_RETURN result)
     else DI_FAIL DI_ERROR)))"

definition Diana_Call_imul_2 :: "(unit, 'm) di_cmd" where
  "Diana_Call_imul_2 =
     DI_CHECK (DI_MEM_GET 0) (\<lambda>(dest, dest_size).
     DI_CHECK (DI_MEM_GET 1) (\<lambda>(src, src_size).
     DI_CHECK (Diana_Call_imul_impl src dest src_size dest_size) (\<lambda>dest.
     DI_CHECK (DI_MEM_SET 0 dest) (\<lambda>_.
     DI_PROC_END))))"

definition Diana_Call_imul_3 :: "(unit, 'm) di_cmd" where
  "Diana_Call_imul_3 =
     DI_CHECK (DI_MEM_GET 0) (\<lambda>(dest, dest_size).
     DI_CHECK (DI_MEM_GET 1) (\<lambda>(src1, src1_size).
     DI_CHECK (DI_MEM_GET 2) (\<lambda>(src2, src2_size).
     DI_CHECK (Diana_Call_imul_impl src1 src2 src1_size src2_size) (\<lambda>dest.
     DI_CHECK (DI_MEM_SET 0 dest) (\<lambda>_.
     DI_PROC_END)))))"

definition Diana_Call_imul :: "(unit, 'm) di_cmd" where
  "Diana_Call_imul =
     DI_DO (DianaProcessor_ClearFlag DI_FLAG_CF) (
     DI_DO (DianaProcessor_ClearFlag DI_FLAG_OF) (
     DI_LET opcount (\<lambda>count.
     if count = 1 then Diana_Call_imul_1
     else if count = 2 then Diana_Call_imul_2
     else if count = 3 then Diana_Call_imul_3
     else DI_FAIL DI_UNSUPPORTED_COMMAND)))"

section \<open>Frame\<close>

lemma keeps_set_CO [keeps_intros]: "keeps_fun kept (Di_set_CO c)"
  unfolding keeps_fun_def Di_set_CO_def by (auto intro: kept.R_trans kept_flag_ops)

lemma keeps_idivs [keeps_intros]:
  "keeps kept (Diana_Call_idiv8 v)"
  "keeps kept (Diana_Call_idiv16 v)"
  "keeps kept (Diana_Call_idiv32 v)"
  "keeps kept (Diana_Call_idiv64 v)"
  unfolding Diana_Call_idiv8_def
    Diana_Call_idiv16_def
    Diana_Call_idiv32_def
    Diana_Call_idiv64_def
  by (intro keeps_intros)+

lemma keeps_imuls [keeps_intros]:
  "keeps kept (Diana_Call_imul8 v)"
  "keeps kept (Diana_Call_imul16 v)"
  "keeps kept (Diana_Call_imul32 v)"
  "keeps kept (Diana_Call_imul64 v)"
  "keeps kept (Diana_Call_imul_impl a b n m)"
  unfolding Diana_Call_imul8_def
    Diana_Call_imul16_def
    Diana_Call_imul32_def
    Diana_Call_imul64_def
    Diana_Call_imul_impl_def
  by (intro keeps_intros)+

lemma keeps_Cmd_I [keeps_intros]:
  "keeps kept Diana_Call_idiv"
  "keeps kept Diana_Call_int"
  "keeps kept Diana_Call_imul_1"
  "keeps kept Diana_Call_imul_2"
  "keeps kept Diana_Call_imul_3"
  unfolding Diana_Call_idiv_def
    Diana_Call_int_def
    Diana_Call_imul_1_def
    Diana_Call_imul_2_def
    Diana_Call_imul_3_def
  by (intro keeps_intros)+

lemma keeps_imul [keeps_intros]:
  "keeps kept Diana_Call_imul"
  unfolding Diana_Call_imul_def
  by (intro keeps_intros)+

end
