(* ===== verification/Cmd_J.thy ===== *)
theory Cmd_J
  imports Cmd_Conditions
begin

unbundle bit_operations_syntax

text \<open>
  The jumps of \<^verbatim>\<open>diana_processor_cmd_j.c\<close>.
\<close>

section \<open>Conditional jumps\<close>

definition Diana_Call_ja :: "(unit, 'm) di_cmd" where
  "Diana_Call_ja = DI_LET cond_a (\<lambda>taken. if taken then Diana_Call_jcc 1 0 else DI_PROC_END)"

definition Diana_Call_jae :: "(unit, 'm) di_cmd" where
  "Diana_Call_jae = DI_LET cond_ae (\<lambda>taken. if taken then Diana_Call_jcc 1 0 else DI_PROC_END)"

definition Diana_Call_jb :: "(unit, 'm) di_cmd" where
  "Diana_Call_jb = DI_LET cond_b (\<lambda>taken. if taken then Diana_Call_jcc 1 0 else DI_PROC_END)"

definition Diana_Call_jbe :: "(unit, 'm) di_cmd" where
  "Diana_Call_jbe = DI_LET cond_be (\<lambda>taken. if taken then Diana_Call_jcc 1 0 else DI_PROC_END)"

definition Diana_Call_je :: "(unit, 'm) di_cmd" where
  "Diana_Call_je = DI_LET cond_e (\<lambda>taken. if taken then Diana_Call_jcc 1 0 else DI_PROC_END)"

definition Diana_Call_jg :: "(unit, 'm) di_cmd" where
  "Diana_Call_jg = DI_LET cond_g (\<lambda>taken. if taken then Diana_Call_jcc 1 0 else DI_PROC_END)"

definition Diana_Call_jge :: "(unit, 'm) di_cmd" where
  "Diana_Call_jge = DI_LET cond_ge (\<lambda>taken. if taken then Diana_Call_jcc 1 0 else DI_PROC_END)"

definition Diana_Call_jl :: "(unit, 'm) di_cmd" where
  "Diana_Call_jl = DI_LET cond_l (\<lambda>taken. if taken then Diana_Call_jcc 1 0 else DI_PROC_END)"

definition Diana_Call_jle :: "(unit, 'm) di_cmd" where
  "Diana_Call_jle = DI_LET cond_le (\<lambda>taken. if taken then Diana_Call_jcc 1 0 else DI_PROC_END)"

definition Diana_Call_jne :: "(unit, 'm) di_cmd" where
  "Diana_Call_jne = DI_LET cond_ne (\<lambda>taken. if taken then Diana_Call_jcc 1 0 else DI_PROC_END)"

definition Diana_Call_jno :: "(unit, 'm) di_cmd" where
  "Diana_Call_jno = DI_LET cond_no (\<lambda>taken. if taken then Diana_Call_jcc 1 0 else DI_PROC_END)"

definition Diana_Call_jnp :: "(unit, 'm) di_cmd" where
  "Diana_Call_jnp = DI_LET cond_np (\<lambda>taken. if taken then Diana_Call_jcc 1 0 else DI_PROC_END)"

definition Diana_Call_jns :: "(unit, 'm) di_cmd" where
  "Diana_Call_jns = DI_LET cond_ns (\<lambda>taken. if taken then Diana_Call_jcc 1 0 else DI_PROC_END)"

definition Diana_Call_jo :: "(unit, 'm) di_cmd" where
  "Diana_Call_jo = DI_LET cond_o (\<lambda>taken. if taken then Diana_Call_jcc 1 0 else DI_PROC_END)"

definition Diana_Call_jp :: "(unit, 'm) di_cmd" where
  "Diana_Call_jp = DI_LET cond_p (\<lambda>taken. if taken then Diana_Call_jcc 1 0 else DI_PROC_END)"

definition Diana_Call_js :: "(unit, 'm) di_cmd" where
  "Diana_Call_js = DI_LET cond_s (\<lambda>taken. if taken then Diana_Call_jcc 1 0 else DI_PROC_END)"

definition Diana_Call_jecxz :: "(unit, 'm) di_cmd" where
  "Diana_Call_jecxz =
     DI_CHECK (DI_MEM_GET 0) (\<lambda>(dest, dest_size).
     if dest = 0 then Diana_Call_jcc 2 1 else DI_PROC_END)"

section \<open>Jumps\<close>

definition Diana_Call_jmp :: "(unit, 'm) di_cmd" where
  "Diana_Call_jmp =
     DI_LET (\<lambda>p. (opcount p, linked p 0)) (\<lambda>(count, op).
     if count \<noteq> 1 then DI_FAIL DI_ERROR
     else
     DI_CHECK
       (case op_value op of
          diana_rel r \<Rightarrow> DI_LET (\<lambda>p. GET_REG2 reg_RIP (opsize p) p + m_value r + word_of_int (iFullCmdSize (m_result p))) (\<lambda>newRIP.
            DI_RETURN (newRIP, None))
        | diana_index ix \<Rightarrow> DI_CHECK (DI_MEM_GET 0) (\<lambda>(newRIP, newRIP_size). DI_RETURN (newRIP, None))
        | diana_register r \<Rightarrow> DI_CHECK (DI_MEM_GET 0) (\<lambda>(newRIP, newRIP_size). DI_RETURN (newRIP, None))
        | diana_memory ix \<Rightarrow>
            DI_CHECK (DianaProcessor_CalcIndex ix) (\<lambda>(memSelector, memAddress).
            DI_CHECK (DianaProcessor_GetMemValue memSelector memAddress 2 (seg_reg ix)) (\<lambda>newSegment.
            DI_CHECK (DianaProcessor_GetMemValue memSelector (memAddress + 2) (word_of_int (usedAddressSize op)) (seg_reg ix)) (\<lambda>newRIP.
            DI_RETURN (newRIP, Some newSegment))))
        | diana_call_ptr q \<Rightarrow> DI_RETURN (m_address q, Some (m_segment q))
        | _ \<Rightarrow> DI_FAIL DI_ERROR) (\<lambda>(newRIP, newSegment).
     DI_DO (SET_REG reg_RIP newRIP) (
     case newSegment of
       Some sg \<Rightarrow> DI_DO (SET_REG reg_CS sg) DI_PROC_END
     | None \<Rightarrow> DI_PROC_END)))"

section \<open>Frame\<close>

lemma keeps_jumps [keeps_intros]:
  "keeps kept Diana_Call_ja"
  "keeps kept Diana_Call_jae"
  "keeps kept Diana_Call_jb"
  "keeps kept Diana_Call_jbe"
  "keeps kept Diana_Call_je"
  "keeps kept Diana_Call_jg"
  "keeps kept Diana_Call_jge"
  "keeps kept Diana_Call_jl"
  "keeps kept Diana_Call_jle"
  "keeps kept Diana_Call_jne"
  "keeps kept Diana_Call_jno"
  "keeps kept Diana_Call_jnp"
  "keeps kept Diana_Call_jns"
  "keeps kept Diana_Call_jo"
  "keeps kept Diana_Call_jp"
  "keeps kept Diana_Call_js"
  unfolding Diana_Call_ja_def
    Diana_Call_jae_def
    Diana_Call_jb_def
    Diana_Call_jbe_def
    Diana_Call_je_def
    Diana_Call_jg_def
    Diana_Call_jge_def
    Diana_Call_jl_def
    Diana_Call_jle_def
    Diana_Call_jne_def
    Diana_Call_jno_def
    Diana_Call_jnp_def
    Diana_Call_jns_def
    Diana_Call_jo_def
    Diana_Call_jp_def
    Diana_Call_js_def
  by (intro keeps_intros)+

lemma keeps_Cmd_J [keeps_intros]:
  "keeps kept Diana_Call_jecxz"
  "keeps kept Diana_Call_jmp"
  unfolding Diana_Call_jecxz_def
    Diana_Call_jmp_def
  by (intro keeps_intros)+

end
