(* ===== verification/Cmd_L.thy ===== *)
theory Cmd_L
  imports Alu_Contract
begin

unbundle bit_operations_syntax

text \<open>
  The handlers of \<^verbatim>\<open>diana_processor_cmd_l.c\<close>: loads of flags, addresses and far pointers, leave, lods and
  the loop instructions.
\<close>

definition Diana_Call_lahf :: "(unit, 'm) di_cmd" where
  "Diana_Call_lahf = DI_LET (\<lambda>p. take_bit 8 (m_flags p)) (\<lambda>ah. DI_DO (SET_REG reg_AH ah) DI_PROC_END)"

text \<open>The size of the source is never read here: it stays 0.\<close>

definition Diana_Call_lea :: "(unit, 'm) di_cmd" where
  "Diana_Call_lea =
     DI_CHECK (DI_MEM_GET 0) (\<lambda>(dest, dest_size).
     DI_LET (\<lambda>p. op_value (linked p 1)) (\<lambda>operand.
     case operand of
       diana_index pIndex \<Rightarrow>
         DI_CHECK (DianaProcessor_CalcIndex pIndex) (\<lambda>(memSelector, memAddress).
         let dest = memAddress in
         DI_CHECK (Di_CheckZeroExtends dest 0) (\<lambda>dest.
         DI_CHECK (DI_MEM_SET 0 dest) (\<lambda>_.
         DI_PROC_END)))
     | _ \<Rightarrow> DI_FAIL DI_ERROR))"

definition Diana_Call_leave :: "(unit, 'm) di_cmd" where
  "Diana_Call_leave =
     DI_LET (GET_REG reg_RBP) (\<lambda>rbp.
     DI_DO (\<lambda>p. SET_REG2 reg_RSP rbp (addrsize p) p) (
     DI_CHECK diana_internal_pop (\<lambda>value.
     DI_DO (\<lambda>p. SET_REG2 reg_RBP value (opsize p) p)
     DI_PROC_END)))"

definition Diana_Call_lods :: "(unit, 'm) di_cmd" where
  "Diana_Call_lods =
     DI_DO DianaProcessor_CmdUsesNormalRep (
     DI_LET (\<lambda>p. (GET_REG2 reg_RSI (addrsize p) p, currentCmd_sreg (m_context p), usedSize (linked p 0))) (\<lambda>(rsi, sreg, used).
     DI_LET (GET_REG sreg) (\<lambda>selector.
     DI_CHECK (DianaProcessor_GetMemValue selector rsi (word_of_int used) sreg) (\<lambda>value.
     DI_DO (\<lambda>p. SET_REG2 reg_RAX value used p) (
     DI_LET (\<lambda>p. if DianaProcessor_QueryFlag p DI_FLAG_DF then rsi - word_of_int used else rsi + word_of_int used) (\<lambda>rsi.
     DI_DO (\<lambda>p. SET_REG2 reg_RSI rsi (addrsize p) p)
     DI_PROC_END))))))"

definition Diana_Call_loop :: "(unit, 'm) di_cmd" where
  "Diana_Call_loop =
     DI_LET (\<lambda>p. GET_REG2 reg_RCX (addrsize p) p) (\<lambda>rcx.
     let rcx = rcx - 1 in
     DI_DO (\<lambda>p. SET_REG2 reg_RCX rcx (addrsize p) p) (
     DI_LET (\<lambda>p. rcx \<noteq> 0) (\<lambda>again.
     if again then Diana_Call_jcc 1 0 else DI_PROC_END)))"

definition Diana_Call_loope :: "(unit, 'm) di_cmd" where
  "Diana_Call_loope =
     DI_LET (\<lambda>p. GET_REG2 reg_RCX (addrsize p) p) (\<lambda>rcx.
     let rcx = rcx - 1 in
     DI_DO (\<lambda>p. SET_REG2 reg_RCX rcx (addrsize p) p) (
     DI_LET (\<lambda>p. rcx \<noteq> 0 \<and> DianaProcessor_QueryFlag p DI_FLAG_ZF) (\<lambda>again.
     if again then Diana_Call_jcc 1 0 else DI_PROC_END)))"

definition Diana_Call_loopne :: "(unit, 'm) di_cmd" where
  "Diana_Call_loopne =
     DI_LET (\<lambda>p. GET_REG2 reg_RCX (addrsize p) p) (\<lambda>rcx.
     let rcx = rcx - 1 in
     DI_DO (\<lambda>p. SET_REG2 reg_RCX rcx (addrsize p) p) (
     DI_LET (\<lambda>p. rcx \<noteq> 0 \<and> \<not> DianaProcessor_QueryFlag p DI_FLAG_ZF) (\<lambda>again.
     if again then Diana_Call_jcc 1 0 else DI_PROC_END)))"

definition Diana_Call_lXs_impl :: "DianaUnifiedRegister \<Rightarrow> (unit, 'm) di_cmd" where
  "Diana_Call_lXs_impl segRegId =
     DI_CHECK (DI_MEM_GET 0) (\<lambda>(dest, dest_size).
     DI_CHECK (Diana_QueryAddress 1) (\<lambda>(selector, address, segReg).
     DI_CHECK (DianaProcessor_GetMemValue selector address (word_of_int dest_size) segReg) (\<lambda>offset_value.
     DI_CHECK (DianaProcessor_GetMemValue selector (address + word_of_int dest_size) 2 segReg) (\<lambda>seg_value.
     let dest = offset_value in
     DI_CHECK (DI_MEM_SET 0 dest) (\<lambda>_.
     DI_DO (SET_REG segRegId seg_value)
     DI_PROC_END)))))"

definition Diana_Call_lfs :: "(unit, 'm) di_cmd" where
  "Diana_Call_lfs = Diana_Call_lXs_impl reg_FS"

definition Diana_Call_lgs :: "(unit, 'm) di_cmd" where
  "Diana_Call_lgs = Diana_Call_lXs_impl reg_GS"

definition Diana_Call_lss :: "(unit, 'm) di_cmd" where
  "Diana_Call_lss = Diana_Call_lXs_impl reg_SS"

definition Diana_Call_lds :: "(unit, 'm) di_cmd" where
  "Diana_Call_lds = Diana_Call_lXs_impl reg_DS"

definition Diana_Call_les :: "(unit, 'm) di_cmd" where
  "Diana_Call_les = Diana_Call_lXs_impl reg_ES"

section \<open>Frame\<close>

lemma keeps_QueryAddress [keeps_intros]: "keeps kept (Diana_QueryAddress i)"
  unfolding Diana_QueryAddress_def by (intro keeps_intros)

lemma keeps_lXs [keeps_intros]:
  "keeps kept (Diana_Call_lXs_impl r)"
  unfolding Diana_Call_lXs_impl_def
  by (intro keeps_intros)+

lemma keeps_Cmd_L [keeps_intros]:
  "keeps kept Diana_Call_lahf"
  "keeps kept Diana_Call_lea"
  "keeps kept Diana_Call_leave"
  "keeps kept Diana_Call_lods"
  "keeps kept Diana_Call_loop"
  "keeps kept Diana_Call_loope"
  "keeps kept Diana_Call_loopne"
  "keeps kept Diana_Call_lfs"
  "keeps kept Diana_Call_lgs"
  "keeps kept Diana_Call_lss"
  "keeps kept Diana_Call_lds"
  "keeps kept Diana_Call_les"
  unfolding Diana_Call_lahf_def
    Diana_Call_lea_def
    Diana_Call_leave_def
    Diana_Call_lods_def
    Diana_Call_loop_def
    Diana_Call_loope_def
    Diana_Call_loopne_def
    Diana_Call_lfs_def
    Diana_Call_lgs_def
    Diana_Call_lss_def
    Diana_Call_lds_def
    Diana_Call_les_def
  by (intro keeps_intros)+

end
