(* ===== verification/Cmd_M.thy ===== *)
theory Cmd_M
  imports Cmd_I
begin

unbundle bit_operations_syntax

text \<open>
  The handlers of \<^verbatim>\<open>diana_processor_cmd_m.c\<close>: moves and unsigned multiplication.
\<close>

section \<open>Moves\<close>

definition Diana_Call_mov :: "(unit, 'm) di_cmd" where
  "Diana_Call_mov =
     DI_CHECK (DianaProcessor_GetOperandSize 0) (\<lambda>dest_size.
     DI_CHECK (DI_MEM_GET 1) (\<lambda>(src, src_size).
     let dest = src in
     DI_CHECK (Di_CheckZeroExtends dest src_size) (\<lambda>dest.
     DI_CHECK (DI_MEM_SET 0 dest) (\<lambda>_.
     DI_PROC_END))))"

definition Diana_Call_movs :: "(unit, 'm) di_cmd" where
  "Diana_Call_movs =
     DI_DO DianaProcessor_CmdUsesNormalRep (
     DI_CHECK (Di_PrepareSIDI_regs True) (\<lambda>(srcIndex, destIndex).
     DI_LET (\<lambda>p. usedSize (linked p 0)) (\<lambda>used.
     DI_CHECK (Diana_ProcessorGetOperand_index_ex used srcIndex) (\<lambda>(srcRegAddress, src).
     DI_CHECK (DianaProcessor_CalcIndex destIndex) (\<lambda>(selector, destRegAddress).
     DI_CHECK (DianaProcessor_SetMemValue selector destRegAddress (word_of_int used) src (seg_reg destIndex)) (\<lambda>_.
     DI_LET (\<lambda>p. (Di_UpdateSIDI p srcRegAddress, Di_UpdateSIDI p destRegAddress)) (\<lambda>(srcRegAddress, destRegAddress).
     DI_DO (SET_REG (reg srcIndex) srcRegAddress) (
     DI_DO (SET_REG (reg destIndex) destRegAddress)
     DI_PROC_END))))))))"

definition Diana_Call_movsx :: "(unit, 'm) di_cmd" where
  "Diana_Call_movsx =
     DI_CHECK (DI_MEM_GET 0) (\<lambda>(dest, dest_size).
     DI_CHECK (DI_MEM_GET 1) (\<lambda>(src, src_size).
     DI_CHECK (DianaProcessor_SignExtend src src_size dest_size) (\<lambda>src.
     let dest = src in
     DI_CHECK (DI_MEM_SET 0 dest) (\<lambda>_.
     DI_PROC_END))))"

definition Diana_Call_movzx :: "(unit, 'm) di_cmd" where
  "Diana_Call_movzx =
     DI_CHECK (DI_MEM_GET 0) (\<lambda>(dest, dest_size).
     DI_CHECK (DI_MEM_GET 1) (\<lambda>(src, src_size).
     let dest = src in
     DI_CHECK (Di_CheckZeroExtends dest src_size) (\<lambda>dest.
     DI_CHECK (DI_MEM_SET 0 dest) (\<lambda>_.
     DI_PROC_END))))"

definition Diana_Call_movsxd :: "(unit, 'm) di_cmd" where
  "Diana_Call_movsxd =
     DI_CHECK (DI_MEM_GET 0) (\<lambda>(dest, dest_size).
     DI_CHECK (DI_MEM_GET 1) (\<lambda>(src, src_size).
     DI_CHECK (DianaProcessor_SignExtend src src_size dest_size) (\<lambda>src.
     DI_LET opsize (\<lambda>osz.
     let dest = (if osz = DIANA_MODE16 then (dest AND NOT 0xFFFF) OR (src AND 0xFFFF) else src) in
     DI_CHECK Di_ClearUpperHalf (\<lambda>_.
     DI_CHECK (DI_MEM_SET 0 dest) (\<lambda>_.
     DI_PROC_END))))))"

section \<open>Unsigned multiplication\<close>

definition Diana_Call_mul8 :: "u64 \<Rightarrow> (unit, 'm) di_cmd" where
  "Diana_Call_mul8 pArgument =
     DI_LET (\<lambda>p. (ucast (GET_REG reg_AL p) :: u16)) (\<lambda>arg1.
     let arg2 = (ucast pArgument :: u16); result = arg1 * arg2 in
     DI_DO (Di_set_CO (drop_bit 8 result \<noteq> 0)) (
     DI_DO (SET_REG reg_AX (ucast result))
     DI_PROC_END))"

definition Diana_Call_mul16 :: "u64 \<Rightarrow> (unit, 'm) di_cmd" where
  "Diana_Call_mul16 pArgument =
     DI_LET (\<lambda>p. (ucast (GET_REG reg_AX p) :: u32)) (\<lambda>arg1.
     let arg2 = (ucast pArgument :: u32); result = arg1 * arg2 in
     DI_DO (Di_set_CO (drop_bit 16 result \<noteq> 0)) (
     DI_DO (SET_REG reg_AX (ucast (ucast result :: u16))) (
     DI_DO (SET_REG reg_DX (ucast (drop_bit 16 result)))
     DI_PROC_END)))"

definition Diana_Call_mul32 :: "u64 \<Rightarrow> (unit, 'm) di_cmd" where
  "Diana_Call_mul32 pArgument =
     DI_LET (GET_REG reg_EAX) (\<lambda>arg1.
     let arg2 = pArgument; result = arg1 * arg2 in
     DI_DO (Di_set_CO (drop_bit 32 result \<noteq> 0)) (
     DI_DO (SET_REG reg_EAX (take_bit 32 result)) (
     DI_DO (SET_REG reg_EDX (drop_bit 32 result))
     DI_PROC_END)))"

definition Diana_Call_mul64 :: "u64 \<Rightarrow> (unit, 'm) di_cmd" where
  "Diana_Call_mul64 argument =
     DI_LET (GET_REG reg_RAX) (\<lambda>rax.
     let (r0, r1) = mul64 rax argument in
     DI_DO (Di_set_CO (r1 \<noteq> 0)) (
     DI_DO (SET_REG reg_RAX r0) (
     DI_DO (SET_REG reg_RDX r1)
     DI_PROC_END)))"

definition Diana_Call_mul :: "(unit, 'm) di_cmd" where
  "Diana_Call_mul =
     DI_CHECK (DI_MEM_GET 0) (\<lambda>(argument, argument_size).
     DI_DO (DianaProcessor_ClearFlag DI_FLAG_CF) (
     DI_DO (DianaProcessor_ClearFlag DI_FLAG_OF) (
     DI_LET (\<lambda>p. usedSize (linked p 0)) (\<lambda>used.
     if used = DIANA_MODE64 then DI_CHECK (Diana_Call_mul64 argument) (\<lambda>_. DI_PROC_END)
     else if used = DIANA_MODE32 then DI_CHECK (Diana_Call_mul32 argument) (\<lambda>_. DI_PROC_END)
     else if used = DIANA_MODE16 then DI_CHECK (Diana_Call_mul16 argument) (\<lambda>_. DI_PROC_END)
     else if used = 1 then DI_CHECK (Diana_Call_mul8 argument) (\<lambda>_. DI_PROC_END)
     else DI_FAIL DI_ERROR))))"

section \<open>Frame\<close>

lemma keeps_muls [keeps_intros]:
  "keeps kept (Diana_Call_mul8 v)"
  "keeps kept (Diana_Call_mul16 v)"
  "keeps kept (Diana_Call_mul32 v)"
  "keeps kept (Diana_Call_mul64 v)"
  unfolding Diana_Call_mul8_def
    Diana_Call_mul16_def
    Diana_Call_mul32_def
    Diana_Call_mul64_def
  by (intro keeps_intros)+

lemma keeps_Cmd_M [keeps_intros]:
  "keeps kept Diana_Call_mov"
  "keeps kept Diana_Call_movs"
  "keeps kept Diana_Call_movsx"
  "keeps kept Diana_Call_movzx"
  "keeps kept Diana_Call_movsxd"
  "keeps kept Diana_Call_mul"
  unfolding Diana_Call_mov_def
    Diana_Call_movs_def
    Diana_Call_movsx_def
    Diana_Call_movzx_def
    Diana_Call_movsxd_def
    Diana_Call_mul_def
  by (intro keeps_intros)+

end
