(* ===== verification/Cmd_N.thy ===== *)
theory Cmd_N
  imports Alu_Contract
begin

unbundle bit_operations_syntax

text \<open>
  The handlers of \<^verbatim>\<open>diana_processor_cmd_n.c\<close>: neg, not and the no-operations.
\<close>

definition Diana_Call_neg :: "(unit, 'm) di_cmd" where
  "Diana_Call_neg =
     DI_CHECK (DI_MEM_GET 0) (\<lambda>(src, src_size).
     let dest_size = src_size; dest = 0 in
     DI_DO DI_START_UPDATE_OA_FLAGS (
     let oldDestValue = dest; dest = dest - src in
     DI_DO (DianaProcessor_SetCOA_Sub oldDestValue dest src dest_size (DI_FLAG_OF OR DI_FLAG_AF)) (
     DI_UPDATE_FLAGS_PSZ (DI_MEM_SET 0 dest) (\<lambda>_.
     DI_DO (DianaProcessor_ClearFlag DI_FLAG_CF) (
     DI_DO (set_flag_if (src \<noteq> 0) DI_FLAG_CF)
     DI_PROC_END)))))"

definition Diana_Call_not :: "(unit, 'm) di_cmd" where
  "Diana_Call_not =
     DI_CHECK (DI_MEM_GET 0) (\<lambda>(dest, dest_size).
     let dest = NOT dest in
     DI_CHECK Di_ClearUpperHalf (\<lambda>_.
     DI_CHECK (DI_MEM_SET 0 dest) (\<lambda>_.
     DI_PROC_END)))"

definition Diana_Call_nop :: "(unit, 'm) di_cmd" where
  "Diana_Call_nop = DI_PROC_END"

definition Diana_Call_hint_nop :: "(unit, 'm) di_cmd" where
  "Diana_Call_hint_nop = DI_PROC_END"

section \<open>Frame\<close>

lemma keeps_Cmd_N [keeps_intros]:
  "keeps kept Diana_Call_neg"
  "keeps kept Diana_Call_not"
  "keeps kept Diana_Call_nop"
  "keeps kept Diana_Call_hint_nop"
  unfolding Diana_Call_neg_def
    Diana_Call_not_def
    Diana_Call_nop_def
    Diana_Call_hint_nop_def
  by (intro keeps_intros)+

section \<open>Correctness\<close>

context memory_stream
begin

text \<open>neg sets the flags of the subtraction from zero.\<close>

lemma neg_Ok:
  assumes "attached p" "alu_dest mapped p n"
  obtains a p' where "DI_MEM_GET 0 p = Ok (a, n) p" "fits n a" "Diana_Call_neg p = Ok () p'" "attached p'" "wrote p n (- a) p'"
    "arith_flags n (- a) (a \<noteq> 0) (overflow_flag n (- sval n a)) (half_carry_sub 0 a 0) p p'"
proof -
  let ?s = "DI_START_UPDATE_OA_FLAGS p"
  let ?f = "\<lambda>a. set_COA False (overflow_flag n (- sval n a)) (half_carry_sub 0 a 0) ?s"
  let ?g = "\<lambda>a q. set_flag_if (a \<noteq> 0) DI_FLAG_CF (DianaProcessor_ClearFlag DI_FLAG_CF q)"
  have g: "same_but_flags q (?g a q)" for a :: u64 and q :: "'m DianaProcessor"
    by (simp add: same_but_flags_steps)
  obtain a p' where x: "DI_MEM_GET 0 p = Ok (a, n) p" "fits n a" "Diana_Call_neg p = Ok () (?g a p')"
    "attached (?g a p')" "wrote p n (- a) (?g a p')" "psz_written n (- a) (?f a) p'"
  proof (rule alu_unary [OF assms same_but_flags_START(2), of ?f ?g uminus Diana_Call_neg])
    fix a and p' :: "'m DianaProcessor"
    assume "valid_size n" "fits n a" "DI_MEM_GET 0 p = Ok (a, n) p"
      "\<And>k :: int \<Rightarrow> (unit, 'm) di_cmd. DI_UPDATE_FLAGS_PSZ (DI_MEM_SET 0 (- a)) k (?f a) = k n p'"
    then show "Diana_Call_neg p = Ok () (?g a p')"
      using SetCOA_OA_eq(2) [of n 0 a ?s] by (simp add: Diana_Call_neg_def di_simps fits_small sval_small Let_def)
  qed (use g in auto)
  have "arith_flags n (- a) (a \<noteq> 0) (overflow_flag n (- sval n a)) (half_carry_sub 0 a 0) p (?g a p')"
    using psz_writtenD [OF x(6)] and_parts by (simp add: arith_flags_def)
  with x(1-5) show ?thesis
    by (rule that)
qed

end

end
