(* ===== verification/Cmd_P.thy ===== *)
theory Cmd_P
  imports Alu_Contract
begin

unbundle bit_operations_syntax

text \<open>
  The handlers of \<^verbatim>\<open>diana_processor_cmd_p.c\<close>: push, pop and their variants for the flags and for all registers.
\<close>

section \<open>Push\<close>

definition Diana_Call_push :: "(unit, 'm) di_cmd" where
  "Diana_Call_push =
     DI_CHECK (DI_MEM_GET 0) (\<lambda>(src, src_size).
     DI_LET (\<lambda>p. (m_cmd_flags (pInfo (m_result p)), opsize p, usedSize (linked p 0))) (\<lambda>(flags, osz, used).
     if flags AND DI_FLAG_CMD_PUSH_SEG \<noteq> 0 then
       DI_LET (\<lambda>p. (GET_REG2 reg_RSP (addrsize p) p, GET_REG reg_SS p)) (\<lambda>(rsp, ss).
       if rsp < word_of_int osz then DI_FAIL DI_ERROR
       else
         let rsp = rsp - word_of_int osz in
         DI_CHECK (DianaProcessor_SetMemValue ss rsp 2 src reg_SS) (\<lambda>_.
         DI_DO (\<lambda>p. SET_REG2 reg_RSP rsp (addrsize p) p)
         DI_PROC_END))
     else
     DI_CHECK (if used = 1 then DianaProcessor_SignExtend src 1 osz else DI_RETURN src) (\<lambda>src.
     DI_CHECK
       (if osz = 8 \<and> flags AND DI_FLAG_CMD_AMD64_SIGN_EXTENDS \<noteq> 0 then DianaProcessor_SignExtend src src_size 8
        else DI_RETURN src) (\<lambda>src.
     DI_CHECK (diana_internal_push src) (\<lambda>_.
     DI_PROC_END)))))"

definition Diana_Call_pushf :: "(unit, 'm) di_cmd" where
  "Diana_Call_pushf =
     DI_LET (\<lambda>p. (GET_REG reg_RSP p, word_of_int (opsize p) :: u64, GET_REG reg_SS p, m_flags p)) (\<lambda>(rsp, osz, ss, flags).
     if rsp < osz then DI_FAIL DI_ERROR
     else
     DI_CHECK (DianaProcessor_SetMemValue ss (rsp - osz) osz flags reg_SS) (\<lambda>_.
     DI_DO (SET_REG reg_RSP (rsp - osz))
     DI_PROC_END))"

section \<open>Pop\<close>

definition Diana_Call_pop :: "(unit, 'm) di_cmd" where
  "Diana_Call_pop =
     DI_CHECK (DI_MEM_GET 0) (\<lambda>(dest, dest_size).
     DI_CHECK diana_internal_pop (\<lambda>dest.
     DI_CHECK (DI_MEM_SET 0 dest) (\<lambda>_.
     DI_PROC_END)))"

definition Diana_Call_popa32 :: "(unit, 'm) di_cmd" where
  "Diana_Call_popa32 =
     DI_CHECK diana_internal_pop (\<lambda>dest. DI_DO (SET_REG reg_EDI dest) (
     DI_CHECK diana_internal_pop (\<lambda>dest. DI_DO (SET_REG reg_ESI dest) (
     DI_CHECK diana_internal_pop (\<lambda>dest. DI_DO (SET_REG reg_EBP dest) (
     DI_CHECK diana_internal_pop (\<lambda>_.
     DI_CHECK diana_internal_pop (\<lambda>dest. DI_DO (SET_REG reg_EBX dest) (
     DI_CHECK diana_internal_pop (\<lambda>dest. DI_DO (SET_REG reg_EDX dest) (
     DI_CHECK diana_internal_pop (\<lambda>dest. DI_DO (SET_REG reg_ECX dest) (
     DI_CHECK diana_internal_pop (\<lambda>dest. DI_DO (SET_REG reg_EAX dest) (
     DI_PROC_END)))))))))))))))"

definition Diana_Call_popa16 :: "(unit, 'm) di_cmd" where
  "Diana_Call_popa16 =
     DI_CHECK diana_internal_pop (\<lambda>dest. DI_DO (SET_REG reg_DI dest) (
     DI_CHECK diana_internal_pop (\<lambda>dest. DI_DO (SET_REG reg_SI dest) (
     DI_CHECK diana_internal_pop (\<lambda>dest. DI_DO (SET_REG reg_BP dest) (
     DI_CHECK diana_internal_pop (\<lambda>_.
     DI_CHECK diana_internal_pop (\<lambda>dest. DI_DO (SET_REG reg_BX dest) (
     DI_CHECK diana_internal_pop (\<lambda>dest. DI_DO (SET_REG reg_DX dest) (
     DI_CHECK diana_internal_pop (\<lambda>dest. DI_DO (SET_REG reg_CX dest) (
     DI_CHECK diana_internal_pop (\<lambda>dest. DI_DO (SET_REG reg_AX dest) (
     DI_PROC_END)))))))))))))))"

definition Diana_Call_popa :: "(unit, 'm) di_cmd" where
  "Diana_Call_popa =
     DI_LET opsize (\<lambda>osz.
     if osz = DIANA_MODE64 then DI_FAIL DI_UNSUPPORTED_COMMAND
     else if osz = DIANA_MODE32 then Diana_Call_popa32
     else if osz = DIANA_MODE16 then Diana_Call_popa16
     else DI_FAIL DI_ERROR)"

text \<open>In 64-bit mode the value is popped straight into the flags, also when the read of the stack fails.\<close>

definition Diana_Call_popf :: "(unit, 'm) di_cmd" where
  "Diana_Call_popf =
     DI_LET (\<lambda>p. (iAMD64Mode (m_context p), opsize p)) (\<lambda>(mode, osz).
     if mode \<noteq> 0 then
       DI_CHECK (diana_internal_pop_to (\<lambda>v p. p\<lparr>m_flags := v\<rparr>)) (\<lambda>_.
       DI_DO DianaProcessor_SetResetDefaultFlags
       DI_PROC_END)
     else if osz = DIANA_MODE32 then
       DI_CHECK diana_internal_pop (\<lambda>dest.
       DI_DO (\<lambda>p. p\<lparr>m_flags := (m_flags p AND NOT 0xFFFFFFFF) OR take_bit 32 dest\<rparr>) (
       DI_DO DianaProcessor_SetResetDefaultFlags
       DI_PROC_END))
     else if osz = DIANA_MODE16 then
       DI_CHECK diana_internal_pop (\<lambda>dest.
       DI_DO (\<lambda>p. p\<lparr>m_flags := (m_flags p AND NOT 0xFFFF) OR take_bit 16 dest\<rparr>) (
       DI_DO DianaProcessor_SetResetDefaultFlags
       DI_PROC_END))
     else DI_FAIL DI_ERROR)"

section \<open>All registers\<close>

definition Diana_Call_pusha32 :: "(unit, 'm) di_cmd" where
  "Diana_Call_pusha32 =
     DI_LET (GET_REG reg_ESP) (\<lambda>esp.
     DI_LET (GET_REG reg_EAX) (\<lambda>dest. DI_CHECK (diana_internal_push dest) (\<lambda>_.
     DI_LET (GET_REG reg_ECX) (\<lambda>dest. DI_CHECK (diana_internal_push dest) (\<lambda>_.
     DI_LET (GET_REG reg_EDX) (\<lambda>dest. DI_CHECK (diana_internal_push dest) (\<lambda>_.
     DI_LET (GET_REG reg_EBX) (\<lambda>dest. DI_CHECK (diana_internal_push dest) (\<lambda>_.
     DI_CHECK (diana_internal_push esp) (\<lambda>_.
     DI_LET (GET_REG reg_EBP) (\<lambda>dest. DI_CHECK (diana_internal_push dest) (\<lambda>_.
     DI_LET (GET_REG reg_ESI) (\<lambda>dest. DI_CHECK (diana_internal_push dest) (\<lambda>_.
     DI_LET (GET_REG reg_EDI) (\<lambda>dest. DI_CHECK (diana_internal_push dest) (\<lambda>_.
     DI_PROC_END))))))))))))))))"

definition Diana_Call_pusha16 :: "(unit, 'm) di_cmd" where
  "Diana_Call_pusha16 =
     DI_LET (GET_REG reg_SP) (\<lambda>esp.
     DI_LET (GET_REG reg_AX) (\<lambda>dest. DI_CHECK (diana_internal_push dest) (\<lambda>_.
     DI_LET (GET_REG reg_CX) (\<lambda>dest. DI_CHECK (diana_internal_push dest) (\<lambda>_.
     DI_LET (GET_REG reg_DX) (\<lambda>dest. DI_CHECK (diana_internal_push dest) (\<lambda>_.
     DI_LET (GET_REG reg_BX) (\<lambda>dest. DI_CHECK (diana_internal_push dest) (\<lambda>_.
     DI_CHECK (diana_internal_push esp) (\<lambda>_.
     DI_LET (GET_REG reg_BP) (\<lambda>dest. DI_CHECK (diana_internal_push dest) (\<lambda>_.
     DI_LET (GET_REG reg_SI) (\<lambda>dest. DI_CHECK (diana_internal_push dest) (\<lambda>_.
     DI_LET (GET_REG reg_DI) (\<lambda>dest. DI_CHECK (diana_internal_push dest) (\<lambda>_.
     DI_PROC_END))))))))))))))))"

definition Diana_Call_pusha :: "(unit, 'm) di_cmd" where
  "Diana_Call_pusha =
     DI_LET opsize (\<lambda>osz.
     if osz = DIANA_MODE64 then DI_FAIL DI_UNSUPPORTED_COMMAND
     else if osz = DIANA_MODE32 then Diana_Call_pusha32
     else if osz = DIANA_MODE16 then Diana_Call_pusha16
     else DI_FAIL DI_ERROR)"

definition Diana_Call_pause :: "(unit, 'm) di_cmd" where
  "Diana_Call_pause = DI_PROC_END"

section \<open>Frame\<close>

lemma keeps_Cmd_P [keeps_intros]:
  "keeps kept Diana_Call_push"
  "keeps kept Diana_Call_pushf"
  "keeps kept Diana_Call_pop"
  "keeps kept Diana_Call_popa32"
  "keeps kept Diana_Call_popa16"
  "keeps kept Diana_Call_popf"
  "keeps kept Diana_Call_pusha32"
  "keeps kept Diana_Call_pusha16"
  "keeps kept Diana_Call_pause"
  unfolding Diana_Call_push_def
    Diana_Call_pushf_def
    Diana_Call_pop_def
    Diana_Call_popa32_def
    Diana_Call_popa16_def
    Diana_Call_popf_def
    Diana_Call_pusha32_def
    Diana_Call_pusha16_def
    Diana_Call_pause_def
  by (intro keeps_intros)+

lemma keeps_all_registers [keeps_intros]:
  "keeps kept Diana_Call_popa"
  "keeps kept Diana_Call_pusha"
  unfolding Diana_Call_popa_def
    Diana_Call_pusha_def
  by (intro keeps_intros)+

end
