(* ===== verification/Cmd_S2.thy ===== *)
theory Cmd_S2
  imports Cmd_Conditions
begin

unbundle bit_operations_syntax

text \<open>
  The handlers of \<^verbatim>\<open>diana_processor_cmd_s2.c\<close>: subtraction, shifts and double shifts, scas and stos.  Every
  shift is a loop over single-bit shifts; the loops are related to the arithmetic shift by the masked count.
\<close>

section \<open>Subtraction\<close>

definition Diana_Call_sub :: "(unit, 'm) di_cmd" where
  "Diana_Call_sub =
     DI_CHECK (DI_MEM_GET 0) (\<lambda>(dest, dest_size).
     DI_CHECK (DI_MEM_GET 1) (\<lambda>(src, src_size).
     DI_CHECK (DianaProcessor_SignExtend src src_size dest_size) (\<lambda>src.
     DI_DO DI_START_UPDATE_COA_FLAGS (
     let oldDestValue = dest; dest = dest - src in
     DI_CHECK (Di_CheckZeroExtends dest src_size) (\<lambda>dest.
     DI_DO (DianaProcessor_SetCOA_Sub oldDestValue dest src dest_size (DI_FLAG_CF OR DI_FLAG_OF OR DI_FLAG_AF)) (
     DI_UPDATE_FLAGS_PSZ (DI_MEM_SET 0 dest) (\<lambda>_.
     DI_PROC_END)))))))"

definition Diana_Call_sbb :: "(unit, 'm) di_cmd" where
  "Diana_Call_sbb =
     DI_CHECK (DI_MEM_GET 0) (\<lambda>(dest, dest_size).
     DI_CHECK (DI_MEM_GET 1) (\<lambda>(src, src_size).
     DI_CHECK (DianaProcessor_SignExtend src src_size dest_size) (\<lambda>src.
     DI_LET (\<lambda>p. DianaProcessor_QueryFlag p DI_FLAG_CF) (\<lambda>cf.
     DI_DO DI_START_UPDATE_COA_FLAGS (
     let oldDestValue = dest; dest = dest - (src + of_bool cf) in
     DI_CHECK (Di_CheckZeroExtends dest src_size) (\<lambda>dest.
     DI_DO (if \<not> cf then DianaProcessor_SetCOA_Sub oldDestValue dest src dest_size (DI_FLAG_CF OR DI_FLAG_OF OR DI_FLAG_AF)
            else DianaProcessor_SetCOA_SubCF oldDestValue dest src dest_size (DI_FLAG_CF OR DI_FLAG_OF OR DI_FLAG_AF)) (
     DI_UPDATE_FLAGS_PSZ (DI_MEM_SET 0 dest) (\<lambda>_.
     DI_PROC_END))))))))"

section \<open>Shifts\<close>

text \<open>The test of a 64-bit shift count: long mode and REX.W.\<close>

definition Di_ShiftWide :: "'m DianaProcessor \<Rightarrow> bool" where
  "Di_ShiftWide p \<longleftrightarrow> iAMD64Mode (m_context p) = 1 \<and> iRexPrefix (m_context p) AND 0x8 \<noteq> 0"

text \<open>
  The loops, \<open>k\<close> rounds each: the shifted value and the last carry (the one before the loop when \<open>k = 0\<close>).
\<close>

fun Di_shl_loop :: "nat \<Rightarrow> u64 \<Rightarrow> u64 \<Rightarrow> bool \<Rightarrow> u64 \<times> bool" where
  "Di_shl_loop 0 signMask dest cf = (dest, cf)"
| "Di_shl_loop (Suc k) signMask dest cf = Di_shl_loop k signMask (push_bit 1 dest) (dest AND signMask \<noteq> 0)"

fun Di_shr_loop :: "nat \<Rightarrow> u64 \<Rightarrow> u64 \<Rightarrow> bool \<Rightarrow> u64 \<times> bool" where
  "Di_shr_loop 0 fill dest cf = (dest, cf)"
| "Di_shr_loop (Suc k) fill dest cf = Di_shr_loop k fill (drop_bit 1 dest OR fill) (dest AND 1 \<noteq> 0)"

definition Diana_Call_shl :: "(unit, 'm) di_cmd" where
  "Diana_Call_shl =
     DI_CHECK (DI_MEM_GET 1) (\<lambda>(src, src_size).
     DI_CHECK (DI_MEM_GET 0) (\<lambda>(dest, dest_size).
     DI_LET Di_ShiftWide (\<lambda>wide.
     let src = (if wide then src AND 0x3F else src AND 0x1F) in
     if src = 0 then
       DI_CHECK (Di_CheckZeroExtends dest src_size) (\<lambda>dest.
       DI_CHECK (DI_MEM_SET 0 dest) (\<lambda>_.
       DI_PROC_END))
     else
     let signMask = DianaProcessor_GetSignMask dest_size in
     DI_DO (DianaProcessor_ClearFlag DI_FLAG_OF) (
     DI_LET (\<lambda>p. Di_shl_loop (unat src) signMask dest (DianaProcessor_QueryFlag p DI_FLAG_CF)) (\<lambda>(dest, cf).
     DI_DO (assign_flag cf DI_FLAG_CF) (
     DI_DO (if src = 1 then set_flag_if (cf \<noteq> (signMask AND dest \<noteq> 0)) DI_FLAG_OF else (\<lambda>p. p)) (
     DI_CHECK (Di_CheckZeroExtends dest src_size) (\<lambda>dest.
     DI_UPDATE_FLAGS_PSZ (DI_MEM_SET 0 dest) (\<lambda>_.
     DI_PROC_END)))))))))"

text \<open>sar fills with the sign of the operand, shr with zeros.\<close>

definition Diana_Call_sar :: "(unit, 'm) di_cmd" where
  "Diana_Call_sar =
     DI_CHECK (DI_MEM_GET 1) (\<lambda>(src, src_size).
     DI_CHECK (DI_MEM_GET 0) (\<lambda>(dest, dest_size).
     DI_LET Di_ShiftWide (\<lambda>wide.
     let src = (if wide then src AND 0x3F else src AND 0x1F) in
     if src = 0 then
       DI_CHECK (Di_CheckZeroExtends dest src_size) (\<lambda>dest.
       DI_CHECK (DI_MEM_SET 0 dest) (\<lambda>_.
       DI_PROC_END))
     else
     let signMask = DianaProcessor_GetSignMask dest_size; prevSign = signMask AND dest in
     DI_DO (DianaProcessor_ClearFlag DI_FLAG_OF) (
     DI_LET (\<lambda>p. Di_shr_loop (unat src) prevSign dest (DianaProcessor_QueryFlag p DI_FLAG_CF)) (\<lambda>(dest, cf).
     DI_DO (assign_flag cf DI_FLAG_CF) (
     DI_CHECK (Di_CheckZeroExtends dest src_size) (\<lambda>dest.
     DI_UPDATE_FLAGS_PSZ (DI_MEM_SET 0 dest) (\<lambda>_.
     DI_PROC_END))))))))"

definition Diana_Call_shr :: "(unit, 'm) di_cmd" where
  "Diana_Call_shr =
     DI_CHECK (DI_MEM_GET 1) (\<lambda>(src, src_size).
     DI_CHECK (DI_MEM_GET 0) (\<lambda>(dest, dest_size).
     let original = dest in
     DI_LET Di_ShiftWide (\<lambda>wide.
     let src = (if wide then src AND 0x3F else src AND 0x1F) in
     if src = 0 then
       DI_CHECK (Di_CheckZeroExtends dest src_size) (\<lambda>dest.
       DI_CHECK (DI_MEM_SET 0 dest) (\<lambda>_.
       DI_PROC_END))
     else
     DI_DO (DianaProcessor_ClearFlag DI_FLAG_OF) (
     DI_LET (\<lambda>p. Di_shr_loop (unat src) 0 dest (DianaProcessor_QueryFlag p DI_FLAG_CF)) (\<lambda>(dest, cf).
     DI_DO (assign_flag cf DI_FLAG_CF) (
     DI_DO (if src = 1 then set_flag_if (original AND DianaProcessor_GetSignMask dest_size \<noteq> 0) DI_FLAG_OF else (\<lambda>p. p)) (
     DI_CHECK (Di_CheckZeroExtends dest src_size) (\<lambda>dest.
     DI_UPDATE_FLAGS_PSZ (DI_MEM_SET 0 dest) (\<lambda>_.
     DI_PROC_END)))))))))"

definition Diana_Call_stc :: "(unit, 'm) di_cmd" where
  "Diana_Call_stc = DI_DO (DianaProcessor_SetFlag DI_FLAG_CF) DI_PROC_END"

definition Diana_Call_std :: "(unit, 'm) di_cmd" where
  "Diana_Call_std = DI_DO (DianaProcessor_SetFlag DI_FLAG_DF) DI_PROC_END"

definition Diana_Call_sti :: "(unit, 'm) di_cmd" where
  "Diana_Call_sti = DI_DO (DianaProcessor_SetFlag DI_FLAG_IF) DI_PROC_END"

section \<open>Double shifts\<close>

text \<open>
  The loop of shld: \<open>k\<close> rounds are left and \<open>i\<close> are done.  At a multiple of 16 a 16-bit operand is fed from the
  destination operand, which is read again (its size replaces the one of the source).
\<close>

fun Di_shld_loop :: "nat \<Rightarrow> nat \<Rightarrow> int \<Rightarrow> u64 \<Rightarrow> u64 \<Rightarrow> u64 \<Rightarrow> int \<Rightarrow> (u64 \<times> int, 'm) di_cmd" where
  "Di_shld_loop 0 i dest_size signMask dest src1 src1_size = DI_RETURN (dest, src1_size)"
| "Di_shld_loop (Suc k) i dest_size signMask dest src1 src1_size =
     DI_CHECK (if dest_size = 2 \<and> i > 0 \<and> i mod 16 = 0 then DI_MEM_GET 0 else DI_RETURN (src1, src1_size)) (\<lambda>(src1, src1_size).
     DI_DO (DianaProcessor_ClearFlag DI_FLAG_CF) (
     DI_DO (set_flag_if (dest AND signMask \<noteq> 0) DI_FLAG_CF) (
     Di_shld_loop k (Suc i) dest_size signMask (push_bit 1 dest + of_bool (src1 AND signMask \<noteq> 0)) (push_bit 1 src1) src1_size)))"

definition Diana_Call_shld :: "(unit, 'm) di_cmd" where
  "Diana_Call_shld =
     DI_CHECK (DI_MEM_GET 2) (\<lambda>(src2, src2_size).
     DI_CHECK (DI_MEM_GET 1) (\<lambda>(src1, src1_size).
     DI_CHECK (DI_MEM_GET 0) (\<lambda>(dest, dest_size).
     DI_LET Di_ShiftWide (\<lambda>wide.
     let src2 = (if wide then src2 AND 0x3F else src2 AND 0x1F) in
     if src2 = 0 then
       DI_CHECK (Di_CheckZeroExtends dest src1_size) (\<lambda>dest.
       DI_CHECK (DI_MEM_SET 0 dest) (\<lambda>_.
       DI_PROC_END))
     else
     let signMask = DianaProcessor_GetSignMask dest_size; prevSign = signMask AND dest in
     DI_DO (DianaProcessor_ClearFlag DI_FLAG_OF) (
     DI_CHECK (Di_shld_loop (unat src2) 0 dest_size signMask dest src1 src1_size) (\<lambda>(dest, src1_size).
     DI_DO (if src2 = 1 then set_flag_if (signMask AND dest \<noteq> prevSign) DI_FLAG_OF else (\<lambda>p. p)) (
     DI_CHECK (Di_CheckZeroExtends dest src1_size) (\<lambda>dest.
     DI_UPDATE_FLAGS_PSZ (DI_MEM_SET 0 dest) (\<lambda>_.
     DI_PROC_END)))))))))"

text \<open>The loop of shrd: the destination, the rest of the source and the last bit shifted out.\<close>

fun Di_shrd_loop :: "nat \<Rightarrow> u64 \<Rightarrow> u64 \<Rightarrow> u64 \<Rightarrow> u64 \<Rightarrow> u64 \<times> u64" where
  "Di_shrd_loop 0 signMask dest src1 lastBit = (dest, lastBit)"
| "Di_shrd_loop (Suc k) signMask dest src1 lastBit =
     (let lastBit = (if dest AND 1 \<noteq> 0 then signMask else 0);
          dest = drop_bit 1 dest;
          dest = (if src1 AND 1 \<noteq> 0 then dest OR signMask else dest)
      in Di_shrd_loop k signMask dest (drop_bit 1 src1 + lastBit) lastBit)"

definition Diana_Call_shrd :: "(unit, 'm) di_cmd" where
  "Diana_Call_shrd =
     DI_CHECK (DI_MEM_GET 2) (\<lambda>(src2, src2_size).
     DI_CHECK (DI_MEM_GET 1) (\<lambda>(src1, src1_size).
     DI_CHECK (DI_MEM_GET 0) (\<lambda>(dest, dest_size).
     DI_LET Di_ShiftWide (\<lambda>wide.
     let src2 = (if wide then src2 AND 0x3F else src2 AND 0x1F) in
     if src2 = 0 then
       DI_CHECK (Di_CheckZeroExtends dest src1_size) (\<lambda>dest.
       DI_CHECK (DI_MEM_SET 0 dest) (\<lambda>_.
       DI_PROC_END))
     else
     let original = dest; signMask = DianaProcessor_GetSignMask dest_size in
     DI_DO (DianaProcessor_ClearFlag DI_FLAG_OF) (
     DI_DO (DianaProcessor_ClearFlag DI_FLAG_CF) (
     let (dest, lastBit) = Di_shrd_loop (unat src2) signMask dest src1 0 in
     DI_DO (set_flag_if (lastBit \<noteq> 0) DI_FLAG_CF) (
     DI_DO (if src2 = 1 then set_flag_if (signMask AND dest \<noteq> signMask AND original) DI_FLAG_OF else (\<lambda>p. p)) (
     DI_CHECK (Di_CheckZeroExtends dest src1_size) (\<lambda>dest.
     DI_UPDATE_FLAGS_PSZ (DI_MEM_SET 0 dest) (\<lambda>_.
     DI_PROC_END))))))))))"

section \<open>String instructions\<close>

definition Diana_Call_scas :: "(unit, 'm) di_cmd" where
  "Diana_Call_scas =
     DI_LET (\<lambda>p. usedSize (linked p 0)) (\<lambda>used.
     DI_LET (GET_REG2 reg_RAX used) (\<lambda>src.
     DI_CHECK (Di_PrepareSIDI_regs False) (\<lambda>(_, destIndex).
     DI_CHECK (Diana_ProcessorGetOperand_index_ex used destIndex) (\<lambda>(destRegAddress, dest).
     DI_LET (\<lambda>p. Di_UpdateSIDI p destRegAddress) (\<lambda>destRegAddress.
     DI_DO DI_START_UPDATE_COA_FLAGS (
     let oldDestValue = src; src = src - dest in
     DI_DO (DianaProcessor_SetCOA_Sub oldDestValue src dest used (DI_FLAG_CF OR DI_FLAG_OF OR DI_FLAG_AF)) (
     DI_DO (SET_REG (reg destIndex) destRegAddress) (
     DI_DO (DianaProcessor_UpdatePSZ src used)
     DI_PROC_END))))))))"

definition Diana_Call_stos :: "(unit, 'm) di_cmd" where
  "Diana_Call_stos =
     DI_DO DianaProcessor_CmdUsesNormalRep (
     DI_LET (\<lambda>p. usedSize (linked p 0)) (\<lambda>used.
     DI_LET (GET_REG2 reg_RAX used) (\<lambda>src.
     DI_CHECK (Di_PrepareSIDI_regs False) (\<lambda>(_, destIndex).
     DI_CHECK (Diana_ProcessorGetOperand_index_ex2 used destIndex) (\<lambda>(destSelectorValue, destRegAddress, dest).
     DI_CHECK (DianaProcessor_SetMemValue destSelectorValue destRegAddress (word_of_int used) src (seg_reg destIndex)) (\<lambda>_.
     DI_LET (\<lambda>p. Di_UpdateSIDI p destRegAddress) (\<lambda>destRegAddress.
     DI_DO (SET_REG (reg destIndex) destRegAddress)
     DI_PROC_END)))))))"

section \<open>Frame\<close>

lemma keeps_shld_loop [keeps_intros]: "keeps kept (Di_shld_loop k i n s d x m)"
proof (induction k arbitrary: i d x m)
  case 0
  show ?case by (simp add: kept.keeps_RETURN)
next
  case (Suc k)
  note [keeps_intros] = Suc
  show ?case unfolding Di_shld_loop.simps by (intro keeps_intros)
qed

lemma keeps_shifts [keeps_intros]:
  "keeps kept Diana_Call_sub"
  "keeps kept Diana_Call_sbb"
  "keeps kept Diana_Call_shl"
  "keeps kept Diana_Call_sar"
  "keeps kept Diana_Call_shr"
  unfolding Diana_Call_sub_def
    Diana_Call_sbb_def
    Diana_Call_shl_def
    Diana_Call_sar_def
    Diana_Call_shr_def
  by (intro keeps_intros)+

lemma keeps_Cmd_S2 [keeps_intros]:
  "keeps kept Diana_Call_stc"
  "keeps kept Diana_Call_std"
  "keeps kept Diana_Call_sti"
  "keeps kept Diana_Call_shld"
  "keeps kept Diana_Call_shrd"
  "keeps kept Diana_Call_scas"
  "keeps kept Diana_Call_stos"
  unfolding Diana_Call_stc_def
    Diana_Call_std_def
    Diana_Call_sti_def
    Diana_Call_shld_def
    Diana_Call_shrd_def
    Diana_Call_scas_def
    Diana_Call_stos_def
  by (intro keeps_intros)+

section \<open>Correctness\<close>

text \<open>The loops of single-bit shifts, as shifts by their count.\<close>

lemma sign_mask_bit: "valid_size n \<Longrightarrow> a AND DianaProcessor_GetSignMask n \<noteq> 0 \<longleftrightarrow> bit a (bits_of n - 1)"
  using sign_bit_eq [of n a 0] by simp

lemma low_bit: "(a :: u64) AND 1 \<noteq> 0 \<longleftrightarrow> bit a 0"
  by (simp add: bit_0 and_one_eq odd_iff_mod_2_eq_one)

lemma bit_push_1: "bit (push_bit 1 (a :: u64)) j \<longleftrightarrow> 0 < j \<and> j < 64 \<and> bit a (j - 1)"
  using bit_push_bit_iff [of 1 a j] by (auto simp only: possible_bit_word) auto

lemma shl_loop_eq:
  assumes "valid_size n"
  shows "Di_shl_loop (Suc k) (DianaProcessor_GetSignMask n) a cf =
    (push_bit (Suc k) a, Suc k \<le> bits_of n \<and> bit a (bits_of n - Suc k))"
proof (induction k arbitrary: a cf)
  case 0
  then show ?case using valid_bits [OF assms] by (simp add: sign_mask_bit [OF assms, simplified])
next
  case (Suc k)
  have "Suc k \<le> bits_of n \<and> bit (push_bit 1 a) (bits_of n - Suc k) \<longleftrightarrow> Suc (Suc k) \<le> bits_of n \<and> bit a (bits_of n - Suc (Suc k))"
    using valid_bits [OF assms] unfolding bit_push_1 by auto
  then show ?case
    using Suc.IH [of "push_bit 1 a"] by (subst Di_shl_loop.simps) (simp only: push_bit_push_bit, simp)
qed

lemma shr_loop_eq: "Di_shr_loop (Suc k) 0 a cf = (drop_bit (Suc k) a, bit a k)"
proof (induction k arbitrary: a cf)
  case 0
  then show ?case by (simp add: low_bit [simplified])
next
  case (Suc k)
  from Suc.IH [of "drop_bit 1 a" "a AND 1 \<noteq> 0"] show ?case
    by (subst Di_shr_loop.simps) (simp add: bit_drop_bit_eq del: Di_shr_loop.simps)
qed

lemma bit_sval:
  assumes "valid_size n"
  shows "bit (sval n a) i \<longleftrightarrow> bit a (min i (bits_of n - 1))"
  using valid_bits [OF assms] by (auto simp: sval_def bit_simps min_def)

lemma sar_step:
  assumes "valid_size n" "fits n a"
  defines "r \<equiv> drop_bit 1 a OR (DianaProcessor_GetSignMask n AND a)"
  shows "fits n r" "sval n r = drop_bit 1 (sval n a)" "DianaProcessor_GetSignMask n AND r = DianaProcessor_GetSignMask n AND a"
proof -
  have M: "DianaProcessor_GetSignMask n = push_bit (bits_of n - 1) 1"
    using assms(1) by (elim valid_sizeE) (simp_all add: DianaProcessor_GetSignMask_def g_maskBuffer_def)
  have a: "bit a i \<Longrightarrow> i < bits_of n" for i
    using assms(2) unfolding fits_def by (metis bit_take_bit_iff)
  have r: "bit r i \<longleftrightarrow> bit a (Suc i) \<or> i = bits_of n - 1 \<and> bit a i" for i
    using valid_bits [OF assms(1)] unfolding r_def M by (auto simp: bit_simps)
  show "fits n r"
    unfolding fits_def by (rule bit_word_eqI) (use r a valid_bits [OF assms(1)] in \<open>auto simp: bit_simps dest: a\<close>)
  show "sval n r = drop_bit 1 (sval n a)"
  proof (rule bit_eqI)
    fix i
    consider "Suc i < bits_of n" | "i = bits_of n - 1" | "bits_of n \<le> i" by linarith
    then show "bit (sval n r) i = bit (drop_bit 1 (sval n a)) i"
      using valid_bits [OF assms(1)] a [of "Suc i"] by cases (auto simp: bit_sval [OF assms(1)] bit_drop_bit_eq r min_def dest: a)
  qed
  show "DianaProcessor_GetSignMask n AND r = DianaProcessor_GetSignMask n AND a"
    by (rule bit_word_eqI) (use r a valid_bits [OF assms(1)] in \<open>auto simp: M bit_simps dest: a\<close>)
qed

lemma sar_loop_eq:
  assumes "valid_size n" "fits n a"
  shows "\<exists>r. Di_shr_loop (Suc k) (DianaProcessor_GetSignMask n AND a) a cf = (r, bit (sval n a) k) \<and> fits n r \<and>
    sval n r = sval n a div 2 ^ Suc k"
  using assms(2)
proof (induction k arbitrary: a cf)
  case 0
  have "a AND 1 \<noteq> 0 \<longleftrightarrow> bit (sval n a) 0"
    using valid_bits [OF assms(1)] unfolding bit_sval [OF assms(1)] low_bit by simp
  with sar_step [OF assms(1) 0] show ?case
    by (simp add: drop_bit_eq_div)
next
  case (Suc k)
  let ?r = "drop_bit 1 a OR (DianaProcessor_GetSignMask n AND a)"
  note st = sar_step [OF assms(1) Suc.prems]
  have "drop_bit 1 (sval n a) div 2 ^ Suc k = sval n a div 2 ^ Suc (Suc k)"
    using zdiv_zmult2_eq [of "2 ^ Suc k" "sval n a" "2 ^ 1"] by (simp add: drop_bit_eq_div)
  moreover have "bit (drop_bit 1 (sval n a)) k = bit (sval n a) (Suc k)"
    by (simp add: bit_drop_bit_eq)
  moreover obtain r where "Di_shr_loop (Suc k) (DianaProcessor_GetSignMask n AND a) ?r (a AND 1 \<noteq> 0) = (r, bit (drop_bit 1 (sval n a)) k)"
    "fits n r" "sval n r = drop_bit 1 (sval n a) div 2 ^ Suc k"
    using Suc.IH [OF st(1), of "a AND 1 \<noteq> 0"] unfolding st(2,3) by blast
  ultimately show ?case
    by (intro exI [of _ r]) (simp only: Di_shr_loop.simps(2) [of "Suc k"])
qed

text \<open>The count of a shift: the low six bits of the source for a 64-bit operand, the low five otherwise.\<close>

definition shift_word :: "'m DianaProcessor \<Rightarrow> u64 \<Rightarrow> u64" where
  "shift_word p s = (if Di_ShiftWide p then s AND 0x3F else s AND 0x1F)"

definition shift_count :: "'m DianaProcessor \<Rightarrow> u64 \<Rightarrow> nat" where
  "shift_count p s = unat (shift_word p s)"

lemma sbb_COA:
  assumes "valid_size n" "fits n a" "fits n b"
  shows "(if \<not> cf then DianaProcessor_SetCOA_Sub a (a - (b + of_bool cf)) b n (DI_FLAG_CF OR DI_FLAG_OF OR DI_FLAG_AF)
          else DianaProcessor_SetCOA_SubCF a (a - (b + of_bool cf)) b n (DI_FLAG_CF OR DI_FLAG_OF OR DI_FLAG_AF)) q =
     set_COA (carry_sub a b (of_bool cf)) (overflow_flag n (sval n a - sval n b - of_bool cf)) (half_carry_sub a b (of_bool cf)) q"
  using SetCOA_Sub_eq [OF assms, of q] SetCOA_SubCF_eq [OF assms, of q] by (cases cf) simp_all

context memory_stream
begin

lemma sub_Ok:
  assumes "attached p" "alu_ready mapped p n m"
  obtains a b p' where "operands p n m a b" "Diana_Call_sub p = Ok () p'" "attached p'" "wrote p n (a - b) p'"
    "arith_flags n (a - b) (carry_sub a b 0) (overflow_flag n (sval n a - sval n b)) (half_carry_sub a b 0) p p'"
proof -
  let ?s = "DI_START_UPDATE_COA_FLAGS p"
  let ?f = "\<lambda>a b. set_COA (carry_sub a b 0) (overflow_flag n (sval n a - sval n b)) (half_carry_sub a b 0)"
  obtain a b q p' where x: "operands p n m a b" "Diana_Call_sub p = Ok () p'" "attached p'" "wrote p n (a - b) p'"
    "m_flags q = m_flags ?s" "psz_written n (a - b) (?f a b q) p'"
    by (rule alu_binary [OF assms same_but_flags_START(1), of ?f "\<lambda>q. q" "(-)" Diana_Call_sub])
       (simp_all add: Diana_Call_sub_def di_simps SetCOA_Sub_eq Let_def)
  have "arith_flags n (a - b) (carry_sub a b 0) (overflow_flag n (sval n a - sval n b)) (half_carry_sub a b 0) p p'"
    by (rule arith_flagsI [OF x(6)]) (simp_all add: QueryFlag_cong [OF x(5)])
  with x(1-4) show ?thesis
    by (rule that)
qed

lemma sbb_Ok:
  assumes "attached p" "alu_ready mapped p n m"
  defines "c \<equiv> of_bool (DianaProcessor_QueryFlag p DI_FLAG_CF)"
  obtains a b p' where "operands p n m a b" "Diana_Call_sbb p = Ok () p'" "attached p'" "wrote p n (a - (b + of_int c)) p'"
    "arith_flags n (a - (b + of_int c)) (carry_sub a b c) (overflow_flag n (sval n a - sval n b - c)) (half_carry_sub a b c) p p'"
proof -
  let ?v = "\<lambda>a b. a - (b + of_int c)" and ?s = "DI_START_UPDATE_COA_FLAGS p"
  let ?f = "\<lambda>a b. set_COA (carry_sub a b c) (overflow_flag n (sval n a - sval n b - c)) (half_carry_sub a b c)"
  obtain a b q p' where x: "operands p n m a b" "Diana_Call_sbb p = Ok () p'" "attached p'" "wrote p n (?v a b) p'"
    "m_flags q = m_flags ?s" "psz_written n (?v a b) (?f a b q) p'"
    by (rule alu_binary [OF assms(1,2) same_but_flags_START(1), of ?f "\<lambda>q. q" ?v Diana_Call_sbb])
       (simp_all add: Diana_Call_sbb_def di_simps sbb_COA Let_def c_def)
  have "arith_flags n (?v a b) (carry_sub a b c) (overflow_flag n (sval n a - sval n b - c)) (half_carry_sub a b c) p p'"
    by (rule arith_flagsI [OF x(6)]) (simp_all add: QueryFlag_cong [OF x(5)])
  with x(1-4) show ?thesis
    by (rule that)
qed

text \<open>
  A shift \<open>h\<close> of the destination by the masked source: a count of zero stores the destination again, otherwise \<open>v\<close> is
  stored after the flags of \<open>c\<close>.
\<close>

lemma alu_shift:
  fixes h :: "(unit, 'm) di_cmd"
  assumes "attached p" "alu_dest mapped p n" "operand_rd mapped p 1 m" and c: "\<And>a w. same_but_flags p (c a w)"
    and zero: "\<And>a s q p'. DI_MEM_GET 0 p = Ok (a, n) p \<Longrightarrow> DI_MEM_GET 1 p = Ok (s, m) p \<Longrightarrow> shift_word p s = 0 \<Longrightarrow>
      Di_CheckZeroExtends a m p = Ok a q \<Longrightarrow> DI_MEM_SET 0 a q = Ok n p' \<Longrightarrow> h p = Ok () p'"
    and run: "\<And>a s q p'. DI_MEM_GET 0 p = Ok (a, n) p \<Longrightarrow> DI_MEM_GET 1 p = Ok (s, m) p \<Longrightarrow> shift_word p s \<noteq> 0 \<Longrightarrow>
      Di_CheckZeroExtends (v a (shift_word p s)) m (c a (shift_word p s)) = Ok (v a (shift_word p s)) q \<Longrightarrow>
      (\<And>k :: int \<Rightarrow> (unit, 'm) di_cmd. DI_UPDATE_FLAGS_PSZ (DI_MEM_SET 0 (v a (shift_word p s))) k q = k n p') \<Longrightarrow>
      h p = Ok () p'"
  obtains a s p' where "DI_MEM_GET 0 p = Ok (a, n) p" "DI_MEM_GET 1 p = Ok (s, m) p" "fits n a" "valid_size n"
    "h p = Ok () p'" "attached p'"
    "shift_count p s = 0 \<Longrightarrow> wrote p n a p' \<and> m_flags p' = m_flags p"
    "shift_count p s \<noteq> 0 \<Longrightarrow> wrote p n (v a (shift_word p s)) p' \<and> psz_written n (v a (shift_word p s)) (c a (shift_word p s)) p'"
proof -
  obtain a where a: "DI_MEM_GET 0 p = Ok (a, n) p" "fits n a"
    using alu_fetch_dest [OF assms(1,2)] by metis
  obtain s where s: "DI_MEM_GET 1 p = Ok (s, m) p"
    using DI_MEM_GET_Ok [OF assms(1) alu_destD(1) [OF assms(2)] assms(3)] by metis
  note n = alu_destD(4) [OF assms(2)]
  show ?thesis
  proof (cases "shift_word p s = 0")
    case True
    obtain q p' where q: "Di_CheckZeroExtends a m p = Ok a q" "DI_MEM_SET 0 a q = Ok n p'"
      "attached p'" "wrote p n a p'" "m_flags p' = m_flags p"
      using alu_finish [OF assms(1,2), of a m] by metis
    with True show ?thesis
      by (intro that [OF a(1) s a(2) n zero [OF a(1) s True q(1,2)]]) (simp_all add: shift_count_def)
  next
    case False
    let ?v = "v a (shift_word p s)" and ?c = "c a (shift_word p s)"
    have cd: "attached ?c" "alu_dest mapped ?c n"
      using assms(1,2) by (simp_all add: operand_flags_cong [OF c])
    obtain q p' where q: "Di_CheckZeroExtends ?v m ?c = Ok ?v q" "m_flags q = m_flags ?c"
      "\<And>k :: int \<Rightarrow> (unit, 'm) di_cmd. DI_UPDATE_FLAGS_PSZ (DI_MEM_SET 0 ?v) k q = k n p'"
      "attached p'" "wrote ?c n ?v p'" "psz_written n ?v q p'"
      using alu_finish_psz [OF cd, of "\<lambda>q. q" ?v m] by (metis same_but_flags_refl)
    have "wrote p n ?v p'" "psz_written n ?v ?c p'"
      using q(2,6) by (simp_all add: wrote_from_flags [OF q(5) c] psz_written_def DianaProcessor_QueryFlag_def)
    with False q(4) show ?thesis
      by (intro that [OF a(1) s a(2) n run [OF a(1) s False q(1,3)]]) (simp_all add: shift_count_def word_unat_eq_iff)
  qed
qed

lemma shift_count_Suc:
  assumes "shift_count p s \<noteq> 0"
  obtains k where "shift_count p s = Suc k" "unat (shift_word p s) = Suc k" "shift_word p s = 1 \<longleftrightarrow> k = 0"
proof -
  obtain k where k: "unat (shift_word p s) = Suc k"
    using assms not0_implies_Suc unfolding shift_count_def by blast
  moreover have "shift_word p s = 1 \<longleftrightarrow> k = 0"
    using k by (simp add: word_unat_eq_iff)
  ultimately show ?thesis
    by (intro that) (simp_all add: shift_count_def)
qed

text \<open>The flags before the loop, and the loops' results on an operand.\<close>

lemma shl_Ok:
  assumes "attached p" "alu_dest mapped p n" "operand_rd mapped p 1 m"
  obtains a s p' where "DI_MEM_GET 0 p = Ok (a, n) p" "DI_MEM_GET 1 p = Ok (s, m) p"
    "Diana_Call_shl p = Ok () p'" "attached p'" "wrote p n (push_bit (shift_count p s) a) p'"
    "shift_count p s = 0 \<Longrightarrow> m_flags p' = m_flags p"
    "shift_count p s \<noteq> 0 \<Longrightarrow> arith_flags n (push_bit (shift_count p s) a)
       (shift_count p s \<le> bits_of n \<and> bit a (bits_of n - shift_count p s))
       (shift_count p s = 1 \<and> bit a (bits_of n - 1) \<noteq> bit a (bits_of n - 2))
       (DianaProcessor_QueryFlag p DI_FLAG_AF) p p'"
proof -
  let ?M = "DianaProcessor_GetSignMask n" and ?q = "DianaProcessor_ClearFlag DI_FLAG_OF p"
  let ?l = "\<lambda>a w. Di_shl_loop (unat w) ?M a (DianaProcessor_QueryFlag ?q DI_FLAG_CF)"
  let ?c = "\<lambda>a w. (if w = 1 then set_flag_if (snd (?l a w) \<noteq> (?M AND fst (?l a w) \<noteq> 0)) DI_FLAG_OF else (\<lambda>p. p))
      (assign_flag (snd (?l a w)) DI_FLAG_CF ?q)"
  have c: "same_but_flags p (?c a w)" for a w
    by (simp add: same_but_flags_steps)
  obtain a s p' where x: "DI_MEM_GET 0 p = Ok (a, n) p" "DI_MEM_GET 1 p = Ok (s, m) p" "fits n a" "valid_size n"
    "Diana_Call_shl p = Ok () p'" "attached p'" "shift_count p s = 0 \<Longrightarrow> wrote p n a p' \<and> m_flags p' = m_flags p"
    "shift_count p s \<noteq> 0 \<Longrightarrow> wrote p n (fst (?l a (shift_word p s))) p' \<and>
       psz_written n (fst (?l a (shift_word p s))) (?c a (shift_word p s)) p'"
    by (rule alu_shift [OF assms, of ?c Diana_Call_shl "\<lambda>a w. fst (?l a w)"], rule c)
       (simp_all add: Diana_Call_shl_def di_simps Let_def split_def del: Di_shl_loop.simps Di_shr_loop.simps
         split del: if_split cong del: if_weak_cong flip: shift_word_def)
  show ?thesis
  proof (cases "shift_count p s = 0")
    case True
    with x show ?thesis by (intro that [OF x(1,2,5,6)]) simp_all
  next
    case False
    then obtain k where k: "shift_count p s = Suc k" "unat (shift_word p s) = Suc k" "shift_word p s = 1 \<longleftrightarrow> k = 0"
      by (rule shift_count_Suc)
    note l = shl_loop_eq [OF x(4), of k a]
    have b: "?M AND push_bit 1 a \<noteq> 0 \<longleftrightarrow> bit a (bits_of n - 2)"
      using valid_bits [OF x(4)] sign_mask_bit [OF x(4), of "push_bit 1 a"]
      unfolding bit_push_1 and.commute [of ?M] by (auto simp: numeral_2_eq_2)
    note w = x(8) [OF False, unfolded k(2) l fst_conv snd_conv]
    have "arith_flags n (push_bit (Suc k) a) (Suc k \<le> bits_of n \<and> bit a (bits_of n - Suc k))
       (Suc k = 1 \<and> bit a (bits_of n - 1) \<noteq> bit a (bits_of n - 2)) (DianaProcessor_QueryFlag p DI_FLAG_AF) p p'"
      by (rule arith_flagsI [OF conjunct2 [OF w]]) (use k(3) b valid_bits [OF x(4)] in auto)
    note fl = this [folded k(1)] and wr = conjunct1 [OF w, folded k(1)]
    show ?thesis
      by (rule that [OF x(1,2,5,6) wr _ fl]) (use False in simp)
  qed
qed

lemma shr_Ok:
  assumes "attached p" "alu_dest mapped p n" "operand_rd mapped p 1 m"
  obtains a s p' where "DI_MEM_GET 0 p = Ok (a, n) p" "DI_MEM_GET 1 p = Ok (s, m) p"
    "Diana_Call_shr p = Ok () p'" "attached p'" "wrote p n (drop_bit (shift_count p s) a) p'"
    "shift_count p s = 0 \<Longrightarrow> m_flags p' = m_flags p"
    "shift_count p s \<noteq> 0 \<Longrightarrow> arith_flags n (drop_bit (shift_count p s) a) (bit a (shift_count p s - 1))
       (shift_count p s = 1 \<and> bit a (bits_of n - 1)) (DianaProcessor_QueryFlag p DI_FLAG_AF) p p'"
proof -
  let ?M = "DianaProcessor_GetSignMask n" and ?q = "DianaProcessor_ClearFlag DI_FLAG_OF p"
  let ?l = "\<lambda>a w. Di_shr_loop (unat w) 0 a (DianaProcessor_QueryFlag ?q DI_FLAG_CF)"
  let ?c = "\<lambda>a w. (if w = 1 then set_flag_if (a AND ?M \<noteq> 0) DI_FLAG_OF else (\<lambda>p. p)) (assign_flag (snd (?l a w)) DI_FLAG_CF ?q)"
  have c: "same_but_flags p (?c a w)" for a w
    by (simp add: same_but_flags_steps)
  obtain a s p' where x: "DI_MEM_GET 0 p = Ok (a, n) p" "DI_MEM_GET 1 p = Ok (s, m) p" "fits n a" "valid_size n"
    "Diana_Call_shr p = Ok () p'" "attached p'" "shift_count p s = 0 \<Longrightarrow> wrote p n a p' \<and> m_flags p' = m_flags p"
    "shift_count p s \<noteq> 0 \<Longrightarrow> wrote p n (fst (?l a (shift_word p s))) p' \<and>
       psz_written n (fst (?l a (shift_word p s))) (?c a (shift_word p s)) p'"
    by (rule alu_shift [OF assms, of ?c Diana_Call_shr "\<lambda>a w. fst (?l a w)"], rule c)
       (simp_all add: Diana_Call_shr_def di_simps Let_def split_def del: Di_shl_loop.simps Di_shr_loop.simps
         split del: if_split cong del: if_weak_cong flip: shift_word_def)
  show ?thesis
  proof (cases "shift_count p s = 0")
    case True
    with x show ?thesis by (intro that [OF x(1,2,5,6)]) simp_all
  next
    case False
    then obtain k where k: "shift_count p s = Suc k" "unat (shift_word p s) = Suc k" "shift_word p s = 1 \<longleftrightarrow> k = 0"
      by (rule shift_count_Suc)
    note l = shr_loop_eq [of k a]
    note w = x(8) [OF False, unfolded k(2) l fst_conv snd_conv]
    have "arith_flags n (drop_bit (Suc k) a) (bit a (Suc k - 1)) (Suc k = 1 \<and> bit a (bits_of n - 1)) (DianaProcessor_QueryFlag p DI_FLAG_AF) p p'"
      by (rule arith_flagsI [OF conjunct2 [OF w]]) (use k(3) sign_mask_bit [OF x(4), of a] in auto)
    note fl = this [folded k(1)] and wr = conjunct1 [OF w, folded k(1)]
    show ?thesis
      by (rule that [OF x(1,2,5,6) wr _ fl]) (use False in simp)
  qed
qed

lemma sar_Ok:
  assumes "attached p" "alu_dest mapped p n" "operand_rd mapped p 1 m"
  obtains a s r p' where "DI_MEM_GET 0 p = Ok (a, n) p" "DI_MEM_GET 1 p = Ok (s, m) p"
    "Diana_Call_sar p = Ok () p'" "attached p'" "wrote p n r p'" "fits n r" "sval n r = sval n a div 2 ^ shift_count p s"
    "shift_count p s = 0 \<Longrightarrow> m_flags p' = m_flags p"
    "shift_count p s \<noteq> 0 \<Longrightarrow> arith_flags n r (bit (sval n a) (shift_count p s - 1)) False (DianaProcessor_QueryFlag p DI_FLAG_AF) p p'"
proof -
  let ?M = "DianaProcessor_GetSignMask n" and ?q = "DianaProcessor_ClearFlag DI_FLAG_OF p"
  let ?l = "\<lambda>a w. Di_shr_loop (unat w) (?M AND a) a (DianaProcessor_QueryFlag ?q DI_FLAG_CF)"
  let ?c = "\<lambda>a w. assign_flag (snd (?l a w)) DI_FLAG_CF ?q"
  have c: "same_but_flags p (?c a w)" for a w
    by (simp add: same_but_flags_steps)
  obtain a s p' where x: "DI_MEM_GET 0 p = Ok (a, n) p" "DI_MEM_GET 1 p = Ok (s, m) p" "fits n a" "valid_size n"
    "Diana_Call_sar p = Ok () p'" "attached p'" "shift_count p s = 0 \<Longrightarrow> wrote p n a p' \<and> m_flags p' = m_flags p"
    "shift_count p s \<noteq> 0 \<Longrightarrow> wrote p n (fst (?l a (shift_word p s))) p' \<and>
       psz_written n (fst (?l a (shift_word p s))) (?c a (shift_word p s)) p'"
    by (rule alu_shift [OF assms, of ?c Diana_Call_sar "\<lambda>a w. fst (?l a w)"], rule c)
       (simp_all add: Diana_Call_sar_def di_simps Let_def split_def del: Di_shl_loop.simps Di_shr_loop.simps
         split del: if_split cong del: if_weak_cong flip: shift_word_def)
  show ?thesis
  proof (cases "shift_count p s = 0")
    case True
    with x show ?thesis by (intro that [OF x(1,2,5,6), of a]) simp_all
  next
    case False
    then obtain k where k: "shift_count p s = Suc k" "unat (shift_word p s) = Suc k" "shift_word p s = 1 \<longleftrightarrow> k = 0"
      by (rule shift_count_Suc)
    obtain r where r: "?l a (shift_word p s) = (r, bit (sval n a) k)" "fits n r" "sval n r = sval n a div 2 ^ Suc k"
      using sar_loop_eq [OF x(4,3), of k] unfolding k(2) by blast
    have "arith_flags n r (bit (sval n a) k) False (DianaProcessor_QueryFlag p DI_FLAG_AF) p p'"
      by (rule arith_flagsI [OF conjunct2 [OF x(8) [OF False, unfolded r(1) fst_conv snd_conv]]]) simp_all
    with x(8) [OF False] r show ?thesis
      by (intro that [OF x(1,2,5,6), of r]) (simp_all add: k)
  qed
qed

end

end
