(* ===== verification/Processor_Random.thy ===== *)
theory Processor_Random
  imports Processor_State
begin

unbundle bit_operations_syntax

text \<open>
  The generator behind rdrand and rdseed (\<^verbatim>\<open>diana_processor_core.c\<close>): a 64-bit linear congruential state with a
  permuted 32-bit output.
\<close>

definition DianaProcessRandom_Init :: DianaProcessRandom where
  "DianaProcessRandom_Init = \<lparr>pcg_state = 0xa35221fd4245c, pcg_inc = 0xdfdf343112\<rparr>"

definition DianaProcessRandom_Generate32 :: "DianaProcessRandom \<Rightarrow> u32 \<times> DianaProcessRandom" where
  "DianaProcessRandom_Generate32 r =
     (let oldstate = pcg_state r;
          r' = r\<lparr>pcg_state := oldstate * 6364136223846793005 + (pcg_inc r OR 1)\<rparr>;
          xorshifted = (ucast (drop_bit 27 (drop_bit 18 oldstate XOR oldstate)) :: u32);
          rot = (ucast (drop_bit 59 oldstate) :: u32)
      in (drop_bit (unat rot) xorshifted OR push_bit (unat ((0 - rot) AND 31)) xorshifted, r'))"

definition DianaProcessRandom_Generate :: "DianaProcessRandom \<Rightarrow> u64 \<times> DianaProcessRandom" where
  "DianaProcessRandom_Generate r =
     (let (h, r) = DianaProcessRandom_Generate32 r;
          (l, r) = DianaProcessRandom_Generate32 r
      in (word_cat h l, r))"

end
