(* ===== verification/Cmd_R.thy ===== *)
theory Cmd_R
  imports Cmd_S2 Processor_Random
begin

unbundle bit_operations_syntax

text \<open>
  The handlers of \<^verbatim>\<open>diana_processor_cmd_r.c\<close>: rotations, with and without the carry, and random numbers.
\<close>

section \<open>Rotation through the carry\<close>

definition Di_RotateCount :: "int \<Rightarrow> u64 \<Rightarrow> u64 option" where
  "Di_RotateCount dest_size src =
     (if dest_size = 1 then Some ((src AND 0x1F) mod 9)
      else if dest_size = 2 then Some ((src AND 0x1F) mod 17)
      else if dest_size = 4 then Some (src AND 0x1F)
      else if dest_size = 8 then Some (src AND 0x3F)
      else None)"

fun Di_rcl_loop :: "nat \<Rightarrow> u64 \<Rightarrow> u64 \<Rightarrow> bool \<Rightarrow> u64 \<times> bool" where
  "Di_rcl_loop 0 signMask dest cf = (dest, cf)"
| "Di_rcl_loop (Suc k) signMask dest cf = Di_rcl_loop k signMask (push_bit 1 dest + of_bool cf) (signMask AND dest \<noteq> 0)"

fun Di_rcr_loop :: "nat \<Rightarrow> u64 \<Rightarrow> u64 \<Rightarrow> bool \<Rightarrow> u64 \<times> bool" where
  "Di_rcr_loop 0 signMask dest cf = (dest, cf)"
| "Di_rcr_loop (Suc k) signMask dest cf =
     Di_rcr_loop k signMask (drop_bit 1 dest OR (if cf then signMask else 0)) (dest AND 1 \<noteq> 0)"

definition Diana_Call_rcl :: "(unit, 'm) di_cmd" where
  "Diana_Call_rcl =
     DI_CHECK (DI_MEM_GET 1) (\<lambda>(src, src_size).
     DI_CHECK (DI_MEM_GET 0) (\<lambda>(dest, dest_size).
     case Di_RotateCount dest_size src of None \<Rightarrow> DI_FAIL DI_ERROR | Some src \<Rightarrow>
     if src = 0 then
       DI_CHECK (Di_CheckZeroExtends dest src_size) (\<lambda>dest.
       DI_CHECK (DI_MEM_SET 0 dest) (\<lambda>_.
       DI_PROC_END))
     else
     let signMask = DianaProcessor_GetSignMask dest_size in
     DI_DO (DianaProcessor_ClearFlag DI_FLAG_OF) (
     DI_LET (\<lambda>p. Di_rcl_loop (unat src) signMask dest (DianaProcessor_QueryFlag p DI_FLAG_CF)) (\<lambda>(dest, cf).
     DI_DO (assign_flag cf DI_FLAG_CF) (
     DI_DO (if src = 1 then set_flag_if (cf \<noteq> (signMask AND dest \<noteq> 0)) DI_FLAG_OF else (\<lambda>p. p)) (
     DI_CHECK (Di_CheckZeroExtends dest src_size) (\<lambda>dest.
     DI_CHECK (DI_MEM_SET 0 dest) (\<lambda>_.
     DI_PROC_END))))))))"

definition Diana_Call_rcr :: "(unit, 'm) di_cmd" where
  "Diana_Call_rcr =
     DI_CHECK (DI_MEM_GET 1) (\<lambda>(src, src_size).
     DI_CHECK (DI_MEM_GET 0) (\<lambda>(dest, dest_size).
     case Di_RotateCount dest_size src of None \<Rightarrow> DI_FAIL DI_ERROR | Some src \<Rightarrow>
     if src = 0 then
       DI_CHECK (Di_CheckZeroExtends dest src_size) (\<lambda>dest.
       DI_CHECK (DI_MEM_SET 0 dest) (\<lambda>_.
       DI_PROC_END))
     else
     let signMask = DianaProcessor_GetSignMask dest_size in
     DI_DO (DianaProcessor_ClearFlag DI_FLAG_OF) (
     DI_LET (\<lambda>p. DianaProcessor_QueryFlag p DI_FLAG_CF) (\<lambda>cf0.
     DI_DO (if src = 1 then set_flag_if (cf0 \<noteq> (signMask AND dest \<noteq> 0)) DI_FLAG_OF else (\<lambda>p. p)) (
     let (dest, cf) = Di_rcr_loop (unat src) signMask dest cf0 in
     DI_DO (assign_flag cf DI_FLAG_CF) (
     DI_CHECK (Di_CheckZeroExtends dest src_size) (\<lambda>dest.
     DI_CHECK (DI_MEM_SET 0 dest) (\<lambda>_.
     DI_PROC_END))))))))"

section \<open>Rotation\<close>

fun Di_rol_loop :: "nat \<Rightarrow> u64 \<Rightarrow> u64 \<Rightarrow> u64" where
  "Di_rol_loop 0 signMask dest = dest"
| "Di_rol_loop (Suc k) signMask dest = Di_rol_loop k signMask (push_bit 1 dest + of_bool (signMask AND dest \<noteq> 0))"

fun Di_ror_loop :: "nat \<Rightarrow> u64 \<Rightarrow> u64 \<Rightarrow> u64" where
  "Di_ror_loop 0 signMask dest = dest"
| "Di_ror_loop (Suc k) signMask dest = Di_ror_loop k signMask (drop_bit 1 dest OR (if dest AND 1 \<noteq> 0 then signMask else 0))"

definition Diana_Call_rol :: "(unit, 'm) di_cmd" where
  "Diana_Call_rol =
     DI_CHECK (DI_MEM_GET 1) (\<lambda>(src, src_size).
     DI_CHECK (DI_MEM_GET 0) (\<lambda>(dest, dest_size).
     DI_LET Di_ShiftWide (\<lambda>wide.
     let src = (if wide then src AND 0x3F else src AND 0x1F) in
     if src = 0 then
       DI_CHECK (Di_CheckZeroExtends dest src_size) (\<lambda>dest.
       DI_CHECK (DI_MEM_SET 0 dest) (\<lambda>_.
       DI_PROC_END))
     else
     let signMask = DianaProcessor_GetSignMask dest_size in
     DI_DO (DianaProcessor_ClearFlag DI_FLAG_OF) (
     let dest = Di_rol_loop (unat src) signMask dest in
     DI_DO (DianaProcessor_ClearFlag DI_FLAG_CF) (
     DI_DO (set_flag_if (dest AND 1 \<noteq> 0) DI_FLAG_CF) (
     DI_DO (if src = 1 then set_flag_if ((dest AND 1 \<noteq> 0) \<noteq> (signMask AND dest \<noteq> 0)) DI_FLAG_OF else (\<lambda>p. p)) (
     DI_CHECK (Di_CheckZeroExtends dest src_size) (\<lambda>dest.
     DI_CHECK (DI_MEM_SET 0 dest) (\<lambda>_.
     DI_PROC_END)))))))))"

definition Diana_Call_ror :: "(unit, 'm) di_cmd" where
  "Diana_Call_ror =
     DI_CHECK (DI_MEM_GET 1) (\<lambda>(src, src_size).
     DI_CHECK (DI_MEM_GET 0) (\<lambda>(dest, dest_size).
     DI_LET Di_ShiftWide (\<lambda>wide.
     let src = (if wide then src AND 0x3F else src AND 0x1F) in
     if src = 0 then
       DI_CHECK (Di_CheckZeroExtends dest src_size) (\<lambda>dest.
       DI_CHECK (DI_MEM_SET 0 dest) (\<lambda>_.
       DI_PROC_END))
     else
     let signMask = DianaProcessor_GetSignMask dest_size in
     DI_DO (DianaProcessor_ClearFlag DI_FLAG_OF) (
     let dest = Di_ror_loop (unat src) signMask dest in
     DI_DO (DianaProcessor_ClearFlag DI_FLAG_CF) (
     DI_DO (set_flag_if (dest AND signMask \<noteq> 0) DI_FLAG_CF) (
     DI_DO (if src = 1 then set_flag_if ((dest AND signMask \<noteq> 0) \<noteq> (dest AND drop_bit 1 signMask \<noteq> 0)) DI_FLAG_OF else (\<lambda>p. p)) (
     DI_CHECK (Di_CheckZeroExtends dest src_size) (\<lambda>dest.
     DI_CHECK (DI_MEM_SET 0 dest) (\<lambda>_.
     DI_PROC_END)))))))))"

section \<open>Random numbers\<close>

definition Diana_Call_rdrand :: "(unit, 'm) di_cmd" where
  "Diana_Call_rdrand =
     DI_LET (\<lambda>p. fst (DianaProcessRandom_Generate (m_random p))) (\<lambda>dest.
     DI_DO (\<lambda>p. p\<lparr>m_random := snd (DianaProcessRandom_Generate (m_random p))\<rparr>) (
     DI_CHECK (DI_MEM_SET 0 dest) (\<lambda>_.
     DI_PROC_END)))"

definition Diana_Call_rdseed :: "(unit, 'm) di_cmd" where
  "Diana_Call_rdseed =
     DI_LET (\<lambda>p. fst (DianaProcessRandom_Generate (m_random p))) (\<lambda>dest.
     DI_DO (\<lambda>p. p\<lparr>m_random := snd (DianaProcessRandom_Generate (m_random p))\<rparr>) (
     DI_CHECK (DI_MEM_SET 0 dest) (\<lambda>_.
     DI_PROC_END)))"

section \<open>Frame\<close>

lemma keeps_Cmd_R [keeps_intros]:
  "keeps kept Diana_Call_rcl"
  "keeps kept Diana_Call_rcr"
  "keeps kept Diana_Call_rol"
  "keeps kept Diana_Call_ror"
  "keeps kept Diana_Call_rdrand"
  "keeps kept Diana_Call_rdseed"
  unfolding Diana_Call_rcl_def
    Diana_Call_rcr_def
    Diana_Call_rol_def
    Diana_Call_ror_def
    Diana_Call_rdrand_def
    Diana_Call_rdseed_def
  by (intro keeps_intros)+

section \<open>Correctness\<close>

text \<open>The loops rotate the low \<open>bits_of n\<close> bits.\<close>

lemma rol_bit:
  assumes "valid_size n" "i < bits_of n"
  shows "bit (push_bit 1 a + of_bool (DianaProcessor_GetSignMask n AND a \<noteq> 0)) i \<longleftrightarrow> bit a ((i + (bits_of n - 1)) mod bits_of n)"
proof -
  have "bit (push_bit 1 a + of_bool c) i \<longleftrightarrow> (if i = 0 then c else bit (push_bit 1 a) i)" for c
  proof -
    have "push_bit 1 a + of_bool c = push_bit 1 a OR of_bool c"
      by (rule disjunctive_add) (auto simp only: bit_push_1 bit_of_bool_iff)
    then have "bit (push_bit 1 a + of_bool c) i \<longleftrightarrow> bit (push_bit 1 a) i \<or> i = 0 \<and> c"
      by (simp only: bit_or_iff bit_of_bool_iff)
    then show ?thesis
      by (auto simp only: bit_push_1 split: if_splits)
  qed
  moreover have "(i + (bits_of n - 1)) mod bits_of n = (if i = 0 then bits_of n - 1 else i - 1)"
    using assms(2) by (auto simp: mod_if)
  ultimately show ?thesis
    using assms valid_bits [OF assms(1)] sign_mask_bit [OF assms(1), of a] bit_push_1 [of a i] by (auto simp: and.commute)
qed

lemma rol_loop_bit:
  assumes "valid_size n" "i < bits_of n"
  shows "bit (Di_rol_loop k (DianaProcessor_GetSignMask n) a) i \<longleftrightarrow> bit a ((i + k * (bits_of n - 1)) mod bits_of n)"
  using assms(2)
proof (induction k arbitrary: a i)
  case 0
  then show ?case by simp
next
  case (Suc k)
  let ?j = "(i + k * (bits_of n - 1)) mod bits_of n"
  have j: "?j < bits_of n"
    using Suc.prems by (intro mod_less_divisor) linarith
  have "(?j + (bits_of n - 1)) mod bits_of n = (i + Suc k * (bits_of n - 1)) mod bits_of n"
    by (simp only: mod_add_left_eq) (simp only: mult_Suc ac_simps)
  with rol_bit [OF assms(1) j, of a] Suc.IH [OF Suc.prems] show ?case
    by simp
qed

lemma ror_step:
  assumes "valid_size n" "fits n a"
  defines "r \<equiv> drop_bit 1 a OR (if a AND 1 \<noteq> 0 then DianaProcessor_GetSignMask n else 0)"
  shows "fits n r" "i < bits_of n \<Longrightarrow> bit r i \<longleftrightarrow> bit a ((i + 1) mod bits_of n)"
proof -
  have M: "DianaProcessor_GetSignMask n = push_bit (bits_of n - 1) 1"
    using assms(1) by (elim valid_sizeE) (simp_all add: DianaProcessor_GetSignMask_def g_maskBuffer_def)
  have a: "bit a i \<Longrightarrow> i < bits_of n" for i
    using assms(2) unfolding fits_def by (metis bit_take_bit_iff)
  have r: "bit r i \<longleftrightarrow> bit a (Suc i) \<or> i = bits_of n - 1 \<and> bit a 0" for i
    using valid_bits [OF assms(1)] low_bit [of a] unfolding r_def M by (auto simp: bit_simps)
  show "fits n r"
    unfolding fits_def by (rule bit_word_eqI) (use r valid_bits [OF assms(1)] in \<open>auto simp: bit_simps dest: a\<close>)
  show "bit r i \<longleftrightarrow> bit a ((i + 1) mod bits_of n)" if "i < bits_of n"
    using that a [of "Suc i"] unfolding r by (auto simp: mod_if)
qed

lemma ror_loop_bit:
  assumes "valid_size n" "fits n a"
  shows "fits n (Di_ror_loop k (DianaProcessor_GetSignMask n) a)"
    "i < bits_of n \<Longrightarrow> bit (Di_ror_loop k (DianaProcessor_GetSignMask n) a) i \<longleftrightarrow> bit a ((i + k) mod bits_of n)"
  using assms(2)
proof (induction k arbitrary: a i)
  case 0
  { case 1 then show ?case by simp }
  { case 2 then show ?case by simp }
next
  case (Suc k)
  { case 1 then show ?case using Suc.IH(1) [OF ror_step(1) [OF assms(1) 1]] by simp }
  { case 2
    have "(i + k) mod bits_of n < bits_of n"
      using 2 by (intro mod_less_divisor) linarith
    then show ?case
      using Suc.IH(2) [OF 2(1) ror_step(1) [OF assms(1) 2(2)]] ror_step(2) [OF assms(1) 2(2)] by (simp add: mod_Suc_eq) }
qed

text \<open>Where a bit goes comes from where it was.\<close>

lemma rotate_index:
  fixes B :: nat
  assumes "i < B"
  shows "((i + k) mod B + k * (B - 1)) mod B = i"
proof -
  have "((i + k) mod B + k * (B - 1)) mod B = (i + k + k * (B - 1)) mod B"
    by (simp add: mod_add_left_eq)
  also have "i + k + k * (B - 1) = i + k * B"
    using assms by (cases B) simp_all
  finally show ?thesis using assms by simp
qed

text \<open>Rotating back gives the operand.\<close>

lemma rotate_back:
  assumes "valid_size n" "fits n a"
  shows "Di_ror_loop k (DianaProcessor_GetSignMask n) (DianaProcessor_CutValue (Di_rol_loop k (DianaProcessor_GetSignMask n) a) n) = a"
    (is "?l = a")
proof -
  let ?B = "bits_of n"
  have B: "0 < ?B" "?B \<le> 64" using valid_bits [OF assms(1)] by simp_all
  have l: "fits n ?l" "bit ?l i \<longleftrightarrow> bit (DianaProcessor_CutValue (Di_rol_loop k (DianaProcessor_GetSignMask n) a) n) ((i + k) mod ?B)"
    if "i < ?B" for i
    using ror_loop_bit [OF assms(1) fits_CutValue [OF assms(1)]] that by blast+
  have "bit ?l i \<longleftrightarrow> bit a i" if "i < ?B" for i
    using l(2) [OF that] rol_loop_bit [OF assms(1), of "(i + k) mod ?B" k a] rotate_index [OF that] B
    by (simp add: CutValue_take_bit [OF assms(1)] bit_take_bit_iff)
  moreover have "fits n ?l"
    using ror_loop_bit(1) [OF assms(1) fits_CutValue [OF assms(1)]] .
  ultimately show ?thesis
    using assms(2) unfolding fits_def by (intro bit_word_eqI) (metis bit_take_bit_iff)
qed

context memory_stream
begin

text \<open>A rotation stores its result without touching PF, SF and ZF.\<close>

lemma alu_rotate:
  fixes h :: "(unit, 'm) di_cmd"
  assumes "attached p" "alu_dest mapped p n" "operand_rd mapped p 1 m" and c: "\<And>a w. same_but_flags p (c a w)"
    and zero: "\<And>a s q p'. DI_MEM_GET 0 p = Ok (a, n) p \<Longrightarrow> DI_MEM_GET 1 p = Ok (s, m) p \<Longrightarrow> shift_word p s = 0 \<Longrightarrow>
      Di_CheckZeroExtends a m p = Ok a q \<Longrightarrow> DI_MEM_SET 0 a q = Ok n p' \<Longrightarrow> h p = Ok () p'"
    and run: "\<And>a s q p'. DI_MEM_GET 0 p = Ok (a, n) p \<Longrightarrow> DI_MEM_GET 1 p = Ok (s, m) p \<Longrightarrow> shift_word p s \<noteq> 0 \<Longrightarrow>
      Di_CheckZeroExtends (v a (shift_word p s)) m (c a (shift_word p s)) = Ok (v a (shift_word p s)) q \<Longrightarrow>
      DI_MEM_SET 0 (v a (shift_word p s)) q = Ok n p' \<Longrightarrow> h p = Ok () p'"
  obtains a s p' where "DI_MEM_GET 0 p = Ok (a, n) p" "DI_MEM_GET 1 p = Ok (s, m) p" "fits n a" "valid_size n"
    "h p = Ok () p'" "attached p'"
    "shift_word p s = 0 \<Longrightarrow> wrote p n a p' \<and> m_flags p' = m_flags p"
    "shift_word p s \<noteq> 0 \<Longrightarrow> wrote p n (v a (shift_word p s)) p' \<and> m_flags p' = m_flags (c a (shift_word p s))"
proof -
  obtain a where a: "DI_MEM_GET 0 p = Ok (a, n) p" "fits n a"
    using alu_fetch_dest [OF assms(1,2)] by metis
  obtain s where s: "DI_MEM_GET 1 p = Ok (s, m) p"
    using DI_MEM_GET_Ok [OF assms(1) alu_destD(1) [OF assms(2)] assms(3)] by metis
  note n = alu_destD(4) [OF assms(2)]
  let ?w = "shift_word p s"
  have cd: "attached (c a ?w)" "alu_dest mapped (c a ?w) n"
    using assms(1,2) by (simp_all add: operand_flags_cong [OF c])
  obtain q p' where q: "Di_CheckZeroExtends a m p = Ok a q" "DI_MEM_SET 0 a q = Ok n p'"
    "attached p'" "wrote p n a p'" "m_flags p' = m_flags p"
    using alu_finish [OF assms(1,2), of a m] by metis
  obtain q2 p2 where q2: "Di_CheckZeroExtends (v a ?w) m (c a ?w) = Ok (v a ?w) q2" "DI_MEM_SET 0 (v a ?w) q2 = Ok n p2"
    "attached p2" "wrote (c a ?w) n (v a ?w) p2" "m_flags p2 = m_flags (c a ?w)"
    using alu_finish [OF cd, of "v a ?w" m] by metis
  show ?thesis
  proof (cases "?w = 0")
    case True
    show ?thesis
      by (rule that [OF a(1) s a(2) n zero [OF a(1) s True q(1,2)] q(3)]) (use True q in auto)
  next
    case False
    show ?thesis
      by (rule that [OF a(1) s a(2) n run [OF a(1) s False q2(1,2)] q2(3)])
        (use False q2(5) wrote_from_flags [OF q2(4) c] in auto)
  qed
qed

lemma rol_Ok:
  assumes "attached p" "alu_dest mapped p n" "operand_rd mapped p 1 m"
  obtains a s r p' where "DI_MEM_GET 0 p = Ok (a, n) p" "DI_MEM_GET 1 p = Ok (s, m) p"
    "Diana_Call_rol p = Ok () p'" "attached p'" "wrote p n r p'" "r = Di_rol_loop (shift_count p s) (DianaProcessor_GetSignMask n) a"
    "shift_count p s = 0 \<Longrightarrow> m_flags p' = m_flags p"
    "shift_count p s \<noteq> 0 \<Longrightarrow> DianaProcessor_QueryFlag p' DI_FLAG_CF = bit r 0"
    "\<And>g. 1 AND g = 0 \<Longrightarrow> 0x800 AND g = 0 \<Longrightarrow> DianaProcessor_QueryFlag p' g = DianaProcessor_QueryFlag p g"
proof -
  let ?M = "DianaProcessor_GetSignMask n" and ?q = "DianaProcessor_ClearFlag DI_FLAG_CF (DianaProcessor_ClearFlag DI_FLAG_OF p)"
  let ?l = "\<lambda>a w. Di_rol_loop (unat w) ?M a"
  let ?c = "\<lambda>a w. (if w = 1 then set_flag_if ((?l a w AND 1 \<noteq> 0) \<noteq> (?M AND ?l a w \<noteq> 0)) DI_FLAG_OF else (\<lambda>p. p))
      (set_flag_if (?l a w AND 1 \<noteq> 0) DI_FLAG_CF ?q)"
  have c: "same_but_flags p (?c a w)" for a w
    by (simp add: same_but_flags_steps)
  obtain a s p' where x: "DI_MEM_GET 0 p = Ok (a, n) p" "DI_MEM_GET 1 p = Ok (s, m) p" "fits n a" "valid_size n"
    "Diana_Call_rol p = Ok () p'" "attached p'" "shift_word p s = 0 \<Longrightarrow> wrote p n a p' \<and> m_flags p' = m_flags p"
    "shift_word p s \<noteq> 0 \<Longrightarrow> wrote p n (?l a (shift_word p s)) p' \<and> m_flags p' = m_flags (?c a (shift_word p s))"
    by (rule alu_rotate [OF assms, of ?c Diana_Call_rol ?l], rule c)
       (simp_all add: Diana_Call_rol_def di_simps Let_def split_def del: Di_rol_loop.simps
         split del: if_split cong del: if_weak_cong flip: shift_word_def)
  have z: "shift_count p s = 0 \<longleftrightarrow> shift_word p s = 0"
    by (simp add: shift_count_def word_unat_eq_iff)
  show ?thesis
  proof (rule that [OF x(1,2,5,6) _ refl])
    show "wrote p n (Di_rol_loop (shift_count p s) ?M a) p'"
      using x(7,8) z by (cases "shift_word p s = 0") (simp_all add: shift_count_def)
    show "DianaProcessor_QueryFlag p' DI_FLAG_CF = bit (Di_rol_loop (shift_count p s) ?M a) 0" if "shift_count p s \<noteq> 0"
      using QueryFlag_cong [OF conjunct2 [OF x(8)], of DI_FLAG_CF] that z low_bit [of "?l a (shift_word p s)"] by (auto simp: shift_count_def)
    show "DianaProcessor_QueryFlag p' g = DianaProcessor_QueryFlag p g" if "1 AND g = 0" "0x800 AND g = 0" for g
      using QueryFlag_cong [OF conjunct2 [OF x(8)], of g] QueryFlag_cong [OF conjunct2 [OF x(7)], of g] that
      by (cases "shift_word p s = 0") auto
  qed (use x(7) z in auto)
qed

lemma ror_Ok:
  assumes "attached p" "alu_dest mapped p n" "operand_rd mapped p 1 m"
  obtains a s r p' where "DI_MEM_GET 0 p = Ok (a, n) p" "DI_MEM_GET 1 p = Ok (s, m) p"
    "Diana_Call_ror p = Ok () p'" "attached p'" "wrote p n r p'" "r = Di_ror_loop (shift_count p s) (DianaProcessor_GetSignMask n) a"
    "shift_count p s = 0 \<Longrightarrow> m_flags p' = m_flags p"
    "shift_count p s \<noteq> 0 \<Longrightarrow> DianaProcessor_QueryFlag p' DI_FLAG_CF = bit r (bits_of n - 1)"
    "\<And>g. 1 AND g = 0 \<Longrightarrow> 0x800 AND g = 0 \<Longrightarrow> DianaProcessor_QueryFlag p' g = DianaProcessor_QueryFlag p g"
proof -
  let ?M = "DianaProcessor_GetSignMask n" and ?q = "DianaProcessor_ClearFlag DI_FLAG_CF (DianaProcessor_ClearFlag DI_FLAG_OF p)"
  let ?l = "\<lambda>a w. Di_ror_loop (unat w) ?M a"
  let ?c = "\<lambda>a w. (if w = 1 then set_flag_if ((?l a w AND ?M \<noteq> 0) \<noteq> (?l a w AND drop_bit 1 ?M \<noteq> 0)) DI_FLAG_OF else (\<lambda>p. p))
      (set_flag_if (?l a w AND ?M \<noteq> 0) DI_FLAG_CF ?q)"
  have c: "same_but_flags p (?c a w)" for a w
    by (simp add: same_but_flags_steps)
  obtain a s p' where x: "DI_MEM_GET 0 p = Ok (a, n) p" "DI_MEM_GET 1 p = Ok (s, m) p" "fits n a" "valid_size n"
    "Diana_Call_ror p = Ok () p'" "attached p'" "shift_word p s = 0 \<Longrightarrow> wrote p n a p' \<and> m_flags p' = m_flags p"
    "shift_word p s \<noteq> 0 \<Longrightarrow> wrote p n (?l a (shift_word p s)) p' \<and> m_flags p' = m_flags (?c a (shift_word p s))"
    by (rule alu_rotate [OF assms, of ?c Diana_Call_ror ?l], rule c)
       (simp_all add: Diana_Call_ror_def di_simps Let_def split_def del: Di_ror_loop.simps
         split del: if_split cong del: if_weak_cong flip: shift_word_def)
  have z: "shift_count p s = 0 \<longleftrightarrow> shift_word p s = 0"
    by (simp add: shift_count_def word_unat_eq_iff)
  show ?thesis
  proof (rule that [OF x(1,2,5,6) _ refl])
    show "wrote p n (Di_ror_loop (shift_count p s) ?M a) p'"
      using x(7,8) z by (cases "shift_word p s = 0") (simp_all add: shift_count_def)
    show "DianaProcessor_QueryFlag p' DI_FLAG_CF = bit (Di_ror_loop (shift_count p s) ?M a) (bits_of n - 1)" if "shift_count p s \<noteq> 0"
      using QueryFlag_cong [OF conjunct2 [OF x(8)], of DI_FLAG_CF] that z sign_mask_bit [OF x(4), of "?l a (shift_word p s)"]
      by (auto simp: shift_count_def)
    show "DianaProcessor_QueryFlag p' g = DianaProcessor_QueryFlag p g" if "1 AND g = 0" "0x800 AND g = 0" for g
      using QueryFlag_cong [OF conjunct2 [OF x(8)], of g] QueryFlag_cong [OF conjunct2 [OF x(7)], of g] that
      by (cases "shift_word p s = 0") auto
  qed (use x(7) z in auto)
qed

end

end
