(* ===== verification/Cmd_S.thy ===== *)
theory Cmd_S
  imports Cmd_Conditions
begin

unbundle bit_operations_syntax

text \<open>
  The handlers of \<^verbatim>\<open>diana_processor_cmd_s.c\<close>: sahf and the conditional sets.
\<close>

section \<open>Flags from AH\<close>

definition Diana_Call_sahf :: "(unit, 'm) di_cmd" where
  "Diana_Call_sahf =
     DI_DO (\<lambda>p. p\<lparr>m_flags := (m_flags p AND NOT 0xFF) OR take_bit 8 (GET_REG reg_AH p)\<rparr>) (
     DI_DO DianaProcessor_SetResetDefaultFlags
     DI_PROC_END)"

section \<open>Conditional sets\<close>

definition Diana_Call_setcc :: "u64 \<Rightarrow> (unit, 'm) di_cmd" where
  "Diana_Call_setcc op =
     DI_CHECK (DI_MEM_GET 0) (\<lambda>(dest, dest_size).
     DI_CHECK (DI_MEM_SET 0 op) (\<lambda>_.
     DI_PROC_END))"

definition Diana_Call_seta :: "(unit, 'm) di_cmd" where
  "Diana_Call_seta = DI_LET cond_a (\<lambda>c. if c then Diana_Call_setcc 1 else Diana_Call_setcc 0)"

definition Diana_Call_setae :: "(unit, 'm) di_cmd" where
  "Diana_Call_setae = DI_LET cond_ae (\<lambda>c. if c then Diana_Call_setcc 1 else Diana_Call_setcc 0)"

definition Diana_Call_setb :: "(unit, 'm) di_cmd" where
  "Diana_Call_setb = DI_LET cond_b (\<lambda>c. if c then Diana_Call_setcc 1 else Diana_Call_setcc 0)"

definition Diana_Call_setbe :: "(unit, 'm) di_cmd" where
  "Diana_Call_setbe = DI_LET cond_be (\<lambda>c. if c then Diana_Call_setcc 1 else Diana_Call_setcc 0)"

definition Diana_Call_sete :: "(unit, 'm) di_cmd" where
  "Diana_Call_sete = DI_LET cond_e (\<lambda>c. if c then Diana_Call_setcc 1 else Diana_Call_setcc 0)"

definition Diana_Call_setg :: "(unit, 'm) di_cmd" where
  "Diana_Call_setg = DI_LET cond_g (\<lambda>c. if c then Diana_Call_setcc 1 else Diana_Call_setcc 0)"

definition Diana_Call_setge :: "(unit, 'm) di_cmd" where
  "Diana_Call_setge = DI_LET cond_ge (\<lambda>c. if c then Diana_Call_setcc 1 else Diana_Call_setcc 0)"

definition Diana_Call_setl :: "(unit, 'm) di_cmd" where
  "Diana_Call_setl = DI_LET cond_l (\<lambda>c. if c then Diana_Call_setcc 1 else Diana_Call_setcc 0)"

definition Diana_Call_setle :: "(unit, 'm) di_cmd" where
  "Diana_Call_setle = DI_LET cond_le (\<lambda>c. if c then Diana_Call_setcc 1 else Diana_Call_setcc 0)"

definition Diana_Call_setne :: "(unit, 'm) di_cmd" where
  "Diana_Call_setne = DI_LET cond_ne (\<lambda>c. if c then Diana_Call_setcc 1 else Diana_Call_setcc 0)"

definition Diana_Call_setno :: "(unit, 'm) di_cmd" where
  "Diana_Call_setno = DI_LET cond_no (\<lambda>c. if c then Diana_Call_setcc 1 else Diana_Call_setcc 0)"

definition Diana_Call_setnp :: "(unit, 'm) di_cmd" where
  "Diana_Call_setnp = DI_LET cond_np (\<lambda>c. if c then Diana_Call_setcc 1 else Diana_Call_setcc 0)"

definition Diana_Call_setns :: "(unit, 'm) di_cmd" where
  "Diana_Call_setns = DI_LET cond_ns (\<lambda>c. if c then Diana_Call_setcc 1 else Diana_Call_setcc 0)"

definition Diana_Call_seto :: "(unit, 'm) di_cmd" where
  "Diana_Call_seto = DI_LET cond_o (\<lambda>c. if c then Diana_Call_setcc 1 else Diana_Call_setcc 0)"

definition Diana_Call_setp :: "(unit, 'm) di_cmd" where
  "Diana_Call_setp = DI_LET cond_p (\<lambda>c. if c then Diana_Call_setcc 1 else Diana_Call_setcc 0)"

definition Diana_Call_sets :: "(unit, 'm) di_cmd" where
  "Diana_Call_sets = DI_LET cond_s (\<lambda>c. if c then Diana_Call_setcc 1 else Diana_Call_setcc 0)"

section \<open>Frame\<close>

lemma keeps_setcc [keeps_intros]:
  "keeps kept (Diana_Call_setcc v)"
  unfolding Diana_Call_setcc_def
  by (intro keeps_intros)+

lemma keeps_sets [keeps_intros]:
  "keeps kept Diana_Call_seta"
  "keeps kept Diana_Call_setae"
  "keeps kept Diana_Call_setb"
  "keeps kept Diana_Call_setbe"
  "keeps kept Diana_Call_sete"
  "keeps kept Diana_Call_setg"
  "keeps kept Diana_Call_setge"
  "keeps kept Diana_Call_setl"
  "keeps kept Diana_Call_setle"
  "keeps kept Diana_Call_setne"
  "keeps kept Diana_Call_setno"
  "keeps kept Diana_Call_setnp"
  "keeps kept Diana_Call_setns"
  "keeps kept Diana_Call_seto"
  "keeps kept Diana_Call_setp"
  "keeps kept Diana_Call_sets"
  unfolding Diana_Call_seta_def
    Diana_Call_setae_def
    Diana_Call_setb_def
    Diana_Call_setbe_def
    Diana_Call_sete_def
    Diana_Call_setg_def
    Diana_Call_setge_def
    Diana_Call_setl_def
    Diana_Call_setle_def
    Diana_Call_setne_def
    Diana_Call_setno_def
    Diana_Call_setnp_def
    Diana_Call_setns_def
    Diana_Call_seto_def
    Diana_Call_setp_def
    Diana_Call_sets_def
  by (intro keeps_intros)+

lemma keeps_Cmd_S [keeps_intros]:
  "keeps kept Diana_Call_sahf"
  unfolding Diana_Call_sahf_def
  by (intro keeps_intros)+

end
