(* ===== verification/Cmd_Misc.thy ===== *)
theory Cmd_Misc
  imports Cmd_Conditions
begin

unbundle bit_operations_syntax

text \<open>
  The handlers that \<^verbatim>\<open>diana_processor_commands.c\<close> holds itself: the rest of the logic and arithmetic, exchanges,
  returns and stack frames.
\<close>

section \<open>Logic and arithmetic\<close>

definition Diana_Call_xor :: "(unit, 'm) di_cmd" where
  "Diana_Call_xor =
     DI_CHECK (DI_MEM_GET 0) (\<lambda>(dest, dest_size).
     DI_CHECK (DI_MEM_GET 1) (\<lambda>(src, src_size).
     DI_CHECK (DianaProcessor_SignExtend src src_size dest_size) (\<lambda>src.
     DI_DO (DianaProcessor_ClearFlag DI_FLAG_CF) (
     DI_DO (DianaProcessor_ClearFlag DI_FLAG_OF) (
     let dest = dest XOR src in
     DI_CHECK (Di_CheckZeroExtends dest src_size) (\<lambda>dest.
     DI_UPDATE_FLAGS_PSZ (DI_MEM_SET 0 dest) (\<lambda>_.
     DI_PROC_END)))))))"

definition Diana_Call_xadd :: "(unit, 'm) di_cmd" where
  "Diana_Call_xadd =
     DI_CHECK (DI_MEM_GET 0) (\<lambda>(dest, dest_size).
     DI_CHECK (DI_MEM_GET 1) (\<lambda>(src, src_size).
     let temp = dest; addend = src in
     DI_DO DI_START_UPDATE_COA_FLAGS (
     let oldDestValue = dest; dest = dest + src; src = temp in
     DI_CHECK (Di_CheckZeroExtends dest src_size) (\<lambda>dest.
     DI_CHECK (Di_CheckZeroExtends2 src dest_size) (\<lambda>src.
     DI_DO (DianaProcessor_SetCOA_Add oldDestValue dest addend dest_size (DI_FLAG_CF OR DI_FLAG_OF OR DI_FLAG_AF)) (
     DI_CHECK (DI_MEM_SET 1 src) (\<lambda>_.
     DI_UPDATE_FLAGS_PSZ (DI_MEM_SET 0 dest) (\<lambda>_.
     DI_PROC_END))))))))"

definition Diana_Call_xchg :: "(unit, 'm) di_cmd" where
  "Diana_Call_xchg =
     DI_CHECK (DI_MEM_GET 0) (\<lambda>(dest, dest_size).
     DI_CHECK (DI_MEM_GET 1) (\<lambda>(src, src_size).
     let temp = dest; dest = src; src = temp in
     DI_CHECK (Di_CheckZeroExtends dest src_size) (\<lambda>dest.
     DI_CHECK (Di_CheckZeroExtends2 src dest_size) (\<lambda>src.
     DI_CHECK (DI_MEM_SET 0 dest) (\<lambda>_.
     DI_CHECK (DI_MEM_SET 1 src) (\<lambda>_.
     DI_PROC_END))))))"

definition Diana_Call_test :: "(unit, 'm) di_cmd" where
  "Diana_Call_test =
     DI_CHECK (DI_MEM_GET 0) (\<lambda>(dest, dest_size).
     DI_CHECK (DI_MEM_GET 1) (\<lambda>(src, src_size).
     let dest = dest AND src in
     DI_DO (DianaProcessor_ClearFlag DI_FLAG_CF) (
     DI_DO (DianaProcessor_ClearFlag DI_FLAG_OF) (
     DI_DO (\<lambda>p. DianaProcessor_UpdatePSZ dest (usedSize (linked p 0)) p) (
     DI_DO (DianaProcessor_ClearFlag DI_FLAG_AF)
     DI_PROC_END)))))"

definition Diana_Call_inc :: "(unit, 'm) di_cmd" where
  "Diana_Call_inc =
     DI_CHECK (DI_MEM_GET 0) (\<lambda>(dest, dest_size).
     let src = 1 in
     DI_DO DI_START_UPDATE_OA_FLAGS (
     let oldDestValue = dest; dest = dest + src in
     DI_DO (DianaProcessor_SetCOA_Add oldDestValue dest src dest_size (DI_FLAG_OF OR DI_FLAG_AF)) (
     DI_UPDATE_FLAGS_PSZ (DI_MEM_SET 0 dest) (\<lambda>_.
     DI_PROC_END))))"

definition Diana_Call_or :: "(unit, 'm) di_cmd" where
  "Diana_Call_or =
     DI_CHECK (DI_MEM_GET 0) (\<lambda>(dest, dest_size).
     DI_CHECK (DI_MEM_GET 1) (\<lambda>(src, src_size).
     DI_CHECK (DianaProcessor_SignExtend src src_size dest_size) (\<lambda>src.
     let dest = dest OR src in
     DI_CHECK (Di_CheckZeroExtends dest src_size) (\<lambda>dest.
     DI_DO (DianaProcessor_ClearFlag DI_FLAG_CF) (
     DI_DO (DianaProcessor_ClearFlag DI_FLAG_OF) (
     DI_UPDATE_FLAGS_PSZ (DI_MEM_SET 0 dest) (\<lambda>_.
     DI_DO (DianaProcessor_ClearFlag DI_FLAG_AF)
     DI_PROC_END)))))))"

section \<open>Returns and stack frames\<close>

definition Diana_Call_ret :: "(unit, 'm) di_cmd" where
  "Diana_Call_ret = Diana_Call_internal_ret False"

definition Diana_Call_retf :: "(unit, 'm) di_cmd" where
  "Diana_Call_retf = Diana_Call_internal_ret True"

text \<open>The loop of enter: \<open>k\<close> frame pointers below \<open>tmp\<close> are pushed again.\<close>

fun Di_enter_loop :: "nat \<Rightarrow> u64 \<Rightarrow> u64 \<Rightarrow> (unit, 'm) di_cmd" where
  "Di_enter_loop 0 selector tmp = DI_PROC_END"
| "Di_enter_loop (Suc k) selector tmp =
     DI_LET (\<lambda>p. word_of_int (opsize p)) (\<lambda>osz.
     DI_CHECK (DianaProcessor_GetMemValue selector tmp osz reg_SS) (\<lambda>value.
     DI_CHECK (diana_internal_push value) (\<lambda>_.
     Di_enter_loop k selector (tmp - osz))))"

definition Diana_Call_enter :: "(unit, 'm) di_cmd" where
  "Diana_Call_enter =
     DI_CHECK (DI_MEM_GET 0) (\<lambda>(op1, op1_size).
     DI_CHECK (DI_MEM_GET 1) (\<lambda>(op2, op2_size).
     DI_DO (\<lambda>p. if iAMD64Mode (m_context p) \<noteq> 0 then p\<lparr>m_context := (m_context p)\<lparr>iCurrentCmd_opsize := 8\<rparr>\<rparr> else p) (
     DI_LET (\<lambda>p. GET_REG2 reg_RBP (opsize p) p) (\<lambda>rbp.
     DI_CHECK (diana_internal_push rbp) (\<lambda>_.
     DI_LET (\<lambda>p. GET_REG2 reg_RSP (opsize p) p) (\<lambda>tempRBP.
     let op2 = op2 AND 0x1F in
     DI_CHECK
       (if op2 > 0 then
          DI_LET (\<lambda>p. (GET_REG reg_SS p, word_of_int (opsize p))) (\<lambda>(selector, osz).
          DI_CHECK (Di_enter_loop (unat op2 - 1) selector (rbp - osz)) (\<lambda>_.
          diana_internal_push tempRBP))
        else DI_PROC_END) (\<lambda>_.
     DI_DO (\<lambda>p. SET_REG2 reg_RBP tempRBP (opsize p) p) (
     DI_DO (\<lambda>p. SET_REG2 reg_RSP (GET_REG2 reg_RSP (opsize p) p - op1) (opsize p) p)
     DI_PROC_END))))))))"

section \<open>Tables and control registers\<close>

definition Diana_Call_xlat :: "(unit, 'm) di_cmd" where
  "Diana_Call_xlat =
     DI_LET (\<lambda>p. (GET_REG2 reg_RBX (addrsize p) p, GET_REG reg_AL p, GET_REG reg_DS p)) (\<lambda>(dest, al, ds).
     let dest = dest + al in
     DI_CHECK (DianaProcessor_GetMemValue ds dest 1 reg_DS) (\<lambda>result.
     DI_DO (SET_REG reg_AL result)
     DI_PROC_END))"

definition Diana_Call_smsw :: "(unit, 'm) di_cmd" where
  "Diana_Call_smsw =
     DI_LET (\<lambda>p. op_value (linked p 0)) (\<lambda>operand.
     case operand of
       diana_index ix \<Rightarrow>
         DI_CHECK (DI_MEM_GET 0) (\<lambda>(src_dest, src_dest_size).
         DI_LET (\<lambda>p. GET_REG reg_CR0 p AND 0xFFFF) (\<lambda>src_dest.
         DI_CHECK (DI_MEM_SET 0 src_dest) (\<lambda>_.
         DI_PROC_END)))
     | diana_register r \<Rightarrow>
         DI_CHECK (DI_MEM_GET 0) (\<lambda>(src_dest, src_dest_size).
         DI_LET (\<lambda>p. (src_dest AND NOT 0xFFFF) OR (GET_REG reg_CR0 p AND 0xFFFF)) (\<lambda>src_dest.
         DI_CHECK (DI_MEM_SET 0 src_dest) (\<lambda>_.
         DI_PROC_END)))
     | _ \<Rightarrow> DI_FAIL DI_ERROR)"

definition Diana_Call_do_nothing :: "(unit, 'm) di_cmd" where
  "Diana_Call_do_nothing = DI_PROC_END"

section \<open>Frame\<close>

lemma keeps_enter_loop [keeps_intros]: "keeps kept (Di_enter_loop k s t)"
proof (induction k arbitrary: t)
  case 0
  show ?case by (simp add: kept.keeps_END)
next
  case (Suc k)
  note [keeps_intros] = Suc
  show ?case unfolding Di_enter_loop.simps by (intro keeps_intros)
qed

lemma keeps_Cmd_Misc [keeps_intros]:
  "keeps kept Diana_Call_xor"
  "keeps kept Diana_Call_xadd"
  "keeps kept Diana_Call_xchg"
  "keeps kept Diana_Call_test"
  "keeps kept Diana_Call_inc"
  "keeps kept Diana_Call_or"
  "keeps kept Diana_Call_ret"
  "keeps kept Diana_Call_retf"
  "keeps kept Diana_Call_enter"
  "keeps kept Diana_Call_xlat"
  "keeps kept Diana_Call_smsw"
  "keeps kept Diana_Call_do_nothing"
  unfolding Diana_Call_xor_def
    Diana_Call_xadd_def
    Diana_Call_xchg_def
    Diana_Call_test_def
    Diana_Call_inc_def
    Diana_Call_or_def
    Diana_Call_ret_def
    Diana_Call_retf_def
    Diana_Call_enter_def
    Diana_Call_xlat_def
    Diana_Call_smsw_def
    Diana_Call_do_nothing_def
  by (intro keeps_intros)+

section \<open>Correctness\<close>

context memory_stream
begin

lemma inc_Ok:
  assumes "attached p" "alu_dest mapped p n"
  obtains a p' where "DI_MEM_GET 0 p = Ok (a, n) p" "fits n a" "Diana_Call_inc p = Ok () p'" "attached p'" "wrote p n (a + 1) p'"
    "arith_flags n (a + 1) (DianaProcessor_QueryFlag p DI_FLAG_CF) (overflow_flag n (sval n a + 1)) (half_carry_add a 1 0) p p'"
proof -
  let ?s = "DI_START_UPDATE_OA_FLAGS p"
  let ?f = "\<lambda>a. set_COA False (overflow_flag n (sval n a + 1)) (half_carry_add a 1 0) ?s"
  obtain a p' where x: "DI_MEM_GET 0 p = Ok (a, n) p" "fits n a" "Diana_Call_inc p = Ok () p'"
    "attached p'" "wrote p n (a + 1) p'" "psz_written n (a + 1) (?f a) p'"
    by (rule alu_unary [OF assms same_but_flags_START(2), of ?f "\<lambda>a q. q" "\<lambda>a. a + 1" Diana_Call_inc])
       (simp_all add: Diana_Call_inc_def di_simps SetCOA_OA_eq [simplified] fits_small sval_small Let_def)
  have "arith_flags n (a + 1) (DianaProcessor_QueryFlag p DI_FLAG_CF) (overflow_flag n (sval n a + 1)) (half_carry_add a 1 0) p p'"
    by (rule arith_flagsI [OF x(6)]) simp_all
  with x(1-5) show ?thesis
    by (rule that)
qed

lemma or_Ok:
  assumes "attached p" "alu_ready mapped p n m"
  obtains a b p' where "operands p n m a b" "Diana_Call_or p = Ok () p'" "attached p'" "wrote p n (a OR b) p'"
    "arith_flags n (a OR b) False False False p p'"
proof -
  let ?f = "\<lambda>q. DianaProcessor_ClearFlag DI_FLAG_OF (DianaProcessor_ClearFlag DI_FLAG_CF q)"
  let ?g = "DianaProcessor_ClearFlag DI_FLAG_AF"
  have f: "same_but_flags q (?f q)" for q :: "'m DianaProcessor"
    by (simp add: same_but_flags_steps)
  obtain a b q p' where x: "operands p n m a b" "Diana_Call_or p = Ok () (?g p')"
    "attached (?g p')" "wrote p n (a OR b) (?g p')" "m_flags q = m_flags p" "psz_written n (a OR b) (?f q) p'"
    by (rule alu_binary [OF assms same_but_flags_refl f, of ?g "(OR)" Diana_Call_or])
       (simp_all add: Diana_Call_or_def di_simps Let_def)
  have "arith_flags n (a OR b) False False False p (?g p')"
    using psz_writtenD [OF x(6)] and_parts by (simp add: arith_flags_def QueryFlag_cong [OF x(5)])
  with x(1-4) show ?thesis
    by (rule that)
qed

text \<open>xor leaves AF as it was.\<close>

lemma xor_Ok:
  assumes "attached p" "alu_ready mapped p n m"
  obtains a b p' where "operands p n m a b" "Diana_Call_xor p = Ok () p'" "attached p'" "wrote p n (a XOR b) p'"
    "arith_flags n (a XOR b) False False (DianaProcessor_QueryFlag p DI_FLAG_AF) p p'"
proof -
  let ?s = "DianaProcessor_ClearFlag DI_FLAG_OF (DianaProcessor_ClearFlag DI_FLAG_CF p)"
  have s: "same_but_flags p ?s"
    by (simp add: same_but_flags_steps)
  obtain a b q p' where x: "operands p n m a b" "Diana_Call_xor p = Ok () p'"
    "attached p'" "wrote p n (a XOR b) p'" "m_flags q = m_flags ?s" "psz_written n (a XOR b) q p'"
    by (rule alu_binary [OF assms s, of "\<lambda>a b q. q" "\<lambda>q. q" "(XOR)" Diana_Call_xor])
       (simp_all add: Diana_Call_xor_def di_simps Let_def)
  have "arith_flags n (a XOR b) False False (DianaProcessor_QueryFlag p DI_FLAG_AF) p p'"
    by (rule arith_flagsI [OF x(6)]) (simp_all add: QueryFlag_cong [OF x(5)])
  with x(1-4) show ?thesis
    by (rule that)
qed

end

end
