(* ===== verification/Cmd_Ext.thy ===== *)
theory Cmd_Ext
  imports Cmd_B Int128
begin

unbundle bit_operations_syntax

text \<open>
  The handlers of \<^verbatim>\<open>diana_processor_cmd_ext.c\<close>: counting of bits, the bit manipulation extensions BMI1 and BMI2, crc32, movbe and the two carry chains of ADX.  The loops over bits are
  related to the sets and positions of bits they stand for.
\<close>

section \<open>Sizes and flags\<close>

definition Di_SizeMask :: "int \<Rightarrow> u64" where
  "Di_SizeMask sz = (if sz \<ge> 8 then NOT 0 else push_bit (nat (sz * 8)) 1 - 1)"

definition Di_SetZFSF :: "u64 \<Rightarrow> int \<Rightarrow> 'm DianaProcessor \<Rightarrow> 'm DianaProcessor" where
  "Di_SetZFSF value sz p =
     (let p = DianaProcessor_ClearFlag DI_FLAG_ZF p; p = DianaProcessor_ClearFlag DI_FLAG_SF p;
          value = value AND Di_SizeMask sz;
          p = set_flag_if (value = 0) DI_FLAG_ZF p
      in set_flag_if (value AND DianaProcessor_GetSignMask sz \<noteq> 0) DI_FLAG_SF p)"

definition DI_EXT_ARITH_FLAGS_CLEAR :: "'m DianaProcessor \<Rightarrow> 'm DianaProcessor" where
  "DI_EXT_ARITH_FLAGS_CLEAR p =
     DianaProcessor_ClearFlag DI_FLAG_OF (DianaProcessor_ClearFlag DI_FLAG_SF (DianaProcessor_ClearFlag DI_FLAG_ZF
       (DianaProcessor_ClearFlag DI_FLAG_AF (DianaProcessor_ClearFlag DI_FLAG_PF (DianaProcessor_ClearFlag DI_FLAG_CF p)))))"

section \<open>Counting\<close>

definition Diana_Call_endbr32 :: "(unit, 'm) di_cmd" where
  "Diana_Call_endbr32 = DI_PROC_END"

definition Diana_Call_endbr64 :: "(unit, 'm) di_cmd" where
  "Diana_Call_endbr64 = DI_PROC_END"

lemma and_pred_less: "(v :: u64) \<noteq> 0 \<Longrightarrow> unat (v AND (v - 1)) < unat v"
proof -
  assume v: "v \<noteq> 0"
  then have "0 < unat v" by (simp add: unat_gt_0)
  moreover have "unat (v AND (v - 1)) \<le> unat (v - 1)" by (simp add: word_and_le1 flip: word_le_nat_alt)
  ultimately show ?thesis using unat_minus_one [OF v] by linarith
qed

function Di_popcnt_loop :: "u64 \<Rightarrow> u64 \<Rightarrow> u64" where
  "Di_popcnt_loop count value = (if value = 0 then count else Di_popcnt_loop (count + 1) (value AND (value - 1)))"
  by auto
termination by (relation "measure (\<lambda>(_, v). unat v)") (simp_all add: and_pred_less)

declare Di_popcnt_loop.simps [simp del]

definition Diana_Call_popcnt :: "(unit, 'm) di_cmd" where
  "Diana_Call_popcnt =
     DI_CHECK (DI_MEM_GET 0) (\<lambda>(dest, dest_size).
     DI_CHECK (DI_MEM_GET 1) (\<lambda>(src, src_size).
     let count = Di_popcnt_loop 0 (src AND Di_SizeMask src_size) in
     DI_DO DI_EXT_ARITH_FLAGS_CLEAR (
     DI_DO (set_flag_if (src AND Di_SizeMask src_size = 0) DI_FLAG_ZF) (
     DI_CHECK (DI_MEM_SET 0 count) (\<lambda>_. DI_PROC_END)))))"

text \<open>The loops of lzcnt and tzcnt: \<open>k\<close> rounds are left.\<close>

fun Di_lzcnt_loop :: "nat \<Rightarrow> u64 \<Rightarrow> u64 \<Rightarrow> u64 \<Rightarrow> u64" where
  "Di_lzcnt_loop 0 count bit' value = count"
| "Di_lzcnt_loop (Suc k) count bit' value = (if value AND bit' = 0 then Di_lzcnt_loop k (count + 1) (drop_bit 1 bit') value else count)"

fun Di_tzcnt_loop :: "nat \<Rightarrow> u64 \<Rightarrow> u64 \<Rightarrow> u64" where
  "Di_tzcnt_loop 0 count value = count"
| "Di_tzcnt_loop (Suc k) count value = (if drop_bit (unat count) value AND 1 = 0 then Di_tzcnt_loop k (count + 1) value else count)"

definition Di_CountZeros :: "bool \<Rightarrow> (unit, 'm) di_cmd" where
  "Di_CountZeros leading =
     DI_CHECK (DI_MEM_GET 0) (\<lambda>(dest, dest_size).
     DI_CHECK (DI_MEM_GET 1) (\<lambda>(src, src_size).
     let bits = nat (src_size * 8); value = src AND Di_SizeMask src_size;
         count = (if leading then Di_lzcnt_loop bits 0 (push_bit (bits - 1) 1) value else Di_tzcnt_loop bits 0 value) in
     DI_DO (DianaProcessor_ClearFlag DI_FLAG_CF) (
     DI_DO (DianaProcessor_ClearFlag DI_FLAG_ZF) (
     DI_DO (set_flag_if (value = 0) DI_FLAG_CF) (
     DI_DO (set_flag_if (count = 0) DI_FLAG_ZF) (
     DI_CHECK (DI_MEM_SET 0 count) (\<lambda>_. DI_PROC_END)))))))"

definition Diana_Call_lzcnt :: "(unit, 'm) di_cmd" where
  "Diana_Call_lzcnt = Di_CountZeros True"

definition Diana_Call_tzcnt :: "(unit, 'm) di_cmd" where
  "Diana_Call_tzcnt = Di_CountZeros False"

section \<open>Bit manipulation\<close>

definition Diana_Call_andn :: "(unit, 'm) di_cmd" where
  "Diana_Call_andn =
     DI_CHECK (DI_MEM_GET 0) (\<lambda>(dest, dest_size).
     DI_CHECK (DI_MEM_GET 1) (\<lambda>(src1, src1_size).
     DI_CHECK (DI_MEM_GET 2) (\<lambda>(src2, src2_size).
     let dest = NOT src1 AND src2 AND Di_SizeMask dest_size in
     DI_DO (Di_SetZFSF dest dest_size) (
     DI_DO (DianaProcessor_ClearFlag DI_FLAG_CF) (
     DI_DO (DianaProcessor_ClearFlag DI_FLAG_OF) (
     DI_CHECK (DI_MEM_SET 0 dest) (\<lambda>_. DI_PROC_END)))))))"

definition Diana_Call_bextr :: "(unit, 'm) di_cmd" where
  "Diana_Call_bextr =
     DI_CHECK (DI_MEM_GET 0) (\<lambda>(dest, dest_size).
     DI_CHECK (DI_MEM_GET 1) (\<lambda>(src, src_size).
     DI_CHECK (DI_MEM_GET 2) (\<lambda>(control, control_size).
     let bits = nat (dest_size * 8); start = unat (control AND 0xFF); len = unat (drop_bit 8 control AND 0xFF);
         src = src AND Di_SizeMask dest_size;
         dest = (if start < bits then drop_bit start src else 0);
         dest = (if len < bits then dest AND (push_bit len 1 - 1) else dest) in
     DI_DO (Di_SetZFSF dest dest_size) (
     DI_DO (DianaProcessor_ClearFlag DI_FLAG_CF) (
     DI_DO (DianaProcessor_ClearFlag DI_FLAG_OF) (
     DI_CHECK (DI_MEM_SET 0 dest) (\<lambda>_. DI_PROC_END)))))))"

datatype DiBlsOperation = DI_BLSI | DI_BLSMSK | DI_BLSR

definition Di_Bls :: "DiBlsOperation \<Rightarrow> (unit, 'm) di_cmd" where
  "Di_Bls operation =
     DI_CHECK (DI_MEM_GET 0) (\<lambda>(dest, dest_size).
     DI_CHECK (DI_MEM_GET 1) (\<lambda>(src, src_size).
     let mask' = Di_SizeMask dest_size; src = src AND mask';
         dest = (case operation of DI_BLSI \<Rightarrow> (0 - src) AND src | DI_BLSMSK \<Rightarrow> (src - 1) XOR src | DI_BLSR \<Rightarrow> (src - 1) AND src) AND mask' in
     DI_DO (Di_SetZFSF dest dest_size) (
     DI_DO (DianaProcessor_ClearFlag DI_FLAG_OF) (
     DI_DO (DianaProcessor_ClearFlag DI_FLAG_CF) (
     DI_DO (set_flag_if (if operation = DI_BLSI then src \<noteq> 0 else src = 0) DI_FLAG_CF) (
     DI_DO (if operation = DI_BLSMSK then DianaProcessor_ClearFlag DI_FLAG_ZF else (\<lambda>p. p)) (
     DI_CHECK (DI_MEM_SET 0 dest) (\<lambda>_. DI_PROC_END))))))))"

definition Diana_Call_blsi :: "(unit, 'm) di_cmd" where
  "Diana_Call_blsi = Di_Bls DI_BLSI"

definition Diana_Call_blsmsk :: "(unit, 'm) di_cmd" where
  "Diana_Call_blsmsk = Di_Bls DI_BLSMSK"

definition Diana_Call_blsr :: "(unit, 'm) di_cmd" where
  "Diana_Call_blsr = Di_Bls DI_BLSR"

definition Diana_Call_bzhi :: "(unit, 'm) di_cmd" where
  "Diana_Call_bzhi =
     DI_CHECK (DI_MEM_GET 0) (\<lambda>(dest, dest_size).
     DI_CHECK (DI_MEM_GET 1) (\<lambda>(src, src_size).
     DI_CHECK (DI_MEM_GET 2) (\<lambda>(control, control_size).
     let bits = nat (dest_size * 8); index' = unat (control AND 0xFF);
         dest = src AND Di_SizeMask dest_size;
         dest = (if index' < bits then dest AND (push_bit index' 1 - 1) else dest) in
     DI_DO (Di_SetZFSF dest dest_size) (
     DI_DO (DianaProcessor_ClearFlag DI_FLAG_OF) (
     DI_DO (DianaProcessor_ClearFlag DI_FLAG_CF) (
     DI_DO (set_flag_if (index' > bits - 1) DI_FLAG_CF) (
     DI_CHECK (DI_MEM_SET 0 dest) (\<lambda>_. DI_PROC_END))))))))"

text \<open>The two halves of an unsigned product.\<close>

definition Di_mulx64 :: "u64 \<Rightarrow> u64 \<Rightarrow> u64 \<times> u64" where
  "Di_mulx64 a b =
     (let aLow = a AND 0xFFFFFFFF; aHigh = drop_bit 32 a; bLow = b AND 0xFFFFFFFF; bHigh = drop_bit 32 b;
          ll = aLow * bLow; lh = aLow * bHigh; hl = aHigh * bLow; hh = aHigh * bHigh;
          middle = drop_bit 32 ll + (lh AND 0xFFFFFFFF) + (hl AND 0xFFFFFFFF);
          low = push_bit 32 middle OR (ll AND 0xFFFFFFFF);
          high = hh + drop_bit 32 lh + drop_bit 32 hl + drop_bit 32 middle
      in (high, low))"

definition Di_mulx32 :: "u32 \<Rightarrow> u32 \<Rightarrow> u64 \<times> u64" where
  "Di_mulx32 a b = (let product = ucast a * ucast b in (drop_bit 32 product, product AND 0xFFFFFFFF))"

definition Diana_Call_mulx :: "(unit, 'm) di_cmd" where
  "Diana_Call_mulx =
     DI_CHECK (DI_MEM_GET 0) (\<lambda>(high_dest, high_dest_size).
     DI_CHECK (DI_MEM_GET 1) (\<lambda>(low_dest, low_dest_size).
     DI_CHECK (DI_MEM_GET 2) (\<lambda>(src, src_size).
     DI_LET (\<lambda>p. if high_dest_size = 8 then Di_mulx64 (GET_REG reg_RDX p) src else Di_mulx32 (ucast (GET_REG reg_EDX p)) (ucast src)) (\<lambda>(high, low).
     DI_CHECK (DI_MEM_SET 1 low) (\<lambda>_.
     DI_CHECK (DI_MEM_SET 0 high) (\<lambda>_. DI_PROC_END))))))"

text \<open>The loop of pdep and pext: \<open>r\<close> rounds are left, \<open>bit'\<close> runs over the mask and \<open>k\<close> over the packed bits.\<close>

fun Di_deposit_loop :: "nat \<Rightarrow> bool \<Rightarrow> u64 \<Rightarrow> u64 \<Rightarrow> u64 \<Rightarrow> u64 \<Rightarrow> u64 \<Rightarrow> u64" where
  "Di_deposit_loop 0 deposit mask' src bit' k result = result"
| "Di_deposit_loop (Suc r) deposit mask' src bit' k result =
     (if mask' AND bit' = 0 then Di_deposit_loop r deposit mask' src (push_bit 1 bit') k result
      else Di_deposit_loop r deposit mask' src (push_bit 1 bit') (push_bit 1 k)
        (if deposit then (if src AND k \<noteq> 0 then result OR bit' else result) else (if src AND bit' \<noteq> 0 then result OR k else result)))"

definition Di_BitsDepositExtract :: "bool \<Rightarrow> (unit, 'm) di_cmd" where
  "Di_BitsDepositExtract deposit =
     DI_CHECK (DI_MEM_GET 0) (\<lambda>(dest, dest_size).
     DI_CHECK (DI_MEM_GET 1) (\<lambda>(src, src_size).
     DI_CHECK (DI_MEM_GET 2) (\<lambda>(mask', mask_size).
     let mask' = mask' AND Di_SizeMask dest_size;
         dest = Di_deposit_loop (nat (dest_size * 8)) deposit mask' src 1 1 0 in
     DI_CHECK (DI_MEM_SET 0 dest) (\<lambda>_. DI_PROC_END))))"

definition Diana_Call_pdep :: "(unit, 'm) di_cmd" where
  "Diana_Call_pdep = Di_BitsDepositExtract True"

definition Diana_Call_pext :: "(unit, 'm) di_cmd" where
  "Diana_Call_pext = Di_BitsDepositExtract False"

definition Diana_Call_rorx :: "(unit, 'm) di_cmd" where
  "Diana_Call_rorx =
     DI_CHECK (DI_MEM_GET 0) (\<lambda>(dest, dest_size).
     DI_CHECK (DI_MEM_GET 1) (\<lambda>(src, src_size).
     DI_CHECK (DI_MEM_GET 2) (\<lambda>(imm, imm_size).
     let bits = nat (dest_size * 8); count = unat (imm AND (of_nat bits - 1));
         src = src AND Di_SizeMask dest_size;
         dest = (if count \<noteq> 0 then (drop_bit count src OR push_bit (bits - count) src) AND Di_SizeMask dest_size else src) in
     DI_CHECK (DI_MEM_SET 0 dest) (\<lambda>_. DI_PROC_END))))"

datatype DiShiftOperation = DI_SARX | DI_SHLX | DI_SHRX

definition Di_ShiftX :: "DiShiftOperation \<Rightarrow> (unit, 'm) di_cmd" where
  "Di_ShiftX operation =
     DI_CHECK (DI_MEM_GET 0) (\<lambda>(dest, dest_size).
     DI_CHECK (DI_MEM_GET 1) (\<lambda>(src, src_size).
     DI_CHECK (DI_MEM_GET 2) (\<lambda>(shift, shift_size).
     let bits = nat (dest_size * 8); count = unat (shift AND (of_nat bits - 1));
         src = src AND Di_SizeMask dest_size;
         dest = (case operation of
             DI_SHLX \<Rightarrow> push_bit count src
           | DI_SHRX \<Rightarrow> drop_bit count src
           | DI_SARX \<Rightarrow> (if count \<noteq> 0 \<and> src AND DianaProcessor_GetSignMask dest_size \<noteq> 0
               then drop_bit count src OR (Di_SizeMask dest_size AND NOT (drop_bit count (Di_SizeMask dest_size))) else drop_bit count src));
         dest = dest AND Di_SizeMask dest_size in
     DI_CHECK (DI_MEM_SET 0 dest) (\<lambda>_. DI_PROC_END))))"

definition Diana_Call_sarx :: "(unit, 'm) di_cmd" where
  "Diana_Call_sarx = Di_ShiftX DI_SARX"

definition Diana_Call_shlx :: "(unit, 'm) di_cmd" where
  "Diana_Call_shlx = Di_ShiftX DI_SHLX"

definition Diana_Call_shrx :: "(unit, 'm) di_cmd" where
  "Diana_Call_shrx = Di_ShiftX DI_SHRX"

section \<open>Checksum, byte order and carry chains\<close>

fun Di_crc32_bits :: "nat \<Rightarrow> u32 \<Rightarrow> u32" where
  "Di_crc32_bits 0 crc = crc"
| "Di_crc32_bits (Suc k) crc = Di_crc32_bits k (drop_bit 1 crc XOR (0x82F63B78 AND (0 - (crc AND 1))))"

fun Di_crc32_loop :: "nat \<Rightarrow> nat \<Rightarrow> u64 \<Rightarrow> u32 \<Rightarrow> u32" where
  "Di_crc32_loop 0 i src crc = crc"
| "Di_crc32_loop (Suc k) i src crc = Di_crc32_loop k (Suc i) src (Di_crc32_bits 8 (crc XOR ucast (drop_bit (i * 8) src AND 0xFF)))"

definition Diana_Call_crc32 :: "(unit, 'm) di_cmd" where
  "Diana_Call_crc32 =
     DI_CHECK (DI_MEM_GET 0) (\<lambda>(dest, dest_size).
     DI_CHECK (DI_MEM_GET 1) (\<lambda>(src, src_size).
     let crc = Di_crc32_loop (nat src_size) 0 src (ucast dest) in
     DI_CHECK (DI_MEM_SET 0 (ucast crc)) (\<lambda>_. DI_PROC_END)))"

fun Di_movbe_loop :: "nat \<Rightarrow> nat \<Rightarrow> nat \<Rightarrow> u64 \<Rightarrow> u64 \<Rightarrow> u64" where
  "Di_movbe_loop 0 i sz src dest = dest"
| "Di_movbe_loop (Suc k) i sz src dest = Di_movbe_loop k (Suc i) sz src (dest OR push_bit ((sz - 1 - i) * 8) (drop_bit (i * 8) src AND 0xFF))"

definition Diana_Call_movbe :: "(unit, 'm) di_cmd" where
  "Diana_Call_movbe =
     DI_CHECK (DI_MEM_GET 0) (\<lambda>(dest, dest_size).
     DI_CHECK (DI_MEM_GET 1) (\<lambda>(src, src_size).
     let dest = Di_movbe_loop (nat dest_size) 0 (nat dest_size) src 0 in
     DI_CHECK (DI_MEM_SET 0 dest) (\<lambda>_. DI_PROC_END)))"

definition Di_AddCarry :: "bool \<Rightarrow> (unit, 'm) di_cmd" where
  "Di_AddCarry overflowFlag =
     DI_CHECK (DI_MEM_GET 0) (\<lambda>(dest, dest_size).
     DI_CHECK (DI_MEM_GET 1) (\<lambda>(src, src_size).
     let mask' = Di_SizeMask dest_size; dest = dest AND mask'; src = src AND mask'; f = (if overflowFlag then DI_FLAG_OF else DI_FLAG_CF) in
     DI_LET (\<lambda>p. DianaProcessor_QueryFlag p f) (\<lambda>carry.
     let sum' = (dest + src + of_bool carry) AND mask'; carry' = (sum' < dest \<or> carry \<and> sum' = dest) in
     DI_DO (DianaProcessor_ClearFlag f) (
     DI_DO (set_flag_if carry' f) (
     DI_CHECK (DI_MEM_SET 0 sum') (\<lambda>_. DI_PROC_END))))))"

definition Diana_Call_adcx :: "(unit, 'm) di_cmd" where
  "Diana_Call_adcx = Di_AddCarry False"

definition Diana_Call_adox :: "(unit, 'm) di_cmd" where
  "Diana_Call_adox = Di_AddCarry True"

section \<open>Frame\<close>

lemma keeps_ext_flags [keeps_intros]: "keeps_fun kept (Di_SetZFSF v n)" "keeps_fun kept DI_EXT_ARITH_FLAGS_CLEAR"
  by (simp_all add: keeps_fun_def Di_SetZFSF_def DI_EXT_ARITH_FLAGS_CLEAR_def Let_def set_flag_if_def DianaProcessor_SetFlag_def DianaProcessor_ClearFlag_def kept_def)

lemma keeps_Cmd_Ext [keeps_intros]:
  "keeps kept Diana_Call_endbr32" "keeps kept Diana_Call_endbr64" "keeps kept Diana_Call_popcnt" "keeps kept Diana_Call_lzcnt" "keeps kept Diana_Call_tzcnt"
  "keeps kept Diana_Call_andn" "keeps kept Diana_Call_bextr" "keeps kept Diana_Call_blsi" "keeps kept Diana_Call_blsmsk" "keeps kept Diana_Call_blsr"
  "keeps kept Diana_Call_bzhi" "keeps kept Diana_Call_mulx" "keeps kept Diana_Call_pdep" "keeps kept Diana_Call_pext" "keeps kept Diana_Call_rorx"
  "keeps kept Diana_Call_sarx" "keeps kept Diana_Call_shlx" "keeps kept Diana_Call_shrx" "keeps kept Diana_Call_crc32" "keeps kept Diana_Call_movbe"
  "keeps kept Diana_Call_adcx" "keeps kept Diana_Call_adox"
  unfolding Diana_Call_endbr32_def Diana_Call_endbr64_def Diana_Call_popcnt_def Diana_Call_lzcnt_def Diana_Call_tzcnt_def Di_CountZeros_def
    Diana_Call_andn_def Diana_Call_bextr_def Diana_Call_blsi_def Diana_Call_blsmsk_def Diana_Call_blsr_def Di_Bls_def Diana_Call_bzhi_def
    Diana_Call_mulx_def Diana_Call_pdep_def Diana_Call_pext_def Di_BitsDepositExtract_def Diana_Call_rorx_def
    Diana_Call_sarx_def Diana_Call_shlx_def Diana_Call_shrx_def Di_ShiftX_def Diana_Call_crc32_def Diana_Call_movbe_def
    Diana_Call_adcx_def Diana_Call_adox_def Di_AddCarry_def
  by (intro keeps_intros)+

section \<open>The lowest bit\<close>

lemma SizeMask_eq: "valid_size n \<Longrightarrow> Di_SizeMask n = mask (bits_of n)"
  by (auto simp: Di_SizeMask_def bits_of_def mask_eq_exp_minus_1 elim!: valid_sizeE)

lemma and_SizeMask: "valid_size n \<Longrightarrow> v AND Di_SizeMask n = take_bit (bits_of n) v"
  by (simp add: SizeMask_eq take_bit_eq_mask)

text \<open>A word around its lowest bit \<open>j\<close>: subtracting one clears it and sets all bits below.\<close>

lemma bit_minus_one:
  assumes "j < 64" "bit (v :: u64) j" "\<And>k. k < j \<Longrightarrow> \<not> bit v k"
  shows "bit (v - 1) i \<longleftrightarrow> i < 64 \<and> (i < j \<or> j < i \<and> bit v i)"
proof -
  define n where "n = Suc j"
  let ?w = "push_bit n (drop_bit n v)"
  have n: "n \<le> k \<longleftrightarrow> j < k" for k by (auto simp: n_def)
  have w: "bit ?w k \<longleftrightarrow> k < 64 \<and> j < k \<and> bit v k" for k by (auto simp: bit_simps n)
  have "v = ?w OR 2 ^ j"
  proof (rule bit_word_eqI)
    fix k
    assume "k < LENGTH(64)"
    then show "bit v k = bit (?w OR 2 ^ j) k"
      using assms w [of k] by (cases k j rule: linorder_cases) (auto simp: bit_or_iff bit_exp_iff possible_bit_word)
  qed
  moreover have "?w AND 2 ^ j = 0" by (rule bit_word_eqI) (auto simp: w bit_and_iff bit_exp_iff possible_bit_word)
  ultimately have "v = ?w + 2 ^ j" by (simp add: disjunctive_add_eq_or)
  moreover have "2 ^ j - 1 = (mask j :: u64)" by (simp add: mask_eq_exp_minus_1)
  ultimately have "v - 1 = ?w + mask j" by (metis add_diff_eq)
  also have "\<dots> = ?w OR mask j" by (rule disjunctive_add_eq_or) (auto intro!: bit_word_eqI simp: w bit_and_iff bit_mask_iff)
  finally show ?thesis using assms(1) by (auto simp: w bit_or_iff bit_mask_iff)
qed

lemma clear_lowest_bit:
  assumes "j < 64" "bit (v :: u64) j" "\<And>k. k < j \<Longrightarrow> \<not> bit v k"
  shows "bit (v AND (v - 1)) i \<longleftrightarrow> bit v i \<and> i \<noteq> j" "(v - 1) XOR v = mask (Suc j)" "(0 - v) AND v = 2 ^ j"
proof -
  note b = bit_minus_one [OF assms]
  show "bit (v AND (v - 1)) i \<longleftrightarrow> bit v i \<and> i \<noteq> j"
    using assms(3) by (auto simp: bit_and_iff b dest: bit_imp_le_length)
  show "(v - 1) XOR v = mask (Suc j)"
    using assms by (intro bit_word_eqI) (auto simp: bit_xor_iff bit_mask_iff b less_Suc_eq)
  have "0 - v = NOT (v - 1)" by (simp add: minus_eq_not_minus_1)
  then show "(0 - v) AND v = 2 ^ j"
    using assms by (intro bit_word_eqI) (auto simp: bit_and_iff bit_not_iff bit_exp_iff possible_bit_word b linorder_neq_iff)
qed

section \<open>Counting\<close>

text \<open>The loop of popcnt counts the bits that are set.\<close>

lemma popcnt_loop_eq: "Di_popcnt_loop c v = c + of_nat (card {i. bit v i})"
proof (induction c v rule: Di_popcnt_loop.induct)
  case (1 c v)
  show ?case
  proof (cases "v = 0")
    case True
    then show ?thesis by (simp add: Di_popcnt_loop.simps [of c 0])
  next
    case False
    obtain j where j: "j < 64" "bit v j" "\<And>k. k < j \<Longrightarrow> \<not> bit v k" using word_lowest_bit [OF False] by blast
    have f: "finite {i. bit v i}" by (rule finite_subset [of _ "{..<64}"]) (auto dest: bit_imp_le_length)
    have "{i. bit (v AND (v - 1)) i} = {i. bit v i} - {j}" using clear_lowest_bit(1) [OF j] by auto
    then have "card {i. bit v i} = Suc (card {i. bit (v AND (v - 1)) i})" using j(2) f by (simp only: card_Suc_Diff1 mem_Collect_eq)
    then show ?thesis using 1 False by (simp add: Di_popcnt_loop.simps [of c v])
  qed
qed

text \<open>The loops of tzcnt and lzcnt count the zero bits up to the first set bit, from below and from above.\<close>

definition zero_count :: "nat \<Rightarrow> bool \<Rightarrow> u64 \<Rightarrow> nat" where
  "zero_count k leading v = length (takeWhile (\<lambda>i. \<not> bit v i) (if leading then rev [0..<k] else [0..<k]))"

lemma and_exp: "(v :: u64) AND 2 ^ i = 0 \<longleftrightarrow> \<not> (i < 64 \<and> bit v i)"
  using mask_bit [of i v] by (simp add: and.commute)

lemma tzcnt_loop_eq:
  "c + k \<le> 64 \<Longrightarrow> Di_tzcnt_loop k (of_nat c) v = of_nat (c + length (takeWhile (\<lambda>i. \<not> bit v i) [c..<c + k]))"
proof (induction k arbitrary: c)
  case (Suc k)
  have u: "unat (of_nat c :: u64) = c" "drop_bit c v AND 1 = 0 \<longleftrightarrow> \<not> bit v c"
    using Suc.prems bit_0 [of "drop_bit c v"] by (simp_all add: unat_of_nat and_one_eq bit_drop_bit_eq even_iff_mod_2_eq_zero)
  have "[c..<c + Suc k] = c # [Suc c..<Suc c + k]" by (simp add: upt_conv_Cons)
  then show ?case using u Suc.IH [of "Suc c"] Suc.prems by (simp add: add.commute)
qed simp

lemma lzcnt_loop_eq:
  "k \<le> 64 \<Longrightarrow> Di_lzcnt_loop k c (2 ^ (k - 1)) v = c + of_nat (length (takeWhile (\<lambda>i. \<not> bit v i) (rev [0..<k])))"
proof (induction k arbitrary: c)
  case (Suc k)
  have "drop_bit 1 (2 ^ k) = (2 ^ (k - 1) :: u64)" if "k \<noteq> 0"
    using that Suc.prems by (intro bit_word_eqI) (auto simp: bit_simps)
  then show ?case using Suc.IH [of "c + 1"] Suc.prems and_exp [of v k] by (cases "k = 0") (auto simp: algebra_simps)
qed simp

lemma count_loops: "k \<le> 64 \<Longrightarrow> (if leading then Di_lzcnt_loop k 0 (push_bit (k - 1) 1) v else Di_tzcnt_loop k 0 v) = of_nat (zero_count k leading v)"
  using tzcnt_loop_eq [of 0 k v] lzcnt_loop_eq [of k 0 v] by (simp add: zero_count_def)

section \<open>Depositing and extracting\<close>

text \<open>The number of bits of a mask below a position: where the bit at that position is packed.\<close>

fun rank :: "u64 \<Rightarrow> nat \<Rightarrow> nat" where
  "rank m 0 = 0"
| "rank m (Suc t) = rank m t + of_bool (bit m t)"

lemma rank_le: "rank m t \<le> t"
  by (induction t) (auto simp: of_bool_def)

lemma rank_mono: "s \<le> t \<Longrightarrow> rank m s \<le> rank m t"
  by (induction t) (auto simp: le_Suc_eq)

lemma rank_less: "s < t \<Longrightarrow> bit m s \<Longrightarrow> rank m s < rank m t"
  using rank_mono [of "Suc s" t m] by simp

lemma rank_inject: "bit m s \<Longrightarrow> bit m t \<Longrightarrow> rank m s = rank m t \<Longrightarrow> s = t"
  by (metis linorder_neqE_nat nat_less_le rank_less)

lemma rank_onto: "j < rank m n \<Longrightarrow> \<exists>t < n. bit m t \<and> rank m t = j"
proof (induction n)
  case (Suc n)
  then show ?case by (cases "bit m n") (auto simp: less_Suc_eq)
qed simp

lemma bit_or_exp: "i < 64 \<Longrightarrow> bit ((v :: u64) OR 2 ^ i) j \<longleftrightarrow> bit v j \<or> j = i"
  by (auto simp: bit_or_iff bit_exp_iff possible_bit_word)

lemma push_exp: "push_bit 1 (2 ^ i) = (2 ^ Suc i :: u64)"
  by simp

lemma deposit_loop_eq:
  assumes "i + r \<le> 64" "\<And>t. bit res t \<Longrightarrow> t < i"
  shows "bit (Di_deposit_loop r True m src (2 ^ i) (2 ^ rank m i) res) t \<longleftrightarrow>
    bit res t \<or> i \<le> t \<and> t < i + r \<and> bit m t \<and> bit src (rank m t)"
  using assms
proof (induction r arbitrary: i res)
  case (Suc r)
  have i: "i < 64" "rank m i < 64" using Suc.prems(1) rank_le [of m i] by simp_all
  show ?case
  proof (cases "bit m i")
    case True
    let ?res = "if src AND 2 ^ rank m i \<noteq> 0 then res OR 2 ^ i else res"
    have b: "bit ?res t \<longleftrightarrow> bit res t \<or> t = i \<and> bit src (rank m i)" for t using i by (auto simp: and_exp bit_or_exp)
    have "t < Suc i" if "bit ?res t" for t using that b [of t] Suc.prems(2) [of t] by auto
    note IH = Suc.IH [of "Suc i" ?res, OF _ this]
    have e: "Di_deposit_loop (Suc r) True m src (2 ^ i) (2 ^ rank m i) res = Di_deposit_loop r True m src (2 ^ Suc i) (2 ^ rank m (Suc i)) ?res"
      using True i by (simp add: and_exp mult.commute)
    show ?thesis unfolding e using IH Suc.prems(1) True b [of t] by (auto simp: Suc_le_eq le_less)
  next
    case False
    have e: "Di_deposit_loop (Suc r) True m src (2 ^ i) (2 ^ rank m i) res = Di_deposit_loop r True m src (2 ^ Suc i) (2 ^ rank m (Suc i)) res"
      using False i by (simp add: and_exp mult.commute)
    have "t < Suc i" if "bit res t" for t using Suc.prems(2) [OF that] by simp
    note IH = Suc.IH [of "Suc i" res, OF _ this]
    show ?thesis unfolding e using IH Suc.prems(1) False by (auto simp: Suc_le_eq le_less)
  qed
qed auto

lemma extract_loop_eq:
  assumes "i + r \<le> 64" "\<And>t. bit res t \<Longrightarrow> t < rank m i"
  shows "bit (Di_deposit_loop r False m src (2 ^ i) (2 ^ rank m i) res) j \<longleftrightarrow>
    bit res j \<or> (\<exists>t. i \<le> t \<and> t < i + r \<and> bit m t \<and> rank m t = j \<and> bit src t)"
  using assms
proof (induction r arbitrary: i res)
  case (Suc r)
  have i: "i < 64" "rank m i < 64" using Suc.prems(1) rank_le [of m i] by simp_all
  have split: "(\<exists>t. i \<le> t \<and> t < i + Suc r \<and> P t) \<longleftrightarrow> P i \<or> (\<exists>t. Suc i \<le> t \<and> t < Suc i + r \<and> P t)" for P
    by (metis Suc_leD Suc_leI add_Suc_right add_Suc le_eq_less_or_eq less_add_Suc1)
  show ?case
  proof (cases "bit m i")
    case True
    let ?res = "if src AND 2 ^ i \<noteq> 0 then res OR 2 ^ rank m i else res"
    have b: "bit ?res t \<longleftrightarrow> bit res t \<or> t = rank m i \<and> bit src i" for t using i by (auto simp: and_exp bit_or_exp)
    have "t < rank m (Suc i)" if "bit ?res t" for t using that b [of t] Suc.prems(2) [of t] True by auto
    note IH = Suc.IH [of "Suc i" ?res, OF _ this]
    have e: "Di_deposit_loop (Suc r) False m src (2 ^ i) (2 ^ rank m i) res = Di_deposit_loop r False m src (2 ^ Suc i) (2 ^ rank m (Suc i)) ?res"
      using True i by (simp add: and_exp mult.commute)
    show ?thesis unfolding e split using IH Suc.prems(1) True b [of j] by auto
  next
    case False
    have e: "Di_deposit_loop (Suc r) False m src (2 ^ i) (2 ^ rank m i) res = Di_deposit_loop r False m src (2 ^ Suc i) (2 ^ rank m (Suc i)) res"
      using False i by (simp add: and_exp mult.commute)
    have "t < rank m (Suc i)" if "bit res t" for t using Suc.prems(2) [OF that] by simp
    note IH = Suc.IH [of "Suc i" res, OF _ this]
    show ?thesis unfolding e split using IH Suc.prems(1) False by auto
  qed
qed auto

text \<open>The values of pdep and pext on operands of \<open>k\<close> bits, and that each undoes the other on the bits of the mask.\<close>

definition deposit_value :: "nat \<Rightarrow> bool \<Rightarrow> u64 \<Rightarrow> u64 \<Rightarrow> u64" where
  "deposit_value k d m src = Di_deposit_loop k d m src 1 1 0"

lemma deposit_bits: "k \<le> 64 \<Longrightarrow> bit (deposit_value k True m src) t \<longleftrightarrow> t < k \<and> bit m t \<and> bit src (rank m t)"
  using deposit_loop_eq [of 0 k 0 m src t] by (simp add: deposit_value_def)

lemma extract_bits: "k \<le> 64 \<Longrightarrow> bit (deposit_value k False m src) j \<longleftrightarrow> (\<exists>t < k. bit m t \<and> rank m t = j \<and> bit src t)"
  using extract_loop_eq [of 0 k 0 m src j] by (simp add: deposit_value_def)

lemma extract_deposit:
  assumes "k \<le> 64"
  shows "deposit_value k False m (deposit_value k True m x) = take_bit (rank m k) x"
proof (rule bit_word_eqI)
  fix j
  show "bit (deposit_value k False m (deposit_value k True m x)) j = bit (take_bit (rank m k) x) j"
    using rank_onto [of j m k] rank_less [of _ k m] by (auto simp: extract_bits [OF assms] deposit_bits [OF assms] bit_take_bit_iff)
qed

lemma deposit_extract:
  assumes "k \<le> 64"
  shows "deposit_value k True m (deposit_value k False m x) = take_bit k (x AND m)"
proof (rule bit_word_eqI)
  fix t
  show "bit (deposit_value k True m (deposit_value k False m x)) t = bit (take_bit k (x AND m)) t"
    using rank_inject [of m] by (auto simp: extract_bits [OF assms] deposit_bits [OF assms] bit_take_bit_iff bit_and_iff)
qed

section \<open>Products and carries\<close>

text \<open>The product assembled from four partial products, without loss; it agrees with the routine that mul uses.\<close>

lemma uint_add_small: "uint (a :: u64) + uint b < 2 ^ 64 \<Longrightarrow> uint (a + b) = uint a + uint b"
  using uint_bounds [of a] uint_bounds [of b] by (simp add: uint_add64)

lemma mulx64_exact:
  assumes "Di_mulx64 a b = (high, low)"
  shows "2 ^ 64 * uint high + uint low = uint a * uint b"
proof -
  define aL aH bL bH where defs: "aL = take_bit 32 a" "aH = drop_bit 32 a" "bL = take_bit 32 b" "bH = drop_bit 32 b"
  define ll lh hl hh where prods: "ll = aL * bL" "lh = aL * bH" "hl = aH * bL" "hh = aH * bH"
  define mid where "mid = drop_bit 32 ll + take_bit 32 lh + take_bit 32 hl"
  have ab: "uint a = uint aL + 2 ^ 32 * uint aH" "uint b = uint bL + 2 ^ 32 * uint bH" unfolding defs by (rule halves(1))+
  have lt: "uint aL < 2 ^ 32" "uint aH < 2 ^ 32" "uint bL < 2 ^ 32" "uint bH < 2 ^ 32" unfolding defs by (rule halves)+
  note up = uint_mult32 [OF lt(1,3)] uint_mult32 [OF lt(1,4)] uint_mult32 [OF lt(2,3)] uint_mult32 [OF lt(2,4)]
  have p: "uint ll = uint aL * uint bL" "uint lh = uint aL * uint bH" "uint hl = uint aH * uint bL" "uint hh = uint aH * uint bH"
    unfolding prods by (rule up)+
  have hl: "high = hh + drop_bit 32 lh + drop_bit 32 hl + drop_bit 32 mid" "low = push_bit 32 mid OR take_bit 32 ll"
    using assms by (simp_all add: Di_mulx64_def Let_def and_mask32 defs prods mid_def)
  have m: "uint mid = uint (drop_bit 32 ll) + uint (take_bit 32 lh) + uint (take_bit 32 hl)"
    unfolding mid_def using halves(2) [of lh] halves(2) [of hl] halves(3) [of ll] by (simp add: uint_add_small)
  have "low = push_bit 32 (take_bit 32 mid) + take_bit 32 ll"
  proof -
    have "push_bit 32 mid = push_bit 32 (take_bit 32 mid)" by (rule bit_word_eqI) (auto simp: bit_simps)
    moreover have "push_bit 32 (take_bit 32 mid) AND take_bit 32 ll = 0" by (rule bit_word_eqI) (auto simp: bit_simps)
    ultimately show ?thesis using hl(2) by (simp add: disjunctive_add_eq_or)
  qed
  moreover have sh: "uint (push_bit 32 (take_bit 32 mid)) = 2 ^ 32 * uint (take_bit 32 mid)"
    using halves(2) [of mid] by (simp add: push_bit_eq_mult uint_word_ariths)
  ultimately have low: "uint low = 2 ^ 32 * uint (take_bit 32 mid) + uint (take_bit 32 ll)"
    using halves(2) [of mid] halves(2) [of ll] by (simp add: uint_add_small)
  have whole: "uint a * uint b = uint ll + 2 ^ 32 * (uint lh + uint hl) + 2 ^ 64 * uint hh"
    unfolding ab p by (simp add: algebra_simps)
  have parts: "uint ll = uint (take_bit 32 ll) + 2 ^ 32 * uint (drop_bit 32 ll)" "uint lh = uint (take_bit 32 lh) + 2 ^ 32 * uint (drop_bit 32 lh)"
    "uint hl = uint (take_bit 32 hl) + 2 ^ 32 * uint (drop_bit 32 hl)" "uint mid = uint (take_bit 32 mid) + 2 ^ 32 * uint (drop_bit 32 mid)"
    by (rule halves(1))+
  let ?h = "uint hh + uint (drop_bit 32 lh) + uint (drop_bit 32 hl) + uint (drop_bit 32 mid)"
  have sum: "uint a * uint b = 2 ^ 64 * ?h + uint low"
    unfolding whole low using parts m by (simp add: algebra_simps)
  have "uint a * uint b < 2 ^ 64 * 2 ^ 64" using uint_bounds [of a] uint_bounds [of b] by (intro mult_strict_mono) simp_all
  then have "2 ^ 64 * ?h < 2 ^ 64 * 2 ^ 64" using sum uint_bounds [of low] by linarith
  then have "?h < 2 ^ 64" by simp
  moreover have nonneg: "0 \<le> uint (drop_bit 32 hl)" "0 \<le> uint (drop_bit 32 mid)" by simp_all
  ultimately have "uint (hh + drop_bit 32 lh) = uint hh + uint (drop_bit 32 lh)" by (intro uint_add_small) linarith
  moreover from this have "uint (hh + drop_bit 32 lh + drop_bit 32 hl) = uint hh + uint (drop_bit 32 lh) + uint (drop_bit 32 hl)"
    using \<open>?h < 2 ^ 64\<close> nonneg(2) by (subst uint_add_small) linarith+
  ultimately have "uint high = ?h" unfolding hl(1) using \<open>?h < 2 ^ 64\<close> by (subst uint_add_small) linarith+
  then show ?thesis using sum by simp
qed

lemma mulx64_is_mul64: "Di_mulx64 a b = (high, low) \<Longrightarrow> val128 (low, high) = val128 (mul64 a b)"
  unfolding mul64_exact using mulx64_exact [of a b high low] by (simp add: val128_def algebra_simps)

text \<open>The carry of adcx and adox.\<close>

lemma mod_once:
  fixes x m :: int
  assumes "0 \<le> x" "x < 2 * m"
  shows "x mod m = (if x < m then x else x - m)"
proof (cases "x < m")
  case False
  then show ?thesis using minus_mod_self2 [of x m] mod_pos_pos_trivial [of "x - m" m] assms by simp
qed (use assms in simp)

lemma carry_out:
  fixes x y z b :: int
  assumes "0 \<le> x" "x < b" "0 \<le> y" "y < b" "z = (if x + y + of_bool c < b then x + y + of_bool c else x + y + of_bool c - b)"
  shows "z + b * of_bool (z < x \<or> c \<and> z = x) = x + y + of_bool c"
  using assms by (cases c) auto

lemma add_carry_eq:
  assumes "valid_size n" "fits n a" "fits n b" "s = take_bit (bits_of n) (a + b + of_bool c)"
  shows "uint s + 2 ^ bits_of n * of_bool (s < a \<or> c \<and> s = a) = uint a + uint b + of_bool c"
proof -
  let ?B = "2 ^ bits_of n :: int"
  have r: "0 \<le> uint a" "uint a < ?B" "0 \<le> uint b" "uint b < ?B" using assms(2,3) by (simp_all add: fits_iff)
  have "uint s = (uint a + uint b + of_bool c) mod ?B"
    using uint_Cut_add [OF assms(1), of a b] uint_Cut_add1 [OF assms(1), of a b] assms(1,4) by (cases c) (simp_all add: CutValue_take_bit)
  also have "\<dots> = (if uint a + uint b + of_bool c < ?B then uint a + uint b + of_bool c else uint a + uint b + of_bool c - ?B)"
    by (rule mod_once) (use r in \<open>cases c; simp\<close>)+
  finally show ?thesis using carry_out [OF r] by (simp add: word_less_def word_uint_eq_iff)
qed

text \<open>movbe moves byte \<open>i\<close> to the mirrored place.\<close>

lemma movbe_loop_eq:
  assumes "i + k = n" "n \<le> 8" "t < 64"
  shows "bit (Di_movbe_loop k i n src dest) t \<longleftrightarrow> bit dest t \<or> (t div 8 < n - i \<and> bit src (8 * (n - 1 - t div 8) + t mod 8))"
  using assms(1)
proof (induction k arbitrary: i dest)
  case 0
  then show ?case by simp
next
  case (Suc k)
  have b: "bit (push_bit ((n - 1 - i) * 8) (drop_bit (i * 8) src AND 0xFF)) t \<longleftrightarrow> t div 8 = n - 1 - i \<and> bit src (8 * i + t mod 8)"
  proof -
    have ff: "(0xFF :: u64) = mask 8" by (simp add: mask_eq_exp_minus_1)
    have "(n - 1 - i) * 8 \<le> t \<and> t - (n - 1 - i) * 8 < 8 \<longleftrightarrow> t div 8 = n - 1 - i" by linarith
    moreover have "8 * i + t mod 8 = i * 8 + (t - (n - 1 - i) * 8)" if "t div 8 = n - 1 - i"
      unfolding that [symmetric] by (simp add: minus_div_mult_eq_mod)
    ultimately show ?thesis using assms(3) by (auto simp: ff bit_push_bit_iff bit_and_iff bit_drop_bit_eq bit_mask_iff)
  qed
  have q: "q < n - i \<longleftrightarrow> q < n - Suc i \<or> q = n - 1 - i" "q = n - 1 - i \<Longrightarrow> n - 1 - q = i" for q using Suc.prems by linarith+
  have "bit (Di_movbe_loop (Suc k) i n src dest) t \<longleftrightarrow>
      (bit dest t \<or> t div 8 = n - 1 - i \<and> bit src (8 * i + t mod 8)) \<or> t div 8 < n - Suc i \<and> bit src (8 * (n - 1 - t div 8) + t mod 8)"
    using Suc.IH [of "Suc i"] Suc.prems by (simp only: Di_movbe_loop.simps bit_or_iff b add_Suc add_Suc_right)
  then show ?case unfolding q(1) using q(2) [of "t div 8"] by metis
qed

section \<open>Correctness\<close>

lemma of_nat_zero: "z < 2 ^ 64 \<Longrightarrow> (of_nat z :: u64) = 0 \<longleftrightarrow> z = 0"
  using unat_of_nat [of z, where 'a = 64] unat_eq_zero [of "of_nat z :: u64"] by simp

text \<open>An instruction with a destination and two sources.\<close>

definition ternary_ready :: "('m \<Rightarrow> u64 \<Rightarrow> u64 \<Rightarrow> nat \<Rightarrow> bool) \<Rightarrow> 'm DianaProcessor \<Rightarrow> int \<Rightarrow> int \<Rightarrow> int \<Rightarrow> bool" where
  "ternary_ready mapped p n k m \<longleftrightarrow> alu_dest mapped p n \<and> operand_rd mapped p 1 k \<and> operand_rd mapped p 2 m"

lemma same_but_flags_ext [simp]: "same_but_flags p (DI_EXT_ARITH_FLAGS_CLEAR p)" "same_but_flags p (Di_SetZFSF v n p)"
  by (simp_all add: DI_EXT_ARITH_FLAGS_CLEAR_def Di_SetZFSF_def Let_def same_but_flags_steps)

lemma fits_take: "fits n b \<Longrightarrow> valid_size n \<Longrightarrow> b AND Di_SizeMask n = b"
  by (simp add: and_SizeMask fits_def)

lemma fits_bit: "fits n b \<Longrightarrow> bit b i \<Longrightarrow> i < bits_of n"
  by (metis bit_take_bit_iff fits_def)

context memory_stream
begin

lemma ternary_fetch:
  assumes "attached p" "ternary_ready mapped p n k m"
  obtains a b c where "DI_MEM_GET 0 p = Ok (a, n) p" "DI_MEM_GET 1 p = Ok (b, k) p" "DI_MEM_GET 2 p = Ok (c, m) p"
    "fits n a" "fits k b" "fits m c" "valid_size n" "valid_size k" "valid_size m"
proof -
  have r: "alu_dest mapped p n" "operand_rd mapped p 1 k" "operand_rd mapped p 2 m" using assms(2) by (simp_all add: ternary_ready_def)
  obtain a where a: "DI_MEM_GET 0 p = Ok (a, n) p" "fits n a" by (rule alu_fetch_dest [OF assms(1) r(1)])
  obtain b where b: "DI_MEM_GET 1 p = Ok (b, k) p" "fits k b" using DI_MEM_GET_Ok [OF assms(1) alu_destD(1) [OF r(1)] r(2)] by metis
  obtain c where c: "DI_MEM_GET 2 p = Ok (c, m) p" "fits m c" using DI_MEM_GET_Ok [OF assms(1) alu_destD(1) [OF r(1)] r(3)] by metis
  show ?thesis by (rule that [OF a(1) b(1) c(1) a(2) b(2) c(2) alu_destD(4) [OF r(1)] operand_rd_size [OF r(2)] operand_rd_size [OF r(3)]])
qed

lemma popcnt_Ok:
  assumes "attached p" "alu_dest mapped p n" "operand_rd mapped p 1 m"
  obtains b p' where "DI_MEM_GET 1 p = Ok (b, m) p" "Diana_Call_popcnt p = Ok () p'" "wrote p n (of_nat (card {i. bit b i})) p'"
    "DianaProcessor_QueryFlag p' DI_FLAG_ZF = (b = 0)" "\<not> DianaProcessor_QueryFlag p' DI_FLAG_CF"
proof -
  obtain a where a: "DI_MEM_GET 0 p = Ok (a, n) p" by (rule alu_fetch_dest [OF assms(1,2)])
  obtain b where b: "DI_MEM_GET 1 p = Ok (b, m) p" "fits m b" using DI_MEM_GET_Ok [OF assms(1) alu_destD(1) [OF assms(2)] assms(3)] by metis
  have m: "b AND Di_SizeMask m = b" by (rule fits_take [OF b(2) operand_rd_size [OF assms(3)]])
  let ?f = "set_flag_if (b = 0) DI_FLAG_ZF (DI_EXT_ARITH_FLAGS_CLEAR p)" and ?v = "Di_popcnt_loop 0 b"
  have "same_but_flags p ?f" by (rule same_but_flags_trans [OF same_but_flags_ext(1) same_but_flags_if(1)])
  then obtain p' where p': "DI_MEM_SET 0 ?v ?f = Ok n p'" "wrote p n ?v p'" "m_flags p' = m_flags ?f" by (rule alu_store_after [OF assms(1,2)])
  show ?thesis
    by (rule that [OF b(1), of p'])
       (use a b m p' QueryFlag_cong [OF p'(3)] in \<open>simp_all add: Diana_Call_popcnt_def di_simps Let_def popcnt_loop_eq DI_EXT_ARITH_FLAGS_CLEAR_def set_flag_if_def\<close>)
qed

lemma CountZeros_Ok:
  assumes "attached p" "alu_dest mapped p n" "operand_rd mapped p 1 m"
  obtains b p' where "DI_MEM_GET 1 p = Ok (b, m) p" "Di_CountZeros leading p = Ok () p'" "wrote p n (of_nat (zero_count (bits_of m) leading b)) p'"
    "DianaProcessor_QueryFlag p' DI_FLAG_CF = (b = 0)" "DianaProcessor_QueryFlag p' DI_FLAG_ZF = (zero_count (bits_of m) leading b = 0)"
proof -
  obtain a where a: "DI_MEM_GET 0 p = Ok (a, n) p" by (rule alu_fetch_dest [OF assms(1,2)])
  obtain b where b: "DI_MEM_GET 1 p = Ok (b, m) p" "fits m b" using DI_MEM_GET_Ok [OF assms(1) alu_destD(1) [OF assms(2)] assms(3)] by metis
  note size = operand_rd_size [OF assms(3)]
  have m: "b AND Di_SizeMask m = b" by (rule fits_take [OF b(2) size])
  have k: "nat (m * 8) = bits_of m" "bits_of m \<le> 64" using valid_bits [OF size] by (simp_all add: bits_of_def nat_mult_distrib mult.commute)
  let ?z = "zero_count (bits_of m) leading b"
  have "?z \<le> bits_of m" by (simp add: zero_count_def) (metis length_takeWhile_le length_rev length_upt minus_nat.diff_0)
  then have "?z < 2 ^ 64" using k(2) by simp
  then have z: "(of_nat ?z :: u64) = 0 \<longleftrightarrow> ?z = 0" by (rule of_nat_zero)
  let ?f = "set_flag_if (?z = 0) DI_FLAG_ZF (set_flag_if (b = 0) DI_FLAG_CF (DianaProcessor_ClearFlag DI_FLAG_ZF (DianaProcessor_ClearFlag DI_FLAG_CF p)))"
  have "same_but_flags p ?f" by (simp add: same_but_flags_steps)
  then obtain p' where p': "DI_MEM_SET 0 (of_nat ?z) ?f = Ok n p'" "wrote p n (of_nat ?z) p'" "m_flags p' = m_flags ?f" by (rule alu_store_after [OF assms(1,2)])
  have "Di_CountZeros leading p = Ok () p'"
    using a b(1) p'(1) z count_loops [OF k(2), of leading b] unfolding Di_CountZeros_def by (cases leading) (simp_all add: di_simps Let_def m k(1))
  then show ?thesis
    by (rule that [OF b(1) _ p'(2)]) (use QueryFlag_cong [OF p'(3)] in \<open>simp_all add: set_flag_if_def\<close>)
qed

lemma BitsDepositExtract_Ok:
  assumes "attached p" "ternary_ready mapped p n k m"
  obtains b c p' where "DI_MEM_GET 1 p = Ok (b, k) p" "DI_MEM_GET 2 p = Ok (c, m) p" "Di_BitsDepositExtract deposit p = Ok () p'"
    "wrote p n (deposit_value (bits_of n) deposit (take_bit (bits_of n) c) b) p'" "m_flags p' = m_flags p"
proof -
  obtain a b c where x: "DI_MEM_GET 0 p = Ok (a, n) p" "DI_MEM_GET 1 p = Ok (b, k) p" "DI_MEM_GET 2 p = Ok (c, m) p" "valid_size n"
    by (rule ternary_fetch [OF assms])
  let ?v = "deposit_value (bits_of n) deposit (take_bit (bits_of n) c) b"
  have d: "alu_dest mapped p n" using assms(2) by (simp add: ternary_ready_def)
  obtain p' where p': "DI_MEM_SET 0 ?v p = Ok n p'" "wrote p n ?v p'" "m_flags p' = m_flags p" by (rule alu_store_after [OF assms(1) d same_but_flags_refl])
  have "nat (n * 8) = bits_of n" using valid_bits [OF x(4)] by (simp add: bits_of_def nat_mult_distrib mult.commute)
  then have "Di_BitsDepositExtract deposit p = Ok () p'"
    using x p'(1) by (simp add: Di_BitsDepositExtract_def di_simps Let_def and_SizeMask deposit_value_def)
  then show ?thesis by (rule that [OF x(2,3) _ p'(2,3)])
qed

text \<open>The instructions on the lowest set bit \<open>j\<close> of the source.\<close>

lemma Bls_Ok:
  assumes "attached p" "alu_dest mapped p n" "operand_rd mapped p 1 n" "DI_MEM_GET 1 p = Ok (b, n) p" "j < 64" "bit b j" "\<And>k. k < j \<Longrightarrow> \<not> bit b k"
  obtains p' where "Di_Bls operation p = Ok () p'"
    "wrote p n (case operation of DI_BLSI \<Rightarrow> 2 ^ j | DI_BLSMSK \<Rightarrow> mask (Suc j) | DI_BLSR \<Rightarrow> b AND NOT (2 ^ j)) p'"
    "DianaProcessor_QueryFlag p' DI_FLAG_CF = (operation = DI_BLSI)"
proof -
  obtain a where a: "DI_MEM_GET 0 p = Ok (a, n) p" by (rule alu_fetch_dest [OF assms(1,2)])
  have fb: "fits n b" using DI_MEM_GET_Ok [OF assms(1) alu_destD(1) [OF assms(2)] assms(3)] assms(4) by auto
  note size = alu_destD(4) [OF assms(2)]
  have b: "b AND Di_SizeMask n = b" "j < bits_of n" "b \<noteq> 0" using fits_take [OF fb size] fits_bit [OF fb assms(6)] assms(6) by auto
  note low = clear_lowest_bit [OF assms(5-7)]
  let ?v = "case operation of DI_BLSI \<Rightarrow> 2 ^ j | DI_BLSMSK \<Rightarrow> mask (Suc j) | DI_BLSR \<Rightarrow> b AND NOT (2 ^ j)"
  have "bit (b AND NOT (2 ^ j)) i \<longleftrightarrow> bit b i \<and> i \<noteq> j" for i
    using assms(5) by (auto simp: bit_and_iff bit_not_iff bit_exp_iff dest: bit_imp_le_length)
  then have "(b - 1) AND b = b AND NOT (2 ^ j)"
    unfolding and.commute [of "b - 1"] by (intro bit_word_eqI) (simp only: low(1))
  moreover have "?v AND Di_SizeMask n = ?v"
    unfolding and_SizeMask [OF size] using b(2) fb
    by (intro bit_word_eqI) (auto simp: bit_simps dest: fits_bit split: DiBlsOperation.split)
  ultimately have v: "(case operation of DI_BLSI \<Rightarrow> (0 - b) AND b | DI_BLSMSK \<Rightarrow> (b - 1) XOR b | DI_BLSR \<Rightarrow> (b - 1) AND b) AND Di_SizeMask n = ?v"
    using low(2,3) by (cases operation) simp_all
  let ?f = "(if operation = DI_BLSMSK then DianaProcessor_ClearFlag DI_FLAG_ZF else (\<lambda>p. p)) (set_flag_if (if operation = DI_BLSI then b \<noteq> 0 else b = 0) DI_FLAG_CF
    (DianaProcessor_ClearFlag DI_FLAG_CF (DianaProcessor_ClearFlag DI_FLAG_OF (Di_SetZFSF ?v n p))))"
  have "same_but_flags p ?f" by (simp add: same_but_flags_steps)
  then obtain p' where p': "DI_MEM_SET 0 ?v ?f = Ok n p'" "wrote p n ?v p'" "m_flags p' = m_flags ?f" by (rule alu_store_after [OF assms(1,2)])
  have "Di_Bls operation p = Ok () p'"
    using a assms(4) p'(1) v unfolding Di_Bls_def by (cases operation) (simp_all add: di_simps Let_def b(1))
  then show ?thesis by (rule that [OF _ p'(2)]) (use QueryFlag_cong [OF p'(3)] b(3) in \<open>simp add: set_flag_if_def\<close>)
qed

lemma AddCarry_Ok:
  assumes "attached p" "alu_dest mapped p n" "operand_rd mapped p 1 n" "f = (if overflowFlag then DI_FLAG_OF else DI_FLAG_CF)"
  obtains a b s p' where "DI_MEM_GET 0 p = Ok (a, n) p" "DI_MEM_GET 1 p = Ok (b, n) p" "Di_AddCarry overflowFlag p = Ok () p'" "wrote p n s p'" "fits n s"
    "uint s + 2 ^ bits_of n * of_bool (DianaProcessor_QueryFlag p' f) = uint a + uint b + of_bool (DianaProcessor_QueryFlag p f)"
    "\<And>g. f AND g = 0 \<Longrightarrow> DianaProcessor_QueryFlag p' g = DianaProcessor_QueryFlag p g"
proof -
  obtain a where a: "DI_MEM_GET 0 p = Ok (a, n) p" "fits n a" by (rule alu_fetch_dest [OF assms(1,2)])
  obtain b where b: "DI_MEM_GET 1 p = Ok (b, n) p" "fits n b" using DI_MEM_GET_Ok [OF assms(1) alu_destD(1) [OF assms(2)] assms(3)] by metis
  note size = alu_destD(4) [OF assms(2)]
  let ?c = "DianaProcessor_QueryFlag p f"
  let ?s = "take_bit (bits_of n) (a + b + of_bool ?c)"
  let ?o = "?s < a \<or> ?c \<and> ?s = a"
  let ?f = "set_flag_if ?o f (DianaProcessor_ClearFlag f p)"
  have "same_but_flags p ?f" by (simp add: same_but_flags_steps)
  then obtain p' where p': "DI_MEM_SET 0 ?s ?f = Ok n p'" "wrote p n ?s p'" "m_flags p' = m_flags ?f" by (rule alu_store_after [OF assms(1,2)])
  have run: "Di_AddCarry overflowFlag p = Ok () p'"
    using a b p'(1) size unfolding Di_AddCarry_def assms(4) [symmetric] by (cases ?c) (simp_all add: di_simps Let_def and_SizeMask a(2) [unfolded fits_def] b(2) [unfolded fits_def])
  have flag: "DianaProcessor_QueryFlag p' f = ?o" "\<And>g. f AND g = 0 \<Longrightarrow> DianaProcessor_QueryFlag p' g = DianaProcessor_QueryFlag p g"
    unfolding QueryFlag_cong [OF p'(3)] by (simp_all add: set_flag_if_def assms(4))
  show ?thesis
    by (rule that [OF a(1) b(1) run p'(2)])
       (use flag add_carry_eq [OF size a(2) b(2) refl, of ?c] in \<open>simp_all add: fits_def\<close>)
qed

end

end
