(* ===== verification/Processor_Core.thy ===== *)
theory Processor_Core
  imports Cmd_A Cmd_B Cmd_C Cmd_D Cmd_I Cmd_J Cmd_L Cmd_M Cmd_N Cmd_P Cmd_R Cmd_S Cmd_S2 Cmd_Misc Cmd_Ext
begin

unbundle bit_operations_syntax

text \<open>
  The execution of one instruction (\<^verbatim>\<open>diana_processor_core.c\<close>): initialisation, the table of handlers, the call of a
  handler, the repetition of string instructions, fire points and the update of RIP.  The instruction decoder
  (\<^verbatim>\<open>Diana_ParseCmd\<close>), the handlers of other instruction sets, the actions of fire points and the custom command provider
  are arguments.
\<close>

section \<open>The x87 stack\<close>

definition Diana_FPU_IsRegEmpty :: "'m DianaProcessor \<Rightarrow> int \<Rightarrow> bool" where
  "Diana_FPU_IsRegEmpty p number =
     (registerFlags (m_fpu p) ((Diana_FPU_GetStackTop p + number) mod 8) AND 1 = 0)"

definition Diana_FPU_MarkRegState :: "int \<Rightarrow> bool \<Rightarrow> 'm DianaProcessor \<Rightarrow> 'm DianaProcessor" where
  "Diana_FPU_MarkRegState number isEmpty p =
     (let i = (Diana_FPU_GetStackTop p + number) mod 8; fl = registerFlags (m_fpu p) i in
      p\<lparr>m_fpu := (m_fpu p)\<lparr>registerFlags := (registerFlags (m_fpu p))(i := if isEmpty then fl AND NOT 1 else fl OR 1)\<rparr>\<rparr>)"

definition Diana_FPU_Push :: "'m DianaProcessor \<Rightarrow> 'm DianaProcessor" where
  "Diana_FPU_Push p =
     (let currentStackTop = Diana_FPU_GetStackTop p;
          currentStackTop = (if currentStackTop = 0 then 8 else currentStackTop)
      in Diana_FPU_SetStackTop (currentStackTop - 1) p)"

definition Diana_FPU_Pop :: "'m DianaProcessor \<Rightarrow> 'm DianaProcessor" where
  "Diana_FPU_Pop p =
     (let currentStackTop = Diana_FPU_GetStackTop p; newTop = currentStackTop + 1;
          p = p\<lparr>m_fpu := (m_fpu p)\<lparr>registerFlags := (registerFlags (m_fpu p))(currentStackTop :=
                registerFlags (m_fpu p) currentStackTop AND NOT 1)\<rparr>\<rparr>;
          newTop = (if newTop = 8 then 0 else newTop)
      in Diana_FPU_SetStackTop newTop p)"

definition is_mmx :: "DianaLinkedOperand \<Rightarrow> bool" where
  "is_mmx op \<longleftrightarrow> (case op_value op of diana_register r \<Rightarrow> reg_MM0 \<le> r \<and> r \<le> reg_MM7 | _ \<Rightarrow> False)"

text \<open>After an instruction with an MMX operand: the top is 0, every register is busy, and the written one is a NaN.\<close>

definition Diana_FPU_MmxTransition :: "'m DianaProcessor \<Rightarrow> 'm DianaProcessor" where
  "Diana_FPU_MmxTransition p =
     (if \<not> list_ex (\<lambda>i. is_mmx (linked p i)) [0 .. opcount p - 1] then p
      else
      let p = Diana_FPU_SetStackTop 0 p;
          p = p\<lparr>m_fpu := (m_fpu p)\<lparr>registerFlags := (\<lambda>i. if 0 \<le> i \<and> i < 8 then registerFlags (m_fpu p) i OR 1
                else registerFlags (m_fpu p) i)\<rparr>\<rparr>
      in if is_mmx (linked p 0) \<and> m_commandId (pInfo (m_result p)) \<noteq> ''maskmovq''
         then put_reg (nat (m_offset (DianaProcessor_QueryReg p (recognizedRegister (op_value (linked p 0)))) + 8)) 2 0xFFFF p
         else p)"

section \<open>Initialisation\<close>

abbreviation (input) DI_CACHE_RESERVED :: int where "DI_CACHE_RESERVED \<equiv> 2"

definition Diana_InitContext :: "int \<Rightarrow> DianaContext" where
  "Diana_InitContext Mode =
     (if Mode = DIANA_MODE64 then
        \<lparr>iMainMode_opsize = DIANA_MODE32, iCurrentCmd_opsize = DIANA_MODE32,
         iMainMode_addressSize = DIANA_MODE64, iCurrentCmd_addressSize = DIANA_MODE64,
         mainMode_sreg = reg_DS, currentCmd_sreg = reg_DS, iAMD64Mode = 1, iRexPrefix = 0,
         cacheSize = 0, cacheIt = DI_CACHE_RESERVED\<rparr>
      else
        \<lparr>iMainMode_opsize = Mode, iCurrentCmd_opsize = Mode,
         iMainMode_addressSize = Mode, iCurrentCmd_addressSize = Mode,
         mainMode_sreg = reg_DS, currentCmd_sreg = reg_DS, iAMD64Mode = 0, iRexPrefix = 0,
         cacheSize = 0, cacheIt = DI_CACHE_RESERVED\<rparr>)"

definition Diana_ClearCache :: "'m DianaProcessor \<Rightarrow> 'm DianaProcessor" where
  "Diana_ClearCache p = p\<lparr>m_context := (m_context p)\<lparr>cacheIt := DI_CACHE_RESERVED, cacheSize := 0\<rparr>\<rparr>"

definition DianaProcessor_ClearCache :: "'m DianaProcessor \<Rightarrow> 'm DianaProcessor" where
  "DianaProcessor_ClearCache p = Diana_ClearCache (p\<lparr>m_stateFlags := 0\<rparr>)"

text \<open>
  The zeroed processor that \<^verbatim>\<open>DianaProcessor_Init\<close> starts from, attached to a stream over a memory; the register table is filled
  with -1 and the registers vector is not allocated yet.
\<close>

definition zero_operand :: DianaLinkedOperand where
  "zero_operand = \<lparr>op_value = diana_none, iOffset = 0, usedSize = 0, usedAddressSize = 0\<rparr>"

definition zero_result :: DianaParserResult where
  "zero_result = \<lparr>pInfo = \<lparr>m_cmd_flags = 0, m_commandId = []\<rparr>, linkedOperands = (\<lambda>_. zero_operand), iLinkedOpCount = 0,
     iPrefix = 0, iFullCmdSize = 0, isEvex = False\<rparr>"

definition zero_processor :: "'m DianaRandomReadWriteStream \<Rightarrow> 'm \<Rightarrow> int \<Rightarrow> 'm DianaProcessor" where
  "zero_processor stream mem mode =
     \<lparr>m_iLastRegistersOffset = 0, m_pRegistersVector = (\<lambda>_. 0), m_registersVectorSize = 0, m_registers = no_registers,
      m_pMemoryStream = stream, m_memory = mem, m_flags = 0, m_context = Diana_InitContext mode, m_result = zero_result,
      m_stateFlags = 0, m_stateFlagsToRemove = 0, m_tempRIP = 0, m_firePoints = [],
      m_fpu = \<lparr>controlWord = 0, statusWord = 0, registerFlags = (\<lambda>_. 0)\<rparr>, m_options = 0, m_initialDianaMode = mode,
      m_lastCallRIP = 0, m_lastCallRSP = 0, m_random = DianaProcessRandom_Init, m_mxcsr = 0, m_pkru = 0\<rparr>"

definition DianaProcessor_Init :: "(int \<Rightarrow> bool) \<Rightarrow> 'm DianaRandomReadWriteStream \<Rightarrow> 'm \<Rightarrow> int \<Rightarrow> (unit, 'm DianaProcessor) di_res" where
  "DianaProcessor_Init alloc stream mem mode = DianaProcessor_InitProcessorImpl alloc (zero_processor stream mem mode)"

section \<open>The table of handlers\<close>

text \<open>Two groups further down in the table: prefetches, and stores and hints with the handlers of others.\<close>

definition prefetch_commands :: "(DianaCommandId \<times> (unit, 'm) di_cmd) list" where
  "prefetch_commands =
    [(''prefetchnta'', Diana_Call_do_nothing), (''prefetcht0'', Diana_Call_do_nothing), (''prefetcht1'', Diana_Call_do_nothing),
     (''prefetcht2'', Diana_Call_do_nothing), (''prefetch'', Diana_Call_do_nothing), (''prefetchw'', Diana_Call_do_nothing)]"

definition hint_commands :: "(DianaCommandId \<times> (unit, 'm) di_cmd) list" where
  "hint_commands =
    [(''movnti'', Diana_Call_mov), (''movdiri'', Diana_Call_mov), (''prefetchwt1'', Diana_Call_do_nothing), (''cldemote'', Diana_Call_do_nothing),
     (''clwb'', Diana_Call_do_nothing), (''clflushopt'', Diana_Call_do_nothing), (''serialize'', Diana_Call_do_nothing)]"

text \<open>The mnemonics whose handlers are modelled, in the order of their registration.\<close>

definition extension_commands :: "(DianaCommandId \<times> (unit, 'm) di_cmd) list" where
  "extension_commands =
    [(''endbr32'', Diana_Call_endbr32), (''endbr64'', Diana_Call_endbr64), (''popcnt'', Diana_Call_popcnt), (''lzcnt'', Diana_Call_lzcnt),
     (''tzcnt'', Diana_Call_tzcnt), (''andn'', Diana_Call_andn), (''bextr'', Diana_Call_bextr), (''blsi'', Diana_Call_blsi),
     (''blsmsk'', Diana_Call_blsmsk), (''blsr'', Diana_Call_blsr), (''bzhi'', Diana_Call_bzhi), (''mulx'', Diana_Call_mulx),
     (''pdep'', Diana_Call_pdep), (''pext'', Diana_Call_pext), (''rorx'', Diana_Call_rorx), (''sarx'', Diana_Call_sarx),
     (''shlx'', Diana_Call_shlx), (''shrx'', Diana_Call_shrx), (''crc32'', Diana_Call_crc32), (''movbe'', Diana_Call_movbe),
     (''adcx'', Diana_Call_adcx), (''adox'', Diana_Call_adox)]"

definition general_purpose_commands :: "(DianaCommandId \<times> (unit, 'm) di_cmd) list" where
  "general_purpose_commands =
    [(''aaa'', Diana_Call_aaa), (''aad'', Diana_Call_aad), (''aam'', Diana_Call_aam), (''aas'', Diana_Call_aas),
     (''adc'', Diana_Call_adc), (''add'', Diana_Call_add), (''and'', Diana_Call_and), (''bsf'', Diana_Call_bsf),
     (''bsr'', Diana_Call_bsr), (''bt'', Diana_Call_bt), (''btc'', Diana_Call_btc), (''btr'', Diana_Call_btr),
     (''bts'', Diana_Call_bts), (''call'', Diana_Call_call), (''cbw'', Diana_Call_cbw), (''clc'', Diana_Call_clc),
     (''cld'', Diana_Call_cld), (''cli'', Diana_Call_cli), (''cmc'', Diana_Call_cmc), (''cmova'', Diana_Call_cmova),
     (''cmovae'', Diana_Call_cmovae), (''cmovb'', Diana_Call_cmovb), (''cmovbe'', Diana_Call_cmovbe), (''cmove'', Diana_Call_cmove),
     (''cmovg'', Diana_Call_cmovg), (''cmovge'', Diana_Call_cmovge), (''cmovl'', Diana_Call_cmovl), (''cmovle'', Diana_Call_cmovle),
     (''cmovne'', Diana_Call_cmovne), (''cmovno'', Diana_Call_cmovno), (''cmovnp'', Diana_Call_cmovnp), (''cmovns'', Diana_Call_cmovns),
     (''cmovo'', Diana_Call_cmovo), (''cmovp'', Diana_Call_cmovp), (''cmovs'', Diana_Call_cmovs), (''cmp'', Diana_Call_cmp),
     (''cmps'', Diana_Call_cmps), (''cmpxchg'', Diana_Call_cmpxchg), (''cmpxchg16b'', Diana_Call_cmpxchg16b), (''cpuid'', Diana_Call_cpuid),
     (''daa'', Diana_Call_daa), (''das'', Diana_Call_das), (''dec'', Diana_Call_dec), (''div'', Diana_Call_div),
     (''idiv'', Diana_Call_idiv), (''imul'', Diana_Call_imul), (''inc'', Diana_Call_inc), (''ja'', Diana_Call_ja),
     (''jae'', Diana_Call_jae), (''jb'', Diana_Call_jb), (''jbe'', Diana_Call_jbe), (''je'', Diana_Call_je),
     (''jg'', Diana_Call_jg), (''jge'', Diana_Call_jge), (''jl'', Diana_Call_jl), (''jle'', Diana_Call_jle),
     (''jne'', Diana_Call_jne), (''jno'', Diana_Call_jno), (''jnp'', Diana_Call_jnp), (''jns'', Diana_Call_jns),
     (''jo'', Diana_Call_jo), (''jp'', Diana_Call_jp), (''js'', Diana_Call_js), (''jecxz'', Diana_Call_jecxz),
     (''jmp'', Diana_Call_jmp), (''lahf'', Diana_Call_lahf), (''lea'', Diana_Call_lea), (''leave'', Diana_Call_leave),
     (''lods'', Diana_Call_lods), (''lfs'', Diana_Call_lfs), (''lgs'', Diana_Call_lgs), (''lss'', Diana_Call_lss),
     (''lds'', Diana_Call_lds), (''les'', Diana_Call_les), (''loop'', Diana_Call_loop), (''loope'', Diana_Call_loope),
     (''loopne'', Diana_Call_loopne), (''mov'', Diana_Call_mov), (''movs'', Diana_Call_movs), (''movsx'', Diana_Call_movsx),
     (''movsxd'', Diana_Call_movsxd), (''movzx'', Diana_Call_movzx), (''mul'', Diana_Call_mul), (''neg'', Diana_Call_neg),
     (''not'', Diana_Call_not), (''nop'', Diana_Call_nop), (''hint_nop'', Diana_Call_hint_nop), (''or'', Diana_Call_or),
     (''push'', Diana_Call_push), (''pushf'', Diana_Call_pushf), (''popf'', Diana_Call_popf), (''pop'', Diana_Call_pop),
     (''popa'', Diana_Call_popa), (''pusha'', Diana_Call_pusha), (''pause'', Diana_Call_pause), (''rcl'', Diana_Call_rcl),
     (''rcr'', Diana_Call_rcr), (''rol'', Diana_Call_rol), (''ror'', Diana_Call_ror), (''rdrand'', Diana_Call_rdrand),
     (''rdseed'', Diana_Call_rdseed), (''sahf'', Diana_Call_sahf), (''shl'', Diana_Call_shl), (''sar'', Diana_Call_sar),
     (''sbb'', Diana_Call_sbb), (''stc'', Diana_Call_stc), (''sti'', Diana_Call_sti), (''std'', Diana_Call_std),
     (''shld'', Diana_Call_shld), (''shr'', Diana_Call_shr), (''shrd'', Diana_Call_shrd), (''scas'', Diana_Call_scas),
     (''stos'', Diana_Call_stos), (''seta'', Diana_Call_seta), (''setae'', Diana_Call_setae), (''setb'', Diana_Call_setb),
     (''setbe'', Diana_Call_setbe), (''sete'', Diana_Call_sete), (''setg'', Diana_Call_setg), (''setge'', Diana_Call_setge),
     (''setl'', Diana_Call_setl), (''setle'', Diana_Call_setle), (''setne'', Diana_Call_setne), (''setno'', Diana_Call_setno),
     (''setnp'', Diana_Call_setnp), (''setns'', Diana_Call_setns), (''seto'', Diana_Call_seto), (''setp'', Diana_Call_setp),
     (''sets'', Diana_Call_sets), (''smsw'', Diana_Call_smsw), (''enter'', Diana_Call_enter), (''cwd'', Diana_Call_cwd),
     (''xor'', Diana_Call_xor), (''xadd'', Diana_Call_xadd), (''xchg'', Diana_Call_xchg), (''xlat'', Diana_Call_xlat),
     (''test'', Diana_Call_test), (''sub'', Diana_Call_sub), (''ret'', Diana_Call_ret), (''retf'', Diana_Call_retf),
     (''bswap'', Diana_Call_bswap)]
      @ prefetch_commands @ hint_commands @ extension_commands"

text \<open>\<open>others\<close> stands for the handlers of the x87, SSE, AVX and system instructions.\<close>

definition DianaProcessor_OnGroup :: "(DianaCommandId \<Rightarrow> (unit, 'm) di_cmd option) \<Rightarrow> DianaCommandId \<Rightarrow> (unit, 'm) di_cmd option" where
  "DianaProcessor_OnGroup others cmd =
     (case map_of general_purpose_commands cmd of Some c \<Rightarrow> Some c | None \<Rightarrow> others cmd)"

section \<open>Calling a handler\<close>

definition Call :: "(unit, 'm) di_cmd \<Rightarrow> (unit, 'm) di_cmd" where
  "Call pCommand p =
     (let clean = (\<lambda>q. q\<lparr>m_stateFlags := m_stateFlags q AND NOT (m_stateFlagsToRemove q), m_stateFlagsToRemove := 0\<rparr>) in
      case pCommand p of Ok u q \<Rightarrow> Ok u (clean q) | Err e q \<Rightarrow> Err e (clean q))"

text \<open>The loop of \<^verbatim>\<open>CallWithRep\<close>; \<open>None\<close> means that it does not end.\<close>

partial_function (option) rep_loop ::
    "(unit, 'm) di_cmd \<Rightarrow> bool \<Rightarrow> DianaUnifiedRegister \<Rightarrow> 'm DianaProcessor \<Rightarrow> (unit, 'm DianaProcessor) di_res option" where
  [code]: "rep_loop pCommand bRepn usedReg p =
     (if GET_REG usedReg p = 0 then Some (Ok () p)
      else case Call pCommand p of
        Err e q \<Rightarrow> Some (Err e q)
      | Ok _ q \<Rightarrow>
          if m_stateFlags q AND DI_PROC_STATE_RIP_CHANGED \<noteq> 0 then Some (Ok () q)
          else
            let r = SET_REG reg_RCX (GET_REG reg_RCX q - 1) q in
            if bRepn then
              if DianaProcessor_QueryFlag r DI_FLAG_ZF then Some (Ok () r) else rep_loop pCommand bRepn usedReg r
            else
              if m_stateFlags r AND DI_PROC_STATE_CMD_USES_NORMAL_REP = 0 \<and> \<not> DianaProcessor_QueryFlag r DI_FLAG_ZF
              then Some (Ok () r) else rep_loop pCommand bRepn usedReg r)"

definition rep_commands :: "DianaCommandId list" where
  "rep_commands = [''ins'', ''lods'', ''movs'', ''outs'', ''stos'', ''cmps'', ''scas'']"

definition CallWithRep :: "(unit, 'm) di_cmd \<Rightarrow> bool \<Rightarrow> 'm DianaProcessor \<Rightarrow> (unit, 'm DianaProcessor) di_res option" where
  "CallWithRep pCommand bRepn p =
     (if m_commandId (pInfo (m_result p)) \<notin> set rep_commands then Some (Call pCommand p)
      else if addrsize p = DIANA_MODE64 then rep_loop pCommand bRepn reg_RCX p
      else if addrsize p = DIANA_MODE32 then rep_loop pCommand bRepn reg_ECX p
      else if addrsize p = DIANA_MODE16 then rep_loop pCommand bRepn reg_CX p
      else Some (Err DI_ERROR p))"

section \<open>One instruction\<close>

text \<open>
  The choice between the plain call and the prefixed ones, and what follows the call: the MMX transition, the
  state flags and the instruction pointer.
\<close>

definition lock_allowed :: "'m DianaProcessor \<Rightarrow> bool" where
  "lock_allowed p \<longleftrightarrow> m_cmd_flags (pInfo (m_result p)) AND DI_FLAG_CMD_PREFIX_LOCK = DI_FLAG_CMD_PREFIX_LOCK \<and> opcount p > 0 \<and>
     (case op_value (linked p 0) of diana_index _ \<Rightarrow> True | diana_memory _ \<Rightarrow> True | _ \<Rightarrow> False)"

definition ExecOnce_call :: "(unit, 'm) di_cmd \<Rightarrow> 'm DianaProcessor \<Rightarrow> (unit, 'm DianaProcessor) di_res option" where
  "ExecOnce_call pCommand p =
     (if iPrefix (m_result p) = DI_PREFIX_REP then CallWithRep pCommand False p
      else if iPrefix (m_result p) = DI_PREFIX_REPN then CallWithRep pCommand True p
      else if iPrefix (m_result p) = DI_PREFIX_LOCK then
        if lock_allowed p then Some (Call pCommand p) else Some (Err DI_INVALID_OPCODE p)
      else Some (Call pCommand p))"

definition ExecOnce_finish :: "u64 \<Rightarrow> (unit, 'm DianaProcessor) di_res \<Rightarrow> (unit, 'm DianaProcessor) di_res" where
  "ExecOnce_finish rip res =
     (let p = (if is_Ok res then Diana_FPU_MmxTransition (res_state res) else res_state res);
          p = p\<lparr>m_stateFlags := m_stateFlags p AND NOT DI_PROC_STATE_CMD_USES_NORMAL_REP\<rparr>
      in if m_stateFlags p AND DI_PROC_STATE_RIP_CHANGED \<noteq> 0 \<or> \<not> is_Ok res then
           let p = p\<lparr>m_stateFlags := m_stateFlags p AND NOT DI_PROC_STATE_TEMP_RIP_IS_VALID AND NOT DI_PROC_STATE_RIP_CHANGED\<rparr>;
               p = Diana_ClearCache p
           in (case res of Ok _ _ \<Rightarrow> Ok () p | Err e _ \<Rightarrow> Err e p)
         else
           Ok () (DianaProcessor_SetValue reg_none (DianaProcessor_QueryReg p reg_RIP) (rip + word_of_int (iFullCmdSize (m_result p))) p))"

text \<open>
  Every fire point on the address acts, in order; an action may change the processor and register further points,
  which the loop then meets too.  The table has room for \<^verbatim>\<open>DIANA_PROCESSOR_MAX_FIRE_POINTS\<close> points, so that many rounds are enough.
\<close>

fun fire_loop ::
    "(DianaProcessorFirePoint \<Rightarrow> 'm DianaProcessor \<Rightarrow> 'm DianaProcessor) \<Rightarrow> u64 \<Rightarrow> nat \<Rightarrow> nat \<Rightarrow> 'm DianaProcessor \<Rightarrow> 'm DianaProcessor" where
  "fire_loop action rip 0 i p = p"
| "fire_loop action rip (Suc k) i p =
     (if i < length (m_firePoints p) then
        let pt = m_firePoints p ! i in
        fire_loop action rip k (Suc i) (if fp_address pt = rip then action pt p else p)
      else p)"

definition run_fire_points ::
    "(DianaProcessorFirePoint \<Rightarrow> 'm DianaProcessor \<Rightarrow> 'm DianaProcessor) \<Rightarrow> u64 \<Rightarrow> 'm DianaProcessor \<Rightarrow> 'm DianaProcessor" where
  "run_fire_points action rip p = fire_loop action rip DIANA_PROCESSOR_MAX_FIRE_POINTS 0 p"

definition DianaProcessor_ExecOnce ::
    "(DianaProcessorFirePoint \<Rightarrow> 'm DianaProcessor \<Rightarrow> 'm DianaProcessor) \<Rightarrow>
     (unit, 'm) di_cmd \<Rightarrow>
     (DianaCommandId \<Rightarrow> (unit, 'm) di_cmd option) \<Rightarrow> (unit, 'm) di_cmd \<Rightarrow>
     (DianaCommandId \<Rightarrow> ((unit, 'm) di_cmd option, 'm) di_cmd) option \<Rightarrow>
     'm DianaProcessor \<Rightarrow> (unit, 'm DianaProcessor) di_res option" where
  "DianaProcessor_ExecOnce action Diana_ParseCmd others Diana_Call_evex customProvider p =
     (let p = run_fire_points action (GET_REG reg_RIP p) p;
          rip = GET_REG reg_RIP p;
          p = (if m_stateFlags p AND DI_PROC_STATE_TEMP_RIP_IS_VALID = 0
               then p\<lparr>m_tempRIP := rip, m_stateFlags := m_stateFlags p OR DI_PROC_STATE_TEMP_RIP_IS_VALID\<rparr> else p);
          p = p\<lparr>m_stateFlags := m_stateFlags p AND NOT DI_PROC_STATE_RIP_CHANGED\<rparr>
      in case Diana_ParseCmd p of
        Err e p \<Rightarrow> Some (Err e p)
      | Ok _ p \<Rightarrow>
          let pCommand = DianaProcessor_OnGroup others (m_commandId (pInfo (m_result p)));
              pCommand = (if isEvex (m_result p) then Some Diana_Call_evex else pCommand)
          in case (case customProvider of
                     None \<Rightarrow> Ok pCommand p
                   | Some provider \<Rightarrow>
                       (case provider (m_commandId (pInfo (m_result p))) p of
                          Err e q \<Rightarrow> Err e q
                        | Ok None q \<Rightarrow> Ok pCommand q
                        | Ok (Some c) q \<Rightarrow> Ok (Some c) q)) of
               Err e q \<Rightarrow> Some (Err e q)
             | Ok None q \<Rightarrow> Some (Err DI_UNSUPPORTED_COMMAND q)
             | Ok (Some c) q \<Rightarrow> map_option (ExecOnce_finish rip) (ExecOnce_call c q))"

section \<open>Code bytes\<close>

text \<open>The reader that the decoder pulls bytes from: it advances \<^verbatim>\<open>m_tempRIP\<close> by what it has read.\<close>

definition ProcessorReadStream :: "u64 \<Rightarrow> (u8 list, 'm) di_cmd" where
  "ProcessorReadStream iBufferSize =
     DI_LET (\<lambda>p. (GET_REG reg_CS p, m_tempRIP p)) (\<lambda>(cs, tempRIP).
     DI_CHECK (DianaProcessor_ReadMemory cs tempRIP iBufferSize reg_CS) (\<lambda>bs.
     DI_DO (\<lambda>p. p\<lparr>m_tempRIP := m_tempRIP p + of_nat (length bs)\<rparr>)
     (DI_RETURN bs)))"

definition DianaProcessor_InitRawRegister :: "DianaUnifiedRegister \<Rightarrow> u8 list \<Rightarrow> (unit, 'm) di_cmd" where
  "DianaProcessor_InitRawRegister regId bytes =
     DI_LET (\<lambda>p. m_offset (DianaProcessor_QueryReg p regId)) (\<lambda>off.
     if length bytes \<in> {1, 2, 4, 8, 16} then
       DI_DO (\<lambda>p. p\<lparr>m_pRegistersVector := (\<lambda>a. if off \<le> int a \<and> int a < off + int (length bytes)
           then bytes ! nat (int a - off) else m_pRegistersVector p a)\<rparr>)
       DI_PROC_END
     else DI_FAIL C_UNDEFINED)"

section \<open>Frame\<close>

lemma general_purpose_kept: "(cmd, c) \<in> set general_purpose_commands \<Longrightarrow> keeps kept c"
  unfolding general_purpose_commands_def prefetch_commands_def hint_commands_def extension_commands_def by (auto intro: keeps_intros)

end
