(* ===== verification/Sample_Machine.thy ===== *)
theory Sample_Machine
  imports Processor_Core
begin

unbundle bit_operations_syntax

text \<open>
  A concrete machine: the processor that \<^verbatim>\<open>DianaProcessor_Init\<close> leaves in 64-bit mode over a zeroed buffer of 256 bytes,
  with a decoded instruction put in its result.  The witnesses of the properties run on it.
\<close>

section \<open>An initialised processor\<close>

definition sample_stream :: "DianaRandomMemoryStream \<times> DianaRandomMemoryStream DianaRandomReadWriteStream" where
  "sample_stream = Diana_InitRandomMemoryStream (replicate 256 0) 256 0"

definition sample_processor :: "DianaRandomMemoryStream DianaProcessor" where
  "sample_processor = res_state (DianaProcessor_Init (\<lambda>_. True) (snd sample_stream) (fst sample_stream) DIANA_MODE64)"

text \<open>An instruction of size \<open>n\<close> with the given operands, as the decoder would leave it.\<close>

definition decoded :: "DianaCommandId \<Rightarrow> DianaLinkedOperand list \<Rightarrow> int \<Rightarrow> 'm DianaProcessor \<Rightarrow> 'm DianaProcessor" where
  "decoded cmd ops n p = p\<lparr>m_result := zero_result\<lparr>pInfo := \<lparr>m_cmd_flags = 0, m_commandId = cmd\<rparr>,
       linkedOperands := (\<lambda>i. if 0 \<le> i \<and> i < int (length ops) then ops ! nat i else zero_operand),
       iLinkedOpCount := int (length ops), iFullCmdSize := 3\<rparr>,
     m_context := (m_context p)\<lparr>iCurrentCmd_opsize := n\<rparr>\<rparr>"

definition reg_op :: "DianaUnifiedRegister \<Rightarrow> int \<Rightarrow> DianaLinkedOperand" where
  "reg_op r n = \<lparr>op_value = diana_register r, iOffset = 0, usedSize = n, usedAddressSize = 8\<rparr>"

definition imm_op :: "u64 \<Rightarrow> int \<Rightarrow> DianaLinkedOperand" where
  "imm_op v n = \<lparr>op_value = diana_imm v, iOffset = 0, usedSize = n, usedAddressSize = 8\<rparr>"

definition mem_op :: "u64 \<Rightarrow> int \<Rightarrow> DianaLinkedOperand" where
  "mem_op a n = \<lparr>op_value = diana_index \<lparr>seg_reg = reg_DS, reg = reg_none, indexed_reg = reg_none, index = 0, dispSize = 8,
     dispValue = a\<rparr>, iOffset = 0, usedSize = n, usedAddressSize = 8\<rparr>"

lemma sample_facts:
  shows sample_std: "std_regs sample_processor"
    and sample_stateFlags: "m_stateFlags sample_processor = 0"
    and sample_memory: "m_memory sample_processor = \<lparr>pBuffer = replicate 256 0, bufferSize = 256, segmentSize = 0\<rparr>"
    and sample_stream_fns: "m_pMemoryStream sample_processor = \<lparr>pReadFnc = MemoryRandomStream_Read, pWriteFnc = MemoryRandomStream_Write\<rparr>"
    and sample_context: "m_context sample_processor = Diana_InitContext 8"
    and sample_vector: "a < 4096 \<Longrightarrow> m_pRegistersVector sample_processor a = 0"
    and sample_fire: "m_firePoints sample_processor = []"
proof -
  let ?z = "zero_processor (snd sample_stream) (fst sample_stream) DIANA_MODE64"
  obtain p' where p': "DianaProcessor_InitProcessorImpl (\<lambda>_. True) ?z = Ok () p'" "std_regs p'"
    "\<And>a. a < 4096 \<Longrightarrow> m_pRegistersVector p' a = 0"
    "m_memory p' = m_memory ?z" "m_pMemoryStream p' = m_pMemoryStream ?z" "m_context p' = m_context ?z"
    "m_stateFlags p' = m_stateFlags ?z" "m_firePoints p' = m_firePoints ?z"
    by (rule InitProcessorImpl_Ok [of "\<lambda>_. True" ?z]) (simp_all add: zero_processor_def)
  have s: "sample_processor = p'"
    using p'(1) by (simp add: sample_processor_def DianaProcessor_Init_def)
  show "std_regs sample_processor" "m_stateFlags sample_processor = 0" "m_context sample_processor = Diana_InitContext 8"
    "m_memory sample_processor = \<lparr>pBuffer = replicate 256 0, bufferSize = 256, segmentSize = 0\<rparr>"
    "m_pMemoryStream sample_processor = \<lparr>pReadFnc = MemoryRandomStream_Read, pWriteFnc = MemoryRandomStream_Write\<rparr>"
    "m_firePoints sample_processor = []" "a < 4096 \<Longrightarrow> m_pRegistersVector sample_processor a = 0"
    using p'(2-) by (simp_all add: s zero_processor_def sample_stream_def Diana_InitRandomMemoryStream_def)
qed

section \<open>Hypotheses on it\<close>

lemma decoded_simps [simp]:
  "m_context (decoded c ops n p) = (m_context p)\<lparr>iCurrentCmd_opsize := n\<rparr>"
  "m_memory (decoded c ops n p) = m_memory p" "m_flags (decoded c ops n p) = m_flags p"
  "m_stateFlags (decoded c ops n p) = m_stateFlags p" "m_firePoints (decoded c ops n p) = m_firePoints p"
  "m_pMemoryStream (decoded c ops n p) = m_pMemoryStream p" "m_registers (decoded c ops n p) = m_registers p"
  "m_pRegistersVector (decoded c ops n p) = m_pRegistersVector p" "m_fpu (decoded c ops n p) = m_fpu p"
  "std_regs (decoded c ops n p) = std_regs p" "psz_off (decoded c ops n p) = psz_off p"
  "stream_attached rd wr ok (decoded c ops n p) = stream_attached rd wr ok p"
  by (simp_all add: decoded_def std_regs_def psz_off_def stream_attached_def)

lemma decoded_result [simp]:
  "iLinkedOpCount (m_result (decoded c ops n p)) = int (length ops)" "iFullCmdSize (m_result (decoded c ops n p)) = 3"
  "iPrefix (m_result (decoded c ops n p)) = 0" "isEvex (m_result (decoded c ops n p)) = False"
  "pInfo (m_result (decoded c ops n p)) = \<lparr>m_cmd_flags = 0, m_commandId = c\<rparr>"
  "linkedOperands (m_result (decoded c ops n p)) i = (if 0 \<le> i \<and> i < int (length ops) then ops ! nat i else zero_operand)"
  by (simp_all add: decoded_def zero_result_def)

lemma decoded_GET_REG [simp]: "GET_REG r (decoded c ops n p) = GET_REG r p"
proof -
  have "DianaProcessor_QueryReg (decoded c ops n p) r = DianaProcessor_QueryReg p r"
    unfolding DianaProcessor_QueryReg_def DianaProcessor_FPU_QueryReg_def DianaProcessor_FPU_QueryReg_MM_def
      Diana_FPU_GetStackTop_def decoded_simps ..
  then show ?thesis
    by (simp add: GET_REG_def DianaProcessor_GetValue_def DianaProcessor_GetValueEx_def)
qed

text \<open>RAX and RCX hold 7 and 5.\<close>

definition sample_loaded :: "DianaRandomMemoryStream DianaProcessor" where
  "sample_loaded = SET_REG reg_RCX 5 (SET_REG reg_RAX 7 sample_processor)"

lemma sample_psz: "psz_off sample_processor"
  by (simp add: psz_off_def sample_stateFlags)

lemma sample_attached: "stream_attached MemoryRandomStream_Read MemoryRandomStream_Write buffer_ok sample_processor"
  by (simp add: stream_attached_def sample_stream_fns sample_memory buffer_ok_def)

lemma loaded_facts [simp]:
  "std_regs sample_loaded" "psz_off sample_loaded" "m_memory sample_loaded = m_memory sample_processor"
  "m_context sample_loaded = Diana_InitContext 8" "m_stateFlags sample_loaded = 0"
  "stream_attached MemoryRandomStream_Read MemoryRandomStream_Write buffer_ok sample_loaded"
  using sample_std sample_psz sample_attached
  by (simp_all add: sample_loaded_def sample_context psz_off_def stream_attached_def sample_stateFlags)

lemma loaded_regs [simp]: "GET_REG reg_RAX sample_loaded = 7" "GET_REG reg_RCX sample_loaded = 5"
  using sample_std by (simp_all add: sample_loaded_def GET_SET_gpr64_same GET_SET_gpr64_other gpr64_def)

lemma reg_op_simps [simp]:
  "op_value (reg_op r n) = diana_register r" "usedSize (reg_op r n) = n"
  "op_value (imm_op v n) = diana_imm v" "usedSize (imm_op v n) = n" "usedSize (mem_op a n) = n"
  by (simp_all add: reg_op_def imm_op_def mem_op_def)

lemma sample_at: "reg_at reg_RAX 0 8" "reg_at reg_RCX 8 8" "reg_at reg_EAX 0 4" "reg_at reg_ECX 8 4"
  "reg_at reg_AL 0 1" "reg_at reg_CL 8 1" "reg_at reg_DS 2334 2"
  by (simp_all add: reg_at_def plain_reg_def reg_simps)

lemma sample_dest:
  "operand_rw mp (decoded c (reg_op reg_RAX 8 # ops) k sample_loaded) 0 8"
  "alu_dest mp (decoded c (reg_op reg_RAX 8 # ops) k sample_loaded) 8"
  using sample_at(1) by (auto simp: alu_dest_def operand_rw_def valid_size_def)

lemma sample_ready:
  "alu_ready mp (decoded c [reg_op reg_RAX 8, reg_op reg_RCX 8] k sample_loaded) 8 8"
  using sample_dest [of mp c "[reg_op reg_RCX 8]" k] sample_at(2)
  by (auto simp: alu_ready_def operand_rd_def operand_rw_def valid_size_def)

text \<open>A written register operand holds the value.\<close>

lemma wrote_reg:
  assumes "wrote (decoded c (reg_op r n # ops) k p) n v p'"
  shows "GET_REG r p' = DianaProcessor_CutValue v n"
proof -
  have "m_result p' = m_result (decoded c (reg_op r n # ops) k p)"
    using assms by (simp add: wrote_def operand_frame_def)
  moreover have "DI_MEM_GET 0 p' = Ok (DianaProcessor_CutValue v n, n) p'"
    using assms by (simp add: wrote_def)
  ultimately show ?thesis
    by (simp add: DI_MEM_GET_def di_simps Diana_ProcessorGetOperand_register_def)
qed

lemma Cut_8 [simp]: "DianaProcessor_CutValue v 8 = v"
  by (simp add: DianaProcessor_CutValue_def)

lemma loaded_get:
  "DI_MEM_GET 0 (decoded c (reg_op reg_RAX 8 # ops) k sample_loaded) = Ok (7, 8) (decoded c (reg_op reg_RAX 8 # ops) k sample_loaded)"
  "DI_MEM_GET 1 (decoded c (o1 # reg_op reg_RCX 8 # ops) k sample_loaded) = Ok (5, 8) (decoded c (o1 # reg_op reg_RCX 8 # ops) k sample_loaded)"
  by (simp_all add: DI_MEM_GET_def di_simps Diana_ProcessorGetOperand_register_def)

lemma loaded_operands:
  assumes "operands (decoded c [reg_op reg_RAX 8, reg_op reg_RCX 8] k sample_loaded) 8 8 a b"
  shows "a = 7" "b = 5"
  using assms sval_inj [of 8 b 5] by (auto simp: operands_def loaded_get valid_size_def)

end
