(* ===== verification/Arithmetic_Properties.thy ===== *)
theory Arithmetic_Properties
  imports Sample_Machine
begin

unbundle bit_operations_syntax

text \<open>
  The arithmetic and logical instructions on a processor over a memory buffer: the value each handler stores and the six
  flags it leaves, for every operand size and for register and memory operands alike.  The theorems are the
  instances of the handlers' lemmas over the memory contract at the buffer stream.
\<close>

lemma operands_unique:
  assumes "valid_size n" "operands p n m a b" "operands p n m a' b'"
  shows "a' = a" "b' = b"
  using assms sval_inj [of n b b'] by (auto simp: operands_def)

lemma sgn_of_neg: "0 \<le> x \<Longrightarrow> x < 2 * M \<Longrightarrow> \<not> (- M \<le> - sgn_of M x \<and> - sgn_of M x < M) \<longleftrightarrow> sgn_of M x = - M"
  by (auto simp: sgn_of_def)

lemma overflow_neg:
  assumes "valid_size n" "fits n a"
  shows "overflow_flag n (- sval n a) \<longleftrightarrow> sval n a = - (2 ^ (bits_of n - 1))"
  using sgn_of_neg [OF uint_ge_0 uint_fits_bound [OF assms]]
  unfolding sval_sgn_of [OF assms] overflow_flag_def signed_range_def .

section \<open>Addition and subtraction\<close>

text \<open>
  C13: add succeeds, stores the sum of the destination and the sign-extended source cut to the size of the destination, and
  sets CF to the unsigned carry, OF to the signed overflow, AF to the carry out of the low four bits, ZF, SF and PF from
  the stored value; every other flag is kept.
\<close>

theorem add_correct:
  assumes "stream_attached MemoryRandomStream_Read MemoryRandomStream_Write buffer_ok p" "alu_ready buffer_mapped p n m"
  shows "\<exists>a b p'. operands p n m a b \<and> Diana_Call_add p = Ok () p' \<and> wrote p n (a + b) p' \<and>
    arith_flags n (a + b) (carry_add n a b 0) (overflow_flag n (sval n a + sval n b)) (half_carry_add a b 0) p p'"
  by (rule buf.add_Ok [OF assms]) blast

theorem add_correct_witness:
  "\<exists>a b p'. operands (decoded ''add'' [reg_op reg_RAX 8, reg_op reg_RCX 8] 8 sample_loaded) 8 8 a b \<and>
    Diana_Call_add (decoded ''add'' [reg_op reg_RAX 8, reg_op reg_RCX 8] 8 sample_loaded) = Ok () p' \<and>
    GET_REG reg_RAX p' = a + b"
proof -
  let ?p = "decoded ''add'' [reg_op reg_RAX 8, reg_op reg_RCX 8] 8 sample_loaded"
  have at: "stream_attached MemoryRandomStream_Read MemoryRandomStream_Write buffer_ok ?p" by simp
  obtain a b p' where x: "operands ?p 8 8 a b" "Diana_Call_add ?p = Ok () p'" "wrote ?p 8 (a + b) p'"
    using add_correct [OF at sample_ready] by blast
  have "GET_REG reg_RAX p' = a + b"
    using wrote_reg [OF x(3)] by simp
  with x show ?thesis by blast
qed

text \<open>
  adc adds the carry flag as well, in the value and in the carry, the overflow and the half carry.
\<close>

theorem adc_correct:
  assumes "stream_attached MemoryRandomStream_Read MemoryRandomStream_Write buffer_ok p" "alu_ready buffer_mapped p n m"
  shows "\<exists>a b p'. operands p n m a b \<and> Diana_Call_adc p = Ok () p' \<and> wrote p n (a + (b + of_bool (DianaProcessor_QueryFlag p DI_FLAG_CF))) p' \<and>
    arith_flags n (a + (b + of_bool (DianaProcessor_QueryFlag p DI_FLAG_CF))) (carry_add n a b (of_bool (DianaProcessor_QueryFlag p DI_FLAG_CF)))
      (overflow_flag n (sval n a + sval n b + of_bool (DianaProcessor_QueryFlag p DI_FLAG_CF)))
      (half_carry_add a b (of_bool (DianaProcessor_QueryFlag p DI_FLAG_CF))) p p'"
  by (rule buf.adc_Ok [OF assms, unfolded of_int_of_bool]) blast

theorem adc_correct_witness:
  "\<exists>a b p'. operands (decoded ''adc'' [reg_op reg_RAX 8, reg_op reg_RCX 8] 8 sample_loaded) 8 8 a b \<and>
    Diana_Call_adc (decoded ''adc'' [reg_op reg_RAX 8, reg_op reg_RCX 8] 8 sample_loaded) = Ok () p' \<and>
    GET_REG reg_RAX p' = a + (b + of_bool (DianaProcessor_QueryFlag (decoded ''adc'' [reg_op reg_RAX 8, reg_op reg_RCX 8] 8 sample_loaded) DI_FLAG_CF))"
proof -
  let ?p = "decoded ''adc'' [reg_op reg_RAX 8, reg_op reg_RCX 8] 8 sample_loaded"
  have at: "stream_attached MemoryRandomStream_Read MemoryRandomStream_Write buffer_ok ?p" by simp
  obtain a b p' where x: "operands ?p 8 8 a b" "Diana_Call_adc ?p = Ok () p'"
    "wrote ?p 8 (a + (b + of_bool (DianaProcessor_QueryFlag ?p DI_FLAG_CF))) p'"
    using adc_correct [OF at sample_ready] by blast
  with wrote_reg [OF x(3)] show ?thesis by auto
qed

text \<open>
  C14: sub stores the difference cut to the size of the destination, with CF the unsigned borrow, OF the signed overflow and AF the borrow into the
  low four bits.
\<close>

theorem sub_correct:
  assumes "stream_attached MemoryRandomStream_Read MemoryRandomStream_Write buffer_ok p" "alu_ready buffer_mapped p n m"
  shows "\<exists>a b p'. operands p n m a b \<and> Diana_Call_sub p = Ok () p' \<and> wrote p n (a - b) p' \<and>
    arith_flags n (a - b) (carry_sub a b 0) (overflow_flag n (sval n a - sval n b)) (half_carry_sub a b 0) p p'"
  by (rule buf.sub_Ok [OF assms]) blast

theorem sub_correct_witness:
  "\<exists>a b p'. operands (decoded ''sub'' [reg_op reg_RAX 8, reg_op reg_RCX 8] 8 sample_loaded) 8 8 a b \<and>
    Diana_Call_sub (decoded ''sub'' [reg_op reg_RAX 8, reg_op reg_RCX 8] 8 sample_loaded) = Ok () p' \<and>
    GET_REG reg_RAX p' = a - b"
proof -
  let ?p = "decoded ''sub'' [reg_op reg_RAX 8, reg_op reg_RCX 8] 8 sample_loaded"
  have at: "stream_attached MemoryRandomStream_Read MemoryRandomStream_Write buffer_ok ?p" by simp
  obtain a b p' where x: "operands ?p 8 8 a b" "Diana_Call_sub ?p = Ok () p'"
    "wrote ?p 8 (a - b) p'"
    using sub_correct [OF at sample_ready] by blast
  with wrote_reg [OF x(3)] show ?thesis by auto
qed

text \<open>
  Sbb subtracts the carry flag as well, in the value and in the borrow, the overflow and the half borrow.
\<close>

theorem sbb_correct:
  assumes "stream_attached MemoryRandomStream_Read MemoryRandomStream_Write buffer_ok p" "alu_ready buffer_mapped p n m"
  shows "\<exists>a b p'. operands p n m a b \<and> Diana_Call_sbb p = Ok () p' \<and> wrote p n (a - (b + of_bool (DianaProcessor_QueryFlag p DI_FLAG_CF))) p' \<and>
    arith_flags n (a - (b + of_bool (DianaProcessor_QueryFlag p DI_FLAG_CF))) (carry_sub a b (of_bool (DianaProcessor_QueryFlag p DI_FLAG_CF)))
      (overflow_flag n (sval n a - sval n b - of_bool (DianaProcessor_QueryFlag p DI_FLAG_CF)))
      (half_carry_sub a b (of_bool (DianaProcessor_QueryFlag p DI_FLAG_CF))) p p'"
  by (rule buf.sbb_Ok [OF assms, unfolded of_int_of_bool]) blast

theorem sbb_correct_witness:
  "\<exists>a b p'. operands (decoded ''sbb'' [reg_op reg_RAX 8, reg_op reg_RCX 8] 8 sample_loaded) 8 8 a b \<and>
    Diana_Call_sbb (decoded ''sbb'' [reg_op reg_RAX 8, reg_op reg_RCX 8] 8 sample_loaded) = Ok () p' \<and>
    GET_REG reg_RAX p' = a - (b + of_bool (DianaProcessor_QueryFlag (decoded ''sbb'' [reg_op reg_RAX 8, reg_op reg_RCX 8] 8 sample_loaded) DI_FLAG_CF))"
proof -
  let ?p = "decoded ''sbb'' [reg_op reg_RAX 8, reg_op reg_RCX 8] 8 sample_loaded"
  have at: "stream_attached MemoryRandomStream_Read MemoryRandomStream_Write buffer_ok ?p" by simp
  obtain a b p' where x: "operands ?p 8 8 a b" "Diana_Call_sbb ?p = Ok () p'"
    "wrote ?p 8 (a - (b + of_bool (DianaProcessor_QueryFlag ?p DI_FLAG_CF))) p'"
    using sbb_correct [OF at sample_ready] by blast
  with wrote_reg [OF x(3)] show ?thesis by auto
qed

text \<open>
  C15: cmp changes nothing but flags, and after it the ten ordering conditions that jumps, moves and sets test decide the
  order of the operands: above and below as unsigned numbers, greater and less as signed ones.
\<close>

theorem cmp_orders:
  assumes "stream_attached MemoryRandomStream_Read MemoryRandomStream_Write buffer_ok p" "alu_ready buffer_mapped p n m"
  shows "\<exists>a b p'. operands p n m a b \<and> Diana_Call_cmp p = Ok () p' \<and> same_but_flags p p' \<and>
    (cond_a p' \<longleftrightarrow> b < a) \<and> (cond_ae p' \<longleftrightarrow> b \<le> a) \<and> (cond_b p' \<longleftrightarrow> a < b) \<and> (cond_be p' \<longleftrightarrow> a \<le> b) \<and>
    (cond_e p' \<longleftrightarrow> a = b) \<and> (cond_ne p' \<longleftrightarrow> a \<noteq> b) \<and>
    (cond_g p' \<longleftrightarrow> sval n b < sval n a) \<and> (cond_ge p' \<longleftrightarrow> sval n b \<le> sval n a) \<and>
    (cond_l p' \<longleftrightarrow> sval n a < sval n b) \<and> (cond_le p' \<longleftrightarrow> sval n a \<le> sval n b)"
proof -
  obtain a b p' where x: "operands p n m a b" "Diana_Call_cmp p = Ok () p'" "same_but_flags p p'"
    "arith_flags n (a - b) (carry_sub a b 0) (overflow_flag n (sval n a - sval n b)) (half_carry_sub a b 0) p p'"
    using buf.cmp_Ok [OF assms] by metis
  have "valid_size n" "fits n a" "fits n b"
    using x(1) alu_destD(4) [OF alu_readyD(1) [OF assms(2)]] by (simp_all add: operands_def)
  from x(1-3) conditions_compared [OF this arith_flags_compared [OF x(4)]] show ?thesis
    by blast
qed

theorem cmp_orders_witness:
  "\<exists>p'. Diana_Call_cmp (decoded ''cmp'' [reg_op reg_RAX 8, reg_op reg_RCX 8] 8 sample_loaded) = Ok () p' \<and> cond_a p' \<and> \<not> cond_l p'"
proof -
  let ?p = "decoded ''cmp'' [reg_op reg_RAX 8, reg_op reg_RCX 8] 8 sample_loaded"
  have at: "stream_attached MemoryRandomStream_Read MemoryRandomStream_Write buffer_ok ?p" by simp
  obtain a b p' where x: "operands ?p 8 8 a b" "Diana_Call_cmp ?p = Ok () p'" "cond_a p' \<longleftrightarrow> b < a" "cond_l p' \<longleftrightarrow> sval 8 a < sval 8 b"
    using cmp_orders [OF at sample_ready] by blast
  have "a = 7" "b = 5"
    using loaded_operands [OF x(1)] by auto
  with x show ?thesis by (intro exI [of _ p']) (simp add: sval_def)
qed

section \<open>Logic\<close>

text \<open>
  And, or and xor store the bitwise result and clear CF and OF; and and or clear AF, xor keeps it; ZF, SF and PF
  describe the result.
\<close>

theorem logic_correct:
  assumes "stream_attached MemoryRandomStream_Read MemoryRandomStream_Write buffer_ok p" "alu_ready buffer_mapped p n m"
  shows "\<exists>a b p1 p2 p3. operands p n m a b \<and>
    Diana_Call_and p = Ok () p1 \<and> wrote p n (a AND b) p1 \<and> arith_flags n (a AND b) False False False p p1 \<and>
    Diana_Call_or p = Ok () p2 \<and> wrote p n (a OR b) p2 \<and> arith_flags n (a OR b) False False False p p2 \<and>
    Diana_Call_xor p = Ok () p3 \<and> wrote p n (a XOR b) p3 \<and>
      arith_flags n (a XOR b) False False (DianaProcessor_QueryFlag p DI_FLAG_AF) p p3"
proof -
  note n = alu_destD(4) [OF alu_readyD(1) [OF assms(2)]]
  obtain a b p1 where 1: "operands p n m a b" "Diana_Call_and p = Ok () p1" "wrote p n (a AND b) p1"
    "arith_flags n (a AND b) False False False p p1"
    using buf.and_Ok [OF assms] by metis
  obtain a2 b2 p2 where 2: "operands p n m a2 b2" "Diana_Call_or p = Ok () p2" "wrote p n (a2 OR b2) p2"
    "arith_flags n (a2 OR b2) False False False p p2"
    using buf.or_Ok [OF assms] by metis
  obtain a3 b3 p3 where 3: "operands p n m a3 b3" "Diana_Call_xor p = Ok () p3" "wrote p n (a3 XOR b3) p3"
    "arith_flags n (a3 XOR b3) False False (DianaProcessor_QueryFlag p DI_FLAG_AF) p p3"
    using buf.xor_Ok [OF assms] by metis
  have "a2 = a" "b2 = b" "a3 = a" "b3 = b"
    using operands_unique [OF n 1(1) 2(1)] operands_unique [OF n 1(1) 3(1)] by simp_all
  with 1 2 3 show ?thesis by blast
qed

theorem logic_correct_witness:
  "\<exists>p'. Diana_Call_xor (decoded ''xor'' [reg_op reg_RAX 8, reg_op reg_RCX 8] 8 sample_loaded) = Ok () p' \<and> GET_REG reg_RAX p' = 2"
proof -
  let ?p = "decoded ''xor'' [reg_op reg_RAX 8, reg_op reg_RCX 8] 8 sample_loaded"
  have at: "stream_attached MemoryRandomStream_Read MemoryRandomStream_Write buffer_ok ?p" by simp
  obtain a b p' where x: "operands ?p 8 8 a b" "Diana_Call_xor ?p = Ok () p'" "wrote ?p 8 (a XOR b) p'"
    using logic_correct [OF at sample_ready] by blast
  have "a = 7" "b = 5"
    using loaded_operands [OF x(1)] by auto
  with x wrote_reg [OF x(3)] show ?thesis by auto
qed

section \<open>One operand\<close>

text \<open>
  Inc and dec store the successor and the predecessor cut to the operand size and set OF, AF, ZF, SF and PF as add and sub of 1
  do; unlike these they keep CF.
\<close>

theorem inc_dec_correct:
  assumes "stream_attached MemoryRandomStream_Read MemoryRandomStream_Write buffer_ok p" "alu_dest buffer_mapped p n"
  shows "\<exists>a p1 p2. DI_MEM_GET 0 p = Ok (a, n) p \<and>
    Diana_Call_inc p = Ok () p1 \<and> wrote p n (a + 1) p1 \<and>
    arith_flags n (a + 1) (DianaProcessor_QueryFlag p DI_FLAG_CF) (overflow_flag n (sval n a + 1)) (half_carry_add a 1 0) p p1 \<and>
    Diana_Call_dec p = Ok () p2 \<and> wrote p n (a - 1) p2 \<and>
    arith_flags n (a - 1) (DianaProcessor_QueryFlag p DI_FLAG_CF) (overflow_flag n (sval n a - 1)) (half_carry_sub a 1 0) p p2"
proof -
  obtain a p1 where 1: "DI_MEM_GET 0 p = Ok (a, n) p" "Diana_Call_inc p = Ok () p1" "wrote p n (a + 1) p1"
    "arith_flags n (a + 1) (DianaProcessor_QueryFlag p DI_FLAG_CF) (overflow_flag n (sval n a + 1)) (half_carry_add a 1 0) p p1"
    using buf.inc_Ok [OF assms] by metis
  obtain a2 p2 where 2: "DI_MEM_GET 0 p = Ok (a2, n) p" "Diana_Call_dec p = Ok () p2" "wrote p n (a2 - 1) p2"
    "arith_flags n (a2 - 1) (DianaProcessor_QueryFlag p DI_FLAG_CF) (overflow_flag n (sval n a2 - 1)) (half_carry_sub a2 1 0) p p2"
    using buf.dec_Ok [OF assms] by metis
  from 1(1) 2(1) have "a2 = a" by simp
  with 1 2 show ?thesis by blast
qed

theorem inc_dec_correct_witness:
  "\<exists>p1 p2. Diana_Call_inc (decoded ''inc'' [reg_op reg_RAX 8] 8 sample_loaded) = Ok () p1 \<and> GET_REG reg_RAX p1 = 8 \<and>
     Diana_Call_dec (decoded ''inc'' [reg_op reg_RAX 8] 8 sample_loaded) = Ok () p2 \<and> GET_REG reg_RAX p2 = 6"
proof -
  let ?p = "decoded ''inc'' [reg_op reg_RAX 8] 8 sample_loaded"
  have at: "stream_attached MemoryRandomStream_Read MemoryRandomStream_Write buffer_ok ?p" by simp
  obtain a p1 p2 where x: "DI_MEM_GET 0 ?p = Ok (a, 8) ?p" "Diana_Call_inc ?p = Ok () p1" "wrote ?p 8 (a + 1) p1"
    "Diana_Call_dec ?p = Ok () p2" "wrote ?p 8 (a - 1) p2"
    using inc_dec_correct [OF at sample_dest(2)] by blast
  have "a = 7"
    using x(1) by (simp add: loaded_get)
  with x wrote_reg [OF x(3)] wrote_reg [OF x(5)] show ?thesis by auto
qed

text \<open>
  Neg stores the two's complement of the operand with the flags of its subtraction from zero: CF unless the operand is zero, OF
  exactly for the least signed value.
\<close>

theorem neg_correct:
  assumes "stream_attached MemoryRandomStream_Read MemoryRandomStream_Write buffer_ok p" "alu_dest buffer_mapped p n"
  shows "\<exists>a p'. DI_MEM_GET 0 p = Ok (a, n) p \<and> Diana_Call_neg p = Ok () p' \<and> wrote p n (- a) p' \<and>
    arith_flags n (- a) (a \<noteq> 0) (sval n a = - (2 ^ (bits_of n - 1))) (half_carry_sub 0 a 0) p p'"
proof -
  obtain a p' where x: "DI_MEM_GET 0 p = Ok (a, n) p" "fits n a" "Diana_Call_neg p = Ok () p'" "wrote p n (- a) p'"
    "arith_flags n (- a) (a \<noteq> 0) (overflow_flag n (- sval n a)) (half_carry_sub 0 a 0) p p'"
    using buf.neg_Ok [OF assms] by metis
  note ov = overflow_neg [OF alu_destD(4) [OF assms(2)] x(2)]
  show ?thesis
    using x(1,3,4) x(5) [unfolded ov] by blast
qed

theorem neg_correct_witness:
  "\<exists>p'. Diana_Call_neg (decoded ''neg'' [reg_op reg_RAX 8] 8 sample_loaded) = Ok () p' \<and> GET_REG reg_RAX p' = - 7"
proof -
  let ?p = "decoded ''neg'' [reg_op reg_RAX 8] 8 sample_loaded"
  have at: "stream_attached MemoryRandomStream_Read MemoryRandomStream_Write buffer_ok ?p" by simp
  obtain a p' where x: "DI_MEM_GET 0 ?p = Ok (a, 8) ?p" "Diana_Call_neg ?p = Ok () p'" "wrote ?p 8 (- a) p'"
    using neg_correct [OF at sample_dest(2)] by blast
  have "a = 7"
    using x(1) by (simp add: loaded_get)
  with x wrote_reg [OF x(3)] show ?thesis by auto
qed

end
