(* ===== verification/Bit_Properties.thy ===== *)
theory Bit_Properties
  imports Sample_Machine
begin

unbundle bit_operations_syntax

text \<open>
  The shifts, the rotations and the bit instructions on a processor over a memory buffer.  The handlers run loops over single
  bits; the theorems give the closed form of what they store and of the carry they leave.
\<close>

lemma sample_imm:
  "fits 1 v \<Longrightarrow> operand_rd mp (decoded c [reg_op reg_RAX 8, imm_op v 1] k sample_loaded) 1 1"
  "DI_MEM_GET 1 (decoded c [reg_op reg_RAX 8, imm_op v 1] k sample_loaded) =
     Ok (v, 1) (decoded c [reg_op reg_RAX 8, imm_op v 1] k sample_loaded)"
  by (simp_all add: operand_rd_def valid_size_def DI_MEM_GET_def di_simps)

lemma sample_count [simp]:
  "shift_count (decoded c ops k sample_loaded) 1 = 1" "shift_count (decoded c ops k sample_loaded) 2 = 2"
  by (simp_all add: shift_count_def shift_word_def)

section \<open>Shifts\<close>

text \<open>
  C38: shl moves the destination left by the masked count (six bits of it with a REX.W prefix, five otherwise); CF is the last bit moved out, OF tells on a
  shift by one whether the sign changed, ZF, SF and PF describe the stored value; a count of zero changes no flag.
\<close>

theorem shl_correct:
  assumes "stream_attached MemoryRandomStream_Read MemoryRandomStream_Write buffer_ok p" "alu_dest buffer_mapped p n" "operand_rd buffer_mapped p 1 m"
  shows "\<exists>a s p'. DI_MEM_GET 0 p = Ok (a, n) p \<and> DI_MEM_GET 1 p = Ok (s, m) p \<and>
    Diana_Call_shl p = Ok () p' \<and> wrote p n (push_bit (shift_count p s) a) p' \<and>
    (if shift_count p s = 0 then m_flags p' = m_flags p
     else arith_flags n (push_bit (shift_count p s) a)
       (shift_count p s \<le> bits_of n \<and> bit a (bits_of n - shift_count p s))
       (shift_count p s = 1 \<and> bit a (bits_of n - 1) \<noteq> bit a (bits_of n - 2))
       (DianaProcessor_QueryFlag p DI_FLAG_AF) p p')"
  by (rule buf.shl_Ok [OF assms]) (auto split: if_split)

theorem shl_correct_witness:
  "\<exists>p'. Diana_Call_shl (decoded ''shl'' [reg_op reg_RAX 8, imm_op 2 1] 8 sample_loaded) = Ok () p' \<and> GET_REG reg_RAX p' = 28"
proof -
  let ?p = "decoded ''shl'' [reg_op reg_RAX 8, imm_op 2 1] 8 sample_loaded"
  have at: "stream_attached MemoryRandomStream_Read MemoryRandomStream_Write buffer_ok ?p" by simp
  have rd: "operand_rd buffer_mapped ?p 1 1" by (rule sample_imm(1)) (simp add: fits_def)
  obtain a s p' where x: "DI_MEM_GET 0 ?p = Ok (a, 8) ?p" "DI_MEM_GET 1 ?p = Ok (s, 1) ?p"
    "Diana_Call_shl ?p = Ok () p'" "wrote ?p 8 (push_bit (shift_count ?p s) a) p'"
    using shl_correct [OF at sample_dest(2) rd] by blast
  have "a = 7" "s = 2"
    using x(1,2) by (simp_all add: loaded_get sample_imm)
  with x(3) wrote_reg [OF x(4)] show ?thesis by auto
qed

text \<open>
  Shr moves the destination right and fills with zeros; CF is the last bit moved out and OF, on a shift by one, the old sign.
\<close>

theorem shr_correct:
  assumes "stream_attached MemoryRandomStream_Read MemoryRandomStream_Write buffer_ok p" "alu_dest buffer_mapped p n" "operand_rd buffer_mapped p 1 m"
  shows "\<exists>a s p'. DI_MEM_GET 0 p = Ok (a, n) p \<and> DI_MEM_GET 1 p = Ok (s, m) p \<and>
    Diana_Call_shr p = Ok () p' \<and> wrote p n (drop_bit (shift_count p s) a) p' \<and>
    (if shift_count p s = 0 then m_flags p' = m_flags p
     else arith_flags n (drop_bit (shift_count p s) a) (bit a (shift_count p s - 1))
       (shift_count p s = 1 \<and> bit a (bits_of n - 1)) (DianaProcessor_QueryFlag p DI_FLAG_AF) p p')"
  by (rule buf.shr_Ok [OF assms]) (auto split: if_split)

theorem shr_correct_witness:
  "\<exists>p'. Diana_Call_shr (decoded ''shr'' [reg_op reg_RAX 8, imm_op 2 1] 8 sample_loaded) = Ok () p' \<and> GET_REG reg_RAX p' = 1 \<and>
     DianaProcessor_QueryFlag p' DI_FLAG_CF"
proof -
  let ?p = "decoded ''shr'' [reg_op reg_RAX 8, imm_op 2 1] 8 sample_loaded"
  have at: "stream_attached MemoryRandomStream_Read MemoryRandomStream_Write buffer_ok ?p" by simp
  have rd: "operand_rd buffer_mapped ?p 1 1" by (rule sample_imm(1)) (simp add: fits_def)
  obtain a s p' where x: "DI_MEM_GET 0 ?p = Ok (a, 8) ?p" "DI_MEM_GET 1 ?p = Ok (s, 1) ?p"
    "Diana_Call_shr ?p = Ok () p'" "wrote ?p 8 (drop_bit (shift_count ?p s) a) p'"
    "if shift_count ?p s = 0 then m_flags p' = m_flags ?p
     else arith_flags 8 (drop_bit (shift_count ?p s) a) (bit a (shift_count ?p s - 1))
       (shift_count ?p s = 1 \<and> bit a (bits_of 8 - 1)) (DianaProcessor_QueryFlag ?p DI_FLAG_AF) ?p p'"
    using shr_correct [OF at sample_dest(2) rd] by blast
  have "a = 7" "s = 2"
    using x(1,2) by (simp_all add: loaded_get sample_imm)
  moreover have "bit (7 :: u64) 1" "drop_bit 2 (7 :: u64) = 1" by code_simp+
  ultimately show ?thesis
    using x(3,5) wrote_reg [OF x(4)] by (intro exI [of _ p']) (simp add: arith_flags_def)
qed

text \<open>
  sar divides the signed value of the destination by the power of two of the count, rounding down; CF is the last bit moved out and OF is cleared.
\<close>

theorem sar_correct:
  assumes "stream_attached MemoryRandomStream_Read MemoryRandomStream_Write buffer_ok p" "alu_dest buffer_mapped p n" "operand_rd buffer_mapped p 1 m"
  shows "\<exists>a s r p'. DI_MEM_GET 0 p = Ok (a, n) p \<and> DI_MEM_GET 1 p = Ok (s, m) p \<and>
    Diana_Call_sar p = Ok () p' \<and> wrote p n r p' \<and> sval n r = sval n a div 2 ^ shift_count p s \<and>
    (if shift_count p s = 0 then m_flags p' = m_flags p
     else arith_flags n r (bit (sval n a) (shift_count p s - 1)) False (DianaProcessor_QueryFlag p DI_FLAG_AF) p p')"
  by (rule buf.sar_Ok [OF assms]) (auto split: if_split)

theorem sar_correct_witness:
  "\<exists>p'. Diana_Call_sar (decoded ''sar'' [reg_op reg_RAX 8, imm_op 2 1] 8 sample_loaded) = Ok () p' \<and> sval 8 (GET_REG reg_RAX p') = 1"
proof -
  let ?p = "decoded ''sar'' [reg_op reg_RAX 8, imm_op 2 1] 8 sample_loaded"
  have at: "stream_attached MemoryRandomStream_Read MemoryRandomStream_Write buffer_ok ?p" by simp
  have rd: "operand_rd buffer_mapped ?p 1 1" by (rule sample_imm(1)) (simp add: fits_def)
  obtain a s r p' where x: "DI_MEM_GET 0 ?p = Ok (a, 8) ?p" "DI_MEM_GET 1 ?p = Ok (s, 1) ?p"
    "Diana_Call_sar ?p = Ok () p'" "wrote ?p 8 r p'" "sval 8 r = sval 8 a div 2 ^ shift_count ?p s"
    using sar_correct [OF at sample_dest(2) rd] by blast
  have "a = 7" "s = 2"
    using x(1,2) by (simp_all add: loaded_get sample_imm)
  moreover have "sval 8 7 = 7" by (simp add: sval_def)
  ultimately show ?thesis
    using x(3,5) wrote_reg [OF x(4)] by (intro exI [of _ p']) simp
qed

section \<open>Rotations\<close>

text \<open>
  Rol and ror permute the bits of the destination by the masked count, modulo the operand size; CF repeats the bit that crossed the edge, and the
  flags other than CF and OF are kept.
\<close>

theorem rotate_correct:
  assumes "stream_attached MemoryRandomStream_Read MemoryRandomStream_Write buffer_ok p" "alu_dest buffer_mapped p n" "operand_rd buffer_mapped p 1 m"
  shows "\<exists>a s r1 r2 p1 p2. DI_MEM_GET 0 p = Ok (a, n) p \<and> DI_MEM_GET 1 p = Ok (s, m) p \<and>
    Diana_Call_rol p = Ok () p1 \<and> wrote p n r1 p1 \<and>
    (\<forall>i < bits_of n. bit r1 ((i + shift_count p s) mod bits_of n) = bit a i) \<and>
    Diana_Call_ror p = Ok () p2 \<and> wrote p n r2 p2 \<and>
    (\<forall>i < bits_of n. bit r2 i = bit a ((i + shift_count p s) mod bits_of n)) \<and>
    (shift_count p s = 0 \<or> DianaProcessor_QueryFlag p1 DI_FLAG_CF = bit r1 0 \<and>
       DianaProcessor_QueryFlag p2 DI_FLAG_CF = bit r2 (bits_of n - 1)) \<and>
    (\<forall>g. DI_FLAG_CF AND g = 0 \<and> DI_FLAG_OF AND g = 0 \<longrightarrow> DianaProcessor_QueryFlag p1 g = DianaProcessor_QueryFlag p g \<and>
       DianaProcessor_QueryFlag p2 g = DianaProcessor_QueryFlag p g)"
proof -
  note n = alu_destD(4) [OF assms(2)]
  let ?M = "DianaProcessor_GetSignMask n"
  obtain a s r1 p1 where 1: "DI_MEM_GET 0 p = Ok (a, n) p" "DI_MEM_GET 1 p = Ok (s, m) p" "Diana_Call_rol p = Ok () p1" "wrote p n r1 p1"
    "r1 = Di_rol_loop (shift_count p s) ?M a" "shift_count p s \<noteq> 0 \<Longrightarrow> DianaProcessor_QueryFlag p1 DI_FLAG_CF = bit r1 0"
    "\<And>g. 1 AND g = 0 \<Longrightarrow> 0x800 AND g = 0 \<Longrightarrow> DianaProcessor_QueryFlag p1 g = DianaProcessor_QueryFlag p g"
    by (rule buf.rol_Ok [OF assms]) blast
  obtain a' s' r2 p2 where 2: "DI_MEM_GET 0 p = Ok (a', n) p" "DI_MEM_GET 1 p = Ok (s', m) p" "Diana_Call_ror p = Ok () p2" "wrote p n r2 p2"
    "r2 = Di_ror_loop (shift_count p s') ?M a'" "shift_count p s' \<noteq> 0 \<Longrightarrow> DianaProcessor_QueryFlag p2 DI_FLAG_CF = bit r2 (bits_of n - 1)"
    "\<And>g. 1 AND g = 0 \<Longrightarrow> 0x800 AND g = 0 \<Longrightarrow> DianaProcessor_QueryFlag p2 g = DianaProcessor_QueryFlag p g"
    by (rule buf.ror_Ok [OF assms]) blast
  have eq: "a' = a" "s' = s" using 1(1,2) 2(1,2) by simp_all
  obtain v where v: "DI_MEM_GET 0 p = Ok (v, n) p" "fits n v"
    using buf.alu_fetch_dest [OF assms(1,2)] by metis
  have a: "fits n a" using v 1(1) by simp
  have B: "0 < bits_of n" using valid_bits [OF n] by simp
  have b1: "\<forall>i < bits_of n. bit r1 ((i + shift_count p s) mod bits_of n) = bit a i"
    unfolding 1(5) using rol_loop_bit [OF n] rotate_index B by simp
  have b2: "\<forall>i < bits_of n. bit r2 i = bit a ((i + shift_count p s) mod bits_of n)"
    unfolding 2(5) eq using ror_loop_bit(2) [OF n a] by blast
  have c: "shift_count p s = 0 \<or> DianaProcessor_QueryFlag p1 DI_FLAG_CF = bit r1 0 \<and> DianaProcessor_QueryFlag p2 DI_FLAG_CF = bit r2 (bits_of n - 1)"
    using 1(6) 2(6) unfolding eq by blast
  have g: "\<forall>g. DI_FLAG_CF AND g = 0 \<and> DI_FLAG_OF AND g = 0 \<longrightarrow> DianaProcessor_QueryFlag p1 g = DianaProcessor_QueryFlag p g \<and>
      DianaProcessor_QueryFlag p2 g = DianaProcessor_QueryFlag p g"
    using 1(7) 2(7) by blast
  from 1(1-4) b1 2(3,4) b2 c g show ?thesis
    by (intro exI conjI)
qed

theorem rotate_correct_witness:
  "\<exists>p1. Diana_Call_rol (decoded ''rol'' [reg_op reg_RAX 8, imm_op 1 1] 8 sample_loaded) = Ok () p1 \<and> bit (GET_REG reg_RAX p1) 3"
proof -
  let ?p = "decoded ''rol'' [reg_op reg_RAX 8, imm_op 1 1] 8 sample_loaded"
  have at: "stream_attached MemoryRandomStream_Read MemoryRandomStream_Write buffer_ok ?p" by simp
  have rd: "operand_rd buffer_mapped ?p 1 1" by (rule sample_imm(1)) (simp add: fits_def)
  obtain a s r1 p1 where x: "DI_MEM_GET 0 ?p = Ok (a, 8) ?p" "DI_MEM_GET 1 ?p = Ok (s, 1) ?p" "Diana_Call_rol ?p = Ok () p1" "wrote ?p 8 r1 p1"
    "\<forall>i < bits_of 8. bit r1 ((i + shift_count ?p s) mod bits_of 8) = bit a i"
    using rotate_correct [OF at sample_dest(2) rd] by blast
  have "a = 7" "s = 1"
    using x(1,2) by (simp_all add: loaded_get sample_imm)
  moreover have "bit (7 :: u64) 2" by code_simp
  ultimately show ?thesis
    using x(3) spec [OF x(5), of 2] wrote_reg [OF x(4)] by (intro exI [of _ p1]) (simp add: bits_of_def)
qed

text \<open>
  Rotating a register left and then right by the same immediate count gives back its value, whatever the count and the size of the register.
\<close>

theorem rotate_roundtrip:
  assumes "stream_attached MemoryRandomStream_Read MemoryRandomStream_Write buffer_ok p" "alu_dest buffer_mapped p n" "operand_rd buffer_mapped p 1 m"
    "op_value (linked p 0) = diana_register r" "op_value (linked p 1) = diana_imm v"
  shows "\<exists>p1 p2. Diana_Call_rol p = Ok () p1 \<and> Diana_Call_ror p1 = Ok () p2 \<and> GET_REG r p2 = GET_REG r p"
proof -
  note n = alu_destD(4) [OF assms(2)]
  let ?M = "DianaProcessor_GetSignMask n"
  obtain a s r1 p1 where 1: "DI_MEM_GET 0 p = Ok (a, n) p" "DI_MEM_GET 1 p = Ok (s, m) p" "Diana_Call_rol p = Ok () p1"
    "stream_attached MemoryRandomStream_Read MemoryRandomStream_Write buffer_ok p1" "wrote p n r1 p1"
    "r1 = Di_rol_loop (shift_count p s) ?M a"
    by (rule buf.rol_Ok [OF assms(1-3)]) blast
  have fr: "m_result p1 = m_result p" "m_context p1 = m_context p" "std_regs p1" "psz_off p1"
    using 1(5) by (simp_all add: wrote_def operand_frame_def)
  have rw: "operand_rw buffer_mapped p 0 n"
    using alu_destD(3) [OF assms(2)] .
  have ready: "alu_dest buffer_mapped p1 n" "operand_rd buffer_mapped p1 1 m"
    using rw assms(3-5) fr alu_destD(5) [OF assms(2)] by (auto simp: alu_dest_def operand_rd_def operand_rw_def)
  obtain a' s' r2 p2 where 2: "DI_MEM_GET 0 p1 = Ok (a', n) p1" "DI_MEM_GET 1 p1 = Ok (s', m) p1" "Diana_Call_ror p1 = Ok () p2" "wrote p1 n r2 p2"
    "r2 = Di_ror_loop (shift_count p1 s') ?M a'"
    by (rule buf.ror_Ok [OF 1(4) ready]) blast
  obtain w where w: "DI_MEM_GET 0 p = Ok (w, n) p" "fits n w"
    using buf.alu_fetch_dest [OF assms(1,2)] by metis
  have s: "s' = s" "shift_count p1 s = shift_count p s"
    using 1(2) 2(2) assms(5) fr(1,2)
    by (auto simp: DI_MEM_GET_def di_simps shift_count_def shift_word_def Di_ShiftWide_def split: if_splits)
  have "a' = DianaProcessor_CutValue r1 n"
    using 1(5) 2(1) by (simp add: wrote_def)
  then have r2: "r2 = a"
    using rotate_back [OF n, of a "shift_count p s"] w 1(1,6) 2(5) s by simp
  have "DI_MEM_GET 0 p2 = Ok (a, n) p2" "m_result p2 = m_result p"
    using 2(4) fr(1) w 1(1) r2 n by (simp_all add: wrote_def operand_frame_def CutValue_fits)
  then have "GET_REG r p2 = a" "GET_REG r p = a"
    using 1(1) assms(4) by (auto simp: DI_MEM_GET_def di_simps Diana_ProcessorGetOperand_register_def split: if_splits)
  with 1(3) 2(3) show ?thesis by auto
qed

theorem rotate_roundtrip_witness:
  "\<exists>p1 p2. Diana_Call_rol (decoded ''rol'' [reg_op reg_RAX 8, imm_op 1 1] 8 sample_loaded) = Ok () p1 \<and>
     Diana_Call_ror p1 = Ok () p2 \<and> GET_REG reg_RAX p2 = 7"
proof -
  let ?p = "decoded ''rol'' [reg_op reg_RAX 8, imm_op 1 1] 8 sample_loaded"
  have at: "stream_attached MemoryRandomStream_Read MemoryRandomStream_Write buffer_ok ?p" by simp
  have rd: "operand_rd buffer_mapped ?p 1 1" by (rule sample_imm(1)) (simp add: fits_def)
  have "op_value (linked ?p 0) = diana_register reg_RAX" "op_value (linked ?p 1) = diana_imm 1" by simp_all
  from rotate_roundtrip [OF at sample_dest(2) rd this] show ?thesis by simp
qed

section \<open>Single bits\<close>

text \<open>
  Bsf and bsr set ZF exactly for a zero source and then leave the destination alone; otherwise they store the position of the lowest and of the highest bit that is set.
\<close>

theorem bit_scan_correct:
  assumes "stream_attached MemoryRandomStream_Read MemoryRandomStream_Write buffer_ok p" "alu_dest buffer_mapped p n" "operand_rd buffer_mapped p 1 m"
  shows "\<exists>b p1 p2. DI_MEM_GET 1 p = Ok (b, m) p \<and> Diana_Call_bsf p = Ok () p1 \<and> Diana_Call_bsr p = Ok () p2 \<and>
    (DianaProcessor_QueryFlag p1 DI_FLAG_ZF \<longleftrightarrow> b = 0) \<and> (DianaProcessor_QueryFlag p2 DI_FLAG_ZF \<longleftrightarrow> b = 0) \<and>
    (if b = 0 then same_but_flags p p1 \<and> same_but_flags p p2
     else (\<exists>j < 64. bit b j \<and> (\<forall>k < j. \<not> bit b k) \<and> wrote p n (of_nat j) p1) \<and>
       (\<exists>j < 64. bit b j \<and> (\<forall>k > j. \<not> bit b k) \<and> wrote p n (of_nat j) p2))"
proof -
  obtain b p1 where 1: "DI_MEM_GET 1 p = Ok (b, m) p" "Diana_Call_bsf p = Ok () p1" "DianaProcessor_QueryFlag p1 DI_FLAG_ZF \<longleftrightarrow> b = 0"
    "b \<noteq> 0 \<Longrightarrow> \<exists>j < 64. bit b j \<and> (\<forall>k < j. \<not> bit b k) \<and> wrote p n (of_nat j) p1" "b = 0 \<Longrightarrow> same_but_flags p p1"
    by (rule buf.bsf_Ok [OF assms]) blast
  obtain b' p2 where 2: "DI_MEM_GET 1 p = Ok (b', m) p" "Diana_Call_bsr p = Ok () p2" "DianaProcessor_QueryFlag p2 DI_FLAG_ZF \<longleftrightarrow> b' = 0"
    "b' \<noteq> 0 \<Longrightarrow> \<exists>j < 64. bit b' j \<and> (\<forall>k > j. \<not> bit b' k) \<and> wrote p n (of_nat j) p2" "b' = 0 \<Longrightarrow> same_but_flags p p2"
    by (rule buf.bsr_Ok [OF assms]) blast
  have "b' = b" using 1(1) 2(1) by simp
  with 1 2 show ?thesis by (intro exI [of _ b] exI [of _ p1] exI [of _ p2]) simp
qed

theorem bit_scan_correct_witness:
  "\<exists>p1. Diana_Call_bsf (decoded ''bsf'' [reg_op reg_RAX 8, reg_op reg_RCX 8] 8 sample_loaded) = Ok () p1 \<and>
     (\<exists>j < 64. bit (5 :: u64) j \<and> (\<forall>k < j. \<not> bit (5 :: u64) k) \<and> GET_REG reg_RAX p1 = of_nat j)"
proof -
  let ?p = "decoded ''bsf'' [reg_op reg_RAX 8, reg_op reg_RCX 8] 8 sample_loaded"
  have at: "stream_attached MemoryRandomStream_Read MemoryRandomStream_Write buffer_ok ?p" by simp
  have rd: "operand_rd buffer_mapped ?p 1 8" using alu_readyD(2) [OF sample_ready] .
  obtain b p1 where x: "DI_MEM_GET 1 ?p = Ok (b, 8) ?p" "Diana_Call_bsf ?p = Ok () p1"
    "if b = 0 then same_but_flags ?p p1 else \<exists>j < 64. bit b j \<and> (\<forall>k < j. \<not> bit b k) \<and> wrote ?p 8 (of_nat j) p1"
    using bit_scan_correct [OF at sample_dest(2) rd] by (metis (lifting))
  have b: "b = 5" using x(1) by (simp add: loaded_get)
  then obtain j where j: "j < 64" "bit (5 :: u64) j" "\<forall>k < j. \<not> bit (5 :: u64) k" "wrote ?p 8 (of_nat j) p1"
    using x(3) by auto
  with x(2) wrote_reg [OF j(4)] show ?thesis by (intro exI [of _ p1] conjI exI [of _ j]) simp_all
qed

text \<open>
  Bts, btr and btc on a register copy the selected bit to CF, the offset taken modulo the operand size, and then set, clear or
  flip that bit and no other; all other flags are kept.
\<close>

theorem bit_test_correct:
  assumes "stream_attached MemoryRandomStream_Read MemoryRandomStream_Write buffer_ok p" "alu_dest buffer_mapped p n" "operand_rd buffer_mapped p 1 m"
    "n \<noteq> 1" "opsize p = n" "op_value (linked p 0) = diana_register r"
  shows "\<exists>a b p1 p2 p3. DI_MEM_GET 0 p = Ok (a, n) p \<and> DI_MEM_GET 1 p = Ok (b, m) p \<and>
    Diana_Call_bts p = Ok () p1 \<and> wrote p n (set_bit (unat b mod bits_of n) a) p1 \<and>
    Diana_Call_btr p = Ok () p2 \<and> wrote p n (unset_bit (unat b mod bits_of n) a) p2 \<and>
    Diana_Call_btc p = Ok () p3 \<and> wrote p n (flip_bit (unat b mod bits_of n) a) p3 \<and>
    (\<forall>q \<in> {p1, p2, p3}. (DianaProcessor_QueryFlag q DI_FLAG_CF \<longleftrightarrow> bit a (unat b mod bits_of n)) \<and>
       (\<forall>g. DI_FLAG_CF AND g = 0 \<longrightarrow> DianaProcessor_QueryFlag q g = DianaProcessor_QueryFlag p g))"
proof -
  have d: "\<And>ix. op_value (linked p 0) \<noteq> diana_index ix" using assms(6) by simp
  obtain a b p1 where 1: "DI_MEM_GET 0 p = Ok (a, n) p" "DI_MEM_GET 1 p = Ok (b, m) p" "Diana_Call_bts p = Ok () p1"
    "wrote p n (set_bit (unat b mod bits_of n) a) p1" "DianaProcessor_QueryFlag p1 DI_FLAG_CF \<longleftrightarrow> bit a (unat b mod bits_of n)"
    "\<And>g. DI_FLAG_CF AND g = 0 \<Longrightarrow> DianaProcessor_QueryFlag p1 g = DianaProcessor_QueryFlag p g"
    by (rule buf.bts_Ok [OF assms(1-5) d]) blast
  obtain a2 b2 p2 where 2: "DI_MEM_GET 0 p = Ok (a2, n) p" "DI_MEM_GET 1 p = Ok (b2, m) p" "Diana_Call_btr p = Ok () p2"
    "wrote p n (unset_bit (unat b2 mod bits_of n) a2) p2" "DianaProcessor_QueryFlag p2 DI_FLAG_CF \<longleftrightarrow> bit a2 (unat b2 mod bits_of n)"
    "\<And>g. DI_FLAG_CF AND g = 0 \<Longrightarrow> DianaProcessor_QueryFlag p2 g = DianaProcessor_QueryFlag p g"
    by (rule buf.btr_Ok [OF assms(1-5) d]) blast
  obtain a3 b3 p3 where 3: "DI_MEM_GET 0 p = Ok (a3, n) p" "DI_MEM_GET 1 p = Ok (b3, m) p" "Diana_Call_btc p = Ok () p3"
    "wrote p n (flip_bit (unat b3 mod bits_of n) a3) p3" "DianaProcessor_QueryFlag p3 DI_FLAG_CF \<longleftrightarrow> bit a3 (unat b3 mod bits_of n)"
    "\<And>g. DI_FLAG_CF AND g = 0 \<Longrightarrow> DianaProcessor_QueryFlag p3 g = DianaProcessor_QueryFlag p g"
    by (rule buf.btc_Ok [OF assms(1-5) d]) blast
  have "a2 = a" "b2 = b" "a3 = a" "b3 = b" using 1(1,2) 2(1,2) 3(1,2) by simp_all
  with 1 2 3 show ?thesis
    by (intro exI [of _ a] exI [of _ b] exI [of _ p1] exI [of _ p2] exI [of _ p3]) simp
qed

theorem bit_test_correct_witness:
  "\<exists>p1. Diana_Call_bts (decoded ''bts'' [reg_op reg_RAX 8, reg_op reg_RCX 8] 8 sample_loaded) = Ok () p1 \<and> GET_REG reg_RAX p1 = 39 \<and>
     \<not> DianaProcessor_QueryFlag p1 DI_FLAG_CF"
proof -
  let ?p = "decoded ''bts'' [reg_op reg_RAX 8, reg_op reg_RCX 8] 8 sample_loaded"
  have at: "stream_attached MemoryRandomStream_Read MemoryRandomStream_Write buffer_ok ?p" by simp
  have rd: "operand_rd buffer_mapped ?p 1 8" using alu_readyD(2) [OF sample_ready] .
  have o: "opsize ?p = 8" "(8 :: int) \<noteq> 1" "op_value (linked ?p 0) = diana_register reg_RAX" by simp_all
  obtain a b p1 where x: "DI_MEM_GET 0 ?p = Ok (a, 8) ?p" "DI_MEM_GET 1 ?p = Ok (b, 8) ?p" "Diana_Call_bts ?p = Ok () p1"
    "wrote ?p 8 (set_bit (unat b mod bits_of 8) a) p1" "DianaProcessor_QueryFlag p1 DI_FLAG_CF \<longleftrightarrow> bit a (unat b mod bits_of 8)"
    using bit_test_correct [OF at sample_dest(2) rd o(2,1,3)] by blast
  have "a = 7" "b = 5" using x(1,2) by (simp_all add: loaded_get)
  moreover have "\<not> bit (7 :: u64) 5" "set_bit 5 (7 :: u64) = 39" by code_simp+
  ultimately show ?thesis
    using x(3,5) wrote_reg [OF x(4)] by (intro exI [of _ p1]) (simp add: bits_of_def)
qed

text \<open>
  Bswap on a 4 or 8 byte destination stores its bytes in reverse order and changes no flag.
\<close>

theorem bswap_correct:
  assumes "stream_attached MemoryRandomStream_Read MemoryRandomStream_Write buffer_ok p" "alu_dest buffer_mapped p n" "n = 4 \<or> n = 8"
  shows "\<exists>a w p'. DI_MEM_GET 0 p = Ok (a, n) p \<and> Diana_Call_bswap p = Ok () p' \<and> wrote p n w p' \<and>
    le_bytes (nat n) w = rev (le_bytes (nat n) a) \<and> m_flags p' = m_flags p"
  by (rule buf.bswap_Ok [OF assms]) blast

theorem bswap_correct_witness:
  "\<exists>p'. Diana_Call_bswap (decoded ''bswap'' [reg_op reg_RAX 8] 8 sample_loaded) = Ok () p' \<and>
     le_bytes 8 (GET_REG reg_RAX p') = [0, 0, 0, 0, 0, 0, 0, 7]"
proof -
  let ?p = "decoded ''bswap'' [reg_op reg_RAX 8] 8 sample_loaded"
  have at: "stream_attached MemoryRandomStream_Read MemoryRandomStream_Write buffer_ok ?p" by simp
  obtain a w p' where x: "DI_MEM_GET 0 ?p = Ok (a, 8) ?p" "Diana_Call_bswap ?p = Ok () p'" "wrote ?p 8 w p'"
    "le_bytes (nat 8) w = rev (le_bytes (nat 8) a)"
    using bswap_correct [OF at sample_dest(2)] by auto
  have "a = 7" using x(1) by (simp add: loaded_get)
  moreover have "rev (le_bytes 8 7) = [0, 0, 0, 0, 0, 0, 0, 7]" by code_simp
  ultimately show ?thesis
    using x(2,4) wrote_reg [OF x(3)] by auto
qed

end
