(* ===== verification/Product_Correct.thy ===== *)
theory Product_Correct
  imports Cmd_D Cmd_I Cmd_M
begin

unbundle bit_operations_syntax

text \<open>
  The multiplications: the unsigned product in the double-width accumulator, the signed product cut to the destination, and the
  carry that says whether the upper half is needed.
\<close>

section \<open>Unsigned products\<close>

lemma product_bound: "0 \<le> a \<Longrightarrow> a < M \<Longrightarrow> 0 \<le> b \<Longrightarrow> b < M \<Longrightarrow> a * b < M * (M :: int)"
  by (rule mult_strict_mono') simp_all

lemma zdiv_less_mult: "P < M * M \<Longrightarrow> 0 < M \<Longrightarrow> P div M < (M :: int)"
  by (rule ccontr) (use mult_left_mono [of M "P div M" M] pos_mod_sign [of M P] mult_div_mod_eq [of M P] in linarith)

lemma product_word:
  fixes a b :: "'a :: len word"
  assumes "uint a * uint b < 2 ^ LENGTH('a)"
  shows "uint (a * b) = uint a * uint b"
  using assms by (simp add: uint_word_ariths(3))

lemma product_drop: "uint (drop_bit k (r :: 'a :: len word)) = uint r div 2 ^ k"
  by (simp add: unsigned_drop_bit_eq take_bit_int_eq_self flip: drop_bit_eq_div [of k "uint r"])

lemma product_high: "drop_bit k (r :: 'a :: len word) \<noteq> 0 \<longleftrightarrow> uint r div 2 ^ k \<noteq> 0"
  by (simp add: word_uint_eq_iff [of _ 0] flip: product_drop)

lemma product_parts:
  fixes r :: "'a :: len word"
  shows "(ucast (ucast r :: 'b :: len word) :: 'c :: len word) = word_of_int (uint r mod 2 ^ LENGTH('b))"
    "(ucast (drop_bit k r) :: 'c word) = word_of_int (uint r div 2 ^ k)"
proof -
  have "uint (ucast r :: 'b word) = uint r mod 2 ^ LENGTH('b)" "uint (drop_bit k r) = uint r div 2 ^ k"
    by (simp_all add: unsigned_ucast_eq take_bit_eq_mod product_drop)
  then show "(ucast (ucast r :: 'b word) :: 'c word) = word_of_int (uint r mod 2 ^ LENGTH('b))"
    "(ucast (drop_bit k r) :: 'c word) = word_of_int (uint r div 2 ^ k)"
    by (simp_all only: ucast_eq [of "ucast r :: 'b word"] ucast_eq [of "drop_bit k r"])
qed

text \<open>The flags of a multiplication: CF and OF repeat one truth value, the others are kept.\<close>

definition CO_flags :: "bool \<Rightarrow> 'm DianaProcessor \<Rightarrow> 'm DianaProcessor \<Rightarrow> bool" where
  "CO_flags c p p' \<longleftrightarrow> DianaProcessor_QueryFlag p' DI_FLAG_CF = c \<and> DianaProcessor_QueryFlag p' DI_FLAG_OF = c \<and>
     (\<forall>g. DI_FLAG_CF AND g = 0 \<and> DI_FLAG_OF AND g = 0 \<longrightarrow> DianaProcessor_QueryFlag p' g = DianaProcessor_QueryFlag p g)"

abbreviation clear_CO :: "'m DianaProcessor \<Rightarrow> 'm DianaProcessor" where
  "clear_CO p \<equiv> DianaProcessor_ClearFlag DI_FLAG_OF (DianaProcessor_ClearFlag DI_FLAG_CF p)"

lemma CO_flagsI: "m_flags p' = m_flags (Di_set_CO c (clear_CO p)) \<Longrightarrow> CO_flags c p p'"
  using QueryFlag_cong [of p' "Di_set_CO c (clear_CO p)"] by (auto simp: CO_flags_def Di_set_CO_def)

lemma set_CO_same: "same_but_flags p (Di_set_CO c (clear_CO p))"
  by (simp add: Di_set_CO_def same_but_flags_steps)

text \<open>The accumulator after an unsigned multiplication.\<close>

definition mul_outcome :: "int \<Rightarrow> u64 \<Rightarrow> 'm DianaProcessor \<Rightarrow> (unit, 'm DianaProcessor) di_res \<Rightarrow> bool" where
  "mul_outcome n v p res \<longleftrightarrow> (\<exists>p'. res = Ok () p' \<and>
     dividend n p' = uint (GET_REG (dividend_low n) p) * uint v \<and>
     CO_flags (2 ^ bits_of n \<le> uint (GET_REG (dividend_low n) p) * uint v) p p' \<and> m_memory p' = m_memory p)"

lemma divided_dividend: "divided n (P mod 2 ^ bits_of n) (P div 2 ^ bits_of n) p \<Longrightarrow> dividend n p = P"
  by (simp add: divided_def dividend_def)

lemma mul_outcomeI:
  assumes "std_regs p" "psz_off p" "valid_size n" "uint v < 2 ^ bits_of n"
    "P = uint (GET_REG (dividend_low n) p) * uint v"
    "res = Ok () (SET_REG (dividend_high n) (word_of_int (P div 2 ^ bits_of n)) (SET_REG (dividend_low n) (word_of_int (P mod 2 ^ bits_of n))
       (Di_set_CO (P div 2 ^ bits_of n \<noteq> 0) (clear_CO p))))"
  shows "mul_outcome n v p res"
proof -
  let ?q = "Di_set_CO (P div 2 ^ bits_of n \<noteq> 0) (clear_CO p)"
  obtain f where q: "?q = p\<lparr>m_flags := f\<rparr>"
    using set_CO_same by (rule same_but_flagsE)
  have "uint (GET_REG (dividend_low n) p) < 2 ^ bits_of n"
    using assms(3) fits_uint [OF assms(1) acc_at(1)] fits_uint [OF assms(1) acc_at(3)] fits_uint [OF assms(1) acc_at(4)]
      uint_lt2p [of "GET_REG reg_RAX p"]
    by (elim valid_sizeE) (simp_all add: dividend_low_def)
  then have P: "0 \<le> P" "P < 2 ^ bits_of n * 2 ^ bits_of n"
    using assms(4) unfolding assms(5) by (auto intro: product_bound)
  then have b: "0 \<le> P div 2 ^ bits_of n" "P div 2 ^ bits_of n < 2 ^ bits_of n"
    by (simp_all add: pos_imp_zdiv_nonneg_iff zdiv_less_mult)
  have c: "2 ^ bits_of n \<le> P \<longleftrightarrow> P div 2 ^ bits_of n \<noteq> 0"
    using P(1) by (auto simp: div_pos_pos_trivial zdiv_eq_0_iff)
  have std: "std_regs ?q" "psz_off ?q"
    using assms(1,2) unfolding q by (simp_all add: std_regs_def psz_off_def)
  have psz: "psz_off (SET_REG (dividend_low n) w ?q)" for w
    using std(2) by (simp add: psz_off_def dividend_low_def)
  note d = divided_dividend [OF divided_regs [OF std(1) assms(3) _ _ b, of "P mod 2 ^ bits_of n"]]
  let ?p' = "SET_REG (dividend_high n) (word_of_int (P div 2 ^ bits_of n)) (SET_REG (dividend_low n) (word_of_int (P mod 2 ^ bits_of n)) ?q)"
  have "m_flags ?p' = m_flags ?q" "m_memory ?p' = m_memory p"
    using std(2) psz by (simp_all add: q)
  with d show ?thesis
    unfolding mul_outcome_def assms(6) assms(5) [symmetric] c
    by (intro exI [of _ ?p'] conjI refl CO_flagsI) simp_all
qed

lemma mul8_outcome:
  assumes "std_regs p" "psz_off p" "uint v < 2 ^ 8"
  shows "mul_outcome 1 v p (Diana_Call_mul8 v (clear_CO p))"
proof -
  let ?r = "ucast (GET_REG reg_AL p) * ucast v :: u16" and ?P = "uint (GET_REG reg_AL p) * uint v"
  have a: "uint (GET_REG reg_AL p) < 2 ^ 8"
    using fits_uint [OF assms(1) acc_at(1)] by simp
  have r: "uint ?r = ?P"
    using product_bound [OF _ a _ assms(3)] uint_ucast_fits [of "GET_REG reg_AL p", where 'b = 16] uint_ucast_fits [of v, where 'b = 16] a assms(3)
    by (subst product_word) simp_all
  have d: "drop_bit 8 ?r \<noteq> 0 \<longleftrightarrow> 2 ^ 8 \<le> ?P"
    unfolding product_high r by (simp add: zdiv_eq_0_iff not_less)
  let ?q = "Di_set_CO (2 ^ 8 \<le> ?P) (clear_CO p)" and ?w = "ucast ?r :: u64"
  obtain f where q: "?q = p\<lparr>m_flags := f\<rparr>"
    using set_CO_same by (rule same_but_flagsE)
  have std: "std_regs ?q" "psz_off ?q"
    using assms(1,2) unfolding q by (simp_all add: std_regs_def psz_off_def)
  have "uint (take_bit 16 ?w) = ?P"
    using uint_lt2p [of ?r] by (simp add: uint_take_bit unsigned_ucast_eq r take_bit_int_eq_self)
  then have "dividend 1 (SET_REG reg_AX ?w ?q) = ?P"
    using dividend_AX [of "SET_REG reg_AX ?w ?q"] GET_SET_at_same [OF std(1) acc_at(3), of ?w] std(1) by simp
  moreover have "Diana_Call_mul8 v (clear_CO p) = Ok () (SET_REG reg_AX ?w ?q)"
    by (simp add: Diana_Call_mul8_def di_simps Let_def d [simplified])
  moreover have "m_flags (SET_REG reg_AX ?w ?q) = m_flags ?q" "m_memory (SET_REG reg_AX ?w ?q) = m_memory p"
    using std(2) unfolding q by simp_all
  ultimately show ?thesis
    unfolding mul_outcome_def by (intro exI [of _ "SET_REG reg_AX ?w ?q"] conjI CO_flagsI) (simp_all add: dividend_low_def)
qed

lemma mul16_outcome:
  assumes "std_regs p" "psz_off p" "uint v < 2 ^ 16"
  shows "mul_outcome 2 v p (Diana_Call_mul16 v (clear_CO p))"
proof -
  let ?r = "ucast (GET_REG reg_AX p) * ucast v :: u32" and ?P = "uint (GET_REG reg_AX p) * uint v"
  have a: "uint (GET_REG reg_AX p) < 2 ^ 16"
    using fits_uint [OF assms(1) acc_at(3)] by simp
  have r: "uint ?r = ?P"
    using product_bound [OF _ a _ assms(3)] uint_ucast_fits [of "GET_REG reg_AX p", where 'b = 32] uint_ucast_fits [of v, where 'b = 32] a assms(3)
    by (subst product_word) simp_all
  have d: "drop_bit 16 ?r \<noteq> 0 \<longleftrightarrow> ?P div 2 ^ 16 \<noteq> 0"
    by (simp only: product_high r)
  have "Diana_Call_mul16 v (clear_CO p) = Ok () (SET_REG (dividend_high 2) (word_of_int (?P div 2 ^ bits_of 2))
      (SET_REG (dividend_low 2) (word_of_int (?P mod 2 ^ bits_of 2)) (Di_set_CO (?P div 2 ^ bits_of 2 \<noteq> 0) (clear_CO p))))"
    using d by (simp add: Diana_Call_mul16_def di_simps Let_def product_parts r dividend_high_def dividend_low_def)
  note res = this
  show ?thesis
    by (rule mul_outcomeI [OF assms(1,2) _ _ _ res]) (use assms(3) in \<open>simp_all add: valid_size_def dividend_low_def\<close>)
qed

lemma mul32_outcome:
  assumes "std_regs p" "psz_off p" "uint v < 2 ^ 32"
  shows "mul_outcome 4 v p (Diana_Call_mul32 v (clear_CO p))"
proof -
  let ?r = "GET_REG reg_EAX p * v" and ?P = "uint (GET_REG reg_EAX p) * uint v"
  have a: "uint (GET_REG reg_EAX p) < 2 ^ 32"
    using fits_uint [OF assms(1) acc_at(4)] by simp
  have r: "uint ?r = ?P"
    using product_bound [OF _ a _ assms(3)] by (subst product_word) simp_all
  have d: "drop_bit 32 ?r \<noteq> 0 \<longleftrightarrow> ?P div 2 ^ 32 \<noteq> 0"
    by (simp only: product_high r)
  have "take_bit 32 ?r = word_of_int (?P mod 2 ^ 32)" "drop_bit 32 ?r = word_of_int (?P div 2 ^ 32)"
    by (simp_all only: r [symmetric] uint_take_bit [symmetric] uint_drop_bit [symmetric] word_of_int_uint)
  then have "Diana_Call_mul32 v (clear_CO p) = Ok () (SET_REG (dividend_high 4) (word_of_int (?P div 2 ^ bits_of 4))
      (SET_REG (dividend_low 4) (word_of_int (?P mod 2 ^ bits_of 4)) (Di_set_CO (?P div 2 ^ bits_of 4 \<noteq> 0) (clear_CO p))))"
    using d by (simp add: Diana_Call_mul32_def di_simps Let_def dividend_high_def dividend_low_def)
  note res = this
  show ?thesis
    by (rule mul_outcomeI [OF assms(1,2) _ _ _ res]) (use assms(3) in \<open>simp_all add: valid_size_def dividend_low_def\<close>)
qed

lemma mul64_outcome:
  assumes "std_regs p" "psz_off p"
  shows "mul_outcome 8 v p (Diana_Call_mul64 v (clear_CO p))"
proof -
  let ?P = "uint (GET_REG reg_RAX p) * uint v"
  obtain r0 r1 where r: "mul64 (GET_REG reg_RAX p) v = (r0, r1)" by fastforce
  have P: "?P = uint r0 + 2 ^ 64 * uint r1"
    using mul64_exact [of "GET_REG reg_RAX p" v] by (simp add: r val128_def)
  have "?P mod 2 ^ 64 = uint r0" "?P div 2 ^ 64 = uint r1"
    unfolding P using uint_bounds [of r0] by simp_all
  then have "Diana_Call_mul64 v (clear_CO p) = Ok () (SET_REG (dividend_high 8) (word_of_int (?P div 2 ^ bits_of 8))
      (SET_REG (dividend_low 8) (word_of_int (?P mod 2 ^ bits_of 8)) (Di_set_CO (?P div 2 ^ bits_of 8 \<noteq> 0) (clear_CO p))))"
    by (simp add: Diana_Call_mul64_def di_simps Let_def r dividend_high_def dividend_low_def word_uint_eq_iff [of r1])
  note res = this
  show ?thesis
    by (rule mul_outcomeI [OF assms _ _ _ res]) (use uint_lt2p [of v] in \<open>simp_all add: valid_size_def dividend_low_def\<close>)
qed

lemma mul_outcome_Call:
  assumes "std_regs p" "psz_off p" "valid_size n" "DI_MEM_GET 0 p = Ok (v, n) p" "fits n v" "usedSize (linked p 0) = n"
  shows "mul_outcome n v p (Diana_Call_mul p)"
proof -
  have chain: "DI_CHECK f (\<lambda>_. DI_PROC_END) q = f q" for f :: "(unit, 'a) di_cmd" and q
    by (simp add: DI_CHECK_def DI_PROC_END_def split: di_res.splits)
  have u: "usedSize (linked (clear_CO p) 0) = n"
    using assms(6) by simp
  have "uint v < 2 ^ bits_of n"
    using assms(5) by (simp add: fits_iff)
  with assms(3) show ?thesis
    by (elim valid_sizeE)
       (use mul8_outcome [OF assms(1,2), of v] mul16_outcome [OF assms(1,2), of v] mul32_outcome [OF assms(1,2), of v]
         mul64_outcome [OF assms(1,2), of v] assms(4) u in \<open>simp_all add: Diana_Call_mul_def di_simps chain\<close>)
qed

section \<open>Signed products\<close>

text \<open>A value read signed at a width is itself exactly when it is in the signed range of that width.\<close>

lemma signed_cut_iff: "0 < k \<Longrightarrow> signed_take_bit (k - 1) x = x \<longleftrightarrow> - (2 ^ (k - 1)) \<le> x \<and> x < (2 :: int) ^ (k - 1)"
  by (auto simp: signed_take_bit_int_eq_self_iff)

lemma word_signed_eq: "(word_of_int x :: u64) = word_of_int y \<longleftrightarrow> signed_take_bit 63 x = signed_take_bit 63 y"
  by (simp add: word_of_int_eq_iff signed_take_bit_eq_iff_take_bit_eq)

lemma scast_ucast_eq:
  assumes "- (2 ^ 63) \<le> x" "x < 2 ^ 63" "LENGTH('b :: len) \<le> 64"
  shows "(scast (ucast (word_of_int x :: u64) :: 'b word) :: u64) = word_of_int x \<longleftrightarrow> - (2 ^ (LENGTH('b) - 1)) \<le> x \<and> x < 2 ^ (LENGTH('b) - 1)"
proof -
  have "(ucast (word_of_int x :: u64) :: 'b word) = word_of_int x"
    using assms(3) by (simp add: ucast_eq unsigned_of_int word_of_int_eq_iff)
  then have "(scast (ucast (word_of_int x :: u64) :: 'b word) :: u64) = word_of_int (signed_take_bit (LENGTH('b) - 1) x)"
    by (simp only: scast_eq) (simp add: signed_of_int)
  moreover have "signed_take_bit 63 x = x"
    using assms(1,2) by (simp add: signed_take_bit_int_eq_self_iff)
  moreover have "min 63 (LENGTH('b) - Suc 0) = LENGTH('b) - Suc 0"
    using assms(3) by simp
  ultimately show ?thesis
    using signed_cut_iff [of "LENGTH('b)" x] by (simp add: word_signed_eq)
qed

lemma sval_8: "sval 8 v = sint v"
  by (simp add: sval_def Word.sint_uint)

lemma upper_sign:
  assumes "0 \<le> u" "u < 2 ^ 64" "s = (if 2 ^ 63 \<le> u then u - 2 ^ 64 else u)"
  shows "h = (if s < 0 then -1 else 0) \<longleftrightarrow> - (2 ^ 63) \<le> u + 2 ^ 64 * h \<and> u + 2 ^ 64 * h < (2 ^ 63 :: int)"
proof -
  consider "h \<le> -2" | "h = -1" | "h = 0" | "1 \<le> h" by linarith
  then show ?thesis using assms by cases (auto split: if_splits)
qed

lemma imul64_parts:
  assumes "imul64 a b = (r0, r1)"
  shows "r0 = word_of_int (sint a * sint b)" "r1 \<noteq> signed_drop_bit 63 r0 \<longleftrightarrow> overflow_flag 8 (sint a * sint b)"
proof -
  have X: "sint a * sint b = uint r0 + 2 ^ 64 * sint r1"
    using imul64_exact [of a b] by (simp add: assms sval128_def)
  show "r0 = word_of_int (sint a * sint b)"
  proof -
    have "(word_of_int (uint r0 + 2 ^ 64 * sint r1) :: u64) = word_of_int (uint r0)"
      by (simp only: word_of_int_eq_iff take_bit_eq_mod) simp
    then show ?thesis unfolding X by (simp only: word_of_int_uint)
  qed
  have "sint (signed_drop_bit 63 r0) = (if sint r0 < 0 then -1 else 0)"
    using sint_bounds [of r0] by (auto simp: sint_signed_drop_bit_eq drop_bit_eq_div div_pos_neg_trivial)
  then have "r1 = signed_drop_bit 63 r0 \<longleftrightarrow> sint r1 = (if sint r0 < 0 then -1 else 0)"
    by (metis signed_word_eqI)
  then show "r1 \<noteq> signed_drop_bit 63 r0 \<longleftrightarrow> overflow_flag 8 (sint a * sint b)"
    using upper_sign [OF uint_bounds sint_uint, of "sint r1" r0] unfolding X overflow_flag_def signed_range_def by simp
qed

lemma sval_range: "valid_size n \<Longrightarrow> signed_range n (sval n a)"
  unfolding signed_range_def sval_def using valid_bits [of n] by simp

text \<open>The product of two operands of at most four bytes fits 64 bits.\<close>

lemma product_small:
  assumes "valid_size n" "n \<noteq> 8" "signed_range n x" "signed_range n y"
  shows "- (2 ^ 63) \<le> x * y" "x * y < 2 ^ 63"
proof -
  have "\<bar>x\<bar> \<le> 2 ^ 31" "\<bar>y\<bar> \<le> 2 ^ 31"
    using assms by (auto elim!: valid_sizeE simp: signed_range_def)
  then have "\<bar>x * y\<bar> \<le> 2 ^ 31 * 2 ^ 31"
    unfolding abs_mult by (intro mult_mono) simp_all
  then show "- (2 ^ 63) \<le> x * y" "x * y < 2 ^ 63"
    by simp_all
qed

lemma signed_range_mono: "signed_range n x \<Longrightarrow> n \<le> m \<Longrightarrow> valid_size n \<Longrightarrow> valid_size m \<Longrightarrow> signed_range m x"
  by (auto elim!: valid_sizeE simp: signed_range_def)

lemma imul_impl_Ok:
  assumes "valid_size n1" "valid_size n2" "valid_size n" "fits n1 a" "fits n2 b" "n1 \<le> n" "n2 \<le> n" "usedSize (linked p 0) = n"
  shows "Diana_Call_imul_impl a b n1 n2 p =
    Ok (word_of_int (sval n1 a * sval n2 b)) (Di_set_CO (overflow_flag n (sval n1 a * sval n2 b)) p)"
proof -
  have le: "n1 \<le> 8" "n2 \<le> 8" "valid_size 8"
    using assms(1,2) by (auto simp: valid_size_def)
  obtain x where x: "DianaProcessor_SignExtend a n1 8 p = Ok x p" "sint x = sval n1 a"
    using SignExtend_Ok [OF assms(1) le(3) assms(4) le(1), of p] by (metis sval_8)
  obtain y where y: "DianaProcessor_SignExtend b n2 8 p = Ok y p" "sint y = sval n2 b"
    using SignExtend_Ok [OF assms(2) le(3) assms(5) le(2), of p] by (metis sval_8)
  let ?X = "sint x * sint y"
  have xy: "x * y = word_of_int ?X"
    by simp
  show ?thesis
  proof (cases "n = 8")
    case True
    obtain r0 r1 where r: "imul64 x y = (r0, r1)" by fastforce
    show ?thesis
      using x y True assms(8) imul64_parts [OF r] by (simp add: Diana_Call_imul_impl_def di_simps r Let_def)
  next
    case False
    have "signed_range n (sint x)" "signed_range n (sint y)"
      unfolding x y using signed_range_mono [OF sval_range [OF assms(1)] assms(6,1,3)]
        signed_range_mono [OF sval_range [OF assms(2)] assms(7,2,3)] by simp_all
    note small = product_small [OF assms(3) False this]
    have "DI_CHECK (DianaProcessor_SignExtend a n1 8) k p = k x p" "DI_CHECK (DianaProcessor_SignExtend b n2 8) k p = k y p"
      for k :: "u64 \<Rightarrow> (u64, 'a) di_cmd"
      by (simp_all add: DI_CHECK_def x y)
    then show ?thesis
      using False assms(3,8) scast_ucast_eq [OF small, where 'b = 32] scast_ucast_eq [OF small, where 'b = 16] scast_ucast_eq [OF small, where 'b = 8]
      unfolding Diana_Call_imul_impl_def Let_def xy x(2) [symmetric] y(2) [symmetric] overflow_flag_def signed_range_def
      by (elim valid_sizeE) (simp_all add: di_simps)
  qed
qed

context memory_stream
begin

lemma imul_2_Ok:
  assumes "attached p" "alu_ready mapped p n m" "opcount p = 2"
  obtains a b p' where "operands p n m a b" "Diana_Call_imul p = Ok () p'" "attached p'"
    "wrote p n (word_of_int (sval n a * sval n b)) p'" "CO_flags (overflow_flag n (sval n a * sval n b)) p p'"
proof -
  obtain a b b' where op: "operands p n m a b" "DI_MEM_GET 0 p = Ok (a, n) p" "DI_MEM_GET 1 p = Ok (b', m) p" "fits n a" "fits m b'" "valid_size n"
    "sval n b = sval m b'"
    using alu_fetch [OF assms(1,2)] alu_destD(4) [OF alu_readyD(1) [OF assms(2)]] by (metis operands_def)
  note r = alu_readyD [OF assms(2)]
  note d = alu_destD [OF r(1)]
  let ?X = "sval n a * sval n b"
  let ?q = "clear_CO p" and ?c = "Di_set_CO (overflow_flag n ?X) (clear_CO p)"
  have s: "same_but_flags p ?q" "same_but_flags p ?c"
    by (simp_all add: same_but_flags_steps Di_set_CO_def)
  have get: "DI_MEM_GET 0 ?q = Ok (a, n) ?q" "DI_MEM_GET 1 ?q = Ok (b', m) ?q"
    using op(2,3) MEM_GET_flags [OF _ s(1)] by simp_all
  obtain p' where p': "DI_MEM_SET 0 (word_of_int ?X) ?c = Ok n p'" "attached p'" "wrote p n (word_of_int ?X) p'" "m_flags p' = m_flags ?c"
    using alu_store_after [OF assms(1) r(1) s(2)] by metis
  have u: "usedSize (linked ?q 0) = n"
    using d(3) by (simp add: operand_rw_def)
  show ?thesis
    by (rule that [OF op(1) _ p'(2,3) CO_flagsI [OF p'(4)]])
       (use get p'(1) imul_impl_Ok [OF _ op(6,6) op(5,4) _ _ u] assms(3) r in \<open>simp add: Diana_Call_imul_def Diana_Call_imul_2_def di_simps op(7) mult.commute\<close>)
qed

end

end
