(* ===== verification/Product_Properties.thy ===== *)
theory Product_Properties
  imports Product_Correct Sample_Machine
begin

unbundle bit_operations_syntax

text \<open>
  Multiplication and division on a processor over a memory buffer: the double-width product, quotient and remainder of the double-width
  dividend, and the refusals.
\<close>

lemma loaded_RDX [simp]: "GET_REG reg_RDX sample_loaded = 0"
proof -
  have "vec_get (m_pRegistersVector sample_processor) 16 8 = 0"
    by (simp add: vec_get_def sample_vector upt_rec)
  then have "GET_REG reg_RDX sample_processor = 0"
    using GET_REG_at [OF sample_std acc_at(8)] by simp
  then show ?thesis
    using sample_std by (simp add: sample_loaded_def GET_SET_gpr64_other gpr64_def)
qed

lemma sample_rcx:
  "operand_rd mp (decoded c [reg_op reg_RCX 8] k sample_loaded) 0 8"
  "DI_MEM_GET 0 (decoded c [reg_op reg_RCX 8] k sample_loaded) = Ok (5, 8) (decoded c [reg_op reg_RCX 8] k sample_loaded)"
  using sample_at(2) by (auto simp: operand_rd_def operand_rw_def valid_size_def DI_MEM_GET_def di_simps Diana_ProcessorGetOperand_register_def)

lemma operand_read:
  assumes "stream_attached MemoryRandomStream_Read MemoryRandomStream_Write buffer_ok p" "std_regs p" "operand_rd buffer_mapped p 0 n"
  obtains d where "DI_MEM_GET 0 p = Ok (d, n) p" "fits n d" "valid_size n" "usedSize (linked p 0) = n"
  using buf.DI_MEM_GET_Ok [OF assms] operand_rd_size [OF assms(3)] assms(3) that by (auto simp: operand_rd_def operand_rw_def)

section \<open>Unsigned\<close>

text \<open>
  C17: mul leaves in the double-width accumulator (AX, DX:AX, EDX:EAX, RDX:RAX) the exact product of the accumulator and the operand, for
  64 bits assembled from four 32-bit products; CF and OF say that the product needs the upper half, and the other flags are kept.
\<close>

theorem mul_correct:
  assumes "stream_attached MemoryRandomStream_Read MemoryRandomStream_Write buffer_ok p" "std_regs p" "psz_off p" "operand_rd buffer_mapped p 0 n"
  shows "\<exists>v p'. DI_MEM_GET 0 p = Ok (v, n) p \<and> Diana_Call_mul p = Ok () p' \<and>
    dividend n p' = uint (GET_REG (dividend_low n) p) * uint v \<and>
    CO_flags (2 ^ bits_of n \<le> uint (GET_REG (dividend_low n) p) * uint v) p p' \<and> m_memory p' = m_memory p"
proof -
  obtain v where v: "DI_MEM_GET 0 p = Ok (v, n) p" "fits n v" "valid_size n" "usedSize (linked p 0) = n"
    using assms(1,2,4) by (rule operand_read)
  have "mul_outcome n v p (Diana_Call_mul p)"
    by (rule mul_outcome_Call [OF assms(2,3) v(3,1,2,4)])
  with v(1) show ?thesis unfolding mul_outcome_def by blast
qed

theorem mul_correct_witness:
  "\<exists>p'. Diana_Call_mul (decoded ''mul'' [reg_op reg_RCX 8] 8 sample_loaded) = Ok () p' \<and> dividend 8 p' = 35"
proof -
  let ?p = "decoded ''mul'' [reg_op reg_RCX 8] 8 sample_loaded"
  have h: "stream_attached MemoryRandomStream_Read MemoryRandomStream_Write buffer_ok ?p" "std_regs ?p" "psz_off ?p" by simp_all
  obtain v p' where x: "DI_MEM_GET 0 ?p = Ok (v, 8) ?p" "Diana_Call_mul ?p = Ok () p'"
    "dividend 8 p' = uint (GET_REG (dividend_low 8) ?p) * uint v"
    using mul_correct [OF h sample_rcx(1)] by blast
  have "v = 5" using x(1) by (simp add: sample_rcx)
  with x show ?thesis by (auto simp: dividend_low_def)
qed

text \<open>
  C16: div refuses a zero divisor and a quotient that does not fit, leaving the state as it was, with the error code each width uses; otherwise it stores the quotient and
  the remainder of the double-width dividend and keeps the flags.  For 64 bits the code runs a shift-and-subtract loop.
\<close>

theorem div_correct:
  assumes "stream_attached MemoryRandomStream_Read MemoryRandomStream_Write buffer_ok p" "std_regs p" "psz_off p" "operand_rd buffer_mapped p 0 n"
  shows "\<exists>d. DI_MEM_GET 0 p = Ok (d, n) p \<and>
    (if d = 0 then Diana_Call_div p = Err DI_DIVISION_BY_ZERO p
     else if 2 ^ bits_of n \<le> dividend n p div uint d
     then Diana_Call_div p = Err (if n = 1 \<or> n = 8 then DI_DIVISION_BY_ZERO else DI_DIVISION_OVERFLOW) p
     else \<exists>p'. Diana_Call_div p = Ok () p' \<and> divided n (dividend n p div uint d) (dividend n p mod uint d) p' \<and>
       m_flags p' = m_flags p \<and> m_memory p' = m_memory p)"
proof -
  obtain d where d: "DI_MEM_GET 0 p = Ok (d, n) p" "fits n d" "valid_size n" "usedSize (linked p 0) = n"
    using assms(1,2,4) by (rule operand_read)
  show ?thesis
    using d(1) div_outcome_Call [OF assms(2,3) d(3,1,2,4)] unfolding div_outcome_def by blast
qed

theorem div_correct_witness:
  "\<exists>p'. Diana_Call_div (decoded ''div'' [reg_op reg_RCX 8] 8 sample_loaded) = Ok () p' \<and> divided 8 1 2 p'"
proof -
  let ?p = "decoded ''div'' [reg_op reg_RCX 8] 8 sample_loaded"
  have h: "stream_attached MemoryRandomStream_Read MemoryRandomStream_Write buffer_ok ?p" "std_regs ?p" "psz_off ?p" by simp_all
  have N: "dividend 8 ?p = 7" by (simp add: dividend_def dividend_low_def dividend_high_def)
  obtain d where x: "DI_MEM_GET 0 ?p = Ok (d, 8) ?p"
    "if d = 0 then Diana_Call_div ?p = Err DI_DIVISION_BY_ZERO ?p
     else if 2 ^ bits_of 8 \<le> dividend 8 ?p div uint d then Diana_Call_div ?p = Err (if (8 :: int) = 1 \<or> (8 :: int) = 8 then DI_DIVISION_BY_ZERO else DI_DIVISION_OVERFLOW) ?p
     else \<exists>p'. Diana_Call_div ?p = Ok () p' \<and> divided 8 (dividend 8 ?p div uint d) (dividend 8 ?p mod uint d) p' \<and>
       m_flags p' = m_flags ?p \<and> m_memory p' = m_memory ?p"
    using div_correct [OF h sample_rcx(1)] by blast
  have "d = 5" using x(1) by (simp add: sample_rcx)
  with x(2) N show ?thesis by auto
qed

text \<open>
  C39: with 64-bit operands, a division by a non-zero register other than RAX and RDX after the multiplication by it gives back RAX, with remainder zero in RDX: the product of 128 bits that mul puts
  together from four partial products is divided again bit by bit.
\<close>

theorem mul_div_roundtrip:
  assumes "std_regs p" "psz_off p" "0 < opcount p" "usedSize (linked p 0) = 8" "op_value (linked p 0) = diana_register r"
    "r \<in> gpr64" "r \<noteq> reg_RAX" "r \<noteq> reg_RDX" "GET_REG r p \<noteq> 0"
  shows "\<exists>p1 p2. Diana_Call_mul p = Ok () p1 \<and> Diana_Call_div p1 = Ok () p2 \<and>
    GET_REG reg_RAX p2 = GET_REG reg_RAX p \<and> GET_REG reg_RDX p2 = 0"
proof -
  have get: "DI_MEM_GET 0 q = Ok (GET_REG r q, 8) q" if "m_result q = m_result p" for q :: "'a DianaProcessor"
    using assms(3-5) that by (simp add: DI_MEM_GET_def di_simps Diana_ProcessorGetOperand_register_def)
  let ?v = "GET_REG r p" and ?a = "GET_REG reg_RAX p"
  obtain r0 r1 where m: "mul64 ?a ?v = (r0, r1)" by fastforce
  define q where "q = Di_set_CO (r1 \<noteq> 0) (clear_CO p)"
  obtain f where f: "q = p\<lparr>m_flags := f\<rparr>"
    unfolding q_def using set_CO_same by (rule same_but_flagsE)
  define p1 where "p1 = SET_REG reg_RDX r1 (SET_REG reg_RAX r0 q)"
  have q: "std_regs q" "psz_off q" "m_result q = m_result p" "GET_REG x q = GET_REG x p" for x
    using assms(1,2) unfolding f by (simp_all add: std_regs_def psz_off_def)
  have p1: "std_regs p1" "psz_off p1" "m_result p1 = m_result p" "GET_REG r p1 = ?v" "GET_REG reg_RAX p1 = r0" "GET_REG reg_RDX p1 = r1"
    using q assms(6-8) by (simp_all add: p1_def GET_SET_gpr64_same GET_SET_gpr64_other gpr64_def psz_off_def)
  have mul: "Diana_Call_mul p = Ok () p1"
    using get [of p] assms(4) m by (simp add: Diana_Call_mul_def Diana_Call_mul64_def di_simps p1_def q_def)
  have N: "dividend 8 p1 = uint ?a * uint ?v"
    using mul64_exact [of ?a ?v] p1 by (simp add: m val128_def dividend_def dividend_low_def dividend_high_def)
  have v: "0 < uint ?v"
    using assms(9) uint_bounds(1) [of ?v] by (simp add: order_less_le word_uint_eq_iff)
  have "div_outcome 8 ?v p1 (Diana_Call_div p1)"
    using get [of p1] p1 assms(4) by (intro div_outcome_Call) (simp_all add: valid_size_def fits_def)
  then obtain p2 where "Diana_Call_div p1 = Ok () p2" "divided 8 (uint ?a) 0 p2"
    using v assms(9) uint_bounds(2) [of ?a] unfolding div_outcome_def N by (auto split: if_splits)
  with mul show ?thesis
    by (auto simp: divided_def dividend_low_def dividend_high_def word_uint_eq_iff)
qed

theorem mul_div_roundtrip_witness:
  "\<exists>p1 p2. Diana_Call_mul (decoded ''mul'' [reg_op reg_RCX 8] 8 sample_loaded) = Ok () p1 \<and> Diana_Call_div p1 = Ok () p2 \<and>
     GET_REG reg_RAX p2 = 7 \<and> GET_REG reg_RDX p2 = 0"
  using mul_div_roundtrip [of "decoded ''mul'' [reg_op reg_RCX 8] 8 sample_loaded" reg_RCX] by (simp add: gpr64_def)

section \<open>Signed\<close>

text \<open>
  imul with two operands stores the product of the signed values cut to the destination, and CF and OF say exactly that the product does not fit the signed range
  of the destination.
\<close>

theorem imul_correct:
  assumes "stream_attached MemoryRandomStream_Read MemoryRandomStream_Write buffer_ok p" "alu_ready buffer_mapped p n m" "opcount p = 2"
  shows "\<exists>a b p'. operands p n m a b \<and> Diana_Call_imul p = Ok () p' \<and>
    wrote p n (word_of_int (sval n a * sval n b)) p' \<and> CO_flags (overflow_flag n (sval n a * sval n b)) p p'"
  by (rule buf.imul_2_Ok [OF assms]) blast

theorem imul_correct_witness:
  "\<exists>p'. Diana_Call_imul (decoded ''imul'' [reg_op reg_RAX 8, reg_op reg_RCX 8] 8 sample_loaded) = Ok () p' \<and> GET_REG reg_RAX p' = 35"
proof -
  let ?p = "decoded ''imul'' [reg_op reg_RAX 8, reg_op reg_RCX 8] 8 sample_loaded"
  have h: "stream_attached MemoryRandomStream_Read MemoryRandomStream_Write buffer_ok ?p" "opcount ?p = 2" by simp_all
  obtain a b p' where x: "operands ?p 8 8 a b" "Diana_Call_imul ?p = Ok () p'" "wrote ?p 8 (word_of_int (sval 8 a * sval 8 b)) p'"
    using imul_correct [OF h(1) sample_ready h(2)] by blast
  have "a = 7" "b = 5"
    using loaded_operands [OF x(1)] by auto
  with x wrote_reg [OF x(3)] show ?thesis by (auto simp: sval_def)
qed

lemma sint_of_range: "- (2 ^ 63) \<le> x \<Longrightarrow> x < 2 ^ 63 \<Longrightarrow> sint (word_of_int x :: u64) = x"
  by (simp add: signed_of_int signed_take_bit_int_eq_self_iff)

lemma smod_bounds: "d \<noteq> 0 \<Longrightarrow> - (2 ^ 63) \<le> N smod sint (d :: u64)" "d \<noteq> 0 \<Longrightarrow> N smod sint d < 2 ^ 63"
  using smod_int_range [of "sint d" N] sint_bounds [of d] by (auto simp: signed_eq_0_iff)

text \<open>
  idiv by a 64-bit operand divides the signed 128-bit value of RDX:RAX, truncating toward zero: it refuses a zero divisor and
  exactly the quotients outside the signed 64-bit range, with the state unchanged, and otherwise stores the signed quotient in RAX and the signed remainder in RDX.
\<close>

theorem idiv64_handler_correct:
  assumes "std_regs p" "psz_off p" "DI_MEM_GET 0 p = Ok (d, 8) p" "usedSize (linked p 0) = 8"
  shows "let N = sval128 (GET_REG reg_RAX p, GET_REG reg_RDX p); Q = N sdiv sint d in
    if d = 0 \<or> Q < - (2 ^ 63) \<or> 2 ^ 63 \<le> Q then Diana_Call_idiv p = Err DI_DIVISION_BY_ZERO p
    else \<exists>p'. Diana_Call_idiv p = Ok () p' \<and> sint (GET_REG reg_RAX p') = Q \<and> sint (GET_REG reg_RDX p') = N smod sint d \<and>
      m_flags p' = m_flags p \<and> m_memory p' = m_memory p"
proof -
  define N Q where "N = sval128 (GET_REG reg_RAX p, GET_REG reg_RDX p)" and "Q = N sdiv sint d"
  have call: "Diana_Call_idiv p = DI_CHECK (Diana_Call_idiv64 d) (\<lambda>_. DI_PROC_END) p"
    using assms(3,4) by (simp add: Diana_Call_idiv_def di_simps)
  have "if d = 0 \<or> Q < - (2 ^ 63) \<or> 2 ^ 63 \<le> Q then Diana_Call_idiv p = Err DI_DIVISION_BY_ZERO p
    else \<exists>p'. Diana_Call_idiv p = Ok () p' \<and> sint (GET_REG reg_RAX p') = Q \<and> sint (GET_REG reg_RDX p') = N smod sint d \<and>
      m_flags p' = m_flags p \<and> m_memory p' = m_memory p"
  proof (cases "d = 0")
    case True
    then show ?thesis by (simp add: call Diana_Call_idiv64_def di_simps)
  next
    case False
    note dv = idiv64_correct [OF False, of "GET_REG reg_RAX p" "GET_REG reg_RDX p", folded N_def, unfolded Let_def, folded Q_def]
    show ?thesis
    proof (cases "- (2 ^ 63) \<le> Q \<and> Q < 2 ^ 63")
      case True
      let ?q = "SET_REG reg_RAX (word_of_int Q) p"
      let ?p' = "SET_REG reg_RDX (word_of_int (N smod sint d)) ?q"
      have q: "std_regs ?q" "psz_off ?q" using assms(1,2) by (simp_all add: psz_off_def)
      have "Diana_Call_idiv p = Ok () ?p'"
        using False True dv by (simp add: call Diana_Call_idiv64_def di_simps)
      moreover have "sint (GET_REG reg_RAX ?p') = Q" "sint (GET_REG reg_RDX ?p') = N smod sint d"
        using q assms(1) sint_of_range [of Q] sint_of_range [OF smod_bounds [OF False, of N]] True
        by (simp_all only: GET_SET_gpr64_same [OF q(1)] GET_SET_gpr64_other [OF q(1)] GET_SET_gpr64_same [OF assms(1)]) (simp_all add: gpr64_def GET_SET_gpr64_same GET_SET_gpr64_other)
      moreover have "m_flags ?p' = m_flags p" "m_memory ?p' = m_memory p"
        using assms(2) q(2) by simp_all
      ultimately show ?thesis using False True by auto
    next
      case out: False
      then have "Diana_Call_idiv p = Err DI_DIVISION_BY_ZERO p"
        using False dv by (simp add: call Diana_Call_idiv64_def di_simps)
      with out False show ?thesis by auto
    qed
  qed
  then show ?thesis unfolding N_def Q_def Let_def .
qed

theorem idiv64_handler_correct_witness:
  "\<exists>p'. Diana_Call_idiv (decoded ''idiv'' [reg_op reg_RCX 8] 8 sample_loaded) = Ok () p' \<and> sint (GET_REG reg_RAX p') = 1"
proof -
  let ?p = "decoded ''idiv'' [reg_op reg_RCX 8] 8 sample_loaded"
  have h: "std_regs ?p" "psz_off ?p" "usedSize (linked ?p 0) = 8" by simp_all
  have "sval128 (7, 0) = 7" "sint (5 :: u64) = 5" "(7 :: int) sdiv 5 = 1"
    by (simp_all add: sval128_def signed_divide_int_def)
  then show ?thesis
    using idiv64_handler_correct [OF h(1,2) sample_rcx(2) h(3)] by (auto simp: Let_def)
qed

text \<open>
  C40: the 32-bit signed division tests its quotient against the unsigned range: a quotient from 2^31 to 2^32 - 1, which does not fit the signed result and
  raises the divide error on the processor, is accepted, and EAX is left holding a negative number.
\<close>

theorem idiv32_overflow_missed:
  fixes p :: "'m DianaProcessor"
  defines "N \<equiv> sint (word_cat (ucast (GET_REG reg_EDX p) :: u32) (ucast (GET_REG reg_EAX p) :: u32) :: u64)"
  assumes "std_regs p" "sint (ucast d :: u32) \<noteq> 0"
    "2 ^ 31 \<le> N sdiv sint (ucast d :: u32)" "N sdiv sint (ucast d :: u32) \<le> 0xFFFFFFFF"
  shows "\<exists>p'. Diana_Call_idiv32 d p = Ok () p' \<and> sval 4 (GET_REG reg_EAX p') = N sdiv sint (ucast d :: u32) - 2 ^ 32"
proof -
  let ?D = "sint (ucast d :: u32)"
  define Q where "Q = N sdiv ?D"
  let ?q = "SET_REG reg_EAX (word_of_int Q) p"
  let ?p' = "SET_REG reg_EDX (word_of_int (N smod ?D)) ?q"
  have b: "2 ^ 31 \<le> Q" "Q \<le> 0xFFFFFFFF" using assms(4,5) unfolding Q_def .
  have "\<not> (N = - (2 ^ 63) \<and> ?D = -1)"
    using b(2) by (auto simp: Q_def)
  then have "Diana_Call_idiv32 d p = Ok () ?p'"
    using assms(3) b by (simp add: Diana_Call_idiv32_def di_simps Let_def flip: N_def Q_def)
  moreover have "GET_REG reg_EAX ?p' = take_bit 32 (word_of_int Q)"
    using GET_SET_at_apart [of ?q, OF _ acc_at(7,4), of "word_of_int (N smod ?D)"] GET_SET_at_same [OF assms(2) acc_at(4), of "word_of_int Q"] assms(2)
    by simp
  moreover have "uint (take_bit 32 (word_of_int Q :: u64)) = Q"
    using b by (simp add: uint_take_bit uint_word_of_int)
  then have "sval 4 (take_bit 32 (word_of_int Q)) = Q - 2 ^ 32"
    using b sval_sgn_of [of 4 "take_bit 32 (word_of_int Q)"] by (simp add: valid_size_def fits_def bits_of_def sgn_of_def)
  ultimately show ?thesis by (intro exI [of _ ?p']) (simp flip: Q_def)
qed

theorem idiv32_overflow_missed_witness:
  "\<exists>p'. Diana_Call_idiv32 1 (SET_REG reg_RAX 0x80000000 sample_loaded) = Ok () p' \<and> sval 4 (GET_REG reg_EAX p') = - (2 ^ 31)"
proof -
  let ?p = "SET_REG reg_RAX 0x80000000 sample_loaded"
  have r: "GET_REG reg_EAX ?p = 0x80000000" "GET_REG reg_EDX ?p = 0"
    using read_family(1) [of ?p 0] read_family(1) [of ?p 2]
    by (simp_all add: GET_SET_gpr64_same GET_SET_gpr64_other gpr64_def)
  have N: "sint (word_cat (ucast (GET_REG reg_EDX ?p) :: u32) (ucast (GET_REG reg_EAX ?p) :: u32) :: u64) = 2 ^ 31"
    unfolding r by code_simp
  have D: "sint (ucast (1 :: u64) :: u32) = 1" by simp
  show ?thesis
    using idiv32_overflow_missed [of ?p 1] unfolding N D by simp
qed

end
