(* ===== verification/Register_Machine.thy ===== *)
theory Register_Machine
  imports Sample_Machine
begin

unbundle bit_operations_syntax

text \<open>
  An abstract machine of sixteen 64-bit registers, and the refinement: the handlers run on register operands compute on the emulator's byte vector
  what the abstract machine computes on its registers, for single instructions and for programs.
\<close>

section \<open>The abstract machine\<close>

datatype alu_op = Op_add | Op_sub | Op_and | Op_or | Op_xor

type_synonym register_state = "DianaUnifiedRegister \<Rightarrow> u64"

fun alu_value :: "alu_op \<Rightarrow> u64 \<Rightarrow> u64 \<Rightarrow> u64" where
  "alu_value Op_add a b = a + b"
| "alu_value Op_sub a b = a - b"
| "alu_value Op_and a b = a AND b"
| "alu_value Op_or a b = a OR b"
| "alu_value Op_xor a b = a XOR b"

definition alu_spec :: "alu_op \<times> DianaUnifiedRegister \<times> DianaUnifiedRegister \<Rightarrow> register_state \<Rightarrow> register_state" where
  "alu_spec i R = (case i of (op, r, s) \<Rightarrow> R(r := alu_value op (R r) (R s)))"

section \<open>The emulator on register operands\<close>

fun alu_handler :: "alu_op \<Rightarrow> (unit, 'm) di_cmd" where
  "alu_handler Op_add = Diana_Call_add"
| "alu_handler Op_sub = Diana_Call_sub"
| "alu_handler Op_and = Diana_Call_and"
| "alu_handler Op_or = Diana_Call_or"
| "alu_handler Op_xor = Diana_Call_xor"

text \<open>An instruction as decoded, and a program.\<close>

definition alu_decoded :: "DianaUnifiedRegister \<Rightarrow> DianaUnifiedRegister \<Rightarrow> 'm DianaProcessor \<Rightarrow> 'm DianaProcessor" where
  "alu_decoded r s p = decoded [] [reg_op r 8, reg_op s 8] 8 p"

fun run_alu :: "(alu_op \<times> DianaUnifiedRegister \<times> DianaUnifiedRegister) list \<Rightarrow> (unit, 'm) di_cmd" where
  "run_alu [] p = Ok () p"
| "run_alu ((op, r, s) # is) p = (case alu_handler op (alu_decoded r s p) of Ok _ q \<Rightarrow> run_alu is q | Err e q \<Rightarrow> Err e q)"

text \<open>The abstraction: the registers that the vector holds.\<close>

definition registers_of :: "'m DianaProcessor \<Rightarrow> register_state" where
  "registers_of p = (\<lambda>r. if r \<in> gpr64 then GET_REG r p else 0)"

section \<open>Refinement\<close>

lemma gpr64_not_RIP: "r \<in> gpr64 \<Longrightarrow> r \<noteq> reg_RIP \<and> r \<noteq> reg_IP"
  by (auto simp: gpr64_def)

lemma alu_decoded_ready:
  assumes "std_regs p" "psz_off p" "r \<in> gpr64" "s \<in> gpr64"
  shows "alu_ready mp (alu_decoded r s p) 8 8"
  using assms gpr64_at [OF assms(3)] gpr64_at [OF assms(4)] gpr64_not_RIP [OF assms(3)] gpr64_not_RIP [OF assms(4)]
  by (auto simp: alu_decoded_def alu_ready_def alu_dest_def operand_rd_def operand_rw_def valid_size_def)

lemma decoded_operands:
  assumes "operands (alu_decoded r s p) 8 8 a b"
  shows "a = GET_REG r p" "b = GET_REG s p"
  using assms sval_inj [of 8 b "GET_REG s p"]
  by (auto simp: operands_def alu_decoded_def DI_MEM_GET_def di_simps Diana_ProcessorGetOperand_register_def valid_size_def)

lemma wrote_registers:
  assumes "std_regs p" "r \<in> gpr64" "wrote (alu_decoded r s p) 8 v p'"
  shows "registers_of p' = (registers_of p)(r := v)" "std_regs p'" "psz_off p'"
proof -
  have d: "std_regs (alu_decoded r s p)" "op_value (linked (alu_decoded r s p) 0) = diana_register r"
    using assms(1) by (simp_all add: alu_decoded_def)
  have "GET_REG g p' = GET_REG g p" if g: "g \<in> gpr64" "g \<noteq> r" for g
  proof -
    have "gpr64_index g \<noteq> gpr64_index r" "0 \<le> gpr64_index g" "0 \<le> gpr64_index r"
      using g assms(2) by (auto simp: gpr64_def gpr64_index_def split: if_splits)
    then show ?thesis
      using wrote_other_register(1) [OF assms(3) d gpr64_at [OF assms(2)] gpr64_at [OF g(1)]]
      by (simp add: alu_decoded_def reg_cell_def) linarith
  qed
  moreover have "GET_REG r p' = v"
    using wrote_reg [OF assms(3) [unfolded alu_decoded_def]] by simp
  ultimately show "registers_of p' = (registers_of p)(r := v)"
    using assms(2) by (auto simp: registers_of_def)
  show "std_regs p'" "psz_off p'"
    using assms(3) by (simp_all add: wrote_def)
qed

lemma alu_handler_wrote:
  assumes "stream_attached MemoryRandomStream_Read MemoryRandomStream_Write buffer_ok p" "alu_ready buffer_mapped p n m"
  obtains a b p' where "operands p n m a b" "alu_handler op p = Ok () p'"
    "stream_attached MemoryRandomStream_Read MemoryRandomStream_Write buffer_ok p'" "wrote p n (alu_value op a b) p'"
proof (cases op)
  case Op_add
  with that buf.add_Ok [OF assms] show ?thesis by (metis alu_handler.simps(1) alu_value.simps(1))
next
  case Op_sub
  with that buf.sub_Ok [OF assms] show ?thesis by (metis alu_handler.simps(2) alu_value.simps(2))
next
  case Op_and
  with that buf.and_Ok [OF assms] show ?thesis by (metis alu_handler.simps(3) alu_value.simps(3))
next
  case Op_or
  with that buf.or_Ok [OF assms] show ?thesis by (metis alu_handler.simps(4) alu_value.simps(4))
next
  case Op_xor
  with that buf.xor_Ok [OF assms] show ?thesis by (metis alu_handler.simps(5) alu_value.simps(5))
qed

text \<open>
  C9: a program of register instructions (add, sub, and, or, xor on 64-bit registers) always runs to its end on the emulator, and the registers it leaves are exactly those that the
  abstract machine computes from the registers at the start.
\<close>

theorem register_programs_refine:
  assumes "stream_attached MemoryRandomStream_Read MemoryRandomStream_Write buffer_ok p" "std_regs p" "psz_off p"
    "\<forall>(op, r, s) \<in> set prog. r \<in> gpr64 \<and> s \<in> gpr64"
  shows "\<exists>p'. run_alu prog p = Ok () p' \<and> registers_of p' = fold alu_spec prog (registers_of p)"
  using assms
proof (induction prog arbitrary: p)
  case Nil
  then show ?case by simp
next
  case (Cons i prog)
  obtain op r s where i: "i = (op, r, s)" by (cases i)
  have rs: "r \<in> gpr64" "s \<in> gpr64" using Cons.prems(4) by (auto simp: i)
  let ?d = "alu_decoded r s p"
  have at: "stream_attached MemoryRandomStream_Read MemoryRandomStream_Write buffer_ok ?d"
    using Cons.prems(1) by (simp add: alu_decoded_def)
  obtain a b q where q: "operands ?d 8 8 a b" "alu_handler op ?d = Ok () q"
    "stream_attached MemoryRandomStream_Read MemoryRandomStream_Write buffer_ok q" "wrote ?d 8 (alu_value op a b) q"
    by (rule alu_handler_wrote [OF at alu_decoded_ready [OF Cons.prems(2,3) rs]])
  note w = wrote_registers [OF Cons.prems(2) rs(1) q(4)]
  have "registers_of q = alu_spec i (registers_of p)"
    using w(1) decoded_operands [OF q(1)] rs by (simp add: i alu_spec_def registers_of_def)
  then show ?case
    using Cons.IH [OF q(3) w(2,3)] Cons.prems(4) q(2) by (simp add: i)
qed

theorem register_programs_refine_witness:
  "\<exists>p'. run_alu [(Op_add, reg_RAX, reg_RCX), (Op_xor, reg_RCX, reg_RCX), (Op_sub, reg_RAX, reg_RAX)] sample_loaded = Ok () p' \<and>
     registers_of p' reg_RAX = 0"
proof -
  have h: "\<forall>(op, r, s) \<in> set [(Op_add, reg_RAX, reg_RCX), (Op_xor, reg_RCX, reg_RCX), (Op_sub, reg_RAX, reg_RAX)]. r \<in> gpr64 \<and> s \<in> gpr64"
    by (simp add: gpr64_def)
  show ?thesis
    using register_programs_refine [OF loaded_facts(6,1,2) h] by (auto simp: alu_spec_def)
qed

end
