(* ===== verification/String_Repeat.thy ===== *)
theory String_Repeat
  imports Processor_Core
begin

unbundle bit_operations_syntax

text \<open>
  The repetition of string instructions ends.  One round of a string instruction leaves RCX and the marks of a taken jump alone, the loop of
  \<^verbatim>\<open>CallWithRep\<close> counts RCX down, so that the counter it tests reaches zero unless the loop leaves earlier.
\<close>

named_theorems counted_intros

section \<open>One round\<close>

definition counted :: "'m DianaProcessor \<Rightarrow> 'm DianaProcessor \<Rightarrow> bool" where
  "counted p q \<longleftrightarrow> (std_regs p \<longrightarrow> std_regs q \<and> GET_REG reg_RCX q = GET_REG reg_RCX p) \<and>
     m_stateFlagsToRemove q = m_stateFlagsToRemove p \<and>
     m_stateFlags q AND DI_PROC_STATE_RIP_CHANGED = m_stateFlags p AND DI_PROC_STATE_RIP_CHANGED \<and>
     (m_stateFlags p AND DI_PROC_STATE_CMD_USES_NORMAL_REP \<noteq> 0 \<longrightarrow> m_stateFlags q AND DI_PROC_STATE_CMD_USES_NORMAL_REP \<noteq> 0)"

interpretation counted: frame_relation counted
  by unfold_locales (auto simp: counted_def)

lemmas [counted_intros] = counted.keeps_CHECK counted.keeps_DO counted.keeps_LET counted.keeps_RETURN counted.keeps_FAIL
  counted.keeps_END counted.keeps_if keeps_prod keeps_Let

lemma stateFlags_UpdatePSZ:
  "m_stateFlags (DianaProcessor_UpdatePSZ v n p) = m_stateFlags p AND NOT DI_PROC_STATE_UPDATE_FLAGS_PSZ"
proof -
  have "m_stateFlags (UPDATE_PSZ X h q) = m_stateFlags q" for X h and q :: "'a DianaProcessor"
    using UPDATE_PSZ_same [of q X h] by (auto elim!: same_but_flagsE)
  then show ?thesis
    unfolding DianaProcessor_UpdatePSZ_def Let_def by (simp add: bit.conj_disj_distrib2)
qed

lemma counted_flag_ops:
  "counted p (DI_START_UPDATE_COA_FLAGS p)" "counted p (DianaProcessor_SetCOA_Sub a b d n f p)" "counted p (DianaProcessor_UpdatePSZ v n p)"
  "counted p (DianaProcessor_CmdUsesNormalRep p)" "counted p (p\<lparr>m_memory := m\<rparr>)"
  by (simp_all add: counted_def std_regs_def DI_START_UPDATE_COA_FLAGS_def DianaProcessor_CmdUsesNormalRep_def and_eq_0_distrib
      stateFlags_UpdatePSZ and.assoc bit.conj_disj_distrib2)

text \<open>The registers that string instructions step.\<close>

definition string_reg :: "DianaUnifiedRegister \<Rightarrow> bool" where
  "string_reg r \<longleftrightarrow> r \<in> {reg_RSI, reg_RDI, reg_ESI, reg_EDI, reg_SI, reg_DI}"

lemma string_reg_at:
  assumes "string_reg r"
  obtains off n where "reg_at r off n" "16 \<le> off" "r \<noteq> reg_RIP" "r \<noteq> reg_IP"
proof -
  have "reg_at reg_RSI 48 8" "reg_at reg_RDI 56 8" "reg_at reg_ESI 48 4" "reg_at reg_EDI 56 4" "reg_at reg_SI 48 2" "reg_at reg_DI 56 2"
    by (simp_all add: reg_at_def plain_reg_def reg_simps)
  then show ?thesis
    using assms that unfolding string_reg_def by (elim insertE) fastforce+
qed

lemma RCX_at: "reg_at reg_RCX 8 8"
  by (simp add: reg_at_def plain_reg_def reg_simps)

lemma counted_SET_REG: "string_reg r \<Longrightarrow> counted p (SET_REG r v p)"
proof -
  assume "string_reg r"
  then obtain off n where r: "reg_at r off n" "16 \<le> off" "r \<noteq> reg_RIP" "r \<noteq> reg_IP"
    by (rule string_reg_at)
  show ?thesis
    using r GET_SET_at_apart [OF _ r(1) RCX_at, of p v] by (simp add: counted_def)
qed

lemma counted_SET_REG2:
  assumes "r = reg_RAX \<or> r = reg_RSI"
  shows "counted p (SET_REG2 r v n p)"
proof -
  obtain off where r: "plain_reg r" "m_offset (x86_layout r) = int off" "off = 0 \<or> off = 48" "\<not> is_r32 r" "r \<noteq> reg_RIP" "r \<noteq> reg_IP"
    using assms by (elim disjE) (simp_all add: plain_reg_def is_r32_def reg_simps)
  have "GET_REG reg_RCX (SET_REG2 r v n p) = GET_REG reg_RCX p" if p: "std_regs p"
  proof (cases "valid_size n")
    case True
    then have "nat n \<le> 8" by (auto simp: valid_size_def)
    then have "vec_get (vec_put (m_pRegistersVector p) off (nat n) v) 8 8 = vec_get (m_pRegistersVector p) 8 8"
      using r(3) by (intro vec_get_put_disjoint) auto
    then show ?thesis
      using GET_REG_at [OF _ RCX_at, of "SET_REG2 r v n p"] GET_REG_at [OF p RCX_at] SET_REG2_at [OF p r(1,2) True r(4), of v] p by simp
  next
    case False
    then show ?thesis using r(5,6) by (simp add: SET_REG2_def DianaProcessor_SetValueEx_def valid_size_def Let_def)
  qed
  then show ?thesis using r(5,6) by (simp add: counted_def)
qed

lemma counted_funs [counted_intros]:
  "keeps_fun counted DI_START_UPDATE_COA_FLAGS" "keeps_fun counted (DianaProcessor_SetCOA_Sub a b d n f)"
  "keeps_fun counted (DianaProcessor_UpdatePSZ v n)" "keeps_fun counted DianaProcessor_CmdUsesNormalRep"
  "string_reg r \<Longrightarrow> keeps_fun counted (SET_REG r v)"
  "keeps_fun counted (\<lambda>p. SET_REG2 reg_RAX v n p)" "keeps_fun counted (\<lambda>p. SET_REG2 reg_RSI v (addrsize p) p)"
  by (simp_all add: keeps_fun_def counted_flag_ops counted_SET_REG counted_SET_REG2)

lemma counted_memory [counted_intros]:
  "keeps counted (DianaProcessor_GetMemValue sel off n seg)" "keeps counted (DianaProcessor_SetMemValue sel off n v seg)"
  "keeps counted (DianaProcessor_CalcIndex ix)"
  by (auto simp: keeps_def DianaProcessor_GetMemValue_def DianaProcessor_GetMemValue_raw_def DianaProcessor_SetMemValue_def CalcIndex_eq
      counted_flag_ops counted.R_refl split: di_res.splits)

lemma counted_operands [counted_intros]:
  "keeps counted (Diana_ProcessorGetOperand_index_ex used ix)" "keeps counted (Diana_ProcessorGetOperand_index_ex2 used ix)"
  unfolding Diana_ProcessorGetOperand_index_ex_def Diana_ProcessorGetOperand_index_ex2_def by (intro counted_intros)+

lemma counted_PrepareSIDI:
  assumes "\<And>s d. string_reg (reg s) \<Longrightarrow> string_reg (reg d) \<Longrightarrow> keeps counted (k (s, d))"
  shows "keeps counted (DI_CHECK (Di_PrepareSIDI_regs b) k)"
  using assms by (auto simp: keeps_def Di_PrepareSIDI_regs_def DI_CHECK_def di_simps string_reg_def zero_index_def counted.R_refl)

lemma counted_strings:
  "keeps counted Diana_Call_movs" "keeps counted Diana_Call_stos" "keeps counted Diana_Call_lods"
  "keeps counted Diana_Call_scas" "keeps counted Diana_Call_cmps"
  unfolding Diana_Call_movs_def Diana_Call_stos_def Diana_Call_lods_def Diana_Call_scas_def Diana_Call_cmps_def
      apply (rule counted.keeps_DO [OF counted_funs(4)], rule counted_PrepareSIDI, simp only: prod.case, (intro counted_intros; assumption))
     apply (rule counted.keeps_DO [OF counted_funs(4)] counted.keeps_LET counted_PrepareSIDI)+
     apply (simp only: prod.case, (intro counted_intros; assumption))
    apply (intro counted_intros)
   apply (rule counted.keeps_LET counted_PrepareSIDI)+
   apply (simp only: prod.case, (intro counted_intros; assumption))
  apply (rule counted_PrepareSIDI, simp only: prod.case, (intro counted_intros; assumption))
  done

section \<open>The loop\<close>

lemma and_zero_more: "a AND m = 0 \<Longrightarrow> (a AND b) AND m = (0 :: 'a :: len word)"
  by (metis and.assoc and.commute and_zero_eq)

text \<open>The counter that the loop tests holds the low bits of RCX.\<close>

definition counter_bits :: "DianaUnifiedRegister \<Rightarrow> nat" where
  "counter_bits r = (if r = reg_RCX then 64 else if r = reg_ECX then 32 else 16)"

lemma counter_read:
  assumes "std_regs p" "r \<in> {reg_RCX, reg_ECX, reg_CX}"
  shows "GET_REG r p = take_bit (counter_bits r) (GET_REG reg_RCX p)"
  using assms(2) read_family [OF assms(1), of 1] by (auto simp: counter_bits_def)

lemma counter_down:
  fixes x :: u64
  assumes "take_bit k x \<noteq> 0" "k \<le> 64"
  shows "unat (take_bit k (x - 1)) < unat (take_bit k x)"
proof -
  have x: "0 < uint x mod 2 ^ k"
    using assms(1) uint_0_iff [of "take_bit k x"] uint_ge_0 [of "take_bit k x"] unfolding uint_take_bit by linarith
  then have "uint x \<noteq> 0" by auto
  then have "1 \<le> uint x" using uint_ge_0 [of x] by linarith
  then have "uint (x - 1) = uint x - 1" by (simp add: uint_sub_if')
  moreover have "(uint x - 1) mod 2 ^ k = uint x mod 2 ^ k - 1"
    using x less_trans [OF _ pos_mod_bound [of "2 ^ k" "uint x"], of "uint x mod 2 ^ k - 1"]
    by (subst mod_diff_left_eq [symmetric]) (intro mod_pos_pos_trivial; simp)
  ultimately have "uint (take_bit k (x - 1)) < uint (take_bit k x)"
    by (simp add: uint_take_bit)
  then show ?thesis unfolding word_less_nat_alt [symmetric] word_less_def .
qed

text \<open>Handlers that mark themselves as repeated by the count alone.\<close>

definition normal_rep :: "(unit, 'm) di_cmd \<Rightarrow> bool" where
  "normal_rep c \<longleftrightarrow> (\<forall>p u q. c p = Ok u q \<longrightarrow> m_stateFlags q AND DI_PROC_STATE_CMD_USES_NORMAL_REP \<noteq> 0)"

lemma normal_repI:
  assumes "keeps counted k"
  shows "normal_rep (DI_DO DianaProcessor_CmdUsesNormalRep k)"
  unfolding normal_rep_def
proof (intro allI impI)
  fix p u q assume "DI_DO DianaProcessor_CmdUsesNormalRep k p = Ok u q"
  then have "counted (DianaProcessor_CmdUsesNormalRep p) q"
    using assms unfolding keeps_def DI_DO_def by (metis res_state.simps(1))
  then show "m_stateFlags q AND DI_PROC_STATE_CMD_USES_NORMAL_REP \<noteq> 0"
    by (auto simp: counted_def DianaProcessor_CmdUsesNormalRep_def and_eq_0_distrib)
qed

lemma normal_reps: "normal_rep Diana_Call_movs" "normal_rep Diana_Call_stos" "normal_rep Diana_Call_lods"
  unfolding Diana_Call_movs_def Diana_Call_stos_def Diana_Call_lods_def
    apply (rule normal_repI, rule counted_PrepareSIDI, simp only: prod.case, (intro counted_intros; assumption))
   apply (rule normal_repI, (rule counted.keeps_LET counted_PrepareSIDI)+, simp only: prod.case, (intro counted_intros; assumption))
  apply (rule normal_repI, (intro counted_intros))
  done

lemma Call_counted:
  assumes "keeps counted c" "std_regs p" "m_stateFlags p AND DI_PROC_STATE_RIP_CHANGED = 0" "Call c p = Ok u q"
  shows "std_regs q" "GET_REG reg_RCX q = GET_REG reg_RCX p" "m_stateFlags q AND DI_PROC_STATE_RIP_CHANGED = 0"
    "m_stateFlagsToRemove q = 0"
    "normal_rep c \<Longrightarrow> m_stateFlagsToRemove p AND DI_PROC_STATE_CMD_USES_NORMAL_REP = 0 \<Longrightarrow> m_stateFlags q AND DI_PROC_STATE_CMD_USES_NORMAL_REP \<noteq> 0"
proof -
  obtain r where r: "c p = Ok u r" "q = r\<lparr>m_stateFlags := m_stateFlags r AND NOT (m_stateFlagsToRemove r), m_stateFlagsToRemove := 0\<rparr>"
    using assms(4) by (auto simp: Call_def Let_def split: di_res.splits)
  have k: "counted p r"
    using assms(1) r(1) unfolding keeps_def by (metis res_state.simps(1))
  show "std_regs q" "GET_REG reg_RCX q = GET_REG reg_RCX p"
    using k assms(2) by (simp_all add: counted_def r(2) std_regs_def)
  have "m_stateFlags r AND DI_PROC_STATE_RIP_CHANGED = 0"
    using k assms(3) by (simp add: counted_def)
  then show "m_stateFlags q AND DI_PROC_STATE_RIP_CHANGED = 0"
    by (simp add: r(2) and_zero_more)
  show "m_stateFlagsToRemove q = 0" by (simp add: r(2))
  show "m_stateFlags q AND DI_PROC_STATE_CMD_USES_NORMAL_REP \<noteq> 0"
    if "normal_rep c" "m_stateFlagsToRemove p AND DI_PROC_STATE_CMD_USES_NORMAL_REP = 0"
  proof -
    have "m_stateFlags r AND DI_PROC_STATE_CMD_USES_NORMAL_REP \<noteq> 0" "m_stateFlagsToRemove r AND DI_PROC_STATE_CMD_USES_NORMAL_REP = 0"
      using that r(1) k by (auto simp: normal_rep_def counted_def)
    then show ?thesis by (simp add: r(2) and_not_disjoint)
  qed
qed

text \<open>How the loop is left: the counter is zero, or ZF says stop.\<close>

definition rep_left :: "bool \<Rightarrow> DianaUnifiedRegister \<Rightarrow> 'm DianaProcessor \<Rightarrow> bool" where
  "rep_left bRepn r q \<longleftrightarrow> GET_REG r q = 0 \<or> (if bRepn then DianaProcessor_QueryFlag q DI_FLAG_ZF
     else m_stateFlags q AND DI_PROC_STATE_CMD_USES_NORMAL_REP = 0 \<and> \<not> DianaProcessor_QueryFlag q DI_FLAG_ZF)"

lemma rep_loop_ends:
  assumes "keeps counted c" "std_regs p" "m_stateFlags p AND DI_PROC_STATE_RIP_CHANGED = 0" "r \<in> {reg_RCX, reg_ECX, reg_CX}"
  shows "\<exists>res. rep_loop c bRepn r p = Some res \<and> (\<forall>q. res = Ok () q \<longrightarrow> rep_left bRepn r q \<and>
    (normal_rep c \<and> \<not> bRepn \<and> m_stateFlagsToRemove p AND DI_PROC_STATE_CMD_USES_NORMAL_REP = 0 \<longrightarrow> GET_REG r q = 0))"
  using assms(2,3)
proof (induction "unat (GET_REG r p)" arbitrary: p rule: less_induct)
  case less
  show ?case
  proof (cases "GET_REG r p = 0")
    case True
    then show ?thesis by (subst rep_loop.simps) (auto simp: rep_left_def)
  next
    case nz: False
    show ?thesis
    proof (cases "Call c p")
      case (Err e q)
      with nz show ?thesis by (subst rep_loop.simps) simp
    next
      case (Ok u q)
      note k = Call_counted [OF assms(1) less.prems Ok]
      let ?n = "SET_REG reg_RCX (GET_REG reg_RCX q - 1) q"
      have n: "std_regs ?n" "m_stateFlags ?n AND DI_PROC_STATE_RIP_CHANGED = 0" "GET_REG reg_RCX ?n = GET_REG reg_RCX p - 1"
        using k by (simp_all add: GET_SET_gpr64_same gpr64_def)
      have "unat (GET_REG r ?n) < unat (GET_REG r p)"
        using counter_down [of "counter_bits r" "GET_REG reg_RCX p"] nz assms(4)
        unfolding counter_read [OF n(1) assms(4)] counter_read [OF less.prems(1) assms(4)] n(3) by (auto simp: counter_bits_def)
      from less.hyps [OF this n(1,2)] obtain res where
        res: "rep_loop c bRepn r ?n = Some res" "\<forall>q. res = Ok () q \<longrightarrow> rep_left bRepn r q \<and> (normal_rep c \<and> \<not> bRepn \<longrightarrow> GET_REG r q = 0)"
        using k(4) by auto
      show ?thesis
        using Ok nz k(3,5) res by (subst rep_loop.simps) (auto simp: Let_def rep_left_def)
    qed
  qed
qed

end
