(* ===== verification/Machine_Properties.thy ===== *)
theory Machine_Properties
  imports Sample_Machine
begin

unbundle bit_operations_syntax

text \<open>
  The state of the processor: its initialisation, the register file with its aliases, the memory behind a buffer stream, the stack, and the
  frame that no handler leaves.
\<close>

section \<open>Registers\<close>

text \<open>
  C33: initialisation fails with out-of-memory exactly when the registers vector cannot be allocated; otherwise every register
  gets its place of the fixed layout inside the vector, all registers read zero, and memory, stream and context are as given.
\<close>

theorem init_correct:
  "if alloc DI_REG_INIT_VALUE
   then \<exists>p. DianaProcessor_Init alloc stream mem mode = Ok () p \<and> std_regs p \<and> m_registersVectorSize p = 4096 \<and>
     m_iLastRegistersOffset p = 2436 \<and> (\<forall>r off n. reg_at r off n \<longrightarrow> GET_REG r p = 0) \<and>
     m_memory p = mem \<and> m_pMemoryStream p = stream \<and> m_context p = Diana_InitContext mode
   else \<exists>p. DianaProcessor_Init alloc stream mem mode = Err DI_OUT_OF_MEMORY p"
proof (cases "alloc DI_REG_INIT_VALUE")
  case True
  let ?z = "zero_processor stream mem mode"
  obtain p where p: "DianaProcessor_InitProcessorImpl alloc ?z = Ok () p" "std_regs p" "m_registersVectorSize p = 4096"
    "m_iLastRegistersOffset p = 2436" "\<And>a. a < 4096 \<Longrightarrow> m_pRegistersVector p a = 0"
    "m_memory p = m_memory ?z" "m_pMemoryStream p = m_pMemoryStream ?z" "m_context p = m_context ?z"
    by (rule InitProcessorImpl_Ok [of alloc ?z]) (use True in \<open>simp_all add: zero_processor_def\<close>)
  have "GET_REG r p = 0" if at: "reg_at r off n" for r off n
  proof -
    have "off + n \<le> 2436"
      using std_layout_bound [of r] at by (auto simp: reg_at_def in_vector_def)
    then show ?thesis
      unfolding GET_REG_at [OF p(2) at] using p(5) by (intro bit_word_eqI) (auto simp: bit_vec_get)
  qed
  with p True show ?thesis
    by (auto simp: DianaProcessor_Init_def zero_processor_def)
next
  case False
  then show ?thesis
    by (simp add: DianaProcessor_Init_def DianaProcessor_InitProcessorImpl_def di_simps)
qed

theorem init_correct_witness:
  "\<exists>p. DianaProcessor_Init (\<lambda>_. True) (snd sample_stream) (fst sample_stream) DIANA_MODE64 = Ok () p \<and> GET_REG reg_ECX p = 0"
  using init_correct [of "\<lambda>_. True" "snd sample_stream" "fst sample_stream" DIANA_MODE64] sample_at(4) by auto

text \<open>
  The sixteen 64-bit general purpose registers behave as independent variables: a write is read back whole and changes no other.
\<close>

theorem register_file_correct:
  assumes "std_regs p" "r \<in> gpr64" "r' \<in> gpr64"
  shows "GET_REG r' (SET_REG r v p) = (if r' = r then v else GET_REG r' p)"
  using GET_SET_gpr64_same [OF assms(1,2), of v] GET_SET_gpr64_other [OF assms, of v] by auto

theorem register_file_correct_witness: "GET_REG reg_RCX (SET_REG reg_RAX 3 sample_loaded) = 5"
  using register_file_correct [of sample_loaded reg_RAX reg_RCX 3] by (simp add: gpr64_def)

text \<open>The names of each 64-bit register's low 32, 16 and 8 bits, and the second byte of the first four.\<close>

definition register_names :: "(DianaUnifiedRegister \<times> DianaUnifiedRegister \<times> DianaUnifiedRegister \<times> DianaUnifiedRegister) list" where
  "register_names =
    [(reg_RAX, reg_EAX, reg_AX, reg_AL), (reg_RCX, reg_ECX, reg_CX, reg_CL), (reg_RDX, reg_EDX, reg_DX, reg_DL), (reg_RBX, reg_EBX, reg_BX, reg_BL),
     (reg_RSP, reg_ESP, reg_SP, reg_SPL), (reg_RBP, reg_EBP, reg_BP, reg_BPL), (reg_RSI, reg_ESI, reg_SI, reg_SIL), (reg_RDI, reg_EDI, reg_DI, reg_DIL),
     (reg_R8, reg_R8D, reg_R8W, reg_R8B), (reg_R9, reg_R9D, reg_R9W, reg_R9B), (reg_R10, reg_R10D, reg_R10W, reg_R10B), (reg_R11, reg_R11D, reg_R11W, reg_R11B),
     (reg_R12, reg_R12D, reg_R12W, reg_R12B), (reg_R13, reg_R13D, reg_R13W, reg_R13B), (reg_R14, reg_R14D, reg_R14W, reg_R14B), (reg_R15, reg_R15D, reg_R15W, reg_R15B)]"

definition high_names :: "(DianaUnifiedRegister \<times> DianaUnifiedRegister) list" where
  "high_names = [(reg_RAX, reg_AH), (reg_RCX, reg_CH), (reg_RDX, reg_DH), (reg_RBX, reg_BH)]"

lemma register_names_at:
  assumes "(r, d, w, b) \<in> set register_names"
  obtains off where "reg_at r off 8" "reg_at d off 4" "reg_at w off 2" "reg_at b off 1" "is_r32 d"
proof -
  have "reg_at r (nat (8 * gpr64_index r)) 8 \<and> reg_at d (nat (8 * gpr64_index r)) 4 \<and> reg_at w (nat (8 * gpr64_index r)) 2 \<and>
    reg_at b (nat (8 * gpr64_index r)) 1 \<and> is_r32 d"
    using assms unfolding register_names_def list.set insert_iff empty_iff prod.inject
    by (elim disjE conjE; simp add: reg_at_def plain_reg_def reg_simps gpr64_index_def is_r32_def)
  with that show thesis by blast
qed

lemma high_names_at:
  assumes "(r, h) \<in> set high_names"
  obtains off where "reg_at r off 8" "reg_at h (off + 1) 1"
proof -
  have "reg_at r (nat (8 * gpr64_index r)) 8 \<and> reg_at h (nat (8 * gpr64_index r) + 1) 1"
    using assms by (auto simp: high_names_def reg_at_def plain_reg_def reg_simps gpr64_index_def)
  with that show thesis by blast
qed

text \<open>
  C34: the names of one register family alias the same bytes, for each of the sixteen 64-bit registers: the 32, 16 and 8 bit names read its low bits, writes of 8 and 16 bits keep the rest, and a 32-bit
  write clears the upper half in 64-bit mode and keeps it in the other modes.  AH, CH, DH and BH are the second byte of RAX, RCX, RDX and RBX.
\<close>

theorem register_aliasing:
  assumes "std_regs p" "(r, d, w, b) \<in> set register_names"
  shows "GET_REG d p = take_bit 32 (GET_REG r p) \<and> GET_REG w p = take_bit 16 (GET_REG r p) \<and> GET_REG b p = take_bit 8 (GET_REG r p) \<and>
    GET_REG r (SET_REG d v p) = (if amd64 p then take_bit 32 v else (GET_REG r p AND NOT (mask 32)) OR take_bit 32 v) \<and>
    GET_REG r (SET_REG w v p) = (GET_REG r p AND NOT (mask 16)) OR take_bit 16 v \<and>
    GET_REG r (SET_REG b v p) = (GET_REG r p AND NOT (mask 8)) OR take_bit 8 v \<and>
    (\<forall>h. (r, h) \<in> set high_names \<longrightarrow> GET_REG h p = take_bit 8 (drop_bit 8 (GET_REG r p)) \<and>
       GET_REG r (SET_REG h v p) = (GET_REG r p AND NOT (push_bit 8 (mask 8))) OR push_bit 8 (take_bit 8 v))"
proof -
  obtain off where at: "reg_at r off 8" "reg_at d off 4" "reg_at w off 2" "reg_at b off 1" "is_r32 d" by (rule register_names_at [OF assms(2)])
  have std: "std_regs (SET_REG x v p)" for x using assms(1) by simp
  note get = GET_REG_at [OF std at(1)] GET_REG_at [OF assms(1) at(1)] GET_REG_at [OF assms(1) at(2)] GET_REG_at [OF assms(1) at(3)] GET_REG_at [OF assms(1) at(4)]
  note set = SET_REG_at [OF assms(1) at(2), of v] SET_REG_at [OF assms(1) at(3), of v] SET_REG_at [OF assms(1) at(4), of v]
  have reads: "GET_REG d p = take_bit 32 (GET_REG r p)" "GET_REG w p = take_bit 16 (GET_REG r p)" "GET_REG b p = take_bit 8 (GET_REG r p)"
    unfolding get using vec_get_prefix [of 4 8] vec_get_prefix [of 2 8] vec_get_prefix [of 1 8] by simp_all
  have writes: "GET_REG r (SET_REG d v p) = (if amd64 p then take_bit 32 v else (GET_REG r p AND NOT (mask 32)) OR take_bit 32 v)"
    "GET_REG r (SET_REG w v p) = (GET_REG r p AND NOT (mask 16)) OR take_bit 16 v" "GET_REG r (SET_REG b v p) = (GET_REG r p AND NOT (mask 8)) OR take_bit 8 v"
    unfolding get set by (simp_all add: vec_get_put_same vec_get_put_inside at(5))
  have high: "GET_REG h p = take_bit 8 (drop_bit 8 (GET_REG r p)) \<and> GET_REG r (SET_REG h v p) = (GET_REG r p AND NOT (push_bit 8 (mask 8))) OR push_bit 8 (take_bit 8 v)"
    if rh: "(r, h) \<in> set high_names" for h
  proof -
    obtain o' where h: "reg_at r o' 8" "reg_at h (o' + 1) 1" by (rule high_names_at [OF rh])
    have "GET_REG h p = take_bit 8 (drop_bit 8 (GET_REG r p))"
      unfolding GET_REG_at [OF assms(1) h(2)] GET_REG_at [OF assms(1) h(1)] by (rule vec_get_byte1)
    moreover have "GET_REG r (SET_REG h v p) = (GET_REG r p AND NOT (push_bit 8 (mask 8))) OR push_bit 8 (take_bit 8 v)"
      unfolding GET_REG_at [OF std h(1)] GET_REG_at [OF assms(1) h(1)] SET_REG_at [OF assms(1) h(2), of v] by (simp add: vec_get_put_inside)
    ultimately show ?thesis ..
  qed
  show ?thesis using reads writes high by blast
qed

theorem register_aliasing_witness: "GET_REG reg_AL sample_loaded = 7"
proof -
  have "take_bit 8 (7 :: u64) = 7" by code_simp
  then show ?thesis
    using register_aliasing [of sample_loaded reg_RAX reg_EAX reg_AX reg_AL] by (simp add: register_names_def)
qed

section \<open>Memory\<close>

text \<open>
  C35: whatever the selector, the offset and the size, an access through the buffer stream never leaves the buffer: it fails with the state unchanged when the flat
  address is past the end, and otherwise transfers as many bytes as are there, changing nothing else.
\<close>

theorem memory_stream_bounds:
  assumes "buffer_ok s" "length bs < 2 ^ 64"
  shows "MemoryRandomStream_Read s sel off n seg =
      (if unat (bufferSize s) < flat s sel off then Err DI_ERROR s
       else Ok (take (min (unat n) (unat (bufferSize s) - flat s sel off)) (drop (flat s sel off) (pBuffer s))) s) \<and>
    MemoryRandomStream_Write s sel off bs seg =
      (if unat (bufferSize s) < flat s sel off then Err DI_ERROR s
       else let k = min (length bs) (unat (bufferSize s) - flat s sel off) in
         Ok (of_nat k) (s\<lparr>pBuffer := take (flat s sel off) (pBuffer s) @ take k bs @ drop (flat s sel off + k) (pBuffer s)\<rparr>)) \<and>
    buffer_ok (res_state (MemoryRandomStream_Write s sel off bs seg))"
  using Read_eq [OF assms(1)] Write_eq [OF assms] assms(1) by (auto simp: buffer_ok_def Let_def)

theorem memory_stream_bounds_witness:
  "MemoryRandomStream_Read \<lparr>pBuffer = [1, 2, 3], bufferSize = 3, segmentSize = 0\<rparr> 0 2 4 reg_DS =
     Ok [3] \<lparr>pBuffer = [1, 2, 3], bufferSize = 3, segmentSize = 0\<rparr>"
  using memory_stream_bounds [of "\<lparr>pBuffer = [1, 2, 3], bufferSize = 3, segmentSize = 0\<rparr>" "[]" 0 2 4 reg_DS]
  by (simp add: buffer_ok_def flat_def)

text \<open>
  C36: a value of up to eight bytes written to mapped memory is read back from the same place, cut to its size, and every mapped range apart from it reads as before.
\<close>

theorem memory_value_roundtrip:
  assumes "stream_attached MemoryRandomStream_Read MemoryRandomStream_Write buffer_ok p" "n \<le> 8" "buffer_mapped (m_memory p) sel off n"
    "k \<le> 8" "buffer_mapped (m_memory p) sel' off' k" "buffer_apart (m_memory p) sel off n sel' off' k"
  shows "\<exists>p'. DianaProcessor_SetMemValue sel off (of_nat n) v seg p = Ok () p' \<and>
    DianaProcessor_GetMemValue sel off (of_nat n) seg p' = Ok (take_bit (8 * n) v) p' \<and>
    (\<exists>w. DianaProcessor_GetMemValue sel' off' (of_nat k) seg p = Ok w p \<and> DianaProcessor_GetMemValue sel' off' (of_nat k) seg p' = Ok w p')"
proof -
  obtain p' where p': "DianaProcessor_SetMemValue sel off (of_nat n) v seg p = Ok () p'"
    using buf.SetMemValue_mapped [OF assms(1,3,2)] by metis
  obtain w where w: "DianaProcessor_GetMemValue sel' off' (of_nat k) seg p = Ok w p"
    using buf.GetMemValue_mapped [OF assms(1,5,4)] by metis
  show ?thesis
    using p' w buf.SetMemValue_GetMemValue [OF assms(1,3,2) p'] buf.SetMemValue_GetMemValue_apart [OF assms(1,3,2,5,4,6) p' w] by blast
qed

theorem memory_value_roundtrip_witness:
  "\<exists>p'. DianaProcessor_SetMemValue 0 16 4 0x12345678 reg_DS sample_loaded = Ok () p' \<and>
     DianaProcessor_GetMemValue 0 16 4 reg_DS p' = Ok (take_bit 32 0x12345678) p'"
  using memory_value_roundtrip [of sample_loaded 4 0 16 8 0 32 "0x12345678" reg_DS]
  by (auto simp: sample_memory buffer_mapped_def buffer_apart_def flat_def)

section \<open>Stack\<close>

text \<open>
  A push followed by a pop returns the pushed value cut to the operand size and leaves the whole processor as it was, except for
  the memory below the stack pointer; in between the stack pointer is lower by the operand size.
\<close>

theorem push_pop_roundtrip:
  assumes "stream_attached MemoryRandomStream_Read MemoryRandomStream_Write buffer_ok p" "stack_ready buffer_mapped p"
  shows "\<exists>p' s'. diana_internal_push v p = Ok () p' \<and> stack_pointer p' = stack_pointer p - word_of_int (opsize p) \<and>
    diana_internal_pop p' = Ok (DianaProcessor_CutValue v (opsize p)) (p\<lparr>m_memory := s'\<rparr>) \<and> buffer_ok s'"
  by (rule buf.push_pop [OF assms, of v]) blast

definition sample_stack :: "DianaRandomMemoryStream DianaProcessor" where
  "sample_stack = SET_REG reg_RSP 64 sample_loaded"

lemma sample_stack_ready:
  "stream_attached MemoryRandomStream_Read MemoryRandomStream_Write buffer_ok (decoded c ops 8 sample_stack)"
  "stack_ready buffer_mapped (decoded c ops 8 sample_stack)" "stack_pointer (decoded c ops 8 sample_stack) = 64"
proof -
  have r: "GET_REG reg_RSP sample_stack = 64"
    by (simp add: sample_stack_def GET_SET_gpr64_same gpr64_def)
  have std: "std_regs sample_stack" "psz_off sample_stack" "m_context sample_stack = Diana_InitContext 8"
    by (simp_all add: sample_stack_def psz_off_def)
  have at: "reg_at reg_RSP 32 8"
    by (simp add: reg_at_def plain_reg_def reg_simps)
  have d: "std_regs (decoded c ops 8 sample_stack)" using std by simp
  show sp: "stack_pointer (decoded c ops 8 sample_stack) = 64"
    using r std GET_REG2_at [OF d RSP_facts(1,2), of 8] GET_REG_at [OF d at]
    by (simp add: stack_pointer_def Diana_InitContext_def valid_size_def)
  show "stream_attached MemoryRandomStream_Read MemoryRandomStream_Write buffer_ok (decoded c ops 8 sample_stack)"
    by (simp add: sample_stack_def)
       (use sample_attached in \<open>simp add: stream_attached_def sample_stack_def sample_loaded_def\<close>)
  show "stack_ready buffer_mapped (decoded c ops 8 sample_stack)"
    using std sp by (simp add: stack_ready_def Diana_InitContext_def valid_size_def)
      (simp add: sample_stack_def sample_memory buffer_mapped_def flat_def)
qed

theorem push_pop_roundtrip_witness:
  "\<exists>p'. diana_internal_push 42 (decoded ''push'' [] 8 sample_stack) = Ok () p' \<and> stack_pointer p' = 56 \<and>
     (\<exists>s'. diana_internal_pop p' = Ok 42 ((decoded ''push'' [] 8 sample_stack)\<lparr>m_memory := s'\<rparr>))"
  using push_pop_roundtrip [OF sample_stack_ready(1,2) [of "''push''" "[]"], of 42] sample_stack_ready(3) [of "''push''" "[]"] by auto

section \<open>The frame of the handlers\<close>

text \<open>
  C20: no general purpose handler, whether it succeeds or fails, changes the register table, the size of the registers vector, the attached stream, the
  fire points, the options, the mode, the code prefetched by the decoder or the identity of the decoded instruction, and none writes the registers vector past the layout.
\<close>

theorem handlers_keep_frame:
  assumes "map_of general_purpose_commands cmd = Some c"
  shows "kept p (res_state (c p))"
  using general_purpose_kept [OF map_of_SomeD [OF assms]] by (simp add: keeps_def)

theorem handlers_keep_frame_witness:
  "kept sample_loaded (res_state (Diana_Call_aaa sample_loaded))"
  by (rule handlers_keep_frame [of "''aaa''"]) (simp add: general_purpose_commands_def)

end
