(* ===== verification/Control_Properties.thy ===== *)
theory Control_Properties
  imports String_Repeat Machine_Properties
begin

unbundle bit_operations_syntax

text \<open>
  Control flow: jumps, calls and returns, the repetition of string instructions and the execution of one instruction.
\<close>

section \<open>Repetition\<close>

text \<open>
  C19: a repeated string instruction always ends, for every address size and whatever the memory stream does: with an error of the handler, or when the counter is zero
  or ZF says stop.  rep movs, rep stos and rep lods without an error end with the counter at zero.
\<close>

theorem rep_string_ends:
  assumes "c \<in> {Diana_Call_movs, Diana_Call_stos, Diana_Call_lods, Diana_Call_scas, Diana_Call_cmps}"
    "m_commandId (pInfo (m_result p)) \<in> set rep_commands" "std_regs p"
    "m_stateFlags p AND DI_PROC_STATE_RIP_CHANGED = 0" "m_stateFlagsToRemove p = 0"
  shows "\<exists>res. CallWithRep c bRepn p = Some res \<and>
    (\<forall>q. res = Ok () q \<longrightarrow> (\<exists>r \<in> {reg_RCX, reg_ECX, reg_CX}. rep_left bRepn r q \<and>
       (\<not> bRepn \<and> c \<in> {Diana_Call_movs, Diana_Call_stos, Diana_Call_lods} \<longrightarrow> GET_REG r q = 0)))"
proof -
  have k: "keeps counted c"
    using assms(1) counted_strings by auto
  have n: "c \<in> {Diana_Call_movs, Diana_Call_stos, Diana_Call_lods} \<Longrightarrow> normal_rep c"
    using normal_reps by auto
  have ends: "\<exists>res. rep_loop c bRepn r p = Some res \<and> (\<forall>q. res = Ok () q \<longrightarrow> (\<exists>r \<in> {reg_RCX, reg_ECX, reg_CX}. rep_left bRepn r q \<and>
       (\<not> bRepn \<and> c \<in> {Diana_Call_movs, Diana_Call_stos, Diana_Call_lods} \<longrightarrow> GET_REG r q = 0)))"
    if r: "r \<in> {reg_RCX, reg_ECX, reg_CX}" for r
    using rep_loop_ends [OF k assms(3,4) r, of bRepn] n r assms(5) by (metis and_zero_eq and.commute)
  show ?thesis
  proof (cases "addrsize p \<in> {DIANA_MODE64, DIANA_MODE32, DIANA_MODE16}")
    case True
    with assms(2) ends show ?thesis by (auto simp: CallWithRep_def)
  next
    case False
    with assms(2) show ?thesis by (auto simp: CallWithRep_def)
  qed
qed

theorem rep_string_ends_witness:
  "\<exists>res. CallWithRep Diana_Call_movs False ((decoded ''movs'' [mem_op 0 1, mem_op 0 1] 8 sample_loaded)\<lparr>m_stateFlagsToRemove := 0\<rparr>) = Some res"
proof -
  let ?p = "(decoded ''movs'' [mem_op 0 1, mem_op 0 1] 8 sample_loaded)\<lparr>m_stateFlagsToRemove := 0\<rparr>"
  have h: "m_commandId (pInfo (m_result ?p)) \<in> set rep_commands" "std_regs ?p" "m_stateFlags ?p AND DI_PROC_STATE_RIP_CHANGED = 0"
    "m_stateFlagsToRemove ?p = 0"
    using loaded_facts(1) by (simp_all add: rep_commands_def std_regs_def)
  show ?thesis
    using rep_string_ends [OF _ h, of Diana_Call_movs False] by auto
qed

section \<open>Calls and jumps\<close>

lemma control_at: "reg_at reg_RIP 128 8" "reg_at reg_SS 2332 2" "reg_at reg_RSP 32 8"
  by (simp_all add: reg_at_def plain_reg_def reg_simps)

lemma gpr_below_RIP:
  assumes "std_regs p" "r \<in> gpr64"
  shows "GET_REG r (SET_REG reg_RIP v p) = GET_REG r p"
proof -
  have "8 * gpr64_index r + 8 \<le> 128" "0 \<le> gpr64_index r"
    using assms(2) by (auto simp: gpr64_def gpr64_index_def)
  then show ?thesis
    using GET_SET_at_apart [OF assms(1) control_at(1) gpr64_at [OF assms(2)], of v] by simp linarith
qed

lemma GET_REG_cong:
  assumes "m_pRegistersVector q = m_pRegistersVector p" "m_registers q = m_registers p" "m_fpu q = m_fpu p"
  shows "GET_REG r q = GET_REG r p"
proof -
  have "DianaProcessor_QueryReg q r = DianaProcessor_QueryReg p r"
    unfolding DianaProcessor_QueryReg_def DianaProcessor_FPU_QueryReg_def DianaProcessor_FPU_QueryReg_MM_def Diana_FPU_GetStackTop_def assms ..
  then show ?thesis by (simp add: GET_REG_def DianaProcessor_GetValue_def DianaProcessor_GetValueEx_def assms)
qed

lemma GET_REG_result [simp]: "GET_REG r (p\<lparr>m_result := x\<rparr>) = GET_REG r p"
  by (rule GET_REG_cong) simp_all



definition rel_op :: "u64 \<Rightarrow> DianaLinkedOperand" where
  "rel_op d = \<lparr>op_value = diana_rel \<lparr>m_rel_size = 4, m_value = d\<rparr>, iOffset = 0, usedSize = 4, usedAddressSize = 8\<rparr>"


text \<open>The jump of a taken branch: RIP moves past the instruction by the displacement.\<close>

lemma jcc_relative:
  assumes "std_regs p" "opcount p = 1" "op_value (linked p 0) = diana_rel t" "opsize p = 8" "iMainMode_addressSize (m_context p) = 8"
  obtains p' where "Diana_Call_jcc 1 0 p = Ok () p'"
    "GET_REG reg_RIP p' = GET_REG reg_RIP p + m_value t + word_of_int (iFullCmdSize (m_result p))"
    "m_stateFlags p' AND DI_PROC_STATE_RIP_CHANGED \<noteq> 0" "\<And>r. r \<in> gpr64 \<Longrightarrow> GET_REG r p' = GET_REG r p"
proof -
  have R: "m_size (DianaProcessor_QueryReg p reg_RIP) = 8"
    using assms(1) control_at(1) by (simp add: QueryReg_plain reg_at_def std_regs_def)
  have S: "SET_REG2 reg_RIP v 8 p = SET_REG reg_RIP v p" "GET_REG2 reg_RIP 8 p = GET_REG reg_RIP p" for v
    using R by (simp_all add: SET_REG2_def SET_REG_def GET_REG2_def GET_REG_def DianaProcessor_SetValue_def DianaProcessor_GetValue_def)
  let ?v = "GET_REG reg_RIP p + m_value t + word_of_int (iFullCmdSize (m_result p))"
  show ?thesis
  proof (rule that)
    show "Diana_Call_jcc 1 0 p = Ok () (SET_REG reg_RIP ?v p)"
      using assms(2-5) S by (simp add: Diana_Call_jcc_def di_simps)
    show "GET_REG reg_RIP (SET_REG reg_RIP ?v p) = ?v"
      using GET_SET_at_same [OF assms(1) control_at(1), of ?v] by simp
    show "m_stateFlags (SET_REG reg_RIP ?v p) AND DI_PROC_STATE_RIP_CHANGED \<noteq> 0"
      by (simp add: and_eq_0_distrib)
  qed (use gpr_below_RIP [OF assms(1)] in auto)
qed

definition conditional_jumps :: "((unit, 'm) di_cmd \<times> ('m DianaProcessor \<Rightarrow> bool)) list" where
  "conditional_jumps = [(Diana_Call_ja, cond_a), (Diana_Call_jae, cond_ae), (Diana_Call_jb, cond_b), (Diana_Call_jbe, cond_be),
      (Diana_Call_je, cond_e), (Diana_Call_jg, cond_g), (Diana_Call_jge, cond_ge), (Diana_Call_jl, cond_l), (Diana_Call_jle, cond_le),
      (Diana_Call_jne, cond_ne), (Diana_Call_jno, cond_no), (Diana_Call_jnp, cond_np), (Diana_Call_jns, cond_ns), (Diana_Call_jo, cond_o),
      (Diana_Call_jp, cond_p), (Diana_Call_js, cond_s)]"

lemma conditional_jump_eq: "(h, c) \<in> set conditional_jumps \<Longrightarrow> h p = (if c p then Diana_Call_jcc 1 0 p else Ok () p)"
  unfolding conditional_jumps_def list.set
  by (elim insertE emptyE; simp add: di_simps Diana_Call_ja_def Diana_Call_jae_def Diana_Call_jb_def Diana_Call_jbe_def
        Diana_Call_je_def Diana_Call_jg_def Diana_Call_jge_def Diana_Call_jl_def Diana_Call_jle_def Diana_Call_jne_def Diana_Call_jno_def
        Diana_Call_jnp_def Diana_Call_jns_def Diana_Call_jo_def Diana_Call_jp_def Diana_Call_js_def)

text \<open>
  Each of the sixteen conditional jumps with a relative operand moves RIP past the instruction by the displacement and reports the change exactly when its
  condition on the flags holds, and leaves the processor untouched otherwise (in 64-bit mode with a 64-bit operand size).
\<close>

theorem conditional_jump_correct:
  assumes "std_regs p" "opcount p = 1" "op_value (linked p 0) = diana_rel t" "opsize p = 8" "iMainMode_addressSize (m_context p) = 8"
    "(h, c) \<in> set conditional_jumps"
  shows "if c p then \<exists>p'. h p = Ok () p' \<and> GET_REG reg_RIP p' = GET_REG reg_RIP p + m_value t + word_of_int (iFullCmdSize (m_result p)) \<and>
      m_stateFlags p' AND DI_PROC_STATE_RIP_CHANGED \<noteq> 0 \<and> (\<forall>r \<in> gpr64. GET_REG r p' = GET_REG r p)
    else h p = Ok () p"
  using jcc_relative [OF assms(1-5)] conditional_jump_eq [OF assms(6), of p] by metis

theorem conditional_jump_correct_witness:
  "let p = decoded ''je'' [rel_op 0x20] 8 sample_loaded in
   if cond_e p then \<exists>p'. Diana_Call_je p = Ok () p' \<and> GET_REG reg_RIP p' = GET_REG reg_RIP p + 0x20 + 3 else Diana_Call_je p = Ok () p"
proof -
  let ?p = "decoded ''je'' [rel_op 0x20] 8 sample_loaded"
  have h: "std_regs ?p" "opcount ?p = 1" "op_value (linked ?p 0) = diana_rel \<lparr>m_rel_size = 4, m_value = 0x20\<rparr>" "opsize ?p = 8"
    "iMainMode_addressSize (m_context ?p) = 8"
    by (simp_all add: rel_op_def Diana_InitContext_def)
  show ?thesis
    using conditional_jump_correct [OF h, of Diana_Call_je cond_e] by (auto simp: Let_def conditional_jumps_def split: if_splits)
qed

section \<open>Conditional moves\<close>

definition conditional_moves :: "((unit, 'm) di_cmd \<times> ('m DianaProcessor \<Rightarrow> bool)) list" where
  "conditional_moves =
    [(Diana_Call_cmova, cond_a), (Diana_Call_cmovae, cond_ae), (Diana_Call_cmovb, cond_b), (Diana_Call_cmovbe, cond_be), (Diana_Call_cmove, cond_e),
     (Diana_Call_cmovg, cond_g), (Diana_Call_cmovge, cond_ge), (Diana_Call_cmovl, cond_l), (Diana_Call_cmovle, cond_le), (Diana_Call_cmovne, cond_ne),
     (Diana_Call_cmovno, cond_no), (Diana_Call_cmovnp, cond_np), (Diana_Call_cmovns, cond_ns), (Diana_Call_cmovo, cond_o), (Diana_Call_cmovp, cond_p),
     (Diana_Call_cmovs, cond_s)]"

lemma conditional_move_eq: "(h, c) \<in> set conditional_moves \<Longrightarrow> h = Di_cmov c"
  unfolding conditional_moves_def list.set
  by (elim insertE emptyE; simp add: Diana_Call_cmova_def Diana_Call_cmovae_def Diana_Call_cmovb_def Diana_Call_cmovbe_def Diana_Call_cmove_def Diana_Call_cmovg_def
      Diana_Call_cmovge_def Diana_Call_cmovl_def Diana_Call_cmovle_def Diana_Call_cmovne_def Diana_Call_cmovno_def Diana_Call_cmovnp_def
      Diana_Call_cmovns_def Diana_Call_cmovo_def Diana_Call_cmovp_def Diana_Call_cmovs_def)

lemma conditional_move_flags: "(h, c) \<in> set conditional_moves \<Longrightarrow> m_flags q = m_flags p \<Longrightarrow> c q = c p"
  unfolding conditional_moves_def list.set
  by (elim insertE emptyE; simp add: DianaProcessor_QueryFlag_def cond_a_def cond_ae_def cond_b_def cond_be_def cond_e_def cond_g_def cond_ge_def cond_l_def cond_le_def cond_ne_def cond_no_def cond_np_def
      cond_ns_def cond_o_def cond_p_def cond_s_def)

text \<open>
  Each of the sixteen conditional moves keeps the flags and writes the source to the destination exactly when its condition holds; otherwise the destination keeps
  its value, and in both cases nothing outside the destination register changes (a 32-bit destination clears the upper half of its register even when the move is not made).
\<close>

theorem conditional_move_correct:
  assumes "stream_attached MemoryRandomStream_Read MemoryRandomStream_Write buffer_ok p" "alu_dest buffer_mapped p n" "operand_rd buffer_mapped p 1 m"
    "(h, c) \<in> set conditional_moves"
  shows "\<exists>a b p'. DI_MEM_GET 0 p = Ok (a, n) p \<and> DI_MEM_GET 1 p = Ok (b, m) p \<and> h p = Ok () p' \<and> m_flags p' = m_flags p \<and> operand_frame 0 p p' \<and>
    DI_MEM_GET 0 p' = Ok (if c p then DianaProcessor_CutValue b n else a, n) p'"
proof -
  have eq: "h = Di_cmov c" by (rule conditional_move_eq [OF assms(4)])
  have c: "c q = c p" if "m_flags q = m_flags p" for q by (rule conditional_move_flags [OF assms(4) that])
  obtain a b p' where "DI_MEM_GET 0 p = Ok (a, n) p" "DI_MEM_GET 1 p = Ok (b, m) p" "Di_cmov c p = Ok () p'" "m_flags p' = m_flags p"
    "c p \<Longrightarrow> wrote p n b p'" "\<not> c p \<Longrightarrow> DI_MEM_GET 0 p' = Ok (a, n) p' \<and> operand_frame 0 p p'"
    using buf.cmov_Ok [OF assms(1-3), of c] c by metis
  then show ?thesis
    unfolding eq by (cases "c p") (auto simp: wrote_def)
qed

theorem conditional_move_correct_witness:
  "let p = decoded ''cmovne'' [reg_op reg_RAX 8, reg_op reg_RCX 8] 8 sample_loaded in
   \<exists>p'. Diana_Call_cmovne p = Ok () p' \<and> DI_MEM_GET 0 p' = Ok (if cond_ne p then 5 else 7, 8) p'"
proof -
  let ?p = "decoded ''cmovne'' [reg_op reg_RAX 8, reg_op reg_RCX 8] 8 sample_loaded"
  have h: "stream_attached MemoryRandomStream_Read MemoryRandomStream_Write buffer_ok ?p" by simp
  obtain a b p' where x: "DI_MEM_GET 0 ?p = Ok (a, 8) ?p" "DI_MEM_GET 1 ?p = Ok (b, 8) ?p" "Diana_Call_cmovne ?p = Ok () p'"
    "DI_MEM_GET 0 p' = Ok (if cond_ne ?p then DianaProcessor_CutValue b 8 else a, 8) p'"
    using conditional_move_correct [OF h sample_dest(2) alu_readyD(2) [OF sample_ready], of Diana_Call_cmovne cond_ne] by (auto simp: conditional_moves_def)
  have "a = 7" "b = 5" using x(1,2) by (simp_all add: loaded_get)
  with x(3,4) show ?thesis by (auto simp: Let_def)
qed

end
