(* ===== verification/Execution_Properties.thy ===== *)
theory Execution_Properties
  imports Control_Properties
begin

unbundle bit_operations_syntax

text \<open>
  The execution of one instruction: how \<^verbatim>\<open>DianaProcessor_ExecOnce\<close> composes fire points, the decoder, the table of handlers, prefixes and the update of
  the instruction pointer.
\<close>

section \<open>Parts of a step\<close>

lemma fire_loop_quiet:
  "\<forall>pt \<in> set (m_firePoints p). fp_address pt \<noteq> rip \<Longrightarrow> fire_loop action rip k i p = p"
  by (induction k arbitrary: i) (auto simp: Let_def)

text \<open>The state that the decoder starts from.\<close>

definition exec_entry :: "'m DianaProcessor \<Rightarrow> 'm DianaProcessor" where
  "exec_entry p =
     (let p = (if m_stateFlags p AND DI_PROC_STATE_TEMP_RIP_IS_VALID = 0
               then p\<lparr>m_tempRIP := GET_REG reg_RIP p, m_stateFlags := m_stateFlags p OR DI_PROC_STATE_TEMP_RIP_IS_VALID\<rparr> else p)
      in p\<lparr>m_stateFlags := m_stateFlags p AND NOT DI_PROC_STATE_RIP_CHANGED\<rparr>)"

definition plain_prefix :: "'m DianaProcessor \<Rightarrow> bool" where
  "plain_prefix p \<longleftrightarrow> iPrefix (m_result p) \<noteq> DI_PREFIX_REP \<and> iPrefix (m_result p) \<noteq> DI_PREFIX_REPN \<and> iPrefix (m_result p) \<noteq> DI_PREFIX_LOCK"

lemma ExecOnce_eq:
  assumes "\<forall>pt \<in> set (m_firePoints p). fp_address pt \<noteq> GET_REG reg_RIP p" "parse (exec_entry p) = Ok () d"
    "\<not> isEvex (m_result d)" "DianaProcessor_OnGroup others (m_commandId (pInfo (m_result d))) = Some c"
  shows "DianaProcessor_ExecOnce action parse others evex None p = map_option (ExecOnce_finish (GET_REG reg_RIP p)) (ExecOnce_call c d)"
  using assms(2-4) fire_loop_quiet [OF assms(1)]
  by (simp add: DianaProcessor_ExecOnce_def run_fire_points_def exec_entry_def Let_def)

lemma ExecOnce_plain:
  assumes "plain_prefix d" "c d = Ok () e"
  shows "ExecOnce_call c d = Some (Ok () (e\<lparr>m_stateFlags := m_stateFlags e AND NOT (m_stateFlagsToRemove e), m_stateFlagsToRemove := 0\<rparr>))"
  using assms by (simp add: ExecOnce_call_def plain_prefix_def Call_def Let_def)

text \<open>The write of RIP after an instruction goes past the mark of a taken jump.\<close>

lemma set_next_RIP:
  fixes p :: "'m DianaProcessor" and v :: u64
  assumes "std_regs p" "psz_off p"
  defines "q \<equiv> DianaProcessor_SetValue reg_none (DianaProcessor_QueryReg p reg_RIP) v p"
  shows "GET_REG reg_RIP q = v" "r \<in> gpr64 \<Longrightarrow> GET_REG r q = GET_REG r p" "m_memory q = m_memory p" "m_flags q = m_flags p"
proof -
  have R: "DianaProcessor_QueryReg p reg_RIP = \<lparr>m_size = 8, m_offset = 128\<rparr>"
    using assms(1) control_at(1) by (simp add: QueryReg_plain reg_at_def std_regs_def)
  have v: "m_pRegistersVector q = vec_put (m_pRegistersVector p) 128 8 v" "m_registers q = m_registers p"
    by (simp_all add: q_def R DianaProcessor_SetValue_def DianaProcessor_SetValueEx_def put_reg_def Let_def)
  then have q: "std_regs q" using assms(1) by (simp add: std_regs_def)
  show "GET_REG reg_RIP q = v"
    using GET_REG_at [OF q control_at(1)] v by (simp add: vec_get_put_same)
  show "GET_REG r q = GET_REG r p" if r: "r \<in> gpr64"
  proof -
    have "8 * gpr64_index r + 8 \<le> 128" "0 \<le> gpr64_index r"
      using r by (auto simp: gpr64_def gpr64_index_def)
    then show ?thesis
      using GET_REG_at [OF q gpr64_at [OF r]] GET_REG_at [OF assms(1) gpr64_at [OF r]] v
      by (simp add: vec_get_put_disjoint nat_mult_distrib) (intro vec_get_put_disjoint; linarith)
  qed
  show "m_memory q = m_memory p" "m_flags q = m_flags p"
    using assms(2) by (simp_all add: q_def DianaProcessor_SetValue_def)
qed

lemma rip_mark:
  "r AND DI_PROC_STATE_RIP_CHANGED = 0 \<Longrightarrow>
   ((a AND NOT r) AND NOT DI_PROC_STATE_CMD_USES_NORMAL_REP) AND DI_PROC_STATE_RIP_CHANGED = a AND (DI_PROC_STATE_RIP_CHANGED :: u32)"
  by (subst and_not_disjoint, simp, rule and_not_disjoint)

section \<open>A successful step\<close>

text \<open>The state flags after a handler, and the processor after the step.\<close>

definition finished :: "'m DianaProcessor \<Rightarrow> 'm DianaProcessor" where
  "finished e = e\<lparr>m_stateFlagsToRemove := 0, m_stateFlags := (m_stateFlags e AND NOT (m_stateFlagsToRemove e)) AND NOT DI_PROC_STATE_CMD_USES_NORMAL_REP\<rparr>"

definition after_step :: "u64 \<Rightarrow> 'm DianaProcessor \<Rightarrow> 'm DianaProcessor" where
  "after_step rip e =
     (if m_stateFlags e AND DI_PROC_STATE_RIP_CHANGED \<noteq> 0
      then Diana_ClearCache ((finished e)\<lparr>m_stateFlags := m_stateFlags (finished e) AND NOT DI_PROC_STATE_TEMP_RIP_IS_VALID AND NOT DI_PROC_STATE_RIP_CHANGED\<rparr>)
      else DianaProcessor_SetValue reg_none (DianaProcessor_QueryReg (finished e) reg_RIP) (rip + word_of_int (iFullCmdSize (m_result e))) (finished e))"

lemma finished_simps [simp]:
  "m_memory (finished e) = m_memory e" "m_flags (finished e) = m_flags e" "m_context (finished e) = m_context e" "m_tempRIP (finished e) = m_tempRIP e"
  "m_pMemoryStream (finished e) = m_pMemoryStream e" "m_result (finished e) = m_result e" "m_registers (finished e) = m_registers e"
  "GET_REG r (finished e) = GET_REG r e" "std_regs (finished e) = std_regs e" "psz_off e \<Longrightarrow> psz_off (finished e)"
proof -
  show "GET_REG r (finished e) = GET_REG r e" by (rule GET_REG_cong) (simp_all add: finished_def)
qed (simp_all add: finished_def std_regs_def psz_off_def and_zero_more)

lemma exec_step:
  assumes "\<forall>pt \<in> set (m_firePoints p). fp_address pt \<noteq> GET_REG reg_RIP p"
    and "parse (exec_entry p) = Ok () d" "\<not> isEvex (m_result d)" "map_of general_purpose_commands (m_commandId (pInfo (m_result d))) = Some c"
    and "plain_prefix d" "c d = Ok () e" "m_stateFlagsToRemove e AND DI_PROC_STATE_RIP_CHANGED = 0"
    and "\<not> list_ex (\<lambda>i. is_mmx (linked e i)) [0 .. opcount e - 1]"
  shows "DianaProcessor_ExecOnce action parse others evex None p = Some (Ok () (after_step (GET_REG reg_RIP p) e))"
proof -
  let ?e = "e\<lparr>m_stateFlags := m_stateFlags e AND NOT (m_stateFlagsToRemove e), m_stateFlagsToRemove := 0\<rparr>"
  have "DianaProcessor_OnGroup others (m_commandId (pInfo (m_result d))) = Some c"
    using assms(4) by (simp add: DianaProcessor_OnGroup_def)
  then have run: "DianaProcessor_ExecOnce action parse others evex None p = Some (ExecOnce_finish (GET_REG reg_RIP p) (Ok () ?e))"
    using ExecOnce_eq [of p parse d others c action evex] assms(1-3) ExecOnce_plain [of d c e] assms(5,6) by simp
  have "Diana_FPU_MmxTransition ?e = ?e"
    using assms(8) by (simp add: Diana_FPU_MmxTransition_def)
  moreover have "m_stateFlags (finished e) AND DI_PROC_STATE_RIP_CHANGED = m_stateFlags e AND DI_PROC_STATE_RIP_CHANGED"
    using rip_mark [OF assms(7), of "m_stateFlags e"] by (simp add: finished_def)
  ultimately show ?thesis
    using run by (cases "m_stateFlags e AND DI_PROC_STATE_RIP_CHANGED = 0") (simp_all add: ExecOnce_finish_def after_step_def finished_def Let_def)
qed

lemma after_jump:
  assumes "m_stateFlags e AND DI_PROC_STATE_RIP_CHANGED \<noteq> 0"
  shows "GET_REG r (after_step rip e) = GET_REG r e" "m_memory (after_step rip e) = m_memory e" "m_flags (after_step rip e) = m_flags e"
    "m_pMemoryStream (after_step rip e) = m_pMemoryStream e" "m_context (after_step rip e) = (m_context e)\<lparr>cacheIt := 2, cacheSize := 0\<rparr>"
    "m_stateFlags (after_step rip e) AND DI_PROC_STATE_TEMP_RIP_IS_VALID = 0"
proof -
  have eq: "after_step rip e = Diana_ClearCache ((finished e)\<lparr>m_stateFlags := m_stateFlags (finished e) AND NOT DI_PROC_STATE_TEMP_RIP_IS_VALID AND
      NOT DI_PROC_STATE_RIP_CHANGED\<rparr>)" using assms by (simp add: after_step_def)
  have "GET_REG r (after_step rip e) = GET_REG r (finished e)" by (rule GET_REG_cong) (simp_all add: eq Diana_ClearCache_def)
  then show "GET_REG r (after_step rip e) = GET_REG r e" by simp
qed (simp_all add: after_step_def Diana_ClearCache_def assms and.assoc)

lemma after_plain:
  assumes "m_stateFlags e AND DI_PROC_STATE_RIP_CHANGED = 0" "std_regs e" "psz_off e"
  shows "GET_REG reg_RIP (after_step rip e) = rip + word_of_int (iFullCmdSize (m_result e))" "r \<in> gpr64 \<Longrightarrow> GET_REG r (after_step rip e) = GET_REG r e"
    "m_memory (after_step rip e) = m_memory e" "m_flags (after_step rip e) = m_flags e"
  using set_next_RIP [where p = "finished e" and v = "rip + word_of_int (iFullCmdSize (m_result e))"] assms by (simp_all add: after_step_def)

text \<open>
  C2: one execution step with a decoder that delivers an unprefixed instruction of the table, whose handler succeeds and which has no MMX operand: the step
  succeeds and leaves the memory and the general purpose registers as the handler left them; RIP is the handler's target with the code cache dropped when the handler changed RIP, and
  otherwise the address of the instruction plus its size.
\<close>

theorem exec_once_steps:
  assumes "\<forall>pt \<in> set (m_firePoints p). fp_address pt \<noteq> GET_REG reg_RIP p"
    and "parse (exec_entry p) = Ok () d" "\<not> isEvex (m_result d)" "map_of general_purpose_commands (m_commandId (pInfo (m_result d))) = Some c"
    and "plain_prefix d" "c d = Ok () e" "std_regs e" "psz_off e" "m_stateFlagsToRemove e AND DI_PROC_STATE_RIP_CHANGED = 0"
    and "\<not> list_ex (\<lambda>i. is_mmx (linked e i)) [0 .. opcount e - 1]"
  shows "\<exists>p'. DianaProcessor_ExecOnce action parse others evex None p = Some (Ok () p') \<and>
    m_memory p' = m_memory e \<and> m_flags p' = m_flags e \<and> (\<forall>r \<in> gpr64. GET_REG r p' = GET_REG r e) \<and>
    (if m_stateFlags e AND DI_PROC_STATE_RIP_CHANGED \<noteq> 0
     then GET_REG reg_RIP p' = GET_REG reg_RIP e \<and> cacheSize (m_context p') = 0 \<and> m_stateFlags p' AND DI_PROC_STATE_TEMP_RIP_IS_VALID = 0
     else GET_REG reg_RIP p' = GET_REG reg_RIP p + word_of_int (iFullCmdSize (m_result e)))"
  by (rule exI [of _ "after_step (GET_REG reg_RIP p) e"], cases "m_stateFlags e AND DI_PROC_STATE_RIP_CHANGED = 0")
     (simp_all add: exec_step [where p = p and parse = parse and d = d and c = c and e = e, OF assms(1-6,9,10)] after_jump after_plain assms(7,8))

lemma sample_entry: "m_stateFlags (exec_entry sample_loaded) = DI_PROC_STATE_TEMP_RIP_IS_VALID" "m_result (exec_entry sample_loaded) = m_result sample_loaded"
  by (simp_all add: exec_entry_def)

text \<open>A decoder that delivers \<^verbatim>\<open>clc\<close>, whatever the bytes.\<close>

definition sample_parse :: "(unit, DianaRandomMemoryStream) di_cmd" where
  "sample_parse p = Ok () (decoded ''clc'' [] 8 p)"

theorem exec_once_steps_witness:
  "\<exists>p'. DianaProcessor_ExecOnce (\<lambda>_ p. p) sample_parse (\<lambda>_. None) (\<lambda>p. Ok () p) None (sample_loaded\<lparr>m_stateFlagsToRemove := 0\<rparr>) = Some (Ok () p') \<and>
     GET_REG reg_RIP p' = GET_REG reg_RIP (sample_loaded\<lparr>m_stateFlagsToRemove := 0\<rparr>) + 3"
proof -
  let ?p = "sample_loaded\<lparr>m_stateFlagsToRemove := 0\<rparr>"
  let ?d = "decoded ''clc'' [] 8 (exec_entry ?p)"
  let ?e = "DianaProcessor_ClearFlag DI_FLAG_CF ?d"
  have h: "\<forall>pt \<in> set (m_firePoints ?p). fp_address pt \<noteq> GET_REG reg_RIP ?p" "sample_parse (exec_entry ?p) = Ok () ?d" "\<not> isEvex (m_result ?d)"
    "plain_prefix ?d" "Diana_Call_clc ?d = Ok () ?e"
    by (simp_all add: sample_parse_def plain_prefix_def Diana_Call_clc_def di_simps sample_loaded_def sample_fire)
  have c: "map_of general_purpose_commands (m_commandId (pInfo (m_result ?d))) = Some Diana_Call_clc"
    by (simp add: general_purpose_commands_def)
  have e: "std_regs ?e" "psz_off ?e" "m_stateFlagsToRemove ?e AND DI_PROC_STATE_RIP_CHANGED = 0"
    "\<not> list_ex (\<lambda>i. is_mmx (linked ?e i)) [0 .. opcount ?e - 1]" "m_stateFlags ?e AND DI_PROC_STATE_RIP_CHANGED = 0"
    "iFullCmdSize (m_result ?e) = 3"
    using loaded_facts(1)
    by (simp_all add: exec_entry_def std_regs_def psz_off_def decoded_def)
  show ?thesis
    using exec_once_steps [where p = ?p and parse = sample_parse and d = ?d and c = Diana_Call_clc and e = ?e, OF h(1,2,3) c h(4,5) e(1-4), of "\<lambda>_ p. p" "\<lambda>_. None" "\<lambda>p. Ok () p"] e(5,6) by auto
qed

section \<open>Refusals\<close>

text \<open>
  C37: a step fails with the decoder's error when decoding fails, with unsupported-command when neither the table nor the other handlers know the instruction, and with
  invalid-opcode when a lock prefix stands before an instruction that may not be locked; in the last case the taken-jump and prefetch marks are cleared.
\<close>

theorem exec_once_refuses:
  assumes "\<forall>pt \<in> set (m_firePoints p). fp_address pt \<noteq> GET_REG reg_RIP p"
  shows "(\<forall>e d. parse (exec_entry p) = Err e d \<longrightarrow> DianaProcessor_ExecOnce action parse others evex None p = Some (Err e d)) \<and>
    (\<forall>d. parse (exec_entry p) = Ok () d \<and> \<not> isEvex (m_result d) \<and> DianaProcessor_OnGroup others (m_commandId (pInfo (m_result d))) = None \<longrightarrow>
       DianaProcessor_ExecOnce action parse others evex None p = Some (Err DI_UNSUPPORTED_COMMAND d)) \<and>
    (\<forall>d c. parse (exec_entry p) = Ok () d \<and> \<not> isEvex (m_result d) \<and> DianaProcessor_OnGroup others (m_commandId (pInfo (m_result d))) = Some c \<and>
       iPrefix (m_result d) = DI_PREFIX_LOCK \<and> \<not> lock_allowed d \<longrightarrow>
       (\<exists>p'. DianaProcessor_ExecOnce action parse others evex None p = Some (Err DI_INVALID_OPCODE p') \<and>
          m_stateFlags p' AND DI_PROC_STATE_RIP_CHANGED = 0 \<and> m_stateFlags p' AND DI_PROC_STATE_TEMP_RIP_IS_VALID = 0))"
proof (intro conjI allI impI)
  note quiet = fire_loop_quiet [OF assms]
  show "DianaProcessor_ExecOnce action parse others evex None p = Some (Err e d)" if "parse (exec_entry p) = Err e d" for e d
    using that quiet by (simp add: DianaProcessor_ExecOnce_def run_fire_points_def exec_entry_def Let_def)
  show "DianaProcessor_ExecOnce action parse others evex None p = Some (Err DI_UNSUPPORTED_COMMAND d)"
    if "parse (exec_entry p) = Ok () d \<and> \<not> isEvex (m_result d) \<and> DianaProcessor_OnGroup others (m_commandId (pInfo (m_result d))) = None" for d
    using that quiet by (simp add: DianaProcessor_ExecOnce_def DianaProcessor_OnGroup_def run_fire_points_def exec_entry_def Let_def)
  show "\<exists>p'. DianaProcessor_ExecOnce action parse others evex None p = Some (Err DI_INVALID_OPCODE p') \<and>
      m_stateFlags p' AND DI_PROC_STATE_RIP_CHANGED = 0 \<and> m_stateFlags p' AND DI_PROC_STATE_TEMP_RIP_IS_VALID = 0"
    if d: "parse (exec_entry p) = Ok () d \<and> \<not> isEvex (m_result d) \<and> DianaProcessor_OnGroup others (m_commandId (pInfo (m_result d))) = Some c \<and>
       iPrefix (m_result d) = DI_PREFIX_LOCK \<and> \<not> lock_allowed d" for d c
    using d ExecOnce_eq [of p parse d others c action evex] assms
    by (simp add: ExecOnce_call_def ExecOnce_finish_def Let_def Diana_ClearCache_def and.assoc)
qed

theorem exec_once_refuses_witness:
  "DianaProcessor_ExecOnce (\<lambda>_ p. p) (\<lambda>p. Err DI_ERROR p) (\<lambda>_. None) (\<lambda>p. Ok () p) None sample_loaded = Some (Err DI_ERROR (exec_entry sample_loaded))"
proof -
  have "\<forall>pt \<in> set (m_firePoints sample_loaded). fp_address pt \<noteq> GET_REG reg_RIP sample_loaded"
    by (simp add: sample_loaded_def sample_fire)
  from conjunct1 [OF exec_once_refuses [OF this, of "\<lambda>p. Err DI_ERROR p" "\<lambda>_ p. p" "\<lambda>_. None" "\<lambda>p. Ok () p"]] show ?thesis by simp
qed

end
