(* ===== verification/Emulator_Invariant.thy ===== *)
theory Emulator_Invariant
  imports Execution_Properties
begin

unbundle bit_operations_syntax

text \<open>
  What an execution step keeps of the machine: the layout of the registers, the attached stream, the bound on the fire points and the bytes behind the registers.  It is proved for the loops of the
  repetition prefixes, the transition to MMX, the write of RIP and the fire points, and for every general purpose handler.
\<close>

section \<open>The frame of a step\<close>

definition machine :: "'m DianaProcessor \<Rightarrow> 'm DianaProcessor \<Rightarrow> bool" where
  "machine p q \<longleftrightarrow> m_registers q = m_registers p \<and> m_pMemoryStream q = m_pMemoryStream p \<and>
     m_registersVectorSize q = m_registersVectorSize p \<and>
     (length (m_firePoints p) \<le> DIANA_PROCESSOR_MAX_FIRE_POINTS \<longrightarrow> length (m_firePoints q) \<le> DIANA_PROCESSOR_MAX_FIRE_POINTS) \<and>
     (std_regs p \<longrightarrow> (\<forall>a \<ge> registers_used. m_pRegistersVector q a = m_pRegistersVector p a))"

interpretation machine: frame_relation machine
  by unfold_locales (auto simp: machine_def std_regs_def)

lemma kept_machine: "kept p q \<Longrightarrow> machine p q"
  by (simp add: kept_def machine_def)

lemma keeps_machine: "keeps kept c \<Longrightarrow> keeps machine c"
  by (auto simp: keeps_def intro: kept_machine)

lemma machine_fields:
  "machine p (p\<lparr>m_stateFlags := x\<rparr>)" "machine p (p\<lparr>m_stateFlagsToRemove := x\<rparr>)" "machine p (p\<lparr>m_tempRIP := y\<rparr>)" "machine p (Diana_ClearCache p)"
  "machine p (p\<lparr>m_stateFlags := x, m_stateFlagsToRemove := x'\<rparr>)" "machine p (p\<lparr>m_tempRIP := y, m_stateFlags := x\<rparr>)" "machine p (p\<lparr>m_fpu := f\<rparr>)"
  by (simp_all add: machine_def Diana_ClearCache_def)

lemma Call_machine: "keeps machine c \<Longrightarrow> machine p (res_state (Call c p))"
proof -
  assume "keeps machine c"
  then have "machine p (res_state (c p))" by (simp add: keeps_def)
  then show ?thesis
    unfolding Call_def Let_def by (cases "c p") (auto intro: machine.R_trans machine_fields)
qed

text \<open>One round of the loop, whatever the rest of it does.\<close>

lemma rep_round_machine:
  assumes c: "keeps machine c"
    and run: "(if GET_REG r p = 0 then Some (Ok () p)
      else case Call c p of
        Err e q \<Rightarrow> Some (Err e q)
      | Ok _ q \<Rightarrow>
          if m_stateFlags q AND DI_PROC_STATE_RIP_CHANGED \<noteq> 0 then Some (Ok () q)
          else
            let n = SET_REG reg_RCX (GET_REG reg_RCX q - 1) q in
            if b then if DianaProcessor_QueryFlag n DI_FLAG_ZF then Some (Ok () n) else rest n
            else if m_stateFlags n AND DI_PROC_STATE_CMD_USES_NORMAL_REP = 0 \<and> \<not> DianaProcessor_QueryFlag n DI_FLAG_ZF
              then Some (Ok () n) else rest n) = Some res"
    and rest: "\<And>n. rest n = Some res \<Longrightarrow> machine n (res_state res)"
  shows "machine p (res_state res)"
proof (cases "GET_REG r p = 0 \<or> (\<exists>e q. Call c p = Err e q)")
  case True
  with run Call_machine [OF c, of p] show ?thesis by (auto simp: machine.R_refl split: if_splits)
next
  case False
  then obtain u q where q: "Call c p = Ok u q" "GET_REG r p \<noteq> 0" by (cases "Call c p") auto
  let ?n = "SET_REG reg_RCX (GET_REG reg_RCX q - 1) q"
  have pq: "machine p q" using Call_machine [OF c, of p] q by simp
  have "machine q ?n"
    using keeps_SET_REG [unfolded keeps_fun_def] by (blast intro: kept_machine)
  with pq have pn: "machine p ?n" by (rule machine.R_trans)
  have "res_state res = q \<or> res_state res = ?n \<or> rest ?n = Some res"
    using run q(2) by (auto simp: q(1) Let_def split: if_splits)
  with pq pn rest [of ?n] show ?thesis by (auto intro: machine.R_trans)
qed

lemma rep_loop_machine:
  assumes "rep_loop c b r p = Some res" "keeps machine c"
  shows "machine p (res_state res)"
proof -
  have "keeps machine c \<longrightarrow> machine p (res_state res)"
    by (rule rep_loop.raw_induct [where P = "\<lambda>c b r p res. keeps machine c \<longrightarrow> machine p (res_state res)", OF _ assms(1)])
       (rule impI, rule rep_round_machine, assumption, assumption, blast)
  with assms(2) show ?thesis by blast
qed

lemma MM_offset:
  assumes "std_regs p" "reg_MM0 \<le> r" "r \<le> reg_MM7"
  shows "0 \<le> m_offset (DianaProcessor_QueryReg p r)" "m_offset (DianaProcessor_QueryReg p r) + 10 \<le> int registers_used"
proof -
  have "r = reg_MM0 \<or> r = reg_MM1 \<or> r = reg_MM2 \<or> r = reg_MM3 \<or> r = reg_MM4 \<or> r = reg_MM5 \<or> r = reg_MM6 \<or> r = reg_MM7"
    using assms(2,3) by presburger
  then have "0 \<le> m_offset (DianaProcessor_QueryReg p r) \<and> m_offset (DianaProcessor_QueryReg p r) + 10 \<le> int registers_used"
    using assms(1) by (elim disjE) (simp_all add: DianaProcessor_QueryReg_def DianaProcessor_FPU_QueryReg_MM_def std_regs_def reg_simps)
  then show "0 \<le> m_offset (DianaProcessor_QueryReg p r)" "m_offset (DianaProcessor_QueryReg p r) + 10 \<le> int registers_used" by simp_all
qed

lemma put_MM_machine: "is_mmx op \<Longrightarrow> machine p (put_reg (nat (m_offset (DianaProcessor_QueryReg p (recognizedRegister (op_value op))) + 8)) 2 v p)"
  using MM_offset [of p "recognizedRegister (op_value op)"]
  by (auto simp: machine_def put_reg_def vec_put_def is_mmx_def split: DianaOperandValue.splits)

lemma MmxTransition_machine: "machine p (Diana_FPU_MmxTransition p)"
proof -
  have "machine p (if idle then p
      else if is_mmx (linked q 0) \<and> b
        then put_reg (nat (m_offset (DianaProcessor_QueryReg q (recognizedRegister (op_value (linked q 0)))) + 8)) 2 v q else q)"
    if "machine p q" for q idle b v
    using that put_MM_machine [of "linked q 0" q] by (auto intro: machine.R_refl machine.R_trans)
  note choice = this
  show ?thesis
    unfolding Diana_FPU_MmxTransition_def Let_def
    by (rule choice) (rule machine.R_trans [OF _ machine_fields(7)], simp add: Diana_FPU_SetStackTop_def machine_fields)
qed

lemma CallWithRep_machine:
  assumes "CallWithRep c b p = Some res" "keeps machine c"
  shows "machine p (res_state res)"
  using assms rep_loop_machine [OF _ assms(2)] Call_machine [OF assms(2), of p]
  by (auto simp: CallWithRep_def machine.R_refl split: if_splits)

lemma ExecOnce_call_machine:
  assumes "ExecOnce_call c p = Some res" "keeps machine c"
  shows "machine p (res_state res)"
  using assms CallWithRep_machine [OF _ assms(2)] Call_machine [OF assms(2), of p]
  by (auto simp: ExecOnce_call_def machine.R_refl split: if_splits)

lemma set_RIP_machine: "machine p (DianaProcessor_SetValue reg_none (DianaProcessor_QueryReg p reg_RIP) v p)"
proof -
  have "0 < m_size (DianaProcessor_QueryReg p reg_RIP)" if "std_regs p"
    using that by (simp add: QueryReg_plain plain_reg_def std_regs_def reg_simps)
  then have "m_pRegistersVector (DianaProcessor_SetValue reg_none (DianaProcessor_QueryReg p reg_RIP) v p) a = m_pRegistersVector p a"
    if "std_regs p" "2436 \<le> a" for a
    using QueryReg_bound [of p reg_RIP] that unfolding DianaProcessor_SetValue_def by (intro SetValueEx_outside) auto
  then show ?thesis by (simp add: machine_def)
qed

lemma ExecOnce_finish_machine: "machine (res_state r) (res_state (ExecOnce_finish rip r))"
proof -
  define q where "q = (if is_Ok r then Diana_FPU_MmxTransition (res_state r) else res_state r)"
  define q' where "q' = q\<lparr>m_stateFlags := m_stateFlags q AND NOT DI_PROC_STATE_CMD_USES_NORMAL_REP\<rparr>"
  have "machine (res_state r) q" by (simp add: q_def MmxTransition_machine machine.R_refl)
  then have "machine (res_state r) q'" unfolding q'_def by (rule machine.R_trans) (rule machine_fields)
  moreover have "machine q' (res_state (ExecOnce_finish rip r))"
    unfolding ExecOnce_finish_def Let_def q_def [symmetric] q'_def [symmetric]
    by (cases r) (auto intro: machine.R_trans [OF machine_fields(1) machine_fields(4)] set_RIP_machine)
  ultimately show ?thesis by (rule machine.R_trans)
qed

lemma fire_loop_machine:
  assumes "\<And>pt. keeps_fun machine (action pt)"
  shows "machine p (fire_loop action rip k i p)"
  using assms
proof (induction action rip k i p rule: fire_loop.induct)
  case (2 action rip k i p)
  then have "machine p (if fp_address (m_firePoints p ! i) = rip then action (m_firePoints p ! i) p else p)"
    by (simp add: keeps_fun_def machine.R_refl)
  with 2 show ?case by (auto simp: Let_def machine.R_refl intro: machine.R_trans)
qed (simp add: machine.R_refl)

lemma general_purpose_machine: "map_of general_purpose_commands cmd = Some c \<Longrightarrow> keeps machine c"
  using map_of_SomeD [of general_purpose_commands cmd c] by (blast intro: keeps_machine general_purpose_kept)

text \<open>The instruction that a step decoded is not left to a handler outside the general purpose group: it is in its table, or no group knows it, or the decoder failed.\<close>

definition own_instruction :: "(DianaCommandId \<Rightarrow> (unit, 'm) di_cmd option) \<Rightarrow> (unit, 'm DianaProcessor) di_res \<Rightarrow> bool" where
  "own_instruction others r \<longleftrightarrow> (case r of
      Ok _ q \<Rightarrow> (let cmd = m_commandId (pInfo (m_result q)) in \<not> isEvex (m_result q) \<and> ((map_of general_purpose_commands cmd :: (unit, 'm) di_cmd option) = None \<longrightarrow> Option.is_none (others cmd)))
    | Err _ _ \<Rightarrow> True)"

lemma ExecOnce_machine:
  fixes parse :: "(unit, 'm) di_cmd"
  assumes act: "\<And>pt. keeps_fun machine (action pt)" and dec: "keeps machine parse"
    and own: "own_instruction others (parse (exec_entry (run_fire_points action (GET_REG reg_RIP p) p)))"
    and run: "DianaProcessor_ExecOnce action parse others evex None p = Some res"
  shows "machine p (res_state res)"
proof -
  define q where "q = run_fire_points action (GET_REG reg_RIP p) p"
  define q' where "q' = (if m_stateFlags q AND DI_PROC_STATE_TEMP_RIP_IS_VALID = 0
    then q\<lparr>m_tempRIP := GET_REG reg_RIP q, m_stateFlags := m_stateFlags q OR DI_PROC_STATE_TEMP_RIP_IS_VALID\<rparr> else q)"
  define d where "d = q'\<lparr>m_stateFlags := m_stateFlags q' AND NOT DI_PROC_STATE_RIP_CHANGED\<rparr>"
  have "machine p q"
    unfolding q_def run_fire_points_def by (rule fire_loop_machine) (rule act)
  moreover have "machine q q'" by (simp add: q'_def machine_fields machine.R_refl)
  moreover have "machine q' d" unfolding d_def by (rule machine_fields)
  moreover have "machine d (res_state (parse d))" using dec by (simp add: keeps_def)
  moreover have "d = exec_entry q" by (simp add: d_def q'_def exec_entry_def Let_def)
  ultimately have parsed: "machine p (res_state (parse d))" by (blast intro: machine.R_trans)
  show ?thesis
  proof (cases "parse d")
    case (Err e f)
    then show ?thesis
      using run parsed unfolding DianaProcessor_ExecOnce_def q_def [symmetric] Let_def q'_def [symmetric] d_def [symmetric] by auto
  next
    case (Ok u f)
    let ?c = "if isEvex (m_result f) then Some evex else DianaProcessor_OnGroup others (m_commandId (pInfo (m_result f)))"
    have step: "(case ?c of None \<Rightarrow> Some (Err DI_UNSUPPORTED_COMMAND f)
        | Some c \<Rightarrow> map_option (ExecOnce_finish (GET_REG reg_RIP q)) (ExecOnce_call c f)) = Some res"
      using run Ok unfolding DianaProcessor_ExecOnce_def q_def [symmetric] Let_def q'_def [symmetric] d_def [symmetric]
      by (cases ?c) simp_all
    have "d = exec_entry q" by (simp add: d_def q'_def exec_entry_def Let_def)
    then have "keeps machine c" if "?c = Some c" for c
      using that own Ok general_purpose_machine [of "m_commandId (pInfo (m_result f))" c]
      by (auto simp: own_instruction_def DianaProcessor_OnGroup_def q_def Let_def Option.is_none_def split: if_splits option.splits)
    with step have "machine f (res_state res)"
      by (auto split: option.splits intro: machine.R_refl machine.R_trans [OF ExecOnce_call_machine ExecOnce_finish_machine])
    with parsed Ok show ?thesis by (auto intro: machine.R_trans)
  qed
qed

end
