(* ===== verification/Decoder_State.thy ===== *)
theory Decoder_State
  imports Processor_State
begin

unbundle bit_operations_syntax

text \<open>
  The data of the x86 instruction decoder (\<^verbatim>\<open>diana_core.h\<close>, \<^verbatim>\<open>diana_gen.h\<close>): the entries of the instruction table, the table itself, the
  decoder's part of a context, the result under construction, and the sequential streams that deliver code bytes.  The table is
  generated; it is an argument of the decoder.
\<close>

section \<open>Constants\<close>

abbreviation (input) DI_CACHE_RESERVED :: int where "DI_CACHE_RESERVED \<equiv> 2"
abbreviation (input) DI_CACHE_SIZE :: int where "DI_CACHE_SIZE \<equiv> 7"
abbreviation (input) DI_MAX_OPERANDS_COUNT :: nat where "DI_MAX_OPERANDS_COUNT \<equiv> 6"
abbreviation (input) DI_MAX_LINES_COUNT :: nat where "DI_MAX_LINES_COUNT \<equiv> 8"
abbreviation (input) DI_MAX_INSTRUCTION_SIZE :: int where "DI_MAX_INSTRUCTION_SIZE \<equiv> 15"
abbreviation (input) DI_MAX_PREFIXES_COUNT :: nat where "DI_MAX_PREFIXES_COUNT \<equiv> 14"
abbreviation (input) DI_PROXY_BYTES_SIZE :: nat where "DI_PROXY_BYTES_SIZE \<equiv> 32"
abbreviation (input) DI_CHAR_NULL :: u8 where "DI_CHAR_NULL \<equiv> 0xFF"

abbreviation (input) DI_FLAG_CMD_SUPPORTS_IMM64 :: u32 where "DI_FLAG_CMD_SUPPORTS_IMM64 \<equiv> 0x1"
abbreviation (input) DI_FLAG_CMD_AMD_DEFAULT_OPSIZE_64 :: u32 where "DI_FLAG_CMD_AMD_DEFAULT_OPSIZE_64 \<equiv> 0x2"
abbreviation (input) DI_FLAG_CMD_FPU_I :: u32 where "DI_FLAG_CMD_FPU_I \<equiv> 0x8"
abbreviation (input) DI_FLAG_CMD_IGNORE_REX_PREFIX :: u32 where "DI_FLAG_CMD_IGNORE_REX_PREFIX \<equiv> 0x10"
abbreviation (input) DI_FLAG_CMD_I386 :: u32 where "DI_FLAG_CMD_I386 \<equiv> 0x20"
abbreviation (input) DI_FLAG_CMD_AMD64 :: u32 where "DI_FLAG_CMD_AMD64 \<equiv> 0x40"
abbreviation (input) DI_FLAG_CMD_POSTBYTE_USED :: u32 where "DI_FLAG_CMD_POSTBYTE_USED \<equiv> 0x1000"
abbreviation (input) DI_FLAG_CMD_REGISTER_AS_OPCODE :: u32 where "DI_FLAG_CMD_REGISTER_AS_OPCODE \<equiv> 0x2000"
abbreviation (input) DI_FLAG_CMD_HAS32BIT_ANALOG :: u32 where "DI_FLAG_CMD_HAS32BIT_ANALOG \<equiv> 0x4000"
abbreviation (input) DI_FLAG_CMD_IS_TRUE_PREFIX :: u32 where "DI_FLAG_CMD_IS_TRUE_PREFIX \<equiv> 0x8000"
abbreviation (input) DI_FLAG_CMD_TEST_MODE_ONLY :: u32 where "DI_FLAG_CMD_TEST_MODE_ONLY \<equiv> 0x10000"
abbreviation (input) DI_FLAG_CMD_VEX_ENCODED :: u32 where "DI_FLAG_CMD_VEX_ENCODED \<equiv> 0x40000"

abbreviation (input) DIANA_BASE_GEN_OBJECT_THE_SAME_OPCODE :: u16 where "DIANA_BASE_GEN_OBJECT_THE_SAME_OPCODE \<equiv> 0x01"
abbreviation (input) DIANA_BASE_GEN_OBJECT_VEX_W1 :: u16 where "DIANA_BASE_GEN_OBJECT_VEX_W1 \<equiv> 0x08"
abbreviation (input) DIANA_BASE_GEN_OBJECT_PREFIX_NO_66 :: u16 where "DIANA_BASE_GEN_OBJECT_PREFIX_NO_66 \<equiv> 0x10"
abbreviation (input) DIANA_BASE_GEN_OBJECT_PREFIX_NO_F2 :: u16 where "DIANA_BASE_GEN_OBJECT_PREFIX_NO_F2 \<equiv> 0x20"
abbreviation (input) DIANA_BASE_GEN_OBJECT_PREFIX_NO_F3 :: u16 where "DIANA_BASE_GEN_OBJECT_PREFIX_NO_F3 \<equiv> 0x40"
abbreviation (input) DIANA_BASE_GEN_OBJECT_VEX_W0 :: u16 where "DIANA_BASE_GEN_OBJECT_VEX_W0 \<equiv> 0x80"
abbreviation (input) DIANA_BASE_GEN_OBJECT_EVEX :: u16 where "DIANA_BASE_GEN_OBJECT_EVEX \<equiv> 0x100"

abbreviation (input) DI_VEX_PREFIX_PRESENT :: u8 where "DI_VEX_PREFIX_PRESENT \<equiv> 1"
abbreviation (input) DI_VEX_PREFIX_W :: u8 where "DI_VEX_PREFIX_W \<equiv> 2"
abbreviation (input) DI_EVEX_PREFIX_PRESENT :: u8 where "DI_EVEX_PREFIX_PRESENT \<equiv> 1"
abbreviation (input) DI_EVEX_PREFIX_R1 :: u8 where "DI_EVEX_PREFIX_R1 \<equiv> 2"
abbreviation (input) DI_EVEX_PREFIX_V1 :: u8 where "DI_EVEX_PREFIX_V1 \<equiv> 4"
abbreviation (input) DI_EVEX_PREFIX_X :: u8 where "DI_EVEX_PREFIX_X \<equiv> 8"
abbreviation (input) DI_EVEX_PREFIX_B :: u8 where "DI_EVEX_PREFIX_B \<equiv> 16"
abbreviation (input) DI_EVEX_PREFIX_Z :: u8 where "DI_EVEX_PREFIX_Z \<equiv> 32"

abbreviation (input) DIANA_HAS_ADDRESS_SIZE_PREFIX :: u8 where "DIANA_HAS_ADDRESS_SIZE_PREFIX \<equiv> 1"
abbreviation (input) DIANA_HAS_OPERAND_SIZE_PREFIX :: u8 where "DIANA_HAS_OPERAND_SIZE_PREFIX \<equiv> 2"
abbreviation (input) DIANA_INVALID_STATE :: u8 where "DIANA_INVALID_STATE \<equiv> 4"

text \<open>The second operand of the VEX encoding: 0 none, 1 NDS, 2 NDD, 3 DDS.\<close>

definition DI_VEX_GET_NDS :: "u32 \<Rightarrow> u32" where
  "DI_VEX_GET_NDS flags = drop_bit 25 flags AND 3"

section \<open>The instruction table\<close>

datatype DianaOperands_type =
    diana_orNone | diana_orRegMem | diana_orRegistry | diana_orMemory | diana_orSreg | diana_orImmediate
  | diana_orOffset | diana_orEAX | diana_orRel | diana_orRel16x32 | diana_orMemory16x32
  | diana_orPtr | diana_orDX | diana_orCL | diana_orAnyCR | diana_orDR6or7 | diana_orTR6or7
  | diana_orECX | diana_orEsDi | diana_orESI_ptr
  | diana_orRegMMX | diana_orRegXMM | diana_orMemoryXMM | diana_orMemoryMMX | diana_orRegistry32
  | diana_orReg32mem16 | diana_orFPU_ST | diana_orFPU_ST0 | diana_orFPU_STi
  | diana_orReg16_32_64_mem16 | diana_orRegMem_exact | diana_orMemory_exact
  | diana_orRegYMM | diana_orMemoryYMM | diana_orMemOnly | diana_orXMM0 | diana_orRegIs4 | diana_orVSIB
  | diana_orRegZMM | diana_orMemoryZMM | diana_orRegK | diana_orMemoryK

text \<open>\<open>m_sreg_type\<close>: 0 is \<^verbatim>\<open>diana_reg_none\<close>, then ES, CS, SS, DS, FS, GS.\<close>

record DianaOperandInfo =
  m_type :: DianaOperands_type
  m_op_size :: u8
  m_size2 :: u8
  m_op_value :: u8
  m_sreg_type :: nat

text \<open>The function pointer of a prefix.\<close>

datatype Diana_PrefixFnc =
    fnc_Nope | fnc_Normal | fnc_Rex | fnc_Lock | fnc_Rep | fnc_Repn | fnc_CS | fnc_SS | fnc_DS | fnc_ES | fnc_FS | fnc_GS
  | fnc_OpSize | fnc_AddrSize

text \<open>
  An entry of the table: the fields that the emulator uses too (flags and command), then the ones of the decoder.  The operand count is
  the length of the list; \<open>m_evex\<close> are the attributes that stand before an EVEX entry.
\<close>

record DianaCmdEntry = DianaCmdInfo +
  m_gen_flags :: u16
  m_extension :: u8
  m_extension_mask :: u8
  m_extension_deny_mask :: u8
  m_iCSIPExtensionSizeInBytes :: u8
  m_iImmediateOperandSizeInBytes :: u8
  m_iImmediateOperandSizeInBytes2 :: u8
  m_linkedPrefixFnc :: Diana_PrefixFnc
  m_operands :: "DianaOperandInfo list"
  m_evex :: u32

text \<open>
  A line searches its keys one after the other, an index has one key for every byte.  The flags of a line or index say whether it
  belongs to the byte that led to it.
\<close>

datatype DianaGenObject =
    GenCmd DianaCmdEntry
  | GenLine (gen_flags: u16) "(u8 \<times> DianaGenObject option) list"
  | GenIndex (gen_flags: u16) "u8 \<Rightarrow> DianaGenObject option"

section \<open>The decoder's state\<close>

record DianaPrefixInfo =
  linkedPrefixFnc :: Diana_PrefixFnc
  prefix_byte :: u8

text \<open>
  The context with the fields that only the decoder uses.  The cache is the array of \<^verbatim>\<open>DI_CACHE_SIZE\<close> bytes; \<open>prefixes\<close> are the used elements of
  the prefix array, and the index \<^verbatim>\<open>DI_FULL_CHAR_NULL\<close> is \<open>None\<close>.
\<close>

record DecoderContext = DianaContext +
  ctx_iPrefix :: int
  iSizePrefixes :: u8
  iRexPrefixValue :: u8
  cache :: "u8 list"
  lastPrefixBeforeRex :: "nat option"
  prefixes :: "DianaPrefixInfo list"
  testMode :: bool
  iVexPrefix :: u8
  iVexVVVV :: u8
  iArch :: int
  iEvexPrefix :: u8
  iEvexAAA :: u8
  iEvexLL :: u8

record DecoderOperand = DianaLinkedOperand +
  op_info :: DianaOperandInfo

record DianaEvexInfo =
  evex_isEvex :: bool
  evex_mask :: u8
  evex_zeroing :: bool
  evex_broadcast :: int
  evex_rounding :: u8
  evex_vectorSize :: int
  evex_disp8Scale :: int

text \<open>The linked operands are the first \<^verbatim>\<open>iLinkedOpCount\<close> elements of the array, the bytes its first \<^verbatim>\<open>bytesCount\<close>.\<close>

record DecoderResult =
  d_pInfo :: "DianaCmdEntry option"
  d_operands :: "DecoderOperand list"
  d_iPrefix :: int
  d_iRexPrefix :: u8
  d_iFullCmdSize :: int
  d_bytes :: "u8 list"
  d_iOperandSize :: int
  d_evex :: DianaEvexInfo

text \<open>
  A sequential stream: the read function gives at most as many bytes as asked for; their number is the length of the list, and a failing read
  delivers none.
\<close>

type_synonym 's DianaRead_fnc = "int \<Rightarrow> (u8 list, 's) di_prog"

text \<open>
  What a parse works on: the context, the result, the stream with its read function, and the proxy of
  \<^verbatim>\<open>diana_stream_proxy.c\<close> that gives the operand linker the rest of the cache first (\<open>proxy_begin\<close> is the position in the cache).
\<close>

record 's Decoder =
  d_ctx :: DecoderContext
  d_res :: DecoderResult
  d_stream :: 's
  d_readFnc :: "'s DianaRead_fnc"
  proxy_begin :: int
  proxy_tail_size :: int

type_synonym ('a, 's) dec = "('a, 's Decoder) di_prog"

definition upd_ctx :: "(DecoderContext \<Rightarrow> DecoderContext) \<Rightarrow> 's Decoder \<Rightarrow> 's Decoder" where
  "upd_ctx f d = d\<lparr>d_ctx := f (d_ctx d)\<rparr>"

definition upd_res :: "(DecoderResult \<Rightarrow> DecoderResult) \<Rightarrow> 's Decoder \<Rightarrow> 's Decoder" where
  "upd_res f d = d\<lparr>d_res := f (d_res d)\<rparr>"

lemma upd_simps [simp]:
  "d_ctx (upd_ctx f d) = f (d_ctx d)" "d_res (upd_ctx f d) = d_res d" "d_stream (upd_ctx f d) = d_stream d"
  "d_readFnc (upd_ctx f d) = d_readFnc d" "proxy_begin (upd_ctx f d) = proxy_begin d" "proxy_tail_size (upd_ctx f d) = proxy_tail_size d"
  "d_res (upd_res g d) = g (d_res d)" "d_ctx (upd_res g d) = d_ctx d" "d_stream (upd_res g d) = d_stream d"
  "d_readFnc (upd_res g d) = d_readFnc d" "proxy_begin (upd_res g d) = proxy_begin d" "proxy_tail_size (upd_res g d) = proxy_tail_size d"
  by (simp_all add: upd_ctx_def upd_res_def)

abbreviation amd64 :: "'s Decoder \<Rightarrow> bool" where
  "amd64 d \<equiv> iAMD64Mode (d_ctx d) \<noteq> 0"

end
