(* ===== verification/Decoder_Cache.thy ===== *)
theory Decoder_Cache
  imports Decoder_State
begin

unbundle bit_operations_syntax

text \<open>
  Where the decoder's bytes come from (\<^verbatim>\<open>diana_core.c\<close>, \<^verbatim>\<open>diana_stream_proxy.c\<close>, the end of \<^verbatim>\<open>diana_core_utils.c\<close>): the stream that records what it
  delivered, the cache of seven bytes that the table search looks at, and the proxy that gives the operand linker the rest of the cache and then the
  stream.  An access outside the cache is \<open>C_UNDEFINED\<close>.
\<close>

section \<open>Reading the stream\<close>

text \<open>A stream that delivers more than its caller has room for overruns the buffer.\<close>

definition read_stream :: "int \<Rightarrow> (u8 list, 's) dec" where
  "read_stream n d =
     (case d_readFnc d n (d_stream d) of
        Err e s \<Rightarrow> Err e (d\<lparr>d_stream := s\<rparr>)
      | Ok bs s \<Rightarrow> if int (length bs) > n then Err C_UNDEFINED (d\<lparr>d_stream := s\<rparr>) else Ok bs (d\<lparr>d_stream := s\<rparr>))"

text \<open>The recording stream of \<^verbatim>\<open>Diana_ParseCmd\<close>.\<close>

record 's DianaProxyReadStream =
  m_pOriginalStream :: 's
  m_iReadSize :: int
  m_lastBytes :: "u8 list"

definition DianaProxyReadStream_AddBytes :: "u8 list \<Rightarrow> 's DianaProxyReadStream \<Rightarrow> 's DianaProxyReadStream" where
  "DianaProxyReadStream_AddBytes bs p =
     (if length (m_lastBytes p) + length bs \<ge> DI_PROXY_BYTES_SIZE then p else p\<lparr>m_lastBytes := m_lastBytes p @ bs\<rparr>)"

definition ProxyDianaReadFnc :: "'s DianaRead_fnc \<Rightarrow> 's DianaProxyReadStream DianaRead_fnc" where
  "ProxyDianaReadFnc rd n p =
     (case rd n (m_pOriginalStream p) of
        Err e s \<Rightarrow> Err e (p\<lparr>m_pOriginalStream := s\<rparr>)
      | Ok bs s \<Rightarrow>
          let p = DianaProxyReadStream_AddBytes bs (p\<lparr>m_pOriginalStream := s\<rparr>)
          in Ok bs (p\<lparr>m_iReadSize := m_iReadSize p + int (length bs)\<rparr>))"

definition DianaExactRead :: "'s DianaRead_fnc \<Rightarrow> int \<Rightarrow> (u8 list, 's) di_prog" where
  "DianaExactRead rd n = DI_CHECK (rd n) (\<lambda>bs. if int (length bs) \<noteq> n then DI_FAIL DI_END_OF_STREAM else DI_RETURN bs)"

abbreviation (input) DI_MAX_INT :: u64 where "DI_MAX_INT \<equiv> 0x7FFFFFFF"

definition DianaExactReadSafe :: "'s DianaRead_fnc \<Rightarrow> u64 \<Rightarrow> (u8 list, 's) di_prog" where
  "DianaExactReadSafe rd n = (if n > DI_MAX_INT then DI_FAIL DI_OVERFLOW else DianaExactRead rd (uint n))"

section \<open>The cache\<close>

definition write_cache :: "int \<Rightarrow> u8 list \<Rightarrow> (unit, 's) dec" where
  "write_cache off bs =
     DI_LET (\<lambda>d. int (length (cache (d_ctx d)))) (\<lambda>len.
     if off < 0 \<or> off + int (length bs) > len then DI_FAIL C_UNDEFINED
     else DI_DO (upd_ctx (\<lambda>c. c\<lparr>cache := take (nat off) (cache c) @ bs @ drop (nat off + length bs) (cache c)\<rparr>)) DI_PROC_END)"

definition read_cache :: "int \<Rightarrow> (u8, 's) dec" where
  "read_cache off =
     DI_LET (\<lambda>d. cache (d_ctx d)) (\<lambda>bs.
     if off < 0 \<or> off \<ge> int (length bs) then DI_FAIL C_UNDEFINED else DI_RETURN (bs ! nat off))"

text \<open>Reading from the stream straight into the cache; the result is the number of bytes delivered.\<close>

definition read_to_cache :: "int \<Rightarrow> int \<Rightarrow> (int, 's) dec" where
  "read_to_cache off n =
     DI_CHECK (read_stream n) (\<lambda>bs.
     DI_CHECK (write_cache off bs) (\<lambda>_.
     DI_RETURN (int (length bs))))"

text \<open>\<^verbatim>\<open>memmove(cache + dst, cache + src, n)\<close>\<close>

definition move_cache :: "int \<Rightarrow> int \<Rightarrow> int \<Rightarrow> (unit, 's) dec" where
  "move_cache dst src n =
     DI_LET (\<lambda>d. cache (d_ctx d)) (\<lambda>bs.
     if n < 0 \<or> src < 0 \<or> src + n > int (length bs) then DI_FAIL C_UNDEFINED
     else write_cache dst (take (nat n) (drop (nat src) bs)))"

definition Diana_CacheEatOne :: "(u8, 's) dec" where
  "Diana_CacheEatOne =
     DI_LET (\<lambda>d. cacheIt (d_ctx d)) (\<lambda>it.
     DI_CHECK (read_cache it) (\<lambda>data.
     DI_DO (upd_ctx (\<lambda>c. c\<lparr>cacheIt := cacheIt c + 1, cacheSize := cacheSize c - 1\<rparr>))
     (DI_RETURN data)))"

definition Diana_CacheEatOneSafe :: "DecoderContext \<Rightarrow> DecoderContext" where
  "Diana_CacheEatOneSafe c =
     (if cacheSize c = 0 \<or> cacheIt c \<ge> DI_CACHE_SIZE then c else c\<lparr>cacheIt := cacheIt c + 1, cacheSize := cacheSize c - 1\<rparr>)"

text \<open>The end of the stream is no failure as long as the cache holds something.\<close>

definition Diana_ReadCache :: "bool \<Rightarrow> (unit, 's) dec" where
  "Diana_ReadCache bOptimize =
     DI_LET (\<lambda>d. (cacheIt (d_ctx d), cacheSize (d_ctx d))) (\<lambda>(it, sz).
     DI_CHECK (if bOptimize
       then DI_CHECK (move_cache DI_CACHE_RESERVED it sz) (\<lambda>_. DI_DO (upd_ctx (\<lambda>c. c\<lparr>cacheIt := DI_CACHE_RESERVED\<rparr>)) DI_PROC_END)
       else DI_PROC_END) (\<lambda>_.
     DI_DO (upd_ctx (\<lambda>c. if cacheIt c \<ge> DI_CACHE_SIZE then c\<lparr>cacheIt := DI_CACHE_RESERVED\<rparr> else c)) (
     DI_CHECK (\<lambda>d.
       if cacheIt (d_ctx d) + cacheSize (d_ctx d) < DI_CACHE_SIZE then
         (case read_to_cache (cacheIt (d_ctx d) + cacheSize (d_ctx d)) (DI_CACHE_SIZE - cacheSize (d_ctx d) - cacheIt (d_ctx d)) d of
            Ok n d \<Rightarrow> Ok () (upd_ctx (\<lambda>c. c\<lparr>cacheSize := cacheSize c + n\<rparr>) d)
          | Err e d \<Rightarrow> if e = DI_END then Ok () d else Err e d)
       else Ok () d) (\<lambda>_.
     DI_LET (\<lambda>d. cacheSize (d_ctx d)) (\<lambda>sz.
     if sz = 0 then DI_FAIL DI_END else DI_PROC_END)))))"

section \<open>The proxy of the operand linker\<close>

definition Diana_InitStreamProxy :: "int \<Rightarrow> int \<Rightarrow> 's Decoder \<Rightarrow> 's Decoder" where
  "Diana_InitStreamProxy it n d = d\<lparr>proxy_begin := it, proxy_tail_size := n\<rparr>"

definition cache_bytes :: "int \<Rightarrow> int \<Rightarrow> (u8 list, 's) dec" where
  "cache_bytes off n =
     DI_LET (\<lambda>d. cache (d_ctx d)) (\<lambda>bs.
     if off < 0 \<or> n < 0 \<or> off + n > int (length bs) then DI_FAIL C_UNDEFINED else DI_RETURN (take (nat n) (drop (nat off) bs)))"

text \<open>When the rest of the cache is too short, the stream gives what is missing; the tail is used up even when the stream fails.\<close>

definition StreamProxy_Read :: "int \<Rightarrow> (u8 list, 's) dec" where
  "StreamProxy_Read n =
     DI_LET (\<lambda>d. (proxy_begin d, proxy_tail_size d)) (\<lambda>(begin, tail).
     if tail \<noteq> 0 then
       if tail \<ge> n then
         DI_CHECK (cache_bytes begin n) (\<lambda>bs.
         DI_DO (\<lambda>d. d\<lparr>proxy_tail_size := tail - n, proxy_begin := begin + n\<rparr>)
         (DI_RETURN bs))
       else
         DI_CHECK (cache_bytes begin tail) (\<lambda>first.
         (\<lambda>d. case read_stream (n - tail) d of
            Ok bs d \<Rightarrow> Ok (first @ bs) (d\<lparr>proxy_tail_size := 0\<rparr>)
          | Err e d \<Rightarrow> Err e (d\<lparr>proxy_tail_size := 0\<rparr>)))
     else read_stream n)"

text \<open>An exact number of bytes, with the code for a short delivery.\<close>

definition read_exactly :: "di_error \<Rightarrow> int \<Rightarrow> (u8 list, 's) dec" where
  "read_exactly e n = DI_CHECK (StreamProxy_Read n) (\<lambda>bs. if int (length bs) \<noteq> n then DI_FAIL e else DI_RETURN bs)"

definition sign_fill :: "nat \<Rightarrow> u64 \<Rightarrow> u64" where
  "sign_fill n v = (if v AND push_bit (8 * n - 1) 1 \<noteq> 0 then v - 1 - mask (8 * n) else v)"

definition DianaReadValueAsLong :: "int \<Rightarrow> bool \<Rightarrow> (u64, 's) dec" where
  "DianaReadValueAsLong iValueSize iSigned =
     (if iValueSize \<noteq> 1 \<and> iValueSize \<noteq> 2 \<and> iValueSize \<noteq> 4 \<and> iValueSize \<noteq> 8 then DI_FAIL DI_ERROR
      else DI_CHECK (read_exactly DI_ERROR iValueSize) (\<lambda>bs.
        let v = le_word bs in DI_RETURN (if iSigned then sign_fill (nat iValueSize) v else v)))"

end
