(* ===== verification/Decoder_Prefix.thy ===== *)
theory Decoder_Prefix
  imports Decoder_Cache
begin

unbundle bit_operations_syntax

text \<open>
  Prefixes (\<^verbatim>\<open>diana_core_utils.c\<close>, \<^verbatim>\<open>diana_core_parsers.c\<close>): what each legacy prefix does to the context, the list of the prefixes seen, and the VEX and EVEX
  prefixes, which the decoder replaces in the cache by a virtual two byte prefix that the table knows.
\<close>

section \<open>Legacy prefixes\<close>

definition DI_REX_HAS_FLAG_W :: "u8 \<Rightarrow> bool" where "DI_REX_HAS_FLAG_W x \<longleftrightarrow> x AND 8 \<noteq> 0"
definition DI_REX_HAS_FLAG_R :: "u8 \<Rightarrow> bool" where "DI_REX_HAS_FLAG_R x \<longleftrightarrow> x AND 4 \<noteq> 0"
definition DI_REX_HAS_FLAG_X :: "u8 \<Rightarrow> bool" where "DI_REX_HAS_FLAG_X x \<longleftrightarrow> x AND 2 \<noteq> 0"
definition DI_REX_HAS_FLAG_B :: "u8 \<Rightarrow> bool" where "DI_REX_HAS_FLAG_B x \<longleftrightarrow> x AND 1 \<noteq> 0"

definition Diana_Normal :: "DecoderContext \<Rightarrow> DecoderContext" where
  "Diana_Normal c = c\<lparr>lastPrefixBeforeRex := None, prefixes := [], iCurrentCmd_opsize := iMainMode_opsize c, currentCmd_sreg := mainMode_sreg c,
     iCurrentCmd_addressSize := iMainMode_addressSize c, ctx_iPrefix := 0, iSizePrefixes := 0, iRexPrefix := 0, iRexPrefixValue := 0\<rparr>"

definition Diana_ResetPrefixes :: "DecoderContext \<Rightarrow> DecoderContext" where
  "Diana_ResetPrefixes c = Diana_Normal c"

definition Diana_Lock :: "DecoderContext \<Rightarrow> DecoderContext" where
  "Diana_Lock c = c\<lparr>ctx_iPrefix := DI_PREFIX_LOCK, iRexPrefix := 0\<rparr>"

definition Diana_Rep :: "DecoderContext \<Rightarrow> DecoderContext" where
  "Diana_Rep c = c\<lparr>ctx_iPrefix := DI_PREFIX_REP, iRexPrefix := 0\<rparr>"

definition Diana_Repn :: "DecoderContext \<Rightarrow> DecoderContext" where
  "Diana_Repn c = c\<lparr>ctx_iPrefix := DI_PREFIX_REPN, iRexPrefix := 0\<rparr>"

text \<open>In 64-bit mode CS, SS, DS and ES do not replace an earlier FS or GS.\<close>

definition weak_segment :: "DianaUnifiedRegister \<Rightarrow> DecoderContext \<Rightarrow> DecoderContext" where
  "weak_segment s c =
     (let c' = (if iAMD64Mode c = 0 \<or> (currentCmd_sreg c \<noteq> reg_FS \<and> currentCmd_sreg c \<noteq> reg_GS) then c\<lparr>currentCmd_sreg := s\<rparr> else c)
      in c'\<lparr>iRexPrefix := 0\<rparr>)"

definition Diana_CS :: "DecoderContext \<Rightarrow> DecoderContext" where "Diana_CS = weak_segment reg_CS"
definition Diana_SS :: "DecoderContext \<Rightarrow> DecoderContext" where "Diana_SS = weak_segment reg_SS"
definition Diana_DS :: "DecoderContext \<Rightarrow> DecoderContext" where "Diana_DS = weak_segment reg_DS"
definition Diana_ES :: "DecoderContext \<Rightarrow> DecoderContext" where "Diana_ES = weak_segment reg_ES"

definition Diana_FS :: "DecoderContext \<Rightarrow> DecoderContext" where
  "Diana_FS c = c\<lparr>currentCmd_sreg := reg_FS, iRexPrefix := 0\<rparr>"

definition Diana_GS :: "DecoderContext \<Rightarrow> DecoderContext" where
  "Diana_GS c = c\<lparr>currentCmd_sreg := reg_GS, iRexPrefix := 0\<rparr>"

definition Diana_OpSize :: "DecoderContext \<Rightarrow> DecoderContext" where
  "Diana_OpSize c =
     (let c = c\<lparr>iRexPrefix := 0\<rparr> in
      if iSizePrefixes c AND DIANA_HAS_OPERAND_SIZE_PREFIX \<noteq> 0 then c
      else
        let c = c\<lparr>iSizePrefixes := iSizePrefixes c OR DIANA_HAS_OPERAND_SIZE_PREFIX\<rparr> in
        if iCurrentCmd_opsize c = 8 then c\<lparr>iSizePrefixes := iSizePrefixes c OR DIANA_INVALID_STATE\<rparr>
        else c\<lparr>iCurrentCmd_opsize := 6 - iMainMode_opsize c\<rparr>)"

definition Diana_AddrSize :: "DecoderContext \<Rightarrow> DecoderContext" where
  "Diana_AddrSize c =
     (let c = c\<lparr>iRexPrefix := 0\<rparr> in
      if iSizePrefixes c AND DIANA_HAS_ADDRESS_SIZE_PREFIX \<noteq> 0 then c
      else
        let c = c\<lparr>iSizePrefixes := iSizePrefixes c OR DIANA_HAS_ADDRESS_SIZE_PREFIX\<rparr> in
        if iCurrentCmd_addressSize c = 8 then c\<lparr>iCurrentCmd_addressSize := 4\<rparr>
        else c\<lparr>iCurrentCmd_addressSize := 6 - iMainMode_addressSize c\<rparr>)"

definition Diana_Rex :: "DecoderContext \<Rightarrow> DecoderContext" where
  "Diana_Rex c =
     (let c = c\<lparr>iRexPrefix := iRexPrefixValue c\<rparr> in
      if DI_REX_HAS_FLAG_W (iRexPrefix c) then c\<lparr>iCurrentCmd_opsize := 8\<rparr> else c)"

text \<open>The call through the function pointer; \<^verbatim>\<open>Diana_Nope\<close> only breaks into a debugger.\<close>

fun run_prefix :: "Diana_PrefixFnc \<Rightarrow> DecoderContext \<Rightarrow> DecoderContext" where
  "run_prefix fnc_Nope c = c"
| "run_prefix fnc_Normal c = Diana_Normal c"
| "run_prefix fnc_Rex c = Diana_Rex c"
| "run_prefix fnc_Lock c = Diana_Lock c"
| "run_prefix fnc_Rep c = Diana_Rep c"
| "run_prefix fnc_Repn c = Diana_Repn c"
| "run_prefix fnc_CS c = Diana_CS c"
| "run_prefix fnc_SS c = Diana_SS c"
| "run_prefix fnc_DS c = Diana_DS c"
| "run_prefix fnc_ES c = Diana_ES c"
| "run_prefix fnc_FS c = Diana_FS c"
| "run_prefix fnc_GS c = Diana_GS c"
| "run_prefix fnc_OpSize c = Diana_OpSize c"
| "run_prefix fnc_AddrSize c = Diana_AddrSize c"

text \<open>The static entries that \<^verbatim>\<open>Diana_InitUtils\<close> fills, one per prefix.\<close>

definition prefix_entry :: "Diana_PrefixFnc \<Rightarrow> DianaCmdEntry" where
  "prefix_entry f = \<lparr>m_cmd_flags = DI_FLAG_CMD_IS_TRUE_PREFIX, m_commandId = [], m_gen_flags = 0, m_extension = 0, m_extension_mask = 0,
     m_extension_deny_mask = 0, m_iCSIPExtensionSizeInBytes = 0, m_iImmediateOperandSizeInBytes = 0, m_iImmediateOperandSizeInBytes2 = 0,
     m_linkedPrefixFnc = f, m_operands = [], m_evex = 0\<rparr>"

text \<open>The first result is whether a following nop is kept apart, the second the entry of the prefix.\<close>

definition Di_ProcessCustomPrefix :: "u8 \<Rightarrow> bool \<times> DianaCmdEntry option" where
  "Di_ProcessCustomPrefix v =
     (if v = 0xF3 then (True, Some (prefix_entry fnc_Rep))
      else if v = 0xF2 then (True, Some (prefix_entry fnc_Repn))
      else if v = 0xF0 then (True, Some (prefix_entry fnc_Lock))
      else if v = 0x2E then (True, Some (prefix_entry fnc_CS))
      else if v = 0x36 then (True, Some (prefix_entry fnc_SS))
      else if v = 0x3E then (True, Some (prefix_entry fnc_DS))
      else if v = 0x26 then (True, Some (prefix_entry fnc_ES))
      else if v = 0x64 then (True, Some (prefix_entry fnc_FS))
      else if v = 0x65 then (True, Some (prefix_entry fnc_GS))
      else if v = 0x66 then (False, Some (prefix_entry fnc_OpSize))
      else if v = 0x67 then (False, Some (prefix_entry fnc_AddrSize))
      else (True, None))"

definition is_rex :: "u8 \<Rightarrow> bool" where
  "is_rex v \<longleftrightarrow> 0x40 \<le> v \<and> v \<le> 0x4F"

definition Di_ProcessRexPrefix :: "u8 \<Rightarrow> (bool, 's) dec" where
  "Di_ProcessRexPrefix v d =
     (if amd64 d \<and> is_rex v
      then Ok True (upd_res (\<lambda>r. r\<lparr>d_pInfo := Some (prefix_entry fnc_Rex)\<rparr>) (upd_ctx (\<lambda>c. c\<lparr>iRexPrefixValue := v\<rparr>) d))
      else Ok False d)"

text \<open>A repeated prefix moves to the end.\<close>

fun prefix_position :: "u8 \<Rightarrow> DianaPrefixInfo list \<Rightarrow> nat option" where
  "prefix_position v [] = None"
| "prefix_position v (x # xs) = (if prefix_byte x = v then Some 0 else map_option Suc (prefix_position v xs))"

definition drop_prefix :: "u8 \<Rightarrow> DecoderContext \<Rightarrow> DecoderContext" where
  "drop_prefix v c =
     (case prefix_position v (prefixes c) of
        None \<Rightarrow> c
      | Some i \<Rightarrow>
          let ps = take i (prefixes c) @ drop (Suc i) (prefixes c) in
          c\<lparr>prefixes := ps,
            lastPrefixBeforeRex := (case lastPrefixBeforeRex c of
                None \<Rightarrow> None
              | Some l \<Rightarrow> if l \<ge> length ps then (if length ps > 0 then Some (length ps - 1) else None) else Some l)\<rparr>)"

definition Diana_InsertPrefix :: "u8 \<Rightarrow> Diana_PrefixFnc \<Rightarrow> bool \<Rightarrow> (unit, 's) dec" where
  "Diana_InsertPrefix v fnc isRex =
     DI_LET (\<lambda>d. length (prefixes (d_ctx d))) (\<lambda>count.
     if count \<ge> DI_MAX_PREFIXES_COUNT then DI_FAIL DI_ERROR
     else
     DI_DO (upd_ctx (drop_prefix v)) (
     DI_DO (upd_ctx (\<lambda>c. c\<lparr>prefixes := prefixes c @ [\<lparr>linkedPrefixFnc = fnc, prefix_byte = v\<rparr>],
        lastPrefixBeforeRex := (if isRex then lastPrefixBeforeRex c else Some (length (prefixes c)))\<rparr>))
     DI_PROC_END))"

text \<open>Every prefix acts, in order, but the excluded one.\<close>

fun apply_from :: "nat option \<Rightarrow> nat \<Rightarrow> DianaPrefixInfo list \<Rightarrow> DecoderContext \<Rightarrow> DecoderContext" where
  "apply_from ex i [] c = c"
| "apply_from ex i (x # xs) c = apply_from ex (Suc i) xs (if ex = Some i then c else run_prefix (linkedPrefixFnc x) c)"

definition ApplyPrefixes :: "nat option \<Rightarrow> DecoderContext \<Rightarrow> DecoderContext" where
  "ApplyPrefixes iToExclude c = apply_from iToExclude 0 (prefixes c) c"

section \<open>VEX and EVEX\<close>

definition IsVEXPrefix :: "u8 \<Rightarrow> bool" where
  "IsVEXPrefix data \<longleftrightarrow> data = 0xC4 \<or> data = 0xC5"

text \<open>
  Reading into the cache until it holds \<open>want\<close> bytes from \<open>it\<close> on, \<open>k\<close> rounds at most; the result is the number of bytes there.  Every round that
  does not end the loop delivers a byte, so \<open>want\<close> rounds are enough.
\<close>

fun fill_cache :: "nat \<Rightarrow> int \<Rightarrow> int \<Rightarrow> int \<Rightarrow> int \<Rightarrow> (int, 's) dec" where
  "fill_cache 0 want limit it sz = DI_RETURN sz"
| "fill_cache (Suc k) want limit it sz =
     (if sz < want \<and> it + sz < limit then
        DI_CHECK (read_to_cache (it + sz) (want - sz)) (\<lambda>n.
        if n = 0 then DI_RETURN sz else fill_cache k want limit it (sz + n))
      else DI_RETURN sz)"

definition word_bit :: "bool \<Rightarrow> nat \<Rightarrow> u8" where
  "word_bit b n = (if b then push_bit n 1 else 0)"

text \<open>The common end of both prefixes: the rest of the cache behind the virtual prefix, and the cache topped up.\<close>

definition virtual_prefix :: "u8 \<Rightarrow> u8 \<Rightarrow> int \<Rightarrow> int \<Rightarrow> (unit, 's) dec" where
  "virtual_prefix byte0 selectorByte it sz =
     DI_CHECK (move_cache DI_CACHE_RESERVED it sz) (\<lambda>_.
     DI_CHECK (write_cache 0 [byte0, selectorByte]) (\<lambda>_.
     DI_DO (upd_ctx (\<lambda>c. c\<lparr>cacheIt := 0, cacheSize := sz + DI_CACHE_RESERVED\<rparr>))
     (\<lambda>d. if sz + DI_CACHE_RESERVED < DI_CACHE_SIZE then
         (case read_to_cache (sz + DI_CACHE_RESERVED) (DI_CACHE_SIZE - (sz + DI_CACHE_RESERVED)) d of
            Ok n d \<Rightarrow> Ok () (upd_ctx (\<lambda>c. c\<lparr>cacheSize := cacheSize c + n\<rparr>) d)
          | Err e d \<Rightarrow> if e = C_UNDEFINED then Err e d else Ok () d)
       else Ok () d)))"

definition set_cacheSize :: "int \<Rightarrow> 's Decoder \<Rightarrow> 's Decoder" where
  "set_cacheSize n = upd_ctx (\<lambda>c. c\<lparr>cacheSize := n\<rparr>)"

text \<open>
  The fields of a VEX prefix, once its bytes are there: the inverted R, X, B (\<open>r\<close>, \<open>x\<close>, \<open>b\<close> are already un-inverted), W, the byte with vvvv, L and pp, the opcode map, and the rest of
  the cache.
\<close>

definition finish_vex :: "bool \<Rightarrow> bool \<Rightarrow> bool \<Rightarrow> bool \<Rightarrow> u8 \<Rightarrow> u8 \<Rightarrow> int \<Rightarrow> int \<Rightarrow> (bool, 's) dec" where
  "finish_vex r x b w vb map_sel it sz =
     DI_DO (upd_ctx (\<lambda>c.
       let long = iAMD64Mode c \<noteq> 0;
           c = c\<lparr>iVexVVVV := drop_bit 3 (NOT vb) AND 0xF, iVexPrefix := DI_VEX_PREFIX_PRESENT OR (if w then DI_VEX_PREFIX_W else 0)\<rparr>;
           c = c\<lparr>iRexPrefix := 0x40 OR word_bit (long \<and> w) 3 OR word_bit (long \<and> r) 2 OR word_bit (long \<and> x) 1 OR word_bit (long \<and> b) 0\<rparr>
       in if long \<and> w then c\<lparr>iCurrentCmd_opsize := 8\<rparr> else c)) (
     DI_CHECK (virtual_prefix 0xC5 (push_bit 3 (vb AND 3) OR push_bit 1 map_sel OR word_bit (bit vb 2) 0) it sz) (\<lambda>_.
     DI_RETURN True))"

definition Di_ProcessVexPrefix2 :: "(bool, 's) dec" where
  "Di_ProcessVexPrefix2 =
     DI_LET (\<lambda>d. (cacheIt (d_ctx d), cacheSize (d_ctx d), amd64 d)) (\<lambda>(it, sz, long).
     DI_CHECK (if sz < 1 then DI_CHECK (read_to_cache (it + sz) 1) (\<lambda>n. DI_RETURN (sz + n)) else DI_RETURN sz) (\<lambda>sz.
     if sz < 1 then DI_FAIL DI_END_OF_STREAM
     else
     DI_CHECK (read_cache it) (\<lambda>b2.
     if \<not> long \<and> b2 AND 0xC0 \<noteq> 0xC0 then DI_DO (set_cacheSize sz) (DI_RETURN False)
     else finish_vex (\<not> bit b2 7) False False False b2 0 (it + 1) (sz - 1))))"

definition Di_ProcessVexPrefix3 :: "(bool, 's) dec" where
  "Di_ProcessVexPrefix3 =
     DI_LET (\<lambda>d. (cacheIt (d_ctx d), cacheSize (d_ctx d), amd64 d)) (\<lambda>(it, sz, long).
     DI_CHECK (fill_cache 2 2 (it + 2) it sz) (\<lambda>sz.
     if sz < 2 then DI_DO (set_cacheSize sz) (if long then DI_FAIL DI_END_OF_STREAM else DI_RETURN False)
     else
     DI_CHECK (read_cache it) (\<lambda>b2.
     DI_CHECK (read_cache (it + 1)) (\<lambda>b3.
     if \<not> long \<and> b2 AND 0xC0 \<noteq> 0xC0 then DI_DO (set_cacheSize sz) (DI_RETURN False)
     else if b2 AND 0x1F \<noteq> 1 \<and> b2 AND 0x1F \<noteq> 2 \<and> b2 AND 0x1F \<noteq> 3 then DI_DO (set_cacheSize sz) (DI_FAIL DI_ERROR)
     else finish_vex (\<not> bit b2 7) (\<not> bit b2 6) (\<not> bit b2 5) (bit b3 7) b3 (b2 AND 0x1F - 1) (it + 2) (sz - 2)))))"

definition Di_ProcessVexPrefix :: "u8 \<Rightarrow> (bool, 's) dec" where
  "Di_ProcessVexPrefix firstByte = (if firstByte = 0xC5 then Di_ProcessVexPrefix2 else Di_ProcessVexPrefix3)"

text \<open>With a rounding, which a set b bit on a register form says, the vector length of the path is 512 bits.\<close>

definition evex_path_LL :: "u8 \<Rightarrow> int \<Rightarrow> int \<Rightarrow> u8 \<Rightarrow> (u8, 's) dec" where
  "evex_path_LL LL it sz p2 =
     (if bit p2 4 \<and> sz \<ge> 5
      then DI_CHECK (read_cache (it + 4)) (\<lambda>modrm. DI_RETURN (if modrm AND 0xC0 = 0xC0 then 2 else LL))
      else DI_RETURN LL)"

definition evex_fields :: "u8 \<Rightarrow> u8 \<Rightarrow> DecoderContext \<Rightarrow> DecoderContext" where
  "evex_fields p1 p2 c =
     c\<lparr>iVexVVVV := drop_bit 3 (NOT p1) AND 0xF, iVexPrefix := DI_VEX_PREFIX_PRESENT OR (if bit p1 7 then DI_VEX_PREFIX_W else 0),
       iEvexAAA := p2 AND 7, iEvexLL := drop_bit 5 p2 AND 3\<rparr>"

definition evex_registers :: "u8 \<Rightarrow> u8 \<Rightarrow> u8 \<Rightarrow> DecoderContext \<Rightarrow> DecoderContext" where
  "evex_registers p0 p1 p2 c =
     (let long = iAMD64Mode c \<noteq> 0; w = bit p1 7;
          R = long \<and> \<not> bit p0 7; X = long \<and> \<not> bit p0 6; B = long \<and> \<not> bit p0 5; R1 = long \<and> \<not> bit p0 4;
          c = c\<lparr>iEvexPrefix := DI_EVEX_PREFIX_PRESENT OR (if R1 then DI_EVEX_PREFIX_R1 else 0) OR (if \<not> bit p2 3 then DI_EVEX_PREFIX_V1 else 0)
                  OR (if X then DI_EVEX_PREFIX_X else 0) OR (if bit p2 4 then DI_EVEX_PREFIX_B else 0) OR (if bit p2 7 then DI_EVEX_PREFIX_Z else 0),
                iRexPrefix := 0x40 OR word_bit (long \<and> w) 3 OR word_bit R 2 OR word_bit X 1 OR word_bit B 0\<rparr>
      in if long \<and> w then c\<lparr>iCurrentCmd_opsize := 8\<rparr> else c)"

definition Di_ProcessEvexPrefix :: "(bool, 's) dec" where
  "Di_ProcessEvexPrefix =
     DI_LET (\<lambda>d. (cacheIt (d_ctx d), cacheSize (d_ctx d), amd64 d)) (\<lambda>(it, sz, long).
     DI_CHECK (fill_cache 5 5 DI_CACHE_SIZE it sz) (\<lambda>sz.
     DI_CHECK (if sz < 1 then DI_RETURN 0 else read_cache it) (\<lambda>p0.
     if sz < 1 \<or> (\<not> long \<and> p0 AND 0xC0 \<noteq> 0xC0) then
       DI_DO (set_cacheSize sz) (if long \<and> sz < 1 then DI_FAIL DI_END_OF_STREAM else DI_RETURN False)
     else if sz < 4 then DI_DO (set_cacheSize sz) (DI_FAIL DI_END_OF_STREAM)
     else
     DI_CHECK (read_cache (it + 1)) (\<lambda>p1.
     DI_CHECK (read_cache (it + 2)) (\<lambda>p2.
     let map_sel = p0 AND 7 in
     if bit p0 3 \<or> \<not> bit p1 2 \<or> map_sel = 0 \<or> map_sel = 4 \<or> map_sel = 7 then DI_DO (set_cacheSize sz) (DI_FAIL DI_ERROR)
     else
     DI_DO (upd_ctx (evex_fields p1 p2)) (
     if \<not> long \<and> \<not> bit p2 3 then DI_DO (set_cacheSize sz) (DI_FAIL DI_ERROR)
     else
     DI_DO (upd_ctx (evex_registers p0 p1 p2)) (
     DI_CHECK (evex_path_LL (drop_bit 5 p2 AND 3) it sz p2) (\<lambda>pathLL.
     DI_CHECK (virtual_prefix 0x62 (word_bit (bit p1 7) 7 OR push_bit 5 pathLL OR push_bit 2 map_sel OR (p1 AND 3)) (it + 3) (sz - 3)) (\<lambda>_.
     DI_RETURN True)))))))))"

end
