(* ===== verification/Decoder_Registers.thy ===== *)
theory Decoder_Registers
  imports Decoder_Prefix
begin

unbundle bit_operations_syntax

text \<open>
  Register numbers and addressing forms (\<^verbatim>\<open>diana_core_utils.c\<close>, \<^verbatim>\<open>diana_tables_common.c\<close>, \<^verbatim>\<open>diana_tables_16.c\<close>, \<^verbatim>\<open>diana_tables_32.c\<close>): the register of a number and a size,
  and the operand that a ModRM byte, and a SIB byte after it, stand for.
\<close>

section \<open>Fields of ModRM and SIB\<close>

definition Diana_GetReg :: "u8 \<Rightarrow> u8" where "Diana_GetReg postbyte = drop_bit 3 (postbyte AND 0x38)"
definition Diana_GetRm :: "u8 \<Rightarrow> u8" where "Diana_GetRm postbyte = postbyte AND 7"
definition Diana_GetMod :: "u8 \<Rightarrow> u8" where "Diana_GetMod postbyte = drop_bit 6 (postbyte AND 0xC0)"

definition Diana_DispatchSIB :: "u8 \<Rightarrow> u8 \<times> u8 \<times> u8" where
  "Diana_DispatchSIB sib = (drop_bit 6 (sib AND 0xC0), drop_bit 3 (sib AND 0x38), sib AND 7)"

definition Diana_GetReg2 :: "DecoderContext \<Rightarrow> u8 \<Rightarrow> u8" where
  "Diana_GetReg2 c postByte =
     (if iAMD64Mode c \<noteq> 0 \<and> iRexPrefix c \<noteq> 0 \<and> DI_REX_HAS_FLAG_R (iRexPrefix c) then Diana_GetReg postByte OR 8 else Diana_GetReg postByte)"

definition Diana_GetRm2 :: "DecoderContext \<Rightarrow> u8 \<Rightarrow> u8" where
  "Diana_GetRm2 c postByte =
     (if iAMD64Mode c \<noteq> 0 \<and> iRexPrefix c \<noteq> 0 \<and> DI_REX_HAS_FLAG_B (iRexPrefix c) then Diana_GetRm postByte OR 8 else Diana_GetRm postByte)"

definition Diana_DispatchSIB2 :: "DecoderContext \<Rightarrow> u8 \<Rightarrow> u8 \<times> u8 \<times> u8" where
  "Diana_DispatchSIB2 c sib =
     (case Diana_DispatchSIB sib of (ss, ix, base) \<Rightarrow>
        if iAMD64Mode c \<noteq> 0 \<and> iRexPrefix c \<noteq> 0
        then (ss, if DI_REX_HAS_FLAG_X (iRexPrefix c) then ix OR 8 else ix, if DI_REX_HAS_FLAG_B (iRexPrefix c) then base OR 8 else base)
        else (ss, ix, base))"

section \<open>The register of a number\<close>

definition g_diana_regsAmd8 :: "DianaUnifiedRegister list" where
  "g_diana_regsAmd8 = [reg_SPL, reg_BPL, reg_SIL, reg_DIL]"

definition g_regs :: "DianaUnifiedRegister list list" where
  "g_regs =
     [[reg_AL, reg_CL, reg_DL, reg_BL, reg_AH, reg_CH, reg_DH, reg_BH, reg_R8B, reg_R9B, reg_R10B, reg_R11B, reg_R12B, reg_R13B, reg_R14B, reg_R15B],
      [reg_AX, reg_CX, reg_DX, reg_BX, reg_SP, reg_BP, reg_SI, reg_DI, reg_R8W, reg_R9W, reg_R10W, reg_R11W, reg_R12W, reg_R13W, reg_R14W, reg_R15W],
      [reg_EAX, reg_ECX, reg_EDX, reg_EBX, reg_ESP, reg_EBP, reg_ESI, reg_EDI, reg_R8D, reg_R9D, reg_R10D, reg_R11D, reg_R12D, reg_R13D, reg_R14D, reg_R15D],
      [reg_RAX, reg_RCX, reg_RDX, reg_RBX, reg_RSP, reg_RBP, reg_RSI, reg_RDI, reg_R8, reg_R9, reg_R10, reg_R11, reg_R12, reg_R13, reg_R14, reg_R15]]"

definition mmx_table :: "DianaUnifiedRegister list" where
  "mmx_table = [reg_MM0, reg_MM1, reg_MM2, reg_MM3, reg_MM4, reg_MM5, reg_MM6, reg_MM7, reg_MM0, reg_MM1, reg_MM2, reg_MM3, reg_MM4, reg_MM5, reg_MM6, reg_MM7]"

text \<open>\<open>None\<close> is \<^verbatim>\<open>DI_ERROR\<close>.\<close>

definition DianaRecognizeMMX :: "u8 \<Rightarrow> DianaUnifiedRegister option" where
  "DianaRecognizeMMX regId = (if regId < 16 then Some (mmx_table ! unat regId) else None)"

definition Diana_VectorRegister :: "int \<Rightarrow> int \<Rightarrow> DianaUnifiedRegister" where
  "Diana_VectorRegister sz number =
     (if number < 0 \<or> number > 31 then reg_none
      else if sz = 16 then (if number < 16 then reg_XMM0 + number else reg_XMM16 + number - 16)
      else if sz = 32 then (if number < 16 then reg_YMM0 + number else reg_YMM16 + number - 16)
      else if sz = 64 then reg_ZMM0 + number
      else reg_none)"

definition Diana_VectorRegisterNumber :: "DianaUnifiedRegister \<Rightarrow> int \<times> int" where
  "Diana_VectorRegisterNumber r =
     (if r \<ge> reg_XMM0 \<and> r \<le> reg_XMM15 then (r - reg_XMM0, 16)
      else if r \<ge> reg_XMM16 \<and> r \<le> reg_XMM31 then (r - reg_XMM16 + 16, 16)
      else if r \<ge> reg_YMM0 \<and> r \<le> reg_YMM15 then (r - reg_YMM0, 32)
      else if r \<ge> reg_YMM16 \<and> r \<le> reg_YMM31 then (r - reg_YMM16 + 16, 32)
      else if r \<ge> reg_ZMM0 \<and> r \<le> reg_ZMM31 then (r - reg_ZMM0, 64)
      else (-1, 0))"

definition DianaRecognizeXMM :: "u8 \<Rightarrow> DianaUnifiedRegister option" where
  "DianaRecognizeXMM regId = (if regId < 32 then Some (Diana_VectorRegister 16 (uint regId)) else None)"

definition DianaRecognizeYMM :: "u8 \<Rightarrow> DianaUnifiedRegister option" where
  "DianaRecognizeYMM regId = (if regId < 32 then Some (Diana_VectorRegister 32 (uint regId)) else None)"

definition DianaRecognizeCommonReg :: "int \<Rightarrow> u8 \<Rightarrow> bool \<Rightarrow> DianaUnifiedRegister option" where
  "DianaRecognizeCommonReg iOpSize regId isRexPrefix =
     (let row = (if iOpSize = 8 then Some 3 else if iOpSize = 4 then Some 2 else if iOpSize = 2 then Some 1 else if iOpSize = 1 then Some 0 else None)
      in case row of
           None \<Rightarrow> None
         | Some iIndex \<Rightarrow>
             if regId < 16 then
               Some (if isRexPrefix \<and> iIndex = 0 \<and> regId \<ge> 4 \<and> regId < 8 then g_diana_regsAmd8 ! (unat regId - 4) else g_regs ! iIndex ! unat regId)
             else None)"

definition Diana_RecognizeSreg :: "u8 \<Rightarrow> DianaUnifiedRegister option" where
  "Diana_RecognizeSreg r = (if r < 6 then Some ([reg_ES, reg_CS, reg_SS, reg_DS, reg_FS, reg_GS] ! unat r) else None)"

definition Diana_RecognizeCreg :: "u8 \<Rightarrow> DianaUnifiedRegister option" where
  "Diana_RecognizeCreg r =
     (if r < 16 then Some ([reg_CR0, reg_CR1, reg_CR2, reg_CR3, reg_CR4, reg_CR5, reg_CR6, reg_CR7,
        reg_CR8, reg_CR9, reg_CR10, reg_CR11, reg_CR12, reg_CR13, reg_CR14, reg_CR15] ! unat r) else None)"

definition Diana_RecognizeDreg :: "u8 \<Rightarrow> DianaUnifiedRegister option" where
  "Diana_RecognizeDreg r =
     (if r < 16 then Some ([reg_DR0, reg_DR1, reg_DR2, reg_DR3, reg_DR4, reg_DR5, reg_DR6, reg_DR7,
        reg_DR8, reg_DR9, reg_DR10, reg_DR11, reg_DR12, reg_DR13, reg_DR14, reg_DR15] ! unat r) else None)"

definition Diana_RecognizeTreg :: "u8 \<Rightarrow> DianaUnifiedRegister option" where
  "Diana_RecognizeTreg r =
     (if r < 8 then Some ([reg_TR0, reg_TR1, reg_TR2, reg_TR3, reg_TR4, reg_TR5, reg_TR6, reg_TR7] ! unat r) else None)"

definition Diana_GetDI :: "int \<Rightarrow> DianaUnifiedRegister option" where
  "Diana_GetDI sz = (if sz = 8 then Some reg_RDI else if sz = 4 then Some reg_EDI else if sz = 2 then Some reg_DI else None)"

definition Diana_GetSI :: "int \<Rightarrow> DianaUnifiedRegister option" where
  "Diana_GetSI sz = (if sz = 8 then Some reg_RSI else if sz = 4 then Some reg_ESI else if sz = 2 then Some reg_SI else None)"

section \<open>Register operands in r/m\<close>

definition table2 :: "DianaUnifiedRegister list list" where
  "table2 =
     [[reg_EAX, reg_AX, reg_AL, reg_RAX], [reg_ECX, reg_CX, reg_CL, reg_RCX], [reg_EDX, reg_DX, reg_DL, reg_RDX], [reg_EBX, reg_BX, reg_BL, reg_RBX],
      [reg_ESP, reg_SP, reg_AH, reg_RSP], [reg_EBP, reg_BP, reg_CH, reg_RBP], [reg_ESI, reg_SI, reg_DH, reg_RSI], [reg_EDI, reg_DI, reg_BH, reg_RDI],
      [reg_R8D, reg_R8W, reg_R8B, reg_R8], [reg_R9D, reg_R9W, reg_R9B, reg_R9], [reg_R10D, reg_R10W, reg_R10B, reg_R10], [reg_R11D, reg_R11W, reg_R11B, reg_R11],
      [reg_R12D, reg_R12W, reg_R12B, reg_R12], [reg_R13D, reg_R13W, reg_R13B, reg_R13], [reg_R14D, reg_R14W, reg_R14B, reg_R14], [reg_R15D, reg_R15W, reg_R15B, reg_R15]]"

definition dec_option :: "'a option \<Rightarrow> ('a, 's) dec" where
  "dec_option x = (case x of None \<Rightarrow> DI_FAIL DI_ERROR | Some a \<Rightarrow> DI_RETURN a)"

text \<open>The register, and the used size when the operand type fixes it.\<close>

definition Diana_DispatchMod3 :: "DianaOperands_type \<Rightarrow> u8 \<Rightarrow> int \<Rightarrow> bool \<Rightarrow> (DianaUnifiedRegister \<times> int option, 's) dec" where
  "Diana_DispatchMod3 ty rm iRegSizeInBytes isRexPrefix =
     (if ty = diana_orMemoryMMX then DI_CHECK (dec_option (DianaRecognizeMMX rm)) (\<lambda>r. DI_RETURN (r, Some 8))
      else if ty = diana_orMemoryXMM then DI_CHECK (dec_option (DianaRecognizeXMM rm)) (\<lambda>r. DI_RETURN (r, Some 16))
      else if ty = diana_orMemoryYMM then DI_CHECK (dec_option (DianaRecognizeYMM rm)) (\<lambda>r. DI_RETURN (r, Some 32))
      else if ty = diana_orMemoryZMM then
        (let r = Diana_VectorRegister 64 (uint rm) in if r = reg_none then DI_FAIL DI_ERROR else DI_RETURN (r, Some 64))
      else if ty = diana_orMemoryK then DI_RETURN (reg_K0 + uint (rm AND 7), Some 8)
      else
        let column = (if iRegSizeInBytes = 8 then Some 3 else if iRegSizeInBytes = 4 then Some 0 else if iRegSizeInBytes = 2 then Some 1
                      else if iRegSizeInBytes = 1 then Some 2 else None)
        in case column of
             None \<Rightarrow> DI_FAIL DI_ERROR
           | Some iIndex \<Rightarrow>
               if rm \<ge> 16 then DI_FAIL C_UNDEFINED
               else DI_RETURN (if iIndex = 2 \<and> isRexPrefix \<and> rm \<ge> 4 \<and> rm < 8 then g_diana_regsAmd8 ! (unat rm - 4)
                 else table2 ! unat rm ! iIndex, None))"

section \<open>Addressing forms\<close>

text \<open>16-bit forms: two registers and the size of the displacement, by mod and r/m.\<close>

definition rm16_table :: "(DianaUnifiedRegister \<times> DianaUnifiedRegister \<times> u8) list list" where
  "rm16_table =
     [[(reg_BX, reg_SI, 0), (reg_BX, reg_DI, 0), (reg_BP, reg_SI, 0), (reg_BP, reg_DI, 0), (reg_SI, reg_none, 0), (reg_DI, reg_none, 0), (reg_none, reg_none, 2), (reg_BX, reg_none, 0)],
      [(reg_BX, reg_SI, 1), (reg_BX, reg_DI, 1), (reg_BP, reg_SI, 1), (reg_BP, reg_DI, 1), (reg_SI, reg_none, 1), (reg_DI, reg_none, 1), (reg_BP, reg_none, 1), (reg_BX, reg_none, 1)],
      [(reg_BX, reg_SI, 2), (reg_BX, reg_DI, 2), (reg_BP, reg_SI, 2), (reg_BP, reg_DI, 2), (reg_SI, reg_none, 2), (reg_DI, reg_none, 2), (reg_BP, reg_none, 2), (reg_BX, reg_none, 2)]]"

text \<open>The segment register of an index is set later.\<close>

definition Diana_ReadIndexStructure16 :: "DianaOperands_type \<Rightarrow> int \<Rightarrow> u8 \<Rightarrow> (DianaOperandValue \<times> int option, 's) dec" where
  "Diana_ReadIndexStructure16 ty iOpSize postByte =
     (let md = Diana_GetMod postByte; rm = Diana_GetRm postByte in
      if md = 3 then
        DI_LET (\<lambda>d. iRexPrefix (d_ctx d) \<noteq> 0) (\<lambda>rex.
        DI_CHECK (Diana_DispatchMod3 ty rm iOpSize rex) (\<lambda>(r, used). DI_RETURN (diana_register r, used)))
      else
        case rm16_table ! unat md ! unat rm of (reg1, reg2, disp) \<Rightarrow>
          DI_RETURN (diana_index \<lparr>seg_reg = reg_none, reg = reg2, indexed_reg = reg1, index = (if reg1 = reg_none then 0 else 1), dispSize = disp,
            dispValue = 0\<rparr>, None))"

text \<open>32- and 64-bit forms: whether a SIB byte follows, the base and the size of the displacement.\<close>

definition rm32_table :: "(bool \<times> DianaUnifiedRegister \<times> u8) list list" where
  "rm32_table =
     [[(False, reg_EAX, 0), (False, reg_ECX, 0), (False, reg_EDX, 0), (False, reg_EBX, 0), (True, reg_none, 0), (False, reg_none, 4), (False, reg_ESI, 0),
       (False, reg_EDI, 0), (False, reg_R8D, 0), (False, reg_R9D, 0), (False, reg_R10D, 0), (False, reg_R11D, 0), (True, reg_R12D, 0), (False, reg_none, 4),
       (False, reg_R14D, 0), (False, reg_R15D, 0)],
      [(False, reg_EAX, 1), (False, reg_ECX, 1), (False, reg_EDX, 1), (False, reg_EBX, 1), (True, reg_none, 1), (False, reg_EBP, 1), (False, reg_ESI, 1),
       (False, reg_EDI, 1), (False, reg_R8D, 1), (False, reg_R9D, 1), (False, reg_R10D, 1), (False, reg_R11D, 1), (True, reg_R12D, 1), (False, reg_R13D, 1),
       (False, reg_R14D, 1), (False, reg_R15D, 1)],
      [(False, reg_EAX, 4), (False, reg_ECX, 4), (False, reg_EDX, 4), (False, reg_EBX, 4), (True, reg_none, 4), (False, reg_EBP, 4), (False, reg_ESI, 4),
       (False, reg_EDI, 4), (False, reg_R8D, 4), (False, reg_R9D, 4), (False, reg_R10D, 4), (False, reg_R11D, 4), (True, reg_R12D, 4), (False, reg_R13D, 4),
       (False, reg_R14D, 4), (False, reg_R15D, 4)]]"

definition rm64_table :: "(bool \<times> DianaUnifiedRegister \<times> u8) list list" where
  "rm64_table =
     [[(False, reg_RAX, 0), (False, reg_RCX, 0), (False, reg_RDX, 0), (False, reg_RBX, 0), (True, reg_none, 0), (False, reg_none, 4), (False, reg_RSI, 0),
       (False, reg_RDI, 0), (False, reg_R8, 0), (False, reg_R9, 0), (False, reg_R10, 0), (False, reg_R11, 0), (True, reg_R12, 0), (False, reg_none, 4),
       (False, reg_R14, 0), (False, reg_R15, 0)],
      [(False, reg_RAX, 1), (False, reg_RCX, 1), (False, reg_RDX, 1), (False, reg_RBX, 1), (True, reg_none, 1), (False, reg_RBP, 1), (False, reg_RSI, 1),
       (False, reg_RDI, 1), (False, reg_R8, 1), (False, reg_R9, 1), (False, reg_R10, 1), (False, reg_R11, 1), (True, reg_R12, 1), (False, reg_R13, 1),
       (False, reg_R14, 1), (False, reg_R15, 1)],
      [(False, reg_RAX, 4), (False, reg_RCX, 4), (False, reg_RDX, 4), (False, reg_RBX, 4), (True, reg_none, 4), (False, reg_RBP, 4), (False, reg_RSI, 4),
       (False, reg_RDI, 4), (False, reg_R8, 4), (False, reg_R9, 4), (False, reg_R10, 4), (False, reg_R11, 4), (True, reg_R12, 4), (False, reg_R13, 4),
       (False, reg_R14, 4), (False, reg_R15, 4)]]"

definition disp_ss :: "u8 list" where
  "disp_ss = [1, 2, 4, 8]"

text \<open>The base of a SIB byte: no register and a 32-bit displacement for the number 5 without displacement.\<close>

definition sib_base :: "u8 \<Rightarrow> u8 \<Rightarrow> u8 \<Rightarrow> (DianaUnifiedRegister \<times> u8, 's) dec" where
  "sib_base md base disp =
     DI_LET (\<lambda>d. (iCurrentCmd_addressSize (d_ctx d), iRexPrefix (d_ctx d) \<noteq> 0)) (\<lambda>(asz, rex).
     if base AND 7 = 5 \<and> md = 0 then DI_RETURN (reg_none, 4)
     else if base = 5 then DI_RETURN (if asz = 8 then reg_RBP else reg_EBP, disp)
     else DI_CHECK (dec_option (DianaRecognizeCommonReg asz base rex)) (\<lambda>r. DI_RETURN (r, disp)))"

definition sib_index :: "bool \<Rightarrow> u8 \<Rightarrow> u8 \<Rightarrow> u8 \<Rightarrow> (DianaUnifiedRegister \<times> u8, 's) dec" where
  "sib_index vsib sz2 ss ix =
     DI_LET (\<lambda>d. (iCurrentCmd_addressSize (d_ctx d), iRexPrefix (d_ctx d) \<noteq> 0, iEvexPrefix (d_ctx d))) (\<lambda>(asz, rex, evex).
     if vsib then
       DI_RETURN (Diana_VectorRegister (uint sz2) (uint (if evex AND DI_EVEX_PREFIX_V1 \<noteq> 0 then ix OR 0x10 else ix)), disp_ss ! unat ss)
     else if ix = 4 then DI_RETURN (reg_none, 0)
     else DI_CHECK (dec_option (DianaRecognizeCommonReg asz ix rex)) (\<lambda>r. DI_RETURN (r, disp_ss ! unat ss)))"

definition Diana_ReadIndexStructure32 :: "DianaOperandInfo \<Rightarrow> int \<Rightarrow> u8 \<Rightarrow> (DianaOperandValue \<times> int option, 's) dec" where
  "Diana_ReadIndexStructure32 info iOpSize postByte =
     DI_LET d_ctx (\<lambda>c.
     let ty = m_type info; md = Diana_GetMod postByte; rm = Diana_GetRm2 c postByte; old_true_rm = Diana_GetRm postByte; vsib = (ty = diana_orVSIB) in
     if md = 3 \<and> vsib then DI_FAIL DI_ERROR
     else if md = 3 then
       let rm = (if iEvexPrefix c \<noteq> 0 \<and> (ty = diana_orMemoryXMM \<or> ty = diana_orMemoryYMM \<or> ty = diana_orMemoryZMM)
                   \<and> iEvexPrefix c AND DI_EVEX_PREFIX_X \<noteq> 0 then rm OR 0x10 else rm);
           rm = (if ty = diana_orMemoryK then old_true_rm else rm)
       in DI_CHECK (Diana_DispatchMod3 ty rm iOpSize (iRexPrefix c \<noteq> 0)) (\<lambda>(r, used). DI_RETURN (diana_register r, used))
     else
       case (if iCurrentCmd_addressSize c = 8 then rm64_table else rm32_table) ! unat md ! unat rm of (iHasSIB, base_reg, disp) \<Rightarrow>
       if \<not> iHasSIB \<and> vsib then DI_FAIL DI_ERROR
       else if \<not> iHasSIB then
         DI_RETURN (diana_index \<lparr>seg_reg = reg_none, reg = (if iAMD64Mode c \<noteq> 0 \<and> md = 0 \<and> old_true_rm = 5 then reg_RIP else base_reg),
           indexed_reg = reg_none, index = 0, dispSize = disp, dispValue = 0\<rparr>, None)
       else
         DI_CHECK (read_exactly DI_ERROR 1) (\<lambda>bs.
         case Diana_DispatchSIB2 c (hd bs) of (ss, ix, base) \<Rightarrow>
         DI_CHECK (sib_base md base disp) (\<lambda>(r, disp).
         DI_CHECK (sib_index vsib (m_size2 info) ss ix) (\<lambda>(r', scale).
         DI_RETURN (diana_index \<lparr>seg_reg = reg_none, reg = r, indexed_reg = r', index = scale, dispSize = disp, dispValue = 0\<rparr>, None)))))"

end
