(* ===== verification/Decoder_Operands.thy ===== *)
theory Decoder_Operands
  imports Decoder_Registers
begin

unbundle bit_operations_syntax

text \<open>
  The operands of a matched entry (\<^verbatim>\<open>diana_operands.c\<close>): the sizes in use, registers from the opcode, from ModRM and from VEX, memory operands, and the
  displacement and the immediates that follow.  The proxy gives the opcode byte first.
\<close>

section \<open>Locals of the linker\<close>

text \<open>
  The local variables of \<^verbatim>\<open>Diana_LinkOperands\<close>.  Pointers to linked operands are positions in the result's list.
\<close>

record LinkLocals =
  l_RegCode :: u8
  l_fpuRegCode :: u8
  l_PostByte :: "u8 option"
  l_iCurOffset :: int
  l_iCSIPSize :: int
  l_iVexRegConsumed :: bool
  l_iRegFieldUsed :: bool
  l_pLinkedDispOp :: "nat option"
  l_iDispIsSigned :: bool
  l_iEvexDisp8Scale :: int
  l_pLinkedImmOp :: "nat list"
  l_pLinkedIs4Op :: "nat option"

definition entry_flag :: "DianaCmdEntry \<Rightarrow> u32 \<Rightarrow> bool" where
  "entry_flag e f \<longleftrightarrow> m_cmd_flags e AND f \<noteq> 0"

definition iPostbyteFilter :: "DianaCmdEntry \<Rightarrow> u8" where
  "iPostbyteFilter e = m_extension_deny_mask e OR m_extension_mask e"

definition iExtensionUsed :: "DianaCmdEntry \<Rightarrow> bool" where
  "iExtensionUsed e \<longleftrightarrow> iPostbyteFilter e AND 0x38 \<noteq> 0"

definition Diana_GetEvexAttributes :: "DianaCmdEntry \<Rightarrow> u32 option" where
  "Diana_GetEvexAttributes e = (if m_gen_flags e AND DIANA_BASE_GEN_OBJECT_EVEX = 0 then None else Some (m_evex e))"

definition DIANA_VEX_VVVV_REG :: "DecoderContext \<Rightarrow> u8" where
  "DIANA_VEX_VVVV_REG c = iVexVVVV c AND (if iAMD64Mode c \<noteq> 0 then 0xF else 7)"

definition DIANA_EVEX_BIT4 :: "DecoderContext \<Rightarrow> u8 \<Rightarrow> u8" where
  "DIANA_EVEX_BIT4 c f = (if iEvexPrefix c AND f \<noteq> 0 then 0x10 else 0)"

definition Diana_VectorTypeSize :: "DianaOperands_type \<Rightarrow> int" where
  "Diana_VectorTypeSize ty =
     (if ty = diana_orRegXMM \<or> ty = diana_orMemoryXMM then 16
      else if ty = diana_orRegYMM \<or> ty = diana_orMemoryYMM then 32
      else if ty = diana_orRegZMM \<or> ty = diana_orMemoryZMM then 64 else 0)"

definition Diana_GetMemorySegment :: "DecoderContext \<Rightarrow> DianaRmIndex \<Rightarrow> DianaUnifiedRegister" where
  "Diana_GetMemorySegment c ix =
     (if list_ex (\<lambda>x. prefix_byte x \<in> {0x26, 0x2E, 0x36, 0x3E, 0x64, 0x65}) (prefixes c) then currentCmd_sreg c
      else if reg ix \<in> {reg_BP, reg_SP, reg_EBP, reg_ESP, reg_RBP, reg_RSP} then reg_SS
      else if indexed_reg ix = reg_BP then reg_SS
      else currentCmd_sreg c)"

text \<open>The operand size that the entry, the prefixes and the operand type ask for.\<close>

definition opSizeUsed :: "DecoderContext \<Rightarrow> DianaCmdEntry \<Rightarrow> DianaOperandInfo \<Rightarrow> int" where
  "opSizeUsed c e info =
     (let n = uint (m_op_size info);
          n = (if n = 0 \<or> (entry_flag e DI_FLAG_CMD_HAS32BIT_ANALOG \<and> n \<noteq> 1) then iCurrentCmd_opsize c else n);
          n = (if iAMD64Mode c \<noteq> 0 \<and> entry_flag e DI_FLAG_CMD_AMD_DEFAULT_OPSIZE_64 \<and> n = 4 then 8 else n);
          n = (if m_type info = diana_orRegistry32 then (if m_op_size info = 8 then 8 else 4) else n)
      in if (m_type info = diana_orRegistry \<or> m_type info = diana_orRegMem) \<and> m_op_size info = 4 \<and> m_size2 info = 8
         then (if iAMD64Mode c \<noteq> 0 \<and> DI_REX_HAS_FLAG_W (iRexPrefix c) then 8 else 4) else n)"

section \<open>The bytes of opcode and ModRM\<close>

definition initial_locals :: "DianaCmdEntry \<Rightarrow> LinkLocals" where
  "initial_locals e = \<lparr>l_RegCode = DI_CHAR_NULL, l_fpuRegCode = DI_CHAR_NULL, l_PostByte = None, l_iCurOffset = 0,
     l_iCSIPSize = uint (m_iCSIPExtensionSizeInBytes e), l_iVexRegConsumed = False, l_iRegFieldUsed = False, l_pLinkedDispOp = None,
     l_iDispIsSigned = True, l_iEvexDisp8Scale = 0, l_pLinkedImmOp = [], l_pLinkedIs4Op = None\<rparr>"

definition link_opcode :: "DianaCmdEntry \<Rightarrow> (LinkLocals, 's) dec" where
  "link_opcode e =
     DI_LET d_ctx (\<lambda>c.
     let l = initial_locals e in
     if iPostbyteFilter e \<noteq> 0 \<or> entry_flag e DI_FLAG_CMD_POSTBYTE_USED then
       DI_CHECK (read_exactly DI_END_OF_STREAM 2) (\<lambda>buffer.
       let PostByte = buffer ! 1;
           l = (if \<not> iExtensionUsed e then l\<lparr>l_RegCode := Diana_GetReg2 c PostByte\<rparr> else l);
           PostByte = (if list_ex (\<lambda>o'. m_type o' \<in> {diana_orAnyCR, diana_orDR6or7, diana_orTR6or7}) (m_operands e) then PostByte OR 0xC0 else PostByte)
       in DI_RETURN (l\<lparr>l_PostByte := Some PostByte, l_iCurOffset := 2\<rparr>))
     else
       DI_CHECK (read_exactly DI_END_OF_STREAM 1) (\<lambda>buffer.
       let l = (if entry_flag e DI_FLAG_CMD_REGISTER_AS_OPCODE
                then if entry_flag e DI_FLAG_CMD_FPU_I then l\<lparr>l_fpuRegCode := Diana_GetRm (buffer ! 0)\<rparr>
                     else l\<lparr>l_RegCode := Diana_GetRm2 c (buffer ! 0)\<rparr>
                else l)
       in DI_RETURN (l\<lparr>l_iCurOffset := 1\<rparr>)))"

definition link_rex :: "DianaCmdEntry \<Rightarrow> DecoderContext \<Rightarrow> DecoderContext" where
  "link_rex e c =
     (if iRexPrefix c \<noteq> 0 \<and> entry_flag e DI_FLAG_CMD_IGNORE_REX_PREFIX
      then let x = iRexPrefix c AND 0x43 in c\<lparr>iRexPrefix := (if x = 0x40 then 0 else x)\<rparr> else c)"

definition link_opsize :: "DianaCmdEntry \<Rightarrow> DecoderContext \<Rightarrow> DecoderContext" where
  "link_opsize e c =
     (let c = (if iAMD64Mode c \<noteq> 0 \<and> entry_flag e DI_FLAG_CMD_AMD_DEFAULT_OPSIZE_64 \<and> iCurrentCmd_opsize c = 4 then c\<lparr>iCurrentCmd_opsize := 8\<rparr> else c)
      in if iCurrentCmd_opsize c = 8 \<and> m_commandId e \<in> {''in'', ''out'', ''ins'', ''outs''} then c\<lparr>iCurrentCmd_opsize := 4\<rparr> else c)"

section \<open>One operand\<close>

definition new_operand :: "DecoderContext \<Rightarrow> DianaCmdEntry \<Rightarrow> DianaOperandInfo \<Rightarrow> DecoderOperand" where
  "new_operand c e info = \<lparr>op_value = diana_none, iOffset = 0, usedSize = opSizeUsed c e info, usedAddressSize = iCurrentCmd_addressSize c, op_info = info\<rparr>"

type_synonym 's linked = "(DecoderOperand \<times> LinkLocals, 's) dec"

definition link_value :: "DecoderOperand \<Rightarrow> LinkLocals \<Rightarrow> DianaOperandValue \<Rightarrow> 's linked" where
  "link_value p l v = DI_RETURN (p\<lparr>op_value := v\<rparr>, l)"

definition link_register :: "DecoderOperand \<Rightarrow> LinkLocals \<Rightarrow> DianaUnifiedRegister option \<Rightarrow> 's linked" where
  "link_register p l r = (case r of None \<Rightarrow> DI_FAIL DI_ERROR | Some r \<Rightarrow> link_value p l (diana_register r))"

definition link_registry :: "DianaCmdEntry \<Rightarrow> DecoderOperand \<Rightarrow> LinkLocals \<Rightarrow> 's linked" where
  "link_registry e p l =
     DI_LET d_ctx (\<lambda>c.
     let vex = (iVexPrefix c \<noteq> 0 \<and> DI_VEX_GET_NDS (m_cmd_flags e) \<noteq> 0);
         from_vvvv = (vex \<and> (l_RegCode l = DI_CHAR_NULL \<or> l_iVexRegConsumed l));
         regToUse = (if from_vvvv then DIANA_VEX_VVVV_REG c else l_RegCode l);
         l = (if vex \<and> \<not> from_vvvv then l\<lparr>l_iVexRegConsumed := True\<rparr> else l);
         field = (regToUse = l_RegCode l \<and> entry_flag e DI_FLAG_CMD_POSTBYTE_USED \<and> \<not> iExtensionUsed e);
         l = (if field then l\<lparr>l_iRegFieldUsed := True\<rparr> else l)
     in if field \<and> iEvexPrefix c AND DI_EVEX_PREFIX_R1 \<noteq> 0 then DI_FAIL DI_ERROR
        else link_register p l (DianaRecognizeCommonReg (usedSize p) regToUse (iRexPrefix c \<noteq> 0)))"

text \<open>Every failure of the addressing form is \<^verbatim>\<open>DI_ERROR\<close>.\<close>

definition link_form :: "DianaOperandInfo \<Rightarrow> int \<Rightarrow> int \<Rightarrow> LinkLocals \<Rightarrow> (DianaOperandValue \<times> int option, 's) dec" where
  "link_form info asz osz l d =
     (let b = (case l_PostByte l of Some b \<Rightarrow> b | None \<Rightarrow> 0xFF) in
      case (if asz \<noteq> 2 then Diana_ReadIndexStructure32 info osz b else Diana_ReadIndexStructure16 (m_type info) osz b) d of
        Ok v d \<Rightarrow> Ok v d
      | Err x d \<Rightarrow> Err (if x = C_UNDEFINED then x else DI_ERROR) d)"

text \<open>The size of a memory operand; \<open>m_size2\<close> replaces the default of a type.\<close>

definition memory_size :: "DianaOperandInfo \<Rightarrow> int \<Rightarrow> int" where
  "memory_size info n =
     (let or2 = (\<lambda>k. if m_size2 info \<noteq> 0 then uint (m_size2 info) else k); ty = m_type info in
      if ty = diana_orReg16_32_64_mem16 \<or> ty = diana_orReg32mem16 then or2 2
      else if ty = diana_orMemoryXMM then or2 16
      else if ty = diana_orMemoryYMM then or2 32
      else if ty = diana_orMemoryZMM then or2 64
      else if ty = diana_orMemoryK then or2 8
      else if ty = diana_orVSIB then uint (m_op_size info)
      else if ty = diana_orMemoryMMX then or2 8
      else n)"

text \<open>EVEX: a broadcast element and the scale of an 8-bit displacement.\<close>

definition evex_memory :: "DianaCmdEntry \<Rightarrow> DecoderOperand \<Rightarrow> LinkLocals \<Rightarrow> 's linked" where
  "evex_memory e p l =
     DI_LET d_ctx (\<lambda>c.
     if iEvexPrefix c = 0 then DI_RETURN (p, l)
     else
       let flags = (case Diana_GetEvexAttributes e of Some f \<Rightarrow> f | None \<Rightarrow> 0);
           bcst = drop_bit 5 (flags AND 0x60); n = drop_bit 9 (flags AND 0xE00);
           element = 2 ^ unat bcst;
           vl = (if flags AND 3 = 2 then 64 else if flags AND 3 = 1 then 32 else 16 :: int);
           b = (iEvexPrefix c AND DI_EVEX_PREFIX_B \<noteq> 0 \<and> bcst \<noteq> 0);
           p = (if b then p\<lparr>usedSize := element\<rparr> else p)
       in DI_DO (if b then upd_res (\<lambda>r. r\<lparr>d_evex := (d_evex r)\<lparr>evex_broadcast := vl div element\<rparr>\<rparr>) else (\<lambda>d. d))
          (DI_RETURN (p, l\<lparr>l_iEvexDisp8Scale := (if n \<noteq> 0 then 2 ^ (unat n - 1) else usedSize p)\<rparr>)))"

definition link_regmem :: "DianaCmdEntry \<Rightarrow> nat \<Rightarrow> DecoderOperand \<Rightarrow> LinkLocals \<Rightarrow> 's linked" where
  "link_regmem e i p l =
     DI_LET d_ctx (\<lambda>c.
     let info = op_info p; ty = m_type info; asz = usedAddressSize p;
         p = (if ty = diana_orRegMem_exact \<or> (ty = diana_orMemOnly \<and> m_op_size info \<noteq> 0) then p\<lparr>usedSize := uint (m_op_size info)\<rparr> else p)
     in if ty = diana_orVSIB \<and> asz = 2 then DI_FAIL DI_ERROR
        else
        DI_CHECK (link_form info asz (usedSize p) l) (\<lambda>(v, used).
        let p = (case used of None \<Rightarrow> p | Some n \<Rightarrow> p\<lparr>usedSize := n\<rparr>) in
        case v of
          diana_index ix \<Rightarrow>
            let p = p\<lparr>usedSize := memory_size info (usedSize p), op_value := diana_index (ix\<lparr>seg_reg := Diana_GetMemorySegment c ix\<rparr>)\<rparr>;
                l = (if dispSize ix \<noteq> 0 then l\<lparr>l_pLinkedDispOp := Some i\<rparr> else l)
            in evex_memory e p l
        | _ \<Rightarrow> if ty = diana_orMemOnly \<or> ty = diana_orVSIB then DI_FAIL DI_ERROR else link_value p l v))"

definition link_imm :: "nat \<Rightarrow> DecoderOperand \<Rightarrow> LinkLocals \<Rightarrow> 's linked" where
  "link_imm i p l =
     (if length (l_pLinkedImmOp l) \<ge> 2 then DI_FAIL DI_ERROR
      else link_value p (l\<lparr>l_pLinkedImmOp := l_pLinkedImmOp l @ [i]\<rparr>) (diana_imm 0))"

definition accumulator :: "int \<Rightarrow> DianaUnifiedRegister option" where
  "accumulator n = (if n = 8 then Some reg_RAX else if n = 4 then Some reg_EAX else if n = 2 then Some reg_AX else if n = 1 then Some reg_AL else None)"

definition counter :: "int \<Rightarrow> DianaUnifiedRegister option" where
  "counter n = (if n = 8 then Some reg_RCX else if n = 4 then Some reg_ECX else if n = 2 then Some reg_CX else if n = 1 then Some reg_CL else None)"

definition link_sreg :: "DecoderOperand \<Rightarrow> LinkLocals \<Rightarrow> 's linked" where
  "link_sreg p l =
     (let none = (l_RegCode l = DI_CHAR_NULL); sreg = m_sreg_type (op_info p) in
      if none \<and> sreg = 0 then DI_FAIL DI_ERROR
      else let l = (if none then l\<lparr>l_RegCode := of_nat (sreg - 1)\<rparr> else l) in link_register (p\<lparr>usedSize := 2\<rparr>) l (Diana_RecognizeSreg (l_RegCode l)))"

definition plain_index :: "DianaUnifiedRegister \<Rightarrow> DianaUnifiedRegister \<Rightarrow> u8 \<Rightarrow> DianaRmIndex" where
  "plain_index seg r disp = \<lparr>seg_reg = seg, reg = r, indexed_reg = reg_none, index = 0, dispSize = disp, dispValue = 0\<rparr>"

definition link_ptr :: "DianaCmdEntry \<Rightarrow> DecoderOperand \<Rightarrow> LinkLocals \<Rightarrow> 's linked" where
  "link_ptr e p l =
     (if length (m_operands e) \<noteq> 1 then DI_FAIL DI_ERROR
      else
      DI_CHECK (DianaReadValueAsLong (usedSize p) False) (\<lambda>address.
      DI_CHECK (DianaReadValueAsLong 2 False) (\<lambda>segment.
      link_value (p\<lparr>iOffset := l_iCurOffset l\<rparr>) l
        (diana_call_ptr \<lparr>m_segment = segment, m_address = address, m_segment_size = 2, m_address_size = word_of_int (usedSize p)\<rparr>))))"

definition link_rel :: "DianaCmdEntry \<Rightarrow> DecoderOperand \<Rightarrow> LinkLocals \<Rightarrow> 's linked" where
  "link_rel e p l =
     DI_LET d_ctx (\<lambda>c.
     if l_iCSIPSize l = 255 then DI_FAIL DI_ERROR
     else
       let n = l_iCSIPSize l;
           n = (if entry_flag e DI_FLAG_CMD_HAS32BIT_ANALOG \<and> n \<noteq> 1 then iCurrentCmd_opsize c else n);
           n = (if n = 8 then 4 else n)
       in DI_CHECK (DianaReadValueAsLong n True) (\<lambda>v.
          link_value (p\<lparr>iOffset := l_iCurOffset l\<rparr>) (l\<lparr>l_iCSIPSize := n\<rparr>) (diana_rel \<lparr>m_rel_size = n, m_value = v\<rparr>)))"

definition link_memory :: "nat \<Rightarrow> DecoderOperand \<Rightarrow> LinkLocals \<Rightarrow> 's linked" where
  "link_memory i p l =
     DI_LET d_ctx (\<lambda>c.
     let info = op_info p; p = (if m_type info = diana_orMemory_exact then p\<lparr>usedSize := uint (m_op_size info)\<rparr> else p) in
     if l_PostByte l = None then link_value p l diana_reserved_reg
     else
       DI_CHECK (link_form info (usedAddressSize p) (usedSize p) l) (\<lambda>(v, used).
       let p = (case used of None \<Rightarrow> p | Some n \<Rightarrow> p\<lparr>usedSize := n\<rparr>) in
       case v of
         diana_index ix \<Rightarrow>
           link_value p (if dispSize ix \<noteq> 0 then l\<lparr>l_pLinkedDispOp := Some i\<rparr> else l) (diana_memory (ix\<lparr>seg_reg := Diana_GetMemorySegment c ix\<rparr>))
       | _ \<Rightarrow> DI_FAIL DI_ERROR))"

text \<open>The number of a vector, opmask, MMX or 32-bit register: from VEX.vvvv, from the reg field while it is free, or else from r/m.\<close>

definition takes_vvvv :: "DecoderContext \<Rightarrow> DianaCmdEntry \<Rightarrow> nat \<Rightarrow> DianaOperands_type \<Rightarrow> bool" where
  "takes_vvvv c e i ty \<longleftrightarrow> ty \<noteq> diana_orRegistry32 \<and> ty \<noteq> diana_orRegMMX \<and> iVexPrefix c \<noteq> 0 \<and>
     ((DI_VEX_GET_NDS (m_cmd_flags e) = 1 \<and> i = 1) \<or> (DI_VEX_GET_NDS (m_cmd_flags e) = 3 \<and> i = 2) \<or> (DI_VEX_GET_NDS (m_cmd_flags e) = 2 \<and> i = 0))"

definition vector_code :: "DianaCmdEntry \<Rightarrow> nat \<Rightarrow> DianaOperands_type \<Rightarrow> u8 \<Rightarrow> LinkLocals \<Rightarrow> (u8 \<times> LinkLocals, 's) dec" where
  "vector_code e i ty PostByte l =
     DI_LET d_ctx (\<lambda>c.
     let isMMX = (ty = diana_orRegMMX); isK = (ty = diana_orRegK); vec = (Diana_VectorTypeSize ty \<noteq> 0) in
     if takes_vvvv c e i ty then
       let code = DIANA_VEX_VVVV_REG c in
       if isK then
         if (iAMD64Mode c \<noteq> 0 \<and> code AND 8 \<noteq> 0) \<or> iEvexPrefix c AND DI_EVEX_PREFIX_V1 \<noteq> 0 then DI_FAIL DI_ERROR else DI_RETURN (code, l)
       else DI_RETURN (code OR DIANA_EVEX_BIT4 c DI_EVEX_PREFIX_V1, l)
     else if \<not> iExtensionUsed e \<and> \<not> l_iRegFieldUsed l then
       let l = l\<lparr>l_iRegFieldUsed := True\<rparr>; code = (if isMMX then Diana_GetReg PostByte else Diana_GetReg2 c PostByte) in
       if isK then if code AND 8 \<noteq> 0 \<or> iEvexPrefix c AND DI_EVEX_PREFIX_R1 \<noteq> 0 then DI_FAIL DI_ERROR else DI_RETURN (code, l)
       else if vec then DI_RETURN (code OR DIANA_EVEX_BIT4 c DI_EVEX_PREFIX_R1, l)
       else if iEvexPrefix c AND DI_EVEX_PREFIX_R1 \<noteq> 0 then DI_FAIL DI_ERROR
       else DI_RETURN (code, l)
     else if Diana_GetMod PostByte \<noteq> 3 then DI_FAIL DI_ERROR
     else
       let code = (if isMMX then Diana_GetRm PostByte else Diana_GetRm2 c PostByte) in
       DI_RETURN (if isK then code AND 7 else if vec then code OR DIANA_EVEX_BIT4 c DI_EVEX_PREFIX_X else code, l))"

definition link_vector :: "DianaCmdEntry \<Rightarrow> nat \<Rightarrow> DecoderOperand \<Rightarrow> LinkLocals \<Rightarrow> 's linked" where
  "link_vector e i p l =
     (let ty = m_type (op_info p); vec = Diana_VectorTypeSize ty in
      case l_PostByte l of
        None \<Rightarrow> DI_FAIL DI_ERROR
      | Some PostByte \<Rightarrow>
          DI_CHECK (vector_code e i ty PostByte l) (\<lambda>(code, l).
          if vec \<noteq> 0 then link_value (p\<lparr>usedSize := vec\<rparr>) l (diana_register (Diana_VectorRegister vec (uint code)))
          else if ty = diana_orRegK then link_value (p\<lparr>usedSize := 8\<rparr>) l (diana_register (reg_K0 + uint (code AND 7)))
          else if ty = diana_orRegMMX then link_value (p\<lparr>usedSize := 8\<rparr>) l (diana_register (reg_MM0 + uint code))
          else DI_LET (\<lambda>d. iRexPrefix (d_ctx d) \<noteq> 0) (\<lambda>rex. link_register p l (DianaRecognizeCommonReg (usedSize p) code rex))))"

definition link_operand :: "DianaCmdEntry \<Rightarrow> nat \<Rightarrow> DecoderOperand \<Rightarrow> LinkLocals \<Rightarrow> 's linked" where
  "link_operand e i p l =
     DI_LET d_ctx (\<lambda>c.
     case m_type (op_info p) of
       diana_orRegistry \<Rightarrow> link_registry e p l
     | diana_orRegMem_exact \<Rightarrow> link_regmem e i p l
     | diana_orMemOnly \<Rightarrow> link_regmem e i p l
     | diana_orReg32mem16 \<Rightarrow> link_regmem e i p l
     | diana_orReg16_32_64_mem16 \<Rightarrow> link_regmem e i p l
     | diana_orMemoryMMX \<Rightarrow> link_regmem e i p l
     | diana_orMemoryXMM \<Rightarrow> link_regmem e i p l
     | diana_orMemoryYMM \<Rightarrow> link_regmem e i p l
     | diana_orMemoryZMM \<Rightarrow> link_regmem e i p l
     | diana_orMemoryK \<Rightarrow> link_regmem e i p l
     | diana_orVSIB \<Rightarrow> link_regmem e i p l
     | diana_orRegMem \<Rightarrow> link_regmem e i p l
     | diana_orImmediate \<Rightarrow> if m_op_value (op_info p) = DI_CHAR_NULL then link_imm i p l else link_value p l (diana_imm (ucast (m_op_value (op_info p))))
     | diana_orEAX \<Rightarrow> link_register p l (accumulator (usedSize p))
     | diana_orDX \<Rightarrow> link_value p l (diana_register reg_DX)
     | diana_orECX \<Rightarrow>
         let p = (if length (m_operands e) = 2 \<and> m_type (m_operands e ! 1) = diana_orRel then p\<lparr>usedSize := usedAddressSize p\<rparr> else p)
         in link_register p l (counter (usedSize p))
     | diana_orSreg \<Rightarrow> link_sreg p l
     | diana_orOffset \<Rightarrow>
         link_value p (l\<lparr>l_pLinkedDispOp := Some i, l_iDispIsSigned := False\<rparr>)
           (diana_index (plain_index (currentCmd_sreg c) reg_none (word_of_int (iCurrentCmd_addressSize c))))
     | diana_orAnyCR \<Rightarrow> link_register p l (Diana_RecognizeCreg (l_RegCode l))
     | diana_orDR6or7 \<Rightarrow> link_register p l (Diana_RecognizeDreg (l_RegCode l))
     | diana_orTR6or7 \<Rightarrow> link_register p l (Diana_RecognizeTreg (l_RegCode l))
     | diana_orPtr \<Rightarrow> link_ptr e p l
     | diana_orRel \<Rightarrow> link_rel e p l
     | diana_orRel16x32 \<Rightarrow> link_rel e p l
     | diana_orMemory_exact \<Rightarrow> link_memory i p l
     | diana_orMemory16x32 \<Rightarrow> link_memory i p l
     | diana_orMemory \<Rightarrow> link_memory i p l
     | diana_orCL \<Rightarrow> link_value p l (diana_register reg_CL)
     | diana_orESI_ptr \<Rightarrow>
         (case Diana_GetSI (usedAddressSize p) of None \<Rightarrow> DI_FAIL DI_ERROR | Some r \<Rightarrow> link_value p l (diana_index (plain_index (currentCmd_sreg c) r 0)))
     | diana_orEsDi \<Rightarrow>
         (case Diana_GetDI (usedAddressSize p) of None \<Rightarrow> DI_FAIL DI_ERROR | Some r \<Rightarrow> link_value p l (diana_index (plain_index reg_ES r 0)))
     | diana_orFPU_ST0 \<Rightarrow> link_value p l (diana_register reg_fpu_ST0)
     | diana_orFPU_ST \<Rightarrow> link_value p l (diana_register reg_fpu_ST0)
     | diana_orFPU_STi \<Rightarrow>
         if l_fpuRegCode l = DI_CHAR_NULL then DI_FAIL DI_ERROR else link_value p l (diana_register (reg_fpu_ST0 + uint (l_fpuRegCode l)))
     | diana_orXMM0 \<Rightarrow> link_value (p\<lparr>usedSize := 16\<rparr>) l (diana_register reg_XMM0)
     | diana_orRegIs4 \<Rightarrow> link_imm i (p\<lparr>usedSize := 1\<rparr>) (l\<lparr>l_pLinkedIs4Op := Some i\<rparr>)
     | diana_orRegXMM \<Rightarrow> link_vector e i p l
     | diana_orRegYMM \<Rightarrow> link_vector e i p l
     | diana_orRegZMM \<Rightarrow> link_vector e i p l
     | diana_orRegK \<Rightarrow> link_vector e i p l
     | diana_orRegMMX \<Rightarrow> link_vector e i p l
     | diana_orRegistry32 \<Rightarrow> link_vector e i p l
     | diana_orNone \<Rightarrow> DI_FAIL DI_ERROR)"

section \<open>All operands\<close>

text \<open>The operands of the entry from number \<open>i\<close> on; there is room for \<^verbatim>\<open>DI_MAX_OPERANDS_COUNT\<close>.\<close>

fun link_loop :: "DianaCmdEntry \<Rightarrow> nat \<Rightarrow> DianaOperandInfo list \<Rightarrow> LinkLocals \<Rightarrow> (LinkLocals, 's) dec" where
  "link_loop e i [] l = DI_RETURN l"
| "link_loop e i (info # infos) l =
     DI_LET (\<lambda>d. (length (d_operands (d_res d)), new_operand (d_ctx d) e info)) (\<lambda>(count, p).
     if count \<ge> DI_MAX_OPERANDS_COUNT then DI_FAIL C_UNDEFINED
     else
     DI_CHECK (link_operand e i p l) (\<lambda>(p, l).
     DI_DO (upd_res (\<lambda>r. r\<lparr>d_operands := d_operands r @ [p]\<rparr>))
     (link_loop e (Suc i) infos l)))"

definition upd_operand :: "nat \<Rightarrow> (DecoderOperand \<Rightarrow> DecoderOperand) \<Rightarrow> 's Decoder \<Rightarrow> 's Decoder" where
  "upd_operand i f = upd_res (\<lambda>r. r\<lparr>d_operands := (d_operands r)[i := f (d_operands r ! i)]\<rparr>)"

fun set_disp :: "(u64 \<Rightarrow> u64) \<Rightarrow> DianaOperandValue \<Rightarrow> DianaOperandValue" where
  "set_disp f (diana_index ix) = diana_index (ix\<lparr>dispValue := f (dispValue ix)\<rparr>)"
| "set_disp f (diana_memory ix) = diana_memory (ix\<lparr>dispValue := f (dispValue ix)\<rparr>)"
| "set_disp f v = v"

fun disp_size :: "DianaOperandValue \<Rightarrow> int" where
  "disp_size (diana_index ix) = uint (dispSize ix)"
| "disp_size (diana_memory ix) = uint (dispSize ix)"
| "disp_size v = 0"

text \<open>The displacement; the scale of EVEX is recorded even when the read fails.\<close>

definition read_disp :: "LinkLocals \<Rightarrow> nat \<Rightarrow> (LinkLocals, 's) dec" where
  "read_disp l i =
     DI_LET (\<lambda>d. (disp_size (op_value (d_operands (d_res d) ! i)), iEvexPrefix (d_ctx d) \<noteq> 0)) (\<lambda>(n, evex).
     DI_DO (upd_operand i (\<lambda>p. p\<lparr>iOffset := l_iCurOffset l\<rparr>)) (
     DI_CHECK (DianaReadValueAsLong n (l_iDispIsSigned l)) (\<lambda>v.
     let v = (if evex \<and> n = 1 \<and> l_iEvexDisp8Scale l > 1 then v * word_of_int (l_iEvexDisp8Scale l) else v) in
     DI_DO (upd_operand i (\<lambda>p. p\<lparr>op_value := set_disp (\<lambda>_. v) (op_value p)\<rparr>))
     (DI_RETURN (l\<lparr>l_iCurOffset := l_iCurOffset l + n\<rparr>)))))"

definition record_scale :: "LinkLocals \<Rightarrow> 's Decoder \<Rightarrow> 's Decoder" where
  "record_scale l d =
     (if iEvexPrefix (d_ctx d) \<noteq> 0 then upd_res (\<lambda>r. r\<lparr>d_evex := (d_evex r)\<lparr>evex_disp8Scale := l_iEvexDisp8Scale l mod 256\<rparr>\<rparr>) d else d)"

definition link_disp :: "LinkLocals \<Rightarrow> (LinkLocals, 's) dec" where
  "link_disp l d =
     (case (case l_pLinkedDispOp l of None \<Rightarrow> Ok l d | Some i \<Rightarrow> read_disp l i d) of
        Ok l' d \<Rightarrow> Ok l' (record_scale l d)
      | Err x d \<Rightarrow> Err x (record_scale l d))"

text \<open>
  The immediates: the size that the entry gives when it is one byte, else the operand size, cut to four bytes unless the entry has a 64-bit
  immediate.  The loop goes on after a failed read; the status is that of the last read.
\<close>

definition read_imm :: "DianaCmdEntry \<Rightarrow> u8 \<Rightarrow> nat \<Rightarrow> int \<Rightarrow> (int, 's) dec" where
  "read_imm e imm_size i offset =
     DI_LET (\<lambda>d. usedSize (d_operands (d_res d) ! i)) (\<lambda>used.
     let narrow = (imm_size \<noteq> 1 \<and> used = 8 \<and> \<not> entry_flag e DI_FLAG_CMD_SUPPORTS_IMM64);
         n = (if imm_size = 1 then 1 else if narrow then 4 else used)
     in DI_DO (upd_operand i (\<lambda>p. p\<lparr>usedSize := (if narrow then 4 else usedSize p), iOffset := offset\<rparr>))
        (\<lambda>d. case DianaReadValueAsLong n False d of
           Ok v d \<Rightarrow> Ok (offset + n) (upd_operand i (\<lambda>p. p\<lparr>op_value := diana_imm v\<rparr>) d)
         | Err x d \<Rightarrow> Err x d))"

definition imm_offset :: "DianaCmdEntry \<Rightarrow> u8 \<Rightarrow> nat \<Rightarrow> 's Decoder \<Rightarrow> int" where
  "imm_offset e imm_size i d =
     (let used = usedSize (d_operands (d_res d) ! i)
      in if imm_size = 1 then 1 else if used = 8 \<and> \<not> entry_flag e DI_FLAG_CMD_SUPPORTS_IMM64 then 4 else used)"

definition link_imms :: "DianaCmdEntry \<Rightarrow> LinkLocals \<Rightarrow> (unit, 's) dec" where
  "link_imms e l =
     (case l_pLinkedImmOp l of
        [] \<Rightarrow> DI_PROC_END
      | [i] \<Rightarrow> DI_CHECK (read_imm e (m_iImmediateOperandSizeInBytes e) i (l_iCurOffset l)) (\<lambda>_. DI_PROC_END)
      | i # j # _ \<Rightarrow>
          (\<lambda>d. let offset = l_iCurOffset l + imm_offset e (m_iImmediateOperandSizeInBytes e) i d;
                   first = read_imm e (m_iImmediateOperandSizeInBytes e) i (l_iCurOffset l) d
               in case first of
                    Err C_UNDEFINED d \<Rightarrow> Err C_UNDEFINED d
                  | _ \<Rightarrow> DI_CHECK (read_imm e (m_iImmediateOperandSizeInBytes2 e) j offset) (\<lambda>_. DI_PROC_END) (res_state first)))"

text \<open>A register in the upper half of the immediate.\<close>

definition link_is4 :: "LinkLocals \<Rightarrow> 's Decoder \<Rightarrow> 's Decoder" where
  "link_is4 l d =
     (case l_pLinkedIs4Op l of
        None \<Rightarrow> d
      | Some i \<Rightarrow>
          let p = d_operands (d_res d) ! i;
              code = drop_bit 4 (imm (op_value p)) AND (if amd64 d then 0xF else 7);
              n = (if m_op_size (op_info p) = 32 then 32 else 16)
          in upd_operand i (\<lambda>p. p\<lparr>op_value := diana_register ((if n = 32 then reg_YMM0 else reg_XMM0) + uint code), usedSize := n\<rparr>) d)"

definition Diana_LinkOperands :: "DianaCmdEntry \<Rightarrow> (unit, 's) dec" where
  "Diana_LinkOperands e =
     DI_DO (upd_ctx (link_rex e)) (
     DI_CHECK (link_opcode e) (\<lambda>l.
     DI_DO (upd_ctx (link_opsize e)) (
     DI_CHECK (link_loop e 0 (m_operands e) l) (\<lambda>l.
     DI_CHECK (link_disp l) (\<lambda>l.
     DI_CHECK (link_imms e l) (\<lambda>_.
     DI_DO (link_is4 l)
     DI_PROC_END))))))"

end
