(* ===== verification/Decoder_Search.thy ===== *)
theory Decoder_Search
  imports Decoder_Operands
begin

unbundle bit_operations_syntax

text \<open>
  The search of the instruction table (\<^verbatim>\<open>diana_core_parsers.c\<close>): a depth-first walk over lines and indexes with the bytes of the cache, which goes
  back to the last choice when no entry fits, and the proof that the walk ends.
\<close>

section \<open>Keys and states\<close>

text \<open>The opcode byte and the byte after it, if there is one.\<close>

type_synonym DianaParserCmdKey = "u8 \<times> u8 option"

record DianaParserContextState =
  pLine :: DianaGenObject
  position :: int
  opcodePosition :: int

text \<open>The current state is the head of the list.\<close>

record DianaParserContext =
  states :: "DianaParserContextState list"
  pc_result :: "DianaCmdEntry option"

definition DianaParserContext_Init :: "DianaGenObject \<Rightarrow> int \<Rightarrow> DianaParserContext" where
  "DianaParserContext_Init line it = \<lparr>states = [\<lparr>pLine = line, position = -1, opcodePosition = it\<rparr>], pc_result = None\<rparr>"

text \<open>
  The check of \<^verbatim>\<open>DianaParserContext_PushOpcode\<close> comes before the increment, so that the state after the last one of the array is written: \<open>C_UNDEFINED\<close>.
\<close>

definition DianaParserContext_PushOpcode :: "DianaGenObject \<Rightarrow> int \<Rightarrow> DianaParserContext \<Rightarrow> di_error + DianaParserContext" where
  "DianaParserContext_PushOpcode line opos pc =
     (let currentState = length (states pc) - 1 in
      if currentState \<ge> DI_MAX_LINES_COUNT then Inr pc
      else if Suc currentState \<ge> DI_MAX_LINES_COUNT then Inl C_UNDEFINED
      else Inr (pc\<lparr>states := \<lparr>pLine = line, position = -1, opcodePosition = opos\<rparr> # states pc\<rparr>))"

definition GetKeyByAddress :: "DecoderContext \<Rightarrow> int \<Rightarrow> DianaParserCmdKey option" where
  "GetKeyByAddress c it =
     (let more = (cacheIt c + cacheSize c - it - 1 \<noteq> 0) in
      if it < 0 \<or> it + (if more then 1 else 0) \<ge> int (length (cache c)) then None
      else Some (cache c ! nat it, if more then Some (cache c ! nat (it + 1)) else None))"

definition TryMatchKey :: "DecoderContext \<Rightarrow> DianaCmdEntry \<Rightarrow> bool" where
  "TryMatchKey c e \<longleftrightarrow>
     \<not> (entry_flag e DI_FLAG_CMD_TEST_MODE_ONLY \<and> \<not> testMode c) \<and>
     (\<not> entry_flag e (DI_FLAG_CMD_AMD64 OR DI_FLAG_CMD_I386) \<or>
      (entry_flag e DI_FLAG_CMD_AMD64 \<and> iMainMode_addressSize c = DIANA_MODE64) \<or>
      (entry_flag e DI_FLAG_CMD_I386 \<and> iMainMode_addressSize c \<noteq> DIANA_MODE64))"

definition AreKeysGood :: "DianaCmdEntry \<Rightarrow> DianaParserCmdKey \<Rightarrow> bool" where
  "AreKeysGood e key \<longleftrightarrow>
     (case snd key of
        None \<Rightarrow> \<not> entry_flag e DI_FLAG_CMD_POSTBYTE_USED \<and> m_extension_mask e = 0 \<and> m_extension_deny_mask e = 0
      | Some x \<Rightarrow>
          (m_extension_mask e \<noteq> 0 \<longrightarrow> m_extension e AND m_extension_mask e = m_extension_mask e AND x) \<and>
          (m_extension_deny_mask e \<noteq> 0 \<longrightarrow> m_extension e AND m_extension_deny_mask e \<noteq> m_extension_deny_mask e AND x))"

text \<open>A VEX entry only after a VEX prefix and the others only without, the same for EVEX, and the entry's W.\<close>

definition vex_fits :: "DecoderContext \<Rightarrow> DianaCmdEntry \<Rightarrow> bool" where
  "vex_fits c e \<longleftrightarrow>
     (entry_flag e DI_FLAG_CMD_VEX_ENCODED \<longleftrightarrow> iVexPrefix c \<noteq> 0) \<and>
     (m_gen_flags e AND DIANA_BASE_GEN_OBJECT_EVEX \<noteq> 0 \<longleftrightarrow> iEvexPrefix c \<noteq> 0) \<and>
     \<not> (m_gen_flags e AND DIANA_BASE_GEN_OBJECT_VEX_W0 \<noteq> 0 \<and> iVexPrefix c AND DI_VEX_PREFIX_W \<noteq> 0) \<and>
     \<not> (m_gen_flags e AND DIANA_BASE_GEN_OBJECT_VEX_W1 \<noteq> 0 \<and> iVexPrefix c AND DI_VEX_PREFIX_W = 0)"

definition entry_matches :: "DecoderContext \<Rightarrow> DianaParserCmdKey \<Rightarrow> DianaCmdEntry \<Rightarrow> bool" where
  "entry_matches c key e \<longleftrightarrow> TryMatchKey c e \<and> AreKeysGood e key \<and> vex_fits c e"

section \<open>One step\<close>

text \<open>
  The result says whether the key was good for something and whether the line has to be searched with the same byte.  The search never ignores
  sub-lines.
\<close>

definition DispatchKey :: "DecoderContext \<Rightarrow> DianaParserCmdKey \<Rightarrow> int \<Rightarrow> DianaGenObject option \<Rightarrow> DianaParserContext \<Rightarrow> di_error + (bool \<times> bool \<times> DianaParserContext)" where
  "DispatchKey c key opos obj pc =
     (case obj of
        None \<Rightarrow> Inr (False, False, pc)
      | Some (GenCmd e) \<Rightarrow> if entry_matches c key e then Inr (True, False, pc\<lparr>pc_result := Some e\<rparr>) else Inr (False, False, pc)
      | Some line \<Rightarrow>
          let same = (gen_flags line AND DIANA_BASE_GEN_OBJECT_THE_SAME_OPCODE \<noteq> 0) in
          (case DianaParserContext_PushOpcode line (if same then opos else opos + 1) pc of
             Inl x \<Rightarrow> Inl x
           | Inr pc \<Rightarrow> Inr (True, same, pc)))"

definition set_position :: "int \<Rightarrow> DianaParserContext \<Rightarrow> DianaParserContext" where
  "set_position j pc = (case states pc of [] \<Rightarrow> pc | s # ss \<Rightarrow> pc\<lparr>states := s\<lparr>position := j\<rparr> # ss\<rparr>)"

text \<open>The keys of a line from number \<open>j\<close> on.\<close>

fun scan_line :: "DecoderContext \<Rightarrow> DianaParserCmdKey \<Rightarrow> int \<Rightarrow> (u8 \<times> DianaGenObject option) list \<Rightarrow> int \<Rightarrow> DianaParserContext \<Rightarrow> di_error + (bool \<times> DianaParserContext)" where
  "scan_line c key opos [] j pc = Inr (False, set_position j pc)"
| "scan_line c key opos ((opcode, obj) # ks) j pc =
     (if opcode \<noteq> fst key then scan_line c key opos ks (j + 1) pc
      else case DispatchKey c key opos obj (set_position j pc) of
        Inl x \<Rightarrow> Inl x
      | Inr (True, _, pc') \<Rightarrow> Inr (True, pc')
      | Inr (False, _, pc') \<Rightarrow> scan_line c key opos ks (j + 1) pc')"

text \<open>
  A line entered with the same byte is scanned from position -1.  \<^verbatim>\<open>pLine->key[-1]\<close> is not an element of the array; in the layout of 64-bit builds its field \<^verbatim>\<open>opcode\<close> is the first byte of the line's
  own head, the type of a line, which is 2, and its pointer lies before the line.  The model reads that byte: for any other opcode byte the search goes on at the first key, for 2 the pointer
  would be followed, which is \<open>C_UNDEFINED\<close>.
\<close>

abbreviation (input) DIANA_BASE_GEN_OBJECT_LINE :: u8 where "DIANA_BASE_GEN_OBJECT_LINE \<equiv> 2"

definition scan_from :: "DecoderContext \<Rightarrow> DianaParserCmdKey \<Rightarrow> int \<Rightarrow> DianaParserContext \<Rightarrow> di_error + (bool \<times> DianaParserContext)" where
  "scan_from c key opos pc =
     (case states pc of
        [] \<Rightarrow> Inr (False, pc)
      | s # _ \<Rightarrow>
          (case pLine s of
             GenLine _ ks \<Rightarrow>
               if position s < 0 then if fst key = DIANA_BASE_GEN_OBJECT_LINE then Inl C_UNDEFINED else scan_line c key opos ks 0 pc
               else scan_line c key opos (drop (nat (position s)) ks) (position s) pc
           | _ \<Rightarrow> Inr (False, pc)))"

definition FindNextCmdKey :: "DecoderContext \<Rightarrow> DianaParserCmdKey \<Rightarrow> int \<Rightarrow> DianaParserContext \<Rightarrow> di_error + (bool \<times> DianaParserContext)" where
  "FindNextCmdKey c key opos pc =
     (case states pc of
        [] \<Rightarrow> Inr (False, pc)
      | s # _ \<Rightarrow>
          let p = position s + 1; pc = (set_position p pc)\<lparr>pc_result := None\<rparr> in
          (case pLine s of
             GenIndex _ f \<Rightarrow>
               if p > uint (fst key) then Inr (False, pc)
               else (case DispatchKey c key opos (f (fst key)) (set_position (uint (fst key)) pc) of
                       Inl x \<Rightarrow> Inl x
                     | Inr (False, _, pc) \<Rightarrow> Inr (False, pc)
                     | Inr (True, retry, pc) \<Rightarrow> if retry then scan_from c key opos pc else Inr (True, pc))
           | GenLine _ ks \<Rightarrow> scan_from c key opos pc
           | GenCmd _ \<Rightarrow> Inr (False, pc)))"

section \<open>The walk ends\<close>

text \<open>The work left in a table, and in a state of the search.\<close>

definition weight_opt :: "nat option \<Rightarrow> nat" where
  "weight_opt x = Suc (case x of None \<Rightarrow> 0 | Some n \<Rightarrow> n)"

primrec weight :: "DianaGenObject \<Rightarrow> nat" where
  "weight (GenCmd e) = 1"
| "weight (GenLine fl ks) = Suc (sum_list (map (\<lambda>k. weight_opt (snd k)) (map (map_prod id (map_option weight)) ks)))"
| "weight (GenIndex fl f) = Suc (\<Sum>k\<in>UNIV. weight_opt ((map_option weight \<circ> f) k))"

definition key_weight :: "DianaGenObject option \<Rightarrow> nat" where
  "key_weight x = weight_opt (map_option weight x)"

definition state_weight :: "DianaParserContextState \<Rightarrow> nat" where
  "state_weight s =
     (case pLine s of
        GenCmd _ \<Rightarrow> 1
      | GenLine _ ks \<Rightarrow> Suc (sum_list (map (\<lambda>k. key_weight (snd k)) (drop (nat (position s + 1)) ks)))
      | GenIndex _ f \<Rightarrow> Suc (\<Sum>k \<in> {k. position s < uint k}. key_weight (f k)))"

definition search_weight :: "DianaParserContext \<Rightarrow> nat" where
  "search_weight pc = sum_list (map state_weight (states pc))"

lemma weight_pos: "0 < weight x"
  by (cases x) simp_all

lemma state_weight_new: "state_weight \<lparr>pLine = x, position = -1, opcodePosition = i\<rparr> = weight x"
proof (cases x)
  case (GenIndex fl f)
  have "{k :: u8. -1 < uint k} = UNIV"
    using uint_lt_0 by (auto intro: order.strict_trans2 [of "-1 :: int" 0])
  then show ?thesis by (simp add: GenIndex state_weight_def key_weight_def)
qed (simp_all add: state_weight_def key_weight_def comp_def)

definition line_weight :: "(u8 \<times> DianaGenObject option) list \<Rightarrow> nat" where
  "line_weight ks = sum_list (map (\<lambda>k. key_weight (snd k)) ks)"

lemma line_weight_simps [simp]: "line_weight [] = 0" "line_weight (k # ks) = key_weight (snd k) + line_weight ks"
  by (simp_all add: line_weight_def)

lemma state_weight_line: "pLine s = GenLine fl ks \<Longrightarrow> state_weight s = Suc (line_weight (drop (nat (position s + 1)) ks))"
  by (simp add: state_weight_def line_weight_def)

lemma state_weight_index: "pLine s = GenIndex fl f \<Longrightarrow> state_weight s = Suc (\<Sum>k \<in> {k. position s < uint k}. key_weight (f k))"
  by (simp add: state_weight_def)

lemma state_weight_pos: "0 < state_weight s"
  by (cases "pLine s") (simp_all add: state_weight_def)

lemma states_set_position: "states pc = s # ss \<Longrightarrow> states (set_position j pc) = s\<lparr>position := j\<rparr> # ss"
  by (simp add: set_position_def)

lemma key_weight_pos: "0 < key_weight x"
  by (simp add: key_weight_def weight_opt_def)

lemma PushOpcode_weight:
  "DianaParserContext_PushOpcode line opos pc = Inr pc' \<Longrightarrow> search_weight pc' \<le> search_weight pc + weight line"
  by (auto simp: DianaParserContext_PushOpcode_def search_weight_def state_weight_new Let_def split: if_splits)

lemma DispatchKey_weight:
  assumes "DispatchKey c key opos obj pc = Inr (b, r, pc')"
  shows "search_weight pc' < search_weight pc + key_weight obj"
proof (cases obj)
  case None
  with assms key_weight_pos show ?thesis by (auto simp: DispatchKey_def search_weight_def)
next
  case (Some x)
  then have "key_weight obj = Suc (weight x)" by (simp add: key_weight_def weight_opt_def)
  with Some assms show ?thesis
    by (cases x) (auto simp: DispatchKey_def search_weight_def Let_def split: if_splits sum.splits dest!: PushOpcode_weight [unfolded search_weight_def])
qed

lemma DispatchKey_False: "DispatchKey c key opos obj pc = Inr (False, r, pc') \<Longrightarrow> pc' = pc"
  by (auto simp: DispatchKey_def Let_def split: option.splits DianaGenObject.splits if_splits sum.splits)

lemma scan_line_weight:
  assumes "states pc = s # ss" "pLine s = GenLine fl all" "0 \<le> j" "drop (nat j) all = ks" "scan_line c key opos ks j pc = Inr (b, pc')"
  shows "search_weight pc' + (if b then 1 else 0) \<le> Suc (line_weight ks) + sum_list (map state_weight ss)"
  using assms
proof (induction c key opos ks j pc arbitrary: s rule: scan_line.induct)
  case (1 c key opos j pc)
  then show ?case
    by (auto simp: search_weight_def states_set_position state_weight_line nat_add_distrib)
next
  case (2 c key opos opcode obj ks j pc)
  have next_ks: "drop (nat (j + 1)) all = ks"
    using 2(5,6) by (simp add: nat_add_distrib drop_Suc flip: tl_drop)
  show ?case
  proof (cases "opcode = fst key")
    case False
    then show ?thesis using 2(1) [OF _ 2(3,4) _ next_ks] 2(5,7) by force
  next
    case True
    let ?pc = "set_position j pc"
    have at: "search_weight ?pc = Suc (line_weight ks) + sum_list (map state_weight ss)"
      using 2(3,4) next_ks 2(5) by (simp add: search_weight_def states_set_position state_weight_line)
    obtain b' r pc1 where d: "DispatchKey c key opos obj ?pc = Inr (b', r, pc1)"
      using 2(7) True by (cases "DispatchKey c key opos obj ?pc") auto
    show ?thesis
    proof (cases b')
      case True
      with d 2(7) \<open>opcode = fst key\<close> have "b" "pc' = pc1" by auto
      with DispatchKey_weight [OF d] at show ?thesis by simp
    next
      case False
      with d have d': "DispatchKey c key opos obj ?pc = Inr (False, r, ?pc)"
        using DispatchKey_False [of c key opos obj ?pc r pc1] by simp
      with 2(7) True have "scan_line c key opos ks (j + 1) ?pc = Inr (b, pc')" by simp
      from 2(2) [OF _ d' refl refl _ states_set_position [OF 2(3)] _ _ next_ks this] True 2(4,5)
      show ?thesis by simp
    qed
  qed
qed

lemma set_position_weight:
  assumes "states pc = s # ss" "position s \<le> j"
  shows "search_weight (set_position j pc) \<le> search_weight pc"
proof -
  have "state_weight (s\<lparr>position := j\<rparr>) \<le> state_weight s"
  proof (cases "pLine s")
    case (GenLine fl ks)
    have "line_weight (drop (nat (j + 1)) ks) \<le> line_weight (drop (nat (position s + 1)) ks)"
    proof -
      have "line_weight (drop m xs) \<le> line_weight xs" for m xs
        by (induction xs arbitrary: m) (auto simp: drop_Cons' trans_le_add2)
      from this [of "nat (j + 1) - nat (position s + 1)" "drop (nat (position s + 1)) ks"] show ?thesis
        using assms(2) by (simp add: nat_mono)
    qed
    then show ?thesis using state_weight_line [of _ fl ks] GenLine by simp
  next
    case (GenIndex fl f)
    have "(\<Sum>k \<in> {k. j < uint k}. key_weight (f k)) \<le> (\<Sum>k \<in> {k. position s < uint k}. key_weight (f k))"
      using assms(2) by (intro sum_mono2) auto
    then show ?thesis using state_weight_index [of _ fl f] GenIndex by simp
  qed (simp add: state_weight_def)
  then show ?thesis using assms(1) by (simp add: search_weight_def states_set_position)
qed

text \<open>Moving an index to the byte's key gives up that key's weight.\<close>

lemma index_step_weight:
  assumes "states pc = s # ss" "pLine s = GenIndex fl f" "position s < uint k"
  shows "search_weight (set_position (uint k) pc) + key_weight (f k) \<le> search_weight pc"
proof -
  have "(\<Sum>i \<in> insert k {i. uint k < uint i}. key_weight (f i)) \<le> (\<Sum>i \<in> {i. position s < uint i}. key_weight (f i))"
    using assms(3) by (intro sum_mono2) auto
  then show ?thesis
    using assms(1,2) by (simp add: search_weight_def states_set_position state_weight_index [of _ fl f])
qed

lemma scan_from_weight:
  assumes "scan_from c key opos pc = Inr (b, pc')" "states pc = s # ss"
    "\<And>fl ks. pLine s = GenLine fl ks \<Longrightarrow> W = Suc (line_weight (drop (nat (position s)) ks)) + sum_list (map state_weight ss)"
    "search_weight pc \<le> W"
  shows "search_weight pc' + (if b then 1 else 0) \<le> W"
proof (cases "pLine s")
  case (GenLine fl ks)
  show ?thesis
  proof (cases "position s < 0")
    case True
    then show ?thesis
      using assms scan_line_weight [OF assms(2) GenLine, of 0 ks c key opos b pc'] by (auto simp: scan_from_def GenLine split: if_splits)
  next
    case False
    then show ?thesis
      using assms scan_line_weight [OF assms(2) GenLine, of "position s" "drop (nat (position s)) ks" c key opos b pc']
      by (auto simp: scan_from_def GenLine)
  qed
qed (use assms in \<open>auto simp: scan_from_def\<close>)

lemma DispatchKey_head:
  assumes "DispatchKey c key opos obj pc = Inr (b, True, pc')" "states pc = s # ss"
  shows "states pc' = states pc \<or> (\<exists>x i. states pc' = \<lparr>pLine = x, position = -1, opcodePosition = i\<rparr> # states pc)"
  using assms
  by (auto simp: DispatchKey_def DianaParserContext_PushOpcode_def Let_def split: option.splits DianaGenObject.splits if_splits sum.splits)

lemma FindNextCmdKey_weight:
  assumes "FindNextCmdKey c key opos pc = Inr (b, pc')"
  shows "search_weight pc' + (if b then 1 else 0) \<le> search_weight pc"
proof (cases "states pc")
  case Nil
  with assms show ?thesis by (auto simp: FindNextCmdKey_def)
next
  case (Cons s ss)
  let ?pc = "\<lambda>p. (set_position p pc)\<lparr>pc_result := None\<rparr>"
  have same: "search_weight (?pc p) = search_weight (set_position p pc)" "states (?pc p) = s\<lparr>position := p\<rparr> # ss" for p
    using Cons by (simp_all add: search_weight_def states_set_position)
  note step = set_position_weight [OF Cons, of "position s + 1"]
  show ?thesis
  proof (cases "pLine s")
    case (GenCmd e)
    with assms Cons same step show ?thesis by (auto simp: FindNextCmdKey_def Let_def)
  next
    case (GenLine fl ks)
    with assms Cons have run: "scan_from c key opos (?pc (position s + 1)) = Inr (b, pc')"
      by (simp add: FindNextCmdKey_def Let_def)
    have "search_weight pc = Suc (line_weight (drop (nat (position s + 1)) ks)) + sum_list (map state_weight ss)"
      using Cons state_weight_line [OF GenLine] by (simp add: search_weight_def)
    then show ?thesis
      using step same(1) [of "position s + 1"] GenLine by (intro scan_from_weight [OF run same(2)]) simp_all
  next
    case (GenIndex fl f)
    let ?k = "fst key" and ?p0 = "set_position (uint (fst key)) (?pc (position s + 1))"
    show ?thesis
    proof (cases "position s + 1 > uint ?k")
      case True
      with assms Cons GenIndex same step show ?thesis by (auto simp: FindNextCmdKey_def Let_def)
    next
      case False
      have p0: "search_weight ?p0 = search_weight (set_position (uint ?k) pc)" "states ?p0 = s\<lparr>position := uint ?k\<rparr> # ss"
        using Cons by (simp_all add: search_weight_def states_set_position same(2))
      have le: "search_weight ?p0 + key_weight (f ?k) \<le> search_weight pc"
        using index_step_weight [OF Cons GenIndex, of ?k] False p0(1) by simp
      obtain b1 r pc1 where d: "DispatchKey c key opos (f ?k) ?p0 = Inr (b1, r, pc1)"
        using assms Cons GenIndex False by (cases "DispatchKey c key opos (f ?k) ?p0") (auto simp: FindNextCmdKey_def Let_def)
      note less = DispatchKey_weight [OF d]
      show ?thesis
      proof (cases "b1 \<and> r")
        case True
        with assms Cons GenIndex False d have run: "scan_from c key opos pc1 = Inr (b, pc')"
          by (simp add: FindNextCmdKey_def Let_def)
        obtain s1 ss1 where s1: "states pc1 = s1 # ss1" "s1 = s\<lparr>position := uint ?k\<rparr> \<or> position s1 = -1"
          using DispatchKey_head [of c key opos "f ?k" ?p0 b1 pc1] d True p0(2) by auto
        have "search_weight pc' + (if b then 1 else 0) \<le> search_weight pc1"
        proof (rule scan_from_weight [OF run s1(1)])
          fix fl' ks
          assume ks: "pLine s1 = GenLine fl' ks"
          with s1(2) GenIndex have "position s1 = -1" by auto
          with ks s1(1) show "search_weight pc1 = Suc (line_weight (drop (nat (position s1)) ks)) + sum_list (map state_weight ss1)"
            using state_weight_line [OF ks] by (simp add: search_weight_def)
        qed simp
        with less le show ?thesis by simp
      next
        case nr: False
        with assms Cons GenIndex False d have "pc' = pc1"
          by (cases b1) (auto simp: FindNextCmdKey_def Let_def)
        with less le show ?thesis by simp
      qed
    qed
  qed
qed

section \<open>The search\<close>

text \<open>Going back one state; the search is over when there is none.\<close>

definition FindNextCmdKey_Rollback :: "DianaParserContext \<Rightarrow> (int \<times> DianaParserContext) option" where
  "FindNextCmdKey_Rollback pc =
     (case states pc of
        _ # s # ss \<Rightarrow> Some (opcodePosition s, pc\<lparr>states := s # ss\<rparr>)
      | _ \<Rightarrow> None)"

lemma Rollback_weight: "FindNextCmdKey_Rollback pc = Some (it, pc') \<Longrightarrow> search_weight pc' < search_weight pc"
  using state_weight_pos
  by (auto simp: FindNextCmdKey_Rollback_def search_weight_def split: list.splits)

text \<open>The entry found and the position of its last opcode byte.\<close>

function search_loop :: "DecoderContext \<Rightarrow> int \<Rightarrow> DianaParserContext \<Rightarrow> di_error + (DianaCmdEntry \<times> int)" where
  "search_loop c it pc =
     (case GetKeyByAddress c it of
        None \<Rightarrow> Inl C_UNDEFINED
      | Some key \<Rightarrow>
          (case FindNextCmdKey c key it pc of
             Inl x \<Rightarrow> Inl x
           | Inr (found, pc) \<Rightarrow>
               (case (if found then pc_result pc else None) of
                  Some e \<Rightarrow> Inr (e, it)
                | None \<Rightarrow>
                    if found \<and> it + 1 < cacheIt c + cacheSize c then search_loop c (it + 1) pc
                    else (case FindNextCmdKey_Rollback pc of
                            None \<Rightarrow> Inl DI_ERROR
                          | Some (it, pc) \<Rightarrow> search_loop c it pc))))"
  by pat_completeness auto
termination
proof (relation "measure (\<lambda>(c, it, pc). search_weight pc)")
  fix c :: DecoderContext and it :: int and pc pc' :: DianaParserContext and key and y :: "bool \<times> DianaParserContext" and x
  assume "FindNextCmdKey c key it pc = Inr y" "(x, pc') = y" "x \<and> it + 1 < cacheIt c + cacheSize c"
  then show "((c, it + 1, pc'), c, it, pc) \<in> measure (\<lambda>(c, it, pc). search_weight pc)"
    using FindNextCmdKey_weight [of c key it pc x pc'] by auto
next
  fix c :: DecoderContext and it it' :: int and pc pc' pc'' :: DianaParserContext and key and y :: "bool \<times> DianaParserContext" and x and z
  assume "FindNextCmdKey c key it pc = Inr y" "(x, pc') = y" "FindNextCmdKey_Rollback pc' = Some z" "(it', pc'') = z"
  then show "((c, it', pc''), c, it, pc) \<in> measure (\<lambda>(c, it, pc). search_weight pc)"
    using FindNextCmdKey_weight [of c key it pc x pc'] Rollback_weight [of pc' it' pc''] by (auto split: if_splits)
qed simp

definition Diana_ParseCmdImpl :: "DianaGenObject \<Rightarrow> (int, 's) dec" where
  "Diana_ParseCmdImpl root =
     DI_LET d_ctx (\<lambda>c.
     if cacheSize c = 0 then DI_FAIL DI_ERROR
     else
       (case search_loop c (cacheIt c) (DianaParserContext_Init root (cacheIt c)) of
          Inl x \<Rightarrow> DI_FAIL x
        | Inr (e, it) \<Rightarrow>
            DI_DO (Diana_InitStreamProxy it (cacheIt c + cacheSize c - it)) (
            DI_DO (upd_res (\<lambda>r. r\<lparr>d_pInfo := Some e\<rparr>))
            (DI_RETURN it))))"

end
