(* ===== verification/Decoder_Parser.thy ===== *)
theory Decoder_Parser
  imports Decoder_Search
begin

unbundle bit_operations_syntax

text \<open>
  From bytes to an instruction (\<^verbatim>\<open>diana_core_parsers.c\<close>, \<^verbatim>\<open>diana_core.c\<close>): the loop over prefixes, the tries with each mandatory prefix, VEX and EVEX instructions, and
  \<^verbatim>\<open>Diana_ParseCmd\<close>, which checks the result and measures the instruction.  The nop entry of the generated table and the ARM decoders are arguments.
\<close>

section \<open>One try\<close>

text \<open>The bytes of the try stand before the cache's content: the mandatory prefix, if there is one, and the opcode byte already read.\<close>

definition try_setup :: "u8 option \<Rightarrow> int \<Rightarrow> nat option \<Rightarrow> (unit, 's) dec" where
  "try_setup data orig current =
     DI_LET (\<lambda>d. prefixes (d_ctx d)) (\<lambda>ps.
     let place = (\<lambda>it n. upd_ctx (\<lambda>c. c\<lparr>cacheIt := it, cacheSize := orig + n\<rparr>)) in
     case current of
       None \<Rightarrow>
         (case data of
            Some b \<Rightarrow> DI_CHECK (write_cache 1 [b]) (\<lambda>_. DI_DO (place 1 1) DI_PROC_END)
          | None \<Rightarrow> DI_DO (place DI_CACHE_RESERVED 0) DI_PROC_END)
     | Some k \<Rightarrow>
         if k \<ge> length ps then DI_FAIL C_UNDEFINED
         else
         (case data of
            Some b \<Rightarrow> DI_CHECK (write_cache 0 [prefix_byte (ps ! k), b]) (\<lambda>_. DI_DO (place 0 2) DI_PROC_END)
          | None \<Rightarrow> DI_CHECK (write_cache 1 [prefix_byte (ps ! k)]) (\<lambda>_. DI_DO (place 1 1) DI_PROC_END)))"

text \<open>The cache after a linked instruction: what the proxy did not use.\<close>

definition take_tail :: "int \<Rightarrow> 's Decoder \<Rightarrow> 's Decoder" where
  "take_tail oldTailSize d = upd_ctx (\<lambda>c. c\<lparr>cacheSize := proxy_tail_size d, cacheIt := cacheIt c + (oldTailSize - proxy_tail_size d)\<rparr>) d"

definition restore_try :: "DecoderContext \<Rightarrow> int \<Rightarrow> 's Decoder \<Rightarrow> 's Decoder" where
  "restore_try saved orig =
     upd_res (\<lambda>r. r\<lparr>d_operands := [], d_pInfo := None\<rparr>) \<circ>
     upd_ctx (\<lambda>c. c\<lparr>iCurrentCmd_opsize := iCurrentCmd_opsize saved, iCurrentCmd_addressSize := iCurrentCmd_addressSize saved, ctx_iPrefix := ctx_iPrefix saved,
       iSizePrefixes := iSizePrefixes saved, currentCmd_sreg := currentCmd_sreg saved, iRexPrefix := iRexPrefix saved,
       cacheIt := DI_CACHE_RESERVED, cacheSize := orig\<rparr>)"

text \<open>The matched entry, with the prefixes applied and the operands linked.\<close>

definition try_link :: "nat option \<Rightarrow> bool \<Rightarrow> int \<Rightarrow> DianaCmdEntry \<Rightarrow> (unit, 's) dec" where
  "try_link current oldPrefixFound newIt e =
     DI_LET proxy_tail_size (\<lambda>oldTailSize.
     DI_DO (upd_ctx (ApplyPrefixes current)) (
     DI_LET (\<lambda>d. iSizePrefixes (d_ctx d) AND DIANA_INVALID_STATE \<noteq> 0) (\<lambda>invalid.
     if invalid then DI_FAIL DI_ERROR
     else
     DI_DO (upd_ctx (\<lambda>c. (if oldPrefixFound then c\<lparr>iRexPrefix := 0, iRexPrefixValue := 0\<rparr> else c)\<lparr>cacheIt := newIt\<rparr>)) (
     DI_CHECK (Diana_LinkOperands e) (\<lambda>_.
     DI_DO (take_tail oldTailSize)
     DI_PROC_END)))))"

definition TryMatch :: "DianaGenObject \<Rightarrow> u8 option \<Rightarrow> int \<Rightarrow> nat option \<Rightarrow> (unit, 's) dec" where
  "TryMatch root data orig current =
     DI_CHECK (try_setup data orig current) (\<lambda>_.
     DI_CHECK (if current = None
       then DI_LET (\<lambda>d. cacheIt (d_ctx d)) (\<lambda>it. DI_CHECK (read_cache it) (\<lambda>b. DI_RETURN (snd (Di_ProcessCustomPrefix b) \<noteq> None)))
       else DI_RETURN False) (\<lambda>oldPrefixFound.
     (\<lambda>d. case Diana_ParseCmdImpl root d of
        Err C_UNDEFINED d \<Rightarrow> Err C_UNDEFINED d
      | Err x d \<Rightarrow> Err x (upd_ctx (\<lambda>c. c\<lparr>cacheIt := DI_CACHE_RESERVED, cacheSize := orig\<rparr>) d)
      | Ok newIt d \<Rightarrow>
          (case try_link current oldPrefixFound newIt (the (d_pInfo (d_res d))) d of
             Ok u d \<Rightarrow> Ok () d
           | Err C_UNDEFINED d \<Rightarrow> Err C_UNDEFINED d
           | Err x d' \<Rightarrow> Err x (restore_try (d_ctx d) orig d')))))"

section \<open>VEX and EVEX instructions\<close>

definition refused_before_vex :: "DecoderContext \<Rightarrow> bool" where
  "refused_before_vex c \<longleftrightarrow> list_ex (\<lambda>x. prefix_byte x \<in> {0x66, 0xF2, 0xF3, 0xF0}) (prefixes c)"

definition is_memory :: "DianaOperandValue \<Rightarrow> bool" where
  "is_memory v \<longleftrightarrow> (case v of diana_index _ \<Rightarrow> True | diana_memory _ \<Rightarrow> True | _ \<Rightarrow> False)"

text \<open>The member \<^verbatim>\<open>recognizedRegister\<close> of the union, whatever was stored.\<close>

definition union_register :: "DianaOperandValue \<Rightarrow> DianaUnifiedRegister" where
  "union_register v =
     (case v of
        diana_register r \<Rightarrow> r
      | diana_index ix \<Rightarrow> seg_reg ix
      | diana_memory ix \<Rightarrow> seg_reg ix
      | diana_imm n \<Rightarrow> uint (take_bit 32 n)
      | diana_call_ptr q \<Rightarrow> uint (take_bit 32 (m_segment q))
      | diana_rel q \<Rightarrow> m_rel_size q
      | _ \<Rightarrow> 0)"

definition vector_number :: "DianaUnifiedRegister \<Rightarrow> int" where
  "vector_number r = fst (Diana_VectorRegisterNumber r)"

definition evex_clash :: "DecoderOperand list \<Rightarrow> bool" where
  "evex_clash ps =
     (case ps of
        [] \<Rightarrow> False
      | p # ps \<Rightarrow> list_ex (\<lambda>q. case op_value q of
            diana_register r \<Rightarrow> vector_number r = vector_number (union_register (op_value p))
          | _ \<Rightarrow> False) ps)"

definition evex_vector_size :: "u32 \<Rightarrow> int" where
  "evex_vector_size flags = (if flags AND 3 = 1 then 32 else if flags AND 3 = 2 then 64 else 16)"

text \<open>The rules for every EVEX entry, once the operands are linked; the memory operand that counts is the last one.\<close>

definition evex_refused :: "DecoderContext \<Rightarrow> DianaCmdEntry \<Rightarrow> u32 \<Rightarrow> DecoderOperand list \<Rightarrow> bool" where
  "evex_refused c e flags ps \<longleftrightarrow>
     (let prefix = iEvexPrefix c; mems = map (\<lambda>p. is_memory (op_value p)) ps; mem = (True \<in> set mems);
          vsib = list_ex (\<lambda>p. m_type (op_info p) = diana_orVSIB) ps
      in (iEvexAAA c \<noteq> 0 \<and> flags AND 4 = 0) \<or> (iEvexAAA c = 0 \<and> flags AND 0x10 \<noteq> 0) \<or>
         (prefix AND DI_EVEX_PREFIX_Z \<noteq> 0 \<and> (flags AND 8 = 0 \<or> (mem \<and> True \<notin> set (tl mems)) \<or> iEvexAAA c = 0)) \<or>
         (flags AND 3 = 3 \<and> iEvexLL c = 3 \<and> \<not> (prefix AND DI_EVEX_PREFIX_B \<noteq> 0 \<and> \<not> mem)) \<or>
         (DI_VEX_GET_NDS (m_cmd_flags e) = 0 \<and> \<not> vsib \<and> prefix AND DI_EVEX_PREFIX_V1 \<noteq> 0) \<or>
         (flags AND 0x2000 \<noteq> 0 \<and> evex_clash ps))"

definition Di_CheckEvex :: "DianaCmdEntry \<Rightarrow> (unit, 's) dec" where
  "Di_CheckEvex e =
     (case Diana_GetEvexAttributes e of
        None \<Rightarrow> DI_FAIL DI_ERROR
      | Some flags \<Rightarrow>
          DI_LET (\<lambda>d. (d_ctx d, d_operands (d_res d))) (\<lambda>(c, ps).
          if evex_refused c e flags ps then DI_FAIL DI_ERROR
          else
          DI_DO (upd_res (\<lambda>r. r\<lparr>d_evex := (d_evex r)\<lparr>evex_isEvex := True, evex_mask := iEvexAAA c,
              evex_zeroing := (iEvexPrefix c AND DI_EVEX_PREFIX_Z \<noteq> 0), evex_vectorSize := evex_vector_size flags\<rparr>\<rparr>)) (
          if iEvexPrefix c AND DI_EVEX_PREFIX_B = 0 then DI_PROC_END
          else if list_ex (\<lambda>p. is_memory (op_value p)) ps then
            DI_LET (\<lambda>d. evex_broadcast (d_evex (d_res d))) (\<lambda>b. if b = 0 then DI_FAIL DI_ERROR else DI_PROC_END)
          else if flags AND 0x80 \<noteq> 0 then DI_DO (upd_res (\<lambda>r. r\<lparr>d_evex := (d_evex r)\<lparr>evex_rounding := 2 + iEvexLL c\<rparr>\<rparr>)) DI_PROC_END
          else if flags AND 0x100 \<noteq> 0 then DI_DO (upd_res (\<lambda>r. r\<lparr>d_evex := (d_evex r)\<lparr>evex_rounding := 1\<rparr>\<rparr>)) DI_PROC_END
          else if flags AND 0x1000 = 0 then DI_FAIL DI_ERROR
          else DI_PROC_END)))"

text \<open>
  The instruction behind a virtual prefix; \<open>check\<close> are the rules after the operands.  The cache is moved on even when they fail, but not when vvvv names a register that the instruction
  does not have.
\<close>

definition parse_virtual :: "DianaGenObject \<Rightarrow> (DianaCmdEntry \<Rightarrow> bool) \<Rightarrow> (DianaCmdEntry \<Rightarrow> (unit, 's) dec) \<Rightarrow> (unit, 's) dec" where
  "parse_virtual root encoded check =
     DI_LET (\<lambda>d. iRexPrefix (d_ctx d)) (\<lambda>rex.
     DI_LET (\<lambda>d. refused_before_vex (d_ctx d)) (\<lambda>refused.
     if refused then DI_FAIL DI_ERROR
     else
     DI_CHECK (Diana_ParseCmdImpl root) (\<lambda>newIt.
     DI_LET (\<lambda>d. the (d_pInfo (d_res d))) (\<lambda>e.
     if \<not> encoded e then DI_FAIL DI_ERROR
     else
     DI_LET proxy_tail_size (\<lambda>oldTailSize.
     DI_DO (upd_ctx (ApplyPrefixes None)) (
     DI_LET (\<lambda>d. iSizePrefixes (d_ctx d) AND DIANA_INVALID_STATE \<noteq> 0) (\<lambda>invalid.
     if invalid then DI_FAIL DI_ERROR
     else
     DI_DO (upd_ctx (\<lambda>c. c\<lparr>iRexPrefix := rex, iCurrentCmd_opsize := (if DI_REX_HAS_FLAG_W rex then 8 else 4), cacheIt := newIt\<rparr>))
     (\<lambda>d. case Diana_LinkOperands e d of
        Err C_UNDEFINED d \<Rightarrow> Err C_UNDEFINED d
      | Err x d \<Rightarrow> Err x (take_tail oldTailSize d)
      | Ok u d \<Rightarrow>
          if DI_VEX_GET_NDS (m_cmd_flags e) = 0 \<and> iVexVVVV (d_ctx d) \<noteq> 0 then Err DI_ERROR d
          else (case check e d of Ok u d \<Rightarrow> Ok () (take_tail oldTailSize d) | Err x d \<Rightarrow> Err x (take_tail oldTailSize d))))))))))"

definition Di_ParseEvexCmd :: "DianaGenObject \<Rightarrow> (unit, 's) dec" where
  "Di_ParseEvexCmd root = parse_virtual root (\<lambda>e. m_gen_flags e AND DIANA_BASE_GEN_OBJECT_EVEX \<noteq> 0) Di_CheckEvex"

definition parse_vex :: "DianaGenObject \<Rightarrow> (unit, 's) dec" where
  "parse_vex root = parse_virtual root (\<lambda>e. entry_flag e DI_FLAG_CMD_VEX_ENCODED) (\<lambda>e. DI_PROC_END)"

section \<open>Prefixes\<close>

definition zero_evex :: DianaEvexInfo where
  "zero_evex = \<lparr>evex_isEvex = False, evex_mask = 0, evex_zeroing = False, evex_broadcast = 0, evex_rounding = 0, evex_vectorSize = 0, evex_disp8Scale = 0\<rparr>"

definition zero_decoder_result :: DecoderResult where
  "zero_decoder_result = \<lparr>d_pInfo = None, d_operands = [], d_iPrefix = 0, d_iRexPrefix = 0, d_iFullCmdSize = 0, d_bytes = [], d_iOperandSize = 0, d_evex = zero_evex\<rparr>"

definition set_nop :: "DianaCmdEntry \<Rightarrow> 's Decoder \<Rightarrow> 's Decoder" where
  "set_nop nop = upd_res (\<lambda>r. r\<lparr>d_operands := [], d_pInfo := Some nop\<rparr>)"

text \<open>A REX prefix before a legacy prefix is dropped.\<close>

definition rex_dropped :: "u8 \<Rightarrow> (bool, 's) dec" where
  "rex_dropped data d =
     (if amd64 d \<and> is_rex data then
        (case Diana_ReadCache False d of
           Ok _ d \<Rightarrow> if cacheSize (d_ctx d) \<noteq> 0
             then DI_CHECK (read_cache (cacheIt (d_ctx d))) (\<lambda>b. DI_RETURN (snd (Di_ProcessCustomPrefix b) \<noteq> None)) d else Ok False d
         | Err C_UNDEFINED d \<Rightarrow> Err C_UNDEFINED d
         | Err x d \<Rightarrow> Ok False d)
      else Ok False d)"

text \<open>
  The loop over the prefixes, with \<open>k\<close> rounds left: \<open>None\<close> is a nop that ends the parse, \<open>Some b\<close> the first byte that is no prefix.  The counter of the loop
  allows fifteen rounds.
\<close>

fun prefix_loop :: "DianaCmdEntry \<Rightarrow> nat \<Rightarrow> bool \<Rightarrow> bool \<Rightarrow> (u8 option, 's) dec" where
  "prefix_loop nop 0 isFirst nopFlags = DI_FAIL DI_ERROR"
| "prefix_loop nop (Suc k) isFirst nopFlags =
     DI_CHECK (Diana_ReadCache False) (\<lambda>_.
     DI_CHECK Diana_CacheEatOne (\<lambda>data.
     if (isFirst \<or> \<not> nopFlags) \<and> data = 0x90 then
       DI_DO (upd_res (\<lambda>r. r\<lparr>d_iFullCmdSize := 1\<rparr>) \<circ> set_nop nop) (DI_RETURN None)
     else
     (case Di_ProcessCustomPrefix data of (flag, info) \<Rightarrow>
       (case info of
          None \<Rightarrow> DI_CHECK (rex_dropped data) (\<lambda>again. if again then prefix_loop nop k False (nopFlags \<or> flag) else DI_RETURN (Some data))
        | Some e \<Rightarrow>
            DI_DO (upd_res (\<lambda>r. r\<lparr>d_pInfo := Some e\<rparr>)) (
            DI_CHECK (Diana_InsertPrefix data (m_linkedPrefixFnc e) False) (\<lambda>_.
            prefix_loop nop k False (nopFlags \<or> flag)))))))"

text \<open>A REX prefix right before the opcode: the opcode is then still in the cache.\<close>

definition parse_rex :: "u8 \<Rightarrow> (u8 option, 's) dec" where
  "parse_rex data =
     DI_CHECK (Di_ProcessRexPrefix data) (\<lambda>found.
     if found then DI_CHECK (Diana_InsertPrefix data fnc_Rex True) (\<lambda>_. DI_RETURN None) else DI_RETURN (Some data))"

text \<open>The end of the stream matters only when the opcode has not been read.\<close>

definition fill_before_opcode :: "u8 option \<Rightarrow> (unit, 's) dec" where
  "fill_before_opcode data d =
     (case Diana_ReadCache True d of
        Ok u d \<Rightarrow> Ok () d
      | Err x d \<Rightarrow> if x = C_UNDEFINED \<or> data = None then Err x d else Ok () d)"

definition opcode_byte :: "u8 option \<Rightarrow> (u8 option, 's) dec" where
  "opcode_byte data =
     (case data of
        Some b \<Rightarrow> DI_RETURN (Some b)
      | None \<Rightarrow> DI_LET (\<lambda>d. (cacheSize (d_ctx d), cacheIt (d_ctx d))) (\<lambda>(sz, it).
          if sz \<noteq> 0 then DI_CHECK (read_cache it) (\<lambda>b. DI_RETURN (Some b)) else DI_RETURN None))"

section \<open>The choice of the mandatory prefix\<close>

definition find_last_prefix :: "u8 set \<Rightarrow> DianaPrefixInfo list \<Rightarrow> nat option" where
  "find_last_prefix bs ps = (case filter (\<lambda>i. prefix_byte (ps ! i) \<in> bs) [0..<length ps] of [] \<Rightarrow> None | is \<Rightarrow> Some (last is))"

text \<open>
  The tries in order: the last of F2 and F3, then 66, then the last prefix if it is another one, then none.  A failing try leaves the context for the next.
\<close>

fun try_all :: "DianaGenObject \<Rightarrow> u8 option \<Rightarrow> int \<Rightarrow> nat list \<Rightarrow> (unit, 's) dec" where
  "try_all root data orig [] = TryMatch root data orig None"
| "try_all root data orig (k # ks) =
     (\<lambda>d. case TryMatch root data orig (Some k) d of
        Ok u d \<Rightarrow> Ok () d
      | Err C_UNDEFINED d \<Rightarrow> Err C_UNDEFINED d
      | Err x d \<Rightarrow> try_all root data orig ks d)"

definition mandatory_tries :: "DecoderContext \<Rightarrow> nat list" where
  "mandatory_tries c =
     (let opt = (\<lambda>x. case x of None \<Rightarrow> [] | Some k \<Rightarrow> [k]);
          rep = find_last_prefix {0xF2, 0xF3} (prefixes c); sizep = find_last_prefix {0x66} (prefixes c); lastp = lastPrefixBeforeRex c
      in opt rep @ opt sizep @ (if lastp \<noteq> rep \<and> lastp \<noteq> sizep then opt lastp else []))"

definition parse_legacy :: "DianaGenObject \<Rightarrow> u8 option \<Rightarrow> int \<Rightarrow> (unit, 's) dec" where
  "parse_legacy root data orig =
     DI_LET (\<lambda>d. mandatory_tries (d_ctx d)) (\<lambda>tries.
     (\<lambda>d. case try_all root data orig tries d of
        Ok u d \<Rightarrow> Ok () d
      | Err x d \<Rightarrow>
          if x \<noteq> C_UNDEFINED \<and> data = None \<and> cacheSize (d_ctx d) \<noteq> 0
          then DI_CHECK Diana_CacheEatOne (\<lambda>_. DI_FAIL x) d else Err x d))"

text \<open>EVEX and VEX first; what is neither falls through to the legacy search with what the prefix check has read.\<close>

definition parse_opcode :: "DianaGenObject \<Rightarrow> u8 option \<Rightarrow> (unit, 's) dec" where
  "parse_opcode root data =
     DI_CHECK (if data = Some 0x62 then Di_ProcessEvexPrefix else DI_RETURN False) (\<lambda>evexFound.
     if evexFound then Di_ParseEvexCmd root
     else
     DI_CHECK (case data of Some b \<Rightarrow> if IsVEXPrefix b then Di_ProcessVexPrefix b else DI_RETURN False | None \<Rightarrow> DI_RETURN False) (\<lambda>vexFound.
     if vexFound then parse_vex root
     else DI_LET (\<lambda>d. cacheSize (d_ctx d)) (\<lambda>orig. parse_legacy root data orig)))"

definition reset_decoder :: "'s Decoder \<Rightarrow> 's Decoder" where
  "reset_decoder =
     upd_res (\<lambda>_. zero_decoder_result) \<circ>
     upd_ctx (\<lambda>c. (Diana_ResetPrefixes c)\<lparr>iVexPrefix := 0, iVexVVVV := 0, iEvexPrefix := 0, iEvexAAA := 0, iEvexLL := 0\<rparr>)"

definition Diana_ParseCmdEx :: "DianaCmdEntry \<Rightarrow> DianaGenObject \<Rightarrow> (unit, 's) dec" where
  "Diana_ParseCmdEx nop root =
     DI_DO reset_decoder (
     DI_CHECK (prefix_loop nop 15 True False) (\<lambda>r.
     case r of
       None \<Rightarrow> DI_PROC_END
     | Some b \<Rightarrow>
         DI_CHECK (parse_rex b) (\<lambda>data.
         DI_CHECK (fill_before_opcode data) (\<lambda>_.
         DI_CHECK (opcode_byte data) (\<lambda>op.
         if data = None \<and> (case op of Some b \<Rightarrow> IsVEXPrefix b \<or> b = 0x62 | None \<Rightarrow> False) then DI_FAIL DI_ERROR
         else
         DI_LET (\<lambda>d. op = Some 0x90 \<and> \<not> list_ex (\<lambda>x. prefix_byte x = 0xF3) (prefixes (d_ctx d)) \<and> iRexPrefixValue (d_ctx d) AND 1 = 0) (\<lambda>isNop.
         if isNop then
           DI_CHECK (if data = None then DI_CHECK Diana_CacheEatOne (\<lambda>_. DI_PROC_END) else DI_PROC_END) (\<lambda>_.
           DI_DO (set_nop nop) DI_PROC_END)
         else
         DI_DO (upd_res (\<lambda>r. r\<lparr>d_pInfo := None\<rparr>))
         (parse_opcode root data)))))))"

end
