(* ===== verification/Decoder_Core.thy ===== *)
theory Decoder_Core
  imports Decoder_Parser
begin

unbundle bit_operations_syntax

text \<open>
  The interface of the decoder (\<^verbatim>\<open>diana_core.c\<close>): contexts, \<^verbatim>\<open>Diana_ParseCmd\<close>, which parses one instruction, refuses what the prefixes and registers do not allow and
  measures the instruction, and the marking of the generated table by \<^verbatim>\<open>Diana_Init\<close>.  The ARM decoders are an argument.
\<close>

section \<open>Contexts\<close>

abbreviation (input) DIANA_ARCH_X86 :: int where "DIANA_ARCH_X86 \<equiv> 0"
abbreviation (input) DIANA_ARCH_AARCH64 :: int where "DIANA_ARCH_AARCH64 \<equiv> 1"
abbreviation (input) DIANA_ARCH_ARM32 :: int where "DIANA_ARCH_ARM32 \<equiv> 2"
abbreviation (input) DIANA_ARCH_THUMB :: int where "DIANA_ARCH_THUMB \<equiv> 3"

definition Decoder_InitContext :: "int \<Rightarrow> DecoderContext" where
  "Decoder_InitContext Mode =
     (let long = (Mode = DIANA_MODE64); opsz = (if long then DIANA_MODE32 else Mode); asz = (if long then DIANA_MODE64 else Mode) in
      \<lparr>iMainMode_opsize = opsz, iCurrentCmd_opsize = opsz, iMainMode_addressSize = asz, iCurrentCmd_addressSize = asz,
       mainMode_sreg = reg_DS, currentCmd_sreg = reg_DS, iAMD64Mode = (if long then 1 else 0), iRexPrefix = 0,
       cacheSize = 0, cacheIt = DI_CACHE_RESERVED,
       ctx_iPrefix = 0, iSizePrefixes = 0, iRexPrefixValue = 0, cache = replicate 7 0, lastPrefixBeforeRex = Some 0, prefixes = [],
       testMode = False, iVexPrefix = 0, iVexVVVV = 0, iArch = DIANA_ARCH_X86, iEvexPrefix = 0, iEvexAAA = 0, iEvexLL = 0\<rparr>)"

definition Diana_InitContextEx :: "int \<Rightarrow> int \<Rightarrow> DecoderContext" where
  "Diana_InitContextEx Mode arch = (Decoder_InitContext Mode)\<lparr>iArch := arch\<rparr>"

definition Diana_InitContextWithTestMode :: "int \<Rightarrow> DecoderContext" where
  "Diana_InitContextWithTestMode Mode = (Decoder_InitContext Mode)\<lparr>testMode := True\<rparr>"

definition Decoder_ClearCache :: "DecoderContext \<Rightarrow> DecoderContext" where
  "Decoder_ClearCache c = c\<lparr>cacheIt := DI_CACHE_RESERVED, cacheSize := 0\<rparr>"

section \<open>Rules for the parsed instruction\<close>

definition has_lock :: "DecoderContext \<Rightarrow> bool" where
  "has_lock c \<longleftrightarrow> list_ex (\<lambda>x. prefix_byte x = 0xF0) (prefixes c)"

text \<open>An F2, F3 or 66 that was applied but makes another instruction of this entry.\<close>

definition prefix_refused :: "DecoderContext \<Rightarrow> DianaCmdEntry \<Rightarrow> bool" where
  "prefix_refused c e \<longleftrightarrow>
     (m_gen_flags e AND DIANA_BASE_GEN_OBJECT_PREFIX_NO_F3 \<noteq> 0 \<and> ctx_iPrefix c = DI_PREFIX_REP) \<or>
     (m_gen_flags e AND DIANA_BASE_GEN_OBJECT_PREFIX_NO_F2 \<noteq> 0 \<and> ctx_iPrefix c = DI_PREFIX_REPN) \<or>
     (m_gen_flags e AND DIANA_BASE_GEN_OBJECT_PREFIX_NO_66 \<noteq> 0 \<and> iSizePrefixes c AND DIANA_HAS_OPERAND_SIZE_PREFIX \<noteq> 0)"

text \<open>The member \<^verbatim>\<open>rmIndex.indexed_reg\<close>; the linker gives a VSIB operand as an index.\<close>

definition union_indexed :: "DianaOperandValue \<Rightarrow> DianaUnifiedRegister" where
  "union_indexed v = (case v of diana_index ix \<Rightarrow> indexed_reg ix | diana_memory ix \<Rightarrow> indexed_reg ix | _ \<Rightarrow> reg_none)"

text \<open>The registers of a gather have to differ: with a vector mask all three, with an opmask destination and index.\<close>

definition gather_refused :: "DianaCmdEntry \<Rightarrow> DecoderOperand list \<Rightarrow> bool" where
  "gather_refused e ps \<longleftrightarrow>
     length (m_operands e) > 1 \<and> m_type (m_operands e ! 1) = diana_orVSIB \<and>
     (let dest = vector_number (union_register (op_value (ps ! 0))); ix = vector_number (union_indexed (op_value (ps ! 1))) in
      (length ps = 3 \<and> (let m = vector_number (union_register (op_value (ps ! 2))) in dest = ix \<or> dest = m \<or> ix = m)) \<or>
      (length ps = 2 \<and> (case op_value (ps ! 0) of diana_register _ \<Rightarrow> True | _ \<Rightarrow> False) \<and> dest \<ge> 0 \<and> dest = ix))"

definition lock_refused :: "DecoderContext \<Rightarrow> DianaCmdEntry \<Rightarrow> DecoderOperand list \<Rightarrow> bool" where
  "lock_refused c e ps \<longleftrightarrow>
     has_lock c \<and> (\<not> entry_flag e DI_FLAG_CMD_PREFIX_LOCK \<or> ps = [] \<or> \<not> is_memory (op_value (ps ! 0)))"

text \<open>0F C7 /1 is one entry: the operand has 8 bytes, with REX.W 16.\<close>

definition fix_cmpxchg16b :: "DecoderResult \<Rightarrow> DecoderResult" where
  "fix_cmpxchg16b r =
     (case d_pInfo r of
        Some e \<Rightarrow>
          if m_commandId e = ''cmpxchg16b'' \<and> d_operands r \<noteq> []
          then r\<lparr>d_operands := (d_operands r)[0 := (d_operands r ! 0)\<lparr>usedSize := (if d_iOperandSize r = 8 then 16 else 8)\<rparr>]\<rparr>
          else r
      | None \<Rightarrow> r)"

definition check_result :: "DecoderContext \<Rightarrow> DecoderResult \<Rightarrow> DecoderResult option" where
  "check_result c r =
     (case d_pInfo r of
        None \<Rightarrow> Some r
      | Some e \<Rightarrow>
          if prefix_refused c e \<or> gather_refused e (d_operands r) \<or> lock_refused c e (d_operands r) then None
          else Some (if has_lock c then r\<lparr>d_iPrefix := DI_PREFIX_LOCK\<rparr> else r))"

section \<open>Size and bytes\<close>

text \<open>
  The bytes of the instruction: from the cache as it was before, then from what the stream delivered.  A negative size, or bytes that were not recorded, are undefined
  in C.
\<close>

definition copy_bytes :: "DecoderContext \<Rightarrow> u8 list \<Rightarrow> int \<Rightarrow> u8 list option" where
  "copy_bytes old delivered full =
     (let from_cache = (\<lambda>n. if n < 0 \<or> cacheIt old < 0 \<or> cacheIt old + n > int (length (cache old)) then None
                            else Some (take (nat n) (drop (nat (cacheIt old)) (cache old))))
      in if full \<le> cacheSize old then from_cache full
         else let processed = full - cacheSize old in
           if processed > int (length delivered) then None
           else map_option (\<lambda>bs. bs @ take (nat processed) delivered) (from_cache (cacheSize old)))"

section \<open>One instruction\<close>

definition start_result :: "DecoderResult \<Rightarrow> DecoderResult" where
  "start_result r = r\<lparr>d_pInfo := None, d_operands := [], d_iPrefix := 0, d_iRexPrefix := 0, d_iFullCmdSize := 0, d_bytes := []\<rparr>"

definition open_proxy :: "'s Decoder \<Rightarrow> 's DianaProxyReadStream Decoder" where
  "open_proxy d =
     \<lparr>d_ctx = d_ctx d, d_res = start_result (d_res d), d_stream = \<lparr>m_pOriginalStream = d_stream d, m_iReadSize = 0, m_lastBytes = []\<rparr>,
      d_readFnc = ProxyDianaReadFnc (d_readFnc d), proxy_begin = proxy_begin d, proxy_tail_size = proxy_tail_size d\<rparr>"

definition close_proxy :: "'s Decoder \<Rightarrow> 's DianaProxyReadStream Decoder \<Rightarrow> 's Decoder" where
  "close_proxy d i =
     d\<lparr>d_ctx := d_ctx i, d_res := (d_res i)\<lparr>d_iPrefix := ctx_iPrefix (d_ctx i), d_iRexPrefix := iRexPrefix (d_ctx i),
        d_iOperandSize := iCurrentCmd_opsize (d_ctx i)\<rparr>, d_stream := m_pOriginalStream (d_stream i)\<rparr>"

text \<open>Size and bytes are set for a failed parse too; its operands are dropped, but not at the end of the stream.\<close>

definition measure_result :: "DecoderContext \<Rightarrow> 's DianaProxyReadStream \<Rightarrow> (unit, 's Decoder) di_res \<Rightarrow> (unit, 's Decoder) di_res" where
  "measure_result old proxy res =
     (let d = res_state res; full = cacheSize old + m_iReadSize proxy - cacheSize (d_ctx d);
          d = upd_res (\<lambda>r. r\<lparr>d_iFullCmdSize := full\<rparr>) d
      in if full > DI_MAX_INSTRUCTION_SIZE then Err DI_ERROR d
         else
         case copy_bytes old (m_lastBytes proxy) full of
           None \<Rightarrow> Err C_UNDEFINED d
         | Some bs \<Rightarrow>
             let d = upd_res (\<lambda>r. r\<lparr>d_bytes := bs\<rparr>) d in
             (case res of
                Ok _ _ \<Rightarrow> Ok () d
              | Err x _ \<Rightarrow> Err x (if x = DI_END then d else upd_res (\<lambda>r. r\<lparr>d_operands := []\<rparr>) d)))"

definition parse_x86 :: "DianaCmdEntry \<Rightarrow> DianaGenObject \<Rightarrow> (unit, 's) dec" where
  "parse_x86 nop root d =
     (case Diana_ParseCmdEx nop root (open_proxy d) of
        Err x i \<Rightarrow> if x = C_UNDEFINED then Err x (close_proxy d i) else measure_result (d_ctx d) (d_stream i) (Err x (close_proxy d i))
      | Ok _ i \<Rightarrow>
          let q = upd_res fix_cmpxchg16b (close_proxy d i) in
          (case check_result (d_ctx q) (d_res q) of
             None \<Rightarrow> Err DI_INVALID_OPCODE q
           | Some r \<Rightarrow> measure_result (d_ctx d) (d_stream i) (Ok () (upd_res (\<lambda>_. r) q))))"

definition Diana_ParseCmd :: "(int \<Rightarrow> (unit, 's) dec) \<Rightarrow> DianaCmdEntry \<Rightarrow> DianaGenObject \<Rightarrow> (unit, 's) dec" where
  "Diana_ParseCmd arm nop root =
     DI_LET (\<lambda>d. iArch (d_ctx d)) (\<lambda>arch.
     if arch = DIANA_ARCH_AARCH64 \<or> arch = DIANA_ARCH_ARM32 \<or> arch = DIANA_ARCH_THUMB then arm arch
     else if arch \<noteq> DIANA_ARCH_X86 then DI_FAIL DI_UNSUPPORTED
     else parse_x86 nop root)"

section \<open>Marking the table\<close>

text \<open>
  What \<^verbatim>\<open>Diana_Init\<close> adds to the generated entries.  The group information of a command (\<^verbatim>\<open>InitJmps\<close>): flags for instructions that change the instruction pointer, and
  the number of the operand with the target.
\<close>

abbreviation (input) DIANA_GT_CAN_CHANGE_RIP :: u32 where "DIANA_GT_CAN_CHANGE_RIP \<equiv> 1"
abbreviation (input) DIANA_GT_CAN_GO_TO_THE_NEXT_INSTRUCTION :: u32 where "DIANA_GT_CAN_GO_TO_THE_NEXT_INSTRUCTION \<equiv> 8"
abbreviation (input) DIANA_GT_IS_CALL :: u32 where "DIANA_GT_IS_CALL \<equiv> 2"
abbreviation (input) DIANA_GT_IS_JUMP :: u32 where "DIANA_GT_IS_JUMP \<equiv> 4"
abbreviation (input) DIANA_GT_RET :: u32 where "DIANA_GT_RET \<equiv> 16"

record Diana_LinkedAdditionalGroupInfo =
  gi_flags :: u32
  gi_relArgrumentNumber :: int

definition InitJmps :: "DianaCommandId \<Rightarrow> Diana_LinkedAdditionalGroupInfo option" where
  "InitJmps cmd =
     (if cmd \<in> set [''ret'', ''retf'', ''iret'', ''leave''] then Some \<lparr>gi_flags = DIANA_GT_CAN_CHANGE_RIP OR DIANA_GT_RET, gi_relArgrumentNumber = 0\<rparr>
      else if cmd = ''call'' then
        Some \<lparr>gi_flags = DIANA_GT_CAN_CHANGE_RIP OR DIANA_GT_IS_CALL OR DIANA_GT_CAN_GO_TO_THE_NEXT_INSTRUCTION, gi_relArgrumentNumber = 0\<rparr>
      else if cmd \<in> set [''loop'', ''loope'', ''loopne''] then
        Some \<lparr>gi_flags = DIANA_GT_CAN_CHANGE_RIP OR DIANA_GT_IS_JUMP OR DIANA_GT_CAN_GO_TO_THE_NEXT_INSTRUCTION, gi_relArgrumentNumber = 0\<rparr>
      else if cmd = ''jmp'' then Some \<lparr>gi_flags = DIANA_GT_CAN_CHANGE_RIP OR DIANA_GT_IS_JUMP, gi_relArgrumentNumber = 0\<rparr>
      else if cmd \<in> set [''ja'', ''jae'', ''jb'', ''jbe'', ''je'', ''jg'', ''jge'', ''jl'', ''jle'', ''jne'', ''jno'', ''jnp'', ''jns'', ''jo'', ''jp'', ''js''] then
        Some \<lparr>gi_flags = DIANA_GT_CAN_CHANGE_RIP OR DIANA_GT_IS_JUMP OR DIANA_GT_CAN_GO_TO_THE_NEXT_INSTRUCTION, gi_relArgrumentNumber = 0\<rparr>
      else if cmd = ''jecxz'' then
        Some \<lparr>gi_flags = DIANA_GT_CAN_CHANGE_RIP OR DIANA_GT_IS_JUMP OR DIANA_GT_CAN_GO_TO_THE_NEXT_INSTRUCTION, gi_relArgrumentNumber = 1\<rparr>
      else None)"

text \<open>Opcodes of the first byte that 64-bit mode does not have.\<close>

definition i386_opcodes :: "u8 list" where
  "i386_opcodes =
     [0x82, 0x9A, 0x06, 0x07, 0x0E, 0x16, 0x17, 0x1E, 0x1F, 0x27, 0x2F, 0x37, 0x3F, 0x60, 0x61, 0x62, 0xC4, 0xC5, 0xD4, 0xD5, 0xD6, 0xEA,
      0x40, 0x41, 0x42, 0x43, 0x44, 0x45, 0x46, 0x47, 0x48, 0x49, 0x4A, 0x4B, 0x4C, 0x4D, 0x4E, 0x4F]"

definition add_cmd_flag :: "u32 \<Rightarrow> DianaCmdEntry \<Rightarrow> DianaCmdEntry" where
  "add_cmd_flag f e = e\<lparr>m_cmd_flags := m_cmd_flags e OR f\<rparr>"

definition ProcessCmdInfo :: "bool \<Rightarrow> u8 \<Rightarrow> DianaCmdEntry \<Rightarrow> DianaCmdEntry" where
  "ProcessCmdInfo isRoot opcode e =
     (let e = e\<lparr>m_linkedPrefixFnc := (if entry_flag e DI_FLAG_CMD_IS_TRUE_PREFIX then fnc_Nope else fnc_Normal)\<rparr>;
          e = (if isRoot \<and> opcode \<in> set i386_opcodes then add_cmd_flag DI_FLAG_CMD_I386 e else e);
          e = (if m_commandId e \<in> set [''les'', ''lds'', ''into''] then add_cmd_flag DI_FLAG_CMD_I386 e else e);
          e = (case InitJmps (m_commandId e) of
                 None \<Rightarrow> e
               | Some g \<Rightarrow> if gi_flags g AND DIANA_GT_CAN_CHANGE_RIP \<noteq> 0 then add_cmd_flag DI_FLAG_CMD_AMD_DEFAULT_OPSIZE_64 e else e)
      in if m_commandId e \<in> set [''pop'', ''popf'', ''push'', ''pushf''] then add_cmd_flag DI_FLAG_CMD_AMD_DEFAULT_OPSIZE_64 e else e)"

text \<open>
  The lines below the root; an entry there is marked the same way for every opcode.  The model marks a copy of the table, the code the entries themselves, and a line of the
  generated table has no empty key.
\<close>

primrec Diana_InitLine :: "DianaGenObject \<Rightarrow> DianaGenObject" where
  "Diana_InitLine (GenCmd e) = GenCmd (ProcessCmdInfo False 0 e)"
| "Diana_InitLine (GenLine fl ks) = GenLine fl (map (map_prod id (map_option Diana_InitLine)) ks)"
| "Diana_InitLine (GenIndex fl f) = GenIndex fl (map_option Diana_InitLine \<circ> f)"

definition init_root_key :: "u8 \<Rightarrow> DianaGenObject \<Rightarrow> DianaGenObject" where
  "init_root_key opcode x = (case x of GenCmd e \<Rightarrow> GenCmd (ProcessCmdInfo True opcode e) | _ \<Rightarrow> Diana_InitLine x)"

definition Diana_Init :: "DianaGenObject \<Rightarrow> DianaGenObject" where
  "Diana_Init root =
     (case root of
        GenIndex fl f \<Rightarrow> GenIndex fl (\<lambda>k. map_option (init_root_key k) (f k))
      | GenLine fl ks \<Rightarrow> GenLine fl (map (\<lambda>(k, x). (k, map_option (init_root_key k) x)) ks)
      | GenCmd e \<Rightarrow> root)"

end
