(* ===== verification/Decoder_Contract.thy ===== *)
theory Decoder_Contract
  imports Decoder_Core
begin

unbundle bit_operations_syntax

text \<open>
  What the parts of the decoder promise about the cache and the stream.  The contract of a routine is a triple \<open>runs P m Q E\<close>: from a state with \<open>P\<close> the routine
  never meets undefined behaviour, a success gives \<open>Q\<close> of the result and a failure \<open>E\<close>.  The interface of a sequential stream is the locale \<open>code_stream\<close>; the contracts are
  proved once inside it.
\<close>

section \<open>Contracts\<close>

definition runs :: "('s \<Rightarrow> bool) \<Rightarrow> ('a, 's) di_prog \<Rightarrow> ('a \<Rightarrow> 's \<Rightarrow> bool) \<Rightarrow> ('s \<Rightarrow> bool) \<Rightarrow> bool" where
  "runs P m Q E \<longleftrightarrow> (\<forall>s. P s \<longrightarrow> (case m s of Ok a t \<Rightarrow> Q a t | Err e t \<Rightarrow> e \<noteq> C_UNDEFINED \<and> E t))"

text \<open>A routine that keeps an invariant whatever it returns.\<close>

abbreviation safe :: "('s \<Rightarrow> bool) \<Rightarrow> ('a, 's) di_prog \<Rightarrow> bool" where
  "safe I m \<equiv> runs I m (\<lambda>_. I) I"

lemma runsI: "(\<And>s. P s \<Longrightarrow> (case m s of Ok a t \<Rightarrow> Q a t | Err e t \<Rightarrow> e \<noteq> C_UNDEFINED \<and> E t)) \<Longrightarrow> runs P m Q E"
  by (simp add: runs_def)

lemma runs_OkD: "runs P m Q E \<Longrightarrow> P s \<Longrightarrow> m s = Ok a t \<Longrightarrow> Q a t"
  by (force simp: runs_def)

lemma runs_ErrD: "runs P m Q E \<Longrightarrow> P s \<Longrightarrow> m s = Err e t \<Longrightarrow> e \<noteq> C_UNDEFINED \<and> E t"
  by (force simp: runs_def)

lemma runs_pre: "runs P m Q E \<Longrightarrow> (\<And>s. P' s \<Longrightarrow> P s) \<Longrightarrow> runs P' m Q E"
  by (simp add: runs_def)

lemma runs_post:
  assumes "runs P m Q E" "\<And>a s. Q a s \<Longrightarrow> Q' a s" "\<And>s. E s \<Longrightarrow> E' s"
  shows "runs P m Q' E'"
  using assms unfolding runs_def by (force split: di_res.splits)

lemma runs_ghost:
  assumes "\<And>x. runs (\<lambda>s. P s \<and> f s = x) m (Q x) E" "\<And>x a s. Q x a s \<Longrightarrow> R a s"
  shows "runs P m R E"
proof (rule runsI)
  fix s
  assume "P s"
  then show "case m s of Ok a t \<Rightarrow> R a t | Err e t \<Rightarrow> e \<noteq> C_UNDEFINED \<and> E t"
    using runs_OkD [OF assms(1) [of "f s"], of s] runs_ErrD [OF assms(1) [of "f s"], of s] assms(2) by (cases "m s") auto
qed

lemma runs_CHECK:
  assumes "runs P m Q E" "\<And>a. runs (Q a) (k a) R E"
  shows "runs P (DI_CHECK m k) R E"
proof (rule runsI)
  fix s
  assume "P s"
  then show "case DI_CHECK m k s of Ok a t \<Rightarrow> R a t | Err e t \<Rightarrow> e \<noteq> C_UNDEFINED \<and> E t"
    using runs_OkD [OF assms(1), of s] runs_ErrD [OF assms(1), of s] assms(2)
    by (cases "m s") (auto simp: DI_CHECK_def runs_def)
qed

lemma runs_DO: "runs P' k Q E \<Longrightarrow> (\<And>s. P s \<Longrightarrow> P' (f s)) \<Longrightarrow> runs P (DI_DO f k) Q E"
  by (simp add: runs_def DI_DO_def)

lemma runs_LET: "(\<And>a. runs (\<lambda>s. P s \<and> g s = a) (k a) Q E) \<Longrightarrow> runs P (DI_LET g k) Q E"
  by (simp add: runs_def DI_LET_def)

lemma runs_RETURN: "(\<And>s. P s \<Longrightarrow> Q a s) \<Longrightarrow> runs P (DI_RETURN a) Q E"
  by (simp add: runs_def DI_RETURN_def)

lemma runs_END: "(\<And>s. P s \<Longrightarrow> Q () s) \<Longrightarrow> runs P DI_PROC_END Q E"
  by (simp add: runs_def DI_PROC_END_def)

lemma runs_FAIL: "e \<noteq> C_UNDEFINED \<Longrightarrow> (\<And>s. P s \<Longrightarrow> E s) \<Longrightarrow> runs P (DI_FAIL e) Q E"
  by (simp add: runs_def DI_FAIL_def)

lemma runs_if: "(b \<Longrightarrow> runs P m Q E) \<Longrightarrow> (\<not> b \<Longrightarrow> runs P m' Q E) \<Longrightarrow> runs P (if b then m else m') Q E"
  by simp

lemma runs_pure: "(A \<Longrightarrow> runs P m Q E) \<Longrightarrow> runs (\<lambda>s. A \<and> P s) m Q E"
  by (simp add: runs_def)

text \<open>A routine that looks at the outcome of another one.\<close>

lemma runs_case:
  assumes "runs P m Q E" "\<And>a t. Q a t \<Longrightarrow> (case f a t of Ok b u \<Rightarrow> Q' b u | Err e u \<Rightarrow> e \<noteq> C_UNDEFINED \<and> E' u)"
    "\<And>x t. x \<noteq> C_UNDEFINED \<Longrightarrow> E t \<Longrightarrow> (case g x t of Ok b u \<Rightarrow> Q' b u | Err e u \<Rightarrow> e \<noteq> C_UNDEFINED \<and> E' u)"
  shows "runs P (\<lambda>d. case m d of Ok a t \<Rightarrow> f a t | Err x t \<Rightarrow> g x t) Q' E'"
proof (rule runsI)
  fix s
  assume "P s"
  then show "case (case m s of Ok a t \<Rightarrow> f a t | Err x t \<Rightarrow> g x t) of Ok b u \<Rightarrow> Q' b u | Err e u \<Rightarrow> e \<noteq> C_UNDEFINED \<and> E' u"
    using runs_OkD [OF assms(1), of s] runs_ErrD [OF assms(1), of s] assms(2,3) by (cases "m s") auto
qed

text \<open>The same rules for an invariant, where they need nothing but the text.\<close>

lemma safe_LET: "(\<And>s. I s \<Longrightarrow> safe I (k (g s))) \<Longrightarrow> safe I (DI_LET g k)"
  by (simp add: runs_def DI_LET_def)

lemma safe_DO: "safe I k \<Longrightarrow> (\<And>s. I s \<Longrightarrow> I (f s)) \<Longrightarrow> safe I (DI_DO f k)"
  by (rule runs_DO)

lemma safe_basic: "safe I (DI_RETURN a)" "safe I DI_PROC_END" "e \<noteq> C_UNDEFINED \<Longrightarrow> safe I (DI_FAIL e)"
  by (rule runs_RETURN runs_END runs_FAIL; assumption)+

section \<open>The interface of a stream\<close>

text \<open>
  \<open>rest\<close> is what the stream still holds.  A read gives a prefix of it, at most as long as asked for; a failing read takes nothing.
\<close>

locale code_stream =
  fixes rd :: "'s DianaRead_fnc" and rest :: "'s \<Rightarrow> u8 list" and good :: "'s \<Rightarrow> bool"
  assumes read_Ok: "good s \<Longrightarrow> 0 \<le> n \<Longrightarrow> rd n s = Ok bs s' \<Longrightarrow> good s' \<and> int (length bs) \<le> n \<and> rest s = bs @ rest s'"
    and read_Err: "good s \<Longrightarrow> 0 \<le> n \<Longrightarrow> rd n s = Err e s' \<Longrightarrow> good s' \<and> e \<noteq> C_UNDEFINED \<and> rest s' = rest s"

text \<open>The cache holds its bytes inside the array, and the decoder reads a good stream.\<close>

definition cache_ok :: "DecoderContext \<Rightarrow> bool" where
  "cache_ok c \<longleftrightarrow> length (cache c) = 7 \<and> 0 \<le> cacheIt c \<and> 0 \<le> cacheSize c \<and> cacheIt c + cacheSize c \<le> 7"

definition reads :: "'s DianaRead_fnc \<Rightarrow> ('s \<Rightarrow> bool) \<Rightarrow> 's Decoder \<Rightarrow> bool" where
  "reads rd good d \<longleftrightarrow> d_readFnc d = rd \<and> good (d_stream d)"

definition ahead :: "DecoderContext \<Rightarrow> u8 list" where
  "ahead c = take (nat (cacheSize c)) (drop (nat (cacheIt c)) (cache c))"

text \<open>The bytes that the decoder has not used: those in the cache, then those of the stream.\<close>

definition decoder_input :: "('s \<Rightarrow> u8 list) \<Rightarrow> 's Decoder \<Rightarrow> u8 list" where
  "decoder_input rest d = ahead (d_ctx d) @ rest (d_stream d)"

text \<open>\<open>holding bs\<close>: the decoder is well-formed and its unused bytes are \<open>bs\<close>; \<open>holding_at i bs\<close>: the cache starts at \<open>i\<close>.\<close>

definition holding :: "'s DianaRead_fnc \<Rightarrow> ('s \<Rightarrow> u8 list) \<Rightarrow> ('s \<Rightarrow> bool) \<Rightarrow> u8 list \<Rightarrow> 's Decoder \<Rightarrow> bool" where
  "holding rd rest good bs d \<longleftrightarrow> reads rd good d \<and> cache_ok (d_ctx d) \<and> decoder_input rest d = bs"

text \<open>Everything but the cache.\<close>

definition bare :: "'s Decoder \<Rightarrow> DecoderContext \<times> DecoderResult" where
  "bare d = ((d_ctx d)\<lparr>cache := [], cacheIt := 0, cacheSize := 0\<rparr>, d_res d)"

lemma length_ahead [simp]: "cache_ok c \<Longrightarrow> length (ahead c) = nat (cacheSize c)"
  by (auto simp: cache_ok_def ahead_def)

lemma ahead_Cons:
  assumes "cache_ok c" "0 < cacheSize c"
  shows "ahead c = cache c ! nat (cacheIt c) # ahead (c\<lparr>cacheIt := cacheIt c + 1, cacheSize := cacheSize c - 1\<rparr>)"
proof -
  have "nat (cacheIt c) < length (cache c)" "nat (cacheSize c) = Suc (nat (cacheSize c - 1))" "nat (cacheIt c + 1) = Suc (nat (cacheIt c))"
    using assms by (auto simp: cache_ok_def nat_add_distrib)
  then show ?thesis by (simp add: ahead_def Cons_nth_drop_Suc [symmetric])
qed

section \<open>Cache operations\<close>

lemma write_cache_Ok:
  assumes "0 \<le> off" "off + int (length bs) \<le> int (length (cache (d_ctx d)))"
  shows "write_cache off bs d =
    Ok () (upd_ctx (\<lambda>c. c\<lparr>cache := take (nat off) (cache c) @ bs @ drop (nat off + length bs) (cache c)\<rparr>) d)"
  using assms by (simp add: write_cache_def di_basic_defs)

lemma read_cache_Ok:
  "0 \<le> off \<Longrightarrow> off < int (length (cache (d_ctx d))) \<Longrightarrow> read_cache off d = Ok (cache (d_ctx d) ! nat off) d"
  by (simp add: read_cache_def di_basic_defs)

text \<open>Bytes written right behind the cache's content extend it.\<close>

lemma ahead_append:
  assumes "cache_ok c" "cacheIt c + cacheSize c + int (length bs) \<le> 7"
  shows "ahead (c\<lparr>cache := take (nat (cacheIt c + cacheSize c)) (cache c) @ bs @ drop (nat (cacheIt c + cacheSize c) + length bs) (cache c),
      cacheSize := cacheSize c + int (length bs)\<rparr>) = ahead c @ bs"
proof -
  let ?i = "nat (cacheIt c)" and ?n = "nat (cacheSize c)"
  have "nat (cacheIt c + cacheSize c) = ?i + ?n" "nat (cacheSize c + int (length bs)) = ?n + length bs" "length (cache c) = 7" "?i + ?n + length bs \<le> 7"
    using assms by (auto simp: cache_ok_def nat_add_distrib)
  moreover from this have "min (7 - ?i) ?n = ?n" by linarith
  ultimately show ?thesis by (simp add: ahead_def take_add drop_take flip: take_drop)
qed

context code_stream
begin

lemma read_stream_cases:
  assumes "reads rd good d" "0 \<le> n"
  obtains (Ok) bs s where "read_stream n d = Ok bs (d\<lparr>d_stream := s\<rparr>)" "good s" "int (length bs) \<le> n" "rest (d_stream d) = bs @ rest s"
    | (Err) e s where "read_stream n d = Err e (d\<lparr>d_stream := s\<rparr>)" "good s" "e \<noteq> C_UNDEFINED" "rest s = rest (d_stream d)"
proof (cases "rd n (d_stream d)")
  case (Ok bs s)
  with assms read_Ok [of "d_stream d" n bs s] show ?thesis
    by (intro that(1) [of bs s]) (auto simp: read_stream_def reads_def)
next
  case (Err e s)
  with assms read_Err [of "d_stream d" n e s] show ?thesis
    by (intro that(2) [of e s]) (auto simp: read_stream_def reads_def)
qed

text \<open>Topping up the cache keeps the input.\<close>

lemma top_up:
  assumes "holding rd rest good bs d" "cacheIt (d_ctx d) + cacheSize (d_ctx d) + n \<le> 7" "0 \<le> n"
  obtains (Ok) m d' where "read_to_cache (cacheIt (d_ctx d) + cacheSize (d_ctx d)) n d = Ok m d'" "0 \<le> m" "m \<le> n"
      "holding rd rest good bs (upd_ctx (\<lambda>c. c\<lparr>cacheSize := cacheSize c + m\<rparr>) d')"
      "cacheIt (d_ctx d') = cacheIt (d_ctx d)" "cacheSize (d_ctx d') = cacheSize (d_ctx d)"
      "\<exists>x s. d' = upd_ctx (\<lambda>c. c\<lparr>cache := x\<rparr>) (d\<lparr>d_stream := s\<rparr>)"
    | (Err) e s where "read_to_cache (cacheIt (d_ctx d) + cacheSize (d_ctx d)) n d = Err e (d\<lparr>d_stream := s\<rparr>)" "e \<noteq> C_UNDEFINED"
      "holding rd rest good bs (d\<lparr>d_stream := s\<rparr>)"
proof -
  have r: "reads rd good d" and c: "cache_ok (d_ctx d)" and i: "decoder_input rest d = bs"
    using assms(1) by (auto simp: holding_def)
  show ?thesis
  proof (cases rule: read_stream_cases [OF r assms(3)])
    case (1 xs s)
    let ?off = "cacheIt (d_ctx d) + cacheSize (d_ctx d)"
    let ?x = "take (nat ?off) (cache (d_ctx d)) @ xs @ drop (nat ?off + length xs) (cache (d_ctx d))"
    have fits: "?off + int (length xs) \<le> 7" "0 \<le> ?off" "length (cache (d_ctx d)) = 7"
      using 1(3) assms(2) c by (auto simp: cache_ok_def)
    have w: "read_to_cache ?off n d = Ok (int (length xs)) (upd_ctx (\<lambda>c. c\<lparr>cache := ?x\<rparr>) (d\<lparr>d_stream := s\<rparr>))"
      unfolding read_to_cache_def DI_CHECK_def using 1(1) fits
      by (simp add: write_cache_Ok di_basic_defs upd_ctx_def)
    show ?thesis
    proof (rule that(1) [OF w])
      show "holding rd rest good bs (upd_ctx (\<lambda>c. c\<lparr>cacheSize := cacheSize c + int (length xs)\<rparr>) (upd_ctx (\<lambda>c. c\<lparr>cache := ?x\<rparr>) (d\<lparr>d_stream := s\<rparr>)))"
        using ahead_append [OF c fits(1)] 1(2,4) r c i fits by (auto simp: holding_def reads_def cache_ok_def decoder_input_def nat_add_distrib)
    qed (use 1(3) in auto)
  next
    case (2 e s)
    show ?thesis
    proof (rule that(2))
      show "read_to_cache (cacheIt (d_ctx d) + cacheSize (d_ctx d)) n d = Err e (d\<lparr>d_stream := s\<rparr>)"
        using 2(1) by (simp add: read_to_cache_def DI_CHECK_def)
      show "holding rd rest good bs (d\<lparr>d_stream := s\<rparr>)"
        using assms(1) 2(2,4) by (auto simp: holding_def reads_def decoder_input_def)
    qed (rule 2(3))
  qed
qed

text \<open>Filling the cache and eating a byte leave the rest of the context alone.\<close>

lemma compact_cache:
  assumes "holding rd rest good bs d" "2 \<le> cacheIt (d_ctx d)"
  shows "\<exists>x. move_cache 2 (cacheIt (d_ctx d)) (cacheSize (d_ctx d)) d = Ok () (upd_ctx (\<lambda>c. c\<lparr>cache := x\<rparr>) d) \<and>
    holding rd rest good bs (upd_ctx (\<lambda>c. c\<lparr>cache := x, cacheIt := 2\<rparr>) d)"
proof -
  let ?c = "d_ctx d"
  let ?x = "take 2 (cache ?c) @ ahead ?c @ drop (2 + nat (cacheSize ?c)) (cache ?c)"
  have c: "cache_ok ?c" using assms(1) by (simp add: holding_def)
  then have fits: "2 + int (length (ahead ?c)) \<le> int (length (cache ?c))" "length (cache ?c) = 7" "nat (cacheSize ?c) \<le> 5"
    using assms(2) by (auto simp: cache_ok_def)
  have "move_cache 2 (cacheIt ?c) (cacheSize ?c) d = Ok () (upd_ctx (\<lambda>c. c\<lparr>cache := ?x\<rparr>) d)"
    using c fits write_cache_Ok [of 2 "ahead ?c" d] by (auto simp: move_cache_def di_basic_defs cache_ok_def ahead_def upd_ctx_def)
  moreover have "holding rd rest good bs (upd_ctx (\<lambda>c. c\<lparr>cache := ?x, cacheIt := 2\<rparr>) d)"
    using assms(1) c fits length_ahead [OF c] by (auto simp: holding_def reads_def cache_ok_def decoder_input_def) (auto simp: ahead_def)
  ultimately show ?thesis by blast
qed

lemma reset_position:
  assumes "holding rd rest good bs d"
  shows "holding rd rest good bs (upd_ctx (\<lambda>c. if cacheIt c \<ge> 7 then c\<lparr>cacheIt := 2\<rparr> else c) d)"
proof (cases "cacheIt (d_ctx d) \<ge> 7")
  case True
  then have "cacheSize (d_ctx d) = 0" using assms by (auto simp: holding_def cache_ok_def)
  with assms True show ?thesis by (auto simp: holding_def reads_def cache_ok_def decoder_input_def ahead_def)
qed (use assms in \<open>auto simp: holding_def reads_def cache_ok_def decoder_input_def ahead_def\<close>)

lemma ReadCache_runs:
  "runs (\<lambda>d. holding rd rest good bs d \<and> 2 \<le> cacheIt (d_ctx d) \<and> bare d = b) (Diana_ReadCache opt)
     (\<lambda>_ d. holding rd rest good bs d \<and> 2 \<le> cacheIt (d_ctx d) \<and> bare d = b \<and> 0 < cacheSize (d_ctx d) \<and> (opt \<longrightarrow> cacheIt (d_ctx d) = 2))
     (\<lambda>d. holding rd rest good bs d \<and> 2 \<le> cacheIt (d_ctx d) \<and> bare d = b \<and> (opt \<longrightarrow> cacheIt (d_ctx d) = 2))"
proof (rule runsI)
  fix d
  assume A: "holding rd rest good bs d \<and> 2 \<le> cacheIt (d_ctx d) \<and> bare d = b"
  let ?P = "\<lambda>d. holding rd rest good bs d \<and> 2 \<le> cacheIt (d_ctx d) \<and> bare d = b \<and> (opt \<longrightarrow> cacheIt (d_ctx d) = 2)"
  let ?move = "if opt then DI_CHECK (move_cache 2 (cacheIt (d_ctx d)) (cacheSize (d_ctx d))) (\<lambda>_. DI_DO (upd_ctx (\<lambda>c. c\<lparr>cacheIt := 2\<rparr>)) DI_PROC_END)
      else DI_PROC_END"
  let ?reset = "upd_ctx (\<lambda>c. if cacheIt c \<ge> 7 then c\<lparr>cacheIt := 2\<rparr> else c)"
  let ?fill = "\<lambda>d. if cacheIt (d_ctx d) + cacheSize (d_ctx d) < 7 then
         (case read_to_cache (cacheIt (d_ctx d) + cacheSize (d_ctx d)) (7 - cacheSize (d_ctx d) - cacheIt (d_ctx d)) d of
            Ok n d \<Rightarrow> Ok () (upd_ctx (\<lambda>c. c\<lparr>cacheSize := cacheSize c + n\<rparr>) d)
          | Err e d \<Rightarrow> if e = DI_END then Ok () d else Err e d)
       else Ok () d"
  obtain d1 where d1: "?move d = Ok () d1" "?P d1"
  proof (cases opt)
    case True
    obtain x where "move_cache 2 (cacheIt (d_ctx d)) (cacheSize (d_ctx d)) d = Ok () (upd_ctx (\<lambda>c. c\<lparr>cache := x\<rparr>) d)"
      "holding rd rest good bs (upd_ctx (\<lambda>c. c\<lparr>cache := x, cacheIt := 2\<rparr>) d)"
      using compact_cache A by blast
    with True A show ?thesis
      by (intro that [of "upd_ctx (\<lambda>c. c\<lparr>cache := x, cacheIt := 2\<rparr>) d"]) (auto simp: DI_CHECK_def di_basic_defs upd_ctx_def bare_def)
  qed (use A that [of d] in \<open>simp add: di_basic_defs\<close>)
  define d2 where "d2 = ?reset d1"
  have P2: "?P d2" and fits: "cacheIt (d_ctx d2) + cacheSize (d_ctx d2) + (7 - cacheSize (d_ctx d2) - cacheIt (d_ctx d2)) \<le> 7"
    using d1(2) reset_position [of bs d1] by (auto simp: d2_def bare_def)
  have P3: "case ?fill d2 of Ok _ d \<Rightarrow> ?P d | Err e d \<Rightarrow> e \<noteq> C_UNDEFINED \<and> ?P d"
  proof (cases "cacheIt (d_ctx d2) + cacheSize (d_ctx d2) < 7")
    case True
    then have room: "0 \<le> 7 - cacheSize (d_ctx d2) - cacheIt (d_ctx d2)" by simp
    show ?thesis
    proof (cases rule: top_up [OF conjunct1 [OF P2] fits room])
      case (1 m d')
      then show ?thesis using P2 True by (auto simp: bare_def)
    next
      case (2 e s)
      then show ?thesis using P2 True by (auto simp: bare_def)
    qed
  qed (use P2 in simp)
  have run: "Diana_ReadCache opt d = (case ?fill d2 of Ok _ d \<Rightarrow> if cacheSize (d_ctx d) = 0 then Err DI_END d else Ok () d | Err e d \<Rightarrow> Err e d)"
    using d1(1) unfolding Diana_ReadCache_def DI_LET_def prod.case DI_CHECK_def [of ?move] d1(1) di_res.case
    by (simp add: DI_DO_def d2_def DI_CHECK_def di_basic_defs split: di_res.splits)
  show "case Diana_ReadCache opt d of Ok a d \<Rightarrow> holding rd rest good bs d \<and> 2 \<le> cacheIt (d_ctx d) \<and> bare d = b \<and> 0 < cacheSize (d_ctx d) \<and> (opt \<longrightarrow> cacheIt (d_ctx d) = 2)
    | Err e d \<Rightarrow> e \<noteq> C_UNDEFINED \<and> ?P d"
    unfolding run using P3 by (cases "?fill d2") (auto simp: holding_def cache_ok_def)
qed

lemma CacheEatOne_runs:
  "runs (\<lambda>d. holding rd rest good bs d \<and> i \<le> cacheIt (d_ctx d) \<and> bare d = b \<and> 0 < cacheSize (d_ctx d)) Diana_CacheEatOne
     (\<lambda>x d. holding rd rest good (tl bs) d \<and> bs = x # tl bs \<and> i < cacheIt (d_ctx d) \<and> bare d = b) E"
proof (rule runsI)
  fix d
  assume A: "holding rd rest good bs d \<and> i \<le> cacheIt (d_ctx d) \<and> bare d = b \<and> 0 < cacheSize (d_ctx d)"
  then have c: "cache_ok (d_ctx d)" by (simp add: holding_def)
  have "Diana_CacheEatOne d = Ok (cache (d_ctx d) ! nat (cacheIt (d_ctx d))) (upd_ctx (\<lambda>c. c\<lparr>cacheIt := cacheIt c + 1, cacheSize := cacheSize c - 1\<rparr>) d)"
    using A c by (simp add: Diana_CacheEatOne_def DI_CHECK_def read_cache_Ok di_basic_defs cache_ok_def)
  then show "case Diana_CacheEatOne d of Ok x d \<Rightarrow> holding rd rest good (tl bs) d \<and> bs = x # tl bs \<and> i < cacheIt (d_ctx d) \<and> bare d = b
    | Err e d \<Rightarrow> e \<noteq> C_UNDEFINED \<and> E d"
    using A ahead_Cons [OF c] by (auto simp: holding_def reads_def cache_ok_def decoder_input_def bare_def)
qed

end

end
