(* ===== verification/Decoder_Table.thy ===== *)
theory Decoder_Table
  imports Decoder_Contract
begin

unbundle bit_operations_syntax

text \<open>
  What the decoder relies on of the generated table, and what the search gives for such a table: it stays inside the cache and inside its stack of
  states, and the entry it finds is one of the table, as deep as the table says.
\<close>

section \<open>Well-formed tables\<close>

definition same_opcode :: "u16 \<Rightarrow> bool" where
  "same_opcode fl \<longleftrightarrow> fl AND DIANA_BASE_GEN_OBJECT_THE_SAME_OPCODE \<noteq> 0"

fun same_line :: "DianaGenObject \<Rightarrow> bool" where
  "same_line (GenCmd e) = False"
| "same_line (GenLine fl ks) = same_opcode fl"
| "same_line (GenIndex fl f) = same_opcode fl"

fun same_index :: "DianaGenObject \<Rightarrow> bool" where
  "same_index (GenIndex fl f) = same_opcode fl"
| "same_index x = False"

definition virtual_entry :: "DianaCmdEntry \<Rightarrow> bool" where
  "virtual_entry e \<longleftrightarrow> entry_flag e DI_FLAG_CMD_VEX_ENCODED \<or> m_gen_flags e AND DIANA_BASE_GEN_OBJECT_EVEX \<noteq> 0"

text \<open>An entry whose last opcode byte is number \<open>n\<close>: its operands fit, and it is behind the two bytes of a virtual prefix if it needs one.\<close>

definition entry_ok :: "DianaCmdEntry \<Rightarrow> int \<Rightarrow> bool" where
  "entry_ok e n \<longleftrightarrow> length (m_operands e) \<le> DI_MAX_OPERANDS_COUNT \<and> (virtual_entry e \<longrightarrow> 2 \<le> n)"

definition opt_all :: "('a \<Rightarrow> bool) \<Rightarrow> 'a option \<Rightarrow> bool" where
  "opt_all P x \<longleftrightarrow> (case x of None \<Rightarrow> True | Some a \<Rightarrow> P a)"

definition next_byte :: "u16 \<Rightarrow> int \<Rightarrow> int" where
  "next_byte fl n = (if same_opcode fl then n else n + 1)"

text \<open>
  The part of the table behind byte number \<open>n\<close> needs at most \<open>k\<close> states of the search; a line for the same byte stands only in an index, and not
  behind the byte 2, and no index is for the same byte.
\<close>

primrec entry_fits :: "DianaGenObject \<Rightarrow> nat \<Rightarrow> int \<Rightarrow> bool" where
  "entry_fits (GenCmd e) k n = entry_ok e n"
| "entry_fits (GenLine fl ks) k n =
     (0 < k \<and> list_all (\<lambda>x. opt_all (\<lambda>P. P (k - 1) (next_byte fl n)) (snd x)) (map (map_prod id (map_option entry_fits)) ks) \<and>
      list_all (\<lambda>x. opt_all (\<lambda>y. \<not> same_line y) (snd x)) ks)"
| "entry_fits (GenIndex fl f) k n =
     (0 < k \<and> (\<forall>b. opt_all (\<lambda>P. P (k - 1) (next_byte fl n)) ((map_option entry_fits \<circ> f) b)) \<and>
      (\<forall>b. opt_all (\<lambda>y. \<not> same_index y) (f b)) \<and> opt_all (\<lambda>y. \<not> same_line y) (f 2))"

text \<open>The keys of a line that looks at byte number \<open>n\<close>, with \<open>k\<close> states left.\<close>

definition keys_fit :: "DianaGenObject \<Rightarrow> nat \<Rightarrow> int \<Rightarrow> bool" where
  "keys_fit x k n =
     (case x of
        GenCmd e \<Rightarrow> True
      | GenLine fl ks \<Rightarrow> list_all (\<lambda>x. opt_all (\<lambda>y. \<not> same_line y \<and> entry_fits y k n) (snd x)) ks
      | GenIndex fl f \<Rightarrow> (\<forall>b. opt_all (\<lambda>y. \<not> same_index y \<and> entry_fits y k n) (f b)) \<and> opt_all (\<lambda>y. \<not> same_line y) (f 2))"

definition is_legacy_prefix :: "u8 \<Rightarrow> bool" where
  "is_legacy_prefix b \<longleftrightarrow> snd (Di_ProcessCustomPrefix b) \<noteq> None"

text \<open>No prefix byte alone is an instruction.\<close>

definition table_ok :: "DianaGenObject \<Rightarrow> bool" where
  "table_ok root \<longleftrightarrow> keys_fit root 7 0 \<and>
     (case root of
        GenIndex fl f \<Rightarrow> (\<forall>b. is_legacy_prefix b \<longrightarrow> opt_all (\<lambda>y. \<not> same_line y \<and> (\<forall>e. y \<noteq> GenCmd e)) (f b))
      | _ \<Rightarrow> False)"

lemma entry_fits_line: "(\<And>e. x \<noteq> GenCmd e) \<Longrightarrow> entry_fits x k n \<longleftrightarrow> 0 < k \<and> keys_fit x (k - 1) (if same_line x then n else n + 1)"
  by (cases x) (auto simp: keys_fit_def next_byte_def opt_all_def list_all_iff split: option.splits)

section \<open>The stack of the search\<close>

text \<open>A line that is searched with the first byte is the root or a line for the same byte.\<close>

definition first_line :: "DianaGenObject \<Rightarrow> u8 \<Rightarrow> DianaGenObject \<Rightarrow> bool" where
  "first_line root b x \<longleftrightarrow> x = root \<or> (case root of GenIndex fl f \<Rightarrow> f b = Some x \<and> same_line x \<and> \<not> same_index x | _ \<Rightarrow> False)"

text \<open>The search with the bytes from position \<open>lo\<close> on, the first of them being \<open>b\<close>.\<close>

fun stack_ok :: "DianaGenObject \<Rightarrow> u8 \<Rightarrow> int \<Rightarrow> DianaParserContextState list \<Rightarrow> bool" where
  "stack_ok root b lo [] = True"
| "stack_ok root b lo (s # ss) =
     (length ss \<le> 7 \<and> keys_fit (pLine s) (7 - length ss) (opcodePosition s - lo) \<and> -1 \<le> position s \<and> lo \<le> opcodePosition s \<and>
      (opcodePosition s = lo \<longrightarrow> first_line root b (pLine s)) \<and> stack_ok root b lo ss)"

text \<open>The entry found: not the first byte's when that is a prefix.\<close>

definition found_ok :: "DianaGenObject \<Rightarrow> u8 \<Rightarrow> int \<Rightarrow> DianaCmdEntry \<Rightarrow> bool" where
  "found_ok root b n e \<longleftrightarrow> entry_ok e n \<and> (table_ok root \<and> is_legacy_prefix b \<longrightarrow> n \<noteq> 0)"

text \<open>What a step at \<open>it\<close> leaves: an entry, a new line for the next byte on top, or nothing; the states below look at bytes before \<open>hi\<close>.\<close>

definition step_ok :: "DianaGenObject \<Rightarrow> u8 \<Rightarrow> int \<Rightarrow> int \<Rightarrow> int \<Rightarrow> bool \<Rightarrow> DianaParserContext \<Rightarrow> bool" where
  "step_ok root b lo hi it found pc \<longleftrightarrow>
     (if found then
        (case pc_result pc of
           Some e \<Rightarrow> found_ok root b (it - lo) e
         | None \<Rightarrow> \<exists>t ts. states pc = t # ts \<and> opcodePosition t = it + 1 \<and> stack_ok root b lo (t # ts) \<and> (\<forall>s\<in>set ts. opcodePosition s < hi))
      else stack_ok root b lo (states pc) \<and> (\<forall>s\<in>set (states pc). opcodePosition s < hi))"

definition stepped :: "DianaGenObject \<Rightarrow> u8 \<Rightarrow> int \<Rightarrow> int \<Rightarrow> int \<Rightarrow> di_error + (bool \<times> DianaParserContext) \<Rightarrow> bool" where
  "stepped root b lo hi it r = (case r of Inl _ \<Rightarrow> False | Inr (found, pc) \<Rightarrow> step_ok root b lo hi it found pc)"

text \<open>The current state: its line is searched with byte \<open>it\<close>.\<close>

definition search_at :: "DianaGenObject \<Rightarrow> u8 \<Rightarrow> int \<Rightarrow> int \<Rightarrow> int \<Rightarrow> DianaParserContextState \<Rightarrow> DianaParserContextState list \<Rightarrow> bool" where
  "search_at root b lo hi it s ss \<longleftrightarrow> opcodePosition s = it \<and> stack_ok root b lo (s # ss) \<and> (\<forall>s\<in>set (s # ss). opcodePosition s < hi)"

lemma search_at_position: "search_at root b lo hi it s ss \<Longrightarrow> -1 \<le> j \<Longrightarrow> search_at root b lo hi it (s\<lparr>position := j\<rparr>) ss"
  by (auto simp: search_at_def)

lemma step_ok_none: "states pc = s # ss \<Longrightarrow> search_at root b lo hi it s ss \<Longrightarrow> step_ok root b lo hi it False pc"
  by (auto simp: step_ok_def search_at_def)

text \<open>A key may be tried: its object fits, and with the first byte it is no entry of a prefix.\<close>

definition key_ok :: "DianaGenObject \<Rightarrow> u8 \<Rightarrow> int \<Rightarrow> int \<Rightarrow> nat \<Rightarrow> DianaGenObject \<Rightarrow> bool" where
  "key_ok root b lo it k y \<longleftrightarrow>
     entry_fits y k (it - lo) \<and>
     (it = lo \<longrightarrow> (\<forall>e. y = GenCmd e \<longrightarrow> \<not> (table_ok root \<and> is_legacy_prefix b)) \<and> (same_line y \<longrightarrow> first_line root b y))"

lemma Push_ok:
  assumes "states pc = s # ss" "search_at root b lo hi it s ss" "key_ok root b lo it (7 - length ss) y" "\<And>e. y \<noteq> GenCmd e"
  shows "\<exists>pc'. DianaParserContext_PushOpcode y (if same_line y then it else it + 1) pc = Inr pc' \<and> pc_result pc' = pc_result pc \<and>
    states pc' = \<lparr>pLine = y, position = -1, opcodePosition = if same_line y then it else it + 1\<rparr> # s # ss \<and> stack_ok root b lo (states pc')"
proof -
  have f: "0 < 7 - length ss" "keys_fit y (7 - length ss - 1) (if same_line y then it - lo else it - lo + 1)"
    using assms(3) unfolding key_ok_def entry_fits_line [OF assms(4)] by simp_all
  then have room: "length ss < 7" by simp
  have "stack_ok root b lo (\<lparr>pLine = y, position = -1, opcodePosition = if same_line y then it else it + 1\<rparr> # s # ss)"
    using assms(2,3) f room by (auto simp: search_at_def key_ok_def algebra_simps)
  then show ?thesis
    using assms(1) room by (auto simp: DianaParserContext_PushOpcode_def Let_def)
qed

lemma DispatchKey_cases:
  assumes "states pc = s # ss" "pc_result pc = None" "search_at root b lo hi it s ss" "opt_all (key_ok root b lo it (7 - length ss)) obj"
  obtains (No) r where "DispatchKey c key it obj pc = Inr (False, r, pc)"
    | (Entry) e pc' where "DispatchKey c key it obj pc = Inr (True, False, pc')" "pc_result pc' = Some e" "found_ok root b (it - lo) e"
    | (Line) y pc' where "DispatchKey c key it obj pc = Inr (True, same_line y, pc')" "pc_result pc' = None" "obj = Some y"
      "states pc' = \<lparr>pLine = y, position = -1, opcodePosition = if same_line y then it else it + 1\<rparr> # s # ss" "stack_ok root b lo (states pc')"
proof (cases obj)
  case None
  then show ?thesis by (intro that(1) [of False]) (simp add: DispatchKey_def)
next
  case (Some y)
  then have k: "key_ok root b lo it (7 - length ss) y" using assms(4) by (simp add: opt_all_def)
  show ?thesis
  proof (cases "\<exists>e. y = GenCmd e")
    case True
    then obtain e where y: "y = GenCmd e" by blast
    with k have "found_ok root b (it - lo) e" by (auto simp: key_ok_def found_ok_def)
    then show ?thesis using Some y that(1) [of False] that(2) by (cases "entry_matches c key e") (simp_all add: DispatchKey_def)
  next
    case False
    then have line: "\<And>e. y \<noteq> GenCmd e" by blast
    from Push_ok [OF assms(1,3) k line] obtain pc' where pc':
      "DianaParserContext_PushOpcode y (if same_line y then it else it + 1) pc = Inr pc'" "pc_result pc' = pc_result pc"
      "states pc' = \<lparr>pLine = y, position = -1, opcodePosition = if same_line y then it else it + 1\<rparr> # s # ss" "stack_ok root b lo (states pc')"
      by blast
    have "DispatchKey c key it obj pc = Inr (True, same_line y, pc')"
      using pc'(1) Some line by (cases y) (auto simp: DispatchKey_def Let_def same_opcode_def)
    then show ?thesis using that(3) pc'(2-4) assms(2) Some by simp
  qed
qed

text \<open>The keys of a line.\<close>

lemma line_key_ok:
  assumes "search_at root b lo hi it s ss" "pLine s = GenLine fl ks" "(o', y) \<in> set ks"
  shows "opt_all (\<lambda>y. key_ok root b lo it (7 - length ss) y \<and> \<not> same_line y) y"
proof (cases y)
  case (Some z)
  have "keys_fit (pLine s) (7 - length ss) (it - lo)" and first: "it = lo \<longrightarrow> first_line root b (pLine s)"
    using assms(1) by (auto simp: search_at_def)
  with assms(2,3) Some have "\<not> same_line z" "entry_fits z (7 - length ss) (it - lo)"
    by (fastforce simp: keys_fit_def opt_all_def list_all_iff)+
  moreover have "\<not> (table_ok root \<and> is_legacy_prefix b)" if "it = lo"
    using first that assms(2) by (auto simp: first_line_def table_ok_def opt_all_def split: DianaGenObject.splits)
  ultimately show ?thesis using Some by (simp add: opt_all_def key_ok_def)
qed (simp add: opt_all_def)

lemma scan_line_ok:
  assumes "states pc = s # ss" "pc_result pc = None" "search_at root b lo hi it s ss" "pLine s = GenLine fl all" "set ks \<subseteq> set all" "0 \<le> j"
  shows "stepped root b lo hi it (scan_line c key it ks j pc)"
  using assms
proof (induction ks arbitrary: s j pc)
  case Nil
  then show ?case
    using search_at_position [OF Nil.prems(3), of j] by (auto simp: step_ok_def stepped_def states_set_position search_at_def)
next
  case (Cons k ks)
  obtain o' obj where k: "k = (o', obj)" by fastforce
  show ?case
  proof (cases "o' = fst key")
    case False
    then show ?thesis using Cons.IH [OF Cons.prems(1-4), of "j + 1"] Cons.prems(5,6) k by simp
  next
    case True
    let ?pc = "set_position j pc" and ?s = "s\<lparr>position := j\<rparr>"
    have st: "states ?pc = ?s # ss" "pc_result ?pc = None" "search_at root b lo hi it ?s ss"
      using Cons.prems(1,2,6) search_at_position [OF Cons.prems(3), of j] by (simp_all add: states_set_position set_position_def)
    have ok: "opt_all (\<lambda>y. key_ok root b lo it (7 - length ss) y \<and> \<not> same_line y) obj"
      using line_key_ok [OF Cons.prems(3,4), of o' obj] Cons.prems(5) k by simp
    then have ok': "opt_all (key_ok root b lo it (7 - length ss)) obj" by (auto simp: opt_all_def split: option.splits)
    show ?thesis
    proof (cases rule: DispatchKey_cases [OF st ok', of c key])
      case (1 r)
      then show ?thesis using Cons.IH [OF st, of "j + 1"] Cons.prems(4-6) k True by simp
    next
      case (2 e pc')
      then show ?thesis using k True by (simp add: step_ok_def stepped_def)
    next
      case (3 y pc')
      then have "\<not> same_line y" using ok by (simp add: opt_all_def)
      with 3 st(3) show ?thesis using k True by (auto simp: step_ok_def stepped_def search_at_def)
    qed
  qed
qed

lemma scan_from_ok:
  assumes "states pc = s # ss" "pc_result pc = None" "search_at root b lo hi it s ss" "position s < 0 \<longrightarrow> fst key \<noteq> 2"
  shows "stepped root b lo hi it (scan_from c key it pc)"
proof (cases "pLine s")
  case (GenLine fl ks)
  show ?thesis
  proof (cases "position s < 0")
    case True
    then show ?thesis using scan_line_ok [OF assms(1-3) GenLine, of ks 0 c key] assms(1,4) GenLine by (simp add: scan_from_def)
  next
    case False
    then show ?thesis
      using scan_line_ok [OF assms(1-3) GenLine set_drop_subset, of "position s" c key "nat (position s)"] assms(1) GenLine by (simp add: scan_from_def)
  qed
qed (use assms in \<open>auto simp: scan_from_def step_ok_def stepped_def search_at_def\<close>)

text \<open>One step of the search.\<close>

lemma FindNextCmdKey_ok:
  assumes "states pc = s # ss" "search_at root b lo hi it s ss" "it = lo \<longrightarrow> fst key = b"
  shows "stepped root b lo hi it (FindNextCmdKey c key it pc)"
proof -
  let ?pc = "(set_position (position s + 1) pc)\<lparr>pc_result := None\<rparr>" and ?s = "s\<lparr>position := position s + 1\<rparr>"
  have pos: "0 \<le> position s + 1" using assms(2) by (simp add: search_at_def)
  have st: "states ?pc = ?s # ss" "pc_result ?pc = None" "search_at root b lo hi it ?s ss"
    using assms(1) pos search_at_position [OF assms(2), of "position s + 1"] by (simp_all add: states_set_position)
  show ?thesis
  proof (cases "pLine s")
    case (GenCmd e)
    then show ?thesis using assms(1) step_ok_none [OF st(1,3)] by (simp add: FindNextCmdKey_def Let_def stepped_def)
  next
    case (GenLine fl ks)
    then show ?thesis using scan_from_ok [OF st, of key c] assms(1) pos by (simp add: FindNextCmdKey_def Let_def)
  next
    case (GenIndex fl f)
    let ?k = "fst key" and ?p0 = "set_position (uint (fst key)) ?pc" and ?s0 = "s\<lparr>position := uint (fst key)\<rparr>"
    have s0: "states ?p0 = ?s0 # ss" "pc_result ?p0 = None" "search_at root b lo hi it ?s0 ss"
      using st search_at_position [OF assms(2) order_trans [of "-1" 0], of "uint ?k"] by (simp_all add: states_set_position) (simp add: set_position_def)
    have fit: "keys_fit (GenIndex fl f) (7 - length ss) (it - lo)" and first: "it = lo \<longrightarrow> first_line root b (GenIndex fl f)"
      using assms(2) GenIndex by (auto simp: search_at_def)
    have ok: "opt_all (key_ok root b lo it (7 - length ss)) (f ?k)"
    proof (cases "f ?k")
      case (Some y)
      have "entry_fits y (7 - length ss) (it - lo)" and line: "\<not> same_index y" using fit Some by (fastforce simp: keys_fit_def opt_all_def split: option.splits)+
      moreover have "first_line root b y" if "same_line y" "it = lo"
        using first line that assms(3) Some by (auto simp: first_line_def split: DianaGenObject.splits)
      moreover have "\<not> (table_ok root \<and> is_legacy_prefix b)" if "y = GenCmd e" "it = lo" for e
        using first that assms(3) Some by (fastforce simp: first_line_def table_ok_def keys_fit_def opt_all_def split: DianaGenObject.splits option.splits)
      ultimately show ?thesis using Some by (auto simp: opt_all_def key_ok_def)
    qed (simp add: opt_all_def)
    show ?thesis
    proof (cases "position s + 1 > uint ?k")
      case True
      then show ?thesis using assms(1) step_ok_none [OF st(1,3)] GenIndex by (simp add: FindNextCmdKey_def Let_def stepped_def)
    next
      case False
      show ?thesis
      proof (cases rule: DispatchKey_cases [OF s0 ok, of c key])
        case (1 r)
        then show ?thesis using assms(1) GenIndex False step_ok_none [OF s0(1,3)] by (simp add: FindNextCmdKey_def Let_def stepped_def)
      next
        case (2 e pc')
        then show ?thesis using assms(1) GenIndex False by (simp add: FindNextCmdKey_def Let_def step_ok_def stepped_def)
      next
        case (3 y pc')
        show ?thesis
        proof (cases "same_line y")
          case True
          let ?t = "\<lparr>pLine = y, position = -1, opcodePosition = it\<rparr>"
          have t: "search_at root b lo hi it ?t (?s0 # ss)" using 3(4,5) s0(3) True by (simp add: search_at_def)
          have "?k \<noteq> 2" using fit 3(3) True by (auto simp: keys_fit_def opt_all_def)
          then have "stepped root b lo hi it (scan_from c key it pc')"
            using scan_from_ok [of pc' ?t "?s0 # ss" root b lo hi it key c] 3(2,4) True t by simp
          then show ?thesis using assms(1) GenIndex False True 3(1) by (simp add: FindNextCmdKey_def Let_def)
        next
          case False': False
          with 3 s0(3) have "step_ok root b lo hi it True pc'" by (auto simp: step_ok_def stepped_def search_at_def)
          then show ?thesis using assms(1) GenIndex False False' 3(1) by (simp add: FindNextCmdKey_def Let_def stepped_def)
        qed
      qed
    qed
  qed
qed

section \<open>The whole search\<close>

lemma GetKey_ok:
  assumes "cache_ok c" "0 \<le> it" "it < cacheIt c + cacheSize c"
  shows "\<exists>x. GetKeyByAddress c it = Some (cache c ! nat it, x)"
  using assms by (auto simp: GetKeyByAddress_def cache_ok_def Let_def)

lemma Rollback_ok:
  assumes "stack_ok root b lo (states pc)" "\<forall>s\<in>set (tl (states pc)). opcodePosition s < hi" "FindNextCmdKey_Rollback pc = Some (it, pc')"
  shows "\<exists>s ss. states pc' = s # ss \<and> search_at root b lo hi it s ss"
  using assms by (auto simp: FindNextCmdKey_Rollback_def search_at_def split: list.splits)

declare search_loop.simps [simp del]

lemma search_loop_ok:
  assumes "cache_ok c" "states pc = s # ss" "search_at root b lo (cacheIt c + cacheSize c) it s ss" "0 \<le> lo" "b = cache c ! nat lo"
  shows "case search_loop c it pc of
      Inl x \<Rightarrow> x = DI_ERROR
    | Inr (e, it') \<Rightarrow> lo \<le> it' \<and> it' < cacheIt c + cacheSize c \<and> found_ok root b (it' - lo) e"
  using assms
proof (induction c it pc arbitrary: s ss rule: search_loop.induct)
  case (1 c it pc)
  let ?hi = "cacheIt c + cacheSize c"
  have it: "lo \<le> it" "it < ?hi" using 1(5) by (auto simp: search_at_def)
  obtain x where key: "GetKeyByAddress c it = Some (cache c ! nat it, x)"
    using GetKey_ok [OF 1(3), of it] it 1(6) by auto
  obtain found pc1 where step: "FindNextCmdKey c (cache c ! nat it, x) it pc = Inr (found, pc1)" "step_ok root b lo ?hi it found pc1"
    using FindNextCmdKey_ok [OF 1(4,5), of "(cache c ! nat it, x)" c] 1(7) by (auto simp: stepped_def split: sum.splits)
  show ?case
  proof (cases "if found then pc_result pc1 else None")
    case (Some e)
    with step it key show ?thesis unfolding search_loop.simps [of c it pc] by (auto simp: step_ok_def split: if_splits)
  next
    case None
    show ?thesis
    proof (cases "found \<and> it + 1 < ?hi")
      case True
      with None step(2) obtain t ts where "states pc1 = t # ts" "search_at root b lo ?hi (it + 1) t ts"
        by (auto simp: step_ok_def search_at_def)
      from 1(1) [OF key step(1) refl None True 1(3) this 1(6,7)] key step(1) None True show ?thesis
        unfolding search_loop.simps [of c it pc] by simp
    next
      case False
      have stack: "stack_ok root b lo (states pc1)" "\<forall>s\<in>set (tl (states pc1)). opcodePosition s < ?hi"
        using step(2) None by (cases "states pc1"; auto simp: step_ok_def split: if_splits)+
      show ?thesis
      proof (cases "FindNextCmdKey_Rollback pc1")
        case r: None
        then show ?thesis using key step(1) None False unfolding search_loop.simps [of c it pc] by auto
      next
        case (Some z)
        obtain it' pc' where z: "z = (it', pc')" by fastforce
        obtain t ts where "states pc' = t # ts" "search_at root b lo ?hi it' t ts"
          using Rollback_ok [OF stack] Some z by blast
        from 1(2) [OF key step(1) refl None False Some z [symmetric] 1(3) this 1(6,7)] key step(1) None False Some z show ?thesis
          unfolding search_loop.simps [of c it pc] by auto
      qed
    qed
  qed
qed

text \<open>The entry found in a well-formed table.\<close>

lemma search_ok:
  assumes "cache_ok c" "0 < cacheSize c" "table_ok root"
  shows "case search_loop c (cacheIt c) (DianaParserContext_Init root (cacheIt c)) of
      Inl x \<Rightarrow> x = DI_ERROR
    | Inr (e, it) \<Rightarrow> cacheIt c \<le> it \<and> it < cacheIt c + cacheSize c \<and> entry_ok e (it - cacheIt c) \<and>
        (is_legacy_prefix (cache c ! nat (cacheIt c)) \<longrightarrow> cacheIt c < it)"
proof -
  let ?s = "\<lparr>pLine = root, position = -1, opcodePosition = cacheIt c\<rparr>"
  have "search_at root (cache c ! nat (cacheIt c)) (cacheIt c) (cacheIt c + cacheSize c) (cacheIt c) ?s []"
    using assms(2,3) by (simp add: search_at_def table_ok_def first_line_def)
  from search_loop_ok [OF assms(1) _ this, of "DianaParserContext_Init root (cacheIt c)"] assms(1,3) show ?thesis
    by (auto simp: DianaParserContext_Init_def found_ok_def cache_ok_def split: sum.splits)
qed

end
