(* ===== verification/Decoder_Linking.thy ===== *)
theory Decoder_Linking
  imports Decoder_Table
begin

unbundle bit_operations_syntax

text \<open>
  The contract of the operand linker: it reads the rest of the cache and then the stream, in order, never outside the cache, and leaves the cache itself
  alone.
\<close>

section \<open>What the linker sees\<close>

text \<open>The bytes that the proxy still gives.\<close>

definition pending :: "('s \<Rightarrow> u8 list) \<Rightarrow> 's Decoder \<Rightarrow> u8 list" where
  "pending rest d = take (nat (proxy_tail_size d)) (drop (nat (proxy_begin d)) (cache (d_ctx d))) @ rest (d_stream d)"

text \<open>What the linker leaves alone of the context.\<close>

definition window :: "DecoderContext \<Rightarrow> DecoderContext \<Rightarrow> bool" where
  "window c0 c \<longleftrightarrow> cache c = cache c0 \<and> cacheIt c = cacheIt c0 \<and> cacheSize c = cacheSize c0 \<and> prefixes c = prefixes c0 \<and> iVexPrefix c = iVexPrefix c0"

text \<open>
  The state of the linker: cache and position are those of \<open>c0\<close>, the cache's content ends at \<open>stop\<close>, at most \<open>m\<close> bytes of it are not used, \<open>k\<close> operands are linked, and the bytes that the
  proxy still gives are a suffix of \<open>inp\<close>.
\<close>

definition proxying :: "'s DianaRead_fnc \<Rightarrow> ('s \<Rightarrow> bool) \<Rightarrow> DecoderContext \<Rightarrow> int \<Rightarrow> int \<Rightarrow> nat \<Rightarrow> 's Decoder \<Rightarrow> bool" where
  "proxying rd good c0 stop m k d \<longleftrightarrow>
     reads rd good d \<and> window c0 (d_ctx d) \<and> length (cache c0) = 7 \<and> 0 \<le> cacheIt c0 \<and> cacheIt c0 \<le> proxy_begin d \<and> 0 \<le> proxy_tail_size d \<and> proxy_tail_size d \<le> m \<and>
     (proxy_tail_size d = 0 \<or> proxy_begin d + proxy_tail_size d = stop) \<and> cacheIt c0 \<le> stop \<and> stop \<le> 7 \<and> length (d_operands (d_res d)) = k"

definition linking ::
    "'s DianaRead_fnc \<Rightarrow> ('s \<Rightarrow> u8 list) \<Rightarrow> ('s \<Rightarrow> bool) \<Rightarrow> DecoderContext \<Rightarrow> int \<Rightarrow> int \<Rightarrow> u8 list \<Rightarrow> nat \<Rightarrow> 's Decoder \<Rightarrow> bool" where
  "linking rd rest good c0 stop m inp k d \<longleftrightarrow>
     proxying rd good c0 stop m k d \<and> (\<exists>w. inp = w @ pending rest d)"

lemma linking_upd:
  assumes "linking rd rest good c0 stop m inp k d"
  shows "(\<And>c. window c (f c)) \<Longrightarrow> linking rd rest good c0 stop m inp k (upd_ctx f d)"
    and "(\<And>r. length (d_operands (g r)) = length (d_operands r)) \<Longrightarrow> linking rd rest good c0 stop m inp k (upd_res g d)"
  using assms by (auto simp: linking_def proxying_def reads_def pending_def window_def)

lemma linking_step:
  assumes "linking rd rest good c0 stop m inp k d" "proxying rd good c0 stop m k d'" "pending rest d = ys @ pending rest d'"
  shows "linking rd rest good c0 stop m inp k d'"
  using assms by (auto simp: linking_def)

lemma defined_case: "(\<And>t. r \<noteq> Err C_UNDEFINED t) \<Longrightarrow> (case r of Err C_UNDEFINED d \<Rightarrow> f d | _ \<Rightarrow> y) = y"
  by (auto split: di_res.splits di_error.splits)

lemma rm_number: "(b :: u8) AND 7 < 16" "(b AND 7) OR 8 < (16 :: u8)"
proof -
  have "uint b AND 7 < 2 ^ 4" by (rule le_less_trans [OF AND_upper2]) simp_all
  then have "uint b AND 7 < 16" "(uint b AND 7) OR 8 < 16"
    using OR_upper [of "uint b AND 7" 4 8] by simp_all
  then show "b AND 7 < 16" "(b AND 7) OR 8 < 16"
    by (simp_all add: word_less_def uint_and uint_or)
qed

lemma GetRm_less: "Diana_GetRm b < 16" "Diana_GetRm2 c b < 16"
  using rm_number [of b] by (simp_all add: Diana_GetRm2_def Diana_GetRm_def)

context code_stream
begin

lemma StreamProxy_Read_cases:
  assumes "0 \<le> n" "proxying rd good c0 stop m k d"
  shows "case StreamProxy_Read n d of
      Ok ys d' \<Rightarrow> proxying rd good c0 stop m k d' \<and> pending rest d = ys @ pending rest d' \<and> int (length ys) \<le> n \<and>
        (1 \<le> n \<longrightarrow> proxy_tail_size d' \<le> max 0 (m - 1))
    | Err e d' \<Rightarrow> e \<noteq> C_UNDEFINED \<and> proxying rd good c0 stop m k d' \<and> (\<exists>ys. pending rest d = ys @ pending rest d')"
proof -
  let ?t = "proxy_tail_size d" and ?b = "proxy_begin d"
  define bs where "bs = cache c0"
  have r: "reads rd good d" and c: "cache (d_ctx d) = bs" "length bs = 7" "0 \<le> ?b" "0 \<le> ?t" "?t = 0 \<or> ?b + ?t \<le> 7"
    using assms(2) by (auto simp: proxying_def window_def bs_def)
  consider "?t = 0" | "?t \<noteq> 0" "n \<le> ?t" | "?t \<noteq> 0" "?t < n" by linarith
  then show ?thesis
  proof cases
    case 1
    then have run: "StreamProxy_Read n d = read_stream n d" by (simp add: StreamProxy_Read_def DI_LET_def)
    show ?thesis unfolding run
      by (cases rule: read_stream_cases [OF r assms(1)]) (use assms(2) 1 in \<open>simp_all add: bs_def [symmetric] proxying_def reads_def pending_def\<close>)
  next
    case 2
    have run: "StreamProxy_Read n d = Ok (take (nat n) (drop (nat ?b) bs)) (d\<lparr>proxy_tail_size := ?t - n, proxy_begin := ?b + n\<rparr>)"
      using 2 c assms(1) by (auto simp: StreamProxy_Read_def DI_CHECK_def cache_bytes_def di_basic_defs)
    have "nat ?t = nat n + nat (?t - n)" "nat (?b + n) = nat ?b + nat n" using 2 c assms(1) by auto
    then have "take (nat ?t) (drop (nat ?b) bs) = take (nat n) (drop (nat ?b) bs) @ take (nat (?t - n)) (drop (nat (?b + n)) bs)"
      by (simp add: take_add add.commute)
    then show ?thesis unfolding run using assms 2 c by (simp add: bs_def [symmetric] proxying_def reads_def pending_def)
  next
    case 3
    have "cache_bytes ?b ?t d = Ok (take (nat ?t) (drop (nat ?b) bs)) d"
      using 3 c by (auto simp: cache_bytes_def di_basic_defs)
    then have run: "StreamProxy_Read n d = (case read_stream (n - ?t) d of
        Ok ys d \<Rightarrow> Ok (take (nat ?t) (drop (nat ?b) bs) @ ys) (d\<lparr>proxy_tail_size := 0\<rparr>) | Err e d \<Rightarrow> Err e (d\<lparr>proxy_tail_size := 0\<rparr>))"
      using 3 by (simp add: StreamProxy_Read_def DI_CHECK_def DI_LET_def)
    have pos: "0 \<le> n - ?t" using 3 by simp
    show ?thesis unfolding run
      by (cases rule: read_stream_cases [OF r pos]) (use assms(2) 3 c in \<open>simp_all add: bs_def [symmetric] proxying_def reads_def pending_def\<close>)
  qed
qed

lemma StreamProxy_Read_runs:
  assumes "0 \<le> n"
  shows "runs (\<lambda>d. linking rd rest good c0 stop m inp k d \<and> pending rest d = x) (StreamProxy_Read n)
    (\<lambda>ys d. linking rd rest good c0 stop m inp k d \<and> x = ys @ pending rest d \<and> int (length ys) \<le> n \<and>
      (1 \<le> n \<longrightarrow> proxy_tail_size d \<le> max 0 (m - 1))) (linking rd rest good c0 stop m inp k)"
proof (rule runsI)
  fix d
  assume A: "linking rd rest good c0 stop m inp k d \<and> pending rest d = x"
  then have "proxying rd good c0 stop m k d" by (simp add: linking_def)
  from StreamProxy_Read_cases [OF assms this]
  show "case StreamProxy_Read n d of Ok ys d \<Rightarrow> linking rd rest good c0 stop m inp k d \<and> x = ys @ pending rest d \<and> int (length ys) \<le> n \<and>
      (1 \<le> n \<longrightarrow> proxy_tail_size d \<le> max 0 (m - 1))
    | Err e d \<Rightarrow> e \<noteq> C_UNDEFINED \<and> linking rd rest good c0 stop m inp k d"
    using A linking_step [OF conjunct1 [OF A]] by (auto split: di_res.splits)
qed

lemma StreamProxy_Read_safe: "0 \<le> n \<Longrightarrow> safe (linking rd rest good c0 stop m inp k) (StreamProxy_Read n)"
  by (rule runs_ghost [OF StreamProxy_Read_runs]) simp_all

lemma read_exactly_safe: "0 \<le> n \<Longrightarrow> e \<noteq> C_UNDEFINED \<Longrightarrow> safe (linking rd rest good c0 stop m inp k) (read_exactly e n)"
  unfolding read_exactly_def by (intro runs_CHECK [OF StreamProxy_Read_safe] runs_if safe_basic)

lemma ReadValue_safe: "safe (linking rd rest good c0 stop m inp k) (DianaReadValueAsLong n s)"
  unfolding DianaReadValueAsLong_def
  by (auto simp: Let_def intro!: runs_if safe_basic runs_CHECK [OF read_exactly_safe])

lemmas safe_rules = safe_basic runs_if safe_LET read_exactly_safe ReadValue_safe

lemma dec_option_safe: "safe I (dec_option x)"
  by (cases x) (simp_all add: dec_option_def safe_basic)

lemma DispatchMod3_safe:
  assumes "rm < 16 \<or> ty \<in> {diana_orMemoryXMM, diana_orMemoryYMM, diana_orMemoryZMM, diana_orMemoryK}"
  shows "safe I (Diana_DispatchMod3 ty rm n rex)"
  using assms unfolding Diana_DispatchMod3_def Let_def
  by (auto intro!: runs_if runs_CHECK [OF dec_option_safe] safe_basic split: option.splits)

lemma ReadIndexStructure16_safe: "safe I (Diana_ReadIndexStructure16 ty n b)"
  unfolding Diana_ReadIndexStructure16_def Let_def
  by (auto intro!: safe_LET runs_CHECK [OF DispatchMod3_safe] safe_basic GetRm_less split: prod.splits)

lemma sib_safe: "safe I (sib_base md base disp)" "safe I (sib_index vsib n ss ix)"
  unfolding sib_base_def sib_index_def Let_def
  by (auto intro!: safe_LET runs_if runs_CHECK [OF dec_option_safe] safe_basic split: prod.splits)

lemma ReadIndexStructure32_safe: "safe (linking rd rest good c0 stop m inp k) (Diana_ReadIndexStructure32 info n b)"
  unfolding Diana_ReadIndexStructure32_def Let_def
  by (auto intro!: safe_LET runs_if runs_CHECK [OF DispatchMod3_safe] runs_CHECK [OF read_exactly_safe] runs_CHECK [OF sib_safe(1)] runs_CHECK [OF sib_safe(2)]
      safe_basic GetRm_less split: prod.splits)

lemma link_form_safe: "safe (linking rd rest good c0 stop m inp k) (link_form info asz osz l)"
  unfolding link_form_def Let_def
  by (rule runs_case [where Q = "\<lambda>_. linking rd rest good c0 stop m inp k" and E = "linking rd rest good c0 stop m inp k"])
    (auto intro!: ReadIndexStructure32_safe ReadIndexStructure16_safe)

lemma link_value_safe: "safe I (link_value p l v)" "safe I (link_register p l r)"
  by (cases r; simp add: link_value_def link_register_def safe_basic)+

lemma small_links_safe:
  "safe I (link_registry e p l)" "safe I (link_imm i p l)" "safe I (link_sreg p l)" "safe I (vector_code e i ty b l)"
  unfolding link_registry_def link_imm_def link_sreg_def vector_code_def Let_def
  by (intro safe_LET runs_if link_value_safe safe_basic di_error.distinct)+

lemma evex_memory_safe: "safe (linking rd rest good c0 stop m inp k) (evex_memory e p l)"
  unfolding evex_memory_def Let_def
  by (intro safe_LET runs_if safe_DO safe_basic) (auto intro!: linking_upd simp: window_def)

lemma link_regmem_safe: "safe (linking rd rest good c0 stop m inp k) (link_regmem e i p l)"
  unfolding link_regmem_def Let_def
  by (auto intro!: safe_LET runs_if runs_CHECK [OF link_form_safe] evex_memory_safe link_value_safe safe_basic split: prod.splits DianaOperandValue.splits)

lemma link_memory_safe: "safe (linking rd rest good c0 stop m inp k) (link_memory i p l)"
  unfolding link_memory_def Let_def
  by (auto intro!: safe_LET runs_if runs_CHECK [OF link_form_safe] link_value_safe safe_basic split: prod.splits DianaOperandValue.splits)

lemma link_reads_safe:
  "safe (linking rd rest good c0 stop m inp k) (link_ptr e p l)" "safe (linking rd rest good c0 stop m inp k) (link_rel e p l)"
  unfolding link_ptr_def link_rel_def Let_def
  by (auto intro!: safe_LET runs_if runs_CHECK [OF ReadValue_safe] link_value_safe safe_basic)

lemma link_vector_safe: "safe (linking rd rest good c0 stop m inp k) (link_vector e i p l)"
  unfolding link_vector_def Let_def
  by (auto intro!: safe_LET runs_if runs_CHECK [OF small_links_safe(4)] link_value_safe safe_basic split: prod.splits option.splits)

lemma link_operand_safe: "safe (linking rd rest good c0 stop m inp k) (link_operand e i p l)"
  unfolding link_operand_def Let_def
  by (auto intro!: safe_LET runs_if small_links_safe link_regmem_safe link_memory_safe link_reads_safe link_vector_safe link_value_safe safe_basic
      split: DianaOperands_type.splits option.splits)

section \<open>All operands\<close>

lemma link_loop_runs:
  "k + length infos \<le> 6 \<Longrightarrow>
   runs (linking rd rest good c0 stop m inp k) (link_loop e i infos l) (\<lambda>_. linking rd rest good c0 stop m inp (k + length infos))
     (\<lambda>d. \<exists>k. linking rd rest good c0 stop m inp k d)"
proof (induction infos arbitrary: i l k)
  case Nil
  then show ?case by (simp add: runs_RETURN)
next
  case (Cons info infos)
  let ?L = "linking rd rest good c0 stop m inp"
  have step: "runs (?L k) (link_operand e i p l) (\<lambda>_. ?L k) (\<lambda>d. \<exists>k. ?L k d)" for p
    by (rule runs_post [OF link_operand_safe]) auto
  have grow: "?L (Suc k) (upd_res (\<lambda>r. r\<lparr>d_operands := d_operands r @ [p]\<rparr>) d)" if "?L k d" for p d
    using that by (auto simp: linking_def proxying_def reads_def pending_def)
  have count: "length (d_operands (d_res d)) = k" if "?L k d" for d
    using that by (simp add: linking_def proxying_def)
  have next_ok: "runs (?L (Suc k)) (link_loop e (Suc i) infos l') (\<lambda>_. ?L (Suc (k + length infos))) (\<lambda>d. \<exists>k. ?L k d)" for l'
    using Cons.IH [of "Suc k" "Suc i" l'] Cons.prems by simp
  show ?case
  proof (rule runsI)
    fix d
    assume d: "?L k d"
    let ?p = "new_operand (d_ctx d) e info"
    have "runs (?L k) (DI_CHECK (link_operand e i ?p l) (\<lambda>(p, l).
        DI_DO (upd_res (\<lambda>r. r\<lparr>d_operands := d_operands r @ [p]\<rparr>)) (link_loop e (Suc i) infos l)))
      (\<lambda>_. ?L (Suc (k + length infos))) (\<lambda>d. \<exists>k. ?L k d)"
      by (rule runs_CHECK [OF step], clarsimp split: prod.split) (rule runs_DO [OF next_ok], rule grow)
    from this [unfolded runs_def, rule_format, OF d] count [OF d] Cons.prems
    show "case link_loop e i (info # infos) l d of Ok _ d \<Rightarrow> ?L (k + length (info # infos)) d
        | Err x d \<Rightarrow> x \<noteq> C_UNDEFINED \<and> (\<exists>k. ?L k d)"
      unfolding list.size add_Suc_right add_0_right by (simp add: DI_LET_def)
  qed
qed

lemma upd_operand_linking: "linking rd rest good c0 stop m inp k d \<Longrightarrow> linking rd rest good c0 stop m inp k (upd_operand i f d)"
  unfolding upd_operand_def by (rule linking_upd) auto

lemma read_disp_safe: "safe (linking rd rest good c0 stop m inp k) (read_disp l i)"
  unfolding read_disp_def Let_def
  by (auto intro!: safe_LET runs_CHECK [OF ReadValue_safe] safe_DO safe_basic upd_operand_linking)

lemma record_scale_linking: "linking rd rest good c0 stop m inp k d \<Longrightarrow> linking rd rest good c0 stop m inp k (record_scale l d)"
  unfolding record_scale_def by (auto intro: linking_upd)

lemma link_disp_safe: "safe (linking rd rest good c0 stop m inp k) (link_disp l)"
proof -
  let ?L = "linking rd rest good c0 stop m inp k"
  have "safe ?L (\<lambda>d. case l_pLinkedDispOp l of None \<Rightarrow> Ok l d | Some i \<Rightarrow> read_disp l i d)"
    using read_disp_safe [of c0 stop m inp k l] by (cases "l_pLinkedDispOp l") (auto simp: runs_def)
  then show ?thesis
    unfolding link_disp_def by (rule runs_case) (auto intro: record_scale_linking)
qed

lemma read_imm_safe: "safe (linking rd rest good c0 stop m inp k) (read_imm e n i off)"
  unfolding read_imm_def Let_def
  by (intro safe_LET safe_DO runs_case [OF ReadValue_safe]) (auto intro: upd_operand_linking)

lemma link_imms_safe: "safe (linking rd rest good c0 stop m inp k) (link_imms e l)"
proof -
  let ?L = "linking rd rest good c0 stop m inp k"
  have one: "safe ?L (DI_CHECK (read_imm e n i off) (\<lambda>_. DI_PROC_END))" for n i off
    by (intro runs_CHECK [OF read_imm_safe] safe_basic)
  have two: "safe ?L (\<lambda>d. case read_imm e n i off d of Err C_UNDEFINED d \<Rightarrow> Err C_UNDEFINED d
      | _ \<Rightarrow> DI_CHECK (read_imm e n' j (off' d)) (\<lambda>_. DI_PROC_END) (res_state (read_imm e n i off d)))" for n n' i j off off'
  proof (rule runsI)
    fix d
    assume d: "?L d"
    have r: "?L (res_state (read_imm e n i off d))" "\<And>t. read_imm e n i off d \<noteq> Err C_UNDEFINED t"
      using runs_OkD [OF read_imm_safe d] runs_ErrD [OF read_imm_safe d] by (cases "read_imm e n i off d"; auto)+
    show "case (case read_imm e n i off d of Err C_UNDEFINED d \<Rightarrow> Err C_UNDEFINED d
        | _ \<Rightarrow> DI_CHECK (read_imm e n' j (off' d)) (\<lambda>_. DI_PROC_END) (res_state (read_imm e n i off d))) of
        Ok _ d \<Rightarrow> ?L d | Err x d \<Rightarrow> x \<noteq> C_UNDEFINED \<and> ?L d"
      unfolding defined_case [OF r(2)] by (rule one [unfolded runs_def, rule_format, OF r(1)])
  qed
  show ?thesis
    unfolding link_imms_def Let_def by (auto intro!: one two safe_basic split: list.splits)
qed

lemma link_is4_linking: "linking rd rest good c0 stop m inp k d \<Longrightarrow> linking rd rest good c0 stop m inp k (link_is4 l d)"
  unfolding link_is4_def Let_def by (auto intro: upd_operand_linking split: option.splits)

text \<open>The opcode byte is always read.\<close>

lemma linking_tl: "0 \<le> m \<Longrightarrow> linking rd rest good c0 stop (max 0 (m - 1)) (tl inp) k d \<Longrightarrow> linking rd rest good c0 stop m inp k d"
  by (cases inp) (auto simp: linking_def proxying_def intro: exI [of _ "_ # _"])

lemma read_opcode_runs:
  assumes "1 \<le> n" "e \<noteq> C_UNDEFINED"
  shows "runs (\<lambda>d. linking rd rest good c0 stop m inp k d \<and> pending rest d = inp) (read_exactly e n)
    (\<lambda>_ d. inp \<noteq> [] \<and> linking rd rest good c0 stop (max 0 (m - 1)) (tl inp) k d) (linking rd rest good c0 stop m inp k)"
  unfolding read_exactly_def
proof (rule runs_CHECK [OF StreamProxy_Read_runs], goal_cases)
  case (2 ys)
  show ?case
  proof (rule runs_if)
    show "runs (\<lambda>d. linking rd rest good c0 stop m inp k d \<and> inp = ys @ pending rest d \<and> int (length ys) \<le> n \<and>
      (1 \<le> n \<longrightarrow> proxy_tail_size d \<le> max 0 (m - 1))) (DI_RETURN ys)
      (\<lambda>_ d. inp \<noteq> [] \<and> linking rd rest good c0 stop (max 0 (m - 1)) (tl inp) k d) (linking rd rest good c0 stop m inp k)" if "\<not> int (length ys) \<noteq> n"
      using that assms(1) by (cases ys) (auto simp: linking_def proxying_def intro!: runs_RETURN)
  qed (rule runs_FAIL [OF assms(2)], blast)
qed (use assms in simp)

lemma link_opcode_runs:
  "runs (\<lambda>d. linking rd rest good c0 stop m inp k d \<and> pending rest d = inp) (link_opcode e)
    (\<lambda>_ d. inp \<noteq> [] \<and> linking rd rest good c0 stop (max 0 (m - 1)) (tl inp) k d) (linking rd rest good c0 stop m inp k)"
  unfolding link_opcode_def Let_def
  by (intro runs_LET runs_if runs_CHECK [OF runs_pre [OF read_opcode_runs]] runs_RETURN) auto

lemma window_opcode: "window c (link_rex e c)" "window c (link_opsize e c)"
  by (auto simp: window_def link_rex_def link_opsize_def Let_def)

lemma LinkOperands_runs:
  assumes "length (m_operands e) \<le> 6" "0 \<le> m"
  shows "runs (\<lambda>d. linking rd rest good c0 stop m inp 0 d \<and> pending rest d = inp) (Diana_LinkOperands e)
    (\<lambda>_ d. inp \<noteq> [] \<and> linking rd rest good c0 stop (max 0 (m - 1)) (tl inp) (length (m_operands e)) d) (\<lambda>d. \<exists>k. linking rd rest good c0 stop m inp k d)"
proof -
  let ?L = "linking rd rest good c0 stop m" and ?L' = "linking rd rest good c0 stop (max 0 (m - 1))" and ?n = "length (m_operands e)"
  let ?E = "\<lambda>d. \<exists>k. ?L inp k d"
  have fail: "runs P p Q (\<lambda>d. \<exists>k. ?L' (tl inp) k d) \<Longrightarrow> runs P p Q ?E" for P Q and p :: "('x, 's Decoder) di_prog"
    by (erule runs_post) (auto dest: linking_tl [OF assms(2)])
  have safe': "safe (?L' (tl inp) ?n) p \<Longrightarrow> runs (?L' (tl inp) ?n) p (\<lambda>_. ?L' (tl inp) ?n) ?E" for p :: "('y, 's Decoder) di_prog"
    by (erule runs_post) (auto dest: linking_tl [OF assms(2)])
  have is4: "runs (?L' (tl inp) ?n) (DI_DO (link_is4 l) DI_PROC_END) (\<lambda>_. ?L' (tl inp) ?n) ?E" for l
    by (rule runs_DO, rule runs_END) (assumption, rule link_is4_linking)
  have loop: "runs (?L' (tl inp) 0) (link_loop e 0 (m_operands e) l) (\<lambda>_. ?L' (tl inp) ?n) ?E" for l
    by (rule fail) (use link_loop_runs [of 0 "m_operands e"] assms in simp)
  have tail: "runs (?L' (tl inp) 0) (DI_CHECK (link_loop e 0 (m_operands e) l) (\<lambda>l. DI_CHECK (link_disp l) (\<lambda>l.
      DI_CHECK (link_imms e l) (\<lambda>_. DI_DO (link_is4 l) DI_PROC_END)))) (\<lambda>_. ?L' (tl inp) ?n) ?E" for l
    by (intro runs_CHECK [OF loop] runs_CHECK [OF safe' [OF link_disp_safe]] runs_CHECK [OF safe' [OF link_imms_safe]] is4)
  have opcode: "runs (\<lambda>d. ?L inp 0 d \<and> pending rest d = inp) (link_opcode e) (\<lambda>_ d. inp \<noteq> [] \<and> ?L' (tl inp) 0 d) ?E"
    by (rule runs_post [OF link_opcode_runs]) auto
  have after: "runs (\<lambda>d. inp \<noteq> [] \<and> ?L' (tl inp) 0 d) (DI_DO (upd_ctx (link_opsize e)) (DI_CHECK (link_loop e 0 (m_operands e) l) (\<lambda>l.
      DI_CHECK (link_disp l) (\<lambda>l. DI_CHECK (link_imms e l) (\<lambda>_. DI_DO (link_is4 l) DI_PROC_END))))) (\<lambda>_ d. inp \<noteq> [] \<and> ?L' (tl inp) ?n d) ?E" for l
    by (rule runs_pure, rule runs_DO, rule runs_post [OF tail]) (auto intro: linking_upd window_opcode)
  show ?thesis
    unfolding Diana_LinkOperands_def
    by (rule runs_DO [OF runs_CHECK [OF opcode after]])
      (auto intro: linking_upd window_opcode simp: pending_def window_opcode [unfolded window_def])
qed

end

end
