(* ===== verification/Decoder_Fetch.thy ===== *)
theory Decoder_Fetch
  imports Decoder_Linking
begin

unbundle bit_operations_syntax

text \<open>
  The contract of the loop over the prefixes: it takes bytes from the front of the input, one after the other, and leaves a decoder that holds the rest.
\<close>

section \<open>The list of the prefixes\<close>

text \<open>While the loop runs, every prefix is a legacy one; after it there may be a REX prefix.  None of them has the function that resets the context.\<close>

definition loop_prefixes :: "DecoderContext \<Rightarrow> bool" where
  "loop_prefixes c \<longleftrightarrow>
     (\<forall>x\<in>set (prefixes c). linkedPrefixFnc x \<noteq> fnc_Normal \<and> is_legacy_prefix (prefix_byte x)) \<and> opt_all (\<lambda>i. i < length (prefixes c)) (lastPrefixBeforeRex c)"

definition prefixes_ok :: "DecoderContext \<Rightarrow> bool" where
  "prefixes_ok c \<longleftrightarrow>
     (\<forall>x\<in>set (prefixes c). linkedPrefixFnc x \<noteq> fnc_Normal) \<and>
     opt_all (\<lambda>i. i < length (prefixes c) \<and> is_legacy_prefix (prefix_byte (prefixes c ! i))) (lastPrefixBeforeRex c)"

lemma loop_prefixes_ok: "loop_prefixes c \<Longrightarrow> prefixes_ok c"
  by (auto simp: loop_prefixes_def prefixes_ok_def opt_all_def split: option.splits)

lemma prefix_fnc: "Di_ProcessCustomPrefix b = (flag, Some e) \<Longrightarrow> m_linkedPrefixFnc e \<noteq> fnc_Normal \<and> is_legacy_prefix b"
  by (auto simp: Di_ProcessCustomPrefix_def prefix_entry_def is_legacy_prefix_def split: if_splits)

lemma rex_not_legacy: "is_rex b \<Longrightarrow> \<not> is_legacy_prefix b"
  by (auto simp: is_rex_def is_legacy_prefix_def Di_ProcessCustomPrefix_def word_le_nat_alt split: if_splits)

lemma prefix_position_None: "(\<forall>x\<in>set ps. prefix_byte x \<noteq> v) \<Longrightarrow> prefix_position v ps = None"
  by (induction ps) auto

lemma drop_prefix_loop: "loop_prefixes c \<Longrightarrow> loop_prefixes (drop_prefix v c)"
  by (auto simp: loop_prefixes_def drop_prefix_def opt_all_def Let_def dest: in_set_takeD in_set_dropD split: option.splits if_splits)

lemma insert_loop:
  assumes "loop_prefixes c" "f \<noteq> fnc_Normal" "is_legacy_prefix v"
  shows "loop_prefixes ((drop_prefix v c)\<lparr>prefixes := prefixes (drop_prefix v c) @ [\<lparr>linkedPrefixFnc = f, prefix_byte = v\<rparr>],
    lastPrefixBeforeRex := Some (length (prefixes (drop_prefix v c)))\<rparr>)"
  using drop_prefix_loop [OF assms(1), of v] assms(2,3) by (auto simp: loop_prefixes_def opt_all_def)

lemma insert_rex:
  assumes "loop_prefixes c" "is_rex v"
  shows "drop_prefix v c = c" "prefixes_ok (c\<lparr>prefixes := prefixes c @ [\<lparr>linkedPrefixFnc = fnc_Rex, prefix_byte = v\<rparr>]\<rparr>)"
proof -
  have "prefix_position v (prefixes c) = None"
    using assms rex_not_legacy by (intro prefix_position_None) (auto simp: loop_prefixes_def)
  then show "drop_prefix v c = c" by (simp add: drop_prefix_def)
  show "prefixes_ok (c\<lparr>prefixes := prefixes c @ [\<lparr>linkedPrefixFnc = fnc_Rex, prefix_byte = v\<rparr>]\<rparr>)"
    using assms(1) by (auto simp: loop_prefixes_def prefixes_ok_def opt_all_def nth_append split: option.splits)
qed

section \<open>Taking bytes\<close>

text \<open>What the loop keeps besides the input: a property \<open>F\<close> of the prefixes, no VEX prefix and no operands yet.\<close>

definition fresh :: "(DecoderContext \<Rightarrow> bool) \<Rightarrow> DecoderContext \<times> DecoderResult \<Rightarrow> bool" where
  "fresh F b \<longleftrightarrow> F (fst b) \<and> iVexPrefix (fst b) = 0 \<and> d_operands (snd b) = []"

definition fetching :: "'s DianaRead_fnc \<Rightarrow> ('s \<Rightarrow> u8 list) \<Rightarrow> ('s \<Rightarrow> bool) \<Rightarrow> (DecoderContext \<Rightarrow> bool) \<Rightarrow> u8 list \<Rightarrow> 's Decoder \<Rightarrow> bool" where
  "fetching rd rest good F inp d \<longleftrightarrow> holding rd rest good inp d \<and> 2 \<le> cacheIt (d_ctx d) \<and> fresh F (bare d)"

text \<open>The byte in hand, if there is one, then the rest.\<close>

definition upcoming :: "u8 option \<Rightarrow> u8 list \<Rightarrow> u8 list" where
  "upcoming data inp = (case data of None \<Rightarrow> inp | Some b \<Rightarrow> b # inp)"

text \<open>Some bytes of the input are used; \<open>data\<close> and what the decoder holds are the rest.\<close>

definition facing ::
    "'s DianaRead_fnc \<Rightarrow> ('s \<Rightarrow> u8 list) \<Rightarrow> ('s \<Rightarrow> bool) \<Rightarrow> (DecoderContext \<Rightarrow> bool) \<Rightarrow> u8 list \<Rightarrow> u8 option \<Rightarrow> 's Decoder \<Rightarrow> bool" where
  "facing rd rest good F inp data d \<longleftrightarrow> (\<exists>w inp'. inp = w @ upcoming data inp' \<and> fetching rd rest good F inp' d)"

text \<open>What is left after a failure: a cache that can be used again, unless a virtual prefix stands in it, and no more bytes than before.\<close>

definition spent :: "'s DianaRead_fnc \<Rightarrow> ('s \<Rightarrow> u8 list) \<Rightarrow> ('s \<Rightarrow> bool) \<Rightarrow> nat \<Rightarrow> 's Decoder \<Rightarrow> bool" where
  "spent rd rest good n d \<longleftrightarrow>
     reads rd good d \<and> 0 \<le> cacheSize (d_ctx d) \<and> cacheSize (d_ctx d) \<le> 7 \<and> cacheSize (d_ctx d) + int (length (rest (d_stream d))) \<le> int n \<and>
     (iVexPrefix (d_ctx d) = 0 \<longrightarrow> cache_ok (d_ctx d) \<and> 2 \<le> cacheIt (d_ctx d))"

lemma holding_length: "holding rd rest good inp d \<Longrightarrow> int (length inp) = cacheSize (d_ctx d) + int (length (rest (d_stream d)))"
  by (auto simp: holding_def decoder_input_def cache_ok_def)

lemma holding_spent: "holding rd rest good inp d \<Longrightarrow> 2 \<le> cacheIt (d_ctx d) \<Longrightarrow> length inp \<le> n \<Longrightarrow> spent rd rest good n d"
  using holding_length [of rd rest good inp d] by (auto simp: spent_def holding_def cache_ok_def)

lemma fetching_spent: "fetching rd rest good F inp d \<Longrightarrow> length inp \<le> n \<Longrightarrow> spent rd rest good n d"
  by (auto simp: fetching_def intro: holding_spent)

text \<open>Changes of the context outside the cache, and of the result.\<close>

definition same_cache :: "DecoderContext \<Rightarrow> DecoderContext \<Rightarrow> bool" where
  "same_cache c c' \<longleftrightarrow> cache c' = cache c \<and> cacheIt c' = cacheIt c \<and> cacheSize c' = cacheSize c"

lemma holding_upd:
  assumes "holding rd rest good inp d"
  shows "same_cache (d_ctx d) (f (d_ctx d)) \<Longrightarrow> holding rd rest good inp (upd_ctx f d)" "holding rd rest good inp (upd_res g d)"
proof -
  show "holding rd rest good inp (upd_ctx f d)" if "same_cache (d_ctx d) (f (d_ctx d))"
    using assms that unfolding holding_def reads_def cache_ok_def decoder_input_def ahead_def same_cache_def upd_simps by simp
  show "holding rd rest good inp (upd_res g d)"
    using assms unfolding holding_def reads_def cache_ok_def decoder_input_def ahead_def upd_simps by simp
qed

lemma runs_frame:
  assumes "\<And>b. runs (\<lambda>s. P s \<and> f s = b) m (\<lambda>a s. Q a s \<and> f s = b) (\<lambda>s. E s \<and> f s = b)"
  shows "runs (\<lambda>s. P s \<and> F (f s)) m (\<lambda>a s. Q a s \<and> F (f s)) (\<lambda>s. E s \<and> F (f s))"
proof (rule runsI)
  fix s
  assume "P s \<and> F (f s)"
  then have P: "P s \<and> f s = f s" and F: "F (f s)" by simp_all
  show "case m s of Ok a t \<Rightarrow> Q a t \<and> F (f t) | Err e t \<Rightarrow> e \<noteq> C_UNDEFINED \<and> E t \<and> F (f t)"
  proof (cases "m s")
    case (Ok a t)
    then show ?thesis using runs_OkD [OF assms P Ok] F by simp
  next
    case (Err e t)
    then show ?thesis using runs_ErrD [OF assms P Err] F by simp
  qed
qed

context code_stream
begin

lemma ReadCache_fetching:
  "runs (fetching rd rest good F inp) (Diana_ReadCache opt)
     (\<lambda>_ d. fetching rd rest good F inp d \<and> 0 < cacheSize (d_ctx d) \<and> (opt \<longrightarrow> cacheIt (d_ctx d) = 2))
     (\<lambda>d. fetching rd rest good F inp d \<and> (opt \<longrightarrow> cacheIt (d_ctx d) = 2))"
proof -
  have "runs (\<lambda>d. (holding rd rest good inp d \<and> 2 \<le> cacheIt (d_ctx d)) \<and> fresh F (bare d)) (Diana_ReadCache opt)
     (\<lambda>_ d. (holding rd rest good inp d \<and> 2 \<le> cacheIt (d_ctx d) \<and> 0 < cacheSize (d_ctx d) \<and> (opt \<longrightarrow> cacheIt (d_ctx d) = 2)) \<and> fresh F (bare d))
     (\<lambda>d. (holding rd rest good inp d \<and> 2 \<le> cacheIt (d_ctx d) \<and> (opt \<longrightarrow> cacheIt (d_ctx d) = 2)) \<and> fresh F (bare d))"
    by (rule runs_frame, rule runs_post [OF runs_pre [OF ReadCache_runs]]) auto
  then show ?thesis by (rule runs_post [OF runs_pre]) (auto simp: fetching_def)
qed

lemma EatOne_fetching:
  "runs (\<lambda>d. fetching rd rest good F inp d \<and> 0 < cacheSize (d_ctx d)) Diana_CacheEatOne
     (\<lambda>x d. inp = x # tl inp \<and> fetching rd rest good F (tl inp) d) E"
proof (rule runsI)
  fix d
  assume A: "fetching rd rest good F inp d \<and> 0 < cacheSize (d_ctx d)"
  have "runs (\<lambda>s. holding rd rest good inp s \<and> 2 \<le> cacheIt (d_ctx s) \<and> bare s = bare d \<and> 0 < cacheSize (d_ctx s)) Diana_CacheEatOne
     (\<lambda>x s. holding rd rest good (tl inp) s \<and> inp = x # tl inp \<and> 2 < cacheIt (d_ctx s) \<and> bare s = bare d) E"
    by (rule CacheEatOne_runs)
  from runs_OkD [OF this, of d] runs_ErrD [OF this, of d] A
  show "case Diana_CacheEatOne d of Ok x d \<Rightarrow> inp = x # tl inp \<and> fetching rd rest good F (tl inp) d | Err e d \<Rightarrow> e \<noteq> C_UNDEFINED \<and> E d"
    by (cases "Diana_CacheEatOne d") (auto simp: fetching_def)
qed

section \<open>The loop\<close>

lemma fresh_simps [simp]:
  "fresh loop_prefixes (bare d) \<longleftrightarrow> loop_prefixes (d_ctx d) \<and> iVexPrefix (d_ctx d) = 0 \<and> d_operands (d_res d) = []"
  "fresh prefixes_ok (bare d) \<longleftrightarrow> prefixes_ok (d_ctx d) \<and> iVexPrefix (d_ctx d) = 0 \<and> d_operands (d_res d) = []"
  by (simp_all add: fresh_def bare_def loop_prefixes_def prefixes_ok_def)

lemma rex_dropped_runs: "safe (fetching rd rest good F inp) (rex_dropped b)"
proof (rule runsI)
  fix d
  assume d: "fetching rd rest good F inp d"
  show "case rex_dropped b d of Ok _ d \<Rightarrow> fetching rd rest good F inp d | Err e d \<Rightarrow> e \<noteq> C_UNDEFINED \<and> fetching rd rest good F inp d"
  proof (cases "Diana_ReadCache False d")
    case (Ok u t)
    then have t: "fetching rd rest good F inp t" "0 < cacheSize (d_ctx t)" using runs_OkD [OF ReadCache_fetching d] by auto
    then have "read_cache (cacheIt (d_ctx t)) t = Ok (cache (d_ctx t) ! nat (cacheIt (d_ctx t))) t"
      by (intro read_cache_Ok) (auto simp: fetching_def holding_def cache_ok_def)
    with Ok t d show ?thesis by (simp add: rex_dropped_def DI_CHECK_def di_basic_defs)
  next
    case (Err e t)
    then have t: "fetching rd rest good F inp t" "e \<noteq> C_UNDEFINED" using runs_ErrD [OF ReadCache_fetching d] by auto
    with Err d show ?thesis by (cases e) (simp_all add: rex_dropped_def)
  qed
qed

text \<open>A prefix that was checked is appended.\<close>

lemma fetching_append:
  assumes "fetching rd rest good loop_prefixes inp d" "G (g (drop_prefix v (d_ctx d)))" "\<And>c. same_cache c (g c) \<and> iVexPrefix (g c) = iVexPrefix c"
    "fresh G (bare (upd_ctx g (upd_ctx (drop_prefix v) d))) \<longleftrightarrow> G (g (drop_prefix v (d_ctx d))) \<and> iVexPrefix (g (drop_prefix v (d_ctx d))) = 0 \<and> d_operands (d_res d) = []"
  shows "fetching rd rest good G inp (upd_ctx g (upd_ctx (drop_prefix v) d))"
proof -
  have keep: "same_cache c (drop_prefix v c)" "iVexPrefix (drop_prefix v c) = iVexPrefix c" for c
    by (simp_all add: same_cache_def drop_prefix_def Let_def split: option.splits)
  have "holding rd rest good inp (upd_ctx g (upd_ctx (drop_prefix v) d))"
    using assms(1,3) keep(1) by (intro holding_upd) (simp_all add: fetching_def)
  moreover have "cacheIt (g (drop_prefix v (d_ctx d))) = cacheIt (d_ctx d)"
    using assms(3) keep(1) by (simp add: same_cache_def)
  ultimately show ?thesis
    using assms keep(2) by (simp add: fetching_def)
qed

lemma InsertPrefix_loop:
  assumes "f \<noteq> fnc_Normal" "is_legacy_prefix v"
  shows "safe (fetching rd rest good loop_prefixes inp) (Diana_InsertPrefix v f False)"
proof (rule runsI)
  fix d
  assume d: "fetching rd rest good loop_prefixes inp d"
  let ?g = "\<lambda>c. c\<lparr>prefixes := prefixes c @ [\<lparr>linkedPrefixFnc = f, prefix_byte = v\<rparr>],
    lastPrefixBeforeRex := if False then lastPrefixBeforeRex c else Some (length (prefixes c))\<rparr>"
  have "loop_prefixes (?g (drop_prefix v (d_ctx d)))"
    using insert_loop [OF _ assms, of "d_ctx d"] d by (simp add: fetching_def)
  then have "fetching rd rest good loop_prefixes inp (upd_ctx ?g (upd_ctx (drop_prefix v) d))"
    using d by (intro fetching_append) (simp_all add: same_cache_def)
  with d show "case Diana_InsertPrefix v f False d of Ok _ d \<Rightarrow> fetching rd rest good loop_prefixes inp d
      | Err e d \<Rightarrow> e \<noteq> C_UNDEFINED \<and> fetching rd rest good loop_prefixes inp d"
    by (simp add: Diana_InsertPrefix_def di_basic_defs)
qed

lemma InsertPrefix_rex:
  assumes "is_rex v"
  shows "runs (fetching rd rest good loop_prefixes inp) (Diana_InsertPrefix v fnc_Rex True) (\<lambda>_. fetching rd rest good prefixes_ok inp)
    (fetching rd rest good loop_prefixes inp)"
proof (rule runsI)
  fix d
  assume d: "fetching rd rest good loop_prefixes inp d"
  let ?g = "\<lambda>c. c\<lparr>prefixes := prefixes c @ [\<lparr>linkedPrefixFnc = fnc_Rex, prefix_byte = v\<rparr>],
    lastPrefixBeforeRex := if True then lastPrefixBeforeRex c else Some (length (prefixes c))\<rparr>"
  have "prefixes_ok (?g (drop_prefix v (d_ctx d)))"
    using insert_rex [OF _ assms, of "d_ctx d"] d by (simp add: fetching_def)
  then have "fetching rd rest good prefixes_ok inp (upd_ctx ?g (upd_ctx (drop_prefix v) d))"
    using d by (intro fetching_append) (simp_all add: same_cache_def)
  with d show "case Diana_InsertPrefix v fnc_Rex True d of Ok _ d \<Rightarrow> fetching rd rest good prefixes_ok inp d
      | Err e d \<Rightarrow> e \<noteq> C_UNDEFINED \<and> fetching rd rest good loop_prefixes inp d"
    by (simp add: Diana_InsertPrefix_def di_basic_defs)
qed

text \<open>The first byte that is no prefix, or a nop.\<close>

lemma fetching_res: "fetching rd rest good loop_prefixes inp d \<Longrightarrow> d_operands (g (d_res d)) = [] \<Longrightarrow> fetching rd rest good loop_prefixes inp (upd_res g d)"
  by (auto simp: fetching_def intro: holding_upd)

lemma prefix_loop_runs:
  "runs (fetching rd rest good loop_prefixes inp) (prefix_loop nop k first nf)
     (\<lambda>r d. case r of None \<Rightarrow> \<exists>w inp'. inp = w @ inp' \<and> w \<noteq> [] \<and> fetching rd rest good loop_prefixes inp' d
        | Some b \<Rightarrow> facing rd rest good loop_prefixes inp (Some b) d)
     (spent rd rest good (length inp))"
proof (induction k arbitrary: inp first nf)
  case 0
  then show ?case by (simp add: runs_FAIL fetching_spent)
next
  case (Suc k)
  let ?F = "fetching rd rest good loop_prefixes" and ?E = "spent rd rest good (length inp)"
  let ?Q = "\<lambda>r d. case r of None \<Rightarrow> \<exists>w inp'. inp = w @ inp' \<and> w \<noteq> [] \<and> ?F inp' d | Some b \<Rightarrow> facing rd rest good loop_prefixes inp (Some b) d"
  have fill: "runs (?F inp) (Diana_ReadCache False) (\<lambda>_ d. ?F inp d \<and> 0 < cacheSize (d_ctx d)) ?E"
    by (rule runs_post [OF ReadCache_fetching]) (auto intro: fetching_spent)
  have more: "runs (?F (tl inp)) (prefix_loop nop k False nf') ?Q ?E" if x: "inp = x # tl inp" for x nf'
  proof (rule runs_post [OF Suc.IH])
    fix r d
    assume "case r of None \<Rightarrow> \<exists>w inp'. tl inp = w @ inp' \<and> w \<noteq> [] \<and> ?F inp' d | Some b \<Rightarrow> facing rd rest good loop_prefixes (tl inp) (Some b) d"
    moreover obtain y where "inp = x # y" using x by blast
    ultimately show "?Q r d"
      by (auto simp: facing_def split: option.splits) (metis append_Cons list.distinct(1), metis append_Cons)
  qed (auto simp: spent_def)
  have step: "runs (\<lambda>d. inp = x # tl inp \<and> ?F (tl inp) d) (if (first \<or> \<not> nf) \<and> x = 0x90
      then DI_DO (upd_res (\<lambda>r. r\<lparr>d_iFullCmdSize := 1\<rparr>) \<circ> set_nop nop) (DI_RETURN None)
      else (case Di_ProcessCustomPrefix x of (flag, info) \<Rightarrow>
       (case info of
          None \<Rightarrow> DI_CHECK (rex_dropped x) (\<lambda>again. if again then prefix_loop nop k False (nf \<or> flag) else DI_RETURN (Some x))
        | Some e \<Rightarrow> DI_DO (upd_res (\<lambda>r. r\<lparr>d_pInfo := Some e\<rparr>)) (
            DI_CHECK (Diana_InsertPrefix x (m_linkedPrefixFnc e) False) (\<lambda>_. prefix_loop nop k False (nf \<or> flag)))))) ?Q ?E" for x
  proof (rule runs_pure, rule runs_if)
    assume x: "inp = x # tl inp"
    then obtain y where y: "inp = x # y" by blast
    have short: "?F (tl inp) d \<Longrightarrow> ?E d" for d by (rule fetching_spent) auto
    show "runs (?F (tl inp)) (DI_DO (upd_res (\<lambda>r. r\<lparr>d_iFullCmdSize := 1\<rparr>) \<circ> set_nop nop) (DI_RETURN None)) ?Q ?E"
    proof (rule runs_DO [OF runs_RETURN])
      show "?Q None d" if "?F (tl inp) d" for d
        unfolding y option.case by (rule exI [of _ "[x]"], rule exI [of _ "tl inp"]) (use that in \<open>simp add: y\<close>)
      show "?F (tl inp) ((upd_res (\<lambda>r. r\<lparr>d_iFullCmdSize := 1\<rparr>) \<circ> set_nop nop) d)" if "?F (tl inp) d" for d
        using that by (auto simp: set_nop_def intro!: fetching_res)
    qed
    have rex: "runs (?F (tl inp)) (rex_dropped x) (\<lambda>_. ?F (tl inp)) ?E"
      by (rule runs_post [OF rex_dropped_runs]) (auto intro: short)
    obtain flag info where i: "Di_ProcessCustomPrefix x = (flag, info)" by fastforce
    show "runs (?F (tl inp)) (case Di_ProcessCustomPrefix x of (flag, info) \<Rightarrow>
       (case info of
          None \<Rightarrow> DI_CHECK (rex_dropped x) (\<lambda>again. if again then prefix_loop nop k False (nf \<or> flag) else DI_RETURN (Some x))
        | Some e \<Rightarrow> DI_DO (upd_res (\<lambda>r. r\<lparr>d_pInfo := Some e\<rparr>)) (
            DI_CHECK (Diana_InsertPrefix x (m_linkedPrefixFnc e) False) (\<lambda>_. prefix_loop nop k False (nf \<or> flag))))) ?Q ?E"
    proof (cases info)
      case None
      have "?Q (Some x) d" if "?F (tl inp) d" for d
        using that by (auto simp: y facing_def upcoming_def intro: exI [of _ "[]"])
      then show ?thesis unfolding i using None by (simp, intro runs_CHECK [OF rex] runs_if more [OF x] runs_RETURN) simp_all
    next
      case (Some e)
      have ins: "runs (?F (tl inp)) (Diana_InsertPrefix x (m_linkedPrefixFnc e) False) (\<lambda>_. ?F (tl inp)) ?E"
        using prefix_fnc [of x flag e] i Some by (intro runs_post [OF InsertPrefix_loop]) (auto intro: short)
      show ?thesis unfolding i Some prod.case option.case
        by (rule runs_DO [OF runs_CHECK [OF ins more [OF x]]]) (auto intro: holding_upd simp: fetching_def)
    qed
  qed
  show ?case unfolding prefix_loop.simps
    by (intro runs_CHECK [OF fill] runs_CHECK [OF EatOne_fetching] step)
qed

section \<open>Up to the opcode\<close>

lemma facing_spent: "facing rd rest good F inp data d \<Longrightarrow> spent rd rest good (length inp) d"
  by (auto simp: facing_def upcoming_def intro!: fetching_spent split: option.splits)

lemma facing_I: "inp = w @ upcoming data inp' \<Longrightarrow> fetching rd rest good F inp' d \<Longrightarrow> facing rd rest good F inp data d"
  by (auto simp: facing_def)

lemma parse_rex_runs:
  "runs (facing rd rest good loop_prefixes inp (Some b)) (parse_rex b) (facing rd rest good prefixes_ok inp) (spent rd rest good (length inp))"
proof (rule runsI)
  fix d
  assume "facing rd rest good loop_prefixes inp (Some b) d"
  then obtain w inp' where d: "inp = w @ b # inp'" "fetching rd rest good loop_prefixes inp' d"
    by (auto simp: facing_def upcoming_def)
  have none: "inp = (w @ [b]) @ upcoming None inp'" and some: "inp = w @ upcoming (Some b) inp'"
    using d(1) by (simp_all add: upcoming_def)
  show "case parse_rex b d of Ok data d \<Rightarrow> facing rd rest good prefixes_ok inp data d | Err e d \<Rightarrow> e \<noteq> C_UNDEFINED \<and> spent rd rest good (length inp) d"
  proof (cases "amd64 d \<and> is_rex b")
    case True
    let ?d = "upd_res (\<lambda>r. r\<lparr>d_pInfo := Some (prefix_entry fnc_Rex)\<rparr>) (upd_ctx (\<lambda>c. c\<lparr>iRexPrefixValue := b\<rparr>) d)"
    have "fetching rd rest good loop_prefixes inp' ?d"
      using d(2) by (auto simp: fetching_def same_cache_def loop_prefixes_def intro!: holding_upd)
    note ins = runs_OkD [OF InsertPrefix_rex this] runs_ErrD [OF InsertPrefix_rex this]
    have face: "fetching rd rest good prefixes_ok inp' t \<Longrightarrow> facing rd rest good prefixes_ok inp None t" for t by (rule facing_I [OF none])
    have short: "fetching rd rest good loop_prefixes inp' t \<Longrightarrow> spent rd rest good (length inp) t" for t by (erule fetching_spent) (simp add: d(1))
    show ?thesis
      using True ins [of b] face short by (cases "Diana_InsertPrefix b fnc_Rex True ?d")
        (auto simp: parse_rex_def Di_ProcessRexPrefix_def DI_CHECK_def di_basic_defs)
  next
    case False
    have "fetching rd rest good prefixes_ok inp' d" using d(2) by (auto simp: fetching_def intro: loop_prefixes_ok)
    with False show ?thesis
      by (auto simp: parse_rex_def Di_ProcessRexPrefix_def DI_CHECK_def di_basic_defs intro: facing_I [OF some])
  qed
qed

lemma fill_runs:
  "runs (facing rd rest good prefixes_ok inp data) (fill_before_opcode data)
     (\<lambda>_ d. facing rd rest good prefixes_ok inp data d \<and> cacheIt (d_ctx d) = 2 \<and> (data = None \<longrightarrow> 0 < cacheSize (d_ctx d))) (spent rd rest good (length inp))"
proof (rule runsI)
  fix d
  assume "facing rd rest good prefixes_ok inp data d"
  then obtain w inp' where d: "inp = w @ upcoming data inp'" "fetching rd rest good prefixes_ok inp' d" by (auto simp: facing_def)
  have face: "fetching rd rest good prefixes_ok inp' t \<Longrightarrow> facing rd rest good prefixes_ok inp data t" for t by (rule facing_I [OF d(1)])
  have short: "fetching rd rest good prefixes_ok inp' t \<Longrightarrow> spent rd rest good (length inp) t" for t
    by (erule fetching_spent) (simp add: d(1) upcoming_def split: option.splits)
  from runs_OkD [OF ReadCache_fetching d(2), of True] runs_ErrD [OF ReadCache_fetching d(2), of True]
  show "case fill_before_opcode data d of
      Ok _ d \<Rightarrow> facing rd rest good prefixes_ok inp data d \<and> cacheIt (d_ctx d) = 2 \<and> (data = None \<longrightarrow> 0 < cacheSize (d_ctx d))
    | Err e d \<Rightarrow> e \<noteq> C_UNDEFINED \<and> spent rd rest good (length inp) d"
    using face short by (cases "Diana_ReadCache True d") (simp_all add: fill_before_opcode_def, blast)
qed

lemma opcode_byte_runs:
  assumes "\<And>d. P d \<Longrightarrow> cacheIt (d_ctx d) = 2 \<and> length (cache (d_ctx d)) = 7"
  shows "runs P (opcode_byte data) (\<lambda>_. P) E"
proof (rule runsI)
  fix d
  assume P: "P d"
  have "read_cache 2 d = Ok (cache (d_ctx d) ! 2) d" using assms [OF P] read_cache_Ok [of 2 d] by simp
  with P assms [OF P] show "case opcode_byte data d of Ok _ d \<Rightarrow> P d | Err e d \<Rightarrow> e \<noteq> C_UNDEFINED \<and> E d"
    by (simp add: opcode_byte_def DI_CHECK_def di_basic_defs split: option.splits)
qed

end

end
