(* ===== verification/Decoder_Match.thy ===== *)
theory Decoder_Match
  imports Decoder_Fetch
begin

unbundle bit_operations_syntax

text \<open>
  The contract of a try: the table is searched with the bytes in the cache, and the operands of the entry found are linked.  A success takes bytes from the
  front of the input, at least one; a failure leaves the cache as it was, though bytes of the stream may be lost.
\<close>

section \<open>From the search to the linker\<close>

definition at_entry :: "int \<Rightarrow> DianaCmdEntry \<Rightarrow> 's Decoder \<Rightarrow> 's Decoder" where
  "at_entry it e d =
     upd_res (\<lambda>r. r\<lparr>d_pInfo := Some e\<rparr>) (Diana_InitStreamProxy it (cacheIt (d_ctx d) + cacheSize (d_ctx d) - it) d)"

lemma at_entry_simps [simp]:
  "d_ctx (at_entry it e d) = d_ctx d" "d_stream (at_entry it e d) = d_stream d" "d_readFnc (at_entry it e d) = d_readFnc d"
  "proxy_begin (at_entry it e d) = it" "proxy_tail_size (at_entry it e d) = cacheIt (d_ctx d) + cacheSize (d_ctx d) - it"
  "d_operands (d_res (at_entry it e d)) = d_operands (d_res d)" "d_pInfo (d_res (at_entry it e d)) = Some e"
  by (simp_all add: at_entry_def Diana_InitStreamProxy_def)

lemma ParseCmdImpl_cases:
  assumes "cache_ok (d_ctx d)" "table_ok root"
  obtains (None) "Diana_ParseCmdImpl root d = Err DI_ERROR d"
    | (Some) e it where "Diana_ParseCmdImpl root d = Ok it (at_entry it e d)" "cacheIt (d_ctx d) \<le> it" "it < cacheIt (d_ctx d) + cacheSize (d_ctx d)"
      "entry_ok e (it - cacheIt (d_ctx d))" "is_legacy_prefix (cache (d_ctx d) ! nat (cacheIt (d_ctx d))) \<longrightarrow> cacheIt (d_ctx d) < it"
proof (cases "cacheSize (d_ctx d) = 0")
  case True
  then show ?thesis by (intro that(1)) (simp add: Diana_ParseCmdImpl_def di_basic_defs)
next
  case False
  let ?c = "d_ctx d"
  have "0 < cacheSize ?c" using assms(1) False by (simp add: cache_ok_def)
  from search_ok [OF assms(1) this assms(2)] show ?thesis
  proof (cases "search_loop ?c (cacheIt ?c) (DianaParserContext_Init root (cacheIt ?c))")
    case (Inl x)
    with search_ok [OF assms(1) \<open>0 < cacheSize ?c\<close> assms(2)] False show ?thesis
      by (intro that(1)) (simp add: Diana_ParseCmdImpl_def di_basic_defs)
  next
    case (Inr r)
    with search_ok [OF assms(1) \<open>0 < cacheSize ?c\<close> assms(2)] False show ?thesis
      by (intro that(2) [of "snd r" "fst r"]) (auto simp: Diana_ParseCmdImpl_def di_basic_defs at_entry_def split: prod.splits)
  qed
qed

lemma start_linking:
  assumes "holding rd rest good inp d" "cacheIt (d_ctx d) \<le> it" "it < cacheIt (d_ctx d) + cacheSize (d_ctx d)"
    "d_stream t = d_stream d" "d_readFnc t = d_readFnc d" "proxy_begin t = it" "proxy_tail_size t = cacheIt (d_ctx d) + cacheSize (d_ctx d) - it"
    "cache (d_ctx t) = cache (d_ctx d)" "cacheIt (d_ctx t) = it" "d_operands (d_res t) = []"
  shows "pending rest t = drop (nat (it - cacheIt (d_ctx d))) inp"
    "linking rd rest good (d_ctx t) (cacheIt (d_ctx d) + cacheSize (d_ctx d)) (cacheIt (d_ctx d) + cacheSize (d_ctx d) - it) (pending rest t) 0 t"
proof -
  let ?c = "d_ctx d"
  let ?i = "cacheIt ?c" and ?n = "cacheSize ?c"
  have c: "cache_ok ?c" "reads rd good d" and inp: "inp = ahead ?c @ rest (d_stream d)"
    using assms(1) by (auto simp: holding_def decoder_input_def)
  have "nat ?n = nat (it - ?i) + nat (?i + ?n - it)" "nat it = nat ?i + nat (it - ?i)" "nat (it - ?i) \<le> length (ahead ?c)"
    using assms(2,3) c(1) by (auto simp: cache_ok_def simp del: length_ahead simp: length_ahead [OF c(1)])
  then show "pending rest t = drop (nat (it - ?i)) inp"
    unfolding inp using assms(4,6-8) by (simp add: pending_def ahead_def drop_take add.commute)
  show "linking rd rest good (d_ctx t) (?i + ?n) (?i + ?n - it) (pending rest t) 0 t"
    using assms(2-) c by (auto simp: linking_def proxying_def window_def reads_def cache_ok_def)
qed

text \<open>The bytes that the linker did not use are the new content of the cache.\<close>

lemma take_tail_holding:
  assumes "linking rd rest good c0 stop m inp k d"
  shows "holding rd rest good (pending rest d) (take_tail (stop - cacheIt c0) d)" "stop - m \<le> cacheIt (d_ctx (take_tail (stop - cacheIt c0) d))"
    "prefixes (d_ctx (take_tail (stop - cacheIt c0) d)) = prefixes c0" "iVexPrefix (d_ctx (take_tail (stop - cacheIt c0) d)) = iVexPrefix c0"
proof -
  have l: "reads rd good d" "window c0 (d_ctx d)" "length (cache c0) = 7" "0 \<le> cacheIt c0" "cacheIt c0 \<le> proxy_begin d" "0 \<le> proxy_tail_size d"
    "proxy_tail_size d \<le> m" "proxy_tail_size d = 0 \<or> proxy_begin d + proxy_tail_size d = stop" "cacheIt c0 \<le> stop" "stop \<le> 7"
    using assms by (auto simp: linking_def proxying_def)
  have "ahead (d_ctx (take_tail (stop - cacheIt c0) d)) @ rest (d_stream d) = pending rest d"
  proof (cases "proxy_tail_size d = 0")
    case False
    then have "cacheIt c0 + (stop - cacheIt c0 - proxy_tail_size d) = proxy_begin d" using l(8) by simp
    then show ?thesis using l(2) by (simp add: ahead_def take_tail_def pending_def window_def)
  qed (simp add: ahead_def take_tail_def pending_def)
  with l show "holding rd rest good (pending rest d) (take_tail (stop - cacheIt c0) d)"
    by (auto simp: holding_def reads_def cache_ok_def decoder_input_def take_tail_def window_def)
  show "stop - m \<le> cacheIt (d_ctx (take_tail (stop - cacheIt c0) d))" "prefixes (d_ctx (take_tail (stop - cacheIt c0) d)) = prefixes c0"
    "iVexPrefix (d_ctx (take_tail (stop - cacheIt c0) d)) = iVexPrefix c0"
    using l by (simp_all add: take_tail_def window_def)
qed

section \<open>One try\<close>

text \<open>Before a try: the rest of the cache from position 2 on.\<close>

definition trying ::
    "'s DianaRead_fnc \<Rightarrow> ('s \<Rightarrow> u8 list) \<Rightarrow> ('s \<Rightarrow> bool) \<Rightarrow> int \<Rightarrow> DianaPrefixInfo list \<Rightarrow> u8 list \<Rightarrow> 's Decoder \<Rightarrow> bool" where
  "trying rd rest good orig ps inp d \<longleftrightarrow>
     holding rd rest good inp d \<and> cacheIt (d_ctx d) = 2 \<and> cacheSize (d_ctx d) = orig \<and> prefixes (d_ctx d) = ps \<and> iVexPrefix (d_ctx d) = 0 \<and>
     d_operands (d_res d) = []"

text \<open>During a try: position and size can be set back.\<close>

definition recoverable ::
    "'s DianaRead_fnc \<Rightarrow> ('s \<Rightarrow> u8 list) \<Rightarrow> ('s \<Rightarrow> bool) \<Rightarrow> int \<Rightarrow> DianaPrefixInfo list \<Rightarrow> u8 list \<Rightarrow> 's Decoder \<Rightarrow> bool" where
  "recoverable rd rest good orig ps inp d \<longleftrightarrow>
     reads rd good d \<and> length (cache (d_ctx d)) = 7 \<and> 0 \<le> orig \<and> orig \<le> 5 \<and> prefixes (d_ctx d) = ps \<and> iVexPrefix (d_ctx d) = 0 \<and>
     take (nat orig) (drop 2 (cache (d_ctx d))) @ rest (d_stream d) = inp"

text \<open>After a success.\<close>

definition matched ::
    "'s DianaRead_fnc \<Rightarrow> ('s \<Rightarrow> u8 list) \<Rightarrow> ('s \<Rightarrow> bool) \<Rightarrow> DianaPrefixInfo list \<Rightarrow> u8 list \<Rightarrow> 's Decoder \<Rightarrow> bool" where
  "matched rd rest good ps inp d \<longleftrightarrow>
     (\<exists>w inp'. inp = w @ inp' \<and> w \<noteq> [] \<and> holding rd rest good inp' d) \<and> 2 \<le> cacheIt (d_ctx d) \<and> prefixes (d_ctx d) = ps \<and> iVexPrefix (d_ctx d) = 0"

definition losing ::
    "'s DianaRead_fnc \<Rightarrow> ('s \<Rightarrow> u8 list) \<Rightarrow> ('s \<Rightarrow> bool) \<Rightarrow> int \<Rightarrow> DianaPrefixInfo list \<Rightarrow> u8 list \<Rightarrow> 's Decoder \<Rightarrow> bool" where
  "losing rd rest good orig ps inp d \<longleftrightarrow> (\<exists>inp'. length inp' \<le> length inp \<and> trying rd rest good orig ps inp' d)"

lemma trying_recoverable: "trying rd rest good orig ps inp d \<Longrightarrow> recoverable rd rest good orig ps inp d"
  by (auto simp: trying_def recoverable_def holding_def cache_ok_def decoder_input_def ahead_def)

lemma restore_trying:
  assumes "recoverable rd rest good orig ps inp d" "d_operands (d_res t) = []" "d_stream t = d_stream d" "d_readFnc t = d_readFnc d"
    "cache (d_ctx t) = cache (d_ctx d)" "cacheIt (d_ctx t) = 2" "cacheSize (d_ctx t) = orig" "prefixes (d_ctx t) = ps" "iVexPrefix (d_ctx t) = 0"
  shows "trying rd rest good orig ps inp t"
  using assms by (auto simp: trying_def recoverable_def holding_def reads_def cache_ok_def decoder_input_def ahead_def)

text \<open>The prefixes act on the sizes, the segment and REX only.\<close>

lemma run_prefix_window: "f \<noteq> fnc_Normal \<Longrightarrow> window c (run_prefix f c)"
  by (cases f) (auto simp: window_def Diana_Rex_def Diana_Lock_def Diana_Rep_def Diana_Repn_def Diana_CS_def Diana_SS_def Diana_DS_def Diana_ES_def
      weak_segment_def Diana_FS_def Diana_GS_def Diana_OpSize_def Diana_AddrSize_def Let_def)

lemma apply_from_window: "(\<forall>x\<in>set xs. linkedPrefixFnc x \<noteq> fnc_Normal) \<Longrightarrow> window c (apply_from ex i xs c)"
proof (induction xs arbitrary: i c)
  case (Cons x xs)
  let ?c = "if ex = Some i then c else run_prefix (linkedPrefixFnc x) c"
  have "window c ?c" using run_prefix_window [of "linkedPrefixFnc x" c] Cons.prems by (simp add: window_def)
  moreover have "window ?c (apply_from ex (Suc i) xs ?c)" using Cons by simp
  ultimately show ?case by (auto simp: window_def)
qed (simp add: window_def)

lemma ApplyPrefixes_window: "(\<forall>x\<in>set (prefixes c). linkedPrefixFnc x \<noteq> fnc_Normal) \<Longrightarrow> window c (ApplyPrefixes ex c)"
  unfolding ApplyPrefixes_def by (rule apply_from_window)

text \<open>The reserved bytes in front of the cache's content.\<close>

lemma write_front:
  assumes "trying rd rest good orig ps inp d" "length pre \<le> 2"
  obtains t where "write_cache (2 - int (length pre)) pre d = Ok () t"
    "let t = upd_ctx (\<lambda>c. c\<lparr>cacheIt := 2 - int (length pre), cacheSize := orig + int (length pre)\<rparr>) t in
     holding rd rest good (pre @ inp) t \<and> recoverable rd rest good orig ps inp t \<and> d_operands (d_res t) = []"
proof -
  let ?c = "d_ctx d" and ?o = "2 - int (length pre)"
  have c: "length (cache ?c) = 7" "0 \<le> orig" "orig \<le> 5" and i: "inp = take (nat orig) (drop 2 (cache ?c)) @ rest (d_stream d)"
    using assms(1) by (auto simp: trying_def holding_def cache_ok_def decoder_input_def ahead_def)
  have o: "nat ?o + length pre = 2" "nat (orig + int (length pre)) = length pre + nat orig" using assms(2) c(2) by auto
  have "write_cache ?o pre d = Ok () (upd_ctx (\<lambda>c. c\<lparr>cache := take (nat ?o) (cache c) @ pre @ drop 2 (cache c)\<rparr>) d)"
    using write_cache_Ok [of ?o pre d] assms(2) c(1) o(1) by simp
  then show ?thesis
  proof (rule that)
    show "let t = upd_ctx (\<lambda>c. c\<lparr>cacheIt := ?o, cacheSize := orig + int (length pre)\<rparr>) (upd_ctx (\<lambda>c. c\<lparr>cache := take (nat ?o) (cache c) @ pre @ drop 2 (cache c)\<rparr>) d) in
     holding rd rest good (pre @ inp) t \<and> recoverable rd rest good orig ps inp t \<and> d_operands (d_res t) = []"
      using assms c i o unfolding trying_def
      by (auto simp: Let_def holding_def recoverable_def reads_def cache_ok_def decoder_input_def ahead_def)
  qed
qed

definition front :: "DianaPrefixInfo list \<Rightarrow> nat option \<Rightarrow> u8 option \<Rightarrow> u8 list" where
  "front ps current data = (case current of None \<Rightarrow> [] | Some k \<Rightarrow> [prefix_byte (ps ! k)]) @ upcoming data []"

definition set_up ::
    "'s DianaRead_fnc \<Rightarrow> ('s \<Rightarrow> u8 list) \<Rightarrow> ('s \<Rightarrow> bool) \<Rightarrow> int \<Rightarrow> DianaPrefixInfo list \<Rightarrow> u8 list \<Rightarrow> u8 list \<Rightarrow> 's Decoder \<Rightarrow> bool" where
  "set_up rd rest good orig ps pre inp d \<longleftrightarrow>
     holding rd rest good (pre @ inp) d \<and> recoverable rd rest good orig ps inp d \<and> d_operands (d_res d) = [] \<and> cacheIt (d_ctx d) = 2 - int (length pre)"

lemma try_setup_Ok:
  assumes "trying rd rest good orig ps inp d" "opt_all (\<lambda>k. k < length ps) current"
  obtains t where "try_setup data orig current d = Ok () t" "set_up rd rest good orig ps (front ps current data) inp t"
proof -
  let ?pre = "front ps current data"
  have ps: "prefixes (d_ctx d) = ps" using assms(1) by (simp add: trying_def)
  have "length ?pre \<le> 2" by (simp add: front_def upcoming_def split: option.splits)
  from write_front [OF assms(1) this] obtain t where t: "write_cache (2 - int (length ?pre)) ?pre d = Ok () t"
    "set_up rd rest good orig ps ?pre inp (upd_ctx (\<lambda>c. c\<lparr>cacheIt := 2 - int (length ?pre), cacheSize := orig + int (length ?pre)\<rparr>) t)"
    by (auto simp: Let_def set_up_def)
  show ?thesis
  proof (cases "?pre = []")
    case True
    then have none: "current = None" "data = None" by (auto simp: front_def upcoming_def split: option.splits)
    have "set_up rd rest good orig ps [] inp (upd_ctx (\<lambda>c. c\<lparr>cacheIt := 2, cacheSize := orig + 0\<rparr>) d)"
      using assms(1) trying_recoverable [OF assms(1)]
      by (auto simp: set_up_def trying_def recoverable_def holding_def reads_def cache_ok_def decoder_input_def ahead_def)
    then show ?thesis using none True ps
      by (intro that [of "upd_ctx (\<lambda>c. c\<lparr>cacheIt := 2, cacheSize := orig + 0\<rparr>) d"]) (auto simp: try_setup_def di_basic_defs Let_def)
  next
    case False
    then show ?thesis using t assms(2) ps
      by (intro that [OF _ t(2)])
        (cases current; cases data; auto simp: try_setup_def di_basic_defs Let_def DI_CHECK_def front_def upcoming_def opt_all_def)
  qed
qed

text \<open>Without a legacy prefix there is one try, and no byte is lost.\<close>

definition lossless :: "DianaPrefixInfo list \<Rightarrow> bool" where
  "lossless ps \<longleftrightarrow> (\<forall>x\<in>set ps. \<not> is_legacy_prefix (prefix_byte x))"

definition parsed ::
    "'s DianaRead_fnc \<Rightarrow> ('s \<Rightarrow> u8 list) \<Rightarrow> ('s \<Rightarrow> bool) \<Rightarrow> u8 list \<Rightarrow> 's Decoder \<Rightarrow> bool" where
  "parsed rd rest good inp d \<longleftrightarrow>
     (\<exists>inp'. length inp' < length inp \<and> holding rd rest good inp' d \<and> (lossless (prefixes (d_ctx d)) \<longrightarrow> (\<exists>w. inp = w @ inp'))) \<and> 2 \<le> cacheIt (d_ctx d)"

text \<open>A stream that only gets shorter.\<close>

abbreviation (input) within :: "('s \<Rightarrow> u8 list) \<Rightarrow> ('s \<Rightarrow> bool) \<Rightarrow> nat \<Rightarrow> 's \<Rightarrow> bool" where
  "within rest good n \<equiv> \<lambda>s. good s \<and> length (rest s) \<le> n"

lemma linking_within: "linking rd rest (within rest good n) c0 stop m inp k d \<longleftrightarrow> linking rd rest good c0 stop m inp k d \<and> length (rest (d_stream d)) \<le> n"
  by (auto simp: linking_def proxying_def reads_def)

context code_stream
begin

lemma shrinking: "code_stream rd rest (within rest good n)"
proof
  show "within rest good n s' \<and> int (length bs) \<le> k \<and> rest s = bs @ rest s'" if "within rest good n s" "0 \<le> k" "rd k s = Ok bs s'" for s k bs s'
    using that read_Ok [of s k bs s'] by auto
  show "within rest good n s' \<and> e \<noteq> C_UNDEFINED \<and> rest s' = rest s" if "within rest good n s" "0 \<le> k" "rd k s = Err e s'" for s k e s'
    using that read_Err [of s k e s'] by auto
qed

lemma linking_recoverable:
  assumes "linking rd rest good c0 stop m p k t" "length (rest (d_stream t)) \<le> length (rest (d_stream d))" "recoverable rd rest good orig ps inp d"
    "cache c0 = cache (d_ctx d)" "prefixes c0 = ps" "iVexPrefix c0 = 0"
  shows "\<exists>inp'. length inp' \<le> length inp \<and> recoverable rd rest good orig ps inp' t"
  using assms by (auto simp: linking_def proxying_def window_def recoverable_def reads_def)

lemma try_link_runs:
  assumes d: "set_up rd rest good orig ps pre inp d" and it: "cacheIt (d_ctx d) \<le> it" "it < cacheIt (d_ctx d) + cacheSize (d_ctx d)" "1 \<le> it"
    and e: "entry_ok e n" and ps: "\<forall>x\<in>set ps. linkedPrefixFnc x \<noteq> fnc_Normal"
  shows "case try_link current f it e (at_entry it e d) of
      Ok _ t \<Rightarrow> matched rd rest good ps (drop (nat (it - cacheIt (d_ctx d))) (pre @ inp)) t
    | Err x t \<Rightarrow> x \<noteq> C_UNDEFINED \<and> (\<exists>inp'. length inp' \<le> length inp \<and> recoverable rd rest good orig ps inp' t)"
proof -
  let ?c = "d_ctx d" and ?p = "drop (nat (it - cacheIt (d_ctx d))) (pre @ inp)"
  let ?stop = "cacheIt ?c + cacheSize ?c" and ?n = "length (rest (d_stream d))"
  define a where "a = upd_ctx (ApplyPrefixes current) (at_entry it e d)"
  define t where "t = upd_ctx (\<lambda>c. (if f then c\<lparr>iRexPrefix := 0, iRexPrefixValue := 0\<rparr> else c)\<lparr>cacheIt := it\<rparr>) a"
  have h: "holding rd rest good (pre @ inp) d" and rec: "recoverable rd rest good orig ps inp d" and no: "d_operands (d_res d) = []"
    using d by (simp_all add: set_up_def)
  have win: "window ?c (ApplyPrefixes current ?c)" using rec ps by (intro ApplyPrefixes_window) (simp add: recoverable_def)
  have c: "cache (d_ctx t) = cache ?c" "cacheIt (d_ctx t) = it" "prefixes (d_ctx t) = ps" "iVexPrefix (d_ctx t) = 0"
    using win rec by (auto simp: t_def a_def window_def recoverable_def)
  have "pending rest t = ?p" "linking rd rest good (d_ctx t) ?stop (?stop - it) (pending rest t) 0 t"
    by (rule start_linking [OF h it(1,2)]; simp add: t_def a_def c [unfolded t_def a_def] no; use win in \<open>simp add: window_def\<close>)+
  then have l: "linking rd rest (within rest good ?n) (d_ctx t) ?stop (?stop - it) ?p 0 t \<and> pending rest t = ?p"
    by (simp add: linking_within t_def a_def)
  have "0 \<le> ?stop - it" "length (m_operands e) \<le> 6" using it e by (auto simp: entry_ok_def)
  note run = code_stream.LinkOperands_runs [OF shrinking this(2,1)]
  have bad: "\<exists>inp'. length inp' \<le> length inp \<and> recoverable rd rest good orig ps inp' a"
    using rec win by (auto simp: recoverable_def a_def window_def reads_def)
  show ?thesis
  proof (cases "iSizePrefixes (d_ctx a) AND DIANA_INVALID_STATE \<noteq> 0")
    case True
    then have "try_link current f it e (at_entry it e d) = Err DI_ERROR a" by (simp add: try_link_def di_basic_defs a_def)
    then show ?thesis using bad by simp
  next
    case False
    then have go: "try_link current f it e (at_entry it e d) = DI_CHECK (Diana_LinkOperands e) (\<lambda>_. DI_DO (take_tail (?stop - it)) DI_PROC_END) t"
      by (simp add: try_link_def di_basic_defs a_def t_def)
    show ?thesis
    proof (cases "Diana_LinkOperands e t")
      case (Ok u t')
      from runs_OkD [OF run l Ok] have ok: "?p \<noteq> []" "linking rd rest good (d_ctx t) ?stop (max 0 (?stop - it - 1)) (tl ?p) (length (m_operands e)) t'"
        by (simp_all add: linking_within)
      note tt = take_tail_holding [OF ok(2), unfolded c]
      obtain w where w: "tl ?p = w @ pending rest t'" using ok(2) by (auto simp: linking_def)
      have "?p = (hd ?p # w) @ pending rest t'" using ok(1) w by (metis append_Cons list.collapse)
      moreover have "2 \<le> cacheIt (d_ctx (take_tail (?stop - it) t'))" using tt(2) it by simp
      ultimately have "matched rd rest good ps ?p (take_tail (?stop - it) t')"
        unfolding matched_def using tt(1,3,4) by (metis list.distinct(1))
      then show ?thesis unfolding go using Ok by (simp add: DI_CHECK_def di_basic_defs)
    next
      case (Err x t')
      from runs_ErrD [OF run l Err] obtain k where x: "x \<noteq> C_UNDEFINED" and "linking rd rest good (d_ctx t) ?stop (?stop - it) ?p k t'"
        "length (rest (d_stream t')) \<le> ?n" by (auto simp: linking_within)
      from linking_recoverable [OF this(2,3) rec c(1,3,4)] x show ?thesis unfolding go using Err by (simp add: DI_CHECK_def)
    qed
  qed
qed

lemma matched_drop:
  assumes "matched rd rest good ps (drop j inp) d"
  shows "matched rd rest good ps inp d"
proof -
  obtain w inp' where w: "drop j inp = w @ inp'" "w \<noteq> []" "holding rd rest good inp' d" using assms by (auto simp: matched_def)
  then have "inp = (take j inp @ w) @ inp'" by (metis append.assoc append_take_drop_id)
  with w assms show ?thesis unfolding matched_def by blast
qed

lemma TryMatch_runs:
  assumes root: "table_ok root" and cur: "opt_all (\<lambda>k. k < length ps \<and> is_legacy_prefix (prefix_byte (ps ! k))) current"
    and ps: "\<forall>x\<in>set ps. linkedPrefixFnc x \<noteq> fnc_Normal"
  shows "runs (trying rd rest good orig ps inp) (TryMatch root data orig current)
    (\<lambda>_. matched rd rest good ps (upcoming data inp)) (losing rd rest good orig ps inp)"
proof (rule runsI)
  fix d
  assume d: "trying rd rest good orig ps inp d"
  let ?pre = "front ps current data"
  have "opt_all (\<lambda>k. k < length ps) current" using cur by (auto simp: opt_all_def split: option.splits)
  from try_setup_Ok [OF d this, of data] obtain t where t: "try_setup data orig current d = Ok () t" "set_up rd rest good orig ps ?pre inp t" by blast
  let ?c = "d_ctx t"
  have c: "cache_ok ?c" and i: "cacheIt ?c = 2 - int (length ?pre)" and rec: "recoverable rd rest good orig ps inp t" and no: "d_operands (d_res t) = []"
    and dec: "ahead ?c @ rest (d_stream t) = ?pre @ inp"
    using t(2) by (simp_all add: set_up_def holding_def decoder_input_def)
  have len: "length ?pre \<le> 2" by (simp add: front_def upcoming_def split: option.splits)
  have byte: "read_cache (cacheIt ?c) t = Ok (cache ?c ! nat (cacheIt ?c)) t"
    using c i len by (intro read_cache_Ok) (auto simp: cache_ok_def)
  obtain old where run: "TryMatch root data orig current d = (case Diana_ParseCmdImpl root t of
        Err C_UNDEFINED d \<Rightarrow> Err C_UNDEFINED d
      | Err x d \<Rightarrow> Err x (upd_ctx (\<lambda>c. c\<lparr>cacheIt := DI_CACHE_RESERVED, cacheSize := orig\<rparr>) d)
      | Ok newIt d \<Rightarrow> (case try_link current old newIt (the (d_pInfo (d_res d))) d of
             Ok u d \<Rightarrow> Ok () d
           | Err C_UNDEFINED d \<Rightarrow> Err C_UNDEFINED d
           | Err x d' \<Rightarrow> Err x (restore_try (d_ctx d) orig d')))"
    using t(1) byte by (cases "current = None") (auto simp: TryMatch_def DI_CHECK_def di_basic_defs)
  show "case TryMatch root data orig current d of Ok _ d \<Rightarrow> matched rd rest good ps (upcoming data inp) d | Err x d \<Rightarrow> x \<noteq> C_UNDEFINED \<and> losing rd rest good orig ps inp d"
  proof (cases rule: ParseCmdImpl_cases [OF c root])
    case 1
    have "trying rd rest good orig ps inp (upd_ctx (\<lambda>c. c\<lparr>cacheIt := 2, cacheSize := orig\<rparr>) t)"
      by (rule restore_trying [OF rec]) (use rec no in \<open>simp_all add: recoverable_def\<close>)
    then show ?thesis unfolding run 1 by (auto simp: losing_def)
  next
    case (2 e it)
    have "0 < cacheSize ?c" using 2(2,3) by simp
    from ahead_Cons [OF c this] dec have hd: "cache ?c ! nat (cacheIt ?c) = hd (?pre @ inp)" by (metis append_Cons list.sel(1))
    have first: "cacheIt ?c < it" if "current \<noteq> None"
      using 2(5) hd that cur by (auto simp: front_def opt_all_def)
    have pos: "1 \<le> it"
      using first 2(2) i by (cases current; cases data; simp add: front_def upcoming_def)
    have m: "matched rd rest good ps (upcoming data inp) t'" if "matched rd rest good ps (drop (nat (it - cacheIt ?c)) (?pre @ inp)) t'" for t'
    proof (cases current)
      case None
      then have "?pre @ inp = upcoming data inp" by (simp add: front_def upcoming_def split: option.splits)
      with that matched_drop show ?thesis by metis
    next
      case (Some k)
      then have "?pre @ inp = prefix_byte (ps ! k) # upcoming data inp" by (simp add: front_def upcoming_def split: option.splits)
      moreover obtain j where "nat (it - cacheIt ?c) = Suc j" using first Some by (metis gr0_implies_Suc option.distinct(1) zero_less_nat_eq diff_gt_0_iff_gt)
      ultimately show ?thesis using that matched_drop [of ps j "upcoming data inp"] by simp
    qed
    from try_link_runs [OF t(2) 2(2,3) pos 2(4) ps, of current old] show ?thesis
    proof (cases "try_link current old it e (at_entry it e t)")
      case (Ok u t')
      with try_link_runs [OF t(2) 2(2,3) pos 2(4) ps, of current old] m show ?thesis unfolding run 2(1) by simp
    next
      case (Err x t')
      then obtain inp' where x: "x \<noteq> C_UNDEFINED" and r: "length inp' \<le> length inp" "recoverable rd rest good orig ps inp' t'"
        using try_link_runs [OF t(2) 2(2,3) pos 2(4) ps, of current old] by auto
      have "trying rd rest good orig ps inp' (restore_try ?c orig t')"
        by (rule restore_trying [OF r(2)]) (use r(2) in \<open>simp_all add: restore_try_def recoverable_def\<close>)
      with r(1) x Err show ?thesis unfolding run 2(1) by (cases x) (auto simp: losing_def)
    qed
  qed
qed

section \<open>All tries\<close>

lemma matched_parsed: "matched rd rest good ps inp d \<Longrightarrow> parsed rd rest good inp d"
  unfolding matched_def parsed_def
  by (elim conjE exE, intro conjI, rule exI, intro conjI) auto

lemma try_all_runs:
  assumes "table_ok root" "\<forall>k\<in>set ks. k < length ps \<and> is_legacy_prefix (prefix_byte (ps ! k))" "\<forall>x\<in>set ps. linkedPrefixFnc x \<noteq> fnc_Normal"
  shows "runs (losing rd rest good orig ps inp) (try_all root data orig ks)
    (\<lambda>_ d. \<exists>inp'. length inp' \<le> length inp \<and> matched rd rest good ps (upcoming data inp') d) (losing rd rest good orig ps inp)"
  using assms(2)
proof (induction ks)
  case Nil
  have "case TryMatch root data orig None d of
      Ok _ d \<Rightarrow> \<exists>inp'. length inp' \<le> length inp \<and> matched rd rest good ps (upcoming data inp') d
    | Err x d \<Rightarrow> x \<noteq> C_UNDEFINED \<and> losing rd rest good orig ps inp d" if d: "losing rd rest good orig ps inp d" for d
  proof -
    obtain inp' where i: "length inp' \<le> length inp" "trying rd rest good orig ps inp' d" using d by (auto simp: losing_def)
    have "opt_all (\<lambda>k. k < length ps \<and> is_legacy_prefix (prefix_byte (ps ! k))) None" by (simp add: opt_all_def)
    note run = TryMatch_runs [OF assms(1) this assms(3), of orig inp' data]
    show ?thesis
      using runs_OkD [OF run i(2)] runs_ErrD [OF run i(2)] i(1) by (cases "TryMatch root data orig None d") (auto simp: losing_def intro: order_trans)
  qed
  then show ?case unfolding try_all.simps by (rule runsI)
next
  case (Cons k ks)
  have next_ok: "runs (losing rd rest good orig ps inp) (try_all root data orig ks)
    (\<lambda>_ d. \<exists>inp'. length inp' \<le> length inp \<and> matched rd rest good ps (upcoming data inp') d) (losing rd rest good orig ps inp)"
    using Cons by simp
  show ?case
  proof (rule runsI)
    fix d
    assume "losing rd rest good orig ps inp d"
    then obtain inp' where i: "length inp' \<le> length inp" "trying rd rest good orig ps inp' d" by (auto simp: losing_def)
    have "opt_all (\<lambda>k. k < length ps \<and> is_legacy_prefix (prefix_byte (ps ! k))) (Some k)" using Cons.prems by (simp add: opt_all_def)
    note run = TryMatch_runs [OF assms(1) this assms(3), of orig inp' data]
    show "case try_all root data orig (k # ks) d of
        Ok _ d \<Rightarrow> \<exists>inp'. length inp' \<le> length inp \<and> matched rd rest good ps (upcoming data inp') d
      | Err x d \<Rightarrow> x \<noteq> C_UNDEFINED \<and> losing rd rest good orig ps inp d"
    proof (cases "TryMatch root data orig (Some k) d")
      case (Ok u t)
      then show ?thesis using runs_OkD [OF run i(2) Ok] i(1) by auto
    next
      case (Err x t)
      have x: "x \<noteq> C_UNDEFINED" and t: "losing rd rest good orig ps inp t"
        using runs_ErrD [OF run i(2) Err] i(1) by (auto simp: losing_def intro: order_trans)
      have "try_all root data orig (k # ks) d = try_all root data orig ks t" using Err x by (cases x) simp_all
      then show ?thesis using next_ok t by (auto simp: runs_def)
    qed
  qed
qed

end

text \<open>The prefixes that are tried.\<close>

lemma find_last_prefix_Some:
  assumes "find_last_prefix bs ps = Some k"
  shows "k < length ps" "prefix_byte (ps ! k) \<in> bs"
proof -
  let ?is = "filter (\<lambda>i. prefix_byte (ps ! i) \<in> bs) [0..<length ps]"
  have "?is \<noteq> []" "k = last ?is" using assms by (auto simp: find_last_prefix_def split: list.splits)
  then have "k \<in> set ?is" using last_in_set by blast
  then show "k < length ps" "prefix_byte (ps ! k) \<in> bs" by auto
qed

lemma mandatory_tries_ok:
  assumes "prefixes_ok c"
  shows "\<forall>k\<in>set (mandatory_tries c). k < length (prefixes c) \<and> is_legacy_prefix (prefix_byte (prefixes c ! k))"
proof -
  have "k < length (prefixes c) \<and> is_legacy_prefix (prefix_byte (prefixes c ! k))" if "find_last_prefix {0xF2, 0xF3} (prefixes c) = Some k" for k
    using find_last_prefix_Some [OF that] by (auto simp: is_legacy_prefix_def Di_ProcessCustomPrefix_def)
  moreover have "k < length (prefixes c) \<and> is_legacy_prefix (prefix_byte (prefixes c ! k))" if "find_last_prefix {0x66} (prefixes c) = Some k" for k
    using find_last_prefix_Some [OF that] by (auto simp: is_legacy_prefix_def Di_ProcessCustomPrefix_def)
  moreover have "k < length (prefixes c) \<and> is_legacy_prefix (prefix_byte (prefixes c ! k))" if "lastPrefixBeforeRex c = Some k" for k
    using assms that by (simp add: prefixes_ok_def opt_all_def)
  moreover have "set (mandatory_tries c) \<subseteq> set_option (find_last_prefix {0xF2, 0xF3} (prefixes c)) \<union> set_option (find_last_prefix {0x66} (prefixes c)) \<union>
      set_option (lastPrefixBeforeRex c)"
  proof -
    have "set ((case x of None \<Rightarrow> [] | Some k \<Rightarrow> [k]) @ (case y of None \<Rightarrow> [] | Some k \<Rightarrow> [k]) @ (if b then case z of None \<Rightarrow> [] | Some k \<Rightarrow> [k] else []))
        \<subseteq> set_option x \<union> set_option y \<union> set_option z" for x y z :: "nat option" and b
      by (cases x; cases y; cases z; cases b) auto
    then show ?thesis unfolding mandatory_tries_def Let_def .
  qed
  ultimately show ?thesis by fastforce
qed

lemma lossless_tries: "prefixes_ok c \<Longrightarrow> lossless (prefixes c) \<Longrightarrow> mandatory_tries c = []"
  using mandatory_tries_ok [of c] by (cases "mandatory_tries c") (auto simp: lossless_def)

context code_stream
begin

lemma parse_legacy_runs:
  assumes "table_ok root"
  shows "runs (\<lambda>d. fetching rd rest good prefixes_ok inp d \<and> cacheIt (d_ctx d) = 2 \<and> cacheSize (d_ctx d) = orig) (parse_legacy root data orig)
    (\<lambda>_. parsed rd rest good (upcoming data inp)) (spent rd rest good (length (upcoming data inp)))"
proof (rule runsI)
  fix d
  assume A: "fetching rd rest good prefixes_ok inp d \<and> cacheIt (d_ctx d) = 2 \<and> cacheSize (d_ctx d) = orig"
  let ?ps = "prefixes (d_ctx d)" and ?ks = "mandatory_tries (d_ctx d)"
  have p: "prefixes_ok (d_ctx d)" using A by (simp add: fetching_def)
  have t: "trying rd rest good orig ?ps inp d" using A by (simp add: fetching_def trying_def)
  then have l: "losing rd rest good orig ?ps inp d" by (auto simp: losing_def)
  have ps: "\<forall>x\<in>set ?ps. linkedPrefixFnc x \<noteq> fnc_Normal" using p by (simp add: prefixes_ok_def)
  note run = try_all_runs [OF assms mandatory_tries_ok [OF p] ps, of orig inp data]
  have none: "opt_all (\<lambda>k. k < length ?ps \<and> is_legacy_prefix (prefix_byte (?ps ! k))) None" by (simp add: opt_all_def)
  show "case parse_legacy root data orig d of Ok _ d \<Rightarrow> parsed rd rest good (upcoming data inp) d | Err x d \<Rightarrow> x \<noteq> C_UNDEFINED \<and> spent rd rest good (length (upcoming data inp)) d"
  proof (cases "try_all root data orig ?ks d")
    case (Ok u d')
    have "parsed rd rest good (upcoming data inp) d'"
    proof (cases "lossless ?ps")
      case True
      with Ok lossless_tries [OF p] have "TryMatch root data orig None d = Ok u d'" by simp
      from runs_OkD [OF TryMatch_runs [OF assms none ps] t this] show ?thesis by (rule matched_parsed)
    next
      case False
      obtain inp' where i: "length inp' \<le> length inp" "matched rd rest good ?ps (upcoming data inp') d'"
        using runs_OkD [OF run l Ok] by blast
      then obtain w inp'' where "upcoming data inp' = w @ inp''" "w \<noteq> []" "holding rd rest good inp'' d'" "prefixes (d_ctx d') = ?ps" "2 \<le> cacheIt (d_ctx d')"
        by (auto simp: matched_def)
      moreover from this(1,2) i(1) have "length inp'' < length (upcoming data inp)"
        by (cases data; cases w) (auto simp: upcoming_def dest!: arg_cong [of _ _ length])
      ultimately show ?thesis using False by (auto simp: parsed_def)
    qed
    with Ok show ?thesis by (simp add: parse_legacy_def DI_LET_def)
  next
    case (Err x d')
    from runs_ErrD [OF run l Err] obtain inp' where x: "x \<noteq> C_UNDEFINED" and i: "length inp' \<le> length inp" "trying rd rest good orig ?ps inp' d'"
      by (auto simp: losing_def)
    have short: "length inp' \<le> length (upcoming data inp)" using i(1) by (simp add: upcoming_def split: option.splits)
    have s: "spent rd rest good (length (upcoming data inp)) d'"
      by (rule holding_spent [of _ _ _ inp']) (use i(2) short in \<open>simp_all add: trying_def\<close>)
    show ?thesis
    proof (cases "data = None \<and> cacheSize (d_ctx d') \<noteq> 0")
      case True
      have h: "holding rd rest good inp' d' \<and> 2 \<le> cacheIt (d_ctx d') \<and> bare d' = bare d' \<and> 0 < cacheSize (d_ctx d')"
        using i(2) True by (auto simp: trying_def holding_def cache_ok_def)
      have go: "parse_legacy root data orig d = DI_CHECK Diana_CacheEatOne (\<lambda>_. DI_FAIL x) d'"
        using Err x True by (simp add: parse_legacy_def DI_LET_def)
      show ?thesis
      proof (cases "Diana_CacheEatOne d'")
        case (Ok b d'')
        from runs_OkD [OF CacheEatOne_runs h Ok] have "holding rd rest good (tl inp') d''" "2 \<le> cacheIt (d_ctx d'')" by auto
        then have "spent rd rest good (length (upcoming data inp)) d''" using short by (auto intro: holding_spent)
        then show ?thesis unfolding go using Ok x by (simp add: DI_CHECK_def DI_FAIL_def)
      next
        case (Err y d'')
        from runs_ErrD [OF CacheEatOne_runs [where E = "\<lambda>_. False"] h Err] show ?thesis by simp
      qed
    next
      case False
      then have "parse_legacy root data orig d = Err x d'" using Err by (auto simp: parse_legacy_def DI_LET_def)
      with x s show ?thesis by simp
    qed
  qed
qed

end

end
