(* ===== verification/Decoder_Virtual.thy ===== *)
theory Decoder_Virtual
  imports Decoder_Match
begin

unbundle bit_operations_syntax

text \<open>
  The contract of VEX and EVEX instructions: the decoder replaces the prefix in the cache by two virtual bytes, and the instruction found behind them takes bytes of the
  stream only.
\<close>

section \<open>Reading behind the cache\<close>

definition place :: "int \<Rightarrow> int \<Rightarrow> 's Decoder \<Rightarrow> 's Decoder" where
  "place it sz = upd_ctx (\<lambda>c. c\<lparr>cacheIt := it, cacheSize := sz\<rparr>)"

lemma place_simps [simp]:
  "d_stream (place it sz d) = d_stream d" "d_readFnc (place it sz d) = d_readFnc d" "d_res (place it sz d) = d_res d"
  "cache (d_ctx (place it sz d)) = cache (d_ctx d)" "cacheIt (d_ctx (place it sz d)) = it" "cacheSize (d_ctx (place it sz d)) = sz"
  "prefixes (d_ctx (place it sz d)) = prefixes (d_ctx d)" "iVexPrefix (d_ctx (place it sz d)) = iVexPrefix (d_ctx d)" "bare (place it sz d) = bare d"
  by (simp_all add: place_def bare_def)

lemma place_place [simp]: "place i n (place j m d) = place i n d"
  by (simp add: place_def upd_ctx_def)

lemma place_own: "place (cacheIt (d_ctx d)) (cacheSize (d_ctx d)) d = d"
  by (simp add: place_def upd_ctx_def)

text \<open>Reading into the cache does not look at position and size.\<close>

lemma read_to_cache_place:
  "read_to_cache off n (place it sz d) = (case read_to_cache off n d of Ok m t \<Rightarrow> Ok m (place it sz t) | Err e t \<Rightarrow> Err e (place it sz t))"
  by (auto simp: read_to_cache_def read_stream_def write_cache_def DI_CHECK_def di_basic_defs place_def upd_ctx_def split: di_res.splits)

lemma holding_place_drop:
  assumes "holding rd rest good inp (place it sz d)" "0 \<le> j" "j \<le> sz"
  shows "holding rd rest good (drop (nat j) inp) (place (it + j) (sz - j) d)"
proof -
  have c: "reads rd good d" "length (cache (d_ctx d)) = 7" "0 \<le> it" "0 \<le> sz" "it + sz \<le> 7"
    and i: "inp = take (nat sz) (drop (nat it) (cache (d_ctx d))) @ rest (d_stream d)"
    using assms(1) by (auto simp: holding_def cache_ok_def decoder_input_def ahead_def reads_def)
  have "nat (it + j) = nat j + nat it" "nat (sz - j) = nat sz - nat j" "nat j \<le> nat sz" "nat sz \<le> 7 - nat it"
    using c assms(2,3) by (auto simp: nat_add_distrib nat_diff_distrib)
  then show ?thesis using c assms(2,3) unfolding i
    by (auto simp: holding_def cache_ok_def decoder_input_def ahead_def reads_def drop_take)
qed

text \<open>
  The bytes of a prefix are read before the size in the context is changed; \<open>awaiting\<close> is a decoder whose cache has \<open>sz\<close> bytes from its position on.
\<close>

definition awaiting ::
    "'s DianaRead_fnc \<Rightarrow> ('s \<Rightarrow> u8 list) \<Rightarrow> ('s \<Rightarrow> bool) \<Rightarrow> u8 list \<Rightarrow> int \<Rightarrow> 's Decoder \<Rightarrow> bool" where
  "awaiting rd rest good inp sz d \<longleftrightarrow>
     holding rd rest good inp (place 2 sz d) \<and> cacheIt (d_ctx d) = 2 \<and> 0 \<le> cacheSize (d_ctx d) \<and> cacheSize (d_ctx d) \<le> sz \<and> fresh prefixes_ok (bare d)"

text \<open>Two virtual bytes stand for at least two bytes of the input.\<close>

definition vex_frame :: "DecoderContext \<times> DecoderResult \<Rightarrow> bool" where
  "vex_frame b \<longleftrightarrow> iVexPrefix (fst b) \<noteq> 0 \<and> (\<forall>x\<in>set (prefixes (fst b)). linkedPrefixFnc x \<noteq> fnc_Normal) \<and> d_operands (snd b) = []"

definition virtually ::
    "'s DianaRead_fnc \<Rightarrow> ('s \<Rightarrow> u8 list) \<Rightarrow> ('s \<Rightarrow> bool) \<Rightarrow> u8 list \<Rightarrow> 's Decoder \<Rightarrow> bool" where
  "virtually rd rest good inp d \<longleftrightarrow>
     (\<exists>w inp' x y. inp = w @ inp' \<and> 2 \<le> length w \<and> holding rd rest good (x # y # inp') d) \<and> cacheIt (d_ctx d) = 0 \<and> vex_frame (bare d)"

definition vexed ::
    "'s DianaRead_fnc \<Rightarrow> ('s \<Rightarrow> u8 list) \<Rightarrow> ('s \<Rightarrow> bool) \<Rightarrow> u8 list \<Rightarrow> int \<Rightarrow> 's Decoder \<Rightarrow> bool" where
  "vexed rd rest good inp sz d \<longleftrightarrow>
     holding rd rest good inp (place 2 sz d) \<and> cacheIt (d_ctx d) = 2 \<and> 0 \<le> cacheSize (d_ctx d) \<and> cacheSize (d_ctx d) \<le> sz \<and> vex_frame (bare d)"

context code_stream
begin

lemma extend:
  assumes "holding rd rest good inp (place it sz d)" "it + sz + n \<le> 7" "0 \<le> n"
  obtains (Ok) m t where "read_to_cache (it + sz) n d = Ok m t" "0 \<le> m" "m \<le> n" "holding rd rest good inp (place it (sz + m) t)"
      "bare t = bare d" "cacheIt (d_ctx t) = cacheIt (d_ctx d)" "cacheSize (d_ctx t) = cacheSize (d_ctx d)"
    | (Err) e t where "read_to_cache (it + sz) n d = Err e t" "e \<noteq> C_UNDEFINED" "holding rd rest good inp (place it sz t)"
      "bare t = bare d" "cacheIt (d_ctx t) = cacheIt (d_ctx d)" "cacheSize (d_ctx t) = cacheSize (d_ctx d)"
proof -
  let ?p = "place it sz d"
  have fits: "cacheIt (d_ctx ?p) + cacheSize (d_ctx ?p) + n \<le> 7" using assms(2) by simp
  have keep: "bare t = bare d \<and> cacheIt (d_ctx t) = cacheIt (d_ctx d) \<and> cacheSize (d_ctx t) = cacheSize (d_ctx d)"
    if "read_to_cache (it + sz) n d = r" "t = res_state r" for r t
    using that by (auto simp: read_to_cache_def read_stream_def write_cache_def DI_CHECK_def di_basic_defs bare_def upd_ctx_def split: di_res.splits if_splits)
  show ?thesis
  proof (cases rule: top_up [OF assms(1) fits assms(3)])
    case (1 m d')
    then obtain t where t: "read_to_cache (it + sz) n d = Ok m t" "d' = place it sz t"
      by (auto simp: read_to_cache_place split: di_res.splits)
    have "upd_ctx (\<lambda>c. c\<lparr>cacheSize := cacheSize c + m\<rparr>) d' = place it (sz + m) t" by (simp add: t(2) place_def upd_ctx_def)
    then show ?thesis using that(1) [OF t(1) 1(2,3)] 1(4) keep [OF t(1)] by simp
  next
    case (2 e s)
    then obtain t where t: "read_to_cache (it + sz) n d = Err e t" "?p\<lparr>d_stream := s\<rparr> = place it sz t"
      by (auto simp: read_to_cache_place split: di_res.splits)
    then show ?thesis using that(2) [OF t(1) 2(2)] 2(3) keep [OF t(1)] by simp
  qed
qed

lemma awaiting_spent: "awaiting rd rest good inp sz d \<Longrightarrow> length inp \<le> n \<Longrightarrow> spent rd rest good n d"
  using holding_length [of rd rest good inp "place 2 sz d"] by (auto simp: awaiting_def spent_def holding_def cache_ok_def reads_def)

lemma awaiting_set:
  "awaiting rd rest good inp sz d \<Longrightarrow> fetching rd rest good prefixes_ok inp (set_cacheSize sz d) \<and> cacheIt (d_ctx (set_cacheSize sz d)) = 2"
proof -
  assume a: "awaiting rd rest good inp sz d"
  then have "set_cacheSize sz d = place 2 sz d" by (simp add: awaiting_def set_cacheSize_def place_def upd_ctx_def)
  with a show ?thesis by (simp add: awaiting_def fetching_def)
qed

lemma awaiting_own: "fetching rd rest good prefixes_ok inp d \<Longrightarrow> cacheIt (d_ctx d) = 2 \<Longrightarrow> awaiting rd rest good inp (cacheSize (d_ctx d)) d"
  using place_own [of d] by (auto simp: awaiting_def fetching_def holding_def cache_ok_def)

lemma awaiting_read:
  assumes "2 + sz + n \<le> 7" "0 \<le> n"
  shows "runs (awaiting rd rest good inp sz) (read_to_cache (2 + sz) n) (\<lambda>m d. 0 \<le> m \<and> m \<le> n \<and> awaiting rd rest good inp (sz + m) d) (awaiting rd rest good inp sz)"
proof (rule runsI)
  fix d
  assume a: "awaiting rd rest good inp sz d"
  then have h: "holding rd rest good inp (place 2 sz d)" by (simp add: awaiting_def)
  show "case read_to_cache (2 + sz) n d of Ok m d \<Rightarrow> 0 \<le> m \<and> m \<le> n \<and> awaiting rd rest good inp (sz + m) d | Err e d \<Rightarrow> e \<noteq> C_UNDEFINED \<and> awaiting rd rest good inp sz d"
    using a by (cases rule: extend [OF h assms]) (auto simp: awaiting_def simp del: fresh_simps)
qed

lemma fill_cache_runs:
  assumes "want \<le> 5"
  shows "runs (awaiting rd rest good inp sz) (fill_cache k want limit 2 sz) (\<lambda>sz'. awaiting rd rest good inp sz') (spent rd rest good (length inp))"
proof (induction k arbitrary: sz)
  case 0
  then show ?case by (simp add: runs_RETURN)
next
  case (Suc k)
  show ?case
  proof (cases "sz < want \<and> 2 + sz < limit")
    case True
    have r: "runs (awaiting rd rest good inp sz) (read_to_cache (2 + sz) (want - sz)) (\<lambda>m d. 0 \<le> m \<and> m \<le> want - sz \<and> awaiting rd rest good inp (sz + m) d)
      (spent rd rest good (length inp))"
      by (rule runs_post [OF awaiting_read]) (use True assms in \<open>auto intro: awaiting_spent\<close>)
    have "runs (\<lambda>d. 0 \<le> m \<and> m \<le> want - sz \<and> awaiting rd rest good inp (sz + m) d) (if m = 0 then DI_RETURN sz else fill_cache k want limit 2 (sz + m))
      (\<lambda>sz'. awaiting rd rest good inp sz') (spent rd rest good (length inp))" for m
      using Suc.IH [of "sz + m"] by (cases "m = 0") (auto intro!: runs_RETURN runs_pure)
    then show ?thesis using True by (simp, intro runs_CHECK [OF r])
  qed (auto intro: runs_RETURN)
qed

text \<open>A byte of the prefix.\<close>

lemma awaiting_byte:
  assumes "0 \<le> j" "j < sz"
  shows "runs (awaiting rd rest good inp sz) (read_cache (2 + j)) (\<lambda>b d. awaiting rd rest good inp sz d) E"
proof (rule runsI)
  fix d
  assume a: "awaiting rd rest good inp sz d"
  then have "2 + sz \<le> 7" "length (cache (d_ctx d)) = 7" by (auto simp: awaiting_def holding_def cache_ok_def)
  then have "read_cache (2 + j) d = Ok (cache (d_ctx d) ! nat (2 + j)) d" using assms by (intro read_cache_Ok) auto
  with a show "case read_cache (2 + j) d of Ok b d \<Rightarrow> awaiting rd rest good inp sz d | Err e d \<Rightarrow> e \<noteq> C_UNDEFINED \<and> E d" by simp
qed

section \<open>The virtual prefix\<close>

lemma virtual_prefix_runs:
  assumes "2 \<le> it"
  shows "runs (\<lambda>d. holding rd rest good inp (place it sz d) \<and> bare d = b) (virtual_prefix x y it sz)
    (\<lambda>_ d. holding rd rest good (x # y # inp) d \<and> cacheIt (d_ctx d) = 0 \<and> bare d = b) (\<lambda>_. False)"
proof (rule runsI)
  fix d
  assume A: "holding rd rest good inp (place it sz d) \<and> bare d = b"
  let ?c = "d_ctx d"
  let ?m = "take (nat sz) (drop (nat it) (cache ?c))"
  have c: "reads rd good d" "length (cache ?c) = 7" "0 \<le> sz" "it + sz \<le> 7" and i: "inp = ?m @ rest (d_stream d)"
    using A assms by (auto simp: holding_def cache_ok_def decoder_input_def ahead_def reads_def)
  have len: "length ?m = nat sz" "nat sz \<le> 5" using c assms by auto
  have w1: "move_cache 2 it sz d = Ok () (upd_ctx (\<lambda>c. c\<lparr>cache := take 2 (cache ?c) @ ?m @ drop (2 + nat sz) (cache ?c)\<rparr>) d)"
    using c len assms write_cache_Ok [of 2 ?m d] by (simp add: move_cache_def di_basic_defs upd_ctx_def)
  define u where "u = upd_ctx (\<lambda>c. c\<lparr>cache := [x, y] @ ?m @ drop (2 + nat sz) (cache ?c)\<rparr>) d"
  have w2: "write_cache 0 [x, y] (upd_ctx (\<lambda>c. c\<lparr>cache := take 2 (cache ?c) @ ?m @ drop (2 + nat sz) (cache ?c)\<rparr>) d) = Ok () u"
    using c len write_cache_Ok [of 0 "[x, y]" "upd_ctx (\<lambda>c. c\<lparr>cache := take 2 (cache ?c) @ ?m @ drop (2 + nat sz) (cache ?c)\<rparr>) d"]
    by (simp add: u_def upd_ctx_def)
  have u: "holding rd rest good (x # y # inp) (place 0 (sz + 2) u)" "bare u = b"
    using A c len unfolding i by (auto simp: u_def holding_def reads_def cache_ok_def decoder_input_def ahead_def bare_def nat_add_distrib)
  have go: "virtual_prefix x y it sz d = (if sz + 2 < 7 then
         (case read_to_cache (sz + 2) (7 - (sz + 2)) (place 0 (sz + 2) u) of
            Ok n d \<Rightarrow> Ok () (upd_ctx (\<lambda>c. c\<lparr>cacheSize := cacheSize c + n\<rparr>) d)
          | Err e d \<Rightarrow> if e = C_UNDEFINED then Err e d else Ok () d)
       else Ok () (place 0 (sz + 2) u))"
    unfolding virtual_prefix_def DI_CHECK_def w1 di_res.case w2 by (simp add: DI_DO_def place_def)
  have sum: "upd_ctx (\<lambda>c. c\<lparr>cacheSize := cacheSize c + m\<rparr>) t = place (cacheIt (d_ctx t)) (cacheSize (d_ctx t) + m) t" for m and t :: "'s Decoder"
    by (simp add: place_def upd_ctx_def)
  show "case virtual_prefix x y it sz d of Ok _ d \<Rightarrow> holding rd rest good (x # y # inp) d \<and> cacheIt (d_ctx d) = 0 \<and> bare d = b | Err e d \<Rightarrow> e \<noteq> C_UNDEFINED \<and> False"
  proof (cases "sz + 2 < 7")
    case False
    then show ?thesis unfolding go using u by simp
  next
    case True
    have h: "holding rd rest good (x # y # inp) (place 0 (sz + 2) (place 0 (sz + 2) u))" using u(1) by simp
    show ?thesis
    proof (cases rule: extend [OF h, of "7 - (sz + 2)"])
      case (3 m t)
      then show ?thesis unfolding go using True u(2) by (simp add: sum)
    next
      case (4 e t)
      then have "place 0 (sz + 2) t = t" using place_own [of t] by simp
      with 4 show ?thesis unfolding go using True u(2) by simp
    qed (use True in simp_all)
  qed
qed

lemma virtual_runs:
  assumes j: "0 < j" "j \<le> sz"
  shows "runs (vexed rd rest good inp sz) (virtual_prefix x y (2 + j) (sz - j)) (\<lambda>_. virtually rd rest good (a # inp)) E"
proof (rule runsI)
  fix d
  assume A: "vexed rd rest good inp sz d"
  have "holding rd rest good (drop (nat j) inp) (place (2 + j) (sz - j) d)"
    using A j by (intro holding_place_drop) (auto simp: vexed_def)
  then have pre: "holding rd rest good (drop (nat j) inp) (place (2 + j) (sz - j) d) \<and> bare d = bare d" by simp
  have two: "2 \<le> 2 + j" using j by simp
  have len: "nat j \<le> length inp" using A j holding_length [of rd rest good inp "place 2 sz d"] by (auto simp: vexed_def)
  note run = virtual_prefix_runs [OF two, of "drop (nat j) inp" "sz - j" "bare d" x y]
  have ok: "virtually rd rest good (a # inp) t" if t: "holding rd rest good (x # y # drop (nat j) inp) t" "cacheIt (d_ctx t) = 0" "bare t = bare d" for t
    unfolding virtually_def
  proof (intro conjI exI)
    show "a # inp = (a # take (nat j) inp) @ drop (nat j) inp" "2 \<le> length (a # take (nat j) inp)" using len j by auto
  qed (use t A in \<open>simp_all add: vexed_def\<close>)
  show "case virtual_prefix x y (2 + j) (sz - j) d of Ok _ d \<Rightarrow> virtually rd rest good (a # inp) d | Err e d \<Rightarrow> e \<noteq> C_UNDEFINED \<and> E d"
  proof (cases "virtual_prefix x y (2 + j) (sz - j) d")
    case (Ok v t)
    from runs_OkD [OF run pre Ok] ok Ok show ?thesis by simp
  next
    case (Err e t)
    from runs_ErrD [OF run pre Err] show ?thesis by simp
  qed
qed

text \<open>The fields of the prefix are set before.\<close>

lemma awaiting_vexed:
  assumes "awaiting rd rest good inp sz d" "same_cache (d_ctx d) (f (d_ctx d))" "prefixes (f (d_ctx d)) = prefixes (d_ctx d)" "iVexPrefix (f (d_ctx d)) \<noteq> 0"
  shows "vexed rd rest good inp sz (upd_ctx f d)"
  using assms
  by (auto simp: vexed_def awaiting_def vex_frame_def bare_def fresh_def prefixes_ok_def same_cache_def holding_def reads_def cache_ok_def decoder_input_def ahead_def)

lemma vexed_spent: "vexed rd rest good inp sz d \<Longrightarrow> length inp \<le> n \<Longrightarrow> spent rd rest good n d"
  using holding_length [of rd rest good inp "place 2 sz d"] by (auto simp: vexed_def spent_def holding_def cache_ok_def reads_def vex_frame_def bare_def)

lemma finish_vex_runs:
  assumes "0 < j" "j \<le> sz"
  shows "runs (awaiting rd rest good inp sz) (finish_vex r x b w vb ms (2 + j) (sz - j)) (\<lambda>found d. found \<and> virtually rd rest good (a # inp) d) E"
  unfolding finish_vex_def
  by (rule runs_DO [OF runs_CHECK [OF virtual_runs [OF assms] runs_RETURN]], simp, rule awaiting_vexed) (auto simp: same_cache_def Let_def)

section \<open>The prefixes\<close>

text \<open>A prefix that is none leaves the input; a prefix is replaced; a failure leaves no more bytes.\<close>

lemma not_found:
  "runs (awaiting rd rest good inp sz) (DI_DO (set_cacheSize sz) (DI_RETURN False))
     (\<lambda>found d. if found then virtually rd rest good (a # inp) d else fetching rd rest good prefixes_ok inp d \<and> cacheIt (d_ctx d) = 2) E"
  by (rule runs_DO [where P' = "\<lambda>d. fetching rd rest good prefixes_ok inp d \<and> cacheIt (d_ctx d) = 2"], rule runs_RETURN, simp, rule awaiting_set)

lemma refuse:
  assumes "x \<noteq> C_UNDEFINED"
  shows "runs (awaiting rd rest good inp sz) (DI_DO (set_cacheSize sz) (DI_FAIL x)) Q (spent rd rest good (length (a # inp)))"
    "runs (awaiting rd rest good inp sz) (DI_FAIL x) Q (spent rd rest good (length (a # inp)))"
    "runs (vexed rd rest good inp sz) (DI_DO (set_cacheSize sz) (DI_FAIL x)) Q (spent rd rest good (length (a # inp)))"
proof -
  show "runs (awaiting rd rest good inp sz) (DI_DO (set_cacheSize sz) (DI_FAIL x)) Q (spent rd rest good (length (a # inp)))"
    by (rule runs_DO, rule runs_FAIL [OF assms], assumption, rule fetching_spent [OF conjunct1 [OF awaiting_set]]) (assumption, simp)
  show "runs (awaiting rd rest good inp sz) (DI_FAIL x) Q (spent rd rest good (length (a # inp)))"
    by (rule runs_FAIL [OF assms]) (auto intro: awaiting_spent)
  have v: "vexed rd rest good inp sz d \<Longrightarrow> vexed rd rest good inp sz (set_cacheSize sz d)" for d
    by (auto simp: vexed_def set_cacheSize_def place_def upd_ctx_def bare_def holding_def cache_ok_def)
  show "runs (vexed rd rest good inp sz) (DI_DO (set_cacheSize sz) (DI_FAIL x)) Q (spent rd rest good (length (a # inp)))"
    by (rule runs_DO, rule runs_FAIL [OF assms], assumption, rule vexed_spent [OF v]) (assumption, simp)
qed

lemma read_byte_runs: "0 \<le> j \<Longrightarrow> j < sz \<Longrightarrow> runs (awaiting rd rest good inp sz) (read_cache (2 + j)) (\<lambda>_. awaiting rd rest good inp sz) E"
  by (rule awaiting_byte)

lemma found_vex:
  assumes "0 < j" "j \<le> sz"
  shows "runs (awaiting rd rest good inp sz) (finish_vex r x b w vb ms (2 + j) (sz - j))
    (\<lambda>found d. if found then virtually rd rest good (a # inp) d else fetching rd rest good prefixes_ok inp d \<and> cacheIt (d_ctx d) = 2) E"
  by (rule runs_post [OF finish_vex_runs [OF assms]]) auto

lemma start_prefix:
  assumes "\<And>sz long. runs (awaiting rd rest good inp sz) (m 2 sz long) Q E"
  shows "runs (\<lambda>d. fetching rd rest good prefixes_ok inp d \<and> cacheIt (d_ctx d) = 2)
    (DI_LET (\<lambda>d. (cacheIt (d_ctx d), cacheSize (d_ctx d), amd64 d)) (\<lambda>(it, sz, long). m it sz long)) Q E"
  using assms awaiting_own by (force simp: runs_def DI_LET_def)

lemma VexPrefix2_runs:
  "runs (\<lambda>d. fetching rd rest good prefixes_ok inp d \<and> cacheIt (d_ctx d) = 2) Di_ProcessVexPrefix2
     (\<lambda>found d. if found then virtually rd rest good (a # inp) d else fetching rd rest good prefixes_ok inp d \<and> cacheIt (d_ctx d) = 2)
     (spent rd rest good (length (a # inp)))"
  (is "runs ?P _ ?Q ?E")
proof -
  have more: "runs (awaiting rd rest good inp sz) (if sz < 1 then DI_CHECK (read_to_cache (2 + sz) 1) (\<lambda>n. DI_RETURN (sz + n)) else DI_RETURN sz)
      (\<lambda>sz'. awaiting rd rest good inp sz') ?E" for sz
  proof (rule runs_if)
    assume "sz < 1"
    then have "runs (awaiting rd rest good inp sz) (read_to_cache (2 + sz) 1) (\<lambda>m d. 0 \<le> m \<and> m \<le> 1 \<and> awaiting rd rest good inp (sz + m) d) ?E"
      by (intro runs_post [OF awaiting_read]) (auto intro: awaiting_spent)
    then show "runs (awaiting rd rest good inp sz) (DI_CHECK (read_to_cache (2 + sz) 1) (\<lambda>n. DI_RETURN (sz + n))) (\<lambda>sz'. awaiting rd rest good inp sz') ?E"
      by (rule runs_CHECK) (auto intro: runs_RETURN)
  qed (simp add: runs_RETURN)
  have rest: "runs (awaiting rd rest good inp sz) (if sz < 1 then DI_FAIL DI_END_OF_STREAM
     else DI_CHECK (read_cache 2) (\<lambda>b2. if \<not> long \<and> b2 AND 0xC0 \<noteq> 0xC0 then DI_DO (set_cacheSize sz) (DI_RETURN False)
       else finish_vex (\<not> bit b2 7) False False False b2 0 (2 + 1) (sz - 1))) ?Q ?E" for sz long
    using read_byte_runs [of 0 sz inp ?E] by (intro runs_if refuse(2) runs_CHECK [of _ _ "\<lambda>_. awaiting rd rest good inp sz"] not_found found_vex) auto
  show ?thesis
    unfolding Di_ProcessVexPrefix2_def by (rule start_prefix, rule runs_CHECK [OF more rest])
qed

text \<open>The prefixes with more bytes.\<close>

lemma fill_prefix:
  "want \<le> 5 \<Longrightarrow> runs (awaiting rd rest good inp sz) (fill_cache k want limit 2 sz) (\<lambda>sz'. awaiting rd rest good inp sz') (spent rd rest good (length (a # inp)))"
  by (rule runs_post [OF fill_cache_runs]) (auto simp: spent_def)

lemma VexPrefix3_runs:
  "runs (\<lambda>d. fetching rd rest good prefixes_ok inp d \<and> cacheIt (d_ctx d) = 2) Di_ProcessVexPrefix3
     (\<lambda>found d. if found then virtually rd rest good (a # inp) d else fetching rd rest good prefixes_ok inp d \<and> cacheIt (d_ctx d) = 2)
     (spent rd rest good (length (a # inp)))"
  unfolding Di_ProcessVexPrefix3_def
proof (rule start_prefix, rule runs_CHECK [OF fill_prefix [of 2]], simp, rule runs_if)
  fix long and sz :: int
  show "runs (awaiting rd rest good inp sz) (DI_DO (set_cacheSize sz) (if long then DI_FAIL DI_END_OF_STREAM else DI_RETURN False))
     (\<lambda>found d. if found then virtually rd rest good (a # inp) d else fetching rd rest good prefixes_ok inp d \<and> cacheIt (d_ctx d) = 2)
     (spent rd rest good (length (a # inp)))"
    by (cases long; simp only: if_True if_False; (rule not_found | rule refuse(1), simp))
  assume "\<not> sz < 2"
  then have b: "0 < sz" "1 < sz" "2 \<le> sz" by auto
  show "runs (awaiting rd rest good inp sz) (DI_CHECK (read_cache 2) (\<lambda>b2. DI_CHECK (read_cache (2 + 1)) (\<lambda>b3.
     if \<not> long \<and> b2 AND 0xC0 \<noteq> 0xC0 then DI_DO (set_cacheSize sz) (DI_RETURN False)
     else if b2 AND 0x1F \<noteq> 1 \<and> b2 AND 0x1F \<noteq> 2 \<and> b2 AND 0x1F \<noteq> 3 then DI_DO (set_cacheSize sz) (DI_FAIL DI_ERROR)
     else finish_vex (\<not> bit b2 7) (\<not> bit b2 6) (\<not> bit b2 5) (bit b3 7) b3 (b2 AND 0x1F - 1) (2 + 2) (sz - 2))))
     (\<lambda>found d. if found then virtually rd rest good (a # inp) d else fetching rd rest good prefixes_ok inp d \<and> cacheIt (d_ctx d) = 2)
     (spent rd rest good (length (a # inp)))"
    using b by (intro runs_CHECK [OF read_byte_runs [of 0, simplified]] runs_CHECK [OF read_byte_runs [of 1]] runs_if not_found refuse(1) found_vex) simp_all
qed

lemma VexPrefix_runs:
  "runs (\<lambda>d. fetching rd rest good prefixes_ok inp d \<and> cacheIt (d_ctx d) = 2) (Di_ProcessVexPrefix b)
     (\<lambda>found d. if found then virtually rd rest good (a # inp) d else fetching rd rest good prefixes_ok inp d \<and> cacheIt (d_ctx d) = 2)
     (spent rd rest good (length (a # inp)))"
  unfolding Di_ProcessVexPrefix_def by (intro runs_if VexPrefix2_runs VexPrefix3_runs)

lemma vexed_path: "runs (vexed rd rest good inp sz) (evex_path_LL LL 2 sz p2) (\<lambda>_. vexed rd rest good inp sz) E"
proof (rule runsI)
  fix d
  assume A: "vexed rd rest good inp sz d"
  then have "read_cache 6 d = Ok (cache (d_ctx d) ! nat 6) d" by (intro read_cache_Ok) (auto simp: vexed_def holding_def cache_ok_def)
  with A show "case evex_path_LL LL 2 sz p2 d of Ok _ d \<Rightarrow> vexed rd rest good inp sz d | Err e d \<Rightarrow> e \<noteq> C_UNDEFINED \<and> E d"
    by (simp add: evex_path_LL_def DI_CHECK_def DI_RETURN_def)
qed

lemma evex_registers_vexed: "vexed rd rest good inp sz d \<Longrightarrow> vexed rd rest good inp sz (upd_ctx (evex_registers p0 p1 p2) d)"
  by (auto simp: vexed_def vex_frame_def bare_def evex_registers_def Let_def holding_def reads_def cache_ok_def decoder_input_def ahead_def)

lemma evex_fields_vexed: "awaiting rd rest good inp sz d \<Longrightarrow> vexed rd rest good inp sz (upd_ctx (evex_fields p1 p2) d)"
  by (rule awaiting_vexed) (auto simp: evex_fields_def same_cache_def)

lemma EvexPrefix_runs:
  "runs (\<lambda>d. fetching rd rest good prefixes_ok inp d \<and> cacheIt (d_ctx d) = 2) Di_ProcessEvexPrefix
     (\<lambda>found d. if found then virtually rd rest good (a # inp) d else fetching rd rest good prefixes_ok inp d \<and> cacheIt (d_ctx d) = 2)
     (spent rd rest good (length (a # inp)))"
  (is "runs ?P _ ?Q ?E")
proof -
  let ?A = "awaiting rd rest good inp" and ?V = "vexed rd rest good inp"
  have p0: "runs (?A sz) (if sz < 1 then DI_RETURN 0 else read_cache 2) (\<lambda>_. ?A sz) ?E" for sz
    using read_byte_runs [of 0 sz inp ?E] by (cases "sz < 1") (auto intro: runs_RETURN)
  have none: "runs (?A sz) (DI_DO (set_cacheSize sz) (if c then DI_FAIL DI_END_OF_STREAM else DI_RETURN False)) ?Q ?E" for sz c
    by (cases c; simp only: if_True if_False; (rule not_found | rule refuse(1), simp))
  have last: "runs (?V sz) (DI_DO (upd_ctx (evex_registers q0 q1 q2)) (DI_CHECK (evex_path_LL LL 2 sz q2) (\<lambda>pathLL.
      DI_CHECK (virtual_prefix x (y pathLL) (2 + 3) (sz - 3)) (\<lambda>_. DI_RETURN True)))) ?Q ?E" if "\<not> sz < 4" for sz q0 q1 q2 LL x y
    by (rule runs_DO [OF runs_CHECK [OF vexed_path runs_CHECK [OF virtual_runs [of 3] runs_RETURN]]])
      (use that in \<open>auto intro: evex_registers_vexed\<close>)
  have bytes: "runs (?A sz) (read_cache (2 + j)) (\<lambda>_. ?A sz) ?E" if "\<not> sz < 4" "0 \<le> j" "j < 4" for sz j
    by (rule read_byte_runs) (use that in auto)
  show ?thesis
    unfolding Di_ProcessEvexPrefix_def Let_def
    by (rule start_prefix, rule runs_CHECK [OF fill_prefix [of 5]], simp, rule runs_CHECK [OF p0], rule runs_if, rule none, rule runs_if, rule refuse(1), simp,
        rule runs_CHECK [OF bytes], assumption, simp, simp, rule runs_CHECK [OF bytes], assumption, simp, simp, rule runs_if, rule refuse(1), simp,
        rule runs_DO, rule runs_if, rule refuse(3), simp, rule last, assumption, rule evex_fields_vexed)
qed

lemma parsed_I: "inp = w @ inp' \<Longrightarrow> w \<noteq> [] \<Longrightarrow> holding rd rest good inp' d \<Longrightarrow> 2 \<le> cacheIt (d_ctx d) \<Longrightarrow> parsed rd rest good inp d"
  unfolding parsed_def by (intro conjI exI [of _ inp']) auto

section \<open>Instructions behind a virtual prefix\<close>

lemma virtually_spent: "virtually rd rest good inp d \<Longrightarrow> spent rd rest good (length inp) d"
  using holding_length [of rd rest good _ d] by (auto simp: virtually_def spent_def holding_def cache_ok_def vex_frame_def bare_def)

text \<open>After the operands are linked: \<open>n\<close> bytes were left before.\<close>

lemma linked_spent:
  assumes "linking rd rest good c0 stop m p k d" "iVexPrefix c0 \<noteq> 0" "length p \<le> n"
  shows "spent rd rest good n (take_tail (stop - cacheIt c0) d)"
proof -
  let ?d = "take_tail (stop - cacheIt c0) d"
  have h: "holding rd rest good (pending rest d) ?d" "iVexPrefix (d_ctx ?d) \<noteq> 0" using take_tail_holding [OF assms(1)] assms(2) by simp_all
  have "length (pending rest d) \<le> n" using assms(1,3) by (auto simp: linking_def)
  then show ?thesis using h holding_length [OF h(1)] by (auto simp: spent_def holding_def cache_ok_def)
qed

lemma refused_spent:
  assumes "linking rd rest (within rest good r) c0 stop m p k d" "iVexPrefix c0 \<noteq> 0" "0 \<le> cacheSize c0" "cacheSize c0 \<le> 7" "cacheSize c0 + int r \<le> int n"
  shows "spent rd rest good n d"
  using assms by (auto simp: linking_within linking_def proxying_def window_def spent_def)

lemma link_virtual:
  assumes d: "virtually rd rest good inp d" and it: "it < cacheSize (d_ctx d)" "2 \<le> it" and e: "entry_ok e it"
    and check: "\<And>c0 stop m p k n. safe (linking rd rest (within rest good n) c0 stop m p k) (check e)"
    and t: "d_stream t = d_stream d" "d_readFnc t = d_readFnc d" "proxy_begin t = it" "proxy_tail_size t = cacheSize (d_ctx d) - it"
      "cache (d_ctx t) = cache (d_ctx d)" "cacheIt (d_ctx t) = it" "cacheSize (d_ctx t) = cacheSize (d_ctx d)" "iVexPrefix (d_ctx t) \<noteq> 0" "d_operands (d_res t) = []"
  shows "case (case Diana_LinkOperands e t of
        Err C_UNDEFINED d \<Rightarrow> Err C_UNDEFINED d
      | Err x d \<Rightarrow> Err x (take_tail (cacheSize (d_ctx t) - it) d)
      | Ok u d \<Rightarrow>
          if DI_VEX_GET_NDS (m_cmd_flags e) = 0 \<and> iVexVVVV (d_ctx d) \<noteq> 0 then Err DI_ERROR d
          else (case check e d of Ok u d \<Rightarrow> Ok () (take_tail (cacheSize (d_ctx t) - it) d) | Err x d \<Rightarrow> Err x (take_tail (cacheSize (d_ctx t) - it) d))) of
      Ok _ d \<Rightarrow> parsed rd rest good inp d | Err x d \<Rightarrow> x \<noteq> C_UNDEFINED \<and> spent rd rest good (length inp) d"
proof -
  obtain w inp' x y where w: "inp = w @ inp'" "2 \<le> length w" and h: "holding rd rest good (x # y # inp') d" and i: "cacheIt (d_ctx d) = 0"
    using d by (auto simp: virtually_def)
  let ?n = "length (rest (d_stream d))" and ?stop = "cacheSize (d_ctx d)" and ?p = "drop (nat it) (x # y # inp')"
  have c: "0 \<le> ?stop" "?stop \<le> 7" using h i by (auto simp: holding_def cache_ok_def)
  have size: "?stop + int ?n \<le> int (length inp)" using holding_length [OF h] w by simp
  have "nat it = Suc (Suc (nat it - 2))" using it(2) by linarith
  then obtain j where "nat it = Suc (Suc j)" by blast
  then have p: "?p = drop (nat it - 2) inp'" by simp
  have len: "length ?p \<le> length inp" using w unfolding p by simp
  have "pending rest t = ?p" "linking rd rest good (d_ctx t) ?stop (?stop - it) (pending rest t) 0 t"
    using start_linking [OF h, of it t] it i t by simp_all
  then have l: "linking rd rest (within rest good ?n) (d_ctx t) ?stop (?stop - it) ?p 0 t \<and> pending rest t = ?p"
    using t(1) by (simp add: linking_within)
  have "length (m_operands e) \<le> 6" "0 \<le> ?stop - it" using it e by (auto simp: entry_ok_def)
  note run = code_stream.LinkOperands_runs [OF shrinking this]
  show ?thesis
  proof (cases "Diana_LinkOperands e t")
    case (Err z t')
    from runs_ErrD [OF run l Err] obtain k where z: "z \<noteq> C_UNDEFINED" and "linking rd rest good (d_ctx t) ?stop (?stop - it) ?p k t'" by (auto simp: linking_within)
    from linked_spent [OF this(2) t(8) len] z show ?thesis using Err t by (cases z) simp_all
  next
    case (Ok u t')
    let ?k = "length (m_operands e)" and ?m = "max 0 (?stop - it - 1)"
    from runs_OkD [OF run l Ok] have ne: "?p \<noteq> []" and l': "linking rd rest (within rest good ?n) (d_ctx t) ?stop ?m (tl ?p) ?k t'" by simp_all
    have short: "length (tl ?p) \<le> length inp" using len by simp
    have fin: "parsed rd rest good inp (take_tail (?stop - it) t'')" if l'': "linking rd rest (within rest good ?n) (d_ctx t) ?stop ?m (tl ?p) ?k t''" for t''
    proof -
      have "linking rd rest good (d_ctx t) ?stop ?m (tl ?p) ?k t''" using l'' by (simp add: linking_within)
      note tt = take_tail_holding [OF this, unfolded t]
      obtain v where "tl ?p = v @ pending rest t''" using l'' by (auto simp: linking_def)
      then have "?p = hd ?p # v @ pending rest t''" using ne by (metis list.collapse)
      then have "inp' = take (nat it - 2) inp' @ hd ?p # v @ pending rest t''" unfolding p by (metis append_take_drop_id)
      then have split: "inp = (w @ take (nat it - 2) inp' @ hd ?p # v) @ pending rest t''" using w(1) by simp
      show ?thesis
        by (rule parsed_I [OF split _ tt(1)]) (use tt(2) it in simp_all)
    qed
    show ?thesis
    proof (cases "DI_VEX_GET_NDS (m_cmd_flags e) = 0 \<and> iVexVVVV (d_ctx t') \<noteq> 0")
      case True
      from refused_spent [OF l' t(8)] c size t True Ok show ?thesis by simp
    next
      case False
      show ?thesis
      proof (cases "check e t'")
        case (Ok v t'')
        from fin [OF runs_OkD [OF check l' Ok]] show ?thesis using \<open>Diana_LinkOperands e t = Ok u t'\<close> False Ok t by auto
      next
        case (Err z t'')
        from runs_ErrD [OF check l' Err] have z: "z \<noteq> C_UNDEFINED" and "linking rd rest good (d_ctx t) ?stop ?m (tl ?p) ?k t''" by (auto simp: linking_within)
        from linked_spent [OF this(2) t(8) short] z show ?thesis using Ok False Err t by auto
      qed
    qed
  qed
qed

lemma parse_virtual_runs:
  assumes root: "table_ok root" and encoded: "\<And>e. encoded e \<Longrightarrow> virtual_entry e"
    and check: "\<And>e c0 stop m p k n. safe (linking rd rest (within rest good n) c0 stop m p k) (check e)"
  shows "runs (virtually rd rest good inp) (parse_virtual root encoded check) (\<lambda>_. parsed rd rest good inp) (spent rd rest good (length inp))"
proof (rule runsI)
  fix d
  assume d: "virtually rd rest good inp d"
  let ?c = "d_ctx d"
  have c: "cache_ok ?c" and i: "cacheIt ?c = 0" and frame: "vex_frame (bare d)" using d by (auto simp: virtually_def holding_def)
  have keep: "spent rd rest good (length inp) t" if "d_stream t = d_stream d" "d_readFnc t = d_readFnc d" "cacheSize (d_ctx t) = cacheSize ?c" "iVexPrefix (d_ctx t) = iVexPrefix ?c" for t
    using virtually_spent [OF d] frame that by (simp add: spent_def reads_def vex_frame_def bare_def)
  show "case parse_virtual root encoded check d of Ok _ d \<Rightarrow> parsed rd rest good inp d | Err x d \<Rightarrow> x \<noteq> C_UNDEFINED \<and> spent rd rest good (length inp) d"
  proof (cases "refused_before_vex ?c")
    case True
    then show ?thesis using keep by (simp add: parse_virtual_def di_basic_defs)
  next
    case ok: False
    show ?thesis
    proof (cases rule: ParseCmdImpl_cases [OF c root])
      case 1
      then show ?thesis using ok keep by (simp add: parse_virtual_def di_basic_defs DI_CHECK_def)
    next
      case (2 e it)
      show ?thesis
      proof (cases "encoded e")
        case False
        then show ?thesis using ok 2(1) keep by (simp add: parse_virtual_def di_basic_defs DI_CHECK_def)
      next
        case True
        define a where "a = upd_ctx (ApplyPrefixes None) (at_entry it e d)"
        define t where "t = upd_ctx (\<lambda>c. c\<lparr>iRexPrefix := iRexPrefix ?c, iCurrentCmd_opsize := (if DI_REX_HAS_FLAG_W (iRexPrefix ?c) then 8 else 4), cacheIt := it\<rparr>) a"
        have win: "window ?c (ApplyPrefixes None ?c)"
          using frame by (intro ApplyPrefixes_window) (simp add: vex_frame_def bare_def)
        have it: "it < cacheSize ?c" "2 \<le> it" "entry_ok e it"
          using 2(3,4) i encoded [OF True] by (auto simp: entry_ok_def)
        show ?thesis
        proof (cases "iSizePrefixes (d_ctx a) AND DIANA_INVALID_STATE \<noteq> 0")
          case invalid: True
          then have "parse_virtual root encoded check d = Err DI_ERROR a"
            using ok 2(1) True by (simp add: parse_virtual_def di_basic_defs DI_CHECK_def a_def)
          then show ?thesis using keep [of a] win by (simp add: a_def window_def)
        next
          case False
          have "d_stream t = d_stream d" "d_readFnc t = d_readFnc d" "proxy_begin t = it" "proxy_tail_size t = cacheSize ?c - it"
            "cache (d_ctx t) = cache ?c" "cacheIt (d_ctx t) = it" "cacheSize (d_ctx t) = cacheSize ?c" "iVexPrefix (d_ctx t) \<noteq> 0" "d_operands (d_res t) = []"
            using win frame i by (simp_all add: t_def a_def window_def vex_frame_def bare_def)
          note fin = link_virtual [OF d it check this]
          have eqs: "the (d_pInfo (d_res (at_entry it e d))) = e" "proxy_tail_size (at_entry it e d) = cacheSize (d_ctx t) - it"
            using i win by (simp_all add: t_def a_def window_def)
          have "parse_virtual root encoded check d = (case Diana_LinkOperands e t of
              Err C_UNDEFINED d \<Rightarrow> Err C_UNDEFINED d
            | Err x d \<Rightarrow> Err x (take_tail (cacheSize (d_ctx t) - it) d)
            | Ok u d \<Rightarrow>
                if DI_VEX_GET_NDS (m_cmd_flags e) = 0 \<and> iVexVVVV (d_ctx d) \<noteq> 0 then Err DI_ERROR d
                else (case check e d of Ok u d \<Rightarrow> Ok () (take_tail (cacheSize (d_ctx t) - it) d) | Err x d \<Rightarrow> Err x (take_tail (cacheSize (d_ctx t) - it) d)))"
            by (simp only: parse_virtual_def DI_LET_def DI_CHECK_def DI_DO_def ok 2(1) di_res.case if_False eqs(1) True not_True_eq_False False
                a_def [symmetric] t_def [symmetric]) (unfold eqs, rule refl)
          then show ?thesis using fin by simp
        qed
      qed
    qed
  qed
qed

lemma CheckEvex_safe: "safe (linking rd rest good c0 stop m p k) (Di_CheckEvex e)"
  unfolding Di_CheckEvex_def
  by (cases "Diana_GetEvexAttributes e") (auto intro!: safe_LET runs_if safe_DO safe_basic linking_upd)

lemma parse_evex_runs:
  "table_ok root \<Longrightarrow> runs (virtually rd rest good inp) (Di_ParseEvexCmd root) (\<lambda>_. parsed rd rest good inp) (spent rd rest good (length inp))"
  unfolding Di_ParseEvexCmd_def
  by (rule parse_virtual_runs) (auto simp: virtual_entry_def intro: code_stream.CheckEvex_safe shrinking)

lemma parse_vex_runs:
  "table_ok root \<Longrightarrow> runs (virtually rd rest good inp) (parse_vex root) (\<lambda>_. parsed rd rest good inp) (spent rd rest good (length inp))"
  unfolding parse_vex_def by (rule parse_virtual_runs) (auto simp: virtual_entry_def intro: safe_basic)

end

end
