(* ===== verification/Decoder_Streams.thy ===== *)
theory Decoder_Streams
  imports Decoder_Core
begin

unbundle bit_operations_syntax

text \<open>
  The streams of the library (\<^verbatim>\<open>diana_streams.c\<close>): a stream over a buffer, read in order or at an address, written at an address; copying and filling through a page; and the
  parse of one instruction from a buffer.  An access outside the buffer is \<open>C_UNDEFINED\<close>.
\<close>

section \<open>Helpers of \<^verbatim>\<open>diana_core.c\<close>\<close>

definition Diana_SafeAdd :: "u64 \<Rightarrow> u64 \<Rightarrow> di_error + u64" where
  "Diana_SafeAdd result arg = (if 0xFFFFFFFFFFFFFFFF - result < arg then Inl DI_OVERFLOW else Inr (result + arg))"

text \<open>The build with 64-bit sizes.\<close>

definition Diana_ConvertOpSizeToSizeT :: "u64 \<Rightarrow> di_error + u64" where
  "Diana_ConvertOpSizeToSizeT n = Inr n"

definition Diana_ReadValue :: "u8 list \<Rightarrow> int \<Rightarrow> u64" where
  "Diana_ReadValue buffer n = (if n = 1 \<or> n = 2 \<or> n = 4 \<or> n = 8 then le_word (take (nat n) buffer) else 0)"

section \<open>The stream over a buffer\<close>

abbreviation (input) DIANA_ANALYZE_RANDOM_READ_ABSOLUTE :: int where "DIANA_ANALYZE_RANDOM_READ_ABSOLUTE \<equiv> 1"

record DianaMemoryStream =
  ms_pBuffer :: "u8 list"
  ms_bufferSize :: u64
  ms_curSize :: u64
  ms_addressDifference :: u64
  ms_translateAbsoluteAddress :: "(u64 \<Rightarrow> di_error + u64) option"
  ms_bWritable :: bool

text \<open>A size cast to \<^verbatim>\<open>int\<close>.\<close>

definition cast_int :: "u64 \<Rightarrow> int" where
  "cast_int n = sint (ucast n :: 32 word)"

definition Translate :: "DianaMemoryStream \<Rightarrow> u64 \<Rightarrow> di_error + u64" where
  "Translate s off = (if off < ms_addressDifference s then Inl DI_END_OF_STREAM else Inr (off - ms_addressDifference s))"

text \<open>\<^verbatim>\<open>memcpy\<close> from the buffer and to it.\<close>

definition ms_bytes :: "u64 \<Rightarrow> int \<Rightarrow> (u8 list, DianaMemoryStream) di_prog" where
  "ms_bytes off n s =
     (if n < 0 \<or> uint off + n > int (length (ms_pBuffer s)) then Err C_UNDEFINED s
      else Ok (take (nat n) (drop (unat off) (ms_pBuffer s))) s)"

definition ms_store :: "u64 \<Rightarrow> u8 list \<Rightarrow> (unit, DianaMemoryStream) di_prog" where
  "ms_store off bs s =
     (if uint off + int (length bs) > int (length (ms_pBuffer s)) then Err C_UNDEFINED s
      else Ok () (s\<lparr>ms_pBuffer := take (unat off) (ms_pBuffer s) @ bs @ drop (unat off + length bs) (ms_pBuffer s)\<rparr>))"

definition MemoryStream_Read :: "DianaMemoryStream DianaRead_fnc" where
  "MemoryStream_Read iBufferSize =
     DI_LET (\<lambda>s. (ms_curSize s, cast_int (ms_bufferSize s - ms_curSize s))) (\<lambda>(cur, avail).
     let sizeToGive = min avail iBufferSize in
     DI_CHECK (ms_bytes cur sizeToGive) (\<lambda>bs.
     DI_DO (\<lambda>s. s\<lparr>ms_curSize := ms_curSize s + word_of_int sizeToGive\<rparr>)
     (DI_RETURN bs)))"

definition of_sum :: "di_error + 'a \<Rightarrow> ('a, 's) di_prog" where
  "of_sum x = (case x of Inl e \<Rightarrow> DI_FAIL e | Inr a \<Rightarrow> DI_RETURN a)"

definition DianaMemoryStream_RandomRead :: "u64 \<Rightarrow> int \<Rightarrow> (u8 list, DianaMemoryStream) di_prog" where
  "DianaMemoryStream_RandomRead offset_in iBufferSize =
     DI_LET (\<lambda>s. s) (\<lambda>s.
     DI_CHECK (of_sum (Translate s offset_in)) (\<lambda>off.
     if off \<ge> ms_bufferSize s then DI_FAIL DI_END_OF_STREAM
     else ms_bytes off (min (cast_int (ms_bufferSize s - off)) iBufferSize)))"

definition DianaMemoryStream_RandomReadMoveTo :: "u64 \<Rightarrow> (unit, DianaMemoryStream) di_prog" where
  "DianaMemoryStream_RandomReadMoveTo offset_in =
     DI_LET (\<lambda>s. Translate s offset_in) (\<lambda>t.
     DI_CHECK (of_sum t) (\<lambda>off.
     DI_DO (\<lambda>s. s\<lparr>ms_curSize := off\<rparr>) DI_PROC_END))"

text \<open>The address behind a random access, and the size it may use.\<close>

definition random_offset :: "u64 \<Rightarrow> int \<Rightarrow> (u64, DianaMemoryStream) di_prog" where
  "random_offset offset_in flags =
     DI_LET (\<lambda>s. s) (\<lambda>s.
     DI_CHECK (of_sum (Translate s offset_in)) (\<lambda>off.
     DI_CHECK (if odd flags
       then (case ms_translateAbsoluteAddress s of Some f \<Rightarrow> of_sum (f off) | None \<Rightarrow> DI_FAIL DI_END_OF_STREAM)
       else DI_RETURN off) (\<lambda>off.
     if off \<ge> ms_bufferSize s then DI_FAIL DI_END_OF_STREAM else DI_RETURN off)))"

text \<open>
  The local size is unsigned here: a negative value of the cast is a huge size, for which the comparison with the converted \<^verbatim>\<open>iBufferSize\<close> is unsigned too.
\<close>

definition random_size :: "DianaMemoryStream \<Rightarrow> u64 \<Rightarrow> int \<Rightarrow> u64" where
  "random_size s off iBufferSize = (let n = word_of_int (cast_int (ms_bufferSize s - off)) in if n > word_of_int iBufferSize then word_of_int iBufferSize else n)"

definition DianaMemoryStream_RandomRead_V :: "u64 \<Rightarrow> int \<Rightarrow> int \<Rightarrow> (u8 list, DianaMemoryStream) di_prog" where
  "DianaMemoryStream_RandomRead_V offset_in iBufferSize flags =
     DI_CHECK (random_offset offset_in flags) (\<lambda>off.
     DI_LET (\<lambda>s. random_size s off iBufferSize) (\<lambda>n.
     ms_bytes off (uint n)))"

text \<open>The bytes of the buffer to write; their number is \<^verbatim>\<open>iBufferSize\<close>.\<close>

definition DianaMemoryStream_RandomWrite_V :: "u64 \<Rightarrow> u8 list \<Rightarrow> int \<Rightarrow> (u64, DianaMemoryStream) di_prog" where
  "DianaMemoryStream_RandomWrite_V offset_in pBuffer flags =
     DI_CHECK (random_offset offset_in flags) (\<lambda>off.
     DI_LET (\<lambda>s. random_size s off (int (length pBuffer))) (\<lambda>n.
     if unat n > length pBuffer then DI_FAIL C_UNDEFINED
     else
     DI_CHECK (ms_store off (take (unat n) pBuffer)) (\<lambda>_.
     DI_RETURN n)))"

definition Diana_InitMemoryStreamEx2 :: "u8 list \<Rightarrow> u64 \<Rightarrow> bool \<Rightarrow> u64 \<Rightarrow> DianaMemoryStream" where
  "Diana_InitMemoryStreamEx2 pBuffer bufferSize bWritable addressDifference =
     \<lparr>ms_pBuffer = pBuffer, ms_bufferSize = bufferSize, ms_curSize = 0, ms_addressDifference = addressDifference,
      ms_translateAbsoluteAddress = None, ms_bWritable = bWritable\<rparr>"

definition Diana_InitMemoryStreamEx :: "u8 list \<Rightarrow> u64 \<Rightarrow> bool \<Rightarrow> DianaMemoryStream" where
  "Diana_InitMemoryStreamEx pBuffer bufferSize bWritable = Diana_InitMemoryStreamEx2 pBuffer bufferSize bWritable 0"

definition Diana_InitMemoryStream :: "u8 list \<Rightarrow> u64 \<Rightarrow> DianaMemoryStream" where
  "Diana_InitMemoryStream pBuffer bufferSize = Diana_InitMemoryStreamEx2 pBuffer bufferSize False 0"

definition DianaMemoryStream2_TranslateAbsoluteAddress :: "u64 \<Rightarrow> u64 \<Rightarrow> di_error + u64" where
  "DianaMemoryStream2_TranslateAbsoluteAddress absoluteModuleAddress address =
     (if address < absoluteModuleAddress then Inl DI_OVERFLOW else Inr (address - absoluteModuleAddress))"

definition Diana_InitMemoryStream2 :: "u8 list \<Rightarrow> u64 \<Rightarrow> bool \<Rightarrow> u64 \<Rightarrow> u64 \<Rightarrow> DianaMemoryStream" where
  "Diana_InitMemoryStream2 pBuffer bufferSize bWritable addressDifference absoluteModuleAddress =
     (Diana_InitMemoryStreamEx2 pBuffer bufferSize bWritable addressDifference)
       \<lparr>ms_translateAbsoluteAddress := Some (DianaMemoryStream2_TranslateAbsoluteAddress absoluteModuleAddress)\<rparr>"

section \<open>The movable stream of the analyzer\<close>

definition DianaMovableReadStreamOverMemory_MoveTo :: "u64 \<Rightarrow> (unit, DianaMemoryStream) di_prog" where
  "DianaMovableReadStreamOverMemory_MoveTo off =
     DI_LET ms_bufferSize (\<lambda>sz.
     if off \<ge> sz then DI_FAIL DI_END_OF_STREAM
     else DI_DO (\<lambda>s. s\<lparr>ms_curSize := off\<rparr>) DI_PROC_END)"

definition DianaMovableReadStreamOverMemory_Read :: "DianaMemoryStream DianaRead_fnc" where
  "DianaMovableReadStreamOverMemory_Read iBufferSize = MemoryStream_Read iBufferSize"

definition DianaMovableReadStreamOverMemory_RandomRead :: "u64 \<Rightarrow> int \<Rightarrow> int \<Rightarrow> (u8 list, DianaMemoryStream) di_prog" where
  "DianaMovableReadStreamOverMemory_RandomRead off iBufferSize flags =
     (if odd flags then DI_FAIL DI_END_OF_STREAM else DianaMemoryStream_RandomRead off iBufferSize)"

definition DianaMovableReadStreamOverMemory_Init :: "u8 list \<Rightarrow> u64 \<Rightarrow> DianaMemoryStream" where
  "DianaMovableReadStreamOverMemory_Init pBuffer bufferSize = Diana_InitMemoryStream pBuffer bufferSize"

section \<open>Copying and filling\<close>

text \<open>
  A writable random stream is its write function: offset, bytes and flags give the number written.  The state of a copy are both streams.  \<open>None\<close> means that the loop does
  not end, which is so for an empty page.
\<close>

type_synonym 'o DianaRandomWrite_fnc = "u64 \<Rightarrow> u8 list \<Rightarrow> int \<Rightarrow> (u64, 'o) di_prog"

definition page_use :: "int \<Rightarrow> u64 \<Rightarrow> int" where
  "page_use pageSize sizeToTransfer = (if sizeToTransfer < word_of_int pageSize then cast_int sizeToTransfer else pageSize)"

definition on_fst :: "('a, 's) di_prog \<Rightarrow> ('a, 's \<times> 'o) di_prog" where
  "on_fst m st = (case m (fst st) of Ok a s \<Rightarrow> Ok a (s, snd st) | Err e s \<Rightarrow> Err e (s, snd st))"

definition on_snd :: "('a, 'o) di_prog \<Rightarrow> ('a, 's \<times> 'o) di_prog" where
  "on_snd m st = (case m (snd st) of Ok a t \<Rightarrow> Ok a (fst st, t) | Err e t \<Rightarrow> Err e (fst st, t))"

text \<open>One round: a page is read and written; the result is the number of bytes.\<close>

definition copy_page :: "'s DianaRead_fnc \<Rightarrow> 'o DianaRandomWrite_fnc \<Rightarrow> u64 \<Rightarrow> int \<Rightarrow> (u64, 's \<times> 'o) di_prog" where
  "copy_page rd wr address sizeToUse =
     DI_CHECK (on_fst (rd sizeToUse)) (\<lambda>bs.
     if int (length bs) \<noteq> sizeToUse then DI_FAIL DI_ERROR
     else
     DI_CHECK (on_snd (wr address bs 0)) (\<lambda>n.
     if n \<noteq> word_of_int sizeToUse then DI_FAIL DI_ERROR else DI_RETURN n))"

partial_function (option) copy_loop ::
    "'s DianaRead_fnc \<Rightarrow> 'o DianaRandomWrite_fnc \<Rightarrow> int \<Rightarrow> u64 \<Rightarrow> u64 \<Rightarrow> 's \<times> 'o \<Rightarrow> (unit, 's \<times> 'o) di_res option" where
  [code]: "copy_loop rd wr pageSize address sizeToTransfer st =
     (if sizeToTransfer = 0 then Some (Ok () st)
      else case copy_page rd wr address (page_use pageSize sizeToTransfer) st of
             Err e st \<Rightarrow> Some (Err e st)
           | Ok n st \<Rightarrow> copy_loop rd wr pageSize (address + n) (sizeToTransfer - n) st)"

definition DianaStreams_CopyData ::
    "'s DianaRead_fnc \<Rightarrow> 'o DianaRandomWrite_fnc \<Rightarrow> u64 \<Rightarrow> u64 \<Rightarrow> int \<Rightarrow> 's \<times> 'o \<Rightarrow> (unit, 's \<times> 'o) di_res option" where
  "DianaStreams_CopyData rd wr address n pageSize st =
     (case Diana_SafeAdd address n of
        Inl e \<Rightarrow> Some (Err e st)
      | Inr _ \<Rightarrow> copy_loop rd wr pageSize address n st)"

definition fill_page :: "'o DianaRandomWrite_fnc \<Rightarrow> u8 list \<Rightarrow> u64 \<Rightarrow> int \<Rightarrow> (u64, 'o) di_prog" where
  "fill_page wr page address sizeToUse =
     (if sizeToUse < 0 \<or> sizeToUse > int (length page) then DI_FAIL C_UNDEFINED
      else
      DI_CHECK (wr address (take (nat sizeToUse) page) 0) (\<lambda>n.
      if n \<noteq> word_of_int sizeToUse then DI_FAIL DI_ERROR else DI_RETURN n))"

partial_function (option) memset_loop ::
    "'o DianaRandomWrite_fnc \<Rightarrow> u8 list \<Rightarrow> int \<Rightarrow> u64 \<Rightarrow> u64 \<Rightarrow> 'o \<Rightarrow> (unit, 'o) di_res option" where
  [code]: "memset_loop wr page pageSize address sizeToTransfer st =
     (if sizeToTransfer = 0 then Some (Ok () st)
      else case fill_page wr page address (page_use pageSize sizeToTransfer) st of
             Err e st \<Rightarrow> Some (Err e st)
           | Ok n st \<Rightarrow> memset_loop wr page pageSize (address + n) (sizeToTransfer - n) st)"

text \<open>The page is filled with the low byte of the value; a page buffer shorter than its size is undefined.\<close>

definition DianaStreams_MemsetData ::
    "'o DianaRandomWrite_fnc \<Rightarrow> u64 \<Rightarrow> u64 \<Rightarrow> int \<Rightarrow> u8 list \<Rightarrow> int \<Rightarrow> 'o \<Rightarrow> (unit, 'o) di_res option" where
  "DianaStreams_MemsetData wr address n v pPage pageSize st =
     (case Diana_SafeAdd address n of
        Inl e \<Rightarrow> Some (Err e st)
      | Inr _ \<Rightarrow>
          let fill = (if word_of_int pageSize > n then n else word_of_int pageSize) in
          if unat fill > length pPage then Some (Err C_UNDEFINED st)
          else memset_loop wr (replicate (unat fill) (word_of_int v) @ drop (unat fill) pPage) pageSize address n st)"

section \<open>One instruction from a buffer\<close>

definition fresh_decoder :: "DecoderContext \<Rightarrow> DecoderResult \<Rightarrow> DianaMemoryStream \<Rightarrow> DianaMemoryStream Decoder" where
  "fresh_decoder c r s = \<lparr>d_ctx = c, d_res = r, d_stream = s, d_readFnc = MemoryStream_Read, proxy_begin = 0, proxy_tail_size = 0\<rparr>"

text \<open>The size read is given for a failed parse too.\<close>

definition parse_buffer ::
    "(int \<Rightarrow> (unit, DianaMemoryStream) dec) \<Rightarrow> DianaCmdEntry \<Rightarrow> DianaGenObject \<Rightarrow> DecoderContext \<Rightarrow> u8 list \<Rightarrow> u64 \<Rightarrow> DecoderResult \<Rightarrow>
     (unit, DianaMemoryStream Decoder) di_res \<times> u64" where
  "parse_buffer arm nop root c pBuffer n r =
     (let res = Diana_ParseCmd arm nop root (fresh_decoder c r (Diana_InitMemoryStream pBuffer n)); d = res_state res
      in (res, ms_curSize (d_stream d) - word_of_int (cacheSize (d_ctx d))))"

definition Diana_ParseCmdOnBufferEx ::
    "(int \<Rightarrow> (unit, DianaMemoryStream) dec) \<Rightarrow> DianaCmdEntry \<Rightarrow> int \<Rightarrow> int \<Rightarrow> u8 list \<Rightarrow> u64 \<Rightarrow> DianaGenObject \<Rightarrow> DecoderResult \<Rightarrow>
     (unit, DianaMemoryStream Decoder) di_res \<times> u64" where
  "Diana_ParseCmdOnBufferEx arm nop iMode arch pBuffer n pInitialLine r = parse_buffer arm nop pInitialLine (Diana_InitContextEx iMode arch) pBuffer n r"

definition Diana_ParseCmdOnBuffer ::
    "(int \<Rightarrow> (unit, DianaMemoryStream) dec) \<Rightarrow> DianaCmdEntry \<Rightarrow> int \<Rightarrow> u8 list \<Rightarrow> u64 \<Rightarrow> DianaGenObject \<Rightarrow> DecoderResult \<Rightarrow>
     (unit, DianaMemoryStream Decoder) di_res \<times> u64" where
  "Diana_ParseCmdOnBuffer arm nop iMode pBuffer n pInitialLine r = Diana_ParseCmdOnBufferEx arm nop iMode DIANA_ARCH_X86 pBuffer n pInitialLine r"

definition Diana_ParseCmdOnBuffer_testmode ::
    "(int \<Rightarrow> (unit, DianaMemoryStream) dec) \<Rightarrow> DianaCmdEntry \<Rightarrow> int \<Rightarrow> u8 list \<Rightarrow> u64 \<Rightarrow> DianaGenObject \<Rightarrow> DecoderResult \<Rightarrow>
     (unit, DianaMemoryStream Decoder) di_res \<times> u64" where
  "Diana_ParseCmdOnBuffer_testmode arm nop iMode pBuffer n pInitialLine r = parse_buffer arm nop pInitialLine (Diana_InitContextWithTestMode iMode) pBuffer n r"

end
