(* ===== verification/Decoder_Correct.thy ===== *)
theory Decoder_Correct
  imports Decoder_Virtual Decoder_Streams
begin

unbundle bit_operations_syntax

text \<open>
  The decoder as a whole: \<^verbatim>\<open>Diana_ParseCmdEx\<close> and \<^verbatim>\<open>Diana_ParseCmd\<close> over any stream that keeps the contract, and the streams that do.
\<close>

section \<open>One instruction\<close>

context code_stream
begin

lemma parse_opcode_runs:
  assumes "table_ok root"
  shows "runs (\<lambda>d. fetching rd rest good prefixes_ok inp d \<and> cacheIt (d_ctx d) = 2) (parse_opcode root data)
    (\<lambda>_. parsed rd rest good (upcoming data inp)) (spent rd rest good (length (upcoming data inp)))"
  (is "runs ?P _ ?Q ?E")
proof -
  have legacy: "runs ?P (DI_LET (\<lambda>d. cacheSize (d_ctx d)) (\<lambda>orig. parse_legacy root data orig)) ?Q ?E"
    by (rule runs_LET, rule runs_pre [OF parse_legacy_runs [OF assms]]) auto
  have vex: "runs ?P (DI_CHECK (case data of Some b \<Rightarrow> if IsVEXPrefix b then Di_ProcessVexPrefix b else DI_RETURN False | None \<Rightarrow> DI_RETURN False)
      (\<lambda>vexFound. if vexFound then parse_vex root else DI_LET (\<lambda>d. cacheSize (d_ctx d)) (\<lambda>orig. parse_legacy root data orig))) ?Q ?E"
  proof (cases "\<exists>b. data = Some b \<and> IsVEXPrefix b")
    case True
    then obtain b where b: "data = Some b" "IsVEXPrefix b" by blast
    have up: "upcoming data inp = b # inp" using b by (simp add: upcoming_def)
    have "runs (\<lambda>d. if found then virtually rd rest good (upcoming data inp) d else ?P d)
      (if found then parse_vex root else DI_LET (\<lambda>d. cacheSize (d_ctx d)) (\<lambda>orig. parse_legacy root data orig)) ?Q ?E" for found
      using parse_vex_runs [OF assms, of "upcoming data inp"] legacy by (cases found) simp_all
    from runs_CHECK [OF VexPrefix_runs [of inp b b, folded up] this] b show ?thesis by simp
  next
    case False
    then have none: "(case data of Some b \<Rightarrow> if IsVEXPrefix b then Di_ProcessVexPrefix b else DI_RETURN False | None \<Rightarrow> DI_RETURN False) = DI_RETURN False"
      by (auto split: option.splits)
    show ?thesis unfolding none DI_CHECK_RETURN using legacy by simp
  qed
  show ?thesis
  proof (cases "data = Some 0x62")
    case True
    then have up: "upcoming data inp = 0x62 # inp" by (simp add: upcoming_def)
    have "runs (\<lambda>d. if found then virtually rd rest good (upcoming data inp) d else ?P d)
      (if found then Di_ParseEvexCmd root else DI_CHECK (case data of Some b \<Rightarrow> if IsVEXPrefix b then Di_ProcessVexPrefix b else DI_RETURN False | None \<Rightarrow> DI_RETURN False)
      (\<lambda>vexFound. if vexFound then parse_vex root else DI_LET (\<lambda>d. cacheSize (d_ctx d)) (\<lambda>orig. parse_legacy root data orig))) ?Q ?E" for found
      using parse_evex_runs [OF assms, of "upcoming data inp"] vex by (cases found) simp_all
    from runs_CHECK [OF EvexPrefix_runs [of inp "0x62", folded up] this] True show ?thesis unfolding parse_opcode_def by simp
  next
    case False
    then show ?thesis unfolding parse_opcode_def using vex by (simp only: if_False DI_CHECK_RETURN)
  qed
qed

lemma parsed_more:
  assumes "inp = w @ inp'" "parsed rd rest good inp' d"
  shows "parsed rd rest good inp d"
proof -
  obtain r where r: "length r < length inp'" "holding rd rest good r d" "lossless (prefixes (d_ctx d)) \<longrightarrow> (\<exists>v. inp' = v @ r)" "2 \<le> cacheIt (d_ctx d)"
    using assms(2) by (auto simp: parsed_def)
  have "lossless (prefixes (d_ctx d)) \<longrightarrow> (\<exists>v. inp = v @ r)" using r(3) assms(1) by (metis append.assoc)
  with r assms(1) show ?thesis unfolding parsed_def by (intro conjI exI [of _ r]) simp_all
qed

lemma reset_fetching:
  assumes "holding rd rest good inp d \<and> 2 \<le> cacheIt (d_ctx d)"
  shows "fetching rd rest good loop_prefixes inp (reset_decoder d)"
  using assms
  by (auto simp: fetching_def reset_decoder_def zero_decoder_result_def Diana_ResetPrefixes_def Diana_Normal_def loop_prefixes_def opt_all_def same_cache_def
      intro!: holding_upd)

text \<open>The opcode: its byte is in hand or first in the cache.\<close>

lemma nop_runs:
  "runs (\<lambda>d. facing rd rest good prefixes_ok inp data d \<and> cacheIt (d_ctx d) = 2 \<and> (data = None \<longrightarrow> 0 < cacheSize (d_ctx d)))
     (DI_CHECK (if data = None then DI_CHECK Diana_CacheEatOne (\<lambda>_. DI_PROC_END) else DI_PROC_END) (\<lambda>_. DI_DO (set_nop nop) DI_PROC_END))
     (\<lambda>_. parsed rd rest good inp) E"
proof (rule runsI)
  fix d
  assume A: "facing rd rest good prefixes_ok inp data d \<and> cacheIt (d_ctx d) = 2 \<and> (data = None \<longrightarrow> 0 < cacheSize (d_ctx d))"
  then obtain w inp' where f: "inp = w @ upcoming data inp'" "fetching rd rest good prefixes_ok inp' d" by (auto simp: facing_def)
  have fin: "parsed rd rest good inp (set_nop nop t)" if "inp = v @ r" "v \<noteq> []" "fetching rd rest good prefixes_ok r t" for v r t
    using that by (intro parsed_I [of inp v r]) (auto simp: fetching_def set_nop_def intro: holding_upd)
  show "case DI_CHECK (if data = None then DI_CHECK Diana_CacheEatOne (\<lambda>_. DI_PROC_END) else DI_PROC_END) (\<lambda>_. DI_DO (set_nop nop) DI_PROC_END) d of
      Ok _ d \<Rightarrow> parsed rd rest good inp d | Err e d \<Rightarrow> e \<noteq> C_UNDEFINED \<and> E d"
  proof (cases data)
    case None
    with A f(2) have pre: "fetching rd rest good prefixes_ok inp' d \<and> 0 < cacheSize (d_ctx d)" by simp
    show ?thesis
    proof (cases "Diana_CacheEatOne d")
      case (Ok b t)
      from runs_OkD [OF EatOne_fetching pre Ok] obtain r where "inp' = b # r" "fetching rd rest good prefixes_ok r t" by (metis list.sel(3))
      with fin [of "w @ [b]" r t] f(1) None Ok show ?thesis by (simp add: DI_CHECK_def di_basic_defs upcoming_def)
    next
      case (Err e t)
      from runs_ErrD [OF EatOne_fetching [where E = "\<lambda>_. False"] pre Err] show ?thesis by simp
    qed
  next
    case (Some b)
    with fin [of "w @ [b]" inp' d] f show ?thesis by (simp add: DI_CHECK_def di_basic_defs upcoming_def)
  qed
qed

lemma decode_runs:
  assumes "table_ok root"
  shows "runs (\<lambda>d. facing rd rest good prefixes_ok inp data d \<and> cacheIt (d_ctx d) = 2 \<and> (data = None \<longrightarrow> 0 < cacheSize (d_ctx d)))
     (DI_DO (upd_res (\<lambda>r. r\<lparr>d_pInfo := None\<rparr>)) (parse_opcode root data)) (\<lambda>_. parsed rd rest good inp) (spent rd rest good (length inp))"
proof (rule runsI)
  fix d
  assume A: "facing rd rest good prefixes_ok inp data d \<and> cacheIt (d_ctx d) = 2 \<and> (data = None \<longrightarrow> 0 < cacheSize (d_ctx d))"
  then obtain w inp' where f: "inp = w @ upcoming data inp'" "fetching rd rest good prefixes_ok inp' d" by (auto simp: facing_def)
  let ?d = "upd_res (\<lambda>r. r\<lparr>d_pInfo := None\<rparr>) d"
  have pre: "fetching rd rest good prefixes_ok inp' ?d \<and> cacheIt (d_ctx ?d) = 2"
    using f(2) A by (auto simp: fetching_def intro: holding_upd)
  have more: "spent rd rest good (length (upcoming data inp')) t \<Longrightarrow> spent rd rest good (length inp) t" for t
    using f(1) by (auto simp: spent_def)
  from runs_OkD [OF parse_opcode_runs [OF assms] pre] runs_ErrD [OF parse_opcode_runs [OF assms] pre] parsed_more [OF f(1)] more
  show "case DI_DO (upd_res (\<lambda>r. r\<lparr>d_pInfo := None\<rparr>)) (parse_opcode root data) d of
      Ok _ d \<Rightarrow> parsed rd rest good inp d | Err e d \<Rightarrow> e \<noteq> C_UNDEFINED \<and> spent rd rest good (length inp) d"
    by (cases "parse_opcode root data ?d") (auto simp: DI_DO_def)
qed

lemma ParseCmdEx_runs:
  assumes "table_ok root"
  shows "runs (\<lambda>d. holding rd rest good inp d \<and> 2 \<le> cacheIt (d_ctx d)) (Diana_ParseCmdEx nop root) (\<lambda>_. parsed rd rest good inp) (spent rd rest good (length inp))"
  (is "runs _ _ ?Q ?E")
proof -
  let ?R = "\<lambda>data d. facing rd rest good prefixes_ok inp data d \<and> cacheIt (d_ctx d) = 2 \<and> (data = None \<longrightarrow> 0 < cacheSize (d_ctx d))"
  have op: "runs (?R data) (opcode_byte data) (\<lambda>_. ?R data) ?E" for data
    by (rule opcode_byte_runs) (auto simp: facing_def fetching_def holding_def cache_ok_def)
  have tail: "runs (facing rd rest good loop_prefixes inp (Some b)) (DI_CHECK (parse_rex b) (\<lambda>data.
         DI_CHECK (fill_before_opcode data) (\<lambda>_.
         DI_CHECK (opcode_byte data) (\<lambda>op.
         if data = None \<and> (case op of Some b \<Rightarrow> IsVEXPrefix b \<or> b = 0x62 | None \<Rightarrow> False) then DI_FAIL DI_ERROR
         else
         DI_LET (\<lambda>d. op = Some 0x90 \<and> \<not> list_ex (\<lambda>x. prefix_byte x = 0xF3) (prefixes (d_ctx d)) \<and> iRexPrefixValue (d_ctx d) AND 1 = 0) (\<lambda>isNop.
         if isNop then
           DI_CHECK (if data = None then DI_CHECK Diana_CacheEatOne (\<lambda>_. DI_PROC_END) else DI_PROC_END) (\<lambda>_.
           DI_DO (set_nop nop) DI_PROC_END)
         else
         DI_DO (upd_res (\<lambda>r. r\<lparr>d_pInfo := None\<rparr>))
         (parse_opcode root data)))))) ?Q ?E" for b
    by (intro runs_CHECK [OF parse_rex_runs] runs_CHECK [OF fill_runs] runs_CHECK [OF op] runs_if runs_FAIL runs_LET
        runs_pre [OF nop_runs] runs_pre [OF decode_runs [OF assms]]) (auto intro: facing_spent)
  show ?thesis
    unfolding Diana_ParseCmdEx_def
  proof (rule runs_DO [OF runs_CHECK [OF prefix_loop_runs] reset_fetching])
    fix r
    let ?K = "\<lambda>r :: u8 option. case r of None \<Rightarrow> DI_PROC_END | Some b \<Rightarrow> (DI_CHECK (parse_rex b) (\<lambda>data.
         DI_CHECK (fill_before_opcode data) (\<lambda>_.
         DI_CHECK (opcode_byte data) (\<lambda>op.
         if data = None \<and> (case op of Some b \<Rightarrow> IsVEXPrefix b \<or> b = 0x62 | None \<Rightarrow> False) then DI_FAIL DI_ERROR
         else
         DI_LET (\<lambda>d. op = Some 0x90 \<and> \<not> list_ex (\<lambda>x. prefix_byte x = 0xF3) (prefixes (d_ctx d)) \<and> iRexPrefixValue (d_ctx d) AND 1 = 0) (\<lambda>isNop.
         if isNop then
           DI_CHECK (if data = None then DI_CHECK Diana_CacheEatOne (\<lambda>_. DI_PROC_END) else DI_PROC_END) (\<lambda>_.
           DI_DO (set_nop nop) DI_PROC_END)
         else
         DI_DO (upd_res (\<lambda>r. r\<lparr>d_pInfo := None\<rparr>))
         (parse_opcode root data))))))"
    show "runs (\<lambda>d. case r of None \<Rightarrow> \<exists>w inp'. inp = w @ inp' \<and> w \<noteq> [] \<and> fetching rd rest good loop_prefixes inp' d
        | Some b \<Rightarrow> facing rd rest good loop_prefixes inp (Some b) d) (?K r) ?Q ?E"
    proof (cases r)
      case None
      then show ?thesis by (auto simp: fetching_def intro!: runs_END intro: parsed_I)
    next
      case (Some b)
      then show ?thesis using tail [of b] by simp
    qed
  qed
qed

end

section \<open>The recording stream\<close>

text \<open>What it has delivered of \<open>r0\<close> is counted, and recorded as long as it fits.\<close>

definition recording :: "('s \<Rightarrow> u8 list) \<Rightarrow> ('s \<Rightarrow> bool) \<Rightarrow> u8 list \<Rightarrow> 's DianaProxyReadStream \<Rightarrow> bool" where
  "recording rest good r0 p \<longleftrightarrow> good (m_pOriginalStream p) \<and>
     (\<exists>w. r0 = w @ rest (m_pOriginalStream p) \<and> m_iReadSize p = int (length w) \<and> (length w < DI_PROXY_BYTES_SIZE \<longrightarrow> m_lastBytes p = w))"

abbreviation proxy_rest :: "('s \<Rightarrow> u8 list) \<Rightarrow> 's DianaProxyReadStream \<Rightarrow> u8 list" where
  "proxy_rest rest p \<equiv> rest (m_pOriginalStream p)"

text \<open>
  A decoded instruction: the decoder holds the bytes behind it, the size and the bytes are those of the instruction, at most fifteen; without a legacy prefix the bytes
  and the rest are the whole input.
\<close>

definition instruction_read :: "'s DianaRead_fnc \<Rightarrow> ('s \<Rightarrow> u8 list) \<Rightarrow> ('s \<Rightarrow> bool) \<Rightarrow> u8 list \<Rightarrow> 's Decoder \<Rightarrow> bool" where
  "instruction_read rd rest good inp d \<longleftrightarrow>
     (\<exists>inp'. holding rd rest good inp' d \<and> 2 \<le> cacheIt (d_ctx d) \<and>
        d_iFullCmdSize (d_res d) = int (length inp) - int (length inp') \<and> 1 \<le> d_iFullCmdSize (d_res d) \<and> d_iFullCmdSize (d_res d) \<le> 15 \<and>
        d_bytes (d_res d) = take (nat (d_iFullCmdSize (d_res d))) inp \<and> (lossless (prefixes (d_ctx d)) \<longrightarrow> inp = d_bytes (d_res d) @ inp'))"

context code_stream
begin

lemma recording_stream: "code_stream (ProxyDianaReadFnc rd) (proxy_rest rest) (recording rest good r0)"
proof
  fix p p' :: "'s DianaProxyReadStream" and n bs
  assume p: "recording rest good r0 p" and n: "0 \<le> n" and run: "ProxyDianaReadFnc rd n p = Ok bs p'"
  then obtain w where w: "r0 = w @ proxy_rest rest p" "m_iReadSize p = int (length w)" "length w < 32 \<longrightarrow> m_lastBytes p = w" "good (m_pOriginalStream p)"
    by (auto simp: recording_def)
  obtain s where s: "rd n (m_pOriginalStream p) = Ok bs s"
    and p': "p' = (let q = DianaProxyReadStream_AddBytes bs (p\<lparr>m_pOriginalStream := s\<rparr>) in q\<lparr>m_iReadSize := m_iReadSize q + int (length bs)\<rparr>)"
    using run by (auto simp: ProxyDianaReadFnc_def Let_def split: di_res.splits)
  note ok = read_Ok [OF w(4) n s]
  have "m_pOriginalStream p' = s" "m_iReadSize p' = int (length (w @ bs))"
    using w(2) by (simp_all add: p' DianaProxyReadStream_AddBytes_def Let_def)
  moreover have "length (w @ bs) < 32 \<longrightarrow> m_lastBytes p' = w @ bs"
    using w(3) by (auto simp: p' DianaProxyReadStream_AddBytes_def Let_def)
  moreover have "r0 = (w @ bs) @ rest s" using w(1) ok by simp
  ultimately show "recording rest good r0 p' \<and> int (length bs) \<le> n \<and> proxy_rest rest p = bs @ proxy_rest rest p'"
    using ok unfolding recording_def by metis
next
  fix p p' :: "'s DianaProxyReadStream" and n e
  assume p: "recording rest good r0 p" and n: "0 \<le> n" and run: "ProxyDianaReadFnc rd n p = Err e p'"
  then obtain s where s: "rd n (m_pOriginalStream p) = Err e s" "p' = p\<lparr>m_pOriginalStream := s\<rparr>"
    by (auto simp: ProxyDianaReadFnc_def Let_def split: di_res.splits)
  have "good (m_pOriginalStream p)" using p by (simp add: recording_def)
  from read_Err [OF this n s(1)] p s(2) show "recording rest good r0 p' \<and> e \<noteq> C_UNDEFINED \<and> proxy_rest rest p' = proxy_rest rest p"
    by (auto simp: recording_def)
qed

lemma open_proxy_holding:
  assumes "holding rd rest good inp d"
  shows "holding (ProxyDianaReadFnc rd) (proxy_rest rest) (recording rest good (rest (d_stream d))) inp (open_proxy d)"
  using assms by (auto simp: holding_def reads_def open_proxy_def decoder_input_def recording_def)

section \<open>Size and bytes\<close>

lemma copy_bytes_ok:
  assumes "holding rd rest good inp d" "recording rest good (rest (d_stream d)) p" "0 \<le> n" "n \<le> 7"
    "full = cacheSize (d_ctx d) + m_iReadSize p - n" "0 \<le> full" "full \<le> 15"
  shows "copy_bytes (d_ctx d) (m_lastBytes p) full = Some (take (nat full) inp)"
proof -
  let ?c = "d_ctx d"
  have c: "length (cache ?c) = 7" "0 \<le> cacheIt ?c" "0 \<le> cacheSize ?c" "cacheIt ?c + cacheSize ?c \<le> 7" and i: "inp = ahead ?c @ rest (d_stream d)"
    using assms(1) by (auto simp: holding_def cache_ok_def decoder_input_def)
  have len: "length (ahead ?c) = nat (cacheSize ?c)" using assms(1) by (simp add: holding_def)
  obtain w where w: "rest (d_stream d) = w @ proxy_rest rest p" "m_iReadSize p = int (length w)" "length w < 32 \<longrightarrow> m_lastBytes p = w"
    using assms(2) by (auto simp: recording_def)
  show ?thesis
  proof (cases "full \<le> cacheSize ?c")
    case True
    then have "take (nat full) inp = take (nat full) (drop (nat (cacheIt ?c)) (cache ?c))"
      unfolding i using len c by (simp add: ahead_def min_absorb1 nat_mono)
    then show ?thesis using True c assms(6) by (simp add: copy_bytes_def Let_def)
  next
    case False
    let ?k = "full - cacheSize ?c"
    have "length w < 32" "?k \<le> int (length w)" using assms(3-5,7) w(2) c(3) by auto
    then have last: "m_lastBytes p = w" using w(3) by simp
    have "nat full = length (ahead ?c) + nat ?k" using False len c(3) by simp
    moreover have "nat ?k \<le> length w" using \<open>?k \<le> int (length w)\<close> by simp
    ultimately have "take (nat full) inp = ahead ?c @ take (nat ?k) w" unfolding i w(1) by simp
    then show ?thesis using False c last \<open>?k \<le> int (length w)\<close> by (simp add: copy_bytes_def Let_def ahead_def)
  qed
qed

text \<open>The decoder behind the recording stream.\<close>

lemma close_proxy_holding:
  assumes "holding (ProxyDianaReadFnc rd) (proxy_rest rest) (recording rest good r0) inp i" "d_readFnc d = rd"
  shows "holding rd rest good inp (close_proxy d i)"
  using assms by (auto simp: holding_def reads_def close_proxy_def decoder_input_def recording_def)

lemma close_proxy_spent:
  assumes "spent (ProxyDianaReadFnc rd) (proxy_rest rest) (recording rest good r0) n i" "d_readFnc d = rd"
  shows "spent rd rest good n (close_proxy d i)"
  using assms by (auto simp: spent_def reads_def close_proxy_def recording_def)

lemma spent_res: "spent rd rest good n d \<Longrightarrow> spent rd rest good n (upd_res g d)"
  by (simp add: spent_def reads_def)

text \<open>How many bytes are gone.\<close>

lemma full_size:
  assumes "holding rd rest good inp d" "recording rest good (rest (d_stream d)) p"
  shows "cacheSize (d_ctx d) + m_iReadSize p - n = int (length inp) - (n + int (length (proxy_rest rest p)))"
  using holding_length [OF assms(1)] assms(2) by (auto simp: recording_def)

lemma measure_ok:
  assumes h: "holding rd rest good inp d" and r: "recording rest good (rest (d_stream d)) p" and q: "holding rd rest good inp' q" "2 \<le> cacheIt (d_ctx q)"
    and p: "d_stream q = m_pOriginalStream p" and l: "length inp' < length inp" "lossless (prefixes (d_ctx q)) \<longrightarrow> (\<exists>w. inp = w @ inp')"
  shows "case measure_result (d_ctx d) p (Ok () q) of Ok _ t \<Rightarrow> instruction_read rd rest good inp t | Err x t \<Rightarrow> x \<noteq> C_UNDEFINED \<and> spent rd rest good (length inp) t"
proof -
  let ?full = "cacheSize (d_ctx d) + m_iReadSize p - cacheSize (d_ctx q)"
  have full: "?full = int (length inp) - int (length inp')"
    using full_size [OF h r, of "cacheSize (d_ctx q)"] holding_length [OF q(1)] p by simp
  have n: "0 \<le> cacheSize (d_ctx q)" "cacheSize (d_ctx q) \<le> 7" using q(1) by (auto simp: holding_def cache_ok_def)
  have bound: "spent rd rest good (length inp) (upd_res g q)" for g
    using holding_spent [OF q, of "length inp"] l(1) by (intro spent_res) simp
  show ?thesis
  proof (cases "?full > 15")
    case True
    then show ?thesis using bound by (simp add: measure_result_def Let_def)
  next
    case False
    let ?bs = "take (nat ?full) inp"
    let ?t = "upd_res (\<lambda>r. r\<lparr>d_bytes := ?bs\<rparr>) (upd_res (\<lambda>r. r\<lparr>d_iFullCmdSize := ?full\<rparr>) q)"
    have "copy_bytes (d_ctx d) (m_lastBytes p) ?full = Some ?bs"
      using False full l(1) n by (intro copy_bytes_ok [OF h r n refl]) auto
    then have run: "measure_result (d_ctx d) p (Ok () q) = Ok () ?t" using False by (simp add: measure_result_def Let_def)
    have "inp = ?bs @ inp'" if ll: "lossless (prefixes (d_ctx q))"
    proof -
      obtain w where w: "inp = w @ inp'" using l(2) ll by blast
      then have "nat ?full = length w" unfolding full by simp
      with w show ?thesis by simp
    qed
    then have "instruction_read rd rest good inp ?t"
      unfolding instruction_read_def using q full False l(1)
      by (intro exI [of _ inp']) (simp add: holding_upd)
    then show ?thesis unfolding run by simp
  qed
qed

lemma measure_failed:
  assumes h: "holding rd rest good inp d" and r: "recording rest good (rest (d_stream d)) p" and q: "spent rd rest good (length inp) q"
    and p: "d_stream q = m_pOriginalStream p" and x: "x \<noteq> C_UNDEFINED"
  shows "case measure_result (d_ctx d) p (Err x q) of Ok _ t \<Rightarrow> False | Err y t \<Rightarrow> y \<noteq> C_UNDEFINED \<and> spent rd rest good (length inp) t"
proof -
  let ?full = "cacheSize (d_ctx d) + m_iReadSize p - cacheSize (d_ctx q)"
  have full: "?full = int (length inp) - (cacheSize (d_ctx q) + int (length (rest (d_stream q))))"
    using full_size [OF h r, of "cacheSize (d_ctx q)"] p by simp
  have n: "0 \<le> cacheSize (d_ctx q)" "cacheSize (d_ctx q) \<le> 7" "0 \<le> ?full" using q full by (auto simp: spent_def)
  have "copy_bytes (d_ctx d) (m_lastBytes p) ?full = Some (take (nat ?full) inp)" if "?full \<le> 15"
    by (rule copy_bytes_ok [OF h r n(1,2) refl n(3) that])
  then show ?thesis using x q by (auto simp: measure_result_def Let_def spent_res)
qed

text \<open>The whole parse.\<close>

lemma parse_x86_ok:
  assumes root: "table_ok root" and h: "holding rd rest good inp d" and i: "2 \<le> cacheIt (d_ctx d)"
  shows "case parse_x86 nop root d of Ok _ t \<Rightarrow> instruction_read rd rest good inp t | Err x t \<Rightarrow> x \<noteq> C_UNDEFINED \<and> spent rd rest good (length inp) t"
proof -
  let ?rec = "recording rest good (rest (d_stream d))"
  note run = code_stream.ParseCmdEx_runs [OF recording_stream root]
  have pre: "holding (ProxyDianaReadFnc rd) (proxy_rest rest) ?rec inp (open_proxy d) \<and> 2 \<le> cacheIt (d_ctx (open_proxy d))"
    using open_proxy_holding [OF h] i by (simp add: open_proxy_def)
  have fn: "d_readFnc d = rd" using h by (simp add: holding_def reads_def)
  show ?thesis
  proof (cases "Diana_ParseCmdEx nop root (open_proxy d)")
    case (Err x t)
    from runs_ErrD [OF run pre Err] have x: "x \<noteq> C_UNDEFINED" and t: "spent (ProxyDianaReadFnc rd) (proxy_rest rest) ?rec (length inp) t" by simp_all
    have "?rec (d_stream t)" using t by (simp add: spent_def reads_def)
    from measure_failed [OF h this close_proxy_spent [OF t fn] _ x] have "case measure_result (d_ctx d) (d_stream t) (Err x (close_proxy d t)) of
        Ok _ t \<Rightarrow> False | Err y t \<Rightarrow> y \<noteq> C_UNDEFINED \<and> spent rd rest good (length inp) t" by (simp add: close_proxy_def)
    then show ?thesis using Err x by (auto simp: parse_x86_def split: di_res.splits)
  next
    case (Ok u t)
    from runs_OkD [OF run pre Ok] obtain inp' where t: "length inp' < length inp" "holding (ProxyDianaReadFnc rd) (proxy_rest rest) ?rec inp' t"
        "lossless (prefixes (d_ctx t)) \<longrightarrow> (\<exists>w. inp = w @ inp')" "2 \<le> cacheIt (d_ctx t)" by (auto simp: parsed_def)
    let ?q = "upd_res fix_cmpxchg16b (close_proxy d t)"
    have q: "holding rd rest good inp' (upd_res g ?q)" "d_ctx ?q = d_ctx t" for g
      using close_proxy_holding [OF t(2) fn] by (auto simp: close_proxy_def intro!: holding_upd)
    have r: "?rec (d_stream t)" using t(2) by (simp add: holding_def reads_def)
    show ?thesis
    proof (cases "check_result (d_ctx ?q) (d_res ?q)")
      case None
      have "holding rd rest good inp' ?q" using q(1) [of "\<lambda>r. r"] by (simp add: upd_res_def)
      with t None have "spent rd rest good (length inp) ?q" by (intro holding_spent [of _ _ _ inp']) (simp_all add: close_proxy_def)
      then show ?thesis using Ok None by (simp add: parse_x86_def Let_def)
    next
      case (Some res)
      have "case measure_result (d_ctx d) (d_stream t) (Ok () (upd_res (\<lambda>_. res) ?q)) of Ok _ t \<Rightarrow> instruction_read rd rest good inp t
          | Err x t \<Rightarrow> x \<noteq> C_UNDEFINED \<and> spent rd rest good (length inp) t"
        by (rule measure_ok [OF h r q(1)]) (use t q(2) in \<open>simp_all add: close_proxy_def\<close>)
      then show ?thesis using Ok Some by (simp add: parse_x86_def Let_def)
    qed
  qed
qed

end

section \<open>The stream over a buffer\<close>

text \<open>A buffer of less than 2 GiB whose size is right, read from inside.\<close>

definition ms_ok :: "DianaMemoryStream \<Rightarrow> bool" where
  "ms_ok s \<longleftrightarrow> uint (ms_bufferSize s) = int (length (ms_pBuffer s)) \<and> ms_bufferSize s < 0x80000000 \<and> ms_curSize s \<le> ms_bufferSize s"

definition ms_rest :: "DianaMemoryStream \<Rightarrow> u8 list" where
  "ms_rest s = drop (unat (ms_curSize s)) (ms_pBuffer s)"

lemma cast_int_small: "n < 0x80000000 \<Longrightarrow> cast_int n = uint n"
proof -
  assume "n < 0x80000000"
  then have n: "uint n < 2 ^ 31" by (simp add: word_less_def)
  have "cast_int n = signed_take_bit 31 (uint n)" by (simp add: cast_int_def sint_uint unsigned_ucast_eq signed_take_bit_take_bit)
  also have "\<dots> = uint n" using n by (intro signed_take_bit_int_eq_self) (auto intro: order_trans [of _ 0])
  finally show ?thesis .
qed

lemma ms_read:
  assumes "ms_ok s" "0 \<le> n"
  shows "\<exists>bs s'. MemoryStream_Read n s = Ok bs s' \<and> ms_ok s' \<and> int (length bs) \<le> n \<and> ms_rest s = bs @ ms_rest s' \<and>
    s' = s\<lparr>ms_curSize := ms_curSize s + of_nat (length bs)\<rparr>"
proof -
  let ?c = "ms_curSize s" and ?z = "ms_bufferSize s"
  have c: "uint ?c \<le> uint ?z" "uint ?z < 2 ^ 31" "uint ?z = int (length (ms_pBuffer s))"
    using assms(1) by (auto simp: ms_ok_def word_le_def word_less_def)
  have avail: "uint (?z - ?c) = uint ?z - uint ?c" using c(1) by (simp add: uint_sub_if')
  have "uint ?z - uint ?c < 2 ^ 31" using c(2) uint_ge_0 [of ?c] by linarith
  then have "?z - ?c < 0x80000000" using avail by (simp add: word_less_def)
  then have cast: "cast_int (?z - ?c) = uint ?z - uint ?c" using avail by (simp add: cast_int_small)
  define g where "g = min (uint ?z - uint ?c) n"
  let ?bs = "take (nat g) (drop (unat ?c) (ms_pBuffer s))"
  have u: "uint ?c = int (unat ?c)" by simp
  have g: "0 \<le> g" "g \<le> n" "int (unat ?c) + g \<le> int (length (ms_pBuffer s))" using c assms(2) unfolding g_def u [symmetric] by linarith+
  then have "nat g \<le> length (ms_pBuffer s) - unat ?c" by linarith
  then have len: "int (length ?bs) = g" using g(1) by simp
  let ?s = "s\<lparr>ms_curSize := ?c + of_nat (length ?bs)\<rparr>"
  have word: "word_of_int g = (of_nat (length ?bs) :: u64)" using arg_cong [OF len, of "word_of_int :: int \<Rightarrow> u64"] by (simp only: of_int_of_nat_eq)
  have run: "MemoryStream_Read n s = Ok ?bs ?s"
    using g word by (simp add: MemoryStream_Read_def ms_bytes_def DI_CHECK_def di_basic_defs Let_def cast g_def [symmetric])
  have new: "unat (?c + of_nat (length ?bs)) = unat ?c + length ?bs"
  proof -
    have "int (unat ?c + length ?bs) < 2 ^ 31" unfolding of_nat_add len using g(3) c(2,3) by linarith
    then have "unat ?c + length ?bs < 2 ^ 31" by (simp only: of_nat_less_numeral_power_cancel_iff)
    then have "unat ?c + length ?bs < 2 ^ 64" by (rule less_trans) simp
    then show ?thesis by (simp add: unat_word_ariths unat_of_nat take_bit_eq_mod)
  qed
  have "int (unat (?c + of_nat (length ?bs))) \<le> uint ?z" unfolding new using g(3) len c(3) by linarith
  then have "ms_ok ?s"
    using assms(1) by (simp add: ms_ok_def word_le_def)
  moreover have "ms_rest s = ?bs @ ms_rest ?s"
  proof -
    have n: "length ?bs = nat g" using len by linarith
    have "ms_rest ?s = drop (nat g) (drop (unat ?c) (ms_pBuffer s))"
      unfolding ms_rest_def n using new [unfolded n] by (simp add: add.commute)
    then show ?thesis unfolding ms_rest_def [of s] by (simp only: append_take_drop_id)
  qed
  ultimately show ?thesis using run len g(2) by (intro exI conjI) (assumption, assumption, simp, assumption, rule refl)
qed

definition ms_over :: "u8 list \<Rightarrow> DianaMemoryStream \<Rightarrow> bool" where
  "ms_over buf s \<longleftrightarrow> ms_ok s \<and> ms_pBuffer s = buf"

interpretation buffer_code: code_stream MemoryStream_Read ms_rest "ms_over buf" for buf
proof
  show "ms_over buf s' \<and> int (length bs) \<le> n \<and> ms_rest s = bs @ ms_rest s'" if "ms_over buf s" "0 \<le> n" "MemoryStream_Read n s = Ok bs s'" for s n bs s'
    using ms_read [of s n] that by (auto simp: ms_over_def)
  show "ms_over buf s' \<and> e \<noteq> C_UNDEFINED \<and> ms_rest s' = ms_rest s" if "ms_over buf s" "0 \<le> n" "MemoryStream_Read n s = Err e s'" for s n e s'
    using ms_read [of s n] that by (auto simp: ms_over_def)
qed

end
