(* ===== verification/Decoder_Mode.thy ===== *)
theory Decoder_Mode
  imports Decoder_Core
begin

unbundle bit_operations_syntax

text \<open>
  The decoder never changes its mode (architecture, default sizes and segment, 64-bit and test mode are the caller's) nor the size of its cache, the address size in use stays 2, 4 or 8, and the caller's stream
  changes only by reads.  The proof follows the text of every routine, with the rules of
  \<open>frame_relation\<close> and the ones collected in \<open>mode_intros\<close>.
\<close>

named_theorems mode_intros

definition decoder_mode :: "DecoderContext \<Rightarrow> int \<times> int \<times> int \<times> DianaUnifiedRegister \<times> int \<times> bool" where
  "decoder_mode c = (iArch c, iMainMode_opsize c, iMainMode_addressSize c, mainMode_sreg c, iAMD64Mode c, testMode c)"

text \<open>With the mode, the size of the cache is kept.\<close>

definition decoder_frame :: "DecoderContext \<Rightarrow> (int \<times> int \<times> int \<times> DianaUnifiedRegister \<times> int \<times> bool) \<times> nat" where
  "decoder_frame c = (decoder_mode c, length (cache c))"

text \<open>
  The address size in use stays one of the three: it is the default until the address size prefix is applied, and then it is applied once.
\<close>

definition sizes_ok :: "DecoderContext \<Rightarrow> bool" where
  "sizes_ok c \<longleftrightarrow> iMainMode_addressSize c \<in> {2, 4, 8} \<and> iCurrentCmd_addressSize c \<in> {2, 4, 8} \<and>
     (iSizePrefixes c AND DIANA_HAS_ADDRESS_SIZE_PREFIX = 0 \<longrightarrow> iCurrentCmd_addressSize c = iMainMode_addressSize c)"

definition kept_ctx :: "DecoderContext \<Rightarrow> DecoderContext \<Rightarrow> bool" where
  "kept_ctx c c' \<longleftrightarrow> decoder_frame c' = decoder_frame c \<and> (sizes_ok c \<longrightarrow> sizes_ok c')"

text \<open>The caller's stream changes only by reads.\<close>

definition read_step :: "'s DianaRead_fnc \<Rightarrow> 's \<Rightarrow> 's \<Rightarrow> bool" where
  "read_step rd s s' \<longleftrightarrow> (\<exists>n. s' = res_state (rd n s))"

definition same_mode :: "'s Decoder \<Rightarrow> 's Decoder \<Rightarrow> bool" where
  "same_mode d d' \<longleftrightarrow> kept_ctx (d_ctx d) (d_ctx d') \<and> d_readFnc d' = d_readFnc d \<and> (read_step (d_readFnc d))\<^sup>*\<^sup>* (d_stream d) (d_stream d')"

interpretation mode: frame_relation same_mode
  by unfold_locales (auto simp: same_mode_def kept_ctx_def)

text \<open>What every read keeps, a sequence of reads keeps.\<close>

lemma reads_invariant:
  assumes "(read_step rd)\<^sup>*\<^sup>* s s'" "\<And>n s. R s (res_state (rd n s))" "\<And>s. R s s" "\<And>s t u. R s t \<Longrightarrow> R t u \<Longrightarrow> R s u"
  shows "R s s'"
  using assms(1)
proof (induction rule: rtranclp_induct)
  case (step t u)
  from step.hyps(2) obtain n where "u = res_state (rd n t)" unfolding read_step_def by blast
  then show ?case using assms(4) [OF step.IH assms(2) [of t n]] by simp
qed (rule assms(3))

lemmas [mode_intros] = mode.keeps_CHECK mode.keeps_DO mode.keeps_LET mode.keeps_RETURN mode.keeps_FAIL mode.keeps_END mode.keeps_if mode.keeps_fun_id
  mode.keeps_fun_if

section \<open>Rules\<close>

lemma keeps_cases [mode_intros]:
  "keeps R a \<Longrightarrow> (\<And>x. keeps R (f x)) \<Longrightarrow> keeps R (case_option a f v)"
  "(\<And>x y. keeps R (g x y)) \<Longrightarrow> keeps R (case_prod g w)"
  "(\<And>x. keeps R (f x)) \<Longrightarrow> (\<And>x. keeps R (h x)) \<Longrightarrow> keeps R (case_sum f h z)"
  by (simp split: option.split, simp split: prod.split, simp split: sum.split)

lemma keeps_result [mode_intros]:
  "keeps_fun same_mode f \<Longrightarrow> keeps same_mode (\<lambda>d. Ok a (f d))" "keeps_fun same_mode f \<Longrightarrow> keeps same_mode (\<lambda>d. Err e (f d))"
  "keeps same_mode m \<Longrightarrow> keeps same_mode n \<Longrightarrow> keeps same_mode (\<lambda>d. if c d then m d else n d)"
  by (simp_all add: keeps_def keeps_fun_def)

lemma keeps_bind [mode_intros]:
  assumes "keeps same_mode m" "\<And>d a. keeps same_mode (k d a)" "\<And>d x. keeps same_mode (h d x)"
  shows "keeps same_mode (\<lambda>d. case m d of Ok a d' \<Rightarrow> k d a d' | Err x d' \<Rightarrow> h d x d')"
  unfolding keeps_def
proof
  fix d
  show "same_mode d (res_state (case m d of Ok a d' \<Rightarrow> k d a d' | Err x d' \<Rightarrow> h d x d'))"
    using assms(1) [unfolded keeps_def, rule_format, of d] assms(2,3) [unfolded keeps_def, rule_format]
    by (cases "m d") (simp_all, (metis mode.R_trans)+)
qed

lemma kept_ctx_refl [simp]: "kept_ctx c c"
  by (simp add: kept_ctx_def)

lemma upd_ctx_mode [mode_intros]: "(\<And>c. kept_ctx c (f c)) \<Longrightarrow> keeps_fun same_mode (upd_ctx f)"
  by (simp add: keeps_fun_def same_mode_def)

lemma upd_res_mode [mode_intros]: "keeps_fun same_mode (upd_res f)"
  by (simp add: keeps_fun_def same_mode_def)

lemma keeps_fun_choice [mode_intros]: "keeps_fun same_mode f \<Longrightarrow> keeps_fun same_mode g \<Longrightarrow> keeps_fun same_mode (if b then f else g)"
  by simp

section \<open>Bytes and prefixes\<close>

lemma mode_updates [simp]:
  "kept_ctx c (c'\<lparr>cacheIt := x0\<rparr>) = kept_ctx c c'"
  "kept_ctx c (c'\<lparr>cacheSize := x1\<rparr>) = kept_ctx c c'"
  "kept_ctx c (c'\<lparr>iRexPrefix := x2\<rparr>) = kept_ctx c c'"
  "kept_ctx c (c'\<lparr>iRexPrefixValue := x3\<rparr>) = kept_ctx c c'"
  "kept_ctx c (c'\<lparr>iCurrentCmd_opsize := x4\<rparr>) = kept_ctx c c'"
  "kept_ctx c (c'\<lparr>currentCmd_sreg := x5\<rparr>) = kept_ctx c c'"
  "kept_ctx c (c'\<lparr>ctx_iPrefix := x6\<rparr>) = kept_ctx c c'"
  "kept_ctx c (c'\<lparr>prefixes := x7\<rparr>) = kept_ctx c c'"
  "kept_ctx c (c'\<lparr>lastPrefixBeforeRex := x8\<rparr>) = kept_ctx c c'"
  "kept_ctx c (c'\<lparr>iVexPrefix := x9\<rparr>) = kept_ctx c c'"
  "kept_ctx c (c'\<lparr>iVexVVVV := x10\<rparr>) = kept_ctx c c'"
  "kept_ctx c (c'\<lparr>iEvexPrefix := x11\<rparr>) = kept_ctx c c'"
  "kept_ctx c (c'\<lparr>iEvexAAA := x12\<rparr>) = kept_ctx c c'"
  "kept_ctx c (c'\<lparr>iEvexLL := x13\<rparr>) = kept_ctx c c'"
  by (simp_all add: kept_ctx_def decoder_frame_def decoder_mode_def sizes_ok_def)

lemma size_updates [simp]:
  "iSizePrefixes c' AND 1 = b AND 1 \<Longrightarrow> kept_ctx c (c'\<lparr>iSizePrefixes := b\<rparr>) = kept_ctx c c'"
  by (simp add: kept_ctx_def decoder_frame_def decoder_mode_def sizes_ok_def)

lemma size_flags: "(x OR 2) AND 1 = (x :: u8) AND 1" "(x OR 4) AND 1 = x AND 1" "(x OR 1) AND 1 = (1 :: u8)"
  by (auto intro!: bit_word_eqI simp: bit_simps)

lemma kept_AddrSize: "kept_ctx c c' \<Longrightarrow> kept_ctx c (Diana_AddrSize c')"
  by (auto simp: kept_ctx_def decoder_frame_def decoder_mode_def sizes_ok_def Diana_AddrSize_def Let_def size_flags)

lemma prefix_modes [simp]:
  "kept_ctx c c' \<Longrightarrow> kept_ctx c (Diana_Normal c')"
  "kept_ctx c c' \<Longrightarrow> kept_ctx c (Diana_Rex c')"
  "kept_ctx c c' \<Longrightarrow> kept_ctx c (weak_segment s c')"
  "kept_ctx c c' \<Longrightarrow> kept_ctx c (Diana_OpSize c')"
  "kept_ctx c c' \<Longrightarrow> kept_ctx c (Diana_AddrSize c')"
  "kept_ctx c c' \<Longrightarrow> kept_ctx c (drop_prefix v c')"
  "kept_ctx c c' \<Longrightarrow> kept_ctx c (evex_fields p1 p2 c')"
  "kept_ctx c c' \<Longrightarrow> kept_ctx c (evex_registers p0 p1 p2 c')"
  "kept_ctx c c' \<Longrightarrow> kept_ctx c (link_rex e c')"
  "kept_ctx c c' \<Longrightarrow> kept_ctx c (link_opsize e c')"
  by (simp_all add: kept_AddrSize, auto simp: Diana_Rex_def weak_segment_def Diana_OpSize_def drop_prefix_def evex_fields_def evex_registers_def
      link_rex_def link_opsize_def size_flags Let_def split: option.split)
     (simp add: Diana_Normal_def kept_ctx_def decoder_frame_def decoder_mode_def sizes_ok_def)

lemma run_prefix_mode [simp]: "kept_ctx c c' \<Longrightarrow> kept_ctx c (run_prefix f c')"
  by (cases f) (simp_all add: Diana_Lock_def Diana_Rep_def Diana_Repn_def Diana_CS_def Diana_SS_def Diana_DS_def Diana_ES_def Diana_FS_def Diana_GS_def)

lemma apply_from_mode [simp]: "kept_ctx c c' \<Longrightarrow> kept_ctx c (apply_from ex i ps c')"
  by (induction ps arbitrary: i c') simp_all

lemma keeps_read_stream [mode_intros]: "keeps same_mode (read_stream n)"
proof -
  have "read_step (d_readFnc d) (d_stream d) (res_state (d_readFnc d n (d_stream d)))" for d :: "'a Decoder" by (auto simp: read_step_def)
  then have "(read_step (d_readFnc d))\<^sup>*\<^sup>* (d_stream d) (res_state (d_readFnc d n (d_stream d)))" for d :: "'a Decoder" by blast
  then show ?thesis
    unfolding keeps_def read_stream_def same_mode_def by (auto split: di_res.split) (metis res_state.simps)+
qed

lemma keeps_write_cache [mode_intros]: "keeps same_mode (write_cache i bs)"
  by (auto simp: keeps_def write_cache_def same_mode_def kept_ctx_def decoder_frame_def decoder_mode_def sizes_ok_def di_basic_defs)

lemma keeps_cache [mode_intros]:
  "keeps same_mode (read_cache i)" "keeps same_mode (read_to_cache i n)" "keeps same_mode (move_cache i j n)"
  "keeps same_mode Diana_CacheEatOne" "keeps same_mode (cache_bytes i n)"
  unfolding read_cache_def read_to_cache_def move_cache_def Diana_CacheEatOne_def cache_bytes_def
  by (intro mode_intros; simp)+

lemma keeps_read_here [mode_intros]: "keeps same_mode (\<lambda>d. read_to_cache (i d) (n d) d)"
  using keeps_cache(2) unfolding keeps_def by blast

lemma keeps_ReadCache [mode_intros]: "keeps same_mode (Diana_ReadCache b)"
  unfolding Diana_ReadCache_def by (intro mode_intros; simp)

lemma keeps_proxy [mode_intros]:
  "keeps_fun same_mode (\<lambda>d. d\<lparr>proxy_tail_size := i\<rparr>)" "keeps_fun same_mode (\<lambda>d. d\<lparr>proxy_tail_size := i, proxy_begin := j\<rparr>)"
  "keeps_fun same_mode (Diana_InitStreamProxy i j)"
  by (simp_all add: keeps_fun_def same_mode_def Diana_InitStreamProxy_def)

lemma keeps_values [mode_intros]:
  "keeps same_mode (StreamProxy_Read n)" "keeps same_mode (read_exactly e n)" "keeps same_mode (DianaReadValueAsLong n b)"
  unfolding StreamProxy_Read_def read_exactly_def DianaReadValueAsLong_def Let_def by (intro mode_intros; simp)+

lemma keeps_prefixes [mode_intros]:
  "keeps same_mode (Di_ProcessRexPrefix v)" "keeps same_mode (Diana_InsertPrefix v f r)" "keeps_fun same_mode (set_cacheSize n)"
  unfolding Di_ProcessRexPrefix_def Diana_InsertPrefix_def set_cacheSize_def
  by (simp add: keeps_def same_mode_def, (intro mode_intros; simp)+)

lemma keeps_fill_cache [mode_intros]: "keeps same_mode (fill_cache k want limit it sz)"
  by (induction k arbitrary: sz) (auto intro!: mode_intros)

lemma keeps_virtual_prefix [mode_intros]: "keeps same_mode (virtual_prefix b s it sz)"
  unfolding virtual_prefix_def by (intro mode_intros; simp)

lemma keeps_vex [mode_intros]:
  "keeps same_mode (finish_vex r x b w vb m it sz)" "keeps same_mode Di_ProcessVexPrefix2" "keeps same_mode Di_ProcessVexPrefix3" "keeps same_mode (Di_ProcessVexPrefix v)"
  "keeps same_mode (evex_path_LL LL it sz p2)" "keeps same_mode Di_ProcessEvexPrefix"
  unfolding finish_vex_def Di_ProcessVexPrefix2_def Di_ProcessVexPrefix3_def Di_ProcessVexPrefix_def evex_path_LL_def Di_ProcessEvexPrefix_def Let_def
  by (intro mode_intros; simp)+

section \<open>Operands\<close>

lemma keeps_forms [mode_intros]:
  "keeps same_mode (dec_option x)" "keeps same_mode (Diana_DispatchMod3 ty rm n r)" "keeps same_mode (Diana_ReadIndexStructure16 ty n b)"
  "keeps same_mode (sib_base md bs disp)" "keeps same_mode (sib_index v z ss ix)" "keeps same_mode (Diana_ReadIndexStructure32 info n b)"
  unfolding dec_option_def Diana_DispatchMod3_def Diana_ReadIndexStructure16_def sib_base_def sib_index_def Diana_ReadIndexStructure32_def Let_def
  by (intro mode_intros; simp)+

lemma keeps_link_form [mode_intros]: "keeps same_mode (link_form info a n l)"
  unfolding link_form_def Let_def by (intro mode_intros; simp)

lemma keeps_operand_value [mode_intros]:
  "keeps R c1 \<Longrightarrow> (\<And>r. keeps R (c2 r)) \<Longrightarrow> (\<And>ix. keeps R (c3 ix)) \<Longrightarrow> (\<And>v. keeps R (c4 v)) \<Longrightarrow> (\<And>v. keeps R (c5 v)) \<Longrightarrow>
   (\<And>v. keeps R (c6 v)) \<Longrightarrow> (\<And>ix. keeps R (c7 ix)) \<Longrightarrow> keeps R c8 \<Longrightarrow> (\<And>k. keeps R (c9 k)) \<Longrightarrow>
   keeps R (case_DianaOperandValue c1 c2 c3 c4 c5 c6 c7 c8 c9 v)"
  by (simp split: DianaOperandValue.split)

lemma keeps_link_parts [mode_intros]:
  "keeps same_mode (link_opcode e)" "keeps same_mode (link_value p l v)" "keeps same_mode (link_register p l r)" "keeps same_mode (link_registry e p l)"
  "keeps same_mode (evex_memory e p l)" "keeps same_mode (link_regmem e i p l)" "keeps same_mode (link_imm i p l)" "keeps same_mode (link_sreg p l)"
  "keeps same_mode (link_ptr e p l)" "keeps same_mode (link_rel e p l)" "keeps same_mode (link_memory i p l)" "keeps same_mode (vector_code e i ty b l)"
  "keeps same_mode (link_vector e i p l)"
  unfolding link_opcode_def link_value_def link_register_def link_registry_def evex_memory_def link_regmem_def link_imm_def link_sreg_def link_ptr_def link_rel_def
    link_memory_def vector_code_def link_vector_def Let_def
  by (intro mode_intros; simp)+

lemma keeps_link_operand [mode_intros]: "keeps same_mode (link_operand e i p l)"
  unfolding link_operand_def Let_def by (intro mode.keeps_LET, cases "m_type (op_info p)"; simp only: DianaOperands_type.case; intro mode_intros)

lemma keeps_link_loop [mode_intros]: "keeps same_mode (link_loop e i infos l)"
  by (induction infos arbitrary: i l) (auto intro!: mode_intros)

lemma keeps_link_ends [mode_intros]:
  "keeps_fun same_mode (upd_operand i f)" "keeps_fun same_mode (record_scale l)" "keeps_fun same_mode (link_is4 l)"
  by (auto simp: keeps_fun_def same_mode_def upd_operand_def record_scale_def link_is4_def Let_def split: option.split)

lemma keeps_read_parts [mode_intros]: "keeps same_mode (read_disp l i)" "keeps same_mode (read_imm e n i j)"
  unfolding read_disp_def read_imm_def Let_def by (intro mode_intros; simp)+

lemma keeps_link_disp [mode_intros]: "keeps same_mode (link_disp l)"
  unfolding link_disp_def by (cases "l_pLinkedDispOp l"; simp only: option.case; intro mode_intros)

lemma keeps_two_reads:
  assumes "keeps same_mode m" "\<And>i. keeps same_mode (n i)"
  shows "keeps same_mode (\<lambda>d. let offset = k d; first = m d in case first of Err C_UNDEFINED d \<Rightarrow> Err C_UNDEFINED d | _ \<Rightarrow> n offset (res_state first))"
  unfolding keeps_def Let_def
proof
  fix d
  have m: "same_mode d (res_state (m d))" "same_mode (res_state (m d)) (res_state (n (k d) (res_state (m d))))" using assms by (simp_all add: keeps_def)
  then have "same_mode d (res_state (n (k d) (res_state (m d))))" by (rule mode.R_trans)
  then show "same_mode d (res_state (case m d of Err C_UNDEFINED d \<Rightarrow> Err C_UNDEFINED d | _ \<Rightarrow> n (k d) (res_state (m d))))"
    using m(1) by (auto split: di_res.split di_error.split)
qed

lemma keeps_link_imms [mode_intros]: "keeps same_mode (link_imms e l)"
proof (cases "l_pLinkedImmOp l" rule: remdups_adj.cases)
  case (3 i j js)
  show ?thesis unfolding link_imms_def 3 list.case
    by (rule keeps_two_reads [where n = "\<lambda>offset. DI_CHECK (read_imm e (m_iImmediateOperandSizeInBytes2 e) j offset) (\<lambda>_. DI_PROC_END)"]) (intro mode_intros)+
qed (auto simp: link_imms_def intro!: mode_intros)

lemma keeps_LinkOperands [mode_intros]: "keeps same_mode (Diana_LinkOperands e)"
  unfolding Diana_LinkOperands_def by (intro mode_intros; simp)

section \<open>The parse\<close>

lemma keeps_ParseCmdImpl [mode_intros]: "keeps same_mode (Diana_ParseCmdImpl root)"
  unfolding Diana_ParseCmdImpl_def by (intro mode_intros)

lemma keeps_tail [mode_intros]: "keeps_fun same_mode (take_tail n)"
  by (simp add: keeps_fun_def same_mode_def take_tail_def)

text \<open>A failed try restores what it saved at its start.\<close>

lemma restore_try_mode: "same_mode d d' \<Longrightarrow> same_mode d (restore_try (d_ctx d) n d')"
  by (auto simp: same_mode_def restore_try_def kept_ctx_def decoder_frame_def decoder_mode_def sizes_ok_def)

lemma keeps_try_parts [mode_intros]: "keeps same_mode (try_setup b i k)" "keeps same_mode (try_link k f i e)" "keeps same_mode (\<lambda>d. try_link k f i (g d) d)"
proof -
  show "keeps same_mode (try_setup b i k)" unfolding try_setup_def Let_def by (intro mode_intros; simp)
  show linked: "keeps same_mode (try_link k f i e)" for e unfolding try_link_def by (intro mode_intros; simp add: ApplyPrefixes_def)
  show "keeps same_mode (\<lambda>d. try_link k f i (g d) d)" using linked unfolding keeps_def by blast
qed

text \<open>A routine that looks at the error.\<close>

lemma keeps_errors [mode_intros]:
  "keeps R c0 \<Longrightarrow> keeps R c1 \<Longrightarrow> keeps R c2 \<Longrightarrow> keeps R c3 \<Longrightarrow> keeps R c4 \<Longrightarrow> keeps
   R c5 \<Longrightarrow> keeps R c6 \<Longrightarrow> keeps R c7 \<Longrightarrow> keeps R c8 \<Longrightarrow> keeps R c9 \<Longrightarrow> keeps R c10
   \<Longrightarrow> keeps R c11 \<Longrightarrow> keeps R c12 \<Longrightarrow> keeps R c13 \<Longrightarrow> keeps R c14 \<Longrightarrow> keeps R c15
   \<Longrightarrow> keeps R c16 \<Longrightarrow> keeps R c17 \<Longrightarrow> keeps R c18 \<Longrightarrow> keeps R c19 \<Longrightarrow>
   keeps R (\<lambda>d. case x of DI_END \<Rightarrow> c0 d | DI_ERROR \<Rightarrow> c1 d | DI_OUT_OF_MEMORY \<Rightarrow> c2 d | DI_DIVISION_BY_ZERO \<Rightarrow> c3 d |
     DI_UNSUPPORTED_COMMAND \<Rightarrow> c4 d | DI_DIVISION_OVERFLOW \<Rightarrow> c5 d | DI_INVALID_CONFIGURATION \<Rightarrow> c6 d | DI_WIN32_ERROR
     \<Rightarrow> c7 d | DI_ERROR_NOT_USED_BY_CORE \<Rightarrow> c8 d | DI_INVALID_INPUT \<Rightarrow> c9 d | DI_INVALID_OPCODE \<Rightarrow> c10 d |
     DI_END_OF_STREAM \<Rightarrow> c11 d | DI_GP \<Rightarrow> c12 d | DI_INTERRUPT \<Rightarrow> c13 d | DI_PARTIAL_READ_WRITE \<Rightarrow> c14 d |
     DI_ERROR_NOT_IMPLEMENTED \<Rightarrow> c15 d | DI_OVERFLOW \<Rightarrow> c16 d | DI_NOT_FOUND \<Rightarrow> c17 d | DI_UNSUPPORTED \<Rightarrow> c18 d
     | C_UNDEFINED \<Rightarrow> c19 d)"
  by (cases x) simp_all

lemma keeps_try_rest:
  "keeps same_mode (\<lambda>d. case try_link current old newIt (the (d_pInfo (d_res d))) d of
     Ok u d \<Rightarrow> Ok () d | Err C_UNDEFINED d \<Rightarrow> Err C_UNDEFINED d | Err x d' \<Rightarrow> Err x (restore_try (d_ctx d) orig d'))"
  unfolding keeps_def
proof
  fix d
  have "same_mode d (res_state (try_link current old newIt (the (d_pInfo (d_res d))) d))" using keeps_try_parts(2) unfolding keeps_def by blast
  then show "same_mode d (res_state (case try_link current old newIt (the (d_pInfo (d_res d))) d of
     Ok u d \<Rightarrow> Ok () d | Err C_UNDEFINED d \<Rightarrow> Err C_UNDEFINED d | Err x d' \<Rightarrow> Err x (restore_try (d_ctx d) orig d')))"
    using restore_try_mode [of d] by (auto split: di_res.split di_error.split)
qed

lemma keeps_TryMatch [mode_intros]: "keeps same_mode (TryMatch root data orig current)"
  unfolding TryMatch_def by (intro keeps_try_rest mode_intros; simp)

lemma keeps_CheckEvex [mode_intros]: "keeps same_mode (Di_CheckEvex e)"
  unfolding Di_CheckEvex_def by (intro mode_intros; simp)

lemma keeps_parse_virtual: "(\<And>e. keeps same_mode (check e)) \<Longrightarrow> keeps same_mode (parse_virtual root enc check)"
  unfolding parse_virtual_def by (intro mode_intros; simp add: ApplyPrefixes_def)

lemma keeps_parse_vex [mode_intros]: "keeps same_mode (Di_ParseEvexCmd root)" "keeps same_mode (parse_vex root)"
  unfolding Di_ParseEvexCmd_def parse_vex_def by (intro keeps_parse_virtual mode_intros)+

lemma keeps_reset [mode_intros]:
  "keeps_fun same_mode reset_decoder" "keeps_fun same_mode (set_nop nop)" "keeps_fun same_mode (upd_res f \<circ> set_nop nop)"
  by (simp_all add: keeps_fun_def same_mode_def reset_decoder_def set_nop_def Diana_ResetPrefixes_def)

lemma keeps_peek [mode_intros]: "keeps same_mode (\<lambda>d. DI_CHECK (read_cache (i d)) (\<lambda>b. DI_RETURN (f b)) d)"
proof -
  have "keeps same_mode (DI_CHECK (read_cache i) (\<lambda>b. DI_RETURN (f b)))" for i by (intro mode_intros)
  then show ?thesis unfolding keeps_def by blast
qed

lemma keeps_rex_dropped [mode_intros]: "keeps same_mode (rex_dropped b)"
  unfolding rex_dropped_def by (intro mode_intros)

lemma keeps_prefix_loop [mode_intros]: "keeps same_mode (prefix_loop nop k first flags)"
  by (induction k arbitrary: first flags) (auto intro!: mode_intros split: prod.split option.split)

lemma keeps_parse_parts [mode_intros]:
  "keeps same_mode (parse_rex b)" "keeps same_mode (fill_before_opcode x)" "keeps same_mode (opcode_byte x)"
  unfolding parse_rex_def fill_before_opcode_def opcode_byte_def by (intro mode_intros)+

lemma keeps_try_all [mode_intros]: "keeps same_mode (try_all root x n ks)"
  by (induction ks) (auto intro!: mode_intros)

lemma keeps_parse_opcode [mode_intros]: "keeps same_mode (parse_legacy root x n)" "keeps same_mode (parse_opcode root x)"
  unfolding parse_legacy_def parse_opcode_def by (intro mode_intros)+

lemma keeps_ParseCmdEx: "keeps same_mode (Diana_ParseCmdEx nop root)"
  unfolding Diana_ParseCmdEx_def by (intro mode_intros)

text \<open>The recording stream of the whole parse does not touch the context, and neither do the checks of the result.\<close>

lemma measure_result_ctx: "d_ctx (res_state (measure_result old p res)) = d_ctx (res_state res)"
  by (auto simp: measure_result_def Let_def split: option.split di_res.split)

lemma measure_result_stream: "d_stream (res_state (measure_result old p res)) = d_stream (res_state res)"
  by (auto simp: measure_result_def Let_def split: option.split di_res.split)

lemma proxy_reads:
  assumes "(read_step (ProxyDianaReadFnc rd))\<^sup>*\<^sup>* p p'"
  shows "(read_step rd)\<^sup>*\<^sup>* (m_pOriginalStream p) (m_pOriginalStream p')"
proof (rule reads_invariant [OF assms])
  fix n and p :: "'a DianaProxyReadStream"
  have "m_pOriginalStream (res_state (ProxyDianaReadFnc rd n p)) = res_state (rd n (m_pOriginalStream p))"
    by (auto simp: ProxyDianaReadFnc_def DianaProxyReadStream_AddBytes_def Let_def split: di_res.split)
  then show "(read_step rd)\<^sup>*\<^sup>* (m_pOriginalStream p) (m_pOriginalStream (res_state (ProxyDianaReadFnc rd n p)))"
    by (metis r_into_rtranclp read_step_def)
qed (auto intro: rtranclp_trans)

lemma parse_x86_mode:
  "kept_ctx (d_ctx d) (d_ctx (res_state (parse_x86 nop root d)))"
  "(read_step (d_readFnc d))\<^sup>*\<^sup>* (d_stream d) (d_stream (res_state (parse_x86 nop root d)))"
proof -
  let ?i = "res_state (Diana_ParseCmdEx nop root (open_proxy d))"
  have i: "same_mode (open_proxy d) ?i" using keeps_ParseCmdEx unfolding keeps_def by blast
  then show "kept_ctx (d_ctx d) (d_ctx (res_state (parse_x86 nop root d)))"
    by (auto simp: parse_x86_def same_mode_def open_proxy_def close_proxy_def measure_result_ctx Let_def split: di_res.split option.split)
  have "(read_step (d_readFnc d))\<^sup>*\<^sup>* (d_stream d) (m_pOriginalStream (d_stream ?i))"
    using i proxy_reads [of "d_readFnc d" "d_stream (open_proxy d)" "d_stream ?i"] by (simp add: same_mode_def open_proxy_def)
  then show "(read_step (d_readFnc d))\<^sup>*\<^sup>* (d_stream d) (d_stream (res_state (parse_x86 nop root d)))"
    by (auto simp: parse_x86_def close_proxy_def measure_result_stream Let_def split: di_res.split option.split)
qed

lemma parse_x86_frame:
  "decoder_mode (d_ctx (res_state (parse_x86 nop root d))) = decoder_mode (d_ctx d)"
  "length (cache (d_ctx (res_state (parse_x86 nop root d)))) = length (cache (d_ctx d))"
  "sizes_ok (d_ctx d) \<Longrightarrow> sizes_ok (d_ctx (res_state (parse_x86 nop root d)))"
  using parse_x86_mode(1) [of d nop root] by (simp_all add: kept_ctx_def decoder_frame_def)

end
