(* ===== verification/Sample_Table.thy ===== *)
theory Sample_Table
  imports Decoder_Table
begin

unbundle bit_operations_syntax

text \<open>
  A small well-formed table, on which the theorems about the decoder are applied to concrete bytes.
\<close>

section \<open>Four instructions\<close>

definition sample_line :: "DianaCommandId \<Rightarrow> u32 \<Rightarrow> DianaCmdEntry" where
  "sample_line cmd fl = \<lparr>m_cmd_flags = fl, m_commandId = cmd, m_gen_flags = 0, m_extension = 0, m_extension_mask = 0,
     m_extension_deny_mask = 0, m_iCSIPExtensionSizeInBytes = 0xFF, m_iImmediateOperandSizeInBytes = 0xFF, m_iImmediateOperandSizeInBytes2 = 0xFF,
     m_linkedPrefixFnc = fnc_Normal, m_operands = [], m_evex = 0\<rparr>"

text \<open>ret is the byte C3, clc the byte F8, cpuid the bytes 0F A2, and a VEX instruction without operands is C5, vvvv and pp, 77.\<close>

definition sample_root :: DianaGenObject where
  "sample_root = GenIndex 0 (\<lambda>b.
     if b = 0xC3 then Some (GenCmd (sample_line ''ret'' 0))
     else if b = 0xF8 then Some (GenCmd (sample_line ''clc'' 0))
     else if b = 0x0F then Some (GenLine 0 [(0xA2, Some (GenCmd (sample_line ''cpuid'' 0)))])
     else if b = 0xC5 then Some (GenLine 0 [(0, Some (GenLine 0 [(0x77, Some (GenCmd (sample_line ''vzeroupper'' DI_FLAG_CMD_VEX_ENCODED)))]))])
     else None)"

lemma sample_root_ok: "table_ok sample_root"
  by (auto simp: table_ok_def sample_root_def keys_fit_def opt_all_def entry_ok_def sample_line_def same_opcode_def next_byte_def virtual_entry_def entry_flag_def
      is_legacy_prefix_def Di_ProcessCustomPrefix_def split: if_splits)

end
