(* ===== verification/Decoder_Properties.thy ===== *)
theory Decoder_Properties
  imports Decoder_Correct Decoder_Mode Sample_Table
begin

unbundle bit_operations_syntax

text \<open>
  The properties of the decoder on the streams of the library.
\<close>

section \<open>A fresh decoder\<close>

definition sample_decoder :: "u8 list \<Rightarrow> DianaMemoryStream Decoder" where
  "sample_decoder bs = fresh_decoder (Decoder_InitContext 8) zero_decoder_result (Diana_InitMemoryStream bs (of_nat (length bs)))"

section \<open>States of the decoder\<close>

text \<open>A decoder over a buffer that can parse: its cache is well-formed and has room for the bytes before an opcode.\<close>

definition ready :: "u8 list \<Rightarrow> DianaMemoryStream Decoder \<Rightarrow> bool" where
  "ready buf d \<longleftrightarrow> reads MemoryStream_Read (ms_over buf) d \<and> cache_ok (d_ctx d) \<and> 2 \<le> cacheIt (d_ctx d)"

abbreviation unread :: "DianaMemoryStream Decoder \<Rightarrow> u8 list" where
  "unread \<equiv> decoder_input ms_rest"

lemma ready_holding: "ready buf d \<longleftrightarrow> holding MemoryStream_Read ms_rest (ms_over buf) (unread d) d \<and> 2 \<le> cacheIt (d_ctx d)"
  by (auto simp: ready_def holding_def)

lemma InitContext_simps:
  "cacheIt (Decoder_InitContext m) = 2" "cacheSize (Decoder_InitContext m) = 0" "length (cache (Decoder_InitContext m)) = 7" "iArch (Decoder_InitContext m) = 0"
  by (simp_all add: Decoder_InitContext_def Let_def)

lemma uint_length: "length buf < 0x80000000 \<Longrightarrow> uint (of_nat (length buf) :: u64) = int (length buf)"
  unfolding uint_nat by (rule arg_cong [where f = int]) (simp add: unat_of_nat)

lemma fresh_ready:
  assumes "length buf < 0x80000000" "cacheIt c = 2" "cacheSize c = 0" "length (cache c) = 7"
  shows "ready buf (fresh_decoder c r (Diana_InitMemoryStream buf (of_nat (length buf))))"
    "unread (fresh_decoder c r (Diana_InitMemoryStream buf (of_nat (length buf)))) = buf"
proof -
  have "ms_over buf (Diana_InitMemoryStream buf (of_nat (length buf)))"
    using assms(1) by (simp add: ms_over_def ms_ok_def Diana_InitMemoryStream_def Diana_InitMemoryStreamEx2_def word_less_def uint_length)
  then show "ready buf (fresh_decoder c r (Diana_InitMemoryStream buf (of_nat (length buf))))"
    using assms(2-) by (simp add: ready_def reads_def fresh_decoder_def cache_ok_def)
  show "unread (fresh_decoder c r (Diana_InitMemoryStream buf (of_nat (length buf)))) = buf"
    using assms(3) by (simp add: decoder_input_def ahead_def fresh_decoder_def ms_rest_def Diana_InitMemoryStream_def Diana_InitMemoryStreamEx2_def)
qed

lemma ParseCmd_x86: "iArch (d_ctx d) = 0 \<Longrightarrow> Diana_ParseCmd arm nop root d = parse_x86 nop root d"
  by (simp add: Diana_ParseCmd_def DI_LET_def)

lemma ParseCmd_cases:
  assumes "table_ok root" "ready buf d" "iArch (d_ctx d) = 0"
  shows "case Diana_ParseCmd arm nop root d of
      Ok _ t \<Rightarrow> instruction_read MemoryStream_Read ms_rest (ms_over buf) (unread d) t
    | Err x t \<Rightarrow> x \<noteq> C_UNDEFINED \<and> spent MemoryStream_Read ms_rest (ms_over buf) (length (unread d)) t"
  using buffer_code.parse_x86_ok [OF assms(1), of buf "unread d" d nop] assms(2,3) by (simp add: ready_holding ParseCmd_x86)

lemma decoded_buffer:
  assumes "instruction_read MemoryStream_Read ms_rest (ms_over buf) inp t"
  shows "ready buf t" "d_iFullCmdSize (d_res t) = int (length inp) - int (length (unread t))" "1 \<le> d_iFullCmdSize (d_res t)" "d_iFullCmdSize (d_res t) \<le> 15"
    "d_bytes (d_res t) = take (nat (d_iFullCmdSize (d_res t))) inp" "lossless (prefixes (d_ctx t)) \<longrightarrow> inp = d_bytes (d_res t) @ unread t"
proof -
  obtain inp' where h: "holding MemoryStream_Read ms_rest (ms_over buf) inp' t" "2 \<le> cacheIt (d_ctx t)"
    and q: "d_iFullCmdSize (d_res t) = int (length inp) - int (length inp')" "1 \<le> d_iFullCmdSize (d_res t)" "d_iFullCmdSize (d_res t) \<le> 15"
      "d_bytes (d_res t) = take (nat (d_iFullCmdSize (d_res t))) inp" "lossless (prefixes (d_ctx t)) \<longrightarrow> inp = d_bytes (d_res t) @ inp'"
    using assms by (auto simp: instruction_read_def)
  have u: "unread t = inp'" using h(1) by (simp add: holding_def)
  show "ready buf t" using h by (simp add: ready_holding u)
  show "d_iFullCmdSize (d_res t) = int (length inp) - int (length (unread t))" "1 \<le> d_iFullCmdSize (d_res t)" "d_iFullCmdSize (d_res t) \<le> 15"
    "d_bytes (d_res t) = take (nat (d_iFullCmdSize (d_res t))) inp" "lossless (prefixes (d_ctx t)) \<longrightarrow> inp = d_bytes (d_res t) @ unread t"
    using q by (simp_all only: u)
qed

lemma spent_buffer:
  assumes "spent MemoryStream_Read ms_rest (ms_over buf) n t"
  shows "iVexPrefix (d_ctx t) = 0 \<Longrightarrow> ready buf t" "length (unread t) \<le> n"
  using assms by (auto simp: spent_def ready_def decoder_input_def ahead_def)

text \<open>The number of bytes read, when the cache and the stream hold \<open>m\<close> bytes.\<close>

lemma readed:
  assumes "reads MemoryStream_Read (ms_over buf) t" "0 \<le> cacheSize (d_ctx t)" "cacheSize (d_ctx t) + int (length (ms_rest (d_stream t))) = m" "m \<le> int (length buf)"
  shows "uint (ms_curSize (d_stream t) - word_of_int (cacheSize (d_ctx t))) = int (length buf) - m"
proof -
  let ?s = "d_stream t" and ?n = "cacheSize (d_ctx t)"
  have s: "uint (ms_curSize ?s) \<le> int (length buf)" "int (length buf) < 2 ^ 31" "ms_pBuffer ?s = buf"
    using assms(1) by (auto simp: reads_def ms_over_def ms_ok_def word_le_def word_less_def)
  have "unat (ms_curSize ?s) \<le> length buf" using s(1) unfolding uint_nat by (simp only: of_nat_le_iff)
  then have "int (length (ms_rest ?s)) = int (length buf) - uint (ms_curSize ?s)" by (simp add: ms_rest_def s(3) of_nat_diff)
  then have eq: "uint (ms_curSize ?s) - ?n = int (length buf) - m" using assms(3) by linarith
  moreover have "?n < 2 ^ 64" "?n \<le> uint (ms_curSize ?s)" using eq assms(4) s(1,2) by auto
  ultimately show ?thesis using assms(2) by (simp add: uint_sub_if' uint_word_of_int_eq take_bit_int_eq_self)
qed

section \<open>Every parse\<close>

text \<open>
  C5: From a decoder that is ready, with a well-formed table and whatever the bytes are, a parse makes no access outside the cache, the operand array, the stack of the search or the recorded bytes, and no
  read delivers more than it was asked for.  One access is modelled and not counted: a line that is entered with the same byte is scanned from position -1, and the opcode of that key is the type field in
  the line's own head (64-bit builds), so that it reads as 2; following the key's pointer would be \<open>C_UNDEFINED\<close> and does not happen.  A success leaves a decoder that is ready for the next parse and took at
  least one byte; a failure without a VEX or EVEX prefix leaves one that is ready and may have taken none; no failure gives back bytes.
\<close>

theorem parse_defined:
  assumes "table_ok root" "ready buf d" "iArch (d_ctx d) = 0"
  shows "case Diana_ParseCmd arm nop root d of
      Ok _ t \<Rightarrow> ready buf t \<and> length (unread t) < length (unread d)
    | Err x t \<Rightarrow> x \<noteq> C_UNDEFINED \<and> (iVexPrefix (d_ctx t) = 0 \<longrightarrow> ready buf t) \<and> length (unread t) \<le> length (unread d)"
proof (cases "Diana_ParseCmd arm nop root d")
  case (Ok u t)
  with ParseCmd_cases [OF assms, of arm nop] have "instruction_read MemoryStream_Read ms_rest (ms_over buf) (unread d) t" by simp
  from decoded_buffer(1-3) [OF this] Ok show ?thesis by simp
next
  case (Err x t)
  with ParseCmd_cases [OF assms, of arm nop] spent_buffer [of buf "length (unread d)" t] show ?thesis by simp
qed

lemma sample_decoder_ready: "length bs < 0x80000000 \<Longrightarrow> ready bs (sample_decoder bs)" "length bs < 0x80000000 \<Longrightarrow> unread (sample_decoder bs) = bs"
  using fresh_ready [of bs "Decoder_InitContext 8" zero_decoder_result] by (simp_all add: sample_decoder_def InitContext_simps)

theorem parse_defined_witness:
  "case Diana_ParseCmd (\<lambda>_. DI_PROC_END) (sample_line ''nop'' 0) sample_root (sample_decoder [0x0F, 0xA2, 0xC3]) of
      Ok _ t \<Rightarrow> ready [0x0F, 0xA2, 0xC3] t \<and> length (unread t) < length (unread (sample_decoder [0x0F, 0xA2, 0xC3]))
    | Err x t \<Rightarrow> x \<noteq> C_UNDEFINED \<and> (iVexPrefix (d_ctx t) = 0 \<longrightarrow> ready [0x0F, 0xA2, 0xC3] t) \<and> length (unread t) \<le> length (unread (sample_decoder [0x0F, 0xA2, 0xC3]))"
  by (rule parse_defined [OF sample_root_ok sample_decoder_ready(1)]) (simp_all add: sample_decoder_def fresh_decoder_def InitContext_simps)

text \<open>
  C6: One instruction from a buffer: the parse reports a size from 1 to 15 that is inside the buffer, exactly that number of bytes as read, and the first bytes of the buffer
  as the bytes of the instruction; a failure reports at most the whole buffer and is never undefined.  This holds for every buffer below 2 GiB, mode and well-formed table.
\<close>

theorem parse_on_buffer:
  assumes "table_ok root" "length buf < 0x80000000"
  shows "case Diana_ParseCmdOnBuffer arm nop mode buf (of_nat (length buf)) root r of
      (Ok _ d, readed) \<Rightarrow> 1 \<le> d_iFullCmdSize (d_res d) \<and> d_iFullCmdSize (d_res d) \<le> 15 \<and> d_iFullCmdSize (d_res d) \<le> int (length buf) \<and>
        uint readed = d_iFullCmdSize (d_res d) \<and> d_bytes (d_res d) = take (nat (d_iFullCmdSize (d_res d))) buf
    | (Err x d, readed) \<Rightarrow> x \<noteq> C_UNDEFINED \<and> uint readed \<le> int (length buf)"
proof -
  let ?d = "fresh_decoder (Diana_InitContextEx mode 0) r (Diana_InitMemoryStream buf (of_nat (length buf)))"
  have d: "ready buf ?d" "unread ?d = buf" "iArch (d_ctx ?d) = 0"
    using fresh_ready [OF assms(2), of "Diana_InitContextEx mode 0" r] by (simp_all add: Diana_InitContextEx_def InitContext_simps fresh_decoder_def)
  have run: "Diana_ParseCmdOnBuffer arm nop mode buf (of_nat (length buf)) root r =
    (let res = Diana_ParseCmd arm nop root ?d; d = res_state res in (res, ms_curSize (d_stream d) - word_of_int (cacheSize (d_ctx d))))"
    by (simp add: Diana_ParseCmdOnBuffer_def Diana_ParseCmdOnBufferEx_def parse_buffer_def)
  show ?thesis
  proof (cases "Diana_ParseCmd arm nop root ?d")
    case (Ok u t)
    then have "instruction_read MemoryStream_Read ms_rest (ms_over buf) buf t" using ParseCmd_cases [OF assms(1) d(1,3), of arm nop] d(2) by simp
    note t = decoded_buffer [OF this]
    have h: "holding MemoryStream_Read ms_rest (ms_over buf) (unread t) t" using t(1) by (simp add: ready_holding)
    have "uint (ms_curSize (d_stream t) - word_of_int (cacheSize (d_ctx t))) = int (length buf) - int (length (unread t))"
      using h t(2,3) by (intro readed) (auto simp: holding_def cache_ok_def decoder_input_def)
    then show ?thesis unfolding run using Ok t(2-5) by (simp add: Let_def)
  next
    case (Err x t)
    then have x: "x \<noteq> C_UNDEFINED" and t: "spent MemoryStream_Read ms_rest (ms_over buf) (length buf) t"
      using ParseCmd_cases [OF assms(1) d(1,3), of arm nop] d(2) by simp_all
    have "uint (ms_curSize (d_stream t) - word_of_int (cacheSize (d_ctx t))) = int (length buf) - (cacheSize (d_ctx t) + int (length (ms_rest (d_stream t))))"
      using t by (intro readed) (auto simp: spent_def)
    then show ?thesis unfolding run using Err x t by (simp add: Let_def spent_def)
  qed
qed

theorem parse_on_buffer_witness:
  "case Diana_ParseCmdOnBuffer (\<lambda>_. DI_PROC_END) (sample_line ''nop'' 0) 8 [0x0F, 0xA2, 0xC3] (of_nat (length [0x0F, 0xA2, 0xC3 :: u8])) sample_root zero_decoder_result of
      (Ok _ d, readed) \<Rightarrow> 1 \<le> d_iFullCmdSize (d_res d) \<and> d_iFullCmdSize (d_res d) \<le> 15 \<and> d_iFullCmdSize (d_res d) \<le> int (length [0x0F, 0xA2, 0xC3 :: u8]) \<and>
        uint readed = d_iFullCmdSize (d_res d) \<and> d_bytes (d_res d) = take (nat (d_iFullCmdSize (d_res d))) [0x0F, 0xA2, 0xC3]
    | (Err x d, readed) \<Rightarrow> x \<noteq> C_UNDEFINED \<and> uint readed \<le> int (length [0x0F, 0xA2, 0xC3 :: u8])"
  by (rule parse_on_buffer [OF sample_root_ok]) simp

text \<open>
  C21: No parse changes the mode of the decoder: whatever the bytes, the table and the outcome, architecture, default operand and address size, default segment, 64-bit mode and test mode are as the caller
  set them.
\<close>

theorem parse_keeps_mode:
  assumes "iArch (d_ctx d) = DIANA_ARCH_X86"
  shows "decoder_mode (d_ctx (res_state (Diana_ParseCmd arm nop root d))) = decoder_mode (d_ctx d)"
  using parse_x86_frame(1) [where nop = nop and root = root and d = d] assms by (simp add: Diana_ParseCmd_def DI_LET_def)

theorem parse_keeps_mode_witness:
  "decoder_mode (d_ctx (res_state (Diana_ParseCmd (\<lambda>_. DI_PROC_END) (sample_line ''nop'' 0) sample_root (sample_decoder [0x67, 0xC5, 0x80, 0x77])))) = (0, 4, 8, reg_DS, 1, False)"
proof -
  have "iArch (d_ctx (sample_decoder [0x67, 0xC5, 0x80, 0x77])) = DIANA_ARCH_X86" by (simp add: sample_decoder_def fresh_decoder_def InitContext_simps)
  from parse_keeps_mode [OF this, of "\<lambda>_. DI_PROC_END" "sample_line ''nop'' 0" sample_root] show ?thesis
    by (simp add: sample_decoder_def fresh_decoder_def decoder_mode_def Decoder_InitContext_def Let_def)
qed

section \<open>Numbers in the code\<close>

lemma sign_fill_take_bit:
  assumes "0 < n" "n \<le> 8"
  shows "sign_fill n (take_bit (8 * n) v) = signed_take_bit (8 * n - 1) v"
proof -
  let ?w = "take_bit (8 * n) v" and ?m = "mask (8 * n) :: u64"
  have top: "?w AND push_bit (8 * n - 1) 1 \<noteq> 0 \<longleftrightarrow> bit v (8 * n - 1)"
    using assms by (subst bit_iff_and_push_bit_not_eq_0 [symmetric]) (simp add: bit_take_bit_iff)
  have "?w - 1 - ?m = ?w + NOT ?m" by (simp add: not_eq_complement)
  also have "\<dots> = ?w OR NOT ?m" by (rule disjunctive_add) (simp add: bit_simps)
  finally have fill: "?w - 1 - ?m = ?w OR NOT ?m" .
  have edge: "bit v i = bit v (8 * n - 1)" if "8 * n - Suc 0 \<le> i" "i < 8 * n" for i
    using that by (metis One_nat_def Suc_pred le_antisym less_Suc_eq_le less_nat_zero_code neq0_conv)
  show ?thesis
    unfolding sign_fill_def top fill using assms by (intro bit_word_eqI) (auto simp: bit_simps min_def, (metis edge One_nat_def)+)
qed

text \<open>
  C22: Displacements, immediates and relative targets are read as they are encoded: when the next bytes are the little endian encoding of \<open>v\<close> in 1, 2, 4 or 8 bytes, an unsigned read gives \<open>v\<close> cut to that
  size and a signed one its sign extension; any other size is refused without reading.
\<close>

theorem read_value_decodes:
  assumes "StreamProxy_Read (int n) d = Ok (le_bytes n v) d'"
  shows "DianaReadValueAsLong (int n) sx d =
    (if n \<in> {1, 2, 4, 8} then Ok (if sx then signed_take_bit (8 * n - 1) v else take_bit (8 * n) v) d' else Err DI_ERROR d)"
proof (cases "n \<in> {1, 2, 4, 8}")
  case True
  then have "DianaReadValueAsLong (int n) sx d = Ok (if sx then sign_fill n (le_word (le_bytes n v)) else le_word (le_bytes n v)) d'"
    using assms by (auto simp: DianaReadValueAsLong_def read_exactly_def DI_CHECK_def di_basic_defs Let_def)
  also have "le_word (le_bytes n v) = take_bit (8 * n) v" using True by (intro le_word_le_bytes) auto
  finally show ?thesis using True sign_fill_take_bit [of n v] by auto
qed (auto simp: DianaReadValueAsLong_def di_basic_defs)

theorem read_value_decodes_witness:
  "\<exists>d'. DianaReadValueAsLong 2 True (sample_decoder [0xFE, 0xFF, 0x90]) = Ok (- 2) d'"
proof -
  obtain d' where "StreamProxy_Read (int 2) (sample_decoder [0xFE, 0xFF, 0x90]) = Ok [0xFE, 0xFF] d'"
  proof -
    have "case StreamProxy_Read (int 2) (sample_decoder [0xFE, 0xFF, 0x90]) of Ok bs _ \<Rightarrow> bs = [0xFE, 0xFF] | Err _ _ \<Rightarrow> False" by code_simp
    then show ?thesis using that by (cases "StreamProxy_Read (int 2) (sample_decoder [0xFE, 0xFF, 0x90])") simp_all
  qed
  moreover have "le_bytes 2 0xFFFE = [0xFE, 0xFF]" "signed_take_bit 15 (0xFFFE :: u64) = - 2" by code_simp+
  ultimately show ?thesis using read_value_decodes [of 2 "sample_decoder [0xFE, 0xFF, 0x90]" "0xFFFE" d' True] by simp
qed

section \<open>Instruction after instruction\<close>

text \<open>Up to \<open>k\<close> calls of the parser, until one fails: the bytes of each instruction, whether it has no legacy prefix, and the decoder after the last one.\<close>

fun sweep :: "DianaCmdEntry \<Rightarrow> DianaGenObject \<Rightarrow> nat \<Rightarrow> 's Decoder \<Rightarrow> (u8 list \<times> bool) list \<times> 's Decoder" where
  "sweep nop root 0 d = ([], d)"
| "sweep nop root (Suc k) d =
     (case parse_x86 nop root d of
        Ok _ t \<Rightarrow> (case sweep nop root k t of (xs, e) \<Rightarrow> ((d_bytes (d_res t), lossless (prefixes (d_ctx t))) # xs, e))
      | Err _ _ \<Rightarrow> ([], d))"

lemma parse_step:
  assumes "table_ok root" "ready buf d" "parse_x86 nop root d = Ok u t"
  shows "ready buf t" "1 \<le> length (d_bytes (d_res t))" "length (d_bytes (d_res t)) \<le> 15" "lossless (prefixes (d_ctx t)) \<Longrightarrow> unread d = d_bytes (d_res t) @ unread t"
    "length (unread d) = length (d_bytes (d_res t)) + length (unread t)" "\<exists>rest. unread d = d_bytes (d_res t) @ rest"
proof -
  have "instruction_read MemoryStream_Read ms_rest (ms_over buf) (unread d) t"
    using buffer_code.parse_x86_ok [OF assms(1), of buf "unread d" d nop] assms(2,3) by (simp add: ready_holding)
  note t = decoded_buffer [OF this]
  have len: "length (d_bytes (d_res t)) = nat (d_iFullCmdSize (d_res t))" unfolding t(5) using t(2) by simp
  show "ready buf t" by (rule t(1))
  show "1 \<le> length (d_bytes (d_res t))" "length (d_bytes (d_res t)) \<le> 15" unfolding len using t(3,4) by linarith+
  show "unread d = d_bytes (d_res t) @ unread t" if "lossless (prefixes (d_ctx t))" using t(6) that by simp
  show "length (unread d) = length (d_bytes (d_res t)) + length (unread t)" unfolding len using t(2,3) by linarith
  show "\<exists>rest. unread d = d_bytes (d_res t) @ rest" using t(5) append_take_drop_id by metis
qed

text \<open>
  C7: Repeated parsing takes the bytes apart.  Every instruction has 1 to 15 bytes, the sizes of the instructions and what is left in cache and stream add up to the bytes at the start, and the decoder
  stays ready.  As long as no instruction has a legacy prefix, the bytes of the instructions one after the other and the bytes left are the bytes at the start.  The first instruction with a legacy prefix
  still has the bytes that come next; behind it nothing is said of the bytes, since a try of a mandatory prefix can lose some.
\<close>

theorem sweep_partitions:
  assumes "table_ok root" "ready buf d"
  shows "case sweep nop root k d of (xs, e) \<Rightarrow>
    ready buf e \<and> list_all (\<lambda>x. 1 \<le> length (fst x) \<and> length (fst x) \<le> 15) xs \<and>
    length (unread d) = sum_list (map (length \<circ> fst) xs) + length (unread e) \<and>
    (\<exists>rest. unread d = concat (map fst (take (Suc (length (takeWhile snd xs))) xs)) @ rest) \<and>
    (list_all snd xs \<longrightarrow> unread d = concat (map fst xs) @ unread e)"
  using assms(2)
proof (induction k arbitrary: d)
  case (Suc k)
  show ?case
  proof (cases "parse_x86 nop root d")
    case (Ok u t)
    note t = parse_step [OF assms(1) Suc.prems Ok]
    obtain xs e where x: "sweep nop root k t = (xs, e)" by fastforce
    have IH: "ready buf e" "list_all (\<lambda>x. 1 \<le> length (fst x) \<and> length (fst x) \<le> 15) xs" "length (unread t) = sum_list (map (length \<circ> fst) xs) + length (unread e)"
      "\<exists>rest. unread t = concat (map fst (take (Suc (length (takeWhile snd xs))) xs)) @ rest" "list_all snd xs \<longrightarrow> unread t = concat (map fst xs) @ unread e"
      using Suc.IH [OF t(1)] by (simp_all add: x comp_def)
    show ?thesis
    proof (cases "lossless (prefixes (d_ctx t))")
      case True
      with IH t(2,3) t(4) [OF True] show ?thesis by (simp add: Ok x comp_def)
    next
      case False
      with IH t show ?thesis by (simp add: Ok x comp_def)
    qed
  qed (use Suc.prems in simp)
qed simp

theorem sweep_partitions_witness:
  "\<exists>e. sweep (sample_line ''nop'' 0) sample_root 9 (sample_decoder [0x0F, 0xA2, 0xC3, 0x0F, 0xA2]) = ([([0x0F, 0xA2], True), ([0xC3], True), ([0x0F, 0xA2], True)], e) \<and>
     ready [0x0F, 0xA2, 0xC3, 0x0F, 0xA2] e \<and> unread e = []"
proof -
  let ?bs = "[0x0F, 0xA2, 0xC3, 0x0F, 0xA2 :: u8]"
  let ?s = "sweep (sample_line ''nop'' 0) sample_root 9 (sample_decoder ?bs)"
  have "fst ?s = [([0x0F, 0xA2], True), ([0xC3], True), ([0x0F, 0xA2], True)]" by code_simp
  then obtain e where e: "?s = ([([0x0F, 0xA2], True), ([0xC3], True), ([0x0F, 0xA2], True)], e)" by (cases ?s) simp
  have len: "length ?bs < 0x80000000" by simp
  from sweep_partitions [OF sample_root_ok sample_decoder_ready(1) [OF len], of "sample_line ''nop'' 0" 9] sample_decoder_ready(2) [OF len] e
  show ?thesis by simp
qed

section \<open>A failure behind a VEX prefix\<close>

text \<open>
  After the bytes C5 80 77, a VEX instruction that is refused because vvvv names a register that it does not have, position and size of the cache together leave the array, and the next parse with the
  same context, without clearing the cache, reads and writes outside it.
\<close>

lemma vex_failure_breaks_cache:
  "case Diana_ParseCmd (\<lambda>_. DI_PROC_END) (sample_line ''nop'' 0) sample_root (sample_decoder [0xC5, 0x80, 0x77, 1, 2, 3, 4, 5, 6, 7, 8]) of
      Ok _ d \<Rightarrow> False
    | Err x d \<Rightarrow> x = DI_ERROR \<and> cacheIt (d_ctx d) + cacheSize (d_ctx d) = 9 \<and>
        (case Diana_ParseCmd (\<lambda>_. DI_PROC_END) (sample_line ''nop'' 0) sample_root d of Ok _ _ \<Rightarrow> False | Err y _ \<Rightarrow> y = C_UNDEFINED)"
  by code_simp

end
