(* ===== verification/Code_Fetch.thy ===== *)
theory Code_Fetch
  imports Execution_Properties Decoder_Properties Decoder_Mode
begin

unbundle bit_operations_syntax

text \<open>
  The decoder on the processor's memory: the code reader is a stream in the sense of \<open>code_stream\<close>, so what is proved of the decoder holds for the instructions that
  \<^verbatim>\<open>DianaProcessor_ExecOnce\<close> executes.
\<close>

section \<open>The processor as a stream\<close>

definition processor_reader :: "'m DianaProcessor DianaRead_fnc" where
  "processor_reader n = ProcessorReadStream (word_of_int n)"

text \<open>The code from the prefetch address on.\<close>

definition code_rest :: "DianaRandomMemoryStream DianaProcessor \<Rightarrow> u8 list" where
  "code_rest p = drop (flat (m_memory p) (GET_REG reg_CS p) (m_tempRIP p)) (pBuffer (m_memory p))"

text \<open>The processor reads its code from a buffer, and only the prefetch address has moved since \<open>p0\<close>.\<close>

definition code_over :: "DianaRandomMemoryStream DianaProcessor \<Rightarrow> DianaRandomMemoryStream DianaProcessor \<Rightarrow> bool" where
  "code_over p0 p \<longleftrightarrow> stream_attached MemoryRandomStream_Read MemoryRandomStream_Write buffer_ok p \<and> (\<exists>t. p = p0\<lparr>m_tempRIP := t\<rparr>) \<and>
     buffer_mapped (m_memory p) (GET_REG reg_CS p) (m_tempRIP p) 0"

lemma GET_REG_tempRIP [simp]: "GET_REG r (p\<lparr>m_tempRIP := x\<rparr>) = GET_REG r p"
  by (rule GET_REG_cong) simp_all

lemma flat_add:
  assumes "flat s sel off + k \<le> unat (bufferSize s)"
  shows "flat s sel (off + of_nat k) = flat s sel off + k"
proof -
  have "flat s sel off + k < 2 ^ 64" using assms unsigned_less [of "bufferSize s", where 'a = nat] by simp
  moreover from this have "unat (of_nat k :: u64) = k" by (simp add: unsigned_of_nat take_bit_nat_eq_self)
  ultimately show ?thesis by (simp add: flat_def add.assoc [symmetric] unat_word_ariths)
qed

lemma flat_offset:
  assumes "flat s sel off' = flat s sel off + k"
  shows "off' = off + of_nat k"
proof -
  have "sel * segmentSize s + off' = (sel * segmentSize s + off) + of_nat k"
    using arg_cong [OF assms, of "of_nat :: nat \<Rightarrow> u64"] by (simp add: flat_def)
  then show ?thesis by (simp add: add.assoc)
qed

lemma processor_read:
  assumes "code_over p0 p" "0 \<le> n"
  shows "\<exists>bs p'. processor_reader n p = Ok bs p' \<and> code_over p0 p' \<and> int (length bs) \<le> n \<and> code_rest p = bs @ code_rest p'"
proof -
  let ?s = "m_memory p" and ?cs = "GET_REG reg_CS p"
  let ?f = "flat ?s ?cs (m_tempRIP p)" and ?w = "word_of_int n :: u64"
  define k where "k = min (unat ?w) (unat (bufferSize ?s) - ?f)"
  let ?bs = "take k (drop ?f (pBuffer ?s))"
  let ?p = "p\<lparr>m_tempRIP := m_tempRIP p + of_nat k\<rparr>"
  have p: "pReadFnc (m_pMemoryStream p) = MemoryRandomStream_Read" "length (pBuffer ?s) = unat (bufferSize ?s)" "?f \<le> unat (bufferSize ?s)" "buffer_ok ?s"
    using assms(1) by (auto simp: code_over_def stream_attached_def buffer_mapped_def buffer_ok_def)
  have "k \<le> unat ?w" by (simp add: k_def)
  moreover have "int (unat ?w) \<le> n" using assms(2) by (simp add: uint_word_of_int_eq take_bit_int_less_eq_self_iff)
  ultimately have small: "int k \<le> n" by linarith
  have k: "length ?bs = k" "?f + k \<le> unat (bufferSize ?s)" using p(2,3) by (auto simp: k_def)
  have "MemoryRandomStream_Read ?s ?cs (m_tempRIP p) ?w reg_CS = Ok ?bs ?s" using p(3) by (simp add: Read_eq [OF p(4)] k_def)
  then have run: "processor_reader n p = Ok ?bs ?p"
    using p(1) k(1) by (simp add: processor_reader_def ProcessorReadStream_def DianaProcessor_ReadMemory_def DI_CHECK_def di_basic_defs del: length_take)
  note at = flat_add [OF k(2)]
  have "code_over p0 ?p" using assms(1) at k(2) by (auto simp: code_over_def stream_attached_def buffer_mapped_def)
  moreover have "code_rest p = ?bs @ code_rest ?p"
    using append_take_drop_id [of k "drop ?f (pBuffer ?s)"] by (simp add: code_rest_def at add.commute [of k ?f])
  ultimately show ?thesis using run small k(1) by metis
qed

interpretation memory_code: code_stream processor_reader code_rest "code_over p0" for p0
proof
  show "code_over p0 s' \<and> int (length bs) \<le> n \<and> code_rest s = bs @ code_rest s'" if "code_over p0 s" "0 \<le> n" "processor_reader n s = Ok bs s'" for s n bs s'
    using processor_read [OF that(1,2)] that(3) by auto
  show "code_over p0 s' \<and> e \<noteq> C_UNDEFINED \<and> code_rest s' = code_rest s" if "code_over p0 s" "0 \<le> n" "processor_reader n s = Err e s'" for s n e s'
    using processor_read [OF that(1,2)] that(3) by auto
qed

section \<open>Decoding at the instruction pointer\<close>

text \<open>
  The context and the result of the processor, which the emulator's records hold in part: \<open>c\<close> supplies the fields that only the decoder uses.
\<close>

definition full_context :: "DecoderContext \<Rightarrow> 'm DianaProcessor \<Rightarrow> DecoderContext" where
  "full_context c p = DianaContext.extend (m_context p) (DianaContext.more c)"

definition parser_result :: "DecoderResult \<Rightarrow> DianaParserResult" where
  "parser_result r =
     \<lparr>pInfo = (case d_pInfo r of Some e \<Rightarrow> DianaCmdInfo.truncate e | None \<Rightarrow> pInfo zero_result),
      linkedOperands = (\<lambda>i. if 0 \<le> i \<and> i < int (length (d_operands r)) then DianaLinkedOperand.truncate (d_operands r ! nat i) else zero_operand),
      iLinkedOpCount = int (length (d_operands r)), iPrefix = d_iPrefix r, iFullCmdSize = d_iFullCmdSize r, isEvex = evex_isEvex (d_evex r)\<rparr>"

definition processor_decoder :: "DecoderContext \<Rightarrow> DecoderResult \<Rightarrow> 'm DianaProcessor \<Rightarrow> 'm DianaProcessor Decoder" where
  "processor_decoder c r p =
     \<lparr>d_ctx = full_context c p, d_res = r, d_stream = p, d_readFnc = processor_reader, proxy_begin = 0, proxy_tail_size = 0\<rparr>"

text \<open>The processor after a parse.\<close>

definition after_parse :: "'m DianaProcessor Decoder \<Rightarrow> 'm DianaProcessor" where
  "after_parse d = (d_stream d)\<lparr>m_context := DianaContext.truncate (d_ctx d), m_result := parser_result (d_res d)\<rparr>"

text \<open>The decoder as \<^verbatim>\<open>DianaProcessor_ExecOnce\<close> calls it.\<close>

definition processor_parse ::
    "(int \<Rightarrow> (unit, 'm DianaProcessor) dec) \<Rightarrow> DianaCmdEntry \<Rightarrow> DianaGenObject \<Rightarrow> DecoderContext \<Rightarrow> DecoderResult \<Rightarrow> (unit, 'm) di_cmd" where
  "processor_parse arm nop root c r p =
     (case Diana_ParseCmd arm nop root (processor_decoder c r p) of
        Ok _ d \<Rightarrow> Ok () (after_parse d)
      | Err x d \<Rightarrow> Err x (after_parse d))"

text \<open>
  The cache holds the code at \<open>rip\<close>, and the prefetch address is behind it.  \<open>in_step\<close>: this is so for the instruction pointer when the next instruction is decoded.
\<close>

definition prefetched_at :: "u64 \<Rightarrow> DecoderContext \<Rightarrow> DianaRandomMemoryStream DianaProcessor \<Rightarrow> bool" where
  "prefetched_at rip c p \<longleftrightarrow>
     (let k = nat (cacheSize (m_context p)) in
      cache_ok (full_context c p) \<and> 2 \<le> cacheIt (m_context p) \<and> iArch c = DIANA_ARCH_X86 \<and>
      buffer_mapped (m_memory p) (GET_REG reg_CS p) rip k \<and>
      ahead (full_context c p) = take k (drop (flat (m_memory p) (GET_REG reg_CS p) rip) (pBuffer (m_memory p))) \<and>
      m_tempRIP p = rip + of_nat k)"

definition in_step :: "DecoderContext \<Rightarrow> DianaRandomMemoryStream DianaProcessor \<Rightarrow> bool" where
  "in_step c p \<longleftrightarrow> stream_attached MemoryRandomStream_Read MemoryRandomStream_Write buffer_ok p \<and> prefetched_at (GET_REG reg_RIP p) c (exec_entry p)"

text \<open>The code that starts at an address.\<close>

definition code_at :: "DianaRandomMemoryStream DianaProcessor \<Rightarrow> u64 \<Rightarrow> u8 list" where
  "code_at p rip = drop (flat (m_memory p) (GET_REG reg_CS p) rip) (pBuffer (m_memory p))"

lemma full_context_simps [simp]:
  "cacheIt (full_context c p) = cacheIt (m_context p)" "cacheSize (full_context c p) = cacheSize (m_context p)" "cache (full_context c p) = cache c"
  "iArch (full_context c p) = iArch c"
  by (cases c; simp add: full_context_def DianaContext.extend_def)+

lemma exec_entry_simps [simp]:
  "m_memory (exec_entry p) = m_memory p" "GET_REG x (exec_entry p) = GET_REG x p" "m_context (exec_entry p) = m_context p"
  "stream_attached rd wr ok (exec_entry p) = stream_attached rd wr ok p"
proof -
  show "GET_REG x (exec_entry p) = GET_REG x p" by (rule GET_REG_cong) (simp_all add: exec_entry_def)
qed (simp_all add: exec_entry_def stream_attached_def)

lemma in_step_holding:
  assumes "in_step c p"
  shows "holding processor_reader code_rest (code_over (exec_entry p)) (code_at p (GET_REG reg_RIP p)) (processor_decoder c r (exec_entry p))"
proof -
  let ?q = "exec_entry p" and ?s = "m_memory p" and ?cs = "GET_REG reg_CS p" and ?rip = "GET_REG reg_RIP p"
  let ?k = "nat (cacheSize (m_context p))" and ?f = "flat ?s ?cs ?rip"
  have q: "stream_attached MemoryRandomStream_Read MemoryRandomStream_Write buffer_ok ?q" "cache_ok (full_context c ?q)" "?f + ?k \<le> unat (bufferSize ?s)"
    "ahead (full_context c ?q) = take ?k (drop ?f (pBuffer ?s))" "m_tempRIP ?q = ?rip + of_nat ?k"
    using assms by (simp_all add: in_step_def prefetched_at_def Let_def buffer_mapped_def)
  note at = flat_add [OF q(3)]
  have "code_over ?q ?q"
    using q(1,3) at by (auto simp: code_over_def buffer_mapped_def q(5) intro!: exI [of _ "m_tempRIP ?q"])
  moreover have "code_rest ?q = drop ?k (drop ?f (pBuffer ?s))" by (simp add: code_rest_def q(5) at add.commute [of ?k ?f])
  ultimately show ?thesis
    using q(2) append_take_drop_id [of ?k "drop ?f (pBuffer ?s)"] by (simp add: holding_def reads_def processor_decoder_def decoder_input_def q(4) code_at_def)
qed

text \<open>What a parse of the code at an address leaves in the processor.\<close>

lemma instruction_read_code:
  assumes "instruction_read processor_reader code_rest (code_over p) (code_at p rip) d" "iArch (d_ctx d) = DIANA_ARCH_X86"
  defines "n \<equiv> nat (d_iFullCmdSize (d_res d))"
  shows "1 \<le> n" "n \<le> 15" "d_iFullCmdSize (d_res d) = int n" "buffer_mapped (m_memory p) (GET_REG reg_CS p) rip n" "d_bytes (d_res d) = take n (code_at p rip)"
    "\<exists>t. d_stream d = p\<lparr>m_tempRIP := t\<rparr>"
    "lossless (prefixes (d_ctx d)) \<Longrightarrow> prefetched_at (rip + of_nat n) (d_ctx d) (after_parse d)"
proof -
  let ?s = "m_memory p" and ?cs = "GET_REG reg_CS p" and ?z = "cacheSize (d_ctx d)"
  let ?f = "flat ?s ?cs rip"
  obtain inp' where h: "holding processor_reader code_rest (code_over p) inp' d" "2 \<le> cacheIt (d_ctx d)"
    "d_iFullCmdSize (d_res d) = int (length (code_at p rip)) - int (length inp')" "1 \<le> d_iFullCmdSize (d_res d)" "d_iFullCmdSize (d_res d) \<le> 15"
    "d_bytes (d_res d) = take n (code_at p rip)" "lossless (prefixes (d_ctx d)) \<longrightarrow> code_at p rip = d_bytes (d_res d) @ inp'"
    using assms(1) unfolding instruction_read_def n_def by blast
  show n: "1 \<le> n" "n \<le> 15" "d_iFullCmdSize (d_res d) = int n" "d_bytes (d_res d) = take n (code_at p rip)" using h by (simp_all add: n_def)
  have over: "code_over p (d_stream d)" and c: "cache_ok (d_ctx d)" and inp': "ahead (d_ctx d) @ code_rest (d_stream d) = inp'"
    using h(1) by (simp_all add: holding_def reads_def decoder_input_def)
  then obtain t where t: "d_stream d = p\<lparr>m_tempRIP := t\<rparr>" unfolding code_over_def by blast
  then show "\<exists>t. d_stream d = p\<lparr>m_tempRIP := t\<rparr>" by blast
  have ok: "length (pBuffer ?s) = unat (bufferSize ?s)" "flat ?s ?cs t \<le> unat (bufferSize ?s)"
    using over by (auto simp: code_over_def t buffer_mapped_def stream_attached_def buffer_ok_def)
  have z: "0 \<le> ?z" "length (ahead (d_ctx d)) = nat ?z" using c length_ahead [OF c] by (auto simp: cache_ok_def)
  have rest: "code_rest (d_stream d) = drop (flat ?s ?cs t) (pBuffer ?s)" by (simp add: code_rest_def t)
  have "length inp' = nat ?z + (unat (bufferSize ?s) - flat ?s ?cs t)" unfolding inp' [symmetric] using z ok rest by simp
  moreover have "length (code_at p rip) = unat (bufferSize ?s) - ?f" using ok by (simp add: code_at_def)
  ultimately have at: "flat ?s ?cs t = ?f + (n + nat ?z)" using h(3,4) n(3) ok by linarith
  show "buffer_mapped ?s ?cs rip n" using at ok by (simp add: buffer_mapped_def)
  have t': "t = rip + of_nat n + of_nat (nat ?z)" using flat_offset [OF at] by (simp add: add.assoc)
  have next_at: "flat ?s ?cs (rip + of_nat n) = ?f + n" using at ok by (intro flat_add) simp
  show "prefetched_at (rip + of_nat n) (d_ctx d) (after_parse d)" if "lossless (prefixes (d_ctx d))"
  proof -
    have "inp' = drop n (code_at p rip)"
      using h(6,7) that n by (metis append_eq_conv_conj append_take_drop_id same_append_eq)
    then have "ahead (d_ctx d) = take (nat ?z) (drop n (code_at p rip))"
      using inp' z(2) by (metis append_eq_conv_conj)
    moreover have "full_context (d_ctx d) (after_parse d) = d_ctx d"
      by (cases "d_ctx d") (simp add: full_context_def after_parse_def DianaContext.extend_def DianaContext.truncate_def)
    moreover have "GET_REG r (after_parse d) = GET_REG r p" for r
      by (rule GET_REG_cong) (simp_all add: after_parse_def t)
    ultimately show ?thesis
      using h(2) c assms(2) at ok t' next_at
      by (simp add: prefetched_at_def Let_def after_parse_def t DianaContext.truncate_def buffer_mapped_def code_at_def add.commute [of n ?f])
  qed
qed

section \<open>Steps that execute memory\<close>

lemma prefetched_cong:
  assumes "cacheIt (m_context q) = cacheIt (m_context p)" "cacheSize (m_context q) = cacheSize (m_context p)" "m_memory q = m_memory p"
    "GET_REG reg_CS q = GET_REG reg_CS p" "m_tempRIP q = m_tempRIP p"
  shows "prefetched_at rip c q = prefetched_at rip c p"
  using assms by (simp add: prefetched_at_def cache_ok_def ahead_def)

lemma prefetched_empty:
  assumes "length (cache c) = 7" "iArch c = DIANA_ARCH_X86" "cacheIt (m_context p) = 2" "cacheSize (m_context p) = 0" "m_tempRIP p = rip"
    "buffer_mapped (m_memory p) (GET_REG reg_CS p) rip 0"
  shows "prefetched_at rip c p"
  using assms by (simp add: prefetched_at_def cache_ok_def ahead_def)

lemma CS_at: "reg_at reg_CS 2330 2"
  by (simp add: reg_at_def plain_reg_def reg_simps)

lemma after_plain_rest:
  assumes "m_stateFlags e AND DI_PROC_STATE_RIP_CHANGED = 0" "std_regs e"
  shows "GET_REG reg_CS (after_step rip e) = GET_REG reg_CS e" "m_context (after_step rip e) = m_context e" "m_tempRIP (after_step rip e) = m_tempRIP e"
    "m_pMemoryStream (after_step rip e) = m_pMemoryStream e" "m_stateFlags (after_step rip e) = m_stateFlags (finished e)"
proof -
  let ?v = "rip + word_of_int (iFullCmdSize (m_result e))" and ?f = "finished e"
  have f: "std_regs ?f" using assms(2) by simp
  have R: "DianaProcessor_QueryReg ?f reg_RIP = \<lparr>m_size = 8, m_offset = 128\<rparr>"
    using f control_at(1) by (simp add: QueryReg_plain reg_at_def std_regs_def)
  have q: "m_pRegistersVector (after_step rip e) = vec_put (m_pRegistersVector ?f) 128 8 ?v" "m_registers (after_step rip e) = m_registers ?f"
    "m_context (after_step rip e) = m_context ?f" "m_tempRIP (after_step rip e) = m_tempRIP ?f" "m_pMemoryStream (after_step rip e) = m_pMemoryStream ?f"
    "m_stateFlags (after_step rip e) = m_stateFlags ?f"
    by (simp_all add: after_step_def assms(1) R DianaProcessor_SetValue_def DianaProcessor_SetValueEx_def put_reg_def Let_def)
  then have "std_regs (after_step rip e)" using f by (simp add: std_regs_def)
  then have "GET_REG reg_CS (after_step rip e) = GET_REG reg_CS ?f"
    using GET_REG_at [OF _ CS_at, of "after_step rip e"] GET_REG_at [OF f CS_at] q(1) by (simp add: vec_get_put_disjoint)
  then show "GET_REG reg_CS (after_step rip e) = GET_REG reg_CS e" by simp
  show "m_context (after_step rip e) = m_context e" "m_tempRIP (after_step rip e) = m_tempRIP e" "m_pMemoryStream (after_step rip e) = m_pMemoryStream e"
    "m_stateFlags (after_step rip e) = m_stateFlags ?f" using q by simp_all
qed

lemma temp_mark:
  "r AND DI_PROC_STATE_TEMP_RIP_IS_VALID = 0 \<Longrightarrow>
   ((a AND NOT r) AND NOT DI_PROC_STATE_CMD_USES_NORMAL_REP) AND DI_PROC_STATE_TEMP_RIP_IS_VALID = a AND (DI_PROC_STATE_TEMP_RIP_IS_VALID :: u32)"
  by (subst and_not_disjoint, simp, rule and_not_disjoint)

text \<open>A parse in step reads the code at the instruction pointer.\<close>

lemma parse_in_step:
  assumes "table_ok root" "in_step c p"
  shows "case Diana_ParseCmd arm nop root (processor_decoder c r (exec_entry p)) of
      Ok _ d \<Rightarrow> instruction_read processor_reader code_rest (code_over (exec_entry p)) (code_at (exec_entry p) (GET_REG reg_RIP p)) d \<and> iArch (d_ctx d) = DIANA_ARCH_X86
    | Err x d \<Rightarrow> x \<noteq> C_UNDEFINED \<and> code_over (exec_entry p) (d_stream d)"
proof -
  let ?d = "processor_decoder c r (exec_entry p)"
  have arch: "iArch (d_ctx ?d) = DIANA_ARCH_X86" and it: "2 \<le> cacheIt (d_ctx ?d)"
    using assms(2) by (simp_all add: in_step_def prefetched_at_def processor_decoder_def Let_def)
  have run: "Diana_ParseCmd arm nop root ?d = parse_x86 nop root ?d" using arch by (simp add: Diana_ParseCmd_def DI_LET_def)
  have kept: "iArch (d_ctx (res_state (parse_x86 nop root ?d))) = DIANA_ARCH_X86"
    using parse_x86_frame(1) [of nop root ?d] arch by (simp add: decoder_mode_def)
  have at: "code_at (exec_entry p) (GET_REG reg_RIP p) = code_at p (GET_REG reg_RIP p)" by (simp add: code_at_def)
  show ?thesis
    using memory_code.parse_x86_ok [OF assms(1) in_step_holding [OF assms(2)] it, of nop] kept
    unfolding run at by (cases "parse_x86 nop root ?d") (simp_all add: spent_def reads_def)
qed

text \<open>
  C8: An instruction that the emulator decodes is the code in memory at CS:RIP: from a processor in step, a successful parse gives an instruction of 1 to 15 bytes that lies inside the memory, its recorded
  bytes are the memory's from there on, and nothing of the processor has changed but the prefetch address; without a legacy prefix the cache holds the code after the instruction.  A failing parse is
  defined and changes nothing else either.
\<close>

theorem decode_from_memory:
  assumes "table_ok root" "in_step c p"
  shows "case Diana_ParseCmd arm nop root (processor_decoder c r (exec_entry p)) of
      Ok _ d \<Rightarrow> (let n = nat (d_iFullCmdSize (d_res d)); rip = GET_REG reg_RIP p in
        1 \<le> n \<and> n \<le> 15 \<and> buffer_mapped (m_memory p) (GET_REG reg_CS p) rip n \<and> d_bytes (d_res d) = take n (code_at p rip) \<and>
        (\<exists>t. d_stream d = (exec_entry p)\<lparr>m_tempRIP := t\<rparr>) \<and>
        (lossless (prefixes (d_ctx d)) \<longrightarrow> prefetched_at (rip + of_nat n) (d_ctx d) (after_parse d)))
    | Err x d \<Rightarrow> x \<noteq> C_UNDEFINED \<and> (\<exists>t. d_stream d = (exec_entry p)\<lparr>m_tempRIP := t\<rparr>)"
proof (cases "Diana_ParseCmd arm nop root (processor_decoder c r (exec_entry p))")
  case (Ok u d)
  with parse_in_step [OF assms, of arm nop r] have d: "instruction_read processor_reader code_rest (code_over (exec_entry p)) (code_at (exec_entry p) (GET_REG reg_RIP p)) d"
    "iArch (d_ctx d) = DIANA_ARCH_X86" by simp_all
  have "code_at (exec_entry p) rip = code_at p rip" for rip by (simp add: code_at_def)
  with instruction_read_code [OF d] show ?thesis by (simp add: Ok Let_def)
next
  case (Err x d)
  with parse_in_step [OF assms, of arm nop r] show ?thesis by (simp add: code_over_def)
qed

lemma next_in_step:
  assumes "prefetched_at rip c q" "stream_attached MemoryRandomStream_Read MemoryRandomStream_Write buffer_ok q" "m_stateFlags q AND DI_PROC_STATE_TEMP_RIP_IS_VALID \<noteq> 0"
    "GET_REG reg_RIP q = rip"
  shows "in_step c q"
proof -
  have "prefetched_at rip c (exec_entry q)"
    using assms(1) by (subst prefetched_cong [where p = q]) (use assms(3) in \<open>simp_all add: exec_entry_def Let_def\<close>)
  with assms show ?thesis by (simp add: in_step_def)
qed

text \<open>
  C1: Decoder and emulator stay in step.  From a processor in step with no fire point on RIP, one execution step with an instruction of the table without legacy or EVEX prefix and without MMX operand, whose
  handler succeeds and leaves memory, CS and the marks of the prefetch alone, executes the bytes in memory at CS:RIP: without a jump RIP moves past exactly these bytes and the processor is in step again, with
  the rest of the cache in use; after a jump RIP is the target, and if that is mapped the processor is in step there, with the cache dropped.  A store is not covered: it may change bytes that are prefetched.
\<close>

theorem exec_from_memory:
  assumes "table_ok root" "in_step c p" "\<forall>pt \<in> set (m_firePoints p). fp_address pt \<noteq> GET_REG reg_RIP p"
    and "Diana_ParseCmd arm nop root (processor_decoder c r (exec_entry p)) = Ok () d" "lossless (prefixes (d_ctx d))"
    and "\<not> isEvex (m_result (after_parse d))" "map_of general_purpose_commands (m_commandId (pInfo (m_result (after_parse d)))) = Some h"
    and "plain_prefix (after_parse d)" "h (after_parse d) = Ok () e" "std_regs p" "psz_off e"
    and "m_stateFlagsToRemove e AND (DI_PROC_STATE_RIP_CHANGED OR DI_PROC_STATE_TEMP_RIP_IS_VALID) = 0" "m_stateFlags e AND DI_PROC_STATE_TEMP_RIP_IS_VALID \<noteq> 0"
    and "\<not> list_ex (\<lambda>i. is_mmx (linked e i)) [0 .. opcount e - 1]" "m_memory e = m_memory p" "GET_REG reg_CS e = GET_REG reg_CS p"
  shows "\<exists>p'. DianaProcessor_ExecOnce action (processor_parse arm nop root c r) others evex None p = Some (Ok () p') \<and>
    (let n = length (d_bytes (d_res d)) in
     1 \<le> n \<and> n \<le> 15 \<and> d_bytes (d_res d) = take n (code_at p (GET_REG reg_RIP p)) \<and>
     (if m_stateFlags e AND DI_PROC_STATE_RIP_CHANGED = 0
      then GET_REG reg_RIP p' = GET_REG reg_RIP p + of_nat n \<and> in_step (d_ctx d) p'
      else GET_REG reg_RIP p' = GET_REG reg_RIP e \<and> (buffer_mapped (m_memory p) (GET_REG reg_CS p) (GET_REG reg_RIP e) 0 \<longrightarrow> in_step (d_ctx d) p')))"
proof -
  let ?rip = "GET_REG reg_RIP p" and ?q = "after_parse d"
  define n where "n = nat (d_iFullCmdSize (d_res d))"
  have read: "instruction_read processor_reader code_rest (code_over (exec_entry p)) (code_at (exec_entry p) ?rip) d" "iArch (d_ctx d) = DIANA_ARCH_X86"
    using parse_in_step [OF assms(1,2), of arm nop r] assms(4) by simp_all
  note code = instruction_read_code [OF read, folded n_def]
  obtain t where t: "d_stream d = (exec_entry p)\<lparr>m_tempRIP := t\<rparr>" using code(6) by blast
  have q: "m_memory ?q = m_memory p" "GET_REG x ?q = GET_REG x p" "m_registers ?q = m_registers p" "m_pMemoryStream ?q = m_pMemoryStream p" for x
  proof -
    have "GET_REG x ?q = GET_REG x (exec_entry p)" by (rule GET_REG_cong) (simp_all add: after_parse_def t)
    then show "GET_REG x ?q = GET_REG x p" by simp
  qed (simp_all add: after_parse_def t exec_entry_def)
  have kept: "kept ?q e" using general_purpose_kept [OF map_of_SomeD [OF assms(7)]] assms(9) unfolding keeps_def by (metis res_state.simps(1))
  have size: "iFullCmdSize (m_result e) = int n" using kept code(3) by (simp add: kept_def after_parse_def parser_result_def)
  have e: "std_regs e" "stream_attached MemoryRandomStream_Read MemoryRandomStream_Write buffer_ok e"
    using kept assms(2,10,15) q by (auto simp: kept_def std_regs_def in_step_def stream_attached_def)
  have ahead: "prefetched_at (?rip + of_nat n) (d_ctx d) e"
    using code(7) [OF assms(5)] by (subst prefetched_cong [where p = ?q]) (use kept assms(15,16) q in \<open>simp_all add: kept_def\<close>)
  have bytes: "d_bytes (d_res d) = take n (code_at p ?rip)" "length (d_bytes (d_res d)) = n"
  proof -
    show "d_bytes (d_res d) = take n (code_at p ?rip)" using code(5) by (simp add: code_at_def)
    moreover have "n \<le> length (code_at p ?rip)"
      using code(4) assms(2) by (auto simp: code_at_def buffer_mapped_def in_step_def stream_attached_def buffer_ok_def)
    ultimately show "length (d_bytes (d_res d)) = n" by simp
  qed
  let ?p' = "after_step ?rip e"
  have run: "processor_parse arm nop root c r (exec_entry p) = Ok () ?q" using assms(4) by (simp add: processor_parse_def)
  have flags: "m_stateFlagsToRemove e AND DI_PROC_STATE_RIP_CHANGED = 0" "m_stateFlagsToRemove e AND DI_PROC_STATE_TEMP_RIP_IS_VALID = 0"
    using assms(12) and_eq_0_distrib [of "DI_PROC_STATE_RIP_CHANGED" "DI_PROC_STATE_TEMP_RIP_IS_VALID" "m_stateFlagsToRemove e"] by (simp_all add: and.commute)
  have step: "DianaProcessor_ExecOnce action (processor_parse arm nop root c r) others evex None p = Some (Ok () ?p')"
    by (rule exec_step [where parse = "processor_parse arm nop root c r" and d = ?q and c = h, OF assms(3) run assms(6-9) flags(1) assms(14)])
  show ?thesis
  proof (cases "m_stateFlags e AND DI_PROC_STATE_RIP_CHANGED = 0")
    case True
    note p' = after_plain(1,3) [OF True e(1) assms(11), of ?rip] after_plain_rest [OF True e(1), of ?rip]
    have "m_stateFlags (finished e) AND DI_PROC_STATE_TEMP_RIP_IS_VALID = m_stateFlags e AND DI_PROC_STATE_TEMP_RIP_IS_VALID"
      using temp_mark [OF flags(2)] by (simp add: finished_def)
    then have "in_step (d_ctx d) ?p'"
      using ahead e(2) assms(13) p' size
      by (intro next_in_step [where rip = "?rip + of_nat n"]) (simp_all add: prefetched_cong [where q = ?p' and p = e] stream_attached_def)
    then show ?thesis using step True bytes code(1,2) p'(1) size by (simp add: Let_def)
  next
    case False
    note p' = after_jump [OF False, where rip = ?rip]
    have "in_step (d_ctx d) ?p'" if "buffer_mapped (m_memory p) (GET_REG reg_CS p) (GET_REG reg_RIP e) 0"
    proof -
      have c: "length (cache (d_ctx d)) = 7" "iArch (d_ctx d) = DIANA_ARCH_X86" using ahead by (simp_all add: prefetched_at_def cache_ok_def Let_def)
      have "m_tempRIP (exec_entry ?p') = GET_REG reg_RIP e" using p' by (simp add: exec_entry_def)
      then have "prefetched_at (GET_REG reg_RIP e) (d_ctx d) (exec_entry ?p')"
        using that assms(15,16) p' c by (intro prefetched_empty) simp_all
      then show ?thesis using e(2) p' by (simp add: in_step_def stream_attached_def)
    qed
    then show ?thesis using step False bytes code(1,2) p'(1) by (simp add: Let_def)
  qed
qed

section \<open>A machine with code\<close>

text \<open>The layout of the registers, all zero, over 16 bytes of memory that start with clc and cpuid.\<close>

definition code_machine :: "DianaRandomMemoryStream DianaProcessor" where
  "code_machine =
     (zero_processor \<lparr>pReadFnc = MemoryRandomStream_Read, pWriteFnc = MemoryRandomStream_Write\<rparr>
        \<lparr>pBuffer = [0xF8, 0x0F, 0xA2] @ replicate 13 0, bufferSize = 16, segmentSize = 0\<rparr> 8)\<lparr>m_registers := x86_layout\<rparr>"

definition code_parse :: "(unit, DianaRandomMemoryStream DianaProcessor Decoder) di_res" where
  "code_parse = Diana_ParseCmd (\<lambda>_. DI_PROC_END) (sample_line ''nop'' 0) sample_root (processor_decoder (Decoder_InitContext 8) zero_decoder_result (exec_entry code_machine))"

lemma code_parse_case:
  "case code_parse of
     Ok _ d \<Rightarrow> lossless (prefixes (d_ctx d)) \<and> length (d_bytes (d_res d)) = 1 \<and> m_stateFlags (d_stream d) = 1 \<and> m_stateFlagsToRemove (d_stream d) = 0 \<and>
       m_memory (d_stream d) = m_memory code_machine \<and> GET_REG reg_CS (d_stream d) = 0 \<and>
       (let r = parser_result (d_res d) in m_commandId (pInfo r) = ''clc'' \<and> \<not> isEvex r \<and> iPrefix r = 0 \<and> iLinkedOpCount r = 0)
   | Err x d \<Rightarrow> False"
  by code_simp

lemma code_parse_Ok:
  obtains d where "code_parse = Ok () d" "lossless (prefixes (d_ctx d))" "length (d_bytes (d_res d)) = 1" "m_stateFlags (d_stream d) = 1"
    "m_stateFlagsToRemove (d_stream d) = 0" "m_memory (d_stream d) = m_memory code_machine" "GET_REG reg_CS (d_stream d) = 0"
    "m_commandId (pInfo (parser_result (d_res d))) = ''clc''" "\<not> isEvex (parser_result (d_res d))" "iPrefix (parser_result (d_res d)) = 0"
    "iLinkedOpCount (parser_result (d_res d)) = 0"
proof (cases code_parse)
  case (Ok u d)
  from code_parse_case [unfolded Ok di_res.case Let_def] Ok show ?thesis by (intro that [of d]) simp_all
next
  case (Err x d)
  from code_parse_case [unfolded Err di_res.case] show ?thesis by simp
qed

lemma code_machine_regs: "std_regs code_machine" "GET_REG reg_CS code_machine = 0" "GET_REG reg_RIP code_machine = 0"
proof -
  show r: "std_regs code_machine" by (simp add: code_machine_def std_regs_def)
  show "GET_REG reg_CS code_machine = 0" "GET_REG reg_RIP code_machine = 0" by code_simp+
qed

lemma code_machine_in_step: "in_step (Decoder_InitContext 8) code_machine"
  unfolding in_step_def
proof
  show "stream_attached MemoryRandomStream_Read MemoryRandomStream_Write buffer_ok code_machine"
    by (simp add: stream_attached_def code_machine_def zero_processor_def buffer_ok_def)
  show "prefetched_at (GET_REG reg_RIP code_machine) (Decoder_InitContext 8) (exec_entry code_machine)"
  proof (rule prefetched_empty)
    show "m_tempRIP (exec_entry code_machine) = GET_REG reg_RIP code_machine" by (simp add: exec_entry_def code_machine_def zero_processor_def)
    show "buffer_mapped (m_memory (exec_entry code_machine)) (GET_REG reg_CS (exec_entry code_machine)) (GET_REG reg_RIP code_machine) 0"
      by (simp add: code_machine_regs buffer_mapped_def flat_def)
  qed (simp_all add: Decoder_InitContext_def code_machine_def zero_processor_def Diana_InitContext_def)
qed

theorem decode_from_memory_witness:
  "case Diana_ParseCmd (\<lambda>_. DI_PROC_END) (sample_line ''nop'' 0) sample_root (processor_decoder (Decoder_InitContext 8) zero_decoder_result (exec_entry code_machine)) of
      Ok _ d \<Rightarrow> d_bytes (d_res d) = [0xF8] | Err x d \<Rightarrow> False"
proof -
  obtain d where d: "code_parse = Ok () d" "length (d_bytes (d_res d)) = 1" by (rule code_parse_Ok)
  have "d_bytes (d_res d) = take 1 (code_at code_machine (GET_REG reg_RIP code_machine))"
    using decode_from_memory [OF sample_root_ok code_machine_in_step, of "\<lambda>_. DI_PROC_END" "sample_line ''nop'' 0" zero_decoder_result] d
    by (simp add: code_parse_def Let_def) (metis length_take min.absorb2 min.cobounded1 take_all_iff nle_le)
  also have "\<dots> = [0xF8]" by code_simp
  finally show ?thesis using d(1) by (simp add: code_parse_def)
qed

theorem exec_from_memory_witness:
  "\<exists>p' c. DianaProcessor_ExecOnce (\<lambda>_ p. p) (processor_parse (\<lambda>_. DI_PROC_END) (sample_line ''nop'' 0) sample_root (Decoder_InitContext 8) zero_decoder_result)
     (\<lambda>_. None) (\<lambda>p. Ok () p) None code_machine = Some (Ok () p') \<and> GET_REG reg_RIP p' = 1 \<and> in_step c p'"
proof -
  obtain d where d: "code_parse = Ok () d" "lossless (prefixes (d_ctx d))" "length (d_bytes (d_res d)) = 1" "m_stateFlags (d_stream d) = 1"
    "m_stateFlagsToRemove (d_stream d) = 0" "m_memory (d_stream d) = m_memory code_machine" "GET_REG reg_CS (d_stream d) = 0"
    "m_commandId (pInfo (parser_result (d_res d))) = ''clc''" "\<not> isEvex (parser_result (d_res d))" "iPrefix (parser_result (d_res d)) = 0"
    "iLinkedOpCount (parser_result (d_res d)) = 0"
    by (rule code_parse_Ok)
  let ?q = "after_parse d"
  let ?e = "DianaProcessor_ClearFlag DI_FLAG_CF ?q"
  have q: "m_stateFlags ?q = 1" "m_stateFlagsToRemove ?q = 0" "m_memory ?q = m_memory code_machine" "m_result ?q = parser_result (d_res d)"
    "GET_REG reg_CS ?q = GET_REG reg_CS (d_stream d)"
    subgoal using d by (simp add: after_parse_def)
    subgoal using d by (simp add: after_parse_def)
    subgoal using d by (simp add: after_parse_def)
    subgoal by (simp add: after_parse_def)
    subgoal by (rule GET_REG_cong) (simp_all add: after_parse_def)
    done
  have cs: "GET_REG reg_CS ?e = GET_REG reg_CS code_machine"
    using q(5) d(7) code_machine_regs(2) GET_REG_cong [of ?e ?q reg_CS] by (simp add: DianaProcessor_ClearFlag_def)
  have h: "map_of general_purpose_commands (m_commandId (pInfo (m_result ?q))) = Some Diana_Call_clc" "Diana_Call_clc ?q = Ok () ?e"
    using d(8) by (simp_all add: q general_purpose_commands_def Diana_Call_clc_def di_simps)
  have e: "psz_off ?e" "m_stateFlagsToRemove ?e AND (DI_PROC_STATE_RIP_CHANGED OR DI_PROC_STATE_TEMP_RIP_IS_VALID) = 0" "m_stateFlags ?e AND DI_PROC_STATE_TEMP_RIP_IS_VALID \<noteq> 0"
    "\<not> list_ex (\<lambda>i. is_mmx (linked ?e i)) [0 .. opcount ?e - 1]" "m_memory ?e = m_memory code_machine" "m_stateFlags ?e AND DI_PROC_STATE_RIP_CHANGED = 0"
    "\<not> isEvex (m_result ?q)" "plain_prefix ?q"
    using d q by (simp_all add: psz_off_def DianaProcessor_ClearFlag_def plain_prefix_def)
  have quiet: "\<forall>pt \<in> set (m_firePoints code_machine). fp_address pt \<noteq> GET_REG reg_RIP code_machine" by (simp add: code_machine_def zero_processor_def)
  show ?thesis
    using exec_from_memory [OF sample_root_ok code_machine_in_step quiet d(1) [unfolded code_parse_def] d(2) e(7) h(1) e(8) h(2) code_machine_regs(1) e(1-5) cs,
        of "\<lambda>_ p. p" "\<lambda>_. None" "\<lambda>p. Ok () p"] e(6) d(3) code_machine_regs(3) by (auto simp: Let_def)
qed

end
