(* ===== verification/Reachable_States.thy ===== *)
theory Reachable_States
  imports Emulator_Invariant Code_Fetch
begin

text \<open>
  The emulator as a state machine: the states that a host can bring an initialised processor to with the calls of the processor's interface and with the execution of instructions, and the invariant that they
  share.  The decoder is the modelled one, on the processor's own memory stream; the actions of fire points use the processor through the same calls as the host.
\<close>

section \<open>The calls of a host\<close>

inductive host_call :: "'m DianaProcessor \<Rightarrow> 'm DianaProcessor \<Rightarrow> bool" where
  watch: "host_call p (res_state (DianaProcessor_RegisterFirePoint pt p))"
| poke: "host_call p (SET_REG r v p)"
| store: "host_call p (res_state (DianaProcessor_WriteMemory selector offset data segReg p))"
| raise_flag: "host_call p (DianaProcessor_SetFlag f p)"
| lower_flag: "host_call p (DianaProcessor_ClearFlag f p)"
| drop_cache: "host_call p (DianaProcessor_ClearCache p)"

lemma host_call_machine: "host_call p q \<Longrightarrow> machine p q"
proof (induction rule: host_call.induct)
  case (watch p pt)
  show ?case by (auto simp: DianaProcessor_RegisterFirePoint_def machine_def di_simps)
next
  case (poke p r v)
  show ?case using keeps_SET_REG [unfolded keeps_fun_def] by (blast intro: kept_machine)
next
  case (store p selector offset data segReg)
  show ?case by (auto simp: DianaProcessor_WriteMemory_def machine_def split: di_res.split)
next
  case (drop_cache p)
  show ?case unfolding DianaProcessor_ClearCache_def by (blast intro: machine.R_trans [OF machine_fields(1) machine_fields(4)])
qed (simp_all add: machine_def DianaProcessor_SetFlag_def DianaProcessor_ClearFlag_def)

text \<open>The actions of fire points are the host's: they use the processor through the same calls.\<close>

definition host_actions :: "(DianaProcessorFirePoint \<Rightarrow> 'm DianaProcessor \<Rightarrow> 'm DianaProcessor) \<Rightarrow> bool" where
  "host_actions action \<longleftrightarrow> (\<forall>pt p. host_call\<^sup>*\<^sup>* p (action pt p))"

lemma host_actions_machine: "host_actions action \<Longrightarrow> keeps_fun machine (action pt)"
proof -
  have "machine p q" if "host_call\<^sup>*\<^sup>* p q" for p q :: "'m DianaProcessor"
    using that by induction (auto intro: machine.R_refl machine.R_trans host_call_machine)
  then show "host_actions action \<Longrightarrow> keeps_fun machine (action pt)" for action :: "DianaProcessorFirePoint \<Rightarrow> 'm DianaProcessor \<Rightarrow> 'm DianaProcessor"
    unfolding host_actions_def keeps_fun_def by blast
qed

section \<open>The decoder on the processor\<close>

lemma reader_machine: "machine p (res_state (processor_reader n p))"
  by (auto simp: processor_reader_def ProcessorReadStream_def DianaProcessor_ReadMemory_def DI_CHECK_def di_basic_defs machine_def split: di_res.split)

lemma processor_parse_machine:
  fixes arm :: "int \<Rightarrow> (unit, 'm DianaProcessor) dec"
  assumes "iArch c = DIANA_ARCH_X86"
  shows "keeps machine (processor_parse arm nop root c r)"
  unfolding keeps_def
proof
  fix p :: "'m DianaProcessor"
  let ?d = "processor_decoder c r p"
  have x86: "Diana_ParseCmd arm nop root ?d = parse_x86 nop root ?d" using assms by (simp add: Diana_ParseCmd_def processor_decoder_def di_basic_defs)
  have "(read_step processor_reader)\<^sup>*\<^sup>* p (d_stream (res_state (parse_x86 nop root ?d)))"
    using parse_x86_mode(2) [of ?d nop root] by (simp add: processor_decoder_def)
  then have "machine p (d_stream (res_state (parse_x86 nop root ?d)))"
    by (rule reads_invariant) (auto intro: reader_machine machine.R_refl machine.R_trans)
  then have "machine p (after_parse (res_state (parse_x86 nop root ?d)))" by (simp add: after_parse_def machine_def)
  then show "machine p (res_state (processor_parse arm nop root c r p))" by (cases "parse_x86 nop root ?d") (simp_all add: processor_parse_def x86)
qed

section \<open>Reachable states\<close>

text \<open>
  Initialisation, the calls of the host, and execution steps, which leave a state when they fail, too.  A step runs the decoder of x86 code with any contents of the fields that only the decoder uses.  Steps whose
  instruction is left to a handler outside the general purpose group (x87, MMX and SSE, EVEX) are not followed.
\<close>

inductive reachable ::
    "(DianaProcessorFirePoint \<Rightarrow> 'm DianaProcessor \<Rightarrow> 'm DianaProcessor) \<Rightarrow> (int \<Rightarrow> (unit, 'm DianaProcessor) dec) \<Rightarrow> DianaCmdEntry \<Rightarrow> DianaGenObject \<Rightarrow>
     (DianaCommandId \<Rightarrow> (unit, 'm) di_cmd option) \<Rightarrow> (unit, 'm) di_cmd \<Rightarrow> 'm DianaRandomReadWriteStream \<Rightarrow> 'm DianaProcessor \<Rightarrow> bool"
  for action arm nop root others evex stream where
  boot: "DianaProcessor_Init alloc stream mem mode = Ok () p \<Longrightarrow> reachable action arm nop root others evex stream p"
| host: "reachable action arm nop root others evex stream p \<Longrightarrow> host_call p q \<Longrightarrow> reachable action arm nop root others evex stream q"
| exec: "reachable action arm nop root others evex stream p \<Longrightarrow> iArch c = DIANA_ARCH_X86 \<Longrightarrow>
    own_instruction others (processor_parse arm nop root c r (exec_entry (run_fire_points action (GET_REG reg_RIP p) p))) \<Longrightarrow>
    DianaProcessor_ExecOnce action (processor_parse arm nop root c r) others evex None p = Some res \<Longrightarrow>
    reachable action arm nop root others evex stream (res_state res)"

definition emulator_inv :: "'m DianaRandomReadWriteStream \<Rightarrow> 'm DianaProcessor \<Rightarrow> bool" where
  "emulator_inv stream p \<longleftrightarrow> std_regs p \<and> m_registersVectorSize p = 4096 \<and> m_pMemoryStream p = stream \<and>
     length (m_firePoints p) \<le> DIANA_PROCESSOR_MAX_FIRE_POINTS \<and> (\<forall>a. registers_used \<le> a \<and> a < 4096 \<longrightarrow> m_pRegistersVector p a = 0)"

lemma emulator_inv_machine: "emulator_inv stream p \<Longrightarrow> machine p q \<Longrightarrow> emulator_inv stream q"
  by (auto simp: emulator_inv_def machine_def std_regs_def)

lemma emulator_inv_Init:
  assumes "DianaProcessor_Init alloc stream mem mode = Ok () p"
  shows "emulator_inv stream p"
proof -
  let ?z = "zero_processor stream mem mode"
  have "alloc DI_REG_INIT_VALUE"
    using assms by (cases "alloc DI_REG_INIT_VALUE") (simp_all add: DianaProcessor_Init_def DianaProcessor_InitProcessorImpl_def di_simps)
  then obtain p' where "DianaProcessor_InitProcessorImpl alloc ?z = Ok () p'" "std_regs p'" "m_registersVectorSize p' = 4096"
    "\<And>a. a < 4096 \<Longrightarrow> m_pRegistersVector p' a = 0" "m_pMemoryStream p' = m_pMemoryStream ?z" "m_firePoints p' = m_firePoints ?z"
    by (rule InitProcessorImpl_Ok [of alloc ?z]) (simp_all add: zero_processor_def)
  with assms show ?thesis
    by (simp add: emulator_inv_def DianaProcessor_Init_def zero_processor_def)
qed

lemma reachable_inv:
  assumes "reachable action arm nop root others evex stream p" "host_actions action"
  shows "emulator_inv stream p"
  using assms(1)
proof induction
  case (boot alloc mem mode p)
  then show ?case by (rule emulator_inv_Init)
next
  case (host p q)
  then show ?case by (blast intro: host_call_machine emulator_inv_machine)
next
  case (exec p c r res)
  then have "machine p (res_state res)"
    by (intro ExecOnce_machine [where parse = "processor_parse arm nop root c r", OF host_actions_machine [OF assms(2)]] processor_parse_machine)
  with exec.IH show ?case by (rule emulator_inv_machine)
qed

text \<open>
  C3: in every state that a host reaches from initialisation by the calls of the processor's interface (fire points, registers, memory, flags, cache) and by executing instructions, successful and failed, the register
  table is the fixed layout, the registers vector has its 4096 bytes, those past the last register are still zero, the memory stream is the one attached at first, and at most ten fire points are registered.  The
  memory stream, the command table and the code are arbitrary; the actions of fire points use the same calls as the host; instructions that the handlers of x87, MMX, SSE or EVEX run are not followed.
\<close>

theorem reachable_invariant:
  assumes "reachable action arm nop root others evex stream p" "host_actions action"
  shows "m_registers p = x86_layout \<and> m_registersVectorSize p = 4096 \<and> m_pMemoryStream p = stream \<and>
    length (m_firePoints p) \<le> DIANA_PROCESSOR_MAX_FIRE_POINTS \<and> (\<forall>a. registers_used \<le> a \<and> a < 4096 \<longrightarrow> m_pRegistersVector p a = 0)"
  using reachable_inv [OF assms] by (simp add: emulator_inv_def std_regs_def)

section \<open>A reached state\<close>

text \<open>A processor initialised over 16 bytes of code, with a fire point on address 0 whose action writes RAX; its first instruction is \<^verbatim>\<open>clc\<close>.\<close>

definition booted :: "DianaRandomMemoryStream DianaProcessor" where
  "booted = (DianaProcessor_ResetFPU (DianaProcessor_SetResetDefaultFlags code_machine))\<lparr>m_mxcsr := 0x1f80, m_registersVectorSize := 4096, m_iLastRegistersOffset := 2436\<rparr>"

lemma booted_Init: "DianaProcessor_Init (\<lambda>_. True) (m_pMemoryStream code_machine) (m_memory code_machine) DIANA_MODE64 = Ok () booted"
proof -
  let ?z = "zero_processor (m_pMemoryStream code_machine) (m_memory code_machine) DIANA_MODE64"
  define q where "q = (DianaProcessor_ResetFPU (DianaProcessor_SetResetDefaultFlags ?z))\<lparr>m_mxcsr := 0x1f80, m_pkru := 0, m_registersVectorSize := 4096\<rparr>"
  have q: "m_registers q = no_registers" "m_iLastRegistersOffset q = 0" "m_registersVectorSize q = 4096" "m_pRegistersVector q = (\<lambda>_. 0)"
    by (simp_all add: q_def DianaProcessor_ResetFPU_def DianaProcessor_SetResetDefaultFlags_def zero_processor_def)
  have "fold (run_registration (\<lambda>_. True)) registrations q = q\<lparr>m_registers := x86_layout, m_iLastRegistersOffset := 2436\<rparr>"
    using run_registrations [of q registrations "\<lambda>_. True"] by (simp add: q registrations_total x86_layout_def fold_layout)
  then have "DianaProcessor_Init (\<lambda>_. True) (m_pMemoryStream code_machine) (m_memory code_machine) DIANA_MODE64 =
      Ok () (q\<lparr>m_registers := x86_layout, m_iLastRegistersOffset := 2436, m_pRegistersVector := (\<lambda>_. 0)\<rparr>)"
    by (simp add: DianaProcessor_Init_def DianaProcessor_InitProcessorImpl_def di_basic_defs q_def [symmetric] q cong: if_cong)
  then show ?thesis
    by (simp add: q_def booted_def code_machine_def zero_processor_def DianaProcessor_ResetFPU_def DianaProcessor_SetResetDefaultFlags_def
      DianaProcessor_SetFlag_def DianaProcessor_ClearFlag_def)
qed

abbreviation (input) record_hit :: "DianaProcessorFirePoint \<Rightarrow> DianaRandomMemoryStream DianaProcessor \<Rightarrow> DianaRandomMemoryStream DianaProcessor" where
  "record_hit \<equiv> (\<lambda>pt p. SET_REG reg_RAX (fp_address pt + 5) p)"

abbreviation (input) sample_fetch :: "(unit, DianaRandomMemoryStream) di_cmd" where
  "sample_fetch \<equiv> processor_parse (\<lambda>_. DI_PROC_END) (sample_line ''nop'' 0) sample_root (Decoder_InitContext 8) zero_decoder_result"

abbreviation (input) sample_watched :: "DianaRandomMemoryStream DianaProcessor" where
  "sample_watched \<equiv> res_state (DianaProcessor_RegisterFirePoint \<lparr>fp_pContext = 0, fp_address = 0, fp_action = 0\<rparr> booted)"

abbreviation (input) sample_reachable :: "DianaRandomMemoryStream DianaProcessor \<Rightarrow> bool" where
  "sample_reachable \<equiv> reachable record_hit (\<lambda>_. DI_PROC_END) (sample_line ''nop'' 0) sample_root (\<lambda>_. None) (\<lambda>p. Ok () p) (m_pMemoryStream code_machine)"

lemma record_hit_host: "host_actions record_hit"
  by (auto simp: host_actions_def intro: host_call.poke)

lemma sample_watched_reachable: "sample_reachable sample_watched"
  by (rule host [OF boot [OF booted_Init] watch])

lemma sample_step:
  "own_instruction (\<lambda>_. None) (sample_fetch (exec_entry (run_fire_points record_hit (GET_REG reg_RIP sample_watched) sample_watched)))"
  "case DianaProcessor_ExecOnce record_hit sample_fetch (\<lambda>_. None) (\<lambda>p. Ok () p) None sample_watched of
     Some (Ok _ p) \<Rightarrow> GET_REG reg_RIP p = 1 \<and> GET_REG reg_RAX p = 5 | _ \<Rightarrow> False"
  by code_simp+

theorem reachable_invariant_witness:
  "\<exists>p. sample_reachable p \<and> GET_REG reg_RIP p = 1 \<and> GET_REG reg_RAX p = 5 \<and>
     m_registers p = x86_layout \<and> m_registersVectorSize p = 4096 \<and> m_pRegistersVector p 4000 = 0"
proof -
  obtain p where p: "DianaProcessor_ExecOnce record_hit sample_fetch (\<lambda>_. None) (\<lambda>p. Ok () p) None sample_watched = Some (Ok () p)"
    "GET_REG reg_RIP p = 1" "GET_REG reg_RAX p = 5"
    using sample_step(2) by (auto split: option.splits di_res.splits)
  have "sample_reachable p"
    using exec [OF sample_watched_reachable _ sample_step(1) p(1)] by (simp add: Decoder_InitContext_def Diana_InitContext_def)
  from this reachable_invariant [OF this record_hit_host] p(2,3) show ?thesis by auto
qed

section \<open>Fire points\<close>

lemma fire_loop_enough:
  assumes "length (m_firePoints p) \<le> DIANA_PROCESSOR_MAX_FIRE_POINTS" "DIANA_PROCESSOR_MAX_FIRE_POINTS \<le> i + k"
    and act: "\<And>pt. keeps_fun machine (action pt)"
  shows "fire_loop action rip (k + m) i p = fire_loop action rip k i p"
  using assms(1,2)
proof (induction k arbitrary: i p)
  case 0
  then show ?case by (cases m) simp_all
next
  case (Suc k)
  have "length (m_firePoints (action pt p)) \<le> DIANA_PROCESSOR_MAX_FIRE_POINTS" for pt
    using act [of pt] Suc.prems(1) by (simp add: keeps_fun_def machine_def)
  with Suc show ?case by (simp add: Let_def)
qed

text \<open>
  The loop over the fire points ends: in every reachable state ten rounds meet every point, those that actions register on the way included, and further rounds would change nothing.
\<close>

theorem fire_points_complete:
  assumes "reachable action arm nop root others evex stream p" "host_actions action"
  shows "fire_loop action rip (DIANA_PROCESSOR_MAX_FIRE_POINTS + m) 0 p = run_fire_points action rip p"
  unfolding run_fire_points_def
  using reachable_inv [OF assms(1,2)] host_actions_machine [OF assms(2)] by (intro fire_loop_enough) (simp_all add: emulator_inv_def)

end
