(* ===== verification/Decoder_Lookup.thy ===== *)
theory Decoder_Lookup
  imports Sample_Table
begin

unbundle bit_operations_syntax

text \<open>
  The search of the table against a reference definition: \<open>lookup\<close> walks the table recursively and takes the first entry that matches; the explicit stack, the positions and
  the rollback of \<^verbatim>\<open>Diana_ParseCmdImpl\<close> compute the same.
\<close>

section \<open>The reference\<close>

fun first_some :: "'a option list \<Rightarrow> 'a option" where
  "first_some [] = None"
| "first_some (Some x # xs) = Some x"
| "first_some (None # xs) = first_some xs"

lemma first_some_Cons: "first_some (x # xs) = (case x of Some a \<Rightarrow> Some a | None \<Rightarrow> first_some xs)"
  by (cases x) simp_all

definition key_at :: "DecoderContext \<Rightarrow> int \<Rightarrow> DianaParserCmdKey" where
  "key_at c it = the (GetKeyByAddress c it)"

definition byte_at :: "DecoderContext \<Rightarrow> int \<Rightarrow> u8" where
  "byte_at c it = cache c ! nat it"

text \<open>The first matching entry of an object that stands behind the byte at \<open>it\<close>, with the position of its last opcode byte.\<close>

primrec lookup :: "DianaGenObject \<Rightarrow> DecoderContext \<Rightarrow> int \<Rightarrow> (DianaCmdEntry \<times> int) option" where
  "lookup (GenCmd e) c it = (if entry_matches c (key_at c it) e then Some (e, it) else None)"
| "lookup (GenLine fl ks) c it =
     (let i = next_byte fl it in
      if i < cacheIt c + cacheSize c
      then first_some (map (\<lambda>x. if fst x = byte_at c i then Option.bind (snd x) (\<lambda>f. f c i) else None) (map (map_prod id (map_option lookup)) ks))
      else None)"
| "lookup (GenIndex fl f) c it =
     (let i = next_byte fl it in
      if i < cacheIt c + cacheSize c then Option.bind ((map_option lookup \<circ> f) (byte_at c i)) (\<lambda>g. g c i) else None)"

definition lookup_opt :: "DecoderContext \<Rightarrow> int \<Rightarrow> DianaGenObject option \<Rightarrow> (DianaCmdEntry \<times> int) option" where
  "lookup_opt c it y = Option.bind y (\<lambda>y. lookup y c it)"

text \<open>The keys of a line for the byte at \<open>it\<close>, from key number \<open>j\<close> on; an index has one key.\<close>

definition lookup_keys :: "DecoderContext \<Rightarrow> int \<Rightarrow> (u8 \<times> DianaGenObject option) list \<Rightarrow> (DianaCmdEntry \<times> int) option" where
  "lookup_keys c it ks = first_some (map (\<lambda>x. if fst x = byte_at c it then lookup_opt c it (snd x) else None) ks)"

definition lookup_from :: "DecoderContext \<Rightarrow> int \<Rightarrow> int \<Rightarrow> DianaGenObject \<Rightarrow> (DianaCmdEntry \<times> int) option" where
  "lookup_from c it j x =
     (case x of
        GenCmd e \<Rightarrow> None
      | GenLine fl ks \<Rightarrow> lookup_keys c it (drop (nat j) ks)
      | GenIndex fl f \<Rightarrow> if j \<le> uint (byte_at c it) then lookup_opt c it (f (byte_at c it)) else None)"

lemma lookup_line:
  assumes "\<And>e. y \<noteq> GenCmd e"
  shows "lookup y c it = (let i = if same_line y then it else it + 1 in if i < cacheIt c + cacheSize c then lookup_from c i 0 y else None)"
proof (cases y)
  case (GenLine fl ks)
  have "Option.bind (map_option lookup o') (\<lambda>f. f c i) = lookup_opt c i o'" for o' i by (cases o') (simp_all add: lookup_opt_def)
  then show ?thesis by (simp add: GenLine next_byte_def lookup_from_def lookup_keys_def Let_def comp_def cong: if_cong)
next
  case (GenIndex fl f)
  have "Option.bind (map_option lookup o') (\<lambda>f. f c i) = lookup_opt c i o'" for o' i by (cases o') (simp_all add: lookup_opt_def)
  then show ?thesis by (simp add: GenIndex next_byte_def lookup_from_def Let_def)
qed (use assms in simp)

section \<open>The stack as a reference search\<close>

text \<open>What a stack of states still has to look at.\<close>

definition pending_keys :: "DecoderContext \<Rightarrow> DianaParserContextState \<Rightarrow> (DianaCmdEntry \<times> int) option" where
  "pending_keys c s = lookup_from c (opcodePosition s) (position s + 1) (pLine s)"

definition resume :: "DecoderContext \<Rightarrow> DianaParserContextState list \<Rightarrow> (DianaCmdEntry \<times> int) option" where
  "resume c ss = first_some (map (pending_keys c) ss)"

lemma resume_simps [simp]: "resume c [] = None" "resume c (s # ss) = (case pending_keys c s of Some r \<Rightarrow> Some r | None \<Rightarrow> resume c ss)"
  by (simp_all add: resume_def first_some_Cons split: option.split)

text \<open>A step keeps what the search will find.\<close>

definition progress :: "DecoderContext \<Rightarrow> int \<Rightarrow> (DianaCmdEntry \<times> int) option \<Rightarrow> di_error + (bool \<times> DianaParserContext) \<Rightarrow> bool" where
  "progress c it R r =
     (case r of
        Inl _ \<Rightarrow> False
      | Inr (found, pc) \<Rightarrow>
          (case (if found then pc_result pc else None) of
             Some e \<Rightarrow> R = Some (e, it)
           | None \<Rightarrow> R = (if found \<and> it + 1 < cacheIt c + cacheSize c then resume c (states pc) else resume c (tl (states pc)))))"

abbreviation new_state :: "DianaGenObject \<Rightarrow> int \<Rightarrow> DianaParserContextState" where
  "new_state y i \<equiv> \<lparr>pLine = y, position = -1, opcodePosition = i\<rparr>"

lemma pending_new: "pending_keys c (new_state y i) = lookup_from c i 0 y"
  by (simp add: pending_keys_def)

lemma DispatchKey_lookup:
  assumes "states pc = s # ss" "pc_result pc = None" "search_at root b lo hi it s ss" "opt_all (key_ok root b lo it (7 - length ss)) obj" "hi = cacheIt c + cacheSize c"
    "key = key_at c it"
  obtains (No) r where "DispatchKey c key it obj pc = Inr (False, r, pc)" "lookup_opt c it obj = None"
    | (Entry) e pc' where "DispatchKey c key it obj pc = Inr (True, False, pc')" "pc_result pc' = Some e" "lookup_opt c it obj = Some (e, it)"
    | (Line) y pc' where "DispatchKey c key it obj pc = Inr (True, same_line y, pc')" "pc_result pc' = None" "obj = Some y"
      "states pc' = new_state y (if same_line y then it else it + 1) # s # ss" "stack_ok root b lo (states pc')"
      "lookup_opt c it obj = (if same_line y \<or> it + 1 < hi then pending_keys c (new_state y (if same_line y then it else it + 1)) else None)"
proof (cases rule: DispatchKey_cases [OF assms(1-4), of c key])
  case (1 r)
  then have "lookup_opt c it obj = None"
    using assms(6) by (auto simp: DispatchKey_def lookup_opt_def Let_def split: option.splits DianaGenObject.splits if_splits sum.splits)
  with 1 show ?thesis by (rule that(1))
next
  case (2 e pc')
  then have "lookup_opt c it obj = Some (e, it)"
    using assms(2,6) by (auto simp: DispatchKey_def lookup_opt_def Let_def DianaParserContext_PushOpcode_def split: option.splits DianaGenObject.splits if_splits sum.splits)
  with 2 show ?thesis by (intro that(2))
next
  case (3 y pc')
  have line: "\<And>e. y \<noteq> GenCmd e"
    using 3(1-3) assms(2) by (auto simp: DispatchKey_def split: if_splits)
  have "it < hi" using assms(3) by (auto simp: search_at_def)
  then have "lookup_opt c it obj = (if same_line y \<or> it + 1 < hi then pending_keys c (new_state y (if same_line y then it else it + 1)) else None)"
    using 3(3) assms(5) by (simp add: lookup_opt_def lookup_line [OF line] pending_new Let_def)
  with 3 show ?thesis by (intro that(3))
qed

lemma scan_line_progress:
  assumes "states pc = s # ss" "pc_result pc = None" "search_at root b lo hi it s ss" "pLine s = GenLine fl all" "ks = drop (nat j) all" "0 \<le> j"
    "hi = cacheIt c + cacheSize c" "key = key_at c it" "fst key = byte_at c it"
  shows "progress c it (case lookup_keys c it ks of Some r \<Rightarrow> Some r | None \<Rightarrow> resume c ss) (scan_line c key it ks j pc)"
  using assms
proof (induction ks arbitrary: s j pc)
  case Nil
  then show ?case by (simp add: progress_def lookup_keys_def states_set_position)
next
  case (Cons k ks)
  obtain o' obj where k: "k = (o', obj)" by fastforce
  have next_ks: "ks = drop (nat (j + 1)) all"
    using Cons.prems(5,6) by (simp add: nat_add_distrib drop_Suc flip: tl_drop) (metis list.sel(3))
  show ?case
  proof (cases "o' = fst key")
    case False
    then show ?thesis
      using Cons.IH [OF Cons.prems(1-4) next_ks _ Cons.prems(7-9)] Cons.prems(6,9) k by (simp add: lookup_keys_def)
  next
    case True
    let ?pc = "set_position j pc" and ?s = "s\<lparr>position := j\<rparr>"
    have st: "states ?pc = ?s # ss" "pc_result ?pc = None" "search_at root b lo hi it ?s ss"
      using Cons.prems(1,2,6) search_at_position [OF Cons.prems(3), of j] by (simp_all add: states_set_position set_position_def)
    have "k \<in> set all" using Cons.prems(5) by (metis in_set_dropD list.set_intros(1))
    then have ok: "opt_all (\<lambda>y. key_ok root b lo it (7 - length ss) y \<and> \<not> same_line y) obj"
      using line_key_ok [OF Cons.prems(3,4), of o' obj] k by simp
    then have ok': "opt_all (key_ok root b lo it (7 - length ss)) obj" by (auto simp: opt_all_def split: option.splits)
    have keys: "lookup_keys c it (k # ks) = (case lookup_opt c it obj of Some r \<Rightarrow> Some r | None \<Rightarrow> lookup_keys c it ks)"
      using True k Cons.prems(9) by (simp add: lookup_keys_def first_some_Cons split: option.split)
    have rest: "pending_keys c ?s = lookup_keys c it ks"
      using Cons.prems(3,4) next_ks by (simp add: pending_keys_def lookup_from_def search_at_def)
    show ?thesis
    proof (cases rule: DispatchKey_lookup [OF st ok' Cons.prems(7,8)])
      case (1 r)
      then show ?thesis using Cons.IH [OF st _ next_ks _ Cons.prems(7-9)] Cons.prems(4,6) k True keys by simp
    next
      case (2 e pc')
      then show ?thesis using k True keys by (simp add: progress_def)
    next
      case (3 y pc')
      then have "\<not> same_line y" using ok by (simp add: opt_all_def)
      with 3 show ?thesis using k True keys rest Cons.prems(7) by (auto simp: progress_def split: option.splits)
    qed
  qed
qed

lemma scan_from_progress:
  assumes "states pc = s # ss" "pc_result pc = None" "search_at root b lo hi it s ss" "position s < 0 \<longrightarrow> fst key \<noteq> 2" "pLine s = GenLine fl ks"
    "hi = cacheIt c + cacheSize c" "key = key_at c it" "fst key = byte_at c it"
  shows "progress c it (case lookup_from c it (position s) (pLine s) of Some r \<Rightarrow> Some r | None \<Rightarrow> resume c ss) (scan_from c key it pc)"
proof (cases "position s < 0")
  case True
  then have "scan_from c key it pc = scan_line c key it ks 0 pc" using assms(1,4,5) by (simp add: scan_from_def)
  then show ?thesis
    using scan_line_progress [OF assms(1-3,5), of ks 0 c key] assms(5-8) True by (simp add: lookup_from_def)
next
  case False
  then have "scan_from c key it pc = scan_line c key it (drop (nat (position s)) ks) (position s) pc" using assms(1,5) by (simp add: scan_from_def)
  then show ?thesis
    using scan_line_progress [OF assms(1-3,5) refl, of "position s" c key] assms(5-8) False by (simp add: lookup_from_def)
qed

lemma index_key_ok:
  assumes "search_at root b lo hi it s ss" "pLine s = GenIndex fl f" "it = lo \<longrightarrow> k = b"
  shows "opt_all (\<lambda>y. key_ok root b lo it (7 - length ss) y \<and> \<not> same_index y) (f k)"
proof (cases "f k")
  case (Some y)
  have fit: "keys_fit (GenIndex fl f) (7 - length ss) (it - lo)" and first: "it = lo \<longrightarrow> first_line root b (GenIndex fl f)"
    using assms(1,2) by (auto simp: search_at_def)
  have "entry_fits y (7 - length ss) (it - lo)" and line: "\<not> same_index y" using fit Some by (fastforce simp: keys_fit_def opt_all_def split: option.splits)+
  moreover have "first_line root b y" if "same_line y" "it = lo"
    using first line that assms(3) Some by (auto simp: first_line_def split: DianaGenObject.splits)
  moreover have "\<not> (table_ok root \<and> is_legacy_prefix b)" if "y = GenCmd e" "it = lo" for e
    using first that assms(3) Some by (fastforce simp: first_line_def table_ok_def keys_fit_def opt_all_def split: DianaGenObject.splits option.splits)
  ultimately show ?thesis using Some by (auto simp: opt_all_def key_ok_def)
qed (simp add: opt_all_def)

lemma FindNextCmdKey_progress:
  assumes "states pc = s # ss" "search_at root b lo hi it s ss" "it = lo \<longrightarrow> fst key = b" "hi = cacheIt c + cacheSize c" "key = key_at c it" "fst key = byte_at c it"
  shows "progress c it (resume c (s # ss)) (FindNextCmdKey c key it pc)"
proof -
  let ?pc = "(set_position (position s + 1) pc)\<lparr>pc_result := None\<rparr>" and ?s = "s\<lparr>position := position s + 1\<rparr>"
  have pos: "0 \<le> position s + 1" and at: "opcodePosition s = it" using assms(2) by (simp_all add: search_at_def)
  have st: "states ?pc = ?s # ss" "pc_result ?pc = None" "search_at root b lo hi it ?s ss"
    using assms(1) pos search_at_position [OF assms(2), of "position s + 1"] by (simp_all add: states_set_position)
  show ?thesis
  proof (cases "pLine s")
    case (GenCmd e)
    then show ?thesis using assms(1) st by (simp add: FindNextCmdKey_def Let_def progress_def pending_keys_def lookup_from_def)
  next
    case (GenLine fl ks)
    then show ?thesis
      using scan_from_progress [OF st, of key fl ks c] assms(1,4-6) pos at by (simp add: FindNextCmdKey_def Let_def pending_keys_def)
  next
    case (GenIndex fl f)
    let ?k = "fst key" and ?p0 = "set_position (uint (fst key)) ?pc" and ?s0 = "s\<lparr>position := uint (fst key)\<rparr>"
    have s0: "states ?p0 = ?s0 # ss" "pc_result ?p0 = None" "search_at root b lo hi it ?s0 ss"
      using st search_at_position [OF assms(2) order_trans [of "-1" 0], of "uint ?k"] by (simp_all add: states_set_position) (simp add: set_position_def)
    have spent: "pending_keys c ?s0 = None" using GenIndex assms(6) at by (simp add: pending_keys_def lookup_from_def)
    show ?thesis
    proof (cases "position s + 1 > uint ?k")
      case True
      then show ?thesis using assms(1,6) st GenIndex at by (simp add: FindNextCmdKey_def Let_def progress_def pending_keys_def lookup_from_def)
    next
      case False
      then have R: "resume c (s # ss) = (case lookup_opt c it (f ?k) of Some r \<Rightarrow> Some r | None \<Rightarrow> resume c ss)"
        using GenIndex assms(6) at by (simp add: pending_keys_def lookup_from_def)
      note ok = index_key_ok [OF assms(2) GenIndex assms(3)]
      then have ok': "opt_all (key_ok root b lo it (7 - length ss)) (f ?k)" by (auto simp: opt_all_def split: option.splits)
      show ?thesis
      proof (cases rule: DispatchKey_lookup [OF s0 ok' assms(4,5)])
        case (1 r)
        then show ?thesis using assms(1) GenIndex False s0(1) R by (simp add: FindNextCmdKey_def Let_def progress_def)
      next
        case (2 e pc')
        then show ?thesis using assms(1) GenIndex False R by (simp add: FindNextCmdKey_def Let_def progress_def)
      next
        case (3 y pc')
        show ?thesis
        proof (cases "same_line y")
          case True
          let ?t = "new_state y it"
          have t: "search_at root b lo hi it ?t (?s0 # ss)" using 3(4,5) s0(3) True by (simp add: search_at_def)
          have "?k \<noteq> 2" using 3(3) True assms(2) GenIndex by (auto simp: search_at_def keys_fit_def opt_all_def)
          moreover obtain fl' ks where y: "y = GenLine fl' ks" using True ok 3(3) by (cases y) (auto simp: opt_all_def)
          ultimately have "progress c it (case lookup_from c it (-1) y of Some r \<Rightarrow> Some r | None \<Rightarrow> resume c (?s0 # ss)) (scan_from c key it pc')"
            using scan_from_progress [of pc' ?t "?s0 # ss" root b lo hi it key fl' ks c] 3(2,4) True t assms(4-6) by simp
          moreover have "lookup_from c it (-1) y = lookup_opt c it (f ?k)" using 3(6) True y by (simp add: pending_new lookup_from_def)
          moreover have "resume c (?s0 # ss) = resume c ss" using spent by simp
          ultimately have "progress c it (resume c (s # ss)) (scan_from c key it pc')" unfolding R by (simp only:)
          then show ?thesis using assms(1) GenIndex False True 3(1) by (simp add: FindNextCmdKey_def Let_def)
        next
          case False': False
          then show ?thesis using assms(1,4) GenIndex False 3 R spent by (auto simp: FindNextCmdKey_def Let_def progress_def split: option.splits)
        qed
      qed
    qed
  qed
qed

section \<open>The whole search\<close>

lemma search_loop_lookup:
  assumes "cache_ok c" "states pc = s # ss" "search_at root b lo (cacheIt c + cacheSize c) it s ss" "0 \<le> lo" "b = cache c ! nat lo"
  shows "search_loop c it pc = (case resume c (s # ss) of Some r \<Rightarrow> Inr r | None \<Rightarrow> Inl DI_ERROR)"
  using assms
proof (induction c it pc arbitrary: s ss rule: search_loop.induct)
  case (1 c it pc)
  let ?hi = "cacheIt c + cacheSize c"
  have it: "lo \<le> it" "it < ?hi" using 1(5) by (auto simp: search_at_def)
  obtain x where x: "GetKeyByAddress c it = Some (cache c ! nat it, x)"
    using GetKey_ok [OF 1(3), of it] it 1(6) by auto
  then have key: "GetKeyByAddress c it = Some (key_at c it)" "fst (key_at c it) = byte_at c it" by (simp_all add: key_at_def byte_at_def)
  have b: "it = lo \<longrightarrow> fst (key_at c it) = b" using key(2) 1(7) by (auto simp: byte_at_def)
  obtain found pc1 where step: "FindNextCmdKey c (key_at c it) it pc = Inr (found, pc1)" "step_ok root b lo ?hi it found pc1"
    using FindNextCmdKey_ok [OF 1(4,5) b, of c] by (auto simp: stepped_def split: sum.splits)
  have R: "progress c it (resume c (s # ss)) (Inr (found, pc1))"
    using FindNextCmdKey_progress [OF 1(4,5) b refl refl key(2)] step(1) by simp
  show ?case
  proof (cases "if found then pc_result pc1 else None")
    case (Some e)
    then have "resume c (s # ss) = Some (e, it)" using R by (simp add: progress_def)
    with Some step(1) key(1) show ?thesis unfolding search_loop.simps [of c it pc] by simp
  next
    case None
    then have R: "resume c (s # ss) = (if found \<and> it + 1 < ?hi then resume c (states pc1) else resume c (tl (states pc1)))"
      using R by (simp add: progress_def)
    show ?thesis
    proof (cases "found \<and> it + 1 < ?hi")
      case True
      with None step(2) obtain t ts where t: "states pc1 = t # ts" "search_at root b lo ?hi (it + 1) t ts"
        by (auto simp: step_ok_def search_at_def)
      from 1(1) [OF key(1) step(1) refl None True 1(3) t 1(6,7)] key(1) step(1) None True R t(1) show ?thesis
        unfolding search_loop.simps [of c it pc] by simp
    next
      case False
      have stack: "stack_ok root b lo (states pc1)" "\<forall>s\<in>set (tl (states pc1)). opcodePosition s < ?hi"
        using step(2) None by (cases "states pc1"; auto simp: step_ok_def split: if_splits)+
      show ?thesis
      proof (cases "FindNextCmdKey_Rollback pc1")
        case r: None
        then have "tl (states pc1) = []" by (auto simp: FindNextCmdKey_Rollback_def split: list.splits)
        then show ?thesis using key(1) step(1) None False r R unfolding search_loop.simps [of c it pc] by auto
      next
        case (Some z)
        obtain it' pc' where z: "z = (it', pc')" by fastforce
        obtain t ts where t: "states pc' = t # ts" "search_at root b lo ?hi it' t ts"
          using Rollback_ok [OF stack] Some z by blast
        have "tl (states pc1) = t # ts" using Some z t(1) by (auto simp: FindNextCmdKey_Rollback_def split: list.splits)
        with 1(2) [OF key(1) step(1) refl None False Some z [symmetric] 1(3) t 1(6,7)] key(1) step(1) None False Some z R show ?thesis
          unfolding search_loop.simps [of c it pc] by auto
      qed
    qed
  qed
qed

text \<open>
  C4: The search of the instruction table computes its reference definition: with a well-formed table and bytes in the cache, \<^verbatim>\<open>Diana_ParseCmdImpl\<close> finds the entry that \<open>lookup\<close> finds, the first one in
  the order of the table whose opcode bytes are those of the cache and whose mode, extension and prefix conditions hold, and leaves the proxy at its last opcode byte; it fails exactly when there is none.
\<close>

theorem search_is_lookup:
  assumes "table_ok root" "cache_ok (d_ctx d)" "0 < cacheSize (d_ctx d)"
  shows "Diana_ParseCmdImpl root d =
    (case lookup_from (d_ctx d) (cacheIt (d_ctx d)) 0 root of
       None \<Rightarrow> Err DI_ERROR d
     | Some (e, it) \<Rightarrow> Ok it (upd_res (\<lambda>r. r\<lparr>d_pInfo := Some e\<rparr>) (Diana_InitStreamProxy it (cacheIt (d_ctx d) + cacheSize (d_ctx d) - it) d)))"
proof -
  let ?c = "d_ctx d"
  let ?s = "new_state root (cacheIt ?c)"
  have "search_at root (cache ?c ! nat (cacheIt ?c)) (cacheIt ?c) (cacheIt ?c + cacheSize ?c) (cacheIt ?c) ?s []"
    using assms(1,3) by (simp add: search_at_def table_ok_def first_line_def)
  from search_loop_lookup [OF assms(2) _ this, of "DianaParserContext_Init root (cacheIt ?c)"] assms(2)
  have "search_loop ?c (cacheIt ?c) (DianaParserContext_Init root (cacheIt ?c)) = (case lookup_from ?c (cacheIt ?c) 0 root of Some r \<Rightarrow> Inr r | None \<Rightarrow> Inl DI_ERROR)"
    by (simp add: DianaParserContext_Init_def pending_new cache_ok_def split: option.split)
  then show ?thesis
    using assms(3) by (simp add: Diana_ParseCmdImpl_def di_basic_defs split: option.split)
qed

text \<open>The bytes 0F A2 in the cache.\<close>

definition cached_decoder :: "unit Decoder" where
  "cached_decoder = \<lparr>d_ctx = (Decoder_InitContext 8)\<lparr>cache := [0, 0, 0x0F, 0xA2, 0, 0, 0], cacheSize := 2\<rparr>, d_res = zero_decoder_result, d_stream = (),
     d_readFnc = (\<lambda>_ s. Err DI_END s), proxy_begin = 0, proxy_tail_size = 0\<rparr>"

theorem search_is_lookup_witness:
  "\<exists>d. Diana_ParseCmdImpl sample_root cached_decoder = Ok 3 d \<and> d_pInfo (d_res d) = Some (sample_line ''cpuid'' 0)"
proof -
  have c: "cache_ok (d_ctx cached_decoder)" "0 < cacheSize (d_ctx cached_decoder)"
    by (simp_all add: cached_decoder_def Decoder_InitContext_def cache_ok_def Let_def)
  have "lookup_from (d_ctx cached_decoder) (cacheIt (d_ctx cached_decoder)) 0 sample_root = Some (sample_line ''cpuid'' 0, 3)" by code_simp
  with search_is_lookup [OF sample_root_ok c] show ?thesis by simp
qed

end
