(* ===== verification/Stream_Copy.thy ===== *)
theory Stream_Copy
  imports Decoder_Correct
begin

unbundle bit_operations_syntax

text \<open>
  Copying and filling through a page: the loops end for every positive page size, and between buffers they move exactly the bytes asked for.
\<close>

section \<open>The loops end\<close>

text \<open>A round with a positive page moves at least one byte and no more than are left.\<close>

lemma page_use_bounds:
  assumes "0 < pageSize" "pageSize < 0x80000000" "n \<noteq> 0"
  shows "1 \<le> page_use pageSize n" "page_use pageSize n \<le> uint n" "page_use pageSize n \<le> pageSize"
proof -
  have w: "uint (word_of_int pageSize :: u64) = pageSize" using assms(1,2) by (simp add: uint_word_of_int_eq take_bit_int_eq_self)
  have n: "0 < uint n" using assms(3) uint_ge_0 [of n] unsigned_eq_0_iff [of n, where 'a = int] by linarith
  have small: "cast_int n = uint n" if "n < word_of_int pageSize"
  proof -
    have "uint n < 0x80000000" using that assms(2) w by (simp add: word_less_def)
    then show ?thesis by (intro cast_int_small) (simp add: word_less_def)
  qed
  show "1 \<le> page_use pageSize n" "page_use pageSize n \<le> uint n" "page_use pageSize n \<le> pageSize"
    using assms(1) w n small by (auto simp: page_use_def word_less_def not_less)
qed

lemma rest_less:
  assumes "0 < pageSize" "pageSize < 0x80000000" "n \<noteq> 0"
  shows "unat (n - word_of_int (page_use pageSize n)) < unat n"
proof -
  let ?u = "page_use pageSize n"
  note u = page_use_bounds [OF assms]
  have "uint (word_of_int ?u :: u64) = ?u" using u assms(2) by (simp add: uint_word_of_int_eq take_bit_int_eq_self)
  then have "uint (n - word_of_int ?u) = uint n - ?u" using u by (simp add: uint_sub_if')
  then have "uint (n - word_of_int ?u) < uint n" using u(1) by simp
  then show ?thesis by (simp add: word_less_def [symmetric] word_less_nat_alt)
qed

lemma copy_page_count: "copy_page rd wr address n st = Ok m st' \<Longrightarrow> m = word_of_int n"
  by (auto simp: copy_page_def DI_CHECK_def di_basic_defs on_fst_def on_snd_def split: di_res.splits if_splits)

lemma fill_page_count: "fill_page wr page address n st = Ok m st' \<Longrightarrow> m = word_of_int n"
  by (auto simp: fill_page_def DI_CHECK_def di_basic_defs split: di_res.splits if_splits)

lemma copy_loop_ends:
  assumes "0 < pageSize" "pageSize < 0x80000000"
  shows "\<exists>r. copy_loop rd wr pageSize address n st = Some r"
proof (induction "unat n" arbitrary: address n st rule: less_induct)
  case less
  show ?case
  proof (cases "n = 0")
    case True
    then show ?thesis by (simp add: copy_loop.simps)
  next
    case False
    show ?thesis
    proof (cases "copy_page rd wr address (page_use pageSize n) st")
      case (Ok m st')
      then have "m = word_of_int (page_use pageSize n)" by (rule copy_page_count)
      with less [OF rest_less [OF assms False]] Ok False show ?thesis by (simp add: copy_loop.simps [of rd wr pageSize address n])
    next
      case (Err x st')
      then show ?thesis using False by (simp add: copy_loop.simps [of rd wr pageSize address n])
    qed
  qed
qed

lemma memset_loop_ends:
  assumes "0 < pageSize" "pageSize < 0x80000000"
  shows "\<exists>r. memset_loop wr page pageSize address n st = Some r"
proof (induction "unat n" arbitrary: address n st rule: less_induct)
  case less
  show ?case
  proof (cases "n = 0")
    case True
    then show ?thesis by (simp add: memset_loop.simps)
  next
    case False
    show ?thesis
    proof (cases "fill_page wr page address (page_use pageSize n) st")
      case (Ok m st')
      then have "m = word_of_int (page_use pageSize n)" by (rule fill_page_count)
      with less [OF rest_less [OF assms False]] Ok False show ?thesis by (simp add: memset_loop.simps [of wr page pageSize address n])
    next
      case (Err x st')
      then show ?thesis using False by (simp add: memset_loop.simps [of wr page pageSize address n])
    qed
  qed
qed

text \<open>
  C24: Copying between streams and filling a stream end for every page size from 1 to 2^31 - 1, whatever the streams do: every round that goes on has moved at least one byte of what is
  left.
\<close>

theorem transfers_end:
  assumes "0 < pageSize" "pageSize < 0x80000000"
  shows "(\<exists>r. DianaStreams_CopyData rd wr address n pageSize st = Some r) \<and> (\<exists>r. DianaStreams_MemsetData wr' address n v pPage pageSize st' = Some r)"
proof
  show "\<exists>r. DianaStreams_CopyData rd wr address n pageSize st = Some r"
    using copy_loop_ends [OF assms, of rd wr address n st] by (simp add: DianaStreams_CopyData_def split: sum.split)
  show "\<exists>r. DianaStreams_MemsetData wr' address n v pPage pageSize st' = Some r"
    using memset_loop_ends [OF assms, of wr' _ address n st'] by (simp add: DianaStreams_MemsetData_def Let_def split: sum.split)
qed

theorem transfers_end_witness:
  "(\<exists>r. DianaStreams_CopyData MemoryStream_Read DianaMemoryStream_RandomWrite_V 0 3 2 (Diana_InitMemoryStream [1, 2, 3] 3, Diana_InitMemoryStream [0, 0, 0] 3) = Some r) \<and>
   (\<exists>r. DianaStreams_MemsetData DianaMemoryStream_RandomWrite_V 0 3 7 [0, 0] 2 (Diana_InitMemoryStream [0, 0, 0] 3) = Some r)"
  by (rule transfers_end) simp_all

section \<open>Copying between buffers\<close>

text \<open>A buffer that is written at its own addresses.\<close>

definition target_ok :: "DianaMemoryStream \<Rightarrow> bool" where
  "target_ok s \<longleftrightarrow> uint (ms_bufferSize s) = int (length (ms_pBuffer s)) \<and> ms_bufferSize s < 0x80000000 \<and> ms_addressDifference s = 0"

definition overwrite :: "nat \<Rightarrow> u8 list \<Rightarrow> u8 list \<Rightarrow> u8 list" where
  "overwrite i bs buf = take i buf @ bs @ drop (i + length bs) buf"

lemma length_overwrite [simp]: "i + length bs \<le> length buf \<Longrightarrow> length (overwrite i bs buf) = length buf"
  by (simp add: overwrite_def)

lemma overwrite_overwrite: "i + length bs \<le> length buf \<Longrightarrow> overwrite (i + length bs) cs (overwrite i bs buf) = overwrite i (bs @ cs) buf"
  by (simp add: overwrite_def ac_simps)

lemma RandomWrite_Ok:
  assumes "target_ok s" "unat off + length bs \<le> length (ms_pBuffer s)" "bs \<noteq> []"
  shows "DianaMemoryStream_RandomWrite_V off bs 0 s = Ok (of_nat (length bs)) (s\<lparr>ms_pBuffer := overwrite (unat off) bs (ms_pBuffer s)\<rparr>)"
proof -
  let ?z = "ms_bufferSize s"
  have z: "uint ?z = int (length (ms_pBuffer s))" "?z < 0x80000000" "uint ?z < 2 ^ 31" using assms(1) by (auto simp: target_ok_def word_less_def)
  have u: "uint off = int (unat off)" by simp
  have pos: "0 < length bs" using assms(3) by simp
  have off: "off < ?z" using assms(2) pos z(1) u unfolding word_less_def by linarith
  have left: "uint (?z - off) = uint ?z - uint off" using off by (simp add: uint_sub_if' word_less_def)
  then have "uint (?z - off) < 2 ^ 31" using z(3) uint_ge_0 [of off] by linarith
  then have "?z - off < 0x80000000" by (simp add: word_less_def)
  then have cast: "cast_int (?z - off) = uint ?z - uint off" using left by (simp add: cast_int_small)
  have len: "uint (word_of_int (int (length bs)) :: u64) = int (length bs)" using assms(2) z(1,3) by (simp add: uint_word_of_int_eq take_bit_int_eq_self del: of_int_of_nat_eq)
  have wide: "uint (word_of_int (uint ?z - uint off) :: u64) = uint ?z - uint off" using left by (metis uint_word_of_int_eq word_of_int_uint word_of_int_eq_iff)
  have le: "int (length bs) \<le> uint ?z - uint off" using assms(2) z(1) u by linarith
  have n: "random_size s off (int (length bs)) = word_of_int (int (length bs))"
  proof (cases "uint ?z - uint off = int (length bs)")
    case True
    then show ?thesis unfolding random_size_def cast Let_def by (simp only: if_cancel)
  next
    case False
    then show ?thesis using le unfolding random_size_def cast Let_def word_less_def wide len by simp
  qed
  have "unat (word_of_int (int (length bs)) :: u64) = length bs" using len by (metis nat_int unat_eq_nat_uint)
  moreover have "\<not> int (length (ms_pBuffer s)) < uint off + int (length bs)" using assms(2) u by linarith
  ultimately show ?thesis
    using assms(1,2) off n
    by (simp add: DianaMemoryStream_RandomWrite_V_def random_offset_def of_sum_def Translate_def target_ok_def ms_store_def overwrite_def
        DI_CHECK_def di_basic_defs not_le)
qed

lemma MemoryStream_Read_full:
  assumes "ms_ok s" "nat n \<le> length (ms_rest s)" "0 \<le> n"
  shows "\<exists>s'. MemoryStream_Read n s = Ok (take (nat n) (ms_rest s)) s' \<and> ms_ok s' \<and> ms_rest s' = drop (nat n) (ms_rest s) \<and> ms_pBuffer s' = ms_pBuffer s"
proof -
  let ?c = "ms_curSize s" and ?z = "ms_bufferSize s"
  have c: "uint ?c \<le> uint ?z" "uint ?z < 2 ^ 31" "uint ?z = int (length (ms_pBuffer s))"
    using assms(1) by (auto simp: ms_ok_def word_le_def word_less_def)
  have left: "uint (?z - ?c) = uint ?z - uint ?c" using c(1) by (simp add: uint_sub_if')
  have "uint (?z - ?c) < 2 ^ 31" using left c(2) uint_ge_0 [of ?c] by linarith
  then have "?z - ?c < 0x80000000" by (simp add: word_less_def)
  then have cast: "cast_int (?z - ?c) = uint ?z - uint ?c" using left by (simp add: cast_int_small)
  have u: "uint ?c = int (unat ?c)" by simp
  have "unat ?c \<le> length (ms_pBuffer s)" using c(1,3) u by linarith
  then have "n \<le> uint ?z - uint ?c" using assms(2,3) unfolding c(3) u ms_rest_def length_drop by linarith
  then have "min (cast_int (?z - ?c)) n = n" using cast by simp
  obtain bs s' where r: "MemoryStream_Read n s = Ok bs s'" "ms_ok s'" "ms_rest s = bs @ ms_rest s'" "ms_pBuffer s' = ms_pBuffer s"
    using ms_read [OF assms(1,3)] by force
  have "bs = take (nat n) (ms_rest s)"
    using r(1) \<open>min (cast_int (?z - ?c)) n = n\<close>
    by (auto simp: MemoryStream_Read_def DI_CHECK_def di_basic_defs Let_def ms_bytes_def ms_rest_def split: if_splits)
  moreover have "ms_rest s' = drop (nat n) (ms_rest s)"
    using r(3) calculation assms(2) by (metis append_eq_conv_conj length_take min.absorb2)
  ultimately show ?thesis using r by blast
qed

text \<open>The bytes moved so far are where they belong, and the rest follows.\<close>

lemma copy_loop_buffers:
  assumes "0 < pageSize" "pageSize < 0x80000000" "ms_ok src" "target_ok dst" "unat n \<le> length (ms_rest src)" "unat address + unat n \<le> length (ms_pBuffer dst)"
  shows "\<exists>src' dst'. copy_loop MemoryStream_Read DianaMemoryStream_RandomWrite_V pageSize address n (src, dst) = Some (Ok () (src', dst')) \<and>
    ms_pBuffer dst' = overwrite (unat address) (take (unat n) (ms_rest src)) (ms_pBuffer dst) \<and> ms_rest src' = drop (unat n) (ms_rest src)"
  using assms(3-6)
proof (induction "unat n" arbitrary: address n src dst rule: less_induct)
  case less
  show ?case
  proof (cases "n = 0")
    case True
    then show ?thesis by (simp add: copy_loop.simps overwrite_def)
  next
    case False
    let ?u = "page_use pageSize n"
    note u = page_use_bounds [OF assms(1,2) False]
    let ?k = "nat ?u" and ?bs = "take (nat (page_use pageSize n)) (ms_rest src)"
    have k: "?k \<le> unat n" using u(2) unfolding unat_eq_nat_uint by (rule nat_mono)
    have k1: "1 \<le> ?k" using u(1) by linarith
    obtain src1 where r: "MemoryStream_Read ?u src = Ok ?bs src1" "ms_ok src1" "ms_rest src1 = drop ?k (ms_rest src)"
      using MemoryStream_Read_full [OF less.prems(1) order_trans [OF k less.prems(3)] order_trans [OF zero_le_one u(1)]] by blast
    have len: "length ?bs = ?k" using k less.prems(3) by simp
    then have some: "?bs \<noteq> []" using k1 by (metis list.size(3) not_one_le_zero)
    let ?dst = "dst\<lparr>ms_pBuffer := overwrite (unat address) ?bs (ms_pBuffer dst)\<rparr>"
    have w: "DianaMemoryStream_RandomWrite_V address ?bs 0 dst = Ok (of_nat ?k) ?dst"
      using RandomWrite_Ok [OF less.prems(2), of address ?bs] len some k less.prems(4) by simp
    have word: "(of_nat ?k :: u64) = word_of_int ?u" using u(1) by (metis of_int_of_nat_eq of_nat_nat order_trans zero_le_one)
    have page: "copy_page MemoryStream_Read DianaMemoryStream_RandomWrite_V address ?u (src, dst) = Ok (of_nat ?k) (src1, ?dst)"
      using r(1) w len u(1) word by (simp add: copy_page_def DI_CHECK_def di_basic_defs on_fst_def on_snd_def)
    let ?n = "n - of_nat ?k" and ?a = "address + of_nat ?k"
    have small: "unat (of_nat ?k :: u64) = ?k" using k unsigned_less [of n, where 'a = nat] by (simp add: unsigned_of_nat take_bit_nat_eq_self)
    have n: "unat ?n = unat n - ?k" using small k by (simp add: unat_sub_if')
    have "unat address + ?k < 2 ^ 64" using less.prems(2,4) k unsigned_less [of "ms_bufferSize dst", where 'a = int] by (simp add: target_ok_def)
    then have a: "unat ?a = unat address + ?k" using small by (simp add: unat_word_ariths)
    have dst: "target_ok ?dst" "length (ms_pBuffer ?dst) = length (ms_pBuffer dst)"
      using less.prems(2,4) len k by (simp_all add: target_ok_def)
    have h: "unat ?n < unat n" "unat ?n \<le> length (ms_rest src1)" "unat ?a + unat ?n \<le> length (ms_pBuffer ?dst)"
      using n a k k1 r(3) dst(2) less.prems(3,4) by simp_all
    obtain src' dst' where IH: "copy_loop MemoryStream_Read DianaMemoryStream_RandomWrite_V pageSize ?a ?n (src1, ?dst) = Some (Ok () (src', dst'))"
      "ms_pBuffer dst' = overwrite (unat ?a) (take (unat ?n) (ms_rest src1)) (ms_pBuffer ?dst)" "ms_rest src' = drop (unat ?n) (ms_rest src1)"
      using less.hyps [OF h(1) r(2) dst(1) h(2,3)] by blast
    have "take ?k (ms_rest src) @ take (unat n - ?k) (drop ?k (ms_rest src)) = take (unat n) (ms_rest src)"
      using k by (metis le_add_diff_inverse take_add)
    then have "ms_pBuffer dst' = overwrite (unat address) (take (unat n) (ms_rest src)) (ms_pBuffer dst)"
      using IH(2) a n r(3) len overwrite_overwrite [of "unat address" ?bs "ms_pBuffer dst"] k less.prems(4) by simp
    moreover have "ms_rest src' = drop (unat n) (ms_rest src)" using IH(3) n r(3) k by simp
    ultimately show ?thesis
      using IH(1) page False by (simp add: copy_loop.simps [of _ _ _ address n])
  qed
qed

text \<open>
  C23: Copying between two buffers below 2 GiB moves exactly the bytes asked for, whatever the page size: the target holds the next \<open>n\<close> unread bytes of the source from \<open>address\<close> on and its own bytes
  elsewhere, and the source has moved past them.
\<close>

theorem copy_moves_bytes:
  assumes "0 < pageSize" "pageSize < 0x80000000" "ms_ok src" "target_ok dst" "unat n \<le> length (ms_rest src)" "unat address + unat n \<le> length (ms_pBuffer dst)"
  shows "\<exists>src' dst'. DianaStreams_CopyData MemoryStream_Read DianaMemoryStream_RandomWrite_V address n pageSize (src, dst) = Some (Ok () (src', dst')) \<and>
    ms_pBuffer dst' = overwrite (unat address) (take (unat n) (ms_rest src)) (ms_pBuffer dst) \<and> ms_rest src' = drop (unat n) (ms_rest src)"
proof -
  have "unat address + unat n < 2 ^ 64" using assms(4,6) unsigned_less [of "ms_bufferSize dst", where 'a = int] by (simp add: target_ok_def)
  moreover have "unat (0xFFFFFFFFFFFFFFFF - address) = 0xFFFFFFFFFFFFFFFF - unat address"
    using unsigned_less [of address, where 'a = nat] by (simp add: unat_sub_if')
  ultimately have "\<not> 0xFFFFFFFFFFFFFFFF - address < n" by (simp add: word_less_nat_alt)
  then show ?thesis using copy_loop_buffers [OF assms] by (simp add: DianaStreams_CopyData_def Diana_SafeAdd_def)
qed

theorem copy_moves_bytes_witness:
  "\<exists>src' dst'. DianaStreams_CopyData MemoryStream_Read DianaMemoryStream_RandomWrite_V 1 3 2 (Diana_InitMemoryStream [1, 2, 3, 4] 4, Diana_InitMemoryStream [9, 9, 9, 9, 9] 5) =
     Some (Ok () (src', dst')) \<and> ms_pBuffer dst' = [9, 1, 2, 3, 9] \<and> ms_rest src' = [4]"
  using copy_moves_bytes [of 2 "Diana_InitMemoryStream [1, 2, 3, 4] 4" "Diana_InitMemoryStream [9, 9, 9, 9, 9] 5" 3 1]
  by (simp add: Diana_InitMemoryStream_def Diana_InitMemoryStreamEx2_def ms_ok_def target_ok_def ms_rest_def overwrite_def)

end
