(* ===== verification/Data_Refinement.thy ===== *)
theory Data_Refinement
  imports Diana_Prelude
begin

text \<open>
  Operations on a state against operations on an abstract value: the contract \<open>data_refinement\<close>, from which sequences of operations follow.  The abstract operation is partial: \<open>None\<close> means that
  the caller may not call the operation there.  A refusal is an error the implementation may return instead of doing its work; it leaves the value as it was.
\<close>

fun run_steps :: "('op \<Rightarrow> ('r, 's) di_prog) \<Rightarrow> 'op list \<Rightarrow> ('r list, 's) di_prog" where
  "run_steps step [] s = Ok [] s"
| "run_steps step (c # cs) s =
     (case step c s of Err x t \<Rightarrow> Err x t
      | Ok r t \<Rightarrow> (case run_steps step cs t of Ok rs u \<Rightarrow> Ok (r # rs) u | Err x u \<Rightarrow> Err x u))"

fun run_spec :: "('op \<Rightarrow> 'a \<Rightarrow> ('r \<times> 'a) option) \<Rightarrow> 'op list \<Rightarrow> 'a \<Rightarrow> ('r list \<times> 'a) option" where
  "run_spec spec [] a = Some ([], a)"
| "run_spec spec (c # cs) a =
     (case spec c a of None \<Rightarrow> None
      | Some (r, b) \<Rightarrow> (case run_spec spec cs b of None \<Rightarrow> None | Some (rs, d) \<Rightarrow> Some (r # rs, d)))"

text \<open>The outcome \<open>out\<close> agrees with the abstract result \<open>r\<close> and value \<open>b\<close>, or refuses with some value kept.\<close>

definition agrees :: "('s \<Rightarrow> 'a \<Rightarrow> bool) \<Rightarrow> (di_error \<Rightarrow> bool) \<Rightarrow> ('r, 's) di_res \<Rightarrow> 'r \<Rightarrow> 'a \<Rightarrow> bool" where
  "agrees R refusal out r b = (case out of Ok r' t \<Rightarrow> r' = r \<and> R t b | Err x t \<Rightarrow> refusal x \<and> (\<exists>a. R t a))"

locale data_refinement =
  fixes R :: "'s \<Rightarrow> 'a \<Rightarrow> bool"
    and step :: "'op \<Rightarrow> ('r, 's) di_prog"
    and spec :: "'op \<Rightarrow> 'a \<Rightarrow> ('r \<times> 'a) option"
    and refusal :: "di_error \<Rightarrow> bool"
  assumes simulate: "R s a \<Longrightarrow> spec c a = Some (r, b) \<Longrightarrow> agrees R refusal (step c s) r b"
begin

lemma run: "R s a \<Longrightarrow> run_spec spec cs a = Some (rs, b) \<Longrightarrow> agrees R refusal (run_steps step cs s) rs b"
proof (induction cs arbitrary: s a rs)
  case Nil
  then show ?case by (simp add: agrees_def)
next
  case (Cons c cs)
  then obtain r d rs' where d: "spec c a = Some (r, d)" "run_spec spec cs d = Some (rs', b)" "rs = r # rs'"
    by (auto split: option.splits)
  have one: "agrees R refusal (step c s) r d" by (rule simulate [OF Cons.prems(1) d(1)])
  show ?case
  proof (cases "step c s")
    case (Ok r' t)
    then have "r' = r" "R t d" using one by (simp_all add: agrees_def)
    with Ok Cons.IH [OF \<open>R t d\<close> d(2)] d(3) show ?thesis by (auto simp: agrees_def split: di_res.splits)
  next
    case (Err x t)
    with one show ?thesis by (simp add: agrees_def)
  qed
qed

end

text \<open>An implementation that never refuses.\<close>

locale total_refinement = data_refinement R step spec "\<lambda>_. False"
  for R :: "'s \<Rightarrow> 'a \<Rightarrow> bool" and step :: "'op \<Rightarrow> ('r, 's) di_prog" and spec :: "'op \<Rightarrow> 'a \<Rightarrow> ('r \<times> 'a) option"
begin

lemma run_total: "R s a \<Longrightarrow> run_spec spec cs a = Some (rs, b) \<Longrightarrow> \<exists>t. run_steps step cs s = Ok rs t \<and> R t b"
  using run [of s a cs rs b] by (auto simp: agrees_def split: di_res.splits)

end

end
