(* ===== verification/Linked_List.thy ===== *)
theory Linked_List
  imports Data_Refinement
begin

text \<open>
  The intrusive lists of \<^verbatim>\<open>diana_list.c\<close> over an explicit store of nodes.  Addresses are natural numbers with 0 as the null pointer; the store is partial, and every access to a null or
  unallocated address is \<open>C_UNDEFINED\<close>.  A node is a record that the client extends, the way a C client puts the list entry first in its own structure; the list head extends the store, so that
  a client's state can extend the head in turn.  The doubly linked list refines a sequence of addresses, the circular list is walked from its first node to its last.
\<close>

section \<open>The store of nodes\<close>

record 'c node_heap =
  cells :: "nat \<Rightarrow> 'c option"

definition deref :: "nat \<Rightarrow> ('c, ('c, 'z) node_heap_scheme) di_prog" where
  "deref p s = (case cells s p of Some c \<Rightarrow> if p = 0 then Err C_UNDEFINED s else Ok c s | None \<Rightarrow> Err C_UNDEFINED s)"

definition upd_cell :: "(nat \<Rightarrow> 'c option) \<Rightarrow> nat \<Rightarrow> ('c \<Rightarrow> 'c) \<Rightarrow> nat \<Rightarrow> 'c option" where
  "upd_cell h p f = h(p := map_option f (h p))"

definition assign :: "nat \<Rightarrow> ('c \<Rightarrow> 'c) \<Rightarrow> (unit, ('c, 'z) node_heap_scheme) di_prog" where
  "assign p f = DI_CHECK (deref p) (\<lambda>_. DI_DO (\<lambda>s. s\<lparr>cells := upd_cell (cells s) p f\<rparr>) DI_PROC_END)"

definition release :: "nat \<Rightarrow> (unit, ('c, 'z) node_heap_scheme) di_prog" where
  "release p = DI_CHECK (deref p) (\<lambda>_. DI_DO (\<lambda>s. s\<lparr>cells := (cells s)(p := None)\<rparr>) DI_PROC_END)"

text \<open>The addresses that can be accessed.\<close>

definition valid :: "('c, 'z) node_heap_scheme \<Rightarrow> nat \<Rightarrow> bool" where
  "valid s p \<longleftrightarrow> p \<noteq> 0 \<and> cells s p \<noteq> None"

lemma validD: "valid s p \<Longrightarrow> p \<noteq> 0 \<and> cells s p \<noteq> None"
  by (simp add: valid_def)

lemma deref_Ok [di_simps]: "valid s p \<Longrightarrow> deref p s = Ok (the (cells s p)) s"
  by (auto simp: valid_def deref_def)

lemma assign_Ok [di_simps]: "valid s p \<Longrightarrow> assign p f s = Ok () (s\<lparr>cells := upd_cell (cells s) p f\<rparr>)"
  by (simp add: assign_def di_simps)

lemma release_Ok [di_simps]: "valid s p \<Longrightarrow> release p s = Ok () (s\<lparr>cells := (cells s)(p := None)\<rparr>)"
  by (simp add: release_def di_simps)

lemma upd_cell_other [simp]: "a \<noteq> p \<Longrightarrow> upd_cell h p f a = h a"
  by (simp add: upd_cell_def)

lemma upd_cell_same [simp]: "upd_cell h p f p = map_option f (h p)"
  by (simp add: upd_cell_def)

lemma upd_cell_None [simp]: "upd_cell h p f a = None \<longleftrightarrow> h a = None"
  by (cases "a = p") simp_all

lemma valid_upd [simp]: "valid (s\<lparr>cells := upd_cell h p f\<rparr>) a \<longleftrightarrow> valid (s\<lparr>cells := h\<rparr>) a"
  by (simp add: valid_def)

section \<open>The doubly linked list\<close>

record Diana_ListNode =
  m_pNext :: nat
  m_pPrev :: nat

record 'n Diana_List = "'n Diana_ListNode_scheme node_heap" +
  m_pFirst :: nat
  m_pLast :: nat
  m_listSize :: u64

type_synonym ('a, 'n, 'z) list_prog = "('a, ('n, 'z) Diana_List_scheme) di_prog"

definition Diana_InitList :: "('n, 'z) Diana_List_scheme \<Rightarrow> ('n, 'z) Diana_List_scheme" where
  "Diana_InitList s = s\<lparr>m_pFirst := 0, m_pLast := 0, m_listSize := 0\<rparr>"

definition Diana_PushBack :: "nat \<Rightarrow> (unit, 'n, 'z) list_prog" where
  "Diana_PushBack pNode =
     DI_CHECK (assign pNode (\<lambda>n. n\<lparr>m_pNext := 0\<rparr>)) (\<lambda>_.
     DI_CHECK (assign pNode (\<lambda>n. n\<lparr>m_pPrev := 0\<rparr>)) (\<lambda>_.
     DI_LET m_pLast (\<lambda>l.
     DI_CHECK (if l \<noteq> 0
       then DI_CHECK (assign l (\<lambda>n. n\<lparr>m_pNext := pNode\<rparr>)) (\<lambda>_.
            DI_CHECK (assign pNode (\<lambda>n. n\<lparr>m_pPrev := l\<rparr>)) (\<lambda>_.
            DI_DO (\<lambda>s. s\<lparr>m_pLast := pNode\<rparr>) DI_PROC_END))
       else DI_DO (\<lambda>s. s\<lparr>m_pFirst := pNode, m_pLast := pNode\<rparr>) DI_PROC_END) (\<lambda>_.
     DI_DO (\<lambda>s. s\<lparr>m_listSize := m_listSize s + 1\<rparr>) DI_PROC_END))))"

definition Diana_PushFront :: "nat \<Rightarrow> (unit, 'n, 'z) list_prog" where
  "Diana_PushFront pNode =
     DI_CHECK (assign pNode (\<lambda>n. n\<lparr>m_pNext := 0\<rparr>)) (\<lambda>_.
     DI_CHECK (assign pNode (\<lambda>n. n\<lparr>m_pPrev := 0\<rparr>)) (\<lambda>_.
     DI_LET m_pFirst (\<lambda>f.
     DI_CHECK (if f \<noteq> 0
       then DI_CHECK (assign f (\<lambda>n. n\<lparr>m_pPrev := pNode\<rparr>)) (\<lambda>_.
            DI_CHECK (assign pNode (\<lambda>n. n\<lparr>m_pNext := f\<rparr>)) (\<lambda>_.
            DI_DO (\<lambda>s. s\<lparr>m_pFirst := pNode\<rparr>) DI_PROC_END))
       else DI_DO (\<lambda>s. s\<lparr>m_pFirst := pNode, m_pLast := pNode\<rparr>) DI_PROC_END) (\<lambda>_.
     DI_DO (\<lambda>s. s\<lparr>m_listSize := m_listSize s + 1\<rparr>) DI_PROC_END))))"

definition Diana_InsertAfter :: "nat \<Rightarrow> nat \<Rightarrow> (unit, 'n, 'z) list_prog" where
  "Diana_InsertAfter pNode pNodeToInsert =
     DI_CHECK (deref pNode) (\<lambda>n. let pNextNode = m_pNext n in
     DI_LET m_pLast (\<lambda>l. if l = pNode then Diana_PushBack pNodeToInsert else
     DI_CHECK (assign pNode (\<lambda>n. n\<lparr>m_pNext := pNodeToInsert\<rparr>)) (\<lambda>_.
     DI_CHECK (assign pNextNode (\<lambda>n. n\<lparr>m_pPrev := pNodeToInsert\<rparr>)) (\<lambda>_.
     DI_CHECK (assign pNodeToInsert (\<lambda>n. n\<lparr>m_pNext := pNextNode\<rparr>)) (\<lambda>_.
     assign pNodeToInsert (\<lambda>n. n\<lparr>m_pPrev := pNode\<rparr>))))))"

definition Diana_InsertBefore :: "nat \<Rightarrow> nat \<Rightarrow> (unit, 'n, 'z) list_prog" where
  "Diana_InsertBefore pNode pNodeToInsert =
     DI_CHECK (deref pNode) (\<lambda>n. let pPrevNode = m_pPrev n in
     DI_LET m_pFirst (\<lambda>f. if f = pNode then Diana_PushFront pNodeToInsert else
     DI_CHECK (assign pNode (\<lambda>n. n\<lparr>m_pPrev := pNodeToInsert\<rparr>)) (\<lambda>_.
     DI_CHECK (assign pPrevNode (\<lambda>n. n\<lparr>m_pNext := pNodeToInsert\<rparr>)) (\<lambda>_.
     DI_CHECK (assign pNodeToInsert (\<lambda>n. n\<lparr>m_pNext := pNode\<rparr>)) (\<lambda>_.
     assign pNodeToInsert (\<lambda>n. n\<lparr>m_pPrev := pPrevNode\<rparr>))))))"

definition Diana_EraseNode :: "nat \<Rightarrow> (unit, 'n, 'z) list_prog" where
  "Diana_EraseNode pNode =
     DI_CHECK (deref pNode) (\<lambda>n. let pNextNode = m_pNext n; prev = m_pPrev n in
     DI_CHECK (if pNextNode \<noteq> 0 then assign pNextNode (\<lambda>c. c\<lparr>m_pPrev := prev\<rparr>)
               else DI_DO (\<lambda>s. s\<lparr>m_pLast := prev\<rparr>) DI_PROC_END) (\<lambda>_.
     DI_CHECK (deref pNode) (\<lambda>n. let prev = m_pPrev n in
     DI_CHECK (if prev \<noteq> 0 then assign prev (\<lambda>c. c\<lparr>m_pNext := pNextNode\<rparr>)
               else DI_CHECK (deref pNode) (\<lambda>n. DI_DO (\<lambda>s. s\<lparr>m_pFirst := m_pNext n\<rparr>) DI_PROC_END)) (\<lambda>_.
     DI_CHECK (assign pNode (\<lambda>c. c\<lparr>m_pPrev := 0\<rparr>)) (\<lambda>_.
     DI_CHECK (assign pNode (\<lambda>c. c\<lparr>m_pNext := 0\<rparr>)) (\<lambda>_.
     DI_DO (\<lambda>s. s\<lparr>m_listSize := m_listSize s - 1\<rparr>) DI_PROC_END))))))"

text \<open>
  An observer gets a node and may change anything, also free the node; its value is \<^verbatim>\<open>*pbDone\<close>.  A walk over links that form a cycle does not end; \<open>None\<close> is its value.
\<close>

type_synonym ('n, 'z) list_observer = "nat \<Rightarrow> (bool, 'n, 'z) list_prog"

partial_function (option) ForEach_loop :: "('n, 'z) list_observer \<Rightarrow> nat \<Rightarrow> ('n, 'z) Diana_List_scheme \<Rightarrow> (unit, ('n, 'z) Diana_List_scheme) di_res option" where
  "ForEach_loop obs pNode s =
     (if pNode = 0 then Some (Ok () s) else
      case deref pNode s of Err x t \<Rightarrow> Some (Err x t)
      | Ok n t \<Rightarrow> (case obs pNode t of Err x u \<Rightarrow> Some (Err x u)
          | Ok bDone u \<Rightarrow> if bDone then Some (Ok () u) else ForEach_loop obs (m_pNext n) u))"

definition Diana_ListForEach :: "('n, 'z) list_observer \<Rightarrow> ('n, 'z) Diana_List_scheme \<Rightarrow> (unit, ('n, 'z) Diana_List_scheme) di_res option" where
  "Diana_ListForEach obs s = ForEach_loop obs (m_pFirst s) s"

declare ForEach_loop.simps [code]

section \<open>Segments of linked nodes\<close>

text \<open>The nodes \<open>xs\<close> are linked in both directions, the first back to \<open>p\<close> and the last on to \<open>n\<close>.\<close>

fun dseg :: "(nat \<Rightarrow> 'n Diana_ListNode_scheme option) \<Rightarrow> nat \<Rightarrow> nat list \<Rightarrow> nat \<Rightarrow> bool" where
  "dseg h p [] n = True"
| "dseg h p (x # xs) n = (x \<noteq> 0 \<and> (\<exists>c. h x = Some c \<and> m_pPrev c = p \<and> m_pNext c = hd (xs @ [n])) \<and> dseg h x xs n)"

lemma dseg_append:
  "dseg h p (xs @ ys) n \<longleftrightarrow> dseg h p xs (hd (ys @ [n])) \<and> dseg h (last (p # xs)) ys n"
  by (induction xs arbitrary: p) auto

lemma dseg_cong: "(\<And>x. x \<in> set xs \<Longrightarrow> h x = h' x) \<Longrightarrow> dseg h p xs n = dseg h' p xs n"
  by (induction xs arbitrary: p) auto

lemma dseg_upd [simp]: "a \<notin> set xs \<Longrightarrow> dseg (upd_cell h a f) p xs n = dseg h p xs n"
  by (rule dseg_cong) (metis upd_cell_other)

lemma dseg_in: "dseg h p xs n \<Longrightarrow> x \<in> set xs \<Longrightarrow> x \<noteq> 0 \<and> h x \<noteq> None"
  by (induction xs arbitrary: p) auto

lemma dseg_set_next:
  assumes "dseg h p xs n" "distinct xs" "xs \<noteq> []"
  shows "dseg (upd_cell h (last xs) (\<lambda>c. c\<lparr>m_pNext := n'\<rparr>)) p xs n'"
proof -
  obtain ys y where xs: "xs = ys @ [y]" using assms(3) by (metis append_butlast_last_id)
  then show ?thesis using assms by (auto simp: dseg_append)
qed

lemma dseg_set_prev:
  assumes "dseg h p xs n" "distinct xs" "xs \<noteq> []"
  shows "dseg (upd_cell h (hd xs) (\<lambda>c. c\<lparr>m_pPrev := p'\<rparr>)) p' xs n"
  using assms by (cases xs) auto

text \<open>The list \<open>s\<close> holds the nodes \<open>xs\<close>.\<close>

definition dlist :: "('n, 'z) Diana_List_scheme \<Rightarrow> nat list \<Rightarrow> bool" where
  "dlist s xs \<longleftrightarrow> distinct xs \<and> dseg (cells s) 0 xs 0 \<and> m_pFirst s = hd (xs @ [0]) \<and> m_pLast s = last (0 # xs)"

lemma dlist_valid: "dlist s xs \<Longrightarrow> x \<in> set xs \<Longrightarrow> valid s x"
  by (auto simp: dlist_def valid_def dest: dseg_in)

lemma valid_head [simp]:
  "valid (s\<lparr>m_pFirst := a\<rparr>) = valid s" "valid (s\<lparr>m_pLast := a\<rparr>) = valid s" "valid (s\<lparr>m_listSize := n\<rparr>) = valid s"
  by (rule ext, simp add: valid_def)+

lemma dlist_init: "dlist (Diana_InitList s) []"
  by (simp add: dlist_def Diana_InitList_def)

text \<open>Relinking keeps what the client stores in the nodes and outside the list.\<close>

definition relinked :: "('n, 'z) Diana_List_scheme \<Rightarrow> ('n, 'z) Diana_List_scheme \<Rightarrow> bool" where
  "relinked s t \<longleftrightarrow> (\<forall>a. map_option Diana_ListNode.more (cells t a) = map_option Diana_ListNode.more (cells s a)) \<and> Diana_List.more t = Diana_List.more s"

lemma relinked_refl [simp]: "relinked s s"
  by (simp add: relinked_def)

lemma relinked_trans: "relinked s t \<Longrightarrow> relinked t u \<Longrightarrow> relinked s u"
  by (simp add: relinked_def)

lemma relinked_valid: "relinked s t \<Longrightarrow> valid t a \<longleftrightarrow> valid s a"
  unfolding relinked_def valid_def by (metis map_option_is_None)

lemma relinked_head [simp]:
  "relinked s (t\<lparr>m_pFirst := a\<rparr>) = relinked s t" "relinked s (t\<lparr>m_pLast := a\<rparr>) = relinked s t" "relinked s (t\<lparr>m_listSize := n\<rparr>) = relinked s t"
  by (simp_all add: relinked_def)

lemma relinked_upd:
  assumes "\<And>c. Diana_ListNode.more (f c) = Diana_ListNode.more c"
  shows "relinked s (t\<lparr>cells := upd_cell h p f\<rparr>) = relinked s (t\<lparr>cells := h\<rparr>)"
proof -
  have "map_option Diana_ListNode.more (upd_cell h p f a) = map_option Diana_ListNode.more (h a)" for a
    using assms by (simp add: upd_cell_def option.map_comp comp_def)
  then show ?thesis by (simp add: relinked_def)
qed

lemma relinked_link [simp]:
  "relinked s (t\<lparr>cells := upd_cell h p (m_pNext_update f)\<rparr>) = relinked s (t\<lparr>cells := h\<rparr>)"
  "relinked s (t\<lparr>cells := upd_cell h p (m_pPrev_update f)\<rparr>) = relinked s (t\<lparr>cells := h\<rparr>)"
  by (rule relinked_upd, simp)+

lemma relinked_cells [simp]: "relinked s (s\<lparr>cells := cells s\<rparr>)"
  by (simp add: relinked_def)

section \<open>Operations on the sequence\<close>

lemma PushBack_Ok:
  assumes "dlist s xs" "valid s p" "p \<notin> set xs"
  shows "\<exists>t. Diana_PushBack p s = Ok () t \<and> dlist t (xs @ [p]) \<and> relinked s t \<and> m_listSize t = m_listSize s + 1"
proof (cases "xs = []")
  case True
  then show ?thesis using assms
    by (auto simp: Diana_PushBack_def di_simps dlist_def valid_def)
next
  case False
  let ?l = "last xs"
  have l: "m_pLast s = ?l" "valid s ?l" "?l \<noteq> 0" "?l \<noteq> p"
    using assms False dlist_valid [OF assms(1), of ?l] by (auto simp: dlist_def valid_def)
  let ?h = "upd_cell (upd_cell (cells s) p (\<lambda>n. n\<lparr>m_pNext := 0\<rparr>)) p (\<lambda>n. n\<lparr>m_pPrev := 0\<rparr>)"
  have "dseg (upd_cell ?h ?l (\<lambda>n. n\<lparr>m_pNext := p\<rparr>)) 0 xs p"
    by (rule dseg_set_next) (use assms False in \<open>auto simp: dlist_def\<close>)
  then show ?thesis using assms False l
    by (auto simp: Diana_PushBack_def di_simps dlist_def dseg_append valid_def)
qed

lemma PushFront_Ok:
  assumes "dlist s xs" "valid s p" "p \<notin> set xs"
  shows "\<exists>t. Diana_PushFront p s = Ok () t \<and> dlist t (p # xs) \<and> relinked s t \<and> m_listSize t = m_listSize s + 1"
proof (cases "xs = []")
  case True
  then show ?thesis using assms
    by (auto simp: Diana_PushFront_def di_simps dlist_def valid_def)
next
  case False
  let ?f = "hd xs"
  have f: "m_pFirst s = ?f" "valid s ?f" "?f \<noteq> 0" "?f \<noteq> p"
    using assms False dlist_valid [OF assms(1), of ?f] by (auto simp: dlist_def valid_def)
  let ?h = "upd_cell (upd_cell (cells s) p (\<lambda>n. n\<lparr>m_pNext := 0\<rparr>)) p (\<lambda>n. n\<lparr>m_pPrev := 0\<rparr>)"
  have "dseg (upd_cell ?h ?f (\<lambda>n. n\<lparr>m_pPrev := p\<rparr>)) p xs 0"
    by (rule dseg_set_prev) (use assms False in \<open>auto simp: dlist_def\<close>)
  then show ?thesis using assms False f
    by (auto simp: Diana_PushFront_def di_simps dlist_def valid_def)
qed

lemma InsertAfter_Ok:
  assumes "dlist s (as @ q # bs)" "valid s p" "p \<notin> set (as @ q # bs)"
  shows "\<exists>t. Diana_InsertAfter q p s = Ok () t \<and> dlist t (as @ q # p # bs) \<and> relinked s t \<and>
    m_listSize t = (if bs = [] then m_listSize s + 1 else m_listSize s)"
proof -
  have q: "valid s q" by (rule dlist_valid [OF assms(1)]) simp
  show ?thesis
  proof (cases "bs = []")
    case True
    then have "Diana_InsertAfter q p s = Diana_PushBack p s"
      using q assms(1) by (simp add: Diana_InsertAfter_def di_simps dlist_def Let_def)
    with PushBack_Ok [OF assms] True show ?thesis by simp
  next
    case False
    let ?y = "hd bs"
    have y: "valid s ?y" by (rule dlist_valid [OF assms(1)]) (use False in simp)
    have seg: "dseg (cells s) 0 (as @ [q]) ?y" "dseg (cells s) q bs 0" "distinct (as @ [q])" "distinct bs" "set (as @ [q]) \<inter> set bs = {}"
      using assms(1) False dseg_append [of "cells s" 0 "as @ [q]" bs 0] by (auto simp: dlist_def)
    have dis: "?y \<notin> set (as @ [q])" "q \<notin> set bs" "?y \<noteq> q" "q \<noteq> p" "?y \<noteq> p" using seg False assms(3) by (auto dest: hd_in_set)
    have n: "m_pNext (the (cells s q)) = ?y" using seg(1) False by (auto simp: dseg_append)
    have last: "m_pLast s \<noteq> q" using assms(1) False dis(2) last_in_set [OF False] by (auto simp: dlist_def)
    let ?h = "upd_cell (upd_cell (cells s) q (\<lambda>n. n\<lparr>m_pNext := p\<rparr>)) ?y (\<lambda>n. n\<lparr>m_pPrev := p\<rparr>)"
    have "dseg ?h 0 (as @ [q]) p" "dseg ?h p bs 0"
      using dseg_set_next [OF seg(1,3), of p] dseg_set_prev [OF _ seg(4), of "upd_cell (cells s) q (\<lambda>n. n\<lparr>m_pNext := p\<rparr>)" q 0 p] seg(2) dis(1,2) False
      by auto
    then show ?thesis
      using assms q y n last False dis seg by (auto simp: Diana_InsertAfter_def Let_def di_simps dlist_def valid_def dseg_append [of _ _ "as @ [q]" "p # bs", simplified] hd_append)
  qed
qed

lemma InsertBefore_Ok:
  assumes "dlist s (as @ q # bs)" "valid s p" "p \<notin> set (as @ q # bs)"
  shows "\<exists>t. Diana_InsertBefore q p s = Ok () t \<and> dlist t (as @ p # q # bs) \<and> relinked s t \<and>
    m_listSize t = (if as = [] then m_listSize s + 1 else m_listSize s)"
proof -
  have q: "valid s q" by (rule dlist_valid [OF assms(1)]) simp
  show ?thesis
  proof (cases "as = []")
    case True
    then have "Diana_InsertBefore q p s = Diana_PushFront p s"
      using q assms(1) by (simp add: Diana_InsertBefore_def di_simps dlist_def Let_def)
    with PushFront_Ok [OF assms] True show ?thesis by simp
  next
    case False
    let ?y = "last as"
    have y: "valid s ?y" by (rule dlist_valid [OF assms(1)]) (use False in simp)
    have seg: "dseg (cells s) 0 as q" "dseg (cells s) ?y (q # bs) 0" "distinct as" "distinct (q # bs)" "set as \<inter> set (q # bs) = {}"
      using assms(1) False dseg_append [of "cells s" 0 as "q # bs" 0] by (auto simp: dlist_def)
    have dis: "?y \<notin> set (q # bs)" "q \<notin> set as" "?y \<noteq> q" "q \<noteq> p" "?y \<noteq> p" using seg False assms(3) by (auto dest: last_in_set)
    have n: "m_pPrev (the (cells s q)) = ?y" using seg(2) by auto
    have first: "m_pFirst s \<noteq> q" using assms(1) False dis(2) hd_in_set [OF False] by (auto simp: dlist_def)
    let ?h = "upd_cell (upd_cell (cells s) q (\<lambda>n. n\<lparr>m_pPrev := p\<rparr>)) ?y (\<lambda>n. n\<lparr>m_pNext := p\<rparr>)"
    have "dseg ?h 0 as p" "dseg ?h p (q # bs) 0"
      using dseg_set_prev [OF seg(2,4), of p] dseg_set_next [OF _ seg(3), of "upd_cell (cells s) q (\<lambda>n. n\<lparr>m_pPrev := p\<rparr>)" 0 q p] seg(1) dis(1,2) False
      by auto
    then show ?thesis
      using assms q y n first False dis seg by (auto simp: Diana_InsertBefore_def Let_def di_simps dlist_def valid_def dseg_append)
  qed
qed

text \<open>Erasing: the two neighbours are linked to each other, or the head to the remaining one.\<close>

lemma dseg_join:
  assumes "dseg h p as q" "dseg h q' bs n" "distinct as" "distinct bs" "set as \<inter> set bs = {}"
    "g = (if bs = [] then h else upd_cell h (hd bs) (\<lambda>c. c\<lparr>m_pPrev := last (p # as)\<rparr>))"
    "f = (if as = [] then g else upd_cell g (last as) (\<lambda>c. c\<lparr>m_pNext := hd (bs @ [n])\<rparr>))"
  shows "dseg f p (as @ bs) n"
proof -
  have "bs \<noteq> [] \<Longrightarrow> hd bs \<notin> set as" "as \<noteq> [] \<Longrightarrow> last as \<notin> set bs" using assms(5) by (auto dest: hd_in_set last_in_set)
  then have "dseg g p as q" "dseg g (last (p # as)) bs n" "dseg f (last (p # as)) bs n = dseg g (last (p # as)) bs n"
    using assms(1,2,6,7) dseg_set_prev [OF assms(2,4), of "last (p # as)"] by auto
  then show ?thesis using dseg_set_next [of g p as q "hd (bs @ [n])"] assms(3,7) by (auto simp: dseg_append)
qed

lemma EraseNode_Ok:
  assumes "dlist s (as @ q # bs)"
  shows "\<exists>t. Diana_EraseNode q s = Ok () t \<and> dlist t (as @ bs) \<and> relinked s t \<and> m_listSize t = m_listSize s - 1 \<and>
    (\<exists>c. cells t q = Some c \<and> m_pNext c = 0 \<and> m_pPrev c = 0)"
proof -
  let ?b = "hd (bs @ [0])" and ?a = "last (0 # as)"
  have v: "valid s q" "as \<noteq> [] \<Longrightarrow> valid s (last as)" "bs \<noteq> [] \<Longrightarrow> valid s (hd bs)"
    by (rule dlist_valid [OF assms(1)], simp)+
  have seg: "dseg (cells s) 0 as q" "dseg (cells s) q bs 0" "distinct as" "distinct bs" "set as \<inter> set bs = {}" "q \<notin> set as" "q \<notin> set bs"
    using assms by (auto simp: dlist_def dseg_append)
  obtain c where c: "cells s q = Some c" "m_pPrev c = ?a" "m_pNext c = ?b" "q \<noteq> 0"
    using assms by (auto simp: dlist_def dseg_append)
  have ne: "as \<noteq> [] \<Longrightarrow> last as \<noteq> q \<and> last as \<noteq> 0" "bs \<noteq> [] \<Longrightarrow> hd bs \<noteq> q \<and> hd bs \<noteq> 0"
    using seg v by (auto simp: valid_def dest: hd_in_set last_in_set)
  note j = dseg_join [OF seg(1-5) refl refl]
  show ?thesis using j assms v c ne seg
    by (cases "as = []"; cases "bs = []") (auto simp: Diana_EraseNode_def Let_def di_simps dlist_def valid_def)
qed

section \<open>Refinement of a sequence\<close>

text \<open>
  The calls a client may make, and their meaning on the free nodes and the sequence of linked ones: a node to insert is free, a position is linked.  The third component counts the nodes that are
  linked without being counted in \<^verbatim>\<open>m_size\<close>: \<^verbatim>\<open>Diana_InsertAfter\<close> and \<^verbatim>\<open>Diana_InsertBefore\<close> count only the insertions that they pass on to the pushes.
\<close>

datatype list_op = PushBack nat | PushFront nat | InsertAfter nat nat | InsertBefore nat nat | EraseNode nat

fun list_step :: "list_op \<Rightarrow> (unit, 'n, 'z) list_prog" where
  "list_step (PushBack p) = Diana_PushBack p"
| "list_step (PushFront p) = Diana_PushFront p"
| "list_step (InsertAfter q p) = Diana_InsertAfter q p"
| "list_step (InsertBefore q p) = Diana_InsertBefore q p"
| "list_step (EraseNode p) = Diana_EraseNode p"

fun insert_next :: "nat \<Rightarrow> nat \<Rightarrow> nat list \<Rightarrow> nat list" where
  "insert_next q p [] = []"
| "insert_next q p (x # xs) = (if x = q then x # p # xs else x # insert_next q p xs)"

fun insert_prev :: "nat \<Rightarrow> nat \<Rightarrow> nat list \<Rightarrow> nat list" where
  "insert_prev q p [] = []"
| "insert_prev q p (x # xs) = (if x = q then p # x # xs else x # insert_prev q p xs)"

type_synonym sequence = "nat set \<times> nat list \<times> nat"

fun sequence_spec :: "list_op \<Rightarrow> sequence \<Rightarrow> (unit \<times> sequence) option" where
  "sequence_spec (PushBack p) (F, xs, d) = (if p \<in> F then Some ((), F - {p}, xs @ [p], d) else None)"
| "sequence_spec (PushFront p) (F, xs, d) = (if p \<in> F then Some ((), F - {p}, p # xs, d) else None)"
| "sequence_spec (InsertAfter q p) (F, xs, d) =
     (if p \<in> F \<and> q \<in> set xs then Some ((), F - {p}, insert_next q p xs, if q = last xs then d else d + 1) else None)"
| "sequence_spec (InsertBefore q p) (F, xs, d) =
     (if p \<in> F \<and> q \<in> set xs then Some ((), F - {p}, insert_prev q p xs, if q = hd xs then d else d + 1) else None)"
| "sequence_spec (EraseNode p) (F, xs, d) = (if p \<in> set xs then Some ((), insert p F, remove1 p xs, d) else None)"

definition holds_sequence :: "('n, 'z) Diana_List_scheme \<Rightarrow> ('n, 'z) Diana_List_scheme \<Rightarrow> sequence \<Rightarrow> bool" where
  "holds_sequence s0 s = (\<lambda>(F, xs, d). dlist s xs \<and> relinked s0 s \<and> F = {a. valid s a} - set xs \<and> m_listSize s = of_nat (length xs) - of_nat d)"

lemma insert_next_split: "q \<notin> set as \<Longrightarrow> insert_next q p (as @ q # bs) = as @ q # p # bs"
  by (induction as) auto

lemma insert_prev_split: "q \<notin> set as \<Longrightarrow> insert_prev q p (as @ q # bs) = as @ p # q # bs"
  by (induction as) auto

lemma dlist_split:
  assumes "dlist s xs" "q \<in> set xs"
  obtains as bs where "xs = as @ q # bs" "q \<notin> set as" "q \<notin> set bs"
  using assms split_list_first [OF assms(2)] by (auto simp: dlist_def)

text \<open>One step: it succeeds, the nodes keep what the client stores in them, and the sequence follows.\<close>

lemma holds_sequenceI:
  assumes "\<exists>t. step = Ok () t \<and> dlist t ys \<and> relinked s t \<and> m_listSize t = of_nat (length ys) - of_nat d" "relinked s0 s" "G = {a. valid s a} - set ys"
  shows "agrees (holds_sequence s0) (\<lambda>_. False) step () (G, ys, d)"
  using assms relinked_valid by (fastforce simp: agrees_def holds_sequence_def intro: relinked_trans)

lemma list_step_simulates:
  assumes "holds_sequence s0 s a" "sequence_spec c a = Some (r, b)"
  shows "agrees (holds_sequence s0) (\<lambda>_. False) (list_step c s) r b"
proof -
  obtain F xs d where a: "a = (F, xs, d)" "dlist s xs" "relinked s0 s" "F = {a. valid s a} - set xs" "m_listSize s = of_nat (length xs) - of_nat d"
    using assms(1) by (cases a) (auto simp: holds_sequence_def)
  obtain G ys e where b: "b = (G, ys, e)" by (cases b)
  let ?P = "\<exists>t. list_step c s = Ok () t \<and> dlist t ys \<and> relinked s t \<and> m_listSize t = of_nat (length ys) - of_nat e" and ?G = "G = {a. valid s a} - set ys"
  have "?P \<and> ?G"
  proof (cases c)
    case (PushBack p)
    then show ?thesis using assms(2) a b PushBack_Ok [of s xs p] by (auto split: if_splits)
  next
    case (PushFront p)
    then show ?thesis using assms(2) a b PushFront_Ok [of s xs p] by (auto split: if_splits)
  next
    case (InsertAfter q p)
    with assms(2) a b have q: "q \<in> set xs" "valid s p" "p \<notin> set xs" by (auto split: if_splits)
    obtain as bs where x: "xs = as @ q # bs" "q \<notin> set as" "q \<notin> set bs" by (rule dlist_split [OF a(2) q(1)])
    then have "q = last xs \<longleftrightarrow> bs = []" by auto
    then show ?thesis
      using InsertAfter assms(2) a b q x InsertAfter_Ok [of s as q bs p] by (auto simp: insert_next_split split: if_splits)
  next
    case (InsertBefore q p)
    with assms(2) a b have q: "q \<in> set xs" "valid s p" "p \<notin> set xs" by (auto split: if_splits)
    obtain as bs where x: "xs = as @ q # bs" "q \<notin> set as" "q \<notin> set bs" by (rule dlist_split [OF a(2) q(1)])
    then have "q = hd xs \<longleftrightarrow> as = []" by (cases as) auto
    then show ?thesis
      using InsertBefore assms(2) a b q x InsertBefore_Ok [of s as q bs p] by (auto simp: insert_prev_split split: if_splits)
  next
    case (EraseNode q)
    with assms(2) a b have q: "q \<in> set xs" by (auto split: if_splits)
    obtain as bs where x: "xs = as @ q # bs" "q \<notin> set as" "q \<notin> set bs" by (rule dlist_split [OF a(2) q(1)])
    then show ?thesis
      using EraseNode assms(2) a b q EraseNode_Ok [of s as q bs] dlist_valid [OF a(2) q] by (auto simp: remove1_append split: if_splits)
  qed
  then show ?thesis using b a(3) by (auto intro!: holds_sequenceI)
qed

interpretation node_list: total_refinement "holds_sequence s0" list_step sequence_spec
  by unfold_locales (rule list_step_simulates)

section \<open>Walking a list\<close>

text \<open>The observer called on the elements of a sequence, in order, until it fails or is done.\<close>

fun visit :: "(nat \<Rightarrow> (bool, 's) di_prog) \<Rightarrow> nat list \<Rightarrow> (unit, 's) di_prog" where
  "visit obs [] s = Ok () s"
| "visit obs (x # xs) s = (case obs x s of Err e t \<Rightarrow> Err e t | Ok bDone t \<Rightarrow> if bDone then Ok () t else visit obs xs t)"

text \<open>An observer that works on its node, which it may free, and leaves the links of the others.\<close>

definition local_observer :: "(nat \<Rightarrow> (bool, ('c, 'z) node_heap_scheme) di_prog) \<Rightarrow> bool" where
  "local_observer obs \<longleftrightarrow> (\<forall>x s d t a. obs x s = Ok d t \<longrightarrow> a \<noteq> x \<longrightarrow> cells t a = cells s a)"

lemma ForEach_loop_visit:
  assumes "local_observer obs" "dseg (cells s) p xs 0" "distinct xs"
  shows "ForEach_loop obs (hd (xs @ [0])) s = Some (visit obs xs s)"
  using assms(2,3)
proof (induction xs arbitrary: p s)
  case Nil
  then show ?case by (simp add: ForEach_loop.simps)
next
  case (Cons x xs)
  then obtain c where c: "x \<noteq> 0" "cells s x = Some c" "m_pNext c = hd (xs @ [0])" by auto
  have rest: "dseg (cells t) x xs 0" if "obs x s = Ok d t" for d t
  proof -
    have "cells t a = cells s a" if "a \<in> set xs" for a
      using assms(1) \<open>obs x s = Ok d t\<close> that Cons.prems(2) unfolding local_observer_def by (metis distinct.simps(2))
    then show ?thesis using Cons.prems(1) dseg_cong [of xs "cells t" "cells s"] by simp
  qed
  show ?case using Cons c rest by (auto simp: ForEach_loop.simps [of obs x s] di_simps valid_def split: di_res.splits)
qed

lemma ForEach_visit:
  "local_observer obs \<Longrightarrow> dlist s xs \<Longrightarrow> Diana_ListForEach obs s = Some (visit obs xs s)"
  by (auto simp: Diana_ListForEach_def dlist_def intro: ForEach_loop_visit)

section \<open>The circular list\<close>

record Diana_FList_ListNode =
  m_pFNext :: nat

record 'n Diana_FList_List = "'n Diana_FList_ListNode_scheme node_heap" +
  m_pFLast :: nat

type_synonym ('a, 'n, 'z) flist_prog = "('a, ('n, 'z) Diana_FList_List_scheme) di_prog"

definition Diana_FList_InitList :: "('n, 'z) Diana_FList_List_scheme \<Rightarrow> ('n, 'z) Diana_FList_List_scheme" where
  "Diana_FList_InitList s = s\<lparr>m_pFLast := 0\<rparr>"

definition Diana_FList_PushBack :: "nat \<Rightarrow> (unit, 'n, 'z) flist_prog" where
  "Diana_FList_PushBack pNode =
     DI_LET m_pFLast (\<lambda>l.
     DI_CHECK (if l \<noteq> 0
       then DI_CHECK (deref l) (\<lambda>n.
            DI_CHECK (assign pNode (\<lambda>c. c\<lparr>m_pFNext := m_pFNext n\<rparr>)) (\<lambda>_.
            assign l (\<lambda>c. c\<lparr>m_pFNext := pNode\<rparr>)))
       else assign pNode (\<lambda>c. c\<lparr>m_pFNext := pNode\<rparr>)) (\<lambda>_.
     DI_DO (\<lambda>s. s\<lparr>m_pFLast := pNode\<rparr>) DI_PROC_END))"

definition Diana_FList_First :: "(nat, 'n, 'z) flist_prog" where
  "Diana_FList_First = DI_LET m_pFLast (\<lambda>l. if l = 0 then DI_RETURN 0 else DI_CHECK (deref l) (\<lambda>n. DI_RETURN (m_pFNext n)))"

definition Diana_FList_Next :: "nat \<Rightarrow> (nat, 'n, 'z) flist_prog" where
  "Diana_FList_Next pNode = DI_LET m_pFLast (\<lambda>l. if pNode = l then DI_RETURN 0 else DI_CHECK (deref pNode) (\<lambda>n. DI_RETURN (m_pFNext n)))"

partial_function (option) FList_ForEach_loop ::
    "(nat \<Rightarrow> (bool, 'n, 'z) flist_prog) \<Rightarrow> nat \<Rightarrow> ('n, 'z) Diana_FList_List_scheme \<Rightarrow> (unit, ('n, 'z) Diana_FList_List_scheme) di_res option" where
  "FList_ForEach_loop obs pNode s =
     (case deref pNode s of Err x t \<Rightarrow> Some (Err x t)
      | Ok n t \<Rightarrow> (case obs pNode t of Err x u \<Rightarrow> Some (Err x u)
          | Ok bDone u \<Rightarrow> if bDone \<or> pNode = m_pFLast t then Some (Ok () u) else FList_ForEach_loop obs (m_pFNext n) u))"

definition Diana_FList_ListForEach ::
    "(nat \<Rightarrow> (bool, 'n, 'z) flist_prog) \<Rightarrow> ('n, 'z) Diana_FList_List_scheme \<Rightarrow> (unit, ('n, 'z) Diana_FList_List_scheme) di_res option" where
  "Diana_FList_ListForEach obs s =
     (if m_pFLast s = 0 then Some (Ok () s) else
      case deref (m_pFLast s) s of Err x t \<Rightarrow> Some (Err x t) | Ok n t \<Rightarrow> FList_ForEach_loop obs (m_pFNext n) t)"

declare FList_ForEach_loop.simps [code]

text \<open>The nodes \<open>xs\<close> are linked forward, the last on to \<open>n\<close>; in a list the last is linked to the first.\<close>

fun fseg :: "(nat \<Rightarrow> 'n Diana_FList_ListNode_scheme option) \<Rightarrow> nat list \<Rightarrow> nat \<Rightarrow> bool" where
  "fseg h [] n = True"
| "fseg h (x # xs) n = (x \<noteq> 0 \<and> (\<exists>c. h x = Some c \<and> m_pFNext c = hd (xs @ [n])) \<and> fseg h xs n)"

definition flist :: "('n, 'z) Diana_FList_List_scheme \<Rightarrow> nat list \<Rightarrow> bool" where
  "flist s xs \<longleftrightarrow> distinct xs \<and> fseg (cells s) xs (hd xs) \<and> m_pFLast s = last (0 # xs)"

lemma fseg_append: "fseg h (xs @ ys) n \<longleftrightarrow> fseg h xs (hd (ys @ [n])) \<and> fseg h ys n"
  by (induction xs) (auto simp: hd_append)

lemma fseg_cong: "(\<And>x. x \<in> set xs \<Longrightarrow> h x = h' x) \<Longrightarrow> fseg h xs n = fseg h' xs n"
  by (induction xs) auto

lemma fseg_upd [simp]: "a \<notin> set xs \<Longrightarrow> fseg (upd_cell h a f) xs n = fseg h xs n"
  by (rule fseg_cong) (metis upd_cell_other)

lemma fseg_in: "fseg h xs n \<Longrightarrow> x \<in> set xs \<Longrightarrow> x \<noteq> 0 \<and> h x \<noteq> None"
  by (induction xs) auto

lemma flist_valid: "flist s xs \<Longrightarrow> x \<in> set xs \<Longrightarrow> valid s x"
  by (auto simp: flist_def valid_def dest: fseg_in)

lemma valid_FLast [simp]: "valid (s\<lparr>m_pFLast := l\<rparr>) = valid s"
  by (rule ext) (simp add: valid_def)

lemma FList_PushBack_Ok:
  assumes "flist s xs" "valid s p" "p \<notin> set xs"
  shows "\<exists>t. Diana_FList_PushBack p s = Ok () t \<and> flist t (xs @ [p]) \<and> valid t = valid s"
proof (cases xs rule: rev_cases)
  case Nil
  then show ?thesis using assms validD [OF assms(2)] by (auto simp: Diana_FList_PushBack_def di_simps flist_def)
next
  case (snoc ys l)
  have l: "m_pFLast s = l" "valid s l" "l \<noteq> p" "l \<notin> set ys" "p \<notin> set ys" "distinct ys"
    using snoc assms flist_valid [OF assms(1), of l] by (auto simp: flist_def)
  have h: "hd (ys @ [l]) = hd (ys @ [l, p])" by (cases ys) auto
  show ?thesis using assms(1,2) snoc l h validD [OF assms(2)]
    by (auto simp: Diana_FList_PushBack_def di_simps flist_def fseg_append hd_append)
qed

lemma FList_loop_visit:
  assumes "local_observer obs" "\<forall>x s d t. obs x s = Ok d t \<longrightarrow> m_pFLast t = m_pFLast s"
    "fseg (cells s) xs n" "distinct xs" "xs \<noteq> []" "m_pFLast s = last xs"
  shows "FList_ForEach_loop obs (hd xs) s = Some (visit obs xs s)"
  using assms(3-)
proof (induction xs arbitrary: s)
  case Nil
  then show ?case by simp
next
  case (Cons x xs)
  then obtain c where c: "x \<noteq> 0" "cells s x = Some c" "m_pFNext c = hd (xs @ [n])" by auto
  have rest: "fseg (cells t) xs n" "m_pFLast t = m_pFLast s" if "obs x s = Ok d t" for d t
  proof -
    have "cells t a = cells s a" if "a \<in> set xs" for a
      using assms(1) \<open>obs x s = Ok d t\<close> that Cons.prems(2) unfolding local_observer_def by (metis distinct.simps(2))
    then show "fseg (cells t) xs n" using Cons.prems(1) fseg_cong [of xs "cells t" "cells s"] by simp
    show "m_pFLast t = m_pFLast s" using assms(2) that by blast
  qed
  have end_iff: "x = m_pFLast s \<longleftrightarrow> xs = []" using Cons.prems by (auto split: if_splits)
  show ?case
  proof (cases "obs x s")
    case (Err e t)
    then show ?thesis using c by (simp add: FList_ForEach_loop.simps [of obs x s] di_simps valid_def)
  next
    case (Ok d t)
    then show ?thesis using c end_iff rest [OF Ok] Cons.IH [of t] Cons.prems
      by (cases "xs = []") (auto simp: FList_ForEach_loop.simps [of obs x s] di_simps valid_def)
  qed
qed

lemma FList_ForEach_visit:
  assumes "local_observer obs" "\<forall>x s d t. obs x s = Ok d t \<longrightarrow> m_pFLast t = m_pFLast s" "flist s xs"
  shows "Diana_FList_ListForEach obs s = Some (visit obs xs s)"
proof (cases xs rule: rev_cases)
  case Nil
  then show ?thesis using assms(3) by (simp add: Diana_FList_ListForEach_def flist_def)
next
  case (snoc ys l)
  have "m_pFLast s = l" "valid s l" "m_pFNext (the (cells s l)) = hd xs"
    using assms(3) snoc flist_valid [OF assms(3), of l] by (auto simp: flist_def fseg_append)
  moreover have "FList_ForEach_loop obs (hd xs) s = Some (visit obs xs s)"
    by (rule FList_loop_visit [OF assms(1,2)]) (use assms(3) snoc in \<open>auto simp: flist_def\<close>)
  ultimately show ?thesis using validD [of s l] by (simp add: Diana_FList_ListForEach_def di_simps)
qed

text \<open>First and Next walk the sequence without running into the cycle.\<close>

lemma FList_First_Ok:
  assumes "flist s xs"
  shows "Diana_FList_First s = Ok (hd (xs @ [0])) s"
proof (cases xs rule: rev_cases)
  case Nil
  then show ?thesis using assms by (simp add: Diana_FList_First_def di_simps flist_def)
next
  case (snoc ys l)
  then show ?thesis using assms flist_valid [OF assms, of l]
    by (auto simp: Diana_FList_First_def di_simps flist_def fseg_append hd_append valid_def split: if_splits)
qed

lemma FList_Next_Ok:
  assumes "flist s (as @ x # bs)"
  shows "Diana_FList_Next x s = Ok (hd (bs @ [0])) s"
proof -
  have v: "valid s x" by (rule flist_valid [OF assms]) simp
  have l: "m_pFLast s = x \<longleftrightarrow> bs = []" using assms last_in_set [of bs] by (auto simp: flist_def)
  show ?thesis
  proof (cases "bs = []")
    case True
    then show ?thesis using l by (simp add: Diana_FList_Next_def di_simps)
  next
    case False
    then show ?thesis using assms v l by (auto simp: Diana_FList_Next_def di_simps flist_def fseg_append)
  qed
qed

text \<open>Appending, on the free nodes and the sequence.\<close>

fun append_spec :: "nat \<Rightarrow> nat set \<times> nat list \<Rightarrow> (unit \<times> nat set \<times> nat list) option" where
  "append_spec p (F, xs) = (if p \<in> F then Some ((), F - {p}, xs @ [p]) else None)"

definition holds_circle :: "('n, 'z) Diana_FList_List_scheme \<Rightarrow> nat set \<times> nat list \<Rightarrow> bool" where
  "holds_circle s = (\<lambda>(F, xs). flist s xs \<and> F = {a. valid s a} - set xs)"

interpretation circle: total_refinement holds_circle Diana_FList_PushBack append_spec
proof unfold_locales
  fix s a p r b
  assume "holds_circle s a" "append_spec p a = Some (r, b)"
  then show "agrees holds_circle (\<lambda>_. False) (Diana_FList_PushBack p s) r b"
    using FList_PushBack_Ok [of s "snd a" p] by (cases a) (auto simp: holds_circle_def agrees_def split: if_splits)
qed

section \<open>Properties\<close>

definition sample_nodes :: "nat \<Rightarrow> Diana_ListNode option" where
  "sample_nodes a = (if a \<in> {1, 2, 3, 4} then Some \<lparr>m_pNext = 7, m_pPrev = 7\<rparr> else None)"

definition sample_list :: "unit Diana_List" where
  "sample_list = \<lparr>cells = sample_nodes, m_pFirst = 9, m_pLast = 9, m_listSize = 9\<rparr>"

text \<open>The observer that frees its node.\<close>

definition freeing :: "nat \<Rightarrow> (bool, ('c, 'z) node_heap_scheme) di_prog" where
  "freeing x = DI_CHECK (release x) (\<lambda>_. DI_RETURN False)"

lemma freeing_local: "local_observer freeing"
  by (auto simp: local_observer_def freeing_def release_def deref_def DI_CHECK_def di_basic_defs split: option.splits if_splits)

text \<open>
  C11: The doubly linked list refines a sequence: from an initialised head, every sequence of calls of the five operations that inserts free nodes at linked positions and erases linked nodes succeeds
  without touching an address outside the store, links exactly the nodes of the sequence in both directions, and keeps what the client stores in the nodes and behind the head.  Walking the list
  calls the observer once per node in the order of the sequence and ends, also when the observer frees its node.  \<^verbatim>\<open>m_size\<close> is the length of the sequence less the insertions inside the list.
\<close>

theorem list_refines_sequence:
  fixes s :: "('n, 'z) Diana_List_scheme"
  assumes "run_spec sequence_spec ops ({a. valid s a}, [], 0) = Some (rs, F, xs, d)" "local_observer obs"
  shows "\<exists>t. run_steps list_step ops (Diana_InitList s) = Ok rs t \<and> dlist t xs \<and> relinked s t \<and> F = {a. valid s a} - set xs \<and>
    m_listSize t = of_nat (length xs) - of_nat d \<and> Diana_ListForEach obs t = Some (visit obs xs t)"
proof -
  have "holds_sequence s (Diana_InitList s) ({a. valid s a}, [], 0)"
    using dlist_init [of s] by (simp add: holds_sequence_def) (simp add: Diana_InitList_def)
  from node_list.run_total [OF this assms(1)] obtain t where t: "run_steps list_step ops (Diana_InitList s) = Ok rs t" "holds_sequence s t (F, xs, d)"
    by blast
  then have "dlist t xs" "relinked s t" "F = {a. valid s a} - set xs" "m_listSize t = of_nat (length xs) - of_nat d"
    by (auto simp: holds_sequence_def relinked_valid)
  with t(1) ForEach_visit [OF assms(2)] show ?thesis by blast
qed

theorem list_refines_sequence_witness:
  "\<exists>t. run_steps list_step [PushBack 1, PushFront 2, InsertAfter 2 3, InsertBefore 3 4, EraseNode 1] (Diana_InitList sample_list) = Ok [(), (), (), (), ()] t \<and>
    dlist t [2, 4, 3] \<and> m_listSize t = 1 \<and> Diana_ListForEach freeing t = Some (visit freeing [2, 4, 3] t)"
proof -
  have v: "{a. valid sample_list a} = {1, 2, 3, 4}" by (auto simp: valid_def sample_list_def sample_nodes_def)
  have "run_spec sequence_spec [PushBack 1, PushFront 2, InsertAfter 2 3, InsertBefore 3 4, EraseNode 1] ({a. valid sample_list a}, [], 0) =
      Some ([(), (), (), (), ()], insert 1 ({1, 2, 3, 4} - {1} - {2} - {3} - {4}), [2, 4, 3], 2)"
    unfolding v by auto
  from list_refines_sequence [OF this freeing_local] show ?thesis by auto
qed

text \<open>
  C25: The circular list appends: pushing free nodes one after another onto an initialised list links them in that order, \<^verbatim>\<open>Diana_FList_First\<close> and \<^verbatim>\<open>Diana_FList_Next\<close> walk them and stop after the last
  although its link leads back to the first, and the loop over the list calls the observer once per node, in order, also when the observer frees its node.
\<close>

theorem circle_refines_sequence:
  assumes "run_spec append_spec ps ({a. valid s a}, []) = Some (rs, F, xs)" "local_observer obs" "\<forall>x s d t. obs x s = Ok d t \<longrightarrow> m_pFLast t = m_pFLast s"
  shows "\<exists>t. run_steps Diana_FList_PushBack ps (Diana_FList_InitList s) = Ok rs t \<and> flist t xs \<and> Diana_FList_First t = Ok (hd (xs @ [0])) t \<and>
    (\<forall>as x bs. xs = as @ x # bs \<longrightarrow> Diana_FList_Next x t = Ok (hd (bs @ [0])) t) \<and> Diana_FList_ListForEach obs t = Some (visit obs xs t)"
proof -
  have "holds_circle (Diana_FList_InitList s) ({a. valid s a}, [])" by (simp add: holds_circle_def flist_def Diana_FList_InitList_def)
  from circle.run_total [OF this assms(1)] obtain t where "run_steps Diana_FList_PushBack ps (Diana_FList_InitList s) = Ok rs t" "flist t xs"
    by (auto simp: holds_circle_def)
  then show ?thesis using FList_First_Ok FList_Next_Ok FList_ForEach_visit [OF assms(2,3)] by blast
qed

theorem circle_refines_sequence_witness:
  "\<exists>t. run_steps Diana_FList_PushBack [1, 3, 2] (Diana_FList_InitList \<lparr>cells = (\<lambda>a. if a \<le> 3 then Some \<lparr>m_pFNext = 5\<rparr> else None), m_pFLast = 8\<rparr>) = Ok [(), (), ()] t \<and>
    Diana_FList_First t = Ok 1 t \<and> Diana_FList_Next 3 t = Ok 2 t \<and> Diana_FList_Next 2 t = Ok 0 t \<and> Diana_FList_ListForEach freeing t = Some (visit freeing [1, 3, 2] t)"
proof -
  let ?s = "\<lparr>cells = (\<lambda>a. if a \<le> 3 then Some \<lparr>m_pFNext = 5\<rparr> else None), m_pFLast = 8\<rparr>"
  have v: "{a. valid ?s a} = {1, 2, 3}" by (auto simp: valid_def)
  have r: "run_spec append_spec [1, 3, 2] ({a. valid ?s a}, []) = Some ([(), (), ()], {1, 2, 3} - {1} - {3} - {2}, [1, 3, 2])"
    unfolding v by auto
  have o: "\<forall>x (s :: unit Diana_FList_List) d t. freeing x s = Ok d t \<longrightarrow> m_pFLast t = m_pFLast s"
    by (auto simp: freeing_def release_def deref_def DI_CHECK_def di_basic_defs split: option.splits if_splits)
  obtain t where t: "run_steps Diana_FList_PushBack [1, 3, 2] (Diana_FList_InitList ?s) = Ok [(), (), ()] t" "Diana_FList_First t = Ok (hd ([1, 3, 2] @ [0])) t"
    "\<forall>as x bs. [1, 3, 2] = as @ x # bs \<longrightarrow> Diana_FList_Next x t = Ok (hd (bs @ [0])) t" "Diana_FList_ListForEach freeing t = Some (visit freeing [1, 3, 2] t)"
    using circle_refines_sequence [OF r freeing_local o] by blast
  have "Diana_FList_Next 3 t = Ok (hd ([2] @ [0])) t" "Diana_FList_Next 2 t = Ok (hd ([] @ [0])) t"
    by (rule t(3) [rule_format, of "[1]"], simp) (rule t(3) [rule_format, of "[1, 3]"], simp)
  with t(1,2,4) show ?thesis by (simp only: append.simps list.sel) blast
qed

end
