(* ===== verification/Block_Stack.thy ===== *)
theory Block_Stack
  imports Linked_List
begin

text \<open>
  The stack of \<^verbatim>\<open>diana_stack.c\<close>: values of one size in blocks that are linked into a doubly linked list and kept for reuse.  A block extends a list node, as its C structure has the list entry first;
  the stack extends the list head.  The bytes behind a block's header are a list, and an access outside them is \<open>C_UNDEFINED\<close>.  The allocator is an argument: it returns an address, 0 on failure,
  and the bytes found there.  The stack refines a list of values.
\<close>

section \<open>State and operations\<close>

record Diana_StackBlock = Diana_ListNode +
  m_curSizeInBytes :: int
  m_place :: "u8 list"

record Diana_Stack = "unit Diana_StackBlock_ext Diana_List" +
  m_pCurrentBlock :: nat
  m_minBlockSize :: int
  m_stackCount :: int
  m_dataSize :: int

type_synonym 'a stack_prog = "('a, Diana_Stack) di_prog"
type_synonym block_malloc = "(nat \<Rightarrow> Diana_StackBlock option) \<Rightarrow> int \<Rightarrow> nat \<times> u8 list"

definition Diana_Stack_Init :: "int \<Rightarrow> int \<Rightarrow> unit stack_prog" where
  "Diana_Stack_Init minBlockSize dataSize =
     DI_DO (\<lambda>s. s\<lparr>m_pFirst := 0, m_pLast := 0, m_listSize := 0, m_pCurrentBlock := 0, m_minBlockSize := 0, m_stackCount := 0, m_dataSize := 0\<rparr>)
     (DI_DO Diana_InitList
     (DI_DO (\<lambda>s. s\<lparr>m_minBlockSize := minBlockSize\<rparr>)
     (DI_DO (\<lambda>s. s\<lparr>m_dataSize := dataSize\<rparr>) DI_PROC_END)))"

definition deleter :: "nat \<Rightarrow> bool stack_prog" where
  "deleter pNode = DI_CHECK (release pNode) (\<lambda>_. DI_RETURN False)"

definition Diana_Stack_Free :: "Diana_Stack \<Rightarrow> (unit, Diana_Stack) di_res option" where
  "Diana_Stack_Free s = Diana_ListForEach deleter s"

text \<open>\<^verbatim>\<open>memcpy\<close> of a value into a block and out of it.\<close>

definition copy_in :: "nat \<Rightarrow> int \<Rightarrow> u8 list \<Rightarrow> unit stack_prog" where
  "copy_in b off pData =
     DI_CHECK (deref b) (\<lambda>c. DI_LET m_dataSize (\<lambda>n.
     if 0 \<le> n \<and> 0 \<le> off \<and> off + n \<le> int (length (m_place c)) \<and> n \<le> int (length pData)
     then assign b (\<lambda>c. c\<lparr>m_place := take (nat off) (m_place c) @ take (nat n) pData @ drop (nat (off + n)) (m_place c)\<rparr>)
     else DI_FAIL C_UNDEFINED))"

definition copy_out :: "nat \<Rightarrow> int \<Rightarrow> u8 list stack_prog" where
  "copy_out b off =
     DI_CHECK (deref b) (\<lambda>c. DI_LET m_dataSize (\<lambda>n.
     if 0 \<le> n \<and> 0 \<le> off \<and> off + n \<le> int (length (m_place c)) then DI_RETURN (take (nat n) (drop (nat off) (m_place c)))
     else DI_FAIL C_UNDEFINED))"

text \<open>The counter is a signed int.\<close>

definition add_count :: "int \<Rightarrow> unit stack_prog" where
  "add_count k = DI_LET m_stackCount (\<lambda>n.
     if - (2 ^ 31) \<le> n + k \<and> n + k < 2 ^ 31 then DI_DO (\<lambda>s. s\<lparr>m_stackCount := n + k\<rparr>) DI_PROC_END else DI_FAIL C_UNDEFINED)"

partial_function (option) Push_loop :: "u8 list \<Rightarrow> Diana_Stack \<Rightarrow> (bool, Diana_Stack) di_res option" where
  "Push_loop pData s =
     (let b = m_pCurrentBlock s in
      case deref b s of Err x t \<Rightarrow> Some (Err x t)
      | Ok c t \<Rightarrow>
          if m_minBlockSize t - m_curSizeInBytes c \<ge> m_dataSize t
          then Some (DI_CHECK (copy_in b (m_curSizeInBytes c) pData) (\<lambda>_.
                     DI_CHECK (assign b (\<lambda>c. c\<lparr>m_curSizeInBytes := m_curSizeInBytes c + m_dataSize t\<rparr>)) (\<lambda>_.
                     DI_CHECK (add_count 1) (\<lambda>_. DI_RETURN True))) t)
          else if m_pNext c \<noteq> 0 then Push_loop pData (t\<lparr>m_pCurrentBlock := m_pNext c\<rparr>)
          else Some (Ok False t))"

definition sizeof_StackBlock :: int where "sizeof_StackBlock = 24"

definition Push_insert :: "block_malloc \<Rightarrow> u8 list \<Rightarrow> unit stack_prog" where
  "Push_insert malloc pData s =
     (let (pBlock, bytes) = malloc (cells s) (sizeof_StackBlock + m_minBlockSize s) in
      if pBlock = 0 then Err DI_OUT_OF_MEMORY s else
      DI_DO (\<lambda>s. s\<lparr>cells := (cells s)(pBlock \<mapsto> \<lparr>m_pNext = 0, m_pPrev = 0, m_curSizeInBytes = 0, m_place = drop (nat sizeof_StackBlock) bytes\<rparr>)\<rparr>)
      (DI_CHECK (copy_in pBlock 0 pData) (\<lambda>_.
       DI_LET m_dataSize (\<lambda>n.
       DI_CHECK (assign pBlock (\<lambda>c. c\<lparr>m_curSizeInBytes := n\<rparr>)) (\<lambda>_.
       DI_CHECK (Diana_PushBack pBlock) (\<lambda>_.
       DI_DO (\<lambda>s. s\<lparr>m_pCurrentBlock := pBlock\<rparr>) (add_count 1)))))) s)"

definition Diana_Stack_Push :: "block_malloc \<Rightarrow> u8 list \<Rightarrow> Diana_Stack \<Rightarrow> (unit, Diana_Stack) di_res option" where
  "Diana_Stack_Push malloc pData s =
     (if m_pCurrentBlock s \<noteq> 0
      then (case Push_loop pData s of None \<Rightarrow> None
            | Some (Err x t) \<Rightarrow> Some (Err x t)
            | Some (Ok True t) \<Rightarrow> Some (Ok () t)
            | Some (Ok False t) \<Rightarrow> Some (Push_insert malloc pData t))
      else Some (Push_insert malloc pData s))"

text \<open>A pointer into a block is the block and an offset; \<open>None\<close> is the null pointer.\<close>

definition Diana_Stack_GetTopPtr :: "(nat \<times> int) option stack_prog" where
  "Diana_Stack_GetTopPtr =
     DI_LET (\<lambda>s. m_pCurrentBlock s = 0 \<or> m_stackCount s = 0) (\<lambda>none. if none then DI_RETURN None else
     DI_LET m_pCurrentBlock (\<lambda>b. DI_LET m_dataSize (\<lambda>n.
     DI_CHECK (deref b) (\<lambda>c.
     DI_DO (\<lambda>s. if m_curSizeInBytes c < n then s\<lparr>m_pCurrentBlock := m_pPrev c\<rparr> else s)
     (DI_LET m_pCurrentBlock (\<lambda>b. if b = 0 then DI_RETURN None else
     DI_CHECK (deref b) (\<lambda>c. DI_RETURN (Some (b, m_curSizeInBytes c - n)))))))))"

text \<open>Taking the top value off the current block.\<close>

definition drop_top :: "unit stack_prog" where
  "drop_top =
     DI_LET m_pCurrentBlock (\<lambda>b. DI_LET m_dataSize (\<lambda>n.
     DI_CHECK (assign b (\<lambda>c. c\<lparr>m_curSizeInBytes := m_curSizeInBytes c - n\<rparr>)) (\<lambda>_. add_count (- 1))))"

definition Diana_Stack_Pop :: "u8 list stack_prog" where
  "Diana_Stack_Pop =
     DI_CHECK Diana_Stack_GetTopPtr (\<lambda>p. case p of None \<Rightarrow> DI_FAIL DI_ERROR
     | Some (b, off) \<Rightarrow> DI_CHECK (copy_out b off) (\<lambda>v. DI_CHECK drop_top (\<lambda>_. DI_RETURN v)))"

partial_function (option) Diana_Stack_Clear :: "Diana_Stack \<Rightarrow> (unit, Diana_Stack) di_res option" where
  "Diana_Stack_Clear s =
     (case Diana_Stack_GetTopPtr s of Err x t \<Rightarrow> Some (Err x t)
      | Ok None t \<Rightarrow> Some (Ok () t)
      | Ok (Some _) t \<Rightarrow> (case drop_top t of Err x u \<Rightarrow> Some (Err x u) | Ok _ u \<Rightarrow> Diana_Stack_Clear u))"

declare Push_loop.simps [code] Diana_Stack_Clear.simps [code]

section \<open>Blocks and values\<close>

text \<open>The sizes of a stack, and how many values a block takes.\<close>

definition sized :: "int \<Rightarrow> int \<Rightarrow> Diana_Stack \<Rightarrow> bool" where
  "sized m n s \<longleftrightarrow> m_minBlockSize s = m \<and> m_dataSize s = n \<and> 0 < n \<and> n \<le> m"

definition capacity :: "int \<Rightarrow> int \<Rightarrow> nat" where
  "capacity m n = nat (m div n)"

definition holds_block :: "int \<Rightarrow> int \<Rightarrow> Diana_Stack \<Rightarrow> nat \<Rightarrow> u8 list list \<Rightarrow> bool" where
  "holds_block m n s b ws \<longleftrightarrow> (\<exists>c. cells s b = Some c \<and> m_curSizeInBytes c = n * int (length ws) \<and> int (length (m_place c)) = m \<and>
     take (nat (m_curSizeInBytes c)) (m_place c) = concat ws \<and> (\<forall>w \<in> set ws. int (length w) = n) \<and> length ws \<le> capacity m n)"

text \<open>The blocks before the current one are full, those behind it are empty, and the values are read block by block.\<close>

definition spine :: "int \<Rightarrow> int \<Rightarrow> Diana_Stack \<Rightarrow> nat list \<Rightarrow> u8 list list list \<Rightarrow> u8 list list \<Rightarrow> nat list \<Rightarrow> bool" where
  "spine m n s pre wss ws post \<longleftrightarrow> dlist s (pre @ m_pCurrentBlock s # post) \<and> list_all2 (holds_block m n s) pre wss \<and> (\<forall>w \<in> set wss. length w = capacity m n) \<and>
     holds_block m n s (m_pCurrentBlock s) ws \<and> (\<forall>b \<in> set post. holds_block m n s b [])"

definition stack_rep :: "int \<Rightarrow> int \<Rightarrow> Diana_Stack \<Rightarrow> u8 list list \<Rightarrow> bool" where
  "stack_rep m n s vals \<longleftrightarrow> sized m n s \<and> m_stackCount s = int (length vals) \<and> length vals < 2 ^ 31 \<and>
     (m_pCurrentBlock s = 0 \<and> dlist s [] \<and> vals = [] \<or> (\<exists>pre post wss ws. spine m n s pre wss ws post \<and> vals = concat wss @ ws))"

lemma capacity_room:
  assumes "0 < n" shows "m - n * int k \<ge> n \<longleftrightarrow> k < capacity m n"
proof -
  have "int k + 1 \<le> m div n" if "n * (int k + 1) \<le> m"
    using zdiv_mono1 [OF that assms] assms by simp
  moreover have "n * (int k + 1) \<le> m" if "int k + 1 \<le> m div n"
    using mult_left_mono [OF that, of n] assms mult_div_mod_eq [of n m] pos_mod_sign [of n m] by linarith
  ultimately have "int k + 1 \<le> m div n \<longleftrightarrow> n * (int k + 1) \<le> m" by blast
  then show ?thesis by (auto simp: capacity_def algebra_simps zless_nat_eq_int_zless)
qed

lemma capacity_pos: "0 < n \<Longrightarrow> n \<le> m \<Longrightarrow> 0 < capacity m n"
  using capacity_room [of n m 0] by simp

text \<open>A change of one block's contents: the links, the other blocks and the rest of the stack stay.\<close>

definition restored :: "nat \<Rightarrow> Diana_Stack \<Rightarrow> Diana_Stack \<Rightarrow> bool" where
  "restored b s t \<longleftrightarrow> (\<forall>a. a \<noteq> b \<longrightarrow> cells t a = cells s a) \<and>
     map_option m_pNext (cells t b) = map_option m_pNext (cells s b) \<and> map_option m_pPrev (cells t b) = map_option m_pPrev (cells s b) \<and>
     m_pFirst t = m_pFirst s \<and> m_pLast t = m_pLast s \<and> m_pCurrentBlock t = m_pCurrentBlock s \<and>
     m_minBlockSize t = m_minBlockSize s \<and> m_dataSize t = m_dataSize s"

lemma dseg_links:
  assumes "\<And>a. map_option m_pNext (h a) = map_option m_pNext (g a)" "\<And>a. map_option m_pPrev (h a) = map_option m_pPrev (g a)"
  shows "dseg h p xs n = dseg g p xs n"
proof (induction xs arbitrary: p)
  case (Cons x xs)
  have "(\<exists>c. h x = Some c \<and> m_pPrev c = p \<and> m_pNext c = k) = (\<exists>c. g x = Some c \<and> m_pPrev c = p \<and> m_pNext c = k)" for k
    using assms(1) [of x] assms(2) [of x] by (cases "h x"; cases "g x") auto
  with Cons show ?case by simp
qed simp

lemma restored_dlist: "restored b s t \<Longrightarrow> dlist t xs = dlist s xs"
  unfolding restored_def dlist_def by (subst dseg_links [of "cells t" "cells s"]) (metis | simp)+

lemma restored_block: "restored b s t \<Longrightarrow> a \<noteq> b \<Longrightarrow> holds_block m n t a ws = holds_block m n s a ws"
  by (simp add: restored_def holds_block_def)

lemma more_contents:
  fixes c d :: Diana_StackBlock
  assumes "Diana_ListNode.more c = Diana_ListNode.more d"
  shows "m_curSizeInBytes c = m_curSizeInBytes d" "m_place c = m_place d"
  using assms by (cases c; cases d; simp)+

lemma relinked_block:
  assumes "relinked s t" shows "holds_block m n t a ws = holds_block m n s a ws"
proof -
  have *: "map_option Diana_ListNode.more (cells t a) = map_option Diana_ListNode.more (cells s a)" using assms by (simp add: relinked_def)
  show ?thesis
  proof (cases "cells s a")
    case None
    with * show ?thesis by (simp add: holds_block_def)
  next
    case (Some c)
    then obtain d where d: "cells t a = Some d" "Diana_ListNode.more d = Diana_ListNode.more c" using * by auto
    show ?thesis by (simp add: holds_block_def Some d(1) more_contents [OF d(2)])
  qed
qed

text \<open>Putting a value on a block that has room, and taking the top value off.\<close>

lemma take_place:
  assumes "k \<le> length xs"
  shows "take (k + length v) (take k xs @ v @ ys) = take k xs @ v"
  using assms by simp

lemma add_block:
  assumes "holds_block m n s b ws" "length ws < capacity m n" "int (length v) = n" "0 < n" "b \<noteq> 0" "sized m n s" "m_stackCount s + 1 < 2 ^ 31" "0 \<le> m_stackCount s"
  obtains c t where "cells s b = Some c" "m_curSizeInBytes c = n * int (length ws)"
    "DI_CHECK (copy_in b (m_curSizeInBytes c) v) (\<lambda>_. DI_CHECK (assign b (\<lambda>c. c\<lparr>m_curSizeInBytes := m_curSizeInBytes c + n\<rparr>)) (\<lambda>_. add_count 1)) s = Ok () t"
    "restored b s t" "holds_block m n t b (ws @ [v])" "m_stackCount t = m_stackCount s + 1"
proof -
  obtain c where c: "cells s b = Some c" "m_curSizeInBytes c = n * int (length ws)" "int (length (m_place c)) = m"
    "take (nat (n * int (length ws))) (m_place c) = concat ws" "\<forall>w \<in> set ws. int (length w) = n"
    using assms(1) by (auto simp: holds_block_def)
  let ?k = "nat (n * int (length ws))"
  have room: "n * int (length ws) + n \<le> m" using capacity_room [OF assms(4), of m "length ws"] assms(2) by simp
  have k: "0 \<le> n * int (length ws)" using assms(4) by simp
  have lv: "int (length v) = n" "length v = nat n" using assms(3) by simp_all
  have k': "nat (n * int (length ws) + n) = ?k + length v" using k assms(3) by (simp add: nat_add_distrib [OF k])
  have v: "valid s b" using c(1) assms(5) by (simp add: valid_def)
  let ?c = "c\<lparr>m_place := take ?k (m_place c) @ v @ drop (nat (n * int (length ws) + n)) (m_place c), m_curSizeInBytes := n * int (length ws) + n\<rparr>"
  let ?f = "\<lambda>c. c\<lparr>m_place := take ?k (m_place c) @ v @ drop (nat (n * int (length ws) + n)) (m_place c)\<rparr>"
  let ?t = "s\<lparr>cells := upd_cell (upd_cell (cells s) b ?f) b (\<lambda>c. c\<lparr>m_curSizeInBytes := m_curSizeInBytes c + n\<rparr>), m_stackCount := m_stackCount s + 1\<rparr>"
  have "DI_CHECK (copy_in b (m_curSizeInBytes c) v) (\<lambda>_. DI_CHECK (assign b (\<lambda>c. c\<lparr>m_curSizeInBytes := m_curSizeInBytes c + n\<rparr>)) (\<lambda>_. add_count 1)) s = Ok () ?t"
    using v c(1-3) k room lv assms(4,6-8) by (simp add: copy_in_def add_count_def di_simps sized_def)
  moreover have "restored b s ?t" using c(1) by (simp add: restored_def)
  moreover have "holds_block m n ?t b (ws @ [v])"
    unfolding holds_block_def
  proof (intro exI conjI)
    show "cells ?t b = Some ?c" using c(1,2) by simp
    show "int (length (m_place ?c)) = m" using c(3) k room k' assms(3) by simp
    show "take (nat (m_curSizeInBytes ?c)) (m_place ?c) = concat (ws @ [v])"
      using take_place [of ?k "m_place c" v] c(3,4) k k' room by simp
  qed (use assms(2,3) c(5) in \<open>auto simp: algebra_simps\<close>)
  ultimately show ?thesis using that c(1,2) by simp
qed

section \<open>Pushing\<close>

lemma spine_current:
  assumes "spine m n s pre wss ws post"
  shows "valid s (m_pCurrentBlock s)" "m_pCurrentBlock s \<noteq> 0" "m_pCurrentBlock s \<notin> set pre" "m_pCurrentBlock s \<notin> set post" "length ws \<le> capacity m n"
    "\<exists>c. cells s (m_pCurrentBlock s) = Some c \<and> m_curSizeInBytes c = n * int (length ws) \<and> m_pNext c = hd (post @ [0]) \<and> m_pPrev c = last (0 # pre)"
proof -
  have d: "dlist s (pre @ m_pCurrentBlock s # post)" using assms by (simp add: spine_def)
  show v: "valid s (m_pCurrentBlock s)" by (rule dlist_valid [OF d]) simp
  then show "m_pCurrentBlock s \<noteq> 0" by (simp add: valid_def)
  show "m_pCurrentBlock s \<notin> set pre" "m_pCurrentBlock s \<notin> set post" using d by (auto simp: dlist_def)
  show "length ws \<le> capacity m n" "\<exists>c. cells s (m_pCurrentBlock s) = Some c \<and> m_curSizeInBytes c = n * int (length ws) \<and> m_pNext c = hd (post @ [0]) \<and> m_pPrev c = last (0 # pre)"
    using assms d by (auto simp: spine_def holds_block_def dlist_def dseg_append)
qed

lemma holds_cong: "(\<And>b. b \<in> set bs \<Longrightarrow> holds_block m n t b = holds_block m n s b) \<Longrightarrow> list_all2 (holds_block m n t) bs wss = list_all2 (holds_block m n s) bs wss"
  by (auto simp: list_all2_conv_all_nth)

lemma spine_restored:
  assumes "spine m n s pre wss ws post" "restored (m_pCurrentBlock s) s t" "holds_block m n t (m_pCurrentBlock s) ws'"
  shows "spine m n t pre wss ws' post"
proof -
  have cur: "m_pCurrentBlock t = m_pCurrentBlock s" using assms(2) by (simp add: restored_def)
  have keep: "holds_block m n t b = holds_block m n s b" if "b \<noteq> m_pCurrentBlock s" for b
    by (rule ext) (rule restored_block [OF assms(2) that])
  have "holds_block m n t b = holds_block m n s b" if "b \<in> set pre \<union> set post" for b
    by (rule keep) (use that spine_current(3,4) [OF assms(1)] in auto)
  then show ?thesis
    using assms(1,3) restored_dlist [OF assms(2)] holds_cong [of pre m n t s wss] by (auto simp: spine_def cur)
qed

lemma Push_loop_room:
  assumes "spine m n s pre wss ws post" "length ws < capacity m n" "int (length v) = n" "sized m n s" "0 \<le> m_stackCount s" "m_stackCount s + 1 < 2 ^ 31"
  shows "\<exists>t. Push_loop v s = Some (Ok True t) \<and> spine m n t pre wss (ws @ [v]) post \<and> sized m n t \<and> m_stackCount t = m_stackCount s + 1"
proof -
  let ?b = "m_pCurrentBlock s"
  note cur = spine_current [OF assms(1)]
  have n: "0 < n" using assms(4) by (simp add: sized_def)
  have "holds_block m n s ?b ws" using assms(1) by (simp add: spine_def)
  from add_block [OF this assms(2,3) n cur(2) assms(4,6,5)] obtain c t where
    c: "cells s ?b = Some c" "m_curSizeInBytes c = n * int (length ws)" and
    r: "DI_CHECK (copy_in ?b (m_curSizeInBytes c) v) (\<lambda>_. DI_CHECK (assign ?b (\<lambda>c. c\<lparr>m_curSizeInBytes := m_curSizeInBytes c + n\<rparr>)) (\<lambda>_. add_count 1)) s = Ok () t" and
    t: "restored ?b s t" "holds_block m n t ?b (ws @ [v])" "m_stackCount t = m_stackCount s + 1" by blast
  have z: "m_minBlockSize s = m" "m_dataSize s = n" using assms(4) by (simp_all add: sized_def)
  have "m_dataSize s \<le> m_minBlockSize s - m_curSizeInBytes c" using capacity_room [OF n, of m "length ws"] assms(2) c(2) z by simp
  moreover have "DI_CHECK (DI_CHECK (copy_in ?b (m_curSizeInBytes c) v) (\<lambda>_. DI_CHECK (assign ?b (\<lambda>c. c\<lparr>m_curSizeInBytes := m_curSizeInBytes c + n\<rparr>)) (\<lambda>_. add_count 1)))
      (\<lambda>_. DI_RETURN True) s = Ok True t"
    by (subst DI_CHECK_def) (simp only: r di_res.case DI_RETURN_def)
  ultimately have "Push_loop v s = Some (Ok True t)" using cur(1) c(1) by (simp add: Push_loop.simps [of v s] deref_Ok Let_def DI_CHECK_assoc z)
  moreover have "sized m n t" using t(1) assms(4) by (simp add: sized_def restored_def)
  ultimately show ?thesis using spine_restored [OF assms(1) t(1,2)] t(3) by blast
qed

lemma Push_loop_full:
  assumes "spine m n s pre wss ws post" "length ws = capacity m n" "sized m n s"
  shows "Push_loop v s = (case post of [] \<Rightarrow> Some (Ok False s) | p # _ \<Rightarrow> Push_loop v (s\<lparr>m_pCurrentBlock := p\<rparr>))"
proof -
  note cur = spine_current [OF assms(1)]
  have n: "0 < n" "m_minBlockSize s = m" "m_dataSize s = n" using assms(3) by (simp_all add: sized_def)
  obtain c where c: "cells s (m_pCurrentBlock s) = Some c" "m_curSizeInBytes c = n * int (length ws)" "m_pNext c = hd (post @ [0])" using cur(6) by blast
  have "\<not> m_dataSize s \<le> m_minBlockSize s - m_curSizeInBytes c" using capacity_room [OF n(1), of m "length ws"] assms(2) c(2) n by simp
  moreover have "p \<noteq> 0" if "post = p # ps" for p ps
    using dlist_valid [of s "pre @ m_pCurrentBlock s # post" p] assms(1) that by (auto simp: spine_def valid_def)
  ultimately show ?thesis using cur(1) c by (auto simp: Push_loop.simps [of v s] deref_Ok Let_def split: list.split)
qed

lemma spine_next:
  assumes "spine m n s pre wss ws (p # post)" "length ws = capacity m n"
  shows "spine m n (s\<lparr>m_pCurrentBlock := p\<rparr>) (pre @ [m_pCurrentBlock s]) (wss @ [ws]) [] post"
proof -
  have "holds_block m n (s\<lparr>m_pCurrentBlock := p\<rparr>) = holds_block m n s" by (intro ext) (simp add: holds_block_def)
  then show ?thesis using assms by (auto simp: spine_def dlist_def list_all2_appendI)
qed

text \<open>What the stack relies on of the allocator: a block it returns was free and has the size asked for.\<close>

definition allocator_ok :: "block_malloc \<Rightarrow> bool" where
  "allocator_ok malloc \<longleftrightarrow> (\<forall>h k a bytes. malloc h k = (a, bytes) \<longrightarrow> a \<noteq> 0 \<longrightarrow> h a = None \<and> length bytes = nat k)"

lemma same_more:
  assumes "relinked s t"
  shows "m_pCurrentBlock t = m_pCurrentBlock s" "m_minBlockSize t = m_minBlockSize s" "m_stackCount t = m_stackCount s" "m_dataSize t = m_dataSize s"
  using assms by (cases s; cases t; simp add: relinked_def)+

lemma dlist_fresh: "dlist s bs \<Longrightarrow> cells s a = None \<Longrightarrow> a \<notin> set bs"
  by (auto simp: valid_def dest: dlist_valid)

lemma holds_head [simp]:
  "holds_block m n (s\<lparr>m_pCurrentBlock := b\<rparr>) = holds_block m n s" "holds_block m n (s\<lparr>m_stackCount := k\<rparr>) = holds_block m n s"
  by (intro ext, simp add: holds_block_def)+

lemma dlist_stack [simp]: "dlist (s\<lparr>m_pCurrentBlock := b\<rparr>) = dlist s" "dlist (s\<lparr>m_stackCount := k\<rparr>) = dlist s"
  by (intro ext, simp add: dlist_def)+

lemma Push_insert_Ok:
  assumes "allocator_ok malloc" "sized m n s" "dlist s bs" "list_all2 (holds_block m n s) bs wss" "\<forall>w \<in> set wss. length w = capacity m n"
    "int (length v) = n" "0 \<le> m_stackCount s" "m_stackCount s + 1 < 2 ^ 31"
  shows "Push_insert malloc v s = Err DI_OUT_OF_MEMORY s \<or>
    (\<exists>t. Push_insert malloc v s = Ok () t \<and> spine m n t bs wss [v] [] \<and> sized m n t \<and> m_stackCount t = m_stackCount s + 1)"
proof -
  obtain a bytes where a: "malloc (cells s) (sizeof_StackBlock + m) = (a, bytes)" by (cases "malloc (cells s) (sizeof_StackBlock + m)")
  have z: "m_minBlockSize s = m" "m_dataSize s = n" "0 < n" "n \<le> m" using assms(2) by (simp_all add: sized_def)
  show ?thesis
  proof (cases "a = 0")
    case True
    then show ?thesis using a z by (simp add: Push_insert_def)
  next
    case False
    have free: "cells s a = None" "length bytes = nat (sizeof_StackBlock + m)" using assms(1) a False unfolding allocator_ok_def by blast+
    let ?new = "\<lparr>m_pNext = 0, m_pPrev = 0, m_curSizeInBytes = 0, m_place = drop (nat sizeof_StackBlock) bytes\<rparr>"
    let ?s1 = "s\<lparr>cells := (cells s)(a \<mapsto> ?new)\<rparr>"
    let ?f = "\<lambda>c. c\<lparr>m_place := take (nat 0) (m_place c) @ take (nat n) v @ drop (nat (0 + n)) (m_place c)\<rparr>"
    let ?s2 = "s\<lparr>cells := upd_cell (upd_cell ((cells s)(a \<mapsto> ?new)) a ?f) a (\<lambda>c. c\<lparr>m_curSizeInBytes := n\<rparr>)\<rparr>"
    have len: "int (length (m_place ?new)) = m" using free(2) z(3,4) by (simp add: sizeof_StackBlock_def)
    have lv: "length v = nat n" using assms(6) by simp
    have v1: "valid ?s1 a" using False by (simp add: valid_def)
    have cp: "copy_in a 0 v ?s1 = Ok () (s\<lparr>cells := upd_cell ((cells s)(a \<mapsto> ?new)) a ?f\<rparr>)"
      using v1 len z lv by (simp add: copy_in_def di_simps)
    have other: "cells ?s2 b = cells s b" if "b \<noteq> a" for b using that by simp
    have fresh: "a \<notin> set bs" by (rule dlist_fresh [OF assms(3) free(1)])
    have d2: "dlist ?s2 bs"
    proof -
      have "dseg (cells ?s2) 0 bs 0 = dseg (cells s) 0 bs 0" by (rule dseg_cong, rule other) (use fresh in auto)
      then show ?thesis using assms(3) by (simp add: dlist_def del: dseg_upd)
    qed
    have v2: "valid ?s2 a" using v1 by simp
    from PushBack_Ok [OF d2 v2 fresh] obtain t where t: "Diana_PushBack a ?s2 = Ok () t" "dlist t (bs @ [a])" "relinked ?s2 t" by blast
    note more = same_more [OF t(3)]
    let ?u = "t\<lparr>m_pCurrentBlock := a, m_stackCount := m_stackCount s + 1\<rparr>"
    have run: "Push_insert malloc v s = Ok () ?u"
      using a z False cp v1 t(1) more assms(7,8) by (simp add: Push_insert_def di_simps add_count_def)
    have h2: "holds_block m n ?s2 b = holds_block m n s b" if "b \<noteq> a" for b
      using other [OF that] by (intro ext) (simp add: holds_block_def)
    have "list_all2 (holds_block m n ?s2) bs wss = list_all2 (holds_block m n s) bs wss" by (rule holds_cong, rule h2) (use fresh in auto)
    moreover have "holds_block m n ?s2 a [v]"
      using len lv z capacity_pos [of n m] assms(6) by (simp add: holds_block_def)
    moreover have "holds_block m n t = holds_block m n ?s2" by (intro ext) (rule relinked_block [OF t(3)])
    ultimately have "spine m n ?u bs wss [v] []" using t(2) assms(4,5) by (simp add: spine_def)
    moreover have "sized m n ?u" using more z by (simp add: sized_def)
    ultimately show ?thesis using run by auto
  qed
qed

lemma stack_repE:
  assumes "stack_rep m n s vals"
  obtains (none) "m_pCurrentBlock s = 0" "dlist s []" "vals = []" | (some) pre post wss ws where "spine m n s pre wss ws post" "vals = concat wss @ ws"
  using assms by (auto simp: stack_rep_def)

lemma stack_repI:
  assumes "spine m n t pre wss ws post" "sized m n t" "m_stackCount t = int (length vals)" "length vals < 2 ^ 31" "vals = concat wss @ ws"
  shows "stack_rep m n t vals"
  using assms unfolding stack_rep_def by blast

text \<open>The current block is full: the next one is entered, or a block is added behind the last.\<close>

lemma Push_full_Ok:
  assumes "allocator_ok malloc" "spine m n s pre wss ws post" "length ws = capacity m n" "int (length v) = n" "sized m n s" "0 \<le> m_stackCount s" "m_stackCount s + 1 < 2 ^ 31"
  shows "Diana_Stack_Push malloc v s = Some (Err DI_OUT_OF_MEMORY s) \<or>
    (\<exists>t post'. Diana_Stack_Push malloc v s = Some (Ok () t) \<and> spine m n t (pre @ [m_pCurrentBlock s]) (wss @ [ws]) [v] post' \<and> sized m n t \<and> m_stackCount t = m_stackCount s + 1)"
proof (cases post)
  case Nil
  have "Push_loop v s = Some (Ok False s)" using Push_loop_full [OF assms(2,3,5)] Nil by simp
  then have "Diana_Stack_Push malloc v s = Some (Push_insert malloc v s)" using spine_current(2) [OF assms(2)] by (simp add: Diana_Stack_Push_def)
  moreover have "dlist s (pre @ [m_pCurrentBlock s])" "list_all2 (holds_block m n s) (pre @ [m_pCurrentBlock s]) (wss @ [ws])" "\<forall>w \<in> set (wss @ [ws]). length w = capacity m n"
    using assms(2,3) Nil by (auto simp: spine_def list_all2_appendI)
  ultimately show ?thesis using Push_insert_Ok [OF assms(1,5) _ _ _ assms(4,6,7)] by metis
next
  case (Cons p ps)
  let ?s = "s\<lparr>m_pCurrentBlock := p\<rparr>"
  have l: "Push_loop v s = Push_loop v ?s" using Push_loop_full [OF assms(2,3,5)] Cons by simp
  have "spine m n ?s (pre @ [m_pCurrentBlock s]) (wss @ [ws]) [] ps" using spine_next [OF assms(2) [unfolded Cons] assms(3)] .
  moreover have "0 < capacity m n" using assms(5) by (simp add: sized_def capacity_pos)
  ultimately obtain t where "Push_loop v ?s = Some (Ok True t)" "spine m n t (pre @ [m_pCurrentBlock s]) (wss @ [ws]) [v] ps" "sized m n t"
    "m_stackCount t = m_stackCount s + 1"
    using Push_loop_room [of m n ?s "pre @ [m_pCurrentBlock s]" "wss @ [ws]" "[]" ps v] assms(4-7) by (auto simp: sized_def)
  then show ?thesis using l spine_current(2) [OF assms(2)] by (auto simp: Diana_Stack_Push_def)
qed

lemma Push_Ok:
  assumes "allocator_ok malloc" "stack_rep m n s vals" "int (length v) = n" "length vals + 1 < 2 ^ 31"
  shows "\<exists>t. Diana_Stack_Push malloc v s = Some (Ok () t) \<and> stack_rep m n t (vals @ [v]) \<or>
    Diana_Stack_Push malloc v s = Some (Err DI_OUT_OF_MEMORY t) \<and> stack_rep m n t vals"
proof -
  have z: "sized m n s" "m_stackCount s = int (length vals)" "0 \<le> m_stackCount s" "m_stackCount s + 1 < 2 ^ 31"
    using assms(2,4) by (auto simp: stack_rep_def)
  have done_rep: "stack_rep m n t (vals @ [v])"
    if "spine m n t pre wss ws post" "sized m n t" "m_stackCount t = m_stackCount s + 1" "vals @ [v] = concat wss @ ws" for t pre wss ws post
    by (rule stack_repI [OF that(1,2) _ _ that(4)]) (use that(3) z(2) assms(4) in simp_all)
  from assms(2) show ?thesis
  proof (cases rule: stack_repE)
    case none
    then show ?thesis using Push_insert_Ok [OF assms(1) z(1) none(2) _ _ assms(3) z(3,4), of "[]"] assms(2) done_rep
      by (auto simp: Diana_Stack_Push_def) (metis append.left_neutral concat.simps(1))
  next
    case (some pre post wss ws)
    show ?thesis
    proof (cases "length ws < capacity m n")
      case True
      obtain t where "Push_loop v s = Some (Ok True t)" "spine m n t pre wss (ws @ [v]) post" "sized m n t" "m_stackCount t = m_stackCount s + 1"
        using Push_loop_room [OF some(1) True assms(3) z(1,3,4)] by blast
      then show ?thesis using done_rep [of t pre wss "ws @ [v]" post] spine_current(2) [OF some(1)] some(2) by (auto simp: Diana_Stack_Push_def)
    next
      case False
      then have "length ws = capacity m n" using spine_current(5) [OF some(1)] by simp
      from Push_full_Ok [OF assms(1) some(1) this assms(3) z(1,3,4)] show ?thesis
        using done_rep [of _ "pre @ [m_pCurrentBlock s]" "wss @ [ws]" "[v]"] some(2) assms(2) by auto
    qed
  qed
qed

section \<open>Popping\<close>

lemma length_concat_values: "\<forall>w \<in> set ws. int (length w) = n \<Longrightarrow> int (length (concat ws)) = n * int (length ws)"
  by (induction ws) (auto simp: algebra_simps)

lemma sized_current [simp]: "sized m n (s\<lparr>m_pCurrentBlock := b\<rparr>) = sized m n s" "sized m n (s\<lparr>m_stackCount := k\<rparr>) = sized m n s"
  by (simp_all add: sized_def)

text \<open>The top of a stack with values is the last value of the current block, after a step back when that block is empty.\<close>

lemma GetTopPtr_Ok:
  assumes "stack_rep m n s (vs @ [v])"
  obtains t pre wss ws post where "Diana_Stack_GetTopPtr s = Ok (Some (m_pCurrentBlock t, n * int (length ws))) t" "spine m n t pre wss (ws @ [v]) post"
    "vs = concat wss @ ws" "sized m n t" "m_stackCount t = m_stackCount s"
proof -
  have z: "sized m n s" "m_dataSize s = n" "0 < n" "n \<le> m" "m_stackCount s \<noteq> 0" using assms by (auto simp: stack_rep_def sized_def)
  from assms show ?thesis
  proof (cases rule: stack_repE)
    case none
    then show ?thesis by simp
  next
    case (some pre post wss ws)
    note cur = spine_current [OF some(1)]
    obtain c where c: "cells s (m_pCurrentBlock s) = Some c" "m_curSizeInBytes c = n * int (length ws)" "m_pPrev c = last (0 # pre)" using cur(6) by blast
    show ?thesis
    proof (cases ws rule: rev_cases)
      case (snoc ws' w)
      then have w: "w = v" "vs = concat wss @ ws'" using some(2) by simp_all
      have ge: "\<not> m_curSizeInBytes c < n" "m_curSizeInBytes c - n = n * int (length ws')" using c(2) snoc z(3) by (simp_all add: algebra_simps not_less)
      have "Diana_Stack_GetTopPtr s = Ok (Some (m_pCurrentBlock s, n * int (length ws'))) s"
        using ge c(1) cur(1,2) z by (simp add: Diana_Stack_GetTopPtr_def di_simps)
      then show ?thesis using that some(1) snoc w z(1) by blast
    next
      case Nil
      have "wss \<noteq> []" using some(2) Nil by auto
      then obtain wss' w where w: "wss = wss' @ [w]" by (metis append_butlast_last_id)
      obtain pre' p where p: "pre = pre' @ [p]" using some(1) w by (cases pre rule: rev_cases) (auto simp: spine_def)
      have hold: "list_all2 (holds_block m n s) pre' wss'" "holds_block m n s p w" "length w = capacity m n"
        using some(1) p w list_all2_lengthD [of "holds_block m n s" pre wss] by (auto simp: spine_def list_all2_append)
      have "w \<noteq> []" using hold(3) capacity_pos [OF z(3,4)] by auto
      then obtain ws' where ws: "w = ws' @ [v]" "vs = concat wss' @ ws'" using some(2) Nil w by (cases w rule: rev_cases) auto
      have vp: "valid s p" using some(1) p by (auto simp: spine_def intro: dlist_valid)
      obtain d where d: "cells s p = Some d" "m_curSizeInBytes d = n * int (length w)" using hold(2) by (auto simp: holds_block_def)
      let ?t = "s\<lparr>m_pCurrentBlock := p\<rparr>"
      have "valid ?t p" "cells ?t p = Some d" using vp d by (simp_all add: valid_def)
      then have "Diana_Stack_GetTopPtr s = Ok (Some (p, n * int (length ws'))) ?t"
        using Nil c cur(1,2) z p d ws(1) validD [OF vp] by (simp add: Diana_Stack_GetTopPtr_def di_simps algebra_simps)
      moreover have "spine m n ?t pre' wss' (ws' @ [v]) (m_pCurrentBlock s # post)" using some(1) p w hold ws(1) Nil by (auto simp: spine_def)
      ultimately show ?thesis using that [of ?t ws' pre' wss' "m_pCurrentBlock s # post"] ws(2) z(1) by simp
    qed
  qed
qed

lemma holds_top:
  assumes "cells s b = Some c" "holds_block m n s b (ws @ [v])" "0 < n"
  shows "m_curSizeInBytes c = n * int (length ws) + n" "int (length v) = n" "n * int (length ws) + n \<le> int (length (m_place c))"
    "take (nat n) (drop (nat (n * int (length ws))) (m_place c)) = v" "take (nat (n * int (length ws))) (m_place c) = concat ws"
proof -
  have h: "m_curSizeInBytes c = n * int (length ws) + n" "int (length (m_place c)) = m" "take (nat (n * int (length ws) + n)) (m_place c) = concat ws @ v"
    "\<forall>w \<in> set (ws @ [v]). int (length w) = n" "length ws < capacity m n"
    using assms(1,2) by (auto simp: holds_block_def algebra_simps)
  then show "m_curSizeInBytes c = n * int (length ws) + n" "int (length v) = n" by simp_all
  show "n * int (length ws) + n \<le> int (length (m_place c))" using h(2,5) capacity_room [OF assms(3), of m "length ws"] by simp
  have k: "nat (n * int (length ws)) = length (concat ws)" using length_concat_values [of ws n] h(4) by simp
  have kn: "nat (n * int (length ws) + n) = length (concat ws) + nat n" using k assms(3) by (simp add: nat_add_distrib)
  have lv: "length v = nat n" using h(4) by auto
  have e: "take (length (concat ws) + nat n) (m_place c) = concat ws @ v" using h(3) kn by simp
  show "take (nat n) (drop (nat (n * int (length ws))) (m_place c)) = v"
    unfolding k using arg_cong [OF e, of "drop (length (concat ws))"] by (simp add: drop_take add.commute)
  show "take (nat (n * int (length ws))) (m_place c) = concat ws"
    unfolding k using arg_cong [OF e, of "take (length (concat ws))"] by simp
qed

lemma drop_top_Ok:
  assumes "spine m n s pre wss (ws @ [v]) post" "sized m n s" "0 < m_stackCount s" "m_stackCount s < 2 ^ 31"
  shows "copy_out (m_pCurrentBlock s) (n * int (length ws)) s = Ok v s"
    "\<exists>t. drop_top s = Ok () t \<and> spine m n t pre wss ws post \<and> sized m n t \<and> m_stackCount t = m_stackCount s - 1"
proof -
  let ?b = "m_pCurrentBlock s"
  note cur = spine_current [OF assms(1)]
  have z: "m_dataSize s = n" "0 < n" using assms(2) by (simp_all add: sized_def)
  obtain c where c: "cells s ?b = Some c" using cur(6) by blast
  have hb: "holds_block m n s ?b (ws @ [v])" using assms(1) by (simp add: spine_def)
  note top = holds_top [OF c hb z(2)]
  show "copy_out ?b (n * int (length ws)) s = Ok v s"
    using cur(1) c z top by (simp add: copy_out_def di_simps)
  let ?t = "s\<lparr>cells := upd_cell (cells s) ?b (\<lambda>c. c\<lparr>m_curSizeInBytes := m_curSizeInBytes c - n\<rparr>), m_stackCount := m_stackCount s - 1\<rparr>"
  have "drop_top s = Ok () ?t" using cur(1) z assms(3,4) by (simp add: drop_top_def add_count_def di_simps)
  moreover have "restored ?b s ?t" by (simp add: restored_def option.map_comp comp_def)
  moreover have "holds_block m n ?t ?b ws"
    unfolding holds_block_def
  proof (intro exI conjI)
    show "cells ?t ?b = Some (c\<lparr>m_curSizeInBytes := n * int (length ws)\<rparr>)" using c top(1) by simp
  qed (use hb c top(5) in \<open>auto simp: holds_block_def\<close>)
  moreover have "sized m n ?t" using assms(2) by (simp add: sized_def)
  ultimately show "\<exists>t. drop_top s = Ok () t \<and> spine m n t pre wss ws post \<and> sized m n t \<and> m_stackCount t = m_stackCount s - 1"
    using spine_restored [OF assms(1)] by fastforce
qed

lemma Pop_Ok:
  assumes "stack_rep m n s (vs @ [v])"
  shows "\<exists>t. Diana_Stack_Pop s = Ok v t \<and> stack_rep m n t vs"
proof -
  obtain t pre wss ws post where t: "Diana_Stack_GetTopPtr s = Ok (Some (m_pCurrentBlock t, n * int (length ws))) t" "spine m n t pre wss (ws @ [v]) post"
    "vs = concat wss @ ws" "sized m n t" "m_stackCount t = m_stackCount s" by (rule GetTopPtr_Ok [OF assms])
  have n: "m_stackCount s = int (length vs) + 1" "int (length vs) + 1 < 2 ^ 31" using assms by (auto simp: stack_rep_def)
  then have k: "0 < m_stackCount t" "m_stackCount t < 2 ^ 31" using t(5) by simp_all
  obtain u where u: "drop_top t = Ok () u" "spine m n u pre wss ws post" "sized m n u" "m_stackCount u = m_stackCount t - 1"
    using drop_top_Ok(2) [OF t(2,4) k] by blast
  have "Diana_Stack_Pop s = Ok v u" using t(1) u(1) drop_top_Ok(1) [OF t(2,4) k] by (simp add: Diana_Stack_Pop_def di_simps)
  moreover have "stack_rep m n u vs" by (rule stack_repI [OF u(2,3)]) (use u(4) t(3,5) n in simp_all)
  ultimately show ?thesis by blast
qed

lemma GetTopPtr_empty: "stack_rep m n s [] \<Longrightarrow> Diana_Stack_GetTopPtr s = Ok None s"
  by (simp add: Diana_Stack_GetTopPtr_def di_simps stack_rep_def)

lemma Pop_empty: "stack_rep m n s [] \<Longrightarrow> Diana_Stack_Pop s = Err DI_ERROR s"
  by (simp add: Diana_Stack_Pop_def GetTopPtr_empty di_simps)

text \<open>What clearing keeps: the list of the blocks and everything in them but how far they are filled.\<close>

definition same_blocks :: "Diana_Stack \<Rightarrow> Diana_Stack \<Rightarrow> bool" where
  "same_blocks s t \<longleftrightarrow> m_pFirst t = m_pFirst s \<and> m_pLast t = m_pLast s \<and> m_listSize t = m_listSize s \<and>
     (\<forall>a. map_option (\<lambda>c. c\<lparr>m_curSizeInBytes := 0\<rparr>) (cells t a) = map_option (\<lambda>c. c\<lparr>m_curSizeInBytes := 0\<rparr>) (cells s a))"

interpretation blocks: frame_relation same_blocks
  by unfold_locales (auto simp: same_blocks_def)

lemma GetTopPtr_blocks: "same_blocks s (res_state (Diana_Stack_GetTopPtr s))"
  by (auto simp: Diana_Stack_GetTopPtr_def same_blocks_def deref_def di_basic_defs DI_CHECK_def split: option.splits)

lemma drop_top_blocks: "same_blocks s (res_state (drop_top s))"
proof (cases "cells s (m_pCurrentBlock s) = None \<or> m_pCurrentBlock s = 0")
  case True
  then have "drop_top s = Err C_UNDEFINED s" by (auto simp: drop_top_def assign_def deref_def di_basic_defs DI_CHECK_def split: option.splits)
  then show ?thesis by (simp add: blocks.R_refl)
next
  case False
  let ?h = "upd_cell (cells s) (m_pCurrentBlock s) (\<lambda>c. c\<lparr>m_curSizeInBytes := m_curSizeInBytes c - m_dataSize s\<rparr>)"
  have "map_option (\<lambda>c. c\<lparr>m_curSizeInBytes := 0\<rparr>) (?h a) = map_option (\<lambda>c. c\<lparr>m_curSizeInBytes := 0\<rparr>) (cells s a)" for a
    by (cases "a = m_pCurrentBlock s") (simp_all add: option.map_comp comp_def)
  moreover have "valid s (m_pCurrentBlock s)" using False by (simp add: valid_def)
  ultimately show ?thesis
    by (simp add: drop_top_def add_count_def same_blocks_def di_basic_defs DI_CHECK_def assign_Ok)
qed

lemma same_blocks_dlist: "same_blocks s t \<Longrightarrow> dlist t xs = dlist s xs"
proof -
  assume st: "same_blocks s t"
  have "map_option m_pNext (cells t a) = map_option m_pNext (cells s a)" "map_option m_pPrev (cells t a) = map_option m_pPrev (cells s a)" for a
  proof -
    have "map_option (\<lambda>c. c\<lparr>m_curSizeInBytes := 0\<rparr>) (cells t a) = map_option (\<lambda>c. c\<lparr>m_curSizeInBytes := 0\<rparr>) (cells s a)" using st by (simp add: same_blocks_def)
    then have "map_option m_pNext (map_option (\<lambda>c. c\<lparr>m_curSizeInBytes := 0\<rparr>) (cells t a)) = map_option m_pNext (map_option (\<lambda>c. c\<lparr>m_curSizeInBytes := 0\<rparr>) (cells s a))"
      "map_option m_pPrev (map_option (\<lambda>c. c\<lparr>m_curSizeInBytes := 0\<rparr>) (cells t a)) = map_option m_pPrev (map_option (\<lambda>c. c\<lparr>m_curSizeInBytes := 0\<rparr>) (cells s a))"
      by simp_all
    then show "map_option m_pNext (cells t a) = map_option m_pNext (cells s a)" "map_option m_pPrev (cells t a) = map_option m_pPrev (cells s a)"
      by (simp_all add: option.map_comp comp_def)
  qed
  then show ?thesis using st unfolding dlist_def same_blocks_def by (subst dseg_links [of "cells t" "cells s"]) auto
qed

lemma Clear_Ok: "stack_rep m n s vals \<Longrightarrow> \<exists>t. Diana_Stack_Clear s = Some (Ok () t) \<and> stack_rep m n t [] \<and> same_blocks s t"
proof (induction vals arbitrary: s rule: rev_induct)
  case Nil
  then show ?case by (simp add: Diana_Stack_Clear.simps [of s] GetTopPtr_empty blocks.R_refl)
next
  case (snoc v vs)
  obtain t pre wss ws post where t: "Diana_Stack_GetTopPtr s = Ok (Some (m_pCurrentBlock t, n * int (length ws))) t" "spine m n t pre wss (ws @ [v]) post"
    "vs = concat wss @ ws" "sized m n t" "m_stackCount t = m_stackCount s" by (rule GetTopPtr_Ok [OF snoc.prems])
  have k: "m_stackCount s = int (length vs) + 1" "int (length vs) + 1 < 2 ^ 31" "0 < m_stackCount t" "m_stackCount t < 2 ^ 31"
    using snoc.prems t(5) by (auto simp: stack_rep_def)
  obtain u where u: "drop_top t = Ok () u" "spine m n u pre wss ws post" "sized m n u" "m_stackCount u = m_stackCount t - 1"
    using drop_top_Ok(2) [OF t(2,4) k(3,4)] by blast
  have "stack_rep m n u vs" by (rule stack_repI [OF u(2,3)]) (use u(4) t(3,5) k in simp_all)
  from snoc.IH [OF this] obtain w where w: "Diana_Stack_Clear u = Some (Ok () w)" "stack_rep m n w []" "same_blocks u w" by blast
  have "same_blocks s t" "same_blocks t u" using GetTopPtr_blocks [of s] drop_top_blocks [of t] t(1) u(1) by simp_all
  then have "same_blocks s w" using w(3) by (blast intro: blocks.R_trans)
  then show ?case using t(1) u(1) w(1,2) by (simp add: Diana_Stack_Clear.simps [of s])
qed

text \<open>All blocks of an empty stack are empty.\<close>

lemma empty_blocks:
  assumes "stack_rep m n s []"
  shows "\<exists>bs. dlist s bs \<and> (\<forall>b \<in> set bs. holds_block m n s b [])"
  using assms
proof (cases rule: stack_repE)
  case none
  then show ?thesis by (intro exI [of _ "[]"]) simp
next
  case (some pre post wss ws)
  have "0 < capacity m n" using assms by (simp add: stack_rep_def sized_def capacity_pos)
  then have "wss = []" using some by (cases wss) (auto simp: spine_def)
  then show ?thesis using some by (intro exI [of _ "pre @ m_pCurrentBlock s # post"]) (auto simp: spine_def list_all_iff)
qed

section \<open>Releasing the blocks\<close>

lemma deleter_local: "local_observer deleter"
  by (auto simp: local_observer_def deleter_def release_def deref_def DI_CHECK_def di_basic_defs split: option.splits if_splits)

lemma visit_deleter:
  "distinct bs \<Longrightarrow> \<forall>b \<in> set bs. valid s b \<Longrightarrow> visit deleter bs s = Ok () (s\<lparr>cells := \<lambda>a. if a \<in> set bs then None else cells s a\<rparr>)"
proof (induction bs arbitrary: s)
  case Nil
  then show ?case by simp
next
  case (Cons b bs)
  let ?t = "s\<lparr>cells := (cells s)(b := None)\<rparr>"
  have "deleter b s = Ok False ?t" using Cons.prems by (simp add: deleter_def di_simps)
  moreover have "\<forall>a \<in> set bs. valid ?t a" using Cons.prems by (auto simp: valid_def)
  moreover have "(\<lambda>a. if a \<in> set bs then None else cells ?t a) = (\<lambda>a. if a \<in> set (b # bs) then None else cells s a)" by auto
  ultimately show ?case using Cons.IH [of ?t] Cons.prems(1) by simp
qed

lemma Free_Ok:
  assumes "dlist s bs"
  shows "Diana_Stack_Free s = Some (Ok () (s\<lparr>cells := \<lambda>a. if a \<in> set bs then None else cells s a\<rparr>))"
  using assms ForEach_visit [OF deleter_local assms] visit_deleter [of bs s] dlist_valid [OF assms] by (simp add: Diana_Stack_Free_def dlist_def)

section \<open>Refinement of a list of values\<close>

datatype stack_op = Push "u8 list" | Pop

text \<open>A pop returns the value, or nothing when it reports \<open>DI_ERROR\<close>.\<close>

fun stack_step :: "block_malloc \<Rightarrow> stack_op \<Rightarrow> (u8 list option, Diana_Stack) di_prog" where
  "stack_step malloc (Push v) s =
     (case Diana_Stack_Push malloc v s of Some (Ok _ t) \<Rightarrow> Ok None t | Some (Err x t) \<Rightarrow> Err x t | None \<Rightarrow> Err C_UNDEFINED s)"
| "stack_step malloc Pop s =
     (case Diana_Stack_Pop s of Ok v t \<Rightarrow> Ok (Some v) t | Err x t \<Rightarrow> if x = DI_ERROR then Ok None t else Err x t)"

fun values_spec :: "int \<Rightarrow> stack_op \<Rightarrow> u8 list list \<Rightarrow> (u8 list option \<times> u8 list list) option" where
  "values_spec n (Push v) vals = (if int (length v) = n \<and> length vals + 1 < 2 ^ 31 then Some (None, v # vals) else None)"
| "values_spec n Pop [] = Some (None, [])"
| "values_spec n Pop (v # vals) = Some (Some v, vals)"

lemma stack_refinement:
  assumes "allocator_ok malloc"
  shows "data_refinement (\<lambda>s vals. stack_rep m n s (rev vals)) (stack_step malloc) (values_spec n) (\<lambda>x. x = DI_OUT_OF_MEMORY)"
proof unfold_locales
  fix s a c r b
  assume rep: "stack_rep m n s (rev a)" and spec: "values_spec n c a = Some (r, b)"
  let ?R = "\<lambda>s vals. stack_rep m n s (rev vals)"
  show "agrees ?R (\<lambda>x. x = DI_OUT_OF_MEMORY) (stack_step malloc c s) r b"
  proof (cases c)
    case (Push v)
    then have v: "int (length v) = n" "length (rev a) + 1 < 2 ^ 31" "r = None" "b = v # a" using spec by (auto split: if_splits)
    show ?thesis using Push_Ok [OF assms rep v(1,2)] Push v(3,4) by (auto simp: agrees_def intro!: exI [of _ a])
  next
    case Pop
    show ?thesis
    proof (cases a)
      case Nil
      then show ?thesis using Pop rep spec Pop_empty [of m n s] by (simp add: agrees_def)
    next
      case (Cons v vs)
      then show ?thesis using Pop rep spec Pop_Ok [of m n s "rev vs" v] by (auto simp: agrees_def)
    qed
  qed
qed

section \<open>Properties\<close>

lemma Init_rep: "0 < n \<Longrightarrow> n \<le> m \<Longrightarrow> \<exists>t. Diana_Stack_Init m n s = Ok () t \<and> stack_rep m n t [] \<and> cells t = cells s"
  by (simp add: Diana_Stack_Init_def di_simps stack_rep_def sized_def Diana_InitList_def dlist_def)

definition sample_malloc :: block_malloc where
  "sample_malloc h k = (case List.find (\<lambda>a. h a = None) [1..<5] of Some a \<Rightarrow> (a, replicate (nat k) 0) | None \<Rightarrow> (0, []))"

lemma sample_malloc_ok: "allocator_ok sample_malloc"
  by (auto simp: allocator_ok_def sample_malloc_def find_Some_iff split: option.splits)

definition sample_stack :: Diana_Stack where
  "sample_stack = \<lparr>cells = Map.empty, m_pFirst = 0, m_pLast = 0, m_listSize = 0, m_pCurrentBlock = 0, m_minBlockSize = 0, m_stackCount = 0, m_dataSize = 0\<rparr>"

text \<open>
  C10: The stack refines a list of values: after initialisation with a block size that holds at least one value, any sequence of pushes of values of the right size and of pops returns what the list returns,
  last in first out, with \<open>DI_ERROR\<close> exactly for pops of an empty stack.  Blocks are entered, left and reused without access outside their bytes.  The only other outcome is \<open>DI_OUT_OF_MEMORY\<close>, when
  the allocator fails, and then the stack still represents some list of values.
\<close>

theorem stack_refines_values:
  assumes "allocator_ok malloc" "0 < n" "n \<le> m" "run_spec (values_spec n) ops [] = Some (rs, vals)"
  shows "\<exists>s0. Diana_Stack_Init m n s = Ok () s0 \<and>
    (case run_steps (stack_step malloc) ops s0 of
       Ok out t \<Rightarrow> out = rs \<and> stack_rep m n t (rev vals)
     | Err x t \<Rightarrow> x = DI_OUT_OF_MEMORY \<and> (\<exists>vals'. stack_rep m n t vals'))"
proof -
  obtain s0 where s0: "Diana_Stack_Init m n s = Ok () s0" "stack_rep m n s0 (rev [])" using Init_rep [OF assms(2,3), of s] by auto
  have "agrees (\<lambda>s vals. stack_rep m n s (rev vals)) (\<lambda>x. x = DI_OUT_OF_MEMORY) (run_steps (stack_step malloc) ops s0) rs vals"
    by (rule data_refinement.run [OF stack_refinement [OF assms(1)], where a = "[]"]) (use s0(2) assms(4) in simp_all)
  then show ?thesis using s0(1) by (auto simp: agrees_def split: di_res.splits)
qed

theorem stack_refines_values_witness:
  "\<exists>s0. Diana_Stack_Init 5 2 sample_stack = Ok () s0 \<and>
    (case run_steps (stack_step sample_malloc) [Push [1, 2], Push [3, 4], Push [5, 6], Pop, Pop, Push [7, 8], Pop, Pop, Pop] s0 of
       Ok out t \<Rightarrow> out = [None, None, None, Some [5, 6], Some [3, 4], None, Some [7, 8], Some [1, 2], None] \<and> stack_rep 5 2 t (rev [])
     | Err x t \<Rightarrow> x = DI_OUT_OF_MEMORY \<and> (\<exists>vals'. stack_rep 5 2 t vals'))"
proof -
  have "run_spec (values_spec 2) [Push [1, 2], Push [3, 4], Push [5, 6], Pop, Pop, Push [7, 8], Pop, Pop, Pop] [] =
      Some ([None, None, None, Some [5, 6], Some [3, 4], None, Some [7, 8], Some [1, 2], None], [])"
    by simp
  then show ?thesis by (rule stack_refines_values [OF sample_malloc_ok, rotated 2]) simp_all
qed

text \<open>
  C26: Clearing a stack ends and leaves it empty with its blocks kept for reuse: the same blocks are linked in the same order, each of them empty, and nothing in them has changed but how far they are
  filled.  Releasing it ends, frees every block of the list exactly once, reads no freed block and touches nothing else.
\<close>

theorem stack_clear_free:
  assumes "stack_rep m n s vals"
  shows "\<exists>bs. dlist s bs \<and>
    (\<exists>t. Diana_Stack_Clear s = Some (Ok () t) \<and> stack_rep m n t [] \<and> dlist t bs \<and> (\<forall>b \<in> set bs. holds_block m n t b []) \<and> same_blocks s t) \<and>
    Diana_Stack_Free s = Some (Ok () (s\<lparr>cells := \<lambda>a. if a \<in> set bs then None else cells s a\<rparr>))"
proof -
  obtain t where t: "Diana_Stack_Clear s = Some (Ok () t)" "stack_rep m n t []" "same_blocks s t" using Clear_Ok [OF assms] by blast
  obtain bs where "dlist t bs" "\<forall>b \<in> set bs. holds_block m n t b []" using empty_blocks [OF t(2)] by blast
  moreover from this have "dlist s bs" using same_blocks_dlist [OF t(3)] by simp
  ultimately show ?thesis using t Free_Ok by blast
qed

definition sample_values :: Diana_Stack where
  "sample_values = res_state (run_steps (stack_step sample_malloc) [Push [1, 2], Push [3, 4], Push [5, 6]] (res_state (Diana_Stack_Init 5 2 sample_stack)))"

lemma sample_values_Ok: "is_Ok (run_steps (stack_step sample_malloc) [Push [1, 2], Push [3, 4], Push [5, 6]] (res_state (Diana_Stack_Init 5 2 sample_stack)))"
  by code_simp

lemma sample_values_rep: "stack_rep 5 2 sample_values [[1, 2], [3, 4], [5, 6]]"
proof -
  obtain s0 where s0: "Diana_Stack_Init 5 2 sample_stack = Ok () s0" "stack_rep 5 2 s0 []" using Init_rep [of 2 5 sample_stack] by auto
  let ?ops = "[Push [1, 2], Push [3, 4], Push [5, 6 :: u8]]"
  have "agrees (\<lambda>s vals. stack_rep 5 2 s (rev vals)) (\<lambda>x. x = DI_OUT_OF_MEMORY) (run_steps (stack_step sample_malloc) ?ops s0) [None, None, None] [[5, 6], [3, 4], [1, 2]]"
    by (rule data_refinement.run [OF stack_refinement [OF sample_malloc_ok], where a = "[]"]) (use s0(2) in simp_all)
  then show ?thesis using sample_values_Ok s0(1)
    by (cases "run_steps (stack_step sample_malloc) ?ops s0") (auto simp: agrees_def sample_values_def simp del: run_steps.simps)
qed

theorem stack_clear_free_witness:
  "\<exists>bs. dlist sample_values bs \<and>
    (\<exists>t. Diana_Stack_Clear sample_values = Some (Ok () t) \<and> stack_rep 5 2 t [] \<and> dlist t bs \<and> same_blocks sample_values t) \<and>
    Diana_Stack_Free sample_values = Some (Ok () (sample_values\<lparr>cells := \<lambda>a. if a \<in> set bs then None else cells sample_values a\<rparr>))"
  using stack_clear_free [OF sample_values_rep] by blast

end
