(* ===== verification/Extension_Properties.thy ===== *)
theory Extension_Properties
  imports Sample_Machine
begin

unbundle bit_operations_syntax

text \<open>
  The general-register extensions: what the counting instructions count, depositing and extracting of bits as inverses of each other, and the two carry chains.
\<close>

section \<open>Counting\<close>

text \<open>
  C31: popcnt stores the number of set bits of its source, lzcnt and tzcnt the number of zero bits above the highest and below the lowest set bit, the operand size for a zero source; popcnt sets ZF
  and the other two CF exactly for a zero source.
\<close>

theorem bit_counts_correct:
  assumes "stream_attached MemoryRandomStream_Read MemoryRandomStream_Write buffer_ok p" "alu_dest buffer_mapped p n" "operand_rd buffer_mapped p 1 m"
  shows "\<exists>b p1 p2 p3. DI_MEM_GET 1 p = Ok (b, m) p \<and>
    Diana_Call_popcnt p = Ok () p1 \<and> wrote p n (of_nat (card {i. bit b i})) p1 \<and> DianaProcessor_QueryFlag p1 DI_FLAG_ZF = (b = 0) \<and>
    Diana_Call_lzcnt p = Ok () p2 \<and> wrote p n (of_nat (zero_count (bits_of m) True b)) p2 \<and> DianaProcessor_QueryFlag p2 DI_FLAG_CF = (b = 0) \<and>
    Diana_Call_tzcnt p = Ok () p3 \<and> wrote p n (of_nat (zero_count (bits_of m) False b)) p3 \<and> DianaProcessor_QueryFlag p3 DI_FLAG_CF = (b = 0)"
proof -
  obtain b p1 where 1: "DI_MEM_GET 1 p = Ok (b, m) p" "Diana_Call_popcnt p = Ok () p1" "wrote p n (of_nat (card {i. bit b i})) p1"
    "DianaProcessor_QueryFlag p1 DI_FLAG_ZF = (b = 0)" by (rule buf.popcnt_Ok [OF assms])
  obtain b2 p2 where 2: "DI_MEM_GET 1 p = Ok (b2, m) p" "Di_CountZeros True p = Ok () p2" "wrote p n (of_nat (zero_count (bits_of m) True b2)) p2"
    "DianaProcessor_QueryFlag p2 DI_FLAG_CF = (b2 = 0)" by (rule buf.CountZeros_Ok [OF assms])
  obtain b3 p3 where 3: "DI_MEM_GET 1 p = Ok (b3, m) p" "Di_CountZeros False p = Ok () p3" "wrote p n (of_nat (zero_count (bits_of m) False b3)) p3"
    "DianaProcessor_QueryFlag p3 DI_FLAG_CF = (b3 = 0)" by (rule buf.CountZeros_Ok [OF assms])
  have "b2 = b" "b3 = b" using 1(1) 2(1) 3(1) by simp_all
  with 1 2 3 show ?thesis unfolding Diana_Call_lzcnt_def Diana_Call_tzcnt_def by blast
qed

lemma sample_rd: "operand_rd mp (decoded c [reg_op reg_RAX 8, reg_op reg_RCX 8] k sample_loaded) 1 8"
  by (rule alu_readyD(2) [OF sample_ready])

theorem bit_counts_correct_witness:
  "\<exists>p2 p3. Diana_Call_lzcnt (decoded ''lzcnt'' [reg_op reg_RAX 8, reg_op reg_RCX 8] 8 sample_loaded) = Ok () p2 \<and> GET_REG reg_RAX p2 = 61 \<and>
     Diana_Call_tzcnt (decoded ''lzcnt'' [reg_op reg_RAX 8, reg_op reg_RCX 8] 8 sample_loaded) = Ok () p3 \<and> GET_REG reg_RAX p3 = 0"
proof -
  let ?p = "decoded ''lzcnt'' [reg_op reg_RAX 8, reg_op reg_RCX 8] 8 sample_loaded"
  have at: "stream_attached MemoryRandomStream_Read MemoryRandomStream_Write buffer_ok ?p" by simp
  obtain b p2 p3 where x: "DI_MEM_GET 1 ?p = Ok (b, 8) ?p" "Diana_Call_lzcnt ?p = Ok () p2" "wrote ?p 8 (of_nat (zero_count (bits_of 8) True b)) p2"
    "Diana_Call_tzcnt ?p = Ok () p3" "wrote ?p 8 (of_nat (zero_count (bits_of 8) False b)) p3"
    using bit_counts_correct [OF at sample_dest(2) sample_rd] by metis
  have b: "b = 5" using x(1) by (simp add: loaded_get)
  have "zero_count 64 True 5 = 61" "zero_count 64 False 5 = 0" by code_simp+
  then have "GET_REG reg_RAX p2 = 61" "GET_REG reg_RAX p3 = 0" using wrote_reg [OF x(3)] wrote_reg [OF x(5)] by (simp_all add: b bits_of_def)
  with x(2,4) show ?thesis by blast
qed

section \<open>Depositing and extracting\<close>

text \<open>
  C32: pdep spreads the low bits of its source over the set bits of the mask and pext packs the bits under the mask, in order, and they undo each other under one mask: pext of what pdep stored gives back as many low bits of the source as the mask has bits, and pdep of what pext stored gives back the bits of the source
  under the mask.
\<close>

theorem deposit_extract_roundtrip:
  assumes "stream_attached MemoryRandomStream_Read MemoryRandomStream_Write buffer_ok p" "ternary_ready buffer_mapped p n n n"
    "stream_attached MemoryRandomStream_Read MemoryRandomStream_Write buffer_ok q" "ternary_ready buffer_mapped q n n n"
    "DI_MEM_GET 2 p = Ok (c, n) p" "DI_MEM_GET 2 q = Ok (c, n) q" "DI_MEM_GET 1 p = Ok (x, n) p" "DI_MEM_GET 1 q = Ok (y, n) q"
  shows "(\<exists>d p' q'. Diana_Call_pdep p = Ok () p' \<and> wrote p n d p' \<and> (\<forall>t. bit d t = (t < bits_of n \<and> bit c t \<and> bit x (rank c t))) \<and>
      Diana_Call_pext q = Ok () q' \<and> (y = d \<longrightarrow> wrote q n (take_bit (rank c (bits_of n)) x) q')) \<and>
    (\<exists>d p' q'. Diana_Call_pext p = Ok () p' \<and> wrote p n d p' \<and> (\<forall>j. bit d j = (\<exists>t < bits_of n. bit c t \<and> rank c t = j \<and> bit x t)) \<and>
      Diana_Call_pdep q = Ok () q' \<and> (y = d \<longrightarrow> wrote q n (x AND c) q'))"
proof -
  have n: "valid_size n" "take_bit (bits_of n) c = c" "bits_of n \<le> 64"
    using buf.ternary_fetch [OF assms(1,2)] assms(5) valid_bits [of n] by (auto simp: fits_def)
  have run: "\<exists>r'. Di_BitsDepositExtract deposit r = Ok () r' \<and> wrote r n (deposit_value (bits_of n) deposit c z) r'"
    if "stream_attached MemoryRandomStream_Read MemoryRandomStream_Write buffer_ok r" "ternary_ready buffer_mapped r n n n" "DI_MEM_GET 2 r = Ok (c, n) r"
      "DI_MEM_GET 1 r = Ok (z, n) r" for r deposit z
  proof -
    note h = that
    obtain b' c' r' where "DI_MEM_GET 1 r = Ok (b', n) r" "DI_MEM_GET 2 r = Ok (c', n) r" "Di_BitsDepositExtract deposit r = Ok () r'"
      "wrote r n (deposit_value (bits_of n) deposit (take_bit (bits_of n) c') b') r'" by (rule buf.BitsDepositExtract_Ok [OF h(1,2)])
    with h(3,4) n(2) show ?thesis by auto
  qed
  note runs = run [OF assms(1,2,5,7)] run [OF assms(3,4,6,8)]
  have "take_bit (bits_of n) (x AND c) = x AND c" using n(2) by (metis take_bit_and and.assoc and.left_idem take_bit_eq_mask)
  then have undo: "deposit_value (bits_of n) False c (deposit_value (bits_of n) True c x) = take_bit (rank c (bits_of n)) x"
    "deposit_value (bits_of n) True c (deposit_value (bits_of n) False c x) = x AND c"
    using extract_deposit [OF n(3)] deposit_extract [OF n(3)] by simp_all
  obtain p1 p2 where p: "Diana_Call_pdep p = Ok () p1" "wrote p n (deposit_value (bits_of n) True c x) p1"
    "Diana_Call_pext p = Ok () p2" "wrote p n (deposit_value (bits_of n) False c x) p2"
    unfolding Diana_Call_pdep_def Diana_Call_pext_def using runs(1) by blast
  obtain q1 q2 where q: "Diana_Call_pext q = Ok () q1" "wrote q n (deposit_value (bits_of n) False c y) q1"
    "Diana_Call_pdep q = Ok () q2" "wrote q n (deposit_value (bits_of n) True c y) q2"
    unfolding Diana_Call_pdep_def Diana_Call_pext_def using runs(2) by blast
  show ?thesis
  proof (rule conjI)
    show "\<exists>d p' q'. Diana_Call_pdep p = Ok () p' \<and> wrote p n d p' \<and> (\<forall>t. bit d t = (t < bits_of n \<and> bit c t \<and> bit x (rank c t))) \<and>
      Diana_Call_pext q = Ok () q' \<and> (y = d \<longrightarrow> wrote q n (take_bit (rank c (bits_of n)) x) q')"
      using p(1,2) q(1,2) undo(1) deposit_bits [OF n(3)] by metis
    show "\<exists>d p' q'. Diana_Call_pext p = Ok () p' \<and> wrote p n d p' \<and> (\<forall>j. bit d j = (\<exists>t < bits_of n. bit c t \<and> rank c t = j \<and> bit x t)) \<and>
      Diana_Call_pdep q = Ok () q' \<and> (y = d \<longrightarrow> wrote q n (x AND c) q')"
      using p(3,4) q(3,4) undo(2) extract_bits [OF n(3), of c x]
      by (intro exI [of _ "deposit_value (bits_of n) False c x"] exI [of _ p2] exI [of _ q2]) auto
  qed
qed

lemma sample_ternary: "ternary_ready mp (decoded c [reg_op reg_RAX 8, o1, reg_op reg_RCX 8] k sample_loaded) 8 8 8"
  if "o1 = reg_op reg_RAX 8 \<or> o1 = reg_op reg_RCX 8"
  using that sample_dest [of mp c "[o1, reg_op reg_RCX 8]" k] sample_at(1,2)
  by (auto simp: ternary_ready_def operand_rd_def operand_rw_def valid_size_def)

theorem deposit_extract_roundtrip_witness:
  "\<exists>p' q'. Diana_Call_pdep (decoded ''pdep'' [reg_op reg_RAX 8, reg_op reg_RAX 8, reg_op reg_RCX 8] 8 sample_loaded) = Ok () p' \<and> GET_REG reg_RAX p' = 5 \<and>
     Diana_Call_pext (decoded ''pext'' [reg_op reg_RAX 8, reg_op reg_RCX 8, reg_op reg_RCX 8] 8 sample_loaded) = Ok () q' \<and> GET_REG reg_RAX q' = 3"
proof -
  let ?p = "decoded ''pdep'' [reg_op reg_RAX 8, reg_op reg_RAX 8, reg_op reg_RCX 8] 8 sample_loaded"
  let ?q = "decoded ''pext'' [reg_op reg_RAX 8, reg_op reg_RCX 8, reg_op reg_RCX 8] 8 sample_loaded"
  have at: "stream_attached MemoryRandomStream_Read MemoryRandomStream_Write buffer_ok ?p" "stream_attached MemoryRandomStream_Read MemoryRandomStream_Write buffer_ok ?q"
    by simp_all
  have get: "DI_MEM_GET 2 ?p = Ok (5, 8) ?p" "DI_MEM_GET 2 ?q = Ok (5, 8) ?q" "DI_MEM_GET 1 ?p = Ok (7, 8) ?p" "DI_MEM_GET 1 ?q = Ok (5, 8) ?q"
    by (simp_all add: DI_MEM_GET_def di_simps Diana_ProcessorGetOperand_register_def numeral_2_eq_2)
  have t: "ternary_ready buffer_mapped ?p 8 8 8" "ternary_ready buffer_mapped ?q 8 8 8" by (simp_all add: sample_ternary)
  obtain d p' q' where x: "Diana_Call_pdep ?p = Ok () p'" "wrote ?p 8 d p'" "Diana_Call_pext ?q = Ok () q'" "5 = d \<longrightarrow> wrote ?q 8 (take_bit (rank 5 (bits_of 8)) 7) q'"
    using deposit_extract_roundtrip [OF at(1) t(1) at(2) t(2) get] by blast
  obtain b c r where "DI_MEM_GET 1 ?p = Ok (b, 8) ?p" "DI_MEM_GET 2 ?p = Ok (c, 8) ?p" "Di_BitsDepositExtract True ?p = Ok () r"
    "wrote ?p 8 (deposit_value (bits_of 8) True (take_bit (bits_of 8) c) b) r" by (rule buf.BitsDepositExtract_Ok [OF at(1) t(1)])
  with get x(1) have w: "wrote ?p 8 (deposit_value 64 True (take_bit 64 5) 7) p'" by (auto simp: Diana_Call_pdep_def bits_of_def)
  have "take_bit (rank 5 64) 7 = (3 :: u64)" "deposit_value 64 True (take_bit 64 5) 7 = 5" by code_simp+
  then have "d = 5" "5 = d \<longrightarrow> GET_REG reg_RAX q' = 3"
    using x(4) wrote_reg [of "''pext''" reg_RAX 8] wrote_reg [OF x(2)] wrote_reg [OF w] by (auto simp: bits_of_def)
  then show ?thesis using x(1,3) wrote_reg [OF x(2)] by auto
qed

section \<open>Carry chains\<close>

text \<open>
  adcx and adox add with carry on two chains that do not disturb each other: adcx takes its carry from CF and leaves it there, adox uses OF; sum and carry are exact, and no other flag changes.
\<close>

theorem carry_chains:
  assumes "stream_attached MemoryRandomStream_Read MemoryRandomStream_Write buffer_ok p" "alu_dest buffer_mapped p n" "operand_rd buffer_mapped p 1 n"
  shows "\<forall>(h, f) \<in> set [(Diana_Call_adcx, DI_FLAG_CF), (Diana_Call_adox, DI_FLAG_OF)]. \<exists>a b s p'. DI_MEM_GET 0 p = Ok (a, n) p \<and> DI_MEM_GET 1 p = Ok (b, n) p \<and>
    h p = Ok () p' \<and> wrote p n s p' \<and> uint s + 2 ^ bits_of n * of_bool (DianaProcessor_QueryFlag p' f) = uint a + uint b + of_bool (DianaProcessor_QueryFlag p f) \<and>
    (\<forall>g. f AND g = 0 \<longrightarrow> DianaProcessor_QueryFlag p' g = DianaProcessor_QueryFlag p g)"
proof -
  have "\<exists>a b s p'. DI_MEM_GET 0 p = Ok (a, n) p \<and> DI_MEM_GET 1 p = Ok (b, n) p \<and>
    Di_AddCarry o' p = Ok () p' \<and> wrote p n s p' \<and> uint s + 2 ^ bits_of n * of_bool (DianaProcessor_QueryFlag p' f) = uint a + uint b + of_bool (DianaProcessor_QueryFlag p f) \<and>
    (\<forall>g. f AND g = 0 \<longrightarrow> DianaProcessor_QueryFlag p' g = DianaProcessor_QueryFlag p g)" if "f = (if o' then DI_FLAG_OF else DI_FLAG_CF)" for o' f
    by (rule buf.AddCarry_Ok [OF assms that]) blast
  from this [of DI_FLAG_CF False] this [of DI_FLAG_OF True] show ?thesis
    unfolding Diana_Call_adcx_def Diana_Call_adox_def by simp
qed

end
