(* ===== verification/Uids.thy ===== *)
theory Uids
  imports Diana_Prelude "HOL-Library.List_Lexorder" "HOL-Library.Product_Lexorder"
begin

text \<open>
  The identifiers of \<^verbatim>\<open>diana_uids.c\<close> and their comparison, which is the lexicographic order of the fields.  Of \<^verbatim>\<open>memcmp\<close> the C standard fixes the sign only; the model returns -1, 0 or 1.
\<close>

datatype DIANA_UUID = DIANA_UUID (Data1: u32) (Data2: u16) (Data3: u16) (Data4: "u8 list")

fun memcmp :: "u8 list \<Rightarrow> u8 list \<Rightarrow> int" where
  "memcmp (a # as) (b # bs) = (if a < b then -1 else if b < a then 1 else memcmp as bs)"
| "memcmp _ _ = 0"

definition DIANA_UUID_Compare :: "DIANA_UUID \<Rightarrow> DIANA_UUID \<Rightarrow> int" where
  "DIANA_UUID_Compare p1 p2 =
     (if Data1 p1 < Data1 p2 then -1 else if Data1 p1 > Data1 p2 then 1
      else if Data2 p1 < Data2 p2 then -1 else if Data2 p1 > Data2 p2 then 1
      else if Data3 p1 < Data3 p2 then -1 else if Data3 p1 > Data3 p2 then 1
      else memcmp (Data4 p1) (Data4 p2))"

record DianaBase = m_id :: DIANA_UUID

definition DianaBase_Init :: "DIANA_UUID \<Rightarrow> DianaBase \<Rightarrow> DianaBase" where
  "DianaBase_Init guid pBase = pBase\<lparr>m_id := guid\<rparr>"

definition DianaBase_Match :: "DianaBase \<Rightarrow> DIANA_UUID \<Rightarrow> bool" where
  "DianaBase_Match pBase guid = (DIANA_UUID_Compare (m_id pBase) guid = 0)"

section \<open>The order\<close>

definition uuid_key :: "DIANA_UUID \<Rightarrow> u32 \<times> u16 \<times> u16 \<times> u8 list" where
  "uuid_key u = (Data1 u, Data2 u, Data3 u, Data4 u)"

lemma uuid_key_inject: "uuid_key u = uuid_key v \<longleftrightarrow> u = v"
  by (cases u; cases v) (simp add: uuid_key_def)

instantiation DIANA_UUID :: linorder
begin

definition less_eq_DIANA_UUID :: "DIANA_UUID \<Rightarrow> DIANA_UUID \<Rightarrow> bool" where
  "less_eq_DIANA_UUID u v \<longleftrightarrow> uuid_key u \<le> uuid_key v"

definition less_DIANA_UUID :: "DIANA_UUID \<Rightarrow> DIANA_UUID \<Rightarrow> bool" where
  "less_DIANA_UUID u v \<longleftrightarrow> uuid_key u < uuid_key v"

instance
  by standard (auto simp: less_eq_DIANA_UUID_def less_DIANA_UUID_def uuid_key_inject [symmetric])

end

text \<open>An identifier of the program has eight bytes in its last field.\<close>

definition uuid_ok :: "DIANA_UUID \<Rightarrow> bool" where
  "uuid_ok u \<longleftrightarrow> length (Data4 u) = 8"

lemma memcmp_order: "length as = length bs \<Longrightarrow> memcmp as bs = (if as < bs then -1 else if bs < as then 1 else 0)"
  by (induction as bs rule: list_induct2) auto

theorem uuid_compare_orders:
  assumes "uuid_ok u" "uuid_ok v"
  shows "DIANA_UUID_Compare u v = (if u < v then -1 else if v < u then 1 else 0)"
  using assms memcmp_order [of "Data4 u" "Data4 v"] by (auto simp: uuid_ok_def DIANA_UUID_Compare_def less_DIANA_UUID_def uuid_key_def)

lemma Init_Match: "uuid_ok u \<Longrightarrow> uuid_ok v \<Longrightarrow> DianaBase_Match (DianaBase_Init u b) v \<longleftrightarrow> u = v"
  using uuid_compare_orders [of u v] by (auto simp: DianaBase_Match_def DianaBase_Init_def)

end
