(* ===== verification/Stack_Analysis.thy ===== *)
theory Stack_Analysis
  imports Control_Properties Arithmetic_Properties Product_Correct Decoder_Core
begin

unbundle bit_operations_syntax

text \<open>
  What an instruction does to the stack, as \<^verbatim>\<open>diana_analyze2.c\<close> reads it off the decoded instruction, and how far that agrees with what the emulator's handlers do.
  The group information of an instruction of the table is its command and what \<open>InitJmps\<close> attached to it; every entry has a group.
\<close>

section \<open>Operands\<close>

text \<open>The loops over the operands: \<open>k\<close> operands are left, the next one is \<open>i\<close>.\<close>

fun imm_from :: "nat \<Rightarrow> int \<Rightarrow> DianaParserResult \<Rightarrow> u64 option" where
  "imm_from 0 i r = None"
| "imm_from (Suc k) i r = (case op_value (linkedOperands r i) of diana_imm v \<Rightarrow> Some v | _ \<Rightarrow> imm_from k (i + 1) r)"

definition Diana_Analyze_HasImmediateValue :: "DianaParserResult \<Rightarrow> u64 option" where
  "Diana_Analyze_HasImmediateValue r = imm_from (nat (iLinkedOpCount r)) 0 r"

definition Diana_Analyze_IsStackRegister :: "DianaUnifiedRegister \<Rightarrow> bool" where
  "Diana_Analyze_IsStackRegister r \<longleftrightarrow> r \<in> set [reg_ESP, reg_EBP, reg_RSP, reg_RBP, reg_BPL, reg_SPL]"

fun stack_access_from :: "nat \<Rightarrow> int \<Rightarrow> DianaParserResult \<Rightarrow> bool" where
  "stack_access_from 0 i r = False"
| "stack_access_from (Suc k) i r =
     (case op_value (linkedOperands r i) of
        diana_register x \<Rightarrow> Diana_Analyze_IsStackRegister x \<or> stack_access_from k (i + 1) r
      | diana_index ix \<Rightarrow> Diana_Analyze_IsStackRegister (reg ix) \<or> Diana_Analyze_IsStackRegister (reg ix) \<or> stack_access_from k (i + 1) r
      | _ \<Rightarrow> stack_access_from k (i + 1) r)"

definition Diana_AnalyzeInstructionStackAccess :: "DianaParserResult \<Rightarrow> bool" where
  "Diana_AnalyzeInstructionStackAccess r = stack_access_from (nat (iLinkedOpCount r)) 0 r"

section \<open>The difference of the stack pointer\<close>

text \<open>
  The status (\<open>None\<close> is \<^verbatim>\<open>DI_SUCCESS\<close>), \<^verbatim>\<open>*pESPDiff\<close> and \<^verbatim>\<open>*pIsCall\<close>.  The difference is a signed 64-bit number, kept as the word.
\<close>

type_synonym stack_diff = "di_error option \<times> u64 \<times> bool"

definition Diana_AnalyzeInstructionStackDiff_KnownCommands :: "DianaContext \<Rightarrow> DianaParserResult \<Rightarrow> stack_diff" where
  "Diana_AnalyzeInstructionStackDiff_KnownCommands c r =
     (let cmd = m_commandId (pInfo r); osz = iCurrentCmd_opsize c in
      if cmd = ''push'' then (None, word_of_int (0 - osz), False)
      else if cmd = ''pop'' then (None, word_of_int osz, False)
      else if cmd = ''pusha'' then (None, word_of_int (0 - osz * 8), False)
      else if cmd = ''popa'' then (None, word_of_int (osz * 8), False)
      else if cmd \<notin> set [''sub'', ''add'', ''mov''] \<or> iLinkedOpCount r \<noteq> 2 then (None, 0, False)
      else
        case op_value (linkedOperands r 0) of
          diana_register x \<Rightarrow>
            if x \<in> set [reg_ESP, reg_RSP, reg_SP] then
              if cmd = ''mov'' then (Some DI_END, 0, False)
              else (case op_value (linkedOperands r 1) of
                      diana_imm v \<Rightarrow> (None, if cmd = ''add'' then v else 0 - v, False)
                    | _ \<Rightarrow> (Some DI_UNSUPPORTED_COMMAND, 0, False))
            else (None, 0, False)
        | _ \<Rightarrow> (None, 0, False))"

definition Diana_AnalyzeInstructionStackDiff :: "DianaContext \<Rightarrow> DianaParserResult \<Rightarrow> stack_diff" where
  "Diana_AnalyzeInstructionStackDiff c r =
     (case InitJmps (m_commandId (pInfo r)) of
        None \<Rightarrow> Diana_AnalyzeInstructionStackDiff_KnownCommands c r
      | Some g \<Rightarrow>
          if gi_flags g AND DIANA_GT_IS_CALL \<noteq> 0 then (None, word_of_int (- iCurrentCmd_opsize c), True)
          else if gi_flags g AND DIANA_GT_IS_JUMP \<noteq> 0 then (None, 0, False)
          else if gi_flags g AND DIANA_GT_RET \<noteq> 0 then
            (None, word_of_int (iCurrentCmd_opsize c) +
               (if iLinkedOpCount r > 0 then (case op_value (linkedOperands r 0) of diana_imm v \<Rightarrow> v | _ \<Rightarrow> 0) else 0), False)
          else Diana_AnalyzeInstructionStackDiff_KnownCommands c r)"

section \<open>Agreement with the emulator\<close>

lemma stack_diff_simps:
  "m_commandId (pInfo r) = ''push'' \<Longrightarrow> Diana_AnalyzeInstructionStackDiff c r = (None, word_of_int (- iCurrentCmd_opsize c), False)"
  "m_commandId (pInfo r) = ''pop'' \<Longrightarrow> Diana_AnalyzeInstructionStackDiff c r = (None, word_of_int (iCurrentCmd_opsize c), False)"
  "m_commandId (pInfo r) = ''call'' \<Longrightarrow> Diana_AnalyzeInstructionStackDiff c r = (None, word_of_int (- iCurrentCmd_opsize c), True)"
  by (simp_all add: Diana_AnalyzeInstructionStackDiff_def Diana_AnalyzeInstructionStackDiff_KnownCommands_def InitJmps_def)

lemma stack_diff_ret:
  "m_commandId (pInfo r) = ''ret'' \<Longrightarrow> Diana_AnalyzeInstructionStackDiff c r = (None, word_of_int (iCurrentCmd_opsize c) +
     (if iLinkedOpCount r > 0 then (case op_value (linkedOperands r 0) of diana_imm v \<Rightarrow> v | _ \<Rightarrow> 0) else 0), False)"
  by (simp add: Diana_AnalyzeInstructionStackDiff_def InitJmps_def)

lemma stack_diff_immediate_eq:
  assumes "m_commandId (pInfo r) = ''add'' \<or> m_commandId (pInfo r) = ''sub''" "iLinkedOpCount r = 2"
    "op_value (linkedOperands r 0) = diana_register reg_RSP" "op_value (linkedOperands r 1) = diana_imm v"
  shows "Diana_AnalyzeInstructionStackDiff c r = (None, if m_commandId (pInfo r) = ''add'' then v else - v, False)"
  using assms by (auto simp: Diana_AnalyzeInstructionStackDiff_def Diana_AnalyzeInstructionStackDiff_KnownCommands_def InitJmps_def)

text \<open>A read of memory changes the memory component at most.\<close>

lemma GetMemValue_memory:
  assumes "DianaProcessor_GetMemValue sel off n seg p = Ok v p'"
  obtains m where "p' = p\<lparr>m_memory := m\<rparr>"
  using assms by (auto simp: DianaProcessor_GetMemValue_def DianaProcessor_GetMemValue_raw_def split: di_res.splits if_splits option.splits)

lemma SetMemValue_memory:
  assumes "DianaProcessor_SetMemValue sel off n v seg p = Ok u p'"
  obtains m where "p' = p\<lparr>m_memory := m\<rparr>"
  using assms by (auto simp: DianaProcessor_SetMemValue_def split: di_res.splits if_splits)

lemma CalcIndex_state: "DianaProcessor_CalcIndex ix p = Ok x p' \<Longrightarrow> p' = p"
  by (simp add: DianaProcessor_CalcIndex_def di_simps Let_def split: if_splits)

lemma MEM_GET_memory:
  assumes "DI_MEM_GET i p = Ok x p'"
  obtains m where "p' = p\<lparr>m_memory := m\<rparr>"
proof -
  have "\<exists>m. p' = p\<lparr>m_memory := m\<rparr>"
    using assms
    by (auto simp: DI_MEM_GET_def di_simps Diana_ProcessorGetOperand_register_def Diana_ProcessorGetOperand_index_def dest!: CalcIndex_state
        elim!: DI_CHECK_OkE GetMemValue_memory intro: exI [of _ "m_memory p"] split: if_splits DianaOperandValue.splits prod.splits)
  with that show ?thesis by blast
qed

lemma std_regs_memory [simp]: "std_regs (p\<lparr>m_memory := m\<rparr>) = std_regs p" "psz_off (p\<lparr>m_memory := m\<rparr>) = psz_off p"
  by (simp_all add: std_regs_def psz_off_def)

lemma GET_REG_memory [simp]: "GET_REG r (p\<lparr>m_memory := m\<rparr>) = GET_REG r p"
  by (rule GET_REG_cong) simp_all

lemma REG2_RSP:
  assumes "std_regs p"
  shows "SET_REG2 reg_RSP v 8 p = SET_REG reg_RSP v p" "GET_REG2 reg_RSP 8 p = GET_REG reg_RSP p"
proof -
  have "m_size (DianaProcessor_QueryReg p reg_RSP) = 8"
    using assms control_at(3) by (simp add: QueryReg_plain reg_at_def std_regs_def)
  then show "SET_REG2 reg_RSP v 8 p = SET_REG reg_RSP v p" "GET_REG2 reg_RSP 8 p = GET_REG reg_RSP p"
    by (simp_all add: SET_REG2_def SET_REG_def GET_REG2_def GET_REG_def DianaProcessor_SetValue_def DianaProcessor_GetValue_def)
qed

lemma RSP_set [simp]: "std_regs p \<Longrightarrow> GET_REG reg_RSP (SET_REG reg_RSP v p) = v"
  using GET_SET_at_same [OF _ control_at(3), of p v] by simp

lemma push_moves:
  assumes "diana_internal_push v p = Ok u p'" "std_regs p" "addrsize p = 8"
  shows "GET_REG reg_RSP p' = GET_REG reg_RSP p + word_of_int (- opsize p)"
  using assms by (auto simp: diana_internal_push_def di_simps REG2_RSP Let_def elim!: DI_CHECK_OkE SetMemValue_memory split: if_splits)

lemma pop_moves:
  assumes "diana_internal_pop p = Ok v p'" "std_regs p" "addrsize p = 8"
  obtains m where "p' = SET_REG reg_RSP (GET_REG reg_RSP p + word_of_int (opsize p)) (p\<lparr>m_memory := m\<rparr>)"
  using assms by (auto simp: diana_internal_pop_def diana_internal_pop_to_def DianaProcessor_GetMemValue_raw_def REG2_RSP Let_def
      split: di_res.splits if_splits)

lemma push_agrees:
  assumes "Diana_Call_push p = Ok () p'" "std_regs p" "addrsize p = 8"
  shows "GET_REG reg_RSP p' = GET_REG reg_RSP p + word_of_int (- opsize p)"
proof -
  obtain x q where q: "DI_MEM_GET 0 p = Ok x q" "(case x of (src, src_size) \<Rightarrow>
     DI_LET (\<lambda>p. (m_cmd_flags (pInfo (m_result p)), opsize p, usedSize (linked p 0))) (\<lambda>(flags, osz, used).
     if flags AND DI_FLAG_CMD_PUSH_SEG \<noteq> 0 then
       DI_LET (\<lambda>p. (GET_REG2 reg_RSP (addrsize p) p, GET_REG reg_SS p)) (\<lambda>(rsp, ss).
       if rsp < word_of_int osz then DI_FAIL DI_ERROR
       else
         let rsp = rsp - word_of_int osz in
         DI_CHECK (DianaProcessor_SetMemValue ss rsp 2 src reg_SS) (\<lambda>_.
         DI_DO (\<lambda>p. SET_REG2 reg_RSP rsp (addrsize p) p)
         DI_PROC_END))
     else
     DI_CHECK (if used = 1 then DianaProcessor_SignExtend src 1 osz else DI_RETURN src) (\<lambda>src.
     DI_CHECK
       (if osz = 8 \<and> flags AND DI_FLAG_CMD_AMD64_SIGN_EXTENDS \<noteq> 0 then DianaProcessor_SignExtend src src_size 8
        else DI_RETURN src) (\<lambda>src.
     DI_CHECK (diana_internal_push src) (\<lambda>_.
     DI_PROC_END))))) q = Ok () p'"
    using assms(1) unfolding Diana_Call_push_def by (rule DI_CHECK_OkE)
  obtain m where m: "q = p\<lparr>m_memory := m\<rparr>" by (rule MEM_GET_memory [OF q(1)])
  have ext: "DianaProcessor_SignExtend v a b r = Ok w r' \<Longrightarrow> r' = r" for v a b w and r r' :: "'a DianaProcessor"
    by (auto simp: DianaProcessor_SignExtend_def di_simps split: if_splits)
  have std: "std_regs q" "addrsize q = 8" "opsize q = opsize p" "GET_REG reg_RSP q = GET_REG reg_RSP p" using assms(2,3) by (simp_all add: m)
  show ?thesis
    using q(2) std push_moves [OF _ std(1,2)]
    by (auto simp: di_simps REG2_RSP Let_def dest!: ext elim!: DI_CHECK_OkE SetMemValue_memory split: if_splits prod.splits)
qed

lemma pop_agrees:
  assumes "Diana_Call_pop p = Ok () p'" "std_regs p" "addrsize p = 8" "op_value (linked p 0) = diana_register r" "r \<in> gpr64" "r \<noteq> reg_RSP"
  shows "GET_REG reg_RSP p' = GET_REG reg_RSP p + word_of_int (opsize p)"
proof -
  have wide: "Query64RegisterFor32 r = None" using assms(5) by (auto simp: gpr64_def Query64RegisterFor32_def)
  have "DI_MEM_GET 0 p = Ok (GET_REG r p, usedSize (linked p 0)) p \<or> (\<exists>e. DI_MEM_GET 0 p = Err e p)"
    using assms(4) by (simp add: DI_MEM_GET_def di_simps Diana_ProcessorGetOperand_register_def)
  then obtain v q where q: "diana_internal_pop p = Ok v q" "DI_CHECK (DI_MEM_SET 0 v) (\<lambda>_. DI_PROC_END) q = Ok () p'"
    using assms(1) by (auto simp: Diana_Call_pop_def DI_CHECK_def split: di_res.splits)
  obtain m where m: "q = SET_REG reg_RSP (GET_REG reg_RSP p + word_of_int (opsize p)) (p\<lparr>m_memory := m\<rparr>)"
    by (rule pop_moves [OF q(1) assms(2,3)])
  have s: "std_regs q" "linked q 0 = linked p 0" "m_context q = m_context p" using assms(2) by (simp_all add: m)
  have "p' = SET_REG r v q"
    using q(2) s(2) assms(4) wide by (auto simp: DI_MEM_SET_def di_simps Diana_ProcessorSetOperand_register_def elim!: DI_CHECK_OkE split: if_splits)
  moreover have "GET_REG reg_RSP (SET_REG r v q) = GET_REG reg_RSP q"
    by (rule GET_SET_gpr64_other [OF s(1) assms(5)]) (use assms(6) in \<open>simp_all add: gpr64_def\<close>)
  ultimately show ?thesis using assms(2) by (simp add: m)
qed

lemma RIP_keeps_RSP: "std_regs p \<Longrightarrow> GET_REG reg_RSP (SET_REG reg_RIP v p) = GET_REG reg_RSP p"
  by (rule gpr_below_RIP) (simp_all add: gpr64_def)

lemma call_agrees:
  assumes "Diana_Call_call p = Ok () p'" "std_regs p" "\<not> (case op_value (linked p 0) of diana_memory _ \<Rightarrow> True | diana_call_ptr _ \<Rightarrow> True | _ \<Rightarrow> False)"
  shows "GET_REG reg_RSP p' = GET_REG reg_RSP p + word_of_int (- opsize p)"
proof -
  have "opcount p = 1" using assms(1) by (auto simp: Diana_Call_call_def di_simps split: if_splits)
  obtain t m where t: "Diana_Call_call_target p = Ok (t, None) (p\<lparr>m_memory := m\<rparr>)"
  proof -
    obtain x q where "Diana_Call_call_target p = Ok x q"
      using assms(1) by (auto simp: Diana_Call_call_def di_simps elim!: DI_CHECK_OkE split: if_splits)
    then have "\<exists>t m. Diana_Call_call_target p = Ok (t, None) (p\<lparr>m_memory := m\<rparr>)"
      using assms(3) by (auto simp: Diana_Call_call_target_def di_simps elim!: DI_CHECK_OkE MEM_GET_memory intro: exI [of _ "m_memory p"]
        split: DianaOperandValue.splits prod.splits)
    with that show thesis by blast
  qed
  obtain m' where w: "p' = SET_REG reg_RIP t (SET_REG reg_RSP (GET_REG reg_RSP p - word_of_int (opsize p))
        (p\<lparr>m_memory := m', m_lastCallRIP := t, m_lastCallRSP := GET_REG reg_RSP p - word_of_int (opsize p)\<rparr>))"
    using assms(1) \<open>opcount p = 1\<close> t
    by (auto simp: Diana_Call_call_def di_simps Let_def elim!: DI_CHECK_OkE SetMemValue_memory split: if_splits)
  have "std_regs (p\<lparr>m_memory := m', m_lastCallRIP := t, m_lastCallRSP := GET_REG reg_RSP p - word_of_int (opsize p)\<rparr>)"
    using assms(2) by (simp add: std_regs_def)
  with w show ?thesis by (simp add: RIP_keeps_RSP)
qed

lemma ret_agrees:
  assumes "Diana_Call_ret p = Ok () p'" "std_regs p"
  shows "GET_REG reg_RSP p' = GET_REG reg_RSP p + (word_of_int (opsize p) +
     (if opcount p > 0 then (case op_value (linked p 0) of diana_imm v \<Rightarrow> v | _ \<Rightarrow> 0) else 0))"
proof -
  let ?drop = "if opcount p > 0 then (case op_value (linked p 0) of diana_imm v \<Rightarrow> v | _ \<Rightarrow> 0) else 0"
  obtain t m where "p' = SET_REG reg_RIP t (SET_REG reg_RSP (GET_REG reg_RSP p + word_of_int (opsize p) + ?drop) (p\<lparr>m_memory := m\<rparr>))"
    using assms(1)
    by (auto simp: Diana_Call_ret_def Diana_Call_internal_ret_def di_simps Let_def elim!: DI_CHECK_OkE MEM_GET_memory GetMemValue_memory
        split: if_splits DianaOperandValue.splits)
  with assms(2) show ?thesis by (simp add: RIP_keeps_RSP add.assoc)
qed

lemma sval_wide:
  assumes "valid_size m" "fits m v" "fits 8 b" "sval 8 b = sval m v"
  shows "b = v \<longleftrightarrow> m = 8 \<or> 0 \<le> sval m v"
proof -
  have eq: "b = v \<longleftrightarrow> sint b = sint v" using word_eq_iff_signed [of b v] by simp
  show ?thesis
  proof (cases "m = 8")
    case True
    then show ?thesis using assms(4) by (simp add: sval_8 eq)
  next
    case False
    then have m: "bits_of m \<le> 32" "0 < bits_of m" using assms(1) by (auto simp: valid_size_def bits_of_def)
    have "uint v < 2 ^ bits_of m" using assms(2) by (simp add: fits_iff)
    moreover have "(2 :: int) ^ bits_of m \<le> 2 ^ 32" using m by (intro power_increasing) simp_all
    ultimately have small: "uint v < 2 ^ 32" by linarith
    then have sv: "sint v = uint v" using sval_8 [of v] signed_take_bit_int_eq_self [of 63 "uint v"] uint_ge_0 [of v] by (simp add: sval_def bits_of_def)
    have "sval m v = (if 2 ^ (bits_of m - 1) \<le> uint v then uint v - 2 ^ bits_of m else uint v)"
      using sval_eq [OF assms(1), of v] by (simp add: CutValue_fits [OF assms(1,2)] Let_def)
    with \<open>uint v < 2 ^ bits_of m\<close> have "sval m v = uint v \<longleftrightarrow> 0 \<le> sval m v" by auto
    then show ?thesis using False assms(4) sv by (simp add: sval_8 eq)
  qed
qed

text \<open>
  C28: with 64-bit addressing, for push, for pop into a 64-bit register other than RSP, for a near call and for ret, the difference that the analyzer reads off the instruction is the
  difference of RSP over every successful execution by the emulator.
\<close>

theorem stack_diff_agrees:
  assumes "(m_commandId (pInfo (m_result p)), h) \<in> set [(''push'', Diana_Call_push), (''pop'', Diana_Call_pop), (''call'', Diana_Call_call), (''ret'', Diana_Call_ret)]"
    "h p = Ok () p'" "std_regs p" "addrsize p = 8"
    "m_commandId (pInfo (m_result p)) = ''pop'' \<Longrightarrow> op_value (linked p 0) \<in> diana_register ` (gpr64 - {reg_RSP})"
    "m_commandId (pInfo (m_result p)) = ''call'' \<Longrightarrow> \<not> (case op_value (linked p 0) of diana_memory _ \<Rightarrow> True | diana_call_ptr _ \<Rightarrow> True | _ \<Rightarrow> False)"
  shows "\<exists>d. Diana_AnalyzeInstructionStackDiff (m_context p) (m_result p) = (None, d, m_commandId (pInfo (m_result p)) = ''call'') \<and>
    GET_REG reg_RSP p' = GET_REG reg_RSP p + d"
proof -
  consider (push) "m_commandId (pInfo (m_result p)) = ''push''" "h = Diana_Call_push" | (pop) "m_commandId (pInfo (m_result p)) = ''pop''" "h = Diana_Call_pop"
    | (call) "m_commandId (pInfo (m_result p)) = ''call''" "h = Diana_Call_call" | (ret) "m_commandId (pInfo (m_result p)) = ''ret''" "h = Diana_Call_ret"
    using assms(1) by auto
  then show ?thesis
  proof cases
    case push
    then show ?thesis using push_agrees [OF _ assms(3,4)] assms(2) by (simp add: stack_diff_simps)
  next
    case pop
    then obtain r where "op_value (linked p 0) = diana_register r" "r \<in> gpr64" "r \<noteq> reg_RSP" using assms(5) by auto
    then show ?thesis using pop pop_agrees [OF _ assms(3,4)] assms(2) by (simp add: stack_diff_simps)
  next
    case call
    then show ?thesis using call_agrees [OF _ assms(3) assms(6) [OF call(1)]] assms(2) by (simp add: stack_diff_simps)
  next
    case ret
    then show ?thesis using ret_agrees [OF _ assms(3)] assms(2) by (simp add: stack_diff_ret)
  qed
qed

theorem stack_diff_agrees_witness:
  "\<exists>p' d. Diana_Call_call (decoded ''call'' [rel_op 0x20] 8 sample_stack) = Ok () p' \<and>
     Diana_AnalyzeInstructionStackDiff (m_context (decoded ''call'' [rel_op 0x20] 8 sample_stack)) (m_result (decoded ''call'' [rel_op 0x20] 8 sample_stack)) = (None, d, True) \<and>
     GET_REG reg_RSP p' = GET_REG reg_RSP (decoded ''call'' [rel_op 0x20] 8 sample_stack) + d"
proof -
  let ?p = "decoded ''call'' [rel_op 0x20] 8 sample_stack"
  have h: "std_regs ?p" "opsize ?p = 8" "opcount ?p = 1" "op_value (linked ?p 0) = diana_rel \<lparr>m_rel_size = 4, m_value = 0x20\<rparr>" "addrsize ?p = 8"
    "GET_REG reg_RSP ?p = 64" "m_commandId (pInfo (m_result ?p)) = ''call''"
    by (simp_all add: sample_stack_def rel_op_def Diana_InitContext_def GET_SET_gpr64_same GET_SET_gpr64_other gpr64_def)
  have mp: "buffer_mapped (m_memory ?p) (GET_REG reg_SS ?p) (GET_REG reg_RSP ?p - 8) 8"
    unfolding h by (simp add: sample_stack_def sample_memory buffer_mapped_def flat_def)
  obtain s' where "DianaProcessor_SetMemValue (GET_REG reg_SS ?p) (GET_REG reg_RSP ?p - 8) 8 (GET_REG reg_RIP ?p + word_of_int (iFullCmdSize (m_result ?p))) reg_SS ?p =
      Ok () (?p\<lparr>m_memory := s'\<rparr>)"
    using buf.SetMemValue_mapped [OF sample_stack_ready(1) mp, of "GET_REG reg_RIP ?p + word_of_int (iFullCmdSize (m_result ?p))" reg_SS] by auto
  then have "\<exists>p'. Diana_Call_call ?p = Ok () p'"
    using h by (simp add: Diana_Call_call_def Diana_Call_call_target_def di_simps Let_def)
  then obtain p' where p': "Diana_Call_call ?p = Ok () p'" by blast
  show ?thesis using p' stack_diff_agrees [of ?p Diana_Call_call p'] h by simp
qed

text \<open>
  C30: for add and sub of an immediate to RSP the analyzer takes the immediate as the decoder stores it, without the sign extension of the emulator: the two agree exactly when the immediate has eight
  bytes or is not negative.
\<close>

theorem stack_diff_immediate:
  assumes "stream_attached MemoryRandomStream_Read MemoryRandomStream_Write buffer_ok p" "alu_ready buffer_mapped p 8 m" "opcount p = 2"
    "op_value (linked p 0) = diana_register reg_RSP" "op_value (linked p 1) = diana_imm v"
    "(m_commandId (pInfo (m_result p)), h) \<in> set [(''add'', Diana_Call_add), (''sub'', Diana_Call_sub)]"
  shows "\<exists>p' d. h p = Ok () p' \<and> Diana_AnalyzeInstructionStackDiff (m_context p) (m_result p) = (None, d, False) \<and>
    (GET_REG reg_RSP p' = GET_REG reg_RSP p + d \<longleftrightarrow> m = 8 \<or> 0 \<le> sval m v)"
proof -
  let ?cmd = "m_commandId (pInfo (m_result p))"
  have cmd: "?cmd = ''add'' \<and> h = Diana_Call_add \<or> ?cmd = ''sub'' \<and> h = Diana_Call_sub" using assms(6) by auto
  have "\<exists>a b p'. operands p 8 m a b \<and> h p = Ok () p' \<and> wrote p 8 (if ?cmd = ''add'' then a + b else a - b) p'"
    using cmd buf.add_Ok [OF assms(1,2)] buf.sub_Ok [OF assms(1,2)] by (elim disjE conjE) (simp, metis)+
  then obtain a b p' where x: "operands p 8 m a b" "h p = Ok () p'" "wrote p 8 (if ?cmd = ''add'' then a + b else a - b) p'" by blast
  have get: "a = GET_REG reg_RSP p" "fits m v" "fits 8 b" "sval 8 b = sval m v"
    using x(1) assms(3-5) by (auto simp: operands_def DI_MEM_GET_def di_simps Diana_ProcessorGetOperand_register_def)
  have "m_result p' = m_result p" using x(3) by (simp add: wrote_def operand_frame_def)
  then have "GET_REG reg_RSP p' = (if ?cmd = ''add'' then a + b else a - b)"
    using x(3) assms(3,4) by (simp add: wrote_def DI_MEM_GET_def di_simps Diana_ProcessorGetOperand_register_def CutValue_take_bit valid_size_def bits_of_def)
  moreover have "?cmd = ''add'' \<or> ?cmd = ''sub''" using cmd by auto
  ultimately show ?thesis
    using x(2) stack_diff_immediate_eq [OF _ assms(3-5)] sval_wide [OF alu_readyD(4) [OF assms(2)] get(2-4)] get(1) by auto
qed

theorem stack_diff_immediate_witness:
  "\<exists>p' d. Diana_Call_sub (decoded ''sub'' [reg_op reg_RSP 8, imm_op 0x80 1] 8 sample_loaded) = Ok () p' \<and>
     Diana_AnalyzeInstructionStackDiff (m_context (decoded ''sub'' [reg_op reg_RSP 8, imm_op 0x80 1] 8 sample_loaded))
       (m_result (decoded ''sub'' [reg_op reg_RSP 8, imm_op 0x80 1] 8 sample_loaded)) = (None, d, False) \<and>
     GET_REG reg_RSP p' \<noteq> GET_REG reg_RSP (decoded ''sub'' [reg_op reg_RSP 8, imm_op 0x80 1] 8 sample_loaded) + d"
proof -
  let ?p = "decoded ''sub'' [reg_op reg_RSP 8, imm_op 0x80 1] 8 sample_loaded"
  have h: "stream_attached MemoryRandomStream_Read MemoryRandomStream_Write buffer_ok ?p" "opcount ?p = 2" "op_value (linked ?p 0) = diana_register reg_RSP"
    "op_value (linked ?p 1) = diana_imm 0x80" "m_commandId (pInfo (m_result ?p)) = ''sub''"
    by (simp_all add: reg_op_def imm_op_def)
  have "alu_ready buffer_mapped ?p 8 1"
    using sample_ready [of buffer_mapped "''sub''" 8] control_at(3) unfolding alu_ready_def alu_dest_def operand_rd_def operand_rw_def
    by (auto simp: valid_size_def imm_op_def reg_op_def fits_def bits_of_def std_regs_def psz_off_def)
  from stack_diff_immediate [OF h(1) this h(2-4), of Diana_Call_sub] h(5) show ?thesis by (auto simp: sval_def bits_of_def)
qed

end
