(* ===== verification/Stack_Walk.thy ===== *)
theory Stack_Walk
  imports Stack_Analysis Code_Fetch
begin

unbundle bit_operations_syntax

text \<open>
  The stack walk of \<^verbatim>\<open>diana_processor_core.c\<close>: from RIP and RSP, the walk decodes the code of the current function, follows its jumps and counts what its instructions do to the stack until it meets
  the return, and reports the return address to an observer.  A 32-bit processor is walked by its EBP chain.
\<close>

section \<open>Reading code and targets\<close>

text \<open>The stream of the walk: the processor and its own position in the code.\<close>

record 'm UtilsProcessorContext =
  pCallContext :: "'m DianaProcessor"
  streamPointer :: u64

definition UtilsProcessorReadStream :: "'m UtilsProcessorContext DianaRead_fnc" where
  "UtilsProcessorReadStream n u =
     (case DianaProcessor_ReadMemory (GET_REG reg_CS (pCallContext u)) (streamPointer u) (word_of_int n) reg_CS (pCallContext u) of
        Ok bs p \<Rightarrow> Ok bs \<lparr>pCallContext = p, streamPointer = streamPointer u + of_nat (length bs)\<rparr>
      | Err e p \<Rightarrow> Err e (u\<lparr>pCallContext := p\<rparr>))"

text \<open>A routine of the processor inside the walk.\<close>

definition on_proc :: "('a, 'm) di_cmd \<Rightarrow> ('a, 'm UtilsProcessorContext) dec" where
  "on_proc m d =
     (case m (pCallContext (d_stream d)) of
        Ok a p \<Rightarrow> Ok a (d\<lparr>d_stream := (d_stream d)\<lparr>pCallContext := p\<rparr>\<rparr>)
      | Err e p \<Rightarrow> Err e (d\<lparr>d_stream := (d_stream d)\<lparr>pCallContext := p\<rparr>\<rparr>))"

text \<open>The address of an operand under the context of the walk instead of the processor's.\<close>

definition CalcIndex_in :: "DianaContext \<Rightarrow> DianaRmIndex \<Rightarrow> (u64 \<times> u64, 'm) di_cmd" where
  "CalcIndex_in c ix p =
     (case DianaProcessor_CalcIndex ix (p\<lparr>m_context := c\<rparr>) of
        Ok a q \<Rightarrow> Ok a (q\<lparr>m_context := m_context p\<rparr>)
      | Err e q \<Rightarrow> Err e (q\<lparr>m_context := m_context p\<rparr>))"

text \<open>A test for success: any status but an undefined one goes to the other branch.\<close>

definition DI_TRY :: "('a, 's) di_prog \<Rightarrow> ('a \<Rightarrow> ('b, 's) di_prog) \<Rightarrow> ('b, 's) di_prog \<Rightarrow> ('b, 's) di_prog" where
  "DI_TRY m yes no s =
     (case m s of
        Ok a t \<Rightarrow> yes a t
      | Err e t \<Rightarrow> if e = C_UNDEFINED then Err e t else no t)"

text \<open>A read into an array of \<open>n\<close> bytes.\<close>

definition read_array :: "u64 \<Rightarrow> u64 \<Rightarrow> nat \<Rightarrow> DianaUnifiedRegister \<Rightarrow> (u8 list, 'm) di_cmd" where
  "read_array selector offset n segReg =
     DI_CHECK (DianaProcessor_ReadMemory selector offset (of_nat n) segReg) (\<lambda>bs.
     if length bs > n then DI_FAIL C_UNDEFINED else DI_RETURN bs)"

text \<open>The instruction just parsed.\<close>

abbreviation (input) parsed_result :: "'s Decoder \<Rightarrow> DianaParserResult" where
  "parsed_result d \<equiv> parser_result (d_res d)"

abbreviation (input) parsed_context :: "'s Decoder \<Rightarrow> DianaContext" where
  "parsed_context d \<equiv> DianaContext.truncate (d_ctx d)"

abbreviation (input) parsed_command :: "'s Decoder \<Rightarrow> DianaCommandId" where
  "parsed_command d \<equiv> m_commandId (pInfo (parsed_result d))"

definition group_flag :: "DianaCommandId \<Rightarrow> u32 \<Rightarrow> bool" where
  "group_flag cmd f \<longleftrightarrow> (case InitJmps cmd of None \<Rightarrow> False | Some g \<Rightarrow> gi_flags g AND f \<noteq> 0)"

definition AnalyzeCallJmp_index :: "u64 \<Rightarrow> DianaRmIndex \<Rightarrow> (u64, 'm UtilsProcessorContext) dec" where
  "AnalyzeCallJmp_index rip ix =
     DI_LET (\<lambda>d. (parsed_context d, iFullCmdSize (parsed_result d))) (\<lambda>(ctx, full).
     let plain = indexed_reg ix = reg_none \<or> index ix = 0; asz = word_of_int (iCurrentCmd_addressSize ctx) in
     if reg ix = reg_RIP \<and> plain then
       DI_CHECK (on_proc (CalcIndex_in ctx ix)) (\<lambda>(memSelector, memAddress).
       on_proc (DianaProcessor_GetMemValue memSelector (rip + word_of_int full + dispValue ix) asz (seg_reg ix)))
     else if plain \<and> dispSize ix \<noteq> 0 then
       DI_CHECK (on_proc (CalcIndex_in ctx ix)) (\<lambda>(memSelector, memAddress).
       on_proc (DianaProcessor_GetMemValue memSelector memAddress asz (seg_reg ix)))
     else if (reg ix = reg_RIP \<or> indexed_reg ix = reg_RIP) \<and> (plain \<or> reg ix = reg_none \<and> index ix = 1) then
       DI_RETURN (rip + dispValue ix + word_of_int full)
     else DI_FAIL DI_ERROR)"

definition DianaProcessor_AnalyzeCallJmpInstruction :: "u64 \<Rightarrow> (u64, 'm UtilsProcessorContext) dec" where
  "DianaProcessor_AnalyzeCallJmpInstruction rip =
     DI_LET (\<lambda>d. parsed_result d) (\<lambda>r.
     if iLinkedOpCount r \<noteq> 1 then DI_FAIL DI_ERROR
     else if \<not> group_flag (m_commandId (pInfo r)) (DIANA_GT_IS_CALL OR DIANA_GT_IS_JUMP) then DI_FAIL DI_ERROR
     else
       case op_value (linkedOperands r 0) of
         diana_rel t \<Rightarrow> DI_RETURN (rip + m_value t + word_of_int (iFullCmdSize r))
       | diana_imm v \<Rightarrow> DI_RETURN v
       | diana_index ix \<Rightarrow> AnalyzeCallJmp_index rip ix
       | _ \<Rightarrow> DI_FAIL DI_ERROR)"

text \<open>The decoder goes on at another address: \<^verbatim>\<open>Diana_ClearCache\<close> and the new position of the stream.\<close>

definition go_to :: "u64 \<Rightarrow> 'm UtilsProcessorContext Decoder \<Rightarrow> 'm UtilsProcessorContext Decoder" where
  "go_to rip d = (upd_ctx Decoder_ClearCache d)\<lparr>d_stream := (d_stream d)\<lparr>streamPointer := rip\<rparr>\<rparr>"

text \<open>The local variables of a walk: an initialised context, a result that is not (\<open>r\<close>), and the stream.\<close>

definition walk_decoder :: "DecoderResult \<Rightarrow> u64 \<Rightarrow> 'm DianaProcessor \<Rightarrow> 'm UtilsProcessorContext Decoder" where
  "walk_decoder r rip p =
     \<lparr>d_ctx = Decoder_InitContext (iMainMode_addressSize (m_context p)), d_res = r, d_stream = \<lparr>pCallContext = p, streamPointer = rip\<rparr>,
      d_readFnc = UtilsProcessorReadStream, proxy_begin = 0, proxy_tail_size = 0\<rparr>"

abbreviation (input) g_scanSize :: nat where "g_scanSize \<equiv> 0x1000"

definition is_gate :: "DianaParserResult \<Rightarrow> bool" where
  "is_gate r \<longleftrightarrow> m_commandId (pInfo r) = ''jmp'' \<and> iLinkedOpCount r = 1 \<and>
     (case op_value (linkedOperands r 0) of diana_call_ptr q \<Rightarrow> m_segment q = 0x33 | _ \<Rightarrow> False)"

section \<open>What a callee takes off the stack\<close>

fun diff_loop :: "(unit, 'm UtilsProcessorContext) dec \<Rightarrow> nat \<Rightarrow> u64 \<Rightarrow> (u64, 'm UtilsProcessorContext) dec" where
  "diff_loop parse 0 rip = DI_RETURN 0"
| "diff_loop parse (Suc k) rip =
     DI_CHECK parse (\<lambda>_.
     DI_LET (\<lambda>d. parsed_result d) (\<lambda>r.
     let cmd = m_commandId (pInfo r) in
     DI_CHECK
       (if group_flag cmd DIANA_GT_IS_JUMP then
          DI_CHECK (DianaProcessor_AnalyzeCallJmpInstruction rip) (\<lambda>newRIP. DI_RETURN (if cmd = ''jmp'' \<or> newRIP > rip then Some newRIP else None))
        else DI_RETURN None) (\<lambda>jump.
     case jump of
       Some newRIP \<Rightarrow> DI_DO (go_to newRIP) (diff_loop parse k newRIP)
     | None \<Rightarrow>
         if is_gate r then DI_RETURN 0
         else if cmd = ''int'' then DI_RETURN 0
         else if cmd = ''ret'' then
           if iLinkedOpCount r = 0 then DI_RETURN 0
           else if iLinkedOpCount r \<noteq> 1 then DI_FAIL DI_ERROR
           else (case op_value (linkedOperands r 0) of diana_imm v \<Rightarrow> DI_RETURN v | _ \<Rightarrow> DI_FAIL DI_ERROR)
         else diff_loop parse k (rip + word_of_int (iFullCmdSize r)))))"

definition DianaProcessor_QueryFunctionDiff :: "(unit, 'm UtilsProcessorContext) dec \<Rightarrow> DecoderResult \<Rightarrow> u64 \<Rightarrow> (u64, 'm) di_cmd" where
  "DianaProcessor_QueryFunctionDiff parse r rip p =
     (case diff_loop parse g_scanSize rip (walk_decoder r rip p) of
        Ok v d \<Rightarrow> Ok v (pCallContext (d_stream d))
      | Err e d \<Rightarrow> Err e (pCallContext (d_stream d)))"

section \<open>Return addresses\<close>

text \<open>
  The search for a return address after an interrupt: whether the status is not 0, \<^verbatim>\<open>*pNewRIP\<close> and \<^verbatim>\<open>*pNewRSP\<close>, which start as 0 and as the stack pointer of the function.  A failing read of the
  stack returns its status too.
\<close>

fun AnalyzeStack_loop :: "nat \<Rightarrow> u64 \<Rightarrow> u64 \<Rightarrow> (bool \<times> u64 \<times> u64, 'm) di_cmd" where
  "AnalyzeStack_loop 0 slot rsp = DI_RETURN (False, 0, rsp)"
| "AnalyzeStack_loop (Suc k) slot rsp =
     DI_LET (\<lambda>p. (GET_REG reg_SS p, GET_REG reg_DS p, word_of_int (iCurrentCmd_addressSize (m_context p)))) (\<lambda>(ss, ds, asz).
     DI_TRY (DianaProcessor_GetMemValue ss slot asz reg_SS)
       (\<lambda>value.
          if value = 0 then AnalyzeStack_loop k (slot + asz) rsp
          else
            DI_TRY (read_array ds (value - 5) 5 reg_DS)
              (\<lambda>bs. if length bs = 5 \<and> bs ! 0 = 0xE8 then DI_RETURN (True, value - 5, slot + asz) else AnalyzeStack_loop k (slot + asz) rsp)
              (AnalyzeStack_loop k (slot + asz) rsp))
       (DI_RETURN (True, 0, rsp)))"

definition AnalyzeStack :: "u64 \<Rightarrow> u64 \<Rightarrow> (bool \<times> u64 \<times> u64, 'm) di_cmd" where
  "AnalyzeStack rsp diff = AnalyzeStack_loop 0x10 (rsp + (if sint diff < 0 then 0 else diff)) rsp"

abbreviation (input) DIANA_STACK_WALK_TAKEN_JUMPS :: nat where "DIANA_STACK_WALK_TAKEN_JUMPS \<equiv> 64"
abbreviation (input) DIANA_STACK_WALK_JUMP_SLOTS :: nat where "DIANA_STACK_WALK_JUMP_SLOTS \<equiv> 16"

fun DianaProcessor_IsJumpTaken :: "u64 list \<Rightarrow> u64 \<Rightarrow> bool" where
  "DianaProcessor_IsJumpTaken [] rip = False"
| "DianaProcessor_IsJumpTaken (x # xs) rip = (if x = rip then True else DianaProcessor_IsJumpTaken xs rip)"

text \<open>The forms of a call that end in the last of seven bytes.\<close>

definition call_bytes :: "u8 list \<Rightarrow> bool" where
  "call_bytes p \<longleftrightarrow>
     p ! 2 = 0xE8 \<or>
     (p ! 1 = 0xFF \<and> p ! 2 AND 0xF8 = 0x90 \<and> p ! 2 AND 7 \<noteq> 4) \<or>
     (p ! 1 = 0xFF \<and> p ! 2 = 0x15) \<or>
     (p ! 4 = 0xFF \<and> p ! 5 AND 0xF8 = 0x50 \<and> p ! 5 AND 7 \<noteq> 4) \<or>
     (p ! 0 = 0xFF \<and> p ! 1 = 0x94) \<or>
     (p ! 3 = 0xFF \<and> p ! 4 = 0x54) \<or>
     (p ! 4 = 0xFF \<and> p ! 5 = 0x14) \<or>
     (p ! 5 = 0xFF \<and> (p ! 6 AND 0xF8 = 0xD0 \<or> (p ! 6 AND 0xF8 = 0x10 \<and> p ! 6 AND 7 \<noteq> 4 \<and> p ! 6 AND 7 \<noteq> 5)))"

definition DianaProcessor_IsAfterCall :: "u64 \<Rightarrow> (bool, 'm) di_cmd" where
  "DianaProcessor_IsAfterCall address =
     (if address < 7 then DI_RETURN False
      else
        DI_LET (GET_REG reg_CS) (\<lambda>cs.
        DI_TRY (read_array cs (address - 7) 7 reg_CS)
          (\<lambda>bs. DI_RETURN (length bs = 7 \<and> call_bytes bs))
          (DI_RETURN False)))"

section \<open>The walk\<close>

text \<open>
  The variables of the walk: the decoder with its stream and the processor behind it, the observer's data, what has been reported (\<^verbatim>\<open>*pReportCount\<close> is the length), RIP, the stack pointer at the
  start of the current function and the difference since then, RBP and whether it is known, the conditional jumps taken, the unconditional ones (with the stack and RBP at the jump), and where the frame starts.
\<close>

record ('c, 'm) walker =
  w_dec :: "'m UtilsProcessorContext Decoder"
  w_custom :: 'c
  w_reports :: "u64 list"
  w_rip :: u64
  w_rsp :: u64
  w_diff :: u64
  w_rbp :: u64
  w_known :: bool
  w_taken :: "u64 list"
  w_slots :: "(u64 \<times> u64 \<times> bool) list"
  w_base :: u64

type_synonym ('a, 'c, 'm) walk = "('a, ('c, 'm) walker) di_prog"

type_synonym ('c, 'm) DianaProcessorStackHandler = "u64 \<Rightarrow> (bool, 'c \<times> 'm DianaProcessor) di_prog"

definition on_dec :: "('a, 'm UtilsProcessorContext) dec \<Rightarrow> ('a, 'c, 'm) walk" where
  "on_dec m w = (case m (w_dec w) of Ok a d \<Rightarrow> Ok a (w\<lparr>w_dec := d\<rparr>) | Err e d \<Rightarrow> Err e (w\<lparr>w_dec := d\<rparr>))"

abbreviation (input) w_proc :: "('c, 'm) walker \<Rightarrow> 'm DianaProcessor" where
  "w_proc w \<equiv> pCallContext (d_stream (w_dec w))"

abbreviation (input) w_asz :: "('c, 'm) walker \<Rightarrow> u64" where
  "w_asz w \<equiv> word_of_int (iCurrentCmd_addressSize (d_ctx (w_dec w)))"

text \<open>A word of the stack under the address size of the instruction.\<close>

definition stack_value :: "u64 \<Rightarrow> (u64, 'c, 'm) walk" where
  "stack_value slot = DI_LET (\<lambda>w. (GET_REG reg_SS (w_proc w), w_asz w)) (\<lambda>(ss, asz). on_dec (on_proc (DianaProcessor_GetMemValue ss slot asz reg_SS)))"

definition walk_to :: "u64 \<Rightarrow> ('c, 'm) walker \<Rightarrow> ('c, 'm) walker" where
  "walk_to rip w = w\<lparr>w_rip := rip, w_dec := go_to rip (w_dec w)\<rparr>"

definition call_observer :: "('c, 'm) DianaProcessorStackHandler \<Rightarrow> u64 \<Rightarrow> (bool, 'c, 'm) walk" where
  "call_observer obs ret w =
     (let put = (\<lambda>(c, p). w\<lparr>w_custom := c, w_dec := (w_dec w)\<lparr>d_stream := (d_stream (w_dec w))\<lparr>pCallContext := p\<rparr>\<rparr>\<rparr>) in
      case obs ret (w_custom w, w_proc w) of
        Ok go s \<Rightarrow> Ok go (put s)
      | Err e s \<Rightarrow> Err e (put s))"

text \<open>The label \<^verbatim>\<open>report_return\<close>; the result says whether the walk goes on.\<close>

definition report_return :: "('c, 'm) DianaProcessorStackHandler \<Rightarrow> u64 \<Rightarrow> u64 \<Rightarrow> u64 \<Rightarrow> (bool, 'c, 'm) walk" where
  "report_return obs newRIP retSlot retSize =
     DI_DO (\<lambda>w. w\<lparr>w_reports := w_reports w @ [newRIP]\<rparr>) (
     DI_CHECK (call_observer obs newRIP) (\<lambda>continueExecution.
     if \<not> continueExecution then DI_RETURN False
     else
       DI_DO (\<lambda>w. let rsp = retSlot + w_asz w + retSize in
                w\<lparr>w_diff := 0, w_taken := [], w_slots := [], w_rsp := rsp, w_base := rsp\<rparr>) (
       DI_DO (walk_to newRIP) (DI_RETURN True))))"

text \<open>The label \<^verbatim>\<open>frame_failed\<close>: the stack slot now, then those of the unconditional jumps, the latest first.  The bytes a return drops are kept only when the read of its own slot failed.\<close>

fun frame_slots :: "(u64 \<times> u64 \<times> bool) list \<Rightarrow> u64 \<Rightarrow> (u64 \<times> u64, 'c, 'm) walk" where
  "frame_slots js retSlot =
     DI_LET w_base (\<lambda>frameBase.
     let next = (case js of [] \<Rightarrow> DI_FAIL DI_ERROR | (s, b, k) # js \<Rightarrow> DI_DO (\<lambda>w. w\<lparr>w_rbp := b, w_known := k\<rparr>) (frame_slots js s)) in
     if retSlot \<ge> frameBase then
       DI_TRY (stack_value retSlot)
         (\<lambda>newRIP. DI_CHECK (on_dec (on_proc (DianaProcessor_IsAfterCall newRIP))) (\<lambda>isRet. if isRet then DI_RETURN (newRIP, retSlot) else next))
         next
     else next)"

declare frame_slots.simps [simp del]

definition frame_failed :: "('c, 'm) DianaProcessorStackHandler \<Rightarrow> u64 \<Rightarrow> (bool, 'c, 'm) walk" where
  "frame_failed obs retSize =
     DI_LET (\<lambda>w. (rev (w_slots w), w_rsp w + w_diff w)) (\<lambda>(js, retSlot).
     DI_CHECK (frame_slots js retSlot) (\<lambda>(newRIP, retSlot). report_return obs newRIP retSlot retSize))"

section \<open>One instruction\<close>

definition walk_int :: "('c, 'm) DianaProcessorStackHandler \<Rightarrow> (bool, 'c, 'm) walk" where
  "walk_int obs =
     DI_LET (\<lambda>w. (w_rsp w, w_diff w)) (\<lambda>(rsp, diff).
     DI_CHECK (on_dec (on_proc (AnalyzeStack rsp diff))) (\<lambda>(found, newRIP, newRSP).
     if found then
       DI_DO (walk_to newRIP) (
       DI_DO (\<lambda>w. w\<lparr>w_rsp := newRSP, w_diff := 0, w_taken := [], w_slots := [], w_base := newRSP\<rparr>) (
       DI_RETURN True))
     else frame_failed obs 0))"

definition walk_leave :: "('c, 'm) DianaProcessorStackHandler \<Rightarrow> u64 \<Rightarrow> (bool, 'c, 'm) walk" where
  "walk_leave obs full =
     DI_LET w_rbp (\<lambda>knownRBP.
     DI_TRY (stack_value knownRBP)
       (\<lambda>savedRBP. DI_DO (\<lambda>w. w\<lparr>w_rsp := knownRBP + w_asz w, w_diff := 0, w_rbp := savedRBP, w_rip := w_rip w + full\<rparr>) (DI_RETURN True))
       (frame_failed obs 0))"

definition is_bp :: "DianaOperandValue \<Rightarrow> bool" where
  "is_bp v \<longleftrightarrow> (case v of diana_register r \<Rightarrow> r = reg_RBP \<or> r = reg_EBP | _ \<Rightarrow> False)"

definition is_sp :: "DianaOperandValue \<Rightarrow> bool" where
  "is_sp v \<longleftrightarrow> (case v of diana_register r \<Rightarrow> r = reg_RSP \<or> r = reg_ESP | _ \<Rightarrow> False)"

text \<open>RBP after a pop of it and after \<^verbatim>\<open>mov rbp, rsp\<close>; after a failing read RBP is unknown, and its value is not used.\<close>

definition track_rbp :: "DianaParserResult \<Rightarrow> (unit, 'c, 'm) walk" where
  "track_rbp r =
     DI_CHECK
       (if m_commandId (pInfo r) = ''pop'' \<and> iLinkedOpCount r = 1 \<and> is_bp (op_value (linkedOperands r 0)) then
          DI_LET (\<lambda>w. w_rsp w + w_diff w) (\<lambda>slot.
          DI_TRY (stack_value slot)
            (\<lambda>savedRBP. DI_DO (\<lambda>w. w\<lparr>w_known := True, w_rbp := savedRBP\<rparr>) DI_PROC_END)
            (DI_DO (\<lambda>w. w\<lparr>w_known := False\<rparr>) DI_PROC_END))
        else DI_PROC_END) (\<lambda>_.
     if m_commandId (pInfo r) = ''mov'' \<and> iLinkedOpCount r = 2 \<and> is_bp (op_value (linkedOperands r 0)) \<and> is_sp (op_value (linkedOperands r 1)) then
       DI_DO (\<lambda>w. w\<lparr>w_rbp := w_rsp w + w_diff w, w_known := True\<rparr>) DI_PROC_END
     else DI_PROC_END)"

text \<open>The instruction returns, or passes the gate of WoW64.  The bytes a return drops are converted to int; its only operand is an immediate.\<close>

definition union_imm :: "DianaOperandValue \<Rightarrow> u64" where
  "union_imm v = (case v of diana_imm x \<Rightarrow> x | _ \<Rightarrow> 0)"

definition walk_ret :: "('c, 'm) DianaProcessorStackHandler \<Rightarrow> DianaParserResult \<Rightarrow> (bool, 'c, 'm) walk" where
  "walk_ret obs r =
     DI_CHECK
       (if m_commandId (pInfo r) = ''ret'' \<and> iLinkedOpCount r = 1 then
          DI_RETURN (signed_take_bit 31 (union_imm (op_value (linkedOperands r 0))))
        else DI_RETURN 0) (\<lambda>retSize.
     DI_LET (\<lambda>w. (w_rsp w + w_diff w, w_base w)) (\<lambda>(retSlot, frameBase).
     DI_TRY (stack_value retSlot)
       (\<lambda>newRIP.
          if is_gate r then report_return obs newRIP retSlot retSize
          else if retSlot < frameBase then frame_failed obs 0
          else
            DI_CHECK (on_dec (on_proc (DianaProcessor_IsAfterCall newRIP))) (\<lambda>isRet.
            if isRet then report_return obs newRIP retSlot retSize else frame_failed obs 0))
       (frame_failed obs retSize)))"

text \<open>A jump: \<open>None\<close> when the walk falls through to the next instruction, otherwise what the iteration returns.\<close>

definition walk_jump :: "('c, 'm) DianaProcessorStackHandler \<Rightarrow> DianaParserResult \<Rightarrow> (bool option, 'c, 'm) walk" where
  "walk_jump obs r =
     DI_LET (\<lambda>w. (w_rip w, w_taken w)) (\<lambda>(rip, taken).
     let jmp = (m_commandId (pInfo r) = ''jmp'');
         go = (\<lambda>newRIP.
           if jmp \<or> (newRIP > rip \<and> \<not> DianaProcessor_IsJumpTaken taken rip) then
             DI_DO (\<lambda>w. if \<not> jmp then if length (w_taken w) < DIANA_STACK_WALK_TAKEN_JUMPS then w\<lparr>w_taken := w_taken w @ [rip]\<rparr> else w
                        else if length (w_slots w) < DIANA_STACK_WALK_JUMP_SLOTS
                          then w\<lparr>w_slots := w_slots w @ [(w_rsp w + w_diff w, w_rbp w, w_known w)]\<rparr> else w) (
             DI_DO (walk_to newRIP) (DI_RETURN (Some True)))
           else DI_RETURN None)
     in DI_TRY (on_dec (DianaProcessor_AnalyzeCallJmpInstruction rip)) go
          (if jmp then DI_CHECK (frame_failed obs 0) (\<lambda>b. DI_RETURN (Some b)) else go 0))"

text \<open>Any other instruction; the status of the analysis is not used.\<close>

definition walk_next :: "(unit, 'm UtilsProcessorContext) dec \<Rightarrow> DecoderResult \<Rightarrow> DianaContext \<Rightarrow> DianaParserResult \<Rightarrow> (bool, 'c, 'm) walk" where
  "walk_next parse r0 c r =
     (case Diana_AnalyzeInstructionStackDiff c r of (status, diff, isCall) \<Rightarrow>
      DI_LET w_rip (\<lambda>rip.
      DI_CHECK
        (if isCall then
           DI_TRY (on_dec (DianaProcessor_AnalyzeCallJmpInstruction rip))
             (\<lambda>newRIP. DI_TRY (on_dec (on_proc (DianaProcessor_QueryFunctionDiff parse r0 newRIP))) DI_RETURN (DI_RETURN 0))
             (DI_RETURN 0)
         else DI_RETURN diff) (\<lambda>diff.
      DI_DO (\<lambda>w. w\<lparr>w_diff := w_diff w + diff, w_rip := w_rip w + word_of_int (iFullCmdSize r)\<rparr>) (DI_RETURN True))))"

definition walk_parsed ::
    "(unit, 'm UtilsProcessorContext) dec \<Rightarrow> DecoderResult \<Rightarrow> ('c, 'm) DianaProcessorStackHandler \<Rightarrow> (bool, 'c, 'm) walk" where
  "walk_parsed parse r0 obs =
     DI_LET (\<lambda>w. (parsed_result (w_dec w), parsed_context (w_dec w), w_known w)) (\<lambda>(r, c, known).
     let cmd = m_commandId (pInfo r) in
     if cmd = ''int'' then walk_int obs
     else
       DI_DO (\<lambda>w. if is_gate r then w\<lparr>w_diff := 0\<rparr> else w) (
       if cmd = ''leave'' \<and> known then walk_leave obs (word_of_int (iFullCmdSize r))
       else
         DI_CHECK (track_rbp r) (\<lambda>_.
         if is_gate r \<or> cmd = ''ret'' then walk_ret obs r
         else
           DI_CHECK (if group_flag cmd DIANA_GT_IS_JUMP then walk_jump obs r else DI_RETURN None) (\<lambda>done.
           case done of Some b \<Rightarrow> DI_RETURN b | None \<Rightarrow> walk_next parse r0 c r))))"

definition walk_step ::
    "(unit, 'm UtilsProcessorContext) dec \<Rightarrow> DecoderResult \<Rightarrow> ('c, 'm) DianaProcessorStackHandler \<Rightarrow> (bool, 'c, 'm) walk" where
  "walk_step parse r0 obs = DI_TRY (on_dec parse) (\<lambda>_. walk_parsed parse r0 obs) (frame_failed obs 0)"

section \<open>The whole stack\<close>

fun walk_loop ::
    "(unit, 'm UtilsProcessorContext) dec \<Rightarrow> DecoderResult \<Rightarrow> ('c, 'm) DianaProcessorStackHandler \<Rightarrow> nat \<Rightarrow> (unit, 'c, 'm) walk" where
  "walk_loop parse r0 obs 0 = DI_FAIL DI_END"
| "walk_loop parse r0 obs (Suc k) = DI_CHECK (walk_step parse r0 obs) (\<lambda>go. if go then walk_loop parse r0 obs k else DI_PROC_END)"

definition walk_start :: "DecoderResult \<Rightarrow> u64 \<Rightarrow> u64 \<Rightarrow> 'c \<Rightarrow> 'm DianaProcessor \<Rightarrow> ('c, 'm) walker" where
  "walk_start r0 rip rsp c p =
     \<lparr>w_dec = walk_decoder r0 rip p, w_custom = c, w_reports = [], w_rip = rip, w_rsp = rsp, w_diff = 0, w_rbp = GET_REG reg_RBP p,
      w_known = (GET_REG reg_RBP p \<noteq> 0), w_taken = [], w_slots = [], w_base = rsp\<rparr>"

text \<open>What a walk leaves: the observer's data, the processor and the addresses reported.\<close>

record ('c, 'm) walked =
  wd_custom :: 'c
  wd_proc :: "'m DianaProcessor"
  wd_reports :: "u64 list"

definition DianaProcessor_QueryCurrentStack_Impl ::
    "(unit, 'm UtilsProcessorContext) dec \<Rightarrow> DecoderResult \<Rightarrow> ('c, 'm) DianaProcessorStackHandler \<Rightarrow> u64 \<Rightarrow> u64 \<Rightarrow> 'c \<Rightarrow> 'm DianaProcessor \<Rightarrow>
     (unit, ('c, 'm) walked) di_res" where
  "DianaProcessor_QueryCurrentStack_Impl parse r0 obs rip rsp c p =
     (let out = (\<lambda>w. \<lparr>wd_custom = w_custom w, wd_proc = w_proc w, wd_reports = w_reports w\<rparr>) in
      case walk_loop parse r0 obs g_scanSize (walk_start r0 rip rsp c p) of
        Ok _ w \<Rightarrow> Ok () (out w)
      | Err e w \<Rightarrow> Err e (out w))"

text \<open>The chain of frames of a 32-bit processor; the loop has no bound, and \<open>None\<close> means that it does not end.\<close>

definition ebp_frame :: "u64 \<Rightarrow> (u32 \<times> u32, 'm) di_cmd" where
  "ebp_frame ebp =
     DI_LET (GET_REG reg_SS) (\<lambda>ss.
     DI_CHECK (read_array ss ebp 8 reg_SS) (\<lambda>bs.
     if length bs \<noteq> 8 then DI_FAIL DI_ERROR
     else
       let f0 = ucast (le_word (take 4 bs)); f1 = ucast (le_word (drop 4 bs)) in
       DI_LET (\<lambda>p. (GET_REG reg_CS p, word_of_int (iCurrentCmd_addressSize (m_context p)))) (\<lambda>(cs, asz).
       DI_CHECK (DianaProcessor_GetMemValue cs (ucast f1) asz reg_SS) (\<lambda>test.
       DI_RETURN (f0, f1)))))"

partial_function (option) ebp_loop ::
    "('c, 'm) DianaProcessorStackHandler \<Rightarrow> u64 \<Rightarrow> ('c, 'm) walked \<Rightarrow> (unit, ('c, 'm) walked) di_res option" where
  [code]: "ebp_loop obs ebp w =
     (case ebp_frame ebp (wd_proc w) of
        Err e p \<Rightarrow> Some (Err e (w\<lparr>wd_proc := p\<rparr>))
      | Ok fr p \<Rightarrow>
          let ret = ucast (snd fr); w = w\<lparr>wd_reports := wd_reports w @ [ret]\<rparr> in
          (case obs ret (wd_custom w, p) of
             Err e s \<Rightarrow> Some (Err e (w\<lparr>wd_custom := fst s, wd_proc := snd s\<rparr>))
           | Ok go s \<Rightarrow>
               if \<not> go then Some (Ok () (w\<lparr>wd_custom := fst s, wd_proc := snd s\<rparr>))
               else ebp_loop obs (ucast (fst fr)) (w\<lparr>wd_custom := fst s, wd_proc := snd s\<rparr>)))"

definition DianaProcessor_QueryCurrentStack_EBP_32 ::
    "('c, 'm) DianaProcessorStackHandler \<Rightarrow> 'c \<Rightarrow> 'm DianaProcessor \<Rightarrow> (unit, ('c, 'm) walked) di_res option" where
  "DianaProcessor_QueryCurrentStack_EBP_32 obs c p = ebp_loop obs (GET_REG reg_RBP p) \<lparr>wd_custom = c, wd_proc = p, wd_reports = []\<rparr>"

text \<open>A walk that reported nothing is tried again from the last call the processor executed.\<close>

definition DianaProcessor_QueryCurrentStack ::
    "(unit, 'm UtilsProcessorContext) dec \<Rightarrow> DecoderResult \<Rightarrow> ('c, 'm) DianaProcessorStackHandler \<Rightarrow> 'c \<Rightarrow> 'm DianaProcessor \<Rightarrow>
     (unit, ('c, 'm) walked) di_res option" where
  "DianaProcessor_QueryCurrentStack parse r0 obs c p =
     map_option (\<lambda>res.
       let w = res_state res; q = wd_proc w in
       if wd_reports w = [] \<and> m_lastCallRSP q \<noteq> 0 then DianaProcessor_QueryCurrentStack_Impl parse r0 obs (m_lastCallRIP q) (m_lastCallRSP q) (wd_custom w) q
       else res)
     (if iMainMode_addressSize (m_context p) = DIANA_MODE32 then DianaProcessor_QueryCurrentStack_EBP_32 obs c p
      else Some (DianaProcessor_QueryCurrentStack_Impl parse r0 obs (GET_REG reg_RIP p) (GET_REG reg_RSP p) c p))"

end
