(* ===== verification/Walk_Properties.thy ===== *)
theory Walk_Properties
  imports Stack_Walk
begin

unbundle bit_operations_syntax

text \<open>
  What a stack walk promises over a buffer: it is defined whatever the code and the stack hold, it leaves the processor alone, and the addresses it reports are return addresses.
\<close>

section \<open>The code of the walk as a stream\<close>

definition utils_rest :: "DianaRandomMemoryStream UtilsProcessorContext \<Rightarrow> u8 list" where
  "utils_rest u = code_at (pCallContext u) (streamPointer u)"

definition utils_over :: "DianaRandomMemoryStream DianaProcessor \<Rightarrow> DianaRandomMemoryStream UtilsProcessorContext \<Rightarrow> bool" where
  "utils_over p u \<longleftrightarrow> stream_attached MemoryRandomStream_Read MemoryRandomStream_Write buffer_ok p \<and> pCallContext u = p"

text \<open>A read from the buffer: at most the bytes asked for, and nothing changes.\<close>

lemma ReadMemory_buffer:
  assumes "stream_attached MemoryRandomStream_Read MemoryRandomStream_Write buffer_ok p"
  obtains (Ok) bs where "DianaProcessor_ReadMemory sel off n seg p = Ok bs p" "length bs \<le> unat n" "flat (m_memory p) sel off + length bs \<le> unat (bufferSize (m_memory p))"
      "bs = take (length bs) (drop (flat (m_memory p) sel off) (pBuffer (m_memory p)))"
    | (Err) "DianaProcessor_ReadMemory sel off n seg p = Err DI_ERROR p"
proof -
  let ?s = "m_memory p" and ?f = "flat (m_memory p) sel off"
  have s: "pReadFnc (m_pMemoryStream p) = MemoryRandomStream_Read" "buffer_ok ?s" using assms by (simp_all add: stream_attached_def)
  then have len: "length (pBuffer ?s) = unat (bufferSize ?s)" by (simp add: buffer_ok_def)
  show ?thesis
  proof (cases "?f \<le> unat (bufferSize ?s)")
    case True
    let ?k = "min (unat n) (unat (bufferSize ?s) - ?f)"
    let ?bs = "take ?k (drop ?f (pBuffer ?s))"
    have "DianaProcessor_ReadMemory sel off n seg p = Ok ?bs p" using s True by (simp add: DianaProcessor_ReadMemory_def Read_eq)
    moreover have "length ?bs = ?k" using len by simp
    ultimately show ?thesis using True len by (intro Ok [of ?bs]) auto
  next
    case False
    then show ?thesis using s by (intro Err) (simp add: DianaProcessor_ReadMemory_def Read_eq)
  qed
qed

interpretation utils_code: code_stream UtilsProcessorReadStream utils_rest "utils_over p0" for p0
proof
  fix u u' :: "DianaRandomMemoryStream UtilsProcessorContext" and n bs
  assume u: "utils_over p0 u" "0 \<le> n" "UtilsProcessorReadStream n u = Ok bs u'"
  let ?p = "pCallContext u"
  let ?s = "m_memory ?p" and ?cs = "GET_REG reg_CS ?p"
  have at: "stream_attached MemoryRandomStream_Read MemoryRandomStream_Write buffer_ok ?p" "p0 = ?p" using u(1) by (auto simp: utils_over_def)
  have small: "int (unat (word_of_int n :: u64)) \<le> n" using u(2) by (simp add: uint_word_of_int_eq take_bit_int_less_eq_self_iff)
  show "utils_over p0 u' \<and> int (length bs) \<le> n \<and> utils_rest u = bs @ utils_rest u'"
  proof (cases rule: ReadMemory_buffer [OF at(1), of ?cs "streamPointer u" "word_of_int n" reg_CS])
    case (1 xs)
    then have x: "bs = xs" "u' = \<lparr>pCallContext = ?p, streamPointer = streamPointer u + of_nat (length bs)\<rparr>"
      using u(3) by (auto simp: UtilsProcessorReadStream_def)
    have "flat ?s ?cs (streamPointer u + of_nat (length bs)) = flat ?s ?cs (streamPointer u) + length bs"
      using 1(3) by (intro flat_add) (simp add: x(1))
    then have "utils_rest u' = drop (length bs) (utils_rest u)" by (simp add: x(2) utils_rest_def code_at_def add.commute)
    moreover have "bs = take (length bs) (utils_rest u)" using 1(4) by (simp add: x(1) utils_rest_def code_at_def)
    ultimately have "utils_rest u = bs @ utils_rest u'" by (metis append_take_drop_id)
    moreover have "int (length bs) \<le> n" using order_trans [OF iffD2 [OF of_nat_le_iff 1(2)] small] x(1) by simp
    ultimately show ?thesis using at by (simp add: x(2) utils_over_def)
  next
    case 2
    then show ?thesis using u(3) by (simp add: UtilsProcessorReadStream_def)
  qed
next
  fix u u' :: "DianaRandomMemoryStream UtilsProcessorContext" and n e
  assume u: "utils_over p0 u" "0 \<le> n" "UtilsProcessorReadStream n u = Err e u'"
  then have at: "stream_attached MemoryRandomStream_Read MemoryRandomStream_Write buffer_ok (pCallContext u)" by (auto simp: utils_over_def)
  show "utils_over p0 u' \<and> e \<noteq> C_UNDEFINED \<and> utils_rest u' = utils_rest u"
    using u by (cases rule: ReadMemory_buffer [OF at, of "GET_REG reg_CS (pCallContext u)" "streamPointer u" "word_of_int n" reg_CS])
      (auto simp: UtilsProcessorReadStream_def)
qed

section \<open>Routines that only look\<close>

text \<open>A processor over a buffer with address sizes of the architecture.\<close>

definition walkable :: "DianaRandomMemoryStream DianaProcessor \<Rightarrow> bool" where
  "walkable p \<longleftrightarrow> stream_attached MemoryRandomStream_Read MemoryRandomStream_Write buffer_ok p \<and>
     iMainMode_addressSize (m_context p) \<in> {2, 4, 8} \<and> iCurrentCmd_addressSize (m_context p) \<in> {2, 4, 8}"

text \<open>\<open>peeks p m\<close>: on \<open>p\<close> the routine is defined and leaves \<open>p\<close> as it is.\<close>

abbreviation peeks :: "'s \<Rightarrow> ('a, 's) di_prog \<Rightarrow> bool" where
  "peeks p m \<equiv> safe (\<lambda>q. q = p) m"

lemma peeks_cases:
  assumes "peeks p m"
  obtains (Ok) a where "m p = Ok a p" | (Err) e where "m p = Err e p" "e \<noteq> C_UNDEFINED"
  using assms by (cases "m p") (auto simp: runs_def)

lemma runs_TRY:
  assumes "runs P m Q E" "\<And>a. runs (Q a) (yes a) R E'" "runs E no R E'"
  shows "runs P (DI_TRY m yes no) R E'"
proof (rule runsI)
  fix s
  assume "P s"
  then show "case DI_TRY m yes no s of Ok a t \<Rightarrow> R a t | Err e t \<Rightarrow> e \<noteq> C_UNDEFINED \<and> E' t"
    using runs_OkD [OF assms(1), of s] runs_ErrD [OF assms(1), of s] assms(2,3) by (cases "m s") (auto simp: DI_TRY_def runs_def)
qed

lemma peeks_ReadMemory: "walkable p \<Longrightarrow> peeks p (DianaProcessor_ReadMemory sel off n seg)"
  unfolding walkable_def by (intro runsI) (elim conjE, erule ReadMemory_buffer [of p sel off n seg]; simp)

lemma peeks_read_array:
  assumes "walkable p" "n < 2 ^ 64"
  shows "peeks p (read_array sel off n seg)"
proof -
  have "unat (of_nat n :: u64) = n" using assms(2) by (simp add: unsigned_of_nat take_bit_nat_eq_self)
  then show ?thesis
    using assms(1) unfolding walkable_def
    by (intro runsI) (elim conjE, erule ReadMemory_buffer [of p sel off "of_nat n" seg]; simp add: read_array_def DI_CHECK_def di_basic_defs)
qed

lemma peeks_GetMemValue:
  assumes "walkable p" "n \<in> {2, 4, 8}"
  shows "peeks p (DianaProcessor_GetMemValue sel off (word_of_int n) seg)"
proof (rule runsI)
  fix q
  assume q: "q = p"
  have n: "unat (word_of_int n :: u64) \<le> 8" using assms(2) by auto
  have at: "stream_attached MemoryRandomStream_Read MemoryRandomStream_Write buffer_ok p" using assms(1) by (simp add: walkable_def)
  have raw: "DianaProcessor_GetMemValue sel off m seg p = (case DianaProcessor_ReadMemory sel off m seg p of
      Ok bs r \<Rightarrow> if length bs > 8 then Err C_UNDEFINED r else if of_nat (length bs) \<noteq> m then Err DI_ERROR r else Ok (le_word bs) r | Err e r \<Rightarrow> Err e r)" for m
    by (auto simp: DianaProcessor_GetMemValue_def DianaProcessor_GetMemValue_raw_def DianaProcessor_ReadMemory_def split: di_res.split)
  show "case DianaProcessor_GetMemValue sel off (word_of_int n) seg q of Ok a t \<Rightarrow> t = p | Err e t \<Rightarrow> e \<noteq> C_UNDEFINED \<and> t = p"
    unfolding q by (rule ReadMemory_buffer [OF at, of sel off "word_of_int n" seg]) (use n in \<open>auto simp: raw\<close>)
qed

lemma peeks_CalcIndex_in: "peeks p (CalcIndex_in c ix)"
  by (rule runsI) (auto simp: CalcIndex_in_def DianaProcessor_CalcIndex_def di_simps Let_def)

lemma peeks_rules:
  "peeks p (DI_RETURN a)" "e \<noteq> C_UNDEFINED \<Longrightarrow> peeks p (DI_FAIL e)" "peeks p (k (g p)) \<Longrightarrow> peeks p (DI_LET g k)"
  by (simp_all add: runs_def di_basic_defs)

lemma peeks_AnalyzeStack_loop: "walkable p \<Longrightarrow> peeks p (AnalyzeStack_loop k slot rsp)"
proof (induction k arbitrary: slot)
  case (Suc k)
  have asz: "iCurrentCmd_addressSize (m_context p) \<in> {2, 4, 8}" using Suc.prems by (simp add: walkable_def)
  show ?case
    unfolding AnalyzeStack_loop.simps
    by (rule peeks_rules(3), simp only: prod.case)
       (intro runs_TRY [OF peeks_GetMemValue [OF Suc.prems asz]] runs_if peeks_rules(1) runs_TRY [OF peeks_read_array [OF Suc.prems]] Suc; simp)
qed (simp add: peeks_rules)

lemma peeks_AnalyzeStack: "walkable p \<Longrightarrow> peeks p (AnalyzeStack rsp diff)"
  unfolding AnalyzeStack_def by (rule peeks_AnalyzeStack_loop)

lemma peeks_IsAfterCall: "walkable p \<Longrightarrow> peeks p (DianaProcessor_IsAfterCall a)"
  unfolding DianaProcessor_IsAfterCall_def
  by (intro runs_if peeks_rules(1,3) runs_TRY [OF peeks_read_array]; simp)

text \<open>A return address: the seven bytes of code before it are in the buffer and end in a call.\<close>

definition return_site :: "DianaRandomMemoryStream DianaProcessor \<Rightarrow> u64 \<Rightarrow> bool" where
  "return_site p a \<longleftrightarrow>
     (let f = flat (m_memory p) (GET_REG reg_CS p) (a - 7); code = take 7 (drop f (pBuffer (m_memory p))) in
      7 \<le> a \<and> length code = 7 \<and> call_bytes code)"

lemma IsAfterCall_return_site:
  assumes "walkable p" "DianaProcessor_IsAfterCall a p = Ok True p"
  shows "return_site p a"
proof -
  have at: "stream_attached MemoryRandomStream_Read MemoryRandomStream_Write buffer_ok p" using assms(1) by (simp add: walkable_def)
  have a: "\<not> a < 7" using assms(2) by (auto simp: DianaProcessor_IsAfterCall_def di_basic_defs)
  show ?thesis
  proof (cases rule: ReadMemory_buffer [OF at, of "GET_REG reg_CS p" "a - 7" 7 reg_CS])
    case (1 bs)
    have "length bs = 7 \<and> call_bytes bs" using 1(1,2) a assms(2) by (simp add: DianaProcessor_IsAfterCall_def read_array_def DI_TRY_def DI_CHECK_def di_basic_defs)
    then show ?thesis using a 1(4) by (simp add: return_site_def Let_def not_less)
  next
    case 2
    then show ?thesis using a assms(2) by (simp add: DianaProcessor_IsAfterCall_def read_array_def DI_TRY_def DI_CHECK_def di_basic_defs)
  qed
qed

section \<open>The decoder of a walk\<close>

text \<open>\<open>walking p\<close>: the decoder reads the code of \<open>p\<close>; \<open>at_code p\<close>: and can parse.  A failed parse may leave a cache that cannot be used until it is cleared.\<close>

definition walking :: "DianaRandomMemoryStream DianaProcessor \<Rightarrow> DianaRandomMemoryStream UtilsProcessorContext Decoder \<Rightarrow> bool" where
  "walking p d \<longleftrightarrow> reads UtilsProcessorReadStream (utils_over p) d \<and> length (cache (d_ctx d)) = 7 \<and> iArch (d_ctx d) = DIANA_ARCH_X86 \<and> sizes_ok (d_ctx d)"

definition at_code :: "DianaRandomMemoryStream DianaProcessor \<Rightarrow> DianaRandomMemoryStream UtilsProcessorContext Decoder \<Rightarrow> bool" where
  "at_code p d \<longleftrightarrow> walking p d \<and> cache_ok (d_ctx d) \<and> 2 \<le> cacheIt (d_ctx d)"

lemma walking_proc: "walking p d \<Longrightarrow> pCallContext (d_stream d) = p"
  by (simp add: walking_def reads_def utils_over_def)

lemma at_code_walking: "at_code p d \<Longrightarrow> walking p d"
  by (simp add: at_code_def)

lemma walking_size: "walking p d \<Longrightarrow> iCurrentCmd_addressSize (d_ctx d) \<in> {2, 4, 8}"
  by (simp add: walking_def sizes_ok_def)

lemma parse_walks:
  assumes "table_ok root"
  shows "runs (at_code p) (Diana_ParseCmd arm nop root) (\<lambda>_. at_code p) (walking p)"
proof (rule runsI)
  fix d
  assume d: "at_code p d"
  then have h: "holding UtilsProcessorReadStream utils_rest (utils_over p) (decoder_input utils_rest d) d" "2 \<le> cacheIt (d_ctx d)"
    by (auto simp: at_code_def walking_def holding_def)
  have arch: "iArch (d_ctx d) = 0" using d by (simp add: at_code_def walking_def)
  have fr: "length (cache (d_ctx (res_state (parse_x86 nop root d)))) = 7" "iArch (d_ctx (res_state (parse_x86 nop root d))) = 0"
    "sizes_ok (d_ctx (res_state (parse_x86 nop root d)))"
    using parse_x86_frame [where nop = nop and root = root and d = d] d by (auto simp: at_code_def walking_def decoder_mode_def)
  show "case Diana_ParseCmd arm nop root d of Ok a t \<Rightarrow> at_code p t | Err e t \<Rightarrow> e \<noteq> C_UNDEFINED \<and> walking p t"
    using utils_code.parse_x86_ok [OF assms h, of nop] fr unfolding ParseCmd_x86 [OF arch]
    by (auto simp: at_code_def walking_def instruction_read_def holding_def spent_def split: di_res.splits)
qed

lemma go_to_at_code: "walking p d \<Longrightarrow> at_code p (go_to rip d)"
  by (auto simp: at_code_def walking_def reads_def utils_over_def go_to_def Decoder_ClearCache_def cache_ok_def sizes_ok_def)

lemma walk_decoder_at_code:
  assumes "walkable p"
  shows "at_code p (walk_decoder r rip p)"
  using assms by (auto simp: walkable_def at_code_def walking_def reads_def utils_over_def walk_decoder_def cache_ok_def sizes_ok_def Decoder_InitContext_def Let_def)

text \<open>A routine of the processor that only looks is one of the walk that changes nothing.\<close>

lemma on_proc_cases:
  assumes "peeks p m" "pCallContext (d_stream d) = p"
  obtains (Ok) a where "m p = Ok a p" "on_proc m d = Ok a d" | (Err) e where "on_proc m d = Err e d" "e \<noteq> C_UNDEFINED"
proof -
  have "d\<lparr>d_stream := (d_stream d)\<lparr>pCallContext := p\<rparr>\<rparr> = d" using assms(2) by (cases d; cases "d_stream d") auto
  with assms show ?thesis by (cases rule: peeks_cases [OF assms(1)]) (auto simp: on_proc_def intro: Ok Err)
qed

lemma safe_on_proc:
  assumes "peeks p m" "\<And>d. I d \<Longrightarrow> pCallContext (d_stream d) = p"
  shows "safe I (on_proc m)"
proof (rule runsI)
  fix d
  assume "I d"
  then show "case on_proc m d of Ok a t \<Rightarrow> I t | Err e t \<Rightarrow> e \<noteq> C_UNDEFINED \<and> I t"
    by (cases rule: on_proc_cases [OF assms(1) assms(2) [OF \<open>I d\<close>]]) simp_all
qed

lemma at_code_proc: "at_code p d \<Longrightarrow> pCallContext (d_stream d) = p"
  by (simp add: at_code_def walking_proc)

lemma AnalyzeCallJmp_index_safe:
  assumes "walkable p"
  shows "safe (at_code p) (AnalyzeCallJmp_index rip ix)"
proof (rule runsI)
  fix d
  assume d: "at_code p d"
  have size: "iCurrentCmd_addressSize (parsed_context d) \<in> {2, 4, 8}"
    using walking_size [OF at_code_walking [OF d]] by (cases "d_ctx d") (simp add: DianaContext.truncate_def)
  have "safe (at_code p) (case (parsed_context d, iFullCmdSize (parsed_result d)) of (ctx, full) \<Rightarrow>
     let plain = indexed_reg ix = reg_none \<or> index ix = 0; asz = word_of_int (iCurrentCmd_addressSize ctx) in
     if reg ix = reg_RIP \<and> plain then
       DI_CHECK (on_proc (CalcIndex_in ctx ix)) (\<lambda>(memSelector, memAddress).
       on_proc (DianaProcessor_GetMemValue memSelector (rip + word_of_int full + dispValue ix) asz (seg_reg ix)))
     else if plain \<and> dispSize ix \<noteq> 0 then
       DI_CHECK (on_proc (CalcIndex_in ctx ix)) (\<lambda>(memSelector, memAddress).
       on_proc (DianaProcessor_GetMemValue memSelector memAddress asz (seg_reg ix)))
     else if (reg ix = reg_RIP \<or> indexed_reg ix = reg_RIP) \<and> (plain \<or> reg ix = reg_none \<and> index ix = 1) then
       DI_RETURN (rip + dispValue ix + word_of_int full)
     else DI_FAIL DI_ERROR)"
    unfolding Let_def prod.case
    by (intro runs_if runs_CHECK [OF safe_on_proc [OF peeks_CalcIndex_in at_code_proc]] safe_basic; (simp only: split_beta)?;
        (rule safe_on_proc [OF peeks_GetMemValue [OF assms size] at_code_proc])?) simp_all
  then show "case AnalyzeCallJmp_index rip ix d of Ok a t \<Rightarrow> at_code p t | Err e t \<Rightarrow> e \<noteq> C_UNDEFINED \<and> at_code p t"
    using d by (simp add: AnalyzeCallJmp_index_def DI_LET_def runs_def)
qed

lemma AnalyzeCallJmp_safe: "walkable p \<Longrightarrow> safe (at_code p) (DianaProcessor_AnalyzeCallJmpInstruction rip)"
  unfolding DianaProcessor_AnalyzeCallJmpInstruction_def
  by (intro safe_LET runs_if; (simp only: DianaOperandValue.case_eq_if)?; (intro runs_if safe_basic AnalyzeCallJmp_index_safe)?; simp)

section \<open>The callee\<close>

text \<open>What a walk needs of the parser.\<close>

abbreviation walks :: "DianaRandomMemoryStream DianaProcessor \<Rightarrow> (unit, DianaRandomMemoryStream UtilsProcessorContext) dec \<Rightarrow> bool" where
  "walks p parse \<equiv> runs (at_code p) parse (\<lambda>_. at_code p) (walking p)"

lemma safe_at_code: "safe (at_code p) m \<Longrightarrow> runs (at_code p) m (\<lambda>_. at_code p) (walking p)"
  by (erule runs_post) (auto intro: at_code_walking)

lemma runs_weaken: "(\<And>d. P d \<Longrightarrow> P' d) \<Longrightarrow> runs P' m Q E \<Longrightarrow> runs P m Q E"
  by (rule runs_pre)

lemma diff_loop_walks:
  assumes "walkable p" "walks p parse"
  shows "runs (at_code p) (diff_loop parse k rip) (\<lambda>_. walking p) (walking p)"
proof (induction k arbitrary: rip)
  case 0
  show ?case unfolding diff_loop.simps by (rule runs_RETURN) (rule at_code_walking)
next
  case (Suc k)
  note IH = Suc
  have ends: "runs (at_code p) (DI_RETURN v) (\<lambda>_. walking p) (walking p)" "runs (at_code p) (DI_FAIL DI_ERROR) (\<lambda>_ :: u64. walking p) (walking p)" for v :: u64
    by (intro runs_RETURN runs_FAIL; simp add: at_code_walking)+
  have jump: "runs (at_code p) (if b then DI_CHECK (DianaProcessor_AnalyzeCallJmpInstruction rip) (\<lambda>x. DI_RETURN (f x)) else DI_RETURN y) (\<lambda>_. at_code p) (walking p)"
    for b f and y :: "u64 option"
    by (intro runs_if runs_CHECK [OF safe_at_code [OF AnalyzeCallJmp_safe [OF assms(1)]]] runs_RETURN)
  show ?case
    unfolding diff_loop.simps Let_def
  proof (rule runs_CHECK [OF assms(2)], rule runs_LET, rule runs_pre, rule runs_CHECK [OF jump])
    fix r :: DianaParserResult and j :: "u64 option"
    show "runs (at_code p) (case j of Some newRIP \<Rightarrow> DI_DO (go_to newRIP) (diff_loop parse k newRIP)
        | None \<Rightarrow> if is_gate r then DI_RETURN 0 else if m_commandId (pInfo r) = ''int'' then DI_RETURN 0
          else if m_commandId (pInfo r) = ''ret'' then
            if iLinkedOpCount r = 0 then DI_RETURN 0
            else if iLinkedOpCount r \<noteq> 1 then DI_FAIL DI_ERROR
            else (case op_value (linkedOperands r 0) of diana_imm v \<Rightarrow> DI_RETURN v | _ \<Rightarrow> DI_FAIL DI_ERROR)
          else diff_loop parse k (rip + word_of_int (iFullCmdSize r))) (\<lambda>_. walking p) (walking p)"
      using ends IH runs_DO [OF IH go_to_at_code [OF at_code_walking]] by (simp split: option.split DianaOperandValue.split)
  qed simp
qed

lemma peeks_QueryFunctionDiff:
  assumes "walkable p" "walks p parse"
  shows "peeks p (DianaProcessor_QueryFunctionDiff parse r rip)"
proof (rule runsI)
  fix q
  assume "q = p"
  moreover have "case diff_loop parse g_scanSize rip (walk_decoder r rip p) of Ok _ d \<Rightarrow> walking p d | Err e d \<Rightarrow> e \<noteq> C_UNDEFINED \<and> walking p d"
    using diff_loop_walks [OF assms, of g_scanSize rip] walk_decoder_at_code [OF assms(1), of r rip] unfolding runs_def by blast
  ultimately show "case DianaProcessor_QueryFunctionDiff parse r rip q of Ok a t \<Rightarrow> t = p | Err e t \<Rightarrow> e \<noteq> C_UNDEFINED \<and> t = p"
    by (cases "diff_loop parse g_scanSize rip (walk_decoder r rip p)") (simp_all add: DianaProcessor_QueryFunctionDiff_def walking_proc)
qed

section \<open>The walk\<close>

text \<open>
  The gate of WoW64 is the one place where the walk reports an address without looking at the code before it.  \<open>met\<close>: one of the next \<open>k\<close> instructions that this walk decodes is a far jump through it;
  it follows the walk step by step.
\<close>

definition gate_next :: "(unit, 'm UtilsProcessorContext) dec \<Rightarrow> ('c, 'm) walker \<Rightarrow> bool" where
  "gate_next parse w \<longleftrightarrow> (case parse (w_dec w) of Ok _ t \<Rightarrow> is_gate (parsed_result t) | Err _ _ \<Rightarrow> False)"

fun met :: "(unit, 'm UtilsProcessorContext) dec \<Rightarrow> DecoderResult \<Rightarrow> ('c, 'm) DianaProcessorStackHandler \<Rightarrow> nat \<Rightarrow> ('c, 'm) walker \<Rightarrow> bool" where
  "met parse r0 obs 0 w = False"
| "met parse r0 obs (Suc k) w =
     (gate_next parse w \<or> (case walk_step parse r0 obs w of Ok go t \<Rightarrow> if go then met parse r0 obs k t else False | Err _ _ \<Rightarrow> False))"

text \<open>The reports are return sites, or a gate has been met.\<close>

definition sites :: "DianaRandomMemoryStream DianaProcessor \<Rightarrow> bool \<Rightarrow> u64 list \<Rightarrow> bool" where
  "sites p g as \<longleftrightarrow> (\<forall>a \<in> set as. return_site p a) \<or> g"

abbreviation halted where
  "halted p g w \<equiv> walking p (w_dec w) \<and> sites p g (w_reports w)"

abbreviation under_way where
  "under_way p g w \<equiv> at_code p (w_dec w) \<and> sites p g (w_reports w)"

text \<open>What an iteration gives: when it goes on, the decoder can parse again.\<close>

definition iterated where
  "iterated p g go w \<longleftrightarrow> (if go then under_way p g w else halted p g w)"

lemma iterated_simps [simp]:
  "iterated p g True w \<longleftrightarrow> under_way p g w" "iterated p g False w \<longleftrightarrow> halted p g w"
  by (simp_all add: iterated_def)

text \<open>The observer looks at the processor and at its own data.\<close>

definition observes :: "('c, 'm) DianaProcessorStackHandler \<Rightarrow> bool" where
  "observes obs \<longleftrightarrow> (\<forall>a c p. snd (res_state (obs a (c, p))) = p \<and> (\<forall>s. obs a (c, p) \<noteq> Err C_UNDEFINED s))"

lemma runs_on_dec:
  fixes m :: "('a, 'm UtilsProcessorContext) dec"
  assumes "runs P m Q E"
  shows "runs (\<lambda>w :: ('c, 'm) walker. P (w_dec w) \<and> S (w_reports w)) (on_dec m) (\<lambda>a w. Q a (w_dec w) \<and> S (w_reports w)) (\<lambda>w. E (w_dec w) \<and> S (w_reports w))"
proof (rule runsI)
  fix w :: "('c, 'm) walker"
  assume w: "P (w_dec w) \<and> S (w_reports w)"
  then show "case on_dec m w of Ok a t \<Rightarrow> Q a (w_dec t) \<and> S (w_reports t) | Err e t \<Rightarrow> e \<noteq> C_UNDEFINED \<and> E (w_dec t) \<and> S (w_reports t)"
    using runs_OkD [OF assms, of "w_dec w"] runs_ErrD [OF assms, of "w_dec w"] by (cases "m (w_dec w)") (auto simp: on_dec_def)
qed

lemma stack_value_halted: "walkable p \<Longrightarrow> safe (halted p g) (stack_value slot)"
proof (rule runsI)
  fix w :: "('c, DianaRandomMemoryStream) walker"
  assume p: "walkable p" and w: "halted p g w"
  have m: "peeks p (DianaProcessor_GetMemValue (GET_REG reg_SS (w_proc w)) slot (w_asz w) reg_SS)"
    by (rule peeks_GetMemValue [OF p walking_size [of p]]) (use w in simp)
  show "case stack_value slot w of Ok a t \<Rightarrow> halted p g t | Err e t \<Rightarrow> e \<noteq> C_UNDEFINED \<and> halted p g t"
    using w walking_proc [of p "w_dec w"]
    by (cases rule: on_proc_cases [OF m, of "w_dec w"]) (simp_all add: stack_value_def di_basic_defs on_dec_def)
qed

lemma stack_value_under_way: "walkable p \<Longrightarrow> safe (under_way p g) (stack_value slot)"
proof (rule runsI)
  fix w :: "('c, DianaRandomMemoryStream) walker"
  assume p: "walkable p" and w: "under_way p g w"
  have m: "peeks p (DianaProcessor_GetMemValue (GET_REG reg_SS (w_proc w)) slot (w_asz w) reg_SS)"
    by (rule peeks_GetMemValue [OF p walking_size [of p]]) (use w in \<open>simp add: at_code_walking\<close>)
  show "case stack_value slot w of Ok a t \<Rightarrow> under_way p g t | Err e t \<Rightarrow> e \<noteq> C_UNDEFINED \<and> under_way p g t"
    using w at_code_proc [of p "w_dec w"]
    by (cases rule: on_proc_cases [OF m, of "w_dec w"]) (simp_all add: stack_value_def di_basic_defs on_dec_def)
qed

text \<open>The test for a return address.\<close>

lemma IsAfterCall_runs:
  assumes "walkable p" "\<And>w. I w \<Longrightarrow> walking p (w_dec w)"
  shows "runs I (on_dec (on_proc (DianaProcessor_IsAfterCall a))) (\<lambda>b w. I w \<and> (b \<longrightarrow> return_site p a)) I"
proof (rule runsI)
  fix w
  assume w: "I w"
  then show "case on_dec (on_proc (DianaProcessor_IsAfterCall a)) w of Ok b t \<Rightarrow> I t \<and> (b \<longrightarrow> return_site p a) | Err e t \<Rightarrow> e \<noteq> C_UNDEFINED \<and> I t"
    using walking_proc [OF assms(2) [OF w]] IsAfterCall_return_site [OF assms(1), of a]
    by (cases rule: on_proc_cases [OF peeks_IsAfterCall [OF assms(1), of a], of "w_dec w"]) (auto simp: on_dec_def)
qed

lemma report_return_runs:
  assumes "observes obs"
  shows "runs (\<lambda>w. halted p g w \<and> sites p g [a]) (report_return obs a slot sz) (iterated p g) (halted p g)"
proof -
  have obs: "runs (halted p g) (call_observer obs a) (\<lambda>_. halted p g) (halted p g)"
  proof (rule runsI)
    fix w :: "('a, DianaRandomMemoryStream) walker"
    assume w: "halted p g w"
    have "snd (res_state (obs a (w_custom w, p))) = p" "\<And>s. obs a (w_custom w, p) \<noteq> Err C_UNDEFINED s" using assms by (auto simp: observes_def)
    moreover have "(w_dec w)\<lparr>d_stream := (d_stream (w_dec w))\<lparr>pCallContext := p\<rparr>\<rparr> = w_dec w" "w_proc w = p"
      using w walking_proc [of p "w_dec w"] by (cases "w_dec w"; cases "d_stream (w_dec w)"; auto)+
    ultimately show "case call_observer obs a w of Ok b t \<Rightarrow> halted p g t | Err e t \<Rightarrow> e \<noteq> C_UNDEFINED \<and> halted p g t"
      using w by (cases "obs a (w_custom w, p)") (auto simp: call_observer_def Let_def split: prod.splits)
  qed
  have go: "runs (halted p g) (DI_DO f (DI_DO (walk_to a) (DI_RETURN True))) (iterated p g) (halted p g)"
    if "\<And>w. w_dec (f w) = w_dec w \<and> w_reports (f w) = w_reports w" for f :: "('a, DianaRandomMemoryStream) walker \<Rightarrow> ('a, DianaRandomMemoryStream) walker"
    by (rule runs_DO [where P' = "halted p g"], rule runs_DO [where P' = "under_way p g"], rule runs_RETURN)
       (simp_all add: that walk_to_def go_to_at_code)
  show ?thesis
    unfolding report_return_def
    by (rule runs_DO [where P' = "halted p g"], rule runs_CHECK [OF obs], rule runs_if, rule runs_RETURN, simp, rule go)
       (auto simp: sites_def Let_def)
qed

lemma frame_slots_runs:
  assumes "walkable p"
  shows "runs (halted p g) (frame_slots js slot :: (u64 \<times> u64, 'c, DianaRandomMemoryStream) walk) (\<lambda>(a, _) w. halted p g w \<and> sites p g [a]) (halted p g)"
proof (induction js arbitrary: slot)
  case Nil
  show ?case
    unfolding frame_slots.simps [of "[]"] Let_def list.case
    by (rule runs_LET, rule runs_pre [of "halted p g"],
        intro runs_if runs_TRY [OF stack_value_halted [OF assms]] runs_CHECK [OF IsAfterCall_runs [OF assms]] runs_FAIL runs_RETURN)
       (auto simp: sites_def)
next
  case (Cons j js)
  obtain s b k where j: "j = (s, b, k)" by (cases j)
  have next': "runs (halted p g) (DI_DO (\<lambda>w. w\<lparr>w_rbp := b, w_known := k\<rparr>) (frame_slots js s) :: (u64 \<times> u64, 'c, DianaRandomMemoryStream) walk) (\<lambda>(a, _) w. halted p g w \<and> sites p g [a]) (halted p g)"
    by (rule runs_DO [OF Cons.IH]) simp
  show ?case
    unfolding j frame_slots.simps [of "(s, b, k) # js"] Let_def list.case prod.case
    by (rule runs_LET, rule runs_pre [of "halted p g"],
        intro runs_if runs_TRY [OF stack_value_halted [OF assms]] runs_CHECK [OF IsAfterCall_runs [OF assms]] next' runs_pre [OF next'] runs_RETURN)
       (auto simp: sites_def)
qed

lemma runs_split: "(\<And>a b. x = (a, b) \<Longrightarrow> runs P (f a b) Q E) \<Longrightarrow> runs P (case x of (a, b) \<Rightarrow> f a b) Q E"
  by (cases x) simp

lemma frame_failed_runs:
  assumes "walkable p" "observes obs"
  shows "runs (halted p g) (frame_failed obs sz) (iterated p g) (halted p g)"
  unfolding frame_failed_def
proof (rule runs_LET, rule runs_split, rule runs_CHECK [OF runs_pre [OF frame_slots_runs [OF assms(1)]]])
  show "runs (case x of (a, _) \<Rightarrow> \<lambda>w. halted p g w \<and> sites p g [a]) (case x of (a, slot) \<Rightarrow> report_return obs a slot sz) (iterated p g) (halted p g)"
    for x :: "u64 \<times> u64"
    using report_return_runs [OF assms(2), of p g "fst x" "snd x" sz] by (cases x) simp
qed simp

lemma frame_failed_under_way:
  assumes "walkable p" "observes obs"
  shows "runs (under_way p g) (frame_failed obs sz) (iterated p g) (halted p g)"
  by (rule runs_pre [OF frame_failed_runs [OF assms]]) (simp add: at_code_walking)

text \<open>Changes of the counters, and the address where the walk goes on.\<close>

lemma goes_on:
  assumes "\<And>w. under_way p g w \<Longrightarrow> under_way p g (f w)"
  shows "runs (under_way p g) (DI_DO f (DI_RETURN True)) (iterated p g) (halted p g)"
  by (rule runs_DO [where P' = "under_way p g"], rule runs_RETURN) (use assms in auto)

lemma walk_to_under_way: "under_way p g w \<Longrightarrow> under_way p g (walk_to rip w)"
  by (simp add: walk_to_def go_to_at_code at_code_walking)

lemma safe_on_dec_proc:
  assumes "peeks p m"
  shows "safe (under_way p g) (on_dec (on_proc m))"
  using runs_on_dec [OF safe_on_proc [OF assms at_code_proc], where S = "sites p g"] .

lemma under_way_post:
  assumes "safe (under_way p g) m"
  shows "runs (under_way p g) m (\<lambda>_. under_way p g) (halted p g)"
  by (rule runs_post [OF assms]) (simp_all add: at_code_walking)

lemma walk_int_runs:
  assumes "walkable p" "observes obs"
  shows "runs (under_way p g) (walk_int obs) (iterated p g) (halted p g)"
  unfolding walk_int_def
  by (rule runs_LET, rule runs_split, rule runs_CHECK [OF runs_pre [OF under_way_post [OF safe_on_dec_proc [OF peeks_AnalyzeStack [OF assms(1)]]]]], simp,
      intro runs_split runs_if runs_DO [OF goes_on])
     (auto simp: walk_to_def go_to_at_code at_code_walking frame_failed_under_way [OF assms])

lemma walk_leave_runs:
  assumes "walkable p" "observes obs"
  shows "runs (under_way p g) (walk_leave obs full) (iterated p g) (halted p g)"
  unfolding walk_leave_def
  by (rule runs_LET, rule runs_pre [of "under_way p g"], rule runs_TRY [OF stack_value_under_way [OF assms(1)]], rule goes_on)
     (simp_all add: frame_failed_under_way [OF assms])

lemma track_rbp_runs: "walkable p \<Longrightarrow> runs (under_way p g) (track_rbp r) (\<lambda>_. under_way p g) (halted p g)"
  unfolding track_rbp_def
  by (rule under_way_post, rule runs_CHECK [where Q = "\<lambda>_. under_way p g"], rule runs_if, rule runs_LET, rule runs_pre [of "under_way p g"],
      intro runs_TRY [OF stack_value_under_way] runs_DO [where P' = "under_way p g"] safe_basic)
     (auto intro!: runs_if runs_DO [where P' = "under_way p g"] safe_basic)

lemma walk_ret_runs:
  assumes "walkable p" "observes obs" "is_gate r \<Longrightarrow> g"
  shows "runs (under_way p g) (walk_ret obs r) (iterated p g) (halted p g)"
proof -
  note failed = frame_failed_under_way [OF assms(1,2)]
  have report: "runs (\<lambda>w. under_way p g w \<and> sites p g [a]) (report_return obs a slot sz) (iterated p g) (halted p g)" for a slot sz
    by (rule runs_pre [OF report_return_runs [OF assms(2)]]) (simp add: at_code_walking)
  have after: "runs (under_way p g) (on_dec (on_proc (DianaProcessor_IsAfterCall a))) (\<lambda>b w. under_way p g w \<and> (b \<longrightarrow> return_site p a)) (halted p g)" for a
    by (rule runs_post [OF IsAfterCall_runs [OF assms(1), of "under_way p g" a]]) (auto simp: at_code_walking)
  have test: "runs (under_way p g) (DI_CHECK (on_dec (on_proc (DianaProcessor_IsAfterCall a))) (\<lambda>b. if b then report_return obs a slot sz else frame_failed obs 0))
      (iterated p g) (halted p g)" for a slot sz
    by (rule runs_CHECK [OF after], rule runs_if; rule runs_pre [OF report] runs_pre [OF failed]) (auto simp: sites_def)
  have gate: "runs (under_way p g) (report_return obs a slot sz) (iterated p g) (halted p g)" if "is_gate r" for a slot sz
    by (rule runs_pre [OF report]) (simp add: sites_def assms(3) [OF that])
  have rest: "runs (under_way p g) (DI_LET (\<lambda>w. (w_rsp w + w_diff w, w_base w)) (\<lambda>(retSlot, frameBase).
     DI_TRY (stack_value retSlot)
       (\<lambda>newRIP.
          if is_gate r then report_return obs newRIP retSlot retSize
          else if retSlot < frameBase then frame_failed obs 0
          else
            DI_CHECK (on_dec (on_proc (DianaProcessor_IsAfterCall newRIP))) (\<lambda>isRet.
            if isRet then report_return obs newRIP retSlot retSize else frame_failed obs 0))
       (frame_failed obs retSize))) (iterated p g) (halted p g)" for retSize
    by (rule runs_LET, rule runs_split, rule runs_pre [of "under_way p g"], rule runs_TRY [OF stack_value_under_way [OF assms(1)]])
       ((intro runs_if gate failed test)?; simp)+
  show ?thesis
    unfolding walk_ret_def by (rule runs_CHECK [where Q = "\<lambda>_. under_way p g", OF _ rest]) (auto intro!: runs_if runs_RETURN)
qed

lemma AnalyzeCallJmp_under_way: "walkable p \<Longrightarrow> safe (under_way p g) (on_dec (DianaProcessor_AnalyzeCallJmpInstruction rip))"
  using runs_on_dec [OF AnalyzeCallJmp_safe, where S = "sites p g"] .

lemma walk_jump_runs:
  assumes "walkable p" "observes obs"
  shows "runs (under_way p g) (walk_jump obs r) (\<lambda>b w. case b of None \<Rightarrow> under_way p g w | Some go \<Rightarrow> iterated p g go w) (halted p g)"
    (is "runs _ _ ?Q _")
proof -
  have go: "runs (under_way p g) (if c then DI_DO f (DI_DO (walk_to a) (DI_RETURN (Some True))) else DI_RETURN None) ?Q (halted p g)"
    if "\<And>w. w_dec (f w) = w_dec w \<and> w_reports (f w) = w_reports w" for c f a
    by (rule runs_if, rule runs_DO [where P' = "under_way p g"], rule runs_DO [where P' = "under_way p g"], rule runs_RETURN)
       (auto simp: that walk_to_def go_to_at_code at_code_walking intro!: runs_RETURN)
  have failed: "runs (under_way p g) (DI_CHECK (frame_failed obs 0) (\<lambda>b. DI_RETURN (Some b))) ?Q (halted p g)"
    by (rule runs_CHECK [OF frame_failed_under_way [OF assms]], rule runs_RETURN) simp
  show ?thesis
    unfolding walk_jump_def Let_def
    by (rule runs_LET, rule runs_split, rule runs_pre [of "under_way p g"], rule runs_TRY [OF AnalyzeCallJmp_under_way [OF assms(1)] go], simp,
        rule runs_if, rule failed, rule go) simp_all
qed

lemma walk_next_runs:
  assumes "walkable p" "walks p parse"
  shows "runs (under_way p g) (walk_next parse r0 c r) (iterated p g) (halted p g)"
proof -
  have diff: "runs (under_way p g) (if b then DI_TRY (on_dec (DianaProcessor_AnalyzeCallJmpInstruction rip))
             (\<lambda>newRIP. DI_TRY (on_dec (on_proc (DianaProcessor_QueryFunctionDiff parse r0 newRIP))) DI_RETURN (DI_RETURN 0))
             (DI_RETURN 0) else DI_RETURN d) (\<lambda>_. under_way p g) (halted p g)" for b rip d
    by (rule under_way_post, intro runs_if safe_basic runs_TRY [OF AnalyzeCallJmp_under_way [OF assms(1)]]
        runs_TRY [OF safe_on_dec_proc [OF peeks_QueryFunctionDiff [OF assms]]])
  show ?thesis
    unfolding walk_next_def
    by (rule runs_split, rule runs_split, rule runs_LET, rule runs_pre [of "under_way p g"], rule runs_CHECK [OF diff goes_on]) simp_all
qed

lemma walk_parsed_runs:
  assumes "walkable p" "observes obs" "walks p parse"
  shows "runs (\<lambda>w. under_way p g w \<and> (is_gate (parsed_result (w_dec w)) \<longrightarrow> g)) (walk_parsed parse r0 obs) (iterated p g) (halted p g)"
  unfolding walk_parsed_def Let_def
proof (rule runs_LET, rule runs_split, rule runs_split)
  fix x y and r :: DianaParserResult and c :: DianaContext and k :: bool
  assume x: "x = (r, y)" "y = (c, k)"
  have jump: "runs (under_way p g) (if b then walk_jump obs r else DI_RETURN None)
      (\<lambda>b w. case b of None \<Rightarrow> under_way p g w | Some go \<Rightarrow> iterated p g go w) (halted p g)" for b
    by (rule runs_if, rule walk_jump_runs [OF assms(1,2)], rule runs_RETURN) simp
  have done': "runs (\<lambda>w. case b of None \<Rightarrow> under_way p g w | Some go \<Rightarrow> iterated p g go w)
      (case b of Some b \<Rightarrow> DI_RETURN b | None \<Rightarrow> walk_next parse r0 c r) (iterated p g) (halted p g)" for b
    using walk_next_runs [OF assms(1,3)] by (cases b) (simp_all add: runs_def di_basic_defs)
  have main: "runs (under_way p g) (if m_commandId (pInfo r) = ''int'' then walk_int obs
     else
       DI_DO (\<lambda>w. if is_gate r then w\<lparr>w_diff := 0\<rparr> else w) (
       if m_commandId (pInfo r) = ''leave'' \<and> k then walk_leave obs (word_of_int (iFullCmdSize r))
       else
         DI_CHECK (track_rbp r) (\<lambda>_.
         if is_gate r \<or> m_commandId (pInfo r) = ''ret'' then walk_ret obs r
         else
           DI_CHECK (if group_flag (m_commandId (pInfo r)) DIANA_GT_IS_JUMP then walk_jump obs r else DI_RETURN None) (\<lambda>done.
           case done of Some b \<Rightarrow> DI_RETURN b | None \<Rightarrow> walk_next parse r0 c r)))) (iterated p g) (halted p g)"
    if "is_gate r \<Longrightarrow> g"
    by (intro runs_if walk_int_runs [OF assms(1,2)] runs_DO [where P' = "under_way p g"] walk_leave_runs [OF assms(1,2)] runs_CHECK [OF track_rbp_runs [OF assms(1)]]
        walk_ret_runs [OF assms(1,2) that] runs_CHECK [OF jump done']) simp_all
  show "runs (\<lambda>w. (under_way p g w \<and> (is_gate (parsed_result (w_dec w)) \<longrightarrow> g)) \<and> (parsed_result (w_dec w), parsed_context (w_dec w), w_known w) = x)
      (if m_commandId (pInfo r) = ''int'' then walk_int obs
     else
       DI_DO (\<lambda>w. if is_gate r then w\<lparr>w_diff := 0\<rparr> else w) (
       if m_commandId (pInfo r) = ''leave'' \<and> k then walk_leave obs (word_of_int (iFullCmdSize r))
       else
         DI_CHECK (track_rbp r) (\<lambda>_.
         if is_gate r \<or> m_commandId (pInfo r) = ''ret'' then walk_ret obs r
         else
           DI_CHECK (if group_flag (m_commandId (pInfo r)) DIANA_GT_IS_JUMP then walk_jump obs r else DI_RETURN None) (\<lambda>done.
           case done of Some b \<Rightarrow> DI_RETURN b | None \<Rightarrow> walk_next parse r0 c r)))) (iterated p g) (halted p g)"
    using main x by (cases "is_gate r \<longrightarrow> g") (auto simp: runs_def)
qed

lemma walk_step_runs:
  fixes obs :: "('c, DianaRandomMemoryStream) DianaProcessorStackHandler"
  assumes "walkable p" "observes obs" "walks p parse"
  shows "runs (\<lambda>w. under_way p g w \<and> (gate_next parse w \<longrightarrow> g)) (walk_step parse r0 obs) (iterated p g) (halted p g)"
proof -
  have "runs (\<lambda>w. under_way p g w \<and> (gate_next parse w \<longrightarrow> g)) (on_dec parse :: (unit, 'c, DianaRandomMemoryStream) walk)
      (\<lambda>_ w. under_way p g w \<and> (is_gate (parsed_result (w_dec w)) \<longrightarrow> g)) (halted p g)"
  proof (rule runsI)
    fix w :: "('c, DianaRandomMemoryStream) walker"
    assume w: "under_way p g w \<and> (gate_next parse w \<longrightarrow> g)"
    then show "case on_dec parse w of Ok a t \<Rightarrow> under_way p g t \<and> (is_gate (parsed_result (w_dec t)) \<longrightarrow> g) | Err e t \<Rightarrow> e \<noteq> C_UNDEFINED \<and> halted p g t"
      using runs_OkD [OF assms(3), of "w_dec w"] runs_ErrD [OF assms(3), of "w_dec w"] by (cases "parse (w_dec w)") (auto simp: on_dec_def gate_next_def)
  qed
  then show ?thesis
    unfolding walk_step_def by (rule runs_TRY [OF _ walk_parsed_runs [OF assms] frame_failed_runs [OF assms(1,2)]])
qed

lemma walk_loop_runs:
  assumes "walkable p" "observes obs" "walks p parse"
  shows "runs (\<lambda>w. under_way p g w \<and> (met parse r0 obs k w \<longrightarrow> g)) (walk_loop parse r0 obs k) (\<lambda>_. halted p g) (halted p g)"
proof (induction k)
  case (Suc k)
  have "runs (\<lambda>w. under_way p g w \<and> (met parse r0 obs (Suc k) w \<longrightarrow> g)) (walk_step parse r0 obs)
      (\<lambda>go w. iterated p g go w \<and> (go \<longrightarrow> met parse r0 obs k w \<longrightarrow> g)) (halted p g)"
  proof (rule runsI)
    fix w
    assume w: "under_way p g w \<and> (met parse r0 obs (Suc k) w \<longrightarrow> g)"
    then show "case walk_step parse r0 obs w of Ok go t \<Rightarrow> iterated p g go t \<and> (go \<longrightarrow> met parse r0 obs k t \<longrightarrow> g)
        | Err e t \<Rightarrow> e \<noteq> C_UNDEFINED \<and> halted p g t"
      using runs_OkD [OF walk_step_runs [OF assms, where g = g], where s = w] runs_ErrD [OF walk_step_runs [OF assms, where g = g], where s = w]
      by (cases "walk_step parse r0 obs w") auto
  qed
  then show ?case unfolding walk_loop.simps
    by (rule runs_CHECK) (use Suc in \<open>auto simp: runs_def di_basic_defs iterated_def\<close>)
qed (auto simp: at_code_walking intro!: runs_FAIL)

section \<open>The whole walk\<close>

text \<open>The walk from an address and a stack pointer meets a gate; and the walk whose reports \<^verbatim>\<open>DianaProcessor_QueryCurrentStack\<close> delivers does.\<close>

definition gate_on_walk ::
    "(unit, 'm UtilsProcessorContext) dec \<Rightarrow> DecoderResult \<Rightarrow> ('c, 'm) DianaProcessorStackHandler \<Rightarrow> u64 \<Rightarrow> u64 \<Rightarrow> 'c \<Rightarrow> 'm DianaProcessor \<Rightarrow> bool" where
  "gate_on_walk parse r0 obs rip rsp c p = met parse r0 obs g_scanSize (walk_start r0 rip rsp c p)"

definition gate_met :: "(unit, 'm UtilsProcessorContext) dec \<Rightarrow> DecoderResult \<Rightarrow> ('c, 'm) DianaProcessorStackHandler \<Rightarrow> 'c \<Rightarrow> 'm DianaProcessor \<Rightarrow> bool" where
  "gate_met parse r0 obs c p =
     (let w = res_state (DianaProcessor_QueryCurrentStack_Impl parse r0 obs (GET_REG reg_RIP p) (GET_REG reg_RSP p) c p) in
      if wd_reports w = [] \<and> m_lastCallRSP p \<noteq> 0 then gate_on_walk parse r0 obs (m_lastCallRIP p) (m_lastCallRSP p) (wd_custom w) p
      else gate_on_walk parse r0 obs (GET_REG reg_RIP p) (GET_REG reg_RSP p) c p)"

lemma Impl_runs:
  fixes c :: 'c and obs :: "('c, DianaRandomMemoryStream) DianaProcessorStackHandler" and r0 rip rsp
  assumes "walkable p" "observes obs" "walks p parse"
  defines "res \<equiv> DianaProcessor_QueryCurrentStack_Impl parse r0 obs rip rsp c p"
  shows "res \<noteq> Err C_UNDEFINED w" "wd_proc (res_state res) = p" "sites p (gate_on_walk parse r0 obs rip rsp c p) (wd_reports (res_state res))"
proof -
  let ?g = "gate_on_walk parse r0 obs rip rsp c p"
  have "under_way p ?g (walk_start r0 rip rsp c p)"
    using walk_decoder_at_code [OF assms(1), of r0 rip] by (simp add: walk_start_def sites_def)
  then have "case walk_loop parse r0 obs g_scanSize (walk_start r0 rip rsp c p) of Ok _ w \<Rightarrow> halted p ?g w | Err e w \<Rightarrow> e \<noteq> C_UNDEFINED \<and> halted p ?g w"
    using walk_loop_runs [OF assms(1,2,3), of ?g r0 g_scanSize] unfolding runs_def gate_on_walk_def by blast
  then show "res \<noteq> Err C_UNDEFINED w" "wd_proc (res_state res) = p" "sites p ?g (wd_reports (res_state res))"
    by (auto simp: res_def DianaProcessor_QueryCurrentStack_Impl_def Let_def walking_proc split: di_res.splits)
qed

text \<open>
  C27: the stack walk of a 16-bit or 64-bit processor over a buffer is defined whatever the code and the stack hold, for any well-formed instruction table and any observer that only looks: it ends
  within its bound of 0x1000 instructions, no array is overrun and no undefined behaviour is met, and the processor is left exactly as it was.  Unless this walk itself decodes a far jump through the gate of
  WoW64, where it takes the address from the stack without looking at it, every address it hands to the observer lies right after seven bytes of code that end in a call.
\<close>

theorem stack_walk_safe:
  assumes "table_ok root" "walkable p" "iMainMode_addressSize (m_context p) \<noteq> DIANA_MODE32" "observes obs"
  shows "\<exists>res. DianaProcessor_QueryCurrentStack (Diana_ParseCmd arm nop root) r0 obs c p = Some res \<and>
    (\<forall>w. res \<noteq> Err C_UNDEFINED w) \<and> wd_proc (res_state res) = p \<and>
    (\<not> gate_met (Diana_ParseCmd arm nop root) r0 obs c p \<longrightarrow> (\<forall>a \<in> set (wd_reports (res_state res)). return_site p a))"
proof -
  note impl = Impl_runs [OF assms(2,4) parse_walks [OF assms(1)]]
  have reported: "return_site p a"
    if "\<not> gate_on_walk (Diana_ParseCmd arm nop root) r0 obs rip rsp c p"
      "a \<in> set (wd_reports (res_state (DianaProcessor_QueryCurrentStack_Impl (Diana_ParseCmd arm nop root) r0 obs rip rsp c p)))" for a rip rsp c
    using impl(3) [of arm nop r0 rip rsp c] that by (auto simp: sites_def)
  show ?thesis
    using assms(3) impl(1,2) reported by (simp add: DianaProcessor_QueryCurrentStack_def gate_met_def Let_def)
qed

text \<open>A machine that has executed two instructions of a function called from address 4: the stack at 16 holds the address 9 after the call.\<close>

definition walk_machine :: "DianaRandomMemoryStream DianaProcessor" where
  "walk_machine =
     SET_REG reg_RSP 16 ((zero_processor \<lparr>pReadFnc = MemoryRandomStream_Read, pWriteFnc = MemoryRandomStream_Write\<rparr>
        \<lparr>pBuffer = [0xF8, 0x0F, 0xA2, 0, 0xE8] @ replicate 11 0 @ [9] @ replicate 7 0, bufferSize = 24, segmentSize = 0\<rparr> 8)\<lparr>m_registers := x86_layout\<rparr>)"

definition one_return :: "(nat, 'm) DianaProcessorStackHandler" where
  "one_return a = (\<lambda>(n, p). Ok False (Suc n, p))"

lemma walk_machine_walkable: "walkable walk_machine"
  by (simp add: walkable_def walk_machine_def stream_attached_def zero_processor_def buffer_ok_def Diana_InitContext_def)

lemma observes_one_return: "observes one_return"
  by (simp add: observes_def one_return_def)

lemma walk_machine_walk:
  "case DianaProcessor_QueryCurrentStack (Diana_ParseCmd (\<lambda>_. DI_PROC_END) (sample_line ''nop'' 0) sample_root) zero_decoder_result one_return 0 walk_machine of
     None \<Rightarrow> False | Some res \<Rightarrow> wd_reports (res_state res) = [9] \<and> wd_custom (res_state res) = 1"
  by code_simp

lemma walk_machine_no_gate:
  "\<not> gate_met (Diana_ParseCmd (\<lambda>_. DI_PROC_END) (sample_line ''nop'' 0) sample_root) zero_decoder_result one_return 0 walk_machine"
  by code_simp

theorem stack_walk_safe_witness:
  "\<exists>res. DianaProcessor_QueryCurrentStack (Diana_ParseCmd (\<lambda>_. DI_PROC_END) (sample_line ''nop'' 0) sample_root) zero_decoder_result one_return 0 walk_machine = Some res \<and>
     wd_reports (res_state res) = [9] \<and> wd_proc (res_state res) = walk_machine \<and> return_site walk_machine 9"
proof -
  have "iMainMode_addressSize (m_context walk_machine) \<noteq> DIANA_MODE32" by (simp add: walk_machine_def zero_processor_def Diana_InitContext_def)
  from stack_walk_safe [OF sample_root_ok walk_machine_walkable this observes_one_return, of "\<lambda>_. DI_PROC_END" "sample_line ''nop'' 0" zero_decoder_result 0]
  obtain res where "DianaProcessor_QueryCurrentStack (Diana_ParseCmd (\<lambda>_. DI_PROC_END) (sample_line ''nop'' 0) sample_root) zero_decoder_result one_return 0 walk_machine = Some res"
    "wd_proc (res_state res) = walk_machine" "\<forall>a \<in> set (wd_reports (res_state res)). return_site walk_machine a"
    using walk_machine_no_gate by blast
  then show ?thesis using walk_machine_walk by (intro exI [of _ res]) auto
qed

end
