(* ===== verification/Frame_Chain.thy ===== *)
theory Frame_Chain
  imports Walk_Properties
begin

unbundle bit_operations_syntax

text \<open>
  The stack walk of a 32-bit processor along its EBP chain: which addresses it reports, and when it ends.
\<close>

section \<open>One frame\<close>

text \<open>The two words of the frame at an address, and whether a word of code can be read at an address.\<close>

definition frame_at :: "DianaRandomMemoryStream DianaProcessor \<Rightarrow> u64 \<Rightarrow> (u32 \<times> u32) option" where
  "frame_at p ebp =
     (let bs = take 8 (drop (flat (m_memory p) (GET_REG reg_SS p) ebp) (pBuffer (m_memory p))) in
      if length bs = 8 then Some (ucast (le_word (take 4 bs)), ucast (le_word (drop 4 bs))) else None)"

definition code_word :: "DianaRandomMemoryStream DianaProcessor \<Rightarrow> u64 \<Rightarrow> bool" where
  "code_word p a \<longleftrightarrow>
     flat (m_memory p) (GET_REG reg_CS p) a + nat (iCurrentCmd_addressSize (m_context p)) \<le> length (pBuffer (m_memory p))"

lemma ReadMemory_eq:
  assumes "walkable p"
  shows "DianaProcessor_ReadMemory sel off n seg p =
    (let f = flat (m_memory p) sel off in if f \<le> length (pBuffer (m_memory p)) then Ok (take (unat n) (drop f (pBuffer (m_memory p)))) p else Err DI_ERROR p)"
proof -
  have "pReadFnc (m_pMemoryStream p) = MemoryRandomStream_Read" "buffer_ok (m_memory p)" using assms by (simp_all add: walkable_def stream_attached_def)
  moreover from this have "length (pBuffer (m_memory p)) = unat (bufferSize (m_memory p))" by (simp add: buffer_ok_def)
  ultimately show ?thesis by (simp add: DianaProcessor_ReadMemory_def Read_eq Let_def take_all_iff min_def)
qed

lemma GetMemValue_eq:
  assumes "walkable p" "n \<in> {2, 4, 8}"
  shows "DianaProcessor_GetMemValue sel off (word_of_int n) seg p =
    (let f = flat (m_memory p) sel off in if f + nat n \<le> length (pBuffer (m_memory p)) then Ok (le_word (take (nat n) (drop f (pBuffer (m_memory p))))) p else Err DI_ERROR p)"
proof -
  have n: "unat (word_of_int n :: u64) = nat n" "nat n \<le> 8" "0 < nat n" using assms(2) by auto
  let ?f = "flat (m_memory p) sel off" and ?b = "pBuffer (m_memory p)"
  have eq: "of_nat k = (word_of_int n :: u64) \<longleftrightarrow> k = nat n" if "k \<le> nat n" for k
  proof -
    have "unat (of_nat k :: u64) = k" using that n(2) by (simp add: unsigned_of_nat take_bit_nat_eq_self)
    then show ?thesis using n(1) assms(2) by auto
  qed
  have raw: "DianaProcessor_GetMemValue sel off m seg p = (case DianaProcessor_ReadMemory sel off m seg p of
      Ok bs r \<Rightarrow> if length bs > 8 then Err C_UNDEFINED r else if of_nat (length bs) \<noteq> m then Err DI_ERROR r else Ok (le_word bs) r | Err e r \<Rightarrow> Err e r)" for m
    by (auto simp: DianaProcessor_GetMemValue_def DianaProcessor_GetMemValue_raw_def DianaProcessor_ReadMemory_def split: di_res.split)
  define bs where "bs = take (nat n) (drop ?f ?b)"
  have len: "length bs \<le> nat n" "length bs = nat n \<longleftrightarrow> ?f + nat n \<le> length ?b" using n(3) by (auto simp: bs_def)
  have "DianaProcessor_ReadMemory sel off (word_of_int n) seg p = (if ?f \<le> length ?b then Ok bs p else Err DI_ERROR p)"
    by (simp add: ReadMemory_eq [OF assms(1)] n(1) Let_def bs_def)
  then have "DianaProcessor_GetMemValue sel off (word_of_int n) seg p = (if ?f + nat n \<le> length ?b then Ok (le_word bs) p else Err DI_ERROR p)"
    using n(2) len by (simp add: raw eq [OF len(1)])
  then show ?thesis by (simp add: Let_def bs_def)
qed

lemma ebp_frame_eq:
  assumes "walkable p"
  shows "ebp_frame ebp p = (case frame_at p ebp of Some (f0, f1) \<Rightarrow> if code_word p (ucast f1) then Ok (f0, f1) p else Err DI_ERROR p | None \<Rightarrow> Err DI_ERROR p)"
proof -
  have n: "iCurrentCmd_addressSize (m_context p) \<in> {2, 4, 8}" using assms by (simp add: walkable_def)
  show ?thesis
    by (auto simp: ebp_frame_def frame_at_def code_word_def read_array_def DI_CHECK_def di_basic_defs Let_def ReadMemory_eq [OF assms] GetMemValue_eq [OF assms n])
qed

section \<open>The chain\<close>

text \<open>The return addresses of the frames that start at an address: a chain ends where a frame cannot be read or its return address holds no code.\<close>

inductive frame_chain :: "DianaRandomMemoryStream DianaProcessor \<Rightarrow> u64 \<Rightarrow> u64 list \<Rightarrow> bool" for p where
  no_frame: "frame_at p ebp = None \<Longrightarrow> frame_chain p ebp []"
| no_code: "frame_at p ebp = Some (f0, f1) \<Longrightarrow> \<not> code_word p (ucast f1) \<Longrightarrow> frame_chain p ebp []"
| link: "frame_at p ebp = Some (f0, f1) \<Longrightarrow> code_word p (ucast f1) \<Longrightarrow> frame_chain p (ucast f0) rets \<Longrightarrow> frame_chain p ebp (ucast f1 # rets)"

text \<open>An observer that looks and always asks for more.\<close>

definition keeps_going :: "('c, 'm) DianaProcessorStackHandler \<Rightarrow> bool" where
  "keeps_going obs \<longleftrightarrow> (\<forall>a c p. \<exists>c'. obs a (c, p) = Ok True (c', p))"

lemma keeps_goingE:
  assumes "keeps_going obs"
  obtains c' where "obs a (c, p) = Ok True (c', p)"
  using assms unfolding keeps_going_def by blast

lemma ebp_loop_stop:
  "ebp_frame ebp (wd_proc w) = Err e p \<Longrightarrow> ebp_loop obs ebp w = Some (Err e \<lparr>wd_custom = wd_custom w, wd_proc = p, wd_reports = wd_reports w\<rparr>)"
  by (subst ebp_loop.simps) simp

lemma ebp_loop_chain:
  assumes "walkable p" "keeps_going obs" "frame_chain p ebp rets" "wd_proc w = p"
  shows "\<exists>c. ebp_loop obs ebp w = Some (Err DI_ERROR \<lparr>wd_custom = c, wd_proc = p, wd_reports = wd_reports w @ rets\<rparr>)"
  using assms(3,4)
proof (induction arbitrary: w rule: frame_chain.induct)
  case (link ebp f0 f1 rets)
  obtain c where c: "obs (ucast f1) (wd_custom w, p) = Ok True (c, p)" by (rule keeps_goingE [OF assms(2)])
  show ?case
    using link.IH [of "w\<lparr>wd_reports := wd_reports w @ [ucast f1], wd_custom := c, wd_proc := p\<rparr>"] link c
    by (subst ebp_loop.simps) (simp add: ebp_frame_eq [OF assms(1)])
next
  case (no_frame ebp)
  then show ?case using ebp_loop_stop [of ebp w DI_ERROR p obs] by (simp add: ebp_frame_eq [OF assms(1)])
next
  case (no_code ebp f0 f1)
  then show ?case using ebp_loop_stop [of ebp w DI_ERROR p obs] by (simp add: ebp_frame_eq [OF assms(1)])
qed

lemma ebp_loop_Some:
  assumes "ebp_loop obs ebp w = Some res" "walkable p" "keeps_going obs" "wd_proc w = p"
  shows "\<exists>rets. frame_chain p ebp rets"
  using assms(1,3,4)
proof (induction rule: ebp_loop.raw_induct [rotated, consumes 1])
  case (1 loop obs ebp w res)
  show ?case
  proof (cases "frame_at p ebp")
    case (Some fr)
    obtain f0 f1 where fr: "fr = (f0, f1)" by (cases fr)
    obtain c where c: "obs (ucast f1) (wd_custom w, p) = Ok True (c, p)" by (rule keeps_goingE [OF 1(3)])
    show ?thesis
    proof (cases "code_word p (ucast f1)")
      case True
      have "loop obs (ucast f0) (w\<lparr>wd_reports := wd_reports w @ [ucast f1], wd_custom := c, wd_proc := p\<rparr>) = Some res"
        using 1(2,4) True Some fr c by (simp add: ebp_frame_eq [OF assms(2)])
      from 1(1) [OF this 1(3)] show ?thesis using frame_chain.link [OF Some [unfolded fr] True] by auto
    qed (use Some fr in \<open>auto intro: frame_chain.no_code\<close>)
  qed (auto intro: frame_chain.no_frame)
qed

text \<open>
  C29: the walk of a 32-bit processor over a buffer, with an observer that only looks and always asks for more.  It ends exactly when the EBP chain that starts at the current frame is finite, and then
  it has reported the return addresses of the frames of the chain, all of them and in order, has left the processor as it was and returns an error status.  When the saved EBPs form a cycle the walk
  does not end: the loop has no bound.
\<close>

theorem ebp_walk_exact:
  assumes "walkable p" "keeps_going obs"
  shows "(\<forall>rets. frame_chain p (GET_REG reg_RBP p) rets \<longrightarrow>
      (\<exists>c'. DianaProcessor_QueryCurrentStack_EBP_32 obs c p = Some (Err DI_ERROR \<lparr>wd_custom = c', wd_proc = p, wd_reports = rets\<rparr>))) \<and>
    (DianaProcessor_QueryCurrentStack_EBP_32 obs c p = None \<longleftrightarrow> (\<forall>rets. \<not> frame_chain p (GET_REG reg_RBP p) rets))"
proof -
  let ?w = "\<lparr>wd_custom = c, wd_proc = p, wd_reports = []\<rparr>"
  have chain: "\<exists>c'. ebp_loop obs (GET_REG reg_RBP p) ?w = Some (Err DI_ERROR \<lparr>wd_custom = c', wd_proc = p, wd_reports = rets\<rparr>)"
    if "frame_chain p (GET_REG reg_RBP p) rets" for rets
    using ebp_loop_chain [OF assms that, of ?w] by simp
  have "ebp_loop obs (GET_REG reg_RBP p) ?w = None \<longleftrightarrow> (\<forall>rets. \<not> frame_chain p (GET_REG reg_RBP p) rets)"
  proof (cases "ebp_loop obs (GET_REG reg_RBP p) ?w")
    case None
    then show ?thesis using chain by fastforce
  next
    case (Some res)
    from ebp_loop_Some [OF this assms] show ?thesis using Some by simp
  qed
  with chain show ?thesis by (simp add: DianaProcessor_QueryCurrentStack_EBP_32_def)
qed

text \<open>A machine with the frame \<open>(next, 3)\<close> at 8 and the frame \<open>(64, 5)\<close> at 16: two frames for \<open>next = 16\<close>, a cycle for \<open>next = 8\<close>.\<close>

definition frames_machine :: "u8 \<Rightarrow> DianaRandomMemoryStream DianaProcessor" where
  "frames_machine next =
     SET_REG reg_RBP 8 ((zero_processor \<lparr>pReadFnc = MemoryRandomStream_Read, pWriteFnc = MemoryRandomStream_Write\<rparr>
        \<lparr>pBuffer = replicate 8 0 @ [next, 0, 0, 0, 3, 0, 0, 0] @ [64, 0, 0, 0, 5, 0, 0, 0], bufferSize = 24, segmentSize = 0\<rparr> 4)\<lparr>m_registers := x86_layout\<rparr>)"

definition all_returns :: "(nat, 'm) DianaProcessorStackHandler" where
  "all_returns a = (\<lambda>(n, p). Ok True (Suc n, p))"

lemma keeps_going_all_returns: "keeps_going all_returns"
  by (simp add: keeps_going_def all_returns_def)

lemma frames_machine_walkable: "walkable (frames_machine next)"
  by (simp add: walkable_def frames_machine_def stream_attached_def zero_processor_def buffer_ok_def Diana_InitContext_def)

lemma frames_machine_chain: "frame_chain (frames_machine 16) (GET_REG reg_RBP (frames_machine 16)) [3, 5]"
proof -
  let ?p = "frames_machine 16"
  have at: "frame_at ?p 8 = Some (16, 3)" "frame_at ?p 16 = Some (64, 5)" "frame_at ?p 64 = None" "code_word ?p 3" "code_word ?p 5" "GET_REG reg_RBP ?p = 8"
    by code_simp+
  then show ?thesis
    using frame_chain.link [of ?p 8 16 3 "[5]"] frame_chain.link [of ?p 16 64 5 "[]"] frame_chain.no_frame [of ?p 64] by simp
qed

lemma frames_machine_cycle: "\<not> frame_chain (frames_machine 8) (GET_REG reg_RBP (frames_machine 8)) rets"
proof
  let ?p = "frames_machine 8"
  have at: "frame_at ?p 8 = Some (8, 3)" "code_word ?p 3" "GET_REG reg_RBP ?p = 8" by code_simp+
  assume "frame_chain ?p (GET_REG reg_RBP ?p) rets"
  then have "frame_chain ?p 8 rets" by (simp add: at(3))
  then show False by (induction "8 :: u64" rets rule: frame_chain.induct) (use at in auto)
qed

theorem ebp_walk_exact_witness:
  "(\<exists>n. DianaProcessor_QueryCurrentStack_EBP_32 all_returns 0 (frames_machine 16) = Some (Err DI_ERROR \<lparr>wd_custom = n, wd_proc = frames_machine 16, wd_reports = [3, 5]\<rparr>)) \<and>
   DianaProcessor_QueryCurrentStack_EBP_32 all_returns 0 (frames_machine 8) = None"
  using ebp_walk_exact [OF frames_machine_walkable keeps_going_all_returns, of 16 0] ebp_walk_exact [OF frames_machine_walkable keeps_going_all_returns, of 8 0]
    frames_machine_chain frames_machine_cycle by blast

end
