(* ===== verification/Spec2Isabelle.thy ===== *)
theory Spec2Isabelle
  imports Arithmetic_Properties Bit_Properties Product_Properties Register_Machine Reachable_States Decoder_Lookup Stream_Copy Block_Stack Extension_Properties Uids Frame_Chain
begin

unbundle bit_operations_syntax

text \<open>
  A verification development for the x86 emulator and instruction decoder of the Diana disassembler library (sources under
  \<^verbatim>\<open>src/src/diana_core/diana_core/\<close>, the emulator below it in \<^verbatim>\<open>diana_processor/\<close>).

  \<^bold>\<open>The program.\<close>  The emulator executes one x86 instruction per call of \<^verbatim>\<open>DianaProcessor_ExecOnce\<close> (\<^verbatim>\<open>diana_processor_core.c\<close>): it runs the fire points
  registered on the address, lets the decoder read the instruction from memory, looks up a handler in the table of \<^verbatim>\<open>diana_processor_commands.c\<close>, calls it once or,
  under a repeat prefix, in a loop, and advances RIP unless the handler jumped.  Handlers (\<^verbatim>\<open>diana_processor_cmd_*.c\<close>) read and write operands through
  \<^verbatim>\<open>DianaProcessor_SetGetOperand\<close> (\<^verbatim>\<open>diana_processor_core_impl.c\<close>), which reaches the registers vector laid out by
  \<^verbatim>\<open>diana_processor_impl_init.h\<close> and memory through a stream of two callbacks (\<^verbatim>\<open>diana_processor_streams.c\<close>).  The decoder (\<^verbatim>\<open>Diana_ParseCmd\<close>,
  \<^verbatim>\<open>diana_core.c\<close>) takes bytes from a stream into a cache of seven bytes (\<^verbatim>\<open>diana_core_utils.c\<close>), reads prefixes, searches a generated table of opcodes
  (\<^verbatim>\<open>diana_core_parsers.c\<close>) and links the operands of the entry it finds (\<^verbatim>\<open>diana_operands.c\<close>).  The library's streams, lists, block stack and identifiers
  (\<^verbatim>\<open>diana_streams.c\<close>, \<^verbatim>\<open>diana_list.c\<close>, \<^verbatim>\<open>diana_stack.c\<close>, \<^verbatim>\<open>diana_uids.c\<close>) serve both and the tools above them.
  On top of decoder and emulator, \<^verbatim>\<open>diana_analyze2.c\<close> reads off an instruction what it does to the stack pointer, and the stack walk of \<^verbatim>\<open>diana_processor_core.c\<close>
  (\<^verbatim>\<open>DianaProcessor_QueryCurrentStack\<close>) finds the return addresses on the stack of the processor and hands them to an observer.

  \<^bold>\<open>How it is modelled.\<close>  A C routine that works on the processor or on the decoder and returns a status is a function from the state to \<open>Ok\<close> value state or \<open>Err\<close> code
  state (\<open>di_res\<close>); a failing routine keeps the changes made before it failed.  Integers are words of the C width, so that additions wrap; signed C arithmetic is written out
  over \<open>sint\<close>.  A pointer to a result is the returned value.  Memory behind a stream is a component of any type \<open>'m\<close> with the stream's functions as arguments.  In the
  decoder, the lists and the stack an access outside an array or to a freed node has no value (the result is \<open>None\<close>, or the status \<open>C_UNDEFINED\<close>, which no C routine returns), so that memory safety is a
  theorem and not an assumption.  The one exception is \<^verbatim>\<open>pLine->key[-1]\<close> in the search of the table (\<open>scan_from\<close> of \<open>Decoder_Search\<close>): this read outside the array stays inside the line and is modelled as the byte that
  64-bit builds have there, the type 2 in the line's head; only following the pointer of that key has no value.

  \<^bold>\<open>The emulator.\<close>
  \<^item> \<open>Diana_Prelude\<close>: words, status codes, the result type and its sequencing (\<^verbatim>\<open>DI_CHECK\<close>), the locale \<open>frame_relation\<close> (what a routine keeps), shared lemmas.
  \<^item> \<open>Processor_State\<close>: the structures of \<^verbatim>\<open>diana_core.h\<close> and \<^verbatim>\<open>diana_processor_core_impl.h\<close>.
  \<^item> \<open>Processor_Flags\<close>, \<open>Flag_Arithmetic\<close>: flag access, PF/SF/ZF, and CF/OF/AF of additions and subtractions, with their arithmetic meaning at every width.
  \<^item> \<open>Processor_Registers\<close>, \<open>Register_Access\<close>: the registration of all registers, the layout it computes, reading and writing; the contract \<open>register_file\<close>, interpreted
    on the 64-bit registers.
  \<^item> \<open>Processor_Memory\<close>: the buffer stream, memory values; the contract \<open>memory_stream\<close>, interpreted on the buffer stream.
  \<^item> \<open>Processor_Operands\<close>, \<open>Operand_Contract\<close>, \<open>Alu_Contract\<close>: effective addresses and operands; what a handler may rely on, proved once inside \<open>memory_stream\<close>.
  \<^item> \<open>Processor_Frame\<close>: the frame every handler keeps, with the rules that prove it by following a handler's text.
  \<^item> \<open>Int128\<close>, \<open>Cmd_Internal\<close>, \<open>Cmd_Conditions\<close>: 128-bit products and quotients, the stack and branch helpers, the sixteen conditions.
  \<^item> \<open>Cmd_A\<close> to \<open>Cmd_S2\<close>, \<open>Cmd_Misc\<close>, \<open>Cmd_Ext\<close>, \<open>Processor_Random\<close>: one theory per file of handlers, in the order of the code, each with the lemmas of its handlers over
    \<open>memory_stream\<close>.
  \<^item> \<open>Processor_Core\<close>: x87 stack pointer, initialisation, handler table, repetition, fire points, the execution step, the code reader.

  \<^bold>\<open>The decoder.\<close>
  \<^item> \<open>Decoder_State\<close>, \<open>Decoder_Cache\<close>: the table and the decoder's fields, the cache and the two streams that stand between it and the caller's stream.
  \<^item> \<open>Decoder_Prefix\<close>, \<open>Decoder_Registers\<close>, \<open>Decoder_Operands\<close>: prefixes with VEX and EVEX, registers and addressing forms, the linking of operands.
  \<^item> \<open>Decoder_Search\<close>, \<open>Decoder_Parser\<close>, \<open>Decoder_Core\<close>: the search of the table with its stack and rollback, the parser, \<^verbatim>\<open>Diana_ParseCmd\<close> with its rules.
  \<^item> \<open>Decoder_Streams\<close>: streams over a buffer, copying and filling through a page.
  \<^item> \<open>Decoder_Table\<close> to \<open>Decoder_Correct\<close>: the contract of every part of the decoder over any stream (locale \<open>code_stream\<close>): which bytes it takes from the input, that it stays
    inside its arrays, and what it leaves for the next instruction.
  \<^item> \<open>Code_Fetch\<close>: the processor's memory is such a stream; the decoder runs inside the execution step.

  \<^bold>\<open>The stack walk.\<close>
  \<^item> \<open>Stack_Analysis\<close>: immediates, use of the stack registers and the change of the stack pointer of an instruction.
  \<^item> \<open>Stack_Walk\<close>: the walk's own stream over the processor's memory, the targets of calls and jumps, what a callee drops, the test for a return address, the walk with one definition per kind of
    instruction and per label of the C loop, and the EBP chain of 32-bit processors.  The state \<open>walker\<close> has the local variables of the C routine.

  \<^bold>\<open>Containers.\<close>  \<open>Data_Refinement\<close> states what it means that operations on a store implement operations on an abstract value (locales \<open>data_refinement\<close> and
  \<open>total_refinement\<close>); \<open>Linked_List\<close> and \<open>Block_Stack\<close> interpret it on the doubly linked list, the circular list and the block stack.  \<open>Uids\<close>: identifiers as a linear order.

  \<^bold>\<open>What is proved.\<close>
  \<^item> \<open>Arithmetic_Properties\<close>, \<open>Bit_Properties\<close>, \<open>Product_Properties\<close>, \<open>Extension_Properties\<close>: value and flags of the arithmetic, shift, rotate, bit, multiplication, division
    and bit manipulation instructions for every operand size, the refusals of the divisions, the closed form of the bit loops, and the round trips of rotation, of multiplication and of
    depositing bits.
  \<^item> \<open>Machine_Properties\<close>: initialisation, register file and aliases, bounds of the buffer stream, round trips of memory and stack, the frame of all handlers.
  \<^item> \<open>String_Repeat\<close>, \<open>Control_Properties\<close>: repeated string instructions end; call and ret, conditional jumps and moves.
  \<^item> \<open>Execution_Properties\<close>, \<open>Emulator_Invariant\<close>, \<open>Reachable_States\<close>: a successful step, refused steps, what every step keeps of the machine, and the invariant of all states that a host reaches from initialisation
    with the modelled decoder and the handlers of the general purpose table.
  \<^item> \<open>Register_Machine\<close>: register programs refine an abstract machine of sixteen registers.
  \<^item> \<open>Decoder_Properties\<close>, \<open>Decoder_Mode\<close>, \<open>Decoder_Lookup\<close>: parsing is defined for all bytes, an instruction is a prefix of the input of at most fifteen bytes, repeated parsing takes
    the input apart into instructions (their sizes always add up; their bytes are those of the input up to and including the first instruction with a legacy prefix), the mode of the decoder is kept and the caller's stream
    changes only by reads, and the search of the table finds what a recursive reference search finds.
  \<^item> \<open>Code_Fetch\<close>: the instruction executed is the code in memory at CS:RIP, and decoder and processor stay in step over an execution step.
  \<^item> \<open>Stream_Copy\<close>: copying moves exactly the bytes asked for, and copying and filling end.
  \<^item> \<open>Linked_List\<close>, \<open>Block_Stack\<close>: the lists and the stack refine sequences and lists of values; walking, clearing and releasing end.
  \<^item> \<open>Stack_Analysis\<close>: the analysis agrees with the handlers of push, pop, call and ret, and with add and sub exactly for immediates that are not negative.
  \<^item> \<open>Walk_Properties\<close>, \<open>Frame_Chain\<close>: the walk is defined whatever code and stack hold, changes nothing and, unless it decodes the gate of WoW64, reports addresses that follow a call; the walk along the EBP chain ends exactly on
    finite chains, whose return addresses it reports.
  \<^item> This theory: comparison and branch together.

  \<open>Sample_Machine\<close> and \<open>Sample_Table\<close> hold the initialised processor and the small instruction table on which the theorems are applied to concrete inputs.

  \<^bold>\<open>Bounds and loops.\<close>  The loop of \<^verbatim>\<open>CallWithRep\<close>, the loops over pages of a stream, the walks over lists and the clearing of a stack are partial functions whose undefined value
  stands for divergence; \<open>rep_string_ends\<close>, \<open>transfers_end\<close>, \<open>list_refines_sequence\<close>, \<open>circle_refines_sequence\<close> and \<open>stack_clear_free\<close> show that they are defined.  The loop over
  fire points has ten rounds, the capacity of the table; \<open>fire_points_complete\<close> shows that more rounds change nothing.  The prefix loop has the fifteen rounds of the C code, and the search of the
  table ends by a measure on the table that is left.  The stack walk has the 0x1000 rounds of the C code.  The EBP walk is
  partial, and \<open>ebp_walk_exact\<close> says when it ends.  Loops over bits are recursions on the count.

  \<^bold>\<open>Arguments of the model.\<close>  The decoder is an argument of \<open>DianaProcessor_ExecOnce\<close>, and \<open>Code_Fetch\<close> puts the decoder's model there.  Arguments throughout are: the generated
  table of instructions (the hypothesis \<open>table_ok\<close> says what the decoder relies on: nesting, prefix bytes and operand counts) and its nop entry, the ARM decoders, the handlers of the vector, x87
  and system instructions, the action of a fire point, the custom command provider, the observer of a stack walk, the
  uninitialised result it starts with, and the caller's stream; a stream whose read fails is taken to deliver no bytes.  Allocation is a predicate on
  the requested size for the processor and a function that gives unused addresses for the blocks of a stack.  Theorems that depend on them state what they use as hypotheses.

  \<^bold>\<open>Not modelled.\<close>  The generated tables themselves, the ARM decoders, text output, the SSE, AVX and cryptographic handlers, the x87 handlers (which rest on a floating point library),
  processor contexts, the code analyzer of \<^verbatim>\<open>diana_analyze.c\<close>, PE and ELF parsing, patching, and the tools built on the library.  Where the C code of the emulator has undefined behaviour in signed arithmetic (the overflow of
  the 64-bit product in imul, the negation of the least signed value in imul and idiv on 64 bits, the quotient of the least signed value by -1), the model gives the two's complement result.
\<close>

section \<open>Comparison and branch\<close>

text \<open>The next instruction, as the decoder leaves it in the processor.\<close>

definition next_decoded :: "DianaParserResult \<Rightarrow> 'm DianaProcessor \<Rightarrow> 'm DianaProcessor" where
  "next_decoded res p = p\<lparr>m_result := res, m_context := (m_context p)\<lparr>iCurrentCmd_opsize := 8\<rparr>\<rparr>"

lemma next_decoded_GET_REG [simp]: "GET_REG r (next_decoded res p) = GET_REG r p"
  by (rule GET_REG_cong) (simp_all add: next_decoded_def)

lemma next_decoded_flags: "DianaProcessor_QueryFlag (next_decoded res p) f = DianaProcessor_QueryFlag p f"
  by (simp add: next_decoded_def DianaProcessor_QueryFlag_def)

lemma next_decoded_conditions [simp]:
  "cond_a (next_decoded res p) = cond_a p" "cond_ae (next_decoded res p) = cond_ae p" "cond_b (next_decoded res p) = cond_b p"
  "cond_be (next_decoded res p) = cond_be p" "cond_e (next_decoded res p) = cond_e p" "cond_ne (next_decoded res p) = cond_ne p"
  "cond_g (next_decoded res p) = cond_g p" "cond_ge (next_decoded res p) = cond_ge p" "cond_l (next_decoded res p) = cond_l p"
  "cond_le (next_decoded res p) = cond_le p"
  by (simp_all add: cond_a_def cond_ae_def cond_b_def cond_be_def cond_e_def cond_ne_def cond_g_def cond_ge_def cond_l_def cond_le_def
      next_decoded_flags)

text \<open>
  C12: in 64-bit mode a comparison followed by a conditional jump with a relative target branches on the order of the compared values: jb, jbe, ja and jae on the unsigned order, jl, jle, jg and jge on the
  signed one, je and jne on equality.  The jump moves RIP by the displacement past the jump instruction when the order holds and is a no-op otherwise.
\<close>

theorem compare_and_branch:
  assumes "stream_attached MemoryRandomStream_Read MemoryRandomStream_Write buffer_ok p" "alu_ready buffer_mapped p n m"
    "iMainMode_addressSize (m_context p) = 8" "iLinkedOpCount res = 1" "op_value (linkedOperands res 0) = diana_rel t"
  shows "\<exists>a b q. operands p n m a b \<and> Diana_Call_cmp p = Ok () q \<and>
    (\<forall>(h, taken) \<in> set [(Diana_Call_jb, a < b), (Diana_Call_jbe, a \<le> b), (Diana_Call_ja, b < a), (Diana_Call_jae, b \<le> a),
        (Diana_Call_jl, sval n a < sval n b), (Diana_Call_jle, sval n a \<le> sval n b), (Diana_Call_jg, sval n b < sval n a),
        (Diana_Call_jge, sval n b \<le> sval n a), (Diana_Call_je, a = b), (Diana_Call_jne, a \<noteq> b)].
      if taken then \<exists>p'. h (next_decoded res q) = Ok () p' \<and>
        GET_REG reg_RIP p' = GET_REG reg_RIP p + m_value t + word_of_int (iFullCmdSize res) \<and> (\<forall>r \<in> gpr64. GET_REG r p' = GET_REG r p)
      else h (next_decoded res q) = Ok () (next_decoded res q))"
proof -
  obtain a b q where x: "operands p n m a b" "Diana_Call_cmp p = Ok () q" "same_but_flags p q"
    "arith_flags n (a - b) (carry_sub a b 0) (overflow_flag n (sval n a - sval n b)) (half_carry_sub a b 0) p q"
    using buf.cmp_Ok [OF assms(1,2)] by metis
  note dest = alu_destD [OF alu_readyD(1) [OF assms(2)]]
  have fit: "valid_size n" "fits n a" "fits n b"
    using x(1) dest(4) by (simp_all add: operands_def)
  note order = conditions_compared [OF fit arith_flags_compared [OF x(4)]]
  let ?j = "next_decoded res q"
  obtain f where f: "q = p\<lparr>m_flags := f\<rparr>" by (rule same_but_flagsE [OF x(3)])
  have R: "GET_REG r q = GET_REG r p" for r by (rule GET_REG_cong) (simp_all add: f)
  have "std_regs ?j" "opcount ?j = 1" "op_value (linked ?j 0) = diana_rel t" "opsize ?j = 8" "iMainMode_addressSize (m_context ?j) = 8"
    using assms(3-5) dest(1) by (simp_all add: next_decoded_def f std_regs_def)
  then obtain p' where p': "Diana_Call_jcc 1 0 ?j = Ok () p'" "GET_REG reg_RIP p' = GET_REG reg_RIP p + m_value t + word_of_int (iFullCmdSize res)"
    "\<And>r. r \<in> gpr64 \<Longrightarrow> GET_REG r p' = GET_REG r p"
    by (rule jcc_relative) (simp add: R, simp add: next_decoded_def)
  have jump: "if T then \<exists>p'. h ?j = Ok () p' \<and> GET_REG reg_RIP p' = GET_REG reg_RIP p + m_value t + word_of_int (iFullCmdSize res) \<and>
      (\<forall>r \<in> gpr64. GET_REG r p' = GET_REG r p) else h ?j = Ok () ?j" if "(h, c) \<in> set conditional_jumps" "c ?j = T" for h c T
    using conditional_jump_eq [OF that(1), of ?j] that(2) p' by auto
  show ?thesis
    by (rule exI [of _ a], rule exI [of _ b], rule exI [of _ q], simp only: list.set ball_simps prod.case simp_thms)
       (intro conjI x(1,2) jump [of Diana_Call_jb cond_b] jump [of Diana_Call_jbe cond_be] jump [of Diana_Call_ja cond_a] jump [of Diana_Call_jae cond_ae]
         jump [of Diana_Call_jl cond_l] jump [of Diana_Call_jle cond_le] jump [of Diana_Call_jg cond_g] jump [of Diana_Call_jge cond_ge]
         jump [of Diana_Call_je cond_e] jump [of Diana_Call_jne cond_ne]; (simp only: order next_decoded_conditions | simp add: conditional_jumps_def))
qed

theorem compare_and_branch_witness:
  "\<exists>q p'. Diana_Call_cmp (decoded ''cmp'' [reg_op reg_RAX 8, reg_op reg_RCX 8] 8 sample_loaded) = Ok () q \<and>
     Diana_Call_jg (next_decoded (m_result (decoded ''jg'' [rel_op 0x20] 8 sample_loaded)) q) = Ok () p' \<and>
     GET_REG reg_RIP p' = GET_REG reg_RIP sample_loaded + 0x20 + 3"
proof -
  let ?p = "decoded ''cmp'' [reg_op reg_RAX 8, reg_op reg_RCX 8] 8 sample_loaded" and ?res = "m_result (decoded ''jg'' [rel_op 0x20] 8 sample_loaded)"
  have h: "stream_attached MemoryRandomStream_Read MemoryRandomStream_Write buffer_ok ?p" "iMainMode_addressSize (m_context ?p) = 8"
    "iLinkedOpCount ?res = 1" "op_value (linkedOperands ?res 0) = diana_rel \<lparr>m_rel_size = 4, m_value = 0x20\<rparr>"
    by (simp_all add: rel_op_def Diana_InitContext_def)
  obtain a b q where q: "operands ?p 8 8 a b" "Diana_Call_cmp ?p = Ok () q"
    "sval 8 b < sval 8 a \<longrightarrow> (\<exists>p'. Diana_Call_jg (next_decoded ?res q) = Ok () p' \<and> GET_REG reg_RIP p' = GET_REG reg_RIP ?p + 0x20 + word_of_int (iFullCmdSize ?res))"
    using compare_and_branch [OF h(1) sample_ready h(2-4)] by (auto split: if_splits)
  have "a = 7" "b = 5" using loaded_operands [OF q(1)] by auto
  with q show ?thesis by (auto simp: sval_def)
qed

end
